(* ===== verification/Prelude.thy ===== *)
theory Prelude
  imports Main
begin

text \<open>
  Shared vocabulary of the development: the result type of a fallible controller step
  with its sequencing operators, SQL's three-valued check constraints, and the row-list
  primitives that the SQLAlchemy statements of the controller (select, update ... where
  ... returning, insert, delete) are translated to.
  The collection \<open>result_simps\<close> decomposes a successful run of a step into the success
  of each of its parts.
\<close>

named_theorems result_simps
named_theorems table_simps

type_synonym ident = string
type_synonym time = int

text \<open>A Python string as the list of its code points.\<close>

type_synonym codepoints = "nat list"

subsection \<open>Failures and results\<close>

text \<open>\<open>runtime/contracts/operation_failure.py\<close>, in the order of the source.\<close>

datatype failure_code =
    INVALID_REQUEST_SHAPE | LOCAL_ADMISSION_DENIED | AUTHENTICATION_FAILED | SCOPE_MISMATCH
  | ILLEGAL_CALLER | ILLEGAL_TARGET_RELATION | ILLEGAL_STATE | STALE_DISPATCH
  | STALE_TEAM_REVISION | STALE_ASSIGNMENT | NAME_COLLISION | MISSING_RESOURCE
  | CONFLICTING_CONTINUATION | CURSOR_RESET_REQUIRED | BOUNDARY_PRECONDITION_FAILED
  | CAPABILITY_REJECTED | CONFLICT | INVALID_TASK_PATH | INVALID_TASK_ROOT
  | BUDGET_EXHAUSTED | INTERNAL_ERROR

text \<open>
  The exceptions a controller step can end in. \<open>RuntimeOperationError\<close> carries its code,
  its summary and its retryable flag.
\<close>

datatype failure =
    RuntimeOperationError failure_code string bool
  | IntegrityError string
  | RuntimeError string
  | ValueError string
  | OSError string
  | ProviderResolutionError string
  | AttemptDispatchConflictError string
  | TaskDispatchControlConflictError string
  | TaskEventStreamIntegrityError string
  | TypeError string
  | KeyError string
  | AssertionError string

type_synonym 'a result = "failure + 'a"

text \<open>The error constructors of \<open>runtime/errors.py\<close> the modelled operations raise.\<close>

definition illegal_caller_error :: "string \<Rightarrow> failure" where
  "illegal_caller_error s = RuntimeOperationError ILLEGAL_CALLER s False"

definition illegal_state_error :: "string \<Rightarrow> failure" where
  "illegal_state_error s = RuntimeOperationError ILLEGAL_STATE s False"

definition stale_assignment_error :: "string \<Rightarrow> failure" where
  "stale_assignment_error s = RuntimeOperationError STALE_ASSIGNMENT s True"

definition stale_dispatch_error :: "string \<Rightarrow> failure" where
  "stale_dispatch_error s = RuntimeOperationError STALE_DISPATCH s False"

definition budget_exhausted_error :: "string \<Rightarrow> failure" where
  "budget_exhausted_error s = RuntimeOperationError BUDGET_EXHAUSTED s False"

definition missing_resource_error :: "string \<Rightarrow> failure" where
  "missing_resource_error s = RuntimeOperationError MISSING_RESOURCE s False"

definition stale_team_revision_error :: "string \<Rightarrow> failure" where
  "stale_team_revision_error s = RuntimeOperationError STALE_TEAM_REVISION s True"

definition invalid_request_shape_error :: "string \<Rightarrow> failure" where
  "invalid_request_shape_error s = RuntimeOperationError INVALID_REQUEST_SHAPE s False"

text \<open>The local \<open>_conflict\<close> helpers: a CONFLICT with a summary, not retryable.\<close>

definition conflict_error :: "string \<Rightarrow> failure" where
  "conflict_error s = RuntimeOperationError CONFLICT s False"

lemmas failure_defs = illegal_caller_error_def illegal_state_error_def
  stale_assignment_error_def stale_dispatch_error_def budget_exhausted_error_def
  conflict_error_def missing_resource_error_def stale_team_revision_error_def
  invalid_request_shape_error_def

fun and_then :: "'e + 'a \<Rightarrow> ('a \<Rightarrow> 'e + 'b) \<Rightarrow> 'e + 'b" where
  "and_then (Inl e) k = Inl e"
| "and_then (Inr x) k = k x"

definition require :: "'e \<Rightarrow> 'a option \<Rightarrow> 'e + 'a" where
  "require e r = (case r of None \<Rightarrow> Inl e | Some x \<Rightarrow> Inr x)"

definition require_that :: "'e \<Rightarrow> bool \<Rightarrow> 'e + unit" where
  "require_that e b = (if b then Inr () else Inl e)"

lemma and_then_Inr_iff [result_simps]:
  "(and_then m k = Inr y) \<longleftrightarrow> (\<exists>x. m = Inr x \<and> k x = Inr y)"
  by (cases m) auto

lemma and_then_InrE:
  assumes "and_then m k = Inr y"
  obtains x where "m = Inr x" "k x = Inr y"
  using assms by (cases m) auto

lemma and_then_Inl_iff:
  "(and_then m k = Inl e) \<longleftrightarrow> m = Inl e \<or> (\<exists>x. m = Inr x \<and> k x = Inl e)"
  by (cases m) auto

lemma require_Inr_iff [result_simps]: "(require e r = Inr x) \<longleftrightarrow> r = Some x"
  by (auto simp: require_def split: option.splits)

lemma require_simps [simp]: "require e None = Inl e" "require e (Some x) = Inr x"
  by (simp_all add: require_def)

lemma require_that_Inr_iff [result_simps]: "(require_that e b = Inr u) \<longleftrightarrow> b"
  by (auto simp: require_that_def)

lemma require_that_simps [simp]:
  "require_that e True = Inr ()" "require_that e False = Inl e"
  by (simp_all add: require_that_def)

text \<open>A step mapped over a list, stopping at the first failure, as a Python loop would.\<close>

fun map_result :: "('a \<Rightarrow> 'e + 'b) \<Rightarrow> 'a list \<Rightarrow> 'e + 'b list" where
  "map_result f [] = Inr []"
| "map_result f (x # xs) =
     and_then (f x) (\<lambda>y. and_then (map_result f xs) (\<lambda>ys. Inr (y # ys)))"

fun fold_result :: "('a \<Rightarrow> 's \<Rightarrow> 'e + 's) \<Rightarrow> 'a list \<Rightarrow> 's \<Rightarrow> 'e + 's" where
  "fold_result f [] s = Inr s"
| "fold_result f (x # xs) s = and_then (f x s) (fold_result f xs)"

lemma map_result_Inr_length: "map_result f xs = Inr ys \<Longrightarrow> length ys = length xs"
  by (induction xs arbitrary: ys) (auto simp: result_simps)

lemma map_result_Inr_nth:
  "map_result f xs = Inr ys \<Longrightarrow> i < length xs \<Longrightarrow> f (xs ! i) = Inr (ys ! i)"
  by (induction xs arbitrary: ys i) (auto simp: result_simps nth_Cons split: nat.splits)

lemma map_result_Inr_set:
  "map_result f xs = Inr ys \<Longrightarrow> y \<in> set ys \<Longrightarrow> \<exists>x \<in> set xs. f x = Inr y"
  by (induction xs arbitrary: ys) (auto simp: result_simps)

lemma map_result_Inr_map:
  assumes "map_result f xs = Inr ys" and "\<And>x y. x \<in> set xs \<Longrightarrow> f x = Inr y \<Longrightarrow> g y = h x"
  shows "map g ys = map h xs"
  using assms by (induction xs arbitrary: ys) (auto simp: result_simps)

lemma fold_result_append:
  "fold_result f (xs @ ys) s = and_then (fold_result f xs s) (fold_result f ys)"
proof (induction xs arbitrary: s)
  case (Cons x xs)
  then show ?case by (cases "f x s") simp_all
qed simp

lemma fold_result_invariant:
  assumes "fold_result f xs s = Inr t" and "P s"
    and "\<And>x s t. x \<in> set xs \<Longrightarrow> P s \<Longrightarrow> f x s = Inr t \<Longrightarrow> P t"
  shows "P t"
  using assms
proof (induction xs arbitrary: s)
  case (Cons x xs)
  then show ?case by (auto simp: result_simps)
qed simp

subsection \<open>SQL check constraints\<close>

text \<open>
  A SQL condition over nullable columns has three values; \<open>None\<close> is SQL's NULL. A CHECK
  constraint rejects a row only when its condition is false, so NULL passes.
\<close>

type_synonym sql_bool = "bool option"

fun sql_and :: "sql_bool \<Rightarrow> sql_bool \<Rightarrow> sql_bool" where
  "sql_and (Some False) q = Some False"
| "sql_and p (Some False) = Some False"
| "sql_and (Some True) q = q"
| "sql_and None q = None"

fun sql_or :: "sql_bool \<Rightarrow> sql_bool \<Rightarrow> sql_bool" where
  "sql_or (Some True) q = Some True"
| "sql_or p (Some True) = Some True"
| "sql_or (Some False) q = q"
| "sql_or None q = None"

definition sql_eq :: "'a option \<Rightarrow> 'a option \<Rightarrow> sql_bool" where
  "sql_eq x y = (case (x, y) of (Some a, Some b) \<Rightarrow> Some (a = b) | _ \<Rightarrow> None)"

definition sql_in :: "'a option \<Rightarrow> 'a list \<Rightarrow> sql_bool" where
  "sql_in x ys = map_option (\<lambda>a. a \<in> set ys) x"

definition check_passes :: "sql_bool \<Rightarrow> bool" where
  "check_passes c \<longleftrightarrow> c \<noteq> Some False"

lemma check_passes_simps [simp]:
  "check_passes (Some b) = b" "check_passes None"
  by (simp_all add: check_passes_def)

subsection \<open>Tables as row lists\<close>

text \<open>
  \<open>update(M).where(p).values(f).returning(...)\<close>: every row that satisfies \<open>p\<close> is
  rewritten by \<open>f\<close>; no matching row is \<open>None\<close>, the case the code tests for.
\<close>

definition update_where :: "('r \<Rightarrow> bool) \<Rightarrow> ('r \<Rightarrow> 'r) \<Rightarrow> 'r list \<Rightarrow> 'r list option" where
  "update_where p f rs =
     (if list_ex p rs then Some (map (\<lambda>r. if p r then f r else r) rs) else None)"

text \<open>\<open>insert\<close> under a primary key: a duplicate key is the database's IntegrityError.\<close>

definition insert_row :: "('r \<Rightarrow> 'k) \<Rightarrow> 'r \<Rightarrow> 'r list \<Rightarrow> 'r list result" where
  "insert_row key r rs =
     (if list_ex (\<lambda>x. key x = key r) rs then Inl (IntegrityError ''primary key'')
      else Inr (rs @ [r]))"

definition delete_where :: "('r \<Rightarrow> bool) \<Rightarrow> 'r list \<Rightarrow> 'r list option" where
  "delete_where p rs = (if list_ex p rs then Some (filter (\<lambda>r. \<not> p r) rs) else None)"

text \<open>An update under the CHECK constraints of its table.\<close>

definition update_checked ::
    "('r \<Rightarrow> bool) \<Rightarrow> ('r \<Rightarrow> bool) \<Rightarrow> ('r \<Rightarrow> 'r) \<Rightarrow> 'r list \<Rightarrow> 'r list option result" where
  "update_checked ck p f rs =
     (if list_ex (\<lambda>r. p r \<and> \<not> ck (f r)) rs then Inl (IntegrityError ''check'')
      else Inr (update_where p f rs))"

definition keyed :: "('r \<Rightarrow> 'k) \<Rightarrow> 'r list \<Rightarrow> bool" where
  "keyed key rs \<longleftrightarrow> distinct (map key rs)"

lemma update_where_Some_iff [table_simps]:
  "(update_where p f rs = Some rs') \<longleftrightarrow>
     (\<exists>r \<in> set rs. p r) \<and> rs' = map (\<lambda>r. if p r then f r else r) rs"
  by (auto simp: update_where_def list_ex_iff)

lemma update_where_None_iff [table_simps]:
  "(update_where p f rs = None) \<longleftrightarrow> (\<forall>r \<in> set rs. \<not> p r)"
  by (auto simp: update_where_def list_ex_iff)

lemma delete_where_Some_iff [table_simps]:
  "(delete_where p rs = Some rs') \<longleftrightarrow>
     (\<exists>r \<in> set rs. p r) \<and> rs' = filter (\<lambda>r. \<not> p r) rs"
  by (auto simp: delete_where_def list_ex_iff)

lemma insert_row_Inr_iff [table_simps]:
  "(insert_row key r rs = Inr rs') \<longleftrightarrow> key r \<notin> key ` set rs \<and> rs' = rs @ [r]"
  unfolding insert_row_def list_ex_iff image_iff by (metis Inl_Inr_False Inr_inject)

lemma update_checked_Inr_iff [table_simps]:
  "update_checked ck p f rs = Inr x \<longleftrightarrow>
     (\<forall>r \<in> set rs. p r \<longrightarrow> ck (f r)) \<and> x = update_where p f rs"
  by (auto simp: update_checked_def list_ex_iff)

lemma find_Some_D:
  "find p rs = Some r \<Longrightarrow> r \<in> set rs \<and> p r"
  by (auto simp: find_Some_iff)

lemma find_None_D: "find p rs = None \<Longrightarrow> r \<in> set rs \<Longrightarrow> \<not> p r"
  by (auto simp: find_None_iff)

lemma keyed_unique: "keyed key rs \<Longrightarrow> r \<in> set rs \<Longrightarrow> s \<in> set rs \<Longrightarrow> key r = key s \<Longrightarrow> r = s"
  by (auto simp: keyed_def distinct_map inj_on_def)

lemma keyed_update:
  assumes "keyed key rs" and "\<And>r. r \<in> set rs \<Longrightarrow> key (f r) = key r"
  shows "keyed key (map (\<lambda>r. if p r then f r else r) rs)"
proof -
  have "map key (map (\<lambda>r. if p r then f r else r) rs) = map key rs"
    using assms(2) by (induction rs) auto
  with assms(1) show ?thesis unfolding keyed_def by metis
qed

lemma keys_update:
  assumes "\<And>r. key (f r) = key r"
  shows "key ` set (map (\<lambda>r. if p r then f r else r) rs) = key ` set rs"
  using assms by (induction rs) auto

lemma keyed_insert: "keyed key rs \<Longrightarrow> key r \<notin> key ` set rs \<Longrightarrow> keyed key (rs @ [r])"
  by (auto simp: keyed_def)

lemma keyed_filter: "keyed key rs \<Longrightarrow> keyed key (filter p rs)"
  by (auto simp: keyed_def distinct_map intro: inj_on_subset)

lemma keyed_Nil [simp]: "keyed key []"
  by (simp add: keyed_def)

subsection \<open>Unique columns\<close>

text \<open>
  A UNIQUE constraint over nullable columns: NULL never clashes. \<open>insert_checked\<close> is an
  insert under a CHECK constraint, the unique columns of the table and its primary key.
\<close>

definition unique_column :: "('r \<Rightarrow> 'k option) \<Rightarrow> 'r \<Rightarrow> 'r list \<Rightarrow> bool" where
  "unique_column col r rs \<longleftrightarrow> col r = None \<or> \<not> list_ex (\<lambda>x. col x = col r) rs"

definition insert_checked ::
    "('r \<Rightarrow> bool) \<Rightarrow> ('r \<Rightarrow> 'k option) list \<Rightarrow> ('r \<Rightarrow> 'p) \<Rightarrow> 'r \<Rightarrow> 'r list \<Rightarrow> 'r list result" where
  "insert_checked ck cols key r rs =
     and_then (require_that (IntegrityError ''check'') (ck r)) (\<lambda>_.
     and_then (require_that (IntegrityError ''unique'') (list_all (\<lambda>c. unique_column c r rs) cols)) (\<lambda>_.
       insert_row key r rs))"

lemma insert_checked_Inr_iff [table_simps]:
  "insert_checked ck cols key r rs = Inr rs' \<longleftrightarrow>
     ck r \<and> (\<forall>c \<in> set cols. unique_column c r rs) \<and> key r \<notin> key ` set rs \<and> rs' = rs @ [r]"
  by (auto simp: insert_checked_def result_simps insert_row_Inr_iff list_all_iff)

subsection \<open>Row-wise constraints\<close>

text \<open>A row-wise constraint survives an update that keeps it on the rows it rewrites.\<close>

lemma ball_update:
  assumes "\<forall>r \<in> set rs. Q r" and "\<And>r. r \<in> set rs \<Longrightarrow> p r \<Longrightarrow> Q r \<Longrightarrow> Q (f r)"
  shows "\<forall>r \<in> set (map (\<lambda>r. if p r then f r else r) rs). Q r"
  using assms by auto


subsection \<open>Replacing one row\<close>

text \<open>
  Under a key, a conditional update whose condition fixes the key rewrites exactly one row.
\<close>

definition replace_row :: "'r \<Rightarrow> 'r \<Rightarrow> 'r list \<Rightarrow> 'r list" where
  "replace_row a b rs = map (\<lambda>r. if r = a then b else r) rs"

lemma set_replace_row:
  "a \<in> set rs \<Longrightarrow> set (replace_row a b rs) = insert b (set rs - {a})"
  by (auto simp: replace_row_def)

lemma length_replace_row [simp]: "length (replace_row a b rs) = length rs"
  by (simp add: replace_row_def)

lemma keyed_replace_row:
  assumes "keyed key rs" and "key b = key a"
  shows "keyed key (replace_row a b rs)"
proof -
  have "map key (replace_row a b rs) = map key rs"
    using assms(2) by (simp add: replace_row_def)
  with assms(1) show ?thesis unfolding keyed_def by metis
qed

lemma update_unique_iff:
  assumes "keyed key rs" and "\<forall>r. p r \<longrightarrow> key r = k"
  shows "update_where p f rs = Some rs' \<longleftrightarrow>
    (\<exists>a \<in> set rs. p a \<and> rs' = replace_row a (f a) rs)"
proof -
  have "map (\<lambda>r. if p r then f r else r) rs = replace_row a (f a) rs" if "a \<in> set rs" "p a" for a
    unfolding replace_row_def
    using that assms by (auto dest: keyed_unique [OF assms(1)])
  then show ?thesis by (auto simp: update_where_Some_iff)
qed

lemma delete_unique_iff:
  assumes "keyed key rs" and "\<forall>r. p r \<longrightarrow> key r = k"
  shows "delete_where p rs = Some rs' \<longleftrightarrow> (\<exists>a \<in> set rs. p a \<and> rs' = filter (\<lambda>r. r \<noteq> a) rs)"
proof -
  have "filter (\<lambda>r. \<not> p r) rs = filter (\<lambda>r. r \<noteq> a) rs" if "a \<in> set rs" "p a" for a
    using that assms by (intro filter_cong) (auto dest: keyed_unique [OF assms(1)])
  then show ?thesis by (auto simp: delete_where_Some_iff)
qed

lemma find_unique_iff:
  assumes "keyed key rs" and "\<forall>r. p r \<longrightarrow> key r = k"
  shows "find p rs = Some a \<longleftrightarrow> a \<in> set rs \<and> p a"
proof
  assume "a \<in> set rs \<and> p a"
  then obtain b where b: "find p rs = Some b"
    by (cases "find p rs") (auto simp: find_None_iff)
  with \<open>a \<in> set rs \<and> p a\<close> assms have "b = a"
    by (metis find_Some_D keyed_unique)
  with b show "find p rs = Some a" by simp
qed (rule find_Some_D)

end
