(* ===== verification/Schema.thy ===== *)
theory Schema
  imports Prelude
begin

text \<open>
  The controller's relational record model (\<open>persistence/models/runtime/\<close>): one record per
  table row, one datatype per enumerated column, the CHECK constraints of each table as a
  boolean function over a row, and the record \<open>db\<close> of all modelled tables. Nullable
  columns are options; identifiers are strings; times are integers.
  Relationship attributes (\<open>lazy="raise"\<close>, \<open>viewonly\<close>) carry no state and are absent.
\<close>

subsection \<open>Enumerated columns (\<open>common.py\<close>)\<close>

datatype task_status = TaskRunning | TaskPaused | TaskCompleted | TaskCancelled

datatype attempt_status = AttPending | AttRunning | AttCompleted | AttCancelled

datatype dispatch_status = Starting | Open | Closed

datatype outcome = Green | Retry | Blocked

datatype opened_reason =
    ORoot | ODelegation | ODelegationWave | OHumanResult | OCommandResult
  | OWatchdogRecovery | OSemanticRetry | OOperatorContinue | OStructuralReplan

datatype closed_reason =
    CBoundary | CDelegation | CHumanRequestWait | CCommandRunWait | CWatchdogSuperseded
  | CPaused | CCancelled | CControlFailed | CTaskTerminal | CStructuralReplan

definition starting_close_reasons :: "closed_reason list" where
  "starting_close_reasons =
     [CBoundary, CDelegation, CHumanRequestWait, CCommandRunWait, CPaused, CCancelled,
      CControlFailed, CTaskTerminal, CStructuralReplan]"

datatype retry_kind = RInitial | RDefiniteFailure | RUncertainAcceptance

datatype wave_status = WaveOpen | WaveSettled | WaveCancelled

datatype wave_member_status = MemberPending | MemberSettled | MemberCancelled

datatype human_status = HumanOpen | HumanResolved | HumanTimedOut | HumanCancelled

datatype human_resolution = Answered | TimedOut | ResolutionCancelled

datatype human_kind = KDirection | KApproval | KInput | KReview

datatype human_surface = SurfaceControlApi | SurfaceControlUi | SurfaceOperator | SurfaceController

datatype terminal_source = TermController | TermControlApi | TermOperator | TermProcessOwner

datatype command_state =
    PendingStart | CmdRunning | CancellationRequested | CmdSucceeded | CmdFailed
  | CmdTimedOut | CmdCancelled | CmdAbandoned

definition command_terminal_states :: "command_state list" where
  "command_terminal_states =
     [CmdSucceeded, CmdFailed, CmdTimedOut, CmdCancelled, CmdAbandoned]"

datatype event_source = SrcController | SrcControlApi | SrcOperator | SrcNode

datatype event_type =
    TASK_STARTED | DISPATCH_OPENED | DISPATCH_START_UPDATED | WORK_PLAN_SET
  | WORK_PLAN_CLEARED | CHECKPOINT_RECORDED | BOUNDARY_ACCEPTED
  | STRUCTURAL_REVISION_ADOPTED | HUMAN_REQUEST_OPENED | HUMAN_REQUEST_RESOLVED
  | HUMAN_REQUEST_TIMED_OUT | HUMAN_REQUEST_CANCELLED | COMMAND_RUN_OPENED
  | COMMAND_RUN_STARTED | COMMAND_RUN_PROGRESSED | COMMAND_RUN_CANCEL_REQUESTED
  | COMMAND_RUN_SUCCEEDED | COMMAND_RUN_FAILED | COMMAND_RUN_TIMED_OUT
  | COMMAND_RUN_CANCELLED | COMMAND_RUN_ABANDONED | TASK_PAUSED | TASK_RESUMED
  | TASK_CANCELLED | MEMBER_STEERED

datatype provider_kind = ProvCodex | ProvClaude | ProvOpenclaw

text \<open>\<open>ProviderKind(text)\<close>; a text that is none of them is \<open>None\<close>.\<close>

definition provider_kind_of :: "string \<Rightarrow> provider_kind option" where
  "provider_kind_of s =
     (if s = ''codex'' then Some ProvCodex else if s = ''claude'' then Some ProvClaude
      else if s = ''openclaw'' then Some ProvOpenclaw else None)"

text \<open>The column texts of the enumerations that occur in event payloads.\<close>

fun task_status_value :: "task_status \<Rightarrow> string" where
  "task_status_value TaskRunning = ''running''"
| "task_status_value TaskPaused = ''paused''"
| "task_status_value TaskCompleted = ''completed''"
| "task_status_value TaskCancelled = ''cancelled''"

fun outcome_value :: "outcome \<Rightarrow> string" where
  "outcome_value Green = ''green''"
| "outcome_value Retry = ''retry''"
| "outcome_value Blocked = ''blocked''"

fun opened_reason_value :: "opened_reason \<Rightarrow> string" where
  "opened_reason_value ORoot = ''root''"
| "opened_reason_value ODelegation = ''delegation''"
| "opened_reason_value ODelegationWave = ''delegation_wave''"
| "opened_reason_value OHumanResult = ''human_result''"
| "opened_reason_value OCommandResult = ''command_result''"
| "opened_reason_value OWatchdogRecovery = ''watchdog_recovery''"
| "opened_reason_value OSemanticRetry = ''semantic_retry''"
| "opened_reason_value OOperatorContinue = ''operator_continue''"
| "opened_reason_value OStructuralReplan = ''structural_replan''"

fun human_status_value :: "human_status \<Rightarrow> string" where
  "human_status_value HumanOpen = ''open''"
| "human_status_value HumanResolved = ''resolved''"
| "human_status_value HumanTimedOut = ''timed_out''"
| "human_status_value HumanCancelled = ''cancelled''"

fun human_resolution_value :: "human_resolution \<Rightarrow> string" where
  "human_resolution_value Answered = ''answered''"
| "human_resolution_value TimedOut = ''timed_out''"
| "human_resolution_value ResolutionCancelled = ''cancelled''"

fun human_kind_value :: "human_kind \<Rightarrow> string" where
  "human_kind_value KDirection = ''direction''"
| "human_kind_value KApproval = ''approval''"
| "human_kind_value KInput = ''input''"
| "human_kind_value KReview = ''review''"

fun human_surface_value :: "human_surface \<Rightarrow> string" where
  "human_surface_value SurfaceControlApi = ''control_api''"
| "human_surface_value SurfaceControlUi = ''control_ui''"
| "human_surface_value SurfaceOperator = ''operator''"
| "human_surface_value SurfaceController = ''controller''"

fun command_state_value :: "command_state \<Rightarrow> string" where
  "command_state_value PendingStart = ''pending_start''"
| "command_state_value CmdRunning = ''running''"
| "command_state_value CancellationRequested = ''cancellation_requested''"
| "command_state_value CmdSucceeded = ''succeeded''"
| "command_state_value CmdFailed = ''failed''"
| "command_state_value CmdTimedOut = ''timed_out''"
| "command_state_value CmdCancelled = ''cancelled''"
| "command_state_value CmdAbandoned = ''abandoned''"

text \<open>
  JSON values over a type of texts: the event payloads write \<open>string\<close>, the JSON columns that
  hold authored text write code points. Numbers are integers.
\<close>

datatype 's json_value =
    JNull | JBool bool | JInt int | JStr 's | JArr "'s json_value list"
  | JObj "('s \<times> 's json_value) list"

type_synonym json = "string json_value"
type_synonym document = "codepoints json_value"

fun json_opt :: "string option \<Rightarrow> json" where
  "json_opt None = JNull"
| "json_opt (Some s) = JStr s"

fun json_time :: "time option \<Rightarrow> json" where
  "json_time None = JNull"
| "json_time (Some t) = JInt t"

subsection \<open>Task, Assignment and Attempt\<close>

record task_row =
  tk_task_id :: ident
  tk_workflow :: "ident \<times> int \<times> string"
  tk_status :: task_status
  tk_terminal_outcome :: "outcome option"
  tk_control_revision :: int
  tk_pause_reason :: "string option"
  tk_pause_details :: "(string \<times> json) list option"
  tk_paused_at :: "time option"
  tk_paused_by_actor_ref :: "string option"
  tk_root_assignment_id :: "ident option"
  tk_current_team_revision_id :: "ident option"
  tk_result_boundary_id :: "ident option"
  tk_max_child_assignments :: int
  tk_max_retries :: int
  tk_max_wave_members :: int
  tk_task_root_path :: string
  tk_workspace_root :: "string option"
  tk_created_at :: time
  tk_updated_at :: time

definition ck_task :: "task_row \<Rightarrow> bool" where
  "ck_task t \<longleftrightarrow>
     1 \<le> fst (snd (tk_workflow t)) \<and>
     tk_terminal_outcome t \<in> {None, Some Green, Some Blocked} \<and>
     (tk_status t = TaskCompleted \<and> tk_terminal_outcome t \<noteq> None \<and>
        tk_root_assignment_id t \<noteq> None \<and> tk_result_boundary_id t \<noteq> None \<or>
      tk_status t \<noteq> TaskCompleted \<and> tk_terminal_outcome t = None \<and>
        tk_result_boundary_id t = None) \<and>
     0 \<le> tk_control_revision t \<and>
     (tk_status t = TaskPaused \<and> tk_pause_reason t \<noteq> None \<and> tk_paused_at t \<noteq> None \<or>
      tk_status t \<noteq> TaskPaused \<and> tk_pause_reason t = None \<and> tk_pause_details t = None \<and>
        tk_paused_at t = None \<and> tk_paused_by_actor_ref t = None) \<and>
     0 \<le> tk_max_child_assignments t \<and> 0 \<le> tk_max_retries t \<and> 1 \<le> tk_max_wave_members t"

record assignment_row =
  as_assignment_id :: ident
  as_task_id :: ident
  as_member_id :: ident
  as_parent_assignment_id :: "ident option"
  as_prompt :: string
  as_current_attempt_id :: "ident option"
  as_work_plan_revision :: int
  as_child_assignment_limit :: "int option"
  as_child_assignments_remaining :: "int option"
  as_retry_limit :: "int option"
  as_retries_remaining :: "int option"
  as_created_by_dispatch_id :: "ident option"
  as_created_at :: time
  as_terminal_outcome :: "outcome option"
  as_closed_at :: "time option"

text \<open>
  A limited budget and its remainder: both absent, or both present and ordered. The columns
  are declared not null, but the CHECK and the statements treat NULL as unlimited; both are
  kept.
\<close>

definition ck_budget :: "int option \<Rightarrow> int option \<Rightarrow> bool" where
  "ck_budget limit remaining \<longleftrightarrow>
     (case (limit, remaining) of
        (None, None) \<Rightarrow> True
      | (Some l, Some r) \<Rightarrow> 0 \<le> l \<and> 0 \<le> r \<and> r \<le> l
      | _ \<Rightarrow> False)"

definition ck_assignment :: "assignment_row \<Rightarrow> bool" where
  "ck_assignment a \<longleftrightarrow>
     0 \<le> as_work_plan_revision a \<and>
     ck_budget (as_child_assignment_limit a) (as_child_assignments_remaining a) \<and>
     ck_budget (as_retry_limit a) (as_retries_remaining a) \<and>
     as_terminal_outcome a \<in> {None, Some Green, Some Blocked} \<and>
     (as_terminal_outcome a = None \<longleftrightarrow> as_closed_at a = None)"

record attempt_row =
  at_attempt_id :: ident
  at_assignment_id :: ident
  at_task_id :: ident
  at_retry_of_attempt_id :: "ident option"
  at_latest_checkpoint_id :: "ident option"
  at_current_dispatch_id :: "ident option"
  at_current_wait_id :: "ident option"
  at_watchdog_replacement_count :: int
  at_status :: attempt_status
  at_terminal_outcome :: "outcome option"
  at_opened_at :: time
  at_closed_at :: "time option"

definition ck_attempt :: "attempt_row \<Rightarrow> bool" where
  "ck_attempt a \<longleftrightarrow>
     (at_status a = AttCompleted \<and> at_terminal_outcome a \<noteq> None \<and> at_closed_at a \<noteq> None \<or>
      at_status a = AttCancelled \<and> at_terminal_outcome a = None \<and> at_closed_at a \<noteq> None \<or>
      at_status a \<in> {AttPending, AttRunning} \<and> at_terminal_outcome a = None \<and>
        at_closed_at a = None) \<and>
     (at_current_dispatch_id a = None \<or> at_current_wait_id a = None) \<and>
     (at_status a = AttRunning \<or>
      at_current_dispatch_id a = None \<and> at_current_wait_id a = None) \<and>
     0 \<le> at_watchdog_replacement_count a"

record file_reference =
  fr_path :: string
  fr_description :: "string option"

record assignment_file_row =
  af_assignment_id :: ident
  af_order_index :: nat
  af_file :: file_reference

record checkpoint_row =
  cp_checkpoint_id :: ident
  cp_task_id :: ident
  cp_assignment_id :: ident
  cp_attempt_id :: ident
  cp_authoring_dispatch_id :: ident
  cp_outcome :: "outcome option"
  cp_summary :: string
  cp_details :: "string option"
  cp_recorded_at :: time

record checkpoint_file_row =
  cf_checkpoint_id :: ident
  cf_order_index :: nat
  cf_file :: file_reference

subsection \<open>Dispatch, boundary and Team selection\<close>

text \<open>
  The provider columns a Dispatch pins from its provider resolution
  (\<open>DispatchTurnModel\<close>, \<open>requested_provider\<close> to \<open>gateway_profile_source\<close>).
\<close>

record provider_pins =
  pv_requested_provider :: string
  pv_resolved_provider :: string
  pv_selection_basis :: string
  pv_model_override :: "string option"
  pv_model_source :: "string option"
  pv_effort_override :: "string option"
  pv_effort_source :: "string option"
  pv_requested_extension_mode :: "string option"
  pv_requested_extension_mode_source :: "string option"
  pv_effective_extension_mode :: "string option"
  pv_effective_extension_mode_source :: "string option"

record dispatch_row =
  dt_dispatch_id :: ident
  dt_task_id :: ident
  dt_assignment_id :: ident
  dt_team_revision_id :: ident
  dt_member_id :: ident
  dt_member_configuration_id :: ident
  dt_member_branch_basis_id :: ident
  dt_attempt_id :: ident
  dt_task_start_source_task_id :: "ident option"
  dt_predecessor_dispatch_id :: "ident option"
  dt_status :: dispatch_status
  dt_opened_reason :: opened_reason
  dt_provider :: provider_pins
  dt_provider_start_revision :: int
  dt_provider_start_attempt_count :: int
  dt_next_provider_start_at :: "time option"
  dt_provider_start_retry_kind :: "retry_kind option"
  dt_provider_start_last_error_code :: "string option"
  dt_created_at :: time
  dt_adapter_started_at :: "time option"
  dt_last_node_activity_at :: "time option"
  dt_node_activity_revision :: int
  dt_closed_at :: "time option"
  dt_closed_reason :: "closed_reason option"

text \<open>\<open>status IN ('starting', 'open')\<close>, the generated column \<open>active_status_marker\<close>.\<close>

definition dispatch_is_active :: "dispatch_row \<Rightarrow> bool" where
  "dispatch_is_active d \<longleftrightarrow> dt_status d = Starting \<or> dt_status d = Open"

text \<open>\<open>ck_dispatch_turns_exact_source_shape\<close>, with SQL's NULL for a missing start source.\<close>

definition ck_dispatch_source_shape :: "dispatch_row \<Rightarrow> bool" where
  "ck_dispatch_source_shape d = check_passes
     (sql_or
       (sql_and (Some (dt_predecessor_dispatch_id d = None))
         (sql_and (sql_eq (dt_task_start_source_task_id d) (Some (dt_task_id d)))
           (Some (dt_opened_reason d \<in> {ORoot, OOperatorContinue}))))
       (sql_or
         (Some (dt_predecessor_dispatch_id d = None \<and> dt_task_start_source_task_id d = None \<and>
            dt_opened_reason d \<in> {ODelegation, OSemanticRetry}))
         (Some (dt_predecessor_dispatch_id d \<noteq> None \<and> dt_task_start_source_task_id d = None \<and>
            dt_opened_reason d \<notin> {ORoot, ODelegation, OSemanticRetry}))))"

definition ck_dispatch :: "dispatch_row \<Rightarrow> bool" where
  "ck_dispatch d \<longleftrightarrow>
     ck_dispatch_source_shape d \<and>
     dt_predecessor_dispatch_id d \<noteq> Some (dt_dispatch_id d) \<and>
     0 \<le> dt_provider_start_revision d \<and> 0 \<le> dt_provider_start_attempt_count d \<and>
     0 \<le> dt_node_activity_revision d \<and>
     (dt_status d = Starting \<and> dt_adapter_started_at d = None \<and> dt_closed_at d = None \<and>
        dt_closed_reason d = None \<and> dt_next_provider_start_at d \<noteq> None \<and>
        dt_provider_start_retry_kind d \<noteq> None \<or>
      dt_status d = Open \<and> dt_adapter_started_at d \<noteq> None \<and> dt_closed_at d = None \<and>
        dt_closed_reason d = None \<and> dt_next_provider_start_at d = None \<and>
        dt_provider_start_retry_kind d = None \<and> dt_provider_start_last_error_code d = None \<or>
      dt_status d = Closed \<and> dt_closed_at d \<noteq> None \<and> dt_closed_reason d \<noteq> None \<and>
        dt_next_provider_start_at d = None \<and> dt_provider_start_retry_kind d = None) \<and>
     (dt_closed_reason d \<noteq> Some CWatchdogSuperseded \<or> dt_adapter_started_at d \<noteq> None) \<and>
     check_passes (sql_or (Some (dt_status d \<noteq> Closed \<or> dt_adapter_started_at d \<noteq> None))
       (sql_in (dt_closed_reason d) starting_close_reasons))"

record boundary_row =
  ab_accepted_boundary_id :: ident
  ab_source_dispatch_id :: ident
  ab_task_id :: ident
  ab_assignment_id :: ident
  ab_attempt_id :: ident
  ab_outcome :: outcome
  ab_checkpoint_id :: ident
  ab_successor_attempt_id :: "ident option"
  ab_successor_dispatch_id :: "ident option"
  ab_committed_at :: time

definition ck_boundary :: "boundary_row \<Rightarrow> bool" where
  "ck_boundary b \<longleftrightarrow>
     (ab_outcome b = Retry \<and> ab_successor_attempt_id b \<noteq> None \<and>
        ab_successor_dispatch_id b \<noteq> None \<or>
      ab_outcome b \<noteq> Retry \<and> ab_successor_attempt_id b = None \<and>
        ab_successor_dispatch_id b = None)"

record team_member_row =
  tm_task_id :: ident
  tm_team_revision_id :: ident
  tm_member_id :: ident
  tm_parent_member_id :: "ident option"
  tm_member_configuration_id :: ident
  tm_member_branch_basis_id :: ident
  tm_preorder_index :: int
  tm_sibling_order :: int

subsection \<open>Waits, Delegation Waves, Human Requests and Command Runs\<close>

record wait_row =
  aw_wait_id :: ident
  aw_task_id :: ident
  aw_assignment_id :: ident
  aw_attempt_id :: ident
  aw_source_dispatch_id :: ident
  aw_delegation_wave_id :: "ident option"
  aw_human_request_id :: "ident option"
  aw_command_run_id :: "ident option"
  aw_created_at :: time

definition ck_wait :: "wait_row \<Rightarrow> bool" where
  "ck_wait w \<longleftrightarrow>
     (aw_delegation_wave_id w \<noteq> None \<and> aw_human_request_id w = None \<and> aw_command_run_id w = None) \<or>
     (aw_delegation_wave_id w = None \<and> aw_human_request_id w \<noteq> None \<and> aw_command_run_id w = None) \<or>
     (aw_delegation_wave_id w = None \<and> aw_human_request_id w = None \<and> aw_command_run_id w \<noteq> None)"

record wave_row =
  dw_delegation_wave_id :: ident
  dw_task_id :: ident
  dw_parent_assignment_id :: ident
  dw_parent_attempt_id :: ident
  dw_source_dispatch_id :: ident
  dw_team_revision_id :: ident
  dw_parent_member_id :: ident
  dw_parent_member_configuration_id :: ident
  dw_parent_member_branch_basis_id :: ident
  dw_status :: wave_status
  dw_successor_dispatch_id :: "ident option"
  dw_created_at :: time
  dw_settled_at :: "time option"
  dw_cancelled_at :: "time option"

definition ck_wave :: "wave_row \<Rightarrow> bool" where
  "ck_wave w \<longleftrightarrow>
     (dw_status w = WaveOpen \<and> dw_settled_at w = None \<and> dw_cancelled_at w = None \<and>
        dw_successor_dispatch_id w = None) \<or>
     (dw_status w = WaveSettled \<and> dw_settled_at w \<noteq> None \<and> dw_cancelled_at w = None) \<or>
     (dw_status w = WaveCancelled \<and> dw_cancelled_at w \<noteq> None \<and>
        dw_successor_dispatch_id w = None)"

record wave_member_row =
  dm_delegation_wave_id :: ident
  dm_order_index :: nat
  dm_task_id :: ident
  dm_parent_assignment_id :: ident
  dm_parent_attempt_id :: ident
  dm_source_dispatch_id :: ident
  dm_team_revision_id :: ident
  dm_parent_member_id :: ident
  dm_parent_member_configuration_id :: ident
  dm_parent_member_branch_basis_id :: ident
  dm_child_assignment_id :: ident
  dm_child_member_id :: ident
  dm_child_member_configuration_id :: ident
  dm_child_member_branch_basis_id :: ident
  dm_status :: wave_member_status
  dm_terminal_boundary_id :: "ident option"
  dm_terminal_outcome :: "outcome option"
  dm_settled_at :: "time option"
  dm_cancelled_at :: "time option"

text \<open>\<open>ck_delegation_wave_members_lifecycle\<close>; \<open>terminal_outcome IN (...)\<close> is NULL on NULL.\<close>

definition ck_wave_member :: "wave_member_row \<Rightarrow> bool" where
  "ck_wave_member m = check_passes
     (sql_or
       (Some (dm_status m = MemberPending \<and> dm_terminal_boundary_id m = None \<and>
          dm_terminal_outcome m = None \<and> dm_settled_at m = None \<and> dm_cancelled_at m = None))
       (sql_or
         (sql_and (Some (dm_status m = MemberSettled \<and> dm_terminal_boundary_id m \<noteq> None))
           (sql_and (sql_in (dm_terminal_outcome m) [Green, Blocked])
             (Some (dm_settled_at m \<noteq> None \<and> dm_cancelled_at m = None))))
         (Some (dm_status m = MemberCancelled \<and> dm_terminal_boundary_id m = None \<and>
            dm_terminal_outcome m = None \<and> dm_settled_at m = None \<and>
            dm_cancelled_at m \<noteq> None))))"

record human_request_row =
  hr_request_id :: ident
  hr_task_id :: ident
  hr_assignment_id :: ident
  hr_attempt_id :: ident
  hr_source_dispatch_id :: ident
  hr_request_kind :: human_kind
  hr_request_summary :: string
  hr_request_items :: "document list"
  hr_due_at :: "time option"
  hr_default_behavior :: "codepoints option"
  hr_status :: human_status
  hr_resolution_kind :: "human_resolution option"
  hr_item_responses :: "(codepoints \<times> document) list option"
  hr_resolution_summary :: "string option"
  hr_resolved_by_actor_ref :: "string option"
  hr_resolved_by_surface :: "human_surface option"
  hr_successor_dispatch_id :: "ident option"
  hr_opened_at :: time
  hr_resolved_at :: "time option"

text \<open>
  The CHECK constraints of \<open>human_requests\<close>. The comparison with a NULL \<open>resolution_kind\<close>
  cannot decide a row: \<open>ck_human_requests_terminal_state\<close> rejects it outside \<open>open\<close>.
\<close>

definition ck_human_request :: "human_request_row \<Rightarrow> bool" where
  "ck_human_request h \<longleftrightarrow>
     (hr_default_behavior h = None \<or> hr_due_at h \<noteq> None) \<and>
     (hr_status h \<noteq> HumanTimedOut \<or> hr_due_at h \<noteq> None) \<and>
     (hr_status h = HumanOpen \<and> hr_resolution_kind h = None \<and> hr_item_responses h = None \<and>
        hr_resolution_summary h = None \<and> hr_resolved_by_actor_ref h = None \<and>
        hr_resolved_by_surface h = None \<and> hr_resolved_at h = None \<and>
        hr_successor_dispatch_id h = None \<or>
      hr_status h \<noteq> HumanOpen \<and> hr_resolution_kind h \<noteq> None \<and>
        hr_resolution_summary h \<noteq> None \<and> hr_resolved_by_surface h \<noteq> None \<and>
        hr_resolved_at h \<noteq> None) \<and>
     (hr_status h = HumanResolved \<and> hr_resolution_kind h = Some Answered \<and>
        hr_item_responses h \<noteq> None \<or>
      hr_status h = HumanTimedOut \<and> hr_resolution_kind h = Some TimedOut \<and>
        hr_item_responses h = None \<or>
      hr_status h = HumanCancelled \<and> hr_resolution_kind h = Some ResolutionCancelled \<and>
        hr_item_responses h = None \<or>
      hr_status h = HumanOpen)"

record human_file_row =
  hf_request_id :: ident
  hf_order_index :: nat
  hf_file :: file_reference

text \<open>\<open>CommandSpec\<close>, the tagged union the \<open>command_spec_json\<close> column holds.\<close>

datatype command_spec = CommandArgv "string list" | CommandShell string

record command_run_row =
  cr_run_id :: ident
  cr_task_id :: ident
  cr_assignment_id :: ident
  cr_attempt_id :: ident
  cr_source_dispatch_id :: ident
  cr_command_spec :: command_spec
  cr_cwd :: "string option"
  cr_summary :: string
  cr_timeout_seconds :: "int option"
  cr_due_at :: "time option"
  cr_output_path :: string
  cr_output_observed_bytes :: int
  cr_output_written_bytes :: int
  cr_output_complete :: bool
  cr_state :: command_state
  cr_ownership_revision :: int
  cr_process_metadata :: "json option"
  cr_cancellation_requested_at :: "time option"
  cr_cancellation_requested_by :: "string option"
  cr_terminal_summary :: "string option"
  cr_terminal_exit_code :: "int option"
  cr_terminal_failure_code :: "string option"
  cr_terminal_event_source :: "terminal_source option"
  cr_terminal_actor_ref :: "string option"
  cr_successor_dispatch_id :: "ident option"
  cr_created_at :: time
  cr_started_at :: "time option"
  cr_ended_at :: "time option"

definition ck_command_run :: "command_run_row \<Rightarrow> bool" where
  "ck_command_run r \<longleftrightarrow>
     0 \<le> cr_ownership_revision r \<and>
     (case cr_timeout_seconds r of None \<Rightarrow> True | Some n \<Rightarrow> 0 < n) \<and>
     0 \<le> cr_output_observed_bytes r \<and> 0 \<le> cr_output_written_bytes r \<and>
     cr_output_written_bytes r \<le> cr_output_observed_bytes r \<and>
     (\<not> cr_output_complete r \<or> cr_output_written_bytes r = cr_output_observed_bytes r) \<and>
     (cr_started_at r = None \<and> cr_due_at r = None \<or>
      cr_started_at r \<noteq> None \<and> cr_timeout_seconds r = None \<and> cr_due_at r = None \<or>
      cr_started_at r \<noteq> None \<and> cr_timeout_seconds r \<noteq> None \<and> cr_due_at r \<noteq> None) \<and>
     (cr_state r \<noteq> CmdTimedOut \<or> cr_due_at r \<noteq> None) \<and>
     (cr_state r \<noteq> CmdAbandoned \<or> cr_terminal_failure_code r = Some ''command_ownership_lost'') \<and>
     (cr_state r = PendingStart \<and> cr_started_at r = None \<and> cr_ended_at r = None \<and>
        cr_cancellation_requested_at r = None \<and> cr_cancellation_requested_by r = None \<and>
        cr_terminal_summary r = None \<and> cr_terminal_exit_code r = None \<and>
        cr_terminal_failure_code r = None \<and> cr_terminal_event_source r = None \<and>
        cr_terminal_actor_ref r = None \<and> cr_successor_dispatch_id r = None \<or>
      cr_state r = CmdRunning \<and> cr_started_at r \<noteq> None \<and> cr_ended_at r = None \<and>
        cr_cancellation_requested_at r = None \<and> cr_cancellation_requested_by r = None \<and>
        cr_terminal_summary r = None \<and> cr_terminal_exit_code r = None \<and>
        cr_terminal_failure_code r = None \<and> cr_terminal_event_source r = None \<and>
        cr_terminal_actor_ref r = None \<and> cr_successor_dispatch_id r = None \<or>
      cr_state r = CancellationRequested \<and> cr_ended_at r = None \<and>
        cr_cancellation_requested_at r \<noteq> None \<and> cr_terminal_summary r = None \<and>
        cr_terminal_exit_code r = None \<and> cr_terminal_failure_code r = None \<and>
        cr_terminal_event_source r = None \<and> cr_terminal_actor_ref r = None \<and>
        cr_successor_dispatch_id r = None \<or>
      cr_state r \<in> set command_terminal_states \<and> cr_ended_at r \<noteq> None \<and>
        cr_terminal_summary r \<noteq> None \<and> cr_terminal_event_source r \<noteq> None)"

subsection \<open>Work plans and replans\<close>

datatype plan_step_status = StepPending | StepInProgress | StepCompleted

record work_plan_row =
  wp_assignment_id :: ident
  wp_revision :: int
  wp_explanation :: "string option"
  wp_authoring_dispatch_id :: ident
  wp_committed_at :: time

definition ck_work_plan :: "work_plan_row \<Rightarrow> bool" where
  "ck_work_plan p \<longleftrightarrow> 1 \<le> wp_revision p"

record work_plan_step_row =
  ws_work_plan_step_id :: ident
  ws_assignment_id :: ident
  ws_order_index :: nat
  ws_step :: string
  ws_status :: plan_step_status

definition ck_work_plan_step :: "work_plan_step_row \<Rightarrow> bool" where
  "ck_work_plan_step s \<longleftrightarrow> ws_order_index s \<le> 8"

datatype manifest_state = ManifestPending | ManifestRepairRequired | ManifestCurrent

datatype successor_state =
  SuccessorBlocked | SuccessorPending | SuccessorOpeningFailed | SuccessorOpened | SuccessorCancelled

record replan_row =
  rt_replan_transition_id :: ident
  rt_task_id :: ident
  rt_assignment_id :: ident
  rt_attempt_id :: ident
  rt_source_dispatch_id :: ident
  rt_operation :: string
  rt_normalized_request :: json
  rt_committed_result :: json
  rt_source_team_revision_id :: ident
  rt_successor_team_revision_id :: ident
  rt_manifest_state :: manifest_state
  rt_successor_state :: successor_state
  rt_successor_dispatch_id :: "ident option"
  rt_failure_code :: "string option"
  rt_failure_detail :: "string option"
  rt_committed_at :: time
  rt_manifest_current_at :: "time option"
  rt_successor_opened_at :: "time option"
  rt_updated_at :: time

definition ck_replan :: "replan_row \<Rightarrow> bool" where
  "ck_replan r \<longleftrightarrow>
     (rt_manifest_state r = ManifestPending \<and> rt_successor_state r = SuccessorBlocked \<or>
      rt_manifest_state r = ManifestRepairRequired \<and> rt_successor_state r = SuccessorBlocked \<or>
      rt_manifest_state r = ManifestCurrent \<and> rt_successor_state r = SuccessorPending \<or>
      rt_manifest_state r = ManifestCurrent \<and> rt_successor_state r = SuccessorOpeningFailed \<or>
      rt_manifest_state r = ManifestCurrent \<and> rt_successor_state r = SuccessorOpened \<or>
      rt_successor_state r = SuccessorCancelled) \<and>
     (rt_successor_state r = SuccessorOpened \<and> rt_successor_dispatch_id r \<noteq> None \<and>
        rt_successor_opened_at r \<noteq> None \<or>
      rt_successor_state r \<noteq> SuccessorOpened \<and> rt_successor_dispatch_id r = None \<and>
        rt_successor_opened_at r = None) \<and>
     (rt_failure_code r = None \<and> rt_failure_detail r = None \<or>
      rt_failure_code r \<noteq> None \<and> rt_failure_detail r \<noteq> None) \<and>
     (rt_manifest_state r = ManifestRepairRequired \<and> rt_failure_code r \<noteq> None \<or>
      rt_successor_state r = SuccessorOpeningFailed \<and> rt_failure_code r \<noteq> None \<or>
      rt_manifest_state r \<noteq> ManifestRepairRequired \<and>
        rt_successor_state r \<noteq> SuccessorOpeningFailed \<and> rt_failure_code r = None)"

subsection \<open>Task starts\<close>

text \<open>The root lane of a Task and the first Dispatch it was consumed by.\<close>

record task_start_row =
  ts_task_id :: ident
  ts_root_assignment_id :: ident
  ts_root_attempt_id :: ident
  ts_successor_dispatch_id :: "ident option"
  ts_committed_at :: time

subsection \<open>Task events\<close>

record event_head_row =
  eh_task_id :: ident
  eh_allocator_revision :: nat
  eh_last_event_seq :: nat
  eh_last_event_hash :: "string option"

definition ck_event_head :: "event_head_row \<Rightarrow> bool" where
  "ck_event_head h \<longleftrightarrow> (eh_last_event_seq h = 0 \<longleftrightarrow> eh_last_event_hash h = None)"

record event_row =
  te_event_id :: ident
  te_event_seq :: nat
  te_task_id :: ident
  te_event_type :: event_type
  te_event_source :: event_source
  te_occurred_at :: time
  te_team_revision_id :: "ident option"
  te_dispatch_id :: "ident option"
  te_attempt_id :: "ident option"
  te_member_id :: "ident option"
  te_actor_ref :: "string option"
  te_payload :: "(string \<times> json) list"
  te_prev_event_hash :: "string option"

text \<open>A stored event: its record and the hash the controller computed for it.\<close>

record stored_event =
  se_event :: event_row
  se_event_hash :: string

subsection \<open>The database\<close>

text \<open>
  The stored request and capability snapshot of a Dispatch
  (\<open>DispatchRequestModel\<close>, \<open>DispatchCapabilitySetModel\<close>).
\<close>

record dispatch_request_row =
  dq_dispatch_id :: ident
  dq_instructions :: string
  dq_input :: string
  dq_created_at :: time

text \<open>
  The effective decisions of the frozen capability set that gate Member operations; the
  requested values, their sources, the sandbox and the access columns are not modelled.
\<close>

datatype capability_decision = CapAllow | CapDeny

record capability_set =
  cs_human_direction :: capability_decision
  cs_human_approval :: capability_decision
  cs_human_input :: capability_decision
  cs_human_review :: capability_decision
  cs_command_run :: capability_decision

record dispatch_capability_row =
  dc_dispatch_id :: ident
  dc_capabilities :: capability_set
  dc_created_at :: time

record db =
  tasks :: "task_row list"
  assignments :: "assignment_row list"
  assignment_files :: "assignment_file_row list"
  attempts :: "attempt_row list"
  checkpoints :: "checkpoint_row list"
  checkpoint_files :: "checkpoint_file_row list"
  boundaries :: "boundary_row list"
  dispatches :: "dispatch_row list"
  dispatch_requests :: "dispatch_request_row list"
  dispatch_capabilities :: "dispatch_capability_row list"
  team_members :: "team_member_row list"
  waits :: "wait_row list"
  waves :: "wave_row list"
  wave_members :: "wave_member_row list"
  human_requests :: "human_request_row list"
  human_request_files :: "human_file_row list"
  command_runs :: "command_run_row list"
  work_plans :: "work_plan_row list"
  work_plan_steps :: "work_plan_step_row list"
  replan_transitions :: "replan_row list"
  task_starts :: "task_start_row list"
  event_heads :: "event_head_row list"
  events :: "stored_event list"

text \<open>
  What the controller takes from outside its database: the digest of an event record
  (\<open>hashlib.sha256\<close> over its canonical JSON) and the clock.
\<close>

record env =
  env_event_hash :: "event_row \<Rightarrow> string"
  env_now :: time

end
