(* ===== verification/TaskEvents.thy ===== *)
theory TaskEvents
  imports Schema
begin

text \<open>
  The Task event log (\<open>runtime/task_events.py\<close>, \<open>runtime/ids.py\<close>): appending an event
  through the per-Task stream head, and reading pages of the log by cursor.
  The digest of an event is the parameter \<open>env_event_hash\<close>; a cursor is the event
  identifier it decodes to.
\<close>

subsection \<open>Event identifiers\<close>

fun decimal :: "nat \<Rightarrow> string" where
  "decimal n = (if n < 10 then [char_of (48 + n)]
     else decimal (n div 10) @ [char_of (48 + n mod 10)])"

declare decimal.simps [simp del]

definition pad_left :: "nat \<Rightarrow> char \<Rightarrow> string \<Rightarrow> string" where
  "pad_left w c s = replicate (w - length s) c @ s"

definition task_event_id :: "ident \<Rightarrow> nat \<Rightarrow> ident" where
  "task_event_id t n = ''task-event.'' @ t @ ''.'' @ pad_left 8 (CHR ''0'') (decimal n)"

text \<open>Reading the digits back: \<open>decimal\<close> and the padded form are injective.\<close>

definition digits_value :: "string \<Rightarrow> nat" where
  "digits_value s = foldl (\<lambda>v c. 10 * v + (of_char c - 48)) 0 s"

lemma digits_value_snoc [simp]:
  "digits_value (s @ [c]) = 10 * digits_value s + (of_char c - 48)"
  by (simp add: digits_value_def)

lemma digits_value_single [simp]: "digits_value [c] = of_char c - 48"
  by (simp add: digits_value_def)

lemma of_char_digit: "n < 10 \<Longrightarrow> (of_char (char_of (48 + n :: nat)) :: nat) = 48 + n"
  by (simp add: take_bit_nat_eq_self)

lemma digits_value_decimal: "digits_value (decimal n) = n"
proof (induction n rule: decimal.induct)
  case (1 n)
  show ?case
  proof (cases "n < 10")
    case True
    then show ?thesis by (subst decimal.simps) (simp add: of_char_digit)
  next
    case False
    with 1 show ?thesis
      by (subst decimal.simps) (simp add: of_char_digit)
  qed
qed

lemma digits_value_zeros: "digits_value (replicate k (CHR ''0'') @ s) = digits_value s"
proof -
  have "foldl (\<lambda>v c. 10 * v + (of_char c - 48)) 0 (replicate k (CHR ''0'')) = (0::nat)"
    by (induction k) simp_all
  then show ?thesis by (simp add: digits_value_def)
qed

lemma dot_notin_decimal: "CHR ''.'' \<notin> set (decimal n)"
proof (induction n rule: decimal.induct)
  case (1 n)
  have digit: "char_of (48 + k :: nat) \<noteq> CHR ''.''" if "k < 10" for k
  proof -
    have "of_char (char_of (48 + k :: nat)) \<noteq> (of_char (CHR ''.'') :: nat)"
      using that by (simp add: of_char_digit)
    then show ?thesis by metis
  qed
  show ?case
  proof (cases "n < 10")
    case True
    then show ?thesis by (subst decimal.simps) (use digit [THEN not_sym] 1 in \<open>auto simp: not_less\<close>)
  next
    case False
    with 1 show ?thesis by (subst decimal.simps) (use digit [THEN not_sym] 1 in \<open>auto simp: not_less\<close>)
  qed
qed

lemma last_dot_split:
  "c \<notin> set ds \<Longrightarrow> c \<notin> set ds' \<Longrightarrow> xs @ c # ds = xs' @ c # ds' \<longleftrightarrow> xs = xs' \<and> ds = ds'"
  by (auto simp: append_eq_append_conv2 append_eq_Cons_conv Cons_eq_append_conv)

lemma task_event_id_inject [simp]:
  "task_event_id t m = task_event_id t' n \<longleftrightarrow> t = t' \<and> m = n"
proof
  let ?p = "\<lambda>k. pad_left 8 (CHR ''0'') (decimal k)"
  have dots: "CHR ''.'' \<notin> set (?p k)" for k
    by (auto simp: pad_left_def dot_notin_decimal)
  assume "task_event_id t m = task_event_id t' n"
  then have "t @ CHR ''.'' # ?p m = t' @ CHR ''.'' # ?p n"
    by (simp add: task_event_id_def)
  then have "t = t'" and "?p m = ?p n"
    using last_dot_split [OF dots dots] by blast+
  moreover from this(2) have "digits_value (?p m) = digits_value (?p n)" by simp
  then have "m = n"
    by (simp add: pad_left_def digits_value_zeros digits_value_decimal)
  ultimately show "t = t' \<and> m = n" by simp
qed simp

subsection \<open>Appending\<close>

text \<open>The keyword arguments of \<open>append_task_event\<close>.\<close>

record event_draft =
  ed_task_id :: ident
  ed_event_type :: event_type
  ed_event_source :: event_source
  ed_occurred_at :: time
  ed_team_revision_id :: "ident option"
  ed_dispatch_id :: "ident option"
  ed_attempt_id :: "ident option"
  ed_member_id :: "ident option"
  ed_actor_ref :: "string option"
  ed_payload :: "(string \<times> json) list"

definition task_log :: "ident \<Rightarrow> db \<Rightarrow> stored_event list" where
  "task_log t d = filter (\<lambda>e. te_task_id (se_event e) = t) (events d)"

fun greatest_seq :: "stored_event list \<Rightarrow> stored_event option" where
  "greatest_seq [] = None"
| "greatest_seq (e # es) =
     (case greatest_seq es of
        None \<Rightarrow> Some e
      | Some m \<Rightarrow>
          if te_event_seq (se_event m) < te_event_seq (se_event e) then Some e else Some m)"

definition latest_task_event_head :: "ident \<Rightarrow> db \<Rightarrow> nat \<times> string option" where
  "latest_task_event_head t d =
     (case greatest_seq (task_log t d) of
        None \<Rightarrow> (0, None)
      | Some e \<Rightarrow> (te_event_seq (se_event e), Some (se_event_hash e)))"

text \<open>
  \<open>_allocate_task_event_sequence\<close>: bump the allocator, then compare the head with the
  log. The result is the allocated number, the previous number and hash.
\<close>

definition allocate_task_event_sequence ::
    "ident \<Rightarrow> db \<Rightarrow> ((nat \<times> nat \<times> string option) \<times> db) result" where
  "allocate_task_event_sequence t d =
     (case find (\<lambda>h. eh_task_id h = t) (event_heads d) of
        None \<Rightarrow> Inl (TaskEventStreamIntegrityError ''task event stream head is missing'')
      | Some h \<Rightarrow>
          let d' = d\<lparr>event_heads := map (\<lambda>r. if eh_task_id r = t
                     then r\<lparr>eh_allocator_revision := eh_allocator_revision r + 1\<rparr> else r)
                     (event_heads d)\<rparr>;
              event_seq = eh_allocator_revision h + 1;
              previous_seq = eh_last_event_seq h;
              previous_hash = eh_last_event_hash h
          in if event_seq \<noteq> previous_seq + 1 \<or>
                fst (latest_task_event_head t d') \<noteq> previous_seq \<or>
                snd (latest_task_event_head t d') \<noteq> previous_hash
             then Inl (TaskEventStreamIntegrityError
               ''task event stream head does not match chronology'')
             else Inr ((event_seq, previous_seq, previous_hash), d'))"

definition advance_task_event_stream_head ::
    "ident \<Rightarrow> nat \<times> nat \<times> string option \<Rightarrow> string \<Rightarrow> db \<Rightarrow> db result" where
  "advance_task_event_stream_head t al hsh d =
     (case al of (event_seq, previous_seq, previous_hash) \<Rightarrow>
       and_then (require (TaskEventStreamIntegrityError
           ''task event stream head changed during append'')
         (update_where
           (\<lambda>h. eh_task_id h = t \<and> eh_allocator_revision h = event_seq \<and>
                eh_last_event_seq h = previous_seq \<and> eh_last_event_hash h = previous_hash)
           (\<lambda>h. h\<lparr>eh_last_event_seq := event_seq, eh_last_event_hash := Some hsh\<rparr>)
           (event_heads d)))
         (\<lambda>hs. Inr (d\<lparr>event_heads := hs\<rparr>)))"

text \<open>\<open>event_id or task_event_id(...)\<close>: an event of a product action carries the action's identifier.\<close>

definition event_id_for :: "ident option \<Rightarrow> ident \<Rightarrow> nat \<Rightarrow> ident" where
  "event_id_for i t n =
     (case i of None \<Rightarrow> task_event_id t n | Some x \<Rightarrow> if x = [] then task_event_id t n else x)"

definition event_of_draft :: "ident option \<Rightarrow> event_draft \<Rightarrow> nat \<Rightarrow> string option \<Rightarrow> event_row" where
  "event_of_draft i e n p =
     \<lparr>te_event_id = event_id_for i (ed_task_id e) n, te_event_seq = n,
      te_task_id = ed_task_id e, te_event_type = ed_event_type e,
      te_event_source = ed_event_source e, te_occurred_at = ed_occurred_at e,
      te_team_revision_id = ed_team_revision_id e, te_dispatch_id = ed_dispatch_id e,
      te_attempt_id = ed_attempt_id e, te_member_id = ed_member_id e,
      te_actor_ref = ed_actor_ref e, te_payload = ed_payload e, te_prev_event_hash = p\<rparr>"

text \<open>The insert is under the primary key and the unique index on Task and number.\<close>

definition insert_event :: "stored_event \<Rightarrow> stored_event list \<Rightarrow> stored_event list result" where
  "insert_event e es =
     and_then (require_that (IntegrityError ''ix_task_events_task_seq'')
         (\<not> list_ex (\<lambda>x. te_task_id (se_event x) = te_task_id (se_event e) \<and>
            te_event_seq (se_event x) = te_event_seq (se_event e)) es))
       (\<lambda>_. insert_row (te_event_id \<circ> se_event) e es)"

definition append_task_event_as :: "env \<Rightarrow> ident option \<Rightarrow> event_draft \<Rightarrow> db \<Rightarrow> db result" where
  "append_task_event_as env i e d =
     and_then (allocate_task_event_sequence (ed_task_id e) d)
       (\<lambda>(al, d1).
         let row = event_of_draft i e (fst al) (snd (snd al));
             stored = \<lparr>se_event = row, se_event_hash = env_event_hash env row\<rparr>
         in and_then (insert_event stored (events d1))
              (\<lambda>es. advance_task_event_stream_head (ed_task_id e) al (se_event_hash stored)
                 (d1\<lparr>events := es\<rparr>)))"

text \<open>The call without \<open>event_id\<close>.\<close>

definition append_task_event :: "env \<Rightarrow> event_draft \<Rightarrow> db \<Rightarrow> db result" where
  "append_task_event env e d = append_task_event_as env None e d"

subsection \<open>The log invariant\<close>

text \<open>The identifiers of product actions (\<open>runtime/product/action_ids.py\<close>).\<close>

definition is_action_id :: "ident \<Rightarrow> bool" where
  "is_action_id i \<longleftrightarrow> take 7 i = ''action.''"

lemma task_event_id_no_action [simp]: "\<not> is_action_id (task_event_id t n)"
  by (simp add: is_action_id_def task_event_id_def)

text \<open>
  From number \<open>n\<close> and hash \<open>p\<close> on, the log of one Task counts up by one, each event names
  the hash of its predecessor, and stores its own digest.
\<close>

fun chain_from ::
    "(event_row \<Rightarrow> string) \<Rightarrow> ident \<Rightarrow> nat \<Rightarrow> string option \<Rightarrow> stored_event list \<Rightarrow> bool" where
  "chain_from H t n p [] = True"
| "chain_from H t n p (e # es) =
     (te_event_seq (se_event e) = Suc n \<and>
      (te_event_id (se_event e) = task_event_id t (Suc n) \<or> is_action_id (te_event_id (se_event e))) \<and>
      te_prev_event_hash (se_event e) = p \<and> se_event_hash e = H (se_event e) \<and>
      chain_from H t (Suc n) (Some (se_event_hash e)) es)"

definition last_hash :: "stored_event list \<Rightarrow> string option" where
  "last_hash es = (if es = [] then None else Some (se_event_hash (last es)))"

definition log_ok :: "(event_row \<Rightarrow> string) \<Rightarrow> db \<Rightarrow> event_head_row \<Rightarrow> bool" where
  "log_ok H d h \<longleftrightarrow>
     (let es = task_log (eh_task_id h) d in
        chain_from H (eh_task_id h) 0 None es \<and>
        eh_allocator_revision h = length es \<and> eh_last_event_seq h = length es \<and>
        eh_last_event_hash h = last_hash es)"

text \<open>
  The whole log: one head per Task, every head agrees with its Task's log, every event
  belongs to a Task with a head, and event identifiers are unique across Tasks.
\<close>

definition events_ok :: "(event_row \<Rightarrow> string) \<Rightarrow> db \<Rightarrow> bool" where
  "events_ok H d \<longleftrightarrow>
     keyed eh_task_id (event_heads d) \<and>
     (\<forall>h \<in> set (event_heads d). log_ok H d h) \<and>
     (\<forall>e \<in> set (events d). te_task_id (se_event e) \<in> eh_task_id ` set (event_heads d)) \<and>
     keyed (te_event_id \<circ> se_event) (events d)"

lemma chain_from_append:
  "chain_from H t n p (es @ [e]) \<longleftrightarrow>
     chain_from H t n p es \<and> te_event_seq (se_event e) = Suc (n + length es) \<and>
     (te_event_id (se_event e) = task_event_id t (Suc (n + length es)) \<or>
        is_action_id (te_event_id (se_event e))) \<and>
     te_prev_event_hash (se_event e) = (if es = [] then p else Some (se_event_hash (last es))) \<and>
     se_event_hash e = H (se_event e)"
  by (induction es arbitrary: n p) auto

lemma chain_from_seq:
  "chain_from H t n p es \<Longrightarrow> i < length es \<Longrightarrow> te_event_seq (se_event (es ! i)) = Suc (n + i)"
  by (induction es arbitrary: n p i) (auto simp: nth_Cons split: nat.splits)

lemma chain_from_greatest:
  "chain_from H t n p es \<Longrightarrow> greatest_seq es = (if es = [] then None else Some (last es))"
proof (induction es arbitrary: n p)
  case (Cons e es)
  then have chain: "chain_from H t (Suc n) (Some (se_event_hash e)) es"
    and seq: "te_event_seq (se_event e) = Suc n"
    by auto
  show ?case
  proof (cases "es = []")
    case False
    then have "te_event_seq (se_event (last es)) = Suc (Suc n + (length es - 1))"
      using chain_from_seq [OF chain, of "length es - 1"] by (simp add: last_conv_nth)
    with False seq Cons.IH [OF chain] show ?thesis by simp
  qed simp
qed simp

lemma last_hash_Some_iff: "last_hash es = None \<longleftrightarrow> es = []"
  by (simp add: last_hash_def)

lemma latest_head_ok:
  assumes "log_ok H d h"
  shows "latest_task_event_head (eh_task_id h) d = (eh_last_event_seq h, eh_last_event_hash h)"
proof -
  let ?es = "task_log (eh_task_id h) d"
  have chain: "chain_from H (eh_task_id h) 0 None ?es"
    and len: "eh_last_event_seq h = length ?es" and hsh: "eh_last_event_hash h = last_hash ?es"
    using assms by (auto simp: log_ok_def Let_def)
  have "te_event_seq (se_event (last ?es)) = length ?es" if "?es \<noteq> []"
    using chain_from_seq [OF chain, of "length ?es - 1"] that by (simp add: last_conv_nth)
  then show ?thesis
    using len hsh chain_from_greatest [OF chain]
    by (auto simp: latest_task_event_head_def last_hash_def)
qed

lemma task_log_frame [simp]:
  "task_log t (d\<lparr>event_heads := hs\<rparr>) = task_log t d"
  "latest_task_event_head t (d\<lparr>event_heads := hs\<rparr>) = latest_task_event_head t d"
  by (simp_all add: task_log_def latest_task_event_head_def)


subsection \<open>What an append does\<close>

text \<open>With an intact log, an append to a Task with a head adds one event under a free identifier.\<close>

definition appended_event_as :: "env \<Rightarrow> ident option \<Rightarrow> event_draft \<Rightarrow> db \<Rightarrow> stored_event" where
  "appended_event_as env i e d =
     (let es = task_log (ed_task_id e) d; row = event_of_draft i e (Suc (length es)) (last_hash es)
      in \<lparr>se_event = row, se_event_hash = env_event_hash env row\<rparr>)"

definition with_appended_event_as :: "env \<Rightarrow> ident option \<Rightarrow> event_draft \<Rightarrow> db \<Rightarrow> db" where
  "with_appended_event_as env i e d =
     d\<lparr>events := events d @ [appended_event_as env i e d],
       event_heads := map (\<lambda>h. if eh_task_id h = ed_task_id e
         then h\<lparr>eh_allocator_revision := Suc (eh_last_event_seq h),
                eh_last_event_seq := Suc (eh_last_event_seq h),
                eh_last_event_hash := Some (se_event_hash (appended_event_as env i e d))\<rparr>
         else h) (event_heads d)\<rparr>"

abbreviation appended_event :: "env \<Rightarrow> event_draft \<Rightarrow> db \<Rightarrow> stored_event" where
  "appended_event env \<equiv> appended_event_as env None"

abbreviation with_appended_event :: "env \<Rightarrow> event_draft \<Rightarrow> db \<Rightarrow> db" where
  "with_appended_event env \<equiv> with_appended_event_as env None"

lemma appended_event_simps [simp]:
  "te_task_id (se_event (appended_event_as env i e d)) = ed_task_id e"
  "te_event_seq (se_event (appended_event_as env i e d)) = Suc (length (task_log (ed_task_id e) d))"
  "te_event_id (se_event (appended_event_as env i e d)) =
     event_id_for i (ed_task_id e) (Suc (length (task_log (ed_task_id e) d)))"
  "te_prev_event_hash (se_event (appended_event_as env i e d)) = last_hash (task_log (ed_task_id e) d)"
  "se_event_hash (appended_event_as env i e d) = env_event_hash env (se_event (appended_event_as env i e d))"
  by (simp_all add: appended_event_as_def event_of_draft_def Let_def)

lemma event_id_for_None [simp]: "event_id_for None t n = task_event_id t n"
  by (simp add: event_id_for_def)

lemma events_ok_head:
  assumes "events_ok H d" and "h \<in> set (event_heads d)" and "eh_task_id h = t"
  shows "find (\<lambda>h. eh_task_id h = t) (event_heads d) = Some h"
proof -
  obtain h' where h': "find (\<lambda>h. eh_task_id h = t) (event_heads d) = Some h'"
    using assms(2,3) by (cases "find (\<lambda>h. eh_task_id h = t) (event_heads d)") (auto simp: find_None_iff)
  with assms have "h' = h"
    by (intro keyed_unique [of eh_task_id]) (auto simp: events_ok_def dest: find_Some_D)
  with h' show ?thesis by simp
qed

lemma events_ok_event_id:
  assumes "events_ok H d" and "x \<in> set (events d)"
  shows "\<exists>n \<le> length (task_log (te_task_id (se_event x)) d).
    te_event_seq (se_event x) = n \<and>
    (te_event_id (se_event x) = task_event_id (te_task_id (se_event x)) n \<or>
     is_action_id (te_event_id (se_event x)))"
proof -
  let ?es = "task_log (te_task_id (se_event x)) d"
  have "te_task_id (se_event x) \<in> eh_task_id ` set (event_heads d)"
    using assms by (simp add: events_ok_def)
  then obtain h where "h \<in> set (event_heads d)" and "eh_task_id h = te_task_id (se_event x)"
    by force
  then have "chain_from H (te_task_id (se_event x)) 0 None ?es"
    using assms(1) by (auto simp: events_ok_def log_ok_def Let_def)
  moreover have "x \<in> set ?es" using assms(2) by (simp add: task_log_def)
  moreover have "chain_from H t n p es \<Longrightarrow> x \<in> set es \<Longrightarrow>
      \<exists>m \<le> n + length es. te_event_seq (se_event x) = m \<and>
        (te_event_id (se_event x) = task_event_id t m \<or> is_action_id (te_event_id (se_event x)))"
    for t n p es
  proof (induction es arbitrary: n p)
    case (Cons y ys)
    then show ?case
    proof (cases "x = y")
      case True
      with Cons.prems show ?thesis by (intro exI [of _ "Suc n"]) simp
    next
      case False
      with Cons show ?thesis by fastforce
    qed
  qed simp
  ultimately show ?thesis by (metis add_0)
qed

lemma append_task_event_as_eq:
  assumes ok: "events_ok (env_event_hash env) d"
    and head: "ed_task_id e \<in> eh_task_id ` set (event_heads d)"
  shows "append_task_event_as env i e d =
    and_then (insert_event (appended_event_as env i e d) (events d)) (\<lambda>_. Inr (with_appended_event_as env i e d))"
proof -
  let ?t = "ed_task_id e" and ?es = "task_log (ed_task_id e) d"
  obtain h where h: "h \<in> set (event_heads d)" "eh_task_id h = ?t"
    using head by force
  have log: "log_ok (env_event_hash env) d h" using ok h by (simp add: events_ok_def)
  have vals: "eh_allocator_revision h = length ?es" "eh_last_event_seq h = length ?es"
      "eh_last_event_hash h = last_hash ?es"
    using log h by (auto simp: log_ok_def Let_def)
  have same: "\<And>r. r \<in> set (event_heads d) \<Longrightarrow> eh_task_id r = ?t \<Longrightarrow> r = h"
    using ok h by (auto simp: events_ok_def intro: keyed_unique [of eh_task_id])
  have alloc: "allocate_task_event_sequence ?t d =
      Inr ((Suc (length ?es), length ?es, last_hash ?es),
        d\<lparr>event_heads := map (\<lambda>r. if eh_task_id r = ?t
           then r\<lparr>eh_allocator_revision := eh_allocator_revision r + 1\<rparr> else r) (event_heads d)\<rparr>)"
    using events_ok_head [OF ok h] latest_head_ok [OF log] vals h(2)
    by (simp add: allocate_task_event_sequence_def Let_def)
  have ins: "insert_event (appended_event_as env i e d) (events d) = Inr es \<Longrightarrow>
      es = events d @ [appended_event_as env i e d]" for es
    by (auto simp: insert_event_def insert_row_def result_simps split: if_split_asm)
  have adv: "map (\<lambda>h. if eh_task_id h = ?t \<and> eh_allocator_revision h = Suc (length ?es) \<and>
        eh_last_event_seq h = length ?es \<and> eh_last_event_hash h = last_hash ?es
        then h\<lparr>eh_last_event_seq := Suc (length ?es), eh_last_event_hash := Some x\<rparr> else h)
      (map (\<lambda>r. if eh_task_id r = ?t
        then r\<lparr>eh_allocator_revision := eh_allocator_revision r + 1\<rparr> else r) (event_heads d)) =
      map (\<lambda>h. if eh_task_id h = ?t then h\<lparr>eh_allocator_revision := Suc (eh_last_event_seq h),
        eh_last_event_seq := Suc (eh_last_event_seq h), eh_last_event_hash := Some x\<rparr> else h)
        (event_heads d)" for x
    using same vals h(2) by auto
  have ex: "\<exists>r \<in> set (event_heads d). eh_task_id r = ?t" using h by blast
  have "update_where
      (\<lambda>h. eh_task_id h = ?t \<and> eh_allocator_revision h = Suc (length ?es) \<and>
         eh_last_event_seq h = length ?es \<and> eh_last_event_hash h = last_hash ?es)
      (\<lambda>h. h\<lparr>eh_last_event_seq := Suc (length ?es), eh_last_event_hash := Some x\<rparr>)
      (map (\<lambda>r. if eh_task_id r = ?t
        then r\<lparr>eh_allocator_revision := eh_allocator_revision r + 1\<rparr> else r) (event_heads d)) =
      Some (map (\<lambda>h. if eh_task_id h = ?t then h\<lparr>eh_allocator_revision := Suc (eh_last_event_seq h),
        eh_last_event_seq := Suc (eh_last_event_seq h), eh_last_event_hash := Some x\<rparr> else h)
        (event_heads d))" for x
  proof -
    have mem: "h\<lparr>eh_allocator_revision := eh_allocator_revision h + 1\<rparr> \<in> set (map (\<lambda>r. if eh_task_id r = ?t
        then r\<lparr>eh_allocator_revision := eh_allocator_revision r + 1\<rparr> else r) (event_heads d))"
      using h by (auto intro!: image_eqI [of _ _ h])
    then show ?thesis
      unfolding update_where_Some_iff adv
      by (intro conjI refl bexI [OF _ mem]) (use h(2) vals in simp_all)
  qed
  then show ?thesis
    using ins by (cases "insert_event (appended_event_as env i e d) (events d)")
      (simp_all add: append_task_event_as_def alloc Let_def with_appended_event_as_def
        advance_task_event_stream_head_def appended_event_as_def [symmetric] appended_event_as_def)
qed


lemma append_task_event_eq:
  assumes ok: "events_ok (env_event_hash env) d"
    and head: "ed_task_id e \<in> eh_task_id ` set (event_heads d)"
  shows "append_task_event env e d = Inr (with_appended_event env e d)"
proof -
  have "te_event_id (se_event x) \<noteq> task_event_id (ed_task_id e) (Suc (length (task_log (ed_task_id e) d))) \<and>
      \<not> (te_task_id (se_event x) = ed_task_id e \<and>
         te_event_seq (se_event x) = Suc (length (task_log (ed_task_id e) d)))"
    if "x \<in> set (events d)" for x
    using events_ok_event_id [OF ok that] by fastforce
  then have "insert_event (appended_event env e d) (events d) = Inr (events d @ [appended_event env e d])"
    by (auto simp: insert_event_def insert_row_def list_ex_iff require_that_def)
  then show ?thesis by (simp add: append_task_event_def append_task_event_as_eq [OF ok head])
qed

lemma task_log_with_appended:
  "task_log t (with_appended_event_as env i e d) =
     (if t = ed_task_id e then task_log t d @ [appended_event_as env i e d] else task_log t d)"
  by (simp add: task_log_def with_appended_event_as_def)

lemma append_task_event_as_head:
  "append_task_event_as env i e d = Inr d' \<Longrightarrow> ed_task_id e \<in> eh_task_id ` set (event_heads d)"
proof -
  assume "append_task_event_as env i e d = Inr d'"
  then obtain h where "find (\<lambda>h. eh_task_id h = ed_task_id e) (event_heads d) = Some h"
    by (auto simp: append_task_event_as_def allocate_task_event_sequence_def result_simps
        split: option.splits)
  then have "h \<in> set (event_heads d)" and "ed_task_id e = eh_task_id h"
    by (auto dest: find_Some_D)
  then show ?thesis by (rule rev_image_eqI)
qed

lemmas append_task_event_head = append_task_event_as_head [where i = None, folded append_task_event_def]

lemma with_appended_head:
  "eh_task_id ` set (event_heads (with_appended_event_as env i e d)) = eh_task_id ` set (event_heads d)"
  unfolding with_appended_event_as_def by (simp add: keys_update del: set_map)

text \<open>An append succeeds only when the stream head agrees with the end of the log.\<close>

lemma append_task_event_agrees:
  assumes "append_task_event env e d = Inr d'"
  shows "\<exists>h \<in> set (event_heads d). eh_task_id h = ed_task_id e \<and>
    eh_allocator_revision h = eh_last_event_seq h \<and>
    latest_task_event_head (ed_task_id e) d = (eh_last_event_seq h, eh_last_event_hash h)"
proof -
  obtain h where h: "find (\<lambda>h. eh_task_id h = ed_task_id e) (event_heads d) = Some h"
    and "eh_allocator_revision h = eh_last_event_seq h"
      "latest_task_event_head (ed_task_id e) d = (eh_last_event_seq h, eh_last_event_hash h)"
    using assms unfolding append_task_event_def append_task_event_as_def allocate_task_event_sequence_def
    by (auto simp: Let_def result_simps prod_eq_iff split: option.splits if_split_asm)
  then show ?thesis using find_Some_D [OF h] by auto
qed

lemma allocate_frame:
  assumes "allocate_task_event_sequence t d = Inr (al, d1)"
  shows "\<exists>hs. d1 = d\<lparr>event_heads := hs\<rparr>"
proof -
  have "d1 = d\<lparr>event_heads := event_heads d1\<rparr>"
    using assms unfolding allocate_task_event_sequence_def Let_def
    by (simp split: option.splits if_splits)
      (erule conjE, erule subst, simp)
  then show ?thesis by blast
qed

lemma advance_frame:
  "advance_task_event_stream_head t al hsh d = Inr d' \<Longrightarrow> \<exists>hs. d' = d\<lparr>event_heads := hs\<rparr>"
  by (cases al) (auto simp: advance_task_event_stream_head_def result_simps)

lemma append_task_event_as_frame:
  assumes "append_task_event_as env i e d = Inr d'"
  shows "\<exists>es hs. d' = d\<lparr>events := es, event_heads := hs\<rparr>"
proof -
  obtain al d1 es h where "allocate_task_event_sequence (ed_task_id e) d = Inr (al, d1)"
    and "advance_task_event_stream_head (ed_task_id e) al h (d1\<lparr>events := es\<rparr>) = Inr d'"
    using assms by (auto simp: append_task_event_as_def result_simps Let_def)
  then show ?thesis by (fastforce dest!: allocate_frame advance_frame)
qed

lemmas append_task_event_frame = append_task_event_as_frame [where i = None, folded append_task_event_def]

lemma with_appended_events_ok:
  assumes ok: "events_ok (env_event_hash env) d"
    and head: "ed_task_id e \<in> eh_task_id ` set (event_heads d)"
    and i: "\<And>x. i = Some x \<Longrightarrow> is_action_id x \<and> x \<notin> (te_event_id \<circ> se_event) ` set (events d)"
  shows "events_ok (env_event_hash env) (with_appended_event_as env i e d)"
proof -
  let ?d = "with_appended_event_as env i e d" and ?H = "env_event_hash env"
  have nid: "event_id_for i t n = task_event_id t n \<or> is_action_id (event_id_for i t n)" for t n
    using i by (auto simp: event_id_for_def split: option.split)
  have keys: "keyed eh_task_id (event_heads ?d)"
    unfolding with_appended_event_as_def using ok
    by (auto simp: events_ok_def intro!: keyed_update)
  have heads: "log_ok ?H ?d h" if h: "h \<in> set (event_heads ?d)" for h
  proof (cases "eh_task_id h = ed_task_id e")
    case True
    then obtain g where g: "g \<in> set (event_heads d)" "eh_task_id g = ed_task_id e"
      and hg: "h = g\<lparr>eh_allocator_revision := Suc (eh_last_event_seq g),
        eh_last_event_seq := Suc (eh_last_event_seq g),
        eh_last_event_hash := Some (se_event_hash (appended_event_as env i e d))\<rparr>"
      using h by (auto simp: with_appended_event_as_def)
    have "log_ok ?H d g" using ok g by (simp add: events_ok_def)
    then show ?thesis
      using g hg by (simp add: log_ok_def Let_def task_log_with_appended chain_from_append
          last_hash_def nid)
  next
    case False
    with h have "h \<in> set (event_heads d)" by (auto simp: with_appended_event_as_def)
    with ok have "log_ok ?H d h" by (simp add: events_ok_def)
    with False show ?thesis by (simp add: log_ok_def Let_def task_log_with_appended)
  qed
  have owners: "te_task_id (se_event x) \<in> eh_task_id ` set (event_heads ?d)"
    if "x \<in> set (events ?d)" for x
  proof -
    note with_appended_head [of env i e d]
    with that ok head show ?thesis
      by (auto simp: with_appended_event_as_def events_ok_def)
  qed
  have "te_event_id (se_event x) \<noteq> te_event_id (se_event (appended_event_as env i e d))"
    if "x \<in> set (events d)" for x
  proof (cases "event_id_for i (ed_task_id e) (Suc (length (task_log (ed_task_id e) d))) =
      task_event_id (ed_task_id e) (Suc (length (task_log (ed_task_id e) d)))")
    case True
    then show ?thesis using events_ok_event_id [OF ok that] by fastforce
  next
    case False
    then obtain y where "i = Some y" "event_id_for i (ed_task_id e) (Suc (length (task_log (ed_task_id e) d))) = y"
      by (auto simp: event_id_for_def split: option.split_asm if_split_asm)
    with i that show ?thesis by fastforce
  qed
  then have "(te_event_id \<circ> se_event) (appended_event_as env i e d) \<notin>
      (te_event_id \<circ> se_event) ` set (events d)"
    by (metis comp_apply imageE)
  then have "keyed (te_event_id \<circ> se_event) (events ?d)"
    using ok unfolding with_appended_event_as_def events_ok_def
    by (simp add: keyed_insert del: appended_event_simps)
  with keys heads owners show ?thesis by (simp add: events_ok_def)
qed

lemma append_task_event_as_events_ok:
  assumes ap: "append_task_event_as env i e d = Inr d'" and ok: "events_ok (env_event_hash env) d"
    and i: "\<And>x. i = Some x \<Longrightarrow> is_action_id x"
  shows "events_ok (env_event_hash env) d' \<and> d' = with_appended_event_as env i e d \<and>
    (\<forall>x. i = Some x \<longrightarrow> x \<notin> (te_event_id \<circ> se_event) ` set (events d))"
proof -
  note head = append_task_event_as_head [OF ap]
  obtain es where ins: "insert_event (appended_event_as env i e d) (events d) = Inr es"
    and d': "d' = with_appended_event_as env i e d"
    using ap unfolding append_task_event_as_eq [OF ok head] by (auto elim!: and_then_InrE)
  have fresh: "x \<notin> (te_event_id \<circ> se_event) ` set (events d)" if x: "i = Some x" for x
  proof -
    have "event_id_for i t n = x" for t n
      using i [OF x] x by (auto simp: event_id_for_def is_action_id_def)
    then show ?thesis
      using ins by (auto simp: insert_event_def insert_row_Inr_iff result_simps)
  qed
  have "events_ok (env_event_hash env) d'"
    unfolding d' by (rule with_appended_events_ok [OF ok head]) (use i fresh in blast)
  with d' fresh show ?thesis by blast
qed

lemma append_task_event_events_ok:
  assumes "append_task_event env e d = Inr d'" and "events_ok (env_event_hash env) d"
  shows "events_ok (env_event_hash env) d'" and "d' = with_appended_event env e d"
  using append_task_event_as_events_ok [of env None e d d'] assms unfolding append_task_event_def by blast+

subsection \<open>Reading pages\<close>

text \<open>
  \<open>list_task_events\<close>, the cursor and the upper bound given as decoded event identifiers.
  \<open>None\<close> is the code's TaskEventCursorResetRequiredError.
\<close>

definition task_event_by_id :: "ident \<Rightarrow> ident \<Rightarrow> db \<Rightarrow> stored_event option" where
  "task_event_by_id t i d =
     find (\<lambda>e. te_task_id (se_event e) = t \<and> te_event_id (se_event e) = i) (events d)"

definition cursor_event_seq :: "ident \<Rightarrow> ident option \<Rightarrow> db \<Rightarrow> nat option" where
  "cursor_event_seq t cursor d =
     (case cursor of None \<Rightarrow> Some 0
      | Some i \<Rightarrow> map_option (te_event_seq \<circ> se_event) (task_event_by_id t i d))"

definition through_event_seq :: "ident \<Rightarrow> ident option \<Rightarrow> db \<Rightarrow> nat option option" where
  "through_event_seq t through d =
     (case through of None \<Rightarrow> Some None
      | Some i \<Rightarrow> map_option (\<lambda>e. Some (te_event_seq (se_event e))) (task_event_by_id t i d))"

definition task_event_page_rows ::
    "ident \<Rightarrow> nat \<Rightarrow> nat option \<Rightarrow> nat \<Rightarrow> db \<Rightarrow> stored_event list" where
  "task_event_page_rows t after through_seq limit d =
     take limit (sort_key (te_event_seq \<circ> se_event)
       (filter (\<lambda>e. te_task_id (se_event e) = t \<and> after < te_event_seq (se_event e) \<and>
          (case through_seq of None \<Rightarrow> True | Some u \<Rightarrow> te_event_seq (se_event e) \<le> u)) (events d)))"

definition list_task_events ::
    "ident \<Rightarrow> ident option \<Rightarrow> nat \<Rightarrow> ident option \<Rightarrow> db \<Rightarrow>
       (stored_event list \<times> ident option) option" where
  "list_task_events t cursor limit through d =
     Option.bind (cursor_event_seq t cursor d) (\<lambda>after.
       Option.bind (through_event_seq t through d) (\<lambda>through_seq.
         let rows = task_event_page_rows t after through_seq (limit + 1) d;
             page = take limit rows
         in Some (page,
              if limit < length rows
              then Some (te_event_id (se_event (last page))) else None)))"

text \<open>Following the cursor of every page, for at most \<open>k\<close> pages.\<close>

fun read_all_pages ::
    "nat \<Rightarrow> ident \<Rightarrow> ident option \<Rightarrow> nat \<Rightarrow> db \<Rightarrow> stored_event list option" where
  "read_all_pages 0 t cursor limit d = None"
| "read_all_pages (Suc k) t cursor limit d =
     (case list_task_events t cursor limit None d of
        None \<Rightarrow> None
      | Some (page, None) \<Rightarrow> Some page
      | Some (page, Some c) \<Rightarrow> map_option (append page) (read_all_pages k t (Some c) limit d))"

lemma sorted_chain:
  "chain_from H t n p es \<Longrightarrow> sorted (map (te_event_seq \<circ> se_event) es) \<and>
     (\<forall>e \<in> set es. n < te_event_seq (se_event e))"
proof (induction es arbitrary: n p)
  case (Cons e es)
  then show ?case by (auto simp: Suc_lessD less_imp_le)
qed simp

lemma filter_chain:
  "chain_from H t n p es \<Longrightarrow>
     filter (\<lambda>e. n + k < te_event_seq (se_event e)) es = drop k es"
proof (induction es arbitrary: n p k)
  case (Cons e es)
  then have chain: "chain_from H t (Suc n) (Some (se_event_hash e)) es"
    and seq: "te_event_seq (se_event e) = Suc n" by auto
  show ?case
  proof (cases k)
    case 0
    have "filter (\<lambda>e. n < te_event_seq (se_event e)) es = es"
      using sorted_chain [OF chain] by (auto simp: filter_id_conv)
    with 0 seq show ?thesis by simp
  next
    case (Suc m)
    with Cons.IH [OF chain, of m] seq show ?thesis by simp
  qed
qed simp


lemma keyed_task_events:
  assumes "events_ok H d"
  shows "keyed (te_event_id \<circ> se_event) (events d)"
  using assms by (simp add: events_ok_def)

lemma log_chain:
  assumes "events_ok H d" and "t \<in> eh_task_id ` set (event_heads d)"
  shows "chain_from H t 0 None (task_log t d)"
  using assms by (auto simp: events_ok_def log_ok_def Let_def)

text \<open>A page is the next stretch of the log, wherever the cursor stands in it.\<close>

lemma page_rows_eq:
  assumes ok: "events_ok H d" and head: "t \<in> eh_task_id ` set (event_heads d)"
  shows "task_event_page_rows t k None m d = take m (drop k (task_log t d))"
proof -
  have chain: "chain_from H t 0 None (task_log t d)" using ok head by (rule log_chain)
  have "filter (\<lambda>e. te_task_id (se_event e) = t \<and> k < te_event_seq (se_event e)) (events d) =
      drop k (task_log t d)"
    using filter_chain [OF chain, of k] by (simp add: task_log_def conj_commute)
  moreover have "sorted (map (te_event_seq \<circ> se_event) (drop k (task_log t d)))"
    using sorted_chain [OF chain] by (simp add: drop_map [symmetric] sorted_wrt_drop)
  ultimately show ?thesis
    by (simp add: task_event_page_rows_def sort_key_id_if_sorted)
qed

lemma cursor_position:
  assumes ok: "events_ok H d" and head: "t \<in> eh_task_id ` set (event_heads d)"
    and k: "k < length (task_log t d)"
  shows "cursor_event_seq t (Some (te_event_id (se_event (task_log t d ! k)))) d = Some (Suc k)"
proof -
  let ?e = "task_log t d ! k"
  have mem: "?e \<in> set (events d)" "te_task_id (se_event ?e) = t"
    using nth_mem [OF k] by (auto simp: task_log_def)
  have seq: "te_event_seq (se_event ?e) = Suc k"
    using chain_from_seq [OF log_chain [OF ok head] k] by simp
  obtain x where x: "task_event_by_id t (te_event_id (se_event ?e)) d = Some x"
    using mem by (cases "task_event_by_id t (te_event_id (se_event ?e)) d")
      (auto simp: task_event_by_id_def find_None_iff)
  then have "x = ?e"
    using mem by (intro keyed_unique [OF keyed_task_events [OF ok]])
      (auto simp: task_event_by_id_def dest: find_Some_D)
  with x seq show ?thesis by (simp add: cursor_event_seq_def)
qed

lemma list_page_eq:
  assumes ok: "events_ok H d" and head: "t \<in> eh_task_id ` set (event_heads d)"
    and cursor: "cursor_event_seq t cursor d = Some k" and limit: "0 < limit"
  shows "list_task_events t cursor limit None d =
    Some (take limit (drop k (task_log t d)),
      if k + limit < length (task_log t d)
      then Some (te_event_id (se_event (task_log t d ! (k + limit - 1)))) else None)"
proof -
  have "last (take limit (drop k (task_log t d))) = task_log t d ! (k + limit - 1)"
    if "k + limit < length (task_log t d)"
    using that limit by (simp add: last_conv_nth)
  then show ?thesis
    using cursor by (auto simp: list_task_events_def through_event_seq_def Let_def min_def
        page_rows_eq [OF ok head])
qed

lemma read_all_pages_from:
  assumes ok: "events_ok H d" and head: "t \<in> eh_task_id ` set (event_heads d)"
    and limit: "0 < limit"
  shows "cursor_event_seq t cursor d = Some k \<Longrightarrow> length (task_log t d) - k < n \<Longrightarrow>
    read_all_pages n t cursor limit d = Some (drop k (task_log t d))"
proof (induction n arbitrary: cursor k)
  case (Suc n)
  let ?es = "task_log t d"
  note page = list_page_eq [OF ok head Suc.prems(1) limit]
  show ?case
  proof (cases "k + limit < length ?es")
    case False
    then show ?thesis using page by simp
  next
    case True
    let ?c = "te_event_id (se_event (?es ! (k + limit - 1)))"
    have "cursor_event_seq t (Some ?c) d = Some (k + limit)"
      using cursor_position [OF ok head, of "k + limit - 1"] True limit by simp
    then have "read_all_pages n t (Some ?c) limit d = Some (drop (k + limit) ?es)"
      by (rule Suc.IH) (use Suc.prems(2) True limit in linarith)
    moreover have "take limit (drop k ?es) @ drop (k + limit) ?es = drop k ?es"
      by (metis append_take_drop_id drop_drop add.commute)
    ultimately show ?thesis using page True by simp
  qed
qed simp

subsection \<open>Properties\<close>


text \<open>
  C15. Reading the event pages of a Task from the start, each page from the cursor of the one
  before, for any positive page size, ends after finitely many pages and returns exactly the
  Task's log in order: no event is skipped or repeated.
\<close>

theorem pages_cover_log:
  assumes "events_ok H d" and "t \<in> eh_task_id ` set (event_heads d)" and "0 < limit"
  shows "read_all_pages (Suc (length (task_log t d))) t None limit d = Some (task_log t d)"
proof -
  have "cursor_event_seq t None d = Some 0" by (simp add: cursor_event_seq_def)
  from read_all_pages_from [OF assms this, of "Suc (length (task_log t d))"] show ?thesis by simp
qed

end
