(* ===== verification/Lanes.thy ===== *)
theory Lanes
  imports TaskEvents
begin

text \<open>
  The execution lane of an Attempt: which Dispatch or wait currently owns it.
  \<open>runtime/dispatch/currentness.py\<close> (the lane primitives),
  \<open>runtime/dispatch/opening.py\<close> (staging a starting Dispatch),
  \<open>runtime/node_operations/source_transitions.py\<close> and \<open>runtime/control_transitions.py\<close>
  (closing every current Dispatch of a Task). A primitive that returns a boolean in the
  code returns an option here: \<open>None\<close> is False, where the caller abandons the transaction.
  \<open>lanes_ok\<close> is the lane invariant, the deferred foreign keys between \<open>attempts\<close>,
  \<open>dispatch_turns\<close> and \<open>attempt_waits\<close>.
\<close>

subsection \<open>Identities and current ownership\<close>

record dispatch_identity =
  di_task_id :: ident
  di_assignment_id :: ident
  di_attempt_id :: ident
  di_dispatch_id :: ident

record wait_identity =
  wi_task_id :: ident
  wi_assignment_id :: ident
  wi_attempt_id :: ident
  wi_wait_id :: ident

text \<open>The \<open>where\<close> clause on \<open>AttemptModel\<close> shared by the lane statements.\<close>

definition attempt_owned_by :: "dispatch_identity \<Rightarrow> attempt_row \<Rightarrow> bool" where
  "attempt_owned_by i a \<longleftrightarrow>
     at_attempt_id a = di_attempt_id i \<and> at_task_id a = di_task_id i \<and>
     at_assignment_id a = di_assignment_id i \<and> at_status a = AttRunning \<and>
     at_current_dispatch_id a = Some (di_dispatch_id i) \<and> at_current_wait_id a = None"

definition attempt_dispatch_is_current :: "dispatch_identity \<Rightarrow> db \<Rightarrow> bool" where
  "attempt_dispatch_is_current i d = list_ex (attempt_owned_by i) (attempts d)"

definition dispatch_attempt_is_current :: "dispatch_row \<Rightarrow> db \<Rightarrow> bool" where
  "dispatch_attempt_is_current t d =
     list_ex (\<lambda>a. at_attempt_id a = dt_attempt_id t \<and> at_task_id a = dt_task_id t \<and>
       at_assignment_id a = dt_assignment_id t \<and> at_status a = AttRunning \<and>
       at_current_dispatch_id a = Some (dt_dispatch_id t) \<and> at_current_wait_id a = None)
       (attempts d)"

definition claim_running_task :: "dispatch_identity \<Rightarrow> db \<Rightarrow> bool" where
  "claim_running_task i d =
     list_ex (\<lambda>t. tk_task_id t = di_task_id i \<and> tk_status t = TaskRunning \<and>
       attempt_dispatch_is_current i d) (tasks d)"

text \<open>The column values written when a Dispatch closes.\<close>

definition close_dispatch_row :: "time \<Rightarrow> closed_reason \<Rightarrow> dispatch_row \<Rightarrow> dispatch_row" where
  "close_dispatch_row now reason t =
     t\<lparr>dt_status := Closed, dt_closed_at := Some now, dt_closed_reason := Some reason,
       dt_next_provider_start_at := None, dt_provider_start_retry_kind := None\<rparr>"

definition dispatch_matches :: "dispatch_identity \<Rightarrow> dispatch_row \<Rightarrow> bool" where
  "dispatch_matches i t \<longleftrightarrow>
     dt_dispatch_id t = di_dispatch_id i \<and> dt_task_id t = di_task_id i \<and>
     dt_assignment_id t = di_assignment_id i \<and> dt_attempt_id t = di_attempt_id i \<and>
     dispatch_is_active t"

subsection \<open>Lane primitives\<close>

definition clear_current_attempt_dispatch :: "dispatch_identity \<Rightarrow> db \<Rightarrow> db option" where
  "clear_current_attempt_dispatch i d =
     map_option (\<lambda>as. d\<lparr>attempts := as\<rparr>)
       (update_where (attempt_owned_by i) (\<lambda>a. a\<lparr>at_current_dispatch_id := None\<rparr>) (attempts d))"

definition close_current_attempt_dispatch ::
    "dispatch_identity \<Rightarrow> ident \<Rightarrow> time \<Rightarrow> closed_reason \<Rightarrow> db \<Rightarrow> db option" where
  "close_current_attempt_dispatch i team_revision now reason d =
     (if \<not> claim_running_task i d then None
      else Option.bind
        (update_where
          (\<lambda>t. dispatch_matches i t \<and> dt_team_revision_id t = team_revision \<and>
               attempt_dispatch_is_current i d)
          (close_dispatch_row now reason) (dispatches d))
        (\<lambda>ds. clear_current_attempt_dispatch i (d\<lparr>dispatches := ds\<rparr>)))"

definition suspend_current_attempt_on_wait ::
    "dispatch_identity \<Rightarrow> ident \<Rightarrow> ident \<Rightarrow> time \<Rightarrow> closed_reason \<Rightarrow> db \<Rightarrow> db option" where
  "suspend_current_attempt_on_wait i wait_id team_revision now reason d =
     (if \<not> list_ex (\<lambda>t. tk_task_id t = di_task_id i \<and> tk_status t = TaskRunning \<and>
            attempt_dispatch_is_current i d \<and>
            list_ex (\<lambda>w. aw_wait_id w = wait_id \<and> aw_task_id w = di_task_id i \<and>
              aw_assignment_id w = di_assignment_id i \<and> aw_attempt_id w = di_attempt_id i \<and>
              aw_source_dispatch_id w = di_dispatch_id i) (waits d) \<and>
            list_ex (\<lambda>t. dispatch_matches i t \<and> dt_team_revision_id t = team_revision)
              (dispatches d)) (tasks d)
      then None
      else Option.bind
        (update_where
          (\<lambda>t. dispatch_matches i t \<and> dt_team_revision_id t = team_revision \<and>
               attempt_dispatch_is_current i d)
          (close_dispatch_row now reason) (dispatches d))
        (\<lambda>ds. map_option (\<lambda>as. d\<lparr>dispatches := ds, attempts := as\<rparr>)
          (update_where (attempt_owned_by i)
            (\<lambda>a. a\<lparr>at_current_dispatch_id := None, at_current_wait_id := Some wait_id\<rparr>)
            (attempts d))))"

definition select_starting_dispatch_for_attempt ::
    "dispatch_identity \<Rightarrow> ident option \<Rightarrow> db \<Rightarrow> db option" where
  "select_starting_dispatch_for_attempt i predecessor d =
     map_option (\<lambda>as. d\<lparr>attempts := as\<rparr>)
       (update_where
         (\<lambda>a. at_attempt_id a = di_attempt_id i \<and> at_task_id a = di_task_id i \<and>
              at_assignment_id a = di_assignment_id i \<and> at_status a = AttRunning \<and>
              at_current_wait_id a = None \<and>
              (at_current_dispatch_id a = None \<or>
               predecessor \<noteq> None \<and> at_current_dispatch_id a = predecessor))
         (\<lambda>a. a\<lparr>at_current_dispatch_id := Some (di_dispatch_id i)\<rparr>) (attempts d))"

definition clear_current_attempt_wait :: "wait_identity \<Rightarrow> db \<Rightarrow> db option" where
  "clear_current_attempt_wait i d =
     map_option (\<lambda>as. d\<lparr>attempts := as\<rparr>)
       (update_where
         (\<lambda>a. at_attempt_id a = wi_attempt_id i \<and> at_task_id a = wi_task_id i \<and>
              at_assignment_id a = wi_assignment_id i \<and> at_status a = AttRunning \<and>
              at_current_dispatch_id a = None \<and> at_current_wait_id a = Some (wi_wait_id i))
         (\<lambda>a. a\<lparr>at_current_wait_id := None\<rparr>) (attempts d))"

subsection \<open>Staging a starting Dispatch\<close>

record resume_event_basis =
  re_control_revision :: int
  re_actor_ref :: "string option"
  re_event_source :: event_source

record starting_basis =
  sb_task_id :: ident
  sb_assignment_id :: ident
  sb_team_revision_id :: ident
  sb_member_id :: ident
  sb_member_configuration_id :: ident
  sb_member_branch_basis_id :: ident
  sb_attempt_id :: ident
  sb_opened_reason :: opened_reason
  sb_predecessor_dispatch_id :: "ident option"
  sb_task_start_source_task_id :: "ident option"
  sb_resume_event :: "resume_event_basis option"

text \<open>\<open>PreparedDispatchRequest\<close>: the rendered request and resolved provider of one Dispatch.\<close>

record prepared_request =
  pr_dispatch_id :: ident
  pr_due_at :: time
  pr_provider :: provider_pins
  pr_capabilities :: capability_set
  pr_instructions :: string
  pr_input :: string

definition build_starting_dispatch_model ::
    "starting_basis \<Rightarrow> prepared_request \<Rightarrow> dispatch_row" where
  "build_starting_dispatch_model b p =
     \<lparr>dt_dispatch_id = pr_dispatch_id p, dt_task_id = sb_task_id b,
      dt_assignment_id = sb_assignment_id b, dt_team_revision_id = sb_team_revision_id b,
      dt_member_id = sb_member_id b,
      dt_member_configuration_id = sb_member_configuration_id b,
      dt_member_branch_basis_id = sb_member_branch_basis_id b,
      dt_attempt_id = sb_attempt_id b,
      dt_task_start_source_task_id = sb_task_start_source_task_id b,
      dt_predecessor_dispatch_id = sb_predecessor_dispatch_id b,
      dt_status = Starting, dt_opened_reason = sb_opened_reason b,
      dt_provider = pr_provider p,
      dt_provider_start_revision = 0, dt_provider_start_attempt_count = 0,
      dt_next_provider_start_at = Some (pr_due_at p),
      dt_provider_start_retry_kind = Some RInitial,
      dt_provider_start_last_error_code = None,
      dt_created_at = pr_due_at p, dt_adapter_started_at = None,
      dt_last_node_activity_at = None, dt_node_activity_revision = 0,
      dt_closed_at = None, dt_closed_reason = None\<rparr>"

definition dispatch_opened_event :: "starting_basis \<Rightarrow> prepared_request \<Rightarrow> event_draft" where
  "dispatch_opened_event b p =
     \<lparr>ed_task_id = sb_task_id b, ed_event_type = DISPATCH_OPENED,
      ed_event_source = SrcController, ed_occurred_at = pr_due_at p,
      ed_team_revision_id = Some (sb_team_revision_id b),
      ed_dispatch_id = Some (pr_dispatch_id p), ed_attempt_id = Some (sb_attempt_id b),
      ed_member_id = Some (sb_member_id b), ed_actor_ref = None,
      ed_payload =
        [(''dispatch_id'', JStr (pr_dispatch_id p)),
         (''predecessor_dispatch_id'', json_opt (sb_predecessor_dispatch_id b)),
         (''assignment_id'', JStr (sb_assignment_id b)),
         (''attempt_id'', JStr (sb_attempt_id b)),
         (''member_id'', JStr (sb_member_id b)),
         (''status'', JStr ''starting''),
         (''opened_reason'', JStr (opened_reason_value (sb_opened_reason b))),
         (''requested_provider'', JStr (pv_requested_provider (pr_provider p))),
         (''resolved_provider'', JStr (pv_resolved_provider (pr_provider p))),
         (''selection_basis'', JStr (pv_selection_basis (pr_provider p)))]\<rparr>"

definition task_resumed_event ::
    "starting_basis \<Rightarrow> prepared_request \<Rightarrow> resume_event_basis \<Rightarrow> event_draft" where
  "task_resumed_event b p r =
     \<lparr>ed_task_id = sb_task_id b, ed_event_type = TASK_RESUMED,
      ed_event_source = re_event_source r, ed_occurred_at = pr_due_at p,
      ed_team_revision_id = Some (sb_team_revision_id b),
      ed_dispatch_id = Some (pr_dispatch_id p), ed_attempt_id = Some (sb_attempt_id b),
      ed_member_id = Some (sb_member_id b), ed_actor_ref = re_actor_ref r,
      ed_payload =
        [(''control_revision'', JInt (re_control_revision r)),
         (''actor_ref'', json_opt (re_actor_ref r)),
         (''summary'', JStr ''Resumed by operator from the retained exact source.'')]\<rparr>"

text \<open>
  Inserting into \<open>dispatch_turns\<close>: the CHECK constraints, the primary key, the unique
  predecessor, and the two partial unique indexes (one first Dispatch and one current Dispatch per Attempt).
\<close>

definition insert_dispatch :: "dispatch_row \<Rightarrow> dispatch_row list \<Rightarrow> dispatch_row list result" where
  "insert_dispatch = insert_checked ck_dispatch
     [dt_predecessor_dispatch_id,
      \<lambda>t. if dt_predecessor_dispatch_id t = None then Some (dt_attempt_id t) else None,
      \<lambda>t. if dispatch_is_active t then Some (dt_attempt_id t) else None] dt_dispatch_id"

definition add_dispatch_support_records :: "prepared_request \<Rightarrow> db \<Rightarrow> db result" where
  "add_dispatch_support_records p d =
     and_then (insert_row dq_dispatch_id
       \<lparr>dq_dispatch_id = pr_dispatch_id p, dq_instructions = pr_instructions p,
        dq_input = pr_input p, dq_created_at = pr_due_at p\<rparr> (dispatch_requests d))
     (\<lambda>qs. and_then (insert_row dc_dispatch_id
       \<lparr>dc_dispatch_id = pr_dispatch_id p, dc_capabilities = pr_capabilities p,
        dc_created_at = pr_due_at p\<rparr> (dispatch_capabilities d))
     (\<lambda>cs. Inr (d\<lparr>dispatch_requests := qs, dispatch_capabilities := cs\<rparr>)))"

definition stage_starting_dispatch ::
    "env \<Rightarrow> starting_basis \<Rightarrow> prepared_request \<Rightarrow> db \<Rightarrow> db result" where
  "stage_starting_dispatch env b p d =
     and_then (require (AttemptDispatchConflictError ''Attempt no longer accepts Dispatch'')
       (select_starting_dispatch_for_attempt
         \<lparr>di_task_id = sb_task_id b, di_assignment_id = sb_assignment_id b,
          di_attempt_id = sb_attempt_id b, di_dispatch_id = pr_dispatch_id p\<rparr>
         (sb_predecessor_dispatch_id b) d))
     (\<lambda>d1. and_then (insert_dispatch (build_starting_dispatch_model b p) (dispatches d1))
     (\<lambda>ds. and_then (append_task_event env (dispatch_opened_event b p) (d1\<lparr>dispatches := ds\<rparr>))
     (\<lambda>d2. and_then
       (case sb_resume_event b of
          None \<Rightarrow> Inr d2
        | Some r \<Rightarrow> append_task_event env (task_resumed_event b p r) d2)
     (\<lambda>d3. add_dispatch_support_records p d3))))"

text \<open>\<open>close_source_dispatch\<close>: the exact current Dispatch of the caller closes.\<close>

definition close_source_dispatch ::
    "dispatch_identity \<Rightarrow> ident \<Rightarrow> time \<Rightarrow> closed_reason \<Rightarrow> db \<Rightarrow> db result" where
  "close_source_dispatch i team_revision now reason d =
     require (conflict_error ''another transition already changed current Attempt authority'')
       (close_current_attempt_dispatch i team_revision now reason d)"

subsection \<open>Task-wide control\<close>

text \<open>
  \<open>_read_current_task_dispatches\<close>: the join of running, unwaited Attempts with their active
  current Dispatch, ordered by Assignment, Attempt and Dispatch.
\<close>

fun string_less_eq :: "string \<Rightarrow> string \<Rightarrow> bool" where
  "string_less_eq [] s = True"
| "string_less_eq (c # cs) [] = False"
| "string_less_eq (c # cs) (e # es) =
     ((of_char c :: nat) < of_char e \<or> c = e \<and> string_less_eq cs es)"

fun lane_less_eq :: "ident \<times> ident \<times> ident \<Rightarrow> ident \<times> ident \<times> ident \<Rightarrow> bool" where
  "lane_less_eq (a, b, c) (a', b', c') =
     (if a \<noteq> a' then string_less_eq a a' else if b \<noteq> b' then string_less_eq b b'
      else string_less_eq c c')"

fun insert_lane ::
    "ident \<times> ident \<times> ident \<Rightarrow> (ident \<times> ident \<times> ident) list \<Rightarrow> (ident \<times> ident \<times> ident) list" where
  "insert_lane x [] = [x]"
| "insert_lane x (y # ys) = (if lane_less_eq x y then x # y # ys else y # insert_lane x ys)"

definition order_lanes :: "(ident \<times> ident \<times> ident) list \<Rightarrow> (ident \<times> ident \<times> ident) list" where
  "order_lanes xs = foldr insert_lane xs []"

definition read_current_task_dispatches :: "ident \<Rightarrow> db \<Rightarrow> (ident \<times> ident \<times> ident) list" where
  "read_current_task_dispatches task d =
     order_lanes
       (map (\<lambda>(a, t). (at_assignment_id a, at_attempt_id a, dt_dispatch_id t))
         (filter (\<lambda>(a, t). dt_task_id t = at_task_id a \<and>
              dt_assignment_id t = at_assignment_id a \<and> dt_attempt_id t = at_attempt_id a \<and>
              at_current_dispatch_id a = Some (dt_dispatch_id t) \<and>
              at_task_id a = task \<and> at_status a = AttRunning \<and>
              at_current_wait_id a = None \<and> dispatch_is_active t)
           (List.product (attempts d) (dispatches d))))"

definition dispatch_changed :: failure where
  "dispatch_changed = TaskDispatchControlConflictError
     ''a current Attempt Dispatch changed before Task control''"

definition close_current_task_dispatch ::
    "ident \<Rightarrow> ident \<times> ident \<times> ident \<Rightarrow> closed_reason \<Rightarrow> time \<Rightarrow> db \<Rightarrow> db result" where
  "close_current_task_dispatch task lane reason now d =
     (case lane of (assignment, attempt, dispatch) \<Rightarrow>
       and_then (require dispatch_changed
         (update_where (dispatch_matches \<lparr>di_task_id = task, di_assignment_id = assignment,
             di_attempt_id = attempt, di_dispatch_id = dispatch\<rparr>)
           (close_dispatch_row now reason) (dispatches d)))
       (\<lambda>ds. Inr (d\<lparr>dispatches := ds\<rparr>)))"

definition clear_attempt_current_dispatch ::
    "ident \<Rightarrow> ident \<times> ident \<times> ident \<Rightarrow> db \<Rightarrow> db result" where
  "clear_attempt_current_dispatch task lane d =
     (case lane of (assignment, attempt, dispatch) \<Rightarrow>
       require dispatch_changed
         (clear_current_attempt_dispatch \<lparr>di_task_id = task, di_assignment_id = assignment,
             di_attempt_id = attempt, di_dispatch_id = dispatch\<rparr> d))"

definition all_current_task_dispatches_closed :: "ident \<Rightarrow> db \<Rightarrow> bool" where
  "all_current_task_dispatches_closed task d \<longleftrightarrow>
     \<not> list_ex (\<lambda>a. at_task_id a = task \<and> at_status a = AttRunning \<and>
         at_current_dispatch_id a \<noteq> None) (attempts d)"

definition close_current_task_dispatches ::
    "ident \<Rightarrow> closed_reason \<Rightarrow> time \<Rightarrow> (ident \<Rightarrow> closed_reason option) \<Rightarrow> db \<Rightarrow>
       (ident list \<times> db) result" where
  "close_current_task_dispatches task reason now overrides d =
     (let lanes = read_current_task_dispatches task d in
      and_then (fold_result (\<lambda>lane s.
          and_then (close_current_task_dispatch task lane
            (case overrides (snd (snd lane)) of None \<Rightarrow> reason | Some r \<Rightarrow> r) now s)
            (clear_attempt_current_dispatch task lane)) lanes d)
      (\<lambda>d'. and_then (require_that (TaskDispatchControlConflictError
            ''Task control did not settle every current Attempt Dispatch'')
          (all_current_task_dispatches_closed task d'))
        (\<lambda>_. Inr (map (snd \<circ> snd) lanes, d'))))"


text \<open>
  \<open>pause_task_for_runtime_transition_failure\<close>: the Task the correlated condition
  \<open>source_is_current\<close> holds for pauses, and its runnable lanes close. No such Task is the
  empty tuple, and the transaction is rolled back.
\<close>

definition pause_runtime_failure_event ::
    "ident \<Rightarrow> ident option \<Rightarrow> int \<Rightarrow> string \<Rightarrow> time \<Rightarrow> event_draft" where
  "pause_runtime_failure_event task team_revision control failure_code now =
     \<lparr>ed_task_id = task, ed_event_type = TASK_PAUSED, ed_event_source = SrcController,
      ed_occurred_at = now, ed_team_revision_id = team_revision, ed_dispatch_id = None,
      ed_attempt_id = None, ed_member_id = None, ed_actor_ref = Some ''controller.runtime'',
      ed_payload =
        [(''pause_reason'', JStr ''runtime_transition_failed''),
         (''control_revision'', JInt control),
         (''actor_ref'', JStr ''controller.runtime''),
         (''summary'', JStr (''Runtime continuation could not continue: '' @ failure_code @ ''.''))]\<rparr>"

definition pause_task_for_runtime_transition_failure ::
    "env \<Rightarrow> (task_row \<Rightarrow> db \<Rightarrow> bool) \<Rightarrow> time \<Rightarrow> (string \<times> string) list \<Rightarrow> string \<Rightarrow> db \<Rightarrow>
       (ident list \<times> db) result" where
  "pause_task_for_runtime_transition_failure env source_is_current now details failure_code d =
     (let p = (\<lambda>t. tk_status t = TaskRunning \<and> source_is_current t d);
          f = (\<lambda>t. t\<lparr>tk_status := TaskPaused,
                 tk_pause_reason := Some ''runtime_transition_failed'',
                 tk_pause_details :=
                   Some (map (\<lambda>(k, v). (k, JStr v)) (details @ [(''failure_code'', failure_code)])),
                 tk_paused_at := Some now,
                 tk_paused_by_actor_ref := Some ''controller.runtime'',
                 tk_control_revision := tk_control_revision t + 1,
                 tk_updated_at := now\<rparr>)
      in case find p (tasks d) of
           None \<Rightarrow> Inr ([], d)
         | Some t \<Rightarrow>
             and_then (close_current_task_dispatches (tk_task_id t) CPaused now Map.empty
               (d\<lparr>tasks := map (\<lambda>r. if p r then f r else r) (tasks d)\<rparr>))
             (\<lambda>(closed, d1).
               and_then (append_task_event env
                   (pause_runtime_failure_event (tk_task_id t) (tk_current_team_revision_id t)
                      (tk_control_revision t + 1) failure_code now) d1)
                 (\<lambda>d2. Inr (closed, d2))))"

end
