(* ===== verification/LaneInvariant.thy ===== *)
theory LaneInvariant
  imports Lanes
begin

text \<open>
  The lane invariant and how the primitives of \<open>Lanes\<close> keep it. The deferred foreign keys
  between \<open>attempts\<close>, \<open>dispatch_turns\<close> and \<open>attempt_waits\<close> are stated over the sets of
  rows; each rule below is one composite change of a lane (occupy, release, suspend, wake).
\<close>

subsection \<open>The invariant\<close>

definition attempt_owns_dispatch :: "attempt_row \<Rightarrow> dispatch_row \<Rightarrow> bool" where
  "attempt_owns_dispatch a t \<longleftrightarrow>
     dt_attempt_id t = at_attempt_id a \<and> dt_assignment_id t = at_assignment_id a \<and>
     dt_task_id t = at_task_id a \<and> at_current_dispatch_id a = Some (dt_dispatch_id t)"

definition attempt_owns_wait :: "attempt_row \<Rightarrow> wait_row \<Rightarrow> bool" where
  "attempt_owns_wait a w \<longleftrightarrow>
     aw_attempt_id w = at_attempt_id a \<and> aw_assignment_id w = at_assignment_id a \<and>
     aw_task_id w = at_task_id a \<and> at_current_wait_id a = Some (aw_wait_id w)"

text \<open>
  Foreign keys \<open>fk_attempts_current_dispatch_owner\<close> and \<open>fk_dispatch_turns_current_attempt_owner\<close>,
  \<open>fk_attempts_current_wait_owner\<close> and \<open>fk_attempt_waits_current_attempt_owner\<close>: a pointer
  selects an active Dispatch (a stored wait) of this Attempt, and every active Dispatch
  (every stored wait) is so selected.
\<close>

definition lanes_wf :: "attempt_row set \<Rightarrow> dispatch_row set \<Rightarrow> wait_row set \<Rightarrow> bool" where
  "lanes_wf A D W \<longleftrightarrow>
     inj_on at_attempt_id A \<and> inj_on dt_dispatch_id D \<and> inj_on aw_wait_id W \<and>
     (\<forall>a \<in> A. at_current_dispatch_id a \<noteq> None \<longrightarrow>
        (\<exists>t \<in> D. dispatch_is_active t \<and> attempt_owns_dispatch a t)) \<and>
     (\<forall>t \<in> D. dispatch_is_active t \<longrightarrow> (\<exists>a \<in> A. attempt_owns_dispatch a t)) \<and>
     (\<forall>a \<in> A. at_current_wait_id a \<noteq> None \<longrightarrow> (\<exists>w \<in> W. attempt_owns_wait a w)) \<and>
     (\<forall>w \<in> W. \<exists>a \<in> A. attempt_owns_wait a w)"

text \<open>With the keys and CHECK constraints of the three tables: the lane invariant.\<close>

definition lanes_ok :: "db \<Rightarrow> bool" where
  "lanes_ok d \<longleftrightarrow>
     keyed at_attempt_id (attempts d) \<and> keyed dt_dispatch_id (dispatches d) \<and>
     keyed aw_wait_id (waits d) \<and>
     lanes_wf (set (attempts d)) (set (dispatches d)) (set (waits d)) \<and>
     (\<forall>a \<in> set (attempts d). ck_attempt a) \<and> (\<forall>t \<in> set (dispatches d). ck_dispatch t) \<and>
     (\<forall>w \<in> set (waits d). ck_wait w)"

text \<open>What no lane change touches: the owner columns of a row.\<close>

definition same_attempt :: "attempt_row \<Rightarrow> attempt_row \<Rightarrow> bool" where
  "same_attempt a b \<longleftrightarrow> at_attempt_id a = at_attempt_id b \<and>
     at_assignment_id a = at_assignment_id b \<and> at_task_id a = at_task_id b"

definition same_dispatch :: "dispatch_row \<Rightarrow> dispatch_row \<Rightarrow> bool" where
  "same_dispatch t u \<longleftrightarrow> dt_dispatch_id t = dt_dispatch_id u \<and> dt_attempt_id t = dt_attempt_id u \<and>
     dt_assignment_id t = dt_assignment_id u \<and> dt_task_id t = dt_task_id u"

lemmas lane_defs = attempt_owns_dispatch_def attempt_owns_wait_def same_attempt_def
  same_dispatch_def

subsection \<open>Consequences\<close>

lemma lanes_ok_keys:
  "lanes_ok d \<Longrightarrow> keyed at_attempt_id (attempts d)"
  "lanes_ok d \<Longrightarrow> keyed dt_dispatch_id (dispatches d)"
  "lanes_ok d \<Longrightarrow> keyed aw_wait_id (waits d)"
  "lanes_ok d \<Longrightarrow> lanes_wf (set (attempts d)) (set (dispatches d)) (set (waits d))"
  "lanes_ok d \<Longrightarrow> a \<in> set (attempts d) \<Longrightarrow> ck_attempt a"
  "lanes_ok d \<Longrightarrow> t \<in> set (dispatches d) \<Longrightarrow> ck_dispatch t"
  "lanes_ok d \<Longrightarrow> w \<in> set (waits d) \<Longrightarrow> ck_wait w"
  by (simp_all add: lanes_ok_def)

lemma keyed_inj_on: "keyed key rs \<Longrightarrow> inj_on key (set rs)"
  by (simp add: keyed_def distinct_map)

lemma lanes_wf_one_active:
  assumes "lanes_wf A D W" and "t \<in> D" "u \<in> D" and "dispatch_is_active t" "dispatch_is_active u"
    and "dt_attempt_id t = dt_attempt_id u"
  shows "t = u"
proof -
  obtain a b where ab: "a \<in> A" "attempt_owns_dispatch a t" "b \<in> A" "attempt_owns_dispatch b u"
    using assms unfolding lanes_wf_def by meson
  moreover have "at_attempt_id a = at_attempt_id b" using ab(2,4) assms(6) unfolding lane_defs by argo
  moreover have "inj_on at_attempt_id A" using assms(1) by (simp add: lanes_wf_def)
  ultimately have "a = b" by (meson inj_onD)
  with ab(2,4) have "dt_dispatch_id t = dt_dispatch_id u"
    unfolding lane_defs by (metis option.inject)
  moreover have "inj_on dt_dispatch_id D" using assms(1) by (simp add: lanes_wf_def)
  ultimately show ?thesis using assms(2,3) by (meson inj_onD)
qed

subsection \<open>Lane changes\<close>

lemma inj_on_replace:
  "inj_on key A \<Longrightarrow> a \<in> A \<Longrightarrow> key b = key a \<Longrightarrow> inj_on key (insert b (A - {a}))"
  by (auto simp: inj_on_def)

lemma inj_on_extend: "inj_on key A \<Longrightarrow> key b \<notin> key ` A \<Longrightarrow> inj_on key (insert b A)"
  unfolding inj_on_insert by blast

text \<open>Release: the current Dispatch closes and the Attempt's pointer clears.\<close>

lemma lanes_wf_release:
  assumes wf: "lanes_wf A D W" and a: "a \<in> A" and t: "t \<in> D"
    and own: "attempt_owns_dispatch a t" "dispatch_is_active t" and nowait: "at_current_wait_id a = None"
    and a': "same_attempt a' a" "at_current_dispatch_id a' = None" "at_current_wait_id a' = None"
    and t': "same_dispatch t' t" "\<not> dispatch_is_active t'"
  shows "lanes_wf (insert a' (A - {a})) (insert t' (D - {t})) W"
  unfolding lanes_wf_def
proof (intro conjI ballI impI)
  show "inj_on at_attempt_id (insert a' (A - {a}))"
    using wf a a'(1) by (intro inj_on_replace) (auto simp: lanes_wf_def same_attempt_def)
  show "inj_on dt_dispatch_id (insert t' (D - {t}))"
    using wf t t'(1) by (intro inj_on_replace) (auto simp: lanes_wf_def same_dispatch_def)
  show "inj_on aw_wait_id W" using wf by (simp add: lanes_wf_def)
next
  fix b assume b: "b \<in> insert a' (A - {a})" "at_current_dispatch_id b \<noteq> None"
  then have bA: "b \<in> A" "b \<noteq> a" using a' by auto
  then obtain u where u: "u \<in> D" "dispatch_is_active u" "attempt_owns_dispatch b u"
    using wf b unfolding lanes_wf_def by meson
  have "u \<noteq> t"
    using u own bA a wf by (auto simp: lanes_wf_def lane_defs dest: inj_onD)
  with u show "\<exists>t \<in> insert t' (D - {t}). dispatch_is_active t \<and> attempt_owns_dispatch b t" by blast
next
  fix u assume u: "u \<in> insert t' (D - {t})" "dispatch_is_active u"
  then have uD: "u \<in> D" "u \<noteq> t" using t' by auto
  then obtain b where b: "b \<in> A" "attempt_owns_dispatch b u"
    using wf u unfolding lanes_wf_def by meson
  have "b \<noteq> a" using b own uD t wf by (auto simp: lanes_wf_def lane_defs dest: inj_onD)
  with b show "\<exists>a \<in> insert a' (A - {a}). attempt_owns_dispatch a u" by blast
next
  fix b assume "b \<in> insert a' (A - {a})" "at_current_wait_id b \<noteq> None"
  then show "\<exists>w \<in> W. attempt_owns_wait b w" using wf a' by (auto simp: lanes_wf_def)
next
  fix w assume "w \<in> W"
  then obtain b where b: "b \<in> A" "attempt_owns_wait b w" using wf unfolding lanes_wf_def by meson
  then have "b \<noteq> a" using nowait by (auto simp: lane_defs)
  with b show "\<exists>a \<in> insert a' (A - {a}). attempt_owns_wait a w" by blast
qed

text \<open>Park: an Attempt with no Dispatch and no wait selects a newly stored wait.\<close>

lemma lanes_wf_park:
  assumes wf: "lanes_wf A D W" and a: "a \<in> A"
    and idle: "at_current_dispatch_id a = None" "at_current_wait_id a = None"
    and a': "same_attempt a' a" "at_current_dispatch_id a' = None" "attempt_owns_wait a' w"
    and fresh: "aw_wait_id w \<notin> aw_wait_id ` W"
  shows "lanes_wf (insert a' (A - {a})) D (insert w W)"
  unfolding lanes_wf_def
proof (intro conjI ballI impI)
  show "inj_on at_attempt_id (insert a' (A - {a}))"
    using wf a a'(1) by (intro inj_on_replace) (auto simp: lanes_wf_def same_attempt_def)
  show "inj_on dt_dispatch_id D" using wf by (simp add: lanes_wf_def)
  show "inj_on aw_wait_id (insert w W)"
    using wf fresh by (intro inj_on_extend) (auto simp: lanes_wf_def)
next
  fix b assume "b \<in> insert a' (A - {a})" "at_current_dispatch_id b \<noteq> None"
  then show "\<exists>t \<in> D. dispatch_is_active t \<and> attempt_owns_dispatch b t"
    using wf a' by (auto simp: lanes_wf_def)
next
  fix u assume u: "u \<in> D" "dispatch_is_active u"
  then obtain b where b: "b \<in> A" "attempt_owns_dispatch b u"
    using wf unfolding lanes_wf_def by meson
  then have "b \<noteq> a" using idle by (auto simp: lane_defs)
  with b show "\<exists>a \<in> insert a' (A - {a}). attempt_owns_dispatch a u" by blast
next
  fix b assume "b \<in> insert a' (A - {a})" "at_current_wait_id b \<noteq> None"
  then show "\<exists>w \<in> insert w W. attempt_owns_wait b w" using wf a' by (auto simp: lanes_wf_def)
next
  fix v assume v: "v \<in> insert w W"
  show "\<exists>a \<in> insert a' (A - {a}). attempt_owns_wait a v"
  proof (cases "v = w")
    case False
    with v obtain b where b: "b \<in> A" "attempt_owns_wait b v"
      using wf unfolding lanes_wf_def by (metis insertE)
    then have "b \<noteq> a" using idle by (auto simp: lane_defs)
    with b show ?thesis by blast
  qed (use a' in blast)
qed

text \<open>Wake: an Attempt drops its wait and the wait row is deleted.\<close>

lemma lanes_wf_wake:
  assumes wf: "lanes_wf A D W" and a: "a \<in> A" and w: "w \<in> W" and own: "attempt_owns_wait a w"
    and nodisp: "at_current_dispatch_id a = None"
    and a': "same_attempt a' a" "at_current_dispatch_id a' = None" "at_current_wait_id a' = None"
  shows "lanes_wf (insert a' (A - {a})) D (W - {w})"
  unfolding lanes_wf_def
proof (intro conjI ballI impI)
  show "inj_on at_attempt_id (insert a' (A - {a}))"
    using wf a a'(1) by (intro inj_on_replace) (auto simp: lanes_wf_def same_attempt_def)
  show "inj_on dt_dispatch_id D" using wf by (simp add: lanes_wf_def)
  show "inj_on aw_wait_id (W - {w})" using wf by (auto simp: lanes_wf_def intro: inj_on_subset)
next
  fix b assume "b \<in> insert a' (A - {a})" "at_current_dispatch_id b \<noteq> None"
  then show "\<exists>t \<in> D. dispatch_is_active t \<and> attempt_owns_dispatch b t"
    using wf a' by (auto simp: lanes_wf_def)
next
  fix u assume u: "u \<in> D" "dispatch_is_active u"
  then obtain b where b: "b \<in> A" "attempt_owns_dispatch b u"
    using wf unfolding lanes_wf_def by meson
  then have "b \<noteq> a" using nodisp by (auto simp: lane_defs)
  with b show "\<exists>a \<in> insert a' (A - {a}). attempt_owns_dispatch a u" by blast
next
  fix b assume b: "b \<in> insert a' (A - {a})" "at_current_wait_id b \<noteq> None"
  then have bA: "b \<in> A" "b \<noteq> a" using a' by auto
  then obtain v where v: "v \<in> W" "attempt_owns_wait b v"
    using wf b unfolding lanes_wf_def by meson
  have "v \<noteq> w" using v own bA a wf by (auto simp: lanes_wf_def lane_defs dest: inj_onD)
  with v show "\<exists>w \<in> W - {w}. attempt_owns_wait b w" by blast
next
  fix v assume v: "v \<in> W - {w}"
  then obtain b where b: "b \<in> A" "attempt_owns_wait b v"
    using wf unfolding lanes_wf_def by (metis DiffE)
  have "b \<noteq> a"
    using b own v w wf by (auto simp: lanes_wf_def lane_defs dest: inj_onD)
  with b show "\<exists>a \<in> insert a' (A - {a}). attempt_owns_wait a v" by blast
qed

text \<open>Occupy: an idle Attempt selects a new active Dispatch.\<close>

lemma lanes_wf_occupy:
  assumes wf: "lanes_wf A D W" and a: "a \<in> A"
    and idle: "at_current_dispatch_id a = None" "at_current_wait_id a = None"
    and a': "same_attempt a' a" "at_current_wait_id a' = None" "attempt_owns_dispatch a' t"
    and t: "dispatch_is_active t" and fresh: "dt_dispatch_id t \<notin> dt_dispatch_id ` D"
  shows "lanes_wf (insert a' (A - {a})) (insert t D) W"
  unfolding lanes_wf_def
proof (intro conjI ballI impI)
  show "inj_on at_attempt_id (insert a' (A - {a}))"
    using wf a a'(1) by (intro inj_on_replace) (auto simp: lanes_wf_def same_attempt_def)
  show "inj_on dt_dispatch_id (insert t D)"
    using wf fresh by (intro inj_on_extend) (auto simp: lanes_wf_def)
  show "inj_on aw_wait_id W" using wf by (simp add: lanes_wf_def)
next
  fix b assume b: "b \<in> insert a' (A - {a})" "at_current_dispatch_id b \<noteq> None"
  show "\<exists>u \<in> insert t D. dispatch_is_active u \<and> attempt_owns_dispatch b u"
  proof (cases "b = a'")
    case False
    with b wf show ?thesis unfolding lanes_wf_def by (metis DiffE insertCI insertE)
  qed (use a' t in blast)
next
  fix u assume u: "u \<in> insert t D" "dispatch_is_active u"
  show "\<exists>a \<in> insert a' (A - {a}). attempt_owns_dispatch a u"
  proof (cases "u = t")
    case False
    with u obtain b where b: "b \<in> A" "attempt_owns_dispatch b u"
      using wf unfolding lanes_wf_def by (metis insertE)
    then have "b \<noteq> a" using idle by (auto simp: lane_defs)
    with b show ?thesis by blast
  qed (use a' in blast)
next
  fix b assume "b \<in> insert a' (A - {a})" "at_current_wait_id b \<noteq> None"
  then show "\<exists>w \<in> W. attempt_owns_wait b w" using wf a' by (auto simp: lanes_wf_def)
next
  fix w assume "w \<in> W"
  then obtain b where b: "b \<in> A" "attempt_owns_wait b w" using wf unfolding lanes_wf_def by meson
  then have "b \<noteq> a" using idle by (auto simp: lane_defs)
  with b show "\<exists>a \<in> insert a' (A - {a}). attempt_owns_wait a w" by blast
qed

text \<open>Touch: a change of an Attempt or a Dispatch that keeps owner, pointers and activity.\<close>

lemma ball_replace: "a \<in> A \<Longrightarrow> P b = P a \<Longrightarrow> (\<forall>x \<in> insert b (A - {a}). P x) \<longleftrightarrow> (\<forall>x \<in> A. P x)"
  by blast

lemma bex_replace: "a \<in> A \<Longrightarrow> P b = P a \<Longrightarrow> (\<exists>x \<in> insert b (A - {a}). P x) \<longleftrightarrow> (\<exists>x \<in> A. P x)"
  by blast

lemma lanes_wf_touch_attempt:
  assumes wf: "lanes_wf A D W" and a: "a \<in> A" and a': "same_attempt a' a"
      "at_current_dispatch_id a' = at_current_dispatch_id a"
      "at_current_wait_id a' = at_current_wait_id a"
  shows "lanes_wf (insert a' (A - {a})) D W"
proof -
  have owns: "attempt_owns_dispatch a' t = attempt_owns_dispatch a t"
    "attempt_owns_wait a' w = attempt_owns_wait a w" for t w
    using a' by (auto simp: lane_defs)
  have "inj_on at_attempt_id (insert a' (A - {a}))"
    using wf a a'(1) by (intro inj_on_replace) (auto simp: lanes_wf_def same_attempt_def)
  moreover have "(\<exists>b \<in> insert a' (A - {a}). attempt_owns_dispatch b t) =
      (\<exists>b \<in> A. attempt_owns_dispatch b t)" for t
    by (rule bex_replace [OF a]) (rule owns)
  moreover have "(\<exists>b \<in> insert a' (A - {a}). attempt_owns_wait b w) =
      (\<exists>b \<in> A. attempt_owns_wait b w)" for w
    by (rule bex_replace [OF a]) (rule owns)
  moreover have "(\<forall>b \<in> insert a' (A - {a}). at_current_dispatch_id b \<noteq> None \<longrightarrow>
        (\<exists>t \<in> D. dispatch_is_active t \<and> attempt_owns_dispatch b t)) =
      (\<forall>b \<in> A. at_current_dispatch_id b \<noteq> None \<longrightarrow>
        (\<exists>t \<in> D. dispatch_is_active t \<and> attempt_owns_dispatch b t))"
    by (rule ball_replace [OF a]) (simp add: a' owns)
  moreover have "(\<forall>b \<in> insert a' (A - {a}). at_current_wait_id b \<noteq> None \<longrightarrow>
        (\<exists>w \<in> W. attempt_owns_wait b w)) =
      (\<forall>b \<in> A. at_current_wait_id b \<noteq> None \<longrightarrow> (\<exists>w \<in> W. attempt_owns_wait b w))"
    by (rule ball_replace [OF a]) (simp add: a' owns)
  ultimately show ?thesis using wf unfolding lanes_wf_def
    by - (elim conjE, intro conjI; (assumption | simp only: simp_thms))
qed

lemma lanes_wf_touch_dispatch:
  assumes wf: "lanes_wf A D W" and t: "t \<in> D" and t': "same_dispatch t' t"
      "dispatch_is_active t' = dispatch_is_active t"
  shows "lanes_wf A (insert t' (D - {t})) W"
proof -
  have owns: "attempt_owns_dispatch a t' = attempt_owns_dispatch a t" for a
    using t' by (auto simp: lane_defs)
  have "inj_on dt_dispatch_id (insert t' (D - {t}))"
    using wf t t'(1) by (intro inj_on_replace) (auto simp: lanes_wf_def same_dispatch_def)
  moreover have "(\<exists>u \<in> insert t' (D - {t}). dispatch_is_active u \<and> attempt_owns_dispatch a u) =
      (\<exists>u \<in> D. dispatch_is_active u \<and> attempt_owns_dispatch a u)" for a
    by (rule bex_replace [OF t]) (simp add: t' owns)
  moreover have "(\<forall>u \<in> insert t' (D - {t}). dispatch_is_active u \<longrightarrow>
        (\<exists>a \<in> A. attempt_owns_dispatch a u)) =
      (\<forall>u \<in> D. dispatch_is_active u \<longrightarrow> (\<exists>a \<in> A. attempt_owns_dispatch a u))"
    by (rule ball_replace [OF t]) (simp add: t' owns)
  ultimately show ?thesis using wf unfolding lanes_wf_def
    by - (elim conjE, intro conjI; (assumption | simp only: simp_thms))
qed

text \<open>Open: a new Attempt with no pointers joins the table.\<close>

lemma lanes_wf_new_attempt:
  assumes wf: "lanes_wf A D W" and fresh: "at_attempt_id a \<notin> at_attempt_id ` A"
    and idle: "at_current_dispatch_id a = None" "at_current_wait_id a = None"
  shows "lanes_wf (insert a A) D W"
proof -
  have "inj_on at_attempt_id (insert a A)"
    using wf fresh by (intro inj_on_extend) (simp_all add: lanes_wf_def)
  moreover have "\<exists>b \<in> insert a A. attempt_owns_dispatch b t" if "\<exists>b \<in> A. attempt_owns_dispatch b t" for t
    using that by blast
  moreover have "\<exists>b \<in> insert a A. attempt_owns_wait b w" if "\<exists>b \<in> A. attempt_owns_wait b w" for w
    using that by blast
  ultimately show ?thesis
    using wf idle unfolding lanes_wf_def by (simp only: ball_simps) simp
qed

end
