(* ===== verification/Tables.thy ===== *)
theory Tables
  imports Schema
begin

text \<open>
  Inserting a row: the CHECK constraint, the unique columns and the primary key of each table
  (\<open>persistence/models/runtime/\<close>). The session runs with \<open>autoflush\<close> off, so the database
  checks a staged row at the next flush or at the commit; here the check stands where the
  row is staged, and a failed check fails the whole transaction either way.
\<close>

definition insert_assignment :: "assignment_row \<Rightarrow> assignment_row list \<Rightarrow> assignment_row list result" where
  "insert_assignment = insert_checked ck_assignment
     [\<lambda>a. if as_closed_at a = None then Some (as_task_id a, as_member_id a) else None]
     as_assignment_id"

definition insert_attempt :: "attempt_row \<Rightarrow> attempt_row list \<Rightarrow> attempt_row list result" where
  "insert_attempt = insert_checked ck_attempt [\<lambda>_. None :: unit option] at_attempt_id"

definition insert_checkpoint :: "checkpoint_row \<Rightarrow> checkpoint_row list \<Rightarrow> checkpoint_row list result" where
  "insert_checkpoint = insert_checked (\<lambda>_. True) [\<lambda>_. None :: unit option] cp_checkpoint_id"

definition insert_boundary :: "boundary_row \<Rightarrow> boundary_row list \<Rightarrow> boundary_row list result" where
  "insert_boundary = insert_checked ck_boundary
     [\<lambda>b. Some (ab_source_dispatch_id b), ab_successor_dispatch_id, ab_successor_attempt_id]
     ab_accepted_boundary_id"

definition insert_wait :: "wait_row \<Rightarrow> wait_row list \<Rightarrow> wait_row list result" where
  "insert_wait = insert_checked ck_wait
     [\<lambda>w. Some (aw_attempt_id w), \<lambda>w. Some (aw_source_dispatch_id w),
      aw_delegation_wave_id, aw_human_request_id, aw_command_run_id] aw_wait_id"

definition insert_wave :: "wave_row \<Rightarrow> wave_row list \<Rightarrow> wave_row list result" where
  "insert_wave = insert_checked ck_wave
     [\<lambda>w. Some (dw_source_dispatch_id w), dw_successor_dispatch_id] dw_delegation_wave_id"

definition insert_wave_member :: "wave_member_row \<Rightarrow> wave_member_row list \<Rightarrow> wave_member_row list result" where
  "insert_wave_member = insert_checked ck_wave_member
     [\<lambda>m. Some (dm_child_assignment_id m), dm_terminal_boundary_id]
     (\<lambda>m. (dm_delegation_wave_id m, dm_order_index m))"

definition insert_assignment_file ::
    "assignment_file_row \<Rightarrow> assignment_file_row list \<Rightarrow> assignment_file_row list result" where
  "insert_assignment_file = insert_checked (\<lambda>_. True)
     [\<lambda>f. Some (af_assignment_id f, fr_path (af_file f))]
     (\<lambda>f. (af_assignment_id f, af_order_index f))"

definition insert_checkpoint_file ::
    "checkpoint_file_row \<Rightarrow> checkpoint_file_row list \<Rightarrow> checkpoint_file_row list result" where
  "insert_checkpoint_file = insert_checked (\<lambda>_. True)
     [\<lambda>f. Some (cf_checkpoint_id f, fr_path (cf_file f))]
     (\<lambda>f. (cf_checkpoint_id f, cf_order_index f))"

definition insert_human_request ::
    "human_request_row \<Rightarrow> human_request_row list \<Rightarrow> human_request_row list result" where
  "insert_human_request = insert_checked ck_human_request
     [\<lambda>h. Some (hr_source_dispatch_id h)] hr_request_id"

definition insert_human_file :: "human_file_row \<Rightarrow> human_file_row list \<Rightarrow> human_file_row list result" where
  "insert_human_file = insert_checked (\<lambda>_. True)
     [\<lambda>f. Some (hf_request_id f, fr_path (hf_file f))]
     (\<lambda>f. (hf_request_id f, hf_order_index f))"

definition insert_command_run :: "command_run_row \<Rightarrow> command_run_row list \<Rightarrow> command_run_row list result" where
  "insert_command_run = insert_checked ck_command_run
     [\<lambda>r. Some (Inl (cr_source_dispatch_id r)), \<lambda>r. Some (Inr (cr_task_id r, cr_output_path r))]
     cr_run_id"

lemmas insert_defs = insert_assignment_def insert_attempt_def insert_checkpoint_def
  insert_boundary_def insert_wait_def insert_wave_def insert_wave_member_def
  insert_assignment_file_def insert_checkpoint_file_def insert_human_request_def
  insert_human_file_def insert_command_run_def

text \<open>What a stored row gives: the table grows by it at the end, under a fresh key.\<close>

lemma insert_assignment_Inr:
  "insert_assignment a as = Inr as' \<Longrightarrow>
     as' = as @ [a] \<and> as_assignment_id a \<notin> as_assignment_id ` set as \<and> ck_assignment a"
  by (simp add: insert_assignment_def insert_checked_Inr_iff)

lemma insert_assignment_one_open:
  "insert_assignment a as = Inr as' \<Longrightarrow> as_closed_at a = None \<Longrightarrow> b \<in> set as \<Longrightarrow>
     as_closed_at b = None \<Longrightarrow> as_task_id b = as_task_id a \<Longrightarrow> as_member_id b \<noteq> as_member_id a"
  by (force simp: insert_assignment_def insert_checked_Inr_iff unique_column_def list_ex_iff)

lemma insert_attempt_Inr:
  "insert_attempt a as = Inr as' \<Longrightarrow>
     as' = as @ [a] \<and> at_attempt_id a \<notin> at_attempt_id ` set as \<and> ck_attempt a"
  by (simp add: insert_attempt_def insert_checked_Inr_iff)

lemma insert_checkpoint_Inr:
  "insert_checkpoint c cs = Inr cs' \<Longrightarrow> cs' = cs @ [c] \<and> cp_checkpoint_id c \<notin> cp_checkpoint_id ` set cs"
  by (simp add: insert_checkpoint_def insert_checked_Inr_iff)

lemma insert_boundary_Inr:
  "insert_boundary b bs = Inr bs' \<Longrightarrow>
     bs' = bs @ [b] \<and> ck_boundary b \<and>
     ab_source_dispatch_id b \<notin> ab_source_dispatch_id ` set bs \<and>
     ab_accepted_boundary_id b \<notin> ab_accepted_boundary_id ` set bs"
  by (force simp: insert_boundary_def insert_checked_Inr_iff unique_column_def list_ex_iff)

lemma insert_wait_Inr:
  "insert_wait w ws = Inr ws' \<Longrightarrow>
     ws' = ws @ [w] \<and> ck_wait w \<and> insert_row aw_wait_id w ws = Inr ws'"
  by (auto simp: insert_wait_def insert_checked_Inr_iff insert_row_Inr_iff)

lemma insert_wave_Inr:
  "insert_wave w ws = Inr ws' \<Longrightarrow>
     ws' = ws @ [w] \<and> ck_wave w \<and> dw_delegation_wave_id w \<notin> dw_delegation_wave_id ` set ws"
  by (auto simp: insert_wave_def insert_checked_Inr_iff)

lemma insert_wave_member_Inr:
  "insert_wave_member m ms = Inr ms' \<Longrightarrow>
     ms' = ms @ [m] \<and> ck_wave_member m \<and>
     dm_child_assignment_id m \<notin> dm_child_assignment_id ` set ms"
  by (force simp: insert_wave_member_def insert_checked_Inr_iff unique_column_def list_ex_iff)

lemma insert_human_request_Inr:
  "insert_human_request h hs = Inr hs' \<Longrightarrow>
     hs' = hs @ [h] \<and> ck_human_request h \<and> hr_request_id h \<notin> hr_request_id ` set hs"
  by (auto simp: insert_human_request_def insert_checked_Inr_iff)

lemma insert_command_run_Inr:
  "insert_command_run r rs = Inr rs' \<Longrightarrow>
     rs' = rs @ [r] \<and> ck_command_run r \<and> cr_run_id r \<notin> cr_run_id ` set rs"
  by (auto simp: insert_command_run_def insert_checked_Inr_iff)

end
