(* ===== verification/LaneSteps.thy ===== *)
theory LaneSteps
  imports LaneInvariant Tables
begin

text \<open>
  The lane primitives of \<open>Lanes\<close> as row replacements, and the proof that each of them keeps
  the lane invariant: closing a Dispatch, parking an Attempt on a wait, waking it, staging a
  starting Dispatch, and closing every current Dispatch of a Task.
\<close>

subsection \<open>Row constraints\<close>

lemma ck_close_dispatch_row:
  assumes "ck_dispatch t" and "dispatch_is_active t" and "reason \<noteq> CWatchdogSuperseded"
  shows "ck_dispatch (close_dispatch_row now reason t)"
proof -
  have "reason \<in> set starting_close_reasons"
    using assms(3) by (cases reason) (simp_all add: starting_close_reasons_def)
  then have "check_passes (sql_or (Some b) (sql_in (Some reason) starting_close_reasons))" for b
    by (cases b) (simp_all add: sql_in_def)
  with assms show ?thesis
    by (auto simp: ck_dispatch_def ck_dispatch_source_shape_def close_dispatch_row_def)
qed

text \<open>An open Dispatch may close for any reason.\<close>

lemma ck_close_open_dispatch_row:
  "ck_dispatch t \<Longrightarrow> dt_status t = Open \<Longrightarrow> ck_dispatch (close_dispatch_row now reason t)"
  by (auto simp: ck_dispatch_def ck_dispatch_source_shape_def close_dispatch_row_def)

lemma close_dispatch_row_simps [simp]:
  "dt_dispatch_id (close_dispatch_row now reason t) = dt_dispatch_id t"
  "dt_attempt_id (close_dispatch_row now reason t) = dt_attempt_id t"
  "dt_status (close_dispatch_row now reason t) = Closed"
  "dt_closed_reason (close_dispatch_row now reason t) = Some reason"
  "\<not> dispatch_is_active (close_dispatch_row now reason t)"
  "same_dispatch (close_dispatch_row now reason t) t"
  by (simp_all add: close_dispatch_row_def dispatch_is_active_def same_dispatch_def)

lemma ck_clear_lane:
  "ck_attempt a \<Longrightarrow> ck_attempt (a\<lparr>at_current_dispatch_id := None\<rparr>)"
  "ck_attempt a \<Longrightarrow> ck_attempt (a\<lparr>at_current_wait_id := None\<rparr>)"
  "ck_attempt a \<Longrightarrow> at_status a = AttRunning \<Longrightarrow>
     ck_attempt (a\<lparr>at_current_dispatch_id := None, at_current_wait_id := Some w\<rparr>)"
  "ck_attempt a \<Longrightarrow> at_status a = AttRunning \<Longrightarrow> at_current_wait_id a = None \<Longrightarrow>
     ck_attempt (a\<lparr>at_current_dispatch_id := Some t\<rparr>)"
  by (auto simp: ck_attempt_def)

lemma same_attempt_lane [simp]:
  "same_attempt (a\<lparr>at_current_dispatch_id := x\<rparr>) a"
  "same_attempt (a\<lparr>at_current_wait_id := y\<rparr>) a"
  "same_attempt (a\<lparr>at_current_dispatch_id := x, at_current_wait_id := y\<rparr>) a"
  by (simp_all add: same_attempt_def)

subsection \<open>The primitives as row replacements\<close>

lemma clear_current_attempt_dispatch_iff:
  assumes "keyed at_attempt_id (attempts d)"
  shows "clear_current_attempt_dispatch i d = Some d' \<longleftrightarrow>
    (\<exists>a \<in> set (attempts d). attempt_owned_by i a \<and>
      d' = d\<lparr>attempts := replace_row a (a\<lparr>at_current_dispatch_id := None\<rparr>) (attempts d)\<rparr>)"
proof -
  have key: "\<forall>a. attempt_owned_by i a \<longrightarrow> at_attempt_id a = di_attempt_id i"
    by (simp add: attempt_owned_by_def)
  show ?thesis
    unfolding clear_current_attempt_dispatch_def map_option_eq_Some
      update_unique_iff [OF assms key] by blast
qed

lemma close_current_attempt_dispatch_Some:
  assumes "keyed at_attempt_id (attempts d)" and "keyed dt_dispatch_id (dispatches d)"
    and "close_current_attempt_dispatch i tr now reason d = Some d'"
  obtains a t where "a \<in> set (attempts d)" "attempt_owned_by i a" "t \<in> set (dispatches d)"
    "dispatch_matches i t" "dt_team_revision_id t = tr" "claim_running_task i d"
    "d' = d\<lparr>dispatches := replace_row t (close_dispatch_row now reason t) (dispatches d),
      attempts := replace_row a (a\<lparr>at_current_dispatch_id := None\<rparr>) (attempts d)\<rparr>"
proof -
  let ?p = "\<lambda>t. dispatch_matches i t \<and> dt_team_revision_id t = tr \<and> attempt_dispatch_is_current i d"
  have key: "\<forall>t. ?p t \<longrightarrow> dt_dispatch_id t = di_dispatch_id i"
    by (simp add: dispatch_matches_def)
  obtain ds where ds: "update_where ?p (close_dispatch_row now reason) (dispatches d) = Some ds"
    and cl: "clear_current_attempt_dispatch i (d\<lparr>dispatches := ds\<rparr>) = Some d'"
    and run: "claim_running_task i d"
    using assms(3) by (auto simp: close_current_attempt_dispatch_def bind_eq_Some_conv split: if_splits)
  obtain t where t: "t \<in> set (dispatches d)" "?p t"
      "ds = replace_row t (close_dispatch_row now reason t) (dispatches d)"
    using ds unfolding update_unique_iff [OF assms(2) key] by blast
  have "keyed at_attempt_id (attempts (d\<lparr>dispatches := ds\<rparr>))" using assms(1) by simp
  from cl [unfolded clear_current_attempt_dispatch_iff [OF this]] obtain a where
    "a \<in> set (attempts d)" "attempt_owned_by i a"
    "d' = d\<lparr>dispatches := ds, attempts := replace_row a (a\<lparr>at_current_dispatch_id := None\<rparr>) (attempts d)\<rparr>"
    by auto
  with t run that show thesis by blast
qed

lemma owned_matches_owns:
  "attempt_owned_by i a \<Longrightarrow> dispatch_matches i t \<Longrightarrow> attempt_owns_dispatch a t \<and> dispatch_is_active t"
  by (auto simp: attempt_owned_by_def dispatch_matches_def attempt_owns_dispatch_def)

text \<open>The general release: a current lane closes.\<close>

lemma lanes_ok_release_row:
  assumes ok: "lanes_ok d" and a: "a \<in> set (attempts d)" "attempt_owned_by i a"
    and t: "t \<in> set (dispatches d)" "dispatch_matches i t" and ck: "ck_dispatch (close_dispatch_row now reason t)"
  shows "lanes_ok (d\<lparr>dispatches := replace_row t (close_dispatch_row now reason t) (dispatches d),
    attempts := replace_row a (a\<lparr>at_current_dispatch_id := None\<rparr>) (attempts d)\<rparr>)"
proof -
  have own: "attempt_owns_dispatch a t" "dispatch_is_active t"
    using owned_matches_owns [OF a(2) t(2)] by auto
  have nowait: "at_current_wait_id a = None" using a(2) by (simp add: attempt_owned_by_def)
  have "lanes_wf (insert (a\<lparr>at_current_dispatch_id := None\<rparr>) (set (attempts d) - {a}))
      (insert (close_dispatch_row now reason t) (set (dispatches d) - {t})) (set (waits d))"
    by (rule lanes_wf_release [OF lanes_ok_keys(4) [OF ok] a(1) t(1) own nowait])
      (simp_all add: nowait)
  moreover note ck
  moreover have "ck_attempt (a\<lparr>at_current_dispatch_id := None\<rparr>)"
    using ck_clear_lane(1) lanes_ok_keys(5) [OF ok a(1)] by blast
  ultimately show ?thesis
    using ok a(1) t(1) unfolding lanes_ok_def
    by (simp add: set_replace_row keyed_replace_row)
qed

lemma lanes_ok_release:
  assumes ok: "lanes_ok d" and a: "a \<in> set (attempts d)" "attempt_owned_by i a"
    and t: "t \<in> set (dispatches d)" "dispatch_matches i t" and r: "reason \<noteq> CWatchdogSuperseded"
  shows "lanes_ok (d\<lparr>dispatches := replace_row t (close_dispatch_row now reason t) (dispatches d),
    attempts := replace_row a (a\<lparr>at_current_dispatch_id := None\<rparr>) (attempts d)\<rparr>)"
proof -
  have "dispatch_is_active t" using t(2) by (simp add: dispatch_matches_def)
  then have "ck_dispatch (close_dispatch_row now reason t)"
    by (rule ck_close_dispatch_row [OF lanes_ok_keys(6) [OF ok t(1)] _ r])
  then show ?thesis by (rule lanes_ok_release_row [OF ok a t])
qed

lemma close_current_attempt_dispatch_lanes_ok:
  assumes "lanes_ok d" and "close_current_attempt_dispatch i tr now reason d = Some d'"
    and "reason \<noteq> CWatchdogSuperseded"
  shows "lanes_ok d'"
  using close_current_attempt_dispatch_Some [OF lanes_ok_keys(1,2) [OF assms(1)] assms(2)]
    lanes_ok_release [OF assms(1)] assms(3) by metis


text \<open>The invariant reads three tables only.\<close>

lemma lanes_ok_frame:
  "attempts d' = attempts d \<Longrightarrow> dispatches d' = dispatches d \<Longrightarrow> waits d' = waits d \<Longrightarrow>
     lanes_ok d' = lanes_ok d"
  by (simp add: lanes_ok_def)

subsection \<open>Suspending on a wait and waking\<close>

lemma suspend_current_attempt_on_wait_Some:
  assumes "keyed at_attempt_id (attempts d)" and "keyed dt_dispatch_id (dispatches d)"
    and "suspend_current_attempt_on_wait i wait tr now reason d = Some d'"
  obtains a t where "a \<in> set (attempts d)" "attempt_owned_by i a" "t \<in> set (dispatches d)"
    "dispatch_matches i t"
    "d' = d\<lparr>dispatches := replace_row t (close_dispatch_row now reason t) (dispatches d),
      attempts := replace_row a
        (a\<lparr>at_current_dispatch_id := None, at_current_wait_id := Some wait\<rparr>) (attempts d)\<rparr>"
proof -
  let ?p = "\<lambda>t. dispatch_matches i t \<and> dt_team_revision_id t = tr \<and> attempt_dispatch_is_current i d"
  have tkey: "\<forall>t. ?p t \<longrightarrow> dt_dispatch_id t = di_dispatch_id i"
    by (simp add: dispatch_matches_def)
  have akey: "\<forall>a. attempt_owned_by i a \<longrightarrow> at_attempt_id a = di_attempt_id i"
    by (simp add: attempt_owned_by_def)
  obtain ds as where ds: "update_where ?p (close_dispatch_row now reason) (dispatches d) = Some ds"
    and as: "update_where (attempt_owned_by i)
      (\<lambda>a. a\<lparr>at_current_dispatch_id := None, at_current_wait_id := Some wait\<rparr>) (attempts d) = Some as"
    and d': "d' = d\<lparr>dispatches := ds, attempts := as\<rparr>"
    using assms(3) unfolding suspend_current_attempt_on_wait_def
    by (auto simp: bind_eq_Some_conv split: if_splits)
  obtain t where "t \<in> set (dispatches d)" "?p t"
      "ds = replace_row t (close_dispatch_row now reason t) (dispatches d)"
    using ds unfolding update_unique_iff [OF assms(2) tkey] by blast
  moreover obtain a where "a \<in> set (attempts d)" "attempt_owned_by i a"
      "as = replace_row a (a\<lparr>at_current_dispatch_id := None, at_current_wait_id := Some wait\<rparr>)
        (attempts d)"
    using as unfolding update_unique_iff [OF assms(1) akey] by blast
  ultimately show thesis using that d' by blast
qed

text \<open>
  The wait row is staged before the lane is claimed: both together park the Attempt on it.
\<close>

lemma suspend_on_new_wait_lanes_ok:
  assumes ok: "lanes_ok d" and w: "insert_row aw_wait_id w (waits d) = Inr ws" "ck_wait w"
      "aw_attempt_id w = di_attempt_id i" "aw_assignment_id w = di_assignment_id i"
      "aw_task_id w = di_task_id i"
    and sus: "suspend_current_attempt_on_wait i (aw_wait_id w) tr now reason (d\<lparr>waits := ws\<rparr>) = Some d'"
    and r: "reason \<noteq> CWatchdogSuperseded"
  shows "lanes_ok d'"
proof -
  have "keyed at_attempt_id (attempts (d\<lparr>waits := ws\<rparr>))"
      "keyed dt_dispatch_id (dispatches (d\<lparr>waits := ws\<rparr>))"
    using lanes_ok_keys [OF ok] by simp_all
  from suspend_current_attempt_on_wait_Some [OF this sus] obtain a t where
    a: "a \<in> set (attempts d)" "attempt_owned_by i a" and
    t: "t \<in> set (dispatches d)" "dispatch_matches i t" and
    d': "d' = d\<lparr>waits := ws, dispatches := replace_row t (close_dispatch_row now reason t) (dispatches d),
      attempts := replace_row a
        (a\<lparr>at_current_dispatch_id := None, at_current_wait_id := Some (aw_wait_id w)\<rparr>) (attempts d)\<rparr>"
    by auto
  let ?a1 = "a\<lparr>at_current_dispatch_id := None\<rparr>"
  let ?a2 = "a\<lparr>at_current_dispatch_id := None, at_current_wait_id := Some (aw_wait_id w)\<rparr>"
  let ?t1 = "close_dispatch_row now reason t"
  have own: "attempt_owns_dispatch a t" "dispatch_is_active t"
    using owned_matches_owns [OF a(2) t(2)] by auto
  have ids: "at_current_wait_id a = None" "at_status a = AttRunning"
      "at_attempt_id a = aw_attempt_id w" "at_assignment_id a = aw_assignment_id w"
      "at_task_id a = aw_task_id w"
    using a(2) w by (auto simp: attempt_owned_by_def)
  have "lanes_wf (insert ?a1 (set (attempts d) - {a})) (insert ?t1 (set (dispatches d) - {t}))
      (set (waits d))"
    by (rule lanes_wf_release [OF lanes_ok_keys(4) [OF ok] a(1) t(1) own ids(1)])
      (simp_all add: ids)
  then have "lanes_wf (insert ?a2 (insert ?a1 (set (attempts d) - {a}) - {?a1}))
      (insert ?t1 (set (dispatches d) - {t})) (insert w (set (waits d)))"
    by (rule lanes_wf_park)
      (use ids w in \<open>auto simp: same_attempt_def attempt_owns_wait_def insert_row_Inr_iff\<close>)
  moreover have "insert ?a2 (insert ?a1 (set (attempts d) - {a}) - {?a1}) =
      insert ?a2 (set (attempts d) - {a})"
  proof -
    have "?a1 \<notin> set (attempts d) - {a}"
      using keyed_unique [OF lanes_ok_keys(1) [OF ok], of ?a1 a] a(1) by auto
    then show ?thesis by (simp add: Diff_insert_absorb)
  qed
  moreover have "ws = waits d @ [w]" "aw_wait_id w \<notin> aw_wait_id ` set (waits d)"
    using w(1) by (simp_all add: insert_row_Inr_iff)
  moreover have "ck_dispatch ?t1"
    using ck_close_dispatch_row lanes_ok_keys(6) [OF ok t(1)] own(2) r by blast
  moreover have "ck_attempt ?a2"
    using ck_clear_lane(3) lanes_ok_keys(5) [OF ok a(1)] ids(2) by blast
  ultimately show ?thesis
    using ok a(1) t(1) w(2) unfolding lanes_ok_def d'
    by (simp add: set_replace_row keyed_replace_row keyed_insert)
qed

text \<open>Waking deletes the wait in the same step (the caller deletes the row it claimed).\<close>

lemma wake_lanes_ok:
  assumes ok: "lanes_ok d" and clear: "clear_current_attempt_wait i d = Some d1"
    and del: "delete_where p (waits d1) = Some ws"
    and p: "\<forall>v. p v \<longrightarrow> aw_wait_id v = wi_wait_id i"
  shows "lanes_ok (d1\<lparr>waits := ws\<rparr>)"
proof -
  let ?q = "\<lambda>a. at_attempt_id a = wi_attempt_id i \<and> at_task_id a = wi_task_id i \<and>
    at_assignment_id a = wi_assignment_id i \<and> at_status a = AttRunning \<and>
    at_current_dispatch_id a = None \<and> at_current_wait_id a = Some (wi_wait_id i)"
  have key: "\<forall>a. ?q a \<longrightarrow> at_attempt_id a = wi_attempt_id i" by simp
  obtain as where up: "update_where ?q (\<lambda>a. a\<lparr>at_current_wait_id := None\<rparr>) (attempts d) = Some as"
    and d1: "d1 = d\<lparr>attempts := as\<rparr>"
    using clear unfolding clear_current_attempt_wait_def by (auto simp: map_option_eq_Some)
  obtain a where a: "a \<in> set (attempts d)" "?q a"
    and as: "as = replace_row a (a\<lparr>at_current_wait_id := None\<rparr>) (attempts d)"
    using up unfolding update_unique_iff [OF lanes_ok_keys(1) [OF ok] key] by blast
  have "keyed aw_wait_id (waits d1)" using lanes_ok_keys(3) [OF ok] d1 by simp
  from del [unfolded delete_unique_iff [OF this p]] obtain v where
    v: "v \<in> set (waits d)" "p v" "ws = filter (\<lambda>r. r \<noteq> v) (waits d)"
    using d1 by auto
  have vid: "aw_wait_id v = wi_wait_id i" using p v(2) by blast
  have "at_current_wait_id a \<noteq> None" using a(2) by simp
  then obtain u where u: "u \<in> set (waits d)" "attempt_owns_wait a u"
    using lanes_ok_keys(4) [OF ok] a(1) unfolding lanes_wf_def by meson
  have "u = v"
    using u v(1) vid a(2) by (intro keyed_unique [OF lanes_ok_keys(3) [OF ok]])
      (auto simp: attempt_owns_wait_def)
  then have "lanes_wf (insert (a\<lparr>at_current_wait_id := None\<rparr>) (set (attempts d) - {a}))
      (set (dispatches d)) (set (waits d) - {v})"
    using u a by (intro lanes_wf_wake [OF lanes_ok_keys(4) [OF ok] a(1)]) simp_all
  moreover have "set ws = set (waits d) - {v}" using v(3) by auto
  moreover have "ck_attempt (a\<lparr>at_current_wait_id := None\<rparr>)"
    using ck_clear_lane(2) lanes_ok_keys(5) [OF ok a(1)] by blast
  ultimately show ?thesis
    using ok a(1) v(3) unfolding lanes_ok_def d1 as
    by (simp add: set_replace_row keyed_replace_row keyed_filter)
qed


subsection \<open>Staging a starting Dispatch\<close>

lemma insert_dispatch_Inr:
  "insert_dispatch t ds = Inr ds' \<Longrightarrow> ds' = ds @ [t] \<and> ck_dispatch t \<and> dt_dispatch_id t \<notin> dt_dispatch_id ` set ds \<and>
     (dispatch_is_active t \<longrightarrow>
        (\<forall>x \<in> set ds. dt_attempt_id x = dt_attempt_id t \<longrightarrow> \<not> dispatch_is_active x))"
  by (force simp: insert_dispatch_def insert_checked_Inr_iff unique_column_def list_ex_iff)

lemma build_starting_simps [simp]:
  "dt_dispatch_id (build_starting_dispatch_model b p) = pr_dispatch_id p"
  "dt_attempt_id (build_starting_dispatch_model b p) = sb_attempt_id b"
  "dt_assignment_id (build_starting_dispatch_model b p) = sb_assignment_id b"
  "dt_task_id (build_starting_dispatch_model b p) = sb_task_id b"
  "dt_status (build_starting_dispatch_model b p) = Starting"
  "dispatch_is_active (build_starting_dispatch_model b p)"
  by (simp_all add: build_starting_dispatch_model_def dispatch_is_active_def)

lemma stage_starting_dispatch_Some:
  assumes "keyed at_attempt_id (attempts d)"
    and "stage_starting_dispatch env b p d = Inr d'"
  obtains a where "a \<in> set (attempts d)" "at_attempt_id a = sb_attempt_id b"
    "at_task_id a = sb_task_id b" "at_assignment_id a = sb_assignment_id b"
    "at_status a = AttRunning" "at_current_wait_id a = None"
    "at_current_dispatch_id a = None \<or> at_current_dispatch_id a = sb_predecessor_dispatch_id b"
    "attempts d' = replace_row a (a\<lparr>at_current_dispatch_id := Some (pr_dispatch_id p)\<rparr>) (attempts d)"
    "insert_dispatch (build_starting_dispatch_model b p) (dispatches d) = Inr (dispatches d')"
    "waits d' = waits d"
proof -
  let ?i = "\<lparr>di_task_id = sb_task_id b, di_assignment_id = sb_assignment_id b,
          di_attempt_id = sb_attempt_id b, di_dispatch_id = pr_dispatch_id p\<rparr>"
  let ?pred = "sb_predecessor_dispatch_id b"
  let ?q = "\<lambda>a. at_attempt_id a = di_attempt_id ?i \<and> at_task_id a = di_task_id ?i \<and>
              at_assignment_id a = di_assignment_id ?i \<and> at_status a = AttRunning \<and>
              at_current_wait_id a = None \<and> (at_current_dispatch_id a = None \<or>
               ?pred \<noteq> None \<and> at_current_dispatch_id a = ?pred)"
  have key: "\<forall>a. ?q a \<longrightarrow> at_attempt_id a = sb_attempt_id b" by simp
  obtain d1 ds d2 d3 where
    sel: "select_starting_dispatch_for_attempt ?i ?pred d = Some d1" and
    ins: "insert_dispatch (build_starting_dispatch_model b p) (dispatches d1) = Inr ds" and
    ev: "append_task_event env (dispatch_opened_event b p) (d1\<lparr>dispatches := ds\<rparr>) = Inr d2" and
    res: "(case sb_resume_event b of None \<Rightarrow> Inr d2
        | Some r \<Rightarrow> append_task_event env (task_resumed_event b p r) d2) = Inr d3" and
    sup: "add_dispatch_support_records p d3 = Inr d'"
    using assms(2) unfolding stage_starting_dispatch_def by (auto simp: result_simps)
  obtain as where up: "update_where ?q (\<lambda>a. a\<lparr>at_current_dispatch_id := Some (di_dispatch_id ?i)\<rparr>)
      (attempts d) = Some as" and d1: "d1 = d\<lparr>attempts := as\<rparr>"
    using sel unfolding select_starting_dispatch_for_attempt_def by (auto simp: map_option_eq_Some)
  obtain a where a: "a \<in> set (attempts d)" "?q a"
      "as = replace_row a (a\<lparr>at_current_dispatch_id := Some (pr_dispatch_id p)\<rparr>) (attempts d)"
    using up unfolding update_unique_iff [OF assms(1) key] by auto
  have "attempts d3 = as" "dispatches d3 = ds" "waits d3 = waits d"
    using append_task_event_frame [OF ev] res d1
    by (auto split: option.splits dest!: append_task_event_frame)
  moreover have "attempts d' = attempts d3" "dispatches d' = dispatches d3" "waits d' = waits d3"
    using sup by (auto simp: add_dispatch_support_records_def result_simps)
  ultimately show thesis using that [of a] a ins d1 by auto
qed

text \<open>
  The unique index on current Dispatches leaves staging only on an Attempt with none, so the
  pointer the code may replace is never a live one.
\<close>

lemma stage_starting_dispatch_lanes_ok:
  assumes ok: "lanes_ok d" and st: "stage_starting_dispatch env b p d = Inr d'"
  shows "lanes_ok d'"
proof -
  let ?t = "build_starting_dispatch_model b p"
  from stage_starting_dispatch_Some [OF lanes_ok_keys(1) [OF ok] st] obtain a where
    a: "a \<in> set (attempts d)" "at_attempt_id a = sb_attempt_id b" "at_task_id a = sb_task_id b"
      "at_assignment_id a = sb_assignment_id b" "at_status a = AttRunning"
      "at_current_wait_id a = None" and
    d': "attempts d' = replace_row a (a\<lparr>at_current_dispatch_id := Some (pr_dispatch_id p)\<rparr>) (attempts d)"
      "waits d' = waits d" and
    ins: "insert_dispatch ?t (dispatches d) = Inr (dispatches d')"
    by metis
  let ?a = "a\<lparr>at_current_dispatch_id := Some (pr_dispatch_id p)\<rparr>"
  note ds = insert_dispatch_Inr [OF ins]
  have idle: "at_current_dispatch_id a = None"
  proof (rule ccontr)
    assume "at_current_dispatch_id a \<noteq> None"
    then obtain u where "u \<in> set (dispatches d)" "dispatch_is_active u" "attempt_owns_dispatch a u"
      using lanes_ok_keys(4) [OF ok] a(1) unfolding lanes_wf_def by meson
    then show False using ds a(2) by (auto simp: attempt_owns_dispatch_def)
  qed
  have "lanes_wf (insert ?a (set (attempts d) - {a})) (insert ?t (set (dispatches d))) (set (waits d))"
    using a ds by (intro lanes_wf_occupy [OF lanes_ok_keys(4) [OF ok] a(1) idle])
      (simp_all add: attempt_owns_dispatch_def)
  moreover have "ck_attempt ?a"
    using ck_clear_lane(4) lanes_ok_keys(5) [OF ok a(1)] a(5,6) by blast
  ultimately show ?thesis
    using ok a(1) ds unfolding lanes_ok_def d'
    by (simp add: set_replace_row keyed_replace_row keyed_insert)
qed

subsection \<open>Closing every current Dispatch of a Task\<close>

lemma close_lane_lanes_ok:
  assumes ok: "lanes_ok d" and r: "reason \<noteq> CWatchdogSuperseded"
    and cl: "close_current_task_dispatch task lane reason now d = Inr d1"
    and clr: "clear_attempt_current_dispatch task lane d1 = Inr d2"
  shows "lanes_ok d2"
proof -
  obtain asg att disp where lane: "lane = (asg, att, disp)" by (cases lane)
  let ?i = "\<lparr>di_task_id = task, di_assignment_id = asg, di_attempt_id = att, di_dispatch_id = disp\<rparr>"
  have tkey: "\<forall>t. dispatch_matches ?i t \<longrightarrow> dt_dispatch_id t = disp"
    by (simp add: dispatch_matches_def)
  obtain ds where up: "update_where (dispatch_matches ?i) (close_dispatch_row now reason)
      (dispatches d) = Some ds" and d1: "d1 = d\<lparr>dispatches := ds\<rparr>"
    using cl unfolding close_current_task_dispatch_def lane by (auto simp: result_simps)
  obtain t where t: "t \<in> set (dispatches d)" "dispatch_matches ?i t"
      "ds = replace_row t (close_dispatch_row now reason t) (dispatches d)"
    using up unfolding update_unique_iff [OF lanes_ok_keys(2) [OF ok] tkey] by blast
  have "keyed at_attempt_id (attempts d1)" using lanes_ok_keys(1) [OF ok] d1 by simp
  moreover have "clear_current_attempt_dispatch ?i d1 = Some d2"
    using clr unfolding clear_attempt_current_dispatch_def lane by (simp add: result_simps)
  ultimately obtain a where a: "a \<in> set (attempts d)" "attempt_owned_by ?i a"
    and d2: "d2 = d1\<lparr>attempts := replace_row a (a\<lparr>at_current_dispatch_id := None\<rparr>) (attempts d)\<rparr>"
    using clear_current_attempt_dispatch_iff d1 by auto
  show ?thesis
    using lanes_ok_release [OF ok a t(1,2) r] unfolding d2 d1 t(3) by simp
qed

lemma close_current_task_dispatches_lanes_ok:
  assumes ok: "lanes_ok d" and "close_current_task_dispatches task reason now ov d = Inr (ids, d')"
    and r: "reason \<noteq> CWatchdogSuperseded" "\<And>x. ov x \<noteq> Some CWatchdogSuperseded"
  shows "lanes_ok d'"
proof -
  let ?f = "\<lambda>lane s. and_then (close_current_task_dispatch task lane
            (case ov (snd (snd lane)) of None \<Rightarrow> reason | Some r \<Rightarrow> r) now s)
            (clear_attempt_current_dispatch task lane)"
  have "fold_result ?f (read_current_task_dispatches task d) d = Inr d'"
    using assms(2) unfolding close_current_task_dispatches_def by (auto simp: Let_def result_simps)
  then show ?thesis
  proof (rule fold_result_invariant)
    fix lane s u assume s: "lanes_ok s" and "?f lane s = Inr u"
    then obtain s1 where "close_current_task_dispatch task lane
          (case ov (snd (snd lane)) of None \<Rightarrow> reason | Some r \<Rightarrow> r) now s = Inr s1"
        "clear_attempt_current_dispatch task lane s1 = Inr u"
      by (auto simp: result_simps)
    moreover have "(case ov (snd (snd lane)) of None \<Rightarrow> reason | Some r \<Rightarrow> r) \<noteq> CWatchdogSuperseded"
      using r by (auto split: option.splits)
    ultimately show "lanes_ok u" using close_lane_lanes_ok [OF s] by blast
  qed (rule ok)
qed


subsection \<open>Touching and adding an Attempt\<close>

lemma lanes_ok_touch_attempt:
  assumes ok: "lanes_ok d" and a: "a \<in> set (attempts d)" and b: "same_attempt b a"
      "at_current_dispatch_id b = at_current_dispatch_id a"
      "at_current_wait_id b = at_current_wait_id a" and ck: "ck_attempt b"
  shows "lanes_ok (d\<lparr>attempts := replace_row a b (attempts d)\<rparr>)"
proof -
  have "lanes_wf (insert b (set (attempts d) - {a})) (set (dispatches d)) (set (waits d))"
    by (rule lanes_wf_touch_attempt [OF lanes_ok_keys(4) [OF ok] a b])
  moreover have "at_attempt_id b = at_attempt_id a" using b(1) by (simp add: same_attempt_def)
  ultimately show ?thesis
    using ok a ck unfolding lanes_ok_def by (simp add: set_replace_row keyed_replace_row)
qed

lemma lanes_ok_new_attempt:
  assumes ok: "lanes_ok d" and ins: "insert_attempt a (attempts d) = Inr as"
    and idle: "at_current_dispatch_id a = None" "at_current_wait_id a = None"
  shows "lanes_ok (d\<lparr>attempts := as\<rparr>)"
proof -
  note I = insert_attempt_Inr [OF ins]
  have "lanes_wf (insert a (set (attempts d))) (set (dispatches d)) (set (waits d))"
    using I by (intro lanes_wf_new_attempt [OF lanes_ok_keys(4) [OF ok] _ idle]) simp
  then show ?thesis
    using ok I unfolding lanes_ok_def by (simp add: keyed_insert)
qed

subsection \<open>Properties\<close>

text \<open>While the lane invariant holds, a starting Dispatch can only be staged on an Attempt
  that runs with no live Dispatch and no wait; afterwards the new Dispatch is the only live
  one of that Attempt, the Attempt points to it, and the invariant still holds.
\<close>

theorem staging_occupies_idle_lane:
  assumes "lanes_ok d" and "stage_starting_dispatch env b p d = Inr d'"
  shows "lanes_ok d' \<and>
    (\<forall>t \<in> set (dispatches d). dt_attempt_id t = sb_attempt_id b \<longrightarrow> \<not> dispatch_is_active t) \<and>
    (\<forall>t \<in> set (dispatches d'). dt_attempt_id t = sb_attempt_id b \<and> dispatch_is_active t \<longrightarrow>
       dt_dispatch_id t = pr_dispatch_id p) \<and>
    (\<exists>a \<in> set (attempts d'). at_attempt_id a = sb_attempt_id b \<and> at_status a = AttRunning \<and>
       at_current_dispatch_id a = Some (pr_dispatch_id p) \<and> at_current_wait_id a = None)"
proof -
  let ?t = "build_starting_dispatch_model b p"
  obtain a where a: "a \<in> set (attempts d)" "at_attempt_id a = sb_attempt_id b"
      "at_status a = AttRunning" "at_current_wait_id a = None"
      "attempts d' = replace_row a (a\<lparr>at_current_dispatch_id := Some (pr_dispatch_id p)\<rparr>) (attempts d)"
    and ins: "insert_dispatch ?t (dispatches d) = Inr (dispatches d')"
    by (rule stage_starting_dispatch_Some [OF lanes_ok_keys(1) [OF assms(1)] assms(2)])
  have "\<forall>t \<in> set (dispatches d). dt_attempt_id t = sb_attempt_id b \<longrightarrow> \<not> dispatch_is_active t"
    "dispatches d' = dispatches d @ [?t]"
    using insert_dispatch_Inr [OF ins] by simp_all
  moreover have "\<exists>x \<in> set (attempts d'). at_attempt_id x = sb_attempt_id b \<and> at_status x = AttRunning \<and>
       at_current_dispatch_id x = Some (pr_dispatch_id p) \<and> at_current_wait_id x = None"
    using a(1-4) unfolding a(5) set_replace_row [OF a(1)]
    by (intro bexI [of _ "a\<lparr>at_current_dispatch_id := Some (pr_dispatch_id p)\<rparr>"]) simp_all
  ultimately show ?thesis using stage_starting_dispatch_lanes_ok [OF assms] by auto
qed

end
