(* ===== verification/Authority.thy ===== *)
theory Authority
  imports LaneSteps
begin

text \<open>
  Member authority: \<open>runtime/dispatch/authority.py\<close>, \<open>runtime/team/currentness.py\<close> and
  \<open>runtime/team/participation.py\<close>. A Member call names a Dispatch; reading its authority
  checks the whole chain Dispatch, Task, Team selection, Assignment and Attempt, and every
  later mutation re-checks it in the statement that claims the Task and the Dispatch.
  An update that writes a column to itself (a claim) leaves the state as it is and fails
  when no row matches. Lock contention reported by the database driver is not modelled.
\<close>

subsection \<open>Team selection\<close>

definition current_team_selects_member :: "ident \<Rightarrow> ident \<Rightarrow> ident \<Rightarrow> ident \<Rightarrow> db \<Rightarrow> bool" where
  "current_team_selects_member task member configuration basis d \<longleftrightarrow>
     list_ex (\<lambda>t. tk_task_id t = task \<and>
       list_ex (\<lambda>m. tm_task_id m = tk_task_id t \<and>
           tk_current_team_revision_id t = Some (tm_team_revision_id m) \<and>
           tm_member_id m = member \<and> tm_member_configuration_id m = configuration \<and>
           tm_member_branch_basis_id m = basis) (team_members d)) (tasks d)"

definition dispatch_team_selection_is_current :: "dispatch_row \<Rightarrow> db \<Rightarrow> bool" where
  "dispatch_team_selection_is_current t d =
     current_team_selects_member (dt_task_id t) (dt_member_id t) (dt_member_configuration_id t)
       (dt_member_branch_basis_id t) d"

subsection \<open>Accepted participation\<close>

type_synonym participation_basis = "ident \<times> ident \<times> ident \<times> ident"

definition dispatch_basis :: "dispatch_row \<Rightarrow> participation_basis" where
  "dispatch_basis t = (dt_task_id t, dt_member_id t, dt_member_configuration_id t,
     dt_member_branch_basis_id t)"

text \<open>The rows of the join, in the order of the boundaries; the frozen set is their range.\<close>

definition read_accepted_green_participation_bases ::
    "participation_basis list \<Rightarrow> db \<Rightarrow> participation_basis list" where
  "read_accepted_green_participation_bases bases d =
     (if bases = [] then []
      else map (\<lambda>(b, t). dispatch_basis t)
        (filter (\<lambda>(b, t). dt_dispatch_id t = ab_source_dispatch_id b \<and> ab_outcome b = Green \<and>
             dispatch_basis t \<in> set bases)
          (List.product (boundaries d) (dispatches d))))"

definition read_accepted_green_participation :: "participation_basis \<Rightarrow> db \<Rightarrow> bool" where
  "read_accepted_green_participation basis d \<longleftrightarrow>
     basis \<in> set (read_accepted_green_participation_bases [basis] d)"

lemma accepted_green_participation_iff:
  "read_accepted_green_participation basis d \<longleftrightarrow>
     (\<exists>b \<in> set (boundaries d). \<exists>t \<in> set (dispatches d).
        dt_dispatch_id t = ab_source_dispatch_id b \<and> ab_outcome b = Green \<and>
        dispatch_basis t = basis)"
  by (auto simp: read_accepted_green_participation_def read_accepted_green_participation_bases_def image_iff)

subsection \<open>The authority record\<close>

record operation_scope =
  os_task_id :: ident
  os_dispatch_id :: ident
  os_provider_start_revision :: "int option"

record node_authority =
  na_task_id :: ident
  na_dispatch_id :: ident
  na_assignment_id :: ident
  na_attempt_id :: ident
  na_member_id :: ident
  na_is_task_lead :: bool
  na_has_direct_team :: bool
  na_team_revision_id :: ident
  na_current_team_revision_id :: ident
  na_task_control_revision :: int
  na_work_plan_revision :: int
  na_dispatch_status :: dispatch_status
  na_opened_reason :: opened_reason
  na_predecessor_dispatch_id :: "ident option"
  na_expected_provider_start_revision :: "int option"
  na_dispatch :: dispatch_row
  na_assignment :: assignment_row
  na_attempt :: attempt_row
  na_team_selection :: team_member_row
  na_capabilities :: dispatch_capability_row

definition authority_identity :: "node_authority \<Rightarrow> dispatch_identity" where
  "authority_identity au =
     \<lparr>di_task_id = na_task_id au, di_assignment_id = na_assignment_id au,
      di_attempt_id = na_attempt_id au, di_dispatch_id = na_dispatch_id au\<rparr>"

subsection \<open>Reading authority\<close>

definition read_current_dispatch_and_task ::
    "operation_scope \<Rightarrow> db \<Rightarrow> (dispatch_row \<times> task_row) result" where
  "read_current_dispatch_and_task sc d =
     (case find (\<lambda>t. dt_dispatch_id t = os_dispatch_id sc) (dispatches d) of
        None \<Rightarrow> Inl (RuntimeOperationError SCOPE_MISMATCH
          ''task_id and dispatch_id do not identify one Dispatch'' False)
      | Some t \<Rightarrow>
          if dt_task_id t \<noteq> os_task_id sc
          then Inl (RuntimeOperationError SCOPE_MISMATCH
            ''task_id and dispatch_id do not identify one Dispatch'' False)
          else if os_provider_start_revision sc \<noteq> None \<and>
            Some (dt_provider_start_revision t) \<noteq> os_provider_start_revision sc
          then Inl (stale_dispatch_error
            ''managed binding provider-start generation is no longer current'')
          else if \<not> dispatch_is_active t
          then Inl (stale_dispatch_error ''Dispatch is no longer current Member authority'')
          else (case find (\<lambda>k. tk_task_id k = dt_task_id t) (tasks d) of
            None \<Rightarrow> Inl (stale_dispatch_error ''Dispatch is no longer in a running Task'')
          | Some k \<Rightarrow>
              if tk_status k \<noteq> TaskRunning
              then Inl (stale_dispatch_error ''Dispatch is no longer in a running Task'')
              else if \<not> current_team_selects_member (os_task_id sc) (dt_member_id t)
                (dt_member_configuration_id t) (dt_member_branch_basis_id t) d
              then Inl (stale_dispatch_error
                ''current Team no longer retains the Dispatch selection'')
              else Inr (t, k)))"

definition lane_is_current ::
    "operation_scope \<Rightarrow> dispatch_row \<Rightarrow> assignment_row \<Rightarrow> attempt_row \<Rightarrow> bool" where
  "lane_is_current sc t s a \<longleftrightarrow>
     as_task_id s = os_task_id sc \<and> as_member_id s = dt_member_id t \<and>
     as_current_attempt_id s = Some (at_attempt_id a) \<and> as_closed_at s = None \<and>
     at_assignment_id a = as_assignment_id s \<and> at_task_id a = os_task_id sc \<and>
     at_status a = AttRunning \<and> at_current_dispatch_id a = Some (dt_dispatch_id t) \<and>
     at_current_wait_id a = None"

definition read_current_assignment_and_attempt ::
    "operation_scope \<Rightarrow> dispatch_row \<Rightarrow> db \<Rightarrow> (assignment_row \<times> attempt_row) result" where
  "read_current_assignment_and_attempt sc t d =
     (case (find (\<lambda>s. as_assignment_id s = dt_assignment_id t) (assignments d),
            find (\<lambda>a. at_attempt_id a = dt_attempt_id t) (attempts d)) of
        (Some s, Some a) \<Rightarrow>
          (if lane_is_current sc t s a then Inr (s, a)
           else Inl (stale_dispatch_error
             ''Dispatch Assignment or Attempt lane is no longer current''))
      | _ \<Rightarrow> Inl (stale_dispatch_error
             ''Dispatch Assignment or Attempt lane is no longer current''))"

definition selection_of_dispatch :: "dispatch_row \<Rightarrow> team_member_row \<Rightarrow> bool" where
  "selection_of_dispatch t m \<longleftrightarrow>
     tm_task_id m = dt_task_id t \<and> tm_team_revision_id m = dt_team_revision_id t \<and>
     tm_member_id m = dt_member_id t \<and>
     tm_member_configuration_id m = dt_member_configuration_id t \<and>
     tm_member_branch_basis_id m = dt_member_branch_basis_id t"

definition read_current_team_selection :: "dispatch_row \<Rightarrow> db \<Rightarrow> team_member_row result" where
  "read_current_team_selection t d =
     require (stale_dispatch_error ''Dispatch Team selection is no longer current'')
       (find (selection_of_dispatch t) (team_members d))"

definition read_dispatch_capabilities :: "ident \<Rightarrow> db \<Rightarrow> dispatch_capability_row result" where
  "read_dispatch_capabilities dispatch d =
     require (RuntimeOperationError ILLEGAL_STATE
         ''current Dispatch is missing its frozen capability set'' False)
       (find (\<lambda>c. dc_dispatch_id c = dispatch) (dispatch_capabilities d))"

definition read_node_operation_authority :: "operation_scope \<Rightarrow> db \<Rightarrow> node_authority result" where
  "read_node_operation_authority sc d =
     and_then (read_current_dispatch_and_task sc d) (\<lambda>(t, k).
     and_then (read_current_assignment_and_attempt sc t d) (\<lambda>(s, a).
     and_then (read_current_team_selection t d) (\<lambda>sel.
     and_then (require (stale_dispatch_error ''running Task has no current Team revision'')
       (tk_current_team_revision_id k)) (\<lambda>revision.
     and_then (read_dispatch_capabilities (dt_dispatch_id t) d) (\<lambda>caps.
       Inr \<lparr>na_task_id = os_task_id sc, na_dispatch_id = dt_dispatch_id t,
            na_assignment_id = as_assignment_id s, na_attempt_id = at_attempt_id a,
            na_member_id = dt_member_id t,
            na_is_task_lead = (tk_root_assignment_id k = Some (as_assignment_id s)),
            na_has_direct_team = list_ex (\<lambda>m. tm_task_id m = tk_task_id k \<and>
              tm_team_revision_id m = revision \<and> tm_parent_member_id m = Some (dt_member_id t))
              (team_members d),
            na_team_revision_id = dt_team_revision_id t,
            na_current_team_revision_id = revision,
            na_task_control_revision = tk_control_revision k,
            na_work_plan_revision = as_work_plan_revision s,
            na_dispatch_status = dt_status t, na_opened_reason = dt_opened_reason t,
            na_predecessor_dispatch_id = dt_predecessor_dispatch_id t,
            na_expected_provider_start_revision = os_provider_start_revision sc,
            na_dispatch = t, na_assignment = s, na_attempt = a, na_team_selection = sel,
            na_capabilities = caps\<rparr>)))))"

subsection \<open>The exact-authority predicate and the claims\<close>

definition managed_provider_start_revision_matches :: "node_authority \<Rightarrow> dispatch_row \<Rightarrow> bool" where
  "managed_provider_start_revision_matches au t \<longleftrightarrow>
     (case na_expected_provider_start_revision au of
        None \<Rightarrow> True | Some r \<Rightarrow> dt_provider_start_revision t = r)"

definition exact_node_operation_authority_exists :: "node_authority \<Rightarrow> db \<Rightarrow> bool" where
  "exact_node_operation_authority_exists au d \<longleftrightarrow>
     attempt_dispatch_is_current (authority_identity au) d \<and>
     list_ex (\<lambda>k. tk_task_id k = na_task_id au \<and> tk_status k = TaskRunning \<and>
       tk_control_revision k = na_task_control_revision au) (tasks d) \<and>
     current_team_selects_member (na_task_id au) (dt_member_id (na_dispatch au))
       (dt_member_configuration_id (na_dispatch au)) (dt_member_branch_basis_id (na_dispatch au)) d \<and>
     list_ex (\<lambda>t. dispatch_matches (authority_identity au) t \<and>
       dt_team_revision_id t = na_team_revision_id au \<and> dt_member_id t = na_member_id au \<and>
       managed_provider_start_revision_matches au t) (dispatches d) \<and>
     list_ex (\<lambda>s. as_assignment_id s = na_assignment_id au \<and> as_task_id s = na_task_id au \<and>
       as_member_id s = na_member_id au \<and> as_current_attempt_id s = Some (na_attempt_id au) \<and>
       as_closed_at s = None) (assignments d) \<and>
     list_ex (\<lambda>m. tm_task_id m = na_task_id au \<and>
       tm_team_revision_id m = na_team_revision_id au \<and> tm_member_id m = na_member_id au \<and>
       tm_member_configuration_id m = dt_member_configuration_id (na_dispatch au) \<and>
       tm_member_branch_basis_id m = dt_member_branch_basis_id (na_dispatch au)) (team_members d)"

definition claim_exact_node_operation_task :: "node_authority \<Rightarrow> db \<Rightarrow> unit result" where
  "claim_exact_node_operation_task au d =
     require_that (conflict_error ''another transition changed exact Task authority'')
       (list_ex (\<lambda>k. tk_task_id k = na_task_id au \<and> tk_status k = TaskRunning \<and>
          tk_control_revision k = na_task_control_revision au \<and>
          exact_node_operation_authority_exists au d) (tasks d))"

definition claim_exact_node_operation_transition :: "node_authority \<Rightarrow> db \<Rightarrow> unit result" where
  "claim_exact_node_operation_transition au d =
     and_then (claim_exact_node_operation_task au d) (\<lambda>_.
       require_that (conflict_error ''another transition changed exact Dispatch authority'')
         (list_ex (\<lambda>t. dispatch_matches (authority_identity au) t \<and>
            dt_team_revision_id t = na_team_revision_id au \<and> dt_member_id t = na_member_id au \<and>
            dt_member_configuration_id t = dt_member_configuration_id (na_dispatch au) \<and>
            dt_member_branch_basis_id t = dt_member_branch_basis_id (na_dispatch au) \<and>
            exact_node_operation_authority_exists au d) (dispatches d)))"

text \<open>\<open>refresh_node_activity\<close>: the last activity never moves back.\<close>

definition touch_activity :: "time \<Rightarrow> dispatch_row \<Rightarrow> dispatch_row" where
  "touch_activity occurred_at t =
     t\<lparr>dt_last_node_activity_at :=
         (case dt_last_node_activity_at t of
            None \<Rightarrow> Some occurred_at
          | Some at \<Rightarrow> if at < occurred_at then Some occurred_at else Some at),
       dt_node_activity_revision := dt_node_activity_revision t + 1\<rparr>"

definition refresh_node_activity ::
    "node_authority \<Rightarrow> time \<Rightarrow> db \<Rightarrow> ((int \<times> time) \<times> db) result" where
  "refresh_node_activity au occurred_at d =
     and_then (claim_exact_node_operation_task au d) (\<lambda>_.
     and_then (require (stale_dispatch_error
         ''Dispatch lost currentness before Member activity admission'')
       (update_where (\<lambda>t. dispatch_matches (authority_identity au) t \<and>
           exact_node_operation_authority_exists au d) (touch_activity occurred_at)
         (dispatches d))) (\<lambda>ts.
       (case find (dispatch_matches (authority_identity au)) ts of
          Some t \<Rightarrow> (case dt_last_node_activity_at t of
             Some at \<Rightarrow> Inr ((dt_node_activity_revision t, at), d\<lparr>dispatches := ts\<rparr>)
           | None \<Rightarrow> Inl (ValueError ''assert committed_at is not None''))
        | None \<Rightarrow> Inl (ValueError ''assert committed_at is not None''))))"

subsection \<open>Reading establishes the predicate that every claim re-checks\<close>

lemma read_current_dispatch_and_task_Inr:
  assumes "read_current_dispatch_and_task sc d = Inr (t, k)"
  shows "t \<in> set (dispatches d)" "dt_dispatch_id t = os_dispatch_id sc"
    "dt_task_id t = os_task_id sc" "dispatch_is_active t"
    "os_provider_start_revision sc = None \<or>
       os_provider_start_revision sc = Some (dt_provider_start_revision t)"
    "k \<in> set (tasks d)" "tk_task_id k = os_task_id sc" "tk_status k = TaskRunning"
    "dispatch_team_selection_is_current t d"
  using assms
  by (auto simp: read_current_dispatch_and_task_def dispatch_team_selection_is_current_def
      split: option.splits if_splits dest: find_Some_D)

lemma read_current_assignment_and_attempt_Inr:
  assumes "read_current_assignment_and_attempt sc t d = Inr (s, a)"
  shows "s \<in> set (assignments d)" "as_assignment_id s = dt_assignment_id t"
    "a \<in> set (attempts d)" "at_attempt_id a = dt_attempt_id t" "lane_is_current sc t s a"
  using assms
  by (auto simp: read_current_assignment_and_attempt_def
      split: option.splits if_splits dest: find_Some_D)

lemma read_node_operation_authority_Inr:
  assumes "read_node_operation_authority sc d = Inr au"
  obtains t k s a sel revision caps where
    "read_current_dispatch_and_task sc d = Inr (t, k)"
    "read_current_assignment_and_attempt sc t d = Inr (s, a)"
    "sel \<in> set (team_members d)" "selection_of_dispatch t sel"
    "tk_current_team_revision_id k = Some revision"
    "caps \<in> set (dispatch_capabilities d)" "dc_dispatch_id caps = dt_dispatch_id t"
    "na_task_id au = os_task_id sc" "na_dispatch_id au = dt_dispatch_id t"
    "na_assignment_id au = as_assignment_id s" "na_attempt_id au = at_attempt_id a"
    "na_member_id au = dt_member_id t" "na_team_revision_id au = dt_team_revision_id t"
    "na_current_team_revision_id au = revision"
    "na_task_control_revision au = tk_control_revision k"
    "na_expected_provider_start_revision au = os_provider_start_revision sc"
    "na_dispatch au = t" "na_assignment au = s" "na_attempt au = a"
    "na_team_selection au = sel" "na_capabilities au = caps"
    "na_is_task_lead au \<longleftrightarrow> tk_root_assignment_id k = Some (as_assignment_id s)"
  using assms
  by (force simp: read_node_operation_authority_def result_simps read_current_team_selection_def
      read_dispatch_capabilities_def dest: find_Some_D split: prod.splits)


text \<open>
  The soundness of the read: what it returns satisfies the predicate that the later
  mutations re-check, so within one transaction no claim of the same authority fails.
\<close>

lemma read_authority_exact:
  assumes "read_node_operation_authority sc d = Inr au"
  shows "exact_node_operation_authority_exists au d"
    and "\<exists>t \<in> set (dispatches d). t = na_dispatch au \<and> dispatch_matches (authority_identity au) t"
    and "\<exists>k \<in> set (tasks d). tk_task_id k = na_task_id au \<and> tk_status k = TaskRunning \<and>
      tk_control_revision k = na_task_control_revision au"
proof -
  obtain t k s a sel revision caps where
    tk: "read_current_dispatch_and_task sc d = Inr (t, k)" and
    sa: "read_current_assignment_and_attempt sc t d = Inr (s, a)" and
    sel: "sel \<in> set (team_members d)" "selection_of_dispatch t sel" and
    au: "na_task_id au = os_task_id sc" "na_dispatch_id au = dt_dispatch_id t"
      "na_assignment_id au = as_assignment_id s" "na_attempt_id au = at_attempt_id a"
      "na_member_id au = dt_member_id t" "na_team_revision_id au = dt_team_revision_id t"
      "na_task_control_revision au = tk_control_revision k"
      "na_expected_provider_start_revision au = os_provider_start_revision sc"
      "na_dispatch au = t"
    by (rule read_node_operation_authority_Inr [OF assms]) metis
  note T = read_current_dispatch_and_task_Inr [OF tk]
  note S = read_current_assignment_and_attempt_Inr [OF sa]
  have lane: "attempt_owned_by (authority_identity au) a"
    using S(5) au by (simp add: lane_is_current_def attempt_owned_by_def authority_identity_def)
  have match: "dispatch_matches (authority_identity au) t"
    using T S au by (simp add: dispatch_matches_def authority_identity_def)
  have mgd: "managed_provider_start_revision_matches au t"
    using T(5) au by (auto simp: managed_provider_start_revision_matches_def split: option.splits)
  show "\<exists>t \<in> set (dispatches d). t = na_dispatch au \<and> dispatch_matches (authority_identity au) t"
    using T(1) match au by blast
  show run: "\<exists>k \<in> set (tasks d). tk_task_id k = na_task_id au \<and> tk_status k = TaskRunning \<and>
      tk_control_revision k = na_task_control_revision au"
    using T au by auto
  have "attempt_dispatch_is_current (authority_identity au) d"
    using lane S(3) by (auto simp: attempt_dispatch_is_current_def list_ex_iff)
  moreover have "current_team_selects_member (na_task_id au) (dt_member_id (na_dispatch au))
       (dt_member_configuration_id (na_dispatch au)) (dt_member_branch_basis_id (na_dispatch au)) d"
    using T(9) T(3) au by (simp add: dispatch_team_selection_is_current_def)
  moreover have "\<exists>s \<in> set (assignments d). as_assignment_id s = na_assignment_id au \<and>
      as_task_id s = na_task_id au \<and> as_member_id s = na_member_id au \<and>
      as_current_attempt_id s = Some (na_attempt_id au) \<and> as_closed_at s = None"
    using S au by (intro bexI [OF _ S(1)]) (simp add: lane_is_current_def)
  moreover have "\<exists>m \<in> set (team_members d). tm_task_id m = na_task_id au \<and>
       tm_team_revision_id m = na_team_revision_id au \<and> tm_member_id m = na_member_id au \<and>
       tm_member_configuration_id m = dt_member_configuration_id (na_dispatch au) \<and>
       tm_member_branch_basis_id m = dt_member_branch_basis_id (na_dispatch au)"
    using sel au T by (intro bexI [OF _ sel(1)]) (simp add: selection_of_dispatch_def)
  moreover have "\<exists>t \<in> set (dispatches d). dispatch_matches (authority_identity au) t \<and>
      dt_team_revision_id t = na_team_revision_id au \<and> dt_member_id t = na_member_id au \<and>
      managed_provider_start_revision_matches au t"
    using T(1) match mgd au by metis
  ultimately show "exact_node_operation_authority_exists au d"
    using run unfolding exact_node_operation_authority_exists_def list_ex_iff by blast
qed

lemma read_authority_claims:
  assumes "read_node_operation_authority sc d = Inr au"
  shows "claim_exact_node_operation_task au d = Inr ()"
    and "claim_exact_node_operation_transition au d = Inr ()"
proof -
  note R = read_authority_exact [OF assms]
  show task: "claim_exact_node_operation_task au d = Inr ()"
    unfolding claim_exact_node_operation_task_def require_that_Inr_iff list_ex_iff
    using R(1,3) by blast
  have "dt_team_revision_id (na_dispatch au) = na_team_revision_id au"
      "dt_member_id (na_dispatch au) = na_member_id au"
    using read_node_operation_authority_Inr [OF assms] by metis+
  then have "\<exists>t \<in> set (dispatches d). dispatch_matches (authority_identity au) t \<and>
      dt_team_revision_id t = na_team_revision_id au \<and> dt_member_id t = na_member_id au \<and>
      dt_member_configuration_id t = dt_member_configuration_id (na_dispatch au) \<and>
      dt_member_branch_basis_id t = dt_member_branch_basis_id (na_dispatch au) \<and>
      exact_node_operation_authority_exists au d"
    using R(1,2) by blast
  then show "claim_exact_node_operation_transition au d = Inr ()"
    by (simp add: claim_exact_node_operation_transition_def task list_ex_iff)
qed

lemma claim_task_Inr:
  "claim_exact_node_operation_task au d = Inr u \<Longrightarrow> exact_node_operation_authority_exists au d"
  by (auto simp: claim_exact_node_operation_task_def result_simps list_ex_iff)

lemma claim_transition_Inr:
  "claim_exact_node_operation_transition au d = Inr u \<Longrightarrow>
     exact_node_operation_authority_exists au d"
  by (auto simp: claim_exact_node_operation_transition_def result_simps dest: claim_task_Inr)

subsection \<open>Activity\<close>

lemma touch_activity_simps [simp]:
  "same_dispatch (touch_activity now t) t"
  "dispatch_is_active (touch_activity now t) = dispatch_is_active t"
  "dispatch_matches i (touch_activity now t) = dispatch_matches i t"
  "dt_dispatch_id (touch_activity now t) = dt_dispatch_id t"
  "dt_node_activity_revision (touch_activity now t) = dt_node_activity_revision t + 1"
  "ck_dispatch t \<Longrightarrow> ck_dispatch (touch_activity now t)"
  by (auto simp: touch_activity_def same_dispatch_def dispatch_is_active_def dispatch_matches_def
      ck_dispatch_def ck_dispatch_source_shape_def)

lemma refresh_node_activity_Inr:
  assumes ok: "lanes_ok d" and "refresh_node_activity au now d = Inr (res, d')"
  obtains t where "t \<in> set (dispatches d)" "dispatch_matches (authority_identity au) t"
    "d' = d\<lparr>dispatches := replace_row t (touch_activity now t) (dispatches d)\<rparr>"
    "fst res = dt_node_activity_revision t + 1"
    "Some (snd res) = dt_last_node_activity_at (touch_activity now t)"
    "exact_node_operation_authority_exists au d"
proof -
  let ?i = "authority_identity au"
  have key: "\<forall>t. dispatch_matches ?i t \<and> exact_node_operation_authority_exists au d \<longrightarrow>
      dt_dispatch_id t = di_dispatch_id ?i" by (simp add: dispatch_matches_def)
  obtain ts where up: "update_where (\<lambda>t. dispatch_matches ?i t \<and>
        exact_node_operation_authority_exists au d) (touch_activity now) (dispatches d) = Some ts"
    and rest: "(case find (dispatch_matches ?i) ts of
          Some t \<Rightarrow> (case dt_last_node_activity_at t of
             Some at \<Rightarrow> Inr ((dt_node_activity_revision t, at), d\<lparr>dispatches := ts\<rparr>)
           | None \<Rightarrow> Inl (ValueError ''assert committed_at is not None''))
        | None \<Rightarrow> Inl (ValueError ''assert committed_at is not None'')) = Inr (res, d')"
    using assms(2) unfolding refresh_node_activity_def by (auto simp: result_simps)
  obtain t where t: "t \<in> set (dispatches d)" "dispatch_matches ?i t"
      "exact_node_operation_authority_exists au d"
    and ts: "ts = replace_row t (touch_activity now t) (dispatches d)"
    using up unfolding update_unique_iff [OF lanes_ok_keys(2) [OF ok] key] by blast
  have keyed: "keyed dt_dispatch_id ts"
    unfolding ts by (rule keyed_replace_row [OF lanes_ok_keys(2) [OF ok]]) simp
  have key': "\<forall>t. dispatch_matches ?i t \<longrightarrow> dt_dispatch_id t = di_dispatch_id ?i"
    by (simp add: dispatch_matches_def)
  have "find (dispatch_matches ?i) ts = Some (touch_activity now t)"
    unfolding find_unique_iff [OF keyed key'] using t(2) by (simp add: ts set_replace_row [OF t(1)])
  with rest have "d' = d\<lparr>dispatches := ts\<rparr>" "fst res = dt_node_activity_revision t + 1"
      "Some (snd res) = dt_last_node_activity_at (touch_activity now t)"
    by (auto split: option.splits)
  with t ts that show thesis by blast
qed

lemma refresh_node_activity_lanes_ok:
  assumes ok: "lanes_ok d" and ref: "refresh_node_activity au now d = Inr (res, d')"
  shows "lanes_ok d'"
proof -
  from refresh_node_activity_Inr [OF ok ref] obtain t where t: "t \<in> set (dispatches d)"
    and d': "d' = d\<lparr>dispatches := replace_row t (touch_activity now t) (dispatches d)\<rparr>" by metis
  have "lanes_wf (set (attempts d)) (insert (touch_activity now t) (set (dispatches d) - {t}))
      (set (waits d))"
    by (rule lanes_wf_touch_dispatch [OF lanes_ok_keys(4) [OF ok] t]) simp_all
  then show ?thesis
    using ok t lanes_ok_keys(6) [OF ok t] unfolding lanes_ok_def d'
    by (simp add: set_replace_row keyed_replace_row)
qed

subsection \<open>Properties\<close>

text \<open>
  C16. A successful read of a Member's authority establishes the exact-authority predicate
  that every later statement of the transaction re-checks, so neither claim of the Task nor
  the claim of the Dispatch can fail before the state changes.
\<close>

theorem authority_read_is_exact:
  assumes "read_node_operation_authority sc d = Inr au"
  shows "exact_node_operation_authority_exists au d \<and>
    claim_exact_node_operation_task au d = Inr () \<and> claim_exact_node_operation_transition au d = Inr ()"
  using read_authority_exact(1) [OF assms] read_authority_claims [OF assms] by simp

text \<open>
  Admitting Member activity keeps the lane invariant, counts one more revision on exactly
  the caller's Dispatch, and never moves its last activity back in time.
\<close>

theorem activity_is_monotone:
  assumes "lanes_ok d" and "refresh_node_activity au now d = Inr ((revision, committed), d')"
  shows "lanes_ok d' \<and> now \<le> committed \<and> (\<exists>t \<in> set (dispatches d).
    dt_dispatch_id t = na_dispatch_id au \<and> revision = dt_node_activity_revision t + 1 \<and>
    (\<forall>before. dt_last_node_activity_at t = Some before \<longrightarrow> before \<le> committed) \<and>
    dispatches d' = replace_row t (touch_activity now t) (dispatches d))"
proof (rule refresh_node_activity_Inr [OF assms])
  fix t
  assume t: "t \<in> set (dispatches d)" "dispatch_matches (authority_identity au) t"
    "d' = d\<lparr>dispatches := replace_row t (touch_activity now t) (dispatches d)\<rparr>"
    "fst (revision, committed) = dt_node_activity_revision t + 1"
    "Some (snd (revision, committed)) = dt_last_node_activity_at (touch_activity now t)"
  have "now \<le> committed" "\<forall>before. dt_last_node_activity_at t = Some before \<longrightarrow> before \<le> committed"
    using t(5) by (auto simp: touch_activity_def split: option.splits if_splits)
  moreover have "dt_dispatch_id t = na_dispatch_id au"
    using t(2) by (simp add: dispatch_matches_def authority_identity_def)
  ultimately show ?thesis
    using refresh_node_activity_lanes_ok [OF assms] t by auto
qed

end
