(* ===== verification/Settlement.thy ===== *)
theory Settlement
  imports Authority
begin

text \<open>
  Joining a Delegation Wave (\<open>runtime/delegation/settlement.py\<close>): a terminal child
  Checkpoint settles its pending Wave member, and a Wave whose members are all settled is
  claimed once, its parent wait cleared and deleted. Publishing the follow-on hint is not
  modelled.
\<close>

subsection \<open>Operations\<close>

text \<open>The correlated EXISTS of \<open>settle_wave_member_for_checkpoint\<close>.\<close>

definition wave_is_open :: "db \<Rightarrow> wave_member_row \<Rightarrow> bool" where
  "wave_is_open d m \<longleftrightarrow> list_ex (\<lambda>w.
     dw_delegation_wave_id w = dm_delegation_wave_id m \<and> dw_task_id w = dm_task_id m \<and>
     dw_parent_assignment_id w = dm_parent_assignment_id m \<and>
     dw_parent_attempt_id w = dm_parent_attempt_id m \<and>
     dw_source_dispatch_id w = dm_source_dispatch_id m \<and>
     dw_status w = WaveOpen \<and> dw_successor_dispatch_id w = None) (waves d)"

definition wave_member_of_child :: "node_authority \<Rightarrow> db \<Rightarrow> wave_member_row \<Rightarrow> bool" where
  "wave_member_of_child au d m \<longleftrightarrow>
     dm_task_id m = na_task_id au \<and> dm_child_assignment_id m = na_assignment_id au \<and>
     dm_child_member_id m = na_member_id au \<and> dm_status m = MemberPending \<and>
     dm_terminal_boundary_id m = None \<and> wave_is_open d m"

definition settle_wave_member_for_checkpoint ::
    "node_authority \<Rightarrow> ident \<Rightarrow> outcome \<Rightarrow> time \<Rightarrow> db \<Rightarrow> (ident \<times> db) result" where
  "settle_wave_member_for_checkpoint au boundary outc settled_at d =
     (if outc \<noteq> Green \<and> outc \<noteq> Blocked
      then Inl (ValueError ''only green or blocked may settle a Delegation Wave member'')
      else and_then (require (conflict_error
          ''terminal child Checkpoint no longer owns one pending Delegation Wave member'')
        (find (wave_member_of_child au d) (wave_members d))) (\<lambda>m.
        Inr (dm_delegation_wave_id m, d\<lparr>wave_members := map (\<lambda>r.
          if wave_member_of_child au d r
          then r\<lparr>dm_status := MemberSettled, dm_terminal_boundary_id := Some boundary,
                 dm_terminal_outcome := Some outc, dm_settled_at := Some settled_at,
                 dm_cancelled_at := None\<rparr>
          else r) (wave_members d)\<rparr>)))"

definition read_open_wave :: "ident \<Rightarrow> db \<Rightarrow> wave_row option" where
  "read_open_wave wave d = find (\<lambda>w. dw_delegation_wave_id w = wave \<and>
     dw_status w = WaveOpen \<and> dw_successor_dispatch_id w = None) (waves d)"

definition read_parent_wave_wait :: "wave_row \<Rightarrow> db \<Rightarrow> wait_row option" where
  "read_parent_wave_wait w d = find (\<lambda>x.
     aw_delegation_wave_id x = Some (dw_delegation_wave_id w) \<and> aw_task_id x = dw_task_id w \<and>
     aw_assignment_id x = dw_parent_assignment_id w \<and>
     aw_attempt_id x = dw_parent_attempt_id w \<and>
     aw_source_dispatch_id x = dw_source_dispatch_id w) (waits d)"

definition same_wave :: "wave_row \<Rightarrow> wave_row \<Rightarrow> bool" where
  "same_wave w x \<longleftrightarrow>
     dw_delegation_wave_id x = dw_delegation_wave_id w \<and> dw_task_id x = dw_task_id w \<and>
     dw_parent_assignment_id x = dw_parent_assignment_id w \<and>
     dw_parent_attempt_id x = dw_parent_attempt_id w \<and>
     dw_source_dispatch_id x = dw_source_dispatch_id w \<and>
     dw_team_revision_id x = dw_team_revision_id w \<and>
     dw_parent_member_id x = dw_parent_member_id w"

definition incomplete_member :: "ident \<Rightarrow> db \<Rightarrow> bool" where
  "incomplete_member wave d \<longleftrightarrow>
     list_ex (\<lambda>m. dm_delegation_wave_id m = wave \<and> dm_status m \<noteq> MemberSettled) (wave_members d)"

text \<open>\<open>None\<close> is the code's False: the claim found no running Task or no complete Wave.\<close>

definition claim_complete_wave :: "wave_row \<Rightarrow> time \<Rightarrow> db \<Rightarrow> db option" where
  "claim_complete_wave w settled_at d =
     (if \<not> list_ex (\<lambda>t. tk_task_id t = dw_task_id w \<and> tk_status t = TaskRunning) (tasks d)
      then None
      else map_option (\<lambda>ws. d\<lparr>waves := ws\<rparr>)
        (update_where (\<lambda>x. same_wave w x \<and> dw_status x = WaveOpen \<and>
            dw_successor_dispatch_id x = None \<and>
            \<not> incomplete_member (dw_delegation_wave_id w) d)
          (\<lambda>x. x\<lparr>dw_status := WaveSettled, dw_settled_at := Some settled_at\<rparr>) (waves d)))"

definition clear_parent_wave_wait :: "wave_row \<Rightarrow> wait_row \<Rightarrow> db \<Rightarrow> db option" where
  "clear_parent_wave_wait w x d =
     Option.bind (clear_current_attempt_wait
       \<lparr>wi_task_id = aw_task_id x, wi_assignment_id = aw_assignment_id x,
        wi_attempt_id = aw_attempt_id x, wi_wait_id = aw_wait_id x\<rparr> d)
     (\<lambda>d1. map_option (\<lambda>ws. d1\<lparr>waits := ws\<rparr>)
       (delete_where (\<lambda>r. aw_wait_id r = aw_wait_id x \<and> aw_task_id r = aw_task_id x \<and>
          aw_assignment_id r = aw_assignment_id x \<and> aw_attempt_id r = aw_attempt_id x \<and>
          aw_source_dispatch_id r = aw_source_dispatch_id x \<and>
          aw_delegation_wave_id r = Some (dw_delegation_wave_id w)) (waits d1)))"

text \<open>
  \<open>settle_delegation_wave\<close>: the boolean result and the committed state. A rolled back
  transaction leaves the state as it was.
\<close>

definition settle_delegation_wave :: "ident \<Rightarrow> time \<Rightarrow> db \<Rightarrow> (bool \<times> db) result" where
  "settle_delegation_wave wave settled_at d =
     (case read_open_wave wave d of
        None \<Rightarrow> Inr (False, d)
      | Some w \<Rightarrow> (case read_parent_wave_wait w d of
          None \<Rightarrow> Inl (conflict_error ''open Delegation Wave is missing its exact parent wait'')
        | Some x \<Rightarrow> (case claim_complete_wave w settled_at d of
            None \<Rightarrow> Inr (False, d)
          | Some d1 \<Rightarrow> (case clear_parent_wave_wait w x d1 of
              None \<Rightarrow> Inl (conflict_error
                ''Delegation Wave parent wait changed before join settlement'')
            | Some d2 \<Rightarrow> Inr (True, d2)))))"

subsection \<open>The Wave invariant\<close>

text \<open>
  The constraints of the Wave tables: keys, lifecycle CHECKs, and one Wave member per child
  Assignment (the unique column).
\<close>

definition waves_ok :: "db \<Rightarrow> bool" where
  "waves_ok d \<longleftrightarrow>
     keyed dw_delegation_wave_id (waves d) \<and>
     keyed dm_child_assignment_id (wave_members d) \<and>
     (\<forall>w \<in> set (waves d). ck_wave w) \<and> (\<forall>m \<in> set (wave_members d). ck_wave_member m)"

lemma waves_ok_frame:
  "waves d' = waves d \<Longrightarrow> wave_members d' = wave_members d \<Longrightarrow> waves_ok d' = waves_ok d"
  by (simp add: waves_ok_def)

lemma wave_member_of_child_key:
  "\<forall>m. wave_member_of_child au d m \<longrightarrow> dm_child_assignment_id m = na_assignment_id au"
  by (simp add: wave_member_of_child_def)

text \<open>Settlement of a member rewrites exactly one pending member, of an open Wave.\<close>

lemma settle_wave_member_Inr:
  assumes ok: "waves_ok d"
    and st: "settle_wave_member_for_checkpoint au b outc now d = Inr (wave, d')"
  obtains m where "m \<in> set (wave_members d)" "wave_member_of_child au d m"
    "wave = dm_delegation_wave_id m" "outc \<noteq> Retry"
    "d' = d\<lparr>wave_members := replace_row m (m\<lparr>dm_status := MemberSettled,
        dm_terminal_boundary_id := Some b, dm_terminal_outcome := Some outc,
        dm_settled_at := Some now, dm_cancelled_at := None\<rparr>) (wave_members d)\<rparr>"
proof -
  let ?f = "\<lambda>r. r\<lparr>dm_status := MemberSettled, dm_terminal_boundary_id := Some b,
      dm_terminal_outcome := Some outc, dm_settled_at := Some now, dm_cancelled_at := None\<rparr>"
  have keyed: "keyed dm_child_assignment_id (wave_members d)"
    using ok by (simp add: waves_ok_def)
  obtain m where find: "find (wave_member_of_child au d) (wave_members d) = Some m"
    and wave: "wave = dm_delegation_wave_id m"
    and d': "d' = d\<lparr>wave_members := map (\<lambda>r. if wave_member_of_child au d r then ?f r else r)
        (wave_members d)\<rparr>"
    and outc: "outc \<noteq> Retry"
    using st unfolding settle_wave_member_for_checkpoint_def
    by (auto simp: result_simps split: if_splits)
  have m: "m \<in> set (wave_members d)" "wave_member_of_child au d m"
    using find_Some_D [OF find] by auto
  have "map (\<lambda>r. if wave_member_of_child au d r then ?f r else r) (wave_members d) =
      replace_row m (?f m) (wave_members d)"
    unfolding replace_row_def
    using m wave_member_of_child_key [of au d]
    by (intro map_cong refl) (auto dest: keyed_unique [OF keyed])
  then show thesis using that [OF m wave outc] d' by simp
qed

lemma settle_wave_member_waves_ok:
  assumes ok: "waves_ok d"
    and st: "settle_wave_member_for_checkpoint au b outc now d = Inr (wave, d')"
  shows "waves_ok d'"
proof -
  from settle_wave_member_Inr [OF ok st] obtain m where m: "m \<in> set (wave_members d)"
    and outc: "outc \<noteq> Retry"
    and d': "d' = d\<lparr>wave_members := replace_row m (m\<lparr>dm_status := MemberSettled,
        dm_terminal_boundary_id := Some b, dm_terminal_outcome := Some outc,
        dm_settled_at := Some now, dm_cancelled_at := None\<rparr>) (wave_members d)\<rparr>"
    by metis
  have "ck_wave_member (m\<lparr>dm_status := MemberSettled,
        dm_terminal_boundary_id := Some b, dm_terminal_outcome := Some outc,
        dm_settled_at := Some now, dm_cancelled_at := None\<rparr>)"
    using outc by (cases outc) (simp_all add: ck_wave_member_def sql_in_def)
  then show ?thesis
    using ok m unfolding waves_ok_def d' by (simp add: set_replace_row keyed_replace_row)
qed

text \<open>A member settles at most once: its own settlement ends the pending state it needs.\<close>

lemma settle_wave_member_once:
  assumes ok: "waves_ok d"
    and st: "settle_wave_member_for_checkpoint au b outc now d = Inr (wave, d')"
  shows "\<exists>e. settle_wave_member_for_checkpoint au b' outc' now' d' = Inl e"
proof (rule ccontr)
  assume "\<not> ?thesis"
  then obtain r where "settle_wave_member_for_checkpoint au b' outc' now' d' = Inr r"
    by (cases "settle_wave_member_for_checkpoint au b' outc' now' d'") auto
  then obtain x where x: "x \<in> set (wave_members d')" "wave_member_of_child au d' x"
    unfolding settle_wave_member_for_checkpoint_def
    by (auto simp: result_simps split: if_splits dest: find_Some_D)
  from settle_wave_member_Inr [OF ok st] obtain m where
    m: "m \<in> set (wave_members d)" "wave_member_of_child au d m"
    and d': "d' = d\<lparr>wave_members := replace_row m (m\<lparr>dm_status := MemberSettled,
        dm_terminal_boundary_id := Some b, dm_terminal_outcome := Some outc,
        dm_settled_at := Some now, dm_cancelled_at := None\<rparr>) (wave_members d)\<rparr>"
    by metis
  let ?m = "m\<lparr>dm_status := MemberSettled, dm_terminal_boundary_id := Some b,
      dm_terminal_outcome := Some outc, dm_settled_at := Some now, dm_cancelled_at := None\<rparr>"
  have "dm_status x = MemberPending" using x(2) by (simp add: wave_member_of_child_def)
  then have "x \<noteq> ?m" by auto
  moreover have "x \<in> insert ?m (set (wave_members d) - {m})"
    using x(1) unfolding d' by (simp add: set_replace_row [OF m(1)])
  ultimately have "x \<in> set (wave_members d)" "x \<noteq> m" by blast+
  moreover have "dm_child_assignment_id x = dm_child_assignment_id m"
    using x(2) m(2) by (simp add: wave_member_of_child_def)
  moreover have "keyed dm_child_assignment_id (wave_members d)"
    using ok by (simp add: waves_ok_def)
  ultimately show False using m(1) keyed_unique by metis
qed

subsection \<open>The join\<close>

lemma claim_complete_wave_Some:
  assumes ok: "waves_ok d" and "claim_complete_wave w now d = Some d'"
  obtains x where "x \<in> set (waves d)" "same_wave w x" "dw_status x = WaveOpen"
    "\<not> incomplete_member (dw_delegation_wave_id w) d"
    "\<exists>t \<in> set (tasks d). tk_task_id t = dw_task_id w \<and> tk_status t = TaskRunning"
    "d' = d\<lparr>waves := replace_row x (x\<lparr>dw_status := WaveSettled, dw_settled_at := Some now\<rparr>) (waves d)\<rparr>"
proof -
  let ?p = "\<lambda>x. same_wave w x \<and> dw_status x = WaveOpen \<and> dw_successor_dispatch_id x = None \<and>
            \<not> incomplete_member (dw_delegation_wave_id w) d"
  have keyed: "keyed dw_delegation_wave_id (waves d)" using ok by (simp add: waves_ok_def)
  have key: "\<forall>x. ?p x \<longrightarrow> dw_delegation_wave_id x = dw_delegation_wave_id w"
    by (simp add: same_wave_def)
  obtain ws where up: "update_where ?p
      (\<lambda>x. x\<lparr>dw_status := WaveSettled, dw_settled_at := Some now\<rparr>) (waves d) = Some ws"
    and d': "d' = d\<lparr>waves := ws\<rparr>"
    and run: "list_ex (\<lambda>t. tk_task_id t = dw_task_id w \<and> tk_status t = TaskRunning) (tasks d)"
    using assms(2) unfolding claim_complete_wave_def by (auto split: if_splits)
  obtain x where x: "x \<in> set (waves d)" "?p x"
    "ws = replace_row x (x\<lparr>dw_status := WaveSettled, dw_settled_at := Some now\<rparr>) (waves d)"
    using up unfolding update_unique_iff [OF keyed key] by blast
  show thesis
    by (rule that [of x]) (use x d' run in \<open>simp_all add: list_ex_iff\<close>)
qed

lemma settle_delegation_wave_True:
  assumes "settle_delegation_wave wave now d = Inr (True, d')"
  obtains w x d1 where "read_open_wave wave d = Some w" "read_parent_wave_wait w d = Some x"
    "claim_complete_wave w now d = Some d1" "clear_parent_wave_wait w x d1 = Some d'"
  using assms by (auto simp: settle_delegation_wave_def split: option.splits)

lemma read_open_wave_Some:
  "read_open_wave wave d = Some w \<Longrightarrow> w \<in> set (waves d) \<and> dw_delegation_wave_id w = wave \<and>
     dw_status w = WaveOpen \<and> dw_successor_dispatch_id w = None"
  by (auto simp: read_open_wave_def dest: find_Some_D)

lemma clear_parent_wave_wait_Some:
  assumes "clear_parent_wave_wait w x d = Some d'"
  obtains d1 ws where "clear_current_attempt_wait
       \<lparr>wi_task_id = aw_task_id x, wi_assignment_id = aw_assignment_id x,
        wi_attempt_id = aw_attempt_id x, wi_wait_id = aw_wait_id x\<rparr> d = Some d1"
    "delete_where (\<lambda>r. aw_wait_id r = aw_wait_id x \<and> aw_task_id r = aw_task_id x \<and>
          aw_assignment_id r = aw_assignment_id x \<and> aw_attempt_id r = aw_attempt_id x \<and>
          aw_source_dispatch_id r = aw_source_dispatch_id x \<and>
          aw_delegation_wave_id r = Some (dw_delegation_wave_id w)) (waits d1) = Some ws"
    "d' = d1\<lparr>waits := ws\<rparr>"
  using assms by (auto simp: clear_parent_wave_wait_def bind_eq_Some_conv)

lemma clear_parent_wave_wait_frame:
  assumes "clear_parent_wave_wait w x d = Some d'"
  shows "\<exists>as ws. d' = d\<lparr>attempts := as, waits := ws\<rparr>"
  by (rule clear_parent_wave_wait_Some [OF assms])
    (auto simp: clear_current_attempt_wait_def map_option_eq_Some)

lemma clear_parent_wave_wait_lanes_ok:
  assumes "lanes_ok d" and "clear_parent_wave_wait w x d = Some d'"
  shows "lanes_ok d'"
proof (rule clear_parent_wave_wait_Some [OF assms(2)])
  fix d1 ws
  assume c: "clear_current_attempt_wait
       \<lparr>wi_task_id = aw_task_id x, wi_assignment_id = aw_assignment_id x,
        wi_attempt_id = aw_attempt_id x, wi_wait_id = aw_wait_id x\<rparr> d = Some d1"
    and "delete_where (\<lambda>r. aw_wait_id r = aw_wait_id x \<and> aw_task_id r = aw_task_id x \<and>
          aw_assignment_id r = aw_assignment_id x \<and> aw_attempt_id r = aw_attempt_id x \<and>
          aw_source_dispatch_id r = aw_source_dispatch_id x \<and>
          aw_delegation_wave_id r = Some (dw_delegation_wave_id w)) (waits d1) = Some ws"
    and "d' = d1\<lparr>waits := ws\<rparr>"
  then show "lanes_ok d'" using wake_lanes_ok [OF assms(1) c] by simp
qed

lemma settle_delegation_wave_waves:
  assumes ok: "waves_ok d" and st: "settle_delegation_wave wave now d = Inr (True, d')"
  obtains w where "w \<in> set (waves d)" "dw_delegation_wave_id w = wave" "dw_status w = WaveOpen"
    "\<not> incomplete_member wave d"
    "waves d' = replace_row w (w\<lparr>dw_status := WaveSettled, dw_settled_at := Some now\<rparr>) (waves d)"
    "wave_members d' = wave_members d"
proof -
  from settle_delegation_wave_True [OF st] obtain w x d1 where
    w: "read_open_wave wave d = Some w" and
    cl: "claim_complete_wave w now d = Some d1" and
    wt: "clear_parent_wave_wait w x d1 = Some d'" by metis
  from claim_complete_wave_Some [OF ok cl] obtain y where
    y: "y \<in> set (waves d)" "same_wave w y" "\<not> incomplete_member (dw_delegation_wave_id w) d" and
    d1: "d1 = d\<lparr>waves := replace_row y (y\<lparr>dw_status := WaveSettled, dw_settled_at := Some now\<rparr>)
      (waves d)\<rparr>" by metis
  note W = read_open_wave_Some [OF w]
  have "y = w"
  proof (rule keyed_unique)
    show "keyed dw_delegation_wave_id (waves d)" using ok by (simp add: waves_ok_def)
  qed (use y(1,2) W in \<open>simp_all add: same_wave_def\<close>)
  moreover have "waves d' = waves d1" "wave_members d' = wave_members d1"
    using clear_parent_wave_wait_frame [OF wt] by auto
  ultimately show thesis using that [of w] W y d1 by auto
qed

lemma settle_delegation_wave_lanes_ok:
  assumes "lanes_ok d" and "waves_ok d" and "settle_delegation_wave wave now d = Inr (r, d')"
  shows "lanes_ok d'"
proof (cases r)
  case True
  with assms(3) have st: "settle_delegation_wave wave now d = Inr (True, d')" by simp
  from settle_delegation_wave_True [OF st] obtain w x d1 where
    cl: "claim_complete_wave w now d = Some d1" and
    wt: "clear_parent_wave_wait w x d1 = Some d'" by metis
  have "lanes_ok d1"
    by (rule claim_complete_wave_Some [OF assms(2) cl]) (use assms(1) in \<open>simp add: lanes_ok_def\<close>)
  then show ?thesis using wt by (rule clear_parent_wave_wait_lanes_ok)
next
  case False
  with assms show ?thesis by (auto simp: settle_delegation_wave_def split: option.splits)
qed

lemma settle_delegation_wave_waves_ok:
  assumes ok: "waves_ok d" and "settle_delegation_wave wave now d = Inr (r, d')"
  shows "waves_ok d'"
proof (cases r)
  case True
  with assms(2) have "settle_delegation_wave wave now d = Inr (True, d')" by simp
  from settle_delegation_wave_waves [OF ok this] obtain w where
    w: "w \<in> set (waves d)" "dw_status w = WaveOpen" and
    d': "waves d' = replace_row w (w\<lparr>dw_status := WaveSettled, dw_settled_at := Some now\<rparr>) (waves d)"
      "wave_members d' = wave_members d" by metis
  have "ck_wave w" using ok w(1) by (simp add: waves_ok_def)
  then have "ck_wave (w\<lparr>dw_status := WaveSettled, dw_settled_at := Some now\<rparr>)"
    using w(2) by (auto simp: ck_wave_def)
  then show ?thesis
    using ok w(1) unfolding waves_ok_def d' by (simp add: set_replace_row keyed_replace_row)
next
  case False
  with assms show ?thesis by (auto simp: settle_delegation_wave_def split: option.splits)
qed

subsection \<open>Properties\<close>

text \<open>
  C17. A Delegation Wave is joined only when it was open, its Task runs and every one of its
  members is settled; the join marks exactly that Wave settled, keeps the lane and Wave
  invariants, and joining it again does nothing.
\<close>

theorem wave_joins_once_when_complete:
  assumes "lanes_ok d" and "waves_ok d" and "settle_delegation_wave wave now d = Inr (True, d')"
  shows "lanes_ok d' \<and> waves_ok d' \<and>
    (\<forall>m \<in> set (wave_members d). dm_delegation_wave_id m = wave \<longrightarrow> dm_status m = MemberSettled) \<and>
    (\<exists>w \<in> set (waves d). dw_delegation_wave_id w = wave \<and> dw_status w = WaveOpen \<and>
       waves d' = replace_row w (w\<lparr>dw_status := WaveSettled, dw_settled_at := Some now\<rparr>) (waves d)) \<and>
    settle_delegation_wave wave later d' = Inr (False, d')"
proof (rule settle_delegation_wave_waves [OF assms(2,3)])
  fix w
  assume w: "w \<in> set (waves d)" "dw_delegation_wave_id w = wave" "dw_status w = WaveOpen"
    and members: "\<not> incomplete_member wave d"
    and d': "waves d' = replace_row w (w\<lparr>dw_status := WaveSettled, dw_settled_at := Some now\<rparr>) (waves d)"
  have keyed: "keyed dw_delegation_wave_id (waves d)" using assms(2) by (simp add: waves_ok_def)
  have "dw_status x \<noteq> WaveOpen" if "x \<in> set (waves d')" "dw_delegation_wave_id x = wave" for x
  proof (cases "x = w\<lparr>dw_status := WaveSettled, dw_settled_at := Some now\<rparr>")
    case False
    with that w(1) d' have "x \<in> set (waves d)" "x \<noteq> w" by (simp_all add: set_replace_row)
    with that(2) w keyed_unique [OF keyed] show ?thesis by metis
  qed simp
  then have "read_open_wave wave d' = None"
    by (auto simp: read_open_wave_def find_None_iff)
  then have "settle_delegation_wave wave later d' = Inr (False, d')"
    by (simp add: settle_delegation_wave_def)
  moreover have "\<forall>m \<in> set (wave_members d). dm_delegation_wave_id m = wave \<longrightarrow> dm_status m = MemberSettled"
    using members by (auto simp: incomplete_member_def list_ex_iff)
  ultimately show ?thesis
    using settle_delegation_wave_lanes_ok [OF assms(1,2,3)] settle_delegation_wave_waves_ok [OF assms(2,3)]
      w d' by blast
qed

text \<open>
  A terminal child Checkpoint settles exactly one pending member of an open Wave with a
  green or blocked outcome, keeps the Wave constraints, and no second settlement of the same
  child can succeed.
\<close>

theorem wave_member_settles_once:
  assumes "waves_ok d" and "settle_wave_member_for_checkpoint au b outc now d = Inr (wave, d')"
  shows "waves_ok d' \<and> outc \<noteq> Retry \<and>
    (\<exists>m \<in> set (wave_members d). dm_delegation_wave_id m = wave \<and> dm_status m = MemberPending \<and>
       dm_child_assignment_id m = na_assignment_id au \<and>
       wave_members d' = replace_row m (m\<lparr>dm_status := MemberSettled,
        dm_terminal_boundary_id := Some b, dm_terminal_outcome := Some outc,
        dm_settled_at := Some now, dm_cancelled_at := None\<rparr>) (wave_members d)) \<and>
    (\<exists>e. settle_wave_member_for_checkpoint au b' outc' now' d' = Inl e)"
proof (rule settle_wave_member_Inr [OF assms])
  fix m
  assume "m \<in> set (wave_members d)" "wave_member_of_child au d m" "wave = dm_delegation_wave_id m"
    "outc \<noteq> Retry" "d' = d\<lparr>wave_members := replace_row m (m\<lparr>dm_status := MemberSettled,
        dm_terminal_boundary_id := Some b, dm_terminal_outcome := Some outc,
        dm_settled_at := Some now, dm_cancelled_at := None\<rparr>) (wave_members d)\<rparr>"
  then have "\<exists>m \<in> set (wave_members d). dm_delegation_wave_id m = wave \<and> dm_status m = MemberPending \<and>
       dm_child_assignment_id m = na_assignment_id au \<and>
       wave_members d' = replace_row m (m\<lparr>dm_status := MemberSettled,
        dm_terminal_boundary_id := Some b, dm_terminal_outcome := Some outc,
        dm_settled_at := Some now, dm_cancelled_at := None\<rparr>) (wave_members d)"
    by (intro bexI [of _ m]) (simp_all add: wave_member_of_child_def)
  with \<open>outc \<noteq> Retry\<close> show ?thesis
    using settle_wave_member_waves_ok [OF assms] settle_wave_member_once [OF assms] by blast
qed

end
