(* ===== verification/Signals.thy ===== *)
theory Signals
  imports Prelude
begin

text \<open>
  The disposable scheduling hints of \<open>runtime/post_commit/signals.py\<close>, published after a
  commit, with the identity fields that runtime health shows for each.
\<close>

datatype runtime_signal =
    TaskStartCommitted ident
  | WaveMemberSettled ident
  | DelegationWaveSettled ident
  | ReplanCommitted ident
  | HumanRequestOpened ident
  | HumanRequestDue ident time
  | HumanRequestTerminal ident
  | CommandRunPending ident
  | CommandRunDue ident time
  | CommandRunCancellationRequested ident int
  | CommandRunTerminal ident
  | CommandProcessExited ident int
  | DispatchCleanupRequested ident
  | WatchdogDeadlineChanged ident int time
  | WatchdogDue ident int time
  | DispatchStartDue ident int time

datatype context_value = CtxText string | CtxInt int

fun runtime_effect_source_context ::
    "(time \<Rightarrow> string) \<Rightarrow> runtime_signal \<Rightarrow> (string \<times> context_value) list" where
  "runtime_effect_source_context fmt (TaskStartCommitted t) = [(''task_id'', CtxText t)]"
| "runtime_effect_source_context fmt (WaveMemberSettled w) =
     [(''delegation_wave_id'', CtxText w)]"
| "runtime_effect_source_context fmt (DelegationWaveSettled w) =
     [(''delegation_wave_id'', CtxText w)]"
| "runtime_effect_source_context fmt (ReplanCommitted t) = [(''transition_id'', CtxText t)]"
| "runtime_effect_source_context fmt (HumanRequestOpened r) = [(''request_id'', CtxText r)]"
| "runtime_effect_source_context fmt (HumanRequestDue r at) =
     [(''request_id'', CtxText r), (''due_at'', CtxText (fmt at))]"
| "runtime_effect_source_context fmt (HumanRequestTerminal r) = [(''request_id'', CtxText r)]"
| "runtime_effect_source_context fmt (CommandRunPending r) = [(''run_id'', CtxText r)]"
| "runtime_effect_source_context fmt (CommandRunDue r at) =
     [(''run_id'', CtxText r), (''due_at'', CtxText (fmt at))]"
| "runtime_effect_source_context fmt (CommandRunCancellationRequested r n) =
     [(''run_id'', CtxText r), (''ownership_revision'', CtxInt n)]"
| "runtime_effect_source_context fmt (CommandRunTerminal r) = [(''run_id'', CtxText r)]"
| "runtime_effect_source_context fmt (CommandProcessExited r n) =
     [(''run_id'', CtxText r), (''ownership_revision'', CtxInt n)]"
| "runtime_effect_source_context fmt (DispatchCleanupRequested t) =
     [(''dispatch_id'', CtxText t)]"
| "runtime_effect_source_context fmt (WatchdogDeadlineChanged t n at) =
     [(''dispatch_id'', CtxText t), (''activity_revision'', CtxInt n),
      (''due_at'', CtxText (fmt at))]"
| "runtime_effect_source_context fmt (WatchdogDue t n at) =
     [(''dispatch_id'', CtxText t), (''activity_revision'', CtxInt n),
      (''due_at'', CtxText (fmt at))]"
| "runtime_effect_source_context fmt (DispatchStartDue t n at) =
     [(''dispatch_id'', CtxText t), (''provider_start_revision'', CtxInt n),
      (''due_at'', CtxText (fmt at))]"

end
