(* ===== verification/Workspace.thy ===== *)
theory Workspace
  imports Schema
begin

text \<open>
  Workspace file references: \<open>runtime/file_references.py\<close> and
  \<open>runtime/task_root/reads.py\<close>. What the file system answers for a path below a
  workspace (\<open>validate_workspace_regular_file\<close>) is the parameter \<open>probe\<close>.
\<close>

datatype file_probe = RegularFile | FileMissing | SymbolicLink | NotRegular

definition is_absolute :: "string \<Rightarrow> bool" where
  "is_absolute p \<longleftrightarrow> (case p of [] \<Rightarrow> False | c # _ \<Rightarrow> c = CHR ''/'')"

definition invalid_workspace :: "string \<Rightarrow> failure" where
  "invalid_workspace s = RuntimeOperationError INVALID_TASK_ROOT s False"

definition invalid_file_reference :: "string \<Rightarrow> failure" where
  "invalid_file_reference s = RuntimeOperationError INVALID_TASK_PATH s False"

fun validate_files ::
    "(string \<Rightarrow> file_probe) \<Rightarrow> string list \<Rightarrow> file_reference list \<Rightarrow> file_reference list result" where
  "validate_files probe seen [] = Inr []"
| "validate_files probe seen (f # fs) =
     (if fr_path f \<in> set seen
      then Inl (invalid_file_reference
        (''files contains duplicate normalized path '' @ fr_path f))
      else (case probe (fr_path f) of
          FileMissing \<Rightarrow> Inl (invalid_file_reference
            (''referenced file does not exist: '' @ fr_path f))
        | SymbolicLink \<Rightarrow> Inl (invalid_file_reference
            (''referenced path contains a symbolic link: '' @ fr_path f))
        | NotRegular \<Rightarrow> Inl (invalid_file_reference
            (''referenced path is not a regular file: '' @ fr_path f))
        | RegularFile \<Rightarrow>
            and_then (validate_files probe (fr_path f # seen) fs) (\<lambda>vs. Inr (f # vs))))"

definition validate_file_references ::
    "(string \<Rightarrow> string \<Rightarrow> file_probe) \<Rightarrow> string \<Rightarrow> file_reference list \<Rightarrow> file_reference list result" where
  "validate_file_references probe workspace files =
     (if \<not> is_absolute workspace
      then Inl (invalid_workspace ''workspace must be an absolute path'')
      else validate_files (probe workspace) [] files)"

definition read_workspace_path :: "ident \<Rightarrow> db \<Rightarrow> string result" where
  "read_workspace_path task d =
     and_then (require (missing_resource_error (''unknown task_id '' @ task))
       (find (\<lambda>t. tk_task_id t = task) (tasks d)))
     (\<lambda>t. require (illegal_state_error (''task '' @ task @ '' is missing its workspace binding''))
       (tk_workspace_root t))"

text \<open>
  The validator returns its input unchanged, exactly when the workspace is absolute, the
  paths are pairwise distinct and each names a regular file.
\<close>

lemma validate_files_Inr_iff:
  "validate_files probe seen fs = Inr vs \<longleftrightarrow>
     vs = fs \<and> distinct (map fr_path fs) \<and> fr_path ` set fs \<inter> set seen = {} \<and>
     (\<forall>f \<in> set fs. probe (fr_path f) = RegularFile)"
proof (induction fs arbitrary: seen vs)
  case (Cons f fs)
  show ?case
    by (cases "probe (fr_path f)") (auto simp: and_then_Inr_iff Cons.IH)
qed auto

lemma validate_file_references_Inr_iff:
  "validate_file_references probe ws fs = Inr vs \<longleftrightarrow>
     is_absolute ws \<and> vs = fs \<and> distinct (map fr_path fs) \<and>
     (\<forall>f \<in> set fs. probe ws (fr_path f) = RegularFile)"
  by (auto simp: validate_file_references_def validate_files_Inr_iff)

end
