(* ===== verification/Checkpoints.thy ===== *)
theory Checkpoints
  imports Settlement Signals Workspace
begin

text \<open>
  The Checkpoint operation: \<open>runtime/checkpoint/persistence.py\<close> (\<open>commit_checkpoint\<close>),
  \<open>runtime/checkpoint/transitions.py\<close> (the terminal transition) and
  \<open>runtime/checkpoint/semantic_retry.py\<close> (the retry's basis). Parameters: the file-system
  answer for a path, the rendering of a Dispatch request (prompt text and provider route),
  the fresh hexadecimal identifiers and the clock.
\<close>

subsection \<open>Requests and parameters\<close>

record checkpoint_request =
  cq_summary :: string
  cq_details :: "string option"
  cq_files :: "file_reference list"
  cq_outcome :: "outcome option"

text \<open>The random identifiers \<open>uuid4().hex\<close> one commit draws.\<close>

record checkpoint_fresh =
  fx_checkpoint_hex :: string
  fx_attempt_hex :: string
  fx_dispatch_hex :: string

type_synonym render = "starting_basis \<Rightarrow> db \<Rightarrow> prepared_request result"

record checkpoint_response =
  rs_checkpoint :: checkpoint_request
  rs_recorded_at :: time
  rs_terminal :: bool
  rs_must_stop :: bool
  rs_signals :: "runtime_signal list"

definition checkpoint_id_of :: "node_authority \<Rightarrow> checkpoint_fresh \<Rightarrow> ident" where
  "checkpoint_id_of au fx = ''checkpoint.'' @ na_task_id au @ ''.'' @ fx_checkpoint_hex fx"

definition boundary_id_of :: "node_authority \<Rightarrow> ident" where
  "boundary_id_of au = ''accepted-boundary.'' @ na_dispatch_id au"

definition retry_attempt_id_of :: "node_authority \<Rightarrow> checkpoint_fresh \<Rightarrow> ident" where
  "retry_attempt_id_of au fx =
     ''attempt.'' @ na_task_id au @ ''.'' @ na_member_id au @ ''.'' @ fx_attempt_hex fx"

subsection \<open>Gates\<close>

fun insert_sibling :: "team_member_row \<Rightarrow> team_member_row list \<Rightarrow> team_member_row list" where
  "insert_sibling m [] = [m]"
| "insert_sibling m (x # xs) =
     (if tm_sibling_order m \<le> tm_sibling_order x then m # x # xs else x # insert_sibling m xs)"

definition direct_children :: "ident \<Rightarrow> ident \<Rightarrow> ident \<Rightarrow> db \<Rightarrow> team_member_row list" where
  "direct_children task revision parent d =
     foldr insert_sibling (filter (\<lambda>m. tm_task_id m = task \<and> tm_team_revision_id m = revision \<and>
       tm_parent_member_id m = Some parent) (team_members d)) []"

definition member_basis :: "ident \<Rightarrow> team_member_row \<Rightarrow> participation_basis" where
  "member_basis task m =
     (task, tm_member_id m, tm_member_configuration_id m, tm_member_branch_basis_id m)"

fun join_names :: "string list \<Rightarrow> string" where
  "join_names [] = ''''"
| "join_names [x] = x"
| "join_names (x # xs) = x @ '', '' @ join_names xs"

definition require_current_direct_child_participation :: "node_authority \<Rightarrow> db \<Rightarrow> unit result" where
  "require_current_direct_child_participation au d =
     (let missing = filter (\<lambda>m. \<not> read_accepted_green_participation
           (member_basis (na_task_id au) m) d)
         (direct_children (na_task_id au) (dt_team_revision_id (na_dispatch au))
            (dt_member_id (na_dispatch au)) d)
      in if missing = [] then Inr ()
         else Inl (RuntimeOperationError BOUNDARY_PRECONDITION_FAILED
           (''green requires an accepted green Checkpoint from every current direct child; missing: ''
              @ join_names (map tm_member_id missing)) False))"

definition require_retry_budget :: "node_authority \<Rightarrow> unit result" where
  "require_retry_budget au =
     (case as_retries_remaining (na_assignment au) of
        None \<Rightarrow> Inr ()
      | Some n \<Rightarrow> require_that (budget_exhausted_error
          ''the current assignment has no semantic retries remaining'') (0 < n))"

subsection \<open>Preparing a semantic retry\<close>

text \<open>\<open>RuntimeOperationError\<close> is a \<open>ValueError\<close>, so the handler replaces it as well.\<close>

fun retry_preparation_failure :: "failure \<Rightarrow> failure" where
  "retry_preparation_failure (RuntimeOperationError c s r) =
     RuntimeOperationError ILLEGAL_STATE ''semantic retry Dispatch preparation failed'' False"
| "retry_preparation_failure (ValueError s) =
     RuntimeOperationError ILLEGAL_STATE ''semantic retry Dispatch preparation failed'' False"
| "retry_preparation_failure (OSError s) =
     RuntimeOperationError ILLEGAL_STATE ''semantic retry Dispatch preparation failed'' False"
| "retry_preparation_failure (ProviderResolutionError s) =
     RuntimeOperationError ILLEGAL_STATE ''semantic retry Dispatch preparation failed'' False"
| "retry_preparation_failure e = e"

definition map_failure :: "(failure \<Rightarrow> failure) \<Rightarrow> 'a result \<Rightarrow> 'a result" where
  "map_failure f r = (case r of Inl e \<Rightarrow> Inl (f e) | Inr x \<Rightarrow> Inr x)"

text \<open>The row of \<open>_read_semantic_retry_context\<close>: the retained selection of the caller.\<close>

definition read_semantic_retry_selection :: "node_authority \<Rightarrow> db \<Rightarrow> team_member_row result" where
  "read_semantic_retry_selection au d =
     and_then (require (ValueError ''semantic retry lost its current retained Member selection'')
       (find (\<lambda>t. tk_task_id t = na_task_id au \<and> tk_status t = TaskRunning) (tasks d)))
     (\<lambda>t. require (ValueError ''semantic retry lost its current retained Member selection'')
       (find (\<lambda>m. tm_task_id m = tk_task_id t \<and>
           tk_current_team_revision_id t = Some (tm_team_revision_id m) \<and>
           tm_member_id m = na_member_id au \<and>
           tm_member_configuration_id m = dt_member_configuration_id (na_dispatch au) \<and>
           tm_member_branch_basis_id m = dt_member_branch_basis_id (na_dispatch au))
         (team_members d)))"

definition retry_basis :: "node_authority \<Rightarrow> team_member_row \<Rightarrow> ident \<Rightarrow> starting_basis" where
  "retry_basis au m attempt =
     \<lparr>sb_task_id = na_task_id au, sb_assignment_id = na_assignment_id au,
      sb_team_revision_id = tm_team_revision_id m, sb_member_id = tm_member_id m,
      sb_member_configuration_id = tm_member_configuration_id m,
      sb_member_branch_basis_id = tm_member_branch_basis_id m, sb_attempt_id = attempt,
      sb_opened_reason = OSemanticRetry, sb_predecessor_dispatch_id = None,
      sb_task_start_source_task_id = None, sb_resume_event = None\<rparr>"

text \<open>
  \<open>prepare_dispatch_request\<close> names the Dispatch it was asked to prepare; the rendered text
  and the provider route come from the parameter.
\<close>

definition prepare_dispatch_request ::
    "render \<Rightarrow> starting_basis \<Rightarrow> ident \<Rightarrow> db \<Rightarrow> prepared_request result" where
  "prepare_dispatch_request render b dispatch d =
     and_then (render b d) (\<lambda>p. Inr (p\<lparr>pr_dispatch_id := dispatch\<rparr>))"

definition prepare_semantic_retry ::
    "render \<Rightarrow> node_authority \<Rightarrow> ident \<Rightarrow> ident \<Rightarrow> db \<Rightarrow> (starting_basis \<times> prepared_request) result" where
  "prepare_semantic_retry render au attempt dispatch d =
     and_then (read_semantic_retry_selection au d) (\<lambda>m.
     and_then (prepare_dispatch_request render (retry_basis au m attempt) dispatch d) (\<lambda>p.
       Inr (retry_basis au m attempt, p)))"

definition prepare_checkpoint_semantic_retry ::
    "render option \<Rightarrow> node_authority \<Rightarrow> checkpoint_fresh \<Rightarrow> outcome option \<Rightarrow> db \<Rightarrow>
       (starting_basis \<times> prepared_request) option result" where
  "prepare_checkpoint_semantic_retry deps au fx outc d =
     (if outc \<noteq> Some Retry then Inr None
      else (case deps of
          None \<Rightarrow> Inl (RuntimeOperationError INTERNAL_ERROR
            ''semantic retry requires Dispatch opening dependencies'' False)
        | Some render \<Rightarrow>
            and_then (require_retry_budget au) (\<lambda>_.
            and_then (map_failure retry_preparation_failure
                (prepare_semantic_retry render au (retry_attempt_id_of au fx)
                   (''dispatch.'' @ fx_dispatch_hex fx) d))
              (\<lambda>r. Inr (Some r)))))"

subsection \<open>The terminal transition\<close>

definition complete_source_attempt :: "node_authority \<Rightarrow> outcome \<Rightarrow> time \<Rightarrow> db \<Rightarrow> db result" where
  "complete_source_attempt au outc now d =
     and_then (require (conflict_error ''source Attempt is no longer active'')
       (update_where (\<lambda>a. at_attempt_id a = na_attempt_id au \<and>
            at_assignment_id a = na_assignment_id au \<and> at_task_id a = na_task_id au \<and>
            (at_status a = AttPending \<or> at_status a = AttRunning) \<and>
            at_current_dispatch_id a = None \<and> at_current_wait_id a = None)
         (\<lambda>a. a\<lparr>at_status := AttCompleted, at_terminal_outcome := Some outc,
            at_closed_at := Some now, at_current_dispatch_id := None,
            at_current_wait_id := None\<rparr>) (attempts d)))
     (\<lambda>as. Inr (d\<lparr>attempts := as\<rparr>))"

definition source_assignment_matches :: "node_authority \<Rightarrow> assignment_row \<Rightarrow> bool" where
  "source_assignment_matches au s \<longleftrightarrow>
     as_assignment_id s = na_assignment_id au \<and> as_task_id s = na_task_id au \<and>
     as_member_id s = na_member_id au \<and> as_current_attempt_id s = Some (na_attempt_id au) \<and>
     as_closed_at s = None"

definition read_source_assignment :: "node_authority \<Rightarrow> db \<Rightarrow> assignment_row result" where
  "read_source_assignment au d =
     require (conflict_error ''source Assignment is no longer current'')
       (find (source_assignment_matches au) (assignments d))"

definition complete_source_assignment :: "node_authority \<Rightarrow> outcome \<Rightarrow> time \<Rightarrow> db \<Rightarrow> db result" where
  "complete_source_assignment au outc now d =
     and_then (require (conflict_error ''source Assignment is no longer active'')
       (update_where (source_assignment_matches au)
         (\<lambda>s. s\<lparr>as_terminal_outcome := Some outc, as_closed_at := Some now\<rparr>) (assignments d)))
     (\<lambda>ss. Inr (d\<lparr>assignments := ss\<rparr>))"

definition retry_attempt_row :: "node_authority \<Rightarrow> ident \<Rightarrow> time \<Rightarrow> attempt_row" where
  "retry_attempt_row au attempt now =
     \<lparr>at_attempt_id = attempt, at_assignment_id = na_assignment_id au,
      at_task_id = na_task_id au, at_retry_of_attempt_id = Some (na_attempt_id au),
      at_latest_checkpoint_id = None, at_current_dispatch_id = None,
      at_current_wait_id = None, at_watchdog_replacement_count = 0,
      at_status = AttRunning, at_terminal_outcome = None, at_opened_at = now,
      at_closed_at = None\<rparr>"

definition has_retry_budget :: "assignment_row \<Rightarrow> bool" where
  "has_retry_budget s \<longleftrightarrow> (case as_retries_remaining s of None \<Rightarrow> True | Some n \<Rightarrow> 0 < n)"

definition start_semantic_retry ::
    "node_authority \<Rightarrow> assignment_row \<Rightarrow> ident \<Rightarrow> time \<Rightarrow> db \<Rightarrow> db result" where
  "start_semantic_retry au source attempt now d =
     (if \<not> has_retry_budget source
      then Inl (budget_exhausted_error
        ''the current Assignment has no semantic retries remaining'')
      else and_then (insert_attempt (retry_attempt_row au attempt now) (attempts d)) (\<lambda>as.
        and_then (require (conflict_error
            ''another transition changed semantic retry authority'')
          (update_where (\<lambda>s. source_assignment_matches au s \<and> has_retry_budget s)
            (\<lambda>s. s\<lparr>as_current_attempt_id := Some attempt,
               as_retries_remaining := map_option (\<lambda>n. n - 1) (as_retries_remaining s)\<rparr>)
            (assignments d))) (\<lambda>ss.
        Inr (d\<lparr>attempts := as, assignments := ss\<rparr>))))"

definition live_descendant_attempt :: "ident \<Rightarrow> db \<Rightarrow> bool" where
  "live_descendant_attempt task d \<longleftrightarrow> list_ex (\<lambda>a. at_task_id a = task \<and>
     (at_status a = AttPending \<or> at_status a = AttRunning) \<and>
     list_ex (\<lambda>s. as_task_id s = at_task_id a \<and> as_assignment_id s = at_assignment_id a \<and>
       as_parent_assignment_id s \<noteq> None) (assignments d)) (attempts d)"

definition live_wait :: "ident \<Rightarrow> db \<Rightarrow> bool" where
  "live_wait task d \<longleftrightarrow> list_ex (\<lambda>w. aw_task_id w = task) (waits d)"

definition live_wave :: "ident \<Rightarrow> db \<Rightarrow> bool" where
  "live_wave task d \<longleftrightarrow> list_ex (\<lambda>w. dw_task_id w = task \<and>
     (dw_status w = WaveOpen \<or>
      dw_status w = WaveSettled \<and> dw_successor_dispatch_id w = None)) (waves d)"

definition complete_root_task :: "node_authority \<Rightarrow> outcome \<Rightarrow> ident \<Rightarrow> time \<Rightarrow> db \<Rightarrow> db result" where
  "complete_root_task au outc boundary now d =
     and_then (require (conflict_error
         ''root Task is no longer eligible for terminal completion'')
       (update_where (\<lambda>t. tk_task_id t = na_task_id au \<and> tk_status t = TaskRunning \<and>
            tk_root_assignment_id t = Some (na_assignment_id au) \<and>
            tk_current_team_revision_id t = Some (na_team_revision_id au) \<and>
            tk_control_revision t = na_task_control_revision au \<and>
            tk_result_boundary_id t = None \<and> \<not> live_descendant_attempt (na_task_id au) d \<and>
            \<not> live_wait (na_task_id au) d \<and> \<not> live_wave (na_task_id au) d)
         (\<lambda>t. t\<lparr>tk_status := TaskCompleted, tk_terminal_outcome := Some outc,
            tk_result_boundary_id := Some boundary, tk_updated_at := now\<rparr>) (tasks d)))
     (\<lambda>ts. Inr (d\<lparr>tasks := ts\<rparr>))"

definition advance_terminal_checkpoint_state ::
    "node_authority \<Rightarrow> outcome \<Rightarrow> ident \<Rightarrow> time \<Rightarrow> ident option \<Rightarrow> db \<Rightarrow> db result" where
  "advance_terminal_checkpoint_state au outc boundary now retry_attempt d =
     and_then (complete_source_attempt au outc now d) (\<lambda>d1.
     and_then (read_source_assignment au d1) (\<lambda>source.
       if outc = Retry
       then (case retry_attempt of
           None \<Rightarrow> Inl (conflict_error
             ''semantic retry is missing its replacement Attempt identity'')
         | Some attempt \<Rightarrow> start_semantic_retry au source attempt now d1)
       else if retry_attempt \<noteq> None
       then Inl (conflict_error ''a non-retry Boundary cannot select a replacement Attempt'')
       else and_then (complete_source_assignment au outc now d1) (\<lambda>d2.
         if as_parent_assignment_id source \<noteq> None then Inr d2
         else if \<not> na_is_task_lead au
         then Inl (conflict_error
           ''a non-root terminal Boundary is missing parent Assignment lineage'')
         else complete_root_task au outc boundary now d2)))"


subsection \<open>Events\<close>

definition file_json :: "file_reference \<Rightarrow> json" where
  "file_json f = JObj [(''path'', JStr (fr_path f)), (''description'', json_opt (fr_description f))]"

definition checkpoint_event ::
    "node_authority \<Rightarrow> ident \<Rightarrow> checkpoint_request \<Rightarrow> file_reference list \<Rightarrow> time \<Rightarrow> event_draft" where
  "checkpoint_event au checkpoint rq files now =
     \<lparr>ed_task_id = na_task_id au, ed_event_type = CHECKPOINT_RECORDED, ed_event_source = SrcNode,
      ed_occurred_at = now, ed_team_revision_id = Some (na_team_revision_id au),
      ed_dispatch_id = Some (na_dispatch_id au), ed_attempt_id = Some (na_attempt_id au),
      ed_member_id = Some (na_member_id au), ed_actor_ref = None,
      ed_payload =
        [(''checkpoint_id'', JStr checkpoint),
         (''assignment_id'', JStr (na_assignment_id au)),
         (''attempt_id'', JStr (na_attempt_id au)),
         (''outcome'', json_opt (map_option outcome_value (cq_outcome rq))),
         (''summary'', JStr (cq_summary rq)), (''details'', json_opt (cq_details rq)),
         (''files'', JArr (map file_json files)),
         (''authored_by_dispatch_id'', JStr (na_dispatch_id au))]\<rparr>"

definition boundary_accepted_event ::
    "node_authority \<Rightarrow> ident \<Rightarrow> outcome \<Rightarrow> task_status \<Rightarrow> time \<Rightarrow> event_draft" where
  "boundary_accepted_event au checkpoint outc status now =
     \<lparr>ed_task_id = na_task_id au, ed_event_type = BOUNDARY_ACCEPTED, ed_event_source = SrcNode,
      ed_occurred_at = now, ed_team_revision_id = Some (na_team_revision_id au),
      ed_dispatch_id = Some (na_dispatch_id au), ed_attempt_id = Some (na_attempt_id au),
      ed_member_id = Some (na_member_id au), ed_actor_ref = None,
      ed_payload =
        [(''source_dispatch_id'', JStr (na_dispatch_id au)),
         (''assignment_id'', JStr (na_assignment_id au)),
         (''attempt_id'', JStr (na_attempt_id au)),
         (''outcome'', JStr (outcome_value outc)), (''checkpoint_id'', JStr checkpoint),
         (''resulting_task_status'', JStr (task_status_value status))]\<rparr>"

definition append_boundary_accepted_event ::
    "env \<Rightarrow> node_authority \<Rightarrow> ident \<Rightarrow> outcome \<Rightarrow> time \<Rightarrow> db \<Rightarrow> db result" where
  "append_boundary_accepted_event env au checkpoint outc now d =
     and_then (require (conflict_error ''terminal Checkpoint lost its Task'')
       (find (\<lambda>t. tk_task_id t = na_task_id au) (tasks d)))
     (\<lambda>t. append_task_event env (boundary_accepted_event au checkpoint outc (tk_status t) now) d)"

subsection \<open>Committing a Checkpoint\<close>

text \<open>
  Rows staged without a flush meet the database at the commit, whose IntegrityError the
  operation reports as a conflict; in a retry the flush of the new Attempt comes earlier and
  the IntegrityError reaches the caller.
\<close>

fun commit_failure :: "failure \<Rightarrow> failure" where
  "commit_failure (IntegrityError s) =
     conflict_error ''another operation won the exact Checkpoint transition''"
| "commit_failure e = e"

definition staged :: "outcome option \<Rightarrow> 'a result \<Rightarrow> 'a result" where
  "staged outc r = (if outc = Some Retry then r else map_failure commit_failure r)"

definition stage_file_references ::
    "ident \<Rightarrow> file_reference list \<Rightarrow> db \<Rightarrow> db result" where
  "stage_file_references checkpoint files d =
     and_then (fold_result insert_checkpoint_file
       (map (\<lambda>(i, f). \<lparr>cf_checkpoint_id = checkpoint, cf_order_index = i, cf_file = f\<rparr>)
         (enumerate 0 files)) (checkpoint_files d))
     (\<lambda>cs. Inr (d\<lparr>checkpoint_files := cs\<rparr>))"

definition advance_latest_checkpoint :: "node_authority \<Rightarrow> ident \<Rightarrow> ident option \<Rightarrow> db \<Rightarrow> db result" where
  "advance_latest_checkpoint au checkpoint observed d =
     and_then (require (conflict_error ''another Checkpoint changed the Attempt latest pointer'')
       (update_where (\<lambda>a. at_task_id a = na_task_id au \<and>
            at_assignment_id a = na_assignment_id au \<and> at_attempt_id a = na_attempt_id au \<and>
            (at_status a = AttPending \<or> at_status a = AttRunning) \<and>
            at_latest_checkpoint_id a = observed \<and>
            exact_node_operation_authority_exists au d)
         (\<lambda>a. a\<lparr>at_latest_checkpoint_id := Some checkpoint\<rparr>) (attempts d)))
     (\<lambda>as. Inr (d\<lparr>attempts := as\<rparr>))"

definition boundary_row_of ::
    "node_authority \<Rightarrow> ident \<Rightarrow> ident \<Rightarrow> outcome \<Rightarrow> time \<Rightarrow> (starting_basis \<times> prepared_request) option \<Rightarrow>
       boundary_row" where
  "boundary_row_of au checkpoint boundary outc now prepared =
     \<lparr>ab_accepted_boundary_id = boundary, ab_source_dispatch_id = na_dispatch_id au,
      ab_task_id = na_task_id au, ab_assignment_id = na_assignment_id au,
      ab_attempt_id = na_attempt_id au, ab_outcome = outc, ab_checkpoint_id = checkpoint,
      ab_successor_attempt_id = map_option (\<lambda>(b, p). sb_attempt_id b) prepared,
      ab_successor_dispatch_id = map_option (\<lambda>(b, p). pr_dispatch_id p) prepared,
      ab_committed_at = now\<rparr>"

definition stage_terminal_boundary ::
    "env \<Rightarrow> node_authority \<Rightarrow> ident \<Rightarrow> ident \<Rightarrow> outcome \<Rightarrow> time \<Rightarrow>
       (starting_basis \<times> prepared_request) option \<Rightarrow> db \<Rightarrow> (ident option \<times> db) result" where
  "stage_terminal_boundary env au checkpoint boundary outc now prepared d =
     and_then (close_source_dispatch (authority_identity au) (na_team_revision_id au) now
         CBoundary d) (\<lambda>d1.
     and_then (staged (Some outc) (insert_boundary
         (boundary_row_of au checkpoint boundary outc now prepared) (boundaries d1))) (\<lambda>bs.
     and_then (advance_terminal_checkpoint_state au outc boundary now
         (map_option (\<lambda>(b, p). sb_attempt_id b) prepared) (d1\<lparr>boundaries := bs\<rparr>)) (\<lambda>d2.
     and_then (if (outc = Green \<or> outc = Blocked) \<and>
            as_parent_assignment_id (na_assignment au) \<noteq> None
         then and_then (settle_wave_member_for_checkpoint au boundary outc now d2)
           (\<lambda>(wave, s). Inr (Some wave, s))
         else Inr (None, d2)) (\<lambda>(settled, d3).
     and_then (case prepared of
           None \<Rightarrow> Inr d3
         | Some (b, p) \<Rightarrow> map_failure commit_failure (stage_starting_dispatch env b p d3)) (\<lambda>d4.
     and_then (append_boundary_accepted_event env au checkpoint outc now d4) (\<lambda>d5.
       Inr (settled, d5)))))))"

definition checkpoint_signals ::
    "(starting_basis \<times> prepared_request) option \<Rightarrow> ident option \<Rightarrow> runtime_signal list" where
  "checkpoint_signals prepared settled =
     (case prepared of
        Some (b, p) \<Rightarrow> [DispatchStartDue (pr_dispatch_id p) 0 (pr_due_at p)]
      | None \<Rightarrow> (case settled of None \<Rightarrow> [] | Some w \<Rightarrow> [WaveMemberSettled w]))"

definition commit_checkpoint ::
    "env \<Rightarrow> (string \<Rightarrow> string \<Rightarrow> file_probe) \<Rightarrow> render option \<Rightarrow> checkpoint_fresh \<Rightarrow> node_authority \<Rightarrow>
       checkpoint_request \<Rightarrow> db \<Rightarrow> (checkpoint_response \<times> db) result" where
  "commit_checkpoint env probe deps fx au rq d =
     and_then (read_workspace_path (na_task_id au) d) (\<lambda>workspace.
     and_then (validate_file_references probe workspace (cq_files rq)) (\<lambda>files.
     and_then (if cq_outcome rq = Some Green
         then require_current_direct_child_participation au d else Inr ()) (\<lambda>_.
     and_then (prepare_checkpoint_semantic_retry deps au fx (cq_outcome rq) d) (\<lambda>prepared.
     and_then (staged (cq_outcome rq) (insert_checkpoint
         \<lparr>cp_checkpoint_id = checkpoint_id_of au fx, cp_task_id = na_task_id au,
          cp_assignment_id = na_assignment_id au, cp_attempt_id = na_attempt_id au,
          cp_authoring_dispatch_id = na_dispatch_id au, cp_outcome = cq_outcome rq,
          cp_summary = cq_summary rq, cp_details = cq_details rq,
          cp_recorded_at = env_now env\<rparr> (checkpoints d))) (\<lambda>cs.
     and_then (staged (cq_outcome rq) (stage_file_references (checkpoint_id_of au fx) files
         (d\<lparr>checkpoints := cs\<rparr>))) (\<lambda>d1.
     and_then (advance_latest_checkpoint au (checkpoint_id_of au fx)
         (at_latest_checkpoint_id (na_attempt au)) d1) (\<lambda>d2.
     and_then (append_task_event env
         (checkpoint_event au (checkpoint_id_of au fx) rq files (env_now env)) d2) (\<lambda>d3.
     and_then (case cq_outcome rq of
           None \<Rightarrow> Inr (None, d3)
         | Some outc \<Rightarrow> stage_terminal_boundary env au (checkpoint_id_of au fx)
             (boundary_id_of au) outc (env_now env) prepared d3) (\<lambda>(settled, d4).
       Inr (\<lparr>rs_checkpoint = rq, rs_recorded_at = env_now env,
             rs_terminal = (cq_outcome rq \<noteq> None), rs_must_stop = (cq_outcome rq \<noteq> None),
             rs_signals = checkpoint_signals prepared settled\<rparr>, d4))))))))))"

end
