(* ===== verification/Invariant.thy ===== *)
theory Invariant
  imports Settlement
begin

text \<open>
  The controller invariant that every committed operation keeps: the lane invariant, the Wave
  constraints, the Assignment budgets, and the Task event chains. The locale
  \<open>committed_operation\<close> is the contract of an operation that keeps an invariant; histories of
  such operations, failed ones rolled back, keep it too.
\<close>

subsection \<open>The invariant\<close>

text \<open>
  Assignments: the primary key, the partial unique index \<open>uq_assignments_one_open_per_member\<close>,
  and the CHECK constraints, with the limits and remainders of both budgets.
\<close>

definition assignments_ok :: "db \<Rightarrow> bool" where
  "assignments_ok d \<longleftrightarrow>
     keyed as_assignment_id (assignments d) \<and>
     (\<forall>a \<in> set (assignments d). ck_assignment a) \<and>
     inj_on (\<lambda>a. (as_task_id a, as_member_id a)) {a \<in> set (assignments d). as_closed_at a = None}"

definition tasks_ok :: "db \<Rightarrow> bool" where
  "tasks_ok d \<longleftrightarrow> keyed tk_task_id (tasks d) \<and> (\<forall>t \<in> set (tasks d). ck_task t)"

definition controller_ok :: "(event_row \<Rightarrow> string) \<Rightarrow> db \<Rightarrow> bool" where
  "controller_ok H d \<longleftrightarrow>
     lanes_ok d \<and> waves_ok d \<and> assignments_ok d \<and> tasks_ok d \<and> events_ok H d"

lemma controller_ok_parts:
  "controller_ok H d \<Longrightarrow> lanes_ok d" "controller_ok H d \<Longrightarrow> waves_ok d"
  "controller_ok H d \<Longrightarrow> assignments_ok d" "controller_ok H d \<Longrightarrow> tasks_ok d"
  "controller_ok H d \<Longrightarrow> events_ok H d"
  by (simp_all add: controller_ok_def)

lemma assignments_ok_frame: "assignments d' = assignments d \<Longrightarrow> assignments_ok d' = assignments_ok d"
  by (simp add: assignments_ok_def)

lemma tasks_ok_frame: "tasks d' = tasks d \<Longrightarrow> tasks_ok d' = tasks_ok d"
  by (simp add: tasks_ok_def)

lemma events_ok_frame:
  "events d' = events d \<Longrightarrow> event_heads d' = event_heads d \<Longrightarrow> events_ok H d' = events_ok H d"
  by (simp add: events_ok_def log_ok_def task_log_def)

text \<open>An event append keeps the invariant; nothing but the log changes.\<close>

lemma append_controller_ok:
  assumes ok: "controller_ok (env_event_hash env) d" and ap: "append_task_event env e d = Inr d'"
  shows "controller_ok (env_event_hash env) d'"
proof -
  obtain es hs where d': "d' = d\<lparr>events := es, event_heads := hs\<rparr>"
    using append_task_event_frame [OF ap] by blast
  have "events_ok (env_event_hash env) d'"
    using append_task_event_events_ok(1) [OF ap controller_ok_parts(5) [OF ok]] .
  moreover have "lanes_ok d' = lanes_ok d" "waves_ok d' = waves_ok d"
      "assignments_ok d' = assignments_ok d" "tasks_ok d' = tasks_ok d"
    unfolding d' by (simp_all add: lanes_ok_def waves_ok_def assignments_ok_def tasks_ok_def)
  ultimately show ?thesis using ok by (simp add: controller_ok_def)
qed

text \<open>Introduction after a change of the lane tables alone.\<close>

lemma controller_ok_lanes:
  assumes "controller_ok H d" and "lanes_ok d'"
    and "waves d' = waves d" "wave_members d' = wave_members d" "assignments d' = assignments d"
      "tasks d' = tasks d" "events d' = events d" "event_heads d' = event_heads d"
  shows "controller_ok H d'"
  using assms waves_ok_frame [of d' d] assignments_ok_frame [of d' d] tasks_ok_frame [of d' d]
    events_ok_frame [of d' d H]
  by (simp add: controller_ok_def)

lemma controller_ok_assignments:
  assumes "controller_ok H d" and "assignments_ok (d\<lparr>assignments := as\<rparr>)"
  shows "controller_ok H (d\<lparr>assignments := as\<rparr>)"
  using assms lanes_ok_frame [of "d\<lparr>assignments := as\<rparr>" d] waves_ok_frame [of "d\<lparr>assignments := as\<rparr>" d]
    tasks_ok_frame [of "d\<lparr>assignments := as\<rparr>" d] events_ok_frame [of "d\<lparr>assignments := as\<rparr>" d H]
  by (simp add: controller_ok_def)

lemma controller_ok_tasks:
  assumes "controller_ok H d" and "tasks_ok (d\<lparr>tasks := ts\<rparr>)"
  shows "controller_ok H (d\<lparr>tasks := ts\<rparr>)"
  using assms lanes_ok_frame [of "d\<lparr>tasks := ts\<rparr>" d] waves_ok_frame [of "d\<lparr>tasks := ts\<rparr>" d]
    assignments_ok_frame [of "d\<lparr>tasks := ts\<rparr>" d] events_ok_frame [of "d\<lparr>tasks := ts\<rparr>" d H]
  by (simp add: controller_ok_def)

lemma controller_ok_waves:
  assumes "controller_ok H d" and "waves_ok d'" and "lanes_ok d'"
    and "assignments d' = assignments d" "tasks d' = tasks d"
      "events d' = events d" "event_heads d' = event_heads d"
  shows "controller_ok H d'"
  using assms assignments_ok_frame [of d' d] tasks_ok_frame [of d' d] events_ok_frame [of d' d H]
  by (simp add: controller_ok_def)

text \<open>Tables the invariant does not read.\<close>

lemma controller_ok_other [simp]:
  "controller_ok H (d\<lparr>checkpoints := x1\<rparr>) = controller_ok H d"
  "controller_ok H (d\<lparr>checkpoint_files := x2\<rparr>) = controller_ok H d"
  "controller_ok H (d\<lparr>boundaries := x3\<rparr>) = controller_ok H d"
  "controller_ok H (d\<lparr>assignment_files := x4\<rparr>) = controller_ok H d"
  "controller_ok H (d\<lparr>human_requests := x5\<rparr>) = controller_ok H d"
  "controller_ok H (d\<lparr>human_request_files := x10\<rparr>) = controller_ok H d"
  "controller_ok H (d\<lparr>command_runs := x6\<rparr>) = controller_ok H d"
  "controller_ok H (d\<lparr>dispatch_requests := x7\<rparr>) = controller_ok H d"
  "controller_ok H (d\<lparr>dispatch_capabilities := x8\<rparr>) = controller_ok H d"
  "controller_ok H (d\<lparr>team_members := x9\<rparr>) = controller_ok H d"
  by (simp_all add: controller_ok_def lanes_ok_def waves_ok_def assignments_ok_def tasks_ok_def
      events_ok_def log_ok_def task_log_def)

subsection \<open>Row replacements in the other tables\<close>

lemma assignments_ok_replace:
  assumes ok: "assignments_ok d" and a: "a \<in> set (assignments d)" and ck: "ck_assignment b"
    and same: "as_assignment_id b = as_assignment_id a" "as_task_id b = as_task_id a"
      "as_member_id b = as_member_id a" and closed: "as_closed_at b = None \<longrightarrow> as_closed_at a = None"
  shows "assignments_ok (d\<lparr>assignments := replace_row a b (assignments d)\<rparr>)"
proof -
  let ?key = "\<lambda>a. (as_task_id a, as_member_id a)"
  let ?open = "{x \<in> set (assignments d). as_closed_at x = None}"
  let ?open' = "{x \<in> insert b (set (assignments d) - {a}). as_closed_at x = None}"
  have inj: "inj_on ?key ?open" using ok by (simp add: assignments_ok_def)
  have "inj_on ?key ?open'"
  proof (cases "as_closed_at b = None")
    case True
    then have "?open' = insert b (?open - {a})" by auto
    moreover have "a \<in> ?open" using a closed True by simp
    ultimately show ?thesis using inj_on_replace [OF inj, of a b] same(2,3) by simp
  next
    case False
    then have "?open' \<subseteq> ?open" by auto
    with inj show ?thesis by (rule inj_on_subset)
  qed
  then show ?thesis
    using ok a ck same(1) unfolding assignments_ok_def
    by (simp add: set_replace_row keyed_replace_row)
qed

lemma assignments_ok_insert:
  assumes ok: "assignments_ok d" and ins: "insert_assignment a (assignments d) = Inr as"
  shows "assignments_ok (d\<lparr>assignments := as\<rparr>)"
proof -
  note I = insert_assignment_Inr [OF ins]
  let ?key = "\<lambda>a. (as_task_id a, as_member_id a)"
  let ?open = "{x \<in> set (assignments d). as_closed_at x = None}"
  let ?open' = "{x \<in> insert a (set (assignments d)). as_closed_at x = None}"
  have inj: "inj_on ?key ?open" using ok by (simp add: assignments_ok_def)
  have "inj_on ?key ?open'"
  proof (cases "as_closed_at a = None")
    case True
    then have "?open' = insert a ?open" by auto
    moreover have "?key a \<notin> ?key ` ?open"
    proof
      assume "?key a \<in> ?key ` ?open"
      then obtain x where "x \<in> set (assignments d)" "as_closed_at x = None"
        "as_task_id x = as_task_id a" "as_member_id x = as_member_id a" by auto
      then show False using insert_assignment_one_open [OF ins True] by simp
    qed
    ultimately show ?thesis using inj_on_extend [OF inj] by simp
  next
    case False
    then have "?open' = ?open" by auto
    with inj show ?thesis by simp
  qed
  then show ?thesis
    using ok I unfolding assignments_ok_def by (simp add: keyed_insert)
qed

lemma tasks_ok_replace:
  assumes "tasks_ok d" and "t \<in> set (tasks d)" and "ck_task u" and "tk_task_id u = tk_task_id t"
  shows "tasks_ok (d\<lparr>tasks := replace_row t u (tasks d)\<rparr>)"
  using assms unfolding tasks_ok_def by (simp add: set_replace_row keyed_replace_row)

subsection \<open>Parking an Attempt on a new wait\<close>

lemma suspend_current_attempt_on_wait_frame:
  assumes "suspend_current_attempt_on_wait i wait tr now reason d = Some d'"
  obtains ds as where "d' = d\<lparr>dispatches := ds, attempts := as\<rparr>"
  using assms unfolding suspend_current_attempt_on_wait_def
  by (auto simp: bind_eq_Some_conv split: if_splits)

lemma park_on_new_wait_controller_ok:
  assumes ok: "controller_ok H d" and ins: "insert_wait w (waits d) = Inr ws"
    and i: "aw_attempt_id w = di_attempt_id i" "aw_assignment_id w = di_assignment_id i"
      "aw_task_id w = di_task_id i"
    and sus: "suspend_current_attempt_on_wait i (aw_wait_id w) tr now reason (d\<lparr>waits := ws\<rparr>) = Some d'"
    and r: "reason \<noteq> CWatchdogSuperseded"
  shows "controller_ok H d'"
proof -
  have "lanes_ok d'"
    using suspend_on_new_wait_lanes_ok [OF controller_ok_parts(1) [OF ok] _ _ i sus r]
      insert_wait_Inr [OF ins] by blast
  moreover obtain ds as where "d' = (d\<lparr>waits := ws\<rparr>)\<lparr>dispatches := ds, attempts := as\<rparr>"
    by (rule suspend_current_attempt_on_wait_frame [OF sus])
  ultimately show ?thesis by (intro controller_ok_lanes [OF ok]) simp_all
qed

subsection \<open>Histories of committed operations\<close>

text \<open>A failed transaction is rolled back; a history is a sequence of attempted operations.\<close>

definition commit_or_rollback :: "('op \<Rightarrow> db \<Rightarrow> ('r \<times> db) result) \<Rightarrow> 'op \<Rightarrow> db \<Rightarrow> db" where
  "commit_or_rollback step op d = (case step op d of Inl e \<Rightarrow> d | Inr (r, d') \<Rightarrow> d')"

definition run_history :: "('op \<Rightarrow> db \<Rightarrow> ('r \<times> db) result) \<Rightarrow> 'op list \<Rightarrow> db \<Rightarrow> db" where
  "run_history step ops d = fold (commit_or_rollback step) ops d"

locale committed_operation =
  fixes step :: "'op \<Rightarrow> db \<Rightarrow> ('r \<times> db) result"
    and inv :: "db \<Rightarrow> bool"
  assumes keeps: "step op d = Inr (r, d') \<Longrightarrow> inv d \<Longrightarrow> inv d'"
begin

lemma commit_keeps: "inv d \<Longrightarrow> inv (commit_or_rollback step op d)"
  using keeps by (auto simp: commit_or_rollback_def split: sum.splits)

lemma history_keeps: "inv d \<Longrightarrow> inv (run_history step ops d)"
  unfolding run_history_def by (induction ops arbitrary: d) (simp_all add: commit_keeps)

end

end
