(* ===== verification/Samples.thy ===== *)
theory Samples
  imports Checkpoints Invariant
begin

text \<open>
  A concrete controller state on which the properties are instantiated: Task \<open>t1\<close> with a root
  Member \<open>lead\<close> and one direct child \<open>dev\<close>, the root Assignment running on an open Dispatch,
  and a child that has not worked yet.
\<close>

definition sample_env :: env where
  "sample_env = \<lparr>env_event_hash = (\<lambda>e. te_event_id e), env_now = 100\<rparr>"

definition sample_task :: task_row where
  "sample_task =
     \<lparr>tk_task_id = ''t1'', tk_workflow = (''flow'', 1, ''h''), tk_status = TaskRunning,
      tk_terminal_outcome = None, tk_control_revision = 0, tk_pause_reason = None,
      tk_pause_details = None, tk_paused_at = None, tk_paused_by_actor_ref = None,
      tk_root_assignment_id = Some ''as1'', tk_current_team_revision_id = Some ''rev1'',
      tk_result_boundary_id = None, tk_max_child_assignments = 3, tk_max_retries = 1,
      tk_max_wave_members = 4, tk_task_root_path = ''/root'', tk_workspace_root = Some ''/w'',
      tk_created_at = 0, tk_updated_at = 0\<rparr>"

definition sample_assignment :: assignment_row where
  "sample_assignment =
     \<lparr>as_assignment_id = ''as1'', as_task_id = ''t1'', as_member_id = ''lead'',
      as_parent_assignment_id = None, as_prompt = ''do'', as_current_attempt_id = Some ''at1'',
      as_work_plan_revision = 0, as_child_assignment_limit = Some 3,
      as_child_assignments_remaining = Some 3, as_retry_limit = Some 1,
      as_retries_remaining = Some 1, as_created_by_dispatch_id = None, as_created_at = 0,
      as_terminal_outcome = None, as_closed_at = None\<rparr>"

definition sample_attempt :: attempt_row where
  "sample_attempt =
     \<lparr>at_attempt_id = ''at1'', at_assignment_id = ''as1'', at_task_id = ''t1'',
      at_retry_of_attempt_id = None, at_latest_checkpoint_id = None,
      at_current_dispatch_id = Some ''d1'', at_current_wait_id = None,
      at_watchdog_replacement_count = 0, at_status = AttRunning, at_terminal_outcome = None,
      at_opened_at = 0, at_closed_at = None\<rparr>"

definition sample_pins :: provider_pins where
  "sample_pins =
     \<lparr>pv_requested_provider = ''codex'', pv_resolved_provider = ''codex'',
      pv_selection_basis = ''explicit'', pv_model_override = None, pv_model_source = None,
      pv_effort_override = None, pv_effort_source = None,
      pv_requested_extension_mode = None, pv_requested_extension_mode_source = None,
      pv_effective_extension_mode = None, pv_effective_extension_mode_source = None\<rparr>"

definition sample_dispatch :: dispatch_row where
  "sample_dispatch =
     \<lparr>dt_dispatch_id = ''d1'', dt_task_id = ''t1'', dt_assignment_id = ''as1'',
      dt_team_revision_id = ''rev1'', dt_member_id = ''lead'',
      dt_member_configuration_id = ''cfg1'', dt_member_branch_basis_id = ''bb1'',
      dt_attempt_id = ''at1'', dt_task_start_source_task_id = Some ''t1'',
      dt_predecessor_dispatch_id = None, dt_status = Open, dt_opened_reason = ORoot,
      dt_provider = sample_pins, dt_provider_start_revision = 1,
      dt_provider_start_attempt_count = 1, dt_next_provider_start_at = None,
      dt_provider_start_retry_kind = None, dt_provider_start_last_error_code = None,
      dt_created_at = 1, dt_adapter_started_at = Some 2, dt_last_node_activity_at = None,
      dt_node_activity_revision = 0, dt_closed_at = None, dt_closed_reason = None\<rparr>"

definition sample_caps :: capability_set where
  "sample_caps = \<lparr>cs_human_direction = CapAllow, cs_human_approval = CapDeny,
     cs_human_input = CapAllow, cs_human_review = CapDeny, cs_command_run = CapAllow\<rparr>"

definition sample_lead :: team_member_row where
  "sample_lead =
     \<lparr>tm_task_id = ''t1'', tm_team_revision_id = ''rev1'', tm_member_id = ''lead'',
      tm_parent_member_id = None, tm_member_configuration_id = ''cfg1'',
      tm_member_branch_basis_id = ''bb1'', tm_preorder_index = 0, tm_sibling_order = 0\<rparr>"

definition sample_dev :: team_member_row where
  "sample_dev =
     \<lparr>tm_task_id = ''t1'', tm_team_revision_id = ''rev1'', tm_member_id = ''dev'',
      tm_parent_member_id = Some ''lead'', tm_member_configuration_id = ''cfg2'',
      tm_member_branch_basis_id = ''bb2'', tm_preorder_index = 1, tm_sibling_order = 0\<rparr>"

definition sample_db :: db where
  "sample_db =
     \<lparr>tasks = [sample_task], assignments = [sample_assignment], assignment_files = [],
      attempts = [sample_attempt], checkpoints = [], checkpoint_files = [], boundaries = [],
      dispatches = [sample_dispatch], dispatch_requests = [],
      dispatch_capabilities = [\<lparr>dc_dispatch_id = ''d1'', dc_capabilities = sample_caps, dc_created_at = 0\<rparr>],
      team_members = [sample_lead, sample_dev], waits = [], waves = [], wave_members = [],
      human_requests = [], human_request_files = [], command_runs = [],
      work_plans = [], work_plan_steps = [], replan_transitions = [],
      task_starts = [\<lparr>ts_task_id = ''t1'', ts_root_assignment_id = ''as1'', ts_root_attempt_id = ''at1'',
        ts_successor_dispatch_id = Some ''d1'', ts_committed_at = 0\<rparr>],
      event_heads = [\<lparr>eh_task_id = ''t1'', eh_allocator_revision = 0, eh_last_event_seq = 0,
        eh_last_event_hash = None\<rparr>], events = []\<rparr>"

definition sample_scope :: operation_scope where
  "sample_scope = \<lparr>os_task_id = ''t1'', os_dispatch_id = ''d1'', os_provider_start_revision = Some 1\<rparr>"

definition sample_authority :: node_authority where
  "sample_authority =
     \<lparr>na_task_id = ''t1'', na_dispatch_id = ''d1'', na_assignment_id = ''as1'',
      na_attempt_id = ''at1'', na_member_id = ''lead'', na_is_task_lead = True,
      na_has_direct_team = True, na_team_revision_id = ''rev1'',
      na_current_team_revision_id = ''rev1'', na_task_control_revision = 0,
      na_work_plan_revision = 0, na_dispatch_status = Open, na_opened_reason = ORoot,
      na_predecessor_dispatch_id = None, na_expected_provider_start_revision = Some 1,
      na_dispatch = sample_dispatch, na_assignment = sample_assignment,
      na_attempt = sample_attempt, na_team_selection = sample_lead,
      na_capabilities = \<lparr>dc_dispatch_id = ''d1'', dc_capabilities = sample_caps, dc_created_at = 0\<rparr>\<rparr>"

definition sample_render :: render where
  "sample_render b d = Inr \<lparr>pr_dispatch_id = '''', pr_due_at = 101, pr_provider = sample_pins,
     pr_capabilities = sample_caps, pr_instructions = ''instructions'', pr_input = ''input''\<rparr>"

definition sample_probe :: "string \<Rightarrow> string \<Rightarrow> file_probe" where
  "sample_probe workspace path = RegularFile"

definition sample_fresh :: checkpoint_fresh where
  "sample_fresh = \<lparr>fx_checkpoint_hex = ''c1'', fx_attempt_hex = ''a2'', fx_dispatch_hex = ''d2''\<rparr>"

definition sample_request :: "outcome option \<Rightarrow> checkpoint_request" where
  "sample_request outc = \<lparr>cq_summary = ''done'', cq_details = None,
     cq_files = [\<lparr>fr_path = ''notes.md'', fr_description = None\<rparr>], cq_outcome = outc\<rparr>"

lemmas sample_defs = sample_db_def sample_task_def sample_assignment_def sample_attempt_def
  sample_dispatch_def sample_pins_def sample_lead_def sample_dev_def sample_authority_def
  sample_scope_def sample_env_def sample_caps_def

lemma sample_read: "read_node_operation_authority sample_scope sample_db = Inr sample_authority"
  by code_simp

lemma sample_controller_ok: "controller_ok (env_event_hash sample_env) sample_db"
proof -
  have "lanes_ok sample_db"
    by (simp add: lanes_ok_def lanes_wf_def sample_defs keyed_def ck_attempt_def ck_dispatch_def
        ck_dispatch_source_shape_def dispatch_is_active_def attempt_owns_dispatch_def sql_eq_def)
  moreover have "waves_ok sample_db" by (simp add: waves_ok_def sample_defs)
  moreover have "assignments_ok sample_db"
    by (auto simp: assignments_ok_def sample_defs keyed_def ck_assignment_def ck_budget_def
        intro: inj_onI)
  moreover have "tasks_ok sample_db" by (simp add: tasks_ok_def sample_defs keyed_def ck_task_def)
  moreover have "events_ok (env_event_hash sample_env) sample_db"
    by (simp add: events_ok_def sample_defs keyed_def log_ok_def task_log_def last_hash_def)
  ultimately show ?thesis by (simp add: controller_ok_def)
qed

lemma isr_ex: "\<not> isl r \<Longrightarrow> \<exists>x. r = Inr x"
  by (cases r) simp_all

subsection \<open>A child that returned green\<close>

definition sample_dev_dispatch :: dispatch_row where
  "sample_dev_dispatch = sample_dispatch\<lparr>dt_dispatch_id := ''d9'', dt_assignment_id := ''as9'',
     dt_attempt_id := ''at9'', dt_member_id := ''dev'', dt_member_configuration_id := ''cfg2'',
     dt_member_branch_basis_id := ''bb2'', dt_task_start_source_task_id := None,
     dt_opened_reason := ODelegation, dt_status := Closed, dt_closed_at := Some 50,
     dt_closed_reason := Some CBoundary\<rparr>"

definition sample_dev_boundary :: boundary_row where
  "sample_dev_boundary =
     \<lparr>ab_accepted_boundary_id = ''accepted-boundary.d9'', ab_source_dispatch_id = ''d9'',
      ab_task_id = ''t1'', ab_assignment_id = ''as9'', ab_attempt_id = ''at9'', ab_outcome = Green,
      ab_checkpoint_id = ''cp9'', ab_successor_attempt_id = None,
      ab_successor_dispatch_id = None, ab_committed_at = 50\<rparr>"

definition sample_green_db :: db where
  "sample_green_db = sample_db\<lparr>dispatches := [sample_dispatch, sample_dev_dispatch],
     boundaries := [sample_dev_boundary]\<rparr>"

subsection \<open>A Wave waiting for its join\<close>

definition sample_wave :: wave_row where
  "sample_wave =
     \<lparr>dw_delegation_wave_id = ''wv1'', dw_task_id = ''t1'', dw_parent_assignment_id = ''as1'',
      dw_parent_attempt_id = ''at1'', dw_source_dispatch_id = ''d1'', dw_team_revision_id = ''rev1'',
      dw_parent_member_id = ''lead'', dw_parent_member_configuration_id = ''cfg1'',
      dw_parent_member_branch_basis_id = ''bb1'', dw_status = WaveOpen,
      dw_successor_dispatch_id = None, dw_created_at = 10, dw_settled_at = None,
      dw_cancelled_at = None\<rparr>"

definition sample_wave_member :: wave_member_row where
  "sample_wave_member =
     \<lparr>dm_delegation_wave_id = ''wv1'', dm_order_index = 0, dm_task_id = ''t1'',
      dm_parent_assignment_id = ''as1'', dm_parent_attempt_id = ''at1'', dm_source_dispatch_id = ''d1'',
      dm_team_revision_id = ''rev1'', dm_parent_member_id = ''lead'',
      dm_parent_member_configuration_id = ''cfg1'', dm_parent_member_branch_basis_id = ''bb1'',
      dm_child_assignment_id = ''as9'', dm_child_member_id = ''dev'',
      dm_child_member_configuration_id = ''cfg2'', dm_child_member_branch_basis_id = ''bb2'',
      dm_status = MemberPending, dm_terminal_boundary_id = None, dm_terminal_outcome = None,
      dm_settled_at = None, dm_cancelled_at = None\<rparr>"

definition sample_wait :: wait_row where
  "sample_wait =
     \<lparr>aw_wait_id = ''w1'', aw_task_id = ''t1'', aw_assignment_id = ''as1'', aw_attempt_id = ''at1'',
      aw_source_dispatch_id = ''d1'', aw_delegation_wave_id = Some ''wv1'',
      aw_human_request_id = None, aw_command_run_id = None, aw_created_at = 10\<rparr>"

definition sample_child_authority :: node_authority where
  "sample_child_authority = sample_authority\<lparr>na_assignment_id := ''as9'', na_member_id := ''dev''\<rparr>"

definition sample_wave_db :: "wave_member_row \<Rightarrow> db" where
  "sample_wave_db m = sample_db\<lparr>
     attempts := [sample_attempt\<lparr>at_current_dispatch_id := None, at_current_wait_id := Some ''w1''\<rparr>],
     dispatches := [sample_dispatch\<lparr>dt_status := Closed, dt_closed_at := Some 10,
       dt_closed_reason := Some CDelegation\<rparr>],
     waits := [sample_wait], waves := [sample_wave], wave_members := [m]\<rparr>"

definition sample_settled_member :: wave_member_row where
  "sample_settled_member = sample_wave_member\<lparr>dm_status := MemberSettled,
     dm_terminal_boundary_id := Some ''accepted-boundary.d9'', dm_terminal_outcome := Some Green,
     dm_settled_at := Some 50\<rparr>"

definition sample_idle_db :: db where
  "sample_idle_db = sample_db\<lparr>attempts := [sample_attempt\<lparr>at_current_dispatch_id := None\<rparr>],
     dispatches := []\<rparr>"

definition sample_prepared :: prepared_request where
  "sample_prepared = \<lparr>pr_dispatch_id = ''d2'', pr_due_at = 101, pr_provider = sample_pins,
     pr_capabilities = sample_caps, pr_instructions = ''instructions'', pr_input = ''input''\<rparr>"

lemma joined_ex: "(case r of Inl e \<Rightarrow> False | Inr (b, d) \<Rightarrow> b) \<Longrightarrow> \<exists>d. r = Inr (True, d)"
  by (auto split: sum.splits prod.splits)

lemma sample_green_controller_ok: "controller_ok (env_event_hash sample_env) sample_green_db"
proof -
  have "lanes_ok sample_green_db"
    by (simp add: lanes_ok_def lanes_wf_def sample_green_db_def sample_dev_dispatch_def sample_defs
        keyed_def ck_attempt_def ck_dispatch_def ck_dispatch_source_shape_def dispatch_is_active_def
        attempt_owns_dispatch_def sql_eq_def)
  then show ?thesis
    by (rule controller_ok_lanes [OF sample_controller_ok]) (simp_all add: sample_green_db_def)
qed

lemma sample_wave_lanes_ok: "lanes_ok (sample_wave_db m)"
  by (simp add: lanes_ok_def lanes_wf_def sample_wave_db_def sample_wait_def sample_defs keyed_def
      ck_attempt_def ck_dispatch_def ck_dispatch_source_shape_def dispatch_is_active_def ck_wait_def
      attempt_owns_dispatch_def attempt_owns_wait_def sql_eq_def sql_in_def)

lemma sample_waves_ok:
  "waves_ok (sample_wave_db sample_wave_member)" "waves_ok (sample_wave_db sample_settled_member)"
  by (simp_all add: waves_ok_def sample_wave_db_def sample_wave_def sample_wave_member_def
      sample_settled_member_def keyed_def ck_wave_def ck_wave_member_def sql_in_def)

end
