(* ===== verification/CheckpointProofs.thy ===== *)
theory CheckpointProofs
  imports Checkpoints Invariant
begin

text \<open>
  What a committed Checkpoint does: it keeps the controller invariant on every branch, a
  green one had the participation of every direct child, a retry consumes one unit of the
  retry budget and hands the lane to a new Attempt, and a terminal root Checkpoint completes
  the Task.
\<close>

subsection \<open>The lane steps of a Checkpoint\<close>

lemma advance_latest_checkpoint_Inr:
  assumes ok: "lanes_ok d" and "advance_latest_checkpoint au c obs d = Inr d'"
  obtains a where "a \<in> set (attempts d)" "at_attempt_id a = na_attempt_id au"
    "at_latest_checkpoint_id a = obs" "at_status a = AttPending \<or> at_status a = AttRunning"
    "exact_node_operation_authority_exists au d"
    "d' = d\<lparr>attempts := replace_row a (a\<lparr>at_latest_checkpoint_id := Some c\<rparr>) (attempts d)\<rparr>"
proof -
  let ?p = "\<lambda>a. at_task_id a = na_task_id au \<and>
            at_assignment_id a = na_assignment_id au \<and> at_attempt_id a = na_attempt_id au \<and>
            (at_status a = AttPending \<or> at_status a = AttRunning) \<and>
            at_latest_checkpoint_id a = obs \<and> exact_node_operation_authority_exists au d"
  have key: "\<forall>a. ?p a \<longrightarrow> at_attempt_id a = na_attempt_id au" by simp
  obtain as where up: "update_where ?p (\<lambda>a. a\<lparr>at_latest_checkpoint_id := Some c\<rparr>) (attempts d) = Some as"
    and d': "d' = d\<lparr>attempts := as\<rparr>"
    using assms(2) unfolding advance_latest_checkpoint_def by (auto simp: result_simps)
  obtain a where a: "a \<in> set (attempts d)" "?p a"
    "as = replace_row a (a\<lparr>at_latest_checkpoint_id := Some c\<rparr>) (attempts d)"
    using up unfolding update_unique_iff [OF lanes_ok_keys(1) [OF ok] key] by blast
  show thesis by (rule that [of a]) (use a d' in simp_all)
qed

lemma advance_latest_checkpoint_controller_ok:
  assumes ok: "controller_ok H d" and adv: "advance_latest_checkpoint au c obs d = Inr d'"
  shows "controller_ok H d'"
proof (rule advance_latest_checkpoint_Inr [OF controller_ok_parts(1) [OF ok] adv])
  fix a assume a: "a \<in> set (attempts d)"
    and d': "d' = d\<lparr>attempts := replace_row a (a\<lparr>at_latest_checkpoint_id := Some c\<rparr>) (attempts d)\<rparr>"
  have "ck_attempt (a\<lparr>at_latest_checkpoint_id := Some c\<rparr>)"
    using lanes_ok_keys(5) [OF controller_ok_parts(1) [OF ok] a] by (simp add: ck_attempt_def)
  then have "lanes_ok d'"
    unfolding d' by (intro lanes_ok_touch_attempt [OF controller_ok_parts(1) [OF ok] a])
      (simp_all add: same_attempt_def)
  then show ?thesis by (rule controller_ok_lanes [OF ok]) (simp_all add: d')
qed

lemma close_source_dispatch_controller_ok:
  assumes ok: "controller_ok H d" and cl: "close_source_dispatch i tr now reason d = Inr d'"
    and r: "reason \<noteq> CWatchdogSuperseded"
  shows "controller_ok H d'"
proof -
  note lanes = controller_ok_parts(1) [OF ok]
  have cl': "close_current_attempt_dispatch i tr now reason d = Some d'"
    using cl by (simp add: close_source_dispatch_def result_simps)
  show ?thesis
    by (rule close_current_attempt_dispatch_Some [OF lanes_ok_keys(1,2) [OF lanes] cl'])
      (rule controller_ok_lanes [OF ok close_current_attempt_dispatch_lanes_ok [OF lanes cl' r]];
        simp)
qed

lemma complete_source_attempt_Inr:
  assumes ok: "lanes_ok d" and "complete_source_attempt au outc now d = Inr d'"
  obtains a where "a \<in> set (attempts d)" "at_attempt_id a = na_attempt_id au"
    "at_current_dispatch_id a = None" "at_current_wait_id a = None"
    "d' = d\<lparr>attempts := replace_row a (a\<lparr>at_status := AttCompleted, at_terminal_outcome := Some outc,
            at_closed_at := Some now, at_current_dispatch_id := None,
            at_current_wait_id := None\<rparr>) (attempts d)\<rparr>"
proof -
  let ?p = "\<lambda>a. at_attempt_id a = na_attempt_id au \<and>
            at_assignment_id a = na_assignment_id au \<and> at_task_id a = na_task_id au \<and>
            (at_status a = AttPending \<or> at_status a = AttRunning) \<and>
            at_current_dispatch_id a = None \<and> at_current_wait_id a = None"
  let ?f = "\<lambda>a. a\<lparr>at_status := AttCompleted, at_terminal_outcome := Some outc,
            at_closed_at := Some now, at_current_dispatch_id := None,
            at_current_wait_id := None\<rparr>"
  have key: "\<forall>a. ?p a \<longrightarrow> at_attempt_id a = na_attempt_id au" by simp
  obtain as where up: "update_where ?p ?f (attempts d) = Some as" and d': "d' = d\<lparr>attempts := as\<rparr>"
    using assms(2) unfolding complete_source_attempt_def by (auto simp: result_simps)
  obtain a where a: "a \<in> set (attempts d)" "?p a" "as = replace_row a (?f a) (attempts d)"
    using up unfolding update_unique_iff [OF lanes_ok_keys(1) [OF ok] key] by blast
  show thesis by (rule that [of a]) (use a d' in simp_all)
qed

lemma complete_source_attempt_controller_ok:
  assumes ok: "controller_ok H d" and cp: "complete_source_attempt au outc now d = Inr d'"
  shows "controller_ok H d'"
proof (rule complete_source_attempt_Inr [OF controller_ok_parts(1) [OF ok] cp])
  fix a :: attempt_row let ?b = "a\<lparr>at_status := AttCompleted, at_terminal_outcome := Some outc,
            at_closed_at := Some now, at_current_dispatch_id := None, at_current_wait_id := None\<rparr>"
  assume a: "a \<in> set (attempts d)" "at_current_dispatch_id a = None" "at_current_wait_id a = None"
    and d': "d' = d\<lparr>attempts := replace_row a ?b (attempts d)\<rparr>"
  have "ck_attempt ?b"
    using lanes_ok_keys(5) [OF controller_ok_parts(1) [OF ok] a(1)] by (simp add: ck_attempt_def)
  then have "lanes_ok d'"
    unfolding d' by (intro lanes_ok_touch_attempt [OF controller_ok_parts(1) [OF ok] a(1)])
      (simp_all add: same_attempt_def a)
  then show ?thesis by (rule controller_ok_lanes [OF ok]) (simp_all add: d')
qed

subsection \<open>The Assignment steps\<close>

lemma source_assignment_key:
  "\<forall>s. source_assignment_matches au s \<longrightarrow> as_assignment_id s = na_assignment_id au"
  "\<forall>s. source_assignment_matches au s \<and> has_retry_budget s \<longrightarrow> as_assignment_id s = na_assignment_id au"
  by (simp_all add: source_assignment_matches_def)

lemma assignments_keyed: "controller_ok H d \<Longrightarrow> keyed as_assignment_id (assignments d)"
  by (simp add: controller_ok_def assignments_ok_def)

lemma complete_source_assignment_Inr:
  assumes "keyed as_assignment_id (assignments d)"
    and "complete_source_assignment au outc now d = Inr d'"
  obtains s where "s \<in> set (assignments d)" "source_assignment_matches au s"
    "d' = d\<lparr>assignments := replace_row s
       (s\<lparr>as_terminal_outcome := Some outc, as_closed_at := Some now\<rparr>) (assignments d)\<rparr>"
proof -
  let ?f = "\<lambda>s. s\<lparr>as_terminal_outcome := Some outc, as_closed_at := Some now\<rparr>"
  obtain ss where up: "update_where (source_assignment_matches au) ?f (assignments d) = Some ss"
    and d': "d' = d\<lparr>assignments := ss\<rparr>"
    using assms(2) unfolding complete_source_assignment_def by (auto simp: result_simps)
  obtain s where "s \<in> set (assignments d)" "source_assignment_matches au s"
      "ss = replace_row s (?f s) (assignments d)"
    using up unfolding update_unique_iff [OF assms(1) source_assignment_key(1)] by blast
  with d' that show thesis by blast
qed

lemma complete_source_assignment_controller_ok:
  assumes ok: "controller_ok H d" and cp: "complete_source_assignment au outc now d = Inr d'"
    and outc: "outc \<noteq> Retry"
  shows "controller_ok H d'"
proof (rule complete_source_assignment_Inr [OF assignments_keyed [OF ok] cp])
  fix s :: assignment_row let ?s = "s\<lparr>as_terminal_outcome := Some outc, as_closed_at := Some now\<rparr>"
  assume s: "s \<in> set (assignments d)" "source_assignment_matches au s"
    and d': "d' = d\<lparr>assignments := replace_row s ?s (assignments d)\<rparr>"
  have "ck_assignment s" using ok s(1) by (simp add: controller_ok_def assignments_ok_def)
  then have "ck_assignment ?s" using outc by (cases outc) (auto simp: ck_assignment_def)
  then have "assignments_ok d'"
    unfolding d' by (intro assignments_ok_replace [OF controller_ok_parts(3) [OF ok] s(1)]) simp_all
  then show ?thesis using controller_ok_assignments [OF ok] d' by simp
qed

definition consume_retry :: "ident \<Rightarrow> assignment_row \<Rightarrow> assignment_row" where
  "consume_retry attempt s = s\<lparr>as_current_attempt_id := Some attempt,
     as_retries_remaining := map_option (\<lambda>n. n - 1) (as_retries_remaining s)\<rparr>"

lemma start_semantic_retry_Inr:
  assumes "keyed as_assignment_id (assignments d)"
    and "start_semantic_retry au source attempt now d = Inr d'"
  obtains s as where "s \<in> set (assignments d)" "source_assignment_matches au s" "has_retry_budget s"
    "insert_attempt (retry_attempt_row au attempt now) (attempts d) = Inr as"
    "d' = d\<lparr>attempts := as, assignments := replace_row s (consume_retry attempt s) (assignments d)\<rparr>"
proof -
  let ?p = "\<lambda>s. source_assignment_matches au s \<and> has_retry_budget s"
  obtain as ss where ins: "insert_attempt (retry_attempt_row au attempt now) (attempts d) = Inr as"
    and up: "update_where ?p (\<lambda>s. s\<lparr>as_current_attempt_id := Some attempt,
               as_retries_remaining := map_option (\<lambda>n. n - 1) (as_retries_remaining s)\<rparr>)
               (assignments d) = Some ss"
    and d': "d' = d\<lparr>attempts := as, assignments := ss\<rparr>"
    using assms(2) unfolding start_semantic_retry_def
    by (auto simp: result_simps split: if_splits)
  obtain s where "s \<in> set (assignments d)" "?p s"
      "ss = replace_row s (consume_retry attempt s) (assignments d)"
    using up unfolding update_unique_iff [OF assms(1) source_assignment_key(2)] consume_retry_def
    by blast
  with ins d' that show thesis by blast
qed

lemma ck_consume_retry:
  assumes "ck_assignment s" and "has_retry_budget s"
  shows "ck_assignment (consume_retry attempt s)"
  using assms
  by (auto simp: consume_retry_def ck_assignment_def ck_budget_def has_retry_budget_def
      split: option.splits)

lemma start_semantic_retry_controller_ok:
  assumes ok: "controller_ok H d" and st: "start_semantic_retry au source attempt now d = Inr d'"
  shows "controller_ok H d'"
proof (rule start_semantic_retry_Inr [OF assignments_keyed [OF ok] st])
  fix s as
  assume s: "s \<in> set (assignments d)" "has_retry_budget s"
    and ins: "insert_attempt (retry_attempt_row au attempt now) (attempts d) = Inr as"
    and d': "d' = d\<lparr>attempts := as, assignments := replace_row s (consume_retry attempt s) (assignments d)\<rparr>"
  have "lanes_ok (d\<lparr>attempts := as\<rparr>)"
    by (rule lanes_ok_new_attempt [OF controller_ok_parts(1) [OF ok] ins])
      (simp_all add: retry_attempt_row_def)
  then have ok1: "controller_ok H (d\<lparr>attempts := as\<rparr>)"
    by (rule controller_ok_lanes [OF ok]) simp_all
  have "ck_assignment s" using ok s(1) by (simp add: controller_ok_def assignments_ok_def)
  then have "assignments_ok (d\<lparr>attempts := as,
      assignments := replace_row s (consume_retry attempt s) (assignments (d\<lparr>attempts := as\<rparr>))\<rparr>)"
    using s ck_consume_retry
    by (intro assignments_ok_replace [OF controller_ok_parts(3) [OF ok1]])
      (simp_all add: consume_retry_def)
  then show ?thesis using controller_ok_assignments [OF ok1] d' by simp
qed

subsection \<open>The Task step\<close>

lemma complete_root_task_Inr:
  assumes keyed: "keyed tk_task_id (tasks d)"
    and "complete_root_task au outc boundary now d = Inr d'"
  obtains t where "t \<in> set (tasks d)" "tk_task_id t = na_task_id au" "tk_status t = TaskRunning"
    "tk_root_assignment_id t = Some (na_assignment_id au)"
    "\<not> live_descendant_attempt (na_task_id au) d" "\<not> live_wait (na_task_id au) d"
    "\<not> live_wave (na_task_id au) d"
    "d' = d\<lparr>tasks := replace_row t (t\<lparr>tk_status := TaskCompleted, tk_terminal_outcome := Some outc,
            tk_result_boundary_id := Some boundary, tk_updated_at := now\<rparr>) (tasks d)\<rparr>"
proof -
  let ?p = "\<lambda>t. tk_task_id t = na_task_id au \<and> tk_status t = TaskRunning \<and>
            tk_root_assignment_id t = Some (na_assignment_id au) \<and>
            tk_current_team_revision_id t = Some (na_team_revision_id au) \<and>
            tk_control_revision t = na_task_control_revision au \<and>
            tk_result_boundary_id t = None \<and> \<not> live_descendant_attempt (na_task_id au) d \<and>
            \<not> live_wait (na_task_id au) d \<and> \<not> live_wave (na_task_id au) d"
  let ?f = "\<lambda>t. t\<lparr>tk_status := TaskCompleted, tk_terminal_outcome := Some outc,
            tk_result_boundary_id := Some boundary, tk_updated_at := now\<rparr>"
  have key: "\<forall>t. ?p t \<longrightarrow> tk_task_id t = na_task_id au" by simp
  obtain ts where up: "update_where ?p ?f (tasks d) = Some ts" and d': "d' = d\<lparr>tasks := ts\<rparr>"
    using assms(2) unfolding complete_root_task_def by (auto simp: result_simps)
  obtain t where t: "t \<in> set (tasks d)" "?p t" "ts = replace_row t (?f t) (tasks d)"
    using up unfolding update_unique_iff [OF keyed key] by blast
  show thesis by (rule that [of t]) (use t d' in simp_all)
qed

lemma complete_root_task_controller_ok:
  assumes ok: "controller_ok H d" and cp: "complete_root_task au outc boundary now d = Inr d'"
    and outc: "outc \<noteq> Retry"
  shows "controller_ok H d'"
proof -
  have keyed: "keyed tk_task_id (tasks d)" using ok by (simp add: controller_ok_def tasks_ok_def)
  show ?thesis
  proof (rule complete_root_task_Inr [OF keyed cp])
    fix t :: task_row let ?t = "t\<lparr>tk_status := TaskCompleted, tk_terminal_outcome := Some outc,
            tk_result_boundary_id := Some boundary, tk_updated_at := now\<rparr>"
    assume t: "t \<in> set (tasks d)" "tk_status t = TaskRunning"
        "tk_root_assignment_id t = Some (na_assignment_id au)"
      and d': "d' = d\<lparr>tasks := replace_row t ?t (tasks d)\<rparr>"
    have "ck_task t" using ok t(1) by (simp add: controller_ok_def tasks_ok_def)
    then have "ck_task ?t" using t(2,3) outc by (cases outc) (auto simp: ck_task_def)
    then have "tasks_ok d'"
      unfolding d' by (intro tasks_ok_replace [OF controller_ok_parts(4) [OF ok] t(1)]) simp_all
    then show ?thesis using controller_ok_tasks [OF ok] d' by simp
  qed
qed


subsection \<open>The composed steps keep the invariant\<close>

lemma stage_starting_dispatch_steps:
  assumes "stage_starting_dispatch env b p d = Inr d'"
  obtains as ds d2 d3 where
    "append_task_event env (dispatch_opened_event b p) (d\<lparr>attempts := as, dispatches := ds\<rparr>) = Inr d2"
    "d3 = d2 \<or> (\<exists>r. append_task_event env (task_resumed_event b p r) d2 = Inr d3)"
    "\<exists>qs cs. d' = d3\<lparr>dispatch_requests := qs, dispatch_capabilities := cs\<rparr>"
proof -
  obtain d1 ds d2 d3 where
    "select_starting_dispatch_for_attempt \<lparr>di_task_id = sb_task_id b,
        di_assignment_id = sb_assignment_id b, di_attempt_id = sb_attempt_id b,
        di_dispatch_id = pr_dispatch_id p\<rparr> (sb_predecessor_dispatch_id b) d = Some d1" and
    ev: "append_task_event env (dispatch_opened_event b p) (d1\<lparr>dispatches := ds\<rparr>) = Inr d2" and
    res: "(case sb_resume_event b of None \<Rightarrow> Inr d2
        | Some r \<Rightarrow> append_task_event env (task_resumed_event b p r) d2) = Inr d3" and
    sup: "add_dispatch_support_records p d3 = Inr d'"
    using assms unfolding stage_starting_dispatch_def by (auto simp: result_simps)
  moreover from this(1) obtain as where "d1 = d\<lparr>attempts := as\<rparr>"
    by (auto simp: select_starting_dispatch_for_attempt_def map_option_eq_Some)
  moreover have "d3 = d2 \<or> (\<exists>r. append_task_event env (task_resumed_event b p r) d2 = Inr d3)"
    using res by (auto split: option.splits)
  moreover have "\<exists>qs cs. d' = d3\<lparr>dispatch_requests := qs, dispatch_capabilities := cs\<rparr>"
    using sup by (auto simp: add_dispatch_support_records_def result_simps)
  ultimately show thesis using that by metis
qed

lemma stage_starting_dispatch_frame:
  assumes "stage_starting_dispatch env b p d = Inr d'"
  shows "waves d' = waves d" "wave_members d' = wave_members d" "assignments d' = assignments d"
    "tasks d' = tasks d" "boundaries d' = boundaries d" "checkpoints d' = checkpoints d"
    "assignment_files d' = assignment_files d" "waits d' = waits d" "team_members d' = team_members d"
    "human_requests d' = human_requests d" "command_runs d' = command_runs d"
    "replan_transitions d' = replan_transitions d" "task_starts d' = task_starts d"
  by (rule stage_starting_dispatch_steps [OF assms];
      force dest!: append_task_event_frame)+

lemma stage_starting_dispatch_events_ok:
  assumes ok: "events_ok (env_event_hash env) d" and "stage_starting_dispatch env b p d = Inr d'"
  shows "events_ok (env_event_hash env) d'"
proof (rule stage_starting_dispatch_steps [OF assms(2)])
  fix as ds d2 d3
  assume ev: "append_task_event env (dispatch_opened_event b p)
      (d\<lparr>attempts := as, dispatches := ds\<rparr>) = Inr d2"
    and res: "d3 = d2 \<or> (\<exists>r. append_task_event env (task_resumed_event b p r) d2 = Inr d3)"
    and sup: "\<exists>qs cs. d' = d3\<lparr>dispatch_requests := qs, dispatch_capabilities := cs\<rparr>"
  have "events_ok (env_event_hash env) (d\<lparr>attempts := as, dispatches := ds\<rparr>)"
    using ok events_ok_frame [of "d\<lparr>attempts := as, dispatches := ds\<rparr>" d] by simp
  then have "events_ok (env_event_hash env) d2"
    using append_task_event_events_ok(1) [OF ev] by blast
  then have "events_ok (env_event_hash env) d3"
    using res append_task_event_events_ok(1) by blast
  then show ?thesis using sup events_ok_frame [of d' d3] by auto
qed

lemma stage_starting_dispatch_controller_ok:
  assumes ok: "controller_ok (env_event_hash env) d"
    and st: "stage_starting_dispatch env b p d = Inr d'"
  shows "controller_ok (env_event_hash env) d'"
  using stage_starting_dispatch_lanes_ok [OF controller_ok_parts(1) [OF ok] st]
    stage_starting_dispatch_events_ok [OF controller_ok_parts(5) [OF ok] st]
    stage_starting_dispatch_frame [OF st] ok
    waves_ok_frame [of d' d] assignments_ok_frame [of d' d] tasks_ok_frame [of d' d]
  by (simp add: controller_ok_def)

lemma settle_wave_member_controller_ok:
  assumes ok: "controller_ok H d"
    and st: "settle_wave_member_for_checkpoint au b outc now d = Inr (wave, d')"
  shows "controller_ok H d'"
proof (rule settle_wave_member_Inr [OF controller_ok_parts(2) [OF ok] st])
  fix m
  assume d': "d' = d\<lparr>wave_members := replace_row m (m\<lparr>dm_status := MemberSettled,
        dm_terminal_boundary_id := Some b, dm_terminal_outcome := Some outc,
        dm_settled_at := Some now, dm_cancelled_at := None\<rparr>) (wave_members d)\<rparr>"
  have "lanes_ok d'"
    using controller_ok_parts(1) [OF ok] lanes_ok_frame [of d' d] d' by simp
  then show ?thesis
    by (rule controller_ok_waves [OF ok
          settle_wave_member_waves_ok [OF controller_ok_parts(2) [OF ok] st]]) (simp_all add: d')
qed

lemma advance_terminal_cases:
  assumes "advance_terminal_checkpoint_state au outc boundary now retry d = Inr d'"
  obtains d1 source where "complete_source_attempt au outc now d = Inr d1"
      "read_source_assignment au d1 = Inr source" and
    "outc = Retry \<and> (\<exists>attempt. retry = Some attempt \<and>
        start_semantic_retry au source attempt now d1 = Inr d') \<or>
     outc \<noteq> Retry \<and> retry = None \<and> (\<exists>d2. complete_source_assignment au outc now d1 = Inr d2 \<and>
        (as_parent_assignment_id source \<noteq> None \<and> d' = d2 \<or>
         as_parent_assignment_id source = None \<and> na_is_task_lead au \<and>
           complete_root_task au outc boundary now d2 = Inr d'))"
proof -
  obtain d1 source where A: "complete_source_attempt au outc now d = Inr d1"
      "read_source_assignment au d1 = Inr source" and
    C: "(if outc = Retry
       then (case retry of
           None \<Rightarrow> Inl (conflict_error
             ''semantic retry is missing its replacement Attempt identity'')
         | Some attempt \<Rightarrow> start_semantic_retry au source attempt now d1)
       else if retry \<noteq> None
       then Inl (conflict_error ''a non-retry Boundary cannot select a replacement Attempt'')
       else and_then (complete_source_assignment au outc now d1) (\<lambda>d2.
         if as_parent_assignment_id source \<noteq> None then Inr d2
         else if \<not> na_is_task_lead au
         then Inl (conflict_error
           ''a non-root terminal Boundary is missing parent Assignment lineage'')
         else complete_root_task au outc boundary now d2)) = Inr d'"
    using assms unfolding advance_terminal_checkpoint_state_def by (auto simp only: result_simps)
  show thesis
    by (rule that [OF A]) (use C in \<open>auto simp: result_simps split: if_splits option.splits\<close>)
qed

lemma advance_terminal_controller_ok:
  assumes ok: "controller_ok H d"
    and adv: "advance_terminal_checkpoint_state au outc boundary now retry d = Inr d'"
  shows "controller_ok H d'"
proof (rule advance_terminal_cases [OF adv])
  fix d1 source
  assume "complete_source_attempt au outc now d = Inr d1"
  then have ok1: "controller_ok H d1" using complete_source_attempt_controller_ok [OF ok] by blast
  assume "outc = Retry \<and> (\<exists>attempt. retry = Some attempt \<and>
        start_semantic_retry au source attempt now d1 = Inr d') \<or>
     outc \<noteq> Retry \<and> retry = None \<and> (\<exists>d2. complete_source_assignment au outc now d1 = Inr d2 \<and>
        (as_parent_assignment_id source \<noteq> None \<and> d' = d2 \<or>
         as_parent_assignment_id source = None \<and> na_is_task_lead au \<and>
           complete_root_task au outc boundary now d2 = Inr d'))"
  then show ?thesis
    using start_semantic_retry_controller_ok [OF ok1] complete_source_assignment_controller_ok [OF ok1]
      complete_root_task_controller_ok by metis
qed

lemma map_failure_Inr_iff [result_simps]: "map_failure f r = Inr x \<longleftrightarrow> r = Inr x"
  by (cases r) (simp_all add: map_failure_def)

lemma staged_Inr_iff [result_simps]: "staged outc r = Inr x \<longleftrightarrow> r = Inr x"
  by (simp add: staged_def map_failure_Inr_iff)

lemma stage_terminal_boundary_cases:
  assumes "stage_terminal_boundary env au c boundary outc now prepared d = Inr (settled, d')"
  obtains d1 bs d2 d3 d4 t where
    "close_source_dispatch (authority_identity au) (na_team_revision_id au) now CBoundary d = Inr d1"
    "insert_boundary (boundary_row_of au c boundary outc now prepared) (boundaries d1) = Inr bs"
    "advance_terminal_checkpoint_state au outc boundary now
       (map_option (\<lambda>(b, p). sb_attempt_id b) prepared) (d1\<lparr>boundaries := bs\<rparr>) = Inr d2"
    "if outc \<noteq> Retry \<and> as_parent_assignment_id (na_assignment au) \<noteq> None
     then \<exists>w. settled = Some w \<and> settle_wave_member_for_checkpoint au boundary outc now d2 = Inr (w, d3)
     else settled = None \<and> d3 = d2"
    "case prepared of None \<Rightarrow> d4 = d3 | Some (b, p) \<Rightarrow> stage_starting_dispatch env b p d3 = Inr d4"
    "append_task_event env (boundary_accepted_event au c outc (tk_status t) now) d4 = Inr d'"
    "t \<in> set (tasks d4)" "tk_task_id t = na_task_id au"
proof -
  have outc: "(outc = Green \<or> outc = Blocked) = (outc \<noteq> Retry)" by (cases outc) simp_all
  obtain d1 bs d2 d3 d4 where
    A: "close_source_dispatch (authority_identity au) (na_team_revision_id au) now CBoundary d = Inr d1"
    "insert_boundary (boundary_row_of au c boundary outc now prepared) (boundaries d1) = Inr bs"
    "advance_terminal_checkpoint_state au outc boundary now
       (map_option (\<lambda>(b, p). sb_attempt_id b) prepared) (d1\<lparr>boundaries := bs\<rparr>) = Inr d2" and
    S: "(if outc \<noteq> Retry \<and> as_parent_assignment_id (na_assignment au) \<noteq> None
         then and_then (settle_wave_member_for_checkpoint au boundary outc now d2)
           (\<lambda>(wave, s). Inr (Some wave, s)) else Inr (None, d2)) = Inr (settled, d3)" and
    P: "(case prepared of None \<Rightarrow> Inr d3
         | Some (b, p) \<Rightarrow> map_failure commit_failure (stage_starting_dispatch env b p d3)) = Inr d4" and
    E: "append_boundary_accepted_event env au c outc now d4 = Inr d'"
    using assms unfolding stage_terminal_boundary_def outc
    by (auto simp: result_simps split: prod.splits)
  have "if outc \<noteq> Retry \<and> as_parent_assignment_id (na_assignment au) \<noteq> None
     then \<exists>w. settled = Some w \<and> settle_wave_member_for_checkpoint au boundary outc now d2 = Inr (w, d3)
     else settled = None \<and> d3 = d2"
    using S by (auto simp: result_simps split: if_splits)
  moreover have "case prepared of None \<Rightarrow> d4 = d3 | Some (b, p) \<Rightarrow> stage_starting_dispatch env b p d3 = Inr d4"
    using P by (auto simp: result_simps split: option.splits)
  moreover obtain t where "t \<in> set (tasks d4)" "tk_task_id t = na_task_id au"
      "append_task_event env (boundary_accepted_event au c outc (tk_status t) now) d4 = Inr d'"
    using E unfolding append_boundary_accepted_event_def
    by (auto simp: result_simps dest!: find_Some_D)
  ultimately show thesis using that A by blast
qed

lemma stage_terminal_boundary_controller_ok:
  assumes ok: "controller_ok (env_event_hash env) d"
    and st: "stage_terminal_boundary env au c boundary outc now prepared d = Inr (settled, d')"
  shows "controller_ok (env_event_hash env) d'"
proof (rule stage_terminal_boundary_cases [OF st])
  let ?ok = "controller_ok (env_event_hash env)"
  fix d1 bs d2 d3 d4 t
  assume "close_source_dispatch (authority_identity au) (na_team_revision_id au) now CBoundary d = Inr d1"
  then have "?ok d1" by (rule close_source_dispatch_controller_ok [OF ok]) simp
  then have "?ok (d1\<lparr>boundaries := bs\<rparr>)" by simp
  moreover assume "advance_terminal_checkpoint_state au outc boundary now
       (map_option (\<lambda>(b, p). sb_attempt_id b) prepared) (d1\<lparr>boundaries := bs\<rparr>) = Inr d2"
  ultimately have ok2: "?ok d2" using advance_terminal_controller_ok by blast
  assume "if outc \<noteq> Retry \<and> as_parent_assignment_id (na_assignment au) \<noteq> None
     then \<exists>w. settled = Some w \<and> settle_wave_member_for_checkpoint au boundary outc now d2 = Inr (w, d3)
     else settled = None \<and> d3 = d2"
  then have ok3: "?ok d3"
    using settle_wave_member_controller_ok [OF ok2] ok2 by (auto split: if_splits)
  assume "case prepared of None \<Rightarrow> d4 = d3 | Some (b, p) \<Rightarrow> stage_starting_dispatch env b p d3 = Inr d4"
  then have ok4: "?ok d4"
    using stage_starting_dispatch_controller_ok [OF ok3] ok3 by (auto split: option.splits)
  assume "append_task_event env (boundary_accepted_event au c outc (tk_status t) now) d4 = Inr d'"
  then show ?thesis using append_controller_ok [OF ok4] by blast
qed


subsection \<open>A committed Checkpoint\<close>

lemma commit_checkpoint_cases:
  assumes "commit_checkpoint env probe deps fx au rq d = Inr (r, d')"
  obtains workspace prepared cs d1 d2 d3 settled where
    "read_workspace_path (na_task_id au) d = Inr workspace"
    "validate_file_references probe workspace (cq_files rq) = Inr (cq_files rq)"
    "cq_outcome rq = Some Green \<longrightarrow> require_current_direct_child_participation au d = Inr ()"
    "prepare_checkpoint_semantic_retry deps au fx (cq_outcome rq) d = Inr prepared"
    "stage_file_references (checkpoint_id_of au fx) (cq_files rq) (d\<lparr>checkpoints := cs\<rparr>) = Inr d1"
    "advance_latest_checkpoint au (checkpoint_id_of au fx) (at_latest_checkpoint_id (na_attempt au))
       d1 = Inr d2"
    "append_task_event env
       (checkpoint_event au (checkpoint_id_of au fx) rq (cq_files rq) (env_now env)) d2 = Inr d3"
    "case cq_outcome rq of None \<Rightarrow> settled = None \<and> d' = d3
     | Some outc \<Rightarrow> stage_terminal_boundary env au (checkpoint_id_of au fx) (boundary_id_of au) outc
         (env_now env) prepared d3 = Inr (settled, d')"
    "r = \<lparr>rs_checkpoint = rq, rs_recorded_at = env_now env,
          rs_terminal = (cq_outcome rq \<noteq> None), rs_must_stop = (cq_outcome rq \<noteq> None),
          rs_signals = checkpoint_signals prepared settled\<rparr>"
proof -
  obtain workspace files u prepared cs d1 d2 d3 settled where
    A: "read_workspace_path (na_task_id au) d = Inr workspace"
    "validate_file_references probe workspace (cq_files rq) = Inr files"
    "(if cq_outcome rq = Some Green
         then require_current_direct_child_participation au d else Inr ()) = Inr u"
    "prepare_checkpoint_semantic_retry deps au fx (cq_outcome rq) d = Inr prepared"
    "stage_file_references (checkpoint_id_of au fx) files (d\<lparr>checkpoints := cs\<rparr>) = Inr d1"
    "advance_latest_checkpoint au (checkpoint_id_of au fx) (at_latest_checkpoint_id (na_attempt au))
       d1 = Inr d2"
    "append_task_event env
       (checkpoint_event au (checkpoint_id_of au fx) rq files (env_now env)) d2 = Inr d3"
    "(case cq_outcome rq of
           None \<Rightarrow> Inr (None, d3)
         | Some outc \<Rightarrow> stage_terminal_boundary env au (checkpoint_id_of au fx)
             (boundary_id_of au) outc (env_now env) prepared d3) = Inr (settled, d')"
    "r = \<lparr>rs_checkpoint = rq, rs_recorded_at = env_now env,
          rs_terminal = (cq_outcome rq \<noteq> None), rs_must_stop = (cq_outcome rq \<noteq> None),
          rs_signals = checkpoint_signals prepared settled\<rparr>"
    using assms unfolding commit_checkpoint_def
    by (elim and_then_InrE) (simp add: staged_Inr_iff split: prod.splits)
  have "files = cq_files rq" using A(2) by (simp add: validate_file_references_Inr_iff)
  with A show thesis
    by (intro that [of workspace prepared cs d1 d2 d3 settled])
      (auto split: option.splits if_splits)
qed

lemma stage_file_references_frame:
  "stage_file_references c files d = Inr d' \<Longrightarrow> \<exists>cs. d' = d\<lparr>checkpoint_files := cs\<rparr>"
  by (auto simp: stage_file_references_def result_simps)

lemma commit_checkpoint_controller_ok:
  assumes ok: "controller_ok (env_event_hash env) d"
    and cm: "commit_checkpoint env probe deps fx au rq d = Inr (r, d')"
  shows "controller_ok (env_event_hash env) d'"
proof (rule commit_checkpoint_cases [OF cm])
  let ?ok = "controller_ok (env_event_hash env)"
  fix prepared cs d1 d2 d3 settled
  assume "stage_file_references (checkpoint_id_of au fx) (cq_files rq) (d\<lparr>checkpoints := cs\<rparr>) = Inr d1"
  then have ok1: "?ok d1" using stage_file_references_frame ok by fastforce
  assume "advance_latest_checkpoint au (checkpoint_id_of au fx)
      (at_latest_checkpoint_id (na_attempt au)) d1 = Inr d2"
  then have ok2: "?ok d2" by (rule advance_latest_checkpoint_controller_ok [OF ok1])
  assume "append_task_event env
       (checkpoint_event au (checkpoint_id_of au fx) rq (cq_files rq) (env_now env)) d2 = Inr d3"
  then have ok3: "?ok d3" by (rule append_controller_ok [OF ok2])
  assume "case cq_outcome rq of None \<Rightarrow> settled = None \<and> d' = d3
     | Some outc \<Rightarrow> stage_terminal_boundary env au (checkpoint_id_of au fx) (boundary_id_of au) outc
         (env_now env) prepared d3 = Inr (settled, d')"
  then show ?thesis
    using ok3 stage_terminal_boundary_controller_ok [OF ok3] by (auto split: option.splits)
qed

subsection \<open>Green needs every direct child\<close>

lemma set_insert_sibling: "set (insert_sibling m xs) = insert m (set xs)"
  by (induction xs) auto

lemma set_direct_children:
  "set (direct_children task revision parent d) =
     {m \<in> set (team_members d). tm_task_id m = task \<and> tm_team_revision_id m = revision \<and>
        tm_parent_member_id m = Some parent}"
proof -
  have "set (foldr insert_sibling ms []) = set ms" for ms
    by (induction ms) (simp_all add: set_insert_sibling)
  then show ?thesis by (auto simp: direct_children_def)
qed

lemma participation_required:
  "require_current_direct_child_participation au d = Inr u \<longleftrightarrow>
     (\<forall>m \<in> set (direct_children (na_task_id au) (dt_team_revision_id (na_dispatch au))
            (dt_member_id (na_dispatch au)) d).
        read_accepted_green_participation (member_basis (na_task_id au) m) d)"
  by (auto simp: require_current_direct_child_participation_def Let_def filter_empty_conv)

subsection \<open>A retry\<close>

lemma prepare_retry_Inr:
  assumes "prepare_checkpoint_semantic_retry deps au fx (Some Retry) d = Inr prepared"
  obtains m p where "prepared = Some (retry_basis au m (retry_attempt_id_of au fx), p)"
    "pr_dispatch_id p = ''dispatch.'' @ fx_dispatch_hex fx"
    "read_semantic_retry_selection au d = Inr m"
  using assms
  by (auto simp: prepare_checkpoint_semantic_retry_def result_simps prepare_semantic_retry_def
      prepare_dispatch_request_def split: option.splits)

lemma prepare_other_outcome:
  "outc \<noteq> Some Retry \<Longrightarrow> prepare_checkpoint_semantic_retry deps au fx outc d = Inr prepared \<Longrightarrow>
     prepared = None"
  by (simp add: prepare_checkpoint_semantic_retry_def)

lemma advance_latest_frame:
  "advance_latest_checkpoint au c obs d = Inr d' \<Longrightarrow> \<exists>as. d' = d\<lparr>attempts := as\<rparr>"
  by (auto simp: advance_latest_checkpoint_def result_simps)

lemma close_source_frame:
  "close_source_dispatch i tr now reason d = Inr d' \<Longrightarrow> \<exists>ts as. d' = d\<lparr>dispatches := ts, attempts := as\<rparr>"
  by (auto simp: close_source_dispatch_def result_simps close_current_attempt_dispatch_def
      clear_current_attempt_dispatch_def bind_eq_Some_conv map_option_eq_Some split: if_splits)

lemma complete_source_attempt_frame:
  "complete_source_attempt au outc now d = Inr d' \<Longrightarrow> \<exists>as. d' = d\<lparr>attempts := as\<rparr>"
  by (auto simp: complete_source_attempt_def result_simps)

text \<open>The prefix every committed Checkpoint shares leaves all but the log and the Checkpoint.\<close>

lemma checkpoint_prefix_frame:
  assumes "stage_file_references c fs (d\<lparr>checkpoints := cs\<rparr>) = Inr d1"
    and "advance_latest_checkpoint au c obs d1 = Inr d2" and "append_task_event env e d2 = Inr d3"
  shows "assignments d3 = assignments d" "tasks d3 = tasks d" "waves d3 = waves d"
    "wave_members d3 = wave_members d" "waits d3 = waits d" "boundaries d3 = boundaries d"
    "dispatches d3 = dispatches d" "team_members d3 = team_members d"
  using stage_file_references_frame [OF assms(1)] advance_latest_frame [OF assms(2)]
    append_task_event_frame [OF assms(3)] by auto


lemma stage_starting_attempts:
  assumes ok: "lanes_ok d" and st: "stage_starting_dispatch env b p d = Inr d'"
  obtains a where "a \<in> set (attempts d)" "at_attempt_id a = sb_attempt_id b" "at_status a = AttRunning"
    "attempts d' = replace_row a (a\<lparr>at_current_dispatch_id := Some (pr_dispatch_id p)\<rparr>) (attempts d)"
  using stage_starting_dispatch_Some [OF lanes_ok_keys(1) [OF ok] st] by metis

text \<open>
  The Attempts after a retry: the source is completed, the new one runs with the prepared
  Dispatch, and its identifier was not in use.
\<close>

definition completed_attempt :: "outcome \<Rightarrow> time \<Rightarrow> attempt_row \<Rightarrow> attempt_row" where
  "completed_attempt outc now a = a\<lparr>at_status := AttCompleted, at_terminal_outcome := Some outc,
     at_closed_at := Some now, at_current_dispatch_id := None, at_current_wait_id := None\<rparr>"

lemma completed_source_attempt:
  assumes ok: "controller_ok H d" and cl: "close_source_dispatch (authority_identity au) tr now CBoundary d = Inr d1"
    and cp: "complete_source_attempt au outc now (d1\<lparr>boundaries := bs\<rparr>) = Inr e"
  shows "\<exists>src \<in> set (attempts d). at_attempt_id src = na_attempt_id au \<and>
    completed_attempt outc now src \<in> set (attempts e)"
proof -
  note lanes = controller_ok_parts(1) [OF ok]
  have cl': "close_current_attempt_dispatch (authority_identity au) tr now CBoundary d = Some d1"
    using cl by (simp add: close_source_dispatch_def result_simps)
  obtain a where a: "a \<in> set (attempts d)" "at_attempt_id a = na_attempt_id au"
      "attempts d1 = replace_row a (a\<lparr>at_current_dispatch_id := None\<rparr>) (attempts d)"
    by (rule close_current_attempt_dispatch_Some [OF lanes_ok_keys(1,2) [OF lanes] cl'])
      (auto simp: attempt_owned_by_def authority_identity_def)
  have lanes1: "lanes_ok (d1\<lparr>boundaries := bs\<rparr>)"
    using close_current_attempt_dispatch_lanes_ok [OF lanes cl'] lanes_ok_frame [of "d1\<lparr>boundaries := bs\<rparr>" d1]
    by simp
  obtain x where x: "x \<in> set (attempts d1)" "at_attempt_id x = na_attempt_id au"
      "attempts e = replace_row x (completed_attempt outc now x) (attempts d1)"
    by (rule complete_source_attempt_Inr [OF lanes1 cp]) (auto simp: completed_attempt_def)
  have "keyed at_attempt_id (attempts d1)" using lanes_ok_keys(1) [OF lanes1] by simp
  moreover have "a\<lparr>at_current_dispatch_id := None\<rparr> \<in> set (attempts d1)"
    using a by (simp add: set_replace_row)
  ultimately have "x = a\<lparr>at_current_dispatch_id := None\<rparr>"
    using x(1,2) a(2) by (intro keyed_unique [of at_attempt_id]) simp_all
  then have "completed_attempt outc now x = completed_attempt outc now a"
    by (simp add: completed_attempt_def)
  then show ?thesis using a x by (auto simp: set_replace_row)
qed

lemma retry_attempts_after_staging:
  assumes ok: "controller_ok H d" and st: "stage_starting_dispatch env b p d = Inr d'"
    and as: "attempts d = old @ [retry_attempt_row au (sb_attempt_id b) now]"
  shows "set (attempts d') = insert ((retry_attempt_row au (sb_attempt_id b) now)
      \<lparr>at_current_dispatch_id := Some (pr_dispatch_id p)\<rparr>) (set old)"
proof -
  let ?new = "retry_attempt_row au (sb_attempt_id b) now"
  obtain a where a: "a \<in> set (attempts d)" "at_attempt_id a = sb_attempt_id b"
    "attempts d' = replace_row a (a\<lparr>at_current_dispatch_id := Some (pr_dispatch_id p)\<rparr>) (attempts d)"
    by (rule stage_starting_attempts [OF controller_ok_parts(1) [OF ok] st])
  have keyed: "keyed at_attempt_id (attempts d)"
    by (rule lanes_ok_keys(1) [OF controller_ok_parts(1) [OF ok]])
  have "a = ?new"
    by (rule keyed_unique [OF keyed a(1)]) (simp_all add: a(2) as retry_attempt_row_def)
  moreover have "?new \<notin> set old" using keyed as by (auto simp: keyed_def)
  ultimately show ?thesis using a(1,3) as by (simp add: set_replace_row)
qed

lemma retry_terminal_steps:
  assumes ok: "controller_ok (env_event_hash env) d"
    and st: "stage_terminal_boundary env au c boundary Retry now (Some (b, p)) d = Inr (settled, d')"
  obtains src e s d4 status where
    "controller_ok (env_event_hash env) (e\<lparr>assignments := replace_row s
        (consume_retry (sb_attempt_id b) s) (assignments d)\<rparr>)"
    "assignments e = assignments d" "tasks e = tasks d" "waves e = waves d" "settled = None"
    "src \<in> set (attempts d)" "at_attempt_id src = na_attempt_id au"
    "\<exists>old. attempts e = old @ [retry_attempt_row au (sb_attempt_id b) now] \<and>
       completed_attempt Retry now src \<in> set old"
    "s \<in> set (assignments d)" "source_assignment_matches au s" "has_retry_budget s"
    "stage_starting_dispatch env b p (e\<lparr>assignments := replace_row s
        (consume_retry (sb_attempt_id b) s) (assignments d)\<rparr>) = Inr d4"
    "append_task_event env (boundary_accepted_event au c Retry status now) d4 = Inr d'"
proof (rule stage_terminal_boundary_cases [OF st])
  fix d1 bs d2 d3 d4 and t :: task_row
  assume cl: "close_source_dispatch (authority_identity au) (na_team_revision_id au) now CBoundary d
      = Inr d1"
    and "advance_terminal_checkpoint_state au Retry boundary now
       (map_option (\<lambda>(b, p). sb_attempt_id b) (Some (b, p))) (d1\<lparr>boundaries := bs\<rparr>) = Inr d2"
    and "if Retry \<noteq> Retry \<and> as_parent_assignment_id (na_assignment au) \<noteq> None
     then \<exists>w. settled = Some w \<and> settle_wave_member_for_checkpoint au boundary Retry now d2 = Inr (w, d3)
     else settled = None \<and> d3 = d2"
    and "case Some (b, p) of None \<Rightarrow> d4 = d3 | Some (b, p) \<Rightarrow> stage_starting_dispatch env b p d3 = Inr d4"
    and ev: "append_task_event env (boundary_accepted_event au c Retry (tk_status t) now) d4 = Inr d'"
  then have adv: "advance_terminal_checkpoint_state au Retry boundary now (Some (sb_attempt_id b))
       (d1\<lparr>boundaries := bs\<rparr>) = Inr d2" and d3: "settled = None" and
    stg: "stage_starting_dispatch env b p d2 = Inr d4" by auto
  have ok1: "controller_ok (env_event_hash env) (d1\<lparr>boundaries := bs\<rparr>)"
    using close_source_dispatch_controller_ok [OF ok cl] by simp
  obtain e1 source where
    cp: "complete_source_attempt au Retry now (d1\<lparr>boundaries := bs\<rparr>) = Inr e1" and
    rt: "start_semantic_retry au source (sb_attempt_id b) now e1 = Inr d2"
    by (rule advance_terminal_cases [OF adv]) auto
  have okE: "controller_ok (env_event_hash env) e1"
    by (rule complete_source_attempt_controller_ok [OF ok1 cp])
  obtain s as where
    s: "s \<in> set (assignments e1)" "source_assignment_matches au s" "has_retry_budget s" and
    ins: "insert_attempt (retry_attempt_row au (sb_attempt_id b) now) (attempts e1) = Inr as" and
    d2: "d2 = e1\<lparr>attempts := as,
      assignments := replace_row s (consume_retry (sb_attempt_id b) s) (assignments e1)\<rparr>"
    by (rule start_semantic_retry_Inr [OF assignments_keyed [OF okE] rt])
  have base: "assignments e1 = assignments d" "tasks e1 = tasks d" "waves e1 = waves d"
    using complete_source_attempt_frame [OF cp] close_source_frame [OF cl] by auto
  obtain src where "src \<in> set (attempts d)" "at_attempt_id src = na_attempt_id au"
      "completed_attempt Retry now src \<in> set (attempts e1)"
    using completed_source_attempt [OF ok cl cp] by blast
  moreover have "as = attempts e1 @ [retry_attempt_row au (sb_attempt_id b) now]"
    using insert_attempt_Inr [OF ins] by blast
  moreover have "controller_ok (env_event_hash env) d2"
    by (rule start_semantic_retry_controller_ok [OF okE rt])
  ultimately show thesis
    by (intro that [of s "e1\<lparr>attempts := as\<rparr>" src d4 "tk_status t"]) (use s d2 base d3 stg ev in simp_all)
qed


lemma retry_terminal_effect:
  assumes ok: "controller_ok (env_event_hash env) d"
    and st: "stage_terminal_boundary env au c boundary Retry now (Some (b, p)) d = Inr (settled, d')"
  shows "settled = None \<and> tasks d' = tasks d \<and> waves d' = waves d \<and>
    (\<exists>s \<in> set (assignments d). source_assignment_matches au s \<and> has_retry_budget s \<and>
       assignments d' = replace_row s (consume_retry (sb_attempt_id b) s) (assignments d)) \<and>
    (\<exists>a \<in> set (attempts d'). at_attempt_id a = na_attempt_id au \<and> at_status a = AttCompleted \<and>
       at_terminal_outcome a = Some Retry) \<and>
    (\<exists>a \<in> set (attempts d'). at_attempt_id a = sb_attempt_id b \<and> at_status a = AttRunning \<and>
       at_retry_of_attempt_id a = Some (na_attempt_id au) \<and>
       at_current_dispatch_id a = Some (pr_dispatch_id p))"
proof (rule retry_terminal_steps [OF ok st])
  fix src :: attempt_row and e :: db and s :: assignment_row and d4 status
  let ?e = "e\<lparr>assignments := replace_row s (consume_retry (sb_attempt_id b) s) (assignments d)\<rparr>"
  let ?new = "(retry_attempt_row au (sb_attempt_id b) now)
      \<lparr>at_current_dispatch_id := Some (pr_dispatch_id p)\<rparr>"
  assume okE: "controller_ok (env_event_hash env) ?e"
    and frame: "assignments e = assignments d" "tasks e = tasks d" "waves e = waves d" "settled = None"
    and src: "at_attempt_id src = na_attempt_id au"
      "\<exists>old. attempts e = old @ [retry_attempt_row au (sb_attempt_id b) now] \<and>
       completed_attempt Retry now src \<in> set old"
    and s: "s \<in> set (assignments d)" "source_assignment_matches au s" "has_retry_budget s"
    and stg: "stage_starting_dispatch env b p ?e = Inr d4"
    and ev: "append_task_event env (boundary_accepted_event au c Retry status now) d4 = Inr d'"
  obtain old where old: "attempts ?e = old @ [retry_attempt_row au (sb_attempt_id b) now]"
      "completed_attempt Retry now src \<in> set old"
    using src(2) by auto
  have "attempts d' = attempts d4" using append_task_event_frame [OF ev] by auto
  then have att: "set (attempts d') = insert ?new (set old)"
    using retry_attempts_after_staging [OF okE stg old(1)] by simp
  have after: "assignments d' = assignments ?e" "tasks d' = tasks e" "waves d' = waves e"
    using stage_starting_dispatch_frame [OF stg] append_task_event_frame [OF ev] by auto
  have "\<exists>a \<in> set (attempts d'). at_attempt_id a = na_attempt_id au \<and> at_status a = AttCompleted \<and>
       at_terminal_outcome a = Some Retry"
    by (rule bexI [of _ "completed_attempt Retry now src"])
      (simp_all only: att insert_iff old(2) simp_thms, simp add: completed_attempt_def src(1))
  moreover have "\<exists>a \<in> set (attempts d'). at_attempt_id a = sb_attempt_id b \<and> at_status a = AttRunning \<and>
       at_retry_of_attempt_id a = Some (na_attempt_id au) \<and>
       at_current_dispatch_id a = Some (pr_dispatch_id p)"
    by (rule bexI [of _ ?new]) (simp_all add: att, simp add: retry_attempt_row_def)
  ultimately show ?thesis using after frame s by auto
qed

lemma retry_commit_effect:
  assumes ok: "controller_ok (env_event_hash env) d"
    and cm: "commit_checkpoint env probe deps fx au rq d = Inr (r, d')"
    and outc: "cq_outcome rq = Some Retry"
  shows "tasks d' = tasks d \<and> waves d' = waves d \<and>
    (\<exists>s \<in> set (assignments d). source_assignment_matches au s \<and> has_retry_budget s \<and>
       assignments d' = replace_row s (consume_retry (retry_attempt_id_of au fx) s) (assignments d)) \<and>
    (\<exists>a \<in> set (attempts d'). at_attempt_id a = na_attempt_id au \<and> at_status a = AttCompleted \<and>
       at_terminal_outcome a = Some Retry) \<and>
    (\<exists>a \<in> set (attempts d'). at_attempt_id a = retry_attempt_id_of au fx \<and> at_status a = AttRunning \<and>
       at_retry_of_attempt_id a = Some (na_attempt_id au) \<and>
       at_current_dispatch_id a = Some (''dispatch.'' @ fx_dispatch_hex fx))"
proof (rule commit_checkpoint_cases [OF cm])
  let ?ok = "controller_ok (env_event_hash env)"
  fix prepared cs d1 d2 d3 settled
  assume prep: "prepare_checkpoint_semantic_retry deps au fx (cq_outcome rq) d = Inr prepared"
    and st1: "stage_file_references (checkpoint_id_of au fx) (cq_files rq) (d\<lparr>checkpoints := cs\<rparr>) = Inr d1"
    and st2: "advance_latest_checkpoint au (checkpoint_id_of au fx)
      (at_latest_checkpoint_id (na_attempt au)) d1 = Inr d2"
    and st3: "append_task_event env
       (checkpoint_event au (checkpoint_id_of au fx) rq (cq_files rq) (env_now env)) d2 = Inr d3"
    and fin: "case cq_outcome rq of None \<Rightarrow> settled = None \<and> d' = d3
     | Some outc \<Rightarrow> stage_terminal_boundary env au (checkpoint_id_of au fx) (boundary_id_of au) outc
         (env_now env) prepared d3 = Inr (settled, d')"
  have "?ok d1" using stage_file_references_frame [OF st1] ok by auto
  then have ok3: "?ok d3"
    using advance_latest_checkpoint_controller_ok [OF _ st2] append_controller_ok [OF _ st3] by blast
  obtain m p where prepared: "prepared = Some (retry_basis au m (retry_attempt_id_of au fx), p)"
      "pr_dispatch_id p = ''dispatch.'' @ fx_dispatch_hex fx"
    using prepare_retry_Inr prep outc by metis
  have "stage_terminal_boundary env au (checkpoint_id_of au fx) (boundary_id_of au) Retry
       (env_now env) (Some (retry_basis au m (retry_attempt_id_of au fx), p)) d3 = Inr (settled, d')"
    using fin outc prepared by simp
  from retry_terminal_effect [OF ok3 this] show ?thesis
    using checkpoint_prefix_frame [OF st1 st2 st3] prepared(2) by (simp add: retry_basis_def)
qed

subsection \<open>A terminal root Checkpoint\<close>

lemma complete_source_assignment_frame:
  "complete_source_assignment au outc now d = Inr d' \<Longrightarrow> \<exists>ss. d' = d\<lparr>assignments := ss\<rparr>"
  by (auto simp: complete_source_assignment_def result_simps)

lemma live_frame:
  "attempts d' = attempts d \<Longrightarrow> assignments d' = assignments d \<Longrightarrow>
     live_descendant_attempt task d' = live_descendant_attempt task d"
  "waits d' = waits d \<Longrightarrow> live_wait task d' = live_wait task d"
  "waves d' = waves d \<Longrightarrow> live_wave task d' = live_wave task d"
  by (simp_all add: live_descendant_attempt_def live_wait_def live_wave_def)

definition task_completed_with :: "ident \<Rightarrow> outcome \<Rightarrow> ident \<Rightarrow> db \<Rightarrow> bool" where
  "task_completed_with task outc boundary d \<longleftrightarrow>
     (\<exists>t \<in> set (tasks d). tk_task_id t = task \<and> tk_status t = TaskCompleted \<and>
        tk_terminal_outcome t = Some outc \<and> tk_result_boundary_id t = Some boundary) \<and>
     \<not> live_descendant_attempt task d \<and> \<not> live_wait task d \<and> \<not> live_wave task d"

lemma root_terminal_effect:
  assumes ok: "controller_ok (env_event_hash env) d"
    and st: "stage_terminal_boundary env au c boundary outc now None d = Inr (settled, d')"
    and outc: "outc \<noteq> Retry" and root: "as_parent_assignment_id (na_assignment au) = None"
    and src: "na_assignment au \<in> set (assignments d)"
      "as_assignment_id (na_assignment au) = na_assignment_id au"
  shows "task_completed_with (na_task_id au) outc boundary d'"
proof (rule stage_terminal_boundary_cases [OF st])
  fix d1 bs d2 d3 d4 and t :: task_row
  assume cl: "close_source_dispatch (authority_identity au) (na_team_revision_id au) now CBoundary d = Inr d1"
    and adv: "advance_terminal_checkpoint_state au outc boundary now
       (map_option (\<lambda>(b, p). sb_attempt_id b) None) (d1\<lparr>boundaries := bs\<rparr>) = Inr d2"
    and "if outc \<noteq> Retry \<and> as_parent_assignment_id (na_assignment au) \<noteq> None
     then \<exists>w. settled = Some w \<and> settle_wave_member_for_checkpoint au boundary outc now d2 = Inr (w, d3)
     else settled = None \<and> d3 = d2"
    and "case None of None \<Rightarrow> d4 = d3 | Some (b, p) \<Rightarrow> stage_starting_dispatch env b p d3 = Inr d4"
    and ev: "append_task_event env (boundary_accepted_event au c outc (tk_status t) now) d4 = Inr d'"
  then have d4: "d4 = d2" using root by simp
  have ok1: "controller_ok (env_event_hash env) (d1\<lparr>boundaries := bs\<rparr>)"
    using close_source_dispatch_controller_ok [OF ok cl] by simp
  obtain e1 source e2 where cp: "complete_source_attempt au outc now (d1\<lparr>boundaries := bs\<rparr>) = Inr e1"
    and rd: "read_source_assignment au e1 = Inr source"
    and ca: "complete_source_assignment au outc now e1 = Inr e2"
    and alt: "as_parent_assignment_id source \<noteq> None \<and> d2 = e2 \<or> as_parent_assignment_id source = None \<and>
      na_is_task_lead au \<and> complete_root_task au outc boundary now e2 = Inr d2"
    by (rule advance_terminal_cases [OF adv]) (use outc in auto)
  have okE: "controller_ok (env_event_hash env) e1"
    by (rule complete_source_attempt_controller_ok [OF ok1 cp])
  have "assignments e1 = assignments d"
    using complete_source_attempt_frame [OF cp] close_source_frame [OF cl] by auto
  moreover have "source \<in> set (assignments e1)" "source_assignment_matches au source"
    using rd by (auto simp: read_source_assignment_def result_simps dest: find_Some_D)
  ultimately have "source = na_assignment au"
    using src keyed_unique [OF assignments_keyed [OF ok]]
    by (simp add: source_assignment_matches_def)
  then have rt: "complete_root_task au outc boundary now e2 = Inr d2" using alt root by auto
  have "controller_ok (env_event_hash env) e2"
    by (rule complete_source_assignment_controller_ok [OF okE ca outc])
  then have "keyed tk_task_id (tasks e2)" by (simp add: controller_ok_def tasks_ok_def)
  then have "task_completed_with (na_task_id au) outc boundary d2"
  proof (rule complete_root_task_Inr [OF _ rt])
    fix x :: task_row let ?x = "x\<lparr>tk_status := TaskCompleted, tk_terminal_outcome := Some outc,
            tk_result_boundary_id := Some boundary, tk_updated_at := now\<rparr>"
    assume "x \<in> set (tasks e2)" "tk_task_id x = na_task_id au"
      "\<not> live_descendant_attempt (na_task_id au) e2" "\<not> live_wait (na_task_id au) e2"
      "\<not> live_wave (na_task_id au) e2" "d2 = e2\<lparr>tasks := replace_row x ?x (tasks e2)\<rparr>"
    then show ?thesis
      unfolding task_completed_with_def
      using live_frame [of d2 e2] by (simp add: set_replace_row)
  qed
  then show ?thesis
    using append_task_event_frame [OF ev] d4 live_frame [of d' d2]
    by (auto simp: task_completed_with_def)
qed


lemma read_authority_rows:
  assumes "read_node_operation_authority sc d = Inr au"
  shows "na_assignment au \<in> set (assignments d)" "as_assignment_id (na_assignment au) = na_assignment_id au"
    "na_attempt au \<in> set (attempts d)" "at_attempt_id (na_attempt au) = na_attempt_id au"
    "na_dispatch au \<in> set (dispatches d)" "dt_dispatch_id (na_dispatch au) = na_dispatch_id au"
  by (rule read_node_operation_authority_Inr [OF assms];
      simp add: read_current_assignment_and_attempt_Inr(1,3) read_current_dispatch_and_task_Inr(1))+

subsection \<open>Histories of Checkpoints\<close>

text \<open>One attempted Checkpoint operation: its authority is read, then it is committed.\<close>

definition checkpoint_step ::
    "env \<Rightarrow> (string \<Rightarrow> string \<Rightarrow> file_probe) \<Rightarrow> render option \<Rightarrow>
       checkpoint_fresh \<times> operation_scope \<times> checkpoint_request \<Rightarrow> db \<Rightarrow> (checkpoint_response \<times> db) result" where
  "checkpoint_step env probe deps op d =
     (case op of (fx, sc, rq) \<Rightarrow> and_then (read_node_operation_authority sc d)
       (\<lambda>au. commit_checkpoint env probe deps fx au rq d))"

interpretation checkpoint_ops: committed_operation "checkpoint_step env probe deps"
    "controller_ok (env_event_hash env)"
  for env probe deps
proof unfold_locales
  fix op d r d'
  assume "checkpoint_step env probe deps op d = Inr (r, d')" and ok: "controller_ok (env_event_hash env) d"
  then obtain fx au rq where "commit_checkpoint env probe deps fx au rq d = Inr (r, d')"
    by (auto simp: checkpoint_step_def result_simps split: prod.splits)
  with ok show "controller_ok (env_event_hash env) d'" by (rule commit_checkpoint_controller_ok)
qed

subsection \<open>Properties\<close>

text \<open>
  C10. Every history of Checkpoint operations, progress, green, blocked and retry, with the
  failed ones rolled back, keeps the controller invariant: each Attempt owns at most one
  live Dispatch or wait and every live Dispatch is so owned, Waves stay well formed, budgets
  stay within their limits, at most one open Assignment per Member, and the event chains
  stay intact.
\<close>

theorem checkpoint_history_invariant:
  assumes "controller_ok (env_event_hash env) d"
  shows "controller_ok (env_event_hash env) (run_history (checkpoint_step env probe deps) ops d)"
  using assms by (rule checkpoint_ops.history_keeps)

text \<open>
  C11. A green Checkpoint is committed only if every direct child of the caller, in the Team
  revision of its Dispatch, has an accepted green Boundary from a Dispatch with exactly the
  child's current Member configuration and branch basis.
\<close>

theorem green_requires_participation:
  assumes "commit_checkpoint env probe deps fx au rq d = Inr (r, d')" and "cq_outcome rq = Some Green"
    and "m \<in> set (team_members d)" and "tm_task_id m = na_task_id au"
    and "tm_team_revision_id m = dt_team_revision_id (na_dispatch au)"
    and "tm_parent_member_id m = Some (dt_member_id (na_dispatch au))"
  shows "\<exists>b \<in> set (boundaries d). \<exists>t \<in> set (dispatches d).
    dt_dispatch_id t = ab_source_dispatch_id b \<and> ab_outcome b = Green \<and>
    dispatch_basis t = (na_task_id au, tm_member_id m, tm_member_configuration_id m,
      tm_member_branch_basis_id m)"
proof -
  have "require_current_direct_child_participation au d = Inr ()"
    using commit_checkpoint_cases [OF assms(1)] assms(2) by metis
  moreover have "m \<in> set (direct_children (na_task_id au) (dt_team_revision_id (na_dispatch au))
      (dt_member_id (na_dispatch au)) d)"
    using assms(3-6) by (simp add: set_direct_children)
  ultimately show ?thesis
    by (auto simp: participation_required accepted_green_participation_iff member_basis_def)
qed

text \<open>
  C12. A committed retry consumes exactly one unit of a positive (or absent) retry budget,
  leaves its Assignment open on the new Attempt, completes the source Attempt with the
  outcome retry, and starts the new Attempt on the prepared Dispatch; no Task and no Wave
  changes.
\<close>

theorem retry_consumes_one_unit:
  assumes "controller_ok (env_event_hash env) d"
    and "commit_checkpoint env probe deps fx au rq d = Inr (r, d')" and "cq_outcome rq = Some Retry"
  shows "tasks d' = tasks d \<and> waves d' = waves d \<and>
    (\<exists>s \<in> set (assignments d). source_assignment_matches au s \<and> has_retry_budget s \<and>
       assignments d' = replace_row s (s\<lparr>as_current_attempt_id := Some (retry_attempt_id_of au fx),
         as_retries_remaining := map_option (\<lambda>n. n - 1) (as_retries_remaining s)\<rparr>) (assignments d)) \<and>
    (\<exists>a \<in> set (attempts d'). at_attempt_id a = na_attempt_id au \<and> at_status a = AttCompleted \<and>
       at_terminal_outcome a = Some Retry) \<and>
    (\<exists>a \<in> set (attempts d'). at_attempt_id a = retry_attempt_id_of au fx \<and> at_status a = AttRunning \<and>
       at_retry_of_attempt_id a = Some (na_attempt_id au) \<and>
       at_current_dispatch_id a = Some (''dispatch.'' @ fx_dispatch_hex fx))"
  using retry_commit_effect [OF assms] unfolding consume_retry_def .

text \<open>
  C13. A committed green or blocked Checkpoint of the root Assignment completes the Task with
  that outcome and its accepted Boundary, and at that moment the Task has no live
  descendant Attempt, no wait, and no open or unconsumed Wave.
\<close>

theorem root_checkpoint_completes_task:
  assumes "controller_ok (env_event_hash env) d" and "read_node_operation_authority sc d = Inr au"
    and "commit_checkpoint env probe deps fx au rq d = Inr (r, d')"
    and "cq_outcome rq = Some outc" and "outc \<noteq> Retry"
    and "as_parent_assignment_id (na_assignment au) = None"
  shows "task_completed_with (na_task_id au) outc (boundary_id_of au) d'"
proof (rule commit_checkpoint_cases [OF assms(3)])
  let ?ok = "controller_ok (env_event_hash env)"
  fix prepared cs d1 d2 d3 settled
  assume prep: "prepare_checkpoint_semantic_retry deps au fx (cq_outcome rq) d = Inr prepared"
    and st1: "stage_file_references (checkpoint_id_of au fx) (cq_files rq) (d\<lparr>checkpoints := cs\<rparr>) = Inr d1"
    and st2: "advance_latest_checkpoint au (checkpoint_id_of au fx)
      (at_latest_checkpoint_id (na_attempt au)) d1 = Inr d2"
    and st3: "append_task_event env
       (checkpoint_event au (checkpoint_id_of au fx) rq (cq_files rq) (env_now env)) d2 = Inr d3"
    and fin: "case cq_outcome rq of None \<Rightarrow> settled = None \<and> d' = d3
     | Some outc \<Rightarrow> stage_terminal_boundary env au (checkpoint_id_of au fx) (boundary_id_of au) outc
         (env_now env) prepared d3 = Inr (settled, d')"
  have "?ok d1" using stage_file_references_frame [OF st1] assms(1) by auto
  then have ok3: "?ok d3"
    by (intro append_controller_ok [OF _ st3] advance_latest_checkpoint_controller_ok [OF _ st2])
  have "cq_outcome rq \<noteq> Some Retry" using assms(4,5) by simp
  then have "prepared = None" using prep by (rule prepare_other_outcome)
  then have st: "stage_terminal_boundary env au (checkpoint_id_of au fx) (boundary_id_of au) outc
       (env_now env) None d3 = Inr (settled, d')"
    using fin assms(4) by simp
  have "na_assignment au \<in> set (assignments d3)"
      "as_assignment_id (na_assignment au) = na_assignment_id au"
    using read_authority_rows [OF assms(2)] checkpoint_prefix_frame(1) [OF st1 st2 st3] by simp_all
  then show ?thesis by (rule root_terminal_effect [OF ok3 st assms(5,6)])
qed

end
