(* ===== verification/Witnesses.thy ===== *)
theory Witnesses
  imports Samples CheckpointProofs
begin

text \<open>
  Each property applied to the concrete states of \<open>Samples\<close>: its hypotheses hold there, so no
  property is vacuous.
\<close>

lemma checkpoint_history_invariant_witness:
  "controller_ok (env_event_hash sample_env)
     (run_history (checkpoint_step sample_env sample_probe (Some sample_render))
        [(sample_fresh, sample_scope, sample_request None)] sample_db)"
  by (rule checkpoint_history_invariant [OF sample_controller_ok])

lemma green_requires_participation_witness:
  "(\<exists>x. commit_checkpoint sample_env sample_probe None sample_fresh sample_authority
      (sample_request (Some Green)) sample_green_db = Inr x) \<and>
   (\<exists>b \<in> set (boundaries sample_green_db). \<exists>t \<in> set (dispatches sample_green_db).
      dt_dispatch_id t = ab_source_dispatch_id b \<and> ab_outcome b = Green \<and>
      dispatch_basis t = (''t1'', ''dev'', ''cfg2'', ''bb2''))"
proof -
  have "\<exists>x. commit_checkpoint sample_env sample_probe None sample_fresh sample_authority
      (sample_request (Some Green)) sample_green_db = Inr x"
    by (rule isr_ex) code_simp
  then obtain r d' where cm: "commit_checkpoint sample_env sample_probe None sample_fresh
      sample_authority (sample_request (Some Green)) sample_green_db = Inr (r, d')" by auto
  have "\<exists>b \<in> set (boundaries sample_green_db). \<exists>t \<in> set (dispatches sample_green_db).
      dt_dispatch_id t = ab_source_dispatch_id b \<and> ab_outcome b = Green \<and>
      dispatch_basis t = (na_task_id sample_authority, tm_member_id sample_dev,
        tm_member_configuration_id sample_dev, tm_member_branch_basis_id sample_dev)"
    by (rule green_requires_participation [OF cm])
      (simp_all add: sample_request_def sample_green_db_def sample_defs)
  with cm show ?thesis by (simp add: sample_authority_def sample_dev_def)
qed

lemma retry_consumes_one_unit_witness:
  "\<exists>r d'. commit_checkpoint sample_env sample_probe (Some sample_render) sample_fresh
      sample_authority (sample_request (Some Retry)) sample_db = Inr (r, d') \<and>
    (\<exists>a \<in> set (attempts d'). at_attempt_id a = ''at1'' \<and> at_status a = AttCompleted \<and>
       at_terminal_outcome a = Some Retry)"
proof -
  have "\<exists>x. commit_checkpoint sample_env sample_probe (Some sample_render) sample_fresh
      sample_authority (sample_request (Some Retry)) sample_db = Inr x"
    by (rule isr_ex) code_simp
  then obtain r d' where cm: "commit_checkpoint sample_env sample_probe (Some sample_render)
      sample_fresh sample_authority (sample_request (Some Retry)) sample_db = Inr (r, d')" by auto
  have "cq_outcome (sample_request (Some Retry)) = Some Retry" by (simp add: sample_request_def)
  from retry_consumes_one_unit [OF sample_controller_ok cm this] cm show ?thesis
    by (auto simp: sample_authority_def)
qed

lemma root_checkpoint_completes_task_witness:
  "\<exists>r d'. commit_checkpoint sample_env sample_probe None sample_fresh sample_authority
      (sample_request (Some Blocked)) sample_db = Inr (r, d') \<and>
    task_completed_with ''t1'' Blocked ''accepted-boundary.d1'' d'"
proof -
  have "\<exists>x. commit_checkpoint sample_env sample_probe None sample_fresh
      sample_authority (sample_request (Some Blocked)) sample_db = Inr x"
    by (rule isr_ex) code_simp
  then obtain r d' where cm: "commit_checkpoint sample_env sample_probe None
      sample_fresh sample_authority (sample_request (Some Blocked)) sample_db = Inr (r, d')" by auto
  have "task_completed_with (na_task_id sample_authority) Blocked (boundary_id_of sample_authority) d'"
    by (rule root_checkpoint_completes_task [OF sample_controller_ok sample_read cm])
      (simp_all add: sample_request_def sample_authority_def sample_assignment_def)
  with cm show ?thesis by (auto simp: sample_authority_def boundary_id_of_def)
qed


lemma pages_cover_log_witness: "read_all_pages 1 ''t1'' None 5 sample_db = Some []"
proof -
  have "''t1'' \<in> eh_task_id ` set (event_heads sample_db)" by (simp add: sample_db_def)
  from pages_cover_log [OF controller_ok_parts(5) [OF sample_controller_ok] this, of 5]
  show ?thesis by (simp add: task_log_def sample_db_def)
qed

lemma staging_occupies_idle_lane_witness:
  "\<exists>d'. stage_starting_dispatch sample_env (retry_basis sample_authority sample_lead ''at1'')
      (sample_prepared) sample_idle_db = Inr d' \<and> lanes_ok d'"
proof -
  have ok: "lanes_ok sample_idle_db"
    by (simp add: lanes_ok_def lanes_wf_def sample_idle_db_def sample_defs keyed_def ck_attempt_def)
  have "\<exists>x. stage_starting_dispatch sample_env (retry_basis sample_authority sample_lead ''at1'')
      sample_prepared sample_idle_db = Inr x"
    by (rule isr_ex) code_simp
  then obtain d' where "stage_starting_dispatch sample_env
      (retry_basis sample_authority sample_lead ''at1'') sample_prepared sample_idle_db = Inr d'" ..
  with staging_occupies_idle_lane [OF ok this] show ?thesis by blast
qed

lemma authority_read_is_exact_witness:
  "claim_exact_node_operation_transition sample_authority sample_db = Inr ()"
  using authority_read_is_exact [OF sample_read] by simp

lemma activity_is_monotone_witness:
  "\<exists>revision committed d'. refresh_node_activity sample_authority 7 sample_db =
     Inr ((revision, committed), d') \<and> 7 \<le> committed"
proof -
  have "\<exists>x. refresh_node_activity sample_authority 7 sample_db = Inr x" by (rule isr_ex) code_simp
  then obtain revision committed d' where
    rf: "refresh_node_activity sample_authority 7 sample_db = Inr ((revision, committed), d')" by auto
  from activity_is_monotone [OF controller_ok_parts(1) [OF sample_controller_ok] rf] rf
  show ?thesis by auto
qed

lemma wave_joins_once_when_complete_witness:
  "\<exists>d'. settle_delegation_wave ''wv1'' 60 (sample_wave_db sample_settled_member) = Inr (True, d') \<and>
     settle_delegation_wave ''wv1'' 61 d' = Inr (False, d')"
proof -
  have "\<exists>d'. settle_delegation_wave ''wv1'' 60 (sample_wave_db sample_settled_member) = Inr (True, d')"
    by (rule joined_ex) code_simp
  then obtain d' where
    st: "settle_delegation_wave ''wv1'' 60 (sample_wave_db sample_settled_member) = Inr (True, d')" ..
  from wave_joins_once_when_complete [OF sample_wave_lanes_ok sample_waves_ok(2) st] st
  show ?thesis by blast
qed

lemma wave_member_settles_once_witness:
  "\<exists>d'. settle_wave_member_for_checkpoint sample_child_authority ''b'' Green 60
      (sample_wave_db sample_wave_member) = Inr (''wv1'', d') \<and> waves_ok d'"
proof -
  have "\<exists>x. settle_wave_member_for_checkpoint sample_child_authority ''b'' Green 60
      (sample_wave_db sample_wave_member) = Inr x"
    by (rule isr_ex) code_simp
  then obtain wave d' where st: "settle_wave_member_for_checkpoint sample_child_authority ''b'' Green 60
      (sample_wave_db sample_wave_member) = Inr (wave, d')" by auto
  from wave_member_settles_once [OF sample_waves_ok(1) st] have "waves_ok d'" "wave = ''wv1''"
    by (auto simp: sample_wave_db_def sample_wave_member_def)
  with st show ?thesis by blast
qed

end
