(* ===== verification/Delegation.thy ===== *)
theory Delegation
  imports Checkpoints
begin

text \<open>
  Delegation: \<open>runtime/delegation/preparation.py\<close> (the parent's context, the targets and the
  prepared child work), \<open>runtime/delegation/staging.py\<close> (one all-or-none Wave) and
  \<open>runtime/delegation/fan_out.py\<close> (the operation). Parameters: the file-system answer for a
  path, the rendering of a child's request, the fresh hexadecimal identifiers and the clock.
  The pinned Workflow revision and the Member configuration a row joins are kept by foreign
  keys and read by the rendering only.
\<close>

subsection \<open>Requests and parameters\<close>

record delegated_assignment =
  da_child_id :: ident
  da_prompt :: string
  da_files :: "file_reference list"

text \<open>\<open>DelegateRequest\<close>: one to eight assignments, to distinct children.\<close>

definition validate_delegate_request ::
    "delegated_assignment list \<Rightarrow> delegated_assignment list result" where
  "validate_delegate_request rq =
     (if rq = [] \<or> 8 < length rq
      then Inl (ValueError ''assignments must have between 1 and 8 items'')
      else if \<not> distinct (map da_child_id rq)
      then Inl (ValueError ''delegate assignments must target unique direct children'')
      else Inr rq)"

text \<open>The random identifiers \<open>uuid4().hex\<close> one commit draws; two for each child.\<close>

record delegation_fresh =
  dx_wave_hex :: string
  dx_wait_hex :: string
  dx_work_hex :: "nat \<Rightarrow> string"
  dx_dispatch_hex :: "nat \<Rightarrow> string"

record delegation_context =
  dc_task :: task_row
  dc_parent_selection :: team_member_row
  dc_budget :: "int \<times> int"

record prepared_wave_member =
  pw_authored :: delegated_assignment
  pw_target :: team_member_row
  pw_assignment :: assignment_row
  pw_attempt :: attempt_row
  pw_files :: "file_reference list"
  pw_dispatch :: prepared_request

text \<open>What renders a child's request: its selection, its new work and its own direct Team.\<close>

type_synonym child_render =
  "team_member_row \<Rightarrow> assignment_row \<Rightarrow> attempt_row \<Rightarrow> file_reference list \<Rightarrow>
     team_member_row list \<Rightarrow> db \<Rightarrow> prepared_request result"

record delegation_dependencies =
  dd_render :: child_render
  dd_now :: time

definition delegation_wave_id_of :: "delegation_fresh \<Rightarrow> ident" where
  "delegation_wave_id_of fx = ''delegation-wave.'' @ dx_wave_hex fx"

definition attempt_wait_id_of :: "delegation_fresh \<Rightarrow> ident" where
  "attempt_wait_id_of fx = ''attempt-wait.'' @ dx_wait_hex fx"

subsection \<open>Preparation\<close>

definition snapshot_assignment_budget :: "int \<Rightarrow> int \<Rightarrow> (int \<times> int) result" where
  "snapshot_assignment_budget child_limit retry_limit =
     (if child_limit < 0 then Inl (ValueError ''child_assignment_limit must be nonnegative'')
      else if retry_limit < 0 then Inl (ValueError ''retry_limit must be nonnegative'')
      else Inr (child_limit, retry_limit))"

definition read_delegation_context :: "node_authority \<Rightarrow> db \<Rightarrow> delegation_context result" where
  "read_delegation_context au d =
     and_then (require (conflict_error ''another transition changed exact delegation authority'')
       (find (\<lambda>(t, m). tk_task_id t = na_task_id au \<and> tk_status t = TaskRunning \<and>
           tm_task_id m = tk_task_id t \<and>
           tk_current_team_revision_id t = Some (tm_team_revision_id m) \<and>
           tm_member_id m = na_member_id au \<and>
           tm_member_configuration_id m = dt_member_configuration_id (na_dispatch au) \<and>
           tm_member_branch_basis_id m = dt_member_branch_basis_id (na_dispatch au) \<and>
           exact_node_operation_authority_exists au d)
         (List.product (tasks d) (team_members d))))
     (\<lambda>(t, m).
       and_then (snapshot_assignment_budget (tk_max_child_assignments t) (tk_max_retries t))
       (\<lambda>b. Inr \<lparr>dc_task = t, dc_parent_selection = m, dc_budget = b\<rparr>))"

definition require_wave_size :: "task_row \<Rightarrow> nat \<Rightarrow> unit result" where
  "require_wave_size t count =
     require_that (budget_exhausted_error
         ''delegate requested more members than this Task allows'')
       (int count \<le> min (tk_max_wave_members t) 8)"

definition read_direct_targets ::
    "node_authority \<Rightarrow> delegated_assignment list \<Rightarrow> ident \<Rightarrow> db \<Rightarrow>
       (ident \<Rightarrow> team_member_row option) result" where
  "read_direct_targets au rq revision d =
     (let child_ids = map da_child_id rq;
          rows = filter (\<lambda>m. tm_task_id m = na_task_id au \<and> tm_team_revision_id m = revision \<and>
            tm_parent_member_id m = Some (na_member_id au) \<and> tm_member_id m \<in> set child_ids)
            (team_members d);
          targets = map_of (List.rev (map (\<lambda>m. (tm_member_id m, m)) rows));
          missing = filter (\<lambda>c. targets c = None) child_ids
      in if missing \<noteq> [] then Inl (RuntimeOperationError ILLEGAL_TARGET_RELATION
           (''delegate may target only current direct children; unknown or indirect: ''
              @ join_names missing) False)
         else Inr targets)"

definition require_available_child :: "node_authority \<Rightarrow> team_member_row \<Rightarrow> db \<Rightarrow> unit result" where
  "require_available_child au target d =
     require_that (illegal_state_error
         (''direct child '' @ tm_member_id target @ '' already has active work''))
       (\<not> list_ex (\<lambda>s. as_task_id s = na_task_id au \<and> as_member_id s = tm_member_id target \<and>
          as_terminal_outcome s = None) (assignments d))"

definition new_child_work ::
    "node_authority \<Rightarrow> delegated_assignment \<Rightarrow> team_member_row \<Rightarrow> int \<times> int \<Rightarrow> time \<Rightarrow> string \<Rightarrow>
       assignment_row \<times> attempt_row" where
  "new_child_work au authored target budget opened_at suffix =
     (let assignment_id = ''assignment.'' @ na_task_id au @ ''.'' @ tm_member_id target @ ''.'' @ suffix;
          attempt_id = ''attempt.'' @ na_task_id au @ ''.'' @ tm_member_id target @ ''.'' @ suffix
      in (\<lparr>as_assignment_id = assignment_id, as_task_id = na_task_id au,
           as_member_id = tm_member_id target,
           as_parent_assignment_id = Some (na_assignment_id au),
           as_prompt = da_prompt authored, as_current_attempt_id = Some attempt_id,
           as_work_plan_revision = 0,
           as_child_assignment_limit = Some (fst budget),
           as_child_assignments_remaining = Some (fst budget),
           as_retry_limit = Some (snd budget), as_retries_remaining = Some (snd budget),
           as_created_by_dispatch_id = Some (na_dispatch_id au), as_created_at = opened_at,
           as_terminal_outcome = None, as_closed_at = None\<rparr>,
          \<lparr>at_attempt_id = attempt_id, at_assignment_id = assignment_id,
           at_task_id = na_task_id au, at_retry_of_attempt_id = None,
           at_latest_checkpoint_id = None, at_current_dispatch_id = None,
           at_current_wait_id = None, at_watchdog_replacement_count = 0,
           at_status = AttRunning, at_terminal_outcome = None, at_opened_at = opened_at,
           at_closed_at = None\<rparr>))"

text \<open>A failure of the child's own configuration is reported; a controller error passes.\<close>

fun child_preparation_failure :: "ident \<Rightarrow> failure \<Rightarrow> failure" where
  "child_preparation_failure child (ProviderResolutionError s) =
     illegal_state_error (''could not prepare delegated child '' @ child)"
| "child_preparation_failure child (ValueError s) =
     illegal_state_error (''could not prepare delegated child '' @ child)"
| "child_preparation_failure child (OSError s) =
     illegal_state_error (''could not prepare delegated child '' @ child)"
| "child_preparation_failure child e = e"

definition prepare_child_dispatch ::
    "child_render \<Rightarrow> delegated_assignment \<Rightarrow> team_member_row \<Rightarrow> assignment_row \<Rightarrow> attempt_row \<Rightarrow>
       file_reference list \<Rightarrow> team_member_row list \<Rightarrow> ident \<Rightarrow> time \<Rightarrow> db \<Rightarrow> prepared_request result" where
  "prepare_child_dispatch render authored target s a files children dispatch due_at d =
     map_failure (child_preparation_failure (da_child_id authored))
       (and_then (render target s a files children d) (\<lambda>p.
          Inr (p\<lparr>pr_dispatch_id := dispatch, pr_due_at := due_at\<rparr>)))"

text \<open>
  The lookup \<open>targets[authored.child_id]\<close> cannot fail after \<open>read_direct_targets\<close>; its
  failure case is never reached.
\<close>

definition prepare_wave_member ::
    "(string \<Rightarrow> string \<Rightarrow> file_probe) \<Rightarrow> delegation_dependencies \<Rightarrow> delegation_fresh \<Rightarrow>
       node_authority \<Rightarrow> (ident \<Rightarrow> team_member_row option) \<Rightarrow> delegation_context \<Rightarrow> string \<Rightarrow> time \<Rightarrow>
       db \<Rightarrow> nat \<times> delegated_assignment \<Rightarrow> prepared_wave_member result" where
  "prepare_wave_member probe deps fx au targets context workspace due_at d ia =
     (case ia of (i, authored) \<Rightarrow>
       and_then (require (ValueError ''KeyError'') (targets (da_child_id authored))) (\<lambda>target.
       and_then (require_available_child au target d) (\<lambda>_.
       and_then (validate_file_references probe workspace (da_files authored)) (\<lambda>files.
         case new_child_work au authored target (dc_budget context) due_at (dx_work_hex fx i) of
           (s, a) \<Rightarrow>
         and_then (prepare_child_dispatch (dd_render deps) authored target s a files
             (direct_children (na_task_id au) (tm_team_revision_id target) (tm_member_id target) d)
             (''dispatch.'' @ dx_dispatch_hex fx i) due_at d) (\<lambda>p.
           Inr \<lparr>pw_authored = authored, pw_target = target, pw_assignment = s,
                pw_attempt = a, pw_files = files, pw_dispatch = p\<rparr>)))))"

definition prepare_wave_members ::
    "(string \<Rightarrow> string \<Rightarrow> file_probe) \<Rightarrow> delegation_dependencies \<Rightarrow> delegation_fresh \<Rightarrow>
       node_authority \<Rightarrow> (ident \<Rightarrow> team_member_row option) \<Rightarrow> delegation_context \<Rightarrow> string \<Rightarrow> time \<Rightarrow>
       db \<Rightarrow> delegated_assignment list \<Rightarrow> prepared_wave_member list result" where
  "prepare_wave_members probe deps fx au targets context workspace due_at d rq =
     map_result (prepare_wave_member probe deps fx au targets context workspace due_at d)
       (List.enumerate 0 rq)"

subsection \<open>Staging one Wave\<close>

definition new_wave_row :: "node_authority \<Rightarrow> ident \<Rightarrow> time \<Rightarrow> wave_row" where
  "new_wave_row au wave now =
     \<lparr>dw_delegation_wave_id = wave, dw_task_id = na_task_id au,
      dw_parent_assignment_id = na_assignment_id au, dw_parent_attempt_id = na_attempt_id au,
      dw_source_dispatch_id = na_dispatch_id au, dw_team_revision_id = na_team_revision_id au,
      dw_parent_member_id = na_member_id au,
      dw_parent_member_configuration_id = dt_member_configuration_id (na_dispatch au),
      dw_parent_member_branch_basis_id = dt_member_branch_basis_id (na_dispatch au),
      dw_status = WaveOpen, dw_successor_dispatch_id = None, dw_created_at = now,
      dw_settled_at = None, dw_cancelled_at = None\<rparr>"

definition new_wave_member_row ::
    "node_authority \<Rightarrow> ident \<Rightarrow> nat \<Rightarrow> prepared_wave_member \<Rightarrow> wave_member_row" where
  "new_wave_member_row au wave i m =
     \<lparr>dm_delegation_wave_id = wave, dm_order_index = i, dm_task_id = na_task_id au,
      dm_parent_assignment_id = na_assignment_id au, dm_parent_attempt_id = na_attempt_id au,
      dm_source_dispatch_id = na_dispatch_id au, dm_team_revision_id = na_team_revision_id au,
      dm_parent_member_id = na_member_id au,
      dm_parent_member_configuration_id = dt_member_configuration_id (na_dispatch au),
      dm_parent_member_branch_basis_id = dt_member_branch_basis_id (na_dispatch au),
      dm_child_assignment_id = as_assignment_id (pw_assignment m),
      dm_child_member_id = tm_member_id (pw_target m),
      dm_child_member_configuration_id = tm_member_configuration_id (pw_target m),
      dm_child_member_branch_basis_id = tm_member_branch_basis_id (pw_target m),
      dm_status = MemberPending, dm_terminal_boundary_id = None, dm_terminal_outcome = None,
      dm_settled_at = None, dm_cancelled_at = None\<rparr>"

definition stage_assignment_file_references ::
    "ident \<Rightarrow> file_reference list \<Rightarrow> db \<Rightarrow> db result" where
  "stage_assignment_file_references assignment files d =
     and_then (fold_result (\<lambda>(i, f). insert_assignment_file
         \<lparr>af_assignment_id = assignment, af_order_index = i, af_file = f\<rparr>)
       (List.enumerate 0 files) (assignment_files d))
     (\<lambda>fs. Inr (d\<lparr>assignment_files := fs\<rparr>))"

definition stage_wave_member ::
    "node_authority \<Rightarrow> ident \<Rightarrow> nat \<times> prepared_wave_member \<Rightarrow> db \<Rightarrow> db result" where
  "stage_wave_member au wave im d =
     (case im of (i, m) \<Rightarrow>
       and_then (insert_assignment (pw_assignment m) (assignments d)) (\<lambda>ss.
       and_then (insert_attempt (pw_attempt m) (attempts d)) (\<lambda>as.
       and_then (insert_wave_member (new_wave_member_row au wave i m) (wave_members d)) (\<lambda>ms.
         stage_assignment_file_references (as_assignment_id (pw_assignment m)) (pw_files m)
           (d\<lparr>assignments := ss, attempts := as, wave_members := ms\<rparr>)))))"

definition consumable_assignment :: "node_authority \<Rightarrow> nat \<Rightarrow> assignment_row \<Rightarrow> bool" where
  "consumable_assignment au count s \<longleftrightarrow>
     as_assignment_id s = na_assignment_id au \<and> as_task_id s = na_task_id au \<and>
     as_member_id s = na_member_id au \<and> as_current_attempt_id s = Some (na_attempt_id au) \<and>
     as_closed_at s = None \<and>
     (case as_child_assignments_remaining s of None \<Rightarrow> True | Some n \<Rightarrow> int count \<le> n)"

definition consume_assignment_budget :: "node_authority \<Rightarrow> nat \<Rightarrow> db \<Rightarrow> db result" where
  "consume_assignment_budget au count d =
     and_then (require (budget_exhausted_error
         ''the current Assignment has too few child-Assignment units remaining'')
       (update_where (\<lambda>s. consumable_assignment au count s \<and>
            exact_node_operation_authority_exists au d)
         (\<lambda>s. s\<lparr>as_child_assignments_remaining :=
            map_option (\<lambda>n. n - int count) (as_child_assignments_remaining s)\<rparr>) (assignments d)))
     (\<lambda>ss. Inr (d\<lparr>assignments := ss\<rparr>))"

definition delegation_basis :: "node_authority \<Rightarrow> prepared_wave_member \<Rightarrow> starting_basis" where
  "delegation_basis au m =
     \<lparr>sb_task_id = na_task_id au, sb_assignment_id = as_assignment_id (pw_assignment m),
      sb_team_revision_id = tm_team_revision_id (pw_target m),
      sb_member_id = tm_member_id (pw_target m),
      sb_member_configuration_id = tm_member_configuration_id (pw_target m),
      sb_member_branch_basis_id = tm_member_branch_basis_id (pw_target m),
      sb_attempt_id = at_attempt_id (pw_attempt m), sb_opened_reason = ODelegation,
      sb_predecessor_dispatch_id = None, sb_task_start_source_task_id = None,
      sb_resume_event = None\<rparr>"

fun child_staging_failure :: "failure \<Rightarrow> failure" where
  "child_staging_failure (AttemptDispatchConflictError s) =
     conflict_error ''another transition changed a delegated child Attempt''"
| "child_staging_failure e = e"

definition stage_child_dispatch ::
    "env \<Rightarrow> node_authority \<Rightarrow> prepared_wave_member \<Rightarrow> db \<Rightarrow> db result" where
  "stage_child_dispatch env au m d =
     map_failure child_staging_failure
       (stage_starting_dispatch env (delegation_basis au m) (pw_dispatch m) d)"

definition new_wait_row :: "node_authority \<Rightarrow> ident \<Rightarrow> ident \<Rightarrow> time \<Rightarrow> wait_row" where
  "new_wait_row au wave wait now =
     \<lparr>aw_wait_id = wait, aw_task_id = na_task_id au, aw_assignment_id = na_assignment_id au,
      aw_attempt_id = na_attempt_id au, aw_source_dispatch_id = na_dispatch_id au,
      aw_delegation_wave_id = Some wave, aw_human_request_id = None,
      aw_command_run_id = None, aw_created_at = now\<rparr>"

definition select_parent_wait ::
    "node_authority \<Rightarrow> ident \<Rightarrow> ident \<Rightarrow> time \<Rightarrow> db \<Rightarrow> db result" where
  "select_parent_wait au wave wait now d =
     and_then (insert_wait (new_wait_row au wave wait now) (waits d)) (\<lambda>ws.
       require (conflict_error ''another transition changed parent delegation authority'')
         (suspend_current_attempt_on_wait (authority_identity au) wait
            (na_team_revision_id au) now CDelegation (d\<lparr>waits := ws\<rparr>)))"

definition stage_delegation_wave ::
    "env \<Rightarrow> node_authority \<Rightarrow> ident \<Rightarrow> ident \<Rightarrow> prepared_wave_member list \<Rightarrow> time \<Rightarrow> db \<Rightarrow> db result" where
  "stage_delegation_wave env au wave wait members now d =
     and_then (insert_wave (new_wave_row au wave now) (waves d)) (\<lambda>ws.
     and_then (fold_result (stage_wave_member au wave) (List.enumerate 0 members)
         (d\<lparr>waves := ws\<rparr>)) (\<lambda>d1.
     and_then (consume_assignment_budget au (length members) d1) (\<lambda>d2.
     and_then (fold_result (stage_child_dispatch env au) members d2) (\<lambda>d3.
       select_parent_wait au wave wait now d3))))"

subsection \<open>The operation\<close>

fun fan_out_failure :: "failure \<Rightarrow> failure" where
  "fan_out_failure (IntegrityError s) =
     conflict_error ''a selected child already received another open Assignment''"
| "fan_out_failure e = e"

record delegate_success =
  dr_members :: "ident list"
  dr_must_stop :: bool
  dr_signals :: "runtime_signal list"

definition commit_delegation_wave ::
    "env \<Rightarrow> (string \<Rightarrow> string \<Rightarrow> file_probe) \<Rightarrow> delegation_dependencies \<Rightarrow> delegation_fresh \<Rightarrow>
       node_authority \<Rightarrow> delegated_assignment list \<Rightarrow> db \<Rightarrow> (delegate_success \<times> db) result" where
  "commit_delegation_wave env probe deps fx au rq d =
     and_then (read_delegation_context au d) (\<lambda>context.
     and_then (require_wave_size (dc_task context) (length rq)) (\<lambda>_.
     and_then (read_direct_targets au rq (tm_team_revision_id (dc_parent_selection context)) d) (\<lambda>targets.
     and_then (read_workspace_path (na_task_id au) d) (\<lambda>workspace.
     and_then (prepare_wave_members probe deps fx au targets context workspace (dd_now deps) d rq) (\<lambda>members.
     and_then (map_failure fan_out_failure
         (stage_delegation_wave env au (delegation_wave_id_of fx) (attempt_wait_id_of fx)
            members (dd_now deps) d)) (\<lambda>d'.
       Inr (\<lparr>dr_members = map (da_child_id \<circ> pw_authored) members, dr_must_stop = True,
             dr_signals = map (\<lambda>m. DispatchStartDue (pr_dispatch_id (pw_dispatch m)) 0
               (pr_due_at (pw_dispatch m))) members\<rparr>, d')))))))"

end
