(* ===== verification/DelegationProofs.thy ===== *)
theory DelegationProofs
  imports Delegation CheckpointProofs
begin

text \<open>
  What a committed delegation does: it keeps the controller invariant, targets only current
  direct children without active work, stages the whole ordered Wave at once, consumes one
  budget unit for each child and parks the parent on its wait.
\<close>

subsection \<open>The staging steps keep the invariant\<close>

lemma fold_insert_append:
  assumes "fold_result (\<lambda>x s. ins (g x) s) xs rs = Inr rs'"
    and "\<And>r s t. ins r s = Inr t \<Longrightarrow> t = s @ [r]"
  shows "rs' = rs @ map g xs"
  using assms(1)
proof (induction xs arbitrary: rs)
  case (Cons x xs)
  then obtain s where "ins (g x) rs = Inr s" "fold_result (\<lambda>x s. ins (g x) s) xs s = Inr rs'"
    by (auto simp: result_simps)
  with Cons.IH [OF this(2)] assms(2) show ?case by simp
qed simp

lemma stage_assignment_files_frame:
  assumes "stage_assignment_file_references asg files d = Inr d'"
  obtains fs where "d' = d\<lparr>assignment_files := fs\<rparr>"
  using assms unfolding stage_assignment_file_references_def by (auto simp: result_simps)

lemma stage_wave_member_Inr:
  assumes "stage_wave_member au wave (i, m) d = Inr d'"
  obtains fs where
    "insert_assignment (pw_assignment m) (assignments d) = Inr (assignments d @ [pw_assignment m])"
    "insert_attempt (pw_attempt m) (attempts d) = Inr (attempts d @ [pw_attempt m])"
    "insert_wave_member (new_wave_member_row au wave i m) (wave_members d) =
       Inr (wave_members d @ [new_wave_member_row au wave i m])"
    "d' = d\<lparr>assignments := assignments d @ [pw_assignment m], attempts := attempts d @ [pw_attempt m],
       wave_members := wave_members d @ [new_wave_member_row au wave i m],
       assignment_files := fs\<rparr>"
proof -
  obtain ss as ms where I: "insert_assignment (pw_assignment m) (assignments d) = Inr ss"
      "insert_attempt (pw_attempt m) (attempts d) = Inr as"
      "insert_wave_member (new_wave_member_row au wave i m) (wave_members d) = Inr ms" and
    F: "stage_assignment_file_references (as_assignment_id (pw_assignment m)) (pw_files m)
       (d\<lparr>assignments := ss, attempts := as, wave_members := ms\<rparr>) = Inr d'"
    using assms unfolding stage_wave_member_def by (auto simp: result_simps)
  have ss: "ss = assignments d @ [pw_assignment m]" using insert_assignment_Inr [OF I(1)] by (rule conjunct1)
  have as: "as = attempts d @ [pw_attempt m]" using insert_attempt_Inr [OF I(2)] by (rule conjunct1)
  have ms: "ms = wave_members d @ [new_wave_member_row au wave i m]"
    using insert_wave_member_Inr [OF I(3)] by (rule conjunct1)
  obtain fs where "d' = d\<lparr>assignments := ss, attempts := as, wave_members := ms, assignment_files := fs\<rparr>"
    by (rule stage_assignment_files_frame [OF F])
  then show thesis using that I unfolding ss as ms by blast
qed

lemma waves_ok_insert_member:
  assumes "waves_ok d" and "insert_wave_member m (wave_members d) = Inr ms"
  shows "waves_ok (d\<lparr>wave_members := ms\<rparr>)"
proof -
  have "ms = wave_members d @ [m]" "ck_wave_member m"
      "dm_child_assignment_id m \<notin> dm_child_assignment_id ` set (wave_members d)"
    using insert_wave_member_Inr [OF assms(2)] by simp_all
  then show ?thesis
    using assms(1) keyed_insert [of dm_child_assignment_id "wave_members d" m]
    unfolding waves_ok_def by simp
qed

lemma waves_ok_insert_wave:
  assumes "waves_ok d" and "insert_wave w (waves d) = Inr ws"
  shows "waves_ok (d\<lparr>waves := ws\<rparr>)"
proof -
  have "ws = waves d @ [w]" "ck_wave w"
      "dw_delegation_wave_id w \<notin> dw_delegation_wave_id ` set (waves d)"
    using insert_wave_Inr [OF assms(2)] by simp_all
  then show ?thesis
    using assms(1) keyed_insert [of dw_delegation_wave_id "waves d" w]
    unfolding waves_ok_def by simp
qed

text \<open>The new Attempt of a child starts with an empty lane.\<close>

definition idle_work :: "prepared_wave_member \<Rightarrow> bool" where
  "idle_work m \<longleftrightarrow> at_current_dispatch_id (pw_attempt m) = None \<and>
     at_current_wait_id (pw_attempt m) = None"

lemma stage_wave_member_controller_ok:
  assumes ok: "controller_ok H d" and idle: "idle_work m"
    and st: "stage_wave_member au wave (i, m) d = Inr d'"
  shows "controller_ok H d'"
proof (rule stage_wave_member_Inr [OF st])
  fix fs
  assume ia: "insert_assignment (pw_assignment m) (assignments d) = Inr (assignments d @ [pw_assignment m])"
    and it: "insert_attempt (pw_attempt m) (attempts d) = Inr (attempts d @ [pw_attempt m])"
    and im: "insert_wave_member (new_wave_member_row au wave i m) (wave_members d) =
       Inr (wave_members d @ [new_wave_member_row au wave i m])"
    and d': "d' = d\<lparr>assignments := assignments d @ [pw_assignment m], attempts := attempts d @ [pw_attempt m],
       wave_members := wave_members d @ [new_wave_member_row au wave i m], assignment_files := fs\<rparr>"
  let ?d1 = "d\<lparr>assignments := assignments d @ [pw_assignment m]\<rparr>"
  let ?d2 = "?d1\<lparr>attempts := attempts d @ [pw_attempt m]\<rparr>"
  let ?d3 = "?d2\<lparr>wave_members := wave_members d @ [new_wave_member_row au wave i m]\<rparr>"
  have ok1: "controller_ok H ?d1"
    by (rule controller_ok_assignments [OF ok assignments_ok_insert [OF controller_ok_parts(3) [OF ok] ia]])
  have "lanes_ok ?d2"
    using lanes_ok_new_attempt [OF controller_ok_parts(1) [OF ok1], of "pw_attempt m"] it idle
    by (simp add: idle_work_def)
  then have ok2: "controller_ok H ?d2" by (rule controller_ok_lanes [OF ok1]) simp_all
  have "waves_ok ?d3"
    using waves_ok_insert_member [OF controller_ok_parts(2) [OF ok2]] im by simp
  moreover have "lanes_ok ?d3"
    using controller_ok_parts(1) [OF ok2] lanes_ok_frame [of ?d3 ?d2] by simp
  ultimately have "controller_ok H ?d3" by (rule controller_ok_waves [OF ok2]) simp_all
  moreover have "d' = ?d3\<lparr>assignment_files := fs\<rparr>" by (simp add: d')
  ultimately show ?thesis by simp
qed

lemma consume_assignment_budget_Inr:
  assumes keyed: "keyed as_assignment_id (assignments d)"
    and "consume_assignment_budget au n d = Inr d'"
  obtains s where "s \<in> set (assignments d)" "consumable_assignment au n s"
    "exact_node_operation_authority_exists au d"
    "d' = d\<lparr>assignments := replace_row s (s\<lparr>as_child_assignments_remaining :=
       map_option (\<lambda>k. k - int n) (as_child_assignments_remaining s)\<rparr>) (assignments d)\<rparr>"
proof -
  let ?p = "\<lambda>s. consumable_assignment au n s \<and> exact_node_operation_authority_exists au d"
  let ?f = "\<lambda>s. s\<lparr>as_child_assignments_remaining :=
       map_option (\<lambda>k. k - int n) (as_child_assignments_remaining s)\<rparr>"
  have key: "\<forall>s. ?p s \<longrightarrow> as_assignment_id s = na_assignment_id au"
    by (simp add: consumable_assignment_def)
  obtain ss where up: "update_where ?p ?f (assignments d) = Some ss"
    and d': "d' = d\<lparr>assignments := ss\<rparr>"
    using assms(2) unfolding consume_assignment_budget_def by (auto simp: result_simps)
  obtain s where "s \<in> set (assignments d)" "?p s" "ss = replace_row s (?f s) (assignments d)"
    using up unfolding update_unique_iff [OF keyed key] by blast
  with that d' show thesis by blast
qed

lemma ck_consume_budget:
  assumes "ck_assignment s" and "consumable_assignment au n s"
  shows "ck_assignment (s\<lparr>as_child_assignments_remaining :=
       map_option (\<lambda>k. k - int n) (as_child_assignments_remaining s)\<rparr>)"
  using assms by (auto simp: ck_assignment_def ck_budget_def consumable_assignment_def
      split: option.splits)

lemma consume_assignment_budget_controller_ok:
  assumes ok: "controller_ok H d" and cs: "consume_assignment_budget au n d = Inr d'"
  shows "controller_ok H d'"
proof (rule consume_assignment_budget_Inr [OF assignments_keyed [OF ok] cs])
  fix s :: assignment_row let ?s = "s\<lparr>as_child_assignments_remaining :=
       map_option (\<lambda>k. k - int n) (as_child_assignments_remaining s)\<rparr>"
  assume s: "s \<in> set (assignments d)" "consumable_assignment au n s"
    and d': "d' = d\<lparr>assignments := replace_row s ?s (assignments d)\<rparr>"
  have "ck_assignment s" using ok s(1) by (simp add: controller_ok_def assignments_ok_def)
  then have "ck_assignment ?s" using s(2) by (rule ck_consume_budget)
  then have "assignments_ok d'"
    unfolding d' by (intro assignments_ok_replace [OF controller_ok_parts(3) [OF ok] s(1)]) simp_all
  then show ?thesis using controller_ok_assignments [OF ok] d' by simp
qed

lemma select_parent_wait_controller_ok:
  assumes ok: "controller_ok H d" and sel: "select_parent_wait au wave wait now d = Inr d'"
  shows "controller_ok H d'"
proof -
  let ?w = "new_wait_row au wave wait now"
  obtain ws where ins: "insert_wait ?w (waits d) = Inr ws"
    and sus: "suspend_current_attempt_on_wait (authority_identity au) (aw_wait_id ?w)
            (na_team_revision_id au) now CDelegation (d\<lparr>waits := ws\<rparr>) = Some d'"
    using sel unfolding select_parent_wait_def by (auto simp: result_simps new_wait_row_def)
  show ?thesis
    by (rule park_on_new_wait_controller_ok [OF ok ins _ _ _ sus])
      (simp_all add: new_wait_row_def authority_identity_def)
qed

subsection \<open>The fan-out as a whole\<close>

lemma stage_wave_members_Inr:
  assumes "fold_result (stage_wave_member au wave) (List.enumerate k ms) d = Inr d'"
  obtains fs where "d' = d\<lparr>assignments := assignments d @ map pw_assignment ms,
    attempts := attempts d @ map pw_attempt ms,
    wave_members := wave_members d @
      map (\<lambda>(i, m). new_wave_member_row au wave i m) (List.enumerate k ms),
    assignment_files := fs\<rparr>"
proof -
  have "\<exists>fs. d' = d\<lparr>assignments := assignments d @ map pw_assignment ms,
    attempts := attempts d @ map pw_attempt ms,
    wave_members := wave_members d @
      map (\<lambda>(i, m). new_wave_member_row au wave i m) (List.enumerate k ms),
    assignment_files := fs\<rparr>"
    using assms
  proof (induction ms arbitrary: k d)
    case Nil
    then show ?case by (intro exI [of _ "assignment_files d"]) simp
  next
    case (Cons m ms)
    then obtain d1 where d1: "stage_wave_member au wave (k, m) d = Inr d1"
        "fold_result (stage_wave_member au wave) (List.enumerate (Suc k) ms) d1 = Inr d'"
      by (auto simp: result_simps)
    obtain fs where e: "d1 = d\<lparr>assignments := assignments d @ [pw_assignment m],
        attempts := attempts d @ [pw_attempt m],
        wave_members := wave_members d @ [new_wave_member_row au wave k m],
        assignment_files := fs\<rparr>"
      by (rule stage_wave_member_Inr [OF d1(1)])
    from Cons.IH [OF d1(2)] show ?case unfolding e by simp
  qed
  then show thesis using that by blast
qed

lemma stage_wave_members_controller_ok:
  assumes "controller_ok H d" and "\<forall>m \<in> set ms. idle_work m"
    and "fold_result (stage_wave_member au wave) (List.enumerate k ms) d = Inr d'"
  shows "controller_ok H d'"
  using assms(3,1)
proof (rule fold_result_invariant)
  fix im s t assume im: "im \<in> set (List.enumerate k ms)" and s: "controller_ok H s"
    and st: "stage_wave_member au wave im s = Inr t"
  obtain i m where e: "im = (i, m)" by (cases im)
  have "m \<in> set ms" using im e by (metis in_set_enumerate_eq nth_mem add_diff_inverse_nat
        diff_less_mono fst_conv snd_conv le_add1 add_diff_cancel_left' less_diff_conv2)
  then show "controller_ok H t"
    using stage_wave_member_controller_ok [OF s] assms(2) st e by blast
qed

lemma stage_child_dispatch_Inr [result_simps]:
  "stage_child_dispatch env au m d = Inr d' \<longleftrightarrow>
     stage_starting_dispatch env (delegation_basis au m) (pw_dispatch m) d = Inr d'"
  by (simp add: stage_child_dispatch_def map_failure_Inr_iff)

lemma stage_children_controller_ok:
  assumes "controller_ok (env_event_hash env) d"
    and "fold_result (stage_child_dispatch env au) ms d = Inr d'"
  shows "controller_ok (env_event_hash env) d'"
  using assms(2,1)
  by (rule fold_result_invariant)
    (auto simp: stage_child_dispatch_Inr intro: stage_starting_dispatch_controller_ok)

lemma stage_children_frame:
  assumes "fold_result (stage_child_dispatch env au) ms d = Inr d'"
  shows "waves d' = waves d \<and> wave_members d' = wave_members d \<and> assignments d' = assignments d \<and>
    tasks d' = tasks d \<and> waits d' = waits d"
  using assms
  by (rule fold_result_invariant [where P = "\<lambda>s. waves s = waves d \<and> wave_members s = wave_members d \<and>
      assignments s = assignments d \<and> tasks s = tasks d \<and> waits s = waits d"])
    (auto simp: stage_child_dispatch_Inr stage_starting_dispatch_frame)

text \<open>The Attempt runs on the Dispatch.\<close>

definition lane_runs :: "ident \<Rightarrow> ident \<Rightarrow> db \<Rightarrow> bool" where
  "lane_runs attempt dispatch d \<longleftrightarrow> (\<exists>a \<in> set (attempts d). at_attempt_id a = attempt \<and>
     at_status a = AttRunning \<and> at_current_dispatch_id a = Some dispatch)"

lemma stage_starting_lane_runs:
  assumes "lanes_ok d" and "stage_starting_dispatch env b p d = Inr d'"
  shows "lane_runs (sb_attempt_id b) (pr_dispatch_id p) d'"
  by (rule stage_starting_attempts [OF assms])
    (auto simp: lane_runs_def set_replace_row)

lemma stage_starting_lane_kept:
  assumes "lanes_ok d" and "stage_starting_dispatch env b p d = Inr d'"
    and "lane_runs attempt dispatch d" and "attempt \<noteq> sb_attempt_id b"
  shows "lane_runs attempt dispatch d'"
proof (rule stage_starting_attempts [OF assms(1,2)])
  fix a assume a: "a \<in> set (attempts d)" "at_attempt_id a = sb_attempt_id b"
    "attempts d' = replace_row a (a\<lparr>at_current_dispatch_id := Some (pr_dispatch_id p)\<rparr>) (attempts d)"
  obtain x where x: "x \<in> set (attempts d)" "at_attempt_id x = attempt" "at_status x = AttRunning"
      "at_current_dispatch_id x = Some dispatch"
    using assms(3) by (auto simp: lane_runs_def)
  have "x \<noteq> a" using x(2) a(2) assms(4) by blast
  then have "x \<in> set (attempts d')" using x(1) a(1,3) by (simp add: set_replace_row)
  then show ?thesis using x by (auto simp: lane_runs_def)
qed

lemma stage_children_lanes_run:
  assumes "lanes_ok d" and "fold_result (stage_child_dispatch env au) ms d = Inr d'"
    and "distinct (map (at_attempt_id \<circ> pw_attempt) ms)" and "m \<in> set ms"
  shows "lane_runs (at_attempt_id (pw_attempt m)) (pr_dispatch_id (pw_dispatch m)) d'"
  using assms
proof (induction ms arbitrary: d)
  case (Cons n ms)
  let ?runs = "lane_runs (at_attempt_id (pw_attempt m)) (pr_dispatch_id (pw_dispatch m))"
  obtain d1 where d1: "stage_starting_dispatch env (delegation_basis au n) (pw_dispatch n) d = Inr d1"
      "fold_result (stage_child_dispatch env au) ms d1 = Inr d'"
    using Cons.prems(2) by (auto simp: result_simps)
  have ok1: "lanes_ok d1" by (rule stage_starting_dispatch_lanes_ok [OF Cons.prems(1) d1(1)])
  show ?case
  proof (cases "m \<in> set ms")
    case True
    then show ?thesis using Cons.IH [OF ok1 d1(2)] Cons.prems(3) by simp
  next
    case False
    then have m: "m = n" using Cons.prems(4) by simp
    have run: "?runs d1"
      using stage_starting_lane_runs [OF Cons.prems(1) d1(1)] m by (simp add: delegation_basis_def)
    have fresh: "\<forall>k \<in> set ms. at_attempt_id (pw_attempt k) \<noteq> at_attempt_id (pw_attempt m)"
      using Cons.prems(3) m by (auto simp: image_iff)
    have "lanes_ok d' \<and> ?runs d'"
      using d1(2)
    proof (rule fold_result_invariant)
      fix k s t assume k: "k \<in> set ms" and s: "lanes_ok s \<and> ?runs s"
        and st: "stage_child_dispatch env au k s = Inr t"
      have "stage_starting_dispatch env (delegation_basis au k) (pw_dispatch k) s = Inr t"
        using st by (simp add: stage_child_dispatch_Inr)
      then show "lanes_ok t \<and> ?runs t"
        using stage_starting_dispatch_lanes_ok stage_starting_lane_kept s fresh k
        by (metis delegation_basis_def starting_basis.simps(7))
    qed (use ok1 run in simp)
    then show ?thesis by simp
  qed
qed simp

subsection \<open>The stages of a committed delegation\<close>

definition prepared_from ::
    "node_authority \<Rightarrow> delegation_context \<Rightarrow> delegation_fresh \<Rightarrow> time \<Rightarrow> (ident \<Rightarrow> team_member_row option) \<Rightarrow>
       db \<Rightarrow> nat \<Rightarrow> delegated_assignment \<Rightarrow> prepared_wave_member \<Rightarrow> bool" where
  "prepared_from au cx fx now targets d i authored m \<longleftrightarrow>
     pw_authored m = authored \<and> targets (da_child_id authored) = Some (pw_target m) \<and>
     require_available_child au (pw_target m) d = Inr () \<and>
     new_child_work au authored (pw_target m) (dc_budget cx) now (dx_work_hex fx i) =
       (pw_assignment m, pw_attempt m) \<and>
     pr_dispatch_id (pw_dispatch m) = ''dispatch.'' @ dx_dispatch_hex fx i \<and>
     pr_due_at (pw_dispatch m) = now"

lemma prepare_wave_member_Inr:
  assumes "prepare_wave_member probe deps fx au targets cx ws now d (i, authored) = Inr m"
  shows "prepared_from au cx fx now targets d i authored m"
  using assms unfolding prepare_wave_member_def prepared_from_def prepare_child_dispatch_def prod.case
  by (elim and_then_InrE)
    (cases "new_child_work au authored (the (targets (da_child_id authored))) (dc_budget cx) now
       (dx_work_hex fx i)", auto simp: require_Inr_iff map_failure_Inr_iff elim!: and_then_InrE)

lemma prepare_wave_members_Inr:
  assumes "prepare_wave_members probe deps fx au targets cx ws now d rq = Inr ms"
  shows "length ms = length rq"
    and "i < length rq \<Longrightarrow> prepared_from au cx fx now targets d i (rq ! i) (ms ! i)"
proof -
  let ?f = "prepare_wave_member probe deps fx au targets cx ws now d"
  have run: "map_result ?f (List.enumerate 0 rq) = Inr ms"
    using assms by (simp add: prepare_wave_members_def)
  show "length ms = length rq" using map_result_Inr_length [OF run] by simp
  assume i: "i < length rq"
  then have "?f (List.enumerate 0 rq ! i) = Inr (ms ! i)"
    using map_result_Inr_nth [OF run] by simp
  moreover have "List.enumerate 0 rq ! i = (i, rq ! i)" using i by (simp add: nth_enumerate_eq)
  ultimately show "prepared_from au cx fx now targets d i (rq ! i) (ms ! i)"
    using prepare_wave_member_Inr by metis
qed

lemma new_child_work_simps:
  assumes "new_child_work au authored target budget now hex = (s, a)"
  shows "as_member_id s = tm_member_id target" "as_task_id s = na_task_id au"
    "as_parent_assignment_id s = Some (na_assignment_id au)" "as_prompt s = da_prompt authored"
    "as_current_attempt_id s = Some (at_attempt_id a)" "as_closed_at s = None"
    "as_terminal_outcome s = None" "at_assignment_id a = as_assignment_id s"
    "at_status a = AttRunning" "at_current_dispatch_id a = None" "at_current_wait_id a = None"
    "as_child_assignments_remaining s = Some (fst budget)" "as_retries_remaining s = Some (snd budget)"
  using assms by (auto simp: new_child_work_def Let_def)

lemma prepared_from_idle: "prepared_from au cx fx now targets d i authored m \<Longrightarrow> idle_work m"
  using new_child_work_simps(10,11) unfolding prepared_from_def idle_work_def by metis

lemma stage_delegation_wave_cases:
  assumes "stage_delegation_wave env au wave wait ms now d = Inr d'"
  obtains fs d2 d3 where
    "insert_wave (new_wave_row au wave now) (waves d) = Inr (waves d @ [new_wave_row au wave now])"
    "fold_result (stage_wave_member au wave) (List.enumerate 0 ms)
       (d\<lparr>waves := waves d @ [new_wave_row au wave now]\<rparr>) =
     Inr (d\<lparr>waves := waves d @ [new_wave_row au wave now],
       assignments := assignments d @ map pw_assignment ms,
       attempts := attempts d @ map pw_attempt ms,
       wave_members := wave_members d @
         map (\<lambda>(i, m). new_wave_member_row au wave i m) (List.enumerate 0 ms),
       assignment_files := fs\<rparr>)"
    "consume_assignment_budget au (length ms) (d\<lparr>waves := waves d @ [new_wave_row au wave now],
       assignments := assignments d @ map pw_assignment ms,
       attempts := attempts d @ map pw_attempt ms,
       wave_members := wave_members d @
         map (\<lambda>(i, m). new_wave_member_row au wave i m) (List.enumerate 0 ms),
       assignment_files := fs\<rparr>) = Inr d2"
    "fold_result (stage_child_dispatch env au) ms d2 = Inr d3"
    "select_parent_wait au wave wait now d3 = Inr d'"
proof -
  obtain ws d1 d2 d3 where
    w: "insert_wave (new_wave_row au wave now) (waves d) = Inr ws" and
    m: "fold_result (stage_wave_member au wave) (List.enumerate 0 ms) (d\<lparr>waves := ws\<rparr>) = Inr d1" and
    c: "consume_assignment_budget au (length ms) d1 = Inr d2" and
    s: "fold_result (stage_child_dispatch env au) ms d2 = Inr d3" and
    p: "select_parent_wait au wave wait now d3 = Inr d'"
    using assms unfolding stage_delegation_wave_def by (auto elim!: and_then_InrE)
  have ws: "ws = waves d @ [new_wave_row au wave now]"
    using insert_wave_Inr [OF w] by (rule conjunct1)
  obtain fs where d1: "d1 = (d\<lparr>waves := ws\<rparr>)\<lparr>assignments := assignments (d\<lparr>waves := ws\<rparr>) @ map pw_assignment ms,
    attempts := attempts (d\<lparr>waves := ws\<rparr>) @ map pw_attempt ms,
    wave_members := wave_members (d\<lparr>waves := ws\<rparr>) @
      map (\<lambda>(i, m). new_wave_member_row au wave i m) (List.enumerate 0 ms),
    assignment_files := fs\<rparr>"
    by (rule stage_wave_members_Inr [OF m])
  show thesis
    by (rule that [of fs d2 d3]) (use w m c s p in \<open>simp_all add: ws d1\<close>)
qed

lemma stage_delegation_wave_controller_ok:
  assumes ok: "controller_ok (env_event_hash env) d" and idle: "\<forall>m \<in> set ms. idle_work m"
    and st: "stage_delegation_wave env au wave wait ms now d = Inr d'"
  shows "controller_ok (env_event_hash env) d'"
proof (rule stage_delegation_wave_cases [OF st])
  let ?ok = "controller_ok (env_event_hash env)"
  let ?dw = "d\<lparr>waves := waves d @ [new_wave_row au wave now]\<rparr>"
  fix fs d2 d3
  let ?d1 = "d\<lparr>waves := waves d @ [new_wave_row au wave now],
       assignments := assignments d @ map pw_assignment ms,
       attempts := attempts d @ map pw_attempt ms,
       wave_members := wave_members d @
         map (\<lambda>(i, m). new_wave_member_row au wave i m) (List.enumerate 0 ms),
       assignment_files := fs\<rparr>"
  assume w: "insert_wave (new_wave_row au wave now) (waves d) = Inr (waves d @ [new_wave_row au wave now])"
    and m: "fold_result (stage_wave_member au wave) (List.enumerate 0 ms) ?dw = Inr ?d1"
    and c: "consume_assignment_budget au (length ms) ?d1 = Inr d2"
    and s: "fold_result (stage_child_dispatch env au) ms d2 = Inr d3"
    and p: "select_parent_wait au wave wait now d3 = Inr d'"
  have "lanes_ok ?dw" using controller_ok_parts(1) [OF ok] lanes_ok_frame [of ?dw d] by simp
  then have "?ok ?dw"
    by (rule controller_ok_waves [OF ok waves_ok_insert_wave [OF controller_ok_parts(2) [OF ok] w]])
      simp_all
  then have "?ok ?d1" by (rule stage_wave_members_controller_ok [OF _ idle m])
  then have "?ok d2" by (rule consume_assignment_budget_controller_ok [OF _ c])
  then have "?ok d3" by (rule stage_children_controller_ok [OF _ s])
  then show "?ok d'" by (rule select_parent_wait_controller_ok [OF _ p])
qed

lemma commit_delegation_wave_cases:
  assumes "commit_delegation_wave env probe deps fx au rq d = Inr (r, d')"
  obtains cx targets ws ms where
    "read_delegation_context au d = Inr cx"
    "int (length rq) \<le> min (tk_max_wave_members (dc_task cx)) 8"
    "read_direct_targets au rq (tm_team_revision_id (dc_parent_selection cx)) d = Inr targets"
    "prepare_wave_members probe deps fx au targets cx ws (dd_now deps) d rq = Inr ms"
    "stage_delegation_wave env au (delegation_wave_id_of fx) (attempt_wait_id_of fx) ms (dd_now deps) d = Inr d'"
    "dr_members r = map (da_child_id \<circ> pw_authored) ms"
  using assms unfolding commit_delegation_wave_def require_wave_size_def
  by (elim and_then_InrE) (erule that; (assumption | force simp: result_simps))

lemma members_idle:
  assumes "prepare_wave_members probe deps fx au targets cx ws now d rq = Inr ms"
  shows "\<forall>m \<in> set ms. idle_work m"
  using prepare_wave_members_Inr [OF assms] prepared_from_idle by (metis in_set_conv_nth)

lemma commit_delegation_wave_controller_ok:
  assumes ok: "controller_ok (env_event_hash env) d"
    and "commit_delegation_wave env probe deps fx au rq d = Inr (r, d')"
  shows "controller_ok (env_event_hash env) d'"
  by (rule commit_delegation_wave_cases [OF assms(2)])
    (rule stage_delegation_wave_controller_ok [OF ok members_idle])

subsection \<open>The effect of a committed delegation\<close>

lemma select_parent_wait_Inr:
  assumes ok: "controller_ok H d" and sel: "select_parent_wait au wave wait now d = Inr d'"
  obtains a t ws where "a \<in> set (attempts d)" "at_attempt_id a = na_attempt_id au"
    "d' = d\<lparr>waits := ws, dispatches := replace_row t (close_dispatch_row now CDelegation t) (dispatches d),
       attempts := replace_row a (a\<lparr>at_current_dispatch_id := None, at_current_wait_id := Some wait\<rparr>)
         (attempts d)\<rparr>"
proof -
  obtain ws where sus: "suspend_current_attempt_on_wait (authority_identity au) wait
            (na_team_revision_id au) now CDelegation (d\<lparr>waits := ws\<rparr>) = Some d'"
    using sel unfolding select_parent_wait_def by (auto simp: result_simps)
  have "keyed at_attempt_id (attempts (d\<lparr>waits := ws\<rparr>))" "keyed dt_dispatch_id (dispatches (d\<lparr>waits := ws\<rparr>))"
    using lanes_ok_keys(1,2) [OF controller_ok_parts(1) [OF ok]] by simp_all
  then show thesis
    by (rule suspend_current_attempt_on_wait_Some [OF _ _ sus])
      (rule that; simp add: attempt_owned_by_def authority_identity_def)
qed

text \<open>Work of the parent: its Assignment pays for the children, its Attempt parks.\<close>

lemma stage_delegation_wave_effect:
  assumes ok: "controller_ok (env_event_hash env) d" and idle: "\<forall>m \<in> set ms. idle_work m"
    and au: "exact_node_operation_authority_exists au d"
    and st: "stage_delegation_wave env au wave wait ms now d = Inr d'"
  obtains s where
    "waves d' = waves d @ [new_wave_row au wave now]" "tasks d' = tasks d"
    "wave_members d' = wave_members d @
       map (\<lambda>(i, m). new_wave_member_row au wave i m) (List.enumerate 0 ms)"
    "s \<in> set (assignments d)" "consumable_assignment au (length ms) s"
    "assignments d' = replace_row s (s\<lparr>as_child_assignments_remaining :=
       map_option (\<lambda>k. k - int (length ms)) (as_child_assignments_remaining s)\<rparr>) (assignments d)
       @ map pw_assignment ms"
    "\<forall>m \<in> set ms. lane_runs (at_attempt_id (pw_attempt m)) (pr_dispatch_id (pw_dispatch m)) d'"
    "\<exists>a \<in> set (attempts d'). at_attempt_id a = na_attempt_id au \<and>
       at_current_dispatch_id a = None \<and> at_current_wait_id a = Some wait"
proof (rule stage_delegation_wave_cases [OF st])
  let ?ok = "controller_ok (env_event_hash env)"
  let ?dw = "d\<lparr>waves := waves d @ [new_wave_row au wave now]\<rparr>"
  fix fs d2 d3
  let ?d1 = "d\<lparr>waves := waves d @ [new_wave_row au wave now],
       assignments := assignments d @ map pw_assignment ms,
       attempts := attempts d @ map pw_attempt ms,
       wave_members := wave_members d @
         map (\<lambda>(i, m). new_wave_member_row au wave i m) (List.enumerate 0 ms),
       assignment_files := fs\<rparr>"
  assume w: "insert_wave (new_wave_row au wave now) (waves d) = Inr (waves d @ [new_wave_row au wave now])"
    and m: "fold_result (stage_wave_member au wave) (List.enumerate 0 ms) ?dw = Inr ?d1"
    and c: "consume_assignment_budget au (length ms) ?d1 = Inr d2"
    and st2: "fold_result (stage_child_dispatch env au) ms d2 = Inr d3"
    and p: "select_parent_wait au wave wait now d3 = Inr d'"
  have "lanes_ok ?dw" using controller_ok_parts(1) [OF ok] lanes_ok_frame [of ?dw d] by simp
  then have "?ok ?dw"
    by (rule controller_ok_waves [OF ok waves_ok_insert_wave [OF controller_ok_parts(2) [OF ok] w]])
      simp_all
  then have ok1: "?ok ?d1" by (rule stage_wave_members_controller_ok [OF _ idle m])
  then have ok2: "?ok d2" by (rule consume_assignment_budget_controller_ok [OF _ c])
  then have ok3: "?ok d3" by (rule stage_children_controller_ok [OF _ st2])
  have keyed1: "keyed as_assignment_id (assignments d @ map pw_assignment ms)"
    using assignments_keyed [OF ok1] by simp
  obtain s where s: "s \<in> set (assignments ?d1)" "consumable_assignment au (length ms) s"
    and d2: "d2 = ?d1\<lparr>assignments := replace_row s (s\<lparr>as_child_assignments_remaining :=
       map_option (\<lambda>k. k - int (length ms)) (as_child_assignments_remaining s)\<rparr>) (assignments ?d1)\<rparr>"
    by (rule consume_assignment_budget_Inr [OF assignments_keyed [OF ok1] c])
  obtain s0 where s0: "s0 \<in> set (assignments d)" "as_assignment_id s0 = na_assignment_id au"
    using au by (auto simp: exact_node_operation_authority_exists_def list_ex_iff)
  have "s = s0"
    by (rule keyed_unique [OF keyed1])
      (use s s0 in \<open>simp_all add: consumable_assignment_def\<close>)
  then have sd: "s \<in> set (assignments d)" using s0(1) by simp
  have s_new: "s \<notin> set (map pw_assignment ms)"
    using keyed1 sd unfolding keyed_def by auto
  have rep: "replace_row s x (assignments d @ map pw_assignment ms) =
      replace_row s x (assignments d) @ map pw_assignment ms" for x
    using s_new by (auto simp: replace_row_def intro: map_idI)
  obtain a0 where a0: "a0 \<in> set (attempts d)" "at_attempt_id a0 = na_attempt_id au"
    using au by (auto simp: exact_node_operation_authority_exists_def attempt_dispatch_is_current_def
        attempt_owned_by_def authority_identity_def list_ex_iff)
  have "distinct (map at_attempt_id (attempts d @ map pw_attempt ms))"
    using lanes_ok_keys(1) [OF controller_ok_parts(1) [OF ok1]] by (simp add: keyed_def)
  then have dist: "distinct (map (at_attempt_id \<circ> pw_attempt) ms)"
    and disj: "at_attempt_id ` set (attempts d) \<inter> (at_attempt_id \<circ> pw_attempt) ` set ms = {}"
    by (simp_all add: image_comp)
  have apart: "\<forall>m \<in> set ms. at_attempt_id (pw_attempt m) \<noteq> na_attempt_id au"
  proof
    fix m assume "m \<in> set ms"
    then have "at_attempt_id (pw_attempt m) \<notin> at_attempt_id ` set (attempts d)"
      using disj by (metis comp_apply disjoint_iff imageI)
    then show "at_attempt_id (pw_attempt m) \<noteq> na_attempt_id au" using a0 by (metis imageI)
  qed
  note F = stage_children_frame [OF st2]
  show thesis
  proof (rule select_parent_wait_Inr [OF ok3 p])
    fix a t ws
    assume a: "a \<in> set (attempts d3)" "at_attempt_id a = na_attempt_id au"
      and d': "d' = d3\<lparr>waits := ws, dispatches := replace_row t (close_dispatch_row now CDelegation t) (dispatches d3),
       attempts := replace_row a (a\<lparr>at_current_dispatch_id := None, at_current_wait_id := Some wait\<rparr>)
         (attempts d3)\<rparr>"
    have kept: "lane_runs (at_attempt_id (pw_attempt m)) (pr_dispatch_id (pw_dispatch m)) d'"
      if m_in: "m \<in> set ms" for m
    proof -
      obtain x where x: "x \<in> set (attempts d3)" "at_attempt_id x = at_attempt_id (pw_attempt m)"
          "at_status x = AttRunning" "at_current_dispatch_id x = Some (pr_dispatch_id (pw_dispatch m))"
        using stage_children_lanes_run [OF controller_ok_parts(1) [OF ok2] st2 dist m_in]
        by (auto simp: lane_runs_def)
      have "x \<noteq> a" using x(2) a(2) apart m_in by metis
      then show ?thesis unfolding lane_runs_def
        by (intro bexI [of _ x]) (use x a(1) in \<open>simp_all add: d' set_replace_row\<close>)
    qed
    have parked: "\<exists>a \<in> set (attempts d'). at_attempt_id a = na_attempt_id au \<and>
       at_current_dispatch_id a = None \<and> at_current_wait_id a = Some wait"
      by (intro bexI [of _ "a\<lparr>at_current_dispatch_id := None, at_current_wait_id := Some wait\<rparr>"])
        (simp_all add: d' set_replace_row [OF a(1)] a(2))
    have frame: "waves d' = waves d2" "tasks d' = tasks d2" "wave_members d' = wave_members d2"
        "assignments d' = assignments d2"
      using F by (simp_all add: d')
    show thesis
      by (rule that [of s])
        (simp_all add: frame d2 rep sd s(2) kept parked)
  qed
qed

lemma read_delegation_context_Inr:
  assumes "read_delegation_context au d = Inr cx"
  shows "dc_task cx \<in> set (tasks d)" "tk_task_id (dc_task cx) = na_task_id au"
    "tk_status (dc_task cx) = TaskRunning" "exact_node_operation_authority_exists au d"
    "tk_current_team_revision_id (dc_task cx) = Some (tm_team_revision_id (dc_parent_selection cx))"
    "dc_budget cx = (tk_max_child_assignments (dc_task cx), tk_max_retries (dc_task cx))"
  using assms unfolding read_delegation_context_def snapshot_assignment_budget_def
  by (auto simp: result_simps split: prod.splits if_splits dest!: find_Some_D)

lemma read_direct_targets_Inr:
  assumes "read_direct_targets au rq revision d = Inr targets" and "targets c = Some m"
  shows "m \<in> set (team_members d)" "tm_task_id m = na_task_id au" "tm_team_revision_id m = revision"
    "tm_parent_member_id m = Some (na_member_id au)" "tm_member_id m = c"
  using assms unfolding read_direct_targets_def
  by (auto simp: Let_def split: if_splits dest!: map_of_SomeD)

lemma commit_delegation_effect:
  assumes ok: "controller_ok (env_event_hash env) d"
    and cm: "commit_delegation_wave env probe deps fx au rq d = Inr (r, d')"
  obtains cx targets ms s where
    "read_delegation_context au d = Inr cx"
    "int (length rq) \<le> min (tk_max_wave_members (dc_task cx)) 8"
    "read_direct_targets au rq (tm_team_revision_id (dc_parent_selection cx)) d = Inr targets"
    "length ms = length rq"
    "\<And>i. i < length rq \<Longrightarrow> prepared_from au cx fx (dd_now deps) targets d i (rq ! i) (ms ! i)"
    "waves d' = waves d @ [new_wave_row au (delegation_wave_id_of fx) (dd_now deps)]"
    "wave_members d' = wave_members d @
       map (\<lambda>(i, m). new_wave_member_row au (delegation_wave_id_of fx) i m) (List.enumerate 0 ms)"
    "s \<in> set (assignments d)" "consumable_assignment au (length rq) s"
    "assignments d' = replace_row s (s\<lparr>as_child_assignments_remaining :=
       map_option (\<lambda>k. k - int (length rq)) (as_child_assignments_remaining s)\<rparr>) (assignments d)
       @ map pw_assignment ms"
    "\<forall>m \<in> set ms. lane_runs (at_attempt_id (pw_attempt m)) (pr_dispatch_id (pw_dispatch m)) d'"
    "\<exists>a \<in> set (attempts d'). at_attempt_id a = na_attempt_id au \<and>
       at_current_dispatch_id a = None \<and> at_current_wait_id a = Some (attempt_wait_id_of fx)"
proof (rule commit_delegation_wave_cases [OF cm])
  fix cx targets ws ms
  assume c: "read_delegation_context au d = Inr cx"
    and n: "int (length rq) \<le> min (tk_max_wave_members (dc_task cx)) 8"
    and t: "read_direct_targets au rq (tm_team_revision_id (dc_parent_selection cx)) d = Inr targets"
    and p: "prepare_wave_members probe deps fx au targets cx ws (dd_now deps) d rq = Inr ms"
    and st: "stage_delegation_wave env au (delegation_wave_id_of fx) (attempt_wait_id_of fx) ms (dd_now deps) d = Inr d'"
  note P = prepare_wave_members_Inr [OF p]
  show thesis
    by (rule stage_delegation_wave_effect [OF ok members_idle [OF p]
          read_delegation_context_Inr(4) [OF c] st])
      (rule that [OF c n t P]; simp add: P(1))
qed

subsection \<open>Properties\<close>

text \<open>
  C18. A committed delegation stages the whole Wave at once: one open Wave, with one pending
  member for each requested child in the order of the request, each with its own open child
  Assignment of the caller carrying the authored prompt, whose Attempt runs on its own new
  Dispatch; and the caller's Attempt is parked, without a Dispatch, on the Wave's wait.
\<close>

theorem delegation_commits_whole_wave:
  assumes "controller_ok (env_event_hash env) d"
    and "commit_delegation_wave env probe deps fx au rq d = Inr (r, d')"
  shows "waves d' = waves d @ [new_wave_row au (delegation_wave_id_of fx) (dd_now deps)] \<and>
    (\<exists>new. wave_members d' = wave_members d @ new \<and> length new = length rq \<and>
      (\<forall>i < length rq. dm_delegation_wave_id (new ! i) = delegation_wave_id_of fx \<and>
         dm_order_index (new ! i) = i \<and> dm_status (new ! i) = MemberPending \<and>
         dm_child_member_id (new ! i) = da_child_id (rq ! i) \<and>
         (\<exists>s \<in> set (assignments d'). as_assignment_id s = dm_child_assignment_id (new ! i) \<and>
            as_member_id s = da_child_id (rq ! i) \<and> as_prompt s = da_prompt (rq ! i) \<and>
            as_parent_assignment_id s = Some (na_assignment_id au) \<and> as_closed_at s = None \<and>
            (\<exists>attempt. as_current_attempt_id s = Some attempt \<and>
               lane_runs attempt (''dispatch.'' @ dx_dispatch_hex fx i) d')))) \<and>
    (\<exists>a \<in> set (attempts d'). at_attempt_id a = na_attempt_id au \<and>
       at_current_dispatch_id a = None \<and> at_current_wait_id a = Some (attempt_wait_id_of fx))"
proof (rule commit_delegation_effect [OF assms])
  fix cx targets ms s
  assume T: "read_direct_targets au rq (tm_team_revision_id (dc_parent_selection cx)) d = Inr targets"
    and len: "length ms = length rq"
    and P: "\<And>i. i < length rq \<Longrightarrow> prepared_from au cx fx (dd_now deps) targets d i (rq ! i) (ms ! i)"
    and W: "waves d' = waves d @ [new_wave_row au (delegation_wave_id_of fx) (dd_now deps)]"
    and M: "wave_members d' = wave_members d @
       map (\<lambda>(i, m). new_wave_member_row au (delegation_wave_id_of fx) i m) (List.enumerate 0 ms)"
    and A: "assignments d' = replace_row s (s\<lparr>as_child_assignments_remaining :=
       map_option (\<lambda>k. k - int (length rq)) (as_child_assignments_remaining s)\<rparr>) (assignments d)
       @ map pw_assignment ms"
    and L: "\<forall>m \<in> set ms. lane_runs (at_attempt_id (pw_attempt m)) (pr_dispatch_id (pw_dispatch m)) d'"
    and K: "\<exists>a \<in> set (attempts d'). at_attempt_id a = na_attempt_id au \<and>
       at_current_dispatch_id a = None \<and> at_current_wait_id a = Some (attempt_wait_id_of fx)"
  let ?new = "map (\<lambda>(i, m). new_wave_member_row au (delegation_wave_id_of fx) i m) (List.enumerate 0 ms)"
  have row: "?new ! i = new_wave_member_row au (delegation_wave_id_of fx) i (ms ! i)" if "i < length rq" for i
    using that len by (simp add: nth_enumerate_eq)
  have work: "pw_assignment (ms ! i) \<in> set (assignments d') \<and>
      as_member_id (pw_assignment (ms ! i)) = da_child_id (rq ! i) \<and>
      tm_member_id (pw_target (ms ! i)) = da_child_id (rq ! i) \<and>
      as_prompt (pw_assignment (ms ! i)) = da_prompt (rq ! i) \<and>
      as_parent_assignment_id (pw_assignment (ms ! i)) = Some (na_assignment_id au) \<and>
      as_closed_at (pw_assignment (ms ! i)) = None \<and>
      as_current_attempt_id (pw_assignment (ms ! i)) = Some (at_attempt_id (pw_attempt (ms ! i))) \<and>
      lane_runs (at_attempt_id (pw_attempt (ms ! i))) (''dispatch.'' @ dx_dispatch_hex fx i) d'"
    if i: "i < length rq" for i
  proof -
    have m: "ms ! i \<in> set ms" using i len by simp
    have f: "targets (da_child_id (rq ! i)) = Some (pw_target (ms ! i))"
      and w: "new_child_work au (rq ! i) (pw_target (ms ! i)) (dc_budget cx) (dd_now deps) (dx_work_hex fx i) =
        (pw_assignment (ms ! i), pw_attempt (ms ! i))"
      and q: "pr_dispatch_id (pw_dispatch (ms ! i)) = ''dispatch.'' @ dx_dispatch_hex fx i"
      using P [OF i] by (simp_all add: prepared_from_def)
    have "lane_runs (at_attempt_id (pw_attempt (ms ! i))) (''dispatch.'' @ dx_dispatch_hex fx i) d'"
      using bspec [OF L m] unfolding q .
    then show ?thesis
      using new_child_work_simps [OF w] read_direct_targets_Inr(5) [OF T f] m by (simp add: A)
  qed
  have fields: "dm_delegation_wave_id (?new ! i) = delegation_wave_id_of fx"
      "dm_order_index (?new ! i) = i" "dm_status (?new ! i) = MemberPending"
      "dm_child_member_id (?new ! i) = da_child_id (rq ! i)"
    if i: "i < length rq" for i
    unfolding row [OF i] using work [OF i] by (simp_all add: new_wave_member_row_def)
  show ?thesis
  proof (intro conjI exI [of _ ?new] allI impI)
    fix i assume i: "i < length rq"
    show "\<exists>s \<in> set (assignments d'). as_assignment_id s = dm_child_assignment_id (?new ! i) \<and>
            as_member_id s = da_child_id (rq ! i) \<and> as_prompt s = da_prompt (rq ! i) \<and>
            as_parent_assignment_id s = Some (na_assignment_id au) \<and> as_closed_at s = None \<and>
            (\<exists>attempt. as_current_attempt_id s = Some attempt \<and>
               lane_runs attempt (''dispatch.'' @ dx_dispatch_hex fx i) d')"
      using work [OF i] unfolding row [OF i]
      by (intro bexI [of _ "pw_assignment (ms ! i)"]) (simp_all add: new_wave_member_row_def)
  qed (simp_all only: W M K len fields length_map length_enumerate)
qed

text \<open>
  C19. A committed delegation reaches only current direct children of the caller without open
  work: each requested child is selected by the Task's current Team revision under the
  caller, none of its Assignments of this Task is open, and the caller holds exact authority.
\<close>

theorem delegation_targets_free_children:
  assumes "controller_ok (env_event_hash env) d"
    and "commit_delegation_wave env probe deps fx au rq d = Inr (r, d')" and "c \<in> set rq"
  shows "exact_node_operation_authority_exists au d \<and>
    (\<exists>t \<in> set (tasks d). \<exists>m \<in> set (team_members d). tk_task_id t = na_task_id au \<and>
       tk_status t = TaskRunning \<and> tm_task_id m = na_task_id au \<and>
       tk_current_team_revision_id t = Some (tm_team_revision_id m) \<and>
       tm_parent_member_id m = Some (na_member_id au) \<and> tm_member_id m = da_child_id c) \<and>
    (\<forall>s \<in> set (assignments d). as_task_id s = na_task_id au \<and> as_member_id s = da_child_id c \<longrightarrow>
       as_terminal_outcome s \<noteq> None)"
proof (rule commit_delegation_effect [OF assms(1,2)])
  fix cx targets ms
  assume C: "read_delegation_context au d = Inr cx"
    and T: "read_direct_targets au rq (tm_team_revision_id (dc_parent_selection cx)) d = Inr targets"
    and P: "\<And>i. i < length rq \<Longrightarrow> prepared_from au cx fx (dd_now deps) targets d i (rq ! i) (ms ! i)"
  obtain i where i: "i < length rq" "rq ! i = c" using assms(3) by (auto simp: in_set_conv_nth)
  have f: "targets (da_child_id c) = Some (pw_target (ms ! i))"
    and a: "require_available_child au (pw_target (ms ! i)) d = Inr ()"
    using P [OF i(1)] i(2) by (simp_all add: prepared_from_def)
  note X = read_delegation_context_Inr [OF C]
  note Y = read_direct_targets_Inr [OF T f]
  have "\<exists>t \<in> set (tasks d). \<exists>m \<in> set (team_members d). tk_task_id t = na_task_id au \<and>
       tk_status t = TaskRunning \<and> tm_task_id m = na_task_id au \<and>
       tk_current_team_revision_id t = Some (tm_team_revision_id m) \<and>
       tm_parent_member_id m = Some (na_member_id au) \<and> tm_member_id m = da_child_id c"
    by (rule bexI [OF _ X(1)], rule bexI [OF _ Y(1)]) (simp add: X Y)
  moreover have "\<forall>s \<in> set (assignments d). as_task_id s = na_task_id au \<and> as_member_id s = da_child_id c \<longrightarrow>
       as_terminal_outcome s \<noteq> None"
    using a Y(5) by (auto simp: require_available_child_def require_that_Inr_iff list_ex_iff)
  ultimately show ?thesis using X(4) by blast
qed

text \<open>
  C20. A committed delegation stays within its bounds: no more children than the Task's Wave
  limit and eight, and one unit of the caller's child-Assignment budget for each, which was
  there before and does not go below zero.
\<close>

theorem delegation_spends_budget:
  assumes "controller_ok (env_event_hash env) d"
    and "commit_delegation_wave env probe deps fx au rq d = Inr (r, d')"
  shows "length rq \<le> 8 \<and>
    (\<exists>t \<in> set (tasks d). tk_task_id t = na_task_id au \<and> int (length rq) \<le> tk_max_wave_members t) \<and>
    (\<exists>s \<in> set (assignments d). \<exists>s' \<in> set (assignments d'). as_assignment_id s = na_assignment_id au \<and>
       s' = s\<lparr>as_child_assignments_remaining :=
         map_option (\<lambda>k. k - int (length rq)) (as_child_assignments_remaining s)\<rparr> \<and>
       (\<forall>k. as_child_assignments_remaining s = Some k \<longrightarrow> 0 \<le> k - int (length rq)))"
proof (rule commit_delegation_effect [OF assms])
  fix cx targets ms s
  assume C: "read_delegation_context au d = Inr cx"
    and n: "int (length rq) \<le> min (tk_max_wave_members (dc_task cx)) 8"
    and s: "s \<in> set (assignments d)" "consumable_assignment au (length rq) s"
    and A: "assignments d' = replace_row s (s\<lparr>as_child_assignments_remaining :=
       map_option (\<lambda>k. k - int (length rq)) (as_child_assignments_remaining s)\<rparr>) (assignments d)
       @ map pw_assignment ms"
  let ?s = "s\<lparr>as_child_assignments_remaining :=
         map_option (\<lambda>k. k - int (length rq)) (as_child_assignments_remaining s)\<rparr>"
  have "?s \<in> set (assignments d')" using s(1) by (simp add: A set_replace_row)
  moreover have "as_assignment_id s = na_assignment_id au"
      "\<forall>k. as_child_assignments_remaining s = Some k \<longrightarrow> 0 \<le> k - int (length rq)"
    using s(2) by (auto simp: consumable_assignment_def)
  ultimately have "\<exists>s \<in> set (assignments d). \<exists>s' \<in> set (assignments d'). as_assignment_id s = na_assignment_id au \<and>
       s' = s\<lparr>as_child_assignments_remaining :=
         map_option (\<lambda>k. k - int (length rq)) (as_child_assignments_remaining s)\<rparr> \<and>
       (\<forall>k. as_child_assignments_remaining s = Some k \<longrightarrow> 0 \<le> k - int (length rq))"
    using s(1) by blast
  then show ?thesis using n read_delegation_context_Inr(1,2) [OF C] by auto
qed

end
