(* ===== verification/DelegationWitnesses.thy ===== *)
theory DelegationWitnesses
  imports Samples DelegationProofs
begin

text \<open>
  The delegation properties at a concrete state: the lead of \<open>Samples\<close> delegates one
  Assignment to its direct child.
\<close>

definition sample_delegation_fresh :: delegation_fresh where
  "sample_delegation_fresh = \<lparr>dx_wave_hex = ''f1'', dx_wait_hex = ''f2'',
     dx_work_hex = (\<lambda>i. ''work''), dx_dispatch_hex = (\<lambda>i. ''disp'')\<rparr>"

definition sample_delegation_deps :: delegation_dependencies where
  "sample_delegation_deps = \<lparr>dd_render = (\<lambda>m s a fs cs d. Inr sample_prepared), dd_now = 200\<rparr>"

definition sample_authored :: delegated_assignment where
  "sample_authored = \<lparr>da_child_id = ''dev'', da_prompt = ''build'',
     da_files = [\<lparr>fr_path = ''notes.md'', fr_description = None\<rparr>]\<rparr>"

abbreviation sample_delegation :: "(delegate_success \<times> db) result" where
  "sample_delegation \<equiv> commit_delegation_wave sample_env sample_probe sample_delegation_deps
     sample_delegation_fresh sample_authority [sample_authored] sample_db"

lemma sample_delegation_commits: obtains r d' where "sample_delegation = Inr (r, d')"
proof -
  have "\<exists>x. sample_delegation = Inr x" by (rule isr_ex) code_simp
  then show thesis using that by auto
qed

lemma delegation_commits_whole_wave_witness:
  "\<exists>r d'. sample_delegation = Inr (r, d') \<and>
     (\<exists>a \<in> set (attempts d'). at_attempt_id a = ''at1'' \<and> at_current_dispatch_id a = None)"
proof (rule sample_delegation_commits)
  fix r d' assume cm: "sample_delegation = Inr (r, d')"
  from delegation_commits_whole_wave [OF sample_controller_ok cm] cm show ?thesis
    by (auto simp: sample_authority_def)
qed

lemma delegation_targets_free_children_witness:
  "\<exists>r d'. sample_delegation = Inr (r, d') \<and>
     exact_node_operation_authority_exists sample_authority sample_db"
proof (rule sample_delegation_commits)
  fix r d' assume cm: "sample_delegation = Inr (r, d')"
  have "sample_authored \<in> set [sample_authored]" by simp
  from delegation_targets_free_children [OF sample_controller_ok cm this] cm show ?thesis by blast
qed

lemma delegation_spends_budget_witness:
  "\<exists>r d'. sample_delegation = Inr (r, d') \<and>
     (\<exists>s \<in> set (assignments d'). as_child_assignments_remaining s = Some 2)"
proof (rule sample_delegation_commits)
  fix r d' assume cm: "sample_delegation = Inr (r, d')"
  from delegation_spends_budget [OF sample_controller_ok cm] obtain s s' where
    "s \<in> set (assignments sample_db)" "s' \<in> set (assignments d')"
    "s' = s\<lparr>as_child_assignments_remaining := map_option (\<lambda>k. k - int 1) (as_child_assignments_remaining s)\<rparr>"
    by auto
  then have "as_child_assignments_remaining s' = Some 2"
    by (simp add: sample_db_def sample_assignment_def)
  with cm \<open>s' \<in> set (assignments d')\<close> show ?thesis by blast
qed

end
