(* ===== verification/Texts.thy ===== *)
theory Texts
  imports Prelude
begin

text \<open>
  Text at the contract boundary: \<open>runtime/contracts/text.py\<close> and the paths of
  \<open>runtime/contracts/refs.py\<close>. A Python string is the list of its code points, so every
  Unicode text is a value; \<open>len\<close> counts code points and the byte limits are of the UTF-8
  encoding.
\<close>

subsection \<open>Accepted characters\<close>

definition is_xml_character :: "nat \<Rightarrow> bool" where
  "is_xml_character c \<longleftrightarrow> c \<in> {0x9, 0xA, 0xD} \<or> 0x20 \<le> c \<and> c \<le> 0xD7FF \<or>
     0xE000 \<le> c \<and> c \<le> 0xFFFD \<or> 0x10000 \<le> c \<and> c \<le> 0x10FFFF"

fun validate_xml_text :: "codepoints \<Rightarrow> unit result" where
  "validate_xml_text [] = Inr ()"
| "validate_xml_text (c # cs) =
     (if is_xml_character c then validate_xml_text cs
      else Inl (ValueError ''contains illegal text character''))"

text \<open>The length in bytes of a code point's UTF-8 encoding.\<close>

definition utf8_width :: "nat \<Rightarrow> nat" where
  "utf8_width c = (if c < 0x80 then 1 else if c < 0x800 then 2 else if c < 0x10000 then 3 else 4)"

definition utf8_length :: "codepoints \<Rightarrow> nat" where
  "utf8_length s = sum_list (map utf8_width s)"

text \<open>The white space that \<open>str.strip\<close> removes.\<close>

definition is_space :: "nat \<Rightarrow> bool" where
  "is_space c \<longleftrightarrow> 0x9 \<le> c \<and> c \<le> 0xD \<or> 0x1C \<le> c \<and> c \<le> 0x20 \<or> c \<in> {0x85, 0xA0, 0x1680} \<or>
     0x2000 \<le> c \<and> c \<le> 0x200A \<or> c \<in> {0x2028, 0x2029, 0x202F, 0x205F, 0x3000}"

definition strip :: "codepoints \<Rightarrow> codepoints" where
  "strip s = List.rev (dropWhile is_space (List.rev (dropWhile is_space s)))"

subsection \<open>Normalisation\<close>

text \<open>\<open>value.replace(CR LF, LF)\<close>, then \<open>.replace(CR, LF)\<close>.\<close>

fun replace_crlf :: "codepoints \<Rightarrow> codepoints" where
  "replace_crlf (c # e # cs) =
     (if c = 0xD \<and> e = 0xA then 0xA # replace_crlf cs else c # replace_crlf (e # cs))"
| "replace_crlf cs = cs"

definition replace_cr :: "codepoints \<Rightarrow> codepoints" where
  "replace_cr s = map (\<lambda>c. if c = 0xD then 0xA else c) s"

definition normalize_exact_text :: "nat option \<Rightarrow> bool \<Rightarrow> codepoints \<Rightarrow> codepoints result" where
  "normalize_exact_text max_utf8_bytes nonblank s =
     and_then (validate_xml_text s) (\<lambda>_.
       let normalized = replace_cr (replace_crlf s) in
       if nonblank \<and> strip normalized = [] then Inl (ValueError ''must not be blank'')
       else (case max_utf8_bytes of
           None \<Rightarrow> Inr normalized
         | Some limit \<Rightarrow> if limit < utf8_length normalized
             then Inl (ValueError ''exceeds the controller text limit'') else Inr normalized))"

definition normalize_optional_text :: "nat \<Rightarrow> codepoints option \<Rightarrow> codepoints option result" where
  "normalize_optional_text max_characters v =
     (case v of
        None \<Rightarrow> Inr None
      | Some s \<Rightarrow> and_then (normalize_exact_text None False s) (\<lambda>normalized.
          if strip normalized = [] then Inr None
          else if max_characters < length normalized
          then Inl (ValueError ''exceeds the controller text limit'')
          else Inr (Some normalized)))"

subsection \<open>File reference paths\<close>

text \<open>Splitting at a separator, and the components a \<open>PurePosixPath\<close> keeps.\<close>

fun split_at :: "nat \<Rightarrow> codepoints \<Rightarrow> codepoints list" where
  "split_at sep [] = [[]]"
| "split_at sep (c # cs) =
     (if c = sep then [] # split_at sep cs
      else (case split_at sep cs of [] \<Rightarrow> [[c]] | p # ps \<Rightarrow> (c # p) # ps))"

fun join_with :: "nat \<Rightarrow> codepoints list \<Rightarrow> codepoints" where
  "join_with sep [] = []"
| "join_with sep [p] = p"
| "join_with sep (p # ps) = p @ sep # join_with sep ps"

definition path_parts :: "codepoints \<Rightarrow> codepoints list" where
  "path_parts s = filter (\<lambda>p. p \<noteq> [] \<and> p \<noteq> [0x2E]) (split_at 0x2F s)"

definition path_text :: "codepoints list \<Rightarrow> codepoints" where
  "path_text ps = (if ps = [] then [0x2E] else join_with 0x2F ps)"

definition normalize_path :: "codepoints \<Rightarrow> codepoints result" where
  "normalize_path v =
     and_then (normalize_exact_text (Some 4096) False v) (\<lambda>s.
       if s = [] \<or> 0x5C \<in> set s \<or> List.hd s = 0x2F \<or> set s \<inter> {0x2A, 0x3F, 0x5B, 0x5D} \<noteq> {}
       then Inl (ValueError ''file reference path must be a workspace-relative regular-file path'')
       else if [0x2E, 0x2E] \<in> set (split_at 0x2F s)
       then Inl (ValueError ''file reference path must not contain parent components'')
       else let normalized = path_text (path_parts s) in
         if normalized = [] \<or> normalized = [0x2E]
         then Inl (ValueError ''file reference path must name a file'')
         else if 0x3A \<in> set (List.hd (path_parts normalized))
         then Inl (ValueError ''file reference path must not use a drive or URI scheme'')
         else Inr normalized)"

subsection \<open>Line endings\<close>

text \<open>The reference: one pass over the text that ends every line with one LF.\<close>

fun lines_from :: "bool \<Rightarrow> codepoints \<Rightarrow> codepoints" where
  "lines_from after_cr [] = []"
| "lines_from after_cr (c # cs) =
     (if c = 0xD then 0xA # lines_from True cs
      else if after_cr \<and> c = 0xA then lines_from False cs
      else c # lines_from False cs)"

definition unix_lines :: "codepoints \<Rightarrow> codepoints" where
  "unix_lines s = lines_from False s"

lemma lines_from_after_cr:
  "lines_from True s = lines_from False (case s of [] \<Rightarrow> [] | c # cs \<Rightarrow> if c = 0xA then cs else s)"
  by (cases s) auto

lemma replace_lines: "replace_cr (replace_crlf s) = unix_lines s"
proof (induction s rule: replace_crlf.induct)
  case (1 c e cs)
  then show ?case
    by (auto simp: replace_cr_def unix_lines_def lines_from_after_cr simp del: lines_from.simps(2)
        simp: lines_from.simps(2) [of _ c] lines_from.simps(2) [of _ e])
qed (simp_all add: replace_cr_def unix_lines_def)

lemma cr_notin_unix_lines: "0xD \<notin> set (unix_lines s)"
  by (auto simp flip: replace_lines simp: replace_cr_def)

lemma unix_lines_id: "0xD \<notin> set s \<Longrightarrow> unix_lines s = s"
  unfolding unix_lines_def by (induction s) auto

lemma xml_replace_crlf: "\<forall>c \<in> set s. is_xml_character c \<Longrightarrow> \<forall>c \<in> set (replace_crlf s). is_xml_character c"
  by (induction s rule: replace_crlf.induct) auto

lemma xml_unix_lines: "\<forall>c \<in> set s. is_xml_character c \<Longrightarrow> \<forall>c \<in> set (unix_lines s). is_xml_character c"
  using xml_replace_crlf [of s] by (auto simp: replace_cr_def is_xml_character_def simp flip: replace_lines)

lemma validate_xml_text_iff [result_simps]:
  "validate_xml_text s = Inr u \<longleftrightarrow> (\<forall>c \<in> set s. is_xml_character c)"
  by (induction s) auto

lemma normalize_exact_text_Inr [result_simps]:
  "normalize_exact_text limit nonblank s = Inr t \<longleftrightarrow>
     (\<forall>c \<in> set s. is_xml_character c) \<and> t = unix_lines s \<and>
     (nonblank \<longrightarrow> strip t \<noteq> []) \<and> (\<forall>n. limit = Some n \<longrightarrow> utf8_length t \<le> n)"
  unfolding normalize_exact_text_def Let_def replace_lines
  by (auto simp: result_simps split: option.splits if_splits)

lemma exact_text_xml_cr:
  assumes "normalize_exact_text limit nonblank s = Inr t"
  shows "\<forall>c \<in> set t. is_xml_character c" "0xD \<notin> set t"
  using assms xml_unix_lines cr_notin_unix_lines by (auto simp: normalize_exact_text_Inr)

text \<open>An accepted text is accepted again, unchanged.\<close>

lemma normalize_exact_text_again:
  "normalize_exact_text limit nonblank s = Inr t \<Longrightarrow> normalize_exact_text limit nonblank t = Inr t"
  using exact_text_xml_cr [of limit nonblank s t] by (auto simp: normalize_exact_text_Inr unix_lines_id)

lemma strip_Nil_iff: "strip s = [] \<longleftrightarrow> (\<forall>c \<in> set s. is_space c)"
  unfolding strip_def by (auto simp: dropWhile_eq_Nil_conv dest: set_dropWhileD)
    (metis Un_iff set_append set_takeWhileD takeWhile_dropWhile_id)

subsection \<open>Path components\<close>

lemma split_at_ne [simp]: "split_at sep s \<noteq> []"
  by (induction s) (auto split: list.splits)

lemma split_at_edges: "[] \<notin> set (split_at sep s) \<Longrightarrow> s \<noteq> [] \<and> List.hd s \<noteq> sep"
  by (cases s) auto

lemma split_at_sep: "p \<in> set (split_at sep s) \<Longrightarrow> sep \<notin> set p"
  by (induction s arbitrary: p) (auto split: list.splits if_splits)

lemma split_at_chars: "p \<in> set (split_at sep s) \<Longrightarrow> c \<in> set p \<Longrightarrow> c \<in> set s"
proof (induction s arbitrary: p)
  case (Cons a s)
  then show ?case
    by (cases "split_at sep s") (force split: if_splits)+
qed simp

lemma split_at_prefix: "sep \<notin> set p \<Longrightarrow> split_at sep (p @ sep # s) = p # split_at sep s"
  by (induction p) auto

lemma split_at_whole: "sep \<notin> set p \<Longrightarrow> split_at sep p = [p]"
  by (induction p) auto

lemma split_join:
  "ps \<noteq> [] \<Longrightarrow> \<forall>p \<in> set ps. sep \<notin> set p \<Longrightarrow> split_at sep (join_with sep ps) = ps"
  by (induction sep ps rule: join_with.induct) (auto simp: split_at_prefix split_at_whole)

lemma join_with_chars: "c \<in> set (join_with sep ps) \<Longrightarrow> c = sep \<or> (\<exists>p \<in> set ps. c \<in> set p)"
  by (induction sep ps rule: join_with.induct) auto

lemma path_parts_text:
  assumes "\<forall>p \<in> set ps. 0x2F \<notin> set p \<and> p \<noteq> [] \<and> p \<noteq> [0x2E]"
  shows "path_parts (path_text ps) = ps"
proof (cases "ps = []")
  case True
  then show ?thesis by (simp add: path_parts_def path_text_def)
next
  case False
  then have "split_at 0x2F (path_text ps) = ps"
    using assms by (simp add: path_text_def split_join)
  then show ?thesis using assms by (simp add: path_parts_def)
qed

lemma path_parts_ok: "p \<in> set (path_parts s) \<Longrightarrow> 0x2F \<notin> set p \<and> p \<noteq> [] \<and> p \<noteq> [0x2E]"
  by (auto simp: path_parts_def dest: split_at_sep)

lemma path_parts_split: "p \<in> set (path_parts s) \<Longrightarrow> p \<in> set (split_at 0x2F s)"
  by (simp add: path_parts_def)

lemma path_parts_again: "path_parts (path_text (path_parts s)) = path_parts s"
  by (rule path_parts_text) (use path_parts_ok in blast)

lemma path_text_empty: "path_text (path_parts s) \<in> {[], [0x2E]} \<longleftrightarrow> path_parts s = []"
proof (cases "path_parts s")
  case (Cons p ps)
  have "p \<noteq> []" "p \<noteq> [0x2E]" using path_parts_ok [of p s] by (simp_all add: Cons)
  then show ?thesis by (cases ps) (auto simp: path_text_def Cons append_eq_Cons_conv)
qed (simp add: path_text_def)

lemma parent_part_iff: "[0x2E, 0x2E] \<in> set (split_at 0x2F s) \<longleftrightarrow> [0x2E, 0x2E] \<in> set (path_parts s)"
  by (simp add: path_parts_def)

text \<open>The paths that are accepted, in terms of their text with unix line ends.\<close>

lemma normalize_path_iff:
  "normalize_path v = Inr t \<longleftrightarrow>
     (\<forall>c \<in> set v. is_xml_character c) \<and> utf8_length (unix_lines v) \<le> 4096 \<and>
     set (unix_lines v) \<inter> {0x2A, 0x3F, 0x5B, 0x5C, 0x5D} = {} \<and>
     path_parts (unix_lines v) \<noteq> [] \<and> List.hd (unix_lines v) \<noteq> 0x2F \<and>
     [0x2E, 0x2E] \<notin> set (path_parts (unix_lines v)) \<and>
     0x3A \<notin> set (List.hd (path_parts (unix_lines v))) \<and>
     t = join_with 0x2F (path_parts (unix_lines v))"
proof -
  let ?s = "unix_lines v"
  have acc: "normalize_exact_text (Some 4096) False v = Inr s \<longleftrightarrow>
      (\<forall>c \<in> set v. is_xml_character c) \<and> s = ?s \<and> utf8_length ?s \<le> 4096" for s
    by (auto simp: normalize_exact_text_Inr)
  have nil: "path_parts s = []" if "s = []" for s :: codepoints using that by (simp add: path_parts_def)
  have e: "path_text (path_parts ?s) = [] \<or> path_text (path_parts ?s) = [0x2E] \<longleftrightarrow> path_parts ?s = []"
    using path_text_empty [of ?s] by simp
  show ?thesis
  proof (cases "path_parts ?s = []")
    case True
    then show ?thesis
      unfolding normalize_path_def and_then_Inr_iff acc Let_def by (auto simp: path_text_def split: if_splits)
  next
    case False
    then have ne: "?s \<noteq> []" and j: "path_text (path_parts ?s) = join_with 0x2F (path_parts ?s)"
      using nil [of ?s] by (blast, simp add: path_text_def)
    have e': "join_with 0x2F (path_parts ?s) \<noteq> []" "join_with 0x2F (path_parts ?s) \<noteq> [0x2E]"
      using e False unfolding j by blast+
    have again: "path_parts (join_with 0x2F (path_parts ?s)) = path_parts ?s"
      using path_parts_again [of ?s] by (simp only: j)
    show ?thesis
      unfolding normalize_path_def and_then_Inr_iff acc Let_def parent_part_iff
      using False ne e' again by (auto simp: j split: if_splits)
  qed
qed

lemma path_text_chars:
  assumes "c \<in> set (path_text (path_parts s))" and "path_parts s \<noteq> []"
  shows "c \<in> set s \<or> c = 0x2F"
proof -
  have "c \<in> set (join_with 0x2F (path_parts s))" using assms by (simp add: path_text_def)
  then have "c = 0x2F \<or> (\<exists>p \<in> set (path_parts s). c \<in> set p)" by (rule join_with_chars)
  then show ?thesis using split_at_chars path_parts_split by blast
qed

text \<open>Dropping components never makes a path longer.\<close>

lemma join_split: "join_with sep (split_at sep s) = s"
proof (induction s)
  case (Cons a s)
  obtain p ps where ps: "split_at sep s = p # ps" by (cases "split_at sep s") auto
  show ?case using Cons ps by (cases ps) auto
qed simp

lemma utf8_length_Cons [simp]: "utf8_length (c # s) = utf8_width c + utf8_length s"
  by (simp add: utf8_length_def)

lemma utf8_length_append [simp]: "utf8_length (s @ t) = utf8_length s + utf8_length t"
  by (simp add: utf8_length_def)

lemma utf8_length_Nil [simp]: "utf8_length [] = 0"
  by (simp add: utf8_length_def)

lemma join_with_Cons:
  "utf8_length (join_with sep (p # ps)) =
     utf8_length p + (if ps = [] then 0 else utf8_width sep + utf8_length (join_with sep ps))"
  by (cases ps) auto

lemma utf8_join_filter:
  "utf8_length (join_with sep (filter P ps)) \<le> utf8_length (join_with sep ps)"
proof (induction ps)
  case (Cons p ps)
  have "filter P ps = []" if "ps = []" using that by simp
  with Cons show ?case
    by (cases "P p") (auto simp: join_with_Cons simp del: join_with.simps(2,3))
qed simp

lemma utf8_path_text: "path_parts s \<noteq> [] \<Longrightarrow> utf8_length (path_text (path_parts s)) \<le> utf8_length s"
proof -
  assume "path_parts s \<noteq> []"
  moreover have "utf8_length (join_with 0x2F (path_parts s)) \<le> utf8_length (join_with 0x2F (split_at 0x2F s))"
    unfolding path_parts_def by (rule utf8_join_filter)
  ultimately show ?thesis by (simp add: path_text_def join_split)
qed

lemma unix_lines_path:
  assumes "normalize_path v = Inr t"
  shows "unix_lines t = t" and "path_parts t = path_parts (unix_lines v)"
    and "split_at 0x2F t = path_parts (unix_lines v)"
    and "c \<in> set t \<Longrightarrow> c \<in> set (unix_lines v) \<or> c = 0x2F"
    and "utf8_length t \<le> utf8_length (unix_lines v)"
proof -
  have ne: "path_parts (unix_lines v) \<noteq> []" and t: "t = path_text (path_parts (unix_lines v))"
    using assms by (simp_all add: normalize_path_iff path_text_def)
  show chars: "c \<in> set t \<Longrightarrow> c \<in> set (unix_lines v) \<or> c = 0x2F" for c
    using path_text_chars ne unfolding t by blast
  then have "0xD \<notin> set t" using cr_notin_unix_lines [of v] by fastforce
  then show "unix_lines t = t" by (rule unix_lines_id)
  show "path_parts t = path_parts (unix_lines v)" by (simp add: t path_parts_again)
  have "\<forall>p \<in> set (path_parts (unix_lines v)). 0x2F \<notin> set p" using path_parts_ok by blast
  then show "split_at 0x2F t = path_parts (unix_lines v)"
    using split_join [OF ne] ne by (simp add: t path_text_def)
  show "utf8_length t \<le> utf8_length (unix_lines v)" unfolding t by (rule utf8_path_text [OF ne])
qed

lemma normalize_exact_text_error:
  "normalize_exact_text limit nonblank s = Inl f \<Longrightarrow> \<exists>m. f = ValueError m"
proof -
  have v: "validate_xml_text s = Inl f \<Longrightarrow> \<exists>m. f = ValueError m" for f
    by (induction s) (auto split: if_splits)
  assume "normalize_exact_text limit nonblank s = Inl f"
  then show ?thesis
    using v unfolding normalize_exact_text_def Let_def
    by (cases "validate_xml_text s") (auto split: if_splits option.splits)
qed

lemma normalize_path_canonical:
  assumes "normalize_path v = Inr t"
  shows "t = join_with 0x2F (path_parts t) \<and> path_parts t \<noteq> [] \<and> List.hd t \<noteq> 0x2F \<and>
    (\<forall>p \<in> set (split_at 0x2F t). p \<noteq> [] \<and> p \<noteq> [0x2E] \<and> p \<noteq> [0x2E, 0x2E]) \<and>
    0x3A \<notin> set (List.hd (split_at 0x2F t)) \<and>
    set t \<inter> {0x2A, 0x3F, 0x5B, 0x5C, 0x5D} = {} \<and> utf8_length t \<le> 4096 \<and>
    normalize_path t = Inr t"
proof -
  note u = unix_lines_path [OF assms]
  note a = iffD1 [OF normalize_path_iff assms]
  have parts: "p \<noteq> []" "p \<noteq> [0x2E]" "p \<noteq> [0x2E, 0x2E]" if "p \<in> set (split_at 0x2F t)" for p
    using that a path_parts_ok [of p "unix_lines v"] unfolding u(3) by blast+
  have first: "List.hd t \<noteq> 0x2F" using split_at_edges [of "0x2F" t] parts(1) by blast
  have set_t: "set t \<inter> {0x2A, 0x3F, 0x5B, 0x5C, 0x5D} = {}" using a u(4) by fastforce
  have len: "utf8_length t \<le> 4096" using a u(5) by linarith
  have "\<forall>c \<in> set (unix_lines v). is_xml_character c" using a xml_unix_lines by blast
  moreover have "is_xml_character 0x2F" by (simp add: is_xml_character_def)
  ultimately have xml: "\<forall>c \<in> set t. is_xml_character c" using u(4) by fast
  have again: "normalize_path t = Inr t"
    unfolding normalize_path_iff u(1,2) using a first set_t len xml by (simp only: simp_thms)
  have "t = join_with 0x2F (path_parts t)" "path_parts t \<noteq> []" "0x3A \<notin> set (List.hd (split_at 0x2F t))"
    using a unfolding u(2,3) by simp_all
  moreover have "\<forall>p \<in> set (split_at 0x2F t). p \<noteq> [] \<and> p \<noteq> [0x2E] \<and> p \<noteq> [0x2E, 0x2E]" using parts by blast
  ultimately show ?thesis using first set_t len again by (intro conjI)
qed

subsection \<open>Properties\<close>

text \<open>
  C21. Exact text is accepted exactly in its bounds: every character is an XML character, it is
  not blank where that is required, and the limit covers the UTF-8 length of the result. The result
  is then the input with every line ending (CR LF, CR or LF) read in one pass and written as
  LF; it has no CR, and normalising it again with the same limits changes nothing. Any other text is
  refused with a ValueError.
\<close>

theorem exact_text_is_unix_lines:
  "if (\<forall>c \<in> set s. is_xml_character c) \<and> (nonblank \<longrightarrow> strip (unix_lines s) \<noteq> []) \<and>
      (case limit of None \<Rightarrow> True | Some n \<Rightarrow> utf8_length (unix_lines s) \<le> n)
   then normalize_exact_text limit nonblank s = Inr (unix_lines s) \<and> 0xD \<notin> set (unix_lines s) \<and>
     normalize_exact_text limit nonblank (unix_lines s) = Inr (unix_lines s)
   else \<exists>m. normalize_exact_text limit nonblank s = Inl (ValueError m)"
proof (cases "normalize_exact_text limit nonblank s")
  case (Inl f)
  then have "\<exists>m. f = ValueError m" by (rule normalize_exact_text_error)
  moreover have "normalize_exact_text limit nonblank s \<noteq> Inr (unix_lines s)" using Inl by simp
  ultimately show ?thesis
    using Inl unfolding normalize_exact_text_Inr by (auto split: option.splits)
next
  case (Inr t)
  then show ?thesis
    using normalize_exact_text_again [OF Inr] cr_notin_unix_lines
    by (auto simp: normalize_exact_text_Inr split: option.splits)
qed

text \<open>
  C22. A file reference path is accepted exactly if it consists of XML characters, takes at most
  4096 bytes, has no backslash and no glob character, does not start with a slash, has a component
  other than the single dot, no double dot, and no colon (a drive or a scheme) in its first
  component. The result lists these components separated by single slashes; it is a relative
  path with no empty, single-dot or double-dot component, no backslash, glob character or drive, and
  accepting it again returns it unchanged.
\<close>

theorem normalized_path_is_canonical:
  "(normalize_path v = Inr t \<longleftrightarrow>
     (\<forall>c \<in> set v. is_xml_character c) \<and> utf8_length (unix_lines v) \<le> 4096 \<and>
     set (unix_lines v) \<inter> {0x2A, 0x3F, 0x5B, 0x5C, 0x5D} = {} \<and>
     path_parts (unix_lines v) \<noteq> [] \<and> List.hd (unix_lines v) \<noteq> 0x2F \<and>
     [0x2E, 0x2E] \<notin> set (path_parts (unix_lines v)) \<and>
     0x3A \<notin> set (List.hd (path_parts (unix_lines v))) \<and>
     t = join_with 0x2F (path_parts (unix_lines v))) \<and>
   (normalize_path v = Inr t \<longrightarrow>
     t = join_with 0x2F (path_parts t) \<and> path_parts t \<noteq> [] \<and> List.hd t \<noteq> 0x2F \<and>
     (\<forall>p \<in> set (split_at 0x2F t). p \<noteq> [] \<and> p \<noteq> [0x2E] \<and> p \<noteq> [0x2E, 0x2E]) \<and>
     0x3A \<notin> set (List.hd (split_at 0x2F t)) \<and>
     set t \<inter> {0x2A, 0x3F, 0x5B, 0x5C, 0x5D} = {} \<and> utf8_length t \<le> 4096 \<and>
     normalize_path t = Inr t)"
  using normalize_path_iff [of v t] normalize_path_canonical [of v t] by blast

end
