(* ===== verification/HumanContracts.thy ===== *)
theory HumanContracts
  imports Texts TaskEvents
begin

text \<open>
  The Human Request contract: \<open>runtime/contracts/human_requests.py\<close> and
  \<open>runtime/human_request/records.py\<close>. Items, options, timeouts and answers as the validated
  values, their JSON form (\<open>model_dump(mode="json")\<close>) and its validation
  (\<open>model_validate\<close>), the bounds on structured values, and whether a set of answers
  resolves a request. Object fields are association lists with distinct keys.
  \<open>library\<close> holds what the third-party validators answer: pydantic's whitespace trimming and
  its reading of a boolean, and jsonschema's schema check and validation.
\<close>

record library =
  lib_trim :: "codepoints \<Rightarrow> codepoints"
  lib_bool :: "document \<Rightarrow> bool option"
  lib_check_schema :: "(codepoints \<times> document) list \<Rightarrow> bool"
  lib_schema_accepts :: "(codepoints \<times> document) list \<Rightarrow> document \<Rightarrow> bool"

text \<open>What the code relies on: a trimmed text is trimmed, and a boolean reads as itself.\<close>

definition library_ok :: "library \<Rightarrow> bool" where
  "library_ok lib \<longleftrightarrow> (\<forall>s. lib_trim lib (lib_trim lib s) = lib_trim lib s) \<and>
     (\<forall>b. lib_bool lib (JBool b) = Some b)"

definition chars :: "string \<Rightarrow> codepoints" where
  "chars s = map of_char s"

lemma chars_eq_iff [simp]: "chars s = chars t \<longleftrightarrow> s = t"
  unfolding chars_def by (rule inj_map_eq_map) (simp add: inj_of_char)

subsection \<open>Bounded structured values\<close>

text \<open>The compact text of \<open>json.dumps(..., ensure_ascii=False, separators=(",", ":"))\<close>.\<close>

definition escape_character :: "nat \<Rightarrow> codepoints" where
  "escape_character c =
     (if c = 0x22 then chars [CHR 0x5C, CHR 0x22] else if c = 0x5C then chars [CHR 0x5C, CHR 0x5C]
      else if c = 0xA then chars [CHR 0x5C, CHR ''n''] else if c = 0xD then chars [CHR 0x5C, CHR ''r'']
      else if c = 0x9 then chars [CHR 0x5C, CHR ''t''] else if c = 0xC then chars [CHR 0x5C, CHR ''f'']
      else if c = 0x8 then chars [CHR 0x5C, CHR ''b'']
      else if c < 0x20 then chars ([CHR 0x5C] @ ''u00'' @ (if c < 16 then ''0'' else ''1'') @
        [''0123456789abcdef'' ! (c mod 16)])
      else [c])"

definition json_text :: "codepoints \<Rightarrow> codepoints" where
  "json_text s = [0x22] @ concat (map escape_character s) @ [0x22]"

definition json_integer :: "int \<Rightarrow> codepoints" where
  "json_integer i = (if i < 0 then [0x2D] else []) @ chars (decimal (nat \<bar>i\<bar>))"

fun json_dumps :: "document \<Rightarrow> codepoints"
  and json_elements :: "document list \<Rightarrow> codepoints list"
  and json_members :: "(codepoints \<times> document) list \<Rightarrow> codepoints list" where
  "json_dumps JNull = chars ''null''"
| "json_dumps (JBool b) = chars (if b then ''true'' else ''false'')"
| "json_dumps (JInt i) = json_integer i"
| "json_dumps (JStr s) = json_text s"
| "json_dumps (JArr xs) = [0x5B] @ join_with 0x2C (json_elements xs) @ [0x5D]"
| "json_dumps (JObj kvs) = [0x7B] @ join_with 0x2C (json_members kvs) @ [0x7D]"
| "json_elements [] = []"
| "json_elements (x # xs) = json_dumps x # json_elements xs"
| "json_members [] = []"
| "json_members ((k, x) # kvs) = (json_text k @ [0x3A] @ json_dumps x) # json_members kvs"

text \<open>The nested \<open>visit\<close>: the count of collections is the state it threads.\<close>

definition collection_limit :: "nat \<Rightarrow> nat result" where
  "collection_limit n = (if 1024 < n then Inl (ValueError ''exceeds the controller collection limit'') else Inr n)"

definition too_deep :: failure where
  "too_deep = ValueError ''exceeds the controller depth limit''"

fun visit_value :: "nat \<Rightarrow> document \<Rightarrow> nat \<Rightarrow> nat result"
  and visit_elements :: "nat \<Rightarrow> document list \<Rightarrow> nat \<Rightarrow> nat result"
  and visit_members :: "nat \<Rightarrow> (codepoints \<times> document) list \<Rightarrow> nat \<Rightarrow> nat result" where
  "visit_value depth (JObj kvs) n = (if 16 < depth then Inl too_deep
     else and_then (visit_members (depth + 1) kvs (n + 1)) collection_limit)"
| "visit_value depth (JArr xs) n = (if 16 < depth then Inl too_deep
     else and_then (visit_elements (depth + 1) xs (n + 1)) collection_limit)"
| "visit_value depth JNull n = (if 16 < depth then Inl too_deep else collection_limit n)"
| "visit_value depth (JBool b) n = (if 16 < depth then Inl too_deep else collection_limit n)"
| "visit_value depth (JInt i) n = (if 16 < depth then Inl too_deep else collection_limit n)"
| "visit_value depth (JStr s) n = (if 16 < depth then Inl too_deep else collection_limit n)"
| "visit_elements depth [] n = Inr n"
| "visit_elements depth (x # xs) n =
     and_then (visit_value depth x n) (visit_elements depth xs)"
| "visit_members depth [] n = Inr n"
| "visit_members depth ((k, x) # kvs) n =
     and_then (visit_value depth x n) (visit_members depth kvs)"

definition is_surrogate :: "nat \<Rightarrow> bool" where
  "is_surrogate c \<longleftrightarrow> 0xD800 \<le> c \<and> c \<le> 0xDFFF"

definition validate_bounded_json_value :: "document \<Rightarrow> unit result" where
  "validate_bounded_json_value v =
     (let encoded = json_dumps v in
      if list_ex is_surrogate encoded then Inl (ValueError ''surrogates not allowed'')
      else if 64 * 1024 < utf8_length encoded then Inl (ValueError ''exceeds the controller byte limit'')
      else and_then (visit_value 1 v 0) (\<lambda>_. Inr ()))"

subsection \<open>Response schemas\<close>

definition field :: "string \<Rightarrow> (codepoints \<times> document) list \<Rightarrow> document option" where
  "field k kvs = map_of kvs (chars k)"

definition allowed_schema_formats :: "string list" where
  "allowed_schema_formats = [''date'', ''date-time'', ''email'', ''time'', ''uri'', ''uuid'']"

definition schema_object_ok :: "(codepoints \<times> document) list \<Rightarrow> unit result" where
  "schema_object_ok kvs =
     (if (case field ''$ref'' kvs of Some (JStr r) \<Rightarrow> take 1 r \<noteq> chars ''#'' | _ \<Rightarrow> False)
      then Inl (ValueError ''human request response_schema forbids remote references'')
      else if field ''$dynamicRef'' kvs \<noteq> None \<and> field ''$dynamicRef'' kvs \<noteq> Some JNull
      then Inl (ValueError ''human request response_schema forbids dynamic references'')
      else if (case field ''format'' kvs of
          Some (JStr f) \<Rightarrow> f \<notin> set (map chars allowed_schema_formats) | _ \<Rightarrow> False)
      then Inl (ValueError ''human request response_schema uses an unsupported format'')
      else Inr ())"

fun visit_schema :: "document \<Rightarrow> unit result"
  and visit_schema_elements :: "document list \<Rightarrow> unit result"
  and visit_schema_members :: "(codepoints \<times> document) list \<Rightarrow> unit result" where
  "visit_schema (JObj kvs) = and_then (schema_object_ok kvs) (\<lambda>_. visit_schema_members kvs)"
| "visit_schema (JArr xs) = visit_schema_elements xs"
| "visit_schema JNull = Inr ()"
| "visit_schema (JBool b) = Inr ()"
| "visit_schema (JInt i) = Inr ()"
| "visit_schema (JStr s) = Inr ()"
| "visit_schema_elements [] = Inr ()"
| "visit_schema_elements (x # xs) = and_then (visit_schema x) (\<lambda>_. visit_schema_elements xs)"
| "visit_schema_members [] = Inr ()"
| "visit_schema_members ((k, x) # kvs) = and_then (visit_schema x) (\<lambda>_. visit_schema_members kvs)"

definition validate_bounded_response_schema :: "(codepoints \<times> document) list \<Rightarrow> unit result" where
  "validate_bounded_response_schema schema =
     and_then (validate_bounded_json_value (JObj schema)) (\<lambda>_. visit_schema (JObj schema))"

subsection \<open>Options and items\<close>

record human_option =
  ho_id :: codepoints
  ho_title :: codepoints
  ho_description :: "codepoints option"

record human_item =
  hi_id :: codepoints
  hi_prompt :: codepoints
  hi_response_schema :: "(codepoints \<times> document) list option"
  hi_options :: "human_option list option"
  hi_allow_other :: bool
  hi_allow_skip :: bool

definition invalid_field :: failure where
  "invalid_field = ValueError ''validation error''"

text \<open>\<open>extra="forbid"\<close>: no field but those of the model.\<close>

definition only_fields :: "string list \<Rightarrow> (codepoints \<times> document) list \<Rightarrow> unit result" where
  "only_fields names kvs = require_that invalid_field (list_all (\<lambda>(k, _). k \<in> set (map chars names)) kvs)"

text \<open>\<open>RuntimeSchemaText\<close>: trimmed and not empty.\<close>

definition read_schema_text :: "library \<Rightarrow> document option \<Rightarrow> codepoints result" where
  "read_schema_text lib v =
     (case v of Some (JStr s) \<Rightarrow>
         if lib_trim lib s = [] then Inl invalid_field else Inr (lib_trim lib s)
      | _ \<Rightarrow> Inl invalid_field)"

definition normalize_required_text :: "nat \<Rightarrow> document option \<Rightarrow> codepoints result" where
  "normalize_required_text max_characters v =
     (case v of Some (JStr s) \<Rightarrow> and_then (normalize_exact_text None True s) (\<lambda>normalized.
         if max_characters < length normalized
         then Inl (ValueError ''exceeds the controller text limit'') else Inr normalized)
      | Some _ \<Rightarrow> Inl (ValueError ''must be text'')
      | None \<Rightarrow> Inl invalid_field)"

definition read_optional_text :: "nat \<Rightarrow> document option \<Rightarrow> codepoints option result" where
  "read_optional_text max_characters v =
     (case v of None \<Rightarrow> Inr None | Some JNull \<Rightarrow> Inr None
      | Some (JStr s) \<Rightarrow> normalize_optional_text max_characters (Some s)
      | Some _ \<Rightarrow> Inl (ValueError ''must be text''))"

definition read_flag :: "library \<Rightarrow> document option \<Rightarrow> bool result" where
  "read_flag lib v = (case v of None \<Rightarrow> Inr False | Some d \<Rightarrow> require invalid_field (lib_bool lib d))"

definition read_option :: "library \<Rightarrow> document \<Rightarrow> human_option result" where
  "read_option lib v =
     (case v of
        JObj kvs \<Rightarrow>
          and_then (only_fields [''id'', ''title'', ''description''] kvs) (\<lambda>_.
          and_then (read_schema_text lib (field ''id'' kvs)) (\<lambda>i.
          and_then (normalize_required_text 255 (field ''title'' kvs)) (\<lambda>t.
          and_then (read_optional_text 1024 (field ''description'' kvs)) (\<lambda>d.
            Inr \<lparr>ho_id = i, ho_title = t, ho_description = d\<rparr>))))
      | _ \<Rightarrow> Inl invalid_field)"

definition read_options :: "library \<Rightarrow> document option \<Rightarrow> human_option list option result" where
  "read_options lib v =
     (case v of None \<Rightarrow> Inr None | Some JNull \<Rightarrow> Inr None
      | Some (JArr xs) \<Rightarrow> and_then (map_result (read_option lib) xs) (\<lambda>os.
          if length os < 2 \<or> 3 < length os then Inl invalid_field else Inr (Some os))
      | Some _ \<Rightarrow> Inl invalid_field)"

definition read_schema :: "document option \<Rightarrow> (codepoints \<times> document) list option result" where
  "read_schema v =
     (case v of None \<Rightarrow> Inr None | Some JNull \<Rightarrow> Inr None | Some (JObj kvs) \<Rightarrow> Inr (Some kvs)
      | Some _ \<Rightarrow> Inl invalid_field)"

definition validate_response_contract :: "library \<Rightarrow> human_item \<Rightarrow> human_item result" where
  "validate_response_contract lib i =
     (if (hi_response_schema i = None) = (hi_options i = None)
      then Inl (ValueError ''human request item requires exactly one response_schema or options'')
      else if (case hi_options i of Some os \<Rightarrow> \<not> distinct (map ho_id os) | None \<Rightarrow> False)
      then Inl (ValueError ''human request item option ids must be unique'')
      else if hi_options i = None \<and> hi_allow_other i
      then Inl (ValueError ''human request allow_other requires options'')
      else (case hi_response_schema i of
          None \<Rightarrow> Inr i
        | Some schema \<Rightarrow> and_then (validate_bounded_response_schema schema) (\<lambda>_.
            if lib_check_schema lib schema then Inr i
            else Inl (ValueError ''human request response_schema must be valid JSON Schema''))))"

definition read_item :: "library \<Rightarrow> document \<Rightarrow> human_item result" where
  "read_item lib v =
     (case v of
        JObj kvs \<Rightarrow>
          and_then (only_fields [''id'', ''prompt'', ''response_schema'', ''options'',
            ''allow_other'', ''allow_skip''] kvs) (\<lambda>_.
          and_then (read_schema_text lib (field ''id'' kvs)) (\<lambda>i.
          and_then (normalize_required_text 4096 (field ''prompt'' kvs)) (\<lambda>p.
          and_then (read_schema (field ''response_schema'' kvs)) (\<lambda>s.
          and_then (read_options lib (field ''options'' kvs)) (\<lambda>os.
          and_then (read_flag lib (field ''allow_other'' kvs)) (\<lambda>other.
          and_then (read_flag lib (field ''allow_skip'' kvs)) (\<lambda>skip.
            validate_response_contract lib \<lparr>hi_id = i, hi_prompt = p, hi_response_schema = s,
              hi_options = os, hi_allow_other = other, hi_allow_skip = skip\<rparr>)))))))
      | _ \<Rightarrow> Inl invalid_field)"

text \<open>\<open>model_dump(mode="json")\<close>: every field, in the order of the model.\<close>

definition dump_text :: "codepoints option \<Rightarrow> document" where
  "dump_text s = (case s of None \<Rightarrow> JNull | Some t \<Rightarrow> JStr t)"

definition dump_option :: "human_option \<Rightarrow> document" where
  "dump_option o' = JObj [(chars ''id'', JStr (ho_id o')), (chars ''title'', JStr (ho_title o')),
     (chars ''description'', dump_text (ho_description o'))]"

definition dump_item :: "human_item \<Rightarrow> document" where
  "dump_item i = JObj
     [(chars ''id'', JStr (hi_id i)), (chars ''prompt'', JStr (hi_prompt i)),
      (chars ''response_schema'', case hi_response_schema i of None \<Rightarrow> JNull | Some s \<Rightarrow> JObj s),
      (chars ''options'', case hi_options i of None \<Rightarrow> JNull | Some os \<Rightarrow> JArr (map dump_option os)),
      (chars ''allow_other'', JBool (hi_allow_other i)),
      (chars ''allow_skip'', JBool (hi_allow_skip i))]"

subsection \<open>Answers\<close>

datatype human_answer =
    ValueAnswer document | OptionAnswer codepoints | OtherAnswer codepoints | SkippedAnswer

type_synonym item_responses = "(codepoints \<times> human_answer) list"

text \<open>The tagged union, read by its \<open>kind\<close>.\<close>

definition read_answer :: "library \<Rightarrow> document \<Rightarrow> human_answer result" where
  "read_answer lib v =
     (case v of
        JObj kvs \<Rightarrow>
          if field ''kind'' kvs = Some (JStr (chars ''value''))
          then and_then (only_fields [''kind'', ''value''] kvs) (\<lambda>_.
            and_then (require invalid_field (field ''value'' kvs)) (\<lambda>x. Inr (ValueAnswer x)))
          else if field ''kind'' kvs = Some (JStr (chars ''option''))
          then and_then (only_fields [''kind'', ''option_id''] kvs) (\<lambda>_.
            and_then (read_schema_text lib (field ''option_id'' kvs)) (\<lambda>i. Inr (OptionAnswer i)))
          else if field ''kind'' kvs = Some (JStr (chars ''other''))
          then and_then (only_fields [''kind'', ''text''] kvs) (\<lambda>_.
            (case field ''text'' kvs of
               Some (JStr s) \<Rightarrow> and_then (normalize_exact_text None True s) (\<lambda>t. Inr (OtherAnswer t))
             | _ \<Rightarrow> Inl invalid_field))
          else if field ''kind'' kvs = Some (JStr (chars ''skipped''))
          then and_then (only_fields [''kind''] kvs) (\<lambda>_. Inr SkippedAnswer)
          else Inl invalid_field
      | _ \<Rightarrow> Inl invalid_field)"

fun dump_answer :: "human_answer \<Rightarrow> document" where
  "dump_answer (ValueAnswer v) = JObj [(chars ''kind'', JStr (chars ''value'')), (chars ''value'', v)]"
| "dump_answer (OptionAnswer i) =
     JObj [(chars ''kind'', JStr (chars ''option'')), (chars ''option_id'', JStr i)]"
| "dump_answer (OtherAnswer t) = JObj [(chars ''kind'', JStr (chars ''other'')), (chars ''text'', JStr t)]"
| "dump_answer SkippedAnswer = JObj [(chars ''kind'', JStr (chars ''skipped''))]"

definition serialize_item_answers :: "item_responses option \<Rightarrow> (codepoints \<times> document) list option" where
  "serialize_item_answers = map_option (map (\<lambda>(k, a). (k, dump_answer a)))"

text \<open>A dict whose key is stored again keeps its place and takes the new value.\<close>

fun dict_store :: "'k \<Rightarrow> 'v \<Rightarrow> ('k \<times> 'v) list \<Rightarrow> ('k \<times> 'v) list" where
  "dict_store k v [] = [(k, v)]"
| "dict_store k v ((k', v') # kvs) = (if k = k' then (k, v) # kvs else (k', v') # dict_store k v kvs)"

definition read_response_entry ::
    "library \<Rightarrow> codepoints \<times> document \<Rightarrow> (codepoints \<times> human_answer) result" where
  "read_response_entry lib kv =
     and_then (read_schema_text lib (Some (JStr (fst kv)))) (\<lambda>k.
     and_then (read_answer lib (snd kv)) (\<lambda>a. Inr (k, a)))"

text \<open>\<open>HumanRequestResolveRequest\<close>: one to three answers within the structured-value bounds.\<close>

definition read_item_responses :: "library \<Rightarrow> (codepoints \<times> document) list \<Rightarrow> item_responses result" where
  "read_item_responses lib kvs =
     and_then (map_result (read_response_entry lib) kvs) (\<lambda>entries.
       let responses = fold (\<lambda>(k, a). dict_store k a) entries [] in
       if responses = [] \<or> 3 < length responses then Inl invalid_field
       else and_then (validate_bounded_json_value
           (JObj (map (\<lambda>(k, a). (k, dump_answer a)) responses)))
         (\<lambda>_. Inr responses))"

definition validated_item_responses ::
    "library \<Rightarrow> (codepoints \<times> document) list option \<Rightarrow> item_responses option result" where
  "validated_item_responses lib v =
     (case v of None \<Rightarrow> Inr None
      | Some kvs \<Rightarrow> and_then (read_item_responses lib kvs) (\<lambda>r. Inr (Some r)))"

subsection \<open>Answering a request\<close>

definition validate_answered_item_response :: "library \<Rightarrow> human_item \<Rightarrow> human_answer \<Rightarrow> unit result" where
  "validate_answered_item_response lib item answer =
     (case answer of
        SkippedAnswer \<Rightarrow>
          if \<not> hi_allow_skip item
          then Inl (invalid_request_shape_error ''human request item does not allow Skip'') else Inr ()
      | _ \<Rightarrow> (case hi_options item of
          Some os \<Rightarrow>
            (case answer of
               OtherAnswer t \<Rightarrow>
                 if \<not> hi_allow_other item
                 then Inl (invalid_request_shape_error ''human request item does not allow Other'')
                 else Inr ()
             | OptionAnswer i \<Rightarrow>
                 if i \<notin> set (map ho_id os)
                 then Inl (invalid_request_shape_error ''unknown option for human request item'')
                 else Inr ()
             | _ \<Rightarrow> Inl (invalid_request_shape_error
                 ''human request item requires one tagged option answer''))
        | None \<Rightarrow>
            (case answer of
               ValueAnswer v \<Rightarrow>
                 (case hi_response_schema item of
                    None \<Rightarrow> Inl (illegal_state_error ''human request item is missing its response contract'')
                  | Some schema \<Rightarrow>
                      if \<not> lib_check_schema lib schema
                      then Inl (illegal_state_error ''response_schema is invalid for human request item'')
                      else if \<not> lib_schema_accepts lib schema v
                      then Inl (invalid_request_shape_error
                        ''response does not match response_schema for human request item'')
                      else Inr ())
             | _ \<Rightarrow> Inl (invalid_request_shape_error
                 ''human request item requires one tagged value answer''))))"

fun validate_each_response ::
    "library \<Rightarrow> human_item list \<Rightarrow> item_responses \<Rightarrow> unit result" where
  "validate_each_response lib items [] = Inr ()"
| "validate_each_response lib items ((k, a) # rs) =
     and_then (require invalid_field (find (\<lambda>i. hi_id i = k) (List.rev items))) (\<lambda>item.
     and_then (validate_answered_item_response lib item a) (\<lambda>_.
       validate_each_response lib items rs))"

definition validate_answered_item_responses ::
    "library \<Rightarrow> document list \<Rightarrow> item_responses \<Rightarrow> unit result" where
  "validate_answered_item_responses lib request_items responses =
     and_then (map_result (read_item lib) request_items) (\<lambda>items.
       if set (map fst responses) \<noteq> set (map hi_id items)
       then Inl (invalid_request_shape_error
         ''human request resolution must answer every request item exactly once'')
       else validate_each_response lib items responses)"

end
