(* ===== verification/HumanRequests.thy ===== *)
theory HumanRequests
  imports HumanContracts Workspace Signals Authority Tables
begin

text \<open>
  Human Requests: opening one (\<open>open_human_request\<close> of
  \<open>runtime/node_operations/external_wait_handlers.py\<close>), reading it back
  (\<open>runtime/human_request/records.py\<close>), resolving it (\<open>runtime/human_request/service.py\<close>)
  and letting its deadline pass (\<open>runtime/human_request/deadline.py\<close>). A resolution is won
  once: the exact open row, then the exact wait of the Attempt, then the event.
  Authored text other than the items and answers enters the model normalised.
\<close>

definition quoted :: "string \<Rightarrow> string" where
  "quoted s = [CHR 0x27] @ s @ [CHR 0x27]"

subsection \<open>Opening\<close>

record human_open_request =
  hq_kind :: human_kind
  hq_summary :: string
  hq_items :: "human_item list"
  hq_files :: "file_reference list"
  hq_due_at :: "time option"
  hq_default_behavior :: "codepoints option"

text \<open>
  The bounds of \<open>HumanRequestOpenRequest\<close> and \<open>HumanRequestTimeout\<close>; every time of the model
  has a time zone.
\<close>

definition validate_open_request :: "human_open_request \<Rightarrow> human_open_request result" where
  "validate_open_request rq =
     (if hq_items rq = [] \<or> 3 < length (hq_items rq) then Inl invalid_field
      else if \<not> distinct (map hi_id (hq_items rq))
      then Inl (ValueError ''human request item ids must be unique'')
      else if 32 < length (hq_files rq)
      then Inl (ValueError ''human request files exceed the controller entry limit'')
      else if hq_default_behavior rq \<noteq> None \<and> hq_due_at rq = None
      then Inl (ValueError ''human request default_behavior requires due_at'')
      else Inr rq)"

record human_fresh =
  hx_request_hex :: string
  hx_wait_hex :: string

definition human_request_id_of :: "node_authority \<Rightarrow> human_fresh \<Rightarrow> ident" where
  "human_request_id_of au fx = ''human-request.'' @ na_task_id au @ ''.'' @ hx_request_hex fx"

definition human_wait_id_of :: "human_fresh \<Rightarrow> ident" where
  "human_wait_id_of fx = ''attempt-wait.'' @ hx_wait_hex fx"

definition new_human_request_row ::
    "node_authority \<Rightarrow> ident \<Rightarrow> human_open_request \<Rightarrow> time \<Rightarrow> human_request_row" where
  "new_human_request_row au request rq now =
     \<lparr>hr_request_id = request, hr_task_id = na_task_id au, hr_assignment_id = na_assignment_id au,
      hr_attempt_id = na_attempt_id au, hr_source_dispatch_id = na_dispatch_id au,
      hr_request_kind = hq_kind rq, hr_request_summary = hq_summary rq,
      hr_request_items = map dump_item (hq_items rq), hr_due_at = hq_due_at rq,
      hr_default_behavior = hq_default_behavior rq, hr_status = HumanOpen,
      hr_resolution_kind = None, hr_item_responses = None, hr_resolution_summary = None,
      hr_resolved_by_actor_ref = None, hr_resolved_by_surface = None,
      hr_successor_dispatch_id = None, hr_opened_at = now, hr_resolved_at = None\<rparr>"

definition stage_human_request_files ::
    "ident \<Rightarrow> file_reference list \<Rightarrow> db \<Rightarrow> db result" where
  "stage_human_request_files request files d =
     and_then (fold_result (\<lambda>(i, f). insert_human_file
         \<lparr>hf_request_id = request, hf_order_index = i, hf_file = f\<rparr>)
       (List.enumerate 0 files) (human_request_files d))
     (\<lambda>fs. Inr (d\<lparr>human_request_files := fs\<rparr>))"

definition human_wait_row :: "node_authority \<Rightarrow> ident \<Rightarrow> ident \<Rightarrow> time \<Rightarrow> wait_row" where
  "human_wait_row au request wait now =
     \<lparr>aw_wait_id = wait, aw_task_id = na_task_id au, aw_assignment_id = na_assignment_id au,
      aw_attempt_id = na_attempt_id au, aw_source_dispatch_id = na_dispatch_id au,
      aw_delegation_wave_id = None, aw_human_request_id = Some request,
      aw_command_run_id = None, aw_created_at = now\<rparr>"

text \<open>\<open>_suspend_current_attempt\<close>, shared by both external waits.\<close>

definition suspend_current_attempt ::
    "node_authority \<Rightarrow> ident \<Rightarrow> time \<Rightarrow> closed_reason \<Rightarrow> db \<Rightarrow> db result" where
  "suspend_current_attempt au wait now reason d =
     require (conflict_error ''another transition changed exact Attempt authority'')
       (suspend_current_attempt_on_wait (authority_identity au) wait (na_team_revision_id au) now
         reason d)"

definition human_request_opened_event ::
    "node_authority \<Rightarrow> ident \<Rightarrow> human_open_request \<Rightarrow> time \<Rightarrow> event_draft" where
  "human_request_opened_event au request rq now =
     \<lparr>ed_task_id = na_task_id au, ed_event_type = HUMAN_REQUEST_OPENED, ed_event_source = SrcNode,
      ed_occurred_at = now, ed_team_revision_id = Some (na_team_revision_id au),
      ed_dispatch_id = Some (na_dispatch_id au), ed_attempt_id = Some (na_attempt_id au),
      ed_member_id = Some (na_member_id au), ed_actor_ref = None,
      ed_payload =
        [(''request_id'', JStr request), (''kind'', JStr (human_kind_value (hq_kind rq))),
         (''summary'', JStr (hq_summary rq)), (''source_dispatch_id'', JStr (na_dispatch_id au)),
         (''due_at'', json_time (hq_due_at rq)), (''opened_at'', JInt now)]\<rparr>"

definition open_human_request ::
    "env \<Rightarrow> (string \<Rightarrow> string \<Rightarrow> file_probe) \<Rightarrow> human_fresh \<Rightarrow> node_authority \<Rightarrow> human_open_request \<Rightarrow>
       db \<Rightarrow> (ident \<times> db) result" where
  "open_human_request env probe fx au rq d =
     and_then (read_workspace_path (na_task_id au) d) (\<lambda>workspace.
     and_then (validate_file_references probe workspace (hq_files rq)) (\<lambda>files.
     and_then (insert_human_request
         (new_human_request_row au (human_request_id_of au fx) rq (env_now env)) (human_requests d)) (\<lambda>hs.
     and_then (stage_human_request_files (human_request_id_of au fx) files
         (d\<lparr>human_requests := hs\<rparr>)) (\<lambda>d1.
     and_then (insert_wait (human_wait_row au (human_request_id_of au fx) (human_wait_id_of fx)
         (env_now env)) (waits d1)) (\<lambda>ws.
     and_then (suspend_current_attempt au (human_wait_id_of fx) (env_now env) CHumanRequestWait
         (d1\<lparr>waits := ws\<rparr>)) (\<lambda>d2.
     and_then (append_task_event env
         (human_request_opened_event au (human_request_id_of au fx) rq (env_now env)) d2) (\<lambda>d3.
       Inr (human_request_id_of au fx, d3))))))))"

subsection \<open>Reading back\<close>

record human_resolution_record =
  rn_request_id :: ident
  rn_task_id :: ident
  rn_kind :: human_resolution
  rn_item_responses :: "item_responses option"
  rn_summary :: string
  rn_resolved_at :: time
  rn_actor_ref :: "string option"
  rn_surface :: human_surface

text \<open>\<open>HumanRequestResolution.validate_resolution_shape\<close>.\<close>

definition validate_resolution_shape :: "human_resolution_record \<Rightarrow> human_resolution_record result" where
  "validate_resolution_shape r =
     (if rn_kind r = Answered
      then (if rn_item_responses r = None \<or> rn_item_responses r = Some []
        then Inl (ValueError ''answered human request resolutions require item_responses'') else Inr r)
      else if rn_item_responses r \<noteq> None
      then Inl (ValueError ''terminal non-answer resolutions must not include item_responses'')
      else Inr r)"

definition human_request_resolution_from_model ::
    "library \<Rightarrow> human_request_row \<Rightarrow> human_resolution_record option result" where
  "human_request_resolution_from_model lib h =
     (if hr_status h = HumanOpen then Inr None
      else (case (hr_resolution_kind h, hr_resolution_summary h, hr_resolved_by_surface h, hr_resolved_at h) of
          (Some k, Some s, Some f, Some t) \<Rightarrow>
            and_then (validated_item_responses lib (hr_item_responses h)) (\<lambda>responses.
            and_then (validate_resolution_shape
              \<lparr>rn_request_id = hr_request_id h, rn_task_id = hr_task_id h, rn_kind = k,
               rn_item_responses = responses, rn_summary = s, rn_resolved_at = t,
               rn_actor_ref = hr_resolved_by_actor_ref h, rn_surface = f\<rparr>) (\<lambda>r. Inr (Some r)))
        | _ \<Rightarrow> Inl (illegal_state_error
            (''terminal human request '' @ hr_request_id h @ '' is missing resolution''))))"

record pending_human_request =
  ph_row :: human_request_row
  ph_items :: "human_item list"
  ph_files :: "file_reference list"

text \<open>The columns of the row are read as they are; the items are validated again.\<close>

definition pending_human_request_from_model ::
    "library \<Rightarrow> human_request_row \<Rightarrow> file_reference list \<Rightarrow> pending_human_request result" where
  "pending_human_request_from_model lib h files =
     and_then (map_result (read_item lib) (hr_request_items h)) (\<lambda>items.
       if items = [] \<or> 3 < length items then Inl invalid_field
       else if hr_default_behavior h \<noteq> None \<and> hr_due_at h = None
       then Inl (ValueError ''human request default_behavior requires due_at'')
       else Inr \<lparr>ph_row = h, ph_items = items, ph_files = files\<rparr>)"

fun insert_by_index :: "human_file_row \<Rightarrow> human_file_row list \<Rightarrow> human_file_row list" where
  "insert_by_index f [] = [f]"
| "insert_by_index f (g # gs) =
     (if hf_order_index f \<le> hf_order_index g then f # g # gs else g # insert_by_index f gs)"

definition read_human_request_file_references :: "ident \<Rightarrow> db \<Rightarrow> file_reference list" where
  "read_human_request_file_references request d =
     map hf_file (foldr insert_by_index
       (filter (\<lambda>f. hf_request_id f = request) (human_request_files d)) [])"

definition human_request_read_from_model ::
    "library \<Rightarrow> human_request_row \<Rightarrow> file_reference list \<Rightarrow>
       (pending_human_request \<times> human_resolution_record option) result" where
  "human_request_read_from_model lib h files =
     and_then (pending_human_request_from_model lib h files) (\<lambda>p.
     and_then (human_request_resolution_from_model lib h) (\<lambda>r. Inr (p, r)))"

fun insert_human_row :: "human_request_row \<Rightarrow> human_request_row list \<Rightarrow> human_request_row list" where
  "insert_human_row h [] = [h]"
| "insert_human_row h (g # gs) =
     (if hr_opened_at h < hr_opened_at g \<or>
         hr_opened_at h = hr_opened_at g \<and> string_less_eq (hr_request_id h) (hr_request_id g)
      then h # g # gs else g # insert_human_row h gs)"

definition require_task_exists :: "ident \<Rightarrow> db \<Rightarrow> unit result" where
  "require_task_exists task d =
     require_that (missing_resource_error (''unknown task_id '' @ quoted task))
       (list_ex (\<lambda>t. tk_task_id t = task) (tasks d))"

definition list_human_requests ::
    "library \<Rightarrow> ident \<Rightarrow> db \<Rightarrow> (pending_human_request \<times> human_resolution_record option) list result" where
  "list_human_requests lib task d =
     and_then (require_task_exists task d) (\<lambda>_.
       map_result (\<lambda>h. human_request_read_from_model lib h
           (read_human_request_file_references (hr_request_id h) d))
         (foldr insert_human_row (filter (\<lambda>h. hr_task_id h = task) (human_requests d)) []))"

subsection \<open>Resolving\<close>

text \<open>\<open>_human_request_conflict\<close>; the suggested next step is not part of the model's failure.\<close>

definition human_request_conflict :: "ident \<Rightarrow> string \<Rightarrow> failure" where
  "human_request_conflict request s = conflict_error (''human request '' @ quoted request @ s)"

fun terminal_resolution_state :: "human_resolution \<Rightarrow> human_status \<times> event_type" where
  "terminal_resolution_state Answered = (HumanResolved, HUMAN_REQUEST_RESOLVED)"
| "terminal_resolution_state TimedOut = (HumanTimedOut, HUMAN_REQUEST_TIMED_OUT)"
| "terminal_resolution_state ResolutionCancelled = (HumanCancelled, HUMAN_REQUEST_CANCELLED)"

fun event_source_for_resolution_surface :: "human_surface \<Rightarrow> event_source" where
  "event_source_for_resolution_surface SurfaceOperator = SrcOperator"
| "event_source_for_resolution_surface SurfaceController = SrcController"
| "event_source_for_resolution_surface _ = SrcControlApi"

definition apply_resolution :: "human_resolution_record \<Rightarrow> human_request_row \<Rightarrow> human_request_row" where
  "apply_resolution r h =
     h\<lparr>hr_status := fst (terminal_resolution_state (rn_kind r)),
       hr_resolution_kind := Some (rn_kind r),
       hr_item_responses := serialize_item_answers (rn_item_responses r),
       hr_resolution_summary := Some (rn_summary r),
       hr_resolved_by_actor_ref := rn_actor_ref r,
       hr_resolved_by_surface := Some (rn_surface r),
       hr_resolved_at := Some (rn_resolved_at r)\<rparr>"

text \<open>The exact wait of a request: typed, and of the same Task, Assignment, Attempt and Dispatch.\<close>

definition human_wait_matches :: "human_request_row \<Rightarrow> wait_row \<Rightarrow> bool" where
  "human_wait_matches h w \<longleftrightarrow>
     aw_task_id w = hr_task_id h \<and> aw_assignment_id w = hr_assignment_id h \<and>
     aw_attempt_id w = hr_attempt_id h \<and> aw_source_dispatch_id w = hr_source_dispatch_id h \<and>
     aw_human_request_id w = Some (hr_request_id h) \<and> aw_command_run_id w = None \<and>
     aw_delegation_wave_id w = None"

definition consume_exact_human_wait :: "human_request_row \<Rightarrow> db \<Rightarrow> db option" where
  "consume_exact_human_wait h d =
     (case find (human_wait_matches h) (waits d) of
        None \<Rightarrow> None
      | Some w \<Rightarrow> Option.bind (delete_where (human_wait_matches h) (waits d)) (\<lambda>ws.
          clear_current_attempt_wait
            \<lparr>wi_task_id = hr_task_id h, wi_assignment_id = hr_assignment_id h,
             wi_attempt_id = hr_attempt_id h, wi_wait_id = aw_wait_id w\<rparr> (d\<lparr>waits := ws\<rparr>)))"

definition human_terminal_event :: "human_request_row \<Rightarrow> human_resolution_record \<Rightarrow> event_draft" where
  "human_terminal_event h r =
     \<lparr>ed_task_id = hr_task_id h, ed_event_type = snd (terminal_resolution_state (rn_kind r)),
      ed_event_source = event_source_for_resolution_surface (rn_surface r),
      ed_occurred_at = rn_resolved_at r, ed_team_revision_id = None,
      ed_dispatch_id = Some (hr_source_dispatch_id h), ed_attempt_id = Some (hr_attempt_id h),
      ed_member_id = None, ed_actor_ref = rn_actor_ref r,
      ed_payload =
        [(''request_id'', JStr (hr_request_id h)),
         (''kind'', JStr (human_kind_value (hr_request_kind h))),
         (''summary'', JStr (hr_request_summary h)),
         (''source_dispatch_id'', JStr (hr_source_dispatch_id h)),
         (''due_at'', json_time (hr_due_at h)),
         (''status'', JStr (human_status_value (fst (terminal_resolution_state (rn_kind r))))),
         (''resolution_kind'', JStr (human_resolution_value (rn_kind r))),
         (''resolution_summary'', JStr (rn_summary r)),
         (''resolved_at'', JInt (rn_resolved_at r)),
         (''resolved_by_surface'', JStr (human_surface_value (rn_surface r))),
         (''resolved_by_actor_ref'', json_opt (rn_actor_ref r))]\<rparr>"

text \<open>
  The boolean result is whether this resolution won. The row is claimed while it is open (and
  still has the expected deadline); a claim that finds no row rolls back and loses.
\<close>

definition persist_human_request_resolution ::
    "env \<Rightarrow> human_request_row \<Rightarrow> human_resolution_record \<Rightarrow> time option \<Rightarrow> db \<Rightarrow> (bool \<times> db) result" where
  "persist_human_request_resolution env source r expected_due_at d =
     (if rn_request_id r \<noteq> hr_request_id source \<or> rn_task_id r \<noteq> hr_task_id source
      then Inl (ValueError ''human request resolution does not match its exact source'')
      else if rn_kind r = TimedOut \<and> expected_due_at = None
      then Inl (ValueError ''human request timeout requires its exact stored deadline'')
      else and_then (update_checked ck_human_request
          (\<lambda>h. hr_request_id h = hr_request_id source \<and> hr_task_id h = hr_task_id source \<and>
            hr_status h = HumanOpen \<and>
            (expected_due_at = None \<or> hr_due_at h = expected_due_at))
          (apply_resolution r) (human_requests d)) (\<lambda>claimed. case claimed of
          None \<Rightarrow> Inr (False, d)
        | Some hs \<Rightarrow>
            and_then (require (human_request_conflict (hr_request_id source)
                '' no longer owns its exact Attempt wait'')
              (consume_exact_human_wait source (d\<lparr>human_requests := hs\<rparr>))) (\<lambda>d1.
            and_then (append_task_event env (human_terminal_event source r) d1) (\<lambda>d2.
              Inr (True, d2)))))"

definition human_request_for_task :: "ident \<Rightarrow> ident \<Rightarrow> db \<Rightarrow> human_request_row option" where
  "human_request_for_task task request d =
     find (\<lambda>h. hr_task_id h = task \<and> hr_request_id h = request) (human_requests d)"

definition resolution_summary :: string where
  "resolution_summary = ''Human answered the controller-owned request.''"

definition resolve_human_request ::
    "env \<Rightarrow> library \<Rightarrow> ident \<Rightarrow> ident \<Rightarrow> item_responses \<Rightarrow> string option \<Rightarrow> human_surface \<Rightarrow> db \<Rightarrow>
       (human_resolution_record \<times> db) result" where
  "resolve_human_request env lib task request responses actor surface d =
     and_then (require (human_request_conflict request '' is not current'')
       (human_request_for_task task request d)) (\<lambda>source.
     and_then (validate_answered_item_responses lib (hr_request_items source) responses) (\<lambda>_.
     and_then (validate_resolution_shape
         \<lparr>rn_request_id = hr_request_id source, rn_task_id = hr_task_id source, rn_kind = Answered,
          rn_item_responses = Some responses, rn_summary = resolution_summary,
          rn_resolved_at = env_now env, rn_actor_ref = actor, rn_surface = surface\<rparr>) (\<lambda>r.
     and_then (persist_human_request_resolution env source r None d) (\<lambda>(won, d1).
       if \<not> won then Inl (human_request_conflict request '' is already terminal'')
       else Inr (r, d1)))))"

subsection \<open>Deadlines\<close>

datatype deadline_action = RegisterDeadline runtime_signal | CancelDeadline ident

definition read_human_request :: "ident \<Rightarrow> db \<Rightarrow> human_request_row option" where
  "read_human_request request d = find (\<lambda>h. hr_request_id h = request) (human_requests d)"

definition human_request_opened_action :: "ident \<Rightarrow> db \<Rightarrow> deadline_action" where
  "human_request_opened_action request d =
     (case read_human_request request d of
        None \<Rightarrow> CancelDeadline request
      | Some h \<Rightarrow> (case (hr_status h, hr_due_at h) of
          (HumanOpen, Some due) \<Rightarrow> RegisterDeadline (HumanRequestDue (hr_request_id h) due)
        | _ \<Rightarrow> CancelDeadline request))"

definition timeout_summary :: string where
  "timeout_summary = ''The controller-owned human request reached its deadline.''"

definition timeout_resolution :: "human_request_row \<Rightarrow> time \<Rightarrow> human_resolution_record" where
  "timeout_resolution h now =
     \<lparr>rn_request_id = hr_request_id h, rn_task_id = hr_task_id h, rn_kind = TimedOut,
      rn_item_responses = None, rn_summary = timeout_summary, rn_resolved_at = now,
      rn_actor_ref = None, rn_surface = SurfaceController\<rparr>"

definition expire_human_request ::
    "env \<Rightarrow> ident \<Rightarrow> time \<Rightarrow> time \<Rightarrow> db \<Rightarrow> (bool \<times> db) result" where
  "expire_human_request env request signal_due_at now d =
     (case read_human_request request d of
        None \<Rightarrow> Inr (False, d)
      | Some h \<Rightarrow>
          if hr_status h \<noteq> HumanOpen then Inr (False, d)
          else (case hr_due_at h of
              None \<Rightarrow> Inr (False, d)
            | Some due \<Rightarrow>
                if due \<noteq> signal_due_at then Inr (False, d)
                else if now < due then Inr (False, d)
                else persist_human_request_resolution env h (timeout_resolution h now) (Some due) d))"

end
