(* ===== verification/Identifiers.thy ===== *)
theory Identifiers
  imports Schema "HOL-Library.Word"
begin

text \<open>
  Generated identifiers: the 40-bit Task and Command ids of \<open>runtime/workspace/admission.py\<close>
  and \<open>runtime/node_operations/external_wait_handlers.py\<close>, eight characters of five bits over
  an alphabet without \<open>i\<close>, \<open>l\<close>, \<open>o\<close> and \<open>u\<close>, and the bounded search for a free one. The
  random bytes and what the file system answers are parameters.
\<close>

unbundle bit_operations_syntax

subsection \<open>Encoding\<close>

definition task_id_alphabet :: string where
  "task_id_alphabet = ''0123456789abcdefghjkmnpqrstvwxyz''"

definition int_from_bytes :: "8 word list \<Rightarrow> int" where
  "int_from_bytes bs = foldl (\<lambda>v b. v * 256 + uint b) 0 bs"

definition encode_id :: "int \<Rightarrow> string" where
  "encode_id v = map (\<lambda>shift. task_id_alphabet ! nat (drop_bit shift v AND 0x1F))
     [35, 30, 25, 20, 15, 10, 5, 0]"

definition new_task_id :: "8 word list \<Rightarrow> string" where
  "new_task_id token = ''t_'' @ encode_id (int_from_bytes token)"

definition new_command_run_id :: "8 word list \<Rightarrow> string" where
  "new_command_run_id token = ''c_'' @ encode_id (int_from_bytes token)"

definition is_task_id :: "string \<Rightarrow> bool" where
  "is_task_id v \<longleftrightarrow> length v = 10 \<and> take 2 v = ''t_'' \<and> (\<forall>c \<in> set (drop 2 v). c \<in> set task_id_alphabet)"

subsection \<open>Allocation\<close>

text \<open>
  \<open>for _ in range(128)\<close>: the next random token, the row of that key, then the paths it would
  take. A token is drawn for each turn; no free candidate is a RuntimeError.
\<close>

fun allocate_id :: "(string \<Rightarrow> bool) \<Rightarrow> (string \<Rightarrow> bool) \<Rightarrow> failure \<Rightarrow> string list \<Rightarrow> string result" where
  "allocate_id stored exists exhausted [] = Inl exhausted"
| "allocate_id stored exists exhausted (c # cs) =
     (if stored c then allocate_id stored exists exhausted cs
      else if exists c then allocate_id stored exists exhausted cs
      else Inr c)"

definition allocate_task_id ::
    "(string \<Rightarrow> string \<Rightarrow> bool) \<Rightarrow> (nat \<Rightarrow> 8 word list) \<Rightarrow> db \<Rightarrow> string result" where
  "allocate_task_id lexists token_bytes d =
     allocate_id (\<lambda>c. list_ex (\<lambda>t. tk_task_id t = c) (tasks d))
       (\<lambda>c. list_ex (\<lambda>container. lexists container c) [''.oms'', ''.banksia''])
       (RuntimeError ''could not allocate a collision-free Task identifier'')
       (map (\<lambda>i. new_task_id (token_bytes i)) [0..<128])"

definition allocate_command_run_id ::
    "(string \<Rightarrow> bool) \<Rightarrow> (nat \<Rightarrow> 8 word list) \<Rightarrow> db \<Rightarrow> string result" where
  "allocate_command_run_id lexists token_bytes d =
     allocate_id (\<lambda>c. list_ex (\<lambda>r. cr_run_id r = c) (command_runs d)) lexists
       (RuntimeError ''could not allocate a collision-free Command identifier'')
       (map (\<lambda>i. new_command_run_id (token_bytes i)) [0..<128])"

lemma allocate_id_Inr:
  "allocate_id stored exists x cs = Inr c \<longleftrightarrow>
     (\<exists>i < length cs. c = cs ! i \<and> \<not> stored c \<and> \<not> exists c \<and>
        (\<forall>j < i. stored (cs ! j) \<or> exists (cs ! j)))"
proof (induction cs)
  case (Cons a cs)
  show ?case
    by (auto simp: Ex_less_Suc2 All_less_Suc2 Cons.IH)
qed simp

lemma allocate_id_Inl:
  "allocate_id stored exists x cs = Inl e \<longleftrightarrow> e = x \<and> (\<forall>c \<in> set cs. stored c \<or> exists c)"
  by (induction cs) auto

lemma allocate_id_draws:
  "allocate_id stored exists x (map f [0..<n]) = Inr c \<longleftrightarrow>
     (\<exists>i < n. c = f i \<and> \<not> stored c \<and> \<not> exists c \<and> (\<forall>j < i. stored (f j) \<or> exists (f j)))"
proof -
  have "map f [0..<n] ! j = f j" if "j < i" "i < n" for i j using that by simp
  then have "i < n \<Longrightarrow> (\<forall>j < i. stored (map f [0..<n] ! j) \<or> exists (map f [0..<n] ! j)) \<longleftrightarrow>
      (\<forall>j < i. stored (f j) \<or> exists (f j))" for i by simp
  then show ?thesis by (simp add: allocate_id_Inr cong: conj_cong)
qed

lemma allocate_id_draws_fail:
  "allocate_id stored exists x (map f [0..<n]) = Inl e \<longleftrightarrow>
     e = x \<and> (\<forall>i < n. stored (f i) \<or> exists (f i))"
  by (auto simp: allocate_id_Inl)

subsection \<open>Positional numbers\<close>

definition horner :: "int \<Rightarrow> int list \<Rightarrow> int" where
  "horner b ds = foldl (\<lambda>v d. v * b + d) 0 ds"

lemma horner_snoc: "horner b (ds @ [d]) = horner b ds * b + d"
  by (simp add: horner_def)

lemma horner_Nil [simp]: "horner b [] = 0"
  by (simp add: horner_def)

lemma horner_range:
  "\<forall>d \<in> set ds. 0 \<le> d \<and> d < b \<Longrightarrow> 0 \<le> horner b ds \<and> horner b ds < b ^ length ds"
proof (induction ds rule: rev_induct)
  case (snoc d ds)
  then have r: "0 \<le> horner b ds" "horner b ds + 1 \<le> b ^ length ds" "0 \<le> d" "d < b" by auto
  then have "(horner b ds + 1) * b \<le> b ^ length ds * b" by (intro mult_right_mono) auto
  with r show ?case by (simp add: horner_snoc algebra_simps)
qed simp

lemma horner_inj:
  assumes "length xs = length ys" "\<forall>d \<in> set xs. 0 \<le> d \<and> d < b" "\<forall>d \<in> set ys. 0 \<le> d \<and> d < b"
    and "horner b xs = horner b ys"
  shows "xs = ys"
  using assms
proof (induction xs arbitrary: ys rule: rev_induct)
  case (snoc x xs)
  obtain ys' y where ys: "ys = ys' @ [y]" using snoc.prems(1) by (cases ys rule: rev_cases) auto
  have e: "horner b xs * b + x = horner b ys' * b + y"
    using snoc.prems(4) by (simp add: ys horner_snoc)
  have x: "0 \<le> x" "x < b" and y: "0 \<le> y" "y < b" using snoc.prems ys by auto
  have "(horner b xs * b + x) mod b = x" "(horner b ys' * b + y) mod b = y" using x y by auto
  with e have "x = y" by metis
  moreover have "horner b xs = horner b ys'" using e \<open>x = y\<close> x by auto
  ultimately show ?case using snoc ys by auto
qed simp

lemma horner_surj:
  assumes "0 < b" "0 \<le> v" "v < b ^ n"
  shows "\<exists>ds. length ds = n \<and> (\<forall>d \<in> set ds. 0 \<le> d \<and> d < b) \<and> horner b ds = v"
  using assms(2,3)
proof (induction n arbitrary: v)
  case (Suc n)
  have "v div b * b \<le> v"
    using pos_mod_sign [OF assms(1), of v] minus_mod_eq_div_mult [of v b] by linarith
  also have "v < b ^ n * b" using Suc.prems by (simp add: mult.commute)
  finally have "v div b < b ^ n" by (rule mult_right_less_imp_less) (use assms(1) in simp)
  moreover have "0 \<le> v div b" using Suc.prems assms(1) by (simp add: pos_imp_zdiv_nonneg_iff)
  ultimately obtain ds where "length ds = n" "\<forall>d \<in> set ds. 0 \<le> d \<and> d < b" "horner b ds = v div b"
    using Suc.IH by blast
  then show ?case
    using assms(1) by (intro exI [of _ "ds @ [v mod b]"]) (auto simp: horner_snoc)
qed simp

subsection \<open>Properties\<close>

lemma alphabet_length: "length task_id_alphabet = 32"
  by (simp add: task_id_alphabet_def)

lemma alphabet_distinct: "distinct task_id_alphabet"
  by (simp add: task_id_alphabet_def)

definition id_digits :: "int \<Rightarrow> int list" where
  "id_digits v = map (\<lambda>shift. drop_bit shift v AND 0x1F) [35, 30, 25, 20, 15, 10, 5, 0]"

lemma and_31: "(x :: int) AND 0x1F = x mod 32"
proof -
  have "x AND mask 5 = take_bit 5 x" by (rule take_bit_eq_mask [symmetric])
  then show ?thesis by (simp add: mask_eq_exp_minus_1 take_bit_eq_mod)
qed

lemma id_digits_range: "\<forall>d \<in> set (id_digits v). 0 \<le> d \<and> d < 32"
  by (auto simp: id_digits_def and_31)

lemma chain8:
  assumes "d7 = a7" "a7 * 32 + d6 = a6" "a6 * 32 + d5 = a5" "a5 * 32 + d4 = a4" "a4 * 32 + d3 = a3"
    "a3 * 32 + d2 = a2" "a2 * 32 + d1 = a1" "a1 * 32 + d0 = (a0 :: int)"
  shows "horner 32 [d7, d6, d5, d4, d3, d2, d1, d0] = a0"
  using assms by (simp add: horner_def)

lemma id_digits_horner:
  assumes "0 \<le> v" "v < 2 ^ 40"
  shows "horner 32 (id_digits v) = v"
proof -
  have step: "drop_bit m v * 32 + drop_bit n v mod 32 = drop_bit n v" if "m = n + 5" for m n :: nat
  proof -
    have "drop_bit m v = drop_bit n v div 32"
      unfolding that by (simp add: drop_bit_eq_div power_add zdiv_zmult2_eq)
    then show ?thesis by simp
  qed
  have top: "drop_bit 35 v mod 32 = drop_bit 35 v"
    using assms by (intro mod_pos_pos_trivial) (auto simp: drop_bit_eq_div)
  have "horner 32 (id_digits v) = drop_bit 0 v"
    unfolding id_digits_def list.map and_31 by (rule chain8 [OF top]) (rule step, simp)+
  then show ?thesis by simp
qed

lemma encode_id_digits: "encode_id v = map (\<lambda>d. task_id_alphabet ! nat d) (id_digits v)"
  by (simp add: encode_id_def id_digits_def)

lemma int_from_bytes_horner: "int_from_bytes bs = horner 256 (map uint bs)"
  by (simp add: int_from_bytes_def horner_def foldl_map)

lemma uint_digits: "\<forall>d \<in> set (map uint (bs :: 8 word list)). 0 \<le> d \<and> d < 256"
  using uint_lt2p [where ?'a = 8] by auto

lemma int_from_bytes_range:
  assumes "length bs = 5"
  shows "0 \<le> int_from_bytes bs" "int_from_bytes bs < 2 ^ 40"
  using horner_range [OF uint_digits [of bs]] assms by (auto simp: int_from_bytes_horner)

lemma int_from_bytes_inj:
  assumes "length bs = length cs" "int_from_bytes bs = int_from_bytes cs"
  shows "bs = cs"
proof -
  have "map uint bs = map uint cs"
    using assms by (intro horner_inj [OF _ uint_digits uint_digits]) (auto simp: int_from_bytes_horner)
  then show ?thesis by (rule map_injective) (rule injI, simp add: word_uint_eqI)
qed

lemma int_from_bytes_surj:
  assumes "0 \<le> v" "v < 2 ^ 40"
  shows "\<exists>bs. length bs = 5 \<and> int_from_bytes bs = v"
proof -
  obtain ds where ds: "length ds = 5" "\<forall>d \<in> set ds. 0 \<le> d \<and> d < 256" "horner 256 ds = v"
    using horner_surj [of 256 v 5] assms by auto
  have "map uint (map (word_of_int :: int \<Rightarrow> 8 word) ds) = ds"
    using ds(2) by (simp add: map_idI take_bit_int_eq_self uint_word_of_int)
  with ds show ?thesis
    by (intro exI [of _ "map word_of_int ds"]) (simp add: int_from_bytes_horner)
qed

lemma alphabet_nth_inj:
  assumes "length xs = length ys" "\<forall>d \<in> set xs. 0 \<le> d \<and> d < 32" "\<forall>d \<in> set ys. 0 \<le> d \<and> d < 32"
    and "map (\<lambda>d. task_id_alphabet ! nat d) xs = map (\<lambda>d. task_id_alphabet ! nat d) ys"
  shows "xs = ys"
  using assms
proof (induction xs ys rule: list_induct2)
  case (Cons x xs y ys)
  have "nat x < 32" "nat y < 32" "0 \<le> x" "0 \<le> y" using Cons.prems by auto
  then have "x = y"
    using Cons.prems nth_eq_iff_index_eq [OF alphabet_distinct] by (auto simp: alphabet_length)
  with Cons show ?case by auto
qed simp

lemma alphabet_nth_surj:
  assumes "\<forall>c \<in> set s. c \<in> set task_id_alphabet"
  shows "\<exists>ds. length ds = length s \<and> (\<forall>d \<in> set ds. 0 \<le> d \<and> d < 32) \<and>
    map (\<lambda>d. task_id_alphabet ! nat d) ds = s"
  using assms
proof (induction s)
  case (Cons c s)
  then obtain ds where ds: "length ds = length s" "\<forall>d \<in> set ds. 0 \<le> d \<and> d < 32"
    "map (\<lambda>d. task_id_alphabet ! nat d) ds = s" by auto
  from Cons.prems obtain i where "i < 32" "task_id_alphabet ! i = c"
    by (auto simp: in_set_conv_nth alphabet_length)
  with ds show ?case by (intro exI [of _ "int i # ds"]) auto
qed simp

lemma new_task_id_is_task_id: "is_task_id (new_task_id token)"
proof -
  have "task_id_alphabet ! nat d \<in> set task_id_alphabet" if "d \<in> set (id_digits v)" for d v
    using bspec [OF id_digits_range that] by (auto simp: alphabet_length intro!: nth_mem)
  then show ?thesis
    by (auto simp: is_task_id_def new_task_id_def encode_id_digits id_digits_def)
qed

text \<open>
  Five random bytes and Task ids are in one-to-one correspondence: every generated id is
  a well-formed Task id, different bytes give different ids, and every well-formed id is the
  id of some five bytes, so the recovery scan recognises exactly the names a Task may get.
\<close>

theorem task_ids_are_tokens:
  "bij_betw new_task_id {token. length token = 5} {v. is_task_id v}"
proof (rule bij_betw_imageI)
  show "inj_on new_task_id {token. length token = 5}"
  proof (rule inj_onI, unfold mem_Collect_eq)
    fix bs cs :: "8 word list"
    assume l: "length bs = 5" "length cs = 5" and eq: "new_task_id bs = new_task_id cs"
    have "id_digits (int_from_bytes bs) = id_digits (int_from_bytes cs)"
      using eq by (intro alphabet_nth_inj id_digits_range)
        (simp_all add: new_task_id_def encode_id_digits, simp_all add: id_digits_def)
    then have "int_from_bytes bs = int_from_bytes cs"
      using id_digits_horner [OF int_from_bytes_range] l by metis
    then show "bs = cs" using l by (intro int_from_bytes_inj) simp_all
  qed
  show "new_task_id ` {token. length token = 5} = {v. is_task_id v}"
  proof (intro equalityI subsetI)
    fix v assume "v \<in> {v. is_task_id v}"
    then have v: "length (drop 2 v) = 8" "take 2 v = ''t_''" "\<forall>c \<in> set (drop 2 v). c \<in> set task_id_alphabet"
      by (auto simp: is_task_id_def)
    obtain ds where ds: "length ds = 8" "\<forall>d \<in> set ds. 0 \<le> d \<and> d < 32"
      "map (\<lambda>d. task_id_alphabet ! nat d) ds = drop 2 v"
      using alphabet_nth_surj [OF v(3)] v(1) by auto
    have r: "0 \<le> horner 32 ds" "horner 32 ds < 2 ^ 40"
      using horner_range [OF ds(2)] ds(1) by auto
    then obtain bs where bs: "length bs = 5" "int_from_bytes bs = horner 32 ds"
      using int_from_bytes_surj by blast
    have "id_digits (horner 32 ds) = ds"
      using id_digits_horner [OF r] ds by (intro horner_inj [OF _ id_digits_range ds(2)]) (auto simp: id_digits_def)
    then have "new_task_id bs = take 2 v @ drop 2 v"
      using bs ds v(2) by (simp add: new_task_id_def encode_id_digits)
    then show "v \<in> new_task_id ` {token. length token = 5}" using bs by force
  qed (auto simp: new_task_id_is_task_id)
qed

text \<open>What makes a candidate usable: no Task row and no directory of either container.\<close>

definition task_id_free :: "(string \<Rightarrow> string \<Rightarrow> bool) \<Rightarrow> db \<Rightarrow> string \<Rightarrow> bool" where
  "task_id_free lexists d c \<longleftrightarrow> c \<notin> tk_task_id ` set (tasks d) \<and>
     \<not> lexists ''.oms'' c \<and> \<not> lexists ''.banksia'' c"

text \<open>Allocation returns the first of 128 draws that is free, which is a well-formed Task id;
  it fails, with the RuntimeError, exactly when all 128 draws are taken.
\<close>

theorem task_id_allocation:
  "(allocate_task_id lexists token_bytes d = Inr c \<longleftrightarrow>
     (\<exists>i < 128. c = new_task_id (token_bytes i) \<and> is_task_id c \<and> task_id_free lexists d c \<and>
       (\<forall>j < i. \<not> task_id_free lexists d (new_task_id (token_bytes j))))) \<and>
   (allocate_task_id lexists token_bytes d =
       Inl (RuntimeError ''could not allocate a collision-free Task identifier'') \<longleftrightarrow>
     (\<forall>i < 128. \<not> task_id_free lexists d (new_task_id (token_bytes i))))"
proof -
  have free: "task_id_free lexists d c \<longleftrightarrow> \<not> list_ex (\<lambda>t. tk_task_id t = c) (tasks d) \<and>
      \<not> list_ex (\<lambda>container. lexists container c) [''.oms'', ''.banksia'']" for c
    by (auto simp: task_id_free_def list_ex_iff)
  show ?thesis
    unfolding allocate_task_id_def allocate_id_draws allocate_id_draws_fail free
    using new_task_id_is_task_id by blast
qed

end
