(* ===== verification/CommandRuns.thy ===== *)
theory CommandRuns
  imports HumanRequests Identifiers
begin

text \<open>
  Command Runs: starting one (\<open>start_command_run\<close> of
  \<open>runtime/node_operations/external_wait_handlers.py\<close>), the transitions of its process owner
  (\<open>runtime/command_run/transitions.py\<close>), cancellation and the reads of
  \<open>runtime/command_run/service.py\<close>, and the paths of \<open>runtime/task_root/paths.py\<close> and
  \<open>runtime/command_run/task_paths.py\<close>. The process itself is outside the model: what its owner
  observes are the arguments of the transitions.
\<close>

subsection \<open>Paths\<close>

definition task_containers :: "string list" where
  "task_containers = [''.oms'', ''.banksia'']"

definition is_path_component :: "string \<Rightarrow> bool" where
  "is_path_component v \<longleftrightarrow> v \<noteq> '''' \<and> v \<noteq> ''.'' \<and> v \<noteq> ''..'' \<and>
     set v \<inter> {CHR ''/'', CHR 0x5C, CHR 0x00} = {}"

definition command_run_output_path :: "ident \<Rightarrow> ident \<Rightarrow> string \<Rightarrow> string result" where
  "command_run_output_path task run container =
     (if \<not> is_path_component task then Inl (ValueError ''Task ID is not a safe path component'')
      else if \<not> is_path_component run
      then Inl (ValueError ''command run ID is not a safe path component'')
      else if container \<notin> set task_containers then Inl (ValueError ''unsupported Task container'')
      else Inr (container @ ''/'' @ task @ ''/command-runs/'' @ run @ ''/output.log''))"

fun split_slash :: "string \<Rightarrow> string list" where
  "split_slash [] = [[]]"
| "split_slash (c # cs) =
     (if c = CHR ''/'' then [] # split_slash cs
      else (case split_slash cs of [] \<Rightarrow> [[c]] | p # ps \<Rightarrow> (c # p) # ps))"

definition is_ascii_letter :: "char \<Rightarrow> bool" where
  "is_ascii_letter c \<longleftrightarrow> (of_char c :: nat) \<in> {65..90} \<union> {97..122}"

text \<open>\<open>str.isalpha\<close> on the characters up to U+00FF.\<close>

definition is_alpha :: "char \<Rightarrow> bool" where
  "is_alpha c \<longleftrightarrow> is_ascii_letter c \<or>
     (of_char c :: nat) \<in> {170, 181, 186} \<union> {192..214} \<union> {216..246} \<union> {248..255}"

definition normalize_command_working_directory :: "string \<Rightarrow> string result" where
  "normalize_command_working_directory v =
     (if v = '''' \<or> CHR 0x00 \<in> set v \<or> CHR 0x5C \<in> set v \<or> List.hd v = CHR ''/''
      then Inl (ValueError ''command cwd must be a normalized workspace-relative directory'')
      else if 2 \<le> length v \<and> is_alpha (v ! 0) \<and> v ! 1 = CHR '':''
      then Inl (ValueError ''command cwd must be a normalized workspace-relative directory'')
      else if v = ''.'' then Inr v
      else if list_ex (\<lambda>p. p \<in> {'''', ''.'', ''..''}) (split_slash v)
      then Inl (ValueError ''command cwd must be a normalized workspace-relative directory'')
      else Inr v)"

definition normalize_command_cwd :: "string option \<Rightarrow> string option result" where
  "normalize_command_cwd cwd =
     (case cwd of None \<Rightarrow> Inr None
      | Some v \<Rightarrow> (case normalize_command_working_directory v of
          Inr p \<Rightarrow> Inr (Some p)
        | Inl (ValueError s) \<Rightarrow> Inl (RuntimeOperationError INVALID_TASK_PATH s False)
        | Inl e \<Rightarrow> Inl e))"

text \<open>
  \<open>CommandProcessPaths.create_output_file\<close>, up to the creation of the file: the stored path
  must be the path below the container the Task root lies in.
\<close>

definition check_output_file_path :: "ident \<Rightarrow> ident \<Rightarrow> string \<Rightarrow> string \<Rightarrow> unit result" where
  "check_output_file_path task run container output_path =
     and_then (command_run_output_path task run container) (\<lambda>expected.
       require_that (ValueError ''command output path does not match its Task and Command IDs'')
         (output_path = expected))"

subsection \<open>Command lines\<close>

text \<open>\<open>shlex.quote\<close> and \<open>shlex.join\<close>.\<close>

definition is_safe_shell_character :: "char \<Rightarrow> bool" where
  "is_safe_shell_character c \<longleftrightarrow> is_ascii_letter c \<or> (of_char c :: nat) \<in> {48..57} \<or>
     c \<in> set ''_@%+=:,./-''"

definition shlex_quote :: "string \<Rightarrow> string" where
  "shlex_quote s =
     (if s = '''' then [CHR 0x27, CHR 0x27]
      else if list_all is_safe_shell_character s then s
      else [CHR 0x27] @ concat (map (\<lambda>c. if c = CHR 0x27
          then [CHR 0x27, CHR 0x22, CHR 0x27, CHR 0x22, CHR 0x27] else [c]) s) @ [CHR 0x27])"

fun join_blank :: "string list \<Rightarrow> string" where
  "join_blank [] = ''''"
| "join_blank [s] = s"
| "join_blank (s # ss) = s @ '' '' @ join_blank ss"

fun command_display :: "command_spec \<Rightarrow> string" where
  "command_display (CommandArgv argv) = join_blank (map shlex_quote argv)"
| "command_display (CommandShell command) = command"

subsection \<open>Starting\<close>

record command_start_request =
  cq_command :: command_spec
  cq_cwd :: "string option"
  cq_timeout_seconds :: "int option"
  cq_description :: string

text \<open>
  The checks of \<open>normalize_exact_text\<close> on a text that is already normal: its characters, white
  space and UTF-8 length, read from the bits of the characters.
\<close>

definition is_text_character :: "char \<Rightarrow> bool" where
  "is_text_character c \<longleftrightarrow> digit5 c \<or> digit6 c \<or> digit7 c \<or> c \<in> {CHR 0x09, CHR 0x0A, CHR 0x0D}"

definition is_blank_character :: "char \<Rightarrow> bool" where
  "is_blank_character c \<longleftrightarrow> c \<in> {CHR 0x09, CHR 0x0A, CHR 0x0B, CHR 0x0C, CHR 0x0D,
     CHR 0x1C, CHR 0x1D, CHR 0x1E, CHR 0x1F, CHR 0x20, CHR 0x85, CHR 0xA0}"

definition accepted_text :: "nat option \<Rightarrow> bool \<Rightarrow> string \<Rightarrow> bool" where
  "accepted_text max_utf8_bytes nonblank s \<longleftrightarrow>
     list_all is_text_character s \<and> (nonblank \<longrightarrow> \<not> list_all is_blank_character s) \<and>
     (case max_utf8_bytes of None \<Rightarrow> True
      | Some n \<Rightarrow> sum_list (map (\<lambda>c. if digit7 c then 2 else 1) s) \<le> n)"

fun command_spec_ok :: "command_spec \<Rightarrow> bool" where
  "command_spec_ok (CommandArgv argv) \<longleftrightarrow> argv \<noteq> [] \<and> length argv \<le> 256 \<and> List.hd argv \<noteq> [] \<and>
     list_all (\<lambda>a. accepted_text None False a \<and> length a \<le> 4096) argv"
| "command_spec_ok (CommandShell command) \<longleftrightarrow> accepted_text (Some 16384) True command"

text \<open>
  The bounds of \<open>CommandRunStartRequest\<close> and of its command on the normalised texts;
  \<open>RuntimeSchemaText\<close> strips white space, which in pydantic lacks the separators 1C to 1F, and
  refuses the empty rest.
\<close>

definition validate_start_request :: "command_start_request \<Rightarrow> command_start_request result" where
  "validate_start_request rq =
     (if \<not> command_spec_ok (cq_command rq) then Inl invalid_field
      else if (case cq_cwd rq of None \<Rightarrow> False | Some p \<Rightarrow>
          list_all (\<lambda>c. is_blank_character c \<and> c \<notin> {CHR 0x1C, CHR 0x1D, CHR 0x1E, CHR 0x1F}) p)
      then Inl invalid_field
      else if (case cq_timeout_seconds rq of None \<Rightarrow> False | Some n \<Rightarrow> n < 1 \<or> 86400 < n)
      then Inl invalid_field
      else if \<not> (accepted_text None True (cq_description rq) \<and> length (cq_description rq) \<le> 2048)
      then Inl invalid_field
      else Inr rq)"

text \<open>These checks are those of the text contract.\<close>

lemma character_of_char:
  "is_xml_character (of_char c) \<longleftrightarrow> is_text_character c"
  "is_space (of_char c) \<longleftrightarrow> is_blank_character c"
  "utf8_width (of_char c) = (if digit7 c then 2 else 1)"
proof -
  obtain b0 b1 b2 b3 b4 b5 b6 b7 where c: "c = Char b0 b1 b2 b3 b4 b5 b6 b7" by (cases c)
  show "is_xml_character (of_char c) \<longleftrightarrow> is_text_character c"
    unfolding c is_text_character_def is_xml_character_def of_char_Char
    by (cases b0; cases b1; cases b2; cases b3; cases b4; cases b5; cases b6; cases b7; simp)
  show "is_space (of_char c) \<longleftrightarrow> is_blank_character c"
    unfolding c is_blank_character_def is_space_def of_char_Char
    by (cases b0; cases b1; cases b2; cases b3; cases b4; cases b5; cases b6; cases b7; simp)
  show "utf8_width (of_char c) = (if digit7 c then 2 else 1)"
    unfolding c utf8_width_def of_char_Char
    by (cases b0; cases b1; cases b2; cases b3; cases b4; cases b5; cases b6; cases b7; simp)
qed

lemma accepted_text_iff:
  assumes "CHR 0x0D \<notin> set s"
  shows "accepted_text limit nonblank s \<longleftrightarrow>
    normalize_exact_text limit nonblank (map of_char s) = Inr (map of_char s)"
proof -
  have "(0xD :: nat) \<notin> of_char ` set s"
  proof
    assume "(0xD :: nat) \<in> of_char ` set s"
    then obtain c where c: "c \<in> set s" "(of_char c :: nat) = of_char (CHR 0x0D)" by auto
    from c(2) have "c = CHR 0x0D" by (rule injD [OF inj_of_char])
    with c(1) assms show False by blast
  qed
  then have "unix_lines (map of_char s) = map of_char s" by (intro unix_lines_id) simp
  moreover have "strip (map of_char s) = [] \<longleftrightarrow> list_all is_blank_character s"
    by (simp add: strip_Nil_iff character_of_char list_all_iff)
  moreover have "utf8_length (map of_char s) = sum_list (map (\<lambda>c. if digit7 c then 2 else 1) s)"
    by (induction s) (simp_all add: character_of_char)
  ultimately show ?thesis
    by (auto simp: accepted_text_def normalize_exact_text_Inr character_of_char list_all_iff split: option.splits)
qed

definition new_command_run_row ::
    "node_authority \<Rightarrow> ident \<Rightarrow> command_start_request \<Rightarrow> string option \<Rightarrow> string \<Rightarrow> time \<Rightarrow> command_run_row" where
  "new_command_run_row au run rq cwd output_path now =
     \<lparr>cr_run_id = run, cr_task_id = na_task_id au, cr_assignment_id = na_assignment_id au,
      cr_attempt_id = na_attempt_id au, cr_source_dispatch_id = na_dispatch_id au,
      cr_command_spec = cq_command rq, cr_cwd = cwd, cr_summary = cq_description rq,
      cr_timeout_seconds = cq_timeout_seconds rq, cr_due_at = None, cr_output_path = output_path,
      cr_output_observed_bytes = 0, cr_output_written_bytes = 0, cr_output_complete = False,
      cr_state = PendingStart, cr_ownership_revision = 0, cr_process_metadata = None,
      cr_cancellation_requested_at = None, cr_cancellation_requested_by = None,
      cr_terminal_summary = None, cr_terminal_exit_code = None, cr_terminal_failure_code = None,
      cr_terminal_event_source = None, cr_terminal_actor_ref = None,
      cr_successor_dispatch_id = None, cr_created_at = now, cr_started_at = None,
      cr_ended_at = None\<rparr>"

definition command_wait_row :: "node_authority \<Rightarrow> ident \<Rightarrow> ident \<Rightarrow> time \<Rightarrow> wait_row" where
  "command_wait_row au run wait now =
     \<lparr>aw_wait_id = wait, aw_task_id = na_task_id au, aw_assignment_id = na_assignment_id au,
      aw_attempt_id = na_attempt_id au, aw_source_dispatch_id = na_dispatch_id au,
      aw_delegation_wave_id = None, aw_human_request_id = None,
      aw_command_run_id = Some run, aw_created_at = now\<rparr>"

fun json_int_opt :: "int option \<Rightarrow> json" where
  "json_int_opt None = JNull"
| "json_int_opt (Some n) = JInt n"

definition command_run_opened_event ::
    "node_authority \<Rightarrow> ident \<Rightarrow> command_start_request \<Rightarrow> string option \<Rightarrow> string \<Rightarrow> time \<Rightarrow> event_draft" where
  "command_run_opened_event au run rq cwd output_path now =
     \<lparr>ed_task_id = na_task_id au, ed_event_type = COMMAND_RUN_OPENED, ed_event_source = SrcNode,
      ed_occurred_at = now, ed_team_revision_id = Some (na_team_revision_id au),
      ed_dispatch_id = Some (na_dispatch_id au), ed_attempt_id = Some (na_attempt_id au),
      ed_member_id = Some (na_member_id au), ed_actor_ref = None,
      ed_payload =
        [(''run_id'', JStr run), (''source_dispatch_id'', JStr (na_dispatch_id au)),
         (''state'', JStr (command_state_value PendingStart)),
         (''command'', JStr (command_display (cq_command rq))),
         (''description'', JStr (cq_description rq)), (''workdir'', json_opt cwd),
         (''created_at'', JInt now), (''timeout_seconds'', json_int_opt (cq_timeout_seconds rq)),
         (''ownership_revision'', JInt 0), (''output_path'', JStr output_path)]\<rparr>"

record command_fresh =
  cx_token_bytes :: "nat \<Rightarrow> 8 word list"
  cx_wait_hex :: string

text \<open>
  \<open>lexists\<close> answers for the parent directory of a candidate's output path below a workspace.
\<close>

definition start_command_run ::
    "env \<Rightarrow> (string \<Rightarrow> string \<Rightarrow> bool) \<Rightarrow> command_fresh \<Rightarrow> node_authority \<Rightarrow> command_start_request \<Rightarrow>
       db \<Rightarrow> ((ident \<times> string) \<times> db) result" where
  "start_command_run env lexists fx au rq d =
     and_then (read_workspace_path (na_task_id au) d) (\<lambda>workspace.
     and_then (allocate_command_run_id
         (\<lambda>c. lexists workspace (''.oms/'' @ na_task_id au @ ''/command-runs/'' @ c))
         (cx_token_bytes fx) d) (\<lambda>run.
     and_then (command_run_output_path (na_task_id au) run ''.oms'') (\<lambda>output_path.
     and_then (normalize_command_cwd (cq_cwd rq)) (\<lambda>cwd.
     and_then (insert_command_run
         (new_command_run_row au run rq cwd output_path (env_now env)) (command_runs d)) (\<lambda>rs.
     and_then (insert_wait (command_wait_row au run (''attempt-wait.'' @ cx_wait_hex fx) (env_now env))
         (waits d)) (\<lambda>ws.
     and_then (suspend_current_attempt au (''attempt-wait.'' @ cx_wait_hex fx) (env_now env)
         CCommandRunWait (d\<lparr>command_runs := rs, waits := ws\<rparr>)) (\<lambda>d1.
     and_then (append_task_event env
         (command_run_opened_event au run rq cwd output_path (env_now env)) d1) (\<lambda>d2.
       Inr ((run, output_path), d2)))))))))"

subsection \<open>Launching\<close>

record command_run_launch_claim =
  lc_run_id :: ident
  lc_task_id :: ident
  lc_assignment_id :: ident
  lc_attempt_id :: ident
  lc_source_dispatch_id :: ident
  lc_ownership_revision :: int
  lc_request :: command_start_request
  lc_output_path :: string

definition command_run_request_from_model :: "command_run_row \<Rightarrow> command_start_request result" where
  "command_run_request_from_model r =
     validate_start_request \<lparr>cq_command = cr_command_spec r, cq_cwd = cr_cwd r,
       cq_timeout_seconds = cr_timeout_seconds r, cq_description = cr_summary r\<rparr>"

definition launching_metadata :: "string \<Rightarrow> time \<Rightarrow> json" where
  "launching_metadata owner claimed_at = JObj [(''owner_ref'', JStr owner),
     (''phase'', JStr ''launching''), (''claimed_at'', JInt claimed_at)]"

definition running_metadata :: "string \<Rightarrow> int \<Rightarrow> json" where
  "running_metadata owner pid = JObj [(''owner_ref'', JStr owner),
     (''phase'', JStr ''running''), (''pid'', JInt pid)]"

definition claimable :: "command_run_row \<Rightarrow> bool" where
  "claimable r \<longleftrightarrow> cr_state r = PendingStart \<and> cr_ownership_revision r = 0 \<and>
     cr_process_metadata r = None"

definition claim_command_run_launch ::
    "ident \<Rightarrow> string \<Rightarrow> time \<Rightarrow> db \<Rightarrow> (command_run_launch_claim option \<times> db) result" where
  "claim_command_run_launch run owner claimed_at d =
     (case find (\<lambda>r. cr_run_id r = run \<and> claimable r) (command_runs d) of
        None \<Rightarrow> Inr (None, d)
      | Some source \<Rightarrow>
          and_then (command_run_request_from_model source) (\<lambda>request.
          and_then (update_checked ck_command_run
              (\<lambda>r. cr_task_id r = cr_task_id source \<and> cr_run_id r = cr_run_id source \<and>
                cr_state r = PendingStart \<and>
                cr_ownership_revision r = cr_ownership_revision source \<and>
                cr_process_metadata r = None)
              (\<lambda>r. r\<lparr>cr_ownership_revision := cr_ownership_revision source + 1,
                cr_process_metadata := Some (launching_metadata owner claimed_at)\<rparr>)
              (command_runs d)) (\<lambda>claimed. case claimed of
              None \<Rightarrow> Inr (None, d)
            | Some rs \<Rightarrow> Inr (Some \<lparr>lc_run_id = cr_run_id source, lc_task_id = cr_task_id source,
                lc_assignment_id = cr_assignment_id source, lc_attempt_id = cr_attempt_id source,
                lc_source_dispatch_id = cr_source_dispatch_id source,
                lc_ownership_revision = cr_ownership_revision source + 1, lc_request = request,
                lc_output_path = cr_output_path source\<rparr>, d\<lparr>command_runs := rs\<rparr>))))"

definition command_run_started_event ::
    "command_run_launch_claim \<Rightarrow> time \<Rightarrow> time option \<Rightarrow> event_draft" where
  "command_run_started_event claim started_at due_at =
     \<lparr>ed_task_id = lc_task_id claim, ed_event_type = COMMAND_RUN_STARTED,
      ed_event_source = SrcController, ed_occurred_at = started_at, ed_team_revision_id = None,
      ed_dispatch_id = Some (lc_source_dispatch_id claim), ed_attempt_id = Some (lc_attempt_id claim),
      ed_member_id = None, ed_actor_ref = None,
      ed_payload =
        [(''run_id'', JStr (lc_run_id claim)),
         (''source_dispatch_id'', JStr (lc_source_dispatch_id claim)),
         (''state'', JStr (command_state_value CmdRunning)),
         (''command'', JStr (command_display (cq_command (lc_request claim)))),
         (''description'', JStr (cq_description (lc_request claim))),
         (''workdir'', json_opt (cq_cwd (lc_request claim))), (''started_at'', JInt started_at),
         (''ownership_revision'', JInt (lc_ownership_revision claim)),
         (''due_at'', json_time due_at), (''output_path'', JStr (lc_output_path claim))]\<rparr>"

definition mark_command_run_running ::
    "env \<Rightarrow> command_run_launch_claim \<Rightarrow> string \<Rightarrow> int \<Rightarrow> time \<Rightarrow> time option \<Rightarrow> db \<Rightarrow>
       ((int \<times> time option) option \<times> db) result" where
  "mark_command_run_running env claim owner pid started_at due_at d =
     and_then (update_checked ck_command_run
         (\<lambda>r. cr_run_id r = lc_run_id claim \<and> cr_task_id r = lc_task_id claim \<and>
           cr_state r = PendingStart \<and> cr_ownership_revision r = lc_ownership_revision claim)
         (\<lambda>r. r\<lparr>cr_state := CmdRunning, cr_started_at := Some started_at, cr_due_at := due_at,
           cr_process_metadata := Some (running_metadata owner pid)\<rparr>) (command_runs d))
     (\<lambda>marked. case marked of
        None \<Rightarrow> Inr (None, d)
      | Some rs \<Rightarrow>
          and_then (append_task_event env (command_run_started_event claim started_at due_at)
            (d\<lparr>command_runs := rs\<rparr>))
          (\<lambda>d1. Inr (Some (lc_ownership_revision claim, due_at), d1)))"

subsection \<open>Terminal states\<close>

record command_terminal_request =
  ct_state :: command_state
  ct_summary :: string
  ct_ended_at :: time
  ct_exit_code :: "int option"
  ct_failure_code :: "string option"
  ct_expected_due_at :: "time option"
  ct_should_match_due_at :: bool
  ct_event_source :: event_source
  ct_actor_ref :: "string option"
  ct_output_observed_bytes :: "int option"
  ct_output_written_bytes :: "int option"
  ct_is_output_complete :: "bool option"

fun terminal_event_type :: "command_state \<Rightarrow> event_type option" where
  "terminal_event_type CmdSucceeded = Some COMMAND_RUN_SUCCEEDED"
| "terminal_event_type CmdFailed = Some COMMAND_RUN_FAILED"
| "terminal_event_type CmdTimedOut = Some COMMAND_RUN_TIMED_OUT"
| "terminal_event_type CmdCancelled = Some COMMAND_RUN_CANCELLED"
| "terminal_event_type CmdAbandoned = Some COMMAND_RUN_ABANDONED"
| "terminal_event_type _ = None"

definition validate_terminal_transition :: "command_state \<Rightarrow> string option \<Rightarrow> event_type result" where
  "validate_terminal_transition state failure_code =
     and_then (require (ValueError ''command state is not terminal'') (terminal_event_type state))
     (\<lambda>t. if state = CmdAbandoned \<and> failure_code \<noteq> Some ''command_ownership_lost''
       then Inl (ValueError ''abandoned command runs require command_ownership_lost'') else Inr t)"

record output_facts =
  of_observed_bytes :: int
  of_written_bytes :: int
  of_is_complete :: bool
  of_should_persist :: bool

definition resolve_terminal_output_facts ::
    "command_run_row \<Rightarrow> command_terminal_request \<Rightarrow> output_facts result" where
  "resolve_terminal_output_facts source q =
     (case (ct_output_observed_bytes q, ct_output_written_bytes q, ct_is_output_complete q) of
        (None, None, None) \<Rightarrow> Inr \<lparr>of_observed_bytes = cr_output_observed_bytes source,
          of_written_bytes = cr_output_written_bytes source,
          of_is_complete = cr_output_complete source, of_should_persist = False\<rparr>
      | (Some observed, Some written, Some complete) \<Rightarrow>
          if observed < written
          then Inl (ValueError ''command output written bytes cannot exceed observed bytes'')
          else if complete \<and> written \<noteq> observed
          then Inl (ValueError ''complete command output requires every observed byte to be written'')
          else Inr \<lparr>of_observed_bytes = observed, of_written_bytes = written,
            of_is_complete = complete, of_should_persist = True\<rparr>
      | _ \<Rightarrow> Inl (ValueError ''command output terminal facts must be supplied together''))"

definition apply_terminal :: "command_terminal_request \<Rightarrow> output_facts \<Rightarrow> command_run_row \<Rightarrow> command_run_row" where
  "apply_terminal q facts r =
     (let r' = r\<lparr>cr_state := ct_state q, cr_ended_at := Some (ct_ended_at q),
          cr_terminal_summary := Some (ct_summary q), cr_terminal_exit_code := ct_exit_code q,
          cr_terminal_failure_code := ct_failure_code q,
          cr_terminal_event_source := Some TermProcessOwner,
          cr_terminal_actor_ref := ct_actor_ref q, cr_process_metadata := None\<rparr>
      in if of_should_persist facts
         then r'\<lparr>cr_output_observed_bytes := of_observed_bytes facts,
           cr_output_written_bytes := of_written_bytes facts,
           cr_output_complete := of_is_complete facts\<rparr>
         else r')"

definition command_wait_matches :: "command_run_row \<Rightarrow> wait_row \<Rightarrow> bool" where
  "command_wait_matches r w \<longleftrightarrow>
     aw_task_id w = cr_task_id r \<and> aw_assignment_id w = cr_assignment_id r \<and>
     aw_attempt_id w = cr_attempt_id r \<and> aw_source_dispatch_id w = cr_source_dispatch_id r \<and>
     aw_command_run_id w = Some (cr_run_id r) \<and> aw_human_request_id w = None \<and>
     aw_delegation_wave_id w = None"

definition clear_matching_attempt_wait :: "command_run_row \<Rightarrow> db \<Rightarrow> db option" where
  "clear_matching_attempt_wait source d =
     (case find (command_wait_matches source) (waits d) of
        None \<Rightarrow> None
      | Some w \<Rightarrow> Option.bind (clear_current_attempt_wait
            \<lparr>wi_task_id = cr_task_id source, wi_assignment_id = cr_assignment_id source,
             wi_attempt_id = cr_attempt_id source, wi_wait_id = aw_wait_id w\<rparr> d)
          (\<lambda>d1. map_option (\<lambda>ws. d1\<lparr>waits := ws\<rparr>)
            (delete_where (\<lambda>v. aw_wait_id v = aw_wait_id w \<and> command_wait_matches source v) (waits d1))))"

definition cancelled_owner_accepts_terminal_state ::
    "command_run_row \<Rightarrow> command_state \<Rightarrow> int \<Rightarrow> db \<Rightarrow> bool" where
  "cancelled_owner_accepts_terminal_state source terminal revision d \<longleftrightarrow>
     cr_state source = CancellationRequested \<and> terminal \<in> {CmdCancelled, CmdAbandoned} \<and>
     list_ex (\<lambda>t. tk_task_id t = cr_task_id source \<and> tk_status t = TaskCancelled) (tasks d) \<and>
     list_ex (\<lambda>a. at_task_id a = cr_task_id source \<and> at_assignment_id a = cr_assignment_id source \<and>
         at_attempt_id a = cr_attempt_id source \<and> at_status a = AttCancelled \<and>
         at_current_dispatch_id a = None \<and> at_current_wait_id a = None) (attempts d) \<and>
     list_ex (\<lambda>r. cr_task_id r = cr_task_id source \<and> cr_run_id r = cr_run_id source \<and>
         cr_assignment_id r = cr_assignment_id source \<and> cr_attempt_id r = cr_attempt_id source \<and>
         cr_source_dispatch_id r = cr_source_dispatch_id source \<and> cr_state r = terminal \<and>
         cr_ownership_revision r = revision \<and> cr_successor_dispatch_id r = None) (command_runs d) \<and>
     \<not> list_ex (\<lambda>w. aw_task_id w = cr_task_id source \<and> aw_assignment_id w = cr_assignment_id source \<and>
         aw_attempt_id w = cr_attempt_id source \<and>
         aw_source_dispatch_id w = cr_source_dispatch_id source \<and>
         aw_command_run_id w = Some (cr_run_id source)) (waits d)"

definition command_terminal_event ::
    "command_run_row \<Rightarrow> int \<Rightarrow> event_type \<Rightarrow> command_terminal_request \<Rightarrow> output_facts \<Rightarrow> event_draft" where
  "command_terminal_event source revision etype q facts =
     \<lparr>ed_task_id = cr_task_id source, ed_event_type = etype, ed_event_source = ct_event_source q,
      ed_occurred_at = ct_ended_at q, ed_team_revision_id = None,
      ed_dispatch_id = Some (cr_source_dispatch_id source), ed_attempt_id = Some (cr_attempt_id source),
      ed_member_id = None, ed_actor_ref = ct_actor_ref q,
      ed_payload =
        [(''run_id'', JStr (cr_run_id source)),
         (''source_dispatch_id'', JStr (cr_source_dispatch_id source)),
         (''state'', JStr (command_state_value (ct_state q))), (''summary'', JStr (ct_summary q)),
         (''started_at'', json_time (cr_started_at source)), (''ended_at'', JInt (ct_ended_at q)),
         (''exit_code'', json_int_opt (ct_exit_code q)),
         (''failure_code'', json_opt (ct_failure_code q)), (''ownership_revision'', JInt revision),
         (''output_path'', JStr (cr_output_path source)),
         (''output_observed_bytes'', JInt (of_observed_bytes facts)),
         (''output_written_bytes'', JInt (of_written_bytes facts)),
         (''output_complete'', JBool (of_is_complete facts))]\<rparr>"

definition terminalize_command_run ::
    "env \<Rightarrow> ident \<Rightarrow> ident \<Rightarrow> int \<Rightarrow> command_state list \<Rightarrow> command_terminal_request \<Rightarrow> db \<Rightarrow>
       (bool \<times> db) result" where
  "terminalize_command_run env task run revision expected_states q d =
     and_then (validate_terminal_transition (ct_state q) (ct_failure_code q)) (\<lambda>etype.
       case find (\<lambda>r. cr_task_id r = task \<and> cr_run_id r = run \<and> cr_ownership_revision r = revision \<and>
           cr_state r \<in> set expected_states) (command_runs d) of
         None \<Rightarrow> Inr (False, d)
       | Some source \<Rightarrow>
           if ct_should_match_due_at q \<and> cr_due_at source \<noteq> ct_expected_due_at q then Inr (False, d)
           else and_then (resolve_terminal_output_facts source q) (\<lambda>facts.
             and_then (update_checked ck_command_run
               (\<lambda>r. cr_task_id r = cr_task_id source \<and> cr_run_id r = cr_run_id source \<and>
                 cr_ownership_revision r = revision \<and> cr_state r \<in> set expected_states \<and>
                 (ct_should_match_due_at q \<longrightarrow> cr_due_at r = ct_expected_due_at q))
               (apply_terminal q facts) (command_runs d)) (\<lambda>won. case won of
               None \<Rightarrow> Inr (False, d)
             | Some rs \<Rightarrow>
                 (case (case clear_matching_attempt_wait source (d\<lparr>command_runs := rs\<rparr>) of
                     Some d1 \<Rightarrow> Some d1
                   | None \<Rightarrow> if cancelled_owner_accepts_terminal_state source (ct_state q) revision
                         (d\<lparr>command_runs := rs\<rparr>)
                       then Some (d\<lparr>command_runs := rs\<rparr>) else None) of
                   None \<Rightarrow> Inr (False, d)
                 | Some d1 \<Rightarrow>
                     and_then (append_task_event env
                       (command_terminal_event source revision etype q facts) d1)
                     (\<lambda>d2. Inr (True, d2))))))"

subsection \<open>Cancellation\<close>

definition command_run_conflict :: "ident \<Rightarrow> string \<Rightarrow> failure" where
  "command_run_conflict run s = conflict_error (''command run '' @ quoted run @ s)"

definition command_run_for_task :: "ident \<Rightarrow> ident \<Rightarrow> db \<Rightarrow> command_run_row option" where
  "command_run_for_task task run d =
     find (\<lambda>r. cr_task_id r = task \<and> cr_run_id r = run) (command_runs d)"

definition current_command_wait_exists :: "command_run_row \<Rightarrow> bool \<Rightarrow> db \<Rightarrow> bool" where
  "current_command_wait_exists source cancelled_task_allowed d \<longleftrightarrow>
     list_ex (\<lambda>t. tk_task_id t = cr_task_id source \<and>
         (tk_status t = TaskRunning \<or> tk_status t = TaskPaused \<or>
          cancelled_task_allowed \<and> tk_status t = TaskCancelled)) (tasks d) \<and>
     list_ex (\<lambda>w. command_wait_matches source w \<and>
         list_ex (\<lambda>a. at_attempt_id a = cr_attempt_id source \<and> at_task_id a = cr_task_id source \<and>
           at_assignment_id a = cr_assignment_id source \<and> at_status a = AttRunning \<and>
           at_current_dispatch_id a = None \<and> at_current_wait_id a = Some (aw_wait_id w))
           (attempts d)) (waits d)"

definition command_cancel_requested_event ::
    "command_run_row \<Rightarrow> string option \<Rightarrow> event_source \<Rightarrow> time \<Rightarrow> event_draft" where
  "command_cancel_requested_event source actor src now =
     \<lparr>ed_task_id = cr_task_id source, ed_event_type = COMMAND_RUN_CANCEL_REQUESTED,
      ed_event_source = src, ed_occurred_at = now, ed_team_revision_id = None,
      ed_dispatch_id = Some (cr_source_dispatch_id source), ed_attempt_id = Some (cr_attempt_id source),
      ed_member_id = None, ed_actor_ref = actor,
      ed_payload =
        [(''run_id'', JStr (cr_run_id source)),
         (''source_dispatch_id'', JStr (cr_source_dispatch_id source)),
         (''state'', JStr (command_state_value CancellationRequested)),
         (''requested_at'', JInt now),
         (''ownership_revision'', JInt (cr_ownership_revision source))]\<rparr>"

definition apply_cancellation_request :: "string option \<Rightarrow> time \<Rightarrow> command_run_row \<Rightarrow> command_run_row" where
  "apply_cancellation_request actor now r =
     r\<lparr>cr_state := CancellationRequested, cr_cancellation_requested_at := Some now,
       cr_cancellation_requested_by := actor\<rparr>"

text \<open>
  \<open>request_command_run_cancellation\<close>: the source and whether it changed, in the transaction
  of the caller.
\<close>

definition request_command_run_cancellation ::
    "env \<Rightarrow> ident \<Rightarrow> ident \<Rightarrow> string option \<Rightarrow> event_source \<Rightarrow> bool \<Rightarrow> bool \<Rightarrow> db \<Rightarrow>
       ((command_run_row \<times> bool) \<times> db) result" where
  "request_command_run_cancellation env task run actor src already_allowed cancelled_task_allowed d =
     and_then (require (missing_resource_error (''unknown command run '' @ quoted run @ '' for task '' @ quoted task))
       (command_run_for_task task run d)) (\<lambda>source.
       if cr_state source \<in> set command_terminal_states then Inr ((source, False), d)
       else if \<not> current_command_wait_exists source cancelled_task_allowed d
       then Inl (command_run_conflict run '' no longer owns its exact Attempt wait'')
       else if cr_state source = CancellationRequested
       then (if already_allowed then Inr ((source, False), d)
         else Inl (command_run_conflict run '' already has cancellation requested''))
       else and_then (update_checked ck_command_run
           (\<lambda>r. cr_task_id r = task \<and> cr_run_id r = run \<and> cr_state r = cr_state source \<and>
             cr_ownership_revision r = cr_ownership_revision source \<and>
             current_command_wait_exists source cancelled_task_allowed d)
           (apply_cancellation_request actor (env_now env)) (command_runs d)) (\<lambda>won. case won of
           None \<Rightarrow> Inl (command_run_conflict run '' changed before cancellation'')
         | Some rs \<Rightarrow>
             and_then (append_task_event env
               (command_cancel_requested_event source actor src (env_now env))
               (d\<lparr>command_runs := rs\<rparr>)) (\<lambda>d1.
               Inr ((apply_cancellation_request actor (env_now env) source, True), d1))))"

definition cancel_command_run ::
    "env \<Rightarrow> ident \<Rightarrow> ident \<Rightarrow> string option \<Rightarrow> event_source \<Rightarrow> db \<Rightarrow>
       ((command_run_row \<times> runtime_signal list) \<times> db) result" where
  "cancel_command_run env task run actor src d =
     and_then (request_command_run_cancellation env task run actor src True False d)
     (\<lambda>((source, changed), d1). Inr ((source, if changed
        then [CommandRunCancellationRequested (cr_run_id source) (cr_ownership_revision source)]
        else []), d1))"

subsection \<open>Reading\<close>

record command_terminal_result =
  cs_state :: command_state
  cs_summary :: string
  cs_exit_code :: "int option"
  cs_ended_at :: time
  cs_failure_code :: "string option"
  cs_event_source :: terminal_source
  cs_actor_ref :: "string option"

definition terminal_result :: "command_run_row \<Rightarrow> command_terminal_result option result" where
  "terminal_result r =
     (if cr_state r \<notin> set command_terminal_states then Inr None
      else (case (cr_terminal_summary r, cr_ended_at r) of
          (Some s, Some t) \<Rightarrow> (case cr_terminal_event_source r of
              None \<Rightarrow> Inl (ValueError ''terminal command run is missing its event source'')
            | Some src \<Rightarrow>
                if cr_state r = CmdAbandoned \<and> cr_terminal_failure_code r \<noteq> Some ''command_ownership_lost''
                then Inl (ValueError ''abandoned command runs require command_ownership_lost'')
                else Inr (Some \<lparr>cs_state = cr_state r, cs_summary = s,
                  cs_exit_code = cr_terminal_exit_code r, cs_ended_at = t,
                  cs_failure_code = cr_terminal_failure_code r, cs_event_source = src,
                  cs_actor_ref = cr_terminal_actor_ref r\<rparr>))
        | _ \<Rightarrow> Inl (ValueError ''terminal command run is missing its result'')))"

definition exit_signal :: "int option \<Rightarrow> string option" where
  "exit_signal code = (case code of None \<Rightarrow> None
     | Some n \<Rightarrow> if 0 \<le> n then None else Some (decimal (nat (- n))))"

text \<open>Newest first: \<open>order_by(created_at.desc(), run_id.desc())\<close>.\<close>

definition newer_run :: "command_run_row \<Rightarrow> command_run_row \<Rightarrow> bool" where
  "newer_run r s \<longleftrightarrow> cr_created_at s < cr_created_at r \<or>
     cr_created_at r = cr_created_at s \<and> string_less_eq (cr_run_id s) (cr_run_id r)"

fun insert_newest :: "command_run_row \<Rightarrow> command_run_row list \<Rightarrow> command_run_row list" where
  "insert_newest r [] = [r]"
| "insert_newest r (s # ss) = (if newer_run r s then r # s # ss else s # insert_newest r ss)"

definition newest_first :: "command_run_row list \<Rightarrow> command_run_row list" where
  "newest_first rs = foldr insert_newest rs []"

definition after_cursor :: "command_run_row \<Rightarrow> command_run_row \<Rightarrow> bool" where
  "after_cursor c r \<longleftrightarrow> cr_created_at r < cr_created_at c \<or>
     cr_created_at r = cr_created_at c \<and> string_less_eq (cr_run_id r) (cr_run_id c) \<and>
     cr_run_id r \<noteq> cr_run_id c"

record command_run_page =
  rp_items :: "command_run_row list"
  rp_next_cursor :: "ident option"

definition list_command_runs ::
    "ident \<Rightarrow> ident option \<Rightarrow> int \<Rightarrow> db \<Rightarrow> command_run_page result" where
  "list_command_runs task cursor limit d =
     and_then (require_task_exists task d) (\<lambda>_.
       if \<not> (1 \<le> limit \<and> limit \<le> 200)
       then Inl (ValueError ''command run limit must be between 1 and 200'')
       else and_then (case cursor of
             None \<Rightarrow> Inr (filter (\<lambda>r. cr_task_id r = task) (command_runs d))
           | Some c \<Rightarrow> (case command_run_for_task task c d of
               None \<Rightarrow> Inl (conflict_error ''command run cursor is stale or unknown'')
             | Some source \<Rightarrow> Inr (filter (\<lambda>r. cr_task_id r = task \<and> after_cursor source r)
                 (command_runs d)))) (\<lambda>selected.
         let rows = take (nat limit + 1) (newest_first selected);
             page = take (nat limit) rows
         in Inr \<lparr>rp_items = page, rp_next_cursor =
              (if nat limit < length rows then Some (cr_run_id (last page)) else None)\<rparr>))"

definition read_command_run ::
    "ident \<Rightarrow> ident \<Rightarrow> db \<Rightarrow> (command_run_row \<times> command_start_request \<times> command_terminal_result option) result" where
  "read_command_run task run d =
     and_then (require (missing_resource_error (''unknown command run '' @ quoted run @ '' for task '' @ quoted task))
       (command_run_for_task task run d)) (\<lambda>r.
     and_then (command_run_request_from_model r) (\<lambda>request.
     and_then (terminal_result r) (\<lambda>res. Inr (r, request, res))))"

definition validate_command_log_range :: "int \<Rightarrow> int \<Rightarrow> unit result" where
  "validate_command_log_range offset byte_limit =
     (if offset < 0 then Inl (ValueError ''command output offset must be non-negative'')
      else if \<not> (1 \<le> byte_limit \<and> byte_limit \<le> 1048576)
      then Inl (ValueError ''command output byte limit out of range'') else Inr ())"

end
