(* ===== verification/SourceInvariant.thy ===== *)
theory SourceInvariant
  imports CommandRuns Invariant
begin

text \<open>
  External waits and their sources. \<open>humans_ok\<close> and \<open>commands_ok\<close> are the constraints of the
  two source tables with the correspondence between an open source and the wait that parks its
  Attempt: neither exists without the other, except that a Command Run of a cancelled Task
  outlives its wait until its process owner settles it.
\<close>

definition is_terminal_command :: "command_run_row \<Rightarrow> bool" where
  "is_terminal_command r \<longleftrightarrow> cr_state r \<in> set command_terminal_states"

definition task_is_cancelled :: "ident \<Rightarrow> db \<Rightarrow> bool" where
  "task_is_cancelled task d \<longleftrightarrow> (\<exists>t \<in> set (tasks d). tk_task_id t = task \<and> tk_status t = TaskCancelled)"

definition humans_ok :: "db \<Rightarrow> bool" where
  "humans_ok d \<longleftrightarrow>
     keyed hr_request_id (human_requests d) \<and>
     (\<forall>h \<in> set (human_requests d). ck_human_request h) \<and>
     (\<forall>h \<in> set (human_requests d). hr_status h = HumanOpen \<longrightarrow>
        (\<exists>w \<in> set (waits d). human_wait_matches h w)) \<and>
     (\<forall>w \<in> set (waits d). aw_human_request_id w \<noteq> None \<longrightarrow>
        (\<exists>h \<in> set (human_requests d). hr_status h = HumanOpen \<and> human_wait_matches h w))"

definition commands_ok :: "db \<Rightarrow> bool" where
  "commands_ok d \<longleftrightarrow>
     keyed cr_run_id (command_runs d) \<and>
     (\<forall>r \<in> set (command_runs d). ck_command_run r) \<and>
     (\<forall>r \<in> set (command_runs d). \<not> is_terminal_command r \<longrightarrow>
        (\<exists>w \<in> set (waits d). command_wait_matches r w) \<or>
        cr_state r = CancellationRequested \<and> task_is_cancelled (cr_task_id r) d) \<and>
     (\<forall>w \<in> set (waits d). aw_command_run_id w \<noteq> None \<longrightarrow>
        (\<exists>r \<in> set (command_runs d). \<not> is_terminal_command r \<and> command_wait_matches r w))"

text \<open>The whole invariant of a state of the controller.\<close>

definition runtime_ok :: "(event_row \<Rightarrow> string) \<Rightarrow> db \<Rightarrow> bool" where
  "runtime_ok H d \<longleftrightarrow> controller_ok H d \<and> humans_ok d \<and> commands_ok d"

lemma runtime_ok_parts:
  "runtime_ok H d \<Longrightarrow> controller_ok H d" "runtime_ok H d \<Longrightarrow> humans_ok d"
  "runtime_ok H d \<Longrightarrow> commands_ok d" "runtime_ok H d \<Longrightarrow> lanes_ok d"
  "runtime_ok H d \<Longrightarrow> events_ok H d"
  by (simp_all add: runtime_ok_def controller_ok_def)

lemma runtime_ok_other [simp]:
  "runtime_ok H (d\<lparr>replan_transitions := x1\<rparr>) = runtime_ok H d"
  "runtime_ok H (d\<lparr>work_plans := x2\<rparr>) = runtime_ok H d"
  "runtime_ok H (d\<lparr>work_plan_steps := x3\<rparr>) = runtime_ok H d"
  "runtime_ok H (d\<lparr>task_starts := x4\<rparr>) = runtime_ok H d"
  by (simp_all add: runtime_ok_def controller_ok_def lanes_ok_def waves_ok_def assignments_ok_def
      tasks_ok_def events_ok_def log_ok_def task_log_def humans_ok_def commands_ok_def task_is_cancelled_def)

subsection \<open>Frames\<close>

text \<open>Only the waits on a source of the kind matter.\<close>

lemma humans_ok_frame:
  assumes "human_requests d' = human_requests d"
    and w: "\<And>w. aw_human_request_id w \<noteq> None \<Longrightarrow> w \<in> set (waits d') \<longleftrightarrow> w \<in> set (waits d)"
    and "humans_ok d"
  shows "humans_ok d'"
proof -
  have m: "(\<exists>w \<in> set (waits d'). human_wait_matches h w) \<longleftrightarrow> (\<exists>w \<in> set (waits d). human_wait_matches h w)" for h
    using w by (auto simp: human_wait_matches_def)
  show ?thesis using assms(3) w unfolding humans_ok_def assms(1) m by blast
qed

lemma commands_ok_frame:
  assumes "command_runs d' = command_runs d"
    and w: "\<And>w. aw_command_run_id w \<noteq> None \<Longrightarrow> w \<in> set (waits d') \<longleftrightarrow> w \<in> set (waits d)"
    and "commands_ok d" and "\<And>t. task_is_cancelled t d \<Longrightarrow> task_is_cancelled t d'"
  shows "commands_ok d'"
proof -
  have m: "(\<exists>w \<in> set (waits d'). command_wait_matches r w) \<longleftrightarrow> (\<exists>w \<in> set (waits d). command_wait_matches r w)" for r
    using w by (auto simp: command_wait_matches_def)
  show ?thesis using assms(3,4) w unfolding commands_ok_def assms(1) m by blast
qed

lemma controller_ok_waits: "controller_ok H d \<Longrightarrow> \<forall>w \<in> set (waits d). ck_wait w"
  by (simp add: controller_ok_def lanes_ok_def)

text \<open>An event append changes neither sources nor waits.\<close>

lemma append_runtime_ok:
  assumes ok: "runtime_ok (env_event_hash env) d" and ap: "append_task_event env e d = Inr d'"
  shows "runtime_ok (env_event_hash env) d'"
proof -
  obtain es hs where d': "d' = d\<lparr>events := es, event_heads := hs\<rparr>"
    using append_task_event_frame [OF ap] by blast
  have "humans_ok d' = humans_ok d" "commands_ok d' = commands_ok d"
    unfolding d' by (simp_all add: humans_ok_def commands_ok_def task_is_cancelled_def)
  then show ?thesis
    using append_controller_ok [OF _ ap] ok by (simp add: runtime_ok_def)
qed

subsection \<open>Waking from an external wait\<close>

lemma lanes_ok_one_wait:
  assumes ok: "lanes_ok d" and "v \<in> set (waits d)" "w \<in> set (waits d)"
    and "aw_attempt_id v = aw_attempt_id w"
  shows "v = w"
proof -
  have "\<exists>a \<in> set (attempts d). attempt_owns_wait a u" if "u \<in> set (waits d)" for u
    using lanes_ok_keys(4) [OF ok] that by (auto simp: lanes_wf_def)
  then obtain a b where "a \<in> set (attempts d)" "attempt_owns_wait a v"
    "b \<in> set (attempts d)" "attempt_owns_wait b w" using assms(2,3) by meson
  moreover from this have "a = b"
    using assms(4) by (intro keyed_unique [OF lanes_ok_keys(1) [OF ok]]) (auto simp: attempt_owns_wait_def)
  ultimately show ?thesis
    using assms(2,3) by (intro keyed_unique [OF lanes_ok_keys(3) [OF ok]]) (auto simp: attempt_owns_wait_def)
qed

text \<open>The lane of a parked Attempt can always be cleared.\<close>

lemma lanes_ok_wait_owner:
  assumes ok: "lanes_ok d" and w: "w \<in> set (waits d)"
  obtains a where "a \<in> set (attempts d)" "attempt_owns_wait a w" "at_status a = AttRunning"
    "at_current_dispatch_id a = None"
proof -
  obtain a where a: "a \<in> set (attempts d)" "attempt_owns_wait a w"
    using lanes_ok_keys(4) [OF ok] w by (auto simp: lanes_wf_def)
  then have "ck_attempt a" "at_current_wait_id a \<noteq> None"
    using ok by (auto simp: lanes_ok_def attempt_owns_wait_def)
  then show thesis by (intro that [OF a]) (auto simp: ck_attempt_def)
qed

lemma wake_possible:
  assumes ok: "lanes_ok d" and w: "w \<in> set (waits d)"
    and i: "wi_task_id i = aw_task_id w" "wi_assignment_id i = aw_assignment_id w"
      "wi_attempt_id i = aw_attempt_id w" "wi_wait_id i = aw_wait_id w"
    and a: "attempts d' = attempts d"
  shows "\<exists>as. clear_current_attempt_wait i d' = Some (d'\<lparr>attempts := as\<rparr>)"
proof -
  obtain a where "a \<in> set (attempts d)" "attempt_owns_wait a w" "at_status a = AttRunning"
    "at_current_dispatch_id a = None" by (rule lanes_ok_wait_owner [OF ok w])
  then obtain as where "update_where (\<lambda>a. at_attempt_id a = wi_attempt_id i \<and> at_task_id a = wi_task_id i \<and>
      at_assignment_id a = wi_assignment_id i \<and> at_status a = AttRunning \<and>
      at_current_dispatch_id a = None \<and> at_current_wait_id a = Some (wi_wait_id i))
      (\<lambda>a. a\<lparr>at_current_wait_id := None\<rparr>) (attempts d) = Some as"
    using i by (auto simp: update_where_Some_iff attempt_owns_wait_def)
  then show ?thesis unfolding clear_current_attempt_wait_def a by auto
qed

text \<open>Deleting the one matching wait and clearing the lane that is parked on it.\<close>

lemma consume_wait:
  assumes ok: "lanes_ok d" and f: "find m (waits d) = Some w"
    and m: "\<And>v. m v \<Longrightarrow> aw_attempt_id v = wi_attempt_id i" and i: "wi_wait_id i = aw_wait_id w"
    and del: "delete_where m (waits d) = Some ws"
    and cl: "clear_current_attempt_wait i (d\<lparr>waits := ws\<rparr>) = Some d'"
  shows "w \<in> set (waits d) \<and> m w \<and> ws = filter (\<lambda>v. v \<noteq> w) (waits d) \<and>
    (\<exists>as. d' = d\<lparr>waits := ws, attempts := as\<rparr>) \<and> lanes_ok d'"
proof -
  have w: "w \<in> set (waits d)" "m w" using f by (auto dest: find_Some_D)
  have one: "v = w" if "v \<in> set (waits d)" "m v" for v
    using that w m by (intro lanes_ok_one_wait [OF ok]) auto
  have ws: "ws = filter (\<lambda>v. \<not> m v) (waits d)" using del by (simp add: delete_where_Some_iff)
  have ws': "ws = filter (\<lambda>v. v \<noteq> w) (waits d)"
    unfolding ws by (intro filter_cong refl) (use one w in blast)
  obtain as where c: "clear_current_attempt_wait i d = Some (d\<lparr>attempts := as\<rparr>)"
    and d': "d' = d\<lparr>waits := ws, attempts := as\<rparr>"
    using cl by (auto simp: clear_current_attempt_wait_def map_option_eq_Some)
  have del': "delete_where (\<lambda>v. v = w) (waits (d\<lparr>attempts := as\<rparr>)) = Some ws"
    using w ws' by (auto simp: delete_where_Some_iff)
  have "lanes_ok ((d\<lparr>attempts := as\<rparr>)\<lparr>waits := ws\<rparr>)"
    by (rule wake_lanes_ok [OF ok c del']) (use i in simp)
  moreover have "(d\<lparr>attempts := as\<rparr>)\<lparr>waits := ws\<rparr> = d'" unfolding d' by simp
  ultimately have "lanes_ok d'" by (rule back_subst)
  with w ws' d' show ?thesis by blast
qed

subsection \<open>Histories that only move forward\<close>

text \<open>
  Operations that keep an invariant and relate every state to the next one by a reflexive and
  transitive relation, so that a whole history does.
\<close>

locale forward_operation = committed_operation step inv
  for step :: "'op \<Rightarrow> db \<Rightarrow> ('r \<times> db) result" and inv :: "db \<Rightarrow> bool" +
  fixes forward :: "db \<Rightarrow> db \<Rightarrow> bool"
  assumes forward_refl: "forward d d"
    and forward_trans: "forward d d' \<Longrightarrow> forward d' d'' \<Longrightarrow> forward d d''"
    and step_forward: "step op d = Inr (r, d') \<Longrightarrow> inv d \<Longrightarrow> forward d d'"
begin

lemma commit_forward: "inv d \<Longrightarrow> forward d (commit_or_rollback step op d)"
  using step_forward forward_refl by (auto simp: commit_or_rollback_def split: sum.splits)

lemma history_forward: "inv d \<Longrightarrow> forward d (run_history step ops d)"
proof (induction ops arbitrary: d)
  case Nil
  then show ?case by (simp add: run_history_def forward_refl)
next
  case (Cons op ops)
  have "forward (commit_or_rollback step op d) (run_history step ops (commit_or_rollback step op d))"
    using Cons by (blast intro: commit_keeps)
  with commit_forward [OF Cons.prems] show ?case
    unfolding run_history_def by (auto intro: forward_trans)
qed

end

end
