(* ===== verification/CommandRunProofs.thy ===== *)
theory CommandRunProofs
  imports SourceInvariant CheckpointProofs
begin

text \<open>
  Command Runs, proved: every operation keeps the controller invariant with the correspondence
  of live runs and waits, each stored run moves along the state machine \<open>command_step\<close> and never
  leaves a terminal state, a launch is claimed once, and a terminal state is won once and is
  always reachable.
\<close>

subsection \<open>One row changes\<close>

definition command_identity :: "command_run_row \<Rightarrow> ident \<times> ident \<times> ident \<times> ident \<times> ident" where
  "command_identity r =
     (cr_run_id r, cr_task_id r, cr_assignment_id r, cr_attempt_id r, cr_source_dispatch_id r)"

lemma command_identity_wait:
  "command_identity r' = command_identity r \<Longrightarrow> command_wait_matches r' = command_wait_matches r"
  by (auto simp: command_identity_def command_wait_matches_def fun_eq_iff)

lemma commands_ok_replace:
  assumes ok: "commands_ok d" and r: "r \<in> set (command_runs d)"
    and r': "command_identity r' = command_identity r" "ck_command_run r'"
    and rows: "command_runs d' = replace_row r r' (command_runs d)" and tasks: "tasks d' = tasks d"
    and sub: "set (waits d') \<subseteq> set (waits d)"
    and kept: "\<And>u. u \<in> set (waits d) \<Longrightarrow> aw_command_run_id u \<noteq> None \<Longrightarrow>
        u \<notin> set (waits d') \<Longrightarrow> command_wait_matches r u \<and> is_terminal_command r'"
    and gone: "\<And>u. is_terminal_command r' \<Longrightarrow> u \<in> set (waits d') \<Longrightarrow> \<not> command_wait_matches r u"
    and live: "\<not> is_terminal_command r' \<Longrightarrow> \<not> is_terminal_command r \<and>
        (\<exists>u \<in> set (waits d'). command_wait_matches r u)"
  shows "commands_ok d'"
proof -
  note C = ok [unfolded commands_ok_def]
  have key: "keyed cr_run_id (command_runs d)" using C by blast
  have keyed': "keyed cr_run_id (command_runs d')"
    using keyed_replace_row [OF key, of r' r] r' by (simp add: rows command_identity_def)
  have m: "command_wait_matches r' = command_wait_matches r" by (rule command_identity_wait [OF r'(1)])
  have cases': "g = r' \<or> g \<in> set (command_runs d) \<and> g \<noteq> r" if "g \<in> set (command_runs d')" for g
    using that by (auto simp: rows replace_row_def split: if_splits)
  have new: "r' \<in> set (command_runs d')" using r by (simp add: rows set_replace_row)
  have old: "g \<in> set (command_runs d')" if "g \<in> set (command_runs d)" "g \<noteq> r" for g
    using that by (auto simp: rows replace_row_def)
  have one: "g = r" if "g \<in> set (command_runs d)" "command_wait_matches g u" "command_wait_matches r u" for g u
    using that r by (intro keyed_unique [OF key]) (auto simp: command_wait_matches_def)
  have cancelled: "task_is_cancelled t d' = task_is_cancelled t d" for t
    by (simp add: task_is_cancelled_def tasks)
  have checks: "\<forall>g \<in> set (command_runs d'). ck_command_run g" using cases' C r'(2) by blast
  have waiting: "(\<exists>u \<in> set (waits d'). command_wait_matches g u) \<or>
      cr_state g = CancellationRequested \<and> task_is_cancelled (cr_task_id g) d'"
    if g: "g \<in> set (command_runs d')" "\<not> is_terminal_command g" for g
  proof (cases "g = r'")
    case True
    then show ?thesis using live g(2) m by metis
  next
    case False
    then have g': "g \<in> set (command_runs d)" "g \<noteq> r" using cases' g(1) by blast+
    then consider u where "u \<in> set (waits d)" "command_wait_matches g u"
      | "cr_state g = CancellationRequested" "task_is_cancelled (cr_task_id g) d"
      using C g(2) by blast
    then show ?thesis
    proof cases
      case (1 u)
      then have "aw_command_run_id u \<noteq> None" by (simp add: command_wait_matches_def)
      then have "u \<in> set (waits d')" using kept one g' 1 by blast
      with 1 show ?thesis by blast
    qed (simp add: cancelled)
  qed
  have sources: "\<exists>g \<in> set (command_runs d'). \<not> is_terminal_command g \<and> command_wait_matches g u"
    if u: "u \<in> set (waits d')" "aw_command_run_id u \<noteq> None" for u
  proof -
    obtain g where g: "g \<in> set (command_runs d)" "\<not> is_terminal_command g" "command_wait_matches g u"
      using C u sub by blast
    show ?thesis
    proof (cases "g = r")
      case True
      then have "\<not> is_terminal_command r'" using gone u(1) g(3) by blast
      with new m True g(3) show ?thesis by auto
    qed (use old g in blast)
  qed
  from keyed' checks waiting sources show ?thesis unfolding commands_ok_def by blast
qed

lemma commands_ok_advance:
  assumes "commands_ok d" "r \<in> set (command_runs d)" "command_identity r' = command_identity r"
    "ck_command_run r'" "\<not> is_terminal_command r'" "\<not> is_terminal_command r"
    "\<exists>u \<in> set (waits d). command_wait_matches r u"
  shows "commands_ok (d\<lparr>command_runs := replace_row r r' (command_runs d)\<rparr>)"
  by (rule commands_ok_replace [OF assms(1-4)]) (use assms(5-) in auto)

lemma runtime_ok_commands:
  assumes ok: "runtime_ok H d" and c: "commands_ok (d\<lparr>command_runs := rs\<rparr>)"
  shows "runtime_ok H (d\<lparr>command_runs := rs\<rparr>)"
proof -
  have "controller_ok H (d\<lparr>command_runs := rs\<rparr>)" using runtime_ok_parts(1) [OF ok] by simp
  moreover have "humans_ok (d\<lparr>command_runs := rs\<rparr>)"
    by (rule humans_ok_frame [OF _ _ runtime_ok_parts(2) [OF ok]]) simp_all
  ultimately show ?thesis using c by (simp add: runtime_ok_def)
qed

text \<open>A run that is neither terminal nor in cancellation waits.\<close>

lemma live_command_waits:
  assumes "commands_ok d" "r \<in> set (command_runs d)" "cr_state r \<in> {PendingStart, CmdRunning}"
  shows "\<not> is_terminal_command r" "\<exists>u \<in> set (waits d). command_wait_matches r u"
  using assms by (auto simp: commands_ok_def is_terminal_command_def command_terminal_states_def)

text \<open>What a guarded update of one run changes.\<close>

lemma update_command_run:
  assumes ok: "commands_ok d" and up: "update_checked ck_command_run p f (command_runs d) = Inr (Some rs)"
    and p: "\<And>r. p r \<Longrightarrow> cr_run_id r = k"
  obtains r where "r \<in> set (command_runs d)" "p r" "ck_command_run (f r)"
    "rs = replace_row r (f r) (command_runs d)"
proof -
  have key: "keyed cr_run_id (command_runs d)" using ok by (simp add: commands_ok_def)
  have pk: "\<forall>r. p r \<longrightarrow> cr_run_id r = k" using p by blast
  from up have "(\<forall>r \<in> set (command_runs d). p r \<longrightarrow> ck_command_run (f r)) \<and>
      update_where p f (command_runs d) = Some rs"
    unfolding update_checked_Inr_iff by (metis)
  then show thesis using that unfolding update_unique_iff [OF key pk] by blast
qed

subsection \<open>Starting\<close>

lemma start_command_run_steps:
  assumes "start_command_run env lexists fx au rq d = Inr ((run, path), d')"
  obtains cwd rs ws d1 where
    "command_run_output_path (na_task_id au) run ''.oms'' = Inr path"
    "insert_command_run (new_command_run_row au run rq cwd path (env_now env)) (command_runs d) = Inr rs"
    "insert_wait (command_wait_row au run (''attempt-wait.'' @ cx_wait_hex fx) (env_now env)) (waits d) = Inr ws"
    "suspend_current_attempt_on_wait (authority_identity au) (''attempt-wait.'' @ cx_wait_hex fx)
       (na_team_revision_id au) (env_now env) CCommandRunWait (d\<lparr>command_runs := rs, waits := ws\<rparr>) = Some d1"
    "append_task_event env (command_run_opened_event au run rq cwd path (env_now env)) d1 = Inr d'"
proof -
  from assms obtain run' path' cwd rs ws d1 d2 where
    p: "command_run_output_path (na_task_id au) run' ''.oms'' = Inr path'" and
    rs: "insert_command_run (new_command_run_row au run' rq cwd path' (env_now env)) (command_runs d) = Inr rs" and
    ws: "insert_wait (command_wait_row au run' (''attempt-wait.'' @ cx_wait_hex fx) (env_now env)) (waits d) = Inr ws" and
    d1: "suspend_current_attempt au (''attempt-wait.'' @ cx_wait_hex fx) (env_now env) CCommandRunWait
       (d\<lparr>command_runs := rs, waits := ws\<rparr>) = Inr d1" and
    d2: "append_task_event env (command_run_opened_event au run' rq cwd path' (env_now env)) d1 = Inr d2" and
    res: "Inr ((run', path'), d2) = (Inr ((run, path), d') :: ((ident \<times> string) \<times> db) result)"
    unfolding start_command_run_def by (elim and_then_InrE) blast
  show thesis
    by (rule that [where cwd = cwd and rs = rs and ws = ws and ?d1.0 = d1])
      (use p rs ws d1 d2 res in \<open>auto simp: suspend_current_attempt_def require_Inr_iff\<close>)
qed

lemma start_command_run_runtime_ok:
  assumes ok: "runtime_ok (env_event_hash env) d"
    and st: "start_command_run env lexists fx au rq d = Inr ((run, path), d')"
  shows "runtime_ok (env_event_hash env) d'"
proof (rule start_command_run_steps [OF st])
  fix cwd rs ws d1
  let ?r = "new_command_run_row au run rq cwd path (env_now env)"
  let ?w = "command_wait_row au run (''attempt-wait.'' @ cx_wait_hex fx) (env_now env)"
  let ?d0 = "d\<lparr>command_runs := rs\<rparr>"
  assume rs: "insert_command_run ?r (command_runs d) = Inr rs"
    and ws: "insert_wait ?w (waits d) = Inr ws"
    and sus: "suspend_current_attempt_on_wait (authority_identity au) (''attempt-wait.'' @ cx_wait_hex fx)
       (na_team_revision_id au) (env_now env) CCommandRunWait (d\<lparr>command_runs := rs, waits := ws\<rparr>) = Some d1"
    and ap: "append_task_event env (command_run_opened_event au run rq cwd path (env_now env)) d1 = Inr d'"
  have c0: "controller_ok (env_event_hash env) ?d0" using runtime_ok_parts(1) [OF ok] by simp
  have c1: "controller_ok (env_event_hash env) d1"
    by (rule park_on_new_wait_controller_ok [OF c0, of ?w ws, where reason = CCommandRunWait])
      (use ws sus in \<open>auto simp: command_wait_row_def authority_identity_def\<close>)
  obtain ds as where d1: "d1 = ?d0\<lparr>waits := ws, dispatches := ds, attempts := as\<rparr>"
    by (rule suspend_current_attempt_on_wait_frame [OF sus])
  note R = insert_command_run_Inr [OF rs] and W = insert_wait_Inr [OF ws]
  have m: "command_wait_matches ?r ?w" "\<not> is_terminal_command ?r"
    by (simp_all add: command_wait_matches_def command_wait_row_def new_command_run_row_def
      is_terminal_command_def command_terminal_states_def)
  have "humans_ok d1"
    by (rule humans_ok_frame [OF _ _ runtime_ok_parts(2) [OF ok]])
      (use W in \<open>auto simp: d1 command_wait_row_def\<close>)
  moreover have "commands_ok d1"
    using runtime_ok_parts(3) [OF ok] R W m unfolding commands_ok_def d1
    by (auto simp: keyed_insert task_is_cancelled_def)
  ultimately have "runtime_ok (env_event_hash env) d1" using c1 by (simp add: runtime_ok_def)
  then show ?thesis by (rule append_runtime_ok [OF _ ap])
qed

lemma start_command_run_rows:
  assumes "start_command_run env lexists fx au rq d = Inr ((run, path), d')"
  shows "set (command_runs d) \<subseteq> set (command_runs d')"
proof (rule start_command_run_steps [OF assms])
  fix cwd rs ws d1
  assume rs: "insert_command_run (new_command_run_row au run rq cwd path (env_now env)) (command_runs d) = Inr rs"
    and sus: "suspend_current_attempt_on_wait (authority_identity au) (''attempt-wait.'' @ cx_wait_hex fx)
       (na_team_revision_id au) (env_now env) CCommandRunWait (d\<lparr>command_runs := rs, waits := ws\<rparr>) = Some d1"
    and e: "append_task_event env (command_run_opened_event au run rq cwd path (env_now env)) d1 = Inr d'"
  have "command_runs d1 = rs"
    by (rule suspend_current_attempt_on_wait_frame [OF sus]) simp
  then show ?thesis using append_task_event_frame [OF e] insert_command_run_Inr [OF rs] by auto
qed

subsection \<open>Launching\<close>

lemma claim_command_run_launch_Some:
  assumes ok: "commands_ok d" and cl: "claim_command_run_launch run owner t d = Inr (Some c, d')"
  obtains r r' where "r \<in> set (command_runs d)" "claimable r" "lc_run_id c = cr_run_id r" "run = cr_run_id r"
    "lc_task_id c = cr_task_id r" "lc_ownership_revision c = cr_ownership_revision r + 1"
    "r' = r\<lparr>cr_ownership_revision := cr_ownership_revision r + 1,
        cr_process_metadata := Some (launching_metadata owner t)\<rparr>"
    "ck_command_run r'" "d' = d\<lparr>command_runs := replace_row r r' (command_runs d)\<rparr>"
proof -
  obtain s where s: "find (\<lambda>r. cr_run_id r = run \<and> claimable r) (command_runs d) = Some s"
    using cl by (auto simp: claim_command_run_launch_def split: option.splits)
  let ?p = "\<lambda>r. cr_task_id r = cr_task_id s \<and> cr_run_id r = cr_run_id s \<and> cr_state r = PendingStart \<and>
      cr_ownership_revision r = cr_ownership_revision s \<and> cr_process_metadata r = None"
  let ?f = "\<lambda>r. r\<lparr>cr_ownership_revision := cr_ownership_revision s + 1,
      cr_process_metadata := Some (launching_metadata owner t)\<rparr>"
  from cl s obtain rs where up: "update_checked ck_command_run ?p ?f (command_runs d) = Inr (Some rs)"
    and c: "lc_run_id c = cr_run_id s" "lc_task_id c = cr_task_id s"
      "lc_ownership_revision c = cr_ownership_revision s + 1"
    and d': "d' = d\<lparr>command_runs := rs\<rparr>"
    unfolding claim_command_run_launch_def by (auto simp: and_then_Inr_iff split: option.splits)
  obtain r where r: "r \<in> set (command_runs d)" "?p r" "ck_command_run (?f r)"
    "rs = replace_row r (?f r) (command_runs d)"
    by (rule update_command_run [OF ok up, of "cr_run_id s"]) auto
  from find_Some_D [OF s] have s': "s \<in> set (command_runs d)" "cr_run_id s = run" "claimable s" by auto
  have key: "keyed cr_run_id (command_runs d)" using ok by (simp add: commands_ok_def)
  have rs: "r = s" by (rule keyed_unique [OF key r(1) s'(1)]) (use r(2) in simp)
  show thesis
    by (rule that [OF s'(1,3) c(1) s'(2) [symmetric] c(2,3) refl]) (use r(3,4) d' rs in simp_all)
qed

lemma mark_command_run_running_Some:
  assumes ok: "commands_ok d"
    and mk: "mark_command_run_running env c owner pid t due d = Inr (Some x, d')"
  obtains r r' where "r \<in> set (command_runs d)" "cr_run_id r = lc_run_id c" "cr_state r = PendingStart"
    "cr_ownership_revision r = lc_ownership_revision c"
    "r' = r\<lparr>cr_state := CmdRunning, cr_started_at := Some t, cr_due_at := due,
        cr_process_metadata := Some (running_metadata owner pid)\<rparr>"
    "ck_command_run r'"
    "append_task_event env (command_run_started_event c t due)
       (d\<lparr>command_runs := replace_row r r' (command_runs d)\<rparr>) = Inr d'"
proof -
  let ?p = "\<lambda>r. cr_run_id r = lc_run_id c \<and> cr_task_id r = lc_task_id c \<and>
      cr_state r = PendingStart \<and> cr_ownership_revision r = lc_ownership_revision c"
  let ?f = "\<lambda>r. r\<lparr>cr_state := CmdRunning, cr_started_at := Some t, cr_due_at := due,
        cr_process_metadata := Some (running_metadata owner pid)\<rparr>"
  from mk obtain rs where up: "update_checked ck_command_run ?p ?f (command_runs d) = Inr (Some rs)"
    and ap: "append_task_event env (command_run_started_event c t due) (d\<lparr>command_runs := rs\<rparr>) = Inr d'"
    unfolding mark_command_run_running_def by (auto simp: and_then_Inr_iff split: option.splits)
  obtain r where r: "r \<in> set (command_runs d)" "?p r" "ck_command_run (?f r)"
    "rs = replace_row r (?f r) (command_runs d)"
    by (rule update_command_run [OF ok up, of "lc_run_id c"]) auto
  show thesis by (rule that [OF r(1) _ _ _ refl r(3)]) (use r(2,4) ap in simp_all)
qed

lemma request_cancellation_Some:
  assumes ok: "commands_ok d"
    and rq: "request_command_run_cancellation env task run actor src again cancelled d = Inr ((s', True), d')"
  obtains r r' where "r \<in> set (command_runs d)" "cr_run_id r = run" "\<not> is_terminal_command r"
    "\<exists>u \<in> set (waits d). command_wait_matches r u" "cr_state r \<noteq> CancellationRequested"
    "r' = apply_cancellation_request actor (env_now env) r" "s' = r'" "ck_command_run r'"
    "append_task_event env (command_cancel_requested_event r actor src (env_now env))
       (d\<lparr>command_runs := replace_row r r' (command_runs d)\<rparr>) = Inr d'"
proof -
  obtain s where s: "command_run_for_task task run d = Some s"
    using rq by (auto simp: request_command_run_cancellation_def and_then_Inr_iff require_Inr_iff)
  let ?p = "\<lambda>r. cr_task_id r = task \<and> cr_run_id r = run \<and> cr_state r = cr_state s \<and>
      cr_ownership_revision r = cr_ownership_revision s \<and> current_command_wait_exists s cancelled d"
  let ?f = "apply_cancellation_request actor (env_now env)"
  from rq s obtain rs where
    st: "cr_state s \<notin> set command_terminal_states" "current_command_wait_exists s cancelled d"
      "cr_state s \<noteq> CancellationRequested"
    and up: "update_checked ck_command_run ?p ?f (command_runs d) = Inr (Some rs)" and s': "s' = ?f s"
    and ap: "append_task_event env (command_cancel_requested_event s actor src (env_now env))
      (d\<lparr>command_runs := rs\<rparr>) = Inr d'"
    unfolding request_command_run_cancellation_def
    by (auto simp: and_then_Inr_iff split: option.splits if_splits)
  obtain r where r: "r \<in> set (command_runs d)" "?p r" "ck_command_run (?f r)"
    "rs = replace_row r (?f r) (command_runs d)"
    by (rule update_command_run [OF ok up, of run]) auto
  from s have "s \<in> set (command_runs d)" "cr_run_id s = run"
    by (auto simp: command_run_for_task_def dest!: find_Some_D)
  then have rs: "r = s"
    using ok r(1,2) by (intro keyed_unique [of cr_run_id "command_runs d"]) (simp_all add: commands_ok_def)
  have w: "\<exists>u \<in> set (waits d). command_wait_matches s u"
    using st(2) by (auto simp: current_command_wait_exists_def list_ex_iff)
  have t: "\<not> is_terminal_command s" using st(1) by (simp add: is_terminal_command_def)
  show thesis
    by (rule that [OF r(1) _ _ _ _ refl _ r(3)]) (use r(2,4) rs t w st(3) s' ap in simp_all)
qed

subsection \<open>Ending\<close>

lemma clear_matching_attempt_wait_Some:
  assumes ok: "lanes_ok d" and cl: "clear_matching_attempt_wait r d = Some d'"
  obtains w as where "w \<in> set (waits d)" "command_wait_matches r w"
    "d' = d\<lparr>attempts := as, waits := filter (\<lambda>v. v \<noteq> w) (waits d)\<rparr>" "lanes_ok d'"
proof -
  obtain w d1 ws where f: "find (command_wait_matches r) (waits d) = Some w"
    and c: "clear_current_attempt_wait \<lparr>wi_task_id = cr_task_id r, wi_assignment_id = cr_assignment_id r,
       wi_attempt_id = cr_attempt_id r, wi_wait_id = aw_wait_id w\<rparr> d = Some d1"
    and del: "delete_where (\<lambda>v. aw_wait_id v = aw_wait_id w \<and> command_wait_matches r v) (waits d1) = Some ws"
    and d': "d' = d1\<lparr>waits := ws\<rparr>"
    using cl by (auto simp: clear_matching_attempt_wait_def bind_eq_Some_conv map_option_eq_Some
      split: option.splits)
  obtain as where d1: "d1 = d\<lparr>attempts := as\<rparr>"
    using c by (auto simp: clear_current_attempt_wait_def map_option_eq_Some)
  have w: "w \<in> set (waits d)" "command_wait_matches r w" using find_Some_D [OF f] by blast+
  have "v = w" if "v \<in> set (waits d)" "aw_wait_id v = aw_wait_id w" for v
    using that w by (intro keyed_unique [OF lanes_ok_keys(3) [OF ok]])
  then have "ws = filter (\<lambda>v. v \<noteq> w) (waits d)"
    using del w d1 unfolding delete_where_Some_iff by (auto intro!: filter_cong)
  moreover have "lanes_ok d'" unfolding d' by (rule wake_lanes_ok [OF ok c del]) simp
  ultimately show thesis using w d' d1 by (intro that) simp_all
qed

lemma apply_terminal_simps [simp]:
  "command_identity (apply_terminal q facts r) = command_identity r"
  "cr_state (apply_terminal q facts r) = ct_state q"
  "cr_ownership_revision (apply_terminal q facts r) = cr_ownership_revision r"
  "cr_successor_dispatch_id (apply_terminal q facts r) = cr_successor_dispatch_id r"
  by (simp_all add: apply_terminal_def command_identity_def Let_def)

lemma validate_terminal_transition_Inr:
  "validate_terminal_transition s f = Inr t \<Longrightarrow> s \<in> set command_terminal_states"
  by (cases s) (auto simp: validate_terminal_transition_def command_terminal_states_def require_def)

lemma terminalize_won:
  assumes ok: "commands_ok d"
    and tm: "terminalize_command_run env task run revision expected q d = Inr (True, d')"
  obtains r facts t d1 where "r \<in> set (command_runs d)" "cr_task_id r = task" "cr_run_id r = run"
    "cr_ownership_revision r = revision" "cr_state r \<in> set expected"
    "ct_state q \<in> set command_terminal_states" "ck_command_run (apply_terminal q facts r)"
    "clear_matching_attempt_wait r (d\<lparr>command_runs := replace_row r (apply_terminal q facts r) (command_runs d)\<rparr>)
        = Some d1 \<or>
     d1 = d\<lparr>command_runs := replace_row r (apply_terminal q facts r) (command_runs d)\<rparr> \<and>
     cancelled_owner_accepts_terminal_state r (ct_state q) revision d1"
    "append_task_event env (command_terminal_event r revision t q facts) d1 = Inr d'"
proof -
  let ?s = "\<lambda>r. cr_task_id r = task \<and> cr_run_id r = run \<and> cr_ownership_revision r = revision \<and>
      cr_state r \<in> set expected"
  obtain t r where t: "validate_terminal_transition (ct_state q) (ct_failure_code q) = Inr t"
    and f: "find ?s (command_runs d) = Some r"
    and due: "\<not> (ct_should_match_due_at q \<and> cr_due_at r \<noteq> ct_expected_due_at q)"
    using tm unfolding terminalize_command_run_def
    by (auto simp: and_then_Inr_iff split: option.splits if_splits)
  let ?p = "\<lambda>g. cr_task_id g = cr_task_id r \<and> cr_run_id g = cr_run_id r \<and> cr_ownership_revision g = revision \<and>
      cr_state g \<in> set expected \<and> (ct_should_match_due_at q \<longrightarrow> cr_due_at g = ct_expected_due_at q)"
  let ?n = "\<lambda>rs. d\<lparr>command_runs := rs\<rparr>"
  let ?after = "\<lambda>rs. case clear_matching_attempt_wait r (?n rs) of Some d1 \<Rightarrow> Some d1
       | None \<Rightarrow> if cancelled_owner_accepts_terminal_state r (ct_state q) revision (?n rs)
           then Some (?n rs) else None"
  have "terminalize_command_run env task run revision expected q d =
      and_then (resolve_terminal_output_facts r q) (\<lambda>facts.
        and_then (update_checked ck_command_run ?p (apply_terminal q facts) (command_runs d)) (\<lambda>won.
          case won of None \<Rightarrow> Inr (False, d)
          | Some rs \<Rightarrow> (case ?after rs of None \<Rightarrow> Inr (False, d)
              | Some d1 \<Rightarrow> and_then (append_task_event env (command_terminal_event r revision t q facts) d1)
                  (\<lambda>d2. Inr (True, d2)))))"
    unfolding terminalize_command_run_def t f and_then.simps option.case if_not_P [OF due] ..
  with tm obtain facts won where
    up': "update_checked ck_command_run ?p (apply_terminal q facts) (command_runs d) = Inr won" and
    k: "(case won of None \<Rightarrow> Inr (False, d)
          | Some rs \<Rightarrow> (case ?after rs of None \<Rightarrow> Inr (False, d)
              | Some d1 \<Rightarrow> and_then (append_task_event env (command_terminal_event r revision t q facts) d1)
                  (\<lambda>d2. Inr (True, d2)))) = Inr (True, d')"
    by (elim and_then_InrE [OF trans [OF sym]] and_then_InrE)
  obtain rs where won: "won = Some rs" using k by (cases won) auto
  obtain d1 where d1: "?after rs = Some d1" using k unfolding won by (cases "?after rs") auto
  have up: "update_checked ck_command_run ?p (apply_terminal q facts) (command_runs d) = Inr (Some rs)"
    using up' won by simp
  have e: "append_task_event env (command_terminal_event r revision t q facts) d1 = Inr d'"
    using k unfolding won option.case d1 by (auto elim!: and_then_InrE)
  obtain g where g: "g \<in> set (command_runs d)" "?p g" "ck_command_run (apply_terminal q facts g)"
    "rs = replace_row g (apply_terminal q facts g) (command_runs d)"
    by (rule update_command_run [OF ok up, of "cr_run_id r"]) auto
  have r: "r \<in> set (command_runs d)" "?s r" using find_Some_D [OF f] by blast+
  have gr: "g = r"
    by (rule keyed_unique [of cr_run_id, OF _ g(1) r(1)]) (use ok g(2) in \<open>simp_all add: commands_ok_def\<close>)
  have "clear_matching_attempt_wait r (?n rs) = Some d1 \<or>
      d1 = ?n rs \<and> cancelled_owner_accepts_terminal_state r (ct_state q) revision d1"
    using d1 by (auto split: option.splits if_splits)
  then show thesis
    by (intro that [OF r(1) _ _ _ _ validate_terminal_transition_Inr [OF t] _ _ e]) (use r(2) g(3,4) gr in simp_all)
qed

lemma terminalize_runtime_ok:
  assumes ok: "runtime_ok (env_event_hash env) d"
    and tm: "terminalize_command_run env task run revision expected q d = Inr (True, d')"
  shows "runtime_ok (env_event_hash env) d'"
proof (rule terminalize_won [OF runtime_ok_parts(3) [OF ok] tm])
  fix r facts t d1
  let ?r' = "apply_terminal q facts r"
  let ?d0 = "d\<lparr>command_runs := replace_row r ?r' (command_runs d)\<rparr>"
  assume r: "r \<in> set (command_runs d)" and st: "ct_state q \<in> set command_terminal_states"
    and ck: "ck_command_run ?r'"
    and d1: "clear_matching_attempt_wait r ?d0 = Some d1 \<or>
      d1 = ?d0 \<and> cancelled_owner_accepts_terminal_state r (ct_state q) revision d1"
    and e: "append_task_event env (command_terminal_event r revision t q facts) d1 = Inr d'"
  have ter: "is_terminal_command ?r'" using st by (simp add: is_terminal_command_def)
  have c0: "controller_ok (env_event_hash env) ?d0" using runtime_ok_parts(1) [OF ok] by simp
  have l0: "lanes_ok ?d0" by (rule controller_ok_parts(1) [OF c0])
  have "runtime_ok (env_event_hash env) d1"
  proof (cases "clear_matching_attempt_wait r ?d0 = Some d1")
    case True
    obtain w as where w: "w \<in> set (waits d)" "command_wait_matches r w"
      and d1: "d1 = ?d0\<lparr>attempts := as, waits := filter (\<lambda>v. v \<noteq> w) (waits d)\<rparr>" and l: "lanes_ok d1"
      using clear_matching_attempt_wait_Some [OF l0 True] by auto
    have one: "u = w" if "u \<in> set (waits d)" "command_wait_matches r u" for u
      using that w by (intro lanes_ok_one_wait [OF runtime_ok_parts(4) [OF ok]])
        (auto simp: command_wait_matches_def)
    have "controller_ok (env_event_hash env) d1" by (rule controller_ok_lanes [OF c0 l]) (simp_all add: d1)
    moreover have "humans_ok d1"
      by (rule humans_ok_frame [OF _ _ runtime_ok_parts(2) [OF ok]])
        (use w in \<open>auto simp: d1 command_wait_matches_def\<close>)
    moreover have "commands_ok d1"
    proof (rule commands_ok_replace [OF runtime_ok_parts(3) [OF ok] r _ ck])
      show "command_wait_matches r u \<and> is_terminal_command ?r'"
        if "u \<in> set (waits d)" "u \<notin> set (waits d1)" for u
        using that w(2) ter by (auto simp: d1)
      show "\<not> command_wait_matches r u" if "u \<in> set (waits d1)" for u
        using that one by (auto simp: d1)
    qed (use ter in \<open>auto simp: d1\<close>)
    ultimately show ?thesis by (simp add: runtime_ok_def)
  next
    case False
    then have d1': "d1 = ?d0" and c: "cancelled_owner_accepts_terminal_state r (ct_state q) revision ?d0"
      using d1 by auto
    have none: "\<not> command_wait_matches r u" if "u \<in> set (waits d)" for u
      using c that by (auto simp: cancelled_owner_accepts_terminal_state_def command_wait_matches_def list_ex_iff)
    have "commands_ok ?d0"
      by (rule commands_ok_replace [OF runtime_ok_parts(3) [OF ok] r _ ck]) (use ter none in simp_all)
    then show ?thesis unfolding d1' by (rule runtime_ok_commands [OF ok])
  qed
  then show ?thesis by (rule append_runtime_ok [OF _ e])
qed

subsection \<open>The state machine of a run\<close>

inductive command_step :: "command_state \<Rightarrow> command_state \<Rightarrow> bool" where
  launched: "command_step PendingStart CmdRunning"
| cancel_pending: "command_step PendingStart CancellationRequested"
| cancel_running: "command_step CmdRunning CancellationRequested"
| ended: "s \<notin> set command_terminal_states \<Longrightarrow> t \<in> set command_terminal_states \<Longrightarrow> command_step s t"

inductive_simps command_step_to: "command_step s CmdRunning" "command_step s CancellationRequested"
inductive_cases command_step_E: "command_step s t"

lemma command_step_not_terminal: "command_step s t \<Longrightarrow> s \<notin> set command_terminal_states"
  by (auto elim!: command_step_E simp: command_terminal_states_def)

lemma command_step_progress: "command_step s t \<Longrightarrow> t \<noteq> PendingStart \<and> s \<noteq> t"
  by (auto elim!: command_step_E simp: command_terminal_states_def)

text \<open>The operations on Command Runs, with their arguments; each is one transaction.\<close>

datatype command_operation =
    StartRun "string \<Rightarrow> string \<Rightarrow> bool" command_fresh node_authority command_start_request
  | ClaimLaunch ident string time
  | MarkRunning command_run_launch_claim string int time "time option"
  | RequestCancel ident ident "string option" event_source bool bool
  | Terminalize ident ident int "command_state list" command_terminal_request

fun run_command_operation :: "env \<Rightarrow> command_operation \<Rightarrow> db \<Rightarrow> db result" where
  "run_command_operation env (StartRun lexists fx au rq) d =
     and_then (start_command_run env lexists fx au rq d) (\<lambda>(_, d'). Inr d')"
| "run_command_operation env (ClaimLaunch run owner t) d =
     and_then (claim_command_run_launch run owner t d) (\<lambda>(_, d'). Inr d')"
| "run_command_operation env (MarkRunning c owner pid t due) d =
     and_then (mark_command_run_running env c owner pid t due d) (\<lambda>(_, d'). Inr d')"
| "run_command_operation env (RequestCancel task run actor src again cancelled) d =
     and_then (request_command_run_cancellation env task run actor src again cancelled d) (\<lambda>(_, d'). Inr d')"
| "run_command_operation env (Terminalize task run revision expected q) d =
     and_then (terminalize_command_run env task run revision expected q d) (\<lambda>(_, d'). Inr d')"

text \<open>A row stays as it is, is claimed, or takes one step of the machine with its revision.\<close>

definition command_row_step :: "command_run_row \<Rightarrow> command_run_row \<Rightarrow> bool" where
  "command_row_step r r' \<longleftrightarrow> command_identity r' = command_identity r \<and>
     cr_successor_dispatch_id r' = cr_successor_dispatch_id r \<and>
     (r' = r \<or>
      claimable r \<and> cr_state r' = PendingStart \<and> cr_ownership_revision r' = cr_ownership_revision r + 1 \<or>
      command_step (cr_state r) (cr_state r') \<and> cr_ownership_revision r' = cr_ownership_revision r)"

lemma command_row_step_refl [simp]: "command_row_step r r"
  by (simp add: command_row_step_def)

lemma none_unchanged:
  "claim_command_run_launch run owner t d = Inr (None, d') \<Longrightarrow> d' = d"
  "mark_command_run_running env c owner pid t due d = Inr (None, d') \<Longrightarrow> d' = d"
  "request_command_run_cancellation env task run actor src again cancelled d = Inr ((s, False), d') \<Longrightarrow> d' = d"
  "terminalize_command_run env task run revision expected q d = Inr (False, d') \<Longrightarrow> d' = d"
  unfolding claim_command_run_launch_def mark_command_run_running_def
    request_command_run_cancellation_def terminalize_command_run_def
  by (auto elim!: and_then_InrE split: option.split_asm if_split_asm)


lemma append_commands: "append_task_event env e d = Inr d' \<Longrightarrow> command_runs d' = command_runs d"
  by (auto dest!: append_task_event_frame)

text \<open>Which rows an operation changes, and how.\<close>

lemma row_steps_replace:
  assumes "r \<in> set rs" "command_row_step r r'"
  shows "\<forall>g \<in> set rs. \<exists>g' \<in> set (replace_row r r' rs). command_row_step g g'"
proof
  fix g assume g: "g \<in> set rs"
  show "\<exists>g' \<in> set (replace_row r r' rs). command_row_step g g'"
    using g assms by (cases "g = r") (auto simp: set_replace_row intro: bexI [of _ g])
qed

lemma terminalize_row:
  assumes ok: "runtime_ok H d"
    and tm: "terminalize_command_run env task run revision expected q d = Inr (True, d')"
  obtains r facts where "r \<in> set (command_runs d)" "cr_run_id r = run" "cr_task_id r = task"
    "cr_ownership_revision r = revision"
    "\<not> is_terminal_command r" "is_terminal_command (apply_terminal q facts r)"
    "command_runs d' = replace_row r (apply_terminal q facts r) (command_runs d)"
proof (rule terminalize_won [OF runtime_ok_parts(3) [OF ok] tm])
  fix r facts t d1
  let ?r' = "apply_terminal q facts r"
  let ?d0 = "d\<lparr>command_runs := replace_row r ?r' (command_runs d)\<rparr>"
  assume r: "r \<in> set (command_runs d)" "cr_task_id r = task" "cr_run_id r = run"
      "cr_ownership_revision r = revision" and st: "ct_state q \<in> set command_terminal_states"
    and d1: "clear_matching_attempt_wait r ?d0 = Some d1 \<or>
      d1 = ?d0 \<and> cancelled_owner_accepts_terminal_state r (ct_state q) revision d1"
    and e: "append_task_event env (command_terminal_event r revision t q facts) d1 = Inr d'"
  have l0: "lanes_ok ?d0" using runtime_ok_parts(1) [OF ok] by (intro controller_ok_parts(1)) simp
  have "command_runs d1 = command_runs ?d0 \<and> \<not> is_terminal_command r"
  proof (cases "clear_matching_attempt_wait r ?d0 = Some d1")
    case True
    obtain w as where w: "w \<in> set (waits d)" "command_wait_matches r w"
      and d1: "command_runs d1 = command_runs ?d0"
      by (rule clear_matching_attempt_wait_Some [OF l0 True]) simp
    have "aw_command_run_id w \<noteq> None" using w by (simp add: command_wait_matches_def)
    then obtain g where g: "g \<in> set (command_runs d)" "\<not> is_terminal_command g" "command_wait_matches g w"
      using runtime_ok_parts(3) [OF ok] w(1) unfolding commands_ok_def by blast
    have "g = r"
      by (rule keyed_unique [of cr_run_id, OF _ g(1) r(1)])
        (use runtime_ok_parts(3) [OF ok] g(3) w(2) in \<open>auto simp: commands_ok_def command_wait_matches_def\<close>)
    with g d1 show ?thesis by blast
  next
    case False
    with d1 show ?thesis
      by (auto simp: cancelled_owner_accepts_terminal_state_def is_terminal_command_def command_terminal_states_def)
  qed
  moreover have "is_terminal_command ?r'" using st by (simp add: is_terminal_command_def)
  ultimately show thesis using that [of r facts] r append_commands [OF e] by simp
qed

lemma terminalize_row_step:
  assumes ok: "runtime_ok (env_event_hash env) d"
    and tm: "terminalize_command_run env task run revision expected q d = Inr (True, d')"
  shows "\<forall>r \<in> set (command_runs d). \<exists>r' \<in> set (command_runs d'). command_row_step r r'"
proof -
  obtain r facts where r: "r \<in> set (command_runs d)" "\<not> is_terminal_command r"
    "is_terminal_command (apply_terminal q facts r)"
    "command_runs d' = replace_row r (apply_terminal q facts r) (command_runs d)"
    by (rule terminalize_row [OF ok tm])
  have "command_row_step r (apply_terminal q facts r)"
    using r(2,3) by (simp add: command_row_step_def is_terminal_command_def command_step.ended)
  then show ?thesis using row_steps_replace [OF r(1)] r(4) by simp
qed

lemma run_command_operation_steps:
  assumes ok: "runtime_ok (env_event_hash env) d" and op: "run_command_operation env p d = Inr d'"
  shows "runtime_ok (env_event_hash env) d' \<and>
    (\<forall>r \<in> set (command_runs d). \<exists>r' \<in> set (command_runs d'). command_row_step r r')"
proof (cases p)
  case (StartRun lexists fx au rq)
  obtain run path where st: "start_command_run env lexists fx au rq d = Inr ((run, path), d')"
    using op StartRun by (auto simp: and_then_Inr_iff)
  have "set (command_runs d) \<subseteq> set (command_runs d')" by (rule start_command_run_rows [OF st])
  then show ?thesis
    using start_command_run_runtime_ok [OF ok st] command_row_step_refl by blast
next
  case (ClaimLaunch run owner t)
  then obtain x where cl: "claim_command_run_launch run owner t d = Inr (x, d')"
    using op by (auto simp: and_then_Inr_iff)
  show ?thesis
  proof (cases x)
    case None
    then show ?thesis using none_unchanged(1) cl ok command_row_step_refl by blast
  next
    case (Some c)
    obtain r r' where r: "r \<in> set (command_runs d)" "claimable r"
      and r': "r' = r\<lparr>cr_ownership_revision := cr_ownership_revision r + 1,
        cr_process_metadata := Some (launching_metadata owner t)\<rparr>" "ck_command_run r'"
      and d': "d' = d\<lparr>command_runs := replace_row r r' (command_runs d)\<rparr>"
      by (rule claim_command_run_launch_Some [OF runtime_ok_parts(3) [OF ok] cl [unfolded Some]])
    have id: "command_identity r' = command_identity r" by (simp add: r'(1) command_identity_def)
    have p: "cr_state r = PendingStart" using r(2) by (simp add: claimable_def)
    then have live: "\<not> is_terminal_command r'" by (simp add: r'(1) is_terminal_command_def command_terminal_states_def)
    note W = live_command_waits [OF runtime_ok_parts(3) [OF ok] r(1)]
    have "runtime_ok (env_event_hash env) d'"
      unfolding d' by (rule runtime_ok_commands [OF ok commands_ok_advance
        [OF runtime_ok_parts(3) [OF ok] r(1) id r'(2) live]]) (use W p in simp_all)
    moreover have "command_row_step r r'" using id r(2) p by (simp add: command_row_step_def r'(1))
    ultimately show ?thesis using row_steps_replace [OF r(1)] by (simp add: d')
  qed
next
  case (MarkRunning c owner pid t due)
  then obtain x where mk: "mark_command_run_running env c owner pid t due d = Inr (x, d')"
    using op by (auto simp: and_then_Inr_iff)
  show ?thesis
  proof (cases x)
    case None
    then show ?thesis using none_unchanged(2) mk ok command_row_step_refl by blast
  next
    case (Some y)
    obtain r r' where r: "r \<in> set (command_runs d)" "cr_state r = PendingStart"
      and r': "r' = r\<lparr>cr_state := CmdRunning, cr_started_at := Some t, cr_due_at := due,
        cr_process_metadata := Some (running_metadata owner pid)\<rparr>" "ck_command_run r'"
      and e: "append_task_event env (command_run_started_event c t due)
       (d\<lparr>command_runs := replace_row r r' (command_runs d)\<rparr>) = Inr d'"
      by (rule mark_command_run_running_Some [OF runtime_ok_parts(3) [OF ok] mk [unfolded Some]])
    have id: "command_identity r' = command_identity r" by (simp add: r'(1) command_identity_def)
    have live: "\<not> is_terminal_command r'" by (simp add: r'(1) is_terminal_command_def command_terminal_states_def)
    note W = live_command_waits [OF runtime_ok_parts(3) [OF ok] r(1)]
    have "runtime_ok (env_event_hash env) d'"
      by (rule append_runtime_ok [OF runtime_ok_commands [OF ok commands_ok_advance
        [OF runtime_ok_parts(3) [OF ok] r(1) id r'(2) live]] e]) (use W r(2) in simp_all)
    moreover have "command_row_step r r'" using id r(2) by (simp add: command_row_step_def r'(1) command_step_to)
    ultimately show ?thesis using row_steps_replace [OF r(1)] append_commands [OF e] by simp
  qed
next
  case (RequestCancel task run actor src again cancelled)
  then obtain s b where rq: "request_command_run_cancellation env task run actor src again cancelled d = Inr ((s, b), d')"
    using op by (auto simp: and_then_Inr_iff)
  show ?thesis
  proof (cases b)
    case False
    then have "d' = d" using rq by (intro none_unchanged(3)) simp
    then show ?thesis using ok command_row_step_refl by blast
  next
    case True
    obtain r r' where r: "r \<in> set (command_runs d)" "\<not> is_terminal_command r"
        "\<exists>u \<in> set (waits d). command_wait_matches r u" "cr_state r \<noteq> CancellationRequested"
      and r': "r' = apply_cancellation_request actor (env_now env) r" "ck_command_run r'"
      and e: "append_task_event env (command_cancel_requested_event r actor src (env_now env))
       (d\<lparr>command_runs := replace_row r r' (command_runs d)\<rparr>) = Inr d'"
      by (rule request_cancellation_Some [OF runtime_ok_parts(3) [OF ok]])
        (use rq True in simp)
    have id: "command_identity r' = command_identity r"
      by (simp add: r'(1) apply_cancellation_request_def command_identity_def)
    have live: "\<not> is_terminal_command r'"
      by (simp add: r'(1) apply_cancellation_request_def is_terminal_command_def command_terminal_states_def)
    have "runtime_ok (env_event_hash env) d'"
      by (rule append_runtime_ok [OF runtime_ok_commands [OF ok commands_ok_advance
        [OF runtime_ok_parts(3) [OF ok] r(1) id r'(2) live r(2,3)]] e])
    moreover have "cr_state r = PendingStart \<or> cr_state r = CmdRunning"
      using r(2,4) by (cases "cr_state r") (auto simp: is_terminal_command_def command_terminal_states_def)
    then have "command_row_step r r'"
      using id by (auto simp: command_row_step_def r'(1) apply_cancellation_request_def command_step_to)
    ultimately show ?thesis using row_steps_replace [OF r(1)] append_commands [OF e] by simp
  qed
next
  case (Terminalize task run revision expected q)
  then obtain b where tm: "terminalize_command_run env task run revision expected q d = Inr (b, d')"
    using op by (auto simp: and_then_Inr_iff)
  show ?thesis
  proof (cases b)
    case False
    then have "d' = d" using tm by (intro none_unchanged(4)) simp
    then show ?thesis using ok command_row_step_refl by blast
  next
    case True
    then have tm': "terminalize_command_run env task run revision expected q d = Inr (True, d')" using tm by simp
    show ?thesis using terminalize_runtime_ok [OF ok tm'] terminalize_row_step [OF ok tm'] by blast
  qed
qed

subsection \<open>Histories\<close>

definition command_operation_step :: "env \<Rightarrow> time \<times> command_operation \<Rightarrow> db \<Rightarrow> (unit \<times> db) result" where
  "command_operation_step env op d =
     and_then (run_command_operation (env\<lparr>env_now := fst op\<rparr>) (snd op) d) (\<lambda>d'. Inr ((), d'))"

definition command_row_forward :: "command_run_row \<Rightarrow> command_run_row \<Rightarrow> bool" where
  "command_row_forward r r' \<longleftrightarrow> command_identity r' = command_identity r \<and>
     command_step\<^sup>*\<^sup>* (cr_state r) (cr_state r') \<and>
     cr_ownership_revision r \<le> cr_ownership_revision r' \<and> (is_terminal_command r \<longrightarrow> r' = r)"

definition commands_forward :: "db \<Rightarrow> db \<Rightarrow> bool" where
  "commands_forward d d' \<longleftrightarrow>
     (\<forall>r \<in> set (command_runs d). \<exists>r' \<in> set (command_runs d'). command_row_forward r r')"

lemma command_row_step_forward: "command_row_step r r' \<Longrightarrow> command_row_forward r r'"
  using command_step_not_terminal [of "cr_state r" "cr_state r'"]
  by (auto simp: command_row_step_def command_row_forward_def claimable_def is_terminal_command_def
      command_terminal_states_def)

lemma command_row_forward_trans:
  "command_row_forward r s \<Longrightarrow> command_row_forward s t \<Longrightarrow> command_row_forward r t"
  by (auto simp: command_row_forward_def)

interpretation command_ops: forward_operation "command_operation_step env"
  "runtime_ok (env_event_hash env)" commands_forward
proof
  fix op d d' and r :: unit
  assume st: "command_operation_step env op d = Inr (r, d')" and ok: "runtime_ok (env_event_hash env) d"
  then have "run_command_operation (env\<lparr>env_now := fst op\<rparr>) (snd op) d = Inr d'"
    by (auto simp: command_operation_step_def and_then_Inr_iff)
  from run_command_operation_steps [OF _ this] ok
  show "runtime_ok (env_event_hash env) d'" "commands_forward d d'"
    by (auto simp: commands_forward_def dest: command_row_step_forward)
next
  show "commands_forward d d" for d
    using command_row_step_forward [OF command_row_step_refl] by (auto simp: commands_forward_def)
next
  show "commands_forward d d''" if "commands_forward d d'" "commands_forward d' d''" for d d' d''
    using that command_row_forward_trans unfolding commands_forward_def by meson
qed

subsection \<open>Properties\<close>

text \<open>
  C26. Through any history of Command Run operations (starts, launch claims, launches,
  cancellation requests and terminal transitions, in any order and with any arguments, failed
  ones rolled back) the controller invariant holds, and every run stays the run of the same
  Attempt and Dispatch, moves only along the state machine, never lowers its ownership revision
  and never changes at all once it is terminal.
\<close>

theorem command_history_refines_machine:
  assumes "runtime_ok (env_event_hash env) d" and "r \<in> set (command_runs d)"
  shows "runtime_ok (env_event_hash env) (run_history (command_operation_step env) ops d) \<and>
    (\<exists>r' \<in> set (command_runs (run_history (command_operation_step env) ops d)).
       command_identity r' = command_identity r \<and>
       command_step\<^sup>*\<^sup>* (cr_state r) (cr_state r') \<and>
       cr_ownership_revision r \<le> cr_ownership_revision r' \<and> (is_terminal_command r \<longrightarrow> r' = r))"
  using command_ops.history_keeps [OF assms(1)] command_ops.history_forward [OF assms(1)] assms(2)
  unfolding commands_forward_def command_row_forward_def by blast

text \<open>
  C27. A launch is claimed once: after a successful claim, through any further history, no claim
  of the same run succeeds again, so no second process is launched for it.
\<close>

theorem command_launch_claimed_once:
  assumes ok: "runtime_ok (env_event_hash env) d"
    and cl: "claim_command_run_launch run owner t d = Inr (Some c, d')"
  shows "claim_command_run_launch run owner' t' (run_history (command_operation_step env) ops d') =
    Inr (None, run_history (command_operation_step env) ops d')"
proof -
  let ?d = "run_history (command_operation_step env) ops d'"
  have "run_command_operation env (ClaimLaunch run owner t) d = Inr d'" using cl by simp
  then have ok': "runtime_ok (env_event_hash env) d'" using run_command_operation_steps [OF ok] by blast
  obtain r r' where r: "r \<in> set (command_runs d)" "run = cr_run_id r"
    and r': "r' = r\<lparr>cr_ownership_revision := cr_ownership_revision r + 1,
        cr_process_metadata := Some (launching_metadata owner t)\<rparr>"
    and d': "d' = d\<lparr>command_runs := replace_row r r' (command_runs d)\<rparr>"
    by (rule claim_command_run_launch_Some [OF runtime_ok_parts(3) [OF ok] cl])
  have "0 \<le> cr_ownership_revision r" using runtime_ok_parts(3) [OF ok] r(1)
    by (auto simp: commands_ok_def ck_command_run_def)
  then have one: "r' \<in> set (command_runs d')" "cr_run_id r' = run" "1 \<le> cr_ownership_revision r'"
    using r by (simp_all add: d' r' set_replace_row)
  obtain s where s: "s \<in> set (command_runs ?d)" "command_row_forward r' s"
    using command_ops.history_forward [OF ok'] one(1) unfolding commands_forward_def by blast
  have key: "keyed cr_run_id (command_runs ?d)"
    using runtime_ok_parts(3) [OF command_ops.history_keeps [OF ok']] by (simp add: commands_ok_def)
  have "\<not> (cr_run_id g = run \<and> claimable g)" if "g \<in> set (command_runs ?d)" for g
  proof
    assume g: "cr_run_id g = run \<and> claimable g"
    then have "g = s" using s one(2)
      by (intro keyed_unique [OF key that s(1)]) (simp add: command_row_forward_def command_identity_def)
    with g s(2) one(3) show False by (simp add: claimable_def command_row_forward_def)
  qed
  then have "find (\<lambda>g. cr_run_id g = run \<and> claimable g) (command_runs ?d) = None"
    by (auto simp: find_None_iff)
  then show ?thesis by (simp add: claim_command_run_launch_def)
qed

text \<open>
  C28. A terminal state is won once: after a terminal transition of a run has won, through any
  further history, no other one of that run wins, whatever owner revision, expected states or
  result it brings.
\<close>

theorem command_terminal_once:
  assumes ok: "runtime_ok (env_event_hash env) d"
    and tm: "terminalize_command_run env task run revision expected q d = Inr (True, d')"
  shows "terminalize_command_run env' task' run revision' expected' q'
      (run_history (command_operation_step env) ops d') \<noteq> Inr (True, d'')"
proof
  let ?d = "run_history (command_operation_step env) ops d'"
  assume again: "terminalize_command_run env' task' run revision' expected' q' ?d = Inr (True, d'')"
  have ok': "runtime_ok (env_event_hash env) d'" by (rule terminalize_runtime_ok [OF ok tm])
  have ok'': "runtime_ok (env_event_hash env) ?d" by (rule command_ops.history_keeps [OF ok'])
  obtain r facts where r: "r \<in> set (command_runs d)" "cr_run_id r = run"
    "is_terminal_command (apply_terminal q facts r)"
    "command_runs d' = replace_row r (apply_terminal q facts r) (command_runs d)"
    by (rule terminalize_row [OF ok tm])
  let ?r = "apply_terminal q facts r"
  have "?r \<in> set (command_runs d')" using r by (simp add: set_replace_row)
  then have s: "?r \<in> set (command_runs ?d)"
    using command_ops.history_forward [OF ok'] r(3) unfolding commands_forward_def command_row_forward_def by metis
  obtain g where g: "g \<in> set (command_runs ?d)" "cr_run_id g = run" "\<not> is_terminal_command g"
    by (rule terminalize_row [OF ok'' again])
  have "g = ?r"
    by (rule keyed_unique [of cr_run_id, OF _ g(1) s])
      (use runtime_ok_parts(3) [OF ok''] g(2) r(2) apply_terminal_simps(1) [of q facts r] in
        \<open>simp_all add: commands_ok_def command_identity_def\<close>)
  with g(3) r(3) show False by simp
qed

lemma apply_terminal_ck:
  assumes r: "ck_command_run r" and v: "validate_terminal_transition (ct_state q) (ct_failure_code q) = Inr t"
    and f: "resolve_terminal_output_facts r q = Inr facts" "0 \<le> of_written_bytes facts"
    and due: "ct_state q = CmdTimedOut \<longrightarrow> cr_due_at r \<noteq> None"
  shows "ck_command_run (apply_terminal q facts r)"
proof -
  have t: "ct_state q \<in> set command_terminal_states" by (rule validate_terminal_transition_Inr [OF v])
  have ab: "ct_state q = CmdAbandoned \<longrightarrow> ct_failure_code q = Some ''command_ownership_lost''"
    using v by (auto simp: validate_terminal_transition_def and_then_Inr_iff split: if_splits)
  have w: "of_should_persist facts \<longrightarrow> of_written_bytes facts \<le> of_observed_bytes facts \<and>
      (of_is_complete facts \<longrightarrow> of_written_bytes facts = of_observed_bytes facts)"
    using f(1) by (auto simp: resolve_terminal_output_facts_def split: option.splits if_splits)
  have n: "ct_state q \<noteq> PendingStart" "ct_state q \<noteq> CmdRunning" "ct_state q \<noteq> CancellationRequested"
    using t by (auto simp: command_terminal_states_def)
  have base: "0 \<le> cr_ownership_revision r" "case cr_timeout_seconds r of None \<Rightarrow> True | Some n \<Rightarrow> 0 < n"
      "cr_started_at r = None \<and> cr_due_at r = None \<or>
       cr_started_at r \<noteq> None \<and> cr_timeout_seconds r = None \<and> cr_due_at r = None \<or>
       cr_started_at r \<noteq> None \<and> cr_timeout_seconds r \<noteq> None \<and> cr_due_at r \<noteq> None"
      "0 \<le> cr_output_observed_bytes r \<and> 0 \<le> cr_output_written_bytes r \<and>
       cr_output_written_bytes r \<le> cr_output_observed_bytes r \<and>
       (\<not> cr_output_complete r \<or> cr_output_written_bytes r = cr_output_observed_bytes r)"
    using r by (simp_all only: ck_command_run_def)
  show ?thesis
  proof (cases "of_should_persist facts")
    case True
    with w f(2) have o: "0 \<le> of_observed_bytes facts" by linarith
    from True show ?thesis
      unfolding ck_command_run_def apply_terminal_def Let_def
      using base t ab w f(2) o due n by (simp del: not_None_eq)
  next
    case False
    then show ?thesis
      unfolding ck_command_run_def apply_terminal_def Let_def
      using base t ab due n by (simp del: not_None_eq)
  qed
qed

lemma clear_matching_attempt_wait_possible:
  assumes ok: "lanes_ok d" and w: "w \<in> set (waits d)" "command_wait_matches r w"
    and d': "waits d' = waits d" "attempts d' = attempts d"
  obtains as ws where "clear_matching_attempt_wait r d' = Some (d'\<lparr>attempts := as, waits := ws\<rparr>)"
proof -
  obtain v where v: "find (command_wait_matches r) (waits d) = Some v"
    using w by (cases "find (command_wait_matches r) (waits d)") (auto dest: find_None_D)
  from find_Some_D [OF this] have m: "v \<in> set (waits d)" "command_wait_matches r v" by auto
  obtain as where c: "clear_current_attempt_wait \<lparr>wi_task_id = cr_task_id r, wi_assignment_id = cr_assignment_id r,
       wi_attempt_id = cr_attempt_id r, wi_wait_id = aw_wait_id v\<rparr> d' = Some (d'\<lparr>attempts := as\<rparr>)"
    using wake_possible [OF ok m(1), of "\<lparr>wi_task_id = cr_task_id r, wi_assignment_id = cr_assignment_id r,
       wi_attempt_id = cr_attempt_id r, wi_wait_id = aw_wait_id v\<rparr>" d'] m(2) d'(2)
    by (auto simp: command_wait_matches_def)
  have "\<exists>ws. delete_where (\<lambda>u. aw_wait_id u = aw_wait_id v \<and> command_wait_matches r u)
      (waits (d'\<lparr>attempts := as\<rparr>)) = Some ws"
    using m d'(1) by (auto simp: delete_where_Some_iff)
  then obtain ws where "delete_where (\<lambda>u. aw_wait_id u = aw_wait_id v \<and> command_wait_matches r u)
      (waits (d'\<lparr>attempts := as\<rparr>)) = Some ws" ..
  with v c show thesis by (intro that) (simp add: clear_matching_attempt_wait_def d'(1))
qed

text \<open>
  C29. A live run can always be ended: in a consistent state, for a run of a Task that is not
  cancelled, in one of the expected states and under the expected revision, a terminal transition
  with a valid result (a timeout with the stored deadline) wins; the wait of its Attempt is there
  to be cleared.
\<close>

theorem command_terminal_progress:
  assumes ok: "runtime_ok (env_event_hash env) d"
    and r: "r \<in> set (command_runs d)" "\<not> is_terminal_command r" "\<not> task_is_cancelled (cr_task_id r) d"
    and ex: "cr_state r \<in> set expected"
    and v: "validate_terminal_transition (ct_state q) (ct_failure_code q) = Inr t"
    and f: "resolve_terminal_output_facts r q = Inr facts" "0 \<le> of_written_bytes facts"
    and due: "ct_state q = CmdTimedOut \<longrightarrow> cr_due_at r \<noteq> None"
      "ct_should_match_due_at q \<longrightarrow> cr_due_at r = ct_expected_due_at q"
    and head: "cr_task_id r \<in> eh_task_id ` set (event_heads d)"
  shows "\<exists>d'. terminalize_command_run env (cr_task_id r) (cr_run_id r) (cr_ownership_revision r) expected q d =
    Inr (True, d')"
proof -
  note C = runtime_ok_parts(3) [OF ok, unfolded commands_ok_def]
  have key: "keyed cr_run_id (command_runs d)" using C by blast
  let ?s = "\<lambda>g. cr_task_id g = cr_task_id r \<and> cr_run_id g = cr_run_id r \<and>
      cr_ownership_revision g = cr_ownership_revision r \<and> cr_state g \<in> set expected"
  let ?p = "\<lambda>g. cr_task_id g = cr_task_id r \<and> cr_run_id g = cr_run_id r \<and>
      cr_ownership_revision g = cr_ownership_revision r \<and>
      cr_state g \<in> set expected \<and> (ct_should_match_due_at q \<longrightarrow> cr_due_at g = ct_expected_due_at q)"
  let ?rs = "replace_row r (apply_terminal q facts r) (command_runs d)"
  have find: "find ?s (command_runs d) = Some r"
    using find_unique_iff [OF key, of ?s "cr_run_id r" r] r(1) ex by simp
  have ck: "ck_command_run (apply_terminal q facts r)"
    using C r(1) by (intro apply_terminal_ck [OF _ v f due(1)]) blast
  have pk: "\<forall>g. ?p g \<longrightarrow> cr_run_id g = cr_run_id r" by simp
  have same: "g = r" if "g \<in> set (command_runs d)" "?p g" for g
    using that r(1) by (intro keyed_unique [OF key]) simp_all
  have "update_where ?p (apply_terminal q facts) (command_runs d) = Some ?rs"
    unfolding update_unique_iff [OF key pk] using r(1) ex due(2) by (intro bexI [of _ r]) auto
  then have up: "update_checked ck_command_run ?p (apply_terminal q facts) (command_runs d) = Inr (Some ?rs)"
    unfolding update_checked_Inr_iff using same ck by metis
  obtain w where w: "w \<in> set (waits d)" "command_wait_matches r w" using C r by blast
  obtain as ws where cl: "clear_matching_attempt_wait r (d\<lparr>command_runs := ?rs\<rparr>) =
      Some (d\<lparr>command_runs := ?rs, attempts := as, waits := ws\<rparr>)" (is "_ = Some ?d1")
    by (rule clear_matching_attempt_wait_possible [OF runtime_ok_parts(4) [OF ok] w,
      of "d\<lparr>command_runs := ?rs\<rparr>"]) simp_all
  let ?e = "command_terminal_event r (cr_ownership_revision r) t q facts"
  have "events_ok (env_event_hash env) ?d1"
    using runtime_ok_parts(5) [OF ok] events_ok_frame [of ?d1 d] by simp
  moreover have "ed_task_id ?e \<in> eh_task_id ` set (event_heads ?d1)"
    using head by (simp add: command_terminal_event_def)
  ultimately have ap: "append_task_event env ?e ?d1 = Inr (with_appended_event env ?e ?d1)"
    by (rule append_task_event_eq)
  have "\<not> (ct_should_match_due_at q \<and> cr_due_at r \<noteq> ct_expected_due_at q)" using due(2) by blast
  then show ?thesis
    unfolding terminalize_command_run_def v find and_then.simps option.case f(1)
    by (simp only: if_False up and_then.simps option.case cl ap) simp
qed


end
