(* ===== verification/HumanContractProofs.thy ===== *)
theory HumanContractProofs
  imports HumanContracts
begin

text \<open>
  The Human Request contract, proved: the bounds of structured values in terms of depth and
  collection count, the JSON round trip of items and answers, and what an accepted set of
  answers is.
\<close>

subsection \<open>Depth and collections\<close>

fun json_depth :: "document \<Rightarrow> nat" where
  "json_depth (JArr xs) = Suc (fold max (map json_depth xs) 0)"
| "json_depth (JObj kvs) = Suc (fold max (map (\<lambda>(_, x). json_depth x) kvs) 0)"
| "json_depth _ = 1"

fun json_collections :: "document \<Rightarrow> nat" where
  "json_collections (JArr xs) = Suc (sum_list (map json_collections xs))"
| "json_collections (JObj kvs) = Suc (sum_list (map (\<lambda>(_, x). json_collections x) kvs))"
| "json_collections _ = 0"

lemma fold_max_le: "fold max xs (a :: nat) \<le> n \<longleftrightarrow> a \<le> n \<and> (\<forall>x \<in> set xs. x \<le> n)"
  by (induction xs arbitrary: a) auto

lemma json_depth_pos: "0 < json_depth v"
  by (cases v) auto

lemma collection_limit_Inr [result_simps]: "collection_limit n = Inr m \<longleftrightarrow> m = n \<and> n \<le> 1024"
  by (auto simp: collection_limit_def)

text \<open>The three traversals together, from any depth and count.\<close>

lemma visit_Inr:
  "visit_value depth v n = Inr m \<longleftrightarrow>
     depth + json_depth v \<le> 17 \<and> m = n + json_collections v \<and> m \<le> 1024"
  "visit_elements depth xs n = Inr m \<longleftrightarrow>
     (\<forall>x \<in> set xs. depth + json_depth x \<le> 17) \<and> m = n + sum_list (map json_collections xs) \<and>
     (xs \<noteq> [] \<longrightarrow> m \<le> 1024)"
  "visit_members depth kvs n = Inr m \<longleftrightarrow>
     (\<forall>(_, x) \<in> set kvs. depth + json_depth x \<le> 17) \<and>
     m = n + sum_list (map (\<lambda>(_, x). json_collections x) kvs) \<and> (kvs \<noteq> [] \<longrightarrow> m \<le> 1024)"
proof (induction depth v n and depth xs n and depth kvs n arbitrary: m and m and m
    rule: visit_value_visit_elements_visit_members.induct)
  case (1 depth kvs n)
  have "depth + json_depth (JObj kvs) \<le> 17 \<longleftrightarrow>
      depth \<le> 16 \<and> (\<forall>(_, x) \<in> set kvs. depth + 1 + json_depth x \<le> 17)"
    using fold_max_le [of "map (\<lambda>(_, x). json_depth x) kvs" 0 "16 - depth"]
    by (cases "depth \<le> 16") (auto simp: less_eq_iff_succ_less)
  with 1 show ?case by (auto simp: result_simps too_deep_def)
next
  case (2 depth xs n)
  then show ?case
    using fold_max_le [of "map json_depth xs" 0 "16 - depth"] by (auto simp: result_simps too_deep_def)
next
  case (8 depth x xs n)
  then show ?case by (auto simp: result_simps)
next
  case (10 depth k x kvs n)
  then show ?case by (auto simp: result_simps)
qed (auto simp: result_simps too_deep_def)

lemma bounded_json_value_bounds:
  "validate_bounded_json_value v = Inr () \<longleftrightarrow>
     \<not> list_ex is_surrogate (json_dumps v) \<and> utf8_length (json_dumps v) \<le> 65536 \<and>
     json_depth v \<le> 16 \<and> json_collections v \<le> 1024"
  by (auto simp: validate_bounded_json_value_def Let_def result_simps visit_Inr)

text \<open>
  A structured value is accepted exactly when its compact JSON text is encodable and at
  most 64 KiB, its nesting is at most 16 levels deep (a scalar counts as one) and it holds at
  most 1024 collections.
\<close>

theorem bounded_json_value_iff:
  "validate_bounded_json_value v = Inr () \<longleftrightarrow>
     (\<not> list_ex is_surrogate (json_dumps v) \<and> utf8_length (json_dumps v) \<le> 65536 \<and>
      json_depth v \<le> 16 \<and> json_collections v \<le> 1024)"
  by (rule bounded_json_value_bounds)

subsection \<open>Reading what was written\<close>

lemma normalize_optional_text_again:
  "normalize_optional_text n v = Inr (Some t) \<Longrightarrow> normalize_optional_text n (Some t) = Inr (Some t)"
  unfolding normalize_optional_text_def
  by (auto simp: and_then_Inr_iff normalize_exact_text_again split: option.splits if_splits)

lemma read_schema_text_again:
  "library_ok lib \<Longrightarrow> read_schema_text lib v = Inr s \<Longrightarrow> read_schema_text lib (Some (JStr s)) = Inr s"
  by (auto simp: read_schema_text_def library_ok_def split: option.splits json_value.splits if_splits)

lemma required_text_again:
  "normalize_required_text n v = Inr s \<Longrightarrow> normalize_required_text n (Some (JStr s)) = Inr s"
  unfolding normalize_required_text_def
  by (auto simp: and_then_Inr_iff normalize_exact_text_again
      split: option.splits json_value.splits if_splits)

lemma optional_text_again:
  "read_optional_text n v = Inr s \<Longrightarrow> read_optional_text n (Some (dump_text s)) = Inr s"
  by (cases s)
    (auto simp: read_optional_text_def dump_text_def normalize_optional_text_again
      split: option.splits json_value.splits)

lemma read_flag_again: "library_ok lib \<Longrightarrow> read_flag lib (Some (JBool b)) = Inr b"
  by (simp add: read_flag_def library_ok_def)

lemmas field_simps' = field_def only_fields_def

lemma read_option_dump:
  assumes lib: "library_ok lib" and "read_option lib v = Inr o'"
  shows "read_option lib (dump_option o') = Inr o'"
proof -
  from assms(2) obtain kvs i t d where
    i: "read_schema_text lib (field ''id'' kvs) = Inr i" and
    t: "normalize_required_text 255 (field ''title'' kvs) = Inr t" and
    d: "read_optional_text 1024 (field ''description'' kvs) = Inr d" and
    o': "o' = \<lparr>ho_id = i, ho_title = t, ho_description = d\<rparr>"
    by (auto simp: read_option_def result_simps split: json_value.splits)
  show ?thesis
    using read_schema_text_again [OF lib i] required_text_again [OF t] optional_text_again [OF d]
    by (simp add: read_option_def dump_option_def o' field_simps')
qed

lemma read_options_dump:
  assumes lib: "library_ok lib" and "read_options lib v = Inr os"
  shows "read_options lib (Some (case os of None \<Rightarrow> JNull | Some os' \<Rightarrow> JArr (map dump_option os'))) =
    Inr os"
proof (cases os)
  case (Some os')
  then obtain xs where m: "map_result (read_option lib) xs = Inr os'" and
    l: "\<not> (length os' < 2 \<or> 3 < length os')"
    using assms(2) by (auto simp: read_options_def result_simps split: option.splits json_value.splits if_splits)
  have "map_result (read_option lib) (map dump_option os') = Inr os'"
    using m by (induction xs arbitrary: os') (auto simp: result_simps read_option_dump [OF lib])
  then show ?thesis using Some l by (simp add: read_options_def)
qed (simp add: read_options_def)

lemma read_schema_dump:
  "read_schema (Some (case s of None \<Rightarrow> JNull | Some kvs \<Rightarrow> JObj kvs)) = Inr s"
  by (cases s) (simp_all add: read_schema_def)

lemma response_contract_Inr:
  "validate_response_contract lib i = Inr j \<Longrightarrow> j = i"
  by (auto simp: validate_response_contract_def result_simps split: if_splits option.splits)

text \<open>
  C23. An item the contract accepted is stored as JSON that validates to the same item, so the
  item a continuation reads back and writes again is the stored one.
\<close>

theorem human_item_roundtrip:
  assumes lib: "library_ok lib" and "read_item lib v = Inr i"
  shows "read_item lib (dump_item i) = Inr i"
proof -
  from assms(2) obtain kvs n p s os a b where
    n: "read_schema_text lib (field ''id'' kvs) = Inr n" and
    p: "normalize_required_text 4096 (field ''prompt'' kvs) = Inr p" and
    os: "read_options lib (field ''options'' kvs) = Inr os" and
    c: "validate_response_contract lib \<lparr>hi_id = n, hi_prompt = p, hi_response_schema = s,
        hi_options = os, hi_allow_other = a, hi_allow_skip = b\<rparr> = Inr i"
    by (auto simp: read_item_def result_simps split: json_value.splits)
  have i: "i = \<lparr>hi_id = n, hi_prompt = p, hi_response_schema = s, hi_options = os,
      hi_allow_other = a, hi_allow_skip = b\<rparr>"
    by (rule response_contract_Inr [OF c])
  show ?thesis
    using read_schema_text_again [OF lib n] required_text_again [OF p] read_options_dump [OF lib os]
      read_schema_dump [of s] read_flag_again [OF lib] c [folded i]
    by (simp add: read_item_def dump_item_def i [symmetric] field_simps' del: option.case_distrib)
      (simp add: i)
qed

subsection \<open>Answers\<close>

lemma read_answer_dump:
  assumes lib: "library_ok lib" and "read_answer lib v = Inr a"
  shows "read_answer lib (dump_answer a) = Inr a"
proof (cases a)
  case (OptionAnswer i)
  with assms(2) obtain w where "read_schema_text lib w = Inr i"
    by (auto simp: read_answer_def and_then_Inr_iff split: json_value.splits option.splits if_splits)
  then have "read_schema_text lib (Some (JStr i)) = Inr i" by (rule read_schema_text_again [OF lib])
  then show ?thesis by (simp add: OptionAnswer read_answer_def field_simps')
next
  case (OtherAnswer t)
  with assms(2) obtain w where "normalize_exact_text None True w = Inr t"
    by (auto simp: read_answer_def and_then_Inr_iff split: json_value.splits option.splits if_splits)
  then have "normalize_exact_text None True t = Inr t" by (rule normalize_exact_text_again)
  then show ?thesis by (simp add: OtherAnswer read_answer_def field_simps')
qed (simp_all add: read_answer_def field_simps')

lemma read_response_entry_dump:
  assumes lib: "library_ok lib" and "read_response_entry lib kv = Inr (k, a)"
  shows "read_response_entry lib (k, dump_answer a) = Inr (k, a)"
proof -
  from assms(2) have "read_schema_text lib (Some (JStr (fst kv))) = Inr k" "read_answer lib (snd kv) = Inr a"
    by (auto simp: read_response_entry_def and_then_Inr_iff)
  then show ?thesis
    using read_schema_text_again [OF lib] read_answer_dump [OF lib]
    by (simp add: read_response_entry_def)
qed

lemma dict_store_keys: "fst ` set (dict_store k v kvs) = insert k (fst ` set kvs)"
  by (induction k v kvs rule: dict_store.induct) auto

lemma dict_store_entries: "set (dict_store k v kvs) \<subseteq> insert (k, v) (set kvs)"
  by (induction k v kvs rule: dict_store.induct) auto

lemma dict_store_distinct: "distinct (map fst kvs) \<Longrightarrow> distinct (map fst (dict_store k v kvs))"
proof (induction k v kvs rule: dict_store.induct)
  case (2 k v k' v' kvs)
  then show ?case using dict_store_keys [of k v kvs] by auto
qed simp

lemma dict_store_new: "k \<notin> fst ` set kvs \<Longrightarrow> dict_store k v kvs = kvs @ [(k, v)]"
  by (induction k v kvs rule: dict_store.induct) auto

lemma dict_fold:
  "distinct (map fst acc) \<Longrightarrow>
     distinct (map fst (fold (\<lambda>(k, a). dict_store k a) entries acc)) \<and>
     set (fold (\<lambda>(k, a). dict_store k a) entries acc) \<subseteq> set entries \<union> set acc"
proof (induction entries arbitrary: acc)
  case (Cons e entries)
  obtain k a where e: "e = (k, a)" by (cases e)
  show ?case
    using Cons.IH [OF dict_store_distinct [OF Cons.prems], of k a] dict_store_entries [of k a acc]
    by (auto simp: e)
qed simp

lemma dict_fold_id:
  "distinct (map fst (acc @ entries)) \<Longrightarrow> fold (\<lambda>(k, a). dict_store k a) entries acc = acc @ entries"
proof (induction entries arbitrary: acc)
  case (Cons e entries)
  obtain k a where e: "e = (k, a)" by (cases e)
  have "k \<notin> fst ` set acc" using Cons.prems by (auto simp: e)
  then show ?case using Cons by (auto simp: e dict_store_new)
qed simp

text \<open>
  A set of answers the contract accepted is stored as JSON that validates to the same
  answers: what a resolved request records is what a continuation reads.
\<close>

theorem item_responses_roundtrip:
  assumes lib: "library_ok lib" and r: "read_item_responses lib kvs = Inr rs"
  shows "serialize_item_answers (Some rs) = Some (map (\<lambda>(k, a). (k, dump_answer a)) rs) \<and>
    validated_item_responses lib (serialize_item_answers (Some rs)) = Inr (Some rs)"
proof -
  obtain entries where m: "map_result (read_response_entry lib) kvs = Inr entries" and
    rs: "rs = fold (\<lambda>(k, a). dict_store k a) entries []" and
    n: "\<not> (rs = [] \<or> 3 < length rs)" and
    b: "validate_bounded_json_value (JObj (map (\<lambda>(k, a). (k, dump_answer a)) rs)) = Inr ()"
    using r by (auto simp: read_item_responses_def and_then_Inr_iff Let_def split: if_splits)
  have d: "distinct (map fst rs)" and sub: "set rs \<subseteq> set entries"
    using dict_fold [of "[]" entries] by (auto simp: rs)
  have entry: "read_response_entry lib (k, dump_answer a) = Inr (k, a)" if "(k, a) \<in> set rs" for k a
    using that sub map_result_Inr_set [OF m] read_response_entry_dump [OF lib] by blast
  then have "map_result (read_response_entry lib) (map (\<lambda>(k, a). (k, dump_answer a)) rs) = Inr rs"
    by (induction rs) auto
  moreover have "fold (\<lambda>(k, a). dict_store k a) rs [] = rs" using dict_fold_id [of "[]" rs] d by simp
  ultimately have "read_item_responses lib (map (\<lambda>(k, a). (k, dump_answer a)) rs) = Inr rs"
    using n b by (simp add: read_item_responses_def Let_def)
  then show ?thesis by (simp add: validated_item_responses_def serialize_item_answers_def)
qed

subsection \<open>What answers a request\<close>

fun answer_allowed :: "library \<Rightarrow> human_item \<Rightarrow> human_answer \<Rightarrow> bool" where
  "answer_allowed lib item SkippedAnswer = hi_allow_skip item"
| "answer_allowed lib item (OptionAnswer i) = (\<exists>os. hi_options item = Some os \<and> i \<in> ho_id ` set os)"
| "answer_allowed lib item (OtherAnswer t) = (hi_options item \<noteq> None \<and> hi_allow_other item)"
| "answer_allowed lib item (ValueAnswer v) = (hi_options item = None \<and>
     (\<exists>s. hi_response_schema item = Some s \<and> lib_check_schema lib s \<and> lib_schema_accepts lib s v))"

lemma answered_item_Inr:
  "validate_answered_item_response lib item a = Inr () \<longleftrightarrow> answer_allowed lib item a"
  by (cases a) (auto simp: validate_answered_item_response_def split: option.splits)

lemma validate_each_response_Inr:
  "validate_each_response lib items rs = Inr () \<longleftrightarrow>
     (\<forall>(k, a) \<in> set rs. \<exists>i. find (\<lambda>i. hi_id i = k) (List.rev items) = Some i \<and> answer_allowed lib i a)"
proof (induction lib items rs rule: validate_each_response.induct)
  case (2 lib items k a rs)
  then show ?case by (auto simp: and_then_Inr_iff require_Inr_iff answered_item_Inr)
qed simp

text \<open>
  Answers resolve a request exactly when they name every item of it and nothing else, and
  each is of the form its item allows: a known option, Other or Skip where it is allowed, or
  a value its schema accepts.
\<close>

theorem answered_responses_iff:
  assumes items: "map_result (read_item lib) docs = Inr items" and "distinct (map hi_id items)"
  shows "validate_answered_item_responses lib docs rs = Inr () \<longleftrightarrow>
    fst ` set rs = hi_id ` set items \<and>
    (\<forall>(k, a) \<in> set rs. \<forall>i \<in> set items. hi_id i = k \<longrightarrow> answer_allowed lib i a)"
proof -
  have find: "find (\<lambda>i. hi_id i = k) (List.rev items) = Some i \<longleftrightarrow> i \<in> set items \<and> hi_id i = k" for i k
    using find_unique_iff [of hi_id "List.rev items" "\<lambda>i. hi_id i = k" k i] assms(2)
    by (simp add: keyed_def flip: rev_map)
  have one: "(\<exists>i. i \<in> set items \<and> hi_id i = k \<and> answer_allowed lib i a) \<longleftrightarrow>
      (\<forall>i \<in> set items. hi_id i = k \<longrightarrow> answer_allowed lib i a)" if "k \<in> hi_id ` set items" for k a
    using that assms(2) by (auto simp: distinct_map inj_on_def)
  show ?thesis
  proof (cases "fst ` set rs = hi_id ` set items")
    case True
    then have "(\<exists>i. i \<in> set items \<and> hi_id i = k \<and> answer_allowed lib i a) \<longleftrightarrow>
        (\<forall>i \<in> set items. hi_id i = k \<longrightarrow> answer_allowed lib i a)" if "(k, a) \<in> set rs" for k a
      using that by (intro one) force
    then have "validate_each_response lib items rs = Inr () \<longleftrightarrow>
        (\<forall>(k, a) \<in> set rs. \<forall>i \<in> set items. hi_id i = k \<longrightarrow> answer_allowed lib i a)"
      unfolding validate_each_response_Inr find conj_assoc by (intro ball_cong refl) clarsimp
    then show ?thesis by (simp add: validate_answered_item_responses_def items True)
  qed (simp add: validate_answered_item_responses_def items)
qed

end
