(* ===== verification/HumanRequestProofs.thy ===== *)
theory HumanRequestProofs
  imports SourceInvariant HumanContractProofs CheckpointProofs
begin

text \<open>
  Human Requests, proved: opening one and resolving it keep the controller invariant with the
  correspondence of open requests and waits; an open request is resolved exactly once, and
  its resolution never finds its wait missing.
\<close>

subsection \<open>Opening\<close>

lemma stage_human_request_files_frame:
  "stage_human_request_files request files d = Inr d' \<Longrightarrow> \<exists>fs. d' = d\<lparr>human_request_files := fs\<rparr>"
  by (auto simp: stage_human_request_files_def and_then_Inr_iff)

lemma open_human_request_steps:
  assumes "open_human_request env probe fx au rq d = Inr (r, d')"
  obtains workspace hs fs ws d2 where
    "read_workspace_path (na_task_id au) d = Inr workspace" "r = human_request_id_of au fx"
    "insert_human_request (new_human_request_row au r rq (env_now env)) (human_requests d) = Inr hs"
    "insert_wait (human_wait_row au r (human_wait_id_of fx) (env_now env)) (waits d) = Inr ws"
    "suspend_current_attempt_on_wait (authority_identity au) (human_wait_id_of fx)
       (na_team_revision_id au) (env_now env) CHumanRequestWait
       (d\<lparr>human_requests := hs, human_request_files := fs, waits := ws\<rparr>) = Some d2"
    "append_task_event env (human_request_opened_event au r rq (env_now env)) d2 = Inr d'"
proof -
  let ?r = "human_request_id_of au fx"
  from assms obtain workspace files hs d1 ws d2 d3 where
    p: "read_workspace_path (na_task_id au) d = Inr workspace" and
    hs: "insert_human_request (new_human_request_row au ?r rq (env_now env)) (human_requests d) = Inr hs" and
    d1: "stage_human_request_files ?r files (d\<lparr>human_requests := hs\<rparr>) = Inr d1" and
    ws: "insert_wait (human_wait_row au ?r (human_wait_id_of fx) (env_now env)) (waits d1) = Inr ws" and
    d2: "suspend_current_attempt au (human_wait_id_of fx) (env_now env) CHumanRequestWait
         (d1\<lparr>waits := ws\<rparr>) = Inr d2" and
    d3: "append_task_event env (human_request_opened_event au ?r rq (env_now env)) d2 = Inr d3" and
    res: "Inr (?r, d3) = (Inr (r, d') :: (ident \<times> db) result)"
    unfolding open_human_request_def by (elim and_then_InrE) blast
  from stage_human_request_files_frame [OF d1] obtain fs where
    f: "d1 = d\<lparr>human_requests := hs, human_request_files := fs\<rparr>" by auto
  show thesis
    by (rule that [where workspace = workspace and hs = hs and fs = fs and ws = ws and ?d2.0 = d2])
      (use p hs ws d2 d3 res f in \<open>auto simp: suspend_current_attempt_def require_Inr_iff\<close>)
qed

lemma open_human_request_runtime_ok:
  assumes ok: "runtime_ok (env_event_hash env) d"
    and op: "open_human_request env probe fx au rq d = Inr (r, d')"
  shows "runtime_ok (env_event_hash env) d'"
proof (rule open_human_request_steps [OF op])
  fix hs fs ws d2
  let ?h = "new_human_request_row au r rq (env_now env)"
  let ?w = "human_wait_row au r (human_wait_id_of fx) (env_now env)"
  let ?d1 = "d\<lparr>human_requests := hs, human_request_files := fs\<rparr>"
  assume hs: "insert_human_request ?h (human_requests d) = Inr hs"
    and ws: "insert_wait ?w (waits d) = Inr ws"
    and sus: "suspend_current_attempt_on_wait (authority_identity au) (human_wait_id_of fx)
       (na_team_revision_id au) (env_now env) CHumanRequestWait
       (d\<lparr>human_requests := hs, human_request_files := fs, waits := ws\<rparr>) = Some d2"
    and ap: "append_task_event env (human_request_opened_event au r rq (env_now env)) d2 = Inr d'"
  have c1: "controller_ok (env_event_hash env) ?d1" using runtime_ok_parts(1) [OF ok] by simp
  have c2: "controller_ok (env_event_hash env) d2"
    by (rule park_on_new_wait_controller_ok [OF c1, of ?w ws, where reason = CHumanRequestWait])
      (use ws sus in \<open>auto simp: human_wait_row_def authority_identity_def\<close>)
  obtain ds as where d2: "d2 = ?d1\<lparr>waits := ws, dispatches := ds, attempts := as\<rparr>"
    by (rule suspend_current_attempt_on_wait_frame [OF sus])
  note H = insert_human_request_Inr [OF hs] and W = insert_wait_Inr [OF ws]
  have m: "human_wait_matches ?h ?w" "hr_status ?h = HumanOpen"
    by (simp_all add: human_wait_matches_def human_wait_row_def new_human_request_row_def)
  have "humans_ok d2"
    using runtime_ok_parts(2) [OF ok] H W m unfolding humans_ok_def d2
    by (auto simp: keyed_insert)
  moreover have "commands_ok d2"
    by (rule commands_ok_frame [OF _ _ runtime_ok_parts(3) [OF ok]])
      (use W in \<open>auto simp: d2 human_wait_row_def task_is_cancelled_def\<close>)
  ultimately have "runtime_ok (env_event_hash env) d2" using c2 by (simp add: runtime_ok_def)
  then show ?thesis by (rule append_runtime_ok [OF _ ap])
qed

subsection \<open>Resolving\<close>

lemma consume_exact_human_wait_Some:
  assumes ok: "lanes_ok d" and c: "consume_exact_human_wait h d = Some d'"
  obtains w as where "w \<in> set (waits d)" "human_wait_matches h w"
    "d' = d\<lparr>waits := filter (\<lambda>v. v \<noteq> w) (waits d), attempts := as\<rparr>" "lanes_ok d'"
proof -
  obtain w ws where f: "find (human_wait_matches h) (waits d) = Some w"
    and del: "delete_where (human_wait_matches h) (waits d) = Some ws"
    and cl: "clear_current_attempt_wait \<lparr>wi_task_id = hr_task_id h, wi_assignment_id = hr_assignment_id h,
       wi_attempt_id = hr_attempt_id h, wi_wait_id = aw_wait_id w\<rparr> (d\<lparr>waits := ws\<rparr>) = Some d'"
    using c by (auto simp: consume_exact_human_wait_def bind_eq_Some_conv split: option.splits)
  have "w \<in> set (waits d) \<and> human_wait_matches h w \<and> ws = filter (\<lambda>v. v \<noteq> w) (waits d) \<and>
    (\<exists>as. d' = d\<lparr>waits := ws, attempts := as\<rparr>) \<and> lanes_ok d'"
    by (rule consume_wait [OF ok f _ _ del cl]) (simp_all add: human_wait_matches_def)
  then show thesis using that by blast
qed

text \<open>A resolution that won, step by step; the source is a stored row.\<close>

lemma persist_resolution_won:
  assumes key: "keyed hr_request_id (human_requests d)" and src: "h \<in> set (human_requests d)"
    and p: "persist_human_request_resolution env h r due d = Inr (True, d')"
  obtains d1 where "hr_status h = HumanOpen" "due = None \<or> hr_due_at h = due"
    "rn_request_id r = hr_request_id h" "rn_task_id r = hr_task_id h"
    "ck_human_request (apply_resolution r h)"
    "consume_exact_human_wait h (d\<lparr>human_requests :=
       replace_row h (apply_resolution r h) (human_requests d)\<rparr>) = Some d1"
    "append_task_event env (human_terminal_event h r) d1 = Inr d'"
proof -
  let ?p = "\<lambda>g. hr_request_id g = hr_request_id h \<and> hr_task_id g = hr_task_id h \<and>
    hr_status g = HumanOpen \<and> (due = None \<or> hr_due_at g = due)"
  from p obtain hs d1 where ids: "rn_request_id r = hr_request_id h" "rn_task_id r = hr_task_id h" and
    up: "update_checked ck_human_request ?p (apply_resolution r) (human_requests d) = Inr (Some hs)" and
    c: "consume_exact_human_wait h (d\<lparr>human_requests := hs\<rparr>) = Some d1" and
    e: "append_task_event env (human_terminal_event h r) d1 = Inr d'"
    unfolding persist_human_request_resolution_def
    by (auto simp: and_then_Inr_iff require_Inr_iff split: if_splits option.splits)
  have pk: "\<forall>g. ?p g \<longrightarrow> hr_request_id g = hr_request_id h" by simp
  from up obtain g where g: "g \<in> set (human_requests d)" "?p g"
    "hs = replace_row g (apply_resolution r g) (human_requests d)" "ck_human_request (apply_resolution r g)"
    unfolding update_checked_Inr_iff eq_commute [of "Some hs"] update_unique_iff [OF key pk] by blast
  have "g = h" using g(1,2) src by (intro keyed_unique [OF key]) auto
  then show thesis using that g ids c e by simp
qed

lemma apply_resolution_simps [simp]:
  "hr_request_id (apply_resolution r h) = hr_request_id h"
  "hr_task_id (apply_resolution r h) = hr_task_id h"
  "hr_status (apply_resolution r h) \<noteq> HumanOpen"
  "hr_successor_dispatch_id (apply_resolution r h) = hr_successor_dispatch_id h"
  by (cases "rn_kind r"; simp add: apply_resolution_def)+

text \<open>A request that leaves the open state together with the one wait that parks it.\<close>

lemma humans_ok_settle:
  assumes ok: "humans_ok d" and h: "h \<in> set (human_requests d)" "hr_request_id h' = hr_request_id h"
      "ck_human_request h'" "hr_status h' \<noteq> HumanOpen"
    and one: "\<And>u. u \<in> set (waits d) \<Longrightarrow> human_wait_matches h u \<Longrightarrow> u = w"
    and other: "\<And>g. g \<in> set (human_requests d) \<Longrightarrow> human_wait_matches g w \<Longrightarrow> g = h"
    and d': "human_requests d' = replace_row h h' (human_requests d)"
      "waits d' = filter (\<lambda>v. v \<noteq> w) (waits d)"
  shows "humans_ok d'"
proof -
  note H = ok [unfolded humans_ok_def]
  have "keyed hr_request_id (human_requests d')" using H h(1,2) by (simp add: d' keyed_replace_row)
  moreover have rows: "g = h' \<or> g \<in> set (human_requests d) \<and> g \<noteq> h" if "g \<in> set (human_requests d')" for g
    using that by (auto simp: d' replace_row_def split: if_splits)
  have "ck_human_request g" if "g \<in> set (human_requests d')" for g
    using rows [OF that] H h(3) by blast
  moreover have "\<exists>u \<in> set (waits d'). human_wait_matches g u"
    if g: "g \<in> set (human_requests d')" "hr_status g = HumanOpen" for g
  proof -
    have g': "g \<in> set (human_requests d)" "g \<noteq> h" using rows [OF g(1)] g(2) h(4) by auto
    then obtain u where "u \<in> set (waits d)" "human_wait_matches g u" using H g(2) by blast
    with other g' show ?thesis unfolding d' by auto
  qed
  moreover have "\<exists>g \<in> set (human_requests d'). hr_status g = HumanOpen \<and> human_wait_matches g u"
    if u: "u \<in> set (waits d')" "aw_human_request_id u \<noteq> None" for u
  proof -
    have u': "u \<in> set (waits d)" "u \<noteq> w" using u(1) unfolding d' by auto
    then obtain g where g: "g \<in> set (human_requests d)" "hr_status g = HumanOpen" "human_wait_matches g u"
      using H u(2) by blast
    then have "g \<noteq> h" using one u' by blast
    then have "g \<in> set (human_requests d')" using g(1) by (auto simp: d' replace_row_def)
    with g show ?thesis by blast
  qed
  ultimately show ?thesis unfolding humans_ok_def by blast
qed

lemma persist_resolution_runtime_ok:
  assumes ok: "runtime_ok (env_event_hash env) d" and src: "h \<in> set (human_requests d)"
    and p: "persist_human_request_resolution env h r due d = Inr (True, d')"
  shows "runtime_ok (env_event_hash env) d'"
proof -
  have key: "keyed hr_request_id (human_requests d)" using runtime_ok_parts(2) [OF ok] by (simp add: humans_ok_def)
  let ?d1 = "d\<lparr>human_requests := replace_row h (apply_resolution r h) (human_requests d)\<rparr>"
  obtain d2 where st: "hr_status h = HumanOpen" and ck: "ck_human_request (apply_resolution r h)" and
    c: "consume_exact_human_wait h ?d1 = Some d2" and
    e: "append_task_event env (human_terminal_event h r) d2 = Inr d'"
    by (rule persist_resolution_won [OF key src p])
  have c1: "controller_ok (env_event_hash env) ?d1" using runtime_ok_parts(1) [OF ok] by simp
  obtain w as where w: "w \<in> set (waits d)" "human_wait_matches h w" and
    d2: "d2 = ?d1\<lparr>waits := filter (\<lambda>v. v \<noteq> w) (waits d), attempts := as\<rparr>" and l: "lanes_ok d2"
    using consume_exact_human_wait_Some [OF controller_ok_parts(1) [OF c1] c] by auto
  have c2: "controller_ok (env_event_hash env) d2"
    by (rule controller_ok_lanes [OF c1 l]) (simp_all add: d2)
  have one: "u = w" if "u \<in> set (waits d)" "human_wait_matches h u" for u
    using that w by (intro lanes_ok_one_wait [OF runtime_ok_parts(4) [OF ok]]) (auto simp: human_wait_matches_def)
  have other: "g = h" if "g \<in> set (human_requests d)" "human_wait_matches g w" for g
    using that w src by (intro keyed_unique [OF key]) (auto simp: human_wait_matches_def)
  have "humans_ok d2"
    by (rule humans_ok_settle [OF runtime_ok_parts(2) [OF ok] src _ ck _ one other]) (simp_all add: d2)
  moreover have "commands_ok d2"
    by (rule commands_ok_frame [OF _ _ runtime_ok_parts(3) [OF ok]])
      (use w in \<open>auto simp: d2 human_wait_matches_def task_is_cancelled_def\<close>)
  ultimately have "runtime_ok (env_event_hash env) d2" using c2 by (simp add: runtime_ok_def)
  then show ?thesis by (rule append_runtime_ok [OF _ e])
qed

lemma persist_resolution_lost:
  assumes "\<And>g. g \<in> set (human_requests d) \<Longrightarrow> hr_request_id g = hr_request_id h \<Longrightarrow> hr_status g \<noteq> HumanOpen"
    and "rn_request_id r = hr_request_id h" "rn_task_id r = hr_task_id h" "rn_kind r = TimedOut \<longrightarrow> due \<noteq> None"
  shows "persist_human_request_resolution env h r due d = Inr (False, d)"
proof -
  have "update_checked ck_human_request
      (\<lambda>g. hr_request_id g = hr_request_id h \<and> hr_task_id g = hr_task_id h \<and> hr_status g = HumanOpen \<and>
        (due = None \<or> hr_due_at g = due)) (apply_resolution r) (human_requests d) = Inr None"
    using assms(1) by (auto simp: update_checked_Inr_iff eq_commute [of None] update_where_None_iff)
  with assms(2-) show ?thesis unfolding persist_human_request_resolution_def by auto
qed

subsection \<open>Progress\<close>

lemma ck_apply_resolution:
  assumes "ck_human_request h" "hr_status h = HumanOpen" "validate_resolution_shape r = Inr r"
    and "rn_kind r = TimedOut \<longrightarrow> hr_due_at h \<noteq> None"
  shows "ck_human_request (apply_resolution r h)"
  using assms
  by (cases "rn_kind r")
    (auto simp: ck_human_request_def apply_resolution_def validate_resolution_shape_def
      serialize_item_answers_def split: if_splits)

lemma consume_exact_human_wait_possible:
  assumes ok: "lanes_ok d" and w: "w \<in> set (waits d)" "human_wait_matches h w"
    and d': "waits d' = waits d" "attempts d' = attempts d"
  obtains as where "consume_exact_human_wait h d' =
      Some (d'\<lparr>waits := filter (\<lambda>v. \<not> human_wait_matches h v) (waits d), attempts := as\<rparr>)"
proof -
  let ?d1 = "d'\<lparr>waits := filter (\<lambda>v. \<not> human_wait_matches h v) (waits d)\<rparr>"
  obtain v where v: "find (human_wait_matches h) (waits d) = Some v"
    using w by (cases "find (human_wait_matches h) (waits d)") (auto dest: find_None_D)
  from find_Some_D [OF this] have m: "v \<in> set (waits d)" "human_wait_matches h v" by auto
  have del: "delete_where (human_wait_matches h) (waits d) =
      Some (filter (\<lambda>v. \<not> human_wait_matches h v) (waits d))"
    using w by (auto simp: delete_where_Some_iff)
  obtain as where "clear_current_attempt_wait \<lparr>wi_task_id = hr_task_id h, wi_assignment_id = hr_assignment_id h,
       wi_attempt_id = hr_attempt_id h, wi_wait_id = aw_wait_id v\<rparr> ?d1 = Some (?d1\<lparr>attempts := as\<rparr>)"
    using wake_possible [OF ok m(1), of "\<lparr>wi_task_id = hr_task_id h, wi_assignment_id = hr_assignment_id h,
       wi_attempt_id = hr_attempt_id h, wi_wait_id = aw_wait_id v\<rparr>" ?d1] m(2) d'(2)
    by (auto simp: human_wait_matches_def)
  with v del show thesis by (intro that) (simp add: consume_exact_human_wait_def d'(1))
qed

lemma clear_current_attempt_wait_woken:
  assumes "clear_current_attempt_wait i d = Some d'"
  shows "\<exists>a \<in> set (attempts d'). at_attempt_id a = wi_attempt_id i \<and> at_status a = AttRunning \<and>
    at_current_dispatch_id a = None \<and> at_current_wait_id a = None"
proof -
  let ?p = "\<lambda>a. at_attempt_id a = wi_attempt_id i \<and> at_task_id a = wi_task_id i \<and>
      at_assignment_id a = wi_assignment_id i \<and> at_status a = AttRunning \<and>
      at_current_dispatch_id a = None \<and> at_current_wait_id a = Some (wi_wait_id i)"
  let ?f = "\<lambda>a. a\<lparr>at_current_wait_id := None\<rparr>"
  obtain a where a: "a \<in> set (attempts d)" "?p a"
    and d': "d' = d\<lparr>attempts := map (\<lambda>a. if ?p a then ?f a else a) (attempts d)\<rparr>"
    using assms by (auto simp: clear_current_attempt_wait_def map_option_eq_Some update_where_Some_iff)
  have "?f a \<in> set (attempts d')" unfolding d' using a by (auto intro: image_eqI [of _ _ a])
  with a show ?thesis by (intro bexI [of _ "?f a"]) auto
qed

lemma consume_exact_human_wait_woken:
  assumes "consume_exact_human_wait h d = Some d'"
  shows "\<exists>a \<in> set (attempts d'). at_attempt_id a = hr_attempt_id h \<and> at_status a = AttRunning \<and>
    at_current_dispatch_id a = None \<and> at_current_wait_id a = None"
  using assms clear_current_attempt_wait_woken
  by (fastforce simp: consume_exact_human_wait_def bind_eq_Some_conv split: option.splits)

lemma persist_resolution_progress:
  assumes ok: "runtime_ok (env_event_hash env) d" and h: "h \<in> set (human_requests d)" "hr_status h = HumanOpen"
    and r: "rn_request_id r = hr_request_id h" "rn_task_id r = hr_task_id h" "validate_resolution_shape r = Inr r"
    and due: "due = None \<or> hr_due_at h = due" "rn_kind r = TimedOut \<longrightarrow> due \<noteq> None"
    and head: "hr_task_id h \<in> eh_task_id ` set (event_heads d)"
  shows "\<exists>d'. persist_human_request_resolution env h r due d = Inr (True, d')"
proof -
  let ?p = "\<lambda>g. hr_request_id g = hr_request_id h \<and> hr_task_id g = hr_task_id h \<and>
    hr_status g = HumanOpen \<and> (due = None \<or> hr_due_at g = due)"
  let ?hs = "replace_row h (apply_resolution r h) (human_requests d)"
  note H = runtime_ok_parts(2) [OF ok, unfolded humans_ok_def]
  have key: "keyed hr_request_id (human_requests d)" using H by blast
  have same: "g = h" if "g \<in> set (human_requests d)" "?p g" for g
    using that h(1) by (intro keyed_unique [OF key]) auto
  have "rn_kind r = TimedOut \<longrightarrow> hr_due_at h \<noteq> None" using due by auto
  then have ck: "ck_human_request (apply_resolution r h)" using H h r by (blast intro: ck_apply_resolution)
  have pk: "\<forall>g. ?p g \<longrightarrow> hr_request_id g = hr_request_id h" by simp
  have "update_where ?p (apply_resolution r) (human_requests d) = Some ?hs"
    unfolding update_unique_iff [OF key pk] using h due by (intro bexI [of _ h]) auto
  moreover have "\<forall>g \<in> set (human_requests d). ?p g \<longrightarrow> ck_human_request (apply_resolution r g)"
    using same ck by auto
  ultimately have up: "update_checked ck_human_request ?p (apply_resolution r) (human_requests d) = Inr (Some ?hs)"
    unfolding update_checked_Inr_iff by (intro conjI) simp_all
  obtain w where w: "w \<in> set (waits d)" "human_wait_matches h w" using H h by blast
  obtain ws as where c: "consume_exact_human_wait h (d\<lparr>human_requests := ?hs\<rparr>) =
      Some (d\<lparr>human_requests := ?hs, waits := ws, attempts := as\<rparr>)" (is "_ = Some ?d2")
    by (rule consume_exact_human_wait_possible [OF runtime_ok_parts(4) [OF ok] w, of "d\<lparr>human_requests := ?hs\<rparr>"])
      simp_all
  have "events_ok (env_event_hash env) ?d2"
    using runtime_ok_parts(5) [OF ok] events_ok_frame [of ?d2 d] by simp
  moreover have "ed_task_id (human_terminal_event h r) \<in> eh_task_id ` set (event_heads ?d2)"
    using head by (simp add: human_terminal_event_def)
  ultimately have "append_task_event env (human_terminal_event h r) ?d2 =
      Inr (with_appended_event env (human_terminal_event h r) ?d2)" by (rule append_task_event_eq)
  then show ?thesis
    unfolding persist_human_request_resolution_def using r(1,2) due(2) up c by simp
qed

subsection \<open>Properties\<close>

text \<open>Opening a Human Request keeps the controller invariant and parks its Attempt: the stored
  request is open and has a wait of its own, the Attempt it belongs to has no Dispatch and waits
  on exactly that wait, and the Dispatch that asked is closed.
\<close>

theorem open_human_request_parks:
  assumes "runtime_ok (env_event_hash env) d"
    and "open_human_request env probe fx au rq d = Inr (request, d')"
  shows "runtime_ok (env_event_hash env) d' \<and>
    (\<exists>h \<in> set (human_requests d'). hr_request_id h = request \<and> hr_status h = HumanOpen \<and>
      (\<exists>w \<in> set (waits d'). human_wait_matches h w \<and>
        (\<exists>a \<in> set (attempts d'). at_attempt_id a = na_attempt_id au \<and> at_status a = AttRunning \<and>
           at_current_dispatch_id a = None \<and> at_current_wait_id a = Some (aw_wait_id w))))"
proof (rule open_human_request_steps [OF assms(2)])
  fix hs fs ws d2
  let ?h = "new_human_request_row au request rq (env_now env)"
  let ?w = "human_wait_row au request (human_wait_id_of fx) (env_now env)"
  let ?d1 = "d\<lparr>human_requests := hs, human_request_files := fs, waits := ws\<rparr>"
  assume hs: "insert_human_request ?h (human_requests d) = Inr hs"
    and ws: "insert_wait ?w (waits d) = Inr ws"
    and sus: "suspend_current_attempt_on_wait (authority_identity au) (human_wait_id_of fx)
       (na_team_revision_id au) (env_now env) CHumanRequestWait ?d1 = Some d2"
    and ap: "append_task_event env (human_request_opened_event au request rq (env_now env)) d2 = Inr d'"
  have ok': "runtime_ok (env_event_hash env) d'" by (rule open_human_request_runtime_ok [OF assms])
  obtain ds as where d2: "d2 = ?d1\<lparr>dispatches := ds, attempts := as\<rparr>"
    by (rule suspend_current_attempt_on_wait_frame [OF sus])
  have d': "human_requests d' = hs" "waits d' = ws"
    using append_task_event_frame [OF ap] d2 by auto
  have h: "?h \<in> set (human_requests d')" and w: "?w \<in> set (waits d')"
    using insert_human_request_Inr [OF hs] insert_wait_Inr [OF ws] d' by auto
  have m: "human_wait_matches ?h ?w" "hr_status ?h = HumanOpen" "hr_request_id ?h = request"
    by (simp_all add: human_wait_matches_def human_wait_row_def new_human_request_row_def)
  obtain a where "a \<in> set (attempts d')" "attempt_owns_wait a ?w" "at_status a = AttRunning"
    "at_current_dispatch_id a = None"
    by (rule lanes_ok_wait_owner [OF runtime_ok_parts(4) [OF ok'] w])
  then have "\<exists>a \<in> set (attempts d'). at_attempt_id a = na_attempt_id au \<and> at_status a = AttRunning \<and>
      at_current_dispatch_id a = None \<and> at_current_wait_id a = Some (aw_wait_id ?w)"
    by (intro bexI [of _ a]) (auto simp: attempt_owns_wait_def human_wait_row_def)
  with ok' h w m show ?thesis by blast
qed

text \<open>
  C24. A Human Request is resolved once: after a resolution or a timeout has won, the state is
  still consistent and every further resolution or timeout of the request, by whichever surface
  and with whatever answers, loses and changes nothing.
\<close>

theorem human_request_resolved_once:
  assumes ok: "runtime_ok (env_event_hash env) d" and h: "h \<in> set (human_requests d)"
    and won: "persist_human_request_resolution env h r due d = Inr (True, d')"
    and r': "rn_request_id r' = hr_request_id h" "rn_task_id r' = hr_task_id h"
      "rn_kind r' = TimedOut \<longrightarrow> due' \<noteq> None"
  shows "runtime_ok (env_event_hash env) d' \<and>
    persist_human_request_resolution env' h r' due' d' = Inr (False, d')"
proof
  show ok': "runtime_ok (env_event_hash env) d'" by (rule persist_resolution_runtime_ok [OF ok h won])
  have key: "keyed hr_request_id (human_requests d)" using runtime_ok_parts(2) [OF ok] by (simp add: humans_ok_def)
  have key': "keyed hr_request_id (human_requests d')" using runtime_ok_parts(2) [OF ok'] by (simp add: humans_ok_def)
  let ?d1 = "d\<lparr>human_requests := replace_row h (apply_resolution r h) (human_requests d)\<rparr>"
  obtain d2 where c: "consume_exact_human_wait h ?d1 = Some d2"
    and e: "append_task_event env (human_terminal_event h r) d2 = Inr d'"
    by (rule persist_resolution_won [OF key h won])
  have "human_requests d2 = human_requests ?d1"
    using c by (auto simp: consume_exact_human_wait_def clear_current_attempt_wait_def bind_eq_Some_conv
      map_option_eq_Some split: option.splits)
  then have "apply_resolution r h \<in> set (human_requests d')"
    using append_task_event_frame [OF e] h by (auto simp: set_replace_row)
  then have closed: "hr_status g \<noteq> HumanOpen" if "g \<in> set (human_requests d')" "hr_request_id g = hr_request_id h" for g
    using keyed_unique [OF key' that(1)] that(2) by auto
  with r' show "persist_human_request_resolution env' h r' due' d' = Inr (False, d')"
    by (intro persist_resolution_lost) auto
qed

text \<open>
  C25. An open request can always be resolved: in a consistent state, a resolution of the right
  shape for a stored open request (a timeout with its stored deadline) wins; it never finds the
  wait of the request missing or taken. Afterwards the Attempt runs with neither a wait nor a
  Dispatch, ready for its successor.
\<close>

theorem human_request_progress:
  assumes ok: "runtime_ok (env_event_hash env) d"
    and h: "h \<in> set (human_requests d)" "hr_status h = HumanOpen"
    and r: "rn_request_id r = hr_request_id h" "rn_task_id r = hr_task_id h"
      "validate_resolution_shape r = Inr r"
    and due: "due = None \<or> hr_due_at h = due" "rn_kind r = TimedOut \<longrightarrow> due \<noteq> None"
    and head: "hr_task_id h \<in> eh_task_id ` set (event_heads d)"
  shows "\<exists>d'. persist_human_request_resolution env h r due d = Inr (True, d') \<and>
    (\<exists>a \<in> set (attempts d'). at_attempt_id a = hr_attempt_id h \<and> at_status a = AttRunning \<and>
       at_current_dispatch_id a = None \<and> at_current_wait_id a = None)"
proof -
  have key: "keyed hr_request_id (human_requests d)" using runtime_ok_parts(2) [OF ok] by (simp add: humans_ok_def)
  obtain d' where won: "persist_human_request_resolution env h r due d = Inr (True, d')"
    using persist_resolution_progress [OF ok h r due head] by blast
  obtain d2 where c: "consume_exact_human_wait h
      (d\<lparr>human_requests := replace_row h (apply_resolution r h) (human_requests d)\<rparr>) = Some d2"
    and e: "append_task_event env (human_terminal_event h r) d2 = Inr d'"
    by (rule persist_resolution_won [OF key h(1) won])
  have "attempts d' = attempts d2" using append_task_event_frame [OF e] by auto
  with won consume_exact_human_wait_woken [OF c] show ?thesis by auto
qed

lemma read_human_request_iff:
  assumes "humans_ok d"
  shows "read_human_request q d = Some h \<longleftrightarrow> h \<in> set (human_requests d) \<and> hr_request_id h = q"
  using assms find_unique_iff [of hr_request_id "human_requests d" "\<lambda>h. hr_request_id h = q" q h]
  by (auto simp: read_human_request_def humans_ok_def)

text \<open>
  A deadline signal times a request out exactly when the request is open, the signal carries
  its stored deadline and that deadline has passed; every other signal (a late, early, stale or
  unknown one) changes nothing.
\<close>

theorem human_deadline_exact:
  assumes ok: "runtime_ok (env_event_hash env) d"
    and heads: "\<forall>h \<in> set (human_requests d). hr_task_id h \<in> eh_task_id ` set (event_heads d)"
  shows "((\<exists>d'. expire_human_request env q signal now d = Inr (True, d')) \<longleftrightarrow>
      (\<exists>h \<in> set (human_requests d). hr_request_id h = q \<and> hr_status h = HumanOpen \<and>
         hr_due_at h = Some signal \<and> signal \<le> now)) \<and>
    (expire_human_request env q signal now d = Inr (False, d) \<or>
      (\<exists>d'. expire_human_request env q signal now d = Inr (True, d')))"
proof -
  note R = read_human_request_iff [OF runtime_ok_parts(2) [OF ok]]
  have win: "\<exists>d'. expire_human_request env q signal now d = Inr (True, d')"
    if h: "h \<in> set (human_requests d)" "hr_request_id h = q" "hr_status h = HumanOpen"
      "hr_due_at h = Some signal" "signal \<le> now" for h
  proof -
    have "validate_resolution_shape (timeout_resolution h now) = Inr (timeout_resolution h now)"
      by (simp add: validate_resolution_shape_def timeout_resolution_def)
    then have "\<exists>d'. persist_human_request_resolution env h (timeout_resolution h now) (Some signal) d = Inr (True, d')"
      using h heads by (intro persist_resolution_progress [OF ok]) (simp_all add: timeout_resolution_def)
    moreover have "read_human_request q d = Some h" using h R by blast
    ultimately show ?thesis using h by (simp add: expire_human_request_def)
  qed
  have lose: "expire_human_request env q signal now d = Inr (False, d)"
    if "\<not> (\<exists>h \<in> set (human_requests d). hr_request_id h = q \<and> hr_status h = HumanOpen \<and>
      hr_due_at h = Some signal \<and> signal \<le> now)"
    using that R by (auto simp: expire_human_request_def split: option.splits)
  show ?thesis using win lose by (intro conjI iffI) fastforce+
qed

text \<open>
  A human answer is accepted exactly when the request is one of the Task's, is still open
  and the answers answer every item; an unknown or already settled request is a conflict, and a
  wrong answer is refused with the validation's own error and without any change.
\<close>

theorem human_answer_accepted_iff:
  assumes ok: "runtime_ok (env_event_hash env) d"
    and head: "task \<in> eh_task_id ` set (event_heads d)" and "responses \<noteq> []"
  shows "((\<exists>x. resolve_human_request env lib task q responses actor surface d = Inr x) \<longleftrightarrow>
      (\<exists>h \<in> set (human_requests d). hr_task_id h = task \<and> hr_request_id h = q \<and> hr_status h = HumanOpen \<and>
         validate_answered_item_responses lib (hr_request_items h) responses = Inr ())) \<and>
    (\<forall>e. resolve_human_request env lib task q responses actor surface d = Inl e \<longrightarrow>
      e = (case human_request_for_task task q d of
          None \<Rightarrow> human_request_conflict q '' is not current''
        | Some h \<Rightarrow> (case validate_answered_item_responses lib (hr_request_items h) responses of
            Inl e' \<Rightarrow> e'
          | Inr _ \<Rightarrow> human_request_conflict q '' is already terminal'')))"
proof -
  note H = runtime_ok_parts(2) [OF ok, unfolded humans_ok_def]
  have R: "human_request_for_task task q d = Some h \<longleftrightarrow>
      h \<in> set (human_requests d) \<and> hr_task_id h = task \<and> hr_request_id h = q" for h
    using H find_unique_iff [of hr_request_id "human_requests d"
      "\<lambda>h. hr_task_id h = task \<and> hr_request_id h = q" q h]
    by (simp add: human_request_for_task_def)
  show ?thesis
  proof (cases "human_request_for_task task q d")
    case None
    then show ?thesis using R by (auto simp: resolve_human_request_def)
  next
    case (Some h)
    then have h: "h \<in> set (human_requests d)" "hr_task_id h = task" "hr_request_id h = q" using R by auto
    let ?r = "\<lparr>rn_request_id = hr_request_id h, rn_task_id = hr_task_id h, rn_kind = Answered,
          rn_item_responses = Some responses, rn_summary = resolution_summary,
          rn_resolved_at = env_now env, rn_actor_ref = actor, rn_surface = surface\<rparr>"
    let ?v = "validate_answered_item_responses lib (hr_request_items h) responses"
    have shape: "validate_resolution_shape ?r = Inr ?r" using assms(3) by (simp add: validate_resolution_shape_def)
    have eq: "resolve_human_request env lib task q responses actor surface d =
        and_then ?v (\<lambda>_. and_then (persist_human_request_resolution env h ?r None d) (\<lambda>(won, d1).
          if \<not> won then Inl (human_request_conflict q '' is already terminal'') else Inr (?r, d1)))"
      using Some shape by (simp add: resolve_human_request_def)
    have "\<exists>d'. persist_human_request_resolution env h ?r None d = Inr (True, d')" if "hr_status h = HumanOpen"
      using persist_resolution_progress [OF ok h(1) that, of ?r None] shape head h by simp
    moreover have "persist_human_request_resolution env h ?r None d = Inr (False, d)" if "hr_status h \<noteq> HumanOpen"
      by (rule persist_resolution_lost) (use that h keyed_unique [OF conjunct1 [OF H]] in auto)
    moreover have "(\<exists>g \<in> set (human_requests d). hr_task_id g = task \<and> hr_request_id g = q \<and> hr_status g = HumanOpen \<and>
         validate_answered_item_responses lib (hr_request_items g) responses = Inr ()) \<longleftrightarrow>
       hr_status h = HumanOpen \<and> ?v = Inr ()"
      using h keyed_unique [OF conjunct1 [OF H]] by blast
    ultimately show ?thesis using Some eq by (cases "hr_status h = HumanOpen"; cases ?v) auto
  qed
qed

end
