(* ===== verification/ContractWitnesses.thy ===== *)
theory ContractWitnesses
  imports Texts Identifiers HumanContractProofs Samples
begin

text \<open>
  The contract properties applied to concrete inputs: a text with each kind of line ending,
  the path \<open>src//./a.py\<close>, a Task id allocation whose first draw is taken, and a question
  with two options.
\<close>

theorem exact_text_is_unix_lines_witness:
  "normalize_exact_text (Some 100) True [0x61, 0xD, 0xA, 0x62, 0xD] = Inr [0x61, 0xA, 0x62, 0xA] \<and>
   normalize_exact_text (Some 100) True [0x61, 0xA, 0x62, 0xA] = Inr [0x61, 0xA, 0x62, 0xA]"
proof -
  have s: "normalize_exact_text (Some 100) True [0x61, 0xD, 0xA, 0x62, 0xD] = Inr [0x61, 0xA, 0x62, 0xA]"
    by (simp add: normalize_exact_text_def is_xml_character_def replace_cr_def strip_def is_space_def utf8_length_def utf8_width_def)
  have "(\<forall>c \<in> set [0x61, 0xD, 0xA, 0x62, 0xD]. is_xml_character c) \<and>
      strip (unix_lines [0x61, 0xD, 0xA, 0x62, 0xD]) \<noteq> [] \<and> utf8_length (unix_lines [0x61, 0xD, 0xA, 0x62, 0xD]) \<le> 100"
    by (simp add: is_xml_character_def unix_lines_def strip_def is_space_def utf8_length_def utf8_width_def)
  with s exact_text_is_unix_lines [where limit = "Some 100" and nonblank = True and s = "[0x61, 0xD, 0xA, 0x62, 0xD]"]
  show ?thesis by simp
qed

theorem normalized_path_is_canonical_witness:
  "normalize_path [0x73, 0x72, 0x63, 0x2F, 0x2F, 0x2E, 0x2F, 0x61, 0x2E, 0x70, 0x79] =
     Inr [0x73, 0x72, 0x63, 0x2F, 0x61, 0x2E, 0x70, 0x79] \<and>
   normalize_path [0x73, 0x72, 0x63, 0x2F, 0x61, 0x2E, 0x70, 0x79] =
     Inr [0x73, 0x72, 0x63, 0x2F, 0x61, 0x2E, 0x70, 0x79]"
proof -
  have s: "normalize_path [0x73, 0x72, 0x63, 0x2F, 0x2F, 0x2E, 0x2F, 0x61, 0x2E, 0x70, 0x79] =
      Inr [0x73, 0x72, 0x63, 0x2F, 0x61, 0x2E, 0x70, 0x79]"
    by (simp add: normalize_path_def normalize_exact_text_def is_xml_character_def replace_cr_def utf8_length_def
        utf8_width_def path_parts_def path_text_def)
  with normalized_path_is_canonical show ?thesis by blast
qed

theorem task_id_allocation_witness:
  "allocate_task_id (\<lambda>container c. c = ''t_00000000'')
     (\<lambda>i. if i = 0 then [0, 0, 0, 0, 0] else [0, 0, 0, 4, 1]) sample_db = Inr ''t_00000101''"
    (is "?r = _")
proof -
  let ?tok = "\<lambda>i :: nat. if i = 0 then [0, 0, 0, 0, 0] else [0, 0, 0, 4, 1 :: 8 word]"
  let ?ex = "\<lambda>container c. c = ''t_00000000''"
  have t: "new_task_id (?tok 0) = ''t_00000000''" "new_task_id (?tok 1) = ''t_00000101''"
    by (simp_all add: new_task_id_def encode_id_def int_from_bytes_def task_id_alphabet_def)
  have "is_task_id ''t_00000101''" using new_task_id_is_task_id [of "?tok 1"] t by simp
  moreover have "task_id_free ?ex sample_db ''t_00000101''" "\<not> task_id_free ?ex sample_db ''t_00000000''"
    by (simp_all add: task_id_free_def sample_db_def sample_task_def)
  ultimately have "\<exists>i < 128. ''t_00000101'' = new_task_id (?tok i) \<and> is_task_id ''t_00000101'' \<and>
      task_id_free ?ex sample_db ''t_00000101'' \<and>
      (\<forall>j < i. \<not> task_id_free ?ex sample_db (new_task_id (?tok j)))"
    using t by (intro exI [of _ "1 :: nat"]) auto
  then show ?thesis
    using task_id_allocation [of ?ex ?tok sample_db "''t_00000101''"] by blast
qed

subsection \<open>A Human Request item\<close>

lemma strip_strip: "strip (strip s) = strip s"
proof -
  let ?t = "dropWhile is_space s" and ?u = "List.rev (dropWhile is_space (List.rev (dropWhile is_space s)))"
  have "dropWhile is_space ?u = ?u"
  proof (cases "?u = []")
    case False
    have "?t = ?u @ List.rev (takeWhile is_space (List.rev ?t))"
      by (metis rev_append rev_rev_ident takeWhile_dropWhile_id)
    then have "List.hd ?u = List.hd ?t" "?t \<noteq> []" using False
      by (metis hd_append) (metis False List.rev.simps(1) dropWhile.simps(1))
    then have "\<not> is_space (List.hd ?u)" using hd_dropWhile by metis
    then show ?thesis using False by (cases ?u) auto
  qed (simp only: dropWhile.simps)
  then show ?thesis by (simp add: strip_def dropWhile_idem)
qed

definition sample_library :: library where
  "sample_library = \<lparr>lib_trim = strip,
     lib_bool = (\<lambda>v. case v of JBool b \<Rightarrow> Some b | _ \<Rightarrow> None),
     lib_check_schema = (\<lambda>s. True), lib_schema_accepts = (\<lambda>s v. v \<noteq> JNull)\<rparr>"

lemma sample_library_ok: "library_ok sample_library"
  by (simp add: library_ok_def sample_library_def strip_strip)

definition sample_item_json :: document where
  "sample_item_json = JObj
     [(chars ''id'', JStr (chars '' q '')), (chars ''prompt'', JStr [0x61, 0xD, 0x62]),
      (chars ''options'', JArr [JObj [(chars ''id'', JStr (chars ''y'')), (chars ''title'', JStr (chars ''Y''))],
         JObj [(chars ''id'', JStr (chars ''n'')), (chars ''title'', JStr (chars ''N''))]]),
      (chars ''allow_skip'', JBool True)]"

definition sample_item :: human_item where
  "sample_item = \<lparr>hi_id = chars ''q'', hi_prompt = [0x61, 0xA, 0x62], hi_response_schema = None,
     hi_options = Some [\<lparr>ho_id = chars ''y'', ho_title = chars ''Y'', ho_description = None\<rparr>,
       \<lparr>ho_id = chars ''n'', ho_title = chars ''N'', ho_description = None\<rparr>],
     hi_allow_other = False, hi_allow_skip = True\<rparr>"

lemmas sample_contract_defs = sample_library_def read_schema_text_def normalize_required_text_def
  read_optional_text_def read_flag_def read_options_def read_schema_def only_fields_def field_def
  chars_def normalize_exact_text_def is_xml_character_def strip_def is_space_def replace_cr_def

lemma sample_item_read: "read_item sample_library sample_item_json = Inr sample_item"
  by (simp add: read_item_def read_option_def validate_response_contract_def sample_item_json_def
      sample_item_def sample_contract_defs)

theorem human_item_roundtrip_witness:
  "read_item sample_library (dump_item sample_item) = Inr sample_item \<and>
   dump_item sample_item \<noteq> sample_item_json"
  using human_item_roundtrip [OF sample_library_ok sample_item_read]
  by (simp add: dump_item_def sample_item_json_def)

definition sample_responses :: item_responses where
  "sample_responses = [(chars ''q'', OptionAnswer (chars ''y''))]"

lemma sample_responses_read:
  "read_item_responses sample_library
     [(chars '' q'', JObj [(chars ''kind'', JStr (chars ''option'')), (chars ''option_id'', JStr (chars ''y ''))])] =
   Inr sample_responses"
proof -
  have "validate_bounded_json_value
      (JObj [(chars ''q'', JObj [(chars ''kind'', JStr (chars ''option'')), (chars ''option_id'', JStr (chars ''y''))])]) =
    Inr ()"
    by (simp add: bounded_json_value_bounds chars_def json_text_def escape_character_def is_surrogate_def
        utf8_width_def)
  then show ?thesis
    by (simp add: read_item_responses_def read_response_entry_def read_answer_def sample_responses_def
        sample_library_def read_schema_text_def only_fields_def field_def)
      (simp add: chars_def strip_def is_space_def)
qed

theorem item_responses_roundtrip_witness:
  "validated_item_responses sample_library (serialize_item_answers (Some sample_responses)) =
     Inr (Some sample_responses)"
  using item_responses_roundtrip [OF sample_library_ok sample_responses_read] by blast

theorem answered_responses_iff_witness:
  "validate_answered_item_responses sample_library [sample_item_json] sample_responses = Inr () \<and>
   validate_answered_item_responses sample_library [sample_item_json] [(chars ''q'', OtherAnswer (chars ''x''))] \<noteq> Inr ()"
proof -
  have r: "map_result (read_item sample_library) [sample_item_json] = Inr [sample_item]"
    by (simp add: sample_item_read)
  have d: "distinct (map hi_id [sample_item])" by simp
  show ?thesis
    unfolding answered_responses_iff [OF r d] by (simp add: sample_responses_def sample_item_def)
qed

end
