(* ===== verification/HumanWitnesses.thy ===== *)
theory HumanWitnesses
  imports HumanRequestProofs ContractWitnesses
begin

text \<open>
  The Human Request properties on a concrete Task: its root Attempt asks one question with two
  options and a deadline, and is parked on it.
\<close>

definition sample_open_request :: human_open_request where
  "sample_open_request =
     \<lparr>hq_kind = KApproval, hq_summary = ''go?'', hq_items = [sample_item], hq_files = [],
      hq_due_at = Some 200, hq_default_behavior = None\<rparr>"

definition sample_human_fresh :: human_fresh where
  "sample_human_fresh = \<lparr>hx_request_hex = ''h1'', hx_wait_hex = ''w1''\<rparr>"

definition sample_human :: human_request_row where
  "sample_human = new_human_request_row sample_authority ''human-request.t1.h1'' sample_open_request 100"

definition sample_human_wait :: wait_row where
  "sample_human_wait = human_wait_row sample_authority ''human-request.t1.h1'' ''attempt-wait.w1'' 100"

definition sample_human_db :: db where
  "sample_human_db = sample_db\<lparr>
     attempts := [sample_attempt\<lparr>at_current_dispatch_id := None, at_current_wait_id := Some ''attempt-wait.w1''\<rparr>],
     dispatches := [sample_dispatch\<lparr>dt_status := Closed, dt_closed_at := Some 100,
       dt_closed_reason := Some CHumanRequestWait\<rparr>],
     waits := [sample_human_wait], human_requests := [sample_human]\<rparr>"

lemmas sample_human_defs = sample_human_db_def sample_human_def sample_human_wait_def
  human_wait_row_def new_human_request_row_def sample_open_request_def

lemma sample_runtime_ok: "runtime_ok (env_event_hash sample_env) sample_db"
  using sample_controller_ok
  by (simp add: runtime_ok_def humans_ok_def commands_ok_def sample_db_def keyed_def)

lemma sample_human_ok: "runtime_ok (env_event_hash sample_env) sample_human_db"
proof -
  have "lanes_ok sample_human_db"
    by (simp add: lanes_ok_def lanes_wf_def sample_human_defs sample_defs keyed_def
      ck_attempt_def ck_dispatch_def ck_dispatch_source_shape_def dispatch_is_active_def ck_wait_def
      attempt_owns_dispatch_def attempt_owns_wait_def sql_eq_def sql_in_def)
  then have "controller_ok (env_event_hash sample_env) sample_human_db"
    by (rule controller_ok_lanes [OF sample_controller_ok]) (simp_all add: sample_human_db_def)
  moreover have "humans_ok sample_human_db"
    by (simp add: humans_ok_def sample_human_defs keyed_def ck_human_request_def human_wait_matches_def)
  moreover have "commands_ok sample_human_db"
    by (simp add: commands_ok_def sample_human_defs sample_db_def keyed_def)
  ultimately show ?thesis by (simp add: runtime_ok_def)
qed

lemma sample_human_facts:
  "sample_human \<in> set (human_requests sample_human_db)" "hr_status sample_human = HumanOpen"
  "hr_task_id sample_human \<in> eh_task_id ` set (event_heads sample_human_db)"
  by (simp_all add: sample_human_defs sample_db_def sample_authority_def)

theorem open_human_request_parks_witness:
  "\<exists>request d'. open_human_request sample_env sample_probe sample_human_fresh sample_authority
      sample_open_request sample_db = Inr (request, d') \<and>
    (\<exists>h \<in> set (human_requests d'). hr_request_id h = request)"
proof -
  have "\<exists>x. open_human_request sample_env sample_probe sample_human_fresh sample_authority
      sample_open_request sample_db = Inr x"
    by (rule isr_ex) code_simp
  then obtain request d' where o: "open_human_request sample_env sample_probe sample_human_fresh
      sample_authority sample_open_request sample_db = Inr (request, d')" by auto
  from open_human_request_parks [OF sample_runtime_ok o] o show ?thesis by blast
qed

theorem human_request_progress_witness:
  "\<exists>d'. persist_human_request_resolution sample_env sample_human (timeout_resolution sample_human 300)
      (Some 200) sample_human_db = Inr (True, d')"
  using human_request_progress [OF sample_human_ok sample_human_facts(1,2),
      of "timeout_resolution sample_human 300" "Some 200"] sample_human_facts(3)
  by (auto simp: timeout_resolution_def validate_resolution_shape_def sample_human_defs)

theorem human_request_resolved_once_witness:
  "\<exists>d'. persist_human_request_resolution sample_env sample_human (timeout_resolution sample_human 300)
      (Some 200) sample_human_db = Inr (True, d') \<and>
    persist_human_request_resolution sample_env sample_human (timeout_resolution sample_human 400)
      (Some 200) d' = Inr (False, d')"
proof -
  have "\<exists>d'. persist_human_request_resolution sample_env sample_human (timeout_resolution sample_human 300)
      (Some 200) sample_human_db = Inr (True, d')"
    by (rule persist_resolution_progress [OF sample_human_ok sample_human_facts(1,2)])
      (use sample_human_facts(3) in
        \<open>simp_all add: timeout_resolution_def validate_resolution_shape_def sample_human_defs\<close>)
  then obtain d' where w: "persist_human_request_resolution sample_env sample_human
      (timeout_resolution sample_human 300) (Some 200) sample_human_db = Inr (True, d')" ..
  from human_request_resolved_once [OF sample_human_ok sample_human_facts(1) w,
      of "timeout_resolution sample_human 400" "Some 200"] w
  show ?thesis by (auto simp: timeout_resolution_def)
qed

theorem human_deadline_exact_witness:
  "(\<exists>d'. expire_human_request sample_env ''human-request.t1.h1'' 200 200 sample_human_db = Inr (True, d')) \<and>
   expire_human_request sample_env ''human-request.t1.h1'' 200 199 sample_human_db = Inr (False, sample_human_db)"
proof -
  have heads: "\<forall>h \<in> set (human_requests sample_human_db). hr_task_id h \<in> eh_task_id ` set (event_heads sample_human_db)"
    using sample_human_facts(3) by (simp add: sample_human_db_def)
  have h: "hr_request_id sample_human = ''human-request.t1.h1''" "hr_due_at sample_human = Some 200"
    "human_requests sample_human_db = [sample_human]"
    by (simp_all add: sample_human_defs)
  show ?thesis
    using human_deadline_exact [OF sample_human_ok heads, of "''human-request.t1.h1''" 200 200]
      human_deadline_exact [OF sample_human_ok heads, of "''human-request.t1.h1''" 200 199]
      sample_human_facts(2) h by auto
qed

theorem human_answer_accepted_iff_witness:
  "\<exists>x. resolve_human_request sample_env sample_library ''t1'' ''human-request.t1.h1'' sample_responses
     None SurfaceOperator sample_human_db = Inr x"
proof -
  have head: "''t1'' \<in> eh_task_id ` set (event_heads sample_human_db)"
    by (simp add: sample_human_db_def sample_db_def)
  have ne: "sample_responses \<noteq> []" by (simp add: sample_responses_def)
  have "read_item sample_library (dump_item sample_item) = Inr sample_item"
    by (simp add: read_item_def read_option_def validate_response_contract_def sample_item_def dump_item_def
        dump_option_def dump_text_def sample_contract_defs)
  then have v: "validate_answered_item_responses sample_library [dump_item sample_item] sample_responses = Inr ()"
    by (simp add: validate_answered_item_responses_def sample_responses_def sample_item_def
        validate_answered_item_response_def)
  have "\<exists>h \<in> set (human_requests sample_human_db). hr_task_id h = ''t1'' \<and>
      hr_request_id h = ''human-request.t1.h1'' \<and> hr_status h = HumanOpen \<and>
      validate_answered_item_responses sample_library (hr_request_items h) sample_responses = Inr ()"
    using v by (simp add: sample_human_defs sample_authority_def)
  with human_answer_accepted_iff [OF sample_human_ok head ne] show ?thesis by blast
qed

end
