(* ===== verification/CommandWitnesses.thy ===== *)
theory CommandWitnesses
  imports CommandRunProofs HumanWitnesses
begin

text \<open>
  The Command Run properties on a concrete Task: its root Attempt starts one run and is parked
  on it; an owner claims the launch, and the run ends.
\<close>

definition sample_start :: command_start_request where
  "sample_start = \<lparr>cq_command = CommandArgv [''make''], cq_cwd = None, cq_timeout_seconds = None,
     cq_description = ''build''\<rparr>"

definition sample_command_fresh :: command_fresh where
  "sample_command_fresh = \<lparr>cx_token_bytes = (\<lambda>_. [0, 0, 0, 4, 1]), cx_wait_hex = ''w2''\<rparr>"

definition sample_command :: command_run_row where
  "sample_command = new_command_run_row sample_authority ''c1'' sample_start None
     ''.oms/t1/command-runs/c1/output.log'' 100"

definition sample_command_db :: db where
  "sample_command_db = sample_db\<lparr>
     attempts := [sample_attempt\<lparr>at_current_dispatch_id := None, at_current_wait_id := Some ''attempt-wait.w2''\<rparr>],
     dispatches := [sample_dispatch\<lparr>dt_status := Closed, dt_closed_at := Some 100,
       dt_closed_reason := Some CCommandRunWait\<rparr>],
     waits := [command_wait_row sample_authority ''c1'' ''attempt-wait.w2'' 100],
     command_runs := [sample_command]\<rparr>"

definition sample_result :: command_terminal_request where
  "sample_result = \<lparr>ct_state = CmdFailed, ct_summary = ''failed'', ct_ended_at = 300,
     ct_exit_code = Some 1, ct_failure_code = None, ct_expected_due_at = None,
     ct_should_match_due_at = False, ct_event_source = SrcController, ct_actor_ref = None,
     ct_output_observed_bytes = None, ct_output_written_bytes = None, ct_is_output_complete = None\<rparr>"

lemmas sample_command_defs = sample_command_db_def sample_command_def command_wait_row_def
  new_command_run_row_def sample_start_def

lemma sample_command_ok: "runtime_ok (env_event_hash sample_env) sample_command_db"
proof -
  have "lanes_ok sample_command_db"
    by (simp add: lanes_ok_def lanes_wf_def sample_command_defs sample_defs keyed_def
      ck_attempt_def ck_dispatch_def ck_dispatch_source_shape_def dispatch_is_active_def ck_wait_def
      attempt_owns_dispatch_def attempt_owns_wait_def sql_eq_def sql_in_def)
  then have "controller_ok (env_event_hash sample_env) sample_command_db"
    by (rule controller_ok_lanes [OF sample_controller_ok]) (simp_all add: sample_command_db_def)
  moreover have "humans_ok sample_command_db"
    by (simp add: humans_ok_def sample_command_defs sample_db_def keyed_def)
  moreover have "commands_ok sample_command_db"
    by (simp add: commands_ok_def sample_command_defs keyed_def ck_command_run_def command_wait_matches_def
        is_terminal_command_def command_terminal_states_def)
  ultimately show ?thesis by (simp add: runtime_ok_def)
qed

lemma sample_command_stored: "sample_command \<in> set (command_runs sample_command_db)"
  by (simp add: sample_command_db_def)

lemma sample_command_ends:
  "\<exists>d'. terminalize_command_run sample_env ''t1'' ''c1'' 0 [PendingStart] sample_result sample_command_db =
     Inr (True, d')"
proof -
  have "case terminalize_command_run sample_env ''t1'' ''c1'' 0 [PendingStart] sample_result sample_command_db of
      Inl e \<Rightarrow> False | Inr (b, d) \<Rightarrow> b"
    by code_simp
  then show ?thesis by (rule joined_ex)
qed

theorem command_history_refines_machine_witness:
  "\<exists>r' \<in> set (command_runs (run_history (command_operation_step sample_env)
      [(300, Terminalize ''t1'' ''c1'' 0 [PendingStart] sample_result)] sample_command_db)).
    command_step\<^sup>*\<^sup>* PendingStart (cr_state r')"
  using command_history_refines_machine [OF sample_command_ok sample_command_stored,
      of "[(300, Terminalize ''t1'' ''c1'' 0 [PendingStart] sample_result)]"]
  by (auto simp: sample_command_def new_command_run_row_def)

theorem command_launch_claimed_once_witness:
  "\<exists>c d'. claim_command_run_launch ''c1'' ''owner'' 200 sample_command_db = Inr (Some c, d') \<and>
     claim_command_run_launch ''c1'' ''other'' 201 d' = Inr (None, d')"
proof -
  have "case claim_command_run_launch ''c1'' ''owner'' 200 sample_command_db of
      Inl e \<Rightarrow> False | Inr (c, d) \<Rightarrow> c \<noteq> None"
    by code_simp
  then obtain c d' where c: "claim_command_run_launch ''c1'' ''owner'' 200 sample_command_db = Inr (Some c, d')"
    by (auto split: sum.splits)
  from command_launch_claimed_once [OF sample_command_ok c, of "''other''" 201 "[]"] c
  show ?thesis by (auto simp: run_history_def)
qed

theorem command_terminal_once_witness:
  "\<exists>d'. terminalize_command_run sample_env ''t1'' ''c1'' 0 [PendingStart] sample_result sample_command_db =
      Inr (True, d') \<and>
    (\<forall>d''. terminalize_command_run sample_env ''t1'' ''c1'' 0 [CmdFailed] sample_result d' \<noteq> Inr (True, d''))"
proof -
  obtain d' where t: "terminalize_command_run sample_env ''t1'' ''c1'' 0 [PendingStart] sample_result
      sample_command_db = Inr (True, d')" using sample_command_ends ..
  from command_terminal_once [OF sample_command_ok t, of sample_env "''t1''" 0 "[CmdFailed]" sample_result "[]"] t
  show ?thesis by (auto simp: run_history_def)
qed

theorem command_terminal_progress_witness:
  "\<exists>d'. terminalize_command_run sample_env (cr_task_id sample_command) (cr_run_id sample_command)
     (cr_ownership_revision sample_command) [PendingStart] sample_result sample_command_db = Inr (True, d')"
proof -
  have live: "\<not> is_terminal_command sample_command" "\<not> task_is_cancelled (cr_task_id sample_command) sample_command_db"
      "cr_state sample_command \<in> set [PendingStart]"
    by (simp_all add: is_terminal_command_def command_terminal_states_def task_is_cancelled_def
      sample_command_defs sample_db_def sample_task_def)
  have v: "validate_terminal_transition (ct_state sample_result) (ct_failure_code sample_result) =
      Inr COMMAND_RUN_FAILED"
    by (simp add: validate_terminal_transition_def sample_result_def)
  have f: "resolve_terminal_output_facts sample_command sample_result =
      Inr \<lparr>of_observed_bytes = 0, of_written_bytes = 0, of_is_complete = False, of_should_persist = False\<rparr>"
    by (simp add: resolve_terminal_output_facts_def sample_result_def sample_command_def new_command_run_row_def)
  show ?thesis
    by (rule command_terminal_progress [OF sample_command_ok sample_command_stored live v f])
      (simp_all add: sample_result_def sample_command_defs sample_db_def sample_authority_def)
qed


end
