(* ===== verification/TaskControl.thy ===== *)
theory TaskControl
  imports CommandRuns
begin

text \<open>
  Control of a Task: pausing and cancelling it (\<open>runtime/task_control/control.py\<close>,
  \<open>runtime/task_control/cancellation.py\<close>). Both win the exact control revision first, then
  close every current Dispatch; cancellation then settles every wait with its source, and every
  execution row that is left. The Task read that both return is not part of the model.
\<close>

subsection \<open>The snapshot a request was made against\<close>

definition read_control_task :: "ident \<Rightarrow> db \<Rightarrow> task_row result" where
  "read_control_task task d =
     require (missing_resource_error (''unknown task_id '' @ quoted task))
       (find (\<lambda>t. tk_task_id t = task) (tasks d))"

definition require_control_snapshot ::
    "task_row \<Rightarrow> ident \<Rightarrow> int \<Rightarrow> task_status list \<Rightarrow> unit result" where
  "require_control_snapshot t revision control allowed =
     (if tk_current_team_revision_id t \<noteq> Some revision
      then Inl (stale_team_revision_error ''the current Team revision changed before control'')
      else if tk_control_revision t \<noteq> control
      then Inl (conflict_error ''the Task control revision changed before control'')
      else if tk_status t \<notin> set allowed
      then Inl (conflict_error
        (''Task cannot be controlled from status '' @ quoted (task_status_value (tk_status t))))
      else Inr ())"

definition task_snapshot_conditions :: "task_row \<Rightarrow> int \<Rightarrow> task_row \<Rightarrow> bool" where
  "task_snapshot_conditions t control r \<longleftrightarrow>
     tk_task_id r = tk_task_id t \<and> tk_status r = tk_status t \<and>
     tk_current_team_revision_id r = tk_current_team_revision_id t \<and>
     tk_control_revision r = control"

text \<open>\<open>except TaskDispatchControlConflictError as exc: raise _task_control_conflict(str(exc))\<close>.\<close>

fun as_task_control_conflict :: "'a result \<Rightarrow> 'a result" where
  "as_task_control_conflict (Inl (TaskDispatchControlConflictError s)) = Inl (conflict_error s)"
| "as_task_control_conflict r = r"

subsection \<open>Pause\<close>

definition paused_task :: "string option \<Rightarrow> time \<Rightarrow> task_row \<Rightarrow> task_row" where
  "paused_task actor now t =
     t\<lparr>tk_status := TaskPaused, tk_pause_reason := Some ''paused_by_operator'',
       tk_pause_details := Some [(''summary'', JStr ''Paused by operator.'')],
       tk_paused_at := Some now, tk_paused_by_actor_ref := actor,
       tk_control_revision := tk_control_revision t + 1, tk_updated_at := now\<rparr>"

definition update_task_to_paused ::
    "task_row \<Rightarrow> int \<Rightarrow> string option \<Rightarrow> time \<Rightarrow> db \<Rightarrow> task_row list option result" where
  "update_task_to_paused t control actor now d =
     update_checked ck_task (task_snapshot_conditions t control) (paused_task actor now) (tasks d)"

definition control_event ::
    "event_type \<Rightarrow> (string \<times> json) list \<Rightarrow> string \<Rightarrow> ident \<Rightarrow> ident \<Rightarrow> int \<Rightarrow> string option \<Rightarrow>
       event_source \<Rightarrow> time \<Rightarrow> event_draft" where
  "control_event etype reason summary task revision control actor src now =
     \<lparr>ed_task_id = task, ed_event_type = etype, ed_event_source = src, ed_occurred_at = now,
      ed_team_revision_id = Some revision, ed_dispatch_id = None, ed_attempt_id = None,
      ed_member_id = None, ed_actor_ref = actor,
      ed_payload = reason @ [(''control_revision'', JInt (control + 1)),
        (''actor_ref'', json_opt actor), (''summary'', JStr summary)]\<rparr>"

definition pause_task ::
    "env \<Rightarrow> ident \<Rightarrow> ident \<Rightarrow> int \<Rightarrow> string option \<Rightarrow> event_source \<Rightarrow> db \<Rightarrow>
       (runtime_signal list \<times> db) result" where
  "pause_task env task revision control actor src d =
     and_then (read_control_task task d) (\<lambda>t.
     and_then (require_control_snapshot t revision control [TaskRunning]) (\<lambda>_.
     and_then (update_task_to_paused t control actor (env_now env) d) (\<lambda>changed.
       case changed of
         None \<Rightarrow> Inl (conflict_error ''another controller transition won before pause'')
       | Some ts \<Rightarrow>
           and_then (as_task_control_conflict (close_current_task_dispatches (tk_task_id t) CPaused
               (env_now env) Map.empty (d\<lparr>tasks := ts\<rparr>))) (\<lambda>(closed, d1).
           and_then (append_task_event env
               (control_event TASK_PAUSED [(''pause_reason'', JStr ''paused_by_operator'')]
                 ''Paused by operator.'' (tk_task_id t) revision control actor src (env_now env)) d1)
             (\<lambda>d2. Inr (map DispatchCleanupRequested closed, d2))))))"

subsection \<open>Cancelling the waits\<close>

text \<open>An UPDATE that need not match a row.\<close>

definition update_all :: "('r \<Rightarrow> bool) \<Rightarrow> ('r \<Rightarrow> bool) \<Rightarrow> ('r \<Rightarrow> 'r) \<Rightarrow> 'r list \<Rightarrow> 'r list result" where
  "update_all ck p f rs =
     (if list_ex (\<lambda>r. p r \<and> \<not> ck (f r)) rs then Inl (IntegrityError ''check'')
      else Inr (map (\<lambda>r. if p r then f r else r) rs))"

definition wait_order :: "wait_row \<Rightarrow> ident \<times> ident \<times> ident" where
  "wait_order w = (aw_assignment_id w, aw_attempt_id w, aw_wait_id w)"

fun insert_wait_row :: "wait_row \<Rightarrow> wait_row list \<Rightarrow> wait_row list" where
  "insert_wait_row w [] = [w]"
| "insert_wait_row w (v # vs) =
     (if lane_less_eq (wait_order w) (wait_order v) then w # v # vs else v # insert_wait_row w vs)"

definition read_current_attempt_waits :: "ident \<Rightarrow> db \<Rightarrow> wait_row list" where
  "read_current_attempt_waits task d =
     foldr insert_wait_row
       (map fst (filter (\<lambda>(w, a). at_task_id a = aw_task_id w \<and> at_assignment_id a = aw_assignment_id w \<and>
            at_attempt_id a = aw_attempt_id w \<and> at_current_wait_id a = Some (aw_wait_id w) \<and>
            aw_task_id w = task \<and> at_status a = AttRunning \<and> at_current_dispatch_id a = None)
          (List.product (waits d) (attempts d)))) []"

fun human_resolution_surface :: "event_source \<Rightarrow> human_surface" where
  "human_resolution_surface SrcOperator = SurfaceOperator"
| "human_resolution_surface SrcControlApi = SurfaceControlApi"
| "human_resolution_surface _ = SurfaceController"

definition cancellation_summary :: string where
  "cancellation_summary = ''Cancelled because the task was cancelled.''"

definition cancelled_human :: "string option \<Rightarrow> event_source \<Rightarrow> time \<Rightarrow> human_request_row \<Rightarrow> human_request_row" where
  "cancelled_human actor src now h =
     h\<lparr>hr_status := HumanCancelled, hr_resolution_kind := Some ResolutionCancelled,
       hr_item_responses := None, hr_resolution_summary := Some cancellation_summary,
       hr_resolved_by_actor_ref := actor,
       hr_resolved_by_surface := Some (human_resolution_surface src), hr_resolved_at := Some now\<rparr>"

definition human_cancelled_event ::
    "task_row \<Rightarrow> wait_row \<Rightarrow> human_request_row \<Rightarrow> string option \<Rightarrow> event_source \<Rightarrow> time \<Rightarrow> event_draft" where
  "human_cancelled_event t w h actor src now =
     \<lparr>ed_task_id = tk_task_id t, ed_event_type = HUMAN_REQUEST_CANCELLED, ed_event_source = src,
      ed_occurred_at = now, ed_team_revision_id = tk_current_team_revision_id t,
      ed_dispatch_id = Some (aw_source_dispatch_id w), ed_attempt_id = None, ed_member_id = None,
      ed_actor_ref = actor,
      ed_payload =
        [(''request_id'', JStr (hr_request_id h)),
         (''kind'', JStr (human_kind_value (hr_request_kind h))),
         (''summary'', JStr (hr_request_summary h)),
         (''source_dispatch_id'', JStr (hr_source_dispatch_id h)),
         (''due_at'', json_time (hr_due_at h)), (''status'', JStr ''cancelled''),
         (''resolution_kind'', JStr ''cancelled''),
         (''resolution_summary'', JStr cancellation_summary), (''resolved_at'', JInt now),
         (''resolved_by_surface'', JStr (human_surface_value (human_resolution_surface src))),
         (''resolved_by_actor_ref'', json_opt actor)]\<rparr>"

text \<open>The open request an Attempt waits on.\<close>

definition waiting_human :: "task_row \<Rightarrow> wait_row \<Rightarrow> ident \<Rightarrow> human_request_row \<Rightarrow> bool" where
  "waiting_human t w request h \<longleftrightarrow>
     hr_request_id h = request \<and> hr_task_id h = tk_task_id t \<and>
     hr_assignment_id h = aw_assignment_id w \<and> hr_attempt_id h = aw_attempt_id w \<and>
     hr_source_dispatch_id h = aw_source_dispatch_id w \<and> hr_status h = HumanOpen \<and>
     hr_successor_dispatch_id h = None"

definition waiting_human_changed :: failure where
  "waiting_human_changed =
     conflict_error ''the waiting human request changed before task cancellation''"

definition cancel_human_request ::
    "env \<Rightarrow> task_row \<Rightarrow> wait_row \<Rightarrow> ident \<Rightarrow> string option \<Rightarrow> event_source \<Rightarrow> db \<Rightarrow> db result" where
  "cancel_human_request env t w request actor src d =
     and_then (require waiting_human_changed (find (waiting_human t w request) (human_requests d))) (\<lambda>h.
     and_then (update_checked ck_human_request (waiting_human t w request)
         (cancelled_human actor src (env_now env)) (human_requests d)) (\<lambda>changed. case changed of
         None \<Rightarrow> Inl waiting_human_changed
       | Some hs \<Rightarrow> append_task_event env (human_cancelled_event t w h actor src (env_now env))
           (d\<lparr>human_requests := hs\<rparr>)))"

definition cancelled_wave :: "time \<Rightarrow> wave_row \<Rightarrow> wave_row" where
  "cancelled_wave now w = w\<lparr>dw_status := WaveCancelled, dw_cancelled_at := Some now\<rparr>"

definition cancelled_member :: "time \<Rightarrow> wave_member_row \<Rightarrow> wave_member_row" where
  "cancelled_member now m = m\<lparr>dm_status := MemberCancelled, dm_cancelled_at := Some now\<rparr>"

definition cancel_waiting_delegation_wave ::
    "task_row \<Rightarrow> wait_row \<Rightarrow> ident \<Rightarrow> time \<Rightarrow> db \<Rightarrow> db result" where
  "cancel_waiting_delegation_wave t w wave now d =
     and_then (update_checked ck_wave
         (\<lambda>v. dw_delegation_wave_id v = wave \<and> dw_task_id v = tk_task_id t \<and>
           dw_parent_assignment_id v = aw_assignment_id w \<and> dw_parent_attempt_id v = aw_attempt_id w \<and>
           dw_source_dispatch_id v = aw_source_dispatch_id w \<and> dw_status v = WaveOpen \<and>
           dw_successor_dispatch_id v = None)
         (cancelled_wave now) (waves d)) (\<lambda>cancelled. case cancelled of
         None \<Rightarrow> Inl (conflict_error ''the waiting Delegation Wave changed before task cancellation'')
       | Some vs \<Rightarrow>
           and_then (update_all ck_wave_member
             (\<lambda>m. dm_delegation_wave_id m = wave \<and> dm_task_id m = tk_task_id t \<and>
               dm_status m = MemberPending) (cancelled_member now) (wave_members d))
           (\<lambda>ms. Inr (d\<lparr>waves := vs, wave_members := ms\<rparr>)))"

definition cancel_attempt_wait_source ::
    "env \<Rightarrow> task_row \<Rightarrow> wait_row \<Rightarrow> string option \<Rightarrow> event_source \<Rightarrow> db \<Rightarrow>
       (runtime_signal option \<times> db) result" where
  "cancel_attempt_wait_source env t w actor src d =
     (case aw_human_request_id w of
        Some request \<Rightarrow> and_then (cancel_human_request env t w request actor src d)
          (\<lambda>d1. Inr (Some (HumanRequestTerminal request), d1))
      | None \<Rightarrow> (case aw_command_run_id w of
          Some run \<Rightarrow> and_then (request_command_run_cancellation env (tk_task_id t) run actor src True True d)
            (\<lambda>((source, _), d1). Inr (Some (CommandRunCancellationRequested (cr_run_id source)
              (cr_ownership_revision source)), d1))
        | None \<Rightarrow> (case aw_delegation_wave_id w of
            Some wave \<Rightarrow> and_then (cancel_waiting_delegation_wave t w wave (env_now env) d)
              (\<lambda>d1. Inr (None, d1))
          | None \<Rightarrow> Inl (illegal_state_error ''Attempt wait has no typed source''))))"

definition attempt_wait_changed :: failure where
  "attempt_wait_changed = conflict_error ''an Attempt wait changed before task cancellation''"

definition clear_and_delete_attempt_wait :: "wait_row \<Rightarrow> db \<Rightarrow> db result" where
  "clear_and_delete_attempt_wait w d =
     and_then (require attempt_wait_changed (clear_current_attempt_wait
         \<lparr>wi_task_id = aw_task_id w, wi_assignment_id = aw_assignment_id w,
          wi_attempt_id = aw_attempt_id w, wi_wait_id = aw_wait_id w\<rparr> d)) (\<lambda>d1.
     and_then (require attempt_wait_changed (delete_where
         (\<lambda>v. aw_wait_id v = aw_wait_id w \<and> aw_task_id v = aw_task_id w \<and>
           aw_assignment_id v = aw_assignment_id w \<and> aw_attempt_id v = aw_attempt_id w \<and>
           aw_source_dispatch_id v = aw_source_dispatch_id w) (waits d1))) (\<lambda>ws.
       Inr (d1\<lparr>waits := ws\<rparr>)))"

fun cancel_each_wait ::
    "env \<Rightarrow> task_row \<Rightarrow> string option \<Rightarrow> event_source \<Rightarrow> wait_row list \<Rightarrow> db \<Rightarrow>
       (runtime_signal list \<times> db) result" where
  "cancel_each_wait env t actor src [] d = Inr ([], d)"
| "cancel_each_wait env t actor src (w # ws) d =
     and_then (cancel_attempt_wait_source env t w actor src d) (\<lambda>(signal, d1).
     and_then (clear_and_delete_attempt_wait w d1) (\<lambda>d2.
     and_then (cancel_each_wait env t actor src ws d2) (\<lambda>(signals, d3).
       Inr ((case signal of None \<Rightarrow> signals | Some s \<Rightarrow> s # signals), d3))))"

definition cancel_attempt_waits ::
    "env \<Rightarrow> task_row \<Rightarrow> string option \<Rightarrow> event_source \<Rightarrow> db \<Rightarrow> (runtime_signal list \<times> db) result" where
  "cancel_attempt_waits env t actor src d =
     and_then (cancel_each_wait env t actor src (read_current_attempt_waits (tk_task_id t) d) d) (\<lambda>(signals, d1).
       if list_ex (\<lambda>w. aw_task_id w = tk_task_id t) (waits d1)
       then Inl (illegal_state_error ''task cancellation did not settle every Attempt wait'')
       else Inr (signals, d1))"

subsection \<open>Cancelling the Task\<close>

definition cancelled_attempt :: "time \<Rightarrow> attempt_row \<Rightarrow> attempt_row" where
  "cancelled_attempt now a =
     a\<lparr>at_status := AttCancelled, at_terminal_outcome := None, at_current_dispatch_id := None,
       at_current_wait_id := None, at_closed_at := Some now\<rparr>"

definition cancel_execution_rows :: "ident \<Rightarrow> time \<Rightarrow> db \<Rightarrow> db result" where
  "cancel_execution_rows task now d =
     and_then (update_all ck_wave
         (\<lambda>w. dw_task_id w = task \<and> dw_status w \<in> {WaveOpen, WaveSettled} \<and>
           dw_successor_dispatch_id w = None) (cancelled_wave now) (waves d)) (\<lambda>vs.
     and_then (update_all ck_wave_member
         (\<lambda>m. dm_task_id m = task \<and> dm_status m = MemberPending) (cancelled_member now)
         (wave_members d)) (\<lambda>ms.
     and_then (update_all ck_attempt
         (\<lambda>a. at_task_id a = task \<and> at_status a \<in> {AttPending, AttRunning}) (cancelled_attempt now)
         (attempts d)) (\<lambda>as.
       Inr (d\<lparr>waves := vs, wave_members := ms, attempts := as\<rparr>))))"

definition cancelled_replan :: "time \<Rightarrow> replan_row \<Rightarrow> replan_row" where
  "cancelled_replan now r =
     r\<lparr>rt_successor_state := SuccessorCancelled,
       rt_failure_code := (if rt_manifest_state r = ManifestRepairRequired then rt_failure_code r else None),
       rt_failure_detail := (if rt_manifest_state r = ManifestRepairRequired then rt_failure_detail r else None),
       rt_updated_at := now\<rparr>"

definition cancel_pending_replan_transition :: "task_row \<Rightarrow> time \<Rightarrow> db \<Rightarrow> db result" where
  "cancel_pending_replan_transition t now d =
     and_then (update_all ck_replan
         (\<lambda>r. rt_task_id r = tk_task_id t \<and>
           Some (rt_successor_team_revision_id r) = tk_current_team_revision_id t \<and>
           rt_successor_state r \<notin> {SuccessorOpened, SuccessorCancelled} \<and>
           rt_successor_dispatch_id r = None)
         (cancelled_replan now) (replan_transitions d))
     (\<lambda>rs. Inr (d\<lparr>replan_transitions := rs\<rparr>))"

definition cancelled_task :: "time \<Rightarrow> task_row \<Rightarrow> task_row" where
  "cancelled_task now t =
     t\<lparr>tk_status := TaskCancelled, tk_terminal_outcome := None, tk_result_boundary_id := None,
       tk_pause_reason := None, tk_pause_details := None, tk_paused_at := None,
       tk_paused_by_actor_ref := None, tk_control_revision := tk_control_revision t + 1,
       tk_updated_at := now\<rparr>"

definition update_task_to_cancelled ::
    "task_row \<Rightarrow> int \<Rightarrow> time \<Rightarrow> db \<Rightarrow> task_row list option result" where
  "update_task_to_cancelled t control now d =
     update_checked ck_task (task_snapshot_conditions t control) (cancelled_task now) (tasks d)"

text \<open>
  The hints: the cleanups in lane order, the settled Human Requests, then the Command Runs.
\<close>

definition is_human_signal :: "runtime_signal \<Rightarrow> bool" where
  "is_human_signal s \<longleftrightarrow> (case s of HumanRequestTerminal _ \<Rightarrow> True | _ \<Rightarrow> False)"

definition cancel_task ::
    "env \<Rightarrow> ident \<Rightarrow> ident \<Rightarrow> int \<Rightarrow> string option \<Rightarrow> event_source \<Rightarrow> db \<Rightarrow>
       (runtime_signal list \<times> db) result" where
  "cancel_task env task revision control actor src d =
     and_then (read_control_task task d) (\<lambda>t.
     and_then (require_control_snapshot t revision control [TaskRunning, TaskPaused]) (\<lambda>_.
     and_then (update_task_to_cancelled t control (env_now env) d) (\<lambda>changed.
       case changed of
         None \<Rightarrow> Inl (conflict_error ''another controller transition won before cancellation'')
       | Some ts \<Rightarrow>
           and_then (as_task_control_conflict (close_current_task_dispatches (tk_task_id t) CCancelled
               (env_now env) Map.empty (d\<lparr>tasks := ts\<rparr>))) (\<lambda>(closed, d1).
           and_then (cancel_attempt_waits env t actor src d1) (\<lambda>(signals, d2).
           and_then (cancel_execution_rows (tk_task_id t) (env_now env) d2) (\<lambda>d3.
           and_then (cancel_pending_replan_transition t (env_now env) d3) (\<lambda>d4.
           and_then (append_task_event env
               (control_event TASK_CANCELLED [] ''Cancelled by operator.'' (tk_task_id t) revision
                 control actor src (env_now env)) d4)
             (\<lambda>d5. Inr (map DispatchCleanupRequested closed @ filter is_human_signal signals @
                filter (\<lambda>s. \<not> is_human_signal s) signals, d5)))))))))"

end
