(* ===== verification/TaskControlProofs.thy ===== *)
theory TaskControlProofs
  imports TaskControl CommandRunProofs HumanRequestProofs
begin

text \<open>
  Task control, proved: a pause stops every lane and keeps the waits; a cancellation leaves
  nothing of the Task live, neither an Attempt, a Dispatch, a wait, a Wave nor an open source;
  both keep the whole invariant.
\<close>

subsection \<open>Statements that need not match\<close>

lemma update_all_Inr_iff [table_simps]:
  "update_all ck p f rs = Inr rs' \<longleftrightarrow>
     (\<forall>r \<in> set rs. p r \<longrightarrow> ck (f r)) \<and> rs' = map (\<lambda>r. if p r then f r else r) rs"
  by (auto simp: update_all_def list_ex_iff)

lemma update_all_keyed:
  assumes "update_all ck p f rs = Inr rs'" and "keyed key rs" and "\<And>r. key (f r) = key r"
  shows "keyed key rs'"
proof -
  have "map key rs' = map key rs" using assms(1,3) by (simp add: update_all_Inr_iff)
  with assms(2) show ?thesis by (simp add: keyed_def)
qed

lemma update_all_checks:
  "update_all ck p f rs = Inr rs' \<Longrightarrow> \<forall>r \<in> set rs. ck r \<Longrightarrow> \<forall>r \<in> set rs'. ck r"
  by (auto simp: update_all_Inr_iff)

lemma update_all_cases:
  assumes "update_all ck p f rs = Inr rs'" and "r \<in> set rs'"
  shows "r \<in> set rs \<and> \<not> p r \<or> (\<exists>s \<in> set rs. p s \<and> r = f s)"
proof -
  have "r \<in> set (map (\<lambda>r. if p r then f r else r) rs)" using assms by (simp add: update_all_Inr_iff)
  then obtain s where s: "s \<in> set rs" "r = (if p s then f s else s)" by auto
  show ?thesis
  proof (cases "p s")
    case True
    with s have "r = f s" by simp
    with s(1) True show ?thesis by blast
  next
    case False
    with s show ?thesis by simp
  qed
qed

subsection \<open>The Task row\<close>

lemma update_task_Some:
  assumes ok: "tasks_ok d" and t: "t \<in> set (tasks d)"
    and up: "update_checked ck_task (task_snapshot_conditions t c) f (tasks d) = Inr (Some ts)"
  shows "ts = replace_row t (f t) (tasks d) \<and> ck_task (f t)"
proof -
  have key: "keyed tk_task_id (tasks d)" using ok by (simp add: tasks_ok_def)
  have pk: "\<forall>r. task_snapshot_conditions t c r \<longrightarrow> tk_task_id r = tk_task_id t"
    by (simp add: task_snapshot_conditions_def)
  from up have "(\<forall>r \<in> set (tasks d). task_snapshot_conditions t c r \<longrightarrow> ck_task (f r)) \<and>
      update_where (task_snapshot_conditions t c) f (tasks d) = Some ts"
    unfolding update_checked_Inr_iff by metis
  then obtain r where "r \<in> set (tasks d)" "task_snapshot_conditions t c r" "ck_task (f r)"
    "ts = replace_row r (f r) (tasks d)"
    unfolding update_unique_iff [OF key pk] by blast
  moreover from this have "r = t" using key t
    by (intro keyed_unique [OF key]) (auto simp: task_snapshot_conditions_def)
  ultimately show ?thesis by simp
qed

lemma runtime_ok_task:
  assumes ok: "runtime_ok H d" and t: "t \<in> set (tasks d)" and t': "tk_task_id t' = tk_task_id t" "ck_task t'"
    and st: "tk_status t = TaskCancelled \<longrightarrow> tk_status t' = TaskCancelled"
  shows "runtime_ok H (d\<lparr>tasks := replace_row t t' (tasks d)\<rparr>)" (is "runtime_ok H ?d")
proof -
  have "tasks_ok ?d"
    using controller_ok_parts(4) [OF runtime_ok_parts(1) [OF ok]] t t'
    by (auto simp: tasks_ok_def keyed_replace_row set_replace_row)
  then have "controller_ok H ?d" using runtime_ok_parts(1) [OF ok] by (rule controller_ok_tasks [rotated])
  moreover have "humans_ok ?d" by (rule humans_ok_frame [OF _ _ runtime_ok_parts(2) [OF ok]]) simp_all
  moreover have "task_is_cancelled x ?d" if "task_is_cancelled x d" for x
    using that t t'(1) st by (auto simp: task_is_cancelled_def set_replace_row)
  then have "commands_ok ?d"
    by (intro commands_ok_frame [OF _ _ runtime_ok_parts(3) [OF ok]]) simp_all
  ultimately show ?thesis by (simp add: runtime_ok_def)
qed

subsection \<open>Closing every Dispatch\<close>

lemma close_lane_frame:
  assumes "and_then (close_current_task_dispatch task lane r now s) (clear_attempt_current_dispatch task lane) = Inr u"
  shows "\<exists>ds as. u = s\<lparr>dispatches := ds, attempts := as\<rparr>"
  using assms
  by (cases lane) (auto simp: and_then_Inr_iff require_Inr_iff close_current_task_dispatch_def
      clear_attempt_current_dispatch_def clear_current_attempt_dispatch_def)

lemma close_current_task_dispatches_frame:
  assumes "close_current_task_dispatches task reason now ov d = Inr (ids, d')"
  shows "(\<exists>ds as. d' = d\<lparr>dispatches := ds, attempts := as\<rparr>) \<and> all_current_task_dispatches_closed task d'"
proof -
  let ?f = "\<lambda>lane s. and_then (close_current_task_dispatch task lane
            (case ov (snd (snd lane)) of None \<Rightarrow> reason | Some r \<Rightarrow> r) now s)
            (clear_attempt_current_dispatch task lane)"
  have f: "fold_result ?f (read_current_task_dispatches task d) d = Inr d'"
    and c: "all_current_task_dispatches_closed task d'"
    using assms unfolding close_current_task_dispatches_def by (auto simp: Let_def result_simps)
  have "\<exists>ds as. d' = d\<lparr>dispatches := ds, attempts := as\<rparr>"
  proof (rule fold_result_invariant [OF f])
    show "\<exists>ds as. d = d\<lparr>dispatches := ds, attempts := as\<rparr>" by (rule exI [of _ "dispatches d"], rule exI [of _ "attempts d"]) simp
  next
    fix lane s u assume "\<exists>ds as. s = d\<lparr>dispatches := ds, attempts := as\<rparr>" and "?f lane s = Inr u"
    from close_lane_frame [OF this(2)] obtain ds as where "u = s\<lparr>dispatches := ds, attempts := as\<rparr>" by blast
    with \<open>\<exists>ds as. s = _\<close> have "u = d\<lparr>dispatches := ds, attempts := as\<rparr>" by auto
    then show "\<exists>ds as. u = d\<lparr>dispatches := ds, attempts := as\<rparr>" by blast
  qed
  with c show ?thesis by blast
qed

lemma runtime_ok_lanes:
  assumes ok: "runtime_ok H d" and l: "lanes_ok (d\<lparr>dispatches := ds, attempts := as\<rparr>)"
  shows "runtime_ok H (d\<lparr>dispatches := ds, attempts := as\<rparr>)"
proof -
  have "controller_ok H (d\<lparr>dispatches := ds, attempts := as\<rparr>)"
    by (rule controller_ok_lanes [OF runtime_ok_parts(1) [OF ok] l]) simp_all
  moreover have "humans_ok (d\<lparr>dispatches := ds, attempts := as\<rparr>)"
    by (rule humans_ok_frame [OF _ _ runtime_ok_parts(2) [OF ok]]) simp_all
  moreover have "commands_ok (d\<lparr>dispatches := ds, attempts := as\<rparr>)"
    by (rule commands_ok_frame [OF _ _ runtime_ok_parts(3) [OF ok]]) (simp_all add: task_is_cancelled_def)
  ultimately show ?thesis by (simp add: runtime_ok_def)
qed

lemma close_dispatches_with_runtime_ok:
  assumes ok: "runtime_ok H d" and cl: "close_current_task_dispatches task reason now ov d = Inr (ids, d')"
    and r: "reason \<noteq> CWatchdogSuperseded" "\<And>x. ov x \<noteq> Some CWatchdogSuperseded"
  shows "runtime_ok H d'"
proof -
  obtain ds as where d': "d' = d\<lparr>dispatches := ds, attempts := as\<rparr>"
    using close_current_task_dispatches_frame [OF cl] by blast
  have "lanes_ok d'" by (rule close_current_task_dispatches_lanes_ok [OF runtime_ok_parts(4) [OF ok] cl r])
  then show ?thesis using runtime_ok_lanes [OF ok] unfolding d' by blast
qed

lemma close_dispatches_runtime_ok:
  assumes "runtime_ok H d" and "close_current_task_dispatches task reason now Map.empty d = Inr (ids, d')"
    and "reason \<noteq> CWatchdogSuperseded"
  shows "runtime_ok H d'"
  by (rule close_dispatches_with_runtime_ok [OF assms(1,2)]) (simp_all add: assms(3))

lemma as_task_control_conflict_Inr [result_simps]: "as_task_control_conflict r = Inr x \<longleftrightarrow> r = Inr x"
  by (cases r rule: as_task_control_conflict.cases) auto

subsection \<open>Cancelling one wait\<close>

lemma clear_and_delete_Inr:
  assumes ok: "lanes_ok d" and cd: "clear_and_delete_attempt_wait w d = Inr d'"
  obtains v as where "v \<in> set (waits d)" "aw_wait_id v = aw_wait_id w" "aw_task_id v = aw_task_id w"
    "d' = d\<lparr>attempts := as, waits := filter (\<lambda>u. u \<noteq> v) (waits d)\<rparr>" "lanes_ok d'"
proof -
  let ?i = "\<lparr>wi_task_id = aw_task_id w, wi_assignment_id = aw_assignment_id w,
      wi_attempt_id = aw_attempt_id w, wi_wait_id = aw_wait_id w\<rparr>"
  let ?p = "\<lambda>v. aw_wait_id v = aw_wait_id w \<and> aw_task_id v = aw_task_id w \<and>
      aw_assignment_id v = aw_assignment_id w \<and> aw_attempt_id v = aw_attempt_id w \<and>
      aw_source_dispatch_id v = aw_source_dispatch_id w"
  obtain d1 ws where c: "clear_current_attempt_wait ?i d = Some d1"
    and del: "delete_where ?p (waits d1) = Some ws" and d': "d' = d1\<lparr>waits := ws\<rparr>"
    using cd by (auto simp: clear_and_delete_attempt_wait_def and_then_Inr_iff require_Inr_iff)
  obtain as where d1: "d1 = d\<lparr>attempts := as\<rparr>"
    using c by (auto simp: clear_current_attempt_wait_def map_option_eq_Some)
  obtain v where v: "v \<in> set (waits d)" "?p v" using del d1 by (auto simp: delete_where_Some_iff)
  have one: "u = v" if "u \<in> set (waits d)" "?p u" for u
    using that v by (intro keyed_unique [OF lanes_ok_keys(3) [OF ok]]) simp_all
  have "ws = filter (\<lambda>u. \<not> ?p u) (waits d)" using del d1 by (simp add: delete_where_Some_iff)
  also have "\<dots> = filter (\<lambda>u. u \<noteq> v) (waits d)" by (intro filter_cong refl) (use one v(2) in blast)
  finally have ws: "ws = filter (\<lambda>u. u \<noteq> v) (waits d)" .
  have lok: "lanes_ok d'" unfolding d' by (rule wake_lanes_ok [OF ok c del]) simp
  show thesis by (rule that [OF v(1) _ _ _ lok]) (use v(2) d' d1 ws in simp_all)
qed

lemma commands_ok_drop:
  assumes ok: "commands_ok d" and d': "command_runs d' = command_runs d" "tasks d' = tasks d"
      "waits d' = filter (\<lambda>u. u \<noteq> w) (waits d)"
    and late: "\<And>r. r \<in> set (command_runs d) \<Longrightarrow> \<not> is_terminal_command r \<Longrightarrow> command_wait_matches r w \<Longrightarrow>
        cr_state r = CancellationRequested \<and> task_is_cancelled (cr_task_id r) d"
  shows "commands_ok d'"
proof -
  note C = ok [unfolded commands_ok_def]
  have t: "task_is_cancelled x d' = task_is_cancelled x d" for x by (simp add: task_is_cancelled_def d')
  have "(\<exists>u \<in> set (waits d'). command_wait_matches r u) \<or>
      cr_state r = CancellationRequested \<and> task_is_cancelled (cr_task_id r) d'"
    if r: "r \<in> set (command_runs d')" "\<not> is_terminal_command r" for r
  proof -
    from r have r': "r \<in> set (command_runs d)" by (simp add: d')
    with C r(2) consider u where "u \<in> set (waits d)" "command_wait_matches r u"
      | "cr_state r = CancellationRequested" "task_is_cancelled (cr_task_id r) d" by blast
    then show ?thesis
    proof cases
      case (1 u)
      show ?thesis
      proof (cases "u = w")
        case True
        then show ?thesis using late [OF r' r(2)] 1 by (simp add: t)
      next
        case False
        with 1 have "u \<in> set (waits d')" by (simp add: d')
        with 1 show ?thesis by blast
      qed
    qed (simp add: t)
  qed
  moreover have "set (waits d') \<subseteq> set (waits d)" by (auto simp: d')
  ultimately show ?thesis using C unfolding commands_ok_def d'(1) by blast
qed

text \<open>What the step for one wait leaves alone.\<close>

definition same_but_sources :: "db \<Rightarrow> db \<Rightarrow> bool" where
  "same_but_sources d d' \<longleftrightarrow> tasks d' = tasks d \<and> dispatches d' = dispatches d \<and>
     attempts d' = attempts d \<and> waits d' = waits d"

lemma cancel_human_request_step:
  assumes ok: "runtime_ok (env_event_hash env) d" and w: "w \<in> set (waits d)"
    and wh: "aw_human_request_id w = Some request"
    and src: "cancel_human_request env t w request actor esrc d = Inr d1"
    and d2: "d2 = d1\<lparr>attempts := as, waits := filter (\<lambda>u. u \<noteq> w) (waits d1)\<rparr>"
    and lanes: "lanes_ok d1 \<Longrightarrow> lanes_ok d2"
  shows "runtime_ok (env_event_hash env) d2 \<and> same_but_sources d d1"
proof -
  have key: "keyed hr_request_id (human_requests d)" using runtime_ok_parts(2) [OF ok] by (simp add: humans_ok_def)
  let ?p = "waiting_human t w request"
  obtain h0 hs where f: "find ?p (human_requests d) = Some h0"
    and up: "update_checked ck_human_request ?p (cancelled_human actor esrc (env_now env)) (human_requests d) = Inr (Some hs)"
    and e: "append_task_event env (human_cancelled_event t w h0 actor esrc (env_now env)) (d\<lparr>human_requests := hs\<rparr>) = Inr d1"
    using src unfolding cancel_human_request_def
    by (auto simp: and_then_Inr_iff require_Inr_iff split: option.splits)
  have pk: "\<forall>g. ?p g \<longrightarrow> hr_request_id g = request" by (simp add: waiting_human_def)
  from up have "(\<forall>g \<in> set (human_requests d). ?p g \<longrightarrow> ck_human_request (cancelled_human actor esrc (env_now env) g)) \<and>
      update_where ?p (cancelled_human actor esrc (env_now env)) (human_requests d) = Some hs"
    unfolding update_checked_Inr_iff by metis
  then obtain h where h: "h \<in> set (human_requests d)" "?p h"
      "ck_human_request (cancelled_human actor esrc (env_now env) h)"
      "hs = replace_row h (cancelled_human actor esrc (env_now env) h) (human_requests d)"
    unfolding update_unique_iff [OF key pk] by blast
  obtain es eh where d1: "d1 = d\<lparr>human_requests := hs, events := es, event_heads := eh\<rparr>"
    using append_task_event_frame [OF e] by auto
  have c1: "controller_ok (env_event_hash env) d1"
    by (rule append_controller_ok [OF _ e]) (use runtime_ok_parts(1) [OF ok] in simp)
  have ckw: "ck_wait w" by (rule lanes_ok_keys(7) [OF runtime_ok_parts(4) [OF ok] w])
  obtain g where g: "g \<in> set (human_requests d)" "human_wait_matches g w"
    using runtime_ok_parts(2) [OF ok] w wh unfolding humans_ok_def by blast
  have "g = h" using g h(1,2) wh
    by (intro keyed_unique [OF key]) (auto simp: human_wait_matches_def waiting_human_def)
  with g have m: "human_wait_matches h w" by simp
  have one: "u = w" if "u \<in> set (waits d)" "human_wait_matches h u" for u
    using that m w by (intro lanes_ok_one_wait [OF runtime_ok_parts(4) [OF ok]]) (auto simp: human_wait_matches_def)
  have other: "g = h" if "g \<in> set (human_requests d)" "human_wait_matches g w" for g
    using that m h(1) by (intro keyed_unique [OF key]) (auto simp: human_wait_matches_def)
  have "humans_ok d2"
    by (rule humans_ok_settle [OF runtime_ok_parts(2) [OF ok] h(1) _ h(3) _ one other])
      (simp_all add: d2 d1 h(4) cancelled_human_def)
  moreover have "commands_ok d2"
    by (rule commands_ok_frame [OF _ _ runtime_ok_parts(3) [OF ok]])
      (use ckw wh in \<open>auto simp: d2 d1 ck_wait_def task_is_cancelled_def\<close>)
  moreover have "controller_ok (env_event_hash env) d2"
    by (rule controller_ok_lanes [OF c1 lanes [OF controller_ok_parts(1) [OF c1]]]) (simp_all add: d2)
  ultimately show ?thesis by (simp add: runtime_ok_def same_but_sources_def d1)
qed

lemma cancel_command_step:
  assumes ok: "runtime_ok (env_event_hash env) d" and w: "w \<in> set (waits d)"
    and wc: "aw_command_run_id w = Some run" "aw_task_id w = task"
    and can: "task_is_cancelled task d"
    and src: "request_command_run_cancellation env task run actor esrc True True d = Inr ((s, b), d1)"
    and d2: "d2 = d1\<lparr>attempts := as, waits := filter (\<lambda>u. u \<noteq> w) (waits d1)\<rparr>"
    and lanes: "lanes_ok d1 \<Longrightarrow> lanes_ok d2"
  shows "runtime_ok (env_event_hash env) d2 \<and> same_but_sources d d1"
proof -
  have "run_command_operation env (RequestCancel task run actor esrc True True) d = Inr d1" using src by simp
  then have ok1: "runtime_ok (env_event_hash env) d1" using run_command_operation_steps [OF ok] by blast
  have ckw: "ck_wait w" by (rule lanes_ok_keys(7) [OF runtime_ok_parts(4) [OF ok] w])
  have "same_but_sources d d1 \<and> (\<forall>r \<in> set (command_runs d1). \<not> is_terminal_command r \<longrightarrow>
      command_wait_matches r w \<longrightarrow> cr_state r = CancellationRequested)"
  proof (cases b)
    case True
    obtain r r' where r: "cr_run_id r = run" "r \<in> set (command_runs d)"
      and r': "r' = apply_cancellation_request actor (env_now env) r"
      and e: "append_task_event env (command_cancel_requested_event r actor esrc (env_now env))
       (d\<lparr>command_runs := replace_row r r' (command_runs d)\<rparr>) = Inr d1"
      by (rule request_cancellation_Some [OF runtime_ok_parts(3) [OF ok]]) (use src True in simp)
    have key: "keyed cr_run_id (command_runs d1)" using runtime_ok_parts(3) [OF ok1] by (simp add: commands_ok_def)
    have in1: "r' \<in> set (command_runs d1)" using append_commands [OF e] r(2) by (simp add: set_replace_row)
    have "g = r'" if "g \<in> set (command_runs d1)" "command_wait_matches g w" for g
      using that in1 r(1) wc by (intro keyed_unique [OF key])
        (auto simp: command_wait_matches_def r' apply_cancellation_request_def)
    moreover have "cr_state r' = CancellationRequested" by (simp add: r' apply_cancellation_request_def)
    moreover have "same_but_sources d d1" using append_task_event_frame [OF e] by (auto simp: same_but_sources_def)
    ultimately show ?thesis by blast
  next
    case False
    then have d1: "d1 = d" using src by (intro none_unchanged(3)) simp
    from src False have s: "command_run_for_task task run d = Some s"
      and st: "cr_state s \<in> set command_terminal_states \<or> cr_state s = CancellationRequested"
      unfolding request_command_run_cancellation_def
      by (auto elim!: and_then_InrE simp: require_Inr_iff split: if_split_asm option.split_asm)
    have sd: "s \<in> set (command_runs d)" "cr_run_id s = run"
      using s by (auto simp: command_run_for_task_def dest!: find_Some_D)
    have key: "keyed cr_run_id (command_runs d)" using runtime_ok_parts(3) [OF ok] by (simp add: commands_ok_def)
    have "g = s" if "g \<in> set (command_runs d)" "command_wait_matches g w" for g
      using that sd wc by (intro keyed_unique [OF key]) (auto simp: command_wait_matches_def)
    with st show ?thesis by (auto simp: d1 same_but_sources_def is_terminal_command_def)
  qed
  then have same: "same_but_sources d d1"
    and late: "\<And>r. r \<in> set (command_runs d1) \<Longrightarrow> \<not> is_terminal_command r \<Longrightarrow> command_wait_matches r w \<Longrightarrow>
      cr_state r = CancellationRequested" by blast+
  have "task_is_cancelled task d1" using can same by (simp add: task_is_cancelled_def same_but_sources_def)
  then have "commands_ok d2"
    by (intro commands_ok_drop [OF runtime_ok_parts(3) [OF ok1]])
      (use late wc in \<open>auto simp: d2 command_wait_matches_def\<close>)
  moreover have "humans_ok d2"
    by (rule humans_ok_frame [OF _ _ runtime_ok_parts(2) [OF ok1]])
      (use ckw wc in \<open>auto simp: d2 ck_wait_def\<close>)
  moreover have "controller_ok (env_event_hash env) d2"
    by (rule controller_ok_lanes [OF runtime_ok_parts(1) [OF ok1] lanes [OF runtime_ok_parts(4) [OF ok1]]])
      (simp_all add: d2)
  ultimately show ?thesis using same by (simp add: runtime_ok_def)
qed

lemma cancel_wave_step:
  assumes ok: "runtime_ok H d" and w: "w \<in> set (waits d)" and ww: "aw_delegation_wave_id w \<noteq> None"
    and src: "cancel_waiting_delegation_wave t w wave now d = Inr d1"
    and d2: "d2 = d1\<lparr>attempts := as, waits := filter (\<lambda>u. u \<noteq> w) (waits d1)\<rparr>"
    and lanes: "lanes_ok d1 \<Longrightarrow> lanes_ok d2"
  shows "runtime_ok H d2 \<and> same_but_sources d d1"
proof -
  let ?p = "\<lambda>v. dw_delegation_wave_id v = wave \<and> dw_task_id v = tk_task_id t \<and>
           dw_parent_assignment_id v = aw_assignment_id w \<and> dw_parent_attempt_id v = aw_attempt_id w \<and>
           dw_source_dispatch_id v = aw_source_dispatch_id w \<and> dw_status v = WaveOpen \<and>
           dw_successor_dispatch_id v = None"
  let ?q = "\<lambda>m. dm_delegation_wave_id m = wave \<and> dm_task_id m = tk_task_id t \<and> dm_status m = MemberPending"
  obtain vs ms where up: "update_checked ck_wave ?p (cancelled_wave now) (waves d) = Inr (Some vs)"
    and um: "update_all ck_wave_member ?q (cancelled_member now) (wave_members d) = Inr ms"
    and d1: "d1 = d\<lparr>waves := vs, wave_members := ms\<rparr>"
    using src unfolding cancel_waiting_delegation_wave_def
    by (auto elim!: and_then_InrE split: option.split_asm)
  have W: "waves_ok d" by (rule controller_ok_parts(2) [OF runtime_ok_parts(1) [OF ok]])
  from up have vs: "\<forall>v \<in> set (waves d). ?p v \<longrightarrow> ck_wave (cancelled_wave now v)"
      "vs = map (\<lambda>v. if ?p v then cancelled_wave now v else v) (waves d)"
    unfolding update_checked_Inr_iff eq_commute [of "Some vs"] update_where_Some_iff by blast+
  have "map dw_delegation_wave_id vs = map dw_delegation_wave_id (waves d)"
    unfolding vs(2) by (simp add: cancelled_wave_def)
  then have "keyed dw_delegation_wave_id vs" using W by (simp add: keyed_def waves_ok_def)
  moreover have "\<forall>v \<in> set vs. ck_wave v" using vs(1) W unfolding vs(2) by (auto simp: waves_ok_def)
  moreover have "keyed dm_child_assignment_id ms"
    by (rule update_all_keyed [OF um]) (use W in \<open>simp_all add: waves_ok_def cancelled_member_def\<close>)
  moreover have "\<forall>m \<in> set ms. ck_wave_member m"
    by (rule update_all_checks [OF um]) (use W in \<open>simp add: waves_ok_def\<close>)
  ultimately have W2: "waves_ok d2" by (simp add: waves_ok_def d2 d1)
  have l1: "lanes_ok d1" using runtime_ok_parts(4) [OF ok] by (simp add: d1 lanes_ok_def)
  have ckw: "ck_wait w" by (rule lanes_ok_keys(7) [OF runtime_ok_parts(4) [OF ok] w])
  have "controller_ok H d2"
    by (rule controller_ok_waves [OF runtime_ok_parts(1) [OF ok] W2 lanes [OF l1]]) (simp_all add: d2 d1)
  moreover have "humans_ok d2"
    by (rule humans_ok_frame [OF _ _ runtime_ok_parts(2) [OF ok]])
      (use ckw ww in \<open>auto simp: d2 d1 ck_wait_def\<close>)
  moreover have "commands_ok d2"
    by (rule commands_ok_frame [OF _ _ runtime_ok_parts(3) [OF ok]])
      (use ckw ww in \<open>auto simp: d2 d1 ck_wait_def task_is_cancelled_def\<close>)
  ultimately show ?thesis by (simp add: runtime_ok_def same_but_sources_def d1)
qed

lemma cancel_wait_step:
  assumes ok: "runtime_ok (env_event_hash env) d" and can: "task_is_cancelled (tk_task_id t) d"
    and w: "\<forall>v \<in> set (waits d). aw_wait_id v = aw_wait_id w \<longrightarrow> v = w" "aw_task_id w = tk_task_id t"
    and src: "cancel_attempt_wait_source env t w actor esrc d = Inr (signal, d1)"
    and cd: "clear_and_delete_attempt_wait w d1 = Inr d2"
  shows "runtime_ok (env_event_hash env) d2 \<and> tasks d2 = tasks d \<and> dispatches d2 = dispatches d \<and>
    set (waits d2) \<subseteq> set (waits d) \<and>
    (\<forall>b \<in> set (attempts d2). \<exists>a \<in> set (attempts d). at_attempt_id b = at_attempt_id a \<and>
       at_task_id b = at_task_id a \<and> at_status b = at_status a \<and> at_current_dispatch_id b = at_current_dispatch_id a)"
proof -
  have waits1: "waits d1 = waits d"
    using src unfolding cancel_attempt_wait_source_def cancel_human_request_def cancel_waiting_delegation_wave_def
      request_command_run_cancellation_def
    by (auto elim!: and_then_InrE split: option.split_asm if_split_asm dest!: append_task_event_frame)
  have lanes1: "lanes_ok d1"
  proof -
    have "attempts d1 = attempts d" "dispatches d1 = dispatches d"
      using src unfolding cancel_attempt_wait_source_def cancel_human_request_def cancel_waiting_delegation_wave_def
        request_command_run_cancellation_def
      by (auto elim!: and_then_InrE split: option.split_asm if_split_asm dest!: append_task_event_frame)
    with waits1 show ?thesis using runtime_ok_parts(4) [OF ok] by (simp add: lanes_ok_def)
  qed
  obtain v as where v: "v \<in> set (waits d1)" "aw_wait_id v = aw_wait_id w"
    and d2': "d2 = d1\<lparr>attempts := as, waits := filter (\<lambda>u. u \<noteq> v) (waits d1)\<rparr>" and l2: "lanes_ok d2"
    by (rule clear_and_delete_Inr [OF lanes1 cd])
  have vw: "v = w" using w(1) v waits1 by simp
  note d2 = d2' [unfolded vw]
  have wd: "w \<in> set (waits d)" using v(1) vw waits1 by simp
  have ckw: "ck_wait w" by (rule lanes_ok_keys(7) [OF runtime_ok_parts(4) [OF ok] wd])
  have main: "runtime_ok (env_event_hash env) d2 \<and> same_but_sources d d1"
  proof (cases "aw_human_request_id w")
    case (Some request)
    then have "cancel_human_request env t w request actor esrc d = Inr d1"
      using src by (auto simp: cancel_attempt_wait_source_def and_then_Inr_iff)
    then show ?thesis by (rule cancel_human_request_step [OF ok wd Some _ d2 l2])
  next
    case no_human: None
    show ?thesis
    proof (cases "aw_command_run_id w")
      case (Some run)
      then obtain s b where "request_command_run_cancellation env (tk_task_id t) run actor esrc True True d = Inr ((s, b), d1)"
        using src no_human by (auto simp: cancel_attempt_wait_source_def and_then_Inr_iff)
      then show ?thesis by (rule cancel_command_step [OF ok wd Some w(2) can _ d2 l2])
    next
      case None
      then obtain wave where wv: "aw_delegation_wave_id w = Some wave"
        using ckw no_human by (auto simp: ck_wait_def)
      have wsrc: "cancel_waiting_delegation_wave t w wave (env_now env) d = Inr d1"
        using src no_human None wv by (auto simp: cancel_attempt_wait_source_def and_then_Inr_iff)
      show ?thesis by (rule cancel_wave_step [OF ok wd _ wsrc d2 l2]) (simp add: wv)
    qed
  qed
  have att: "\<exists>a \<in> set (attempts d1). at_attempt_id b = at_attempt_id a \<and>
       at_task_id b = at_task_id a \<and> at_status b = at_status a \<and> at_current_dispatch_id b = at_current_dispatch_id a"
    if "b \<in> set (attempts d2)" for b
  proof -
    let ?p = "\<lambda>a. at_attempt_id a = aw_attempt_id w \<and> at_task_id a = aw_task_id w \<and>
      at_assignment_id a = aw_assignment_id w \<and> at_status a = AttRunning \<and>
      at_current_dispatch_id a = None \<and> at_current_wait_id a = Some (aw_wait_id w)"
    have "attempts d2 = map (\<lambda>a. if ?p a then a\<lparr>at_current_wait_id := None\<rparr> else a) (attempts d1)"
      using cd unfolding clear_and_delete_attempt_wait_def
      by (auto elim!: and_then_InrE simp: require_Inr_iff clear_current_attempt_wait_def map_option_eq_Some
        update_where_Some_iff)
    with that obtain a where "a \<in> set (attempts d1)" "b = (if ?p a then a\<lparr>at_current_wait_id := None\<rparr> else a)"
      by auto
    then show ?thesis by (intro bexI [of _ a]) auto
  qed
  show ?thesis using main att by (auto simp: d2 same_but_sources_def)
qed

subsection \<open>Cancelling what is left\<close>

lemma insert_wait_row_set: "set (insert_wait_row w ws) = insert w (set ws)"
  by (induction ws) auto

lemma read_current_attempt_waits_task:
  "w \<in> set (read_current_attempt_waits task d) \<Longrightarrow> w \<in> set (waits d) \<and> aw_task_id w = task"
proof -
  have "set (foldr insert_wait_row ws []) = set ws" for ws
    by (induction ws) (simp_all add: insert_wait_row_set)
  then show "w \<in> set (read_current_attempt_waits task d) \<Longrightarrow> w \<in> set (waits d) \<and> aw_task_id w = task"
    by (auto simp: read_current_attempt_waits_def)
qed

definition no_current_dispatch :: "ident \<Rightarrow> db \<Rightarrow> bool" where
  "no_current_dispatch task d \<longleftrightarrow> (\<forall>a \<in> set (attempts d). at_task_id a = task \<longrightarrow>
     at_status a = AttRunning \<longrightarrow> at_current_dispatch_id a = None)"

lemma cancel_each_wait_ok:
  assumes "runtime_ok (env_event_hash env) d" "task_is_cancelled (tk_task_id t) d" "no_current_dispatch (tk_task_id t) d"
    and "cancel_each_wait env t actor esrc ws d = Inr (signals, d')"
    and "\<forall>w \<in> set ws. w \<in> W \<and> aw_task_id w = tk_task_id t" "set (waits d) \<subseteq> W" "inj_on aw_wait_id W"
  shows "runtime_ok (env_event_hash env) d' \<and> no_current_dispatch (tk_task_id t) d' \<and> tasks d' = tasks d"
  using assms
proof (induction ws arbitrary: d signals)
  case (Cons w ws)
  obtain signal d1 d2 signals' where src: "cancel_attempt_wait_source env t w actor esrc d = Inr (signal, d1)"
    and cd: "clear_and_delete_attempt_wait w d1 = Inr d2"
    and rest: "cancel_each_wait env t actor esrc ws d2 = Inr (signals', d')"
    using Cons.prems(4) by (auto elim!: and_then_InrE)
  have "\<forall>v \<in> set (waits d). aw_wait_id v = aw_wait_id w \<longrightarrow> v = w"
    using Cons.prems(5-7) by (auto dest: inj_onD)
  note step = cancel_wait_step [OF Cons.prems(1,2) this _ src cd]
  have st: "runtime_ok (env_event_hash env) d2" "tasks d2 = tasks d" "set (waits d2) \<subseteq> set (waits d)"
    "\<forall>b \<in> set (attempts d2). \<exists>a \<in> set (attempts d). at_attempt_id b = at_attempt_id a \<and>
       at_task_id b = at_task_id a \<and> at_status b = at_status a \<and> at_current_dispatch_id b = at_current_dispatch_id a"
    using step Cons.prems(5) by auto
  have "no_current_dispatch (tk_task_id t) d2"
    using st(4) Cons.prems(3) unfolding no_current_dispatch_def by metis
  moreover have "task_is_cancelled (tk_task_id t) d2" using Cons.prems(2) st(2) by (simp add: task_is_cancelled_def)
  ultimately have "runtime_ok (env_event_hash env) d' \<and> no_current_dispatch (tk_task_id t) d' \<and> tasks d' = tasks d2"
    using Cons.prems(5-7) st(3) by (intro Cons.IH [OF st(1) _ _ rest]) auto
  with st(2) show ?case by simp
qed simp

lemma cancel_attempt_waits_ok:
  assumes ok: "runtime_ok (env_event_hash env) d" and can: "task_is_cancelled (tk_task_id t) d"
    and nd: "no_current_dispatch (tk_task_id t) d"
    and cw: "cancel_attempt_waits env t actor esrc d = Inr (signals, d')"
  shows "runtime_ok (env_event_hash env) d' \<and> no_current_dispatch (tk_task_id t) d' \<and> tasks d' = tasks d \<and>
    (\<forall>w \<in> set (waits d'). aw_task_id w \<noteq> tk_task_id t)"
proof -
  have e: "cancel_each_wait env t actor esrc (read_current_attempt_waits (tk_task_id t) d) d = Inr (signals, d')"
    and none: "\<forall>w \<in> set (waits d'). aw_task_id w \<noteq> tk_task_id t"
    using cw unfolding cancel_attempt_waits_def
    by (auto elim!: and_then_InrE split: if_split_asm simp: list_ex_iff)
  have "inj_on aw_wait_id (set (waits d))" by (rule keyed_inj_on [OF lanes_ok_keys(3) [OF runtime_ok_parts(4) [OF ok]]])
  from cancel_each_wait_ok [OF ok can nd e _ _ this] none read_current_attempt_waits_task
  show ?thesis by blast
qed

text \<open>A change of Attempt rows that owns what it owned.\<close>

lemma lanes_wf_image:
  assumes "lanes_wf A D W" and "inj_on at_attempt_id (g ` A)"
    and "\<And>a t. a \<in> A \<Longrightarrow> attempt_owns_dispatch (g a) t = attempt_owns_dispatch a t"
    and "\<And>a w. a \<in> A \<Longrightarrow> attempt_owns_wait (g a) w = attempt_owns_wait a w"
    and "\<And>a. a \<in> A \<Longrightarrow> at_current_dispatch_id (g a) = at_current_dispatch_id a"
    and "\<And>a. a \<in> A \<Longrightarrow> at_current_wait_id (g a) = at_current_wait_id a"
  shows "lanes_wf (g ` A) D W"
  using assms unfolding lanes_wf_def by simp

lemma lanes_ok_cancel_attempts:
  assumes ok: "lanes_ok d" and nd: "no_current_dispatch task d"
    and nw: "\<forall>w \<in> set (waits d). aw_task_id w \<noteq> task"
    and as: "update_all ck_attempt (\<lambda>a. at_task_id a = task \<and> at_status a \<in> {AttPending, AttRunning})
      (cancelled_attempt now) (attempts d) = Inr as"
  shows "lanes_ok (d\<lparr>attempts := as\<rparr>)"
proof -
  let ?p = "\<lambda>a. at_task_id a = task \<and> at_status a \<in> {AttPending, AttRunning}"
  let ?g = "\<lambda>a. if ?p a then cancelled_attempt now a else a"
  note L = lanes_ok_keys [OF ok]
  have idle: "at_current_dispatch_id a = None" "at_current_wait_id a = None" if "a \<in> set (attempts d)" "?p a" for a
  proof -
    note a = that
    have ck: "ck_attempt a" by (rule L(5) [OF that(1)])
    then show "at_current_dispatch_id a = None"
      using that nd by (cases "at_status a") (auto simp: ck_attempt_def no_current_dispatch_def)
    show "at_current_wait_id a = None"
    proof (rule ccontr)
      assume "at_current_wait_id a \<noteq> None"
      then obtain w where "w \<in> set (waits d)" "attempt_owns_wait a w"
        using L(4) a(1) unfolding lanes_wf_def by blast
      then show False using nw a(2) by (auto simp: attempt_owns_wait_def)
    qed
  qed
  have as': "as = map ?g (attempts d)" using as by (simp add: update_all_Inr_iff)
  have own: "attempt_owns_dispatch (?g a) t = attempt_owns_dispatch a t"
    "attempt_owns_wait (?g a) w = attempt_owns_wait a w" if "a \<in> set (attempts d)" for a t w
    using idle [OF that] by (auto simp: attempt_owns_dispatch_def attempt_owns_wait_def cancelled_attempt_def)
  have none: "at_current_dispatch_id (?g a) = at_current_dispatch_id a" "at_current_wait_id (?g a) = at_current_wait_id a"
    if "a \<in> set (attempts d)" for a
    using idle [OF that] by (auto simp: cancelled_attempt_def)
  have key: "keyed at_attempt_id as"
    by (rule update_all_keyed [OF as L(1)]) (simp add: cancelled_attempt_def)
  have ck: "\<forall>a \<in> set as. ck_attempt a" by (rule update_all_checks [OF as]) (use L(5) in blast)
  have im: "set as = ?g ` set (attempts d)" unfolding as' by (simp only: list.set_map)
  have "lanes_wf (?g ` set (attempts d)) (set (dispatches d)) (set (waits d))"
    by (rule lanes_wf_image [OF L(4) keyed_inj_on [OF key, unfolded im] own none])
  then have "lanes_wf (set as) (set (dispatches d)) (set (waits d))" by (simp only: im)
  with ok key ck show ?thesis by (simp add: lanes_ok_def)
qed

lemma cancel_execution_rows_ok:
  assumes ok: "runtime_ok H d" and nd: "no_current_dispatch task d"
    and nw: "\<forall>w \<in> set (waits d). aw_task_id w \<noteq> task"
    and ce: "cancel_execution_rows task now d = Inr d'"
  shows "runtime_ok H d' \<and> tasks d' = tasks d \<and> waits d' = waits d \<and>
    (\<forall>a \<in> set (attempts d'). at_task_id a = task \<longrightarrow> at_status a \<notin> {AttPending, AttRunning}) \<and>
    (\<forall>w \<in> set (waves d'). dw_task_id w = task \<longrightarrow> dw_status w \<noteq> WaveOpen) \<and>
    (\<forall>m \<in> set (wave_members d'). dm_task_id m = task \<longrightarrow> dm_status m \<noteq> MemberPending)"
proof -
  let ?pw = "\<lambda>w. dw_task_id w = task \<and> dw_status w \<in> {WaveOpen, WaveSettled} \<and> dw_successor_dispatch_id w = None"
  let ?pm = "\<lambda>m. dm_task_id m = task \<and> dm_status m = MemberPending"
  let ?pa = "\<lambda>a. at_task_id a = task \<and> at_status a \<in> {AttPending, AttRunning}"
  obtain vs ms as where vs: "update_all ck_wave ?pw (cancelled_wave now) (waves d) = Inr vs"
    and ms: "update_all ck_wave_member ?pm (cancelled_member now) (wave_members d) = Inr ms"
    and as: "update_all ck_attempt ?pa (cancelled_attempt now) (attempts d) = Inr as"
    and d': "d' = d\<lparr>waves := vs, wave_members := ms, attempts := as\<rparr>"
    using ce unfolding cancel_execution_rows_def by (auto elim!: and_then_InrE)
  have W: "waves_ok d" by (rule controller_ok_parts(2) [OF runtime_ok_parts(1) [OF ok]])
  have "waves_ok d'"
  proof -
    have "keyed dw_delegation_wave_id vs"
      by (rule update_all_keyed [OF vs]) (use W in \<open>simp_all add: waves_ok_def cancelled_wave_def\<close>)
    moreover have "keyed dm_child_assignment_id ms"
      by (rule update_all_keyed [OF ms]) (use W in \<open>simp_all add: waves_ok_def cancelled_member_def\<close>)
    moreover have "\<forall>v \<in> set vs. ck_wave v"
      by (rule update_all_checks [OF vs]) (use W in \<open>simp add: waves_ok_def\<close>)
    moreover have "\<forall>m \<in> set ms. ck_wave_member m"
      by (rule update_all_checks [OF ms]) (use W in \<open>simp add: waves_ok_def\<close>)
    ultimately show ?thesis by (simp add: waves_ok_def d')
  qed
  moreover have "lanes_ok d'"
    using lanes_ok_cancel_attempts [OF runtime_ok_parts(4) [OF ok] nd nw as] by (simp add: d' lanes_ok_def)
  ultimately have c: "controller_ok H d'"
    by (rule controller_ok_waves [OF runtime_ok_parts(1) [OF ok]]) (simp_all add: d')
  have "humans_ok d'" by (rule humans_ok_frame [OF _ _ runtime_ok_parts(2) [OF ok]]) (simp_all add: d')
  moreover have "commands_ok d'"
    by (rule commands_ok_frame [OF _ _ runtime_ok_parts(3) [OF ok]]) (simp_all add: d' task_is_cancelled_def)
  ultimately have "runtime_ok H d'" using c by (simp add: runtime_ok_def)
  moreover have "dw_status w \<noteq> WaveOpen" if "w \<in> set vs" "dw_task_id w = task" for w
    using update_all_cases [OF vs that(1)]
  proof
    assume w: "w \<in> set (waves d) \<and> \<not> ?pw w"
    then have "ck_wave w" using W by (simp add: waves_ok_def)
    then show ?thesis using w that(2) by (cases "dw_status w") (auto simp: ck_wave_def)
  qed (auto simp: cancelled_wave_def)
  moreover have "dm_status m \<noteq> MemberPending" if "m \<in> set ms" "dm_task_id m = task" for m
    using update_all_cases [OF ms that(1)]
  proof
    assume "\<exists>s \<in> set (wave_members d). ?pm s \<and> m = cancelled_member now s"
    then obtain s where "m = cancelled_member now s" by blast
    then show ?thesis by (simp add: cancelled_member_def)
  qed (use that(2) in simp)
  moreover have "at_status a \<notin> {AttPending, AttRunning}" if "a \<in> set as" "at_task_id a = task" for a
    using update_all_cases [OF as that(1)]
  proof
    assume "\<exists>s \<in> set (attempts d). ?pa s \<and> a = cancelled_attempt now s"
    then obtain s where "a = cancelled_attempt now s" by blast
    then show ?thesis by (simp add: cancelled_attempt_def)
  qed (use that(2) in simp)
  ultimately show ?thesis by (simp add: d')
qed

subsection \<open>Properties\<close>

lemma read_control_task_Inr:
  "read_control_task task d = Inr t \<Longrightarrow> t \<in> set (tasks d) \<and> tk_task_id t = task"
  by (auto simp: read_control_task_def require_Inr_iff dest!: find_Some_D)

text \<open>A live row of the lanes of a Task belongs to a running Attempt with a pointer.\<close>

lemma no_active_dispatch:
  assumes ok: "lanes_ok d" and nd: "no_current_dispatch task d"
    and t: "t \<in> set (dispatches d)" "dt_task_id t = task"
  shows "\<not> dispatch_is_active t"
proof
  assume "dispatch_is_active t"
  then obtain a where a: "a \<in> set (attempts d)" "attempt_owns_dispatch a t"
    using lanes_ok_keys(4) [OF ok] t(1) unfolding lanes_wf_def by blast
  then have "ck_attempt a" using lanes_ok_keys(5) [OF ok] by blast
  with a t(2) nd show False
    by (auto simp: attempt_owns_dispatch_def ck_attempt_def no_current_dispatch_def)
qed

lemma closed_no_current_dispatch:
  "all_current_task_dispatches_closed task d \<Longrightarrow> no_current_dispatch task d"
  by (auto simp: all_current_task_dispatches_closed_def no_current_dispatch_def list_ex_iff)

lemma pause_task_effect:
  assumes ok: "runtime_ok (env_event_hash env) d"
    and pa: "pause_task env task revision control actor esrc d = Inr (signals, d')"
  shows "runtime_ok (env_event_hash env) d' \<and>
    (\<exists>t \<in> set (tasks d'). tk_task_id t = task \<and> tk_status t = TaskPaused \<and> tk_control_revision t = control + 1) \<and>
    (\<forall>t \<in> set (dispatches d'). dt_task_id t = task \<longrightarrow> \<not> dispatch_is_active t) \<and>
    waits d' = waits d \<and> human_requests d' = human_requests d \<and> command_runs d' = command_runs d"
proof -
  obtain t ts closed d1 where rt: "read_control_task task d = Inr t"
    and sn: "require_control_snapshot t revision control [TaskRunning] = Inr ()"
    and up: "update_task_to_paused t control actor (env_now env) d = Inr (Some ts)"
    and cl: "close_current_task_dispatches (tk_task_id t) CPaused (env_now env) Map.empty (d\<lparr>tasks := ts\<rparr>) = Inr (closed, d1)"
    and e: "append_task_event env (control_event TASK_PAUSED [(''pause_reason'', JStr ''paused_by_operator'')]
        ''Paused by operator.'' (tk_task_id t) revision control actor esrc (env_now env)) d1 = Inr d'"
    using pa unfolding pause_task_def
    by (auto elim!: and_then_InrE split: option.split_asm simp: as_task_control_conflict_Inr)
  note t = read_control_task_Inr [OF rt]
  have st: "tk_status t = TaskRunning" "tk_control_revision t = control"
    using sn by (auto simp: require_control_snapshot_def split: if_split_asm)
  have T: "tasks_ok d" by (rule controller_ok_parts(4) [OF runtime_ok_parts(1) [OF ok]])
  have ts: "ts = replace_row t (paused_task actor (env_now env) t) (tasks d)" "ck_task (paused_task actor (env_now env) t)"
    using update_task_Some [OF T _ up [unfolded update_task_to_paused_def]] t by blast+
  have "runtime_ok (env_event_hash env) (d\<lparr>tasks := ts\<rparr>)"
    unfolding ts(1) by (rule runtime_ok_task [OF ok _ _ ts(2)]) (use t st in \<open>simp_all add: paused_task_def\<close>)
  then have ok1: "runtime_ok (env_event_hash env) d1" by (rule close_dispatches_runtime_ok [OF _ cl]) simp
  have ok': "runtime_ok (env_event_hash env) d'" by (rule append_runtime_ok [OF ok1 e])
  obtain ds as where d1: "d1 = d\<lparr>tasks := ts, dispatches := ds, attempts := as\<rparr>"
    and c: "all_current_task_dispatches_closed (tk_task_id t) d1"
    using close_current_task_dispatches_frame [OF cl] by auto
  obtain es eh where d': "d' = d1\<lparr>events := es, event_heads := eh\<rparr>" using append_task_event_frame [OF e] by auto
  have "no_current_dispatch task d'"
    using closed_no_current_dispatch [OF c] t by (simp add: d' no_current_dispatch_def)
  then have "\<forall>u \<in> set (dispatches d'). dt_task_id u = task \<longrightarrow> \<not> dispatch_is_active u"
    using no_active_dispatch [OF runtime_ok_parts(4) [OF ok']] by blast
  moreover have "paused_task actor (env_now env) t \<in> set (tasks d')"
    using t by (simp add: d' d1 ts(1) set_replace_row)
  ultimately show ?thesis
    using ok' t st by (auto simp: d' d1 paused_task_def intro!: bexI [of _ "paused_task actor (env_now env) t"])
qed


lemma cancel_task_effect:
  assumes ok: "runtime_ok (env_event_hash env) d"
    and ca: "cancel_task env task revision control actor esrc d = Inr (signals, d')"
  shows "runtime_ok (env_event_hash env) d' \<and>
    (\<exists>t \<in> set (tasks d'). tk_task_id t = task \<and> tk_status t = TaskCancelled \<and> tk_control_revision t = control + 1) \<and>
    (\<forall>a \<in> set (attempts d'). at_task_id a = task \<longrightarrow> at_status a \<notin> {AttPending, AttRunning}) \<and>
    (\<forall>t \<in> set (dispatches d'). dt_task_id t = task \<longrightarrow> \<not> dispatch_is_active t) \<and>
    (\<forall>w \<in> set (waits d'). aw_task_id w \<noteq> task) \<and>
    (\<forall>w \<in> set (waves d'). dw_task_id w = task \<longrightarrow> dw_status w \<noteq> WaveOpen) \<and>
    (\<forall>m \<in> set (wave_members d'). dm_task_id m = task \<longrightarrow> dm_status m \<noteq> MemberPending) \<and>
    (\<forall>h \<in> set (human_requests d'). hr_task_id h = task \<longrightarrow> hr_status h \<noteq> HumanOpen) \<and>
    (\<forall>r \<in> set (command_runs d'). cr_task_id r = task \<longrightarrow>
       is_terminal_command r \<or> cr_state r = CancellationRequested)"
proof -
  obtain t ts closed d1 sigs d2 d3 d4 where rt: "read_control_task task d = Inr t"
    and sn: "require_control_snapshot t revision control [TaskRunning, TaskPaused] = Inr ()"
    and up: "update_task_to_cancelled t control (env_now env) d = Inr (Some ts)"
    and cl: "close_current_task_dispatches (tk_task_id t) CCancelled (env_now env) Map.empty (d\<lparr>tasks := ts\<rparr>) = Inr (closed, d1)"
    and cw: "cancel_attempt_waits env t actor esrc d1 = Inr (sigs, d2)"
    and ce: "cancel_execution_rows (tk_task_id t) (env_now env) d2 = Inr d3"
    and cr: "cancel_pending_replan_transition t (env_now env) d3 = Inr d4"
    and e: "append_task_event env (control_event TASK_CANCELLED [] ''Cancelled by operator.'' (tk_task_id t)
        revision control actor esrc (env_now env)) d4 = Inr d'"
    using ca unfolding cancel_task_def
    by (auto elim!: and_then_InrE split: option.split_asm simp: as_task_control_conflict_Inr)
  have t: "t \<in> set (tasks d)" "tk_task_id t = task" using read_control_task_Inr [OF rt] by blast+
  let ?t = "cancelled_task (env_now env) t"
  have st: "tk_control_revision t = control" using sn by (auto simp: require_control_snapshot_def split: if_split_asm)
  have T: "tasks_ok d" by (rule controller_ok_parts(4) [OF runtime_ok_parts(1) [OF ok]])
  have ts: "ts = replace_row t ?t (tasks d)" "ck_task ?t"
    using update_task_Some [OF T t(1) up [unfolded update_task_to_cancelled_def]] by blast+
  have ok0: "runtime_ok (env_event_hash env) (d\<lparr>tasks := ts\<rparr>)"
    unfolding ts(1) by (rule runtime_ok_task [OF ok t(1) _ ts(2)]) (simp_all add: cancelled_task_def)
  have ok1: "runtime_ok (env_event_hash env) d1" by (rule close_dispatches_runtime_ok [OF ok0 cl]) simp
  obtain ds as where d1: "d1 = d\<lparr>tasks := ts, dispatches := ds, attempts := as\<rparr>"
    and c: "all_current_task_dispatches_closed (tk_task_id t) d1"
    using close_current_task_dispatches_frame [OF cl] by auto
  have tin: "?t \<in> set ts" using t(1) by (simp add: ts(1) set_replace_row)
  have can1: "task_is_cancelled (tk_task_id t) d1"
    unfolding task_is_cancelled_def d1 using tin by (intro bexI [of _ ?t]) (simp_all add: cancelled_task_def)
  have s2: "runtime_ok (env_event_hash env) d2" "no_current_dispatch (tk_task_id t) d2" "tasks d2 = tasks d1"
    "\<forall>w \<in> set (waits d2). aw_task_id w \<noteq> tk_task_id t"
    using cancel_attempt_waits_ok [OF ok1 can1 closed_no_current_dispatch [OF c] cw] by blast+
  note s3 = cancel_execution_rows_ok [OF s2(1,2,4) ce]
  obtain rs where d4: "d4 = d3\<lparr>replan_transitions := rs\<rparr>"
    using cr by (auto simp: cancel_pending_replan_transition_def and_then_Inr_iff)
  have ok4: "runtime_ok (env_event_hash env) d4"
    using s3 by (simp add: d4)
  have ok': "runtime_ok (env_event_hash env) d'" by (rule append_runtime_ok [OF ok4 e])
  obtain es eh where d': "d' = d3\<lparr>replan_transitions := rs, events := es, event_heads := eh\<rparr>"
    using append_task_event_frame [OF e] by (auto simp: d4)
  have live: "\<forall>a \<in> set (attempts d'). at_task_id a = task \<longrightarrow> at_status a \<notin> {AttPending, AttRunning}"
    "\<forall>w \<in> set (waits d'). aw_task_id w \<noteq> task"
    "\<forall>w \<in> set (waves d'). dw_task_id w = task \<longrightarrow> dw_status w \<noteq> WaveOpen"
    "\<forall>m \<in> set (wave_members d'). dm_task_id m = task \<longrightarrow> dm_status m \<noteq> MemberPending"
    using s3 s2(4) t(2) by (simp_all add: d')
  have "no_current_dispatch task d'" using live(1) by (auto simp: no_current_dispatch_def)
  then have active: "\<forall>u \<in> set (dispatches d'). dt_task_id u = task \<longrightarrow> \<not> dispatch_is_active u"
    using no_active_dispatch [OF runtime_ok_parts(4) [OF ok']] by blast
  have humans: "\<forall>h \<in> set (human_requests d'). hr_task_id h = task \<longrightarrow> hr_status h \<noteq> HumanOpen"
    using runtime_ok_parts(2) [OF ok'] live(2) unfolding humans_ok_def human_wait_matches_def by metis
  have commands: "\<forall>r \<in> set (command_runs d'). cr_task_id r = task \<longrightarrow>
       is_terminal_command r \<or> cr_state r = CancellationRequested"
    using runtime_ok_parts(3) [OF ok'] live(2) unfolding commands_ok_def command_wait_matches_def by metis
  have "tasks d' = ts" using s3 s2(3) by (simp add: d' d1)
  then have "\<exists>u \<in> set (tasks d'). tk_task_id u = task \<and> tk_status u = TaskCancelled \<and> tk_control_revision u = control + 1"
    using tin t(2) st by (intro bexI [of _ ?t]) (simp_all add: cancelled_task_def)
  with ok' live active humans commands show ?thesis by blast
qed

text \<open>
  C31. Cancelling a Task keeps the whole invariant and leaves nothing of the Task live: the Task
  is cancelled at the next control revision, no Attempt of it runs or is pending, none of its
  Dispatches is active, it has no wait, no open Wave, no pending Wave member and no open Human
  Request, and every Command Run that still has a process has cancellation requested.
\<close>

theorem cancel_task_settles_everything:
  assumes ok: "runtime_ok (env_event_hash env) d"
    and ca: "cancel_task env task revision control actor esrc d = Inr (signals, d')"
  shows "runtime_ok (env_event_hash env) d' \<and>
    (\<exists>t \<in> set (tasks d'). tk_task_id t = task \<and> tk_status t = TaskCancelled \<and> tk_control_revision t = control + 1) \<and>
    (\<forall>a \<in> set (attempts d'). at_task_id a = task \<longrightarrow> at_status a \<notin> {AttPending, AttRunning}) \<and>
    (\<forall>t \<in> set (dispatches d'). dt_task_id t = task \<longrightarrow> \<not> dispatch_is_active t) \<and>
    (\<forall>w \<in> set (waits d'). aw_task_id w \<noteq> task) \<and>
    (\<forall>w \<in> set (waves d'). dw_task_id w = task \<longrightarrow> dw_status w \<noteq> WaveOpen) \<and>
    (\<forall>m \<in> set (wave_members d'). dm_task_id m = task \<longrightarrow> dm_status m \<noteq> MemberPending) \<and>
    (\<forall>h \<in> set (human_requests d'). hr_task_id h = task \<longrightarrow> hr_status h \<noteq> HumanOpen) \<and>
    (\<forall>r \<in> set (command_runs d'). cr_task_id r = task \<longrightarrow>
       is_terminal_command r \<or> cr_state r = CancellationRequested)"
  by (rule cancel_task_effect [OF ok ca])

end
