(* ===== verification/WorkPlan.thy ===== *)
theory WorkPlan
  imports CommandRuns CheckpointProofs
begin

text \<open>
  The work plan of an Assignment (\<open>runtime/work_plan/operations.py\<close>,
  \<open>runtime/work_plan/contracts.py\<close>): a list of at most nine steps that a node replaces as a
  whole, under the revision counter of the Assignment. Step texts enter trimmed.
\<close>

subsection \<open>The request\<close>

text \<open>
  \<open>str.casefold\<close> and \<open>str.isalnum\<close> on characters up to U+00FF. The fold of the micro sign lies
  above them; no other such character folds to it, so it is left as it is.
\<close>

definition casefold_character :: "char \<Rightarrow> string" where
  "casefold_character c =
     (let n = (of_char c :: nat) in
      if n \<in> {65..90} \<union> {192..214} \<union> {216..222} then [char_of (n + 32)]
      else if n = 223 then ''ss'' else [c])"

definition casefold :: "string \<Rightarrow> string" where
  "casefold s = concat (map casefold_character s)"

definition is_alnum :: "char \<Rightarrow> bool" where
  "is_alnum c \<longleftrightarrow> is_alpha c \<or>
     (of_char c :: nat) \<in> {48..57} \<union> {178, 179, 185} \<union> {188..190}"

definition text_fingerprint :: "string \<Rightarrow> string" where
  "text_fingerprint s = filter is_alnum (casefold s)"

definition is_vague :: "string \<Rightarrow> bool" where
  "is_vague s \<longleftrightarrow> text_fingerprint s \<in> {'''', ''todo'', ''tbd''}"

type_synonym plan_step = "string \<times> plan_step_status"

record work_plan_request =
  pq_explanation :: "string option"
  pq_steps :: "plan_step list"

definition step_text_ok :: "string \<Rightarrow> bool" where
  "step_text_ok s \<longleftrightarrow> 1 \<le> length s \<and> length s \<le> 512"

definition explanation_ok :: "string \<Rightarrow> bool" where
  "explanation_ok s \<longleftrightarrow> 1 \<le> length s \<and> length s \<le> 1024"

definition validate_work_plan_request :: "work_plan_request \<Rightarrow> work_plan_request result" where
  "validate_work_plan_request rq =
     (if \<not> (case pq_explanation rq of None \<Rightarrow> True | Some s \<Rightarrow> explanation_ok s) then Inl invalid_field
      else if (case pq_explanation rq of None \<Rightarrow> False | Some s \<Rightarrow> is_vague s)
      then Inl (ValueError ''work-plan explanation must contain meaningful text'')
      else if 9 < length (pq_steps rq) \<or> \<not> list_all (\<lambda>(s, _). step_text_ok s) (pq_steps rq)
      then Inl invalid_field
      else if list_ex (\<lambda>(s, _). is_vague s) (pq_steps rq)
      then Inl (ValueError ''work-plan step must contain meaningful text'')
      else if \<not> distinct (map (casefold \<circ> fst) (pq_steps rq))
      then Inl (ValueError ''work-plan steps must be distinct'')
      else if 1 < length (filter (\<lambda>(_, st). st = StepInProgress) (pq_steps rq))
      then Inl (ValueError ''work plan may contain at most one in_progress step'')
      else Inr rq)"

subsection \<open>Reading\<close>

record work_plan_read =
  pr_assignment_id :: ident
  pr_revision :: int
  pr_explanation :: "string option"
  pr_steps :: "plan_step list"
  pr_authored_by_dispatch_id :: ident
  pr_updated_at :: time

fun insert_step_row :: "work_plan_step_row \<Rightarrow> work_plan_step_row list \<Rightarrow> work_plan_step_row list" where
  "insert_step_row s [] = [s]"
| "insert_step_row s (t # ts) =
     (if ws_order_index s \<le> ws_order_index t then s # t # ts else t # insert_step_row s ts)"

definition stored_steps :: "ident \<Rightarrow> db \<Rightarrow> plan_step list" where
  "stored_steps assignment d =
     map (\<lambda>s. (ws_step s, ws_status s))
       (foldr insert_step_row (filter (\<lambda>s. ws_assignment_id s = assignment) (work_plan_steps d)) [])"

text \<open>The bounds of \<open>WorkPlanRead\<close>, checked when it is built.\<close>

definition read_assignment_work_plan :: "ident \<Rightarrow> db \<Rightarrow> work_plan_read option result" where
  "read_assignment_work_plan assignment d =
     (case find (\<lambda>p. wp_assignment_id p = assignment) (work_plans d) of
        None \<Rightarrow> Inr None
      | Some p \<Rightarrow>
          (let steps = stored_steps assignment d in
           if wp_revision p < 1 \<or> steps = [] \<or> 9 < length steps \<or>
              \<not> list_all (\<lambda>(s, _). step_text_ok s) steps \<or>
              \<not> (case wp_explanation p of None \<Rightarrow> True | Some s \<Rightarrow> explanation_ok s)
           then Inl invalid_field
           else Inr (Some \<lparr>pr_assignment_id = assignment, pr_revision = wp_revision p,
             pr_explanation = wp_explanation p, pr_steps = steps,
             pr_authored_by_dispatch_id = wp_authoring_dispatch_id p, pr_updated_at = wp_committed_at p\<rparr>)))"

type_synonym plan_view = "string option \<times> plan_step list"

definition work_plan_view :: "work_plan_read option \<Rightarrow> plan_view option" where
  "work_plan_view = map_option (\<lambda>p. (pr_explanation p, pr_steps p))"

subsection \<open>Replacing\<close>

definition plan_matches_request :: "work_plan_read option \<Rightarrow> work_plan_request \<Rightarrow> bool" where
  "plan_matches_request current rq \<longleftrightarrow>
     (case current of None \<Rightarrow> pq_steps rq = []
      | Some p \<Rightarrow> pr_explanation p = pq_explanation rq \<and> pr_steps p = pq_steps rq)"

definition advance_work_plan_revision :: "node_authority \<Rightarrow> db \<Rightarrow> (int \<times> db) result" where
  "advance_work_plan_revision au d =
     and_then (update_checked ck_assignment
         (\<lambda>s. as_assignment_id s = na_assignment_id au \<and>
           as_work_plan_revision s = na_work_plan_revision au \<and>
           exact_node_operation_authority_exists au d)
         (\<lambda>s. s\<lparr>as_work_plan_revision := na_work_plan_revision au + 1\<rparr>) (assignments d)) (\<lambda>updated.
       case updated of
         None \<Rightarrow> Inl (stale_assignment_error ''the assignment work plan changed concurrently'')
       | Some as \<Rightarrow> Inr (na_work_plan_revision au + 1, d\<lparr>assignments := as\<rparr>))"

definition work_plan_step_id :: "ident \<Rightarrow> int \<Rightarrow> nat \<Rightarrow> ident" where
  "work_plan_step_id assignment revision i =
     ''work-plan-step.'' @ assignment @ ''.'' @ pad_left 4 (CHR ''0'') (decimal (nat revision)) @
     ''.'' @ pad_left 2 (CHR ''0'') (decimal i)"

definition new_step_row :: "ident \<Rightarrow> int \<Rightarrow> nat \<times> plan_step \<Rightarrow> work_plan_step_row" where
  "new_step_row assignment revision = (\<lambda>(i, s, st).
     \<lparr>ws_work_plan_step_id = work_plan_step_id assignment revision i,
      ws_assignment_id = assignment, ws_order_index = i, ws_step = s, ws_status = st\<rparr>)"

text \<open>
  The constraints of the step table: its order, and the partial unique index on the step in
  progress.
\<close>

definition insert_work_plan_step ::
    "work_plan_step_row \<Rightarrow> work_plan_step_row list \<Rightarrow> work_plan_step_row list result" where
  "insert_work_plan_step = insert_checked ck_work_plan_step
     [\<lambda>s. Some (Inl (ws_assignment_id s, ws_order_index s)),
      \<lambda>s. if ws_status s = StepInProgress then Some (Inr (ws_assignment_id s)) else None]
     ws_work_plan_step_id"

definition new_work_plan_row :: "node_authority \<Rightarrow> work_plan_request \<Rightarrow> int \<Rightarrow> time \<Rightarrow> work_plan_row" where
  "new_work_plan_row au rq revision now =
     \<lparr>wp_assignment_id = na_assignment_id au, wp_revision = revision,
      wp_explanation = pq_explanation rq, wp_authoring_dispatch_id = na_dispatch_id au,
      wp_committed_at = now\<rparr>"

text \<open>The existing row is rewritten in all its columns, else a row is inserted.\<close>

definition store_work_plan :: "work_plan_row \<Rightarrow> work_plan_row list \<Rightarrow> work_plan_row list result" where
  "store_work_plan p ps =
     and_then (require_that (IntegrityError ''check'') (ck_work_plan p)) (\<lambda>_.
       if list_ex (\<lambda>q. wp_assignment_id q = wp_assignment_id p) ps
       then Inr (map (\<lambda>q. if wp_assignment_id q = wp_assignment_id p then p else q) ps)
       else Inr (ps @ [p]))"

definition replace_work_plan_rows ::
    "node_authority \<Rightarrow> work_plan_request \<Rightarrow> int \<Rightarrow> time \<Rightarrow> db \<Rightarrow> db result" where
  "replace_work_plan_rows au rq revision now d =
     (let kept = filter (\<lambda>s. ws_assignment_id s \<noteq> na_assignment_id au) (work_plan_steps d)
      in if pq_steps rq = []
         then Inr (d\<lparr>work_plan_steps := kept,
           work_plans := filter (\<lambda>p. wp_assignment_id p \<noteq> na_assignment_id au) (work_plans d)\<rparr>)
         else and_then (store_work_plan (new_work_plan_row au rq revision now) (work_plans d)) (\<lambda>ps.
           and_then (fold_result insert_work_plan_step
             (map (new_step_row (na_assignment_id au) revision) (List.enumerate 0 (pq_steps rq))) kept)
           (\<lambda>ss. Inr (d\<lparr>work_plan_steps := ss, work_plans := ps\<rparr>))))"

fun plan_step_status_value :: "plan_step_status \<Rightarrow> string" where
  "plan_step_status_value StepPending = ''pending''"
| "plan_step_status_value StepInProgress = ''in_progress''"
| "plan_step_status_value StepCompleted = ''completed''"

definition work_plan_event :: "node_authority \<Rightarrow> work_plan_request \<Rightarrow> int \<Rightarrow> time \<Rightarrow> event_draft" where
  "work_plan_event au rq revision now =
     \<lparr>ed_task_id = na_task_id au,
      ed_event_type = (if pq_steps rq \<noteq> [] then WORK_PLAN_SET else WORK_PLAN_CLEARED),
      ed_event_source = SrcNode, ed_occurred_at = now,
      ed_team_revision_id = Some (na_team_revision_id au), ed_dispatch_id = Some (na_dispatch_id au),
      ed_attempt_id = Some (na_attempt_id au), ed_member_id = Some (na_member_id au),
      ed_actor_ref = None,
      ed_payload =
        [(''assignment_id'', JStr (na_assignment_id au)), (''revision'', JInt revision),
         (''explanation'', json_opt (pq_explanation rq)),
         (''authored_by_dispatch_id'', JStr (na_dispatch_id au)), (''updated_at'', JInt now)] @
        (if pq_steps rq = [] then []
         else [(''steps'', JArr (map (\<lambda>(s, st). JObj [(''step'', JStr s),
            (''status'', JStr (plan_step_status_value st))]) (pq_steps rq)))])\<rparr>"

text \<open>The response: whether the plan changed, and the plan as it is stored.\<close>

definition set_assignment_work_plan ::
    "env \<Rightarrow> node_authority \<Rightarrow> work_plan_request \<Rightarrow> db \<Rightarrow> ((bool \<times> plan_view option) \<times> db) result" where
  "set_assignment_work_plan env au rq d =
     and_then (read_assignment_work_plan (na_assignment_id au) d) (\<lambda>current.
       if plan_matches_request current rq then Inr ((False, work_plan_view current), d)
       else and_then (advance_work_plan_revision au d) (\<lambda>(revision, d1).
         and_then (replace_work_plan_rows au rq revision (env_now env) d1) (\<lambda>d2.
         and_then (append_task_event env (work_plan_event au rq revision (env_now env)) d2) (\<lambda>d3.
           if pq_steps rq = [] then Inr ((True, None), d3)
           else and_then (read_assignment_work_plan (na_assignment_id au) d3) (\<lambda>plan.
             Inr ((True, work_plan_view plan), d3))))))"

end
