(* ===== verification/WorkPlanProofs.thy ===== *)
theory WorkPlanProofs
  imports WorkPlan SourceInvariant
begin

text \<open>
  What a work plan set does: the stored plan reads back as the request, under the next revision
  of the Assignment, and no other Assignment's plan changes.
\<close>

lemma insert_step_sorted:
  "sorted (map ws_order_index ss) \<Longrightarrow> foldr insert_step_row ss [] = ss"
proof (induction ss)
  case (Cons s ss)
  then show ?case by (cases ss) simp_all
qed simp

lemma insert_steps_Inr:
  "fold_result insert_work_plan_step xs rs = Inr rs' \<Longrightarrow> rs' = rs @ xs"
proof (induction xs arbitrary: rs)
  case (Cons x xs)
  then obtain s where s: "insert_work_plan_step x rs = Inr s" "fold_result insert_work_plan_step xs s = Inr rs'"
    by (auto simp: result_simps)
  from Cons.IH [OF s(2)] s(1) show ?case by (simp add: insert_work_plan_step_def insert_checked_Inr_iff)
qed simp

definition new_steps :: "ident \<Rightarrow> int \<Rightarrow> plan_step list \<Rightarrow> work_plan_step_row list" where
  "new_steps assignment revision steps = map (new_step_row assignment revision) (List.enumerate 0 steps)"

lemma new_steps_assignment: "s \<in> set (new_steps assignment revision steps) \<Longrightarrow> ws_assignment_id s = assignment"
  by (auto simp: new_steps_def new_step_row_def)

lemma new_steps_order: "map ws_order_index (new_steps assignment revision steps) = [0..<length steps]"
proof -
  have "map ws_order_index (new_steps assignment revision steps) = map fst (List.enumerate 0 steps)"
    unfolding new_steps_def list.map_comp
    by (rule map_cong) (auto simp: new_step_row_def)
  then show ?thesis by simp
qed

lemma new_steps_view:
  "map (\<lambda>s. (ws_step s, ws_status s)) (new_steps assignment revision steps) = steps"
proof -
  have "map (\<lambda>s. (ws_step s, ws_status s)) (new_steps assignment revision steps) =
      map snd (List.enumerate 0 steps)"
    unfolding new_steps_def list.map_comp
    by (rule map_cong) (auto simp: new_step_row_def)
  then show ?thesis by simp
qed

text \<open>The kept rows are those of other Assignments.\<close>

lemma stored_steps_replaced:
  assumes "work_plan_steps d' =
    filter (\<lambda>s. ws_assignment_id s \<noteq> assignment) (work_plan_steps d) @ new_steps assignment revision steps"
  shows "stored_steps assignment d' = steps"
    "b \<noteq> assignment \<Longrightarrow> stored_steps b d' = stored_steps b d"
proof -
  have "filter (\<lambda>s. ws_assignment_id s = assignment) (work_plan_steps d') = new_steps assignment revision steps"
    using new_steps_assignment by (auto simp: assms filter_id_conv filter_empty_conv)
  then show "stored_steps assignment d' = steps"
    unfolding stored_steps_def
    by (simp add: insert_step_sorted new_steps_order new_steps_view)
  assume b: "b \<noteq> assignment"
  then have "filter (\<lambda>s. ws_assignment_id s = b) (new_steps assignment revision steps) = []"
    using new_steps_assignment by (auto simp: filter_empty_conv)
  moreover have "filter (\<lambda>s. ws_assignment_id s = b)
      (filter (\<lambda>s. ws_assignment_id s \<noteq> assignment) (work_plan_steps d)) =
      filter (\<lambda>s. ws_assignment_id s = b) (work_plan_steps d)"
    using b by (auto intro!: filter_cong)
  ultimately show "stored_steps b d' = stored_steps b d"
    by (simp add: stored_steps_def assms)
qed

lemma find_map_replaced:
  "list_ex (\<lambda>q. k q = k p) ps \<Longrightarrow>
     find (\<lambda>q. k q = k p) (map (\<lambda>q. if k q = k p then p else q) ps) = Some p"
  by (induction ps) auto

lemma find_map_other:
  "b \<noteq> k p \<Longrightarrow> find (\<lambda>q. k q = b) (map (\<lambda>q. if k q = k p then p else q) ps) = find (\<lambda>q. k q = b) ps"
  by (induction ps) auto

lemma find_append: "find p (xs @ ys) = (case find p xs of None \<Rightarrow> find p ys | Some x \<Rightarrow> Some x)"
  by (induction xs) auto

lemma store_work_plan_Inr:
  assumes "store_work_plan p ps = Inr ps'"
  shows "find (\<lambda>q. wp_assignment_id q = wp_assignment_id p) ps' = Some p"
    "b \<noteq> wp_assignment_id p \<Longrightarrow>
       find (\<lambda>q. wp_assignment_id q = b) ps' = find (\<lambda>q. wp_assignment_id q = b) ps"
    "1 \<le> wp_revision p"
proof -
  have r: "1 \<le> wp_revision p"
    "ps' = (if list_ex (\<lambda>q. wp_assignment_id q = wp_assignment_id p) ps
       then map (\<lambda>q. if wp_assignment_id q = wp_assignment_id p then p else q) ps else ps @ [p])"
    using assms by (auto simp: store_work_plan_def result_simps ck_work_plan_def split: if_split_asm)
  show "1 \<le> wp_revision p" by (rule r(1))
  show "find (\<lambda>q. wp_assignment_id q = wp_assignment_id p) ps' = Some p"
  proof (cases "list_ex (\<lambda>q. wp_assignment_id q = wp_assignment_id p) ps")
    case False
    then have "find (\<lambda>q. wp_assignment_id q = wp_assignment_id p) ps = None"
      by (auto simp: find_None_iff list_ex_iff)
    then show ?thesis using False r(2) by (simp add: find_append)
  qed (simp add: r(2) find_map_replaced)
  show "find (\<lambda>q. wp_assignment_id q = b) ps' = find (\<lambda>q. wp_assignment_id q = b) ps"
    if "b \<noteq> wp_assignment_id p"
    using that by (simp add: r(2) find_map_other find_append split: option.splits)
qed

lemma find_filtered_out: "find (\<lambda>q. k q = a) (filter (\<lambda>q. k q \<noteq> a) ps) = None"
  by (induction ps) auto

lemma find_filtered_other: "b \<noteq> a \<Longrightarrow> find (\<lambda>q. k q = b) (filter (\<lambda>q. k q \<noteq> a) ps) = find (\<lambda>q. k q = b) ps"
  by (induction ps) auto

subsection \<open>Reading a replaced plan\<close>

definition plan_after :: "node_authority \<Rightarrow> work_plan_request \<Rightarrow> int \<Rightarrow> time \<Rightarrow> work_plan_read option" where
  "plan_after au rq revision now =
     (if pq_steps rq = [] then None
      else Some \<lparr>pr_assignment_id = na_assignment_id au, pr_revision = revision,
        pr_explanation = pq_explanation rq, pr_steps = pq_steps rq,
        pr_authored_by_dispatch_id = na_dispatch_id au, pr_updated_at = now\<rparr>)"

lemma validate_work_plan_request_Inr:
  assumes "validate_work_plan_request rq = Inr rq'"
  shows "rq' = rq" "length (pq_steps rq) \<le> 9" "list_all (\<lambda>(s, _). step_text_ok s) (pq_steps rq)"
    "case pq_explanation rq of None \<Rightarrow> True | Some s \<Rightarrow> explanation_ok s"
  using assms by (auto simp: validate_work_plan_request_def split: if_split_asm option.split_asm)

lemma read_plan_frame:
  assumes "work_plans d' = work_plans d" "work_plan_steps d' = work_plan_steps d"
  shows "read_assignment_work_plan a d' = read_assignment_work_plan a d"
proof -
  have "stored_steps a d' = stored_steps a d" using assms by (simp add: stored_steps_def)
  then show ?thesis using assms by (simp add: read_assignment_work_plan_def Let_def split: option.split)
qed

lemma replace_rows_reads:
  assumes v: "validate_work_plan_request rq = Inr rq"
    and r: "replace_work_plan_rows au rq revision now d = Inr d'"
  shows "read_assignment_work_plan (na_assignment_id au) d' = Inr (plan_after au rq revision now)"
    "b \<noteq> na_assignment_id au \<Longrightarrow> read_assignment_work_plan b d' = read_assignment_work_plan b d"
    "\<exists>ps ss. d' = d\<lparr>work_plan_steps := ss, work_plans := ps\<rparr>"
proof -
  note vs = validate_work_plan_request_Inr [OF v]
  let ?kept = "filter (\<lambda>s. ws_assignment_id s \<noteq> na_assignment_id au) (work_plan_steps d)"
  consider (clear) "pq_steps rq = []"
      "d' = d\<lparr>work_plan_steps := ?kept,
         work_plans := filter (\<lambda>p. wp_assignment_id p \<noteq> na_assignment_id au) (work_plans d)\<rparr>"
    | (store) ps where "pq_steps rq \<noteq> []"
      "store_work_plan (new_work_plan_row au rq revision now) (work_plans d) = Inr ps"
      "d' = d\<lparr>work_plan_steps := ?kept @ new_steps (na_assignment_id au) revision (pq_steps rq), work_plans := ps\<rparr>"
    using r by (auto simp: replace_work_plan_rows_def result_simps new_steps_def Let_def
        split: if_split_asm dest!: insert_steps_Inr)
  then have "read_assignment_work_plan (na_assignment_id au) d' = Inr (plan_after au rq revision now) \<and>
    (b \<noteq> na_assignment_id au \<longrightarrow> read_assignment_work_plan b d' = read_assignment_work_plan b d) \<and>
    (\<exists>ps ss. d' = d\<lparr>work_plan_steps := ss, work_plans := ps\<rparr>)"
  proof cases
    case clear
    have "stored_steps b d' = stored_steps b d" if "b \<noteq> na_assignment_id au"
      by (rule stored_steps_replaced(2) [where steps = "[]", OF _ that]) (simp add: clear new_steps_def)
    then show ?thesis
      by (auto simp: clear read_assignment_work_plan_def find_filtered_out find_filtered_other
          plan_after_def cong: option.case_cong)
  next
    case store
    note p = store_work_plan_Inr [OF store(2)]
    have st: "work_plan_steps d' = ?kept @ new_steps (na_assignment_id au) revision (pq_steps rq)"
      by (simp add: store(3))
    have f: "find (\<lambda>q. wp_assignment_id q = na_assignment_id au) (work_plans d') =
        Some (new_work_plan_row au rq revision now)"
      using p(1) by (simp add: store(3) new_work_plan_row_def)
    have rev: "\<not> revision < 1" using p(3) by (simp add: new_work_plan_row_def)
    have "read_assignment_work_plan (na_assignment_id au) d' = Inr (plan_after au rq revision now)"
      using vs(2-4) store(1) rev
      by (simp add: read_assignment_work_plan_def f stored_steps_replaced(1) [OF st] Let_def
          new_work_plan_row_def plan_after_def)
    moreover have "read_assignment_work_plan b d' = read_assignment_work_plan b d" if "b \<noteq> na_assignment_id au"
      using that p(2) [of b] stored_steps_replaced(2) [OF st that]
      by (simp add: read_assignment_work_plan_def store(3) new_work_plan_row_def Let_def split: option.split)
    ultimately show ?thesis using store(3) by blast
  qed
  then show "read_assignment_work_plan (na_assignment_id au) d' = Inr (plan_after au rq revision now)"
    "b \<noteq> na_assignment_id au \<Longrightarrow> read_assignment_work_plan b d' = read_assignment_work_plan b d"
    "\<exists>ps ss. d' = d\<lparr>work_plan_steps := ss, work_plans := ps\<rparr>" by blast+
qed


lemma advance_work_plan_revision_Inr:
  assumes ok: "runtime_ok H d" and ad: "advance_work_plan_revision au d = Inr (revision, d')"
  shows "runtime_ok H d' \<and> revision = na_work_plan_revision au + 1 \<and> (\<exists>as. d' = d\<lparr>assignments := as\<rparr>) \<and>
    (\<exists>s \<in> set (assignments d'). as_assignment_id s = na_assignment_id au \<and> as_work_plan_revision s = revision)"
proof -
  let ?p = "\<lambda>s. as_assignment_id s = na_assignment_id au \<and> as_work_plan_revision s = na_work_plan_revision au \<and>
      exact_node_operation_authority_exists au d"
  let ?f = "\<lambda>s. s\<lparr>as_work_plan_revision := na_work_plan_revision au + 1\<rparr>"
  note c = runtime_ok_parts(1) [OF ok]
  obtain as where as: "update_where ?p ?f (assignments d) = Some as" "\<forall>s \<in> set (assignments d). ?p s \<longrightarrow> ck_assignment (?f s)"
    and d': "d' = d\<lparr>assignments := as\<rparr>" "revision = na_work_plan_revision au + 1"
    using ad unfolding advance_work_plan_revision_def
    by (auto elim!: and_then_InrE split: option.split_asm simp: update_checked_Inr_iff)
  obtain s where s: "s \<in> set (assignments d)" "?p s" "as = replace_row s (?f s) (assignments d)"
    using as(1) unfolding update_unique_iff [OF assignments_keyed [OF c], of ?p "na_assignment_id au", simplified]
    by blast
  have "assignments_ok (d\<lparr>assignments := as\<rparr>)" unfolding s(3)
    by (rule assignments_ok_replace [OF controller_ok_parts(3) [OF c] s(1)]) (use as(2) s in simp_all)
  then have "controller_ok H d'" using controller_ok_assignments [OF c] d' by simp
  moreover have "humans_ok d'" "commands_ok d'"
    using runtime_ok_parts(2,3) [OF ok] by (simp_all add: d' humans_ok_def commands_ok_def task_is_cancelled_def)
  moreover have "?f s \<in> set (assignments d')" using s by (simp add: d' set_replace_row)
  ultimately show ?thesis using d' s(2) by (auto simp: runtime_ok_def intro!: bexI [of _ "?f s"])
qed

lemma plan_after_matches: "plan_matches_request (plan_after au rq revision now) rq"
  by (simp add: plan_matches_request_def plan_after_def)

lemma set_work_plan_effect:
  assumes ok: "runtime_ok (env_event_hash env) d" and v: "validate_work_plan_request rq = Inr rq"
    and st: "set_assignment_work_plan env au rq d = Inr ((True, view), d')"
  shows "runtime_ok (env_event_hash env) d' \<and>
    read_assignment_work_plan (na_assignment_id au) d' =
      Inr (if pq_steps rq = [] then None
           else Some \<lparr>pr_assignment_id = na_assignment_id au, pr_revision = na_work_plan_revision au + 1,
             pr_explanation = pq_explanation rq, pr_steps = pq_steps rq,
             pr_authored_by_dispatch_id = na_dispatch_id au, pr_updated_at = env_now env\<rparr>) \<and>
    view = (if pq_steps rq = [] then None else Some (pq_explanation rq, pq_steps rq)) \<and>
    (\<exists>s \<in> set (assignments d'). as_assignment_id s = na_assignment_id au \<and>
       as_work_plan_revision s = na_work_plan_revision au + 1) \<and>
    (\<forall>b. b \<noteq> na_assignment_id au \<longrightarrow> read_assignment_work_plan b d' = read_assignment_work_plan b d) \<and>
    (\<forall>env' au'. na_assignment_id au' = na_assignment_id au \<longrightarrow>
       set_assignment_work_plan env' au' rq d' = Inr ((False, view), d'))"
proof -
  let ?now = "env_now env" and ?a = "na_assignment_id au"
  obtain current revision d1 d2 d3 where cur: "read_assignment_work_plan ?a d = Inr current"
    "\<not> plan_matches_request current rq"
    and ad: "advance_work_plan_revision au d = Inr (revision, d1)"
    and re: "replace_work_plan_rows au rq revision ?now d1 = Inr d2"
    and ap: "append_task_event env (work_plan_event au rq revision ?now) d2 = Inr d3"
    and rest: "(if pq_steps rq = [] then Inr ((True, None), d3)
           else and_then (read_assignment_work_plan ?a d3) (\<lambda>plan. Inr ((True, work_plan_view plan), d3))) =
         Inr ((True, view), d')"
    using st unfolding set_assignment_work_plan_def by (auto elim!: and_then_InrE split: if_split_asm)
  note s1 = advance_work_plan_revision_Inr [OF ok ad]
  have ok1: "runtime_ok (env_event_hash env) d1" and rev: "revision = na_work_plan_revision au + 1"
    using s1 by blast+
  obtain as where d1: "d1 = d\<lparr>assignments := as\<rparr>" using s1 by blast
  note s2 = replace_rows_reads [OF v re]
  obtain ps ss where d2: "d2 = d1\<lparr>work_plan_steps := ss, work_plans := ps\<rparr>" using s2(3) by blast
  have ok2: "runtime_ok (env_event_hash env) d2" using ok1 by (simp add: d2)
  have ok3: "runtime_ok (env_event_hash env) d3" by (rule append_runtime_ok [OF ok2 ap])
  obtain es eh where d3: "d3 = d2\<lparr>events := es, event_heads := eh\<rparr>" using append_task_event_frame [OF ap] by auto
  have reads: "read_assignment_work_plan b d3 = read_assignment_work_plan b d2" for b
    by (rule read_plan_frame) (simp_all add: d3)
  have reads0: "read_assignment_work_plan b d1 = read_assignment_work_plan b d" for b
    by (rule read_plan_frame) (simp_all add: d1)
  have stored: "read_assignment_work_plan ?a d3 = Inr (plan_after au rq revision ?now)"
    by (simp add: reads s2(1))
  then have d': "d' = d3" and view: "view = work_plan_view (plan_after au rq revision ?now)"
    using rest by (auto simp: work_plan_view_def plan_after_def split: if_split_asm)
  have again: "set_assignment_work_plan env' au' rq d' = Inr ((False, view), d')"
    if "na_assignment_id au' = ?a" for env' au'
    by (simp add: set_assignment_work_plan_def that d' stored plan_after_matches view)
  have others: "read_assignment_work_plan b d' = read_assignment_work_plan b d" if "b \<noteq> ?a" for b
    using s2(2) [OF that] by (simp add: d' reads reads0)
  have "assignments d' = assignments d1" by (simp add: d' d3 d2)
  then have "\<exists>s \<in> set (assignments d'). as_assignment_id s = ?a \<and> as_work_plan_revision s = na_work_plan_revision au + 1"
    using s1 rev by simp
  with ok3 stored view again others d' rev show ?thesis
    by (auto simp: plan_after_def work_plan_view_def)
qed

text \<open>
  C33. A work plan set that changes the plan keeps the invariant, stores the request under the
  next revision of the Assignment and reads back as exactly the steps and explanation asked
  for; it leaves the plan of every other Assignment as it is, and the same request again
  changes nothing.
\<close>

theorem work_plan_reads_back:
  assumes ok: "runtime_ok (env_event_hash env) d" and v: "validate_work_plan_request rq = Inr rq"
    and st: "set_assignment_work_plan env au rq d = Inr ((True, view), d')"
  shows "runtime_ok (env_event_hash env) d' \<and>
    read_assignment_work_plan (na_assignment_id au) d' =
      Inr (if pq_steps rq = [] then None
           else Some \<lparr>pr_assignment_id = na_assignment_id au, pr_revision = na_work_plan_revision au + 1,
             pr_explanation = pq_explanation rq, pr_steps = pq_steps rq,
             pr_authored_by_dispatch_id = na_dispatch_id au, pr_updated_at = env_now env\<rparr>) \<and>
    view = (if pq_steps rq = [] then None else Some (pq_explanation rq, pq_steps rq)) \<and>
    (\<exists>s \<in> set (assignments d'). as_assignment_id s = na_assignment_id au \<and>
       as_work_plan_revision s = na_work_plan_revision au + 1) \<and>
    (\<forall>b. b \<noteq> na_assignment_id au \<longrightarrow> read_assignment_work_plan b d' = read_assignment_work_plan b d) \<and>
    (\<forall>env' au'. na_assignment_id au' = na_assignment_id au \<longrightarrow>
       set_assignment_work_plan env' au' rq d' = Inr ((False, view), d'))"
  by (rule set_work_plan_effect [OF ok v st])

end
