(* ===== verification/ControlWitnesses.thy ===== *)
theory ControlWitnesses
  imports TaskControlProofs WorkPlanProofs HumanWitnesses
begin


theorem cancel_task_settles_everything_witness:
  "\<exists>signals d'. cancel_task sample_env ''t1'' ''rev1'' 0 None SrcOperator sample_human_db = Inr (signals, d') \<and>
    (\<exists>t \<in> set (tasks d'). tk_task_id t = ''t1'' \<and> tk_status t = TaskCancelled)"
proof -
  have "\<exists>x. cancel_task sample_env ''t1'' ''rev1'' 0 None SrcOperator sample_human_db = Inr x"
    by (rule isr_ex) code_simp
  then obtain signals d' where p: "cancel_task sample_env ''t1'' ''rev1'' 0 None SrcOperator sample_human_db =
      Inr (signals, d')" by auto
  from cancel_task_settles_everything [OF sample_human_ok p] p show ?thesis by blast
qed

definition sample_plan :: work_plan_request where
  "sample_plan = \<lparr>pq_explanation = Some ''why'',
     pq_steps = [(''read'', StepCompleted), (''write'', StepInProgress)]\<rparr>"

theorem work_plan_reads_back_witness:
  "\<exists>d'. set_assignment_work_plan sample_env sample_authority sample_plan sample_db =
      Inr ((True, Some (Some ''why'', pq_steps sample_plan)), d')"
proof -
  have v: "validate_work_plan_request sample_plan = Inr sample_plan"
    by (simp add: validate_work_plan_request_def sample_plan_def is_vague_def text_fingerprint_def
        casefold_def casefold_character_def is_alnum_def is_alpha_def is_ascii_letter_def step_text_ok_def explanation_ok_def)
  let ?r = "set_assignment_work_plan sample_env sample_authority sample_plan sample_db"
  have "(case ?r of Inr ((c, _), _) \<Rightarrow> c | Inl _ \<Rightarrow> False)" by code_simp
  then obtain view d' where s: "?r = Inr ((True, view), d')" by (auto split: sum.split_asm prod.split_asm)
  from work_plan_reads_back [OF sample_runtime_ok v s] s show ?thesis by (simp add: sample_plan_def)
qed

end
