(* ===== verification/Continuation.thy ===== *)
theory Continuation
  imports TaskControl
begin

text \<open>
  Opening the successor Dispatch of a settled external wait
  (\<open>runtime/dispatch/ordinary_continuation.py\<close>, \<open>ordinary_context.py\<close>,
  \<open>runtime/human_request/continuation.py\<close>, \<open>runtime/command_run/continuation.py\<close>,
  \<open>runtime/delegation/continuation.py\<close>). An opening reads its source and context in one
  transaction, rolls it back, prepares the request, and claims the source in a second one, so the
  two halves below are functions of two states. Preparing a request (provider route,
  capabilities, rendered prompt) is the parameter \<open>render\<close>.
\<close>

subsection \<open>Triggers\<close>

record human_result =
  ht_request_id :: ident
  ht_source_dispatch_id :: ident
  ht_request :: human_open_request
  ht_resolution :: human_resolution_record

record command_terminal_truth =
  pc_state :: command_state
  pc_exit_code :: "int option"
  pc_summary :: string
  pc_started_at :: "time option"
  pc_ended_at :: time
  pc_output_path :: string
  pc_output_observed_bytes :: int
  pc_output_written_bytes :: int
  pc_output_complete :: bool
  pc_failure_code :: "string option"
  pc_terminal_event_source :: terminal_source
  pc_terminal_actor_ref :: "string option"

record command_result =
  ct_command_id :: ident
  ct_source_dispatch_id :: ident
  ct_request :: command_start_request
  ct_terminal :: command_terminal_truth

record wave_member_result =
  wr_child_id :: ident
  wr_assignment_id :: ident
  wr_assignment_prompt :: string
  wr_assignment_files :: "file_reference list"
  wr_outcome :: outcome
  wr_checkpoint_id :: ident
  wr_checkpoint_summary :: string
  wr_checkpoint_details :: "string option"
  wr_checkpoint_files :: "file_reference list"

text \<open>\<open>OrdinaryPromptTrigger\<close>: what the successor is told about its source.\<close>

datatype prompt_trigger =
    DelegationWaveSettledTrigger ident ident "wave_member_result list"
  | HumanResultTrigger human_result
  | CommandResultTrigger command_result
  | WatchdogRecoveryTrigger ident int
  | OperatorContinueTrigger ident int string
  | StructuralReplanTrigger ident string json

record continuation_basis =
  cb_task_id :: ident
  cb_assignment_id :: ident
  cb_attempt_id :: ident
  cb_source_dispatch_id :: ident
  cb_source_dispatch_closed_reason :: closed_reason
  cb_opened_reason :: opened_reason
  cb_trigger :: prompt_trigger
  cb_continuation_source_id :: "ident option"

subsection \<open>The context of the Attempt\<close>

text \<open>
  The rows of the join. It also requires the member configuration the Team selection refers to,
  which a foreign key of the schema guarantees; its texts belong to the rendered prompt.
\<close>

record ordinary_context =
  oc_task :: task_row
  oc_source_dispatch :: dispatch_row
  oc_selection :: team_member_row
  oc_assignment :: assignment_row
  oc_attempt :: attempt_row
  oc_workspace_root :: string

definition read_ordinary_runtime_context ::
    "continuation_basis \<Rightarrow> task_status \<Rightarrow> int option \<Rightarrow> db \<Rightarrow> ordinary_context option" where
  "read_ordinary_runtime_context b status control d =
     Option.bind (find (\<lambda>s. as_assignment_id s = cb_assignment_id b \<and> as_task_id s = cb_task_id b)
       (assignments d)) (\<lambda>s.
     Option.bind (find (\<lambda>t. tk_task_id t = as_task_id s \<and> tk_status t = status \<and>
         (case control of None \<Rightarrow> True | Some c \<Rightarrow> tk_control_revision t = c)) (tasks d)) (\<lambda>t.
     Option.bind (tk_workspace_root t) (\<lambda>workspace.
     Option.bind (find (\<lambda>u. dt_dispatch_id u = cb_source_dispatch_id b \<and> dt_task_id u = tk_task_id t)
       (dispatches d)) (\<lambda>u.
     Option.bind (find (\<lambda>m. tm_task_id m = tk_task_id t \<and>
         Some (tm_team_revision_id m) = tk_current_team_revision_id t \<and>
         tm_member_id m = as_member_id s) (team_members d)) (\<lambda>m.
     Option.bind (find (\<lambda>a. at_task_id a = as_task_id s \<and> at_assignment_id a = as_assignment_id s \<and>
         at_attempt_id a = cb_attempt_id b \<and> at_status a = AttRunning \<and>
         at_current_dispatch_id a = None \<and> at_current_wait_id a = None) (attempts d)) (\<lambda>a.
       Some \<lparr>oc_task = t, oc_source_dispatch = u, oc_selection = m, oc_assignment = s,
         oc_attempt = a, oc_workspace_root = workspace\<rparr>))))))"

definition validate_ordinary_runtime_context :: "continuation_basis \<Rightarrow> ordinary_context \<Rightarrow> unit result" where
  "validate_ordinary_runtime_context b c =
     (let u = oc_source_dispatch c; s = oc_assignment c; a = oc_attempt c; m = oc_selection c in
      require_that (ValueError ''ordinary continuation has inconsistent exact runtime context'')
        (dt_task_id u = cb_task_id b \<and> dt_assignment_id u = cb_assignment_id b \<and>
         dt_attempt_id u = cb_attempt_id b \<and> dt_status u = Closed \<and>
         dt_closed_reason u = Some (cb_source_dispatch_closed_reason b) \<and>
         as_current_attempt_id s = Some (at_attempt_id a) \<and> as_terminal_outcome s = None \<and>
         at_status a = AttRunning \<and> at_current_dispatch_id a = None \<and> at_current_wait_id a = None \<and>
         as_member_id s = tm_member_id m \<and>
         tk_current_team_revision_id (oc_task c) = Some (tm_team_revision_id m)))"

text \<open>
  \<open>OrdinaryDispatchSnapshot\<close> without what only the prompt needs; its Task, Assignment, Attempt and
  predecessor are those of the basis.
\<close>

record ordinary_snapshot =
  sn_basis :: continuation_basis
  sn_expected_task_status :: task_status
  sn_expected_pause_reason :: "string option"
  sn_task_control_revision :: int
  sn_task_root_path :: string
  sn_workspace_root_path :: string
  sn_work_plan_revision :: int
  sn_team_revision_id :: ident
  sn_member_id :: ident
  sn_member_configuration_id :: ident
  sn_member_branch_basis_id :: ident

definition read_ordinary_dispatch_snapshot ::
    "continuation_basis \<Rightarrow> task_status \<Rightarrow> int option \<Rightarrow> db \<Rightarrow> ordinary_snapshot option result" where
  "read_ordinary_dispatch_snapshot b status control d =
     (case read_ordinary_runtime_context b status control d of
        None \<Rightarrow> Inr None
      | Some c \<Rightarrow>
          and_then (validate_ordinary_runtime_context b c) (\<lambda>_.
            Inr (Some \<lparr>sn_basis = b, sn_expected_task_status = status,
              sn_expected_pause_reason = tk_pause_reason (oc_task c),
              sn_task_control_revision = tk_control_revision (oc_task c),
              sn_task_root_path = tk_task_root_path (oc_task c),
              sn_workspace_root_path = oc_workspace_root c,
              sn_work_plan_revision = as_work_plan_revision (oc_assignment c),
              sn_team_revision_id = tm_team_revision_id (oc_selection c),
              sn_member_id = tm_member_id (oc_selection c),
              sn_member_configuration_id = tm_member_configuration_id (oc_selection c),
              sn_member_branch_basis_id = tm_member_branch_basis_id (oc_selection c)\<rparr>)))"

text \<open>The correlated conditions the claim checks again in its own transaction.\<close>

definition ordinary_context_is_current :: "ordinary_snapshot \<Rightarrow> db \<Rightarrow> bool" where
  "ordinary_context_is_current n d \<longleftrightarrow>
     (let b = sn_basis n in
      list_ex (\<lambda>u. dt_dispatch_id u = cb_source_dispatch_id b \<and> dt_task_id u = cb_task_id b \<and>
        dt_assignment_id u = cb_assignment_id b \<and> dt_attempt_id u = cb_attempt_id b \<and>
        dt_status u = Closed \<and> dt_closed_reason u = Some (cb_source_dispatch_closed_reason b))
        (dispatches d) \<and>
      list_ex (\<lambda>m. tm_task_id m = cb_task_id b \<and> tm_team_revision_id m = sn_team_revision_id n \<and>
        tm_member_id m = sn_member_id n \<and>
        tm_member_configuration_id m = sn_member_configuration_id n \<and>
        tm_member_branch_basis_id m = sn_member_branch_basis_id n) (team_members d) \<and>
      list_ex (\<lambda>s. as_assignment_id s = cb_assignment_id b \<and> as_task_id s = cb_task_id b \<and>
        as_member_id s = sn_member_id n \<and> as_current_attempt_id s = Some (cb_attempt_id b) \<and>
        as_work_plan_revision s = sn_work_plan_revision n \<and> as_terminal_outcome s = None)
        (assignments d) \<and>
      list_ex (\<lambda>a. at_attempt_id a = cb_attempt_id b \<and> at_assignment_id a = cb_assignment_id b \<and>
        at_task_id a = cb_task_id b \<and> at_status a = AttRunning \<and>
        at_current_dispatch_id a = None \<and> at_current_wait_id a = None) (attempts d) \<and>
      list_ex (\<lambda>t. tk_task_id t = cb_task_id b \<and> tk_task_root_path t = sn_task_root_path n \<and>
        tk_current_team_revision_id t = Some (sn_team_revision_id n) \<and>
        tk_workspace_root t = Some (sn_workspace_root_path n)) (tasks d))"

definition successor_basis :: "ordinary_snapshot \<Rightarrow> resume_event_basis option \<Rightarrow> starting_basis" where
  "successor_basis n resume =
     (let b = sn_basis n in
      \<lparr>sb_task_id = cb_task_id b, sb_assignment_id = cb_assignment_id b,
       sb_team_revision_id = sn_team_revision_id n, sb_member_id = sn_member_id n,
       sb_member_configuration_id = sn_member_configuration_id n,
       sb_member_branch_basis_id = sn_member_branch_basis_id n, sb_attempt_id = cb_attempt_id b,
       sb_opened_reason = cb_opened_reason b,
       sb_predecessor_dispatch_id = Some (cb_source_dispatch_id b),
       sb_task_start_source_task_id = None, sb_resume_event = resume\<rparr>)"


subsection \<open>Opening one successor\<close>

fun failure_code_value :: "failure_code \<Rightarrow> string" where
  "failure_code_value INVALID_REQUEST_SHAPE = ''invalid_request_shape''"
| "failure_code_value LOCAL_ADMISSION_DENIED = ''local_admission_denied''"
| "failure_code_value AUTHENTICATION_FAILED = ''authentication_failed''"
| "failure_code_value SCOPE_MISMATCH = ''scope_mismatch''"
| "failure_code_value ILLEGAL_CALLER = ''illegal_caller''"
| "failure_code_value ILLEGAL_TARGET_RELATION = ''illegal_target_relation''"
| "failure_code_value ILLEGAL_STATE = ''illegal_state''"
| "failure_code_value STALE_DISPATCH = ''stale_dispatch''"
| "failure_code_value STALE_TEAM_REVISION = ''stale_team_revision''"
| "failure_code_value STALE_ASSIGNMENT = ''stale_assignment''"
| "failure_code_value NAME_COLLISION = ''name_collision''"
| "failure_code_value MISSING_RESOURCE = ''missing_resource''"
| "failure_code_value CONFLICTING_CONTINUATION = ''conflicting_continuation''"
| "failure_code_value CURSOR_RESET_REQUIRED = ''cursor_reset_required''"
| "failure_code_value BOUNDARY_PRECONDITION_FAILED = ''boundary_precondition_failed''"
| "failure_code_value CAPABILITY_REJECTED = ''capability_rejected''"
| "failure_code_value CONFLICT = ''conflict''"
| "failure_code_value INVALID_TASK_PATH = ''invalid_task_path''"
| "failure_code_value INVALID_TASK_ROOT = ''invalid_task_root''"
| "failure_code_value BUDGET_EXHAUSTED = ''budget_exhausted''"
| "failure_code_value INTERNAL_ERROR = ''internal_error''"

text \<open>
  The exceptions an opening turns into a pause, with the code they carry:
  \<open>RuntimeOperationError\<close> and \<open>ProviderResolutionError\<close> are \<open>ValueError\<close>s with a \<open>code\<close>.
\<close>

fun preparation_failure_code :: "string \<Rightarrow> failure \<Rightarrow> string option" where
  "preparation_failure_code default_code (RuntimeOperationError c _ _) = Some (failure_code_value c)"
| "preparation_failure_code default_code (ProviderResolutionError c) = Some c"
| "preparation_failure_code default_code (ValueError _) = Some default_code"
| "preparation_failure_code default_code (OSError _) = Some default_code"
| "preparation_failure_code default_code _ = None"

type_synonym successor_render = "ordinary_snapshot \<Rightarrow> db \<Rightarrow> prepared_request result"
type_synonym source_reader = "ident \<Rightarrow> db \<Rightarrow> continuation_basis option result"
type_synonym source_claim = "ordinary_snapshot \<Rightarrow> prepared_request \<Rightarrow> db \<Rightarrow> db option result"
type_synonym failure_recorder = "ident \<Rightarrow> string \<Rightarrow> db \<Rightarrow> (ident list \<times> db) result"

definition resume_task_row :: "task_row \<Rightarrow> task_row" where
  "resume_task_row t =
     t\<lparr>tk_status := TaskRunning, tk_pause_reason := None, tk_pause_details := None,
       tk_paused_at := None, tk_paused_by_actor_ref := None,
       tk_control_revision := tk_control_revision t + 1\<rparr>"

definition claimable_task :: "ordinary_snapshot \<Rightarrow> db \<Rightarrow> task_row \<Rightarrow> bool" where
  "claimable_task n d t \<longleftrightarrow>
     tk_task_id t = cb_task_id (sn_basis n) \<and> tk_root_assignment_id t \<noteq> None \<and>
     tk_status t = sn_expected_task_status n \<and>
     tk_current_team_revision_id t = Some (sn_team_revision_id n) \<and>
     tk_control_revision t = sn_task_control_revision n \<and> ordinary_context_is_current n d \<and>
     (sn_expected_task_status n = TaskPaused \<longrightarrow> tk_pause_reason t = sn_expected_pause_reason n)"

text \<open>\<open>False\<close> is a rolled-back transaction: the state stays.\<close>

definition commit_ordinary_dispatch_if_current ::
    "env \<Rightarrow> source_claim \<Rightarrow> bool \<Rightarrow> resume_event_basis option \<Rightarrow> ordinary_snapshot \<Rightarrow>
       prepared_request \<Rightarrow> db \<Rightarrow> (bool \<times> db) result" where
  "commit_ordinary_dispatch_if_current env claim should_resume resume n p d =
     and_then (update_checked ck_task (claimable_task n d)
         (if should_resume then resume_task_row else (\<lambda>t. t)) (tasks d)) (\<lambda>claimed. case claimed of
         None \<Rightarrow> Inr (False, d)
       | Some ts \<Rightarrow>
           and_then (claim n p (d\<lparr>tasks := ts\<rparr>)) (\<lambda>source. case source of
               None \<Rightarrow> Inr (False, d)
             | Some d1 \<Rightarrow>
                 and_then (stage_starting_dispatch env (successor_basis n resume) p d1)
                   (\<lambda>d2. Inr (True, d2))))"

text \<open>The first transaction, and the preparation that follows its rollback.\<close>

definition plan_ordinary_successor ::
    "successor_render \<Rightarrow> source_reader \<Rightarrow> task_status \<Rightarrow> int option \<Rightarrow> ident \<Rightarrow> ident \<Rightarrow> db \<Rightarrow>
       (ordinary_snapshot \<times> prepared_request) option result" where
  "plan_ordinary_successor render read status control source dispatch d =
     and_then (read source d) (\<lambda>basis. case basis of
         None \<Rightarrow> Inr None
       | Some b \<Rightarrow>
           and_then (read_ordinary_dispatch_snapshot b status control d) (\<lambda>snapshot. case snapshot of
               None \<Rightarrow> Inr None
             | Some n \<Rightarrow>
                 and_then (render n d) (\<lambda>p. Inr (Some (n, p\<lparr>pr_dispatch_id := dispatch\<rparr>)))))"

datatype opening_outcome = Opened ident | Skipped | OpeningPaused "ident list"

text \<open>The read sees \<open>d\<close>; the claim, or the record of a failure, starts from \<open>d'\<close>.\<close>

definition open_ordinary_successor ::
    "env \<Rightarrow> successor_render \<Rightarrow> source_reader \<Rightarrow> source_claim \<Rightarrow> failure_recorder \<Rightarrow> string \<Rightarrow> ident \<Rightarrow> ident \<Rightarrow>
       db \<Rightarrow> db \<Rightarrow> (opening_outcome \<times> db) result" where
  "open_ordinary_successor env render read claim record_failure default_code source dispatch d d' =
     (case plan_ordinary_successor render read TaskRunning None source dispatch d of
        Inl f \<Rightarrow> (case preparation_failure_code default_code f of
            None \<Rightarrow> Inl f
          | Some code \<Rightarrow> and_then (record_failure source code d')
              (\<lambda>(closed, d1). Inr (OpeningPaused closed, d1)))
      | Inr None \<Rightarrow> Inr (Skipped, d')
      | Inr (Some (n, p)) \<Rightarrow>
          and_then (commit_ordinary_dispatch_if_current env claim False None n p d') (\<lambda>(committed, d1).
            Inr (if committed then Opened (pr_dispatch_id p) else Skipped, d1)))"

text \<open>The hints: the start of the opened Dispatch, the cleanups of the closed ones.\<close>

fun opening_signals :: "time \<Rightarrow> opening_outcome \<Rightarrow> runtime_signal list" where
  "opening_signals due (Opened dispatch) = [DispatchStartDue dispatch 0 due]"
| "opening_signals due Skipped = []"
| "opening_signals due (OpeningPaused closed) = map DispatchCleanupRequested closed"

text \<open>The source's Attempt is still idle.\<close>

definition idle_lane :: "ident \<Rightarrow> ident \<Rightarrow> ident \<Rightarrow> db \<Rightarrow> bool" where
  "idle_lane task assignment attempt d \<longleftrightarrow>
     list_ex (\<lambda>a. at_task_id a = task \<and> at_assignment_id a = assignment \<and> at_attempt_id a = attempt \<and>
       at_status a = AttRunning \<and> at_current_dispatch_id a = None \<and> at_current_wait_id a = None)
       (attempts d)"


subsection \<open>Human Requests\<close>

definition is_terminal_human :: "human_request_row \<Rightarrow> bool" where
  "is_terminal_human h \<longleftrightarrow> hr_status h \<in> {HumanResolved, HumanTimedOut, HumanCancelled}"

definition build_human_result_trigger ::
    "library \<Rightarrow> human_request_row \<Rightarrow> file_reference list \<Rightarrow> human_result result" where
  "build_human_result_trigger lib h files =
     and_then (human_request_resolution_from_model lib h) (\<lambda>resolution. case resolution of
         None \<Rightarrow> Inl (ValueError ''terminal human request is missing resolution truth'')
       | Some r \<Rightarrow>
           and_then (pending_human_request_from_model lib h files) (\<lambda>p.
           and_then (validate_open_request
               \<lparr>hq_kind = hr_request_kind h, hq_summary = hr_request_summary h, hq_items = ph_items p,
                hq_files = ph_files p, hq_due_at = hr_due_at h,
                hq_default_behavior = hr_default_behavior h\<rparr>) (\<lambda>rq.
             Inr \<lparr>ht_request_id = hr_request_id h, ht_source_dispatch_id = hr_source_dispatch_id h,
               ht_request = rq, ht_resolution = r\<rparr>)))"

definition human_request_continuation_basis ::
    "library \<Rightarrow> human_request_row \<Rightarrow> opened_reason \<Rightarrow> file_reference list \<Rightarrow> continuation_basis result" where
  "human_request_continuation_basis lib h reason files =
     and_then (build_human_result_trigger lib h files) (\<lambda>trigger.
       Inr \<lparr>cb_task_id = hr_task_id h, cb_assignment_id = hr_assignment_id h,
         cb_attempt_id = hr_attempt_id h, cb_source_dispatch_id = hr_source_dispatch_id h,
         cb_source_dispatch_closed_reason = CHumanRequestWait, cb_opened_reason = reason,
         cb_trigger = HumanResultTrigger trigger, cb_continuation_source_id = None\<rparr>)"

definition read_human_request_continuation_basis :: "library \<Rightarrow> source_reader" where
  "read_human_request_continuation_basis lib request d =
     (case find (\<lambda>h. hr_request_id h = request \<and> is_terminal_human h \<and>
          hr_successor_dispatch_id h = None) (human_requests d) of
        None \<Rightarrow> Inr None
      | Some h \<Rightarrow>
          and_then (human_request_continuation_basis lib h OHumanResult
            (read_human_request_file_references request d)) (\<lambda>b. Inr (Some b)))"

definition human_source_matches :: "ordinary_snapshot \<Rightarrow> human_result \<Rightarrow> human_request_row \<Rightarrow> bool" where
  "human_source_matches n trigger h \<longleftrightarrow>
     (let b = sn_basis n; rq = ht_request trigger; r = ht_resolution trigger in
      hr_request_id h = ht_request_id trigger \<and> hr_task_id h = cb_task_id b \<and>
      hr_assignment_id h = cb_assignment_id b \<and> hr_attempt_id h = cb_attempt_id b \<and>
      hr_source_dispatch_id h = ht_source_dispatch_id trigger \<and> is_terminal_human h \<and>
      hr_request_kind h = hq_kind rq \<and> hr_request_summary h = hq_summary rq \<and>
      hr_request_items h = map dump_item (hq_items rq) \<and>
      hr_resolution_kind h = Some (rn_kind r) \<and>
      hr_item_responses h = serialize_item_answers (rn_item_responses r) \<and>
      hr_resolution_summary h = Some (rn_summary r) \<and>
      hr_resolved_by_actor_ref h = rn_actor_ref r \<and>
      hr_resolved_by_surface h = Some (rn_surface r) \<and>
      hr_resolved_at h = Some (rn_resolved_at r) \<and> hr_successor_dispatch_id h = None)"

definition claim_human_request_continuation :: source_claim where
  "claim_human_request_continuation n p d =
     (case cb_trigger (sn_basis n) of
        HumanResultTrigger trigger \<Rightarrow>
          and_then (update_checked ck_human_request (human_source_matches n trigger)
              (\<lambda>h. h\<lparr>hr_successor_dispatch_id := Some (pr_dispatch_id p)\<rparr>) (human_requests d))
            (\<lambda>claimed. Inr (map_option (\<lambda>hs. d\<lparr>human_requests := hs\<rparr>) claimed))
      | _ \<Rightarrow> Inr None)"

definition pause_failed_human_request_continuation :: "env \<Rightarrow> failure_recorder" where
  "pause_failed_human_request_continuation env request code d =
     pause_task_for_runtime_transition_failure env
       (\<lambda>t d. list_ex (\<lambda>h. hr_request_id h = request \<and> hr_task_id h = tk_task_id t \<and>
          is_terminal_human h \<and> hr_successor_dispatch_id h = None \<and>
          idle_lane (hr_task_id h) (hr_assignment_id h) (hr_attempt_id h) d) (human_requests d))
       (env_now env) [(''source'', ''human_request''), (''request_id'', request)] code d"

definition open_human_request_successor ::
    "env \<Rightarrow> library \<Rightarrow> successor_render \<Rightarrow> ident \<Rightarrow> ident \<Rightarrow> db \<Rightarrow> db \<Rightarrow> (opening_outcome \<times> db) result" where
  "open_human_request_successor env lib render request dispatch =
     open_ordinary_successor env render (read_human_request_continuation_basis lib)
       claim_human_request_continuation (pause_failed_human_request_continuation env)
       ''human_result_dispatch_preparation_failed'' request dispatch"

subsection \<open>Command Runs\<close>

definition command_request_of :: "command_run_row \<Rightarrow> command_start_request result" where
  "command_request_of r = validate_start_request
     \<lparr>cq_command = cr_command_spec r, cq_cwd = cr_cwd r, cq_timeout_seconds = cr_timeout_seconds r,
      cq_description = cr_summary r\<rparr>"

text \<open>The bounds and \<open>validate_result\<close> of \<open>PromptCommandResult\<close>.\<close>

definition identifier_ok :: "string \<Rightarrow> bool" where
  "identifier_ok s \<longleftrightarrow> 1 \<le> length s \<and> length s \<le> 255"

definition validate_command_truth :: "command_terminal_truth \<Rightarrow> command_terminal_truth result" where
  "validate_command_truth c =
     (if pc_state c \<notin> set command_terminal_states then Inl invalid_field
      else if pc_summary c = '''' \<or> 8192 < length (pc_summary c) then Inl invalid_field
      else if pc_output_observed_bytes c < 0 \<or> pc_output_written_bytes c < 0 then Inl invalid_field
      else if \<not> (case pc_failure_code c of None \<Rightarrow> True | Some s \<Rightarrow> identifier_ok s)
      then Inl invalid_field
      else if \<not> (case pc_terminal_actor_ref c of None \<Rightarrow> True | Some s \<Rightarrow> identifier_ok s)
      then Inl invalid_field
      else if (case pc_started_at c of None \<Rightarrow> False | Some t \<Rightarrow> pc_ended_at c < t)
      then Inl (ValueError ''command result cannot end before it starts'')
      else if pc_state c = CmdAbandoned \<and> pc_failure_code c \<noteq> Some ''command_ownership_lost''
      then Inl (ValueError ''abandoned command results require command_ownership_lost'')
      else if pc_output_observed_bytes c < pc_output_written_bytes c
      then Inl (ValueError ''command output written bytes cannot exceed observed bytes'')
      else if pc_output_complete c \<and> pc_output_written_bytes c \<noteq> pc_output_observed_bytes c
      then Inl (ValueError ''complete command output requires every observed byte to be written'')
      else Inr c)"

definition command_run_continuation_basis ::
    "command_run_row \<Rightarrow> opened_reason \<Rightarrow> continuation_basis result" where
  "command_run_continuation_basis r reason =
     (case (cr_terminal_summary r, cr_ended_at r, cr_terminal_event_source r) of
        (Some summary, Some ended, Some src) \<Rightarrow>
          and_then (command_request_of r) (\<lambda>rq.
          and_then (validate_command_truth
              \<lparr>pc_state = cr_state r, pc_exit_code = cr_terminal_exit_code r, pc_summary = summary,
               pc_started_at = cr_started_at r, pc_ended_at = ended, pc_output_path = cr_output_path r,
               pc_output_observed_bytes = cr_output_observed_bytes r,
               pc_output_written_bytes = cr_output_written_bytes r,
               pc_output_complete = cr_output_complete r, pc_failure_code = cr_terminal_failure_code r,
               pc_terminal_event_source = src, pc_terminal_actor_ref = cr_terminal_actor_ref r\<rparr>) (\<lambda>c.
            Inr \<lparr>cb_task_id = cr_task_id r, cb_assignment_id = cr_assignment_id r,
              cb_attempt_id = cr_attempt_id r, cb_source_dispatch_id = cr_source_dispatch_id r,
              cb_source_dispatch_closed_reason = CCommandRunWait, cb_opened_reason = reason,
              cb_trigger = CommandResultTrigger
                \<lparr>ct_command_id = cr_run_id r, ct_source_dispatch_id = cr_source_dispatch_id r,
                 ct_request = rq, ct_terminal = c\<rparr>,
              cb_continuation_source_id = None\<rparr>))
      | _ \<Rightarrow> Inl (ValueError ''terminal command run is missing result truth''))"

definition read_command_run_continuation_basis :: source_reader where
  "read_command_run_continuation_basis run d =
     (case find (\<lambda>r. cr_run_id r = run \<and> cr_state r \<in> set command_terminal_states \<and>
          cr_successor_dispatch_id r = None) (command_runs d) of
        None \<Rightarrow> Inr None
      | Some r \<Rightarrow> and_then (command_run_continuation_basis r OCommandResult) (\<lambda>b. Inr (Some b)))"

definition command_request_predicates :: "command_start_request \<Rightarrow> command_run_row \<Rightarrow> bool" where
  "command_request_predicates rq r \<longleftrightarrow>
     cr_command_spec r = cq_command rq \<and> cr_cwd r = cq_cwd rq \<and> cr_summary r = cq_description rq \<and>
     cr_timeout_seconds r = cq_timeout_seconds rq"

definition command_result_predicates :: "command_terminal_truth \<Rightarrow> command_run_row \<Rightarrow> bool" where
  "command_result_predicates c r \<longleftrightarrow>
     cr_state r = pc_state c \<and> cr_terminal_summary r = Some (pc_summary c) \<and>
     cr_terminal_exit_code r = pc_exit_code c \<and> cr_started_at r = pc_started_at c \<and>
     cr_ended_at r = Some (pc_ended_at c) \<and> cr_output_path r = pc_output_path c \<and>
     cr_output_observed_bytes r = pc_output_observed_bytes c \<and>
     cr_output_written_bytes r = pc_output_written_bytes c \<and>
     cr_output_complete r = pc_output_complete c \<and> cr_terminal_failure_code r = pc_failure_code c \<and>
     cr_terminal_event_source r = Some (pc_terminal_event_source c) \<and>
     cr_terminal_actor_ref r = pc_terminal_actor_ref c"

definition command_source_matches :: "ordinary_snapshot \<Rightarrow> command_result \<Rightarrow> command_run_row \<Rightarrow> bool" where
  "command_source_matches n trigger r \<longleftrightarrow>
     (let b = sn_basis n in
      cr_run_id r = ct_command_id trigger \<and> cr_task_id r = cb_task_id b \<and>
      cr_assignment_id r = cb_assignment_id b \<and> cr_attempt_id r = cb_attempt_id b \<and>
      cr_source_dispatch_id r = cb_source_dispatch_id b \<and>
      cr_source_dispatch_id r = ct_source_dispatch_id trigger \<and>
      command_request_predicates (ct_request trigger) r \<and>
      command_result_predicates (ct_terminal trigger) r \<and> cr_successor_dispatch_id r = None)"

definition claim_command_run_continuation :: source_claim where
  "claim_command_run_continuation n p d =
     (case cb_trigger (sn_basis n) of
        CommandResultTrigger trigger \<Rightarrow>
          and_then (update_checked ck_command_run (command_source_matches n trigger)
              (\<lambda>r. r\<lparr>cr_successor_dispatch_id := Some (pr_dispatch_id p)\<rparr>) (command_runs d))
            (\<lambda>claimed. Inr (map_option (\<lambda>rs. d\<lparr>command_runs := rs\<rparr>) claimed))
      | _ \<Rightarrow> Inr None)"

definition pause_failed_command_run_continuation :: "env \<Rightarrow> failure_recorder" where
  "pause_failed_command_run_continuation env run code d =
     pause_task_for_runtime_transition_failure env
       (\<lambda>t d. list_ex (\<lambda>r. cr_run_id r = run \<and> cr_task_id r = tk_task_id t \<and>
          cr_state r \<in> set command_terminal_states \<and> cr_successor_dispatch_id r = None \<and>
          idle_lane (cr_task_id r) (cr_assignment_id r) (cr_attempt_id r) d) (command_runs d))
       (env_now env) [(''source'', ''command_run''), (''run_id'', run)] code d"

definition open_command_run_successor ::
    "env \<Rightarrow> successor_render \<Rightarrow> ident \<Rightarrow> ident \<Rightarrow> db \<Rightarrow> db \<Rightarrow> (opening_outcome \<times> db) result" where
  "open_command_run_successor env render run dispatch =
     open_ordinary_successor env render read_command_run_continuation_basis
       claim_command_run_continuation (pause_failed_command_run_continuation env)
       ''command_result_dispatch_preparation_failed'' run dispatch"


subsection \<open>Delegation Waves\<close>

record settled_member_truth =
  st_member :: wave_member_row
  st_assignment :: assignment_row
  st_boundary :: boundary_row
  st_checkpoint :: checkpoint_row

fun insert_wave_member_row :: "wave_member_row \<Rightarrow> wave_member_row list \<Rightarrow> wave_member_row list" where
  "insert_wave_member_row m [] = [m]"
| "insert_wave_member_row m (k # ks) =
     (if dm_order_index m \<le> dm_order_index k then m # k # ks else k # insert_wave_member_row m ks)"

definition settled_member_truth_of :: "wave_row \<Rightarrow> wave_member_row \<Rightarrow> db \<Rightarrow> settled_member_truth option" where
  "settled_member_truth_of w m d =
     Option.bind (find (\<lambda>s. as_assignment_id s = dm_child_assignment_id m \<and> as_task_id s = dw_task_id w)
       (assignments d)) (\<lambda>s.
     Option.bind (find (\<lambda>b. Some (ab_accepted_boundary_id b) = dm_terminal_boundary_id m \<and>
         ab_task_id b = dw_task_id w \<and> ab_assignment_id b = dm_child_assignment_id m \<and>
         Some (ab_outcome b) = dm_terminal_outcome m) (boundaries d)) (\<lambda>b.
     Option.bind (find (\<lambda>c. cp_checkpoint_id c = ab_checkpoint_id b \<and> cp_task_id c = dw_task_id w \<and>
         cp_assignment_id c = dm_child_assignment_id m \<and> cp_outcome c = dm_terminal_outcome m)
       (checkpoints d)) (\<lambda>c.
       Some \<lparr>st_member = m, st_assignment = s, st_boundary = b, st_checkpoint = c\<rparr>)))"

definition read_settled_wave_member_truth :: "wave_row \<Rightarrow> db \<Rightarrow> settled_member_truth list" where
  "read_settled_wave_member_truth w d =
     List.map_filter (\<lambda>m. settled_member_truth_of w m d)
       (foldr insert_wave_member_row
         (filter (\<lambda>m. dm_delegation_wave_id m = dw_delegation_wave_id w \<and> dm_task_id m = dw_task_id w \<and>
            dm_parent_assignment_id m = dw_parent_assignment_id w \<and>
            dm_parent_attempt_id m = dw_parent_attempt_id w \<and>
            dm_source_dispatch_id m = dw_source_dispatch_id w \<and> dm_status m = MemberSettled \<and>
            dm_terminal_outcome m \<in> {Some Green, Some Blocked}) (wave_members d)) [])"

fun insert_assignment_file_row ::
    "assignment_file_row \<Rightarrow> assignment_file_row list \<Rightarrow> assignment_file_row list" where
  "insert_assignment_file_row f [] = [f]"
| "insert_assignment_file_row f (g # gs) =
     (if af_order_index f \<le> af_order_index g then f # g # gs else g # insert_assignment_file_row f gs)"

definition read_assignment_file_references :: "ident \<Rightarrow> db \<Rightarrow> file_reference list" where
  "read_assignment_file_references assignment d =
     map af_file (foldr insert_assignment_file_row
       (filter (\<lambda>f. af_assignment_id f = assignment) (assignment_files d)) [])"

fun insert_checkpoint_file_row ::
    "checkpoint_file_row \<Rightarrow> checkpoint_file_row list \<Rightarrow> checkpoint_file_row list" where
  "insert_checkpoint_file_row f [] = [f]"
| "insert_checkpoint_file_row f (g # gs) =
     (if cf_order_index f \<le> cf_order_index g then f # g # gs else g # insert_checkpoint_file_row f gs)"

definition read_checkpoint_file_references :: "ident \<Rightarrow> db \<Rightarrow> file_reference list" where
  "read_checkpoint_file_references checkpoint d =
     map cf_file (foldr insert_checkpoint_file_row
       (filter (\<lambda>f. cf_checkpoint_id f = checkpoint) (checkpoint_files d)) [])"

definition wave_member_result_of :: "db \<Rightarrow> settled_member_truth \<Rightarrow> wave_member_result result" where
  "wave_member_result_of d t =
     (let m = st_member t; s = st_assignment t; b = st_boundary t; c = st_checkpoint t in
      case (cp_outcome c, dm_terminal_outcome m) of
        (Some recorded, Some outcome) \<Rightarrow>
          if ab_checkpoint_id b \<noteq> cp_checkpoint_id c \<or> ab_attempt_id b \<noteq> cp_attempt_id c \<or>
             cp_authoring_dispatch_id c \<noteq> ab_source_dispatch_id b
          then Inl (ValueError ''settled Delegation Wave member has inconsistent terminal Checkpoint truth'')
          else if recorded \<noteq> outcome
          then Inl (ValueError ''Wave-member checkpoint outcome must match the terminal outcome'')
          else Inr \<lparr>wr_child_id = dm_child_member_id m, wr_assignment_id = as_assignment_id s,
            wr_assignment_prompt = as_prompt s,
            wr_assignment_files = read_assignment_file_references (as_assignment_id s) d,
            wr_outcome = outcome, wr_checkpoint_id = cp_checkpoint_id c,
            wr_checkpoint_summary = cp_summary c, wr_checkpoint_details = cp_details c,
            wr_checkpoint_files = read_checkpoint_file_references (cp_checkpoint_id c) d\<rparr>
      | _ \<Rightarrow> Inl (ValueError ''settled Delegation Wave member has inconsistent terminal Checkpoint truth''))"

text \<open>\<open>DelegationWaveSettledResult\<close>: at least one member, unique children and Assignments.\<close>

definition validate_wave_result :: "wave_member_result list \<Rightarrow> wave_member_result list result" where
  "validate_wave_result ms =
     (if ms = [] then Inl invalid_field
      else if \<not> distinct (map wr_child_id ms) then Inl (ValueError ''Wave result child IDs must be unique'')
      else if \<not> distinct (map wr_assignment_id ms)
      then Inl (ValueError ''Wave result Assignment IDs must be unique'')
      else Inr ms)"

definition read_delegation_wave_continuation_basis :: source_reader where
  "read_delegation_wave_continuation_basis wave d =
     (case find (\<lambda>w. dw_delegation_wave_id w = wave \<and> dw_status w = WaveSettled \<and>
          dw_successor_dispatch_id w = None) (waves d) of
        None \<Rightarrow> Inr None
      | Some w \<Rightarrow>
          (let rows = read_settled_wave_member_truth w d in
           if length (filter (\<lambda>m. dm_delegation_wave_id m = wave) (wave_members d)) \<noteq> length rows
           then Inl (ValueError ''settled Delegation Wave has incomplete terminal member truth'')
           else and_then (map_result (wave_member_result_of d) rows) (\<lambda>members.
             and_then (validate_wave_result members) (\<lambda>ms.
             Inr (Some \<lparr>cb_task_id = dw_task_id w, cb_assignment_id = dw_parent_assignment_id w,
               cb_attempt_id = dw_parent_attempt_id w, cb_source_dispatch_id = dw_source_dispatch_id w,
               cb_source_dispatch_closed_reason = CDelegation, cb_opened_reason = ODelegationWave,
               cb_trigger = DelegationWaveSettledTrigger wave (dw_source_dispatch_id w) ms,
               cb_continuation_source_id = Some wave\<rparr>)))))"

definition wave_source_matches :: "ordinary_snapshot \<Rightarrow> ident \<Rightarrow> ident \<Rightarrow> wave_row \<Rightarrow> bool" where
  "wave_source_matches n wave source w \<longleftrightarrow>
     (let b = sn_basis n in
      dw_delegation_wave_id w = wave \<and> dw_task_id w = cb_task_id b \<and>
      dw_parent_assignment_id w = cb_assignment_id b \<and> dw_parent_attempt_id w = cb_attempt_id b \<and>
      dw_source_dispatch_id w = source \<and> dw_status w = WaveSettled \<and>
      dw_successor_dispatch_id w = None)"

text \<open>The successor of a Wave is unique in its table.\<close>

definition claim_delegation_wave_continuation :: source_claim where
  "claim_delegation_wave_continuation n p d =
     (case cb_trigger (sn_basis n) of
        DelegationWaveSettledTrigger wave source _ \<Rightarrow>
          and_then (update_checked ck_wave (wave_source_matches n wave source)
              (\<lambda>w. w\<lparr>dw_successor_dispatch_id := Some (pr_dispatch_id p)\<rparr>) (waves d)) (\<lambda>claimed. case claimed of
              None \<Rightarrow> Inr None
            | Some ws \<Rightarrow>
                and_then (require_that (IntegrityError ''unique'')
                    (\<not> list_ex (\<lambda>w. dw_successor_dispatch_id w = Some (pr_dispatch_id p)) (waves d))) (\<lambda>_.
                  Inr (Some (d\<lparr>waves := ws\<rparr>))))
      | _ \<Rightarrow> Inr None)"

definition pause_failed_delegation_wave_continuation :: "env \<Rightarrow> failure_recorder" where
  "pause_failed_delegation_wave_continuation env wave code d =
     pause_task_for_runtime_transition_failure env
       (\<lambda>t d. list_ex (\<lambda>w. dw_delegation_wave_id w = wave \<and> dw_task_id w = tk_task_id t \<and>
          dw_status w = WaveSettled \<and> dw_successor_dispatch_id w = None \<and>
          idle_lane (dw_task_id w) (dw_parent_assignment_id w) (dw_parent_attempt_id w) d) (waves d))
       (env_now env) [(''source'', ''delegation_wave''), (''delegation_wave_id'', wave)] code d"

definition open_delegation_wave_successor ::
    "env \<Rightarrow> successor_render \<Rightarrow> ident \<Rightarrow> ident \<Rightarrow> db \<Rightarrow> db \<Rightarrow> (opening_outcome \<times> db) result" where
  "open_delegation_wave_successor env render wave dispatch =
     open_ordinary_successor env render read_delegation_wave_continuation_basis
       claim_delegation_wave_continuation (pause_failed_delegation_wave_continuation env)
       ''delegation_wave_dispatch_preparation_failed'' wave dispatch"

end
