(* ===== verification/ReplanContinuation.thy ===== *)
theory ReplanContinuation
  imports Continuation TaskControl
begin

text \<open>
  The successor of an accepted Team replan (\<open>runtime/replan/continuation.py\<close>): the manifest of
  the new Team must be current on disk before its Dispatch opens, and either failure is recorded
  on the transition, where a later repair finds it. Writing the manifest file is the parameter
  \<open>project\<close>: an exception text, or whether the Team was still current. Reading a committed result
  back (\<open>ReplanSuccess\<close>) is the parameter \<open>read_success\<close>, which gives its operation.
\<close>

subsection \<open>The manifest barrier\<close>

definition failure_detail_limit :: nat where
  "failure_detail_limit = 1024"

definition replan_unsettled :: "replan_row \<Rightarrow> bool" where
  "replan_unsettled r \<longleftrightarrow>
     rt_successor_state r \<noteq> SuccessorOpened \<and> rt_successor_state r \<noteq> SuccessorCancelled"

definition record_manifest_failure :: "ident \<Rightarrow> string \<Rightarrow> string \<Rightarrow> time \<Rightarrow> db \<Rightarrow> db result" where
  "record_manifest_failure transition code detail now d =
     and_then (update_all ck_replan
         (\<lambda>r. rt_replan_transition_id r = transition \<and> rt_successor_dispatch_id r = None \<and>
            replan_unsettled r)
         (\<lambda>r. r\<lparr>rt_manifest_state := ManifestRepairRequired, rt_successor_state := SuccessorBlocked,
            rt_failure_code := Some (take 128 code),
            rt_failure_detail := Some (take failure_detail_limit detail),
            rt_updated_at := now\<rparr>) (replan_transitions d))
       (\<lambda>rs. Inr (d\<lparr>replan_transitions := rs\<rparr>))"

definition mark_manifest_current :: "ident \<Rightarrow> time \<Rightarrow> db \<Rightarrow> (bool \<times> db) result" where
  "mark_manifest_current transition now d =
     and_then (update_checked ck_replan
         (\<lambda>r. rt_replan_transition_id r = transition \<and>
            rt_manifest_state r \<in> {ManifestPending, ManifestRepairRequired} \<and>
            rt_successor_state r = SuccessorBlocked \<and> rt_successor_dispatch_id r = None)
         (\<lambda>r. r\<lparr>rt_manifest_state := ManifestCurrent, rt_successor_state := SuccessorPending,
            rt_failure_code := None, rt_failure_detail := None,
            rt_manifest_current_at := Some now, rt_updated_at := now\<rparr>) (replan_transitions d))
       (\<lambda>claimed. case claimed of
           None \<Rightarrow> Inr (list_ex (\<lambda>r. rt_replan_transition_id r = transition \<and>
               rt_manifest_state r = ManifestCurrent) (replan_transitions d), d)
         | Some rs \<Rightarrow> Inr (True, d\<lparr>replan_transitions := rs\<rparr>))"

type_synonym manifest_projection = "ident \<Rightarrow> ident \<Rightarrow> db \<Rightarrow> string + bool"

text \<open>\<open>True\<close> when the successor may open, or has opened.\<close>

definition ensure_replan_manifest_current ::
    "env \<Rightarrow> manifest_projection \<Rightarrow> ident \<Rightarrow> db \<Rightarrow> (bool \<times> db) result" where
  "ensure_replan_manifest_current env project transition d =
     (case find (\<lambda>r. rt_replan_transition_id r = transition) (replan_transitions d) of
        None \<Rightarrow> Inr (False, d)
      | Some r \<Rightarrow>
          if \<not> replan_unsettled r then Inr (rt_successor_state r = SuccessorOpened, d)
          else if rt_manifest_state r = ManifestCurrent then Inr (True, d)
          else (case project (rt_task_id r) (rt_successor_team_revision_id r) d of
              Inl detail \<Rightarrow>
                and_then (record_manifest_failure transition ''replan_manifest_projection_failed''
                  detail (env_now env) d) (\<lambda>d1. Inr (False, d1))
            | Inr False \<Rightarrow>
                and_then (record_manifest_failure transition ''replan_manifest_not_current''
                  ''The successor Team was no longer current during manifest projection.''
                  (env_now env) d) (\<lambda>d1. Inr (False, d1))
            | Inr True \<Rightarrow> mark_manifest_current transition (env_now env) d))"

subsection \<open>The source\<close>

type_synonym replan_result_reader = "json \<Rightarrow> string result"

definition replan_openable :: "replan_row \<Rightarrow> bool" where
  "replan_openable r \<longleftrightarrow>
     rt_manifest_state r = ManifestCurrent \<and>
     rt_successor_state r \<in> {SuccessorPending, SuccessorOpeningFailed} \<and>
     rt_successor_dispatch_id r = None"

definition read_replan_continuation_basis :: "replan_result_reader \<Rightarrow> source_reader" where
  "read_replan_continuation_basis read_success transition d =
     (case find (\<lambda>r. rt_replan_transition_id r = transition \<and> replan_openable r)
          (replan_transitions d) of
        None \<Rightarrow> Inr None
      | Some r \<Rightarrow>
          and_then (read_success (rt_committed_result r)) (\<lambda>operation.
            if rt_operation r \<noteq> operation
            then Inl (ValueError ''replan transition operation does not match its committed result'')
            else Inr (Some \<lparr>cb_task_id = rt_task_id r, cb_assignment_id = rt_assignment_id r,
              cb_attempt_id = rt_attempt_id r, cb_source_dispatch_id = rt_source_dispatch_id r,
              cb_source_dispatch_closed_reason = CStructuralReplan,
              cb_opened_reason = OStructuralReplan,
              cb_trigger = StructuralReplanTrigger (rt_source_dispatch_id r) operation
                (rt_committed_result r),
              cb_continuation_source_id = Some (rt_replan_transition_id r)\<rparr>)))"

definition transition_id_from_snapshot :: "ordinary_snapshot \<Rightarrow> ident result" where
  "transition_id_from_snapshot n =
     (case cb_trigger (sn_basis n) of
        StructuralReplanTrigger _ _ _ \<Rightarrow>
          (case cb_continuation_source_id (sn_basis n) of
             None \<Rightarrow> Inl (TypeError ''replan continuation is missing its transition identity'')
           | Some transition \<Rightarrow> Inr transition)
      | _ \<Rightarrow> Inl (TypeError ''replan continuation requires a structural_replan trigger''))"

definition replan_source_matches :: "ordinary_snapshot \<Rightarrow> ident \<Rightarrow> replan_row \<Rightarrow> bool" where
  "replan_source_matches n transition r \<longleftrightarrow>
     rt_replan_transition_id r = transition \<and>
     rt_source_dispatch_id r = cb_source_dispatch_id (sn_basis n) \<and>
     rt_successor_team_revision_id r = sn_team_revision_id n \<and> replan_openable r"

text \<open>The successor of a transition is unique in its table.\<close>

definition claim_replan_continuation :: source_claim where
  "claim_replan_continuation n p d =
     and_then (transition_id_from_snapshot n) (\<lambda>transition.
     and_then (update_checked ck_replan (replan_source_matches n transition)
         (\<lambda>r. r\<lparr>rt_successor_state := SuccessorOpened,
            rt_successor_dispatch_id := Some (pr_dispatch_id p),
            rt_successor_opened_at := Some (pr_due_at p), rt_failure_code := None,
            rt_failure_detail := None, rt_updated_at := pr_due_at p\<rparr>) (replan_transitions d))
       (\<lambda>claimed. case claimed of
           None \<Rightarrow> Inr None
         | Some rs \<Rightarrow>
             and_then (require_that (IntegrityError ''unique'')
                 (\<not> list_ex (\<lambda>r. rt_successor_dispatch_id r = Some (pr_dispatch_id p))
                   (replan_transitions d)))
               (\<lambda>_. Inr (Some (d\<lparr>replan_transitions := rs\<rparr>)))))"

text \<open>A failed preparation is kept on the transition; the Task runs on.\<close>

definition record_opening_failure :: "env \<Rightarrow> failure_recorder" where
  "record_opening_failure env transition code d =
     and_then (update_all ck_replan
         (\<lambda>r. rt_replan_transition_id r = transition \<and> replan_openable r)
         (\<lambda>r. r\<lparr>rt_successor_state := SuccessorOpeningFailed, rt_failure_code := Some (take 128 code),
            rt_failure_detail :=
              Some (take failure_detail_limit ''Successor Dispatch preparation failed.''),
            rt_updated_at := env_now env\<rparr>) (replan_transitions d))
       (\<lambda>rs. Inr ([], d\<lparr>replan_transitions := rs\<rparr>))"

text \<open>
  \<open>continue_committed_replan\<close>. The barrier commits on its own, so the opening reads a later state;
  \<open>between\<close> is what other transactions do after that read.
\<close>

definition continue_committed_replan ::
    "env \<Rightarrow> manifest_projection \<Rightarrow> replan_result_reader \<Rightarrow> successor_render \<Rightarrow> (db \<Rightarrow> db) \<Rightarrow>
       ident \<Rightarrow> ident \<Rightarrow> db \<Rightarrow> opening_outcome result \<times> db" where
  "continue_committed_replan env project read_success render between transition dispatch d =
     (case ensure_replan_manifest_current env project transition d of
        Inl f \<Rightarrow> (Inl f, d)
      | Inr (False, d1) \<Rightarrow> (Inr (OpeningPaused []), d1)
      | Inr (True, d1) \<Rightarrow>
          (case open_ordinary_successor env render (read_replan_continuation_basis read_success)
              claim_replan_continuation (record_opening_failure env)
              ''replan_dispatch_preparation_failed'' transition dispatch d1 (between d1) of
             Inl f \<Rightarrow> (Inl f, between d1)
           | Inr (outcome, d2) \<Rightarrow> (Inr outcome, d2)))"

end
