(* ===== verification/RootOpening.thy ===== *)
theory RootOpening
  imports Continuation TaskControl
begin

text \<open>
  The first Dispatch of a Task (\<open>runtime/launch/root_source.py\<close>,
  \<open>runtime/launch/continuation.py\<close>): opened from the Task-start source when the Task is launched,
  or when a Task that was paused before it is continued. Like the other openings it reads in one
  transaction and claims in a second one. The join also requires the pinned Workflow revision and
  the member configuration, which foreign keys guarantee; their texts belong to the prompt.
\<close>

subsection \<open>The Task-start source\<close>

record root_context =
  rc_workspace_root :: string
  rc_selection :: team_member_row
  rc_assignment :: assignment_row
  rc_attempt :: attempt_row

record root_snapshot =
  rs_source_committed_at :: time
  rs_task_control_revision :: int
  rs_task_root_path :: string
  rs_workspace_root_path :: string
  rs_work_plan_revision :: int
  rs_task_id :: ident
  rs_assignment_id :: ident
  rs_attempt_id :: ident
  rs_team_revision_id :: ident
  rs_member_id :: ident
  rs_member_configuration_id :: ident
  rs_member_branch_basis_id :: ident
  rs_expected_task_status :: task_status
  rs_expected_pause_reason :: "string option"
  rs_opened_reason :: opened_reason
  rs_trigger :: "(ident \<times> int \<times> string) option"

definition read_task_start_state ::
    "ident \<Rightarrow> task_status \<Rightarrow> ident option \<Rightarrow> int option \<Rightarrow> db \<Rightarrow> (task_start_row \<times> task_row) option" where
  "read_task_start_state task status revision control d =
     Option.bind (find (\<lambda>s. ts_task_id s = task) (task_starts d)) (\<lambda>s.
     Option.bind (find (\<lambda>t. tk_task_id t = ts_task_id s) (tasks d)) (\<lambda>t.
       if ts_successor_dispatch_id s = None \<and> tk_status t = status \<and>
          tk_current_team_revision_id t \<noteq> None \<and>
          tk_root_assignment_id t = Some (ts_root_assignment_id s) \<and>
          (revision = None \<or> tk_current_team_revision_id t = revision) \<and>
          (case control of None \<Rightarrow> True | Some c \<Rightarrow> tk_control_revision t = c) \<and>
          (status \<noteq> TaskPaused \<or> tk_pause_reason t \<noteq> None)
       then Some (s, t) else None))"

definition read_root_runtime_context :: "task_start_row \<Rightarrow> task_row \<Rightarrow> db \<Rightarrow> root_context result" where
  "read_root_runtime_context s t d =
     (case Option.bind (tk_workspace_root t) (\<lambda>workspace.
           Option.bind (find (\<lambda>a. as_task_id a = tk_task_id t \<and>
               as_assignment_id a = ts_root_assignment_id s) (assignments d)) (\<lambda>assignment.
           Option.bind (find (\<lambda>m. tm_task_id m = tk_task_id t \<and>
               Some (tm_team_revision_id m) = tk_current_team_revision_id t \<and>
               tm_parent_member_id m = None \<and> tm_member_id m = as_member_id assignment)
             (team_members d)) (\<lambda>m.
           Option.bind (find (\<lambda>a. at_task_id a = tk_task_id t \<and>
               at_assignment_id a = as_assignment_id assignment \<and>
               at_attempt_id a = ts_root_attempt_id s) (attempts d)) (\<lambda>attempt.
             Some \<lparr>rc_workspace_root = workspace, rc_selection = m, rc_assignment = assignment,
               rc_attempt = attempt\<rparr>)))) of
        None \<Rightarrow> Inl (ValueError ''runnable Task start is missing its root runtime context'')
      | Some c \<Rightarrow>
          if as_current_attempt_id (rc_assignment c) \<noteq> Some (at_attempt_id (rc_attempt c)) \<or>
             as_terminal_outcome (rc_assignment c) \<noteq> None \<or>
             at_status (rc_attempt c) \<noteq> AttRunning \<or>
             at_current_dispatch_id (rc_attempt c) \<noteq> None \<or>
             at_current_wait_id (rc_attempt c) \<noteq> None
          then Inl (ValueError ''runnable Task start has inconsistent pinned root context'')
          else Inr c)"

definition root_trigger ::
    "task_row \<Rightarrow> task_status \<Rightarrow> ((ident \<times> int \<times> string) option \<times> opened_reason) result" where
  "root_trigger t status =
     (if status = TaskRunning then Inr (None, ORoot)
      else case tk_pause_reason t of
          None \<Rightarrow> Inl (ValueError ''paused Task start is missing its pause reason'')
        | Some reason \<Rightarrow>
            Inr (Some (tk_task_id t, tk_control_revision t, reason), OOperatorContinue))"

definition read_root_opening_snapshot ::
    "ident \<Rightarrow> task_status \<Rightarrow> ident option \<Rightarrow> int option \<Rightarrow> db \<Rightarrow> root_snapshot option result" where
  "read_root_opening_snapshot task status revision control d =
     (case read_task_start_state task status revision control d of
        None \<Rightarrow> Inr None
      | Some (s, t) \<Rightarrow>
          and_then (read_root_runtime_context s t d) (\<lambda>c.
          and_then (root_trigger t status) (\<lambda>(trigger, reason).
            Inr (Some \<lparr>rs_source_committed_at = ts_committed_at s,
              rs_task_control_revision = tk_control_revision t,
              rs_task_root_path = tk_task_root_path t, rs_workspace_root_path = rc_workspace_root c,
              rs_work_plan_revision = as_work_plan_revision (rc_assignment c),
              rs_task_id = tk_task_id t, rs_assignment_id = as_assignment_id (rc_assignment c),
              rs_attempt_id = at_attempt_id (rc_attempt c),
              rs_team_revision_id = tm_team_revision_id (rc_selection c),
              rs_member_id = tm_member_id (rc_selection c),
              rs_member_configuration_id = tm_member_configuration_id (rc_selection c),
              rs_member_branch_basis_id = tm_member_branch_basis_id (rc_selection c),
              rs_expected_task_status = status, rs_expected_pause_reason = tk_pause_reason t,
              rs_opened_reason = reason, rs_trigger = trigger\<rparr>))))"

definition root_context_is_current :: "root_snapshot \<Rightarrow> db \<Rightarrow> bool" where
  "root_context_is_current n d \<longleftrightarrow>
     list_ex (\<lambda>m. tm_task_id m = rs_task_id n \<and> tm_team_revision_id m = rs_team_revision_id n \<and>
       tm_member_id m = rs_member_id n \<and> tm_parent_member_id m = None \<and>
       tm_member_configuration_id m = rs_member_configuration_id n \<and>
       tm_member_branch_basis_id m = rs_member_branch_basis_id n) (team_members d) \<and>
     list_ex (\<lambda>a. as_assignment_id a = rs_assignment_id n \<and> as_task_id a = rs_task_id n \<and>
       as_member_id a = rs_member_id n \<and> as_current_attempt_id a = Some (rs_attempt_id n) \<and>
       as_work_plan_revision a = rs_work_plan_revision n \<and> as_terminal_outcome a = None)
       (assignments d) \<and>
     list_ex (\<lambda>a. at_attempt_id a = rs_attempt_id n \<and> at_assignment_id a = rs_assignment_id n \<and>
       at_task_id a = rs_task_id n \<and> at_status a = AttRunning \<and>
       at_current_dispatch_id a = None \<and> at_current_wait_id a = None) (attempts d) \<and>
     list_ex (\<lambda>t. tk_task_id t = rs_task_id n \<and> tk_task_root_path t = rs_task_root_path n \<and>
       tk_root_assignment_id t = Some (rs_assignment_id n) \<and>
       tk_current_team_revision_id t = Some (rs_team_revision_id n)) (tasks d) \<and>
     list_ex (\<lambda>t. tk_task_id t = rs_task_id n \<and>
       tk_workspace_root t = Some (rs_workspace_root_path n)) (tasks d)"

subsection \<open>Staging the root Dispatch\<close>

type_synonym root_render = "root_snapshot \<Rightarrow> db \<Rightarrow> prepared_request result"

definition prepare_root_dispatch ::
    "root_render \<Rightarrow> ident \<Rightarrow> task_status \<Rightarrow> ident option \<Rightarrow> int option \<Rightarrow> ident \<Rightarrow> db \<Rightarrow>
       (root_snapshot \<times> prepared_request) option result" where
  "prepare_root_dispatch render task status revision control dispatch d =
     and_then (read_root_opening_snapshot task status revision control d) (\<lambda>snapshot. case snapshot of
         None \<Rightarrow> Inr None
       | Some n \<Rightarrow> and_then (render n d) (\<lambda>p. Inr (Some (n, p\<lparr>pr_dispatch_id := dispatch\<rparr>))))"

definition advanced_root_task :: "root_snapshot \<Rightarrow> prepared_request \<Rightarrow> task_row \<Rightarrow> task_row" where
  "advanced_root_task n p t =
     (if rs_expected_task_status n = TaskPaused
      then (resume_task_row t)\<lparr>tk_updated_at := pr_due_at p\<rparr> else t)"

definition root_task_claimable :: "root_snapshot \<Rightarrow> db \<Rightarrow> task_row \<Rightarrow> bool" where
  "root_task_claimable n d t \<longleftrightarrow>
     tk_task_id t = rs_task_id n \<and> tk_root_assignment_id t = Some (rs_assignment_id n) \<and>
     tk_status t = rs_expected_task_status n \<and>
     tk_current_team_revision_id t = Some (rs_team_revision_id n) \<and>
     tk_control_revision t = rs_task_control_revision n \<and> root_context_is_current n d \<and>
     (rs_expected_task_status n = TaskPaused \<longrightarrow> tk_pause_reason t = rs_expected_pause_reason n)"

definition claim_root_dispatch_source :: "root_snapshot \<Rightarrow> ident \<Rightarrow> db \<Rightarrow> task_start_row list option" where
  "claim_root_dispatch_source n dispatch d =
     update_where (\<lambda>s. ts_task_id s = rs_task_id n \<and> ts_root_assignment_id s = rs_assignment_id n \<and>
         ts_root_attempt_id s = rs_attempt_id n \<and> ts_successor_dispatch_id s = None \<and>
         ts_committed_at s = rs_source_committed_at n)
       (\<lambda>s. s\<lparr>ts_successor_dispatch_id := Some dispatch\<rparr>) (task_starts d)"

definition root_basis :: "root_snapshot \<Rightarrow> resume_event_basis option \<Rightarrow> starting_basis" where
  "root_basis n resume =
     \<lparr>sb_task_id = rs_task_id n, sb_assignment_id = rs_assignment_id n,
      sb_team_revision_id = rs_team_revision_id n, sb_member_id = rs_member_id n,
      sb_member_configuration_id = rs_member_configuration_id n,
      sb_member_branch_basis_id = rs_member_branch_basis_id n, sb_attempt_id = rs_attempt_id n,
      sb_opened_reason = rs_opened_reason n, sb_predecessor_dispatch_id = None,
      sb_task_start_source_task_id = Some (rs_task_id n), sb_resume_event = resume\<rparr>"

text \<open>
  \<open>False\<close> leaves the state: the openings roll back, and the admission of a new Task, which does
  not, raises instead.
\<close>

definition stage_root_dispatch_if_current ::
    "env \<Rightarrow> resume_event_basis option \<Rightarrow> root_snapshot \<Rightarrow> prepared_request \<Rightarrow> db \<Rightarrow> (bool \<times> db) result" where
  "stage_root_dispatch_if_current env resume n p d =
     and_then (update_checked ck_task (root_task_claimable n d) (advanced_root_task n p) (tasks d))
       (\<lambda>claimed. case claimed of
           None \<Rightarrow> Inr (False, d)
         | Some ts \<Rightarrow>
             (case claim_root_dispatch_source n (pr_dispatch_id p) d of
                None \<Rightarrow> Inr (False, d)
              | Some ss \<Rightarrow>
                  (case stage_starting_dispatch env (root_basis n resume) p
                      (d\<lparr>tasks := ts, task_starts := ss\<rparr>) of
                     Inr d1 \<Rightarrow> Inr (True, d1)
                   | Inl (AttemptDispatchConflictError _) \<Rightarrow> Inr (False, d)
                   | Inl f \<Rightarrow> Inl f)))"

subsection \<open>Opening at launch\<close>

definition stage_initial_root_dispatch ::
    "env \<Rightarrow> root_render \<Rightarrow> ident \<Rightarrow> ident \<Rightarrow> db \<Rightarrow> (prepared_request \<times> db) result" where
  "stage_initial_root_dispatch env render task dispatch d =
     and_then (prepare_root_dispatch render task TaskRunning None None dispatch d) (\<lambda>candidate.
       case candidate of
         None \<Rightarrow> Inl (RuntimeError ''new Task is missing its exact root Dispatch source'')
       | Some (n, p) \<Rightarrow>
           and_then (stage_root_dispatch_if_current env None n p d) (\<lambda>(won, d1).
             if won then Inr (p, d1)
             else Inl (RuntimeError ''new Task root Dispatch source changed during admission'')))"

text \<open>Unlike the other failed openings this one closes no Dispatch and appends no event.\<close>

definition pause_failed_task_start :: "ident \<Rightarrow> time \<Rightarrow> string \<Rightarrow> db \<Rightarrow> db result" where
  "pause_failed_task_start task now code d =
     and_then (update_all ck_task
         (\<lambda>t. tk_task_id t = task \<and> tk_status t = TaskRunning \<and>
            list_ex (\<lambda>s. ts_task_id s = tk_task_id t \<and> ts_successor_dispatch_id s = None)
              (task_starts d))
         (\<lambda>t. t\<lparr>tk_status := TaskPaused, tk_pause_reason := Some ''runtime_transition_failed'',
            tk_pause_details :=
              Some [(''source'', JStr ''task_start''), (''failure_code'', JStr code)],
            tk_paused_at := Some now, tk_paused_by_actor_ref := Some ''controller.runtime'',
            tk_control_revision := tk_control_revision t + 1, tk_updated_at := now\<rparr>) (tasks d))
       (\<lambda>ts. Inr (d\<lparr>tasks := ts\<rparr>))"

definition open_root_dispatch ::
    "env \<Rightarrow> root_render \<Rightarrow> ident \<Rightarrow> ident \<Rightarrow> db \<Rightarrow> db \<Rightarrow> (opening_outcome \<times> db) result" where
  "open_root_dispatch env render task dispatch d d' =
     (case prepare_root_dispatch render task TaskRunning None None dispatch d of
        Inl f \<Rightarrow> (case preparation_failure_code ''root_dispatch_preparation_failed'' f of
            None \<Rightarrow> Inl f
          | Some code \<Rightarrow> and_then (pause_failed_task_start task (env_now env) code d')
              (\<lambda>d1. Inr (OpeningPaused [], d1)))
      | Inr None \<Rightarrow> Inr (Skipped, d')
      | Inr (Some (n, p)) \<Rightarrow>
          and_then (stage_root_dispatch_if_current env None n p d') (\<lambda>(won, d1).
            Inr (if won then Opened (pr_dispatch_id p) else Skipped, d1)))"

subsection \<open>Opening when the Task is continued\<close>

fun as_continue_failure :: "'a result \<Rightarrow> 'a result" where
  "as_continue_failure (Inr x) = Inr x"
| "as_continue_failure (Inl (RuntimeOperationError c s r)) = Inl (RuntimeOperationError c s r)"
| "as_continue_failure (Inl f) =
     (case preparation_failure_code ''operator_continue_preparation_failed'' f of
        None \<Rightarrow> Inl f
      | Some code \<Rightarrow> Inl (illegal_state_error (''operator continue preparation failed: '' @ code)))"

definition plan_paused_root ::
    "root_render \<Rightarrow> ident \<Rightarrow> ident \<Rightarrow> int \<Rightarrow> ident \<Rightarrow> db \<Rightarrow> (root_snapshot \<times> prepared_request) result" where
  "plan_paused_root render task revision control dispatch d =
     as_continue_failure
       (and_then (prepare_root_dispatch render task TaskPaused (Some revision) (Some control) dispatch d)
         (\<lambda>candidate. require (conflict_error ''paused Task start is no longer current'') candidate))"

definition continue_paused_root_dispatch ::
    "env \<Rightarrow> root_render \<Rightarrow> ident \<Rightarrow> ident \<Rightarrow> int \<Rightarrow> resume_event_basis \<Rightarrow> ident \<Rightarrow> db \<Rightarrow> db \<Rightarrow>
       (ident \<times> db) result" where
  "continue_paused_root_dispatch env render task revision control resume dispatch d d' =
     and_then (plan_paused_root render task revision control dispatch d) (\<lambda>(n, p).
     and_then (stage_root_dispatch_if_current env (Some resume) n p d') (\<lambda>(won, d1).
       if won then Inr (pr_dispatch_id p, d1)
       else Inl (conflict_error ''another controller transition won during continue'')))"

end
