(* ===== verification/TaskResume.thy ===== *)
theory TaskResume
  imports ReplanContinuation RootOpening
begin

text \<open>
  Continuing a paused Task (\<open>runtime/task_control/continuation.py\<close>,
  \<open>runtime/task_control/paused_continuation\<close>, \<open>continue_task\<close> of \<open>task_control/control.py\<close>): one
  transaction enumerates every paused lane and its source, a second one resumes the Task and opens
  all successors together, or nothing.
\<close>

subsection \<open>The paused Task\<close>

record paused_lane =
  pl_assignment_id :: ident
  pl_attempt_id :: ident
  pl_current_wait_id :: "ident option"

record paused_snapshot =
  ps_task_id :: ident
  ps_team_revision_id :: ident
  ps_control_revision :: int
  ps_pause_reason :: string
  ps_lanes :: "paused_lane list"

text \<open>A source with the claim that goes with it.\<close>

record continue_source =
  os_basis :: continuation_basis
  os_claim :: source_claim

record continuation_plan =
  cn_task :: paused_snapshot
  cn_sources :: "continue_source list"
  cn_has_unconsumed_task_start :: bool

record prepared_continuation =
  pp_snapshot :: ordinary_snapshot
  pp_prepared :: prepared_request
  pp_claim :: source_claim

fun insert_ordered :: "('a \<Rightarrow> 'a \<Rightarrow> bool) \<Rightarrow> 'a \<Rightarrow> 'a list \<Rightarrow> 'a list" where
  "insert_ordered le x [] = [x]"
| "insert_ordered le x (y # ys) = (if le x y then x # y # ys else y # insert_ordered le x ys)"

definition order_by :: "('a \<Rightarrow> 'a \<Rightarrow> bool) \<Rightarrow> 'a list \<Rightarrow> 'a list" where
  "order_by le xs = foldr (insert_ordered le) xs []"

definition keys_less_eq :: "('a \<Rightarrow> ident \<times> ident \<times> ident) \<Rightarrow> 'a \<Rightarrow> 'a \<Rightarrow> bool" where
  "keys_less_eq key x y = lane_less_eq (key x) (key y)"

definition continuable_pause_reasons :: "string list" where
  "continuable_pause_reasons =
     [''paused_by_operator'', ''runtime_recovery_exhausted'', ''runtime_transition_failed'']"

definition read_paused_task_snapshot :: "ident \<Rightarrow> ident \<Rightarrow> int \<Rightarrow> db \<Rightarrow> paused_snapshot result" where
  "read_paused_task_snapshot task revision control d =
     (case Option.bind (find (\<lambda>t. tk_task_id t = task \<and> tk_status t = TaskPaused \<and>
           tk_current_team_revision_id t = Some revision \<and> tk_control_revision t = control) (tasks d))
         (\<lambda>t. Option.bind (tk_pause_reason t) (\<lambda>reason.
            if reason \<in> set continuable_pause_reasons then Some (t, reason) else None)) of
        None \<Rightarrow> Inl (conflict_error ''Task is not paused at the expected revision'')
      | Some (t, reason) \<Rightarrow>
          (let rows = order_by (keys_less_eq (\<lambda>a. (at_assignment_id a, at_attempt_id a, '''')))
               (filter (\<lambda>a. at_task_id a = tk_task_id t \<and> at_status a = AttRunning) (attempts d)) in
           if list_ex (\<lambda>a. at_current_dispatch_id a \<noteq> None) rows
           then Inl (conflict_error ''paused Task still owns a current Attempt Dispatch'')
           else Inr \<lparr>ps_task_id = tk_task_id t, ps_team_revision_id = revision,
             ps_control_revision = tk_control_revision t, ps_pause_reason = reason,
             ps_lanes = map (\<lambda>a. \<lparr>pl_assignment_id = at_assignment_id a,
               pl_attempt_id = at_attempt_id a, pl_current_wait_id = at_current_wait_id a\<rparr>) rows\<rparr>))"

subsection \<open>The sources of its lanes\<close>

text \<open>The sources that the readers of one kind still find, in the order of their rows.\<close>

definition read_sources :: "source_reader \<Rightarrow> source_claim \<Rightarrow> ident list \<Rightarrow> db \<Rightarrow> continue_source list result" where
  "read_sources read claim ids d =
     and_then (map_result (\<lambda>i. read i d) ids) (\<lambda>bs.
       Inr (List.map_filter (map_option (\<lambda>b. \<lparr>os_basis = b, os_claim = claim\<rparr>)) bs))"

definition read_human_request_sources :: "library \<Rightarrow> paused_snapshot \<Rightarrow> db \<Rightarrow> continue_source list result" where
  "read_human_request_sources lib s d =
     read_sources (read_human_request_continuation_basis lib) claim_human_request_continuation
       (map hr_request_id (order_by
         (keys_less_eq (\<lambda>h. (hr_assignment_id h, hr_attempt_id h, hr_request_id h)))
         (filter (\<lambda>h. hr_task_id h = ps_task_id s \<and> is_terminal_human h \<and>
            hr_successor_dispatch_id h = None) (human_requests d)))) d"

definition read_command_run_sources :: "paused_snapshot \<Rightarrow> db \<Rightarrow> continue_source list result" where
  "read_command_run_sources s d =
     read_sources read_command_run_continuation_basis claim_command_run_continuation
       (map cr_run_id (order_by
         (keys_less_eq (\<lambda>r. (cr_assignment_id r, cr_attempt_id r, cr_run_id r)))
         (filter (\<lambda>r. cr_task_id r = ps_task_id s \<and> cr_state r \<in> set command_terminal_states \<and>
            cr_successor_dispatch_id r = None) (command_runs d)))) d"

definition read_delegation_wave_sources :: "paused_snapshot \<Rightarrow> db \<Rightarrow> continue_source list result" where
  "read_delegation_wave_sources s d =
     read_sources read_delegation_wave_continuation_basis claim_delegation_wave_continuation
       (map dw_delegation_wave_id (order_by
         (keys_less_eq (\<lambda>w. (dw_parent_assignment_id w, dw_parent_attempt_id w, dw_delegation_wave_id w)))
         (filter (\<lambda>w. dw_task_id w = ps_task_id s \<and> dw_status w = WaveSettled \<and>
            dw_successor_dispatch_id w = None) (waves d)))) d"

definition read_replan_sources ::
    "replan_result_reader \<Rightarrow> paused_snapshot \<Rightarrow> db \<Rightarrow> continue_source list result" where
  "read_replan_sources read_success s d =
     read_sources (read_replan_continuation_basis read_success) claim_replan_continuation
       (map rt_replan_transition_id (order_by
         (keys_less_eq (\<lambda>r. (rt_assignment_id r, rt_attempt_id r, rt_replan_transition_id r)))
         (filter (\<lambda>r. rt_task_id r = ps_task_id s \<and>
            rt_successor_team_revision_id r = ps_team_revision_id s \<and> replan_openable r)
           (replan_transitions d)))) d"

text \<open>A closed Dispatch without successor and without any source still to open.\<close>

definition claim_operator_continue_tail :: source_claim where
  "claim_operator_continue_tail n p d =
     (let b = sn_basis n; source = cb_source_dispatch_id b in
      if list_ex (\<lambda>t. dt_dispatch_id t = source \<and> dt_task_id t = cb_task_id b \<and>
           dt_assignment_id t = cb_assignment_id b \<and> dt_attempt_id t = cb_attempt_id b \<and>
           dt_status t = Closed \<and> dt_closed_reason t = Some (cb_source_dispatch_closed_reason b))
           (dispatches d) \<and>
         \<not> list_ex (\<lambda>t. dt_predecessor_dispatch_id t = Some source) (dispatches d) \<and>
         \<not> list_ex (\<lambda>h. hr_source_dispatch_id h = source \<and> hr_successor_dispatch_id h = None)
           (human_requests d) \<and>
         \<not> list_ex (\<lambda>r. cr_source_dispatch_id r = source \<and> cr_successor_dispatch_id r = None)
           (command_runs d) \<and>
         \<not> list_ex (\<lambda>w. dw_source_dispatch_id w = source \<and> dw_successor_dispatch_id w = None)
           (waves d) \<and>
         \<not> list_ex (\<lambda>r. rt_source_dispatch_id r = source \<and> rt_successor_dispatch_id r = None \<and>
             replan_unsettled r) (replan_transitions d)
      then Inr (Some d) else Inr None)"

definition closed_tail_source :: "paused_snapshot \<Rightarrow> dispatch_row \<Rightarrow> continue_source result" where
  "closed_tail_source s t =
     (case dt_closed_reason t of
        None \<Rightarrow> Inl (conflict_error ''closed lineage tail is missing its close reason'')
      | Some reason \<Rightarrow> Inr \<lparr>os_basis = \<lparr>cb_task_id = dt_task_id t, cb_assignment_id = dt_assignment_id t,
          cb_attempt_id = dt_attempt_id t, cb_source_dispatch_id = dt_dispatch_id t,
          cb_source_dispatch_closed_reason = reason, cb_opened_reason = OOperatorContinue,
          cb_trigger = OperatorContinueTrigger (dt_dispatch_id t) (ps_control_revision s)
            (ps_pause_reason s), cb_continuation_source_id = None\<rparr>,
          os_claim = claim_operator_continue_tail\<rparr>)"

definition read_closed_tail_sources :: "paused_snapshot \<Rightarrow> db \<Rightarrow> continue_source list result" where
  "read_closed_tail_sources s d =
     map_result (closed_tail_source s) (order_by
       (keys_less_eq (\<lambda>t. (dt_assignment_id t, dt_attempt_id t, dt_dispatch_id t)))
       (filter (\<lambda>t. dt_task_id t = ps_task_id s \<and> dt_status t = Closed \<and>
          dt_closed_reason t \<in> {Some CPaused, Some CControlFailed} \<and>
          \<not> list_ex (\<lambda>u. dt_predecessor_dispatch_id u = Some (dt_dispatch_id t)) (dispatches d))
         (dispatches d)))"

definition read_operator_continue_sources ::
    "library \<Rightarrow> replan_result_reader \<Rightarrow> paused_snapshot \<Rightarrow> db \<Rightarrow> continue_source list result" where
  "read_operator_continue_sources lib read_success s d =
     and_then (read_human_request_sources lib s d) (\<lambda>hs.
     and_then (read_command_run_sources s d) (\<lambda>cs.
     and_then (read_delegation_wave_sources s d) (\<lambda>ws.
     and_then (read_replan_sources read_success s d) (\<lambda>rs.
     and_then (read_closed_tail_sources s d) (\<lambda>ts. Inr (hs @ cs @ ws @ rs @ ts))))))"

subsection \<open>Validating the lanes\<close>

text \<open>A wait has exactly one source column.\<close>

definition wait_source_is_unresolved :: "wait_row \<Rightarrow> db \<Rightarrow> bool result" where
  "wait_source_is_unresolved w d =
     (case (aw_human_request_id w, aw_command_run_id w, aw_delegation_wave_id w) of
        (Some request, _, _) \<Rightarrow> Inr (list_ex (\<lambda>h. hr_request_id h = request \<and> hr_status h = HumanOpen \<and>
            hr_successor_dispatch_id h = None) (human_requests d))
      | (None, Some run, _) \<Rightarrow> Inr (list_ex (\<lambda>r. cr_run_id r = run \<and>
            cr_state r \<notin> set command_terminal_states \<and> cr_successor_dispatch_id r = None)
            (command_runs d))
      | (None, None, Some wave) \<Rightarrow> Inr (list_ex (\<lambda>v. dw_delegation_wave_id v = wave \<and>
            dw_status v = WaveOpen \<and> dw_successor_dispatch_id v = None) (waves d))
      | (None, None, None) \<Rightarrow> Inl (conflict_error ''Attempt wait has no typed source''))"

definition validate_current_attempt_wait :: "paused_snapshot \<Rightarrow> paused_lane \<Rightarrow> db \<Rightarrow> unit result" where
  "validate_current_attempt_wait s l d =
     (case find (\<lambda>w. Some (aw_wait_id w) = pl_current_wait_id l \<and> aw_task_id w = ps_task_id s \<and>
          aw_assignment_id w = pl_assignment_id l \<and> aw_attempt_id w = pl_attempt_id l) (waits d) of
        None \<Rightarrow> Inl (conflict_error ''Attempt current wait identity is inconsistent'')
      | Some w \<Rightarrow>
          and_then (wait_source_is_unresolved w d) (\<lambda>current.
            require_that (conflict_error ''Attempt wait source is no longer unresolved'') current))"

definition lane_key :: "continue_source \<Rightarrow> ident \<times> ident" where
  "lane_key q = (cb_assignment_id (os_basis q), cb_attempt_id (os_basis q))"

definition lane_sources :: "paused_lane \<Rightarrow> continue_source list \<Rightarrow> continue_source list" where
  "lane_sources l = filter (\<lambda>q. lane_key q = (pl_assignment_id l, pl_attempt_id l))"

definition validate_lane :: "paused_snapshot \<Rightarrow> continue_source list \<Rightarrow> bool \<Rightarrow> paused_lane \<Rightarrow> db \<Rightarrow> unit result" where
  "validate_lane s os has_start l d =
     (let found = lane_sources l os in
      if pl_current_wait_id l \<noteq> None
      then if found \<noteq> []
        then Inl (conflict_error ''waiting Attempt also retained a runnable continuation source'')
        else validate_current_attempt_wait s l d
      else if 1 < length found
      then Inl (conflict_error ''paused Attempt retained more than one runnable continuation source'')
      else if found = [] \<and> \<not> has_start
      then Inl (conflict_error ''paused Attempt has no exact continuation source'')
      else Inr ())"

definition validate_lane_sources :: "paused_snapshot \<Rightarrow> continue_source list \<Rightarrow> bool \<Rightarrow> db \<Rightarrow> unit result" where
  "validate_lane_sources s os has_start d =
     and_then (map_result (\<lambda>l. validate_lane s os has_start l d) (ps_lanes s)) (\<lambda>_.
       if has_start
       then require_that
         (conflict_error ''unconsumed Task start is not the exclusive initial Attempt source'')
         (length (ps_lanes s) = 1 \<and> os = [] \<and> pl_current_wait_id (hd (ps_lanes s)) = None)
       else require_that (conflict_error ''paused Task has no running Attempt lanes'') (ps_lanes s \<noteq> []))"

definition has_unconsumed_task_start :: "ident \<Rightarrow> db \<Rightarrow> bool" where
  "has_unconsumed_task_start task d \<longleftrightarrow>
     list_ex (\<lambda>s. ts_task_id s = task \<and> ts_successor_dispatch_id s = None) (task_starts d)"

text \<open>\<open>_source_sort_key\<close>; \<open>sorted\<close> is stable.\<close>

definition source_less_eq :: "continue_source \<Rightarrow> continue_source \<Rightarrow> bool" where
  "source_less_eq x y =
     (let key = (\<lambda>q. (case cb_continuation_source_id (os_basis q) of
            None \<Rightarrow> cb_source_dispatch_id (os_basis q)
          | Some i \<Rightarrow> if i = '''' then cb_source_dispatch_id (os_basis q) else i)) in
      if lane_key x = lane_key y
      then if cb_opened_reason (os_basis x) = cb_opened_reason (os_basis y)
        then string_less_eq (key x) (key y)
        else string_less_eq (opened_reason_value (cb_opened_reason (os_basis x)))
          (opened_reason_value (cb_opened_reason (os_basis y)))
      else lane_less_eq (fst (lane_key x), snd (lane_key x), '''') (fst (lane_key y), snd (lane_key y), ''''))"

definition read_paused_task_continuation_plan ::
    "library \<Rightarrow> replan_result_reader \<Rightarrow> ident \<Rightarrow> ident \<Rightarrow> int \<Rightarrow> db \<Rightarrow> continuation_plan result" where
  "read_paused_task_continuation_plan lib read_success task revision control d =
     and_then (read_paused_task_snapshot task revision control d) (\<lambda>s.
     and_then (read_operator_continue_sources lib read_success s d) (\<lambda>os.
     and_then (require_that (conflict_error ''paused Task retained a source outside its running Attempts'')
         (list_all (\<lambda>q. list_ex (\<lambda>l. lane_key q = (pl_assignment_id l, pl_attempt_id l)) (ps_lanes s)) os))
       (\<lambda>_.
         let has_start = has_unconsumed_task_start (ps_task_id s) d in
         and_then (validate_lane_sources s os has_start d) (\<lambda>_.
           Inr \<lparr>cn_task = s, cn_sources = order_by source_less_eq os,
             cn_has_unconsumed_task_start = has_start\<rparr>))))"

subsection \<open>Preparing every successor\<close>

text \<open>
  What a successor needs besides its snapshot: the inputs of its prompt, read in the planning
  transaction, and the request made of them after its rollback.
\<close>

record 'i preparation =
  pn_inputs :: "ordinary_snapshot \<Rightarrow> db \<Rightarrow> 'i result"
  pn_prepare :: "ordinary_snapshot \<Rightarrow> 'i \<Rightarrow> prepared_request result"

definition candidate_continuation ::
    "'i preparation \<Rightarrow> paused_snapshot \<Rightarrow> continue_source \<Rightarrow> db \<Rightarrow>
       (ordinary_snapshot \<times> continue_source \<times> 'i) result" where
  "candidate_continuation prep s q d =
     and_then (read_ordinary_dispatch_snapshot (os_basis q) TaskPaused (Some (ps_control_revision s)) d)
       (\<lambda>snapshot. case snapshot of
           None \<Rightarrow> Inl (conflict_error ''paused Attempt continuation is no longer current'')
         | Some n \<Rightarrow> and_then (pn_inputs prep n d) (\<lambda>inputs. Inr (n, q, inputs)))"

text \<open>The Dispatch identifiers are drawn one for each source, in order.\<close>

definition prepare_paused_continuations ::
    "'i preparation \<Rightarrow> (nat \<Rightarrow> ident) \<Rightarrow> continuation_plan \<Rightarrow> db \<Rightarrow> prepared_continuation list result" where
  "prepare_paused_continuations prep draw plan d =
     and_then (map_result (\<lambda>q. candidate_continuation prep (cn_task plan) q d) (cn_sources plan))
       (\<lambda>candidates. map_result (\<lambda>(i, n, q, inputs).
           and_then (pn_prepare prep n inputs) (\<lambda>p.
             Inr \<lparr>pp_snapshot = n, pp_prepared = p\<lparr>pr_dispatch_id := draw i\<rparr>, pp_claim = os_claim q\<rparr>))
         (enumerate 0 candidates))"

subsection \<open>Committing the continuation\<close>

definition paused_task_is_current :: "continuation_plan \<Rightarrow> db \<Rightarrow> task_row \<Rightarrow> bool" where
  "paused_task_is_current plan d t \<longleftrightarrow>
     (let s = cn_task plan in
      tk_task_id t = ps_task_id s \<and> tk_status t = TaskPaused \<and>
      tk_current_team_revision_id t = Some (ps_team_revision_id s) \<and>
      tk_control_revision t = ps_control_revision s \<and> tk_pause_reason t = Some (ps_pause_reason s) \<and>
      length (filter (\<lambda>a. at_task_id a = ps_task_id s \<and> at_status a = AttRunning) (attempts d)) =
        length (ps_lanes s) \<and>
      list_all (\<lambda>l. list_ex (\<lambda>a. at_task_id a = ps_task_id s \<and>
          at_assignment_id a = pl_assignment_id l \<and> at_attempt_id a = pl_attempt_id l \<and>
          at_status a = AttRunning \<and> at_current_dispatch_id a = None \<and>
          at_current_wait_id a = pl_current_wait_id l) (attempts d)) (ps_lanes s))"

definition resumed_task :: "time \<Rightarrow> task_row \<Rightarrow> task_row" where
  "resumed_task now t = (resume_task_row t)\<lparr>tk_updated_at := now\<rparr>"

definition reset_watchdog_replacement_counts :: "continuation_plan \<Rightarrow> db \<Rightarrow> db result" where
  "reset_watchdog_replacement_counts plan d =
     (let s = cn_task plan;
          p = (\<lambda>a. at_task_id a = ps_task_id s \<and> at_status a = AttRunning \<and>
            at_current_dispatch_id a = None) in
      and_then (update_all ck_attempt p (\<lambda>a. a\<lparr>at_watchdog_replacement_count := 0\<rparr>) (attempts d)) (\<lambda>rows.
      and_then (require_that
          (conflict_error ''paused Attempt lanes changed while resetting watchdog recovery budgets'')
          (set (map (\<lambda>a. (at_assignment_id a, at_attempt_id a)) (filter p (attempts d))) =
           set (map (\<lambda>l. (pl_assignment_id l, pl_attempt_id l)) (ps_lanes s)))) (\<lambda>_.
        Inr (d\<lparr>attempts := rows\<rparr>))))"

definition open_paused_continuation :: "env \<Rightarrow> prepared_continuation \<Rightarrow> db \<Rightarrow> db result" where
  "open_paused_continuation env q d =
     and_then (pp_claim q (pp_snapshot q) (pp_prepared q) d) (\<lambda>claimed. case claimed of
         None \<Rightarrow> Inl (conflict_error ''a paused Attempt source changed during continue'')
       | Some d1 \<Rightarrow>
           stage_starting_dispatch env (successor_basis (pp_snapshot q) None) (pp_prepared q) d1)"

definition resume_event_summary :: "nat \<Rightarrow> string" where
  "resume_event_summary lanes =
     ''Resumed by operator with '' @ decimal lanes @ '' runnable Attempt lane'' @
       (if lanes \<noteq> 1 then ''s'' else []) @ ''.''"

definition lanes_resumed_event ::
    "continuation_plan \<Rightarrow> nat \<Rightarrow> resume_event_basis \<Rightarrow> time \<Rightarrow> event_draft" where
  "lanes_resumed_event plan lanes resume now =
     \<lparr>ed_task_id = ps_task_id (cn_task plan), ed_event_type = TASK_RESUMED,
      ed_event_source = re_event_source resume, ed_occurred_at = now,
      ed_team_revision_id = Some (ps_team_revision_id (cn_task plan)), ed_dispatch_id = None,
      ed_attempt_id = None, ed_member_id = None, ed_actor_ref = re_actor_ref resume,
      ed_payload =
        [(''control_revision'', JInt (re_control_revision resume)),
         (''actor_ref'', json_opt (re_actor_ref resume)),
         (''summary'', JStr (resume_event_summary lanes))]\<rparr>"

definition commit_paused_continuations ::
    "env \<Rightarrow> continuation_plan \<Rightarrow> prepared_continuation list \<Rightarrow> resume_event_basis \<Rightarrow> db \<Rightarrow> db result" where
  "commit_paused_continuations env plan prepared resume d =
     (if re_control_revision resume \<noteq> ps_control_revision (cn_task plan) + 1
      then Inl (conflict_error ''resume event revision does not match the paused Task'')
      else and_then (update_checked ck_task
          (\<lambda>t. paused_task_is_current plan d t \<and>
             list_all (\<lambda>q. ordinary_context_is_current (pp_snapshot q) d) prepared)
          (resumed_task (env_now env)) (tasks d)) (\<lambda>changed. case changed of
          None \<Rightarrow> Inl (conflict_error ''another controller transition won during continue'')
        | Some ts \<Rightarrow>
            and_then (reset_watchdog_replacement_counts plan (d\<lparr>tasks := ts\<rparr>)) (\<lambda>d1.
            and_then (fold_result (open_paused_continuation env) prepared d1) (\<lambda>d2.
              append_task_event env
                (lanes_resumed_event plan (length prepared) resume (env_now env)) d2))))"

subsection \<open>The whole operation\<close>

text \<open>\<open>except AttemptDispatchConflictError\<close>, after the failures of a preparation.\<close>

fun as_continuation_failure :: "'a result \<Rightarrow> 'a result" where
  "as_continuation_failure (Inl (AttemptDispatchConflictError _)) =
     Inl (conflict_error ''another controller transition won during continue'')"
| "as_continuation_failure r = as_continue_failure r"

definition repair_paused_replan_manifest ::
    "env \<Rightarrow> manifest_projection \<Rightarrow> ident \<Rightarrow> unit result \<times> db \<Rightarrow> unit result \<times> db" where
  "repair_paused_replan_manifest env project transition s =
     (case s of
        (Inl f, d) \<Rightarrow> (Inl f, d)
      | (Inr _, d) \<Rightarrow>
          (case ensure_replan_manifest_current env project transition d of
             Inl f \<Rightarrow> (Inl f, d)
           | Inr (current, d1) \<Rightarrow>
               (require_that (conflict_error
                  (''paused replan '' @ quoted transition @ '' could not make its manifest current''))
                  current, d1)))"

definition repair_paused_replan_manifests ::
    "env \<Rightarrow> manifest_projection \<Rightarrow> ident \<Rightarrow> ident \<Rightarrow> int \<Rightarrow> db \<Rightarrow> unit result \<times> db" where
  "repair_paused_replan_manifests env project task revision control d =
     fold (repair_paused_replan_manifest env project)
       (map rt_replan_transition_id (order_by
         (\<lambda>r s. string_less_eq (rt_replan_transition_id r) (rt_replan_transition_id s))
         (filter (\<lambda>r. rt_task_id r = task \<and> rt_successor_team_revision_id r = revision \<and>
            replan_unsettled r \<and> rt_successor_dispatch_id r = None \<and>
            list_ex (\<lambda>t. tk_task_id t = rt_task_id r \<and> tk_status t = TaskPaused \<and>
              tk_current_team_revision_id t = Some revision \<and> tk_control_revision t = control)
              (tasks d)) (replan_transitions d))))
       (Inr (), d)"

text \<open>
  The transactions that follow the repairs: the plan and the preparation read \<open>d\<close>, the commit
  starts from \<open>d'\<close>. A Task whose start is unconsumed opens its root instead.
\<close>

record 'i continue_deps =
  cd_library :: library
  cd_read_success :: replan_result_reader
  cd_preparation :: "'i preparation"
  cd_root_render :: root_render
  cd_draw :: "nat \<Rightarrow> ident"

definition continue_planned_task ::
    "env \<Rightarrow> 'i continue_deps \<Rightarrow> ident \<Rightarrow> ident \<Rightarrow> int \<Rightarrow> resume_event_basis \<Rightarrow> db \<Rightarrow> db \<Rightarrow>
       (ident list \<times> db) result" where
  "continue_planned_task env deps task revision control resume d d' =
     as_continuation_failure
       (and_then (read_paused_task_continuation_plan (cd_library deps) (cd_read_success deps)
           task revision control d) (\<lambda>plan.
          if cn_has_unconsumed_task_start plan
          then and_then (continue_paused_root_dispatch env (cd_root_render deps)
              (ps_task_id (cn_task plan)) (ps_team_revision_id (cn_task plan))
              (ps_control_revision (cn_task plan)) resume (cd_draw deps 0) d d')
            (\<lambda>(dispatch, d1). Inr ([dispatch], d1))
          else and_then (prepare_paused_continuations (cd_preparation deps) (cd_draw deps) plan d)
            (\<lambda>prepared.
              and_then (commit_paused_continuations env plan prepared resume d')
                (\<lambda>d1. Inr (map (pr_dispatch_id \<circ> pp_prepared) prepared, d1)))))"

text \<open>
  \<open>continue_task\<close>. The probe of the Task's workspace is a parameter; \<open>after_repair\<close> and
  \<open>after_plan\<close> are what other transactions do between those of the operation.
\<close>

definition admit_continue ::
    "(string \<Rightarrow> ident \<Rightarrow> bool result) \<Rightarrow> ident \<Rightarrow> ident \<Rightarrow> int \<Rightarrow> db \<Rightarrow> unit result" where
  "admit_continue available task revision control d =
     and_then (read_control_task task d) (\<lambda>t.
     and_then (require_control_snapshot t revision control [TaskPaused]) (\<lambda>_.
     and_then (require_that (conflict_error
         ''the current Team selects retired provider OpenClaw and cannot be resumed'')
         (tk_pause_reason t \<noteq> Some ''provider_retired'')) (\<lambda>_.
     and_then (available (tk_task_root_path t) (tk_task_id t))
       (require_that (conflict_error
         ''The Task workspace is unavailable and the run cannot be resumed.'')))))"

definition continue_task ::
    "env \<Rightarrow> 'i continue_deps \<Rightarrow> manifest_projection \<Rightarrow> (string \<Rightarrow> ident \<Rightarrow> bool result) \<Rightarrow>
       (db \<Rightarrow> db) \<Rightarrow> (db \<Rightarrow> db) \<Rightarrow> ident \<Rightarrow> ident \<Rightarrow> int \<Rightarrow> string option \<Rightarrow> event_source \<Rightarrow> db \<Rightarrow>
       ident list result \<times> db" where
  "continue_task env deps project available after_repair after_plan task revision control actor src d =
     (case admit_continue available task revision control d of
        Inl f \<Rightarrow> (Inl f, d)
      | Inr _ \<Rightarrow>
          (case repair_paused_replan_manifests env project task revision control d of
             (Inl f, d1) \<Rightarrow> (as_continuation_failure (Inl f), d1)
           | (Inr _, d1) \<Rightarrow>
               (let d2 = after_repair d1; d3 = after_plan d2 in
                case continue_planned_task env deps task revision control
                    \<lparr>re_control_revision = control + 1, re_actor_ref = actor, re_event_source = src\<rparr>
                    d2 d3 of
                  Inl f \<Rightarrow> (Inl f, d3)
                | Inr (opened, d4) \<Rightarrow> (Inr opened, d4))))"

end
