(* ===== verification/WorkspaceAvailability.thy ===== *)
theory WorkspaceAvailability
  imports TaskControl
begin

text \<open>
  The pause of a Task whose workspace cannot be opened (\<open>runtime/workspace/availability.py\<close>). A
  Task root is given by the parts the code takes from its path; opening the directories is the
  parameter \<open>opened\<close>: nothing there, opened, or the error of the operating system.
\<close>

datatype errno = EACCES | ENOENT | ENOTDIR | EPERM | ESTALE | ELOOP | OtherErrno int

datatype os_error = FileNotFoundError | NotADirectoryError | PermissionError | OtherOSError "errno option"

definition is_workspace_unavailable_error :: "os_error \<Rightarrow> bool" where
  "is_workspace_unavailable_error e \<longleftrightarrow>
     e \<in> {FileNotFoundError, NotADirectoryError, PermissionError} \<or>
     e \<in> OtherOSError ` Some ` {EACCES, ENOENT, ENOTDIR, EPERM, ESTALE, ELOOP}"

record task_root_path =
  rp_is_absolute :: bool
  rp_name :: string
  rp_container_name :: string
  rp_workspace :: string

definition task_workspace_root :: "task_root_path \<Rightarrow> ident \<Rightarrow> string result" where
  "task_workspace_root root task =
     (if \<not> rp_is_absolute root \<or> rp_name root \<noteq> task \<or> rp_container_name root \<notin> set task_containers
      then Inl (RuntimeError (''Task '' @ quoted task @ '' has an inconsistent persisted Task root''))
      else Inr (rp_workspace root))"

text \<open>An error that does not mean an unavailable workspace is raised again.\<close>

definition task_workspace_is_available ::
    "(string \<Rightarrow> string \<Rightarrow> ident \<Rightarrow> os_error + bool) \<Rightarrow> task_root_path \<Rightarrow> ident \<Rightarrow> bool result" where
  "task_workspace_is_available opened root task =
     and_then (task_workspace_root root task) (\<lambda>workspace.
       case opened workspace (rp_container_name root) task of
         Inr found \<Rightarrow> Inr found
       | Inl e \<Rightarrow>
           if is_workspace_unavailable_error e then Inr False
           else Inl (OSError ''Task root cannot be opened''))"

definition workspace_paused_task :: "string \<Rightarrow> time \<Rightarrow> task_row \<Rightarrow> task_row" where
  "workspace_paused_task workspace now t =
     t\<lparr>tk_status := TaskPaused, tk_pause_reason := Some ''workspace_unavailable'',
       tk_pause_details := Some [(''failure_code'', JStr ''workspace_unavailable''),
         (''workspace'', JStr workspace)],
       tk_paused_at := Some now, tk_paused_by_actor_ref := Some ''controller.runtime'',
       tk_control_revision := tk_control_revision t + 1, tk_updated_at := now\<rparr>"

definition workspace_paused_event :: "ident \<Rightarrow> ident \<Rightarrow> int \<Rightarrow> time \<Rightarrow> event_draft" where
  "workspace_paused_event task revision control now =
     \<lparr>ed_task_id = task, ed_event_type = TASK_PAUSED, ed_event_source = SrcController,
      ed_occurred_at = now, ed_team_revision_id = Some revision, ed_dispatch_id = None,
      ed_attempt_id = None, ed_member_id = None, ed_actor_ref = Some ''controller.runtime'',
      ed_payload = [(''pause_reason'', JStr ''workspace_unavailable''),
        (''control_revision'', JInt control), (''actor_ref'', JStr ''controller.runtime''),
        (''summary'', JStr ''Paused because the Task workspace is unavailable.'')]\<rparr>"

definition pause_task_for_unavailable_workspace ::
    "env \<Rightarrow> ident \<Rightarrow> string \<Rightarrow> db \<Rightarrow> (bool \<times> db) result" where
  "pause_task_for_unavailable_workspace env task workspace d =
     (case find (\<lambda>t. tk_task_id t = task \<and> tk_status t = TaskRunning) (tasks d) of
        None \<Rightarrow> Inr (False, d)
      | Some t \<Rightarrow>
          and_then (update_all ck_task (\<lambda>t. tk_task_id t = task \<and> tk_status t = TaskRunning)
            (workspace_paused_task workspace (env_now env)) (tasks d)) (\<lambda>ts.
          (case tk_current_team_revision_id t of
             None \<Rightarrow> Inl (RuntimeError (''running Task '' @ quoted task @ '' has no current Team revision''))
           | Some revision \<Rightarrow>
               and_then (close_current_task_dispatches task CPaused (env_now env) Map.empty
                   (d\<lparr>tasks := ts\<rparr>)) (\<lambda>(closed, d1).
               and_then (append_task_event env (workspace_paused_event task revision
                   (tk_control_revision t + 1) (env_now env)) d1)
                 (\<lambda>d2. Inr (True, d2))))))"

end
