(* ===== verification/ContinuationProofs.thy ===== *)
theory ContinuationProofs
  imports ReplanContinuation CommandRunProofs HumanRequestProofs TaskControlProofs
begin

text \<open>
  What opening a successor does: it keeps the invariant, happens only on a running Task with the
  idle lane of the source's Attempt, and consumes its source for good. The three kinds of source
  share the argument through the locale \<open>continuation_source\<close>.
\<close>

subsection \<open>Staging a Dispatch and the sources\<close>

lemma stage_starting_dispatch_runtime_ok:
  assumes ok: "runtime_ok (env_event_hash env) d" and st: "stage_starting_dispatch env b p d = Inr d'"
  shows "runtime_ok (env_event_hash env) d'"
proof -
  note f = stage_starting_dispatch_frame [OF st]
  have "humans_ok d'" by (rule humans_ok_frame [OF _ _ runtime_ok_parts(2) [OF ok]]) (simp_all add: f)
  moreover have "commands_ok d'"
    by (rule commands_ok_frame [OF _ _ runtime_ok_parts(3) [OF ok]]) (simp_all add: f task_is_cancelled_def)
  ultimately show ?thesis
    using stage_starting_dispatch_controller_ok [OF runtime_ok_parts(1) [OF ok] st] by (simp add: runtime_ok_def)
qed

text \<open>A claim changes the table of its source alone.\<close>

definition claim_frame :: "db \<Rightarrow> db \<Rightarrow> bool" where
  "claim_frame d d' \<longleftrightarrow>
     tasks d' = tasks d \<and> assignments d' = assignments d \<and> attempts d' = attempts d \<and>
     dispatches d' = dispatches d \<and> waits d' = waits d \<and> team_members d' = team_members d \<and>
     dispatch_requests d' = dispatch_requests d \<and> dispatch_capabilities d' = dispatch_capabilities d \<and>
     events d' = events d \<and> event_heads d' = event_heads d"

lemma claim_frame_tables [simp, intro]:
  "claim_frame d (d\<lparr>human_requests := hs\<rparr>)" "claim_frame d (d\<lparr>command_runs := rs\<rparr>)"
  "claim_frame d (d\<lparr>waves := ws\<rparr>)" "claim_frame d (d\<lparr>replan_transitions := ts\<rparr>)" "claim_frame d d"
  by (simp_all add: claim_frame_def)

subsection \<open>One source table at a time\<close>

lemma humans_ok_touch:
  assumes ok: "humans_ok d" and h: "h \<in> set (human_requests d)"
    and h': "ck_human_request h'" "human_wait_matches h' = human_wait_matches h"
      "hr_request_id h' = hr_request_id h" "hr_status h' = hr_status h"
  shows "humans_ok (d\<lparr>human_requests := replace_row h h' (human_requests d)\<rparr>)"
proof -
  note H = ok [unfolded humans_ok_def]
  have "keyed hr_request_id (replace_row h h' (human_requests d))"
    using H h h' by (simp add: keyed_replace_row)
  moreover have "\<forall>g \<in> insert h' (set (human_requests d) - {h}). ck_human_request g" using H h' by blast
  moreover have "(hr_status g = HumanOpen \<longrightarrow> (\<exists>w \<in> set (waits d). human_wait_matches g w))"
    if "g \<in> insert h' (set (human_requests d) - {h})" for g
    using that H h h' by (metis DiffD1 insertE)
  moreover have "\<exists>g \<in> insert h' (set (human_requests d) - {h}). hr_status g = HumanOpen \<and> human_wait_matches g w"
    if "w \<in> set (waits d)" "aw_human_request_id w \<noteq> None" for w
  proof -
    obtain g where "g \<in> set (human_requests d)" "hr_status g = HumanOpen" "human_wait_matches g w"
      using H \<open>w \<in> set (waits d)\<close> \<open>aw_human_request_id w \<noteq> None\<close> by blast
    then show ?thesis using h' by (cases "g = h") auto
  qed
  ultimately show ?thesis using h by (simp add: humans_ok_def set_replace_row)
qed

lemma runtime_ok_humans:
  assumes ok: "runtime_ok H d" and h: "humans_ok (d\<lparr>human_requests := hs\<rparr>)"
  shows "runtime_ok H (d\<lparr>human_requests := hs\<rparr>)"
proof -
  have "commands_ok (d\<lparr>human_requests := hs\<rparr>)"
    by (rule commands_ok_frame [OF _ _ runtime_ok_parts(3) [OF ok]]) (simp_all add: task_is_cancelled_def)
  then show ?thesis using ok h by (simp add: runtime_ok_def)
qed

lemma runtime_ok_waves:
  assumes ok: "runtime_ok H d" and w: "waves_ok (d\<lparr>waves := ws\<rparr>)"
  shows "runtime_ok H (d\<lparr>waves := ws\<rparr>)"
proof -
  note c = runtime_ok_parts(1) [OF ok]
  have "lanes_ok (d\<lparr>waves := ws\<rparr>)"
    using controller_ok_parts(1) [OF c] lanes_ok_frame [of "d\<lparr>waves := ws\<rparr>" d] by simp
  then have "controller_ok H (d\<lparr>waves := ws\<rparr>)" by (intro controller_ok_waves [OF c w]) simp_all
  moreover have "humans_ok (d\<lparr>waves := ws\<rparr>)"
    by (rule humans_ok_frame [OF _ _ runtime_ok_parts(2) [OF ok]]) simp_all
  moreover have "commands_ok (d\<lparr>waves := ws\<rparr>)"
    by (rule commands_ok_frame [OF _ _ runtime_ok_parts(3) [OF ok]]) (simp_all add: task_is_cancelled_def)
  ultimately show ?thesis by (simp add: runtime_ok_def)
qed

text \<open>A guarded update of the one row its guard can select.\<close>

lemma update_checked_one:
  assumes key: "keyed key rs" and up: "update_checked ck p f rs = Inr (Some rs')"
    and p: "\<And>r. p r \<Longrightarrow> key r = k"
  obtains r where "r \<in> set rs" "p r" "ck (f r)" "rs' = replace_row r (f r) rs"
proof -
  have pk: "\<forall>r. p r \<longrightarrow> key r = k" using p by blast
  from up have "(\<forall>r \<in> set rs. p r \<longrightarrow> ck (f r)) \<and> update_where p f rs = Some rs'"
    unfolding update_checked_Inr_iff by metis
  then show thesis using that unfolding update_unique_iff [OF key pk] by blast
qed

subsection \<open>Spending a source\<close>

text \<open>
  A source is spent when its row names its successor. \<open>basis_source\<close> is the source a basis was
  read from; a closed Dispatch that is simply continued, or replaced by the watchdog, has none.
\<close>

datatype source_ref =
    HumanSource ident | CommandSource ident | WaveSource ident | ReplanSource ident | StartSource ident

fun source_spent :: "source_ref \<Rightarrow> ident \<Rightarrow> db \<Rightarrow> bool" where
  "source_spent (HumanSource k) y d \<longleftrightarrow>
     (\<exists>h \<in> set (human_requests d). hr_request_id h = k \<and> hr_successor_dispatch_id h = Some y)"
| "source_spent (CommandSource k) y d \<longleftrightarrow>
     (\<exists>r \<in> set (command_runs d). cr_run_id r = k \<and> cr_successor_dispatch_id r = Some y)"
| "source_spent (WaveSource k) y d \<longleftrightarrow>
     (\<exists>w \<in> set (waves d). dw_delegation_wave_id w = k \<and> dw_successor_dispatch_id w = Some y)"
| "source_spent (ReplanSource k) y d \<longleftrightarrow>
     (\<exists>r \<in> set (replan_transitions d). rt_replan_transition_id r = k \<and> rt_successor_dispatch_id r = Some y)"
| "source_spent (StartSource k) y d \<longleftrightarrow>
     (\<exists>s \<in> set (task_starts d). ts_task_id s = k \<and> ts_successor_dispatch_id s = Some y)"

fun basis_source :: "continuation_basis \<Rightarrow> source_ref option" where
  "basis_source b = (case cb_trigger b of
     DelegationWaveSettledTrigger w _ _ \<Rightarrow> Some (WaveSource w)
   | HumanResultTrigger t \<Rightarrow> Some (HumanSource (ht_request_id t))
   | CommandResultTrigger t \<Rightarrow> Some (CommandSource (ct_command_id t))
   | StructuralReplanTrigger _ _ _ \<Rightarrow> map_option ReplanSource (cb_continuation_source_id b)
   | _ \<Rightarrow> None)"

definition sources_forward :: "db \<Rightarrow> db \<Rightarrow> bool" where
  "sources_forward d d' \<longleftrightarrow> (\<forall>s y. source_spent s y d \<longrightarrow> source_spent s y d')"

lemma sources_forward_refl [simp]: "sources_forward d d"
  by (simp add: sources_forward_def)

lemma sources_forward_trans: "sources_forward d d' \<Longrightarrow> sources_forward d' d'' \<Longrightarrow> sources_forward d d''"
  by (simp add: sources_forward_def)

text \<open>The five tables are enough.\<close>

lemma source_spent_same:
  assumes "human_requests d' = human_requests d" "command_runs d' = command_runs d" "waves d' = waves d"
    "replan_transitions d' = replan_transitions d" "task_starts d' = task_starts d"
  shows "source_spent s y d' = source_spent s y d"
  using assms by (cases s) simp_all

lemma sources_forward_same:
  "human_requests d' = human_requests d \<Longrightarrow> command_runs d' = command_runs d \<Longrightarrow> waves d' = waves d \<Longrightarrow>
     replan_transitions d' = replan_transitions d \<Longrightarrow> task_starts d' = task_starts d \<Longrightarrow>
     sources_forward d d'"
  unfolding sources_forward_def using source_spent_same [of d' d] by blast

lemma sources_forwardI:
  assumes "\<And>k y. source_spent (HumanSource k) y d \<Longrightarrow> source_spent (HumanSource k) y d'"
    and "\<And>k y. source_spent (CommandSource k) y d \<Longrightarrow> source_spent (CommandSource k) y d'"
    and "\<And>k y. source_spent (WaveSource k) y d \<Longrightarrow> source_spent (WaveSource k) y d'"
    and "\<And>k y. source_spent (ReplanSource k) y d \<Longrightarrow> source_spent (ReplanSource k) y d'"
    and "\<And>k y. source_spent (StartSource k) y d \<Longrightarrow> source_spent (StartSource k) y d'"
  shows "sources_forward d d'"
  unfolding sources_forward_def
proof (intro allI impI)
  fix s y assume a: "source_spent s y d"
  show "source_spent s y d'"
  proof (cases s)
    case (HumanSource k)
    show ?thesis unfolding HumanSource by (rule assms(1) [OF a [unfolded HumanSource]])
  next
    case (CommandSource k)
    show ?thesis unfolding CommandSource by (rule assms(2) [OF a [unfolded CommandSource]])
  next
    case (WaveSource k)
    show ?thesis unfolding WaveSource by (rule assms(3) [OF a [unfolded WaveSource]])
  next
    case (ReplanSource k)
    show ?thesis unfolding ReplanSource by (rule assms(4) [OF a [unfolded ReplanSource]])
  next
    case (StartSource k)
    show ?thesis unfolding StartSource by (rule assms(5) [OF a [unfolded StartSource]])
  qed
qed

text \<open>
  Marking one row of a keyed table: it was free, it is taken now, and no mark is lost. The key and
  the mark are those of the table.
\<close>

lemma mark_row:
  assumes key: "keyed key rs" and r: "r \<in> set rs" "succ r = None"
    and f: "key (f r) = key r" "succ (f r) = Some x"
  shows "\<not> (\<exists>q \<in> set rs. key q = key r \<and> succ q = Some y)"
    "\<exists>q \<in> set (replace_row r (f r) rs). key q = key r \<and> succ q = Some x"
    "\<exists>q \<in> set rs. key q = k \<and> succ q = Some z \<Longrightarrow>
       \<exists>q \<in> set (replace_row r (f r) rs). key q = k \<and> succ q = Some z"
proof -
  have "succ q = None" if "q \<in> set rs" "key q = key r" for q
    using keyed_unique [OF key that(1) r(1) that(2)] r(2) by simp
  then show "\<not> (\<exists>q \<in> set rs. key q = key r \<and> succ q = Some y)" by auto
  show "\<exists>q \<in> set (replace_row r (f r) rs). key q = key r \<and> succ q = Some x"
    using r f by (auto simp: set_replace_row)
  assume "\<exists>q \<in> set rs. key q = k \<and> succ q = Some z"
  then show "\<exists>q \<in> set (replace_row r (f r) rs). key q = k \<and> succ q = Some z"
    using r by (auto simp: set_replace_row)
qed

text \<open>
  The invariant of a state with its other two sources: the keys of replan transitions and Task
  starts, and the CHECK constraints of the former.
\<close>

definition replans_ok :: "db \<Rightarrow> bool" where
  "replans_ok d \<longleftrightarrow> keyed rt_replan_transition_id (replan_transitions d) \<and>
     (\<forall>r \<in> set (replan_transitions d). ck_replan r)"

definition starts_ok :: "db \<Rightarrow> bool" where
  "starts_ok d \<longleftrightarrow> keyed ts_task_id (task_starts d)"

definition system_ok :: "(event_row \<Rightarrow> string) \<Rightarrow> db \<Rightarrow> bool" where
  "system_ok H d \<longleftrightarrow> runtime_ok H d \<and> replans_ok d \<and> starts_ok d"

lemma system_ok_parts:
  "system_ok H d \<Longrightarrow> runtime_ok H d" "system_ok H d \<Longrightarrow> replans_ok d" "system_ok H d \<Longrightarrow> starts_ok d"
  by (simp_all add: system_ok_def)

lemma system_ok_frame:
  "system_ok H d \<Longrightarrow> runtime_ok H d' \<Longrightarrow> replan_transitions d' = replan_transitions d \<Longrightarrow>
     task_starts d' = task_starts d \<Longrightarrow> system_ok H d'"
  by (simp add: system_ok_def replans_ok_def starts_ok_def)

lemma source_keys:
  assumes "system_ok H d"
  shows "keyed hr_request_id (human_requests d)" "keyed cr_run_id (command_runs d)"
    "keyed dw_delegation_wave_id (waves d)" "keyed rt_replan_transition_id (replan_transitions d)"
    "keyed ts_task_id (task_starts d)"
  using assms runtime_ok_parts [of H d] controller_ok_parts(2) [OF runtime_ok_parts(1) [of H d]]
  by (simp_all add: system_ok_def replans_ok_def starts_ok_def humans_ok_def commands_ok_def waves_ok_def)

text \<open>What every claim does, and what a claim of a recorded source does besides.\<close>

locale successor_claim =
  fixes claim :: source_claim
  assumes claim_keeps: "system_ok H d \<Longrightarrow> claim n p d = Inr (Some d') \<Longrightarrow>
    system_ok H d' \<and> claim_frame d d' \<and> sources_forward d d'"

locale spending_claim = successor_claim claim for claim :: source_claim +
  assumes claim_spends: "system_ok H d \<Longrightarrow> claim n p d = Inr (Some d') \<Longrightarrow>
    basis_source (sn_basis n) = Some s \<Longrightarrow>
    (\<forall>y. \<not> source_spent s y d) \<and> source_spent s (pr_dispatch_id p) d'"

subsection \<open>The claims\<close>

text \<open>From the change of one table to the two contracts.\<close>

definition spends :: "ordinary_snapshot \<Rightarrow> prepared_request \<Rightarrow> db \<Rightarrow> db \<Rightarrow> bool" where
  "spends n p d d' \<longleftrightarrow> claim_frame d d' \<and> sources_forward d d' \<and>
     (\<exists>s. basis_source (sn_basis n) = Some s \<and> (\<forall>y. \<not> source_spent s y d) \<and>
        source_spent s (pr_dispatch_id p) d')"

lemma spending_claimI:
  assumes "\<And>H n p d d'. system_ok H d \<Longrightarrow> claim n p d = Inr (Some d') \<Longrightarrow> system_ok H d' \<and> spends n p d d'"
  shows "spending_claim claim"
proof
  fix H d n p d' s
  assume ok: "system_ok H d" and cl: "claim n p d = Inr (Some d')"
  note a = assms [OF ok cl]
  then show "system_ok H d' \<and> claim_frame d d' \<and> sources_forward d d'" by (simp add: spends_def)
  assume "basis_source (sn_basis n) = Some s"
  with a show "(\<forall>y. \<not> source_spent s y d) \<and> source_spent s (pr_dispatch_id p) d'" by (auto simp: spends_def)
qed

lemma claim_human_Some:
  assumes ok: "system_ok H d" and cl: "claim_human_request_continuation n p d = Inr (Some d')"
  shows "system_ok H d' \<and> spends n p d d'"
proof -
  let ?f = "\<lambda>h. h\<lparr>hr_successor_dispatch_id := Some (pr_dispatch_id p)\<rparr>"
  note rt = system_ok_parts(1) [OF ok] and key = source_keys(1) [OF ok]
  obtain trigger hs where tr: "cb_trigger (sn_basis n) = HumanResultTrigger trigger"
    and up: "update_checked ck_human_request (human_source_matches n trigger) ?f (human_requests d) = Inr (Some hs)"
    and d': "d' = d\<lparr>human_requests := hs\<rparr>"
    using cl unfolding claim_human_request_continuation_def
    by (auto split: prompt_trigger.split_asm elim!: and_then_InrE simp: map_option_eq_Some)
  obtain h where h: "h \<in> set (human_requests d)" "human_source_matches n trigger h" "ck_human_request (?f h)"
    "hs = replace_row h (?f h) (human_requests d)"
    by (rule update_checked_one [OF key up, of "ht_request_id trigger"]) (auto simp: human_source_matches_def Let_def)
  have m: "hr_request_id h = ht_request_id trigger" "hr_successor_dispatch_id h = None"
    using h(2) by (simp_all add: human_source_matches_def Let_def)
  have "humans_ok (d\<lparr>human_requests := hs\<rparr>)"
    unfolding h(4) by (rule humans_ok_touch [OF runtime_ok_parts(2) [OF rt] h(1,3)])
      (simp_all add: human_wait_matches_def fun_eq_iff)
  then have "system_ok H d'" unfolding d' by (intro system_ok_frame [OF ok runtime_ok_humans [OF rt]]) simp_all
  moreover note mark = mark_row [OF key h(1), of hr_successor_dispatch_id ?f "pr_dispatch_id p", OF m(2)]
  have "sources_forward d d'"
    by (rule sources_forwardI) (use mark(3) in \<open>simp_all add: d' h(4)\<close>)
  ultimately show ?thesis using m tr mark(1,2) by (simp add: spends_def d' h(4))
qed

lemma claim_command_Some:
  assumes ok: "system_ok H d" and cl: "claim_command_run_continuation n p d = Inr (Some d')"
  shows "system_ok H d' \<and> spends n p d d'"
proof -
  let ?f = "\<lambda>r. r\<lparr>cr_successor_dispatch_id := Some (pr_dispatch_id p)\<rparr>"
  note rt = system_ok_parts(1) [OF ok] and key = source_keys(2) [OF ok]
  obtain trigger rs where tr: "cb_trigger (sn_basis n) = CommandResultTrigger trigger"
    and up: "update_checked ck_command_run (command_source_matches n trigger) ?f (command_runs d) = Inr (Some rs)"
    and d': "d' = d\<lparr>command_runs := rs\<rparr>"
    using cl unfolding claim_command_run_continuation_def
    by (auto split: prompt_trigger.split_asm elim!: and_then_InrE simp: map_option_eq_Some)
  have C: "commands_ok d" by (rule runtime_ok_parts(3) [OF rt])
  obtain r where r: "r \<in> set (command_runs d)" "command_source_matches n trigger r" "ck_command_run (?f r)"
    "rs = replace_row r (?f r) (command_runs d)"
    by (rule update_checked_one [OF key up, of "ct_command_id trigger"]) (auto simp: command_source_matches_def Let_def)
  have m: "cr_run_id r = ct_command_id trigger" "cr_successor_dispatch_id r = None"
    using r(2) by (simp_all add: command_source_matches_def Let_def)
  have ended: "is_terminal_command r" using r(3) by (auto simp: ck_command_run_def is_terminal_command_def)
  have nowait: "\<not> command_wait_matches r u" if w: "u \<in> set (waits d)" for u
  proof
    assume u: "command_wait_matches r u"
    then have "aw_command_run_id u \<noteq> None" by (simp add: command_wait_matches_def)
    then obtain g where g: "g \<in> set (command_runs d)" "\<not> is_terminal_command g" "command_wait_matches g u"
      using C w unfolding commands_ok_def by blast
    have "g = r" using g u r(1) by (intro keyed_unique [OF key]) (auto simp: command_wait_matches_def)
    with g ended show False by simp
  qed
  have same: "command_identity (?f r) = command_identity r" "is_terminal_command (?f r)"
    using ended by (simp_all add: command_identity_def is_terminal_command_def)
  have "commands_ok (d\<lparr>command_runs := replace_row r (?f r) (command_runs d)\<rparr>)"
    by (rule commands_ok_replace [OF C r(1) same(1) r(3)]) (use same(2) nowait in simp_all)
  then have "commands_ok (d\<lparr>command_runs := rs\<rparr>)" by (simp only: r(4))
  then have "system_ok H d'"
    unfolding d' by (intro system_ok_frame [OF ok runtime_ok_commands [OF rt]]) simp_all
  moreover note mark = mark_row [OF key r(1), of cr_successor_dispatch_id ?f "pr_dispatch_id p", OF m(2)]
  have "sources_forward d d'"
    by (rule sources_forwardI) (use mark(3) in \<open>simp_all add: d' r(4)\<close>)
  ultimately show ?thesis using m tr mark(1,2) by (simp add: spends_def d' r(4))
qed

lemma claim_wave_Some:
  assumes ok: "system_ok H d" and cl: "claim_delegation_wave_continuation n p d = Inr (Some d')"
  shows "system_ok H d' \<and> spends n p d d'"
proof -
  let ?f = "\<lambda>w. w\<lparr>dw_successor_dispatch_id := Some (pr_dispatch_id p)\<rparr>"
  note rt = system_ok_parts(1) [OF ok] and key = source_keys(3) [OF ok]
  obtain wave src ms ws where tr: "cb_trigger (sn_basis n) = DelegationWaveSettledTrigger wave src ms"
    and up: "update_checked ck_wave (wave_source_matches n wave src) ?f (waves d) = Inr (Some ws)"
    and d': "d' = d\<lparr>waves := ws\<rparr>"
    using cl unfolding claim_delegation_wave_continuation_def
    by (auto split: prompt_trigger.split_asm option.split_asm elim!: and_then_InrE)
  have W: "waves_ok d" by (rule controller_ok_parts(2) [OF runtime_ok_parts(1) [OF rt]])
  obtain w where w: "w \<in> set (waves d)" "wave_source_matches n wave src w" "ck_wave (?f w)"
    "ws = replace_row w (?f w) (waves d)"
    by (rule update_checked_one [OF key up, of wave]) (auto simp: wave_source_matches_def Let_def)
  have m: "dw_delegation_wave_id w = wave" "dw_successor_dispatch_id w = None"
    using w(2) by (simp_all add: wave_source_matches_def Let_def)
  have "waves_ok (d\<lparr>waves := ws\<rparr>)"
    using W w(1,3) by (auto simp: waves_ok_def w(4) keyed_replace_row set_replace_row)
  then have "system_ok H d'" unfolding d' by (intro system_ok_frame [OF ok runtime_ok_waves [OF rt]]) simp_all
  moreover note mark = mark_row [OF key w(1), of dw_successor_dispatch_id ?f "pr_dispatch_id p", OF m(2)]
  have "sources_forward d d'"
    by (rule sources_forwardI) (use mark(3) in \<open>simp_all add: d' w(4)\<close>)
  ultimately show ?thesis using m tr mark(1,2) by (simp add: spends_def d' w(4))
qed

lemma claim_replan_Some:
  assumes ok: "system_ok H d" and cl: "claim_replan_continuation n p d = Inr (Some d')"
  shows "system_ok H d' \<and> spends n p d d'"
proof -
  let ?f = "\<lambda>r. r\<lparr>rt_successor_state := SuccessorOpened,
    rt_successor_dispatch_id := Some (pr_dispatch_id p), rt_successor_opened_at := Some (pr_due_at p),
    rt_failure_code := None, rt_failure_detail := None, rt_updated_at := pr_due_at p\<rparr>"
  note key = source_keys(4) [OF ok]
  obtain t rs where t: "transition_id_from_snapshot n = Inr t"
    and up: "update_checked ck_replan (replan_source_matches n t) ?f (replan_transitions d) = Inr (Some rs)"
    and d': "d' = d\<lparr>replan_transitions := rs\<rparr>"
    using cl unfolding claim_replan_continuation_def
    by (auto split: option.split_asm elim!: and_then_InrE)
  have tr: "basis_source (sn_basis n) = Some (ReplanSource t)"
    using t by (auto simp: transition_id_from_snapshot_def split: prompt_trigger.split_asm option.split_asm)
  obtain r where r: "r \<in> set (replan_transitions d)" "replan_source_matches n t r" "ck_replan (?f r)"
    "rs = replace_row r (?f r) (replan_transitions d)"
    by (rule update_checked_one [OF key up, of t]) (auto simp: replan_source_matches_def)
  have m: "rt_replan_transition_id r = t" "rt_successor_dispatch_id r = None"
    using r(2) by (simp_all add: replan_source_matches_def replan_openable_def)
  have "replans_ok d'"
    using system_ok_parts(2) [OF ok] r(1,3)
    by (auto simp: replans_ok_def d' r(4) keyed_replace_row set_replace_row)
  then have "system_ok H d'" using ok by (simp add: system_ok_def starts_ok_def d')
  moreover note mark = mark_row [OF key r(1), of rt_successor_dispatch_id ?f "pr_dispatch_id p", OF m(2)]
  have "sources_forward d d'"
    by (rule sources_forwardI) (use mark(3) in \<open>simp_all add: d' r(4)\<close>)
  ultimately show ?thesis using m tr mark(1,2) by (simp add: spends_def d' r(4))
qed

interpretation human_claim: spending_claim claim_human_request_continuation
  by (rule spending_claimI [OF claim_human_Some])

interpretation command_claim: spending_claim claim_command_run_continuation
  by (rule spending_claimI [OF claim_command_Some])

interpretation wave_claim: spending_claim claim_delegation_wave_continuation
  by (rule spending_claimI [OF claim_wave_Some])

interpretation replan_claim: spending_claim claim_replan_continuation
  by (rule spending_claimI [OF claim_replan_Some])

subsection \<open>Pausing after a failed preparation\<close>

definition paused_for_failure :: "(string \<times> string) list \<Rightarrow> string \<Rightarrow> time \<Rightarrow> task_row \<Rightarrow> task_row" where
  "paused_for_failure details code now t =
     t\<lparr>tk_status := TaskPaused, tk_pause_reason := Some ''runtime_transition_failed'',
       tk_pause_details := Some (map (\<lambda>(k, v). (k, JStr v)) (details @ [(''failure_code'', code)])),
       tk_paused_at := Some now, tk_paused_by_actor_ref := Some ''controller.runtime'',
       tk_control_revision := tk_control_revision t + 1, tk_updated_at := now\<rparr>"

text \<open>
  The pause of a Task whose failed source is still current, or nothing at all. The condition
  can hold of one Task only.
\<close>

lemma pause_for_failure_Inr:
  assumes ok: "runtime_ok (env_event_hash env) d"
    and one: "\<And>t u. current t d \<Longrightarrow> current u d \<Longrightarrow> tk_task_id t = tk_task_id u"
    and pa: "pause_task_for_runtime_transition_failure env current now details code d = Inr (closed, d')"
  shows "runtime_ok (env_event_hash env) d' \<and>
    human_requests d' = human_requests d \<and> command_runs d' = command_runs d \<and> waves d' = waves d \<and>
    waits d' = waits d \<and> replan_transitions d' = replan_transitions d \<and> task_starts d' = task_starts d \<and>
    (if \<exists>t \<in> set (tasks d). tk_status t = TaskRunning \<and> current t d
     then \<exists>t \<in> set (tasks d). tk_status t = TaskRunning \<and> current t d \<and>
       tasks d' = replace_row t (paused_for_failure details code now t) (tasks d) \<and>
       (\<forall>u \<in> set (dispatches d'). dt_task_id u = tk_task_id t \<longrightarrow> \<not> dispatch_is_active u)
     else closed = [] \<and> d' = d)"
proof -
  let ?p = "\<lambda>t. tk_status t = TaskRunning \<and> current t d"
  let ?f = "paused_for_failure details code now"
  have T: "tasks_ok d" by (rule controller_ok_parts(4) [OF runtime_ok_parts(1) [OF ok]])
  show ?thesis
  proof (cases "find ?p (tasks d)")
    case None
    then have "closed = []" "d' = d"
      using pa by (simp_all add: pause_task_for_runtime_transition_failure_def Let_def)
    moreover have none: "(\<exists>t \<in> set (tasks d). ?p t) = False" using None by (auto simp: find_None_iff)
    ultimately show ?thesis unfolding none if_False using ok by simp
  next
    case (Some t)
    then have t: "t \<in> set (tasks d)" "?p t" by (auto dest: find_Some_D)
    have only: "r = t" if "r \<in> set (tasks d)" "?p r" for r
    proof (rule keyed_unique [OF _ that(1) t(1)])
      show "keyed tk_task_id (tasks d)" using T by (simp add: tasks_ok_def)
      show "tk_task_id r = tk_task_id t" using that(2) t(2) by (blast intro: one)
    qed
    have rows: "map (\<lambda>r. if ?p r then ?f r else r) (tasks d) = replace_row t (?f t) (tasks d)"
      unfolding replace_row_def
    proof (rule map_cong [OF refl])
      fix r assume r: "r \<in> set (tasks d)"
      have "?p r = (r = t)" using only [OF r] t(2) by blast
      then show "(if ?p r then ?f r else r) = (if r = t then ?f t else r)" by simp
    qed
    obtain d1 where cl: "close_current_task_dispatches (tk_task_id t) CPaused now Map.empty
          (d\<lparr>tasks := replace_row t (?f t) (tasks d)\<rparr>) = Inr (closed, d1)"
      and e: "append_task_event env (pause_runtime_failure_event (tk_task_id t)
          (tk_current_team_revision_id t) (tk_control_revision t + 1) code now) d1 = Inr d'"
      using pa Some rows [unfolded paused_for_failure_def]
      by (auto simp: pause_task_for_runtime_transition_failure_def Let_def paused_for_failure_def
          simp del: map_append elim!: and_then_InrE)
    have "ck_task (?f t)" using T t by (auto simp: tasks_ok_def ck_task_def paused_for_failure_def)
    then have "runtime_ok (env_event_hash env) (d\<lparr>tasks := replace_row t (?f t) (tasks d)\<rparr>)"
      using t by (intro runtime_ok_task [OF ok]) (simp_all add: paused_for_failure_def)
    then have ok1: "runtime_ok (env_event_hash env) d1" by (rule close_dispatches_runtime_ok [OF _ cl]) simp
    have ok': "runtime_ok (env_event_hash env) d'" by (rule append_runtime_ok [OF ok1 e])
    obtain ds as where d1: "d1 = d\<lparr>tasks := replace_row t (?f t) (tasks d), dispatches := ds, attempts := as\<rparr>"
      and c: "all_current_task_dispatches_closed (tk_task_id t) d1"
      using close_current_task_dispatches_frame [OF cl] by auto
    obtain es eh where d': "d' = d1\<lparr>events := es, event_heads := eh\<rparr>" using append_task_event_frame [OF e] by auto
    have "no_current_dispatch (tk_task_id t) d'"
      using closed_no_current_dispatch [OF c] by (simp add: d' no_current_dispatch_def)
    then have "\<forall>u \<in> set (dispatches d'). dt_task_id u = tk_task_id t \<longrightarrow> \<not> dispatch_is_active u"
      using no_active_dispatch [OF runtime_ok_parts(4) [OF ok']] by blast
    moreover have "tasks d' = replace_row t (?f t) (tasks d)" by (simp add: d' d1)
    moreover have "human_requests d' = human_requests d" "command_runs d' = command_runs d" "waves d' = waves d"
      "waits d' = waits d" "replan_transitions d' = replan_transitions d" "task_starts d' = task_starts d"
      by (simp_all add: d' d1)
    ultimately show ?thesis using ok' t by auto
  qed
qed

subsection \<open>One successor for each source\<close>

text \<open>The lane of the source was idle on a claimable Task; the successor occupies it.\<close>

definition successor_opened :: "ordinary_snapshot \<Rightarrow> prepared_request \<Rightarrow> db \<Rightarrow> db \<Rightarrow> bool" where
  "successor_opened n p d d' \<longleftrightarrow>
     (\<forall>u \<in> set (dispatches d). dt_attempt_id u = cb_attempt_id (sn_basis n) \<longrightarrow> \<not> dispatch_is_active u) \<and>
     dispatches d' = dispatches d @ [build_starting_dispatch_model (successor_basis n None) p] \<and>
     (\<exists>a \<in> set (attempts d). at_attempt_id a = cb_attempt_id (sn_basis n) \<and>
        at_task_id a = cb_task_id (sn_basis n) \<and> at_assignment_id a = cb_assignment_id (sn_basis n) \<and>
        at_status a = AttRunning \<and> at_current_dispatch_id a = None \<and> at_current_wait_id a = None \<and>
        attempts d' = replace_row a (a\<lparr>at_current_dispatch_id := Some (pr_dispatch_id p)\<rparr>) (attempts d))"

text \<open>A Dispatch staged on a lane of a consistent state finds it idle.\<close>

lemma staged_on_idle_lane:
  assumes ok: "lanes_ok d" and st: "stage_starting_dispatch env b p d = Inr d'"
  obtains a where "a \<in> set (attempts d)" "at_attempt_id a = sb_attempt_id b" "at_task_id a = sb_task_id b"
    "at_assignment_id a = sb_assignment_id b" "at_status a = AttRunning" "at_current_dispatch_id a = None"
    "at_current_wait_id a = None"
    "attempts d' = replace_row a (a\<lparr>at_current_dispatch_id := Some (pr_dispatch_id p)\<rparr>) (attempts d)"
    "insert_dispatch (build_starting_dispatch_model b p) (dispatches d) = Inr (dispatches d')"
proof -
  obtain a where a: "a \<in> set (attempts d)" "at_attempt_id a = sb_attempt_id b" "at_task_id a = sb_task_id b"
    "at_assignment_id a = sb_assignment_id b" "at_status a = AttRunning" "at_current_wait_id a = None"
    "attempts d' = replace_row a (a\<lparr>at_current_dispatch_id := Some (pr_dispatch_id p)\<rparr>) (attempts d)"
    "insert_dispatch (build_starting_dispatch_model b p) (dispatches d) = Inr (dispatches d')"
    by (rule stage_starting_dispatch_Some [OF lanes_ok_keys(1) [OF ok] st])
  note ds = insert_dispatch_Inr [OF a(8)]
  have "at_current_dispatch_id a = None"
  proof (rule ccontr)
    assume "at_current_dispatch_id a \<noteq> None"
    then obtain u where "u \<in> set (dispatches d)" "dispatch_is_active u" "attempt_owns_dispatch a u"
      using lanes_ok_keys(4) [OF ok] a(1) unfolding lanes_wf_def by meson
    then show False using ds a(2) by (auto simp: attempt_owns_dispatch_def)
  qed
  then show thesis using that a by blast
qed

lemma successor_basis_simps [simp]:
  "sb_attempt_id (successor_basis n r) = cb_attempt_id (sn_basis n)"
  "sb_task_id (successor_basis n r) = cb_task_id (sn_basis n)"
  "sb_assignment_id (successor_basis n r) = cb_assignment_id (sn_basis n)"
  "sb_predecessor_dispatch_id (successor_basis n r) = Some (cb_source_dispatch_id (sn_basis n))"
  "sb_opened_reason (successor_basis n r) = cb_opened_reason (sn_basis n)"
  by (simp_all add: successor_basis_def Let_def)

text \<open>A claim and the staging that follows it, the body of every opening.\<close>

context successor_claim
begin

lemma claim_and_stage:
  assumes ok: "system_ok (env_event_hash env) d" and cl: "claim n p d = Inr (Some d1)"
    and st: "stage_starting_dispatch env (successor_basis n None) p d1 = Inr d'"
  shows "system_ok (env_event_hash env) d' \<and> sources_forward d d' \<and> successor_opened n p d d' \<and>
    tasks d' = tasks d \<and> waits d' = waits d \<and> sources_forward d1 d'"
proof -
  have ok1: "system_ok (env_event_hash env) d1" and fr: "claim_frame d d1" and fw: "sources_forward d d1"
    using claim_keeps [OF ok cl] by blast+
  note f = stage_starting_dispatch_frame [OF st]
  note rt = system_ok_parts(1) [OF ok1]
  have ok': "system_ok (env_event_hash env) d'"
    by (rule system_ok_frame [OF ok1 stage_starting_dispatch_runtime_ok [OF rt st]]) (simp_all add: f)
  obtain a where a: "a \<in> set (attempts d1)" "at_attempt_id a = cb_attempt_id (sn_basis n)"
      "at_task_id a = cb_task_id (sn_basis n)" "at_assignment_id a = cb_assignment_id (sn_basis n)"
      "at_status a = AttRunning" "at_current_dispatch_id a = None" "at_current_wait_id a = None"
      "attempts d' = replace_row a (a\<lparr>at_current_dispatch_id := Some (pr_dispatch_id p)\<rparr>) (attempts d1)"
      "insert_dispatch (build_starting_dispatch_model (successor_basis n None) p) (dispatches d1) = Inr (dispatches d')"
    by (rule staged_on_idle_lane [OF runtime_ok_parts(4) [OF rt] st]) simp_all
  have same: "dispatches d1 = dispatches d" "attempts d1 = attempts d" "tasks d1 = tasks d" "waits d1 = waits d"
    using fr by (simp_all add: claim_frame_def)
  note ins = insert_dispatch_Inr [OF a(9)]
  have idle: "\<not> dispatch_is_active u" if "u \<in> set (dispatches d)" "dt_attempt_id u = cb_attempt_id (sn_basis n)" for u
    using ins that by (auto simp: same)
  have "successor_opened n p d d'"
    unfolding successor_opened_def using idle ins a(1-8) unfolding same by blast
  moreover have fw': "sources_forward d1 d'" by (rule sources_forward_same) (simp_all add: f)
  ultimately show ?thesis using ok' sources_forward_trans [OF fw fw'] same by (simp add: f)
qed

end

locale continuation_source = spending_claim claim for claim :: source_claim +
  fixes reader :: source_reader and recorder :: "env \<Rightarrow> failure_recorder" and ref :: "ident \<Rightarrow> source_ref"
  assumes reader_source: "reader s d = Inr (Some b) \<Longrightarrow> basis_source b = Some (ref s)"
    and recorder_Inr: "system_ok (env_event_hash env) d \<Longrightarrow> recorder env s c d = Inr (closed, d') \<Longrightarrow>
      system_ok (env_event_hash env) d' \<and> sources_forward d d'"
begin

lemma commit_effect:
  assumes ok: "system_ok (env_event_hash env) d"
    and c: "commit_ordinary_dispatch_if_current env claim False None n p d = Inr (True, d')"
    and src: "basis_source (sn_basis n) = Some s"
  shows "system_ok (env_event_hash env) d' \<and> sources_forward d d' \<and> successor_opened n p d d' \<and>
    tasks d' = tasks d \<and> (\<exists>t \<in> set (tasks d). claimable_task n d t) \<and>
    (\<forall>y. \<not> source_spent s y d) \<and> source_spent s (pr_dispatch_id p) d'"
proof -
  obtain ts d1 where up: "update_checked ck_task (claimable_task n d) (\<lambda>t. t) (tasks d) = Inr (Some ts)"
    and cl: "claim n p (d\<lparr>tasks := ts\<rparr>) = Inr (Some d1)"
    and st: "stage_starting_dispatch env (successor_basis n None) p d1 = Inr d'"
    using c unfolding commit_ordinary_dispatch_if_current_def
    by (auto split: option.split_asm elim!: and_then_InrE)
  from up have "update_where (claimable_task n d) (\<lambda>t. t) (tasks d) = Some ts"
    unfolding update_checked_Inr_iff by metis
  then have ts: "ts = tasks d" and t: "\<exists>t \<in> set (tasks d). claimable_task n d t"
    by (auto simp: update_where_Some_iff)
  have same: "d\<lparr>tasks := ts\<rparr> = d" by (simp add: ts)
  note cl' = cl [unfolded same]
  note e = claim_and_stage [OF ok cl' st]
  note sp = claim_spends [OF ok cl' src]
  have "source_spent s (pr_dispatch_id p) d'" using e sp by (auto simp: sources_forward_def)
  then show ?thesis using e sp t by blast
qed

lemma commit_False: "commit_ordinary_dispatch_if_current env claim sr re n p d = Inr (False, d') \<Longrightarrow> d' = d"
  unfolding commit_ordinary_dispatch_if_current_def
  by (auto split: option.split_asm elim!: and_then_InrE)

lemma opened:
  assumes ok: "system_ok (env_event_hash env) d'"
    and op: "open_ordinary_successor env render reader claim (recorder env) default_code s x d d' = Inr (Opened y, d'')"
  obtains n p where "plan_ordinary_successor render reader TaskRunning None s x d = Inr (Some (n, p))"
    "pr_dispatch_id p = x" "y = x" "\<exists>t \<in> set (tasks d'). claimable_task n d' t"
    "system_ok (env_event_hash env) d''" "sources_forward d' d''" "successor_opened n p d' d''"
    "tasks d'' = tasks d'" "\<forall>z. \<not> source_spent (ref s) z d'" "source_spent (ref s) x d''"
proof -
  obtain n p where pl: "plan_ordinary_successor render reader TaskRunning None s x d = Inr (Some (n, p))"
    and c: "commit_ordinary_dispatch_if_current env claim False None n p d' = Inr (True, d'')"
    and y: "y = pr_dispatch_id p"
    using op unfolding open_ordinary_successor_def
    by (auto split: sum.split_asm option.split_asm prod.split_asm if_split_asm elim!: and_then_InrE)
  obtain b q where b: "reader s d = Inr (Some b)"
    and sn: "read_ordinary_dispatch_snapshot b TaskRunning None d = Inr (Some n)"
    and p: "p = q\<lparr>pr_dispatch_id := x\<rparr>"
    using pl unfolding plan_ordinary_successor_def by (auto split: option.split_asm elim!: and_then_InrE)
  have "sn_basis n = b"
    using sn by (auto simp: read_ordinary_dispatch_snapshot_def split: option.split_asm elim!: and_then_InrE)
  then have src: "basis_source (sn_basis n) = Some (ref s)" using reader_source [OF b] by simp
  have x: "pr_dispatch_id p = x" by (simp add: p)
  note e = commit_effect [OF ok c src]
  show thesis by (rule that [OF pl x]) (use e y x in simp_all)
qed

lemma open_keeps:
  assumes ok: "system_ok (env_event_hash env) d'"
    and op: "open_ordinary_successor env render reader claim (recorder env) default_code s x d d' = Inr (r, d'')"
  shows "system_ok (env_event_hash env) d'' \<and> sources_forward d' d''"
proof (cases r)
  case (Opened y)
  show ?thesis by (rule opened [OF ok op [unfolded Opened]]) blast
next
  case Skipped
  then have "d'' = d'" using op unfolding open_ordinary_successor_def
    by (auto split: sum.split_asm option.split_asm prod.split_asm if_split_asm elim!: and_then_InrE dest: commit_False)
  then show ?thesis using ok by simp
next
  case (OpeningPaused closed)
  then obtain code where "recorder env s code d' = Inr (closed, d'')"
    using op unfolding open_ordinary_successor_def
    by (auto split: sum.split_asm option.split_asm prod.split_asm if_split_asm elim!: and_then_InrE)
  then show ?thesis using recorder_Inr [OF ok] by blast
qed

lemma never_twice:
  assumes "system_ok (env_event_hash env) d'" and "source_spent (ref s) y d'"
    and "open_ordinary_successor env render reader claim (recorder env) default_code s x d d' = Inr (r, d'')"
  shows "r \<noteq> Opened z"
proof
  assume r: "r = Opened z"
  have "\<forall>z. \<not> source_spent (ref s) z d'" by (rule opened [OF assms(1) assms(3) [unfolded r]])
  then show False using assms(2) by blast
qed

end

subsection \<open>The four sources\<close>

lemma human_reader_source:
  "read_human_request_continuation_basis lib s d = Inr (Some b) \<Longrightarrow> basis_source b = Some (HumanSource s)"
  unfolding read_human_request_continuation_basis_def human_request_continuation_basis_def
    build_human_result_trigger_def
  by (auto split: option.split_asm elim!: and_then_InrE dest!: find_Some_D)

lemma command_reader_source:
  "read_command_run_continuation_basis s d = Inr (Some b) \<Longrightarrow> basis_source b = Some (CommandSource s)"
  unfolding read_command_run_continuation_basis_def command_run_continuation_basis_def
  by (auto split: option.split_asm elim!: and_then_InrE dest!: find_Some_D)

lemma wave_reader_source:
  "read_delegation_wave_continuation_basis s d = Inr (Some b) \<Longrightarrow> basis_source b = Some (WaveSource s)"
  unfolding read_delegation_wave_continuation_basis_def Let_def
  by (auto split: option.split_asm if_split_asm elim!: and_then_InrE)

lemma replan_reader_source:
  "read_replan_continuation_basis f s d = Inr (Some b) \<Longrightarrow> basis_source b = Some (ReplanSource s)"
  unfolding read_replan_continuation_basis_def
  by (auto split: option.split_asm if_split_asm elim!: and_then_InrE dest!: find_Some_D)

text \<open>The failed source names one Task.\<close>

lemma keyed_row_task:
  assumes key: "keyed key rs"
    and "list_ex (\<lambda>r. key r = k \<and> task r = tk_task_id t \<and> p r) rs"
    and "list_ex (\<lambda>r. key r = k \<and> task r = tk_task_id u \<and> q r) rs"
  shows "tk_task_id t = tk_task_id u"
proof -
  obtain r where r: "r \<in> set rs" "key r = k" "task r = tk_task_id t"
    using assms(2) by (auto simp: list_ex_iff)
  obtain v where v: "v \<in> set rs" "key v = k" "task v = tk_task_id u"
    using assms(3) by (auto simp: list_ex_iff)
  have "r = v" by (rule keyed_unique [OF key r(1) v(1)]) (simp add: r v)
  then show ?thesis using r v by simp
qed

lemma pause_for_failure_system:
  assumes ok: "system_ok (env_event_hash env) d"
    and one: "\<And>t u. current t d \<Longrightarrow> current u d \<Longrightarrow> tk_task_id t = tk_task_id u"
    and pa: "pause_task_for_runtime_transition_failure env current now details code d = Inr (closed, d')"
  shows "system_ok (env_event_hash env) d' \<and> sources_forward d d'"
  using pause_for_failure_Inr [OF system_ok_parts(1) [OF ok] one pa]
  by (simp add: sources_forward_same system_ok_frame [OF ok])

interpretation human_source: continuation_source claim_human_request_continuation
  "read_human_request_continuation_basis lib" pause_failed_human_request_continuation HumanSource for lib
proof
  fix env s c d closed d'
  assume ok: "system_ok (env_event_hash env) d"
    and pa: "pause_failed_human_request_continuation env s c d = Inr (closed, d')"
  show "system_ok (env_event_hash env) d' \<and> sources_forward d d'"
    by (rule pause_for_failure_system [OF ok keyed_row_task [OF source_keys(1) [OF ok]]
      pa [unfolded pause_failed_human_request_continuation_def]])
qed (rule human_reader_source)

interpretation command_source: continuation_source claim_command_run_continuation
  read_command_run_continuation_basis pause_failed_command_run_continuation CommandSource
proof
  fix env s c d closed d'
  assume ok: "system_ok (env_event_hash env) d"
    and pa: "pause_failed_command_run_continuation env s c d = Inr (closed, d')"
  show "system_ok (env_event_hash env) d' \<and> sources_forward d d'"
    by (rule pause_for_failure_system [OF ok keyed_row_task [OF source_keys(2) [OF ok]]
      pa [unfolded pause_failed_command_run_continuation_def]])
qed (rule command_reader_source)

interpretation wave_source: continuation_source claim_delegation_wave_continuation
  read_delegation_wave_continuation_basis pause_failed_delegation_wave_continuation WaveSource
proof
  fix env s c d closed d'
  assume ok: "system_ok (env_event_hash env) d"
    and pa: "pause_failed_delegation_wave_continuation env s c d = Inr (closed, d')"
  show "system_ok (env_event_hash env) d' \<and> sources_forward d d'"
    by (rule pause_for_failure_system [OF ok keyed_row_task [OF source_keys(3) [OF ok]]
      pa [unfolded pause_failed_delegation_wave_continuation_def]])
qed (rule wave_reader_source)

text \<open>The transition table under an update of unopened transitions.\<close>

lemma replans_update:
  assumes ok: "system_ok H d" and ck: "\<forall>r \<in> set (replan_transitions d). p r \<longrightarrow> ck_replan (f r)"
    and p: "\<And>r. p r \<Longrightarrow> rt_successor_dispatch_id r = None"
    and f: "\<And>r. rt_replan_transition_id (f r) = rt_replan_transition_id r"
  shows "system_ok H (d\<lparr>replan_transitions := map (\<lambda>r. if p r then f r else r) (replan_transitions d)\<rparr>) \<and>
    sources_forward d (d\<lparr>replan_transitions := map (\<lambda>r. if p r then f r else r) (replan_transitions d)\<rparr>)"
proof -
  let ?rs = "map (\<lambda>r. if p r then f r else r) (replan_transitions d)"
  have "keyed rt_replan_transition_id ?rs"
    by (rule keyed_update [OF source_keys(4) [OF ok] f])
  then have "replans_ok (d\<lparr>replan_transitions := ?rs\<rparr>)"
    using system_ok_parts(2) [OF ok] ck by (auto simp: replans_ok_def)
  then have "system_ok H (d\<lparr>replan_transitions := ?rs\<rparr>)" using ok by (simp add: system_ok_def starts_ok_def)
  moreover have "source_spent (ReplanSource k) y (d\<lparr>replan_transitions := ?rs\<rparr>)"
    if "source_spent (ReplanSource k) y d" for k y
    using that p by fastforce
  then have "sources_forward d (d\<lparr>replan_transitions := ?rs\<rparr>)" by (intro sources_forwardI) simp_all
  ultimately show ?thesis by blast
qed

interpretation replan_source: continuation_source claim_replan_continuation
  "read_replan_continuation_basis f" record_opening_failure ReplanSource for f
proof
  fix env s c d closed d'
  assume ok: "system_ok (env_event_hash env) d" and pa: "record_opening_failure env s c d = Inr (closed, d')"
  let ?p = "\<lambda>r. rt_replan_transition_id r = s \<and> replan_openable r"
  let ?f = "\<lambda>r. r\<lparr>rt_successor_state := SuccessorOpeningFailed, rt_failure_code := Some (take 128 c),
    rt_failure_detail := Some (take failure_detail_limit ''Successor Dispatch preparation failed.''),
    rt_updated_at := env_now env\<rparr>"
  have up: "\<forall>r \<in> set (replan_transitions d). ?p r \<longrightarrow> ck_replan (?f r)"
    and d': "d' = d\<lparr>replan_transitions := map (\<lambda>r. if ?p r then ?f r else r) (replan_transitions d)\<rparr>"
    using pa by (auto simp: record_opening_failure_def and_then_Inr_iff update_all_Inr_iff)
  show "system_ok (env_event_hash env) d' \<and> sources_forward d d'"
    unfolding d' by (rule replans_update [OF ok up]) (simp_all add: replan_openable_def)
qed (rule replan_reader_source)

end
