(* ===== verification/RootOpeningProofs.thy ===== *)
theory RootOpeningProofs
  imports RootOpening ContinuationProofs
begin

text \<open>
  What opening the root does: it keeps the invariant, finds the root lane idle, and spends the
  Task-start source, for a launched Task and for a paused one that is continued.
\<close>

lemma claim_root_Some:
  assumes ok: "system_ok H d" and cl: "claim_root_dispatch_source n x d = Some ss"
  shows "starts_ok (d\<lparr>task_starts := ss\<rparr>)" "sources_forward d (d\<lparr>task_starts := ss\<rparr>)"
    "\<not> source_spent (StartSource (rs_task_id n)) y d"
    "source_spent (StartSource (rs_task_id n)) x (d\<lparr>task_starts := ss\<rparr>)"
proof -
  let ?f = "\<lambda>s. s\<lparr>ts_successor_dispatch_id := Some x\<rparr>"
  note key = source_keys(5) [OF ok]
  obtain s where s: "s \<in> set (task_starts d)" "ts_task_id s = rs_task_id n" "ts_successor_dispatch_id s = None"
    "ss = replace_row s (?f s) (task_starts d)"
  proof -
    have pk: "\<forall>s. (ts_task_id s = rs_task_id n \<and> ts_root_assignment_id s = rs_assignment_id n \<and>
         ts_root_attempt_id s = rs_attempt_id n \<and> ts_successor_dispatch_id s = None \<and>
         ts_committed_at s = rs_source_committed_at n) \<longrightarrow> ts_task_id s = rs_task_id n" by blast
    from cl obtain s where "s \<in> set (task_starts d)" "ts_task_id s = rs_task_id n"
      "ts_successor_dispatch_id s = None" "ss = replace_row s (?f s) (task_starts d)"
      unfolding claim_root_dispatch_source_def update_unique_iff [OF key pk] by blast
    then show thesis by (rule that)
  qed
  note mark = mark_row [OF key s(1), of ts_successor_dispatch_id ?f x, OF s(3)]
  show "starts_ok (d\<lparr>task_starts := ss\<rparr>)" using key s(1) by (simp add: starts_ok_def s(4) keyed_replace_row)
  show "sources_forward d (d\<lparr>task_starts := ss\<rparr>)"
    by (rule sources_forwardI) (use mark(3) in \<open>simp_all add: s(4)\<close>)
  show "\<not> source_spent (StartSource (rs_task_id n)) y d"
    "source_spent (StartSource (rs_task_id n)) x (d\<lparr>task_starts := ss\<rparr>)"
    using mark(1,2) s(2) by (simp_all add: s(4))
qed

text \<open>The Task row a root opening leaves: unchanged, or resumed.\<close>

lemma root_task_Some:
  assumes ok: "system_ok H d"
    and up: "update_checked ck_task (root_task_claimable n d) (advanced_root_task n p) (tasks d) = Inr (Some ts)"
  obtains t where "t \<in> set (tasks d)" "root_task_claimable n d t"
    "ts = replace_row t (advanced_root_task n p t) (tasks d)" "system_ok H (d\<lparr>tasks := ts\<rparr>)"
proof -
  note rt = system_ok_parts(1) [OF ok]
  have key: "keyed tk_task_id (tasks d)"
    using controller_ok_parts(4) [OF runtime_ok_parts(1) [OF rt]] by (simp add: tasks_ok_def)
  obtain t where t: "t \<in> set (tasks d)" "root_task_claimable n d t" "ck_task (advanced_root_task n p t)"
    "ts = replace_row t (advanced_root_task n p t) (tasks d)"
    by (rule update_checked_one [OF key up, of "rs_task_id n"]) (simp_all add: root_task_claimable_def)
  have "tk_status t \<noteq> TaskCancelled \<or> tk_status (advanced_root_task n p t) = TaskCancelled"
    using t(2) by (auto simp: root_task_claimable_def advanced_root_task_def)
  then have "runtime_ok H (d\<lparr>tasks := ts\<rparr>)"
    unfolding t(4) by (intro runtime_ok_task [OF rt t(1) _ t(3)])
      (auto simp: advanced_root_task_def resume_task_row_def)
  then have "system_ok H (d\<lparr>tasks := ts\<rparr>)" by (intro system_ok_frame [OF ok]) simp_all
  with that t show thesis by blast
qed

definition root_opened :: "root_snapshot \<Rightarrow> resume_event_basis option \<Rightarrow> prepared_request \<Rightarrow> db \<Rightarrow> db \<Rightarrow> bool" where
  "root_opened n resume p d d' \<longleftrightarrow>
     (\<exists>t \<in> set (tasks d). root_task_claimable n d t \<and>
        tasks d' = replace_row t (advanced_root_task n p t) (tasks d)) \<and>
     (\<forall>u \<in> set (dispatches d). dt_attempt_id u = rs_attempt_id n \<longrightarrow> \<not> dispatch_is_active u) \<and>
     dispatches d' = dispatches d @ [build_starting_dispatch_model (root_basis n resume) p] \<and>
     (\<exists>a \<in> set (attempts d). at_attempt_id a = rs_attempt_id n \<and> at_task_id a = rs_task_id n \<and>
        at_assignment_id a = rs_assignment_id n \<and> at_status a = AttRunning \<and>
        at_current_dispatch_id a = None \<and> at_current_wait_id a = None \<and>
        attempts d' = replace_row a (a\<lparr>at_current_dispatch_id := Some (pr_dispatch_id p)\<rparr>) (attempts d))"

lemma stage_root_opened:
  assumes ok: "system_ok (env_event_hash env) d"
    and st: "stage_root_dispatch_if_current env resume n p d = Inr (True, d')"
  shows "system_ok (env_event_hash env) d' \<and> sources_forward d d' \<and> root_opened n resume p d d' \<and>
    (\<forall>y. \<not> source_spent (StartSource (rs_task_id n)) y d) \<and>
    source_spent (StartSource (rs_task_id n)) (pr_dispatch_id p) d'"
proof -
  let ?H = "env_event_hash env"
  obtain ts ss where
    up: "update_checked ck_task (root_task_claimable n d) (advanced_root_task n p) (tasks d) = Inr (Some ts)"
    and cl: "claim_root_dispatch_source n (pr_dispatch_id p) d = Some ss"
    and sd: "stage_starting_dispatch env (root_basis n resume) p (d\<lparr>tasks := ts, task_starts := ss\<rparr>) = Inr d'"
    using st unfolding stage_root_dispatch_if_current_def
    by (auto split: option.split_asm sum.split_asm failure.split_asm elim!: and_then_InrE)
  obtain t where t: "t \<in> set (tasks d)" "root_task_claimable n d t"
    "ts = replace_row t (advanced_root_task n p t) (tasks d)" "system_ok ?H (d\<lparr>tasks := ts\<rparr>)"
    by (rule root_task_Some [OF ok up])
  note c = claim_root_Some [OF ok cl]
  let ?d = "d\<lparr>tasks := ts, task_starts := ss\<rparr>"
  have ok1: "system_ok ?H ?d"
    using t(4) c(1) by (simp add: system_ok_def replans_ok_def starts_ok_def)
  note rt = system_ok_parts(1) [OF ok1] and f = stage_starting_dispatch_frame [OF sd]
  have ok': "system_ok ?H d'"
    by (rule system_ok_frame [OF ok1 stage_starting_dispatch_runtime_ok [OF rt sd]]) (simp_all add: f)
  obtain a where a: "a \<in> set (attempts d)" "at_attempt_id a = rs_attempt_id n" "at_task_id a = rs_task_id n"
      "at_assignment_id a = rs_assignment_id n" "at_status a = AttRunning" "at_current_dispatch_id a = None"
      "at_current_wait_id a = None"
      "attempts d' = replace_row a (a\<lparr>at_current_dispatch_id := Some (pr_dispatch_id p)\<rparr>) (attempts d)"
      "insert_dispatch (build_starting_dispatch_model (root_basis n resume) p) (dispatches d) = Inr (dispatches d')"
    by (rule staged_on_idle_lane [OF runtime_ok_parts(4) [OF rt] sd]) (simp_all add: root_basis_def)
  note ins = insert_dispatch_Inr [OF a(9)]
  have idle: "\<not> dispatch_is_active u" if "u \<in> set (dispatches d)" "dt_attempt_id u = rs_attempt_id n" for u
    using ins that by (auto simp: root_basis_def)
  have "root_opened n resume p d d'"
    unfolding root_opened_def using t(1-3) idle ins a(1-8) f(4) by auto
  moreover have fw1: "sources_forward (d\<lparr>task_starts := ss\<rparr>) d'"
    by (rule sources_forward_same) (simp_all add: f)
  moreover have "source_spent (StartSource (rs_task_id n)) (pr_dispatch_id p) d'"
    using c(4) fw1 unfolding sources_forward_def by blast
  ultimately show ?thesis using ok' c(3) sources_forward_trans [OF c(2) fw1] by blast
qed

lemma stage_root_False:
  "stage_root_dispatch_if_current env resume n p d = Inr (False, d') \<Longrightarrow> d' = d"
  unfolding stage_root_dispatch_if_current_def
  by (auto split: option.split_asm sum.split_asm failure.split_asm elim!: and_then_InrE)

lemma stage_root_keeps:
  assumes ok: "system_ok (env_event_hash env) d"
    and st: "stage_root_dispatch_if_current env resume n p d = Inr (won, d')"
  shows "system_ok (env_event_hash env) d' \<and> sources_forward d d'"
proof (cases won)
  case True
  with st have "stage_root_dispatch_if_current env resume n p d = Inr (True, d')" by simp
  from stage_root_opened [OF ok this] show ?thesis by blast
next
  case False
  with st have "d' = d" using stage_root_False by simp
  then show ?thesis using ok by simp
qed

text \<open>The pause of a Task whose root could not be prepared.\<close>

lemma pause_failed_task_start_keeps:
  assumes ok: "system_ok H d" and pa: "pause_failed_task_start task now code d = Inr d'"
  shows "system_ok H d' \<and> sources_forward d d'"
proof -
  note rt = system_ok_parts(1) [OF ok]
  have T: "tasks_ok d" by (rule controller_ok_parts(4) [OF runtime_ok_parts(1) [OF rt]])
  then have key: "keyed tk_task_id (tasks d)" by (simp add: tasks_ok_def)
  obtain p f ts where p: "\<And>t. p t \<Longrightarrow> tk_task_id t = task \<and> tk_status t = TaskRunning"
    and f: "\<And>t. tk_task_id (f t) = tk_task_id t"
    and up: "update_all ck_task p f (tasks d) = Inr ts" and d': "d' = d\<lparr>tasks := ts\<rparr>"
  proof -
    obtain ts where "update_all ck_task
         (\<lambda>t. tk_task_id t = task \<and> tk_status t = TaskRunning \<and>
            list_ex (\<lambda>s. ts_task_id s = tk_task_id t \<and> ts_successor_dispatch_id s = None) (task_starts d))
         (\<lambda>t. t\<lparr>tk_status := TaskPaused, tk_pause_reason := Some ''runtime_transition_failed'',
            tk_pause_details := Some [(''source'', JStr ''task_start''), (''failure_code'', JStr code)],
            tk_paused_at := Some now, tk_paused_by_actor_ref := Some ''controller.runtime'',
            tk_control_revision := tk_control_revision t + 1, tk_updated_at := now\<rparr>) (tasks d) = Inr ts"
      "d' = d\<lparr>tasks := ts\<rparr>"
      using pa unfolding pause_failed_task_start_def and_then_Inr_iff by blast
    then show thesis by (intro that) auto
  qed
  have "runtime_ok H d'"
  proof (cases "\<exists>t \<in> set (tasks d). p t")
    case True
    then obtain t where t: "t \<in> set (tasks d)" "p t" by blast
    have "map (\<lambda>r. if p r then f r else r) (tasks d) = replace_row t (f t) (tasks d)"
      unfolding replace_row_def
    proof (rule map_cong [OF refl])
      fix r assume r: "r \<in> set (tasks d)"
      have "p r = (r = t)" using keyed_unique [OF key r t(1)] p t(2) by auto
      then show "(if p r then f r else r) = (if r = t then f t else r)" by simp
    qed
    then have "d' = d\<lparr>tasks := replace_row t (f t) (tasks d)\<rparr>"
      using up d' by (simp add: update_all_Inr_iff)
    moreover have "ck_task (f t)" using up t by (simp add: update_all_Inr_iff)
    ultimately show ?thesis using runtime_ok_task [OF rt t(1) f] p [OF t(2)] by simp
  next
    case False
    then have "ts = tasks d" using up by (auto simp: update_all_Inr_iff map_idI)
    then have "d' = d" using d' by simp
    then show ?thesis using rt by simp
  qed
  then have "system_ok H d'" by (rule system_ok_frame [OF ok]) (simp_all add: d')
  moreover have "sources_forward d d'"
    by (rule sources_forward_same) (simp_all add: d')
  ultimately show ?thesis by blast
qed

text \<open>Planning reads the Task's own source.\<close>

lemma prepare_root_source:
  assumes "prepare_root_dispatch render task status revision control x d = Inr (Some (n, p))"
  shows "rs_task_id n = task" "pr_dispatch_id p = x" "rs_expected_task_status n = status"
proof -
  obtain q where n: "read_root_opening_snapshot task status revision control d = Inr (Some n)"
    and p: "p = q\<lparr>pr_dispatch_id := x\<rparr>"
    using assms unfolding prepare_root_dispatch_def by (auto split: option.split_asm elim!: and_then_InrE)
  obtain s t where st: "read_task_start_state task status revision control d = Some (s, t)"
    and m: "rs_task_id n = tk_task_id t" "rs_expected_task_status n = status"
    using n unfolding read_root_opening_snapshot_def
    by (auto split: option.split_asm prod.split_asm elim!: and_then_InrE)
  have "tk_task_id t = task"
    using st unfolding read_task_start_state_def
    by (auto simp: bind_eq_Some_conv split: if_split_asm dest!: find_Some_D)
  then show "rs_task_id n = task" "pr_dispatch_id p = x" "rs_expected_task_status n = status"
    using m p by simp_all
qed

lemma open_root_keeps:
  assumes ok: "system_ok (env_event_hash env) d'"
    and op: "open_root_dispatch env render task x d d' = Inr (r, d'')"
  shows "system_ok (env_event_hash env) d'' \<and> sources_forward d' d''"
proof (cases "prepare_root_dispatch render task TaskRunning None None x d")
  case (Inl f)
  then show ?thesis using op pause_failed_task_start_keeps [OF ok]
    by (auto simp: open_root_dispatch_def split: option.split_asm elim!: and_then_InrE)
next
  case (Inr c)
  show ?thesis
  proof (cases c)
    case None
    then have "d'' = d'" using op Inr by (simp add: open_root_dispatch_def)
    then show ?thesis using ok by simp
  next
    case (Some q)
    then obtain n p won where "stage_root_dispatch_if_current env None n p d' = Inr (won, d'')"
      using op Inr by (cases q) (auto simp: open_root_dispatch_def elim!: and_then_InrE)
    then show ?thesis by (rule stage_root_keeps [OF ok])
  qed
qed

text \<open>A spent Task start never opens again.\<close>

lemma open_root_never_twice:
  assumes ok: "system_ok (env_event_hash env) d'" and sp: "source_spent (StartSource task) y d'"
    and op: "open_root_dispatch env render task x d d' = Inr (r, d'')"
  shows "r \<noteq> Opened z"
proof
  assume r: "r = Opened z"
  obtain n p where pl: "prepare_root_dispatch render task TaskRunning None None x d = Inr (Some (n, p))"
    and st: "stage_root_dispatch_if_current env None n p d' = Inr (True, d'')"
    using op unfolding open_root_dispatch_def r
    by (auto split: sum.split_asm option.split_asm prod.split_asm if_split_asm elim!: and_then_InrE)
  have "\<not> source_spent (StartSource (rs_task_id n)) y d'" using stage_root_opened [OF ok st] by blast
  then show False using sp by (simp only: prepare_root_source(1) [OF pl] not_True_eq_False)
qed

end
