(* ===== verification/TaskResumeProofs.thy ===== *)
theory TaskResumeProofs
  imports TaskResume WorkspaceAvailability RootOpeningProofs "HOL-Library.Multiset"
begin

text \<open>
  What continuing a paused Task does: a plan has one sound source for each idle lane, and its
  commit keeps the invariant, resumes the Task and leaves every running Attempt either on its
  wait or on a fresh Dispatch.
\<close>

subsection \<open>Ordering\<close>

lemma insert_ordered_mset: "mset (insert_ordered le x xs) = add_mset x (mset xs)"
  by (induction xs) auto

lemma order_by_mset: "mset (order_by le xs) = mset xs"
  unfolding order_by_def by (induction xs) (simp_all add: insert_ordered_mset)

lemma set_order_by [simp]: "set (order_by le xs) = set xs"
  using mset_eq_setD [OF order_by_mset] .

lemma length_order_by [simp]: "length (order_by le xs) = length xs"
  using mset_eq_length [OF order_by_mset] .

lemma keyed_order_by: "keyed key xs \<Longrightarrow> keyed key (order_by le xs)"
  unfolding keyed_def by (metis order_by_mset mset_map mset_eq_imp_distinct_iff)

subsection \<open>The sources of a plan\<close>

definition sound_source :: "continue_source \<Rightarrow> bool" where
  "sound_source q \<longleftrightarrow> successor_claim (os_claim q)"

lemma read_sources_sound:
  assumes "read_sources read claim ids d = Inr qs" and "successor_claim claim" and "q \<in> set qs"
  shows "sound_source q"
  using assms unfolding read_sources_def sound_source_def
  by (auto simp: and_then_Inr_iff List.map_filter_def split: option.split_asm)

lemma tail_claim: "successor_claim claim_operator_continue_tail"
  by unfold_locales (auto simp: claim_operator_continue_tail_def Let_def split: if_split_asm)

lemma sources_sound:
  assumes "read_operator_continue_sources lib f s d = Inr qs" and "q \<in> set qs"
  shows "sound_source q"
proof -
  obtain hs cs ws rs ts where
    h: "read_human_request_sources lib s d = Inr hs" and c: "read_command_run_sources s d = Inr cs"
    and w: "read_delegation_wave_sources s d = Inr ws" and r: "read_replan_sources f s d = Inr rs"
    and t: "read_closed_tail_sources s d = Inr ts" and qs: "qs = hs @ cs @ ws @ rs @ ts"
    using assms(1) unfolding read_operator_continue_sources_def by (auto simp: and_then_Inr_iff)
  have "sound_source q" if m: "q \<in> set ts"
  proof -
    obtain u where "closed_tail_source s u = Inr q"
      using map_result_Inr_set [OF t [unfolded read_closed_tail_sources_def] m] by blast
    then show ?thesis using tail_claim
      by (auto simp: closed_tail_source_def sound_source_def split: option.split_asm)
  qed
  then show ?thesis
    using assms(2)
      read_sources_sound [OF h [unfolded read_human_request_sources_def] human_claim.successor_claim_axioms]
      read_sources_sound [OF c [unfolded read_command_run_sources_def] command_claim.successor_claim_axioms]
      read_sources_sound [OF w [unfolded read_delegation_wave_sources_def] wave_claim.successor_claim_axioms]
      read_sources_sound [OF r [unfolded read_replan_sources_def] replan_claim.successor_claim_axioms]
    unfolding qs by auto
qed

subsection \<open>The lanes of a plan\<close>

text \<open>
  A validated plan: its lanes are the running Attempts of the paused Task, without a Dispatch and
  each once; a lane without a wait has a source.
\<close>

definition plan_covers :: "continuation_plan \<Rightarrow> bool" where
  "plan_covers plan \<longleftrightarrow>
     (let s = cn_task plan in
      distinct (map pl_attempt_id (ps_lanes s)) \<and>
      (\<forall>q \<in> set (cn_sources plan). sound_source q \<and>
         (\<exists>l \<in> set (ps_lanes s). lane_key q = (pl_assignment_id l, pl_attempt_id l))) \<and>
      (\<not> cn_has_unconsumed_task_start plan \<longrightarrow>
         (\<forall>l \<in> set (ps_lanes s). pl_current_wait_id l = None \<longrightarrow>
            (\<exists>q \<in> set (cn_sources plan). lane_key q = (pl_assignment_id l, pl_attempt_id l)))))"

lemma read_paused_task_snapshot_Inr:
  assumes "read_paused_task_snapshot task revision control d = Inr s" and "lanes_ok d"
  shows "ps_task_id s = task \<and> ps_team_revision_id s = revision \<and> ps_control_revision s = control \<and>
    ps_pause_reason s \<in> set continuable_pause_reasons \<and> distinct (map pl_attempt_id (ps_lanes s))"
proof -
  obtain t reason where t: "find (\<lambda>t. tk_task_id t = task \<and> tk_status t = TaskPaused \<and>
       tk_current_team_revision_id t = Some revision \<and> tk_control_revision t = control) (tasks d) = Some t"
    and reason: "reason \<in> set continuable_pause_reasons"
    and s: "s = \<lparr>ps_task_id = tk_task_id t, ps_team_revision_id = revision,
       ps_control_revision = tk_control_revision t, ps_pause_reason = reason,
       ps_lanes = map (\<lambda>a. \<lparr>pl_assignment_id = at_assignment_id a, pl_attempt_id = at_attempt_id a,
           pl_current_wait_id = at_current_wait_id a\<rparr>)
         (order_by (keys_less_eq (\<lambda>a. (at_assignment_id a, at_attempt_id a, [])))
           (filter (\<lambda>a. at_task_id a = tk_task_id t \<and> at_status a = AttRunning) (attempts d)))\<rparr>"
    using assms(1) unfolding read_paused_task_snapshot_def Let_def
    by (auto split: option.split_asm prod.split_asm if_split_asm simp: bind_eq_Some_conv)
  have "keyed at_attempt_id (order_by (keys_less_eq (\<lambda>a. (at_assignment_id a, at_attempt_id a, [])))
      (filter (\<lambda>a. at_task_id a = tk_task_id t \<and> at_status a = AttRunning) (attempts d)))"
    by (intro keyed_order_by keyed_filter lanes_ok_keys(1) assms(2))
  then have "distinct (map pl_attempt_id (ps_lanes s))" by (simp add: s keyed_def comp_def)
  then show ?thesis using find_Some_D [OF t] reason by (simp add: s)
qed

lemma validate_lane_source:
  assumes "validate_lane s qs False l d = Inr ()" and "pl_current_wait_id l = None"
  shows "\<exists>q \<in> set qs. lane_key q = (pl_assignment_id l, pl_attempt_id l)"
proof -
  have "lane_sources l qs \<noteq> []"
    using assms by (auto simp: validate_lane_def Let_def split: if_split_asm)
  then show ?thesis by (auto simp: lane_sources_def filter_empty_conv)
qed

lemma read_plan_Inr:
  assumes pl: "read_paused_task_continuation_plan lib f task revision control d = Inr plan" and ok: "lanes_ok d"
  shows "ps_task_id (cn_task plan) = task \<and> ps_team_revision_id (cn_task plan) = revision \<and>
    ps_control_revision (cn_task plan) = control \<and>
    ps_pause_reason (cn_task plan) \<in> set continuable_pause_reasons \<and> plan_covers plan \<and>
    cn_has_unconsumed_task_start plan = has_unconsumed_task_start task d"
proof -
  obtain s qs where s: "read_paused_task_snapshot task revision control d = Inr s"
    and qs: "read_operator_continue_sources lib f s d = Inr qs"
    and inside: "list_all (\<lambda>q. list_ex (\<lambda>l. lane_key q = (pl_assignment_id l, pl_attempt_id l)) (ps_lanes s)) qs"
    and v: "validate_lane_sources s qs (has_unconsumed_task_start (ps_task_id s) d) d = Inr ()"
    and plan: "plan = \<lparr>cn_task = s, cn_sources = order_by source_less_eq qs,
      cn_has_unconsumed_task_start = has_unconsumed_task_start (ps_task_id s) d\<rparr>"
    using pl unfolding read_paused_task_continuation_plan_def Let_def
    by (auto simp: and_then_Inr_iff require_that_Inr_iff)
  note S = read_paused_task_snapshot_Inr [OF s ok]
  have lane: "\<exists>q \<in> set qs. lane_key q = (pl_assignment_id l, pl_attempt_id l)"
    if no: "\<not> has_unconsumed_task_start (ps_task_id s) d" and l: "l \<in> set (ps_lanes s)" "pl_current_wait_id l = None" for l
  proof -
    obtain us where us: "map_result (\<lambda>l. validate_lane s qs False l d) (ps_lanes s) = Inr us"
      using v no by (auto simp: validate_lane_sources_def and_then_Inr_iff)
    obtain i where i: "i < length (ps_lanes s)" "ps_lanes s ! i = l" using l(1) by (auto simp: in_set_conv_nth)
    have "validate_lane s qs False l d = Inr ()" using map_result_Inr_nth [OF us i(1)] i(2) by simp
    then show ?thesis by (rule validate_lane_source [OF _ l(2)])
  qed
  have src: "sound_source q \<and> (\<exists>l \<in> set (ps_lanes s). lane_key q = (pl_assignment_id l, pl_attempt_id l))"
    if "q \<in> set qs" for q
    using sources_sound [OF qs that] inside that by (auto simp: list_all_iff list_ex_iff)
  have "plan_covers plan"
    unfolding plan_covers_def Let_def using S lane src by (auto simp: plan)
  then show ?thesis using S by (simp add: plan)
qed

subsection \<open>The prepared successors\<close>

lemma candidate_Inr:
  assumes "candidate_continuation prep s q d = Inr (n, q', i)"
  shows "sn_basis n = os_basis q \<and> q' = q"
  using assms unfolding candidate_continuation_def read_ordinary_dispatch_snapshot_def
  by (auto split: option.split_asm elim!: and_then_InrE)

definition prepared_from :: "continue_source \<Rightarrow> prepared_continuation \<Rightarrow> bool" where
  "prepared_from q c \<longleftrightarrow> sn_basis (pp_snapshot c) = os_basis q \<and> pp_claim c = os_claim q"

lemma prepare_Inr:
  assumes "prepare_paused_continuations prep draw plan d = Inr cs"
  shows "list_all2 prepared_from (cn_sources plan) cs"
proof -
  obtain ts where
    ts: "map_result (\<lambda>q. candidate_continuation prep (cn_task plan) q d) (cn_sources plan) = Inr ts"
    and cs: "map_result (\<lambda>(i, n, q, inputs). and_then (pn_prepare prep n inputs) (\<lambda>p.
        Inr \<lparr>pp_snapshot = n, pp_prepared = p\<lparr>pr_dispatch_id := draw i\<rparr>, pp_claim = os_claim q\<rparr>))
      (enumerate 0 ts) = Inr cs"
    using assms unfolding prepare_paused_continuations_def and_then_Inr_iff by blast
  have len: "length ts = length (cn_sources plan)" "length cs = length ts"
    using map_result_Inr_length [OF ts] map_result_Inr_length [OF cs] by simp_all
  show ?thesis
    unfolding list_all2_conv_all_nth
  proof (intro conjI allI impI)
    show "length (cn_sources plan) = length cs" using len by simp
    fix i assume i: "i < length (cn_sources plan)"
    obtain n q x where nth: "ts ! i = (n, q, x)" using prod_cases3 by blast
    have "candidate_continuation prep (cn_task plan) (cn_sources plan ! i) d = Inr (n, q, x)"
      using map_result_Inr_nth [OF ts i] by (simp add: nth)
    then have q: "sn_basis n = os_basis (cn_sources plan ! i)" "q = cn_sources plan ! i" by (auto dest: candidate_Inr)
    have "pp_snapshot (cs ! i) = n \<and> pp_claim (cs ! i) = os_claim q"
      using map_result_Inr_nth [OF cs, of i] i len nth
      by (auto simp: nth_enumerate_eq and_then_Inr_iff eq_commute [of _ "cs ! i"])
    then show "prepared_from (cn_sources plan ! i) (cs ! i)" by (simp add: prepared_from_def q)
  qed
qed

subsection \<open>The watchdog budgets\<close>

lemma lanes_ok_reset_counts:
  assumes ok: "lanes_ok d"
    and as: "update_all ck_attempt p (\<lambda>a. a\<lparr>at_watchdog_replacement_count := 0\<rparr>) (attempts d) = Inr as"
  shows "lanes_ok (d\<lparr>attempts := as\<rparr>)"
proof -
  let ?g = "\<lambda>a. if p a then a\<lparr>at_watchdog_replacement_count := 0\<rparr> else a"
  note L = lanes_ok_keys [OF ok]
  have as': "as = map ?g (attempts d)" using as by (simp add: update_all_Inr_iff)
  have key: "keyed at_attempt_id as" by (rule update_all_keyed [OF as L(1)]) simp
  have ck: "\<forall>a \<in> set as. ck_attempt a" by (rule update_all_checks [OF as]) (use L(5) in blast)
  have im: "set as = ?g ` set (attempts d)" unfolding as' by (simp only: list.set_map)
  have "lanes_wf (?g ` set (attempts d)) (set (dispatches d)) (set (waits d))"
    by (rule lanes_wf_image [OF L(4) keyed_inj_on [OF key, unfolded im]])
      (simp_all add: attempt_owns_dispatch_def attempt_owns_wait_def)
  then show ?thesis using ok key ck by (simp add: lanes_ok_def im)
qed

lemma runtime_ok_attempts:
  "runtime_ok H d \<Longrightarrow> lanes_ok (d\<lparr>attempts := as\<rparr>) \<Longrightarrow> runtime_ok H (d\<lparr>attempts := as\<rparr>)"
  using runtime_ok_lanes [where ds = "dispatches d" and d = d] by simp

definition idle_running :: "ident \<Rightarrow> attempt_row \<Rightarrow> bool" where
  "idle_running task a \<longleftrightarrow> at_task_id a = task \<and> at_status a = AttRunning \<and> at_current_dispatch_id a = None"

lemma reset_keeps:
  assumes ok: "system_ok H d" and r: "reset_watchdog_replacement_counts plan d = Inr d1"
  obtains as where "d1 = d\<lparr>attempts := as\<rparr>" "system_ok H d1" "sources_forward d d1"
    "as = map (\<lambda>a. if idle_running (ps_task_id (cn_task plan)) a
       then a\<lparr>at_watchdog_replacement_count := 0\<rparr> else a) (attempts d)"
proof -
  note rt = system_ok_parts(1) [OF ok]
  obtain as where up: "update_all ck_attempt (idle_running (ps_task_id (cn_task plan)))
      (\<lambda>a. a\<lparr>at_watchdog_replacement_count := 0\<rparr>) (attempts d) = Inr as" and d1: "d1 = d\<lparr>attempts := as\<rparr>"
    using r unfolding reset_watchdog_replacement_counts_def Let_def idle_running_def [abs_def]
    by (auto simp: and_then_Inr_iff)
  have "system_ok H d1"
    unfolding d1
    by (rule system_ok_frame [OF ok runtime_ok_attempts [OF rt lanes_ok_reset_counts [OF runtime_ok_parts(4) [OF rt] up]]])
      simp_all
  moreover have "sources_forward d d1" by (rule sources_forward_same) (simp_all add: d1)
  ultimately show thesis using up d1 by (intro that) (simp_all add: update_all_Inr_iff)
qed

subsection \<open>Opening every lane\<close>

abbreviation opened_row :: "prepared_continuation \<Rightarrow> dispatch_row" where
  "opened_row c \<equiv> build_starting_dispatch_model (successor_basis (pp_snapshot c) None) (pp_prepared c)"

definition lane_opened_by :: "prepared_continuation \<Rightarrow> attempt_row \<Rightarrow> attempt_row \<Rightarrow> bool" where
  "lane_opened_by c b a \<longleftrightarrow>
     at_attempt_id b = cb_attempt_id (sn_basis (pp_snapshot c)) \<and>
     at_task_id b = cb_task_id (sn_basis (pp_snapshot c)) \<and> at_status b = AttRunning \<and>
     at_current_dispatch_id b = None \<and> at_current_wait_id b = None \<and>
     a = b\<lparr>at_current_dispatch_id := Some (pr_dispatch_id (pp_prepared c))\<rparr>"

text \<open>What a sequence of openings did to the lanes.\<close>

definition lanes_opened :: "prepared_continuation list \<Rightarrow> db \<Rightarrow> db \<Rightarrow> bool" where
  "lanes_opened cs d d' \<longleftrightarrow>
     dispatches d' = dispatches d @ map opened_row cs \<and>
     (\<forall>c \<in> set cs. \<exists>b \<in> set (attempts d). \<exists>a \<in> set (attempts d'). lane_opened_by c b a) \<and>
     list_all2 (\<lambda>b a. a = b \<or> (\<exists>c \<in> set cs. lane_opened_by c b a)) (attempts d) (attempts d') \<and>
     (\<forall>b \<in> set (attempts d). at_current_dispatch_id b \<noteq> None \<longrightarrow> b \<in> set (attempts d'))"

lemma lanes_opened_Nil [simp]: "lanes_opened [] d d"
  by (auto simp: lanes_opened_def list_all2_same)

lemma lanes_opened_Cons:
  assumes first: "successor_opened (pp_snapshot c) (pp_prepared c) d d1" and rest: "lanes_opened cs d1 d'"
  shows "lanes_opened (c # cs) d d'"
proof -
  obtain b where b: "b \<in> set (attempts d)" "at_attempt_id b = cb_attempt_id (sn_basis (pp_snapshot c))"
      "at_task_id b = cb_task_id (sn_basis (pp_snapshot c))" "at_status b = AttRunning"
      "at_current_dispatch_id b = None" "at_current_wait_id b = None"
    and as: "attempts d1 = replace_row b (b\<lparr>at_current_dispatch_id := Some (pr_dispatch_id (pp_prepared c))\<rparr>) (attempts d)"
    and ds: "dispatches d1 = dispatches d @ [opened_row c]"
    using first by (auto simp: successor_opened_def)
  let ?a = "b\<lparr>at_current_dispatch_id := Some (pr_dispatch_id (pp_prepared c))\<rparr>"
  have set1: "set (attempts d1) = insert ?a (set (attempts d) - {b})" by (simp add: as set_replace_row [OF b(1)])
  have own: "lane_opened_by c b ?a" using b by (simp add: lane_opened_by_def)
  have cs: "\<exists>b \<in> set (attempts d). \<exists>a \<in> set (attempts d'). lane_opened_by e b a" if e: "e \<in> set cs" for e
  proof -
    obtain x a where x: "x \<in> set (attempts d1)" "a \<in> set (attempts d')" "lane_opened_by e x a"
      using rest e unfolding lanes_opened_def by blast
    then have "x \<noteq> ?a" by (auto simp: lane_opened_by_def)
    then show ?thesis using x set1 by blast
  qed
  have c: "\<exists>b \<in> set (attempts d). \<exists>a \<in> set (attempts d'). lane_opened_by c b a"
  proof (intro bexI [OF _ b(1)] bexI [of _ ?a])
    show "lane_opened_by c b ?a" by (rule own)
    show "?a \<in> set (attempts d')" using rest set1 unfolding lanes_opened_def by simp
  qed
  have "list_all2 (\<lambda>b x. x = b \<or> lane_opened_by c b x) (attempts d) (attempts d1)"
    unfolding as replace_row_def using own by (simp add: list_all2_map2 list_all2_same)
  moreover have "list_all2 (\<lambda>x a. a = x \<or> (\<exists>e \<in> set cs. lane_opened_by e x a)) (attempts d1) (attempts d')"
    using rest by (simp add: lanes_opened_def)
  moreover have "z = y \<or> (\<exists>e \<in> set (c # cs). lane_opened_by e y z)"
    if "x = y \<or> lane_opened_by c y x" "z = x \<or> (\<exists>e \<in> set cs. lane_opened_by e x z)" for x y z
    using that by (auto simp: lane_opened_by_def)
  ultimately have origin: "list_all2 (\<lambda>b a. a = b \<or> (\<exists>e \<in> set (c # cs). lane_opened_by e b a))
      (attempts d) (attempts d')"
    by (rule list_all2_trans [rotated 1]) blast+
  have keep: "y \<in> set (attempts d')" if "y \<in> set (attempts d)" "at_current_dispatch_id y \<noteq> None" for y
  proof -
    have "y \<noteq> b" using that(2) b(5) by metis
    then have "y \<in> set (attempts d1)" using that(1) unfolding set1 by blast
    then show ?thesis using rest that(2) unfolding lanes_opened_def by blast
  qed
  have "dispatches d' = dispatches d @ map opened_row (c # cs)"
    using rest ds unfolding lanes_opened_def by simp
  moreover have "\<forall>e \<in> set (c # cs). \<exists>b \<in> set (attempts d). \<exists>a \<in> set (attempts d'). lane_opened_by e b a"
    using c cs by simp
  ultimately show ?thesis unfolding lanes_opened_def using origin keep by blast
qed

lemma open_each_lane:
  assumes "fold_result (open_paused_continuation env) cs d = Inr d'" and "system_ok (env_event_hash env) d"
    and "\<forall>c \<in> set cs. successor_claim (pp_claim c)"
  shows "system_ok (env_event_hash env) d' \<and> sources_forward d d' \<and> tasks d' = tasks d \<and>
    waits d' = waits d \<and> lanes_opened cs d d'"
  using assms
proof (induction cs arbitrary: d)
  case Nil
  then show ?case by simp
next
  case (Cons c cs)
  obtain d1 where one: "open_paused_continuation env c d = Inr d1"
    and rest: "fold_result (open_paused_continuation env) cs d1 = Inr d'"
    using Cons.prems(1) by (auto simp: and_then_Inr_iff)
  obtain d0 where cl: "pp_claim c (pp_snapshot c) (pp_prepared c) d = Inr (Some d0)"
    and st: "stage_starting_dispatch env (successor_basis (pp_snapshot c) None) (pp_prepared c) d0 = Inr d1"
    using one unfolding open_paused_continuation_def by (auto split: option.split_asm elim!: and_then_InrE)
  have sc: "successor_claim (pp_claim c)" using Cons.prems(3) by simp
  note e = successor_claim.claim_and_stage [OF sc Cons.prems(2) cl st]
  have IH: "system_ok (env_event_hash env) d' \<and> sources_forward d1 d' \<and> tasks d' = tasks d1 \<and>
      waits d' = waits d1 \<and> lanes_opened cs d1 d'"
    using Cons.IH [OF rest] e Cons.prems(3) by simp
  have "lanes_opened (c # cs) d d'" by (rule lanes_opened_Cons [of c d d1]) (use e IH in blast)+
  moreover have "sources_forward d d'" by (rule sources_forward_trans [of d d1]) (use e IH in blast)+
  ultimately show ?case using e IH by simp
qed

subsection \<open>The commit\<close>

lemma same_length_subset:
  assumes "distinct xs" "distinct ys" "length xs = length ys" "set xs \<subseteq> set ys"
  shows "set xs = set ys"
proof (rule card_subset_eq)
  show "card (set xs) = card (set ys)" using assms(1-3) by (simp add: distinct_card)
qed (use assms(4) in simp_all)

text \<open>The lanes of the plan are all running Attempts of the Task, still as they were planned.\<close>

lemma planned_lanes_complete:
  assumes cov: "plan_covers plan" and ok: "lanes_ok d" and cur: "paused_task_is_current plan d t"
    and a: "a \<in> set (attempts d)" "at_task_id a = ps_task_id (cn_task plan)" "at_status a = AttRunning"
  obtains l where "l \<in> set (ps_lanes (cn_task plan))" "pl_attempt_id l = at_attempt_id a"
    "pl_assignment_id l = at_assignment_id a" "at_current_dispatch_id a = None"
    "at_current_wait_id a = pl_current_wait_id l"
proof -
  let ?s = "cn_task plan"
  let ?R = "filter (\<lambda>a. at_task_id a = ps_task_id ?s \<and> at_status a = AttRunning) (attempts d)"
  have key: "keyed at_attempt_id (attempts d)" by (rule lanes_ok_keys(1) [OF ok])
  have len: "length (map pl_attempt_id (ps_lanes ?s)) = length (map at_attempt_id ?R)"
    using cur by (simp add: paused_task_is_current_def Let_def)
  have each: "\<exists>a \<in> set (attempts d). at_task_id a = ps_task_id ?s \<and> at_assignment_id a = pl_assignment_id l \<and>
      at_attempt_id a = pl_attempt_id l \<and> at_status a = AttRunning \<and> at_current_dispatch_id a = None \<and>
      at_current_wait_id a = pl_current_wait_id l" if "l \<in> set (ps_lanes ?s)" for l
    using cur that by (auto simp: paused_task_is_current_def Let_def list_all_iff list_ex_iff)
  have "set (map pl_attempt_id (ps_lanes ?s)) \<subseteq> set (map at_attempt_id ?R)" using each by force
  moreover have "distinct (map at_attempt_id ?R)" using keyed_filter [OF key] by (simp add: keyed_def)
  moreover have "distinct (map pl_attempt_id (ps_lanes ?s))" using cov by (simp add: plan_covers_def Let_def)
  ultimately have "set (map pl_attempt_id (ps_lanes ?s)) = set (map at_attempt_id ?R)"
    using len by (intro same_length_subset) simp_all
  moreover have "at_attempt_id a \<in> set (map at_attempt_id ?R)" using a by simp
  ultimately have "at_attempt_id a \<in> set (map pl_attempt_id (ps_lanes ?s))" by (simp only:)
  then obtain l where l: "l \<in> set (ps_lanes ?s)" "pl_attempt_id l = at_attempt_id a" by auto
  obtain b where b: "b \<in> set (attempts d)" "at_assignment_id b = pl_assignment_id l" "at_attempt_id b = pl_attempt_id l"
    "at_current_dispatch_id b = None" "at_current_wait_id b = pl_current_wait_id l"
    using each [OF l(1)] by blast
  have "b = a" by (rule keyed_unique [OF key b(1) a(1)]) (simp add: b l)
  then show thesis using that l b by simp
qed

text \<open>
  What the continuation does to a running Attempt of the Task, given the Dispatches it opened: a
  fresh watchdog budget, and nothing else on a lane with a wait; a lane without one runs on one of
  the new Dispatches, which is of this Attempt.
\<close>

definition lane_continued :: "dispatch_row list \<Rightarrow> attempt_row \<Rightarrow> attempt_row \<Rightarrow> bool" where
  "lane_continued ts b a \<longleftrightarrow> at_current_dispatch_id b = None \<and>
     (if at_current_wait_id b \<noteq> None then a = b\<lparr>at_watchdog_replacement_count := 0\<rparr>
      else \<exists>t \<in> set ts. dt_attempt_id t = at_attempt_id b \<and>
        a = b\<lparr>at_watchdog_replacement_count := 0, at_current_dispatch_id := Some (dt_dispatch_id t)\<rparr>)"

lemma resumed_lane:
  assumes cov: "plan_covers plan" and start: "\<not> cn_has_unconsumed_task_start plan"
    and prep: "list_all2 prepared_from (cn_sources plan) cs" and ok: "lanes_ok d"
    and cur: "paused_task_is_current plan d t"
    and ok2: "lanes_ok d2" and opened: "lanes_opened cs d1 d2"
    and x: "x \<in> set (attempts d)" "at_task_id x = ps_task_id (cn_task plan)" "at_status x = AttRunning"
    and b: "b = (if idle_running (ps_task_id (cn_task plan)) x then x\<lparr>at_watchdog_replacement_count := 0\<rparr> else x)"
    and a: "a \<in> set (attempts d2)" "a = b \<or> (\<exists>c \<in> set cs. lane_opened_by c b a)"
  shows "lane_continued (map opened_row cs) x a"
proof -
  obtain l where l: "l \<in> set (ps_lanes (cn_task plan))" "pl_attempt_id l = at_attempt_id x"
    "pl_assignment_id l = at_assignment_id x" "at_current_dispatch_id x = None"
    "at_current_wait_id x = pl_current_wait_id l"
    by (rule planned_lanes_complete [OF cov ok cur x])
  have b': "b = x\<lparr>at_watchdog_replacement_count := 0\<rparr>" using b x(2,3) l(4) by (simp add: idle_running_def)
  show ?thesis
  proof (cases "\<exists>c \<in> set cs. lane_opened_by c b a")
    case True
    then obtain c where c: "c \<in> set cs" "lane_opened_by c b a" by blast
    have mem: "opened_row c \<in> set (map opened_row cs)" using c(1) by simp
    have "dt_attempt_id (opened_row c) = at_attempt_id x" "at_current_wait_id x = None"
      "a = x\<lparr>at_watchdog_replacement_count := 0, at_current_dispatch_id := Some (dt_dispatch_id (opened_row c))\<rparr>"
      using c(2) by (simp_all add: lane_opened_by_def b' build_starting_dispatch_model_def successor_basis_def Let_def)
    then show ?thesis using l(4) unfolding lane_continued_def by (simp only: simp_thms if_False) (rule bexI [OF _ mem], simp)
  next
    case False
    then have ab: "a = b" using a(2) by blast
    show ?thesis
    proof (cases "pl_current_wait_id l = None")
      case False
      then show ?thesis using l(4,5) by (simp add: lane_continued_def ab b')
    next
      case True
      obtain q where q: "q \<in> set (cn_sources plan)" "lane_key q = (pl_assignment_id l, pl_attempt_id l)"
        using cov start l(1) True unfolding plan_covers_def Let_def by blast
      obtain c where c: "c \<in> set cs" "prepared_from q c"
        using prep q(1) by (metis list_all2_conv_all_nth in_set_conv_nth)
      obtain y z where y: "z \<in> set (attempts d2)" "lane_opened_by c y z"
        using opened c(1) unfolding lanes_opened_def by blast
      have "at_attempt_id z = at_attempt_id a"
        using y(2) c(2) q(2) l(2) b' ab by (simp add: lane_opened_by_def prepared_from_def lane_key_def)
      then have "z = a" by (intro keyed_unique [OF lanes_ok_keys(1) [OF ok2] y(1) a(1)])
      then have "at_current_dispatch_id a \<noteq> None" using y(2) by (simp add: lane_opened_by_def)
      then show ?thesis using l(4) by (simp add: ab b')
    qed
  qed
qed

text \<open>Every Dispatch opened is one of the Task.\<close>

lemma opened_rows_task:
  assumes cov: "plan_covers plan" and prep: "list_all2 prepared_from (cn_sources plan) cs" and ok: "lanes_ok d"
    and cur: "paused_task_is_current plan d t"
    and as: "attempts d1 = map (\<lambda>a. if idle_running (ps_task_id (cn_task plan)) a
       then a\<lparr>at_watchdog_replacement_count := 0\<rparr> else a) (attempts d)"
    and opened: "lanes_opened cs d1 d2" and c: "c \<in> set cs"
  shows "dt_task_id (opened_row c) = ps_task_id (cn_task plan)"
proof -
  let ?s = "cn_task plan"
  obtain q where q: "q \<in> set (cn_sources plan)" "prepared_from q c"
    using prep c by (metis list_all2_conv_all_nth in_set_conv_nth)
  obtain l where l: "l \<in> set (ps_lanes ?s)" "lane_key q = (pl_assignment_id l, pl_attempt_id l)"
    using cov q(1) unfolding plan_covers_def Let_def by blast
  obtain x where x: "x \<in> set (attempts d)" "at_task_id x = ps_task_id ?s" "at_attempt_id x = pl_attempt_id l"
    using cur l(1) by (auto simp: paused_task_is_current_def Let_def list_all_iff list_ex_iff)
  obtain b a where b: "b \<in> set (attempts d1)" "lane_opened_by c b a"
    using opened c unfolding lanes_opened_def by blast
  obtain y where y: "y \<in> set (attempts d)"
    "b = (if idle_running (ps_task_id ?s) y then y\<lparr>at_watchdog_replacement_count := 0\<rparr> else y)"
    using b(1) unfolding as by auto
  have "at_attempt_id y = at_attempt_id x"
    using b(2) y(2) x(3) q(2) l(2) by (auto simp: lane_opened_by_def prepared_from_def lane_key_def split: if_split_asm)
  then have "y = x" by (intro keyed_unique [OF lanes_ok_keys(1) [OF ok] y(1) x(1)])
  then have "at_task_id b = ps_task_id ?s" using x(2) y(2) by simp
  then show ?thesis using b(2) by (simp add: lane_opened_by_def)
qed

text \<open>
  All lanes of the Task: its running Attempts are continued, every other Attempt and every wait is as
  before, and each new Dispatch has a predecessor and runs its lane.
\<close>

definition lanes_continued :: "ident \<Rightarrow> dispatch_row list \<Rightarrow> db \<Rightarrow> db \<Rightarrow> bool" where
  "lanes_continued task ts d d' \<longleftrightarrow> waits d' = waits d \<and>
     list_all2 (\<lambda>b a. if at_task_id b = task \<and> at_status b = AttRunning then lane_continued ts b a else a = b)
       (attempts d) (attempts d') \<and>
     (\<forall>t \<in> set ts. dt_predecessor_dispatch_id t \<noteq> None \<and>
       (\<exists>a \<in> set (attempts d'). at_attempt_id a = dt_attempt_id t \<and>
          at_current_dispatch_id a = Some (dt_dispatch_id t)))"

lemma lanes_continued_commit:
  assumes cov: "plan_covers plan" and start: "\<not> cn_has_unconsumed_task_start plan"
    and prep: "list_all2 prepared_from (cn_sources plan) cs" and ok: "lanes_ok d"
    and cur: "paused_task_is_current plan d t"
    and as: "attempts d1 = map (\<lambda>a. if idle_running (ps_task_id (cn_task plan)) a
       then a\<lparr>at_watchdog_replacement_count := 0\<rparr> else a) (attempts d)"
    and ok2: "lanes_ok d2" and opened: "lanes_opened cs d1 d2" and waits: "waits d2 = waits d"
  shows "lanes_continued (ps_task_id (cn_task plan)) (map opened_row cs) d d2"
proof -
  let ?task = "ps_task_id (cn_task plan)"
  let ?g = "\<lambda>a. if idle_running ?task a then a\<lparr>at_watchdog_replacement_count := 0\<rparr> else a"
  have step: "if at_task_id x = ?task \<and> at_status x = AttRunning
      then lane_continued (map opened_row cs) x a else a = x"
    if x: "x \<in> set (attempts d)" and a: "a \<in> set (attempts d2)"
      and xa: "a = ?g x \<or> (\<exists>c \<in> set cs. lane_opened_by c (?g x) a)" for x a
  proof (cases "at_task_id x = ?task \<and> at_status x = AttRunning")
    case True
    then have "lane_continued (map opened_row cs) x a"
      by (intro resumed_lane [OF cov start prep ok cur ok2 opened x _ _ refl a xa]) simp_all
    with True show ?thesis by simp
  next
    case False
    then have g: "?g x = x" by (auto simp: idle_running_def)
    have "\<not> lane_opened_by c x a" if "c \<in> set cs" for c
    proof
      assume "lane_opened_by c x a"
      then have "at_task_id x = dt_task_id (opened_row c)" "at_status x = AttRunning"
        by (simp_all add: lane_opened_by_def build_starting_dispatch_model_def successor_basis_def Let_def)
      then show False using opened_rows_task [OF cov prep ok cur as opened that] False by simp
    qed
    then have "a = x" using xa unfolding g by blast
    then show ?thesis using False by auto
  qed
  have "list_all2 (\<lambda>x a. a = ?g x \<or> (\<exists>c \<in> set cs. lane_opened_by c (?g x) a)) (attempts d) (attempts d2)"
    using opened unfolding lanes_opened_def as by (simp add: list_all2_map1)
  then have rows: "list_all2 (\<lambda>x a. if at_task_id x = ?task \<and> at_status x = AttRunning
      then lane_continued (map opened_row cs) x a else a = x) (attempts d) (attempts d2)"
    by (rule list.rel_mono_strong) (rule step)
  have "dt_predecessor_dispatch_id u \<noteq> None \<and>
      (\<exists>a \<in> set (attempts d2). at_attempt_id a = dt_attempt_id u \<and> at_current_dispatch_id a = Some (dt_dispatch_id u))"
    if u: "u \<in> set (map opened_row cs)" for u
  proof -
    obtain c where c: "c \<in> set cs" "u = opened_row c" using u by auto
    obtain b a where "a \<in> set (attempts d2)" "lane_opened_by c b a"
      using opened c(1) unfolding lanes_opened_def by blast
    then show ?thesis
      unfolding c(2) by (intro conjI bexI [of _ a])
        (simp_all add: lane_opened_by_def build_starting_dispatch_model_def successor_basis_def Let_def)
  qed
  with rows waits show ?thesis unfolding lanes_continued_def by blast
qed

text \<open>The committed continuation, from any plan that covers the lanes.\<close>

definition task_resumed :: "ident \<Rightarrow> int \<Rightarrow> db \<Rightarrow> bool" where
  "task_resumed task control d \<longleftrightarrow> (\<exists>t \<in> set (tasks d). tk_task_id t = task \<and> tk_status t = TaskRunning \<and>
     tk_control_revision t = control + 1 \<and> tk_pause_reason t = None)"

lemma commit_paused_effect:
  assumes cov: "plan_covers plan" and start: "\<not> cn_has_unconsumed_task_start plan"
    and prep: "list_all2 prepared_from (cn_sources plan) cs"
    and ok: "system_ok (env_event_hash env) d"
    and cm: "commit_paused_continuations env plan cs resume d = Inr d'"
  shows "system_ok (env_event_hash env) d' \<and> sources_forward d d' \<and>
    task_resumed (ps_task_id (cn_task plan)) (ps_control_revision (cn_task plan)) d' \<and>
    dispatches d' = dispatches d @ map opened_row cs \<and>
    (\<forall>c \<in> set cs. dt_task_id (opened_row c) = ps_task_id (cn_task plan)) \<and>
    lanes_continued (ps_task_id (cn_task plan)) (map opened_row cs) d d'"
proof -
  let ?H = "env_event_hash env" and ?s = "cn_task plan"
  let ?p = "\<lambda>t. paused_task_is_current plan d t \<and> list_all (\<lambda>q. ordinary_context_is_current (pp_snapshot q) d) cs"
  note rt = system_ok_parts(1) [OF ok]
  obtain ts d1 d2 where
    up: "update_checked ck_task ?p (resumed_task (env_now env)) (tasks d) = Inr (Some ts)"
    and re: "reset_watchdog_replacement_counts plan (d\<lparr>tasks := ts\<rparr>) = Inr d1"
    and fo: "fold_result (open_paused_continuation env) cs d1 = Inr d2"
    and ev: "append_task_event env (lanes_resumed_event plan (length cs) resume (env_now env)) d2 = Inr d'"
    using cm unfolding commit_paused_continuations_def
    by (auto split: if_split_asm option.split_asm elim!: and_then_InrE)
  have key: "keyed tk_task_id (tasks d)"
    using controller_ok_parts(4) [OF runtime_ok_parts(1) [OF rt]] by (simp add: tasks_ok_def)
  obtain t where t: "t \<in> set (tasks d)" "paused_task_is_current plan d t" "ck_task (resumed_task (env_now env) t)"
    "ts = replace_row t (resumed_task (env_now env) t) (tasks d)"
    by (rule update_checked_one [OF key up, of "ps_task_id ?s"])
      (auto simp: paused_task_is_current_def Let_def)
  have paused: "tk_task_id t = ps_task_id ?s" "tk_status t = TaskPaused" "tk_control_revision t = ps_control_revision ?s"
    using t(2) by (simp_all add: paused_task_is_current_def Let_def)
  have "runtime_ok ?H (d\<lparr>tasks := ts\<rparr>)"
    unfolding t(4) by (rule runtime_ok_task [OF rt t(1) _ t(3)])
      (simp_all add: resumed_task_def resume_task_row_def paused)
  then have ok0: "system_ok ?H (d\<lparr>tasks := ts\<rparr>)" by (intro system_ok_frame [OF ok]) simp_all
  obtain as where d1: "d1 = d\<lparr>tasks := ts, attempts := as\<rparr>" and ok1: "system_ok ?H d1"
    and fw1: "sources_forward (d\<lparr>tasks := ts\<rparr>) d1"
    and as: "as = map (\<lambda>a. if idle_running (ps_task_id ?s) a then a\<lparr>at_watchdog_replacement_count := 0\<rparr> else a) (attempts d)"
    by (rule reset_keeps [OF ok0 re]) simp
  have claims: "\<forall>c \<in> set cs. successor_claim (pp_claim c)"
    using prep cov unfolding plan_covers_def Let_def
    by (metis sound_source_def prepared_from_def list_all2_conv_all_nth in_set_conv_nth)
  note e = open_each_lane [OF fo ok1 claims]
  have ok2: "system_ok ?H d2" and op: "lanes_opened cs d1 d2" using e by blast+
  obtain es eh where d': "d' = d2\<lparr>events := es, event_heads := eh\<rparr>" using append_task_event_frame [OF ev] by auto
  have "system_ok ?H d'"
    by (rule system_ok_frame [OF ok2 append_runtime_ok [OF system_ok_parts(1) [OF ok2] ev]]) (simp_all add: d')
  moreover have "sources_forward d d'"
  proof -
    have "sources_forward d (d\<lparr>tasks := ts\<rparr>)" "sources_forward d2 d'"
      by (rule sources_forward_same; simp add: d')+
    then show ?thesis using fw1 e by (meson sources_forward_trans)
  qed
  moreover have "task_resumed (ps_task_id ?s) (ps_control_revision ?s) d'"
  proof -
    have "tasks d' = ts" using e by (simp add: d' d1)
    moreover have "resumed_task (env_now env) t \<in> set ts" using t(1) by (simp add: t(4) set_replace_row)
    ultimately show ?thesis
      by (auto simp: task_resumed_def resumed_task_def resume_task_row_def paused intro!: bexI [of _ "resumed_task (env_now env) t"])
  qed
  moreover have "dispatches d' = dispatches d @ map opened_row cs" using op by (simp add: lanes_opened_def d' d1)
  moreover have "dt_task_id (opened_row c) = ps_task_id ?s" if "c \<in> set cs" for c
    by (rule opened_rows_task [OF cov prep runtime_ok_parts(4) [OF rt] t(2) _ op that]) (simp add: d1 as)
  moreover have "lanes_continued (ps_task_id ?s) (map opened_row cs) d d'"
  proof -
    have "lanes_continued (ps_task_id ?s) (map opened_row cs) d d2"
      by (rule lanes_continued_commit [OF cov start prep runtime_ok_parts(4) [OF rt] t(2) _
            runtime_ok_parts(4) [OF system_ok_parts(1) [OF ok2]] op])
        (use e in \<open>simp_all add: d1 as\<close>)
    then show ?thesis by (simp add: lanes_continued_def d')
  qed
  ultimately show ?thesis by blast
qed

subsection \<open>The whole operation\<close>

lemma as_continue_failure_Inr [result_simps]: "as_continue_failure r = Inr x \<longleftrightarrow> r = Inr x"
  by (cases r rule: as_continue_failure.cases) (auto split: option.splits)

lemma as_continuation_failure_Inr [result_simps]: "as_continuation_failure r = Inr x \<longleftrightarrow> r = Inr x"
  by (cases r rule: as_continuation_failure.cases) (simp_all add: result_simps)

lemma continue_planned_cases:
  assumes "continue_planned_task env deps task revision control resume d d' = Inr (opened, d'')"
  obtains (root) plan x where
    "read_paused_task_continuation_plan (cd_library deps) (cd_read_success deps) task revision control d = Inr plan"
    "cn_has_unconsumed_task_start plan"
    "continue_paused_root_dispatch env (cd_root_render deps) (ps_task_id (cn_task plan))
       (ps_team_revision_id (cn_task plan)) (ps_control_revision (cn_task plan)) resume (cd_draw deps 0) d d' = Inr (x, d'')"
    "opened = [x]"
  | (lanes) plan cs where
    "read_paused_task_continuation_plan (cd_library deps) (cd_read_success deps) task revision control d = Inr plan"
    "\<not> cn_has_unconsumed_task_start plan"
    "prepare_paused_continuations (cd_preparation deps) (cd_draw deps) plan d = Inr cs"
    "commit_paused_continuations env plan cs resume d' = Inr d''"
    "opened = map (pr_dispatch_id \<circ> pp_prepared) cs"
  using assms unfolding continue_planned_task_def as_continuation_failure_Inr
  by (auto split: if_split_asm elim!: and_then_InrE)

text \<open>
  A Task that was paused before its first Dispatch: its one running Attempt is that of the unconsumed
  Task start. The opening spends the start and puts this Attempt, idle until then, on the new
  Dispatch, which has no predecessor.
\<close>

definition root_continued :: "ident \<Rightarrow> dispatch_row list \<Rightarrow> db \<Rightarrow> db \<Rightarrow> db \<Rightarrow> bool" where
  "root_continued task ts d0 d d' \<longleftrightarrow> waits d' = waits d \<and>
     (\<exists>s \<in> set (task_starts d). \<exists>t. ts = [t] \<and>
        ts_task_id s = task \<and> ts_successor_dispatch_id s = None \<and>
        s\<lparr>ts_successor_dispatch_id := Some (dt_dispatch_id t)\<rparr> \<in> set (task_starts d') \<and>
        dt_attempt_id t = ts_root_attempt_id s \<and> dt_predecessor_dispatch_id t = None \<and>
        (\<forall>a \<in> set (attempts d0). at_task_id a = task \<and> at_status a = AttRunning \<longrightarrow>
           at_attempt_id a = ts_root_attempt_id s) \<and>
        (\<exists>a \<in> set (attempts d). at_attempt_id a = ts_root_attempt_id s \<and> at_task_id a = task \<and>
           at_status a = AttRunning \<and> at_current_dispatch_id a = None \<and> at_current_wait_id a = None \<and>
           attempts d' = replace_row a (a\<lparr>at_current_dispatch_id := Some (dt_dispatch_id t)\<rparr>) (attempts d)))"

lemma stage_root_start:
  assumes ok: "system_ok (env_event_hash env) d"
    and st: "stage_root_dispatch_if_current env resume n p d = Inr (True, d')"
  obtains s where "s \<in> set (task_starts d)" "ts_task_id s = rs_task_id n"
    "ts_root_attempt_id s = rs_attempt_id n" "ts_successor_dispatch_id s = None"
    "s\<lparr>ts_successor_dispatch_id := Some (pr_dispatch_id p)\<rparr> \<in> set (task_starts d')" "waits d' = waits d"
proof -
  obtain ts ss where cl: "claim_root_dispatch_source n (pr_dispatch_id p) d = Some ss"
    and sd: "stage_starting_dispatch env (root_basis n resume) p (d\<lparr>tasks := ts, task_starts := ss\<rparr>) = Inr d'"
    using st unfolding stage_root_dispatch_if_current_def
    by (auto split: option.split_asm sum.split_asm failure.split_asm elim!: and_then_InrE)
  note f = stage_starting_dispatch_frame [OF sd]
  obtain s where s: "s \<in> set (task_starts d)" "ts_task_id s = rs_task_id n" "ts_root_attempt_id s = rs_attempt_id n"
      "ts_successor_dispatch_id s = None"
    and ss: "s\<lparr>ts_successor_dispatch_id := Some (pr_dispatch_id p)\<rparr> \<in> set ss"
    using cl unfolding claim_root_dispatch_source_def update_where_Some_iff by force
  show thesis by (rule that [OF s]) (use ss f in simp_all)
qed

text \<open>What planning the root reads: the root Attempt, one of the Task's running Attempts.\<close>

lemma prepare_root_reads:
  assumes "prepare_root_dispatch render task TaskPaused (Some revision) (Some control) x d = Inr (Some (n, p))"
  shows "rs_task_control_revision n = control"
    "\<exists>a \<in> set (attempts d). at_attempt_id a = rs_attempt_id n \<and> at_task_id a = task \<and> at_status a = AttRunning"
proof -
  obtain q where n: "read_root_opening_snapshot task TaskPaused (Some revision) (Some control) d = Inr (Some n)"
    using assms unfolding prepare_root_dispatch_def by (auto split: option.split_asm elim!: and_then_InrE)
  obtain s t c where st: "read_task_start_state task TaskPaused (Some revision) (Some control) d = Some (s, t)"
    and c: "read_root_runtime_context s t d = Inr c"
    and m: "rs_task_control_revision n = tk_control_revision t" "rs_attempt_id n = at_attempt_id (rc_attempt c)"
    using n unfolding read_root_opening_snapshot_def
    by (auto split: option.split_asm prod.split_asm elim!: and_then_InrE)
  have t: "tk_task_id t = task" "tk_control_revision t = control"
    using st unfolding read_task_start_state_def
    by (auto simp: bind_eq_Some_conv split: if_split_asm dest!: find_Some_D)
  have "rc_attempt c \<in> set (attempts d) \<and> at_task_id (rc_attempt c) = tk_task_id t \<and> at_status (rc_attempt c) = AttRunning"
    using c unfolding read_root_runtime_context_def
    by (auto simp: bind_eq_Some_conv split: option.split_asm if_split_asm dest!: find_Some_D)
  then show "rs_task_control_revision n = control"
    "\<exists>a \<in> set (attempts d). at_attempt_id a = rs_attempt_id n \<and> at_task_id a = task \<and> at_status a = AttRunning"
    using m t by auto
qed

lemma plan_start_one_lane:
  assumes pl: "read_paused_task_continuation_plan lib f task revision control d = Inr plan"
    and start: "cn_has_unconsumed_task_start plan"
    and a: "a \<in> set (attempts d)" "at_task_id a = task" "at_status a = AttRunning"
    and b: "b \<in> set (attempts d)" "at_task_id b = task" "at_status b = AttRunning"
  shows "a = b"
proof -
  obtain s qs where s: "read_paused_task_snapshot task revision control d = Inr s"
    and v: "validate_lane_sources s qs True d = Inr ()"
    using pl start unfolding read_paused_task_continuation_plan_def Let_def
    by (auto simp: and_then_Inr_iff require_that_Inr_iff)
  have "length (ps_lanes s) = 1"
    using v by (simp add: validate_lane_sources_def and_then_Inr_iff require_that_Inr_iff)
  moreover have "length (ps_lanes s) = length (filter (\<lambda>a. at_task_id a = task \<and> at_status a = AttRunning) (attempts d))"
    using s unfolding read_paused_task_snapshot_def Let_def
    by (auto split: option.split_asm prod.split_asm if_split_asm simp: bind_eq_Some_conv dest!: find_Some_D)
  ultimately obtain y where y: "filter (\<lambda>a. at_task_id a = task \<and> at_status a = AttRunning) (attempts d) = [y]"
    by (auto simp: length_Suc_conv)
  have "a \<in> set (filter (\<lambda>a. at_task_id a = task \<and> at_status a = AttRunning) (attempts d))"
    "b \<in> set (filter (\<lambda>a. at_task_id a = task \<and> at_status a = AttRunning) (attempts d))" using a b by simp_all
  then show ?thesis unfolding y by simp
qed

lemma continue_root_effect:
  assumes pl: "read_paused_task_continuation_plan lib f task revision control d = Inr plan"
    and start: "cn_has_unconsumed_task_start plan" and ok: "system_ok (env_event_hash env) d'"
    and c: "continue_paused_root_dispatch env render task revision' control resume x d d' = Inr (y, d'')"
  shows "system_ok (env_event_hash env) d'' \<and> sources_forward d' d'' \<and> task_resumed task control d'' \<and>
    (\<exists>ts. dispatches d'' = dispatches d' @ ts \<and> map dt_dispatch_id ts = [y] \<and>
       (\<forall>t \<in> set ts. dt_status t = Starting \<and> dt_task_id t = task) \<and> root_continued task ts d d' d'')"
proof -
  obtain n p where pr: "prepare_root_dispatch render task TaskPaused (Some revision') (Some control) x d = Inr (Some (n, p))"
    and st: "stage_root_dispatch_if_current env (Some resume) n p d' = Inr (True, d'')" and y: "y = pr_dispatch_id p"
    using c unfolding continue_paused_root_dispatch_def plan_paused_root_def
    by (auto simp: as_continue_failure_Inr and_then_Inr_iff require_Inr_iff split: if_split_asm prod.split_asm)
  note src = prepare_root_source [OF pr] and rd = prepare_root_reads [OF pr]
  note e = stage_root_opened [OF ok st]
  let ?t = "build_starting_dispatch_model (root_basis n (Some resume)) p"
  obtain t where t: "t \<in> set (tasks d')" "root_task_claimable n d' t"
    "tasks d'' = replace_row t (advanced_root_task n p t) (tasks d')"
    and ds: "dispatches d'' = dispatches d' @ [?t]"
    using e unfolding root_opened_def by blast
  obtain a where a: "a \<in> set (attempts d')" "at_attempt_id a = rs_attempt_id n" "at_task_id a = rs_task_id n"
      "at_status a = AttRunning" "at_current_dispatch_id a = None" "at_current_wait_id a = None"
      "attempts d'' = replace_row a (a\<lparr>at_current_dispatch_id := Some (pr_dispatch_id p)\<rparr>) (attempts d')"
    using e unfolding root_opened_def by blast
  obtain s where s: "s \<in> set (task_starts d')" "ts_task_id s = rs_task_id n"
    "ts_root_attempt_id s = rs_attempt_id n" "ts_successor_dispatch_id s = None"
    "s\<lparr>ts_successor_dispatch_id := Some (pr_dispatch_id p)\<rparr> \<in> set (task_starts d'')" "waits d'' = waits d'"
    by (rule stage_root_start [OF ok st])
  have "advanced_root_task n p t \<in> set (tasks d'')" unfolding t(3) using t(1) by (simp add: set_replace_row)
  then have "task_resumed task control d''"
    using t(2) src rd(1)
    by (auto simp: task_resumed_def advanced_root_task_def resume_task_row_def root_task_claimable_def
        intro!: bexI [of _ "advanced_root_task n p t"])
  moreover have "at_attempt_id b = rs_attempt_id n"
    if b: "b \<in> set (attempts d)" "at_task_id b = task" "at_status b = AttRunning" for b
    using rd(2) plan_start_one_lane [OF pl start b] by blast
  then have "root_continued task [?t] d d' d''"
    unfolding root_continued_def using s a src
    by (auto simp: build_starting_dispatch_model_def root_basis_def intro!: bexI [of _ s] bexI [of _ a])
  moreover have "dt_status ?t = Starting \<and> dt_task_id ?t = task \<and> dt_dispatch_id ?t = y"
    using src y by (simp add: build_starting_dispatch_model_def root_basis_def)
  ultimately show ?thesis using e ds by (intro conjI exI [of _ "[?t]"]) auto
qed

lemma continue_planned_effect:
  assumes ok0: "lanes_ok d" and ok: "system_ok (env_event_hash env) d'"
    and c: "continue_planned_task env deps task revision control resume d d' = Inr (opened, d'')"
  shows "system_ok (env_event_hash env) d'' \<and> sources_forward d' d'' \<and> task_resumed task control d'' \<and>
    (\<exists>ts. dispatches d'' = dispatches d' @ ts \<and> map dt_dispatch_id ts = opened \<and>
       (\<forall>t \<in> set ts. dt_status t = Starting \<and> dt_task_id t = task) \<and>
       (if has_unconsumed_task_start task d then root_continued task ts d d' d''
        else lanes_continued task ts d' d''))"
  using c
proof (cases rule: continue_planned_cases)
  case (root plan x)
  note P = read_plan_Inr [OF root(1) ok0]
  have "continue_paused_root_dispatch env (cd_root_render deps) task (ps_team_revision_id (cn_task plan))
      control resume (cd_draw deps 0) d d' = Inr (x, d'')" using root(3) P by simp
  from continue_root_effect [OF root(1,2) ok this] show ?thesis using P root(2,4) by simp
next
  case (lanes plan cs)
  note P = read_plan_Inr [OF lanes(1) ok0]
  have "plan_covers plan" using P by blast
  note e = commit_paused_effect [OF this lanes(2) prepare_Inr [OF lanes(3)] ok lanes(4)]
  have "\<forall>t \<in> set (map opened_row cs). dt_status t = Starting \<and> dt_task_id t = task"
    using e P by (auto simp: build_starting_dispatch_model_def)
  moreover have "map dt_dispatch_id (map opened_row cs) = opened"
    by (simp add: lanes(5) build_starting_dispatch_model_def)
  ultimately show ?thesis using e P lanes(2) by (intro conjI exI [of _ "map opened_row cs"]) simp_all
qed

subsection \<open>The repairs before a continuation\<close>

lemma update_checked_rows:
  assumes "update_checked ck p f rs = Inr (Some rs')"
  shows "\<forall>r \<in> set rs. p r \<longrightarrow> ck (f r)" "rs' = map (\<lambda>r. if p r then f r else r) rs"
proof -
  have "update_where p f rs = Some rs'" and ck: "\<forall>r \<in> set rs. p r \<longrightarrow> ck (f r)"
    using assms unfolding update_checked_Inr_iff by metis+
  then show "rs' = map (\<lambda>r. if p r then f r else r) rs" by (simp add: update_where_Some_iff)
  show "\<forall>r \<in> set rs. p r \<longrightarrow> ck (f r)" by (rule ck)
qed

text \<open>The manifest barrier of a replan changes unopened transitions alone.\<close>

lemma manifest_effect:
  assumes ok: "system_ok H d" and e: "ensure_replan_manifest_current env project k d = Inr (b, d')"
  shows "system_ok H d' \<and> sources_forward d d'"
proof -
  consider "d' = d"
    | code detail where "record_manifest_failure k code detail (env_now env) d = Inr d'"
    | "mark_manifest_current k (env_now env) d = Inr (b, d')"
    using e unfolding ensure_replan_manifest_current_def
    by (auto split: option.split_asm sum.split_asm bool.split_asm if_split_asm elim!: and_then_InrE)
  then show ?thesis
  proof cases
    case 1
    then show ?thesis using ok by simp
  next
    case (2 code detail)
    then have ck: "\<forall>r \<in> set (replan_transitions d).
        rt_replan_transition_id r = k \<and> rt_successor_dispatch_id r = None \<and> replan_unsettled r \<longrightarrow>
        ck_replan (r\<lparr>rt_manifest_state := ManifestRepairRequired, rt_successor_state := SuccessorBlocked,
            rt_failure_code := Some (take 128 code),
            rt_failure_detail := Some (take failure_detail_limit detail), rt_updated_at := env_now env\<rparr>)"
      and d': "d' = d\<lparr>replan_transitions := map (\<lambda>r.
        if rt_replan_transition_id r = k \<and> rt_successor_dispatch_id r = None \<and> replan_unsettled r
        then r\<lparr>rt_manifest_state := ManifestRepairRequired, rt_successor_state := SuccessorBlocked,
            rt_failure_code := Some (take 128 code),
            rt_failure_detail := Some (take failure_detail_limit detail), rt_updated_at := env_now env\<rparr>
        else r) (replan_transitions d)\<rparr>"
      by (auto simp: record_manifest_failure_def and_then_Inr_iff update_all_Inr_iff)
    show ?thesis unfolding d' by (rule replans_update [OF ok ck]) simp_all
  next
    case 3
    show ?thesis
    proof (cases "d' = d")
      case True
      then show ?thesis using ok by simp
    next
      case False
      let ?p = "\<lambda>r. rt_replan_transition_id r = k \<and>
            rt_manifest_state r \<in> {ManifestPending, ManifestRepairRequired} \<and>
            rt_successor_state r = SuccessorBlocked \<and> rt_successor_dispatch_id r = None"
      let ?f = "\<lambda>r. r\<lparr>rt_manifest_state := ManifestCurrent, rt_successor_state := SuccessorPending,
            rt_failure_code := None, rt_failure_detail := None,
            rt_manifest_current_at := Some (env_now env), rt_updated_at := env_now env\<rparr>"
      obtain rs where up: "update_checked ck_replan ?p ?f (replan_transitions d) = Inr (Some rs)"
        and d': "d' = d\<lparr>replan_transitions := rs\<rparr>"
        using 3 False unfolding mark_manifest_current_def
        by (auto split: option.split_asm elim!: and_then_InrE)
      note rows = update_checked_rows [OF up]
      show ?thesis unfolding d' rows(2)
        by (rule replans_update [OF ok rows(1)]) simp_all
    qed
  qed
qed

lemma repairs_effect:
  assumes "system_ok H d"
  shows "system_ok H (snd (repair_paused_replan_manifests env project task revision control d))"
proof -
  have one: "system_ok H (snd (repair_paused_replan_manifest env project k s))" if "system_ok H (snd s)" for k s
    using that unfolding repair_paused_replan_manifest_def
    by (auto split: prod.split sum.split dest: manifest_effect)
  have "system_ok H (snd (fold (repair_paused_replan_manifest env project) ks s))" if "system_ok H (snd s)" for ks s
    using that by (induction ks arbitrary: s) (simp_all add: one)
  then show ?thesis using assms by (simp add: repair_paused_replan_manifests_def)
qed

text \<open>
  C34. Continuing a paused Task continues all of it at once. From a consistent state, whatever the
  requests, the probes and the repairs answer, and whatever other transactions that keep the
  invariant do between its transactions, a continuation that succeeds keeps the whole
  invariant, spends no source twice, sets the Task running at the next control revision and opens
  exactly the returned Dispatches, each a starting Dispatch of this Task. If the Task's start
  was already consumed when the continuation was planned, every running Attempt of the Task gets a fresh
  watchdog budget and is otherwise as before on a lane with a wait, while every lane without one runs on
  a new Dispatch of its own that has a predecessor; all other Attempts and all waits are
  unchanged. If the start was unconsumed, the one Dispatch opened is the root's: it spends the start and
  runs on the root Attempt, then the only running Attempt of the Task, and nothing else changes on
  any Attempt or wait.
\<close>

theorem continued_task_runs_every_lane:
  assumes "system_ok (env_event_hash env) d"
    and "\<forall>x. system_ok (env_event_hash env) x \<longrightarrow>
      system_ok (env_event_hash env) (after_repair x) \<and> system_ok (env_event_hash env) (after_plan x)"
    and "continue_task env deps project available after_repair after_plan task revision control actor src d =
      (Inr opened, d'')"
    and "planned = after_repair (snd (repair_paused_replan_manifests env project task revision control d))"
  shows "system_ok (env_event_hash env) d'' \<and> sources_forward (after_plan planned) d'' \<and>
    task_resumed task control d'' \<and>
    (\<exists>ts. dispatches d'' = dispatches (after_plan planned) @ ts \<and> map dt_dispatch_id ts = opened \<and>
       (\<forall>t \<in> set ts. dt_status t = Starting \<and> dt_task_id t = task) \<and>
       (if has_unconsumed_task_start task planned
        then root_continued task ts planned (after_plan planned) d''
        else lanes_continued task ts (after_plan planned) d''))"
proof -
  let ?rep = "repair_paused_replan_manifests env project task revision control d"
  have c: "continue_planned_task env deps task revision control
      \<lparr>re_control_revision = control + 1, re_actor_ref = actor, re_event_source = src\<rparr>
      planned (after_plan planned) = Inr (opened, d'')"
    using assms(3) unfolding continue_task_def assms(4) Let_def
    by (auto simp: as_continuation_failure_Inr split: sum.split_asm prod.split_asm)
  have ok: "system_ok (env_event_hash env) planned"
    using repairs_effect [OF assms(1)] assms(2) unfolding assms(4) by blast
  then have "lanes_ok planned" by (intro runtime_ok_parts(4) system_ok_parts(1))
  from continue_planned_effect [OF this _ c] ok assms(2) show ?thesis by blast
qed

subsection \<open>A Task paused for its workspace\<close>

lemma ensure_manifest_tasks:
  assumes "ensure_replan_manifest_current env project k d = Inr (b, d')"
  shows "tasks d' = tasks d"
  using assms
  by (auto simp: ensure_replan_manifest_current_def record_manifest_failure_def mark_manifest_current_def
      split: option.split_asm sum.split_asm bool.split_asm if_split_asm elim!: and_then_InrE)

lemma repair_tasks: "tasks (snd (repair_paused_replan_manifests env project task revision control d)) = tasks d"
proof -
  have one: "tasks (snd (repair_paused_replan_manifest env project k s)) = tasks (snd s)" for k s
    unfolding repair_paused_replan_manifest_def
    by (auto split: prod.split sum.split dest: ensure_manifest_tasks)
  have "tasks (snd (fold (repair_paused_replan_manifest env project) ks s)) = tasks (snd s)" for ks s
    by (induction ks arbitrary: s) (simp_all add: one)
  then show ?thesis by (simp add: repair_paused_replan_manifests_def)
qed

lemma workspace_pause_reason:
  assumes ok: "tasks_ok d" and pa: "pause_task_for_unavailable_workspace env task workspace d = Inr (True, d')"
    and t: "t \<in> set (tasks d')" "tk_task_id t = task"
  shows "tk_pause_reason t = Some ''workspace_unavailable''"
proof -
  have key: "keyed tk_task_id (tasks d)" using ok by (simp add: tasks_ok_def)
  obtain r ts revision closed d1 where
    r: "find (\<lambda>t. tk_task_id t = task \<and> tk_status t = TaskRunning) (tasks d) = Some r"
    and up: "update_all ck_task (\<lambda>t. tk_task_id t = task \<and> tk_status t = TaskRunning)
      (workspace_paused_task workspace (env_now env)) (tasks d) = Inr ts"
    and cl: "close_current_task_dispatches task CPaused (env_now env) Map.empty (d\<lparr>tasks := ts\<rparr>) = Inr (closed, d1)"
    and ev: "append_task_event env (workspace_paused_event task revision
      (tk_control_revision r + 1) (env_now env)) d1 = Inr d'"
    using pa unfolding pause_task_for_unavailable_workspace_def
    by (auto split: option.split_asm elim!: and_then_InrE)
  have "tasks d1 = ts" using close_current_task_dispatches_frame [OF cl] by auto
  then have ts: "tasks d' = ts" using append_task_event_frame [OF ev] by auto
  obtain u where u: "u \<in> set (tasks d)" "t = (if tk_task_id u = task \<and> tk_status u = TaskRunning
      then workspace_paused_task workspace (env_now env) u else u)"
    using t(1) up unfolding ts by (auto simp: update_all_Inr_iff)
  have "r \<in> set (tasks d)" "tk_task_id r = task" "tk_status r = TaskRunning" using find_Some_D [OF r] by auto
  moreover have "tk_task_id u = task" using u(2) t(2) by (auto simp: workspace_paused_task_def split: if_split_asm)
  ultimately have "u = r" using u(1) by (intro keyed_unique [OF key]) simp_all
  then show ?thesis using u(2) find_Some_D [OF r] by (simp add: workspace_paused_task_def)
qed

text \<open>A Task paused for another reason than the three of a continuation has no plan.\<close>

lemma no_plan:
  assumes "\<forall>t \<in> set (tasks d). tk_task_id t = task \<longrightarrow>
      (case tk_pause_reason t of None \<Rightarrow> True | Some r \<Rightarrow> r \<notin> set continuable_pause_reasons)"
  shows "read_paused_task_continuation_plan lib f task revision control d =
    Inl (conflict_error ''Task is not paused at the expected revision'')"
proof -
  let ?t = "find (\<lambda>t. tk_task_id t = task \<and> tk_status t = TaskPaused \<and>
       tk_current_team_revision_id t = Some revision \<and> tk_control_revision t = control) (tasks d)"
  have "Option.bind ?t (\<lambda>t. Option.bind (tk_pause_reason t) (\<lambda>reason.
        if reason \<in> set continuable_pause_reasons then Some (t, reason) else None)) = None"
  proof (cases ?t)
    case (Some t)
    then have "t \<in> set (tasks d)" "tk_task_id t = task" by (auto dest: find_Some_D)
    then show ?thesis using assms unfolding Some by (cases "tk_pause_reason t") auto
  qed simp
  then show ?thesis
    by (simp add: read_paused_task_continuation_plan_def read_paused_task_snapshot_def)
qed

text \<open>
  C35. A Task that was paused because its workspace was unavailable is never continued, even when
  the workspace is available again: whatever the request says and whatever the probe of the
  workspace answers, the operation fails, and in a Task without an unfinished replan that passes
  the admission it fails because the pause reason is not one it continues from.
\<close>

theorem workspace_pause_never_continues:
  assumes "tasks_ok d" and "pause_task_for_unavailable_workspace env task workspace d = Inr (True, d')"
    and "tasks (after_repair (snd (repair_paused_replan_manifests env' project task revision control d'))) = tasks d'"
  shows "isl (fst (continue_task env' deps project available after_repair after_plan task revision control actor src d')) \<and>
    (admit_continue available task revision control d' = Inr () \<and>
     fst (repair_paused_replan_manifests env' project task revision control d') = Inr () \<longrightarrow>
       fst (continue_task env' deps project available after_repair after_plan task revision control actor src d') =
         Inl (conflict_error ''Task is not paused at the expected revision''))"
proof -
  let ?rep = "repair_paused_replan_manifests env' project task revision control d'"
  have "continue_planned_task env' deps task revision control resume (after_repair (snd ?rep)) x =
      Inl (conflict_error ''Task is not paused at the expected revision'')" for resume x
  proof -
    have "\<forall>t \<in> set (tasks (after_repair (snd ?rep))). tk_task_id t = task \<longrightarrow>
        (case tk_pause_reason t of None \<Rightarrow> True | Some r \<Rightarrow> r \<notin> set continuable_pause_reasons)"
      unfolding assms(3) using workspace_pause_reason [OF assms(1,2)] by (auto simp: continuable_pause_reasons_def)
    then show ?thesis
      by (simp add: continue_planned_task_def no_plan conflict_error_def)
  qed
  moreover have "isl (as_continuation_failure (Inl f) :: ident list result)" for f
    by (cases "as_continuation_failure (Inl f) :: ident list result") (simp_all add: as_continuation_failure_Inr)
  ultimately show ?thesis
    by (auto simp: continue_task_def Let_def split: sum.split prod.split)
qed

end
