(* ===== verification/ResumeWitnesses.thy ===== *)
theory ResumeWitnesses
  imports TaskResumeProofs HumanWitnesses
begin

text \<open>
  Continuing the sample Task after an operator paused it, and after its workspace became
  unavailable.
\<close>

definition sample_paused_db :: db where
  "sample_paused_db = sample_db\<lparr>tasks := [paused_task None 50 sample_task],
     attempts := [sample_attempt\<lparr>at_current_dispatch_id := None, at_watchdog_replacement_count := 2\<rparr>],
     dispatches := [sample_dispatch\<lparr>dt_status := Closed, dt_closed_at := Some 50,
       dt_closed_reason := Some CPaused\<rparr>]\<rparr>"

definition sample_continue_deps :: "unit continue_deps" where
  "sample_continue_deps = \<lparr>cd_library = sample_library, cd_read_success = (\<lambda>_. Inr ''add_child''),
     cd_preparation = \<lparr>pn_inputs = (\<lambda>_ _. Inr ()), pn_prepare = (\<lambda>_ _. Inr sample_prepared)\<rparr>,
     cd_root_render = (\<lambda>_ _. Inr sample_prepared), cd_draw = (\<lambda>_. ''d2'')\<rparr>"

definition sample_resume :: resume_event_basis where
  "sample_resume = \<lparr>re_control_revision = 2, re_actor_ref = None, re_event_source = SrcOperator\<rparr>"

lemma system_okI: "runtime_ok H d \<Longrightarrow> replan_transitions d = [] \<Longrightarrow> length (task_starts d) \<le> 1 \<Longrightarrow> system_ok H d"
  by (cases "task_starts d") (simp_all add: system_ok_def replans_ok_def starts_ok_def keyed_def)

lemma sample_paused_ok: "system_ok (env_event_hash sample_env) sample_paused_db"
proof -
  have "lanes_ok sample_paused_db"
    by (simp add: lanes_ok_def lanes_wf_def sample_paused_db_def sample_defs keyed_def ck_attempt_def
        ck_dispatch_def ck_dispatch_source_shape_def dispatch_is_active_def attempt_owns_dispatch_def
        sql_eq_def starting_close_reasons_def)
  moreover have "tasks_ok sample_paused_db"
    by (simp add: tasks_ok_def sample_paused_db_def sample_defs keyed_def ck_task_def paused_task_def)
  moreover have "waves_ok sample_paused_db" "assignments_ok sample_paused_db"
    "events_ok (env_event_hash sample_env) sample_paused_db"
    using sample_controller_ok
    by (simp_all add: controller_ok_def sample_paused_db_def waves_ok_def assignments_ok_def events_ok_def
        log_ok_def task_log_def)
  ultimately have "controller_ok (env_event_hash sample_env) sample_paused_db" by (simp add: controller_ok_def)
  moreover have "humans_ok sample_paused_db" "commands_ok sample_paused_db"
    by (simp_all add: humans_ok_def commands_ok_def sample_paused_db_def sample_db_def keyed_def)
  ultimately have "runtime_ok (env_event_hash sample_env) sample_paused_db" by (simp add: runtime_ok_def)
  then show ?thesis by (rule system_okI) (simp_all add: sample_paused_db_def sample_db_def)
qed

text \<open>The same Task paused before its root Dispatch was opened.\<close>

definition sample_unstarted_db :: db where
  "sample_unstarted_db = sample_paused_db\<lparr>attempts := [sample_attempt\<lparr>at_current_dispatch_id := None\<rparr>],
     dispatches := [], dispatch_capabilities := [],
     task_starts := [\<lparr>ts_task_id = ''t1'', ts_root_assignment_id = ''as1'', ts_root_attempt_id = ''at1'',
        ts_successor_dispatch_id = None, ts_committed_at = 0\<rparr>]\<rparr>"

lemma sample_unstarted_ok: "system_ok (env_event_hash sample_env) sample_unstarted_db"
proof -
  have "lanes_ok sample_unstarted_db"
    by (simp add: lanes_ok_def lanes_wf_def sample_unstarted_db_def sample_paused_db_def sample_defs keyed_def
        ck_attempt_def attempt_owns_dispatch_def sql_eq_def)
  then show ?thesis
    using sample_paused_ok
    by (simp add: system_ok_def runtime_ok_def controller_ok_def replans_ok_def starts_ok_def keyed_def
        humans_ok_def commands_ok_def waves_ok_def assignments_ok_def tasks_ok_def events_ok_def log_ok_def
        task_log_def task_is_cancelled_def sample_unstarted_db_def)
qed

abbreviation sample_continuation :: "db \<Rightarrow> ident list result \<times> db" where
  "sample_continuation \<equiv> continue_task sample_env sample_continue_deps (\<lambda>_ _ _. Inr True) (\<lambda>_ _. Inr True)
     (\<lambda>d. d) (\<lambda>d. d) ''t1'' ''rev1'' 1 None SrcOperator"

lemma sample_repairs:
  "replan_transitions d = [] \<Longrightarrow> snd (repair_paused_replan_manifests env project task revision control d) = d"
  by (simp add: repair_paused_replan_manifests_def order_by_def)

theorem continued_task_runs_every_lane_witness:
  "(\<exists>opened d'' ts. sample_continuation sample_paused_db = (Inr opened, d'') \<and> task_resumed ''t1'' 1 d'' \<and>
      map dt_dispatch_id ts = opened \<and> lanes_continued ''t1'' ts sample_paused_db d'') \<and>
   (\<exists>opened d'' ts. sample_continuation sample_unstarted_db = (Inr opened, d'') \<and> task_resumed ''t1'' 1 d'' \<and>
      map dt_dispatch_id ts = opened \<and> root_continued ''t1'' ts sample_unstarted_db sample_unstarted_db d'')"
proof -
  have run: "\<exists>opened d''. r = (Inr opened, d'')" if "\<not> isl (fst r)" for r :: "ident list result \<times> db"
    using that by (cases r; cases "fst r") auto
  have "\<not> isl (fst (sample_continuation sample_paused_db))" by code_simp
  from run [OF this] obtain opened d'' where c: "sample_continuation sample_paused_db = (Inr opened, d'')" by auto
  have none: "replan_transitions sample_paused_db = []" "replan_transitions sample_unstarted_db = []"
    by (simp_all add: sample_unstarted_db_def sample_paused_db_def sample_db_def)
  have "\<not> has_unconsumed_task_start ''t1'' sample_paused_db" by code_simp
  with continued_task_runs_every_lane [OF sample_paused_ok _ c, of sample_paused_db] c
  have lanes: "\<exists>ts. sample_continuation sample_paused_db = (Inr opened, d'') \<and> task_resumed ''t1'' 1 d'' \<and>
      map dt_dispatch_id ts = opened \<and> lanes_continued ''t1'' ts sample_paused_db d''"
    by (auto simp: sample_repairs none)
  have "\<not> isl (fst (sample_continuation sample_unstarted_db))" by code_simp
  from run [OF this] obtain opened' e'' where e: "sample_continuation sample_unstarted_db = (Inr opened', e'')" by auto
  have "has_unconsumed_task_start ''t1'' sample_unstarted_db" by code_simp
  with continued_task_runs_every_lane [OF sample_unstarted_ok _ e, of sample_unstarted_db] e
  have "\<exists>ts. sample_continuation sample_unstarted_db = (Inr opened', e'') \<and> task_resumed ''t1'' 1 e'' \<and>
      map dt_dispatch_id ts = opened' \<and> root_continued ''t1'' ts sample_unstarted_db sample_unstarted_db e''"
    by (auto simp: sample_repairs none)
  with lanes show ?thesis by blast
qed

theorem workspace_pause_never_continues_witness:
  "\<exists>d'. pause_task_for_unavailable_workspace sample_env ''t1'' ''/w'' sample_db = Inr (True, d') \<and>
    fst (continue_task sample_env sample_continue_deps (\<lambda>_ _ _. Inr True) (\<lambda>_ _. Inr True) (\<lambda>d. d) (\<lambda>d. d)
      ''t1'' ''rev1'' 1 None SrcOperator d') =
        Inl (conflict_error ''Task is not paused at the expected revision'')"
proof -
  let ?r = "pause_task_for_unavailable_workspace sample_env ''t1'' ''/w'' sample_db"
  have "case ?r of Inl e \<Rightarrow> False | Inr (b, d) \<Rightarrow> b \<and> admit_continue (\<lambda>_ _. Inr True) ''t1'' ''rev1'' 1 d = Inr () \<and>
      fst (repair_paused_replan_manifests sample_env (\<lambda>_ _ _. Inr True) ''t1'' ''rev1'' 1 d) = Inr ()" by code_simp
  then obtain d' where p: "?r = Inr (True, d')" and a: "admit_continue (\<lambda>_ _. Inr True) ''t1'' ''rev1'' 1 d' = Inr ()"
    "fst (repair_paused_replan_manifests sample_env (\<lambda>_ _ _. Inr True) ''t1'' ''rev1'' 1 d') = Inr ()"
    by (auto split: sum.split_asm prod.split_asm)
  have t: "tasks_ok sample_db" using sample_controller_ok by (simp add: controller_ok_def)
  from workspace_pause_never_continues [OF t p, of "\<lambda>d. d", OF repair_tasks] a p show ?thesis by blast
qed

end
