(* ===== verification/Steering.thy ===== *)
theory Steering
  imports Continuation WorkPlan HumanContracts
begin

text \<open>
  Steering an active Member (\<open>runtime/product/member_steering.py\<close>, \<open>runtime/steering.py\<close>,
  \<open>runtime/product/action_ids.py\<close>) and the prompt that later Dispatches of its Assignment are
  given (\<open>runtime/dispatch/ordinary_context.py\<close>). The provider adapters and the digest of an
  action identifier are parameters; of a legal action the model keeps its identifier.
\<close>

subsection \<open>Messages and identifiers\<close>

text \<open>The normalisation of a message, on the code points of its text.\<close>

definition normalize_steer_message :: "string \<Rightarrow> string result" where
  "normalize_steer_message s =
     and_then (normalize_exact_text None True (chars s)) (\<lambda>cs. Inr (map char_of cs))"

definition steer_message_field :: "string \<Rightarrow> string result" where
  "steer_message_field s =
     and_then (normalize_steer_message s) (\<lambda>m.
       if length m < 1 \<or> 4096 < length m then Inl invalid_field else Inr m)"

record steer_request =
  sq_action_id :: string
  sq_message :: string

definition validate_steer_request :: "steer_request \<Rightarrow> steer_request result" where
  "validate_steer_request rq =
     and_then (steer_message_field (sq_message rq)) (\<lambda>m. Inr (rq\<lparr>sq_message := m\<rparr>))"

definition event_identifier :: "library \<Rightarrow> string \<Rightarrow> string result" where
  "event_identifier lib s =
     (let t = map char_of (lib_trim lib (chars s)) in
      if length t < 1 \<or> 255 < length t then Inl invalid_field else Inr t)"

record steered_payload =
  sp_action_id :: string
  sp_assignment_id :: string
  sp_source_dispatch_id :: string
  sp_message :: string

definition validate_steered_payload :: "library \<Rightarrow> steered_payload \<Rightarrow> steered_payload result" where
  "validate_steered_payload lib p =
     and_then (event_identifier lib (sp_action_id p)) (\<lambda>a.
     and_then (event_identifier lib (sp_assignment_id p)) (\<lambda>s.
     and_then (event_identifier lib (sp_source_dispatch_id p)) (\<lambda>t.
     and_then (steer_message_field (sp_message p)) (\<lambda>m.
       Inr \<lparr>sp_action_id = a, sp_assignment_id = s, sp_source_dispatch_id = t, sp_message = m\<rparr>))))"

definition dump_steered_payload :: "steered_payload \<Rightarrow> (string \<times> json) list" where
  "dump_steered_payload p =
     [(''action_id'', JStr (sp_action_id p)), (''assignment_id'', JStr (sp_assignment_id p)),
      (''source_dispatch_id'', JStr (sp_source_dispatch_id p)), (''message'', JStr (sp_message p))]"

definition text_field :: "string \<Rightarrow> (string \<times> json) list \<Rightarrow> string result" where
  "text_field k body =
     (case map_of body k of Some (JStr s) \<Rightarrow> Inr s | _ \<Rightarrow> Inl invalid_field)"

definition read_steered_payload :: "library \<Rightarrow> (string \<times> json) list \<Rightarrow> steered_payload result" where
  "read_steered_payload lib body =
     (if \<not> set (map fst body) \<subseteq> {''action_id'', ''assignment_id'', ''source_dispatch_id'', ''message''}
      then Inl invalid_field
      else
        and_then (text_field ''action_id'' body) (\<lambda>a.
        and_then (text_field ''assignment_id'' body) (\<lambda>s.
        and_then (text_field ''source_dispatch_id'' body) (\<lambda>t.
        and_then (text_field ''message'' body) (\<lambda>m.
          validate_steered_payload lib \<lparr>sp_action_id = a, sp_assignment_id = s,
            sp_source_dispatch_id = t, sp_message = m\<rparr>)))))"

text \<open>\<open>product_action_id\<close>: the parts joined by the unit separator; \<open>digest\<close> is the hexadecimal hash.\<close>

fun join_parts :: "string list \<Rightarrow> string" where
  "join_parts [] = []"
| "join_parts [p] = p"
| "join_parts (p # q # ps) = p @ char_of (31 :: nat) # join_parts (q # ps)"

definition product_action_id :: "(string \<Rightarrow> string) \<Rightarrow> string list \<Rightarrow> ident" where
  "product_action_id digest parts = ''action.'' @ take 32 (digest (join_parts parts))"

subsection \<open>Reading the steers of an Assignment\<close>

record prompt_steer =
  py_message :: string
  py_occurred_at :: time

definition steer_of_event :: "library \<Rightarrow> event_row \<Rightarrow> prompt_steer result" where
  "steer_of_event lib e =
     and_then (read_steered_payload lib (te_payload e)) (\<lambda>p.
     and_then (normalize_steer_message (sp_message p)) (\<lambda>m.
       Inr \<lparr>py_message = m, py_occurred_at = te_occurred_at e\<rparr>))"

definition is_steer_of :: "ident \<Rightarrow> event_row \<Rightarrow> bool" where
  "is_steer_of assignment e \<longleftrightarrow>
     te_event_type e = MEMBER_STEERED \<and>
     map_of (te_payload e) ''assignment_id'' = Some (JStr assignment)"

definition read_assignment_prompt_steers :: "library \<Rightarrow> ident \<Rightarrow> db \<Rightarrow> prompt_steer list result" where
  "read_assignment_prompt_steers lib assignment d =
     map_result (steer_of_event lib)
       (sort_key te_event_seq (filter (is_steer_of assignment) (map se_event (events d))))"

subsection \<open>The Member that can be steered\<close>

record member_steer_source =
  sx_task_id :: ident
  sx_team_revision_id :: ident
  sx_member_id :: ident
  sx_assignment_id :: ident
  sx_attempt_id :: ident
  sx_dispatch_id :: ident
  sx_provider :: string
  sx_accepted_steer_count :: nat

definition provider_kinds :: "string list" where
  "provider_kinds = [''codex'', ''claude'', ''openclaw'']"

definition accepted_steer_count :: "ident \<Rightarrow> ident \<Rightarrow> db \<Rightarrow> nat" where
  "accepted_steer_count task dispatch d =
     length (filter (\<lambda>e. te_task_id e = task \<and> te_dispatch_id e = Some dispatch \<and>
       te_event_type e = MEMBER_STEERED) (map se_event (events d)))"

text \<open>The joined rows; a query without an order gives them in table order.\<close>

definition steerable_lanes ::
    "ident \<Rightarrow> ident option \<Rightarrow> db \<Rightarrow> (assignment_row \<times> attempt_row \<times> dispatch_row) list" where
  "steerable_lanes task member d =
     [(s, a, t).
        k \<leftarrow> filter (\<lambda>k. tk_task_id k = task \<and> tk_status k = TaskRunning) (tasks d),
        s \<leftarrow> filter (\<lambda>s. as_task_id s = tk_task_id k \<and> as_closed_at s = None \<and>
          (member = None \<or> member = Some (as_member_id s))) (assignments d),
        a \<leftarrow> filter (\<lambda>a. at_task_id a = as_task_id s \<and> at_assignment_id a = as_assignment_id s \<and>
          as_current_attempt_id s = Some (at_attempt_id a) \<and> at_status a = AttRunning) (attempts d),
        t \<leftarrow> filter (\<lambda>t. dt_task_id t = at_task_id a \<and> dt_assignment_id t = at_assignment_id a \<and>
          dt_attempt_id t = at_attempt_id a \<and> at_current_dispatch_id a = Some (dt_dispatch_id t) \<and>
          tk_current_team_revision_id k = Some (dt_team_revision_id t) \<and>
          dt_status t = Open \<and> dt_adapter_started_at t \<noteq> None) (dispatches d)]"

definition steer_source_of_lane ::
    "ident \<Rightarrow> db \<Rightarrow> assignment_row \<times> attempt_row \<times> dispatch_row \<Rightarrow> member_steer_source result" where
  "steer_source_of_lane task d lane =
     (case lane of (s, a, t) \<Rightarrow>
        if pv_resolved_provider (dt_provider t) \<notin> set provider_kinds
        then Inl (ValueError ''not a valid ProviderKind'')
        else Inr \<lparr>sx_task_id = task, sx_team_revision_id = dt_team_revision_id t,
          sx_member_id = as_member_id s, sx_assignment_id = as_assignment_id s,
          sx_attempt_id = at_attempt_id a, sx_dispatch_id = dt_dispatch_id t,
          sx_provider = pv_resolved_provider (dt_provider t),
          sx_accepted_steer_count = accepted_steer_count task (dt_dispatch_id t) d\<rparr>)"

definition read_member_steer_sources ::
    "ident \<Rightarrow> ident option \<Rightarrow> db \<Rightarrow> member_steer_source list result" where
  "read_member_steer_sources task member d =
     map_result (steer_source_of_lane task d) (steerable_lanes task member d)"

definition read_member_steer_source :: "ident \<Rightarrow> ident \<Rightarrow> db \<Rightarrow> member_steer_source option result" where
  "read_member_steer_source task member d =
     and_then (read_member_steer_sources task (Some member) d) (\<lambda>sources.
       Inr (case sources of [] \<Rightarrow> None | q # _ \<Rightarrow> Some q))"

definition steer_action :: "(string \<Rightarrow> string) \<Rightarrow> member_steer_source \<Rightarrow> ident" where
  "steer_action digest q =
     product_action_id digest [''member-steer'', sx_task_id q, sx_member_id q, sx_assignment_id q,
       sx_attempt_id q, sx_dispatch_id q, sx_provider q, decimal (sx_accepted_steer_count q)]"

datatype steer_outcome = SteerDelivered | SteerNotRunning | SteerUncertain

record steer_adapter =
  sa_can_steer :: "ident \<Rightarrow> bool"
  sa_steer :: "ident \<Rightarrow> string \<Rightarrow> steer_outcome"

type_synonym adapter_registry = "string \<Rightarrow> steer_adapter option"

text \<open>The legal actions of the Members of a Task; a Member met twice keeps its last one.\<close>

definition read_task_member_steer_actions ::
    "(string \<Rightarrow> string) \<Rightarrow> adapter_registry option \<Rightarrow> ident \<Rightarrow> db \<Rightarrow> (ident \<times> ident) list result" where
  "read_task_member_steer_actions digest adapters task d =
     (case adapters of
        None \<Rightarrow> Inr []
      | Some registry \<Rightarrow>
          and_then (read_member_steer_sources task None d) (\<lambda>sources.
            Inr (fold (\<lambda>q actions. case registry (sx_provider q) of
                None \<Rightarrow> actions
              | Some adapter \<Rightarrow>
                  if sa_can_steer adapter (sx_dispatch_id q)
                  then dict_store (sx_member_id q) (steer_action digest q) actions else actions)
              sources [])))"

subsection \<open>Steering\<close>

definition action_unavailable :: failure where
  "action_unavailable = conflict_error ''That Member can no longer be steered.''"

definition member_steered_event ::
    "member_steer_source \<Rightarrow> steered_payload \<Rightarrow> string option \<Rightarrow> event_source \<Rightarrow> time \<Rightarrow> event_draft" where
  "member_steered_event q p actor src now =
     \<lparr>ed_task_id = sx_task_id q, ed_event_type = MEMBER_STEERED, ed_event_source = src,
      ed_occurred_at = now, ed_team_revision_id = Some (sx_team_revision_id q),
      ed_dispatch_id = Some (sx_dispatch_id q), ed_attempt_id = Some (sx_attempt_id q),
      ed_member_id = Some (sx_member_id q), ed_actor_ref = actor,
      ed_payload = dump_steered_payload p\<rparr>"

definition record_delivered_steer ::
    "env \<Rightarrow> library \<Rightarrow> member_steer_source \<Rightarrow> steer_request \<Rightarrow> ident \<Rightarrow> string option \<Rightarrow> event_source \<Rightarrow>
       db \<Rightarrow> db result" where
  "record_delivered_steer env lib q rq event actor src d =
     and_then (validate_steered_payload lib \<lparr>sp_action_id = sq_action_id rq,
         sp_assignment_id = sx_assignment_id q, sp_source_dispatch_id = sx_dispatch_id q,
         sp_message = sq_message rq\<rparr>) (\<lambda>p.
     and_then (append_task_event_as env (Some event)
         (member_steered_event q p actor src (env_now env)) d) (\<lambda>d1.
       if list_ex (\<lambda>t. tk_task_id t = sx_task_id q) (tasks d1)
       then and_then (update_all ck_task (\<lambda>t. tk_task_id t = sx_task_id q)
           (\<lambda>t. t\<lparr>tk_updated_at := env_now env\<rparr>) (tasks d1)) (\<lambda>ts. Inr (d1\<lparr>tasks := ts\<rparr>))
       else Inl (RuntimeError ''Task disappeared while recording a Member steer'')))"

text \<open>
  The delivery leaves the process between the check, which reads \<open>d\<close>, and the record, which
  starts from \<open>d'\<close>. A request that was already recorded is answered again without delivery.
\<close>

definition steer_product_task_member ::
    "env \<Rightarrow> library \<Rightarrow> (string \<Rightarrow> string) \<Rightarrow> adapter_registry \<Rightarrow> ident \<Rightarrow> ident \<Rightarrow> steer_request \<Rightarrow>
       string option \<Rightarrow> event_source \<Rightarrow> db \<Rightarrow> db \<Rightarrow> (steer_outcome \<times> db) result" where
  "steer_product_task_member env lib digest adapters task member rq actor src d d' =
     (let event = product_action_id digest [''member-steer-event'', sq_action_id rq] in
      case find (\<lambda>e. te_event_id e = event) (map se_event (events d)) of
        Some e \<Rightarrow>
          and_then (read_steered_payload lib (te_payload e)) (\<lambda>p.
            if te_task_id e \<noteq> task \<or> te_member_id e \<noteq> Some member \<or>
               sp_action_id p \<noteq> sq_action_id rq \<or> sp_message p \<noteq> sq_message rq
            then Inl action_unavailable else Inr (SteerDelivered, d'))
      | None \<Rightarrow>
          and_then (read_member_steer_source task member d) (\<lambda>source.
            case source of
              None \<Rightarrow> Inl action_unavailable
            | Some q \<Rightarrow>
                if steer_action digest q \<noteq> sq_action_id rq then Inl action_unavailable
                else (case adapters (sx_provider q) of
                    None \<Rightarrow> Inl action_unavailable
                  | Some adapter \<Rightarrow>
                      (case sa_steer adapter (sx_dispatch_id q) (sq_message rq) of
                         SteerNotRunning \<Rightarrow> Inl action_unavailable
                       | SteerUncertain \<Rightarrow> Inr (SteerUncertain, d')
                       | SteerDelivered \<Rightarrow>
                           and_then (record_delivered_steer env lib q rq event actor src d')
                             (\<lambda>d1. Inr (SteerDelivered, d1))))))"

subsection \<open>The prompt of a later Dispatch\<close>

text \<open>
  \<open>OrdinaryPromptSnapshot\<close>. The texts of the member configuration and of the Workflow, the
  provider, the capabilities, the direct team and the paths are inputs of the rendering.
\<close>

record ordinary_prompt =
  pm_task_id :: ident
  pm_dispatch_id :: ident
  pm_assignment_id :: ident
  pm_attempt_id :: ident
  pm_retry_of_attempt_id :: "ident option"
  pm_team_revision_id :: ident
  pm_member_id :: ident
  pm_member_configuration_id :: ident
  pm_member_branch_basis_id :: ident
  pm_assignment_prompt :: string
  pm_assignment_files :: "file_reference list"
  pm_steering :: "prompt_steer list"
  pm_work_plan :: "work_plan_read option"
  pm_is_task_lead :: bool
  pm_predecessor_dispatch_id :: ident
  pm_trigger :: prompt_trigger

definition build_ordinary_prompt_snapshot ::
    "ordinary_context \<Rightarrow> continuation_basis \<Rightarrow> ident \<Rightarrow> work_plan_read option \<Rightarrow> file_reference list \<Rightarrow>
       prompt_steer list \<Rightarrow> ordinary_prompt" where
  "build_ordinary_prompt_snapshot c b dispatch plan files steering =
     \<lparr>pm_task_id = tk_task_id (oc_task c), pm_dispatch_id = dispatch,
      pm_assignment_id = as_assignment_id (oc_assignment c), pm_attempt_id = at_attempt_id (oc_attempt c),
      pm_retry_of_attempt_id = at_retry_of_attempt_id (oc_attempt c),
      pm_team_revision_id = tm_team_revision_id (oc_selection c),
      pm_member_id = tm_member_id (oc_selection c),
      pm_member_configuration_id = tm_member_configuration_id (oc_selection c),
      pm_member_branch_basis_id = tm_member_branch_basis_id (oc_selection c),
      pm_assignment_prompt = as_prompt (oc_assignment c), pm_assignment_files = files,
      pm_steering = steering, pm_work_plan = plan,
      pm_is_task_lead = (tk_root_assignment_id (oc_task c) = Some (as_assignment_id (oc_assignment c))),
      pm_predecessor_dispatch_id = cb_source_dispatch_id b, pm_trigger = cb_trigger b\<rparr>"

text \<open>The prompt half of \<open>read_ordinary_dispatch_snapshot\<close>.\<close>

definition read_ordinary_prompt ::
    "library \<Rightarrow> continuation_basis \<Rightarrow> task_status \<Rightarrow> int option \<Rightarrow> ident \<Rightarrow> db \<Rightarrow> ordinary_prompt option result" where
  "read_ordinary_prompt lib b status control dispatch d =
     (case read_ordinary_runtime_context b status control d of
        None \<Rightarrow> Inr None
      | Some c \<Rightarrow>
          (let assignment = as_assignment_id (oc_assignment c) in
           and_then (validate_ordinary_runtime_context b c) (\<lambda>_.
           and_then (read_assignment_work_plan assignment d) (\<lambda>plan.
           and_then (read_assignment_prompt_steers lib assignment d) (\<lambda>steering.
             Inr (Some (build_ordinary_prompt_snapshot c b dispatch plan
               (read_assignment_file_references assignment d) steering)))))))"

end
