(* ===== verification/Watchdog.thy ===== *)
theory Watchdog
  imports Steering TaskResume
begin

text \<open>
  The watchdog (\<open>runtime/watchdog\<close>): the inactivity deadline of an open Dispatch, its
  replacement by a fresh Dispatch of the same Attempt, at most so often between two resumes, and
  the pause of the Task when the replacements are used up or cannot be prepared. Like the other
  openings it reads in one transaction and commits in another one.
\<close>

subsection \<open>Deadlines\<close>

definition calculate_watchdog_due_at :: "time \<Rightarrow> time option \<Rightarrow> int \<Rightarrow> time" where
  "calculate_watchdog_due_at started activity timeout =
     max started (case activity of None \<Rightarrow> started | Some t \<Rightarrow> t) + timeout"

datatype deadline_change = RegisterDeadline ident int time | CancelDeadline ident | KeepDeadline

text \<open>
  What \<open>register_deadline\<close> asks of the scheduler for a signal. Its query joins the Dispatch with
  its Task and its running, unwaited Attempt.
\<close>

definition register_deadline :: "int \<Rightarrow> ident \<Rightarrow> int \<Rightarrow> time \<Rightarrow> db \<Rightarrow> deadline_change" where
  "register_deadline timeout dispatch activity due d =
     (case Option.bind (find (\<lambda>t. dt_dispatch_id t = dispatch) (dispatches d)) (\<lambda>t.
           Option.bind (find (\<lambda>k. tk_task_id k = dt_task_id t) (tasks d)) (\<lambda>k.
           Option.bind (find (\<lambda>a. at_task_id a = dt_task_id t \<and> at_assignment_id a = dt_assignment_id t \<and>
               at_attempt_id a = dt_attempt_id t \<and> at_status a = AttRunning \<and>
               at_current_wait_id a = None) (attempts d)) (\<lambda>a. Some (t, k, a)))) of
        None \<Rightarrow> CancelDeadline dispatch
      | Some (t, k, a) \<Rightarrow>
          if dt_status t \<noteq> Open \<or> tk_status k \<noteq> TaskRunning \<or>
             at_current_dispatch_id a \<noteq> Some (dt_dispatch_id t)
          then CancelDeadline dispatch
          else if dt_node_activity_revision t \<noteq> activity then KeepDeadline
          else (case dt_adapter_started_at t of
              None \<Rightarrow> CancelDeadline dispatch
            | Some started \<Rightarrow>
                (let due_at = calculate_watchdog_due_at started (dt_last_node_activity_at t) timeout in
                 if due \<noteq> due_at then KeepDeadline
                 else RegisterDeadline (dt_dispatch_id t) (dt_node_activity_revision t) due_at)))"

subsection \<open>The stale Dispatch\<close>

record watchdog_due =
  wq_dispatch_id :: ident
  wq_activity_revision :: int
  wq_due_at :: time

record watchdog_snapshot =
  wn_dispatch :: ordinary_snapshot
  wn_source_team_revision_id :: ident
  wn_adapter_started_at :: time
  wn_last_node_activity_at :: "time option"
  wn_activity_revision :: int
  wn_due_at :: time
  wn_replacement_count :: int

definition read_watchdog_runtime_context :: "ident \<Rightarrow> db \<Rightarrow> ordinary_context option" where
  "read_watchdog_runtime_context dispatch d =
     Option.bind (find (\<lambda>t. dt_dispatch_id t = dispatch) (dispatches d)) (\<lambda>t.
     Option.bind (find (\<lambda>k. tk_task_id k = dt_task_id t) (tasks d)) (\<lambda>k.
     Option.bind (tk_workspace_root k) (\<lambda>workspace.
     Option.bind (find (\<lambda>m. tm_task_id m = dt_task_id t \<and>
         Some (tm_team_revision_id m) = tk_current_team_revision_id k \<and>
         tm_member_id m = dt_member_id t \<and>
         tm_member_configuration_id m = dt_member_configuration_id t \<and>
         tm_member_branch_basis_id m = dt_member_branch_basis_id t) (team_members d)) (\<lambda>m.
     Option.bind (find (\<lambda>s. as_assignment_id s = dt_assignment_id t \<and> as_task_id s = dt_task_id t \<and>
         as_member_id s = dt_member_id t) (assignments d)) (\<lambda>s.
     Option.bind (find (\<lambda>a. at_task_id a = as_task_id s \<and> at_assignment_id a = as_assignment_id s \<and>
         at_attempt_id a = dt_attempt_id t) (attempts d)) (\<lambda>a.
       Some \<lparr>oc_task = k, oc_source_dispatch = t, oc_selection = m, oc_assignment = s,
         oc_attempt = a, oc_workspace_root = workspace\<rparr>))))))"

definition watchdog_context_is_plausible :: "ordinary_context \<Rightarrow> watchdog_due \<Rightarrow> bool" where
  "watchdog_context_is_plausible c w \<longleftrightarrow>
     (let t = oc_source_dispatch c; s = oc_assignment c; a = oc_attempt c; m = oc_selection c in
      dt_status t = Open \<and> dt_adapter_started_at t \<noteq> None \<and>
      dt_node_activity_revision t = wq_activity_revision w \<and> tk_status (oc_task c) = TaskRunning \<and>
      dt_task_id t = as_task_id s \<and> dt_assignment_id t = as_assignment_id s \<and>
      dt_attempt_id t = at_attempt_id a \<and> as_current_attempt_id s = Some (at_attempt_id a) \<and>
      as_terminal_outcome s = None \<and> at_status a = AttRunning \<and>
      at_current_dispatch_id a = Some (dt_dispatch_id t) \<and> at_current_wait_id a = None \<and>
      as_member_id s = tm_member_id m \<and> dt_member_id t = tm_member_id m \<and>
      dt_member_configuration_id t = tm_member_configuration_id m \<and>
      dt_member_branch_basis_id t = tm_member_branch_basis_id m \<and>
      tk_current_team_revision_id (oc_task c) = Some (tm_team_revision_id m))"

text \<open>The context with its start and its deadline, once that has come.\<close>

definition read_watchdog_recovery_candidate ::
    "int \<Rightarrow> watchdog_due \<Rightarrow> time \<Rightarrow> db \<Rightarrow> (ordinary_context \<times> time \<times> time) option" where
  "read_watchdog_recovery_candidate timeout w now d =
     Option.bind (read_watchdog_runtime_context (wq_dispatch_id w) d) (\<lambda>c.
       if \<not> watchdog_context_is_plausible c w then None
       else Option.bind (dt_adapter_started_at (oc_source_dispatch c)) (\<lambda>started.
         let due_at = calculate_watchdog_due_at started
               (dt_last_node_activity_at (oc_source_dispatch c)) timeout in
         if due_at \<noteq> wq_due_at w \<or> now < due_at then None else Some (c, started, due_at)))"

definition dispatch_owns_external_source :: "ident \<Rightarrow> db \<Rightarrow> bool" where
  "dispatch_owns_external_source dispatch d \<longleftrightarrow>
     list_ex (\<lambda>h. hr_source_dispatch_id h = dispatch) (human_requests d) \<or>
     list_ex (\<lambda>r. cr_source_dispatch_id r = dispatch) (command_runs d)"

definition watchdog_basis :: "ordinary_context \<Rightarrow> int \<Rightarrow> continuation_basis" where
  "watchdog_basis c count =
     (let t = oc_source_dispatch c in
      \<lparr>cb_task_id = dt_task_id t, cb_assignment_id = dt_assignment_id t,
       cb_attempt_id = dt_attempt_id t, cb_source_dispatch_id = dt_dispatch_id t,
       cb_source_dispatch_closed_reason = CWatchdogSuperseded, cb_opened_reason = OWatchdogRecovery,
       cb_trigger = WatchdogRecoveryTrigger (dt_dispatch_id t) (count + 1),
       cb_continuation_source_id = None\<rparr>)"

definition watchdog_dispatch_snapshot :: "ordinary_context \<Rightarrow> int \<Rightarrow> ordinary_snapshot" where
  "watchdog_dispatch_snapshot c count =
     \<lparr>sn_basis = watchdog_basis c count, sn_expected_task_status = TaskRunning,
      sn_expected_pause_reason = None, sn_task_control_revision = tk_control_revision (oc_task c),
      sn_task_root_path = tk_task_root_path (oc_task c),
      sn_workspace_root_path = oc_workspace_root c,
      sn_work_plan_revision = as_work_plan_revision (oc_assignment c),
      sn_team_revision_id = tm_team_revision_id (oc_selection c),
      sn_member_id = tm_member_id (oc_selection c),
      sn_member_configuration_id = tm_member_configuration_id (oc_selection c),
      sn_member_branch_basis_id = tm_member_branch_basis_id (oc_selection c)\<rparr>"

text \<open>The prompt of the replacement: the call leaves \<open>steering\<close> at its default.\<close>

definition watchdog_prompt :: "ordinary_context \<Rightarrow> int \<Rightarrow> ident \<Rightarrow> db \<Rightarrow> ordinary_prompt result" where
  "watchdog_prompt c count dispatch d =
     (let assignment = as_assignment_id (oc_assignment c) in
      and_then (read_assignment_work_plan assignment d) (\<lambda>plan.
        Inr (build_ordinary_prompt_snapshot c (watchdog_basis c count) dispatch plan
          (read_assignment_file_references assignment d) [])))"

text \<open>
  \<open>preparation\<close> gives what the replacement needs besides its snapshot, like the other inputs of
  a prompt.
\<close>

definition read_watchdog_recovery_snapshot ::
    "'i preparation \<Rightarrow> int \<Rightarrow> watchdog_due \<Rightarrow> time \<Rightarrow> db \<Rightarrow> (watchdog_snapshot \<times> 'i) option result" where
  "read_watchdog_recovery_snapshot prep timeout w now d =
     (case read_watchdog_recovery_candidate timeout w now d of
        None \<Rightarrow> Inr None
      | Some (c, started, due_at) \<Rightarrow>
          (let t = oc_source_dispatch c; count = at_watchdog_replacement_count (oc_attempt c);
               n = watchdog_dispatch_snapshot c count in
           if dispatch_owns_external_source (dt_dispatch_id t) d then Inr None
           else and_then (pn_inputs prep n d) (\<lambda>inputs.
             Inr (Some (\<lparr>wn_dispatch = n, wn_source_team_revision_id = dt_team_revision_id t,
               wn_adapter_started_at = started, wn_last_node_activity_at = dt_last_node_activity_at t,
               wn_activity_revision = dt_node_activity_revision t, wn_due_at = due_at,
               wn_replacement_count = count\<rparr>, inputs)))))"

subsection \<open>The conditions of the commit\<close>

definition watchdog_context_is_current :: "watchdog_snapshot \<Rightarrow> db \<Rightarrow> bool" where
  "watchdog_context_is_current w d \<longleftrightarrow>
     (let n = wn_dispatch w; b = sn_basis n in
      list_ex (\<lambda>k. tk_task_id k = cb_task_id b \<and> tk_task_root_path k = sn_task_root_path n \<and>
        tk_status k = TaskRunning \<and> tk_current_team_revision_id k = Some (sn_team_revision_id n) \<and>
        tk_control_revision k = sn_task_control_revision n) (tasks d) \<and>
      list_ex (\<lambda>m. tm_task_id m = cb_task_id b \<and> tm_team_revision_id m = sn_team_revision_id n \<and>
        tm_member_id m = sn_member_id n \<and>
        tm_member_configuration_id m = sn_member_configuration_id n \<and>
        tm_member_branch_basis_id m = sn_member_branch_basis_id n) (team_members d) \<and>
      list_ex (\<lambda>s. as_assignment_id s = cb_assignment_id b \<and> as_task_id s = cb_task_id b \<and>
        as_member_id s = sn_member_id n \<and> as_current_attempt_id s = Some (cb_attempt_id b) \<and>
        as_work_plan_revision s = sn_work_plan_revision n \<and> as_terminal_outcome s = None)
        (assignments d) \<and>
      list_ex (\<lambda>a. at_attempt_id a = cb_attempt_id b \<and> at_assignment_id a = cb_assignment_id b \<and>
        at_task_id a = cb_task_id b \<and> at_status a = AttRunning \<and>
        at_current_dispatch_id a = Some (cb_source_dispatch_id b) \<and> at_current_wait_id a = None)
        (attempts d) \<and>
      list_ex (\<lambda>t. dt_dispatch_id t = cb_source_dispatch_id b \<and> dt_task_id t = cb_task_id b \<and>
        dt_assignment_id t = cb_assignment_id b \<and> dt_attempt_id t = cb_attempt_id b \<and>
        dt_team_revision_id t = wn_source_team_revision_id w \<and> dt_member_id t = sn_member_id n \<and>
        dt_member_configuration_id t = sn_member_configuration_id n \<and>
        dt_member_branch_basis_id t = sn_member_branch_basis_id n \<and> dt_status t = Open)
        (dispatches d) \<and>
      list_ex (\<lambda>k. tk_task_id k = cb_task_id b \<and>
        tk_workspace_root k = Some (sn_workspace_root_path n)) (tasks d))"

definition watchdog_replacement_count_matches :: "watchdog_snapshot \<Rightarrow> db \<Rightarrow> bool" where
  "watchdog_replacement_count_matches w d \<longleftrightarrow>
     (let b = sn_basis (wn_dispatch w) in
      list_ex (\<lambda>a. at_task_id a = cb_task_id b \<and> at_assignment_id a = cb_assignment_id b \<and>
        at_attempt_id a = cb_attempt_id b \<and>
        at_watchdog_replacement_count a = wn_replacement_count w) (attempts d))"

definition dispatch_has_no_successor :: "ident \<Rightarrow> db \<Rightarrow> bool" where
  "dispatch_has_no_successor dispatch d \<longleftrightarrow>
     \<not> list_ex (\<lambda>t. dt_predecessor_dispatch_id t = Some dispatch) (dispatches d)"

subsection \<open>Replacing\<close>

definition replaceable_task :: "watchdog_snapshot \<Rightarrow> db \<Rightarrow> task_row \<Rightarrow> bool" where
  "replaceable_task w d k \<longleftrightarrow>
     (let n = wn_dispatch w; b = sn_basis n in
      tk_task_id k = cb_task_id b \<and> tk_status k = TaskRunning \<and>
      tk_current_team_revision_id k = Some (sn_team_revision_id n) \<and>
      tk_control_revision k = sn_task_control_revision n \<and> watchdog_context_is_current w d \<and>
      watchdog_replacement_count_matches w d \<and>
      \<not> dispatch_owns_external_source (cb_source_dispatch_id b) d \<and>
      dispatch_has_no_successor (cb_source_dispatch_id b) d)"

definition superseded_dispatch :: "watchdog_snapshot \<Rightarrow> db \<Rightarrow> dispatch_row \<Rightarrow> bool" where
  "superseded_dispatch w d t \<longleftrightarrow>
     (let n = wn_dispatch w; b = sn_basis n in
      dt_dispatch_id t = cb_source_dispatch_id b \<and> dt_task_id t = cb_task_id b \<and>
      dt_assignment_id t = cb_assignment_id b \<and> dt_attempt_id t = cb_attempt_id b \<and>
      dt_team_revision_id t = wn_source_team_revision_id w \<and> dt_member_id t = sn_member_id n \<and>
      dt_status t = Open \<and> dt_adapter_started_at t = Some (wn_adapter_started_at w) \<and>
      dt_last_node_activity_at t = wn_last_node_activity_at w \<and>
      dt_node_activity_revision t = wn_activity_revision w \<and> watchdog_context_is_current w d \<and>
      watchdog_replacement_count_matches w d \<and>
      \<not> dispatch_owns_external_source (cb_source_dispatch_id b) d \<and>
      dispatch_has_no_successor (cb_source_dispatch_id b) d)"

definition increment_watchdog_replacement_count :: "watchdog_snapshot \<Rightarrow> db \<Rightarrow> attempt_row list option result" where
  "increment_watchdog_replacement_count w d =
     (let b = sn_basis (wn_dispatch w) in
      update_checked ck_attempt
        (\<lambda>a. at_task_id a = cb_task_id b \<and> at_assignment_id a = cb_assignment_id b \<and>
           at_attempt_id a = cb_attempt_id b \<and> at_status a = AttRunning \<and>
           at_current_dispatch_id a = Some (cb_source_dispatch_id b) \<and> at_current_wait_id a = None \<and>
           at_watchdog_replacement_count a = wn_replacement_count w)
        (\<lambda>a. a\<lparr>at_watchdog_replacement_count := at_watchdog_replacement_count a + 1\<rparr>) (attempts d))"

text \<open>\<open>False\<close> is a rolled-back transaction. The claim of the Task writes nothing.\<close>

definition commit_watchdog_replacement ::
    "env \<Rightarrow> watchdog_snapshot \<Rightarrow> prepared_request \<Rightarrow> db \<Rightarrow> (bool \<times> db) result" where
  "commit_watchdog_replacement env w p d =
     (if env_now env < wn_due_at w then Inr (False, d)
      else if \<not> list_ex (replaceable_task w d) (tasks d) then Inr (False, d)
      else and_then (update_checked ck_dispatch (superseded_dispatch w d)
          (close_dispatch_row (env_now env) CWatchdogSuperseded) (dispatches d)) (\<lambda>closed.
          case closed of
            None \<Rightarrow> Inr (False, d)
          | Some ds \<Rightarrow>
              and_then (increment_watchdog_replacement_count w (d\<lparr>dispatches := ds\<rparr>)) (\<lambda>counted.
              case counted of
                None \<Rightarrow> Inr (False, d)
              | Some as \<Rightarrow>
                  and_then (stage_starting_dispatch env (successor_basis (wn_dispatch w) None) p
                      (d\<lparr>dispatches := ds, attempts := as\<rparr>))
                    (\<lambda>d1. Inr (True, d1)))))"

subsection \<open>Pausing\<close>

definition watchdog_pause_details :: "ident \<Rightarrow> string option \<Rightarrow> (string \<times> json) list" where
  "watchdog_pause_details dispatch code =
     [(''source'', JStr ''watchdog''), (''source_dispatch_id'', JStr dispatch)] @
     (case code of None \<Rightarrow> [] | Some c \<Rightarrow> [(''failure_code'', JStr c)])"

definition watchdog_paused_task :: "string \<Rightarrow> (string \<times> json) list \<Rightarrow> time \<Rightarrow> task_row \<Rightarrow> task_row" where
  "watchdog_paused_task reason details now k =
     k\<lparr>tk_status := TaskPaused, tk_pause_reason := Some reason, tk_pause_details := Some details,
       tk_paused_at := Some now, tk_paused_by_actor_ref := Some ''controller.runtime'',
       tk_control_revision := tk_control_revision k + 1, tk_updated_at := now\<rparr>"

definition pause_event_summary :: "string \<Rightarrow> string option \<Rightarrow> string" where
  "pause_event_summary reason code =
     ''Runtime recovery paused the task: '' @ (case code of None \<Rightarrow> reason | Some c \<Rightarrow> c) @ ''.''"

record watchdog_pause =
  wk_task_id :: ident
  wk_team_revision_id :: ident
  wk_dispatch_id :: ident
  wk_assignment_id :: ident
  wk_attempt_id :: ident
  wk_member_id :: ident
  wk_control_revision :: int

definition watchdog_pause_event ::
    "watchdog_pause \<Rightarrow> string \<Rightarrow> string option \<Rightarrow> time \<Rightarrow> event_draft" where
  "watchdog_pause_event k reason code now =
     \<lparr>ed_task_id = wk_task_id k, ed_event_type = TASK_PAUSED, ed_event_source = SrcController,
      ed_occurred_at = now, ed_team_revision_id = Some (wk_team_revision_id k),
      ed_dispatch_id = Some (wk_dispatch_id k), ed_attempt_id = Some (wk_attempt_id k),
      ed_member_id = Some (wk_member_id k), ed_actor_ref = Some ''controller.runtime'',
      ed_payload = [(''pause_reason'', JStr reason), (''control_revision'', JInt (wk_control_revision k + 1)),
        (''actor_ref'', JStr ''controller.runtime''),
        (''summary'', JStr (pause_event_summary reason code))]\<rparr>"

text \<open>
  \<open>_commit_watchdog_pause\<close>; \<open>source_is_current\<close> is the condition on the source. \<open>None\<close> is a
  rolled-back transaction.
\<close>

definition commit_watchdog_pause ::
    "env \<Rightarrow> watchdog_pause \<Rightarrow> (db \<Rightarrow> bool) \<Rightarrow> string \<Rightarrow> string option \<Rightarrow> db \<Rightarrow> (ident list option \<times> db) result" where
  "commit_watchdog_pause env k source_is_current reason code d =
     and_then (update_checked ck_task
         (\<lambda>t. tk_task_id t = wk_task_id k \<and> tk_status t = TaskRunning \<and>
            tk_current_team_revision_id t = Some (wk_team_revision_id k) \<and>
            tk_control_revision t = wk_control_revision k \<and> source_is_current d \<and>
            \<not> dispatch_owns_external_source (wk_dispatch_id k) d \<and>
            dispatch_has_no_successor (wk_dispatch_id k) d)
         (watchdog_paused_task reason (watchdog_pause_details (wk_dispatch_id k) code) (env_now env))
         (tasks d)) (\<lambda>paused.
       case paused of
         None \<Rightarrow> Inr (None, d)
       | Some ts \<Rightarrow>
           (case close_current_task_dispatches (wk_task_id k) CPaused (env_now env)
               [wk_dispatch_id k \<mapsto> CControlFailed] (d\<lparr>tasks := ts\<rparr>) of
              Inl (TaskDispatchControlConflictError _) \<Rightarrow> Inr (None, d)
            | Inl f \<Rightarrow> Inl f
            | Inr (closed, d1) \<Rightarrow>
                and_then (append_task_event env (watchdog_pause_event k reason code (env_now env)) d1)
                  (\<lambda>d2. Inr (Some closed, d2))))"

definition snapshot_pause :: "watchdog_snapshot \<Rightarrow> watchdog_pause" where
  "snapshot_pause w =
     (let n = wn_dispatch w; b = sn_basis n in
      \<lparr>wk_task_id = cb_task_id b, wk_team_revision_id = sn_team_revision_id n,
       wk_dispatch_id = cb_source_dispatch_id b, wk_assignment_id = cb_assignment_id b,
       wk_attempt_id = cb_attempt_id b, wk_member_id = sn_member_id n,
       wk_control_revision = sn_task_control_revision n\<rparr>)"

definition pause_watchdog_snapshot ::
    "env \<Rightarrow> watchdog_snapshot \<Rightarrow> string \<Rightarrow> string option \<Rightarrow> db \<Rightarrow> (ident list option \<times> db) result" where
  "pause_watchdog_snapshot env w reason code d =
     commit_watchdog_pause env (snapshot_pause w)
       (\<lambda>d. watchdog_context_is_current w d \<and> watchdog_replacement_count_matches w d) reason code d"

text \<open>After a failed preparation the source is read again.\<close>

record failed_watchdog_candidate =
  fw_pause :: watchdog_pause
  fw_source_team_revision_id :: ident
  fw_member_configuration_id :: ident
  fw_member_branch_basis_id :: ident
  fw_adapter_started_at :: time
  fw_last_node_activity_at :: "time option"

definition select_failed_watchdog_rows ::
    "ident \<Rightarrow> db \<Rightarrow> (dispatch_row \<times> task_row \<times> assignment_row \<times> attempt_row \<times> team_member_row) option" where
  "select_failed_watchdog_rows dispatch d =
     Option.bind (find (\<lambda>t. dt_dispatch_id t = dispatch) (dispatches d)) (\<lambda>t.
     Option.bind (find (\<lambda>k. tk_task_id k = dt_task_id t) (tasks d)) (\<lambda>k.
     Option.bind (find (\<lambda>s. as_task_id s = dt_task_id t \<and> as_assignment_id s = dt_assignment_id t \<and>
         as_member_id s = dt_member_id t) (assignments d)) (\<lambda>s.
     Option.bind (find (\<lambda>a. at_task_id a = dt_task_id t \<and> at_assignment_id a = dt_assignment_id t \<and>
         at_attempt_id a = dt_attempt_id t) (attempts d)) (\<lambda>a.
     Option.bind (find (\<lambda>m. tm_task_id m = dt_task_id t \<and>
         Some (tm_team_revision_id m) = tk_current_team_revision_id k \<and>
         tm_member_id m = dt_member_id t \<and>
         tm_member_configuration_id m = dt_member_configuration_id t \<and>
         tm_member_branch_basis_id m = dt_member_branch_basis_id t) (team_members d)) (\<lambda>m.
       Some (t, k, s, a, m))))))"

definition failed_watchdog_candidate_is_plausible ::
    "dispatch_row \<times> task_row \<times> assignment_row \<times> attempt_row \<times> team_member_row \<Rightarrow> watchdog_due \<Rightarrow> bool" where
  "failed_watchdog_candidate_is_plausible rows w \<longleftrightarrow>
     (case rows of (t, k, s, a, m) \<Rightarrow>
        dt_status t = Open \<and> dt_adapter_started_at t \<noteq> None \<and>
        dt_node_activity_revision t = wq_activity_revision w \<and> tk_status k = TaskRunning \<and>
        as_current_attempt_id s = Some (at_attempt_id a) \<and> as_terminal_outcome s = None \<and>
        at_status a = AttRunning \<and> at_current_dispatch_id a = Some (dt_dispatch_id t) \<and>
        at_current_wait_id a = None)"

definition read_failed_watchdog_candidate ::
    "int \<Rightarrow> watchdog_due \<Rightarrow> time \<Rightarrow> db \<Rightarrow> failed_watchdog_candidate option" where
  "read_failed_watchdog_candidate timeout w now d =
     Option.bind (select_failed_watchdog_rows (wq_dispatch_id w) d) (\<lambda>rows. case rows of (t, k, s, a, m) \<Rightarrow>
       if \<not> failed_watchdog_candidate_is_plausible rows w \<or>
          dispatch_owns_external_source (dt_dispatch_id t) d then None
       else Option.bind (dt_adapter_started_at t) (\<lambda>started.
         let due_at = calculate_watchdog_due_at started (dt_last_node_activity_at t) timeout in
         if due_at \<noteq> wq_due_at w \<or> now < due_at then None
         else Some \<lparr>fw_pause = \<lparr>wk_task_id = dt_task_id t, wk_team_revision_id = tm_team_revision_id m,
             wk_dispatch_id = dt_dispatch_id t, wk_assignment_id = dt_assignment_id t,
             wk_attempt_id = dt_attempt_id t, wk_member_id = dt_member_id t,
             wk_control_revision = tk_control_revision k\<rparr>,
           fw_source_team_revision_id = dt_team_revision_id t,
           fw_member_configuration_id = dt_member_configuration_id t,
           fw_member_branch_basis_id = dt_member_branch_basis_id t,
           fw_adapter_started_at = started, fw_last_node_activity_at = dt_last_node_activity_at t\<rparr>))"

definition failed_watchdog_candidate_is_current ::
    "failed_watchdog_candidate \<Rightarrow> watchdog_due \<Rightarrow> db \<Rightarrow> bool" where
  "failed_watchdog_candidate_is_current c w d \<longleftrightarrow>
     (let k = fw_pause c in
      list_ex (\<lambda>m. tm_task_id m = wk_task_id k \<and> tm_team_revision_id m = wk_team_revision_id k \<and>
        tm_member_id m = wk_member_id k \<and>
        tm_member_configuration_id m = fw_member_configuration_id c \<and>
        tm_member_branch_basis_id m = fw_member_branch_basis_id c) (team_members d) \<and>
      list_ex (\<lambda>s. as_task_id s = wk_task_id k \<and> as_assignment_id s = wk_assignment_id k \<and>
        as_member_id s = wk_member_id k \<and> as_current_attempt_id s = Some (wk_attempt_id k) \<and>
        as_terminal_outcome s = None) (assignments d) \<and>
      list_ex (\<lambda>a. at_task_id a = wk_task_id k \<and> at_assignment_id a = wk_assignment_id k \<and>
        at_attempt_id a = wk_attempt_id k \<and> at_status a = AttRunning \<and>
        at_current_dispatch_id a = Some (wk_dispatch_id k) \<and> at_current_wait_id a = None)
        (attempts d) \<and>
      list_ex (\<lambda>t. dt_dispatch_id t = wk_dispatch_id k \<and> dt_task_id t = wk_task_id k \<and>
        dt_assignment_id t = wk_assignment_id k \<and> dt_attempt_id t = wk_attempt_id k \<and>
        dt_team_revision_id t = fw_source_team_revision_id c \<and> dt_member_id t = wk_member_id k \<and>
        dt_member_configuration_id t = fw_member_configuration_id c \<and>
        dt_member_branch_basis_id t = fw_member_branch_basis_id c \<and> dt_status t = Open \<and>
        dt_adapter_started_at t = Some (fw_adapter_started_at c) \<and>
        dt_last_node_activity_at t = fw_last_node_activity_at c \<and>
        dt_node_activity_revision t = wq_activity_revision w) (dispatches d))"

text \<open>The candidate is read from \<open>d\<close>, the pause starts from \<open>d'\<close>.\<close>

definition pause_failed_watchdog_signal ::
    "env \<Rightarrow> int \<Rightarrow> watchdog_due \<Rightarrow> string \<Rightarrow> db \<Rightarrow> db \<Rightarrow> (ident list option \<times> db) result" where
  "pause_failed_watchdog_signal env timeout w code d d' =
     (case read_failed_watchdog_candidate timeout w (env_now env) d of
        None \<Rightarrow> Inr (None, d')
      | Some c \<Rightarrow>
          commit_watchdog_pause env (fw_pause c) (failed_watchdog_candidate_is_current c w)
            ''runtime_transition_failed'' (Some code) d')"

subsection \<open>Recovery\<close>

record watchdog_settings =
  wt_inactivity_timeout :: int
  wt_replacement_limit :: int

definition paused_outcome :: "ident list option \<times> db \<Rightarrow> opening_outcome \<times> db" where
  "paused_outcome r = (case r of (None, d) \<Rightarrow> (Skipped, d) | (Some closed, d) \<Rightarrow> (OpeningPaused closed, d))"

text \<open>
  \<open>recover_stale_dispatch\<close>. It observes the clock at \<open>observed\<close> and reads \<open>d\<close>; the transaction that
  ends it starts from \<open>d2\<close>, after a failed preparation it first reads \<open>d1\<close>.
\<close>

definition plan_watchdog_replacement ::
    "'i preparation \<Rightarrow> watchdog_settings \<Rightarrow> time \<Rightarrow> ident \<Rightarrow> watchdog_due \<Rightarrow> db \<Rightarrow>
       (watchdog_snapshot \<times> prepared_request option) option result" where
  "plan_watchdog_replacement prep settings observed dispatch w d =
     and_then (read_watchdog_recovery_snapshot prep (wt_inactivity_timeout settings) w observed d)
       (\<lambda>snapshot. case snapshot of
           None \<Rightarrow> Inr None
         | Some (n, inputs) \<Rightarrow>
             if wt_replacement_limit settings \<le> wn_replacement_count n then Inr (Some (n, None))
             else and_then (pn_prepare prep (wn_dispatch n) inputs) (\<lambda>p.
               Inr (Some (n, Some (p\<lparr>pr_dispatch_id := dispatch\<rparr>)))))"

definition recover_failed_preparation ::
    "env \<Rightarrow> watchdog_settings \<Rightarrow> watchdog_due \<Rightarrow> db \<Rightarrow> db \<Rightarrow> failure \<Rightarrow> (opening_outcome \<times> db) result" where
  "recover_failed_preparation env settings w d1 d2 f =
     (case preparation_failure_code ''watchdog_dispatch_preparation_failed'' f of
        None \<Rightarrow> Inl f
      | Some code \<Rightarrow>
          and_then (pause_failed_watchdog_signal env (wt_inactivity_timeout settings) w code d1 d2)
            (Inr \<circ> paused_outcome))"

definition recover_stale_dispatch ::
    "env \<Rightarrow> 'i preparation \<Rightarrow> watchdog_settings \<Rightarrow> time \<Rightarrow> ident \<Rightarrow> watchdog_due \<Rightarrow> db \<Rightarrow> db \<Rightarrow> db \<Rightarrow>
       (opening_outcome \<times> db) result" where
  "recover_stale_dispatch env prep settings observed dispatch w d d1 d2 =
     (case plan_watchdog_replacement prep settings observed dispatch w d of
        Inl f \<Rightarrow> recover_failed_preparation env settings w d1 d2 f
      | Inr None \<Rightarrow> Inr (Skipped, d2)
      | Inr (Some (n, None)) \<Rightarrow>
          (case pause_watchdog_snapshot env n ''runtime_recovery_exhausted'' None d2 of
             Inl f \<Rightarrow> recover_failed_preparation env settings w d1 d2 f
           | Inr r \<Rightarrow> Inr (paused_outcome r))
      | Inr (Some (n, Some p)) \<Rightarrow>
          and_then (commit_watchdog_replacement env n p d2) (\<lambda>(committed, d3).
            Inr (if committed then Opened (pr_dispatch_id p) else Skipped, d3)))"

text \<open>The hints; a replacement also asks for the cleanup of the superseded Dispatch.\<close>

definition watchdog_signals :: "watchdog_due \<Rightarrow> time \<Rightarrow> opening_outcome \<Rightarrow> runtime_signal list" where
  "watchdog_signals w due outcome =
     (case outcome of
        Opened dispatch \<Rightarrow> [DispatchCleanupRequested (wq_dispatch_id w), DispatchStartDue dispatch 0 due]
      | Skipped \<Rightarrow> []
      | OpeningPaused closed \<Rightarrow> map DispatchCleanupRequested closed)"

end
