(* ===== verification/ProviderStart.thy ===== *)
theory ProviderStart
  imports Watchdog
begin

text \<open>
  The start of a provider session for a starting Dispatch (\<open>runtime/dispatch/provider_start.py\<close>,
  \<open>runtime/providers/starter.py\<close> and \<open>transition_failure.py\<close>). A starting Dispatch has a start
  generation: its revision, its attempt count and its due time. A provider that accepts opens the
  Dispatch, one that fails rotates it to the next generation, due after a backoff, and a start that
  can never be made pauses the Task. Every write names the exact generation and loses when it is
  gone. Durations are in the unit of the clock; the code computes the backoff in floating point.
\<close>

subsection \<open>The exact generation\<close>

record start_due =
  sd_dispatch_id :: ident
  sd_revision :: int
  sd_due_at :: time

definition start_signal :: "start_due \<Rightarrow> runtime_signal" where
  "start_signal s = DispatchStartDue (sd_dispatch_id s) (sd_revision s) (sd_due_at s)"

text \<open>
  \<open>ProviderStartCandidate\<close>, without the columns the record model leaves out (gateway profile,
  native access, network access, sandbox).
\<close>

record start_candidate =
  sc_task_id :: ident
  sc_team_revision_id :: ident
  sc_task_control_revision :: int
  sc_assignment_id :: ident
  sc_attempt_id :: ident
  sc_member_id :: ident
  sc_opened_reason :: opened_reason
  sc_predecessor_dispatch_id :: "ident option"
  sc_provider_kind :: "provider_kind option"
  sc_model_override :: "string option"
  sc_effort_override :: "string option"
  sc_effective_extension_mode :: "string option"
  sc_attempt_count :: int
  sc_persisted_due_at :: time
  sc_instructions :: "string option"
  sc_input :: "string option"

definition build_provider_start_candidate ::
    "dispatch_row \<Rightarrow> task_row \<Rightarrow> time \<Rightarrow> dispatch_request_row option \<Rightarrow> start_candidate" where
  "build_provider_start_candidate t k due q =
     \<lparr>sc_task_id = dt_task_id t, sc_team_revision_id = dt_team_revision_id t,
      sc_task_control_revision = tk_control_revision k, sc_assignment_id = dt_assignment_id t,
      sc_attempt_id = dt_attempt_id t, sc_member_id = dt_member_id t,
      sc_opened_reason = dt_opened_reason t, sc_predecessor_dispatch_id = dt_predecessor_dispatch_id t,
      sc_provider_kind = provider_kind_of (pv_resolved_provider (dt_provider t)),
      sc_model_override = pv_model_override (dt_provider t),
      sc_effort_override = pv_effort_override (dt_provider t),
      sc_effective_extension_mode = pv_effective_extension_mode (dt_provider t),
      sc_attempt_count = dt_provider_start_attempt_count t, sc_persisted_due_at = due,
      sc_instructions = map_option dq_instructions q, sc_input = map_option dq_input q\<rparr>"

definition read_provider_start_candidate :: "start_due \<Rightarrow> db \<Rightarrow> start_candidate option" where
  "read_provider_start_candidate s d =
     Option.bind (find (\<lambda>t. dt_dispatch_id t = sd_dispatch_id s \<and> dispatch_team_selection_is_current t d)
         (dispatches d)) (\<lambda>t.
     Option.bind (find (\<lambda>k. tk_task_id k = dt_task_id t) (tasks d)) (\<lambda>k.
     Option.bind (find (\<lambda>a. at_attempt_id a = dt_attempt_id t) (attempts d)) (\<lambda>a.
     Option.bind (dt_next_provider_start_at t) (\<lambda>due.
       if dt_status t \<noteq> Starting \<or> dt_provider_start_revision t \<noteq> sd_revision s \<or>
          due \<noteq> sd_due_at s \<or> tk_status k \<noteq> TaskRunning \<or> at_status a \<noteq> AttRunning \<or>
          at_current_dispatch_id a \<noteq> Some (sd_dispatch_id s) \<or> at_current_wait_id a \<noteq> None
       then None
       else Some (build_provider_start_candidate t k due
         (find (\<lambda>q. dq_dispatch_id q = dt_dispatch_id t) (dispatch_requests d)))))))"

text \<open>The \<open>where\<close> clause that the acceptance, the rotation and the last check share.\<close>

definition start_generation_is_current ::
    "ident \<Rightarrow> start_due \<Rightarrow> int \<Rightarrow> time \<Rightarrow> db \<Rightarrow> dispatch_row \<Rightarrow> bool" where
  "start_generation_is_current task s count due d t \<longleftrightarrow>
     dt_dispatch_id t = sd_dispatch_id s \<and> dt_task_id t = task \<and> dt_status t = Starting \<and>
     dt_provider_start_revision t = sd_revision s \<and> dt_provider_start_attempt_count t = count \<and>
     dt_next_provider_start_at t = Some due \<and> dispatch_attempt_is_current t d \<and>
     dispatch_team_selection_is_current t d \<and>
     list_ex (\<lambda>k. tk_task_id k = task \<and> tk_status k = TaskRunning) (tasks d)"

definition provider_start_is_current :: "start_due \<Rightarrow> start_candidate \<Rightarrow> db \<Rightarrow> bool" where
  "provider_start_is_current s c d =
     list_ex (start_generation_is_current (sc_task_id c) s (sc_attempt_count c) (sc_persisted_due_at c) d)
       (dispatches d)"

subsection \<open>Acceptance\<close>

text \<open>An accepted result; a result that is not accepted is \<open>None\<close>.\<close>

record start_acceptance =
  sa_attempt_count :: int
  sa_adapter_started_at :: time
  sa_node_activity_revision :: int
  sa_last_node_activity_at :: "time option"

definition accepted_dispatch :: "time \<Rightarrow> dispatch_row \<Rightarrow> dispatch_row" where
  "accepted_dispatch now t =
     t\<lparr>dt_status := Open, dt_adapter_started_at := Some now,
       dt_provider_start_attempt_count := dt_provider_start_attempt_count t + 1,
       dt_next_provider_start_at := None, dt_provider_start_retry_kind := None,
       dt_provider_start_last_error_code := None\<rparr>"

definition provider_start_accepted_event ::
    "ident \<Rightarrow> start_due \<Rightarrow> time \<Rightarrow> dispatch_row \<Rightarrow> event_draft" where
  "provider_start_accepted_event task s now t =
     \<lparr>ed_task_id = task, ed_event_type = DISPATCH_START_UPDATED, ed_event_source = SrcController,
      ed_occurred_at = now, ed_team_revision_id = None, ed_dispatch_id = Some (sd_dispatch_id s),
      ed_attempt_id = Some (dt_attempt_id t), ed_member_id = Some (dt_member_id t), ed_actor_ref = None,
      ed_payload =
        [(''dispatch_id'', JStr (sd_dispatch_id s)), (''state'', JStr ''accepted''),
         (''attempt_count'', JInt (dt_provider_start_attempt_count t)),
         (''provider_start_revision'', JInt (sd_revision s)), (''next_attempt_at'', JNull),
         (''retry_kind'', JNull), (''last_error_code'', JNull)]\<rparr>"

definition acceptance_of :: "dispatch_row \<Rightarrow> time \<Rightarrow> start_acceptance" where
  "acceptance_of t now =
     \<lparr>sa_attempt_count = dt_provider_start_attempt_count t, sa_adapter_started_at = now,
      sa_node_activity_revision = dt_node_activity_revision t,
      sa_last_node_activity_at = dt_last_node_activity_at t\<rparr>"

definition accept_provider_start_if_current ::
    "env \<Rightarrow> ident \<Rightarrow> start_due \<Rightarrow> int \<Rightarrow> time \<Rightarrow> time \<Rightarrow> db \<Rightarrow> (start_acceptance option \<times> db) result" where
  "accept_provider_start_if_current env task s count due now d =
     and_then (update_checked ck_dispatch (start_generation_is_current task s count due d)
         (accepted_dispatch now) (dispatches d)) (\<lambda>updated.
       case (updated, find (start_generation_is_current task s count due d) (dispatches d)) of
         (Some ts, Some t) \<Rightarrow>
           (let t' = accepted_dispatch now t in
            and_then (append_task_event env (provider_start_accepted_event task s now t') (d\<lparr>dispatches := ts\<rparr>))
              (\<lambda>d1. Inr (Some (acceptance_of t' now), d1)))
       | _ \<Rightarrow> Inr (None, d))"

text \<open>After an ambiguous commit the acceptance is read back.\<close>

definition read_provider_start_acceptance_after_commit ::
    "start_due \<Rightarrow> start_candidate \<Rightarrow> db \<Rightarrow> start_acceptance option" where
  "read_provider_start_acceptance_after_commit s c d =
     Option.bind (find (\<lambda>t. dt_dispatch_id t = sd_dispatch_id s \<and> dt_task_id t = sc_task_id c \<and>
         dispatch_team_selection_is_current t d) (dispatches d)) (\<lambda>t.
     Option.bind (find (\<lambda>k. tk_task_id k = dt_task_id t) (tasks d)) (\<lambda>k.
     Option.bind (find (\<lambda>a. at_attempt_id a = dt_attempt_id t) (attempts d)) (\<lambda>a.
     Option.bind (dt_adapter_started_at t) (\<lambda>started.
       if dt_status t = Open \<and> dt_provider_start_revision t = sd_revision s \<and>
          dt_provider_start_attempt_count t = sc_attempt_count c + 1 \<and>
          dt_next_provider_start_at t = None \<and> tk_status k = TaskRunning \<and>
          at_status a = AttRunning \<and> at_current_dispatch_id a = Some (sd_dispatch_id s) \<and>
          at_current_wait_id a = None
       then Some (acceptance_of t started) else None))))"

subsection \<open>Rotation\<close>

datatype start_failure_kind = DefiniteFailure | UncertainAcceptance

datatype start_error_code =
    StartConfiguration | StartAuthentication | StartConnection | StartUnavailable | StartTimeout
  | StartRejected | StartUnsupported | StartUncertain

fun start_failure_value :: "start_failure_kind \<Rightarrow> string" where
  "start_failure_value DefiniteFailure = ''definite_failure''"
| "start_failure_value UncertainAcceptance = ''uncertain_acceptance''"

fun start_failure_retry :: "start_failure_kind \<Rightarrow> retry_kind" where
  "start_failure_retry DefiniteFailure = RDefiniteFailure"
| "start_failure_retry UncertainAcceptance = RUncertainAcceptance"

fun start_error_value :: "start_error_code \<Rightarrow> string" where
  "start_error_value StartConfiguration = ''provider_configuration''"
| "start_error_value StartAuthentication = ''provider_authentication''"
| "start_error_value StartConnection = ''provider_connection''"
| "start_error_value StartUnavailable = ''provider_unavailable''"
| "start_error_value StartTimeout = ''provider_timeout''"
| "start_error_value StartRejected = ''provider_rejected''"
| "start_error_value StartUnsupported = ''provider_unsupported''"
| "start_error_value StartUncertain = ''provider_uncertain''"

definition rotated_dispatch ::
    "start_due \<Rightarrow> start_failure_kind \<Rightarrow> start_error_code \<Rightarrow> dispatch_row \<Rightarrow> dispatch_row" where
  "rotated_dispatch retry kind code t =
     t\<lparr>dt_provider_start_revision := sd_revision retry,
       dt_provider_start_attempt_count := dt_provider_start_attempt_count t + 1,
       dt_next_provider_start_at := Some (sd_due_at retry),
       dt_provider_start_retry_kind := Some (start_failure_retry kind),
       dt_provider_start_last_error_code := Some (start_error_value code)\<rparr>"

definition provider_start_retry_event ::
    "start_due \<Rightarrow> start_candidate \<Rightarrow> start_due \<Rightarrow> start_failure_kind \<Rightarrow> start_error_code \<Rightarrow> time \<Rightarrow> event_draft" where
  "provider_start_retry_event s c retry kind code now =
     \<lparr>ed_task_id = sc_task_id c, ed_event_type = DISPATCH_START_UPDATED, ed_event_source = SrcController,
      ed_occurred_at = now, ed_team_revision_id = Some (sc_team_revision_id c),
      ed_dispatch_id = Some (sd_dispatch_id s), ed_attempt_id = Some (sc_attempt_id c),
      ed_member_id = Some (sc_member_id c), ed_actor_ref = None,
      ed_payload =
        [(''dispatch_id'', JStr (sd_dispatch_id s)), (''state'', JStr ''retry_scheduled''),
         (''attempt_count'', JInt (sc_attempt_count c + 1)),
         (''provider_start_revision'', JInt (sd_revision retry)),
         (''next_attempt_at'', JInt (sd_due_at retry)),
         (''retry_kind'', JStr (start_failure_value kind)),
         (''last_error_code'', JStr (start_error_value code))]\<rparr>"

text \<open>\<open>False\<close> is a rolled-back transaction.\<close>

definition rotate_provider_start_after_failure ::
    "env \<Rightarrow> start_due \<Rightarrow> start_candidate \<Rightarrow> start_due \<Rightarrow> start_failure_kind \<Rightarrow> start_error_code \<Rightarrow> db \<Rightarrow>
       (bool \<times> db) result" where
  "rotate_provider_start_after_failure env s c retry kind code d =
     and_then (update_checked ck_dispatch
         (start_generation_is_current (sc_task_id c) s (sc_attempt_count c) (sc_persisted_due_at c) d)
         (rotated_dispatch retry kind code) (dispatches d)) (\<lambda>updated.
       case updated of
         None \<Rightarrow> Inr (False, d)
       | Some ts \<Rightarrow>
           and_then (append_task_event env (provider_start_retry_event s c retry kind code (env_now env))
               (d\<lparr>dispatches := ts\<rparr>)) (\<lambda>d1. Inr (True, d1)))"

subsection \<open>A start that cannot be made\<close>

definition start_identity :: "start_due \<Rightarrow> start_candidate \<Rightarrow> dispatch_identity" where
  "start_identity s c = \<lparr>di_task_id = sc_task_id c, di_assignment_id = sc_assignment_id c,
     di_attempt_id = sc_attempt_id c, di_dispatch_id = sd_dispatch_id s\<rparr>"

text \<open>The columns both statements of the pause ask of the Dispatch.\<close>

definition invalid_start_matches :: "start_due \<Rightarrow> start_candidate \<Rightarrow> dispatch_row \<Rightarrow> bool" where
  "invalid_start_matches s c t \<longleftrightarrow>
     dt_dispatch_id t = sd_dispatch_id s \<and> dt_task_id t = sc_task_id c \<and>
     dt_assignment_id t = sc_assignment_id c \<and> dt_attempt_id t = sc_attempt_id c \<and>
     dt_team_revision_id t = sc_team_revision_id c \<and> dt_member_id t = sc_member_id c \<and>
     dt_status t = Starting \<and> dt_provider_start_revision t = sd_revision s \<and>
     dt_provider_start_attempt_count t = sc_attempt_count c \<and>
     dt_next_provider_start_at t = Some (sc_persisted_due_at c)"

definition start_paused_task :: "start_due \<Rightarrow> string \<Rightarrow> time \<Rightarrow> task_row \<Rightarrow> task_row" where
  "start_paused_task s code now k =
     k\<lparr>tk_status := TaskPaused, tk_pause_reason := Some ''runtime_transition_failed'',
       tk_pause_details := Some [(''source'', JStr ''provider_start''),
         (''source_dispatch_id'', JStr (sd_dispatch_id s)), (''failure_code'', JStr code)],
       tk_paused_at := Some now, tk_paused_by_actor_ref := Some ''controller.runtime'',
       tk_control_revision := tk_control_revision k + 1, tk_updated_at := now\<rparr>"

definition pause_invalid_starting_task ::
    "start_due \<Rightarrow> start_candidate \<Rightarrow> time \<Rightarrow> string \<Rightarrow> db \<Rightarrow> task_row list option result" where
  "pause_invalid_starting_task s c now code d =
     update_checked ck_task
       (\<lambda>k. tk_task_id k = sc_task_id c \<and> tk_status k = TaskRunning \<and>
          tk_control_revision k = sc_task_control_revision c \<and>
          attempt_dispatch_is_current (start_identity s c) d \<and>
          list_ex (\<lambda>t. invalid_start_matches s c t \<and> dispatch_team_selection_is_current t d) (dispatches d))
       (start_paused_task s code now) (tasks d)"

definition invalid_start_closed :: "time \<Rightarrow> dispatch_row \<Rightarrow> dispatch_row" where
  "invalid_start_closed now t =
     (close_dispatch_row now CControlFailed t)\<lparr>dt_provider_start_last_error_code := None\<rparr>"

definition close_invalid_starting_dispatch ::
    "start_due \<Rightarrow> start_candidate \<Rightarrow> time \<Rightarrow> db \<Rightarrow> dispatch_row list option result" where
  "close_invalid_starting_dispatch s c now d =
     update_checked ck_dispatch (\<lambda>t. invalid_start_matches s c t \<and> dispatch_attempt_is_current t d)
       (invalid_start_closed now) (dispatches d)"

definition invalid_start_event :: "start_due \<Rightarrow> start_candidate \<Rightarrow> time \<Rightarrow> string \<Rightarrow> event_draft" where
  "invalid_start_event s c now code =
     \<lparr>ed_task_id = sc_task_id c, ed_event_type = TASK_PAUSED, ed_event_source = SrcController,
      ed_occurred_at = now, ed_team_revision_id = Some (sc_team_revision_id c),
      ed_dispatch_id = Some (sd_dispatch_id s), ed_attempt_id = Some (sc_attempt_id c),
      ed_member_id = Some (sc_member_id c), ed_actor_ref = Some ''controller.runtime'',
      ed_payload =
        [(''pause_reason'', JStr ''runtime_transition_failed''),
         (''control_revision'', JInt (sc_task_control_revision c + 1)),
         (''actor_ref'', JStr ''controller.runtime''),
         (''summary'', JStr (''Provider start could not continue: '' @ code @ ''.''))]\<rparr>"

text \<open>Every lost step rolls back: no sibling was closed and the state stays.\<close>

definition pause_invalid_provider_start ::
    "env \<Rightarrow> start_due \<Rightarrow> start_candidate \<Rightarrow> time \<Rightarrow> string \<Rightarrow> db \<Rightarrow> (ident list \<times> db) result" where
  "pause_invalid_provider_start env s c now code d =
     and_then (pause_invalid_starting_task s c now code d) (\<lambda>paused. case paused of
       None \<Rightarrow> Inr ([], d)
     | Some ks \<Rightarrow>
         and_then (close_invalid_starting_dispatch s c now (d\<lparr>tasks := ks\<rparr>)) (\<lambda>closed. case closed of
           None \<Rightarrow> Inr ([], d)
         | Some ts \<Rightarrow>
             (case clear_current_attempt_dispatch (start_identity s c) (d\<lparr>tasks := ks, dispatches := ts\<rparr>) of
                None \<Rightarrow> Inr ([], d)
              | Some d1 \<Rightarrow>
                  (case close_current_task_dispatches (sc_task_id c) CPaused now Map.empty d1 of
                     Inl (TaskDispatchControlConflictError _) \<Rightarrow> Inr ([], d)
                   | Inl f \<Rightarrow> Inl f
                   | Inr (siblings, d2) \<Rightarrow>
                       and_then (append_task_event env (invalid_start_event s c now code) d2)
                         (\<lambda>d3. Inr (siblings, d3))))))"

end
