(* ===== verification/Starter.thy ===== *)
theory Starter
  imports ProviderStart
begin

text \<open>
  The handler of a due start (\<open>DispatchStarter\<close> in \<open>runtime/providers/starter.py\<close>): it reads the
  exact generation, prepares the request, checks once more, calls the provider and records how that
  ended. The handler runs as several short transactions, and other transactions commit between
  them; \<open>wd_between\<close> is what they do. What the handler asks of the world beside the database is
  the list of its effects.
\<close>

subsection \<open>Routing\<close>

definition is_initial_watchdog_recovery :: "start_candidate \<Rightarrow> start_due \<Rightarrow> bool" where
  "is_initial_watchdog_recovery c s \<longleftrightarrow>
     sc_opened_reason c = OWatchdogRecovery \<and> sc_predecessor_dispatch_id c \<noteq> None \<and>
     sd_revision s = 0 \<and> sc_attempt_count c = 0"

text \<open>The backoff doubles with every attempt up to a maximum.\<close>

record start_settings =
  ss_initial_backoff :: time
  ss_max_backoff :: time
  ss_inactivity_timeout :: int

definition retry_delay :: "start_settings \<Rightarrow> int \<Rightarrow> time" where
  "retry_delay settings count =
     min (ss_max_backoff settings) (ss_initial_backoff settings * 2 ^ nat (min count 63))"

definition next_retry_signal :: "start_settings \<Rightarrow> start_due \<Rightarrow> int \<Rightarrow> time \<Rightarrow> start_due" where
  "next_retry_signal settings s count now =
     \<lparr>sd_dispatch_id = sd_dispatch_id s, sd_revision = sd_revision s + 1,
      sd_due_at = now + retry_delay settings count\<rparr>"

text \<open>The failures of a preparation that pause the Task; the others propagate.\<close>

fun controller_failure_code :: "failure \<Rightarrow> string option" where
  "controller_failure_code (RuntimeOperationError c _ _) = Some (failure_code_value c)"
| "controller_failure_code (ProviderResolutionError c) = Some c"
| "controller_failure_code (ValueError _) = Some ''dispatch_start_request_invalid''"
| "controller_failure_code _ = None"

definition select_adapter :: "provider_kind list \<Rightarrow> start_candidate \<Rightarrow> string + provider_kind" where
  "select_adapter adapters c =
     (case sc_provider_kind c of
        None \<Rightarrow> Inl ''dispatch_provider_route_invalid''
      | Some kind \<Rightarrow>
          if kind = ProvOpenclaw then Inl ''provider_retired''
          else if kind \<notin> set adapters then Inl ''dispatch_provider_adapter_missing''
          else Inr kind)"

subsection \<open>The world of a handler\<close>

datatype start_effect =
    ScheduleDeadline runtime_signal
  | PublishSignal runtime_signal
  | IssueBinding ident
  | RevokeBinding ident
  | RevokeDispatch ident
  | CallStart provider_kind ident int
  | StopProvider provider_kind ident

text \<open>How the call of the provider ended, and how the commit of the acceptance ended.\<close>

datatype start_answer =
    StartAccepted
  | StartRefused start_failure_kind start_error_code
  | StartRaised
  | StartCancelled

datatype commit_report = CommitReturned | CommitRaised bool

text \<open>
  \<open>CommitRaised kept\<close> is a commit that raised; \<open>kept\<close> says whether the database has it. The
  preparation of the request is a parameter: it returns the binding it issued.
\<close>

record start_world =
  wd_adapters :: "provider_kind list"
  wd_settings :: start_settings
  wd_prepare :: "start_due \<Rightarrow> start_candidate \<Rightarrow> db \<Rightarrow> ident result"
  wd_answer :: start_answer
  wd_commit :: commit_report
  wd_clock :: time
  wd_between :: "nat \<Rightarrow> db \<Rightarrow> db"

text \<open>The effects, the exception that leaves the handler, and the state.\<close>

type_synonym start_run = "start_effect list \<times> failure option \<times> db"

definition with_effects :: "start_effect list \<Rightarrow> start_run \<Rightarrow> start_run" where
  "with_effects es r = (es @ fst r, snd r)"

definition revoke :: "ident option \<Rightarrow> start_effect list" where
  "revoke binding = (case binding of None \<Rightarrow> [] | Some b \<Rightarrow> [RevokeBinding b])"

subsection \<open>Recording the outcome\<close>

definition record_provider_failure ::
    "env \<Rightarrow> start_world \<Rightarrow> start_due \<Rightarrow> start_candidate \<Rightarrow> provider_kind \<Rightarrow> ident option \<Rightarrow>
       start_failure_kind \<Rightarrow> start_error_code \<Rightarrow> db \<Rightarrow> start_run" where
  "record_provider_failure env w s c kind binding fk code d =
     (let retry = next_retry_signal (wd_settings w) s (sc_attempt_count c) (wd_clock w);
          settle = revoke binding @
            (if fk = UncertainAcceptance then [StopProvider kind (sd_dispatch_id s)] else [])
      in case rotate_provider_start_after_failure env s c retry fk code d of
           Inl f \<Rightarrow> (settle, Some f, d)
         | Inr (rotated, d') \<Rightarrow>
             (settle @ (if rotated then [ScheduleDeadline (start_signal retry)] else []), None, d'))"

definition publish_watchdog :: "start_settings \<Rightarrow> start_due \<Rightarrow> start_acceptance \<Rightarrow> start_effect list" where
  "publish_watchdog settings s a =
     [PublishSignal (WatchdogDeadlineChanged (sd_dispatch_id s) (sa_node_activity_revision a)
        (calculate_watchdog_due_at (sa_adapter_started_at a) (sa_last_node_activity_at a)
          (ss_inactivity_timeout settings)))]"

text \<open>The acceptance did not come back: read the state again in another session.\<close>

definition reconcile_acceptance ::
    "env \<Rightarrow> start_world \<Rightarrow> start_due \<Rightarrow> start_candidate \<Rightarrow> provider_kind \<Rightarrow> ident option \<Rightarrow> db \<Rightarrow> start_run" where
  "reconcile_acceptance env w s c kind binding d =
     (let d1 = wd_between w 4 d in
      case read_provider_start_acceptance_after_commit s c d1 of
        Some a \<Rightarrow> (publish_watchdog (wd_settings w) s a, None, d1)
      | None \<Rightarrow>
          record_provider_failure env w s c kind binding UncertainAcceptance StartUncertain
            (wd_between w 5 d1))"

definition record_acceptance ::
    "env \<Rightarrow> start_world \<Rightarrow> start_due \<Rightarrow> start_candidate \<Rightarrow> provider_kind \<Rightarrow> ident option \<Rightarrow> db \<Rightarrow> start_run" where
  "record_acceptance env w s c kind binding d =
     (case accept_provider_start_if_current env (sc_task_id c) s (sc_attempt_count c)
         (sc_persisted_due_at c) (wd_clock w) d of
        Inl f \<Rightarrow> reconcile_acceptance env w s c kind binding d
      | Inr (accepted, d1) \<Rightarrow>
          (case wd_commit w of
             CommitRaised kept \<Rightarrow> reconcile_acceptance env w s c kind binding (if kept then d1 else d)
           | CommitReturned \<Rightarrow>
               (case accepted of
                  None \<Rightarrow> (revoke binding @ [StopProvider kind (sd_dispatch_id s)], None, d1)
                | Some a \<Rightarrow> (publish_watchdog (wd_settings w) s a, None, d1))))"

definition pause_invalid_start ::
    "env \<Rightarrow> start_world \<Rightarrow> start_due \<Rightarrow> start_candidate \<Rightarrow> string \<Rightarrow> db \<Rightarrow> start_run" where
  "pause_invalid_start env w s c code d =
     (case pause_invalid_provider_start env s c (wd_clock w) code d of
        Inl f \<Rightarrow> ([], Some f, d)
      | Inr (siblings, d') \<Rightarrow> (map (PublishSignal \<circ> DispatchCleanupRequested) siblings, None, d'))"

subsection \<open>Calling the provider\<close>

text \<open>The provider of the stale Dispatch is stopped before its replacement starts.\<close>

definition stop_watchdog_predecessor :: "start_world \<Rightarrow> start_candidate \<Rightarrow> db \<Rightarrow> start_effect list" where
  "stop_watchdog_predecessor w c d =
     (case sc_predecessor_dispatch_id c of
        None \<Rightarrow> []
      | Some x \<Rightarrow>
          RevokeDispatch x #
          (case find (\<lambda>t. dt_dispatch_id t = x \<and> dt_task_id t = sc_task_id c) (dispatches d) of
             None \<Rightarrow> []
           | Some t \<Rightarrow>
               (case provider_kind_of (pv_resolved_provider (dt_provider t)) of
                  Some kind \<Rightarrow> if kind \<in> set (wd_adapters w) then [StopProvider kind x] else []
                | None \<Rightarrow> [])))"

definition stop_predecessor_if_initial ::
    "start_world \<Rightarrow> start_due \<Rightarrow> start_candidate \<Rightarrow> db \<Rightarrow> start_effect list" where
  "stop_predecessor_if_initial w s c d =
     (if is_initial_watchdog_recovery c s then stop_watchdog_predecessor w c d else [])"

text \<open>A cancelled call propagates as the cancellation, here a \<open>RuntimeError\<close>.\<close>

definition invoke_provider_start ::
    "env \<Rightarrow> start_world \<Rightarrow> start_due \<Rightarrow> start_candidate \<Rightarrow> provider_kind \<Rightarrow> ident \<Rightarrow> db \<Rightarrow> start_run" where
  "invoke_provider_start env w s c kind binding d =
     (if \<not> provider_start_is_current s c d then ([RevokeBinding binding], None, d)
      else with_effects [CallStart kind (sd_dispatch_id s) (sd_revision s)]
        (case wd_answer w of
           StartCancelled \<Rightarrow>
             ([RevokeBinding binding, StopProvider kind (sd_dispatch_id s)], Some (RuntimeError ''CancelledError''), d)
         | StartRefused fk code \<Rightarrow>
             record_provider_failure env w s c kind (Some binding) fk code (wd_between w 3 d)
         | StartRaised \<Rightarrow>
             record_provider_failure env w s c kind (Some binding) UncertainAcceptance StartUncertain (wd_between w 3 d)
         | StartAccepted \<Rightarrow> record_acceptance env w s c kind (Some binding) (wd_between w 3 d)))"

text \<open>The candidate and its adapter, or what the handler did instead.\<close>

definition read_candidate_and_adapter ::
    "env \<Rightarrow> start_world \<Rightarrow> start_due \<Rightarrow> db \<Rightarrow> start_run + (start_candidate \<times> provider_kind)" where
  "read_candidate_and_adapter env w s d =
     (case read_provider_start_candidate s d of
        None \<Rightarrow> Inl ([], None, d)
      | Some c \<Rightarrow>
          (case select_adapter (wd_adapters w) c of
             Inl code \<Rightarrow> Inl (pause_invalid_start env w s c code (wd_between w 0 d))
           | Inr kind \<Rightarrow> Inr (c, kind)))"

definition start_due_dispatch :: "env \<Rightarrow> start_world \<Rightarrow> start_due \<Rightarrow> db \<Rightarrow> start_run" where
  "start_due_dispatch env w s d =
     (case read_candidate_and_adapter env w s d of
        Inl r \<Rightarrow> r
      | Inr (c, kind) \<Rightarrow>
          (let d1 = wd_between w 0 d in
           case wd_prepare w s c d1 of
             Inl f \<Rightarrow>
               (case controller_failure_code f of
                  None \<Rightarrow> ([], Some f, d1)
                | Some code \<Rightarrow> pause_invalid_start env w s c code (wd_between w 1 d1))
           | Inr binding \<Rightarrow>
               (let d2 = wd_between w 1 d1; d3 = wd_between w 2 d2 in
                with_effects (IssueBinding binding # stop_predecessor_if_initial w s c d2)
                  (invoke_provider_start env w s c kind binding d3))))"

text \<open>
  A signal that the startup audit found: an earlier process may have called the provider, so the
  generation is treated as uncertain.
\<close>

definition handle_recovered_due :: "env \<Rightarrow> start_world \<Rightarrow> start_due \<Rightarrow> db \<Rightarrow> start_run" where
  "handle_recovered_due env w s d =
     (case read_candidate_and_adapter env w s d of
        Inl r \<Rightarrow> r
      | Inr (c, kind) \<Rightarrow>
          (let d1 = wd_between w 0 d in
           with_effects (stop_predecessor_if_initial w s c d1 @ [RevokeDispatch (sd_dispatch_id s)])
             (record_provider_failure env w s c kind None UncertainAcceptance StartUncertain (wd_between w 1 d1))))"

subsection \<open>The handler\<close>

text \<open>\<open>DispatchStarter\<close> itself keeps the Dispatches in flight and the recovered signals.\<close>

record dispatch_starter =
  ds_in_flight :: "ident set"
  ds_recovered :: "start_due set"

definition mark_recovered :: "start_due \<Rightarrow> dispatch_starter \<Rightarrow> dispatch_starter" where
  "mark_recovered s st = st\<lparr>ds_recovered := insert s (ds_recovered st)\<rparr>"

definition schedule_or_start_dispatch ::
    "env \<Rightarrow> start_world \<Rightarrow> time \<Rightarrow> start_due \<Rightarrow> dispatch_starter \<Rightarrow> db \<Rightarrow> dispatch_starter \<times> start_run" where
  "schedule_or_start_dispatch env w now s st d =
     (if now < sd_due_at s then (st, [ScheduleDeadline (start_signal s)], None, d)
      else if sd_dispatch_id s \<in> ds_in_flight st then (st, [], None, d)
      else
        (st\<lparr>ds_recovered := ds_recovered st - {s}\<rparr>,
         if s \<in> ds_recovered st then handle_recovered_due env w s d else start_due_dispatch env w s d))"

end
