(* ===== verification/WatchdogProofs.thy ===== *)
theory WatchdogProofs
  imports Watchdog TaskResumeProofs
begin

text \<open>
  What the watchdog does: a replacement keeps the invariant, spends one unit of the budget of the
  Attempt and puts a fresh Dispatch in the place of the stale one; the pause closes every Dispatch
  of the Task. Neither touches a continuation source.
\<close>

subsection \<open>Staging in the place of a closed Dispatch\<close>

lemma replace_row_twice:
  assumes key: "keyed key rs" and a: "a \<in> set rs" "key b = key a"
  shows "replace_row b c (replace_row a b rs) = replace_row a c rs"
proof -
  have "(if (if r = a then b else r) = b then c else (if r = a then b else r)) = (if r = a then c else r)"
    if "r \<in> set rs" for r
  proof (cases "r = a")
    case False
    have "r \<noteq> b" using keyed_unique [OF key that a(1)] a(2) False by metis
    then show ?thesis using False by simp
  qed simp
  then show ?thesis unfolding replace_row_def by simp
qed

text \<open>
  Staging replaces the pointer of the lane, so it gives the same state whether the pointer still
  names the predecessor or was cleared.
\<close>

lemma select_starting_cleared:
  assumes key: "keyed at_attempt_id (attempts d)" and a: "a \<in> set (attempts d)" "at_attempt_id a = di_attempt_id i"
    and sel: "select_starting_dispatch_for_attempt i x d = Some d'"
  shows "select_starting_dispatch_for_attempt i x
    (d\<lparr>attempts := replace_row a (a\<lparr>at_current_dispatch_id := None\<rparr>) (attempts d)\<rparr>) = Some d'"
proof -
  let ?f = "\<lambda>a. a\<lparr>at_current_dispatch_id := Some (di_dispatch_id i)\<rparr>"
  let ?b = "a\<lparr>at_current_dispatch_id := None\<rparr>"
  let ?q = "\<lambda>a. at_attempt_id a = di_attempt_id i \<and> at_task_id a = di_task_id i \<and>
      at_assignment_id a = di_assignment_id i \<and> at_status a = AttRunning \<and> at_current_wait_id a = None \<and>
      (at_current_dispatch_id a = None \<or> x \<noteq> None \<and> at_current_dispatch_id a = x)"
  have pk: "\<forall>r. ?q r \<longrightarrow> at_attempt_id r = di_attempt_id i" by blast
  obtain as where up: "update_where ?q ?f (attempts d) = Some as" and d': "d' = d\<lparr>attempts := as\<rparr>"
    using sel unfolding select_starting_dispatch_for_attempt_def by (auto simp: map_option_eq_Some)
  obtain c where c: "c \<in> set (attempts d)" "?q c" "as = replace_row c (?f c) (attempts d)"
    using up unfolding update_unique_iff [OF key pk] by blast
  have ca: "c = a" by (rule keyed_unique [OF key c(1) a(1)]) (simp add: c a)
  have key': "keyed at_attempt_id (replace_row a ?b (attempts d))" by (rule keyed_replace_row [OF key]) simp
  have rows: "replace_row ?b (?f ?b) (replace_row a ?b (attempts d)) = replace_row a (?f a) (attempts d)"
    using replace_row_twice [OF key a(1), of ?b "?f ?b"] by simp
  have "update_where ?q ?f (replace_row a ?b (attempts d)) = Some as"
    unfolding update_unique_iff [OF key' pk]
  proof (rule bexI [of _ ?b], rule conjI)
    show "?q ?b" using c(2) by (simp add: ca)
    show "as = replace_row ?b (?f ?b) (replace_row a ?b (attempts d))" unfolding rows c(3) ca ..
    show "?b \<in> set (replace_row a ?b (attempts d))" by (simp add: set_replace_row [OF a(1)])
  qed
  then show ?thesis unfolding select_starting_dispatch_for_attempt_def by (simp add: d')
qed

lemma stage_starting_cleared:
  assumes "keyed at_attempt_id (attempts d)" and "a \<in> set (attempts d)" "at_attempt_id a = sb_attempt_id b"
    and st: "stage_starting_dispatch env b p d = Inr d'"
  shows "stage_starting_dispatch env b p
    (d\<lparr>attempts := replace_row a (a\<lparr>at_current_dispatch_id := None\<rparr>) (attempts d)\<rparr>) = Inr d'"
proof -
  let ?i = "\<lparr>di_task_id = sb_task_id b, di_assignment_id = sb_assignment_id b,
          di_attempt_id = sb_attempt_id b, di_dispatch_id = pr_dispatch_id p\<rparr>"
  obtain d1 where sel: "select_starting_dispatch_for_attempt ?i (sb_predecessor_dispatch_id b) d = Some d1"
    using st unfolding stage_starting_dispatch_def by (auto simp: result_simps)
  have "select_starting_dispatch_for_attempt ?i (sb_predecessor_dispatch_id b)
      (d\<lparr>attempts := replace_row a (a\<lparr>at_current_dispatch_id := None\<rparr>) (attempts d)\<rparr>) = Some d1"
    by (rule select_starting_cleared [OF assms(1,2) _ sel]) (simp add: assms(3))
  then show ?thesis using st unfolding stage_starting_dispatch_def sel by simp
qed

subsection \<open>A committed replacement\<close>

text \<open>
  The stale Dispatch \<open>source\<close> was open and current on a running Attempt that had budget left, its
  deadline had come, and \<open>y\<close> is the Dispatch that took its place.
\<close>

definition dispatch_replaced :: "watchdog_settings \<Rightarrow> time \<Rightarrow> ident \<Rightarrow> ident \<Rightarrow> db \<Rightarrow> db \<Rightarrow> bool" where
  "dispatch_replaced settings now source y d d' \<longleftrightarrow>
     (\<exists>t \<in> set (dispatches d). \<exists>a \<in> set (attempts d). \<exists>u started.
        dt_dispatch_id t = source \<and> dt_status t = Open \<and> dt_adapter_started_at t = Some started \<and>
        calculate_watchdog_due_at started (dt_last_node_activity_at t) (wt_inactivity_timeout settings) \<le> now \<and>
        attempt_owns_dispatch a t \<and> at_watchdog_replacement_count a < wt_replacement_limit settings \<and>
        dispatches d' = replace_row t (close_dispatch_row now CWatchdogSuperseded t) (dispatches d) @ [u] \<and>
        dt_dispatch_id u = y \<and> dt_status u = Starting \<and> dt_attempt_id u = at_attempt_id a \<and>
        dt_predecessor_dispatch_id u = Some source \<and> dt_opened_reason u = OWatchdogRecovery \<and>
        attempts d' = replace_row a (a\<lparr>at_watchdog_replacement_count := at_watchdog_replacement_count a + 1,
          at_current_dispatch_id := Some y\<rparr>) (attempts d) \<and>
        (\<exists>k \<in> set (tasks d). tk_task_id k = dt_task_id t \<and> tk_status k = TaskRunning) \<and>
        tasks d' = tasks d \<and> waits d' = waits d)"

lemma commit_replacement_rows:
  assumes ok: "lanes_ok d" and c: "commit_watchdog_replacement env w p d = Inr (True, d')"
  obtains t a where "t \<in> set (dispatches d)" "superseded_dispatch w d t" "a \<in> set (attempts d)"
    "attempt_owned_by \<lparr>di_task_id = cb_task_id (sn_basis (wn_dispatch w)),
       di_assignment_id = cb_assignment_id (sn_basis (wn_dispatch w)),
       di_attempt_id = cb_attempt_id (sn_basis (wn_dispatch w)),
       di_dispatch_id = cb_source_dispatch_id (sn_basis (wn_dispatch w))\<rparr> a"
    "at_watchdog_replacement_count a = wn_replacement_count w"
    "ck_attempt (a\<lparr>at_watchdog_replacement_count := at_watchdog_replacement_count a + 1\<rparr>)"
    "ck_dispatch (close_dispatch_row (env_now env) CWatchdogSuperseded t)"
    "stage_starting_dispatch env (successor_basis (wn_dispatch w) None) p
       (d\<lparr>dispatches := replace_row t (close_dispatch_row (env_now env) CWatchdogSuperseded t) (dispatches d),
         attempts := replace_row a
           (a\<lparr>at_watchdog_replacement_count := at_watchdog_replacement_count a + 1\<rparr>) (attempts d)\<rparr>) = Inr d'"
    "wn_due_at w \<le> env_now env" "\<exists>k \<in> set (tasks d). replaceable_task w d k"
proof -
  let ?b = "sn_basis (wn_dispatch w)"
  obtain ds as where due: "wn_due_at w \<le> env_now env" and k: "\<exists>k \<in> set (tasks d). replaceable_task w d k"
    and ds: "update_checked ck_dispatch (superseded_dispatch w d)
      (close_dispatch_row (env_now env) CWatchdogSuperseded) (dispatches d) = Inr (Some ds)"
    and as: "increment_watchdog_replacement_count w (d\<lparr>dispatches := ds\<rparr>) = Inr (Some as)"
    and st: "stage_starting_dispatch env (successor_basis (wn_dispatch w) None) p
      (d\<lparr>dispatches := ds, attempts := as\<rparr>) = Inr d'"
    using c unfolding commit_watchdog_replacement_def
    by (auto split: if_split_asm option.split_asm simp: list_ex_iff elim!: and_then_InrE)
  obtain t where t: "t \<in> set (dispatches d)" "superseded_dispatch w d t"
    "ck_dispatch (close_dispatch_row (env_now env) CWatchdogSuperseded t)"
    "ds = replace_row t (close_dispatch_row (env_now env) CWatchdogSuperseded t) (dispatches d)"
    by (rule update_checked_one [OF lanes_ok_keys(2) [OF ok] ds, of "cb_source_dispatch_id ?b"])
      (simp_all add: superseded_dispatch_def Let_def)
  note inc = as [unfolded increment_watchdog_replacement_count_def Let_def, simplified]
  obtain a where a: "a \<in> set (attempts d)" "at_task_id a = cb_task_id ?b \<and> at_assignment_id a = cb_assignment_id ?b \<and>
       at_attempt_id a = cb_attempt_id ?b \<and> at_status a = AttRunning \<and>
       at_current_dispatch_id a = Some (cb_source_dispatch_id ?b) \<and> at_current_wait_id a = None \<and>
       at_watchdog_replacement_count a = wn_replacement_count w"
    "ck_attempt (a\<lparr>at_watchdog_replacement_count := at_watchdog_replacement_count a + 1\<rparr>)"
    "as = replace_row a (a\<lparr>at_watchdog_replacement_count := at_watchdog_replacement_count a + 1\<rparr>) (attempts d)"
    by (rule update_checked_one [OF lanes_ok_keys(1) [OF ok] inc, of "cb_attempt_id ?b"]) simp_all
  show thesis
  proof (rule that [OF t(1,2) a(1) _ _ a(3) t(3) _ due k])
    show "at_watchdog_replacement_count a = wn_replacement_count w" using a(2) by simp
  qed (use a(2) st t(4) a(4) in \<open>simp_all add: attempt_owned_by_def\<close>)
qed

text \<open>
  The commit closes the stale Dispatch but keeps the pointer of its Attempt until the new
  Dispatch is selected; the state with the pointer cleared is a consistent one.
\<close>

lemma commit_replacement_effect:
  assumes ok: "system_ok (env_event_hash env) d" and c: "commit_watchdog_replacement env w p d = Inr (True, d')"
  shows "system_ok (env_event_hash env) d' \<and> sources_forward d d' \<and>
    (\<exists>t \<in> set (dispatches d). \<exists>a \<in> set (attempts d). superseded_dispatch w d t \<and> attempt_owns_dispatch a t \<and>
       at_watchdog_replacement_count a = wn_replacement_count w \<and>
       dispatches d' = replace_row t (close_dispatch_row (env_now env) CWatchdogSuperseded t) (dispatches d) @
         [build_starting_dispatch_model (successor_basis (wn_dispatch w) None) p] \<and>
       attempts d' = replace_row a (a\<lparr>at_watchdog_replacement_count := at_watchdog_replacement_count a + 1,
         at_current_dispatch_id := Some (pr_dispatch_id p)\<rparr>) (attempts d)) \<and>
    (\<exists>k \<in> set (tasks d). replaceable_task w d k) \<and>
    tasks d' = tasks d \<and> waits d' = waits d \<and> wn_due_at w \<le> env_now env"
proof -
  let ?n = "wn_dispatch w"
  let ?b = "sn_basis ?n"
  let ?i = "\<lparr>di_task_id = cb_task_id ?b, di_assignment_id = cb_assignment_id ?b,
       di_attempt_id = cb_attempt_id ?b, di_dispatch_id = cb_source_dispatch_id ?b\<rparr>"
  note rt = system_ok_parts(1) [OF ok]
  note L = runtime_ok_parts(4) [OF rt]
  obtain t a where t: "t \<in> set (dispatches d)" "superseded_dispatch w d t" and a: "a \<in> set (attempts d)"
    "attempt_owned_by ?i a" "at_watchdog_replacement_count a = wn_replacement_count w"
    "ck_attempt (a\<lparr>at_watchdog_replacement_count := at_watchdog_replacement_count a + 1\<rparr>)"
    and ckt: "ck_dispatch (close_dispatch_row (env_now env) CWatchdogSuperseded t)"
    and st: "stage_starting_dispatch env (successor_basis ?n None) p
       (d\<lparr>dispatches := replace_row t (close_dispatch_row (env_now env) CWatchdogSuperseded t) (dispatches d),
         attempts := replace_row a
           (a\<lparr>at_watchdog_replacement_count := at_watchdog_replacement_count a + 1\<rparr>) (attempts d)\<rparr>) = Inr d'"
    and due: "wn_due_at w \<le> env_now env" "\<exists>k \<in> set (tasks d). replaceable_task w d k"
    by (rule commit_replacement_rows [OF L c])
  let ?a = "a\<lparr>at_watchdog_replacement_count := at_watchdog_replacement_count a + 1\<rparr>"
  let ?t = "close_dispatch_row (env_now env) CWatchdogSuperseded t"
  let ?ds = "replace_row t ?t (dispatches d)"
  let ?as = "replace_row a ?a (attempts d)"
  let ?cleared = "replace_row ?a (?a\<lparr>at_current_dispatch_id := None\<rparr>) ?as"
  have tm: "dispatch_matches ?i t"
    using t(2) by (simp add: superseded_dispatch_def Let_def dispatch_matches_def dispatch_is_active_def)
  have aid: "at_attempt_id a = cb_attempt_id ?b" "attempt_owned_by ?i ?a"
    using a(2) by (simp_all add: attempt_owned_by_def)
  have "lanes_ok (d\<lparr>attempts := ?as\<rparr>)"
    by (rule lanes_ok_touch_attempt [OF L a(1) _ _ _ a(4)]) (simp_all add: same_attempt_def)
  from lanes_ok_release_row [OF this, of ?a ?i t "env_now env" CWatchdogSuperseded]
  have "lanes_ok (d\<lparr>dispatches := ?ds, attempts := ?cleared\<rparr>)"
    using a(1) aid t(1) tm ckt by (simp add: set_replace_row)
  then have rt0: "runtime_ok (env_event_hash env) (d\<lparr>dispatches := ?ds, attempts := ?cleared\<rparr>)"
    by (rule runtime_ok_lanes [OF rt])
  have keyas: "keyed at_attempt_id ?as" by (rule keyed_replace_row [OF lanes_ok_keys(1) [OF L]]) simp
  have st0: "stage_starting_dispatch env (successor_basis ?n None) p (d\<lparr>dispatches := ?ds, attempts := ?cleared\<rparr>) = Inr d'"
    using stage_starting_cleared [OF _ _ _ st, of ?a] keyas a(1) aid by (simp add: set_replace_row)
  note f = stage_starting_dispatch_frame [OF st0]
  have ok': "system_ok (env_event_hash env) d'"
    by (rule system_ok_frame [OF ok stage_starting_dispatch_runtime_ok [OF rt0 st0]]) (simp_all add: f)
  obtain x where x: "x \<in> set ?as" "at_attempt_id x = cb_attempt_id ?b"
    "attempts d' = replace_row x (x\<lparr>at_current_dispatch_id := Some (pr_dispatch_id p)\<rparr>) ?as"
    "insert_dispatch (build_starting_dispatch_model (successor_basis ?n None) p) ?ds = Inr (dispatches d')"
    by (rule stage_starting_dispatch_Some [OF _ st]) (use keyas in simp_all)
  have "x = ?a" by (rule keyed_unique [OF keyas x(1)]) (use a(1) aid x(2) in \<open>simp_all add: set_replace_row\<close>)
  then have "attempts d' = replace_row a (?a\<lparr>at_current_dispatch_id := Some (pr_dispatch_id p)\<rparr>) (attempts d)"
    using x(3) replace_row_twice [OF lanes_ok_keys(1) [OF L] a(1), of ?a] by simp
  moreover have "dispatches d' = ?ds @ [build_starting_dispatch_model (successor_basis ?n None) p]"
    using insert_dispatch_Inr [OF x(4)] by blast
  moreover have "attempt_owns_dispatch a t" using owned_matches_owns [OF a(2) tm] by blast
  moreover have "sources_forward d d'" by (rule sources_forward_same) (simp_all add: f)
  moreover have "tasks d' = tasks d" "waits d' = waits d" using f(4,8) by simp_all
  ultimately show ?thesis using ok' t a(1,3) due by blast
qed

subsection \<open>A committed pause\<close>

text \<open>
  The running Task of the open Dispatch \<open>source\<close> pauses at its next control revision and keeps no
  live Dispatch. Only an Attempt without budget exhausts the recovery.
\<close>

definition watchdog_paused :: "watchdog_settings \<Rightarrow> time \<Rightarrow> ident \<Rightarrow> db \<Rightarrow> db \<Rightarrow> bool" where
  "watchdog_paused settings now source d d' \<longleftrightarrow>
     (\<exists>k \<in> set (tasks d). \<exists>reason details. tk_status k = TaskRunning \<and>
        (\<exists>t \<in> set (dispatches d). dt_dispatch_id t = source \<and> dt_status t = Open \<and> dt_task_id t = tk_task_id k) \<and>
        (reason = ''runtime_transition_failed'' \<or>
         reason = ''runtime_recovery_exhausted'' \<and>
         (\<exists>a \<in> set (attempts d). at_current_dispatch_id a = Some source \<and>
            wt_replacement_limit settings \<le> at_watchdog_replacement_count a)) \<and>
        tasks d' = replace_row k (watchdog_paused_task reason details now k) (tasks d) \<and>
        (\<forall>t \<in> set (dispatches d'). dt_task_id t = tk_task_id k \<longrightarrow> \<not> dispatch_is_active t) \<and>
        waits d' = waits d)"

lemma commit_watchdog_pause_None:
  "commit_watchdog_pause env k src reason code d = Inr (None, d') \<Longrightarrow> d' = d"
  unfolding commit_watchdog_pause_def
  by (auto elim!: and_then_InrE split: option.split_asm sum.split_asm failure.split_asm prod.split_asm)

lemma commit_watchdog_pause_Inr:
  assumes ok: "system_ok (env_event_hash env) d"
    and c: "commit_watchdog_pause env k src reason code d = Inr (r, d')"
  shows "system_ok (env_event_hash env) d' \<and> sources_forward d d' \<and>
    (case r of None \<Rightarrow> d' = d
     | Some closed \<Rightarrow> src d \<and> (\<exists>t \<in> set (tasks d). tk_task_id t = wk_task_id k \<and> tk_status t = TaskRunning \<and>
         tasks d' = replace_row t (watchdog_paused_task reason
           (watchdog_pause_details (wk_dispatch_id k) code) (env_now env) t) (tasks d) \<and>
         (\<forall>u \<in> set (dispatches d'). dt_task_id u = tk_task_id t \<longrightarrow> \<not> dispatch_is_active u) \<and>
         waits d' = waits d))"
proof (cases r)
  case None
  then have "d' = d" using c commit_watchdog_pause_None by blast
  then show ?thesis using ok None by simp
next
  case (Some closed)
  let ?H = "env_event_hash env"
  let ?f = "watchdog_paused_task reason (watchdog_pause_details (wk_dispatch_id k) code) (env_now env)"
  note rt = system_ok_parts(1) [OF ok]
  have key: "keyed tk_task_id (tasks d)"
    using controller_ok_parts(4) [OF runtime_ok_parts(1) [OF rt]] by (simp add: tasks_ok_def)
  obtain ts d1 where
    up: "update_checked ck_task (\<lambda>t. tk_task_id t = wk_task_id k \<and> tk_status t = TaskRunning \<and>
            tk_current_team_revision_id t = Some (wk_team_revision_id k) \<and>
            tk_control_revision t = wk_control_revision k \<and> src d \<and>
            \<not> dispatch_owns_external_source (wk_dispatch_id k) d \<and>
            dispatch_has_no_successor (wk_dispatch_id k) d) ?f (tasks d) = Inr (Some ts)"
    and cl: "close_current_task_dispatches (wk_task_id k) CPaused (env_now env)
      [wk_dispatch_id k \<mapsto> CControlFailed] (d\<lparr>tasks := ts\<rparr>) = Inr (closed, d1)"
    and ev: "append_task_event env (watchdog_pause_event k reason code (env_now env)) d1 = Inr d'"
    using c Some unfolding commit_watchdog_pause_def
    by (auto elim!: and_then_InrE split: option.split_asm sum.split_asm failure.split_asm prod.split_asm)
  obtain t where t: "t \<in> set (tasks d)" "tk_task_id t = wk_task_id k" "tk_status t = TaskRunning" "src d"
    "ck_task (?f t)" "ts = replace_row t (?f t) (tasks d)"
    by (rule update_checked_one [OF key up, of "wk_task_id k"]) simp_all
  have "runtime_ok ?H (d\<lparr>tasks := ts\<rparr>)"
    unfolding t(6) by (rule runtime_ok_task [OF rt t(1) _ t(5)]) (simp_all add: watchdog_paused_task_def t)
  then have rt1: "runtime_ok ?H d1" by (rule close_dispatches_with_runtime_ok [OF _ cl]) simp_all
  have rt': "runtime_ok ?H d'" by (rule append_runtime_ok [OF rt1 ev])
  obtain ds as where d1: "d1 = d\<lparr>tasks := ts, dispatches := ds, attempts := as\<rparr>"
    and closed: "all_current_task_dispatches_closed (wk_task_id k) d1"
    using close_current_task_dispatches_frame [OF cl] by auto
  obtain es eh where d': "d' = d1\<lparr>events := es, event_heads := eh\<rparr>" using append_task_event_frame [OF ev] by auto
  have "no_current_dispatch (wk_task_id k) d'"
    using closed_no_current_dispatch [OF closed] by (simp add: d' no_current_dispatch_def)
  then have "\<forall>u \<in> set (dispatches d'). dt_task_id u = tk_task_id t \<longrightarrow> \<not> dispatch_is_active u"
    using no_active_dispatch [OF runtime_ok_parts(4) [OF rt']] t(2) by simp
  moreover have "system_ok ?H d'" by (rule system_ok_frame [OF ok rt']) (simp_all add: d' d1)
  moreover have "sources_forward d d'" by (rule sources_forward_same) (simp_all add: d' d1)
  moreover have "tasks d' = ts" "waits d' = waits d" by (simp_all add: d' d1)
  ultimately show ?thesis unfolding Some using t by auto
qed

subsection \<open>Recovery\<close>

text \<open>What the snapshot of a due signal fixes.\<close>

lemma read_watchdog_recovery_snapshot_Inr:
  assumes "read_watchdog_recovery_snapshot prep timeout w now d = Inr (Some (n, inputs))"
  shows "cb_source_dispatch_id (sn_basis (wn_dispatch n)) = wq_dispatch_id w \<and>
    cb_opened_reason (sn_basis (wn_dispatch n)) = OWatchdogRecovery \<and>
    wn_due_at n = calculate_watchdog_due_at (wn_adapter_started_at n) (wn_last_node_activity_at n) timeout"
  using assms
  unfolding read_watchdog_recovery_snapshot_def read_watchdog_recovery_candidate_def
    read_watchdog_runtime_context_def watchdog_context_is_plausible_def
  by (auto simp: bind_eq_Some_conv Let_def watchdog_dispatch_snapshot_def watchdog_basis_def
      split: option.split_asm if_split_asm elim!: and_then_InrE dest!: find_Some_D)

lemma plan_replacement_Inr:
  assumes "plan_watchdog_replacement prep settings observed dispatch w d = Inr (Some (n, q))"
  shows "cb_source_dispatch_id (sn_basis (wn_dispatch n)) = wq_dispatch_id w \<and>
    cb_opened_reason (sn_basis (wn_dispatch n)) = OWatchdogRecovery \<and>
    wn_due_at n = calculate_watchdog_due_at (wn_adapter_started_at n) (wn_last_node_activity_at n)
      (wt_inactivity_timeout settings) \<and>
    (case q of None \<Rightarrow> wt_replacement_limit settings \<le> wn_replacement_count n
     | Some p \<Rightarrow> wn_replacement_count n < wt_replacement_limit settings \<and> pr_dispatch_id p = dispatch)"
  using assms read_watchdog_recovery_snapshot_Inr [of prep "wt_inactivity_timeout settings" w observed d n]
  unfolding plan_watchdog_replacement_def
  by (auto split: option.split_asm prod.split_asm if_split_asm elim!: and_then_InrE)

lemma snapshot_is_current_rows:
  assumes "watchdog_context_is_current n d" and "watchdog_replacement_count_matches n d" and ok: "lanes_ok d"
  shows "\<exists>t \<in> set (dispatches d). dt_dispatch_id t = cb_source_dispatch_id (sn_basis (wn_dispatch n)) \<and>
      dt_status t = Open \<and> dt_task_id t = cb_task_id (sn_basis (wn_dispatch n))"
    and "\<exists>a \<in> set (attempts d). at_current_dispatch_id a = Some (cb_source_dispatch_id (sn_basis (wn_dispatch n))) \<and>
      at_watchdog_replacement_count a = wn_replacement_count n"
proof -
  let ?b = "sn_basis (wn_dispatch n)"
  show "\<exists>t \<in> set (dispatches d). dt_dispatch_id t = cb_source_dispatch_id ?b \<and>
      dt_status t = Open \<and> dt_task_id t = cb_task_id ?b"
    using assms(1) by (auto simp: watchdog_context_is_current_def Let_def list_ex_iff)
  obtain a where a: "a \<in> set (attempts d)" "at_attempt_id a = cb_attempt_id ?b"
    "at_current_dispatch_id a = Some (cb_source_dispatch_id ?b)"
    using assms(1) by (auto simp: watchdog_context_is_current_def Let_def list_ex_iff)
  obtain x where x: "x \<in> set (attempts d)" "at_attempt_id x = cb_attempt_id ?b"
    "at_watchdog_replacement_count x = wn_replacement_count n"
    using assms(2) by (auto simp: watchdog_replacement_count_matches_def Let_def list_ex_iff)
  have "x = a" by (rule keyed_unique [OF lanes_ok_keys(1) [OF ok] x(1) a(1)]) (simp add: x a)
  then show "\<exists>a \<in> set (attempts d). at_current_dispatch_id a = Some (cb_source_dispatch_id ?b) \<and>
      at_watchdog_replacement_count a = wn_replacement_count n" using a x by blast
qed

lemma commit_replacement_False:
  "commit_watchdog_replacement env n p d = Inr (False, d') \<Longrightarrow> d' = d"
  unfolding commit_watchdog_replacement_def
  by (auto split: if_split_asm option.split_asm elim!: and_then_InrE)

lemma paused_outcome_obtain:
  assumes "paused_outcome r = (outcome, d')"
  obtains (rolled_back) "r = (None, d')" "outcome = Skipped"
  | (committed) closed where "r = (Some closed, d')" "outcome = OpeningPaused closed"
  using assms by (auto simp: paused_outcome_def split: prod.split_asm option.split_asm)

text \<open>How a recovery ends.\<close>

lemma recover_cases:
  assumes "recover_stale_dispatch env prep settings observed dispatch w d d1 d2 = Inr (outcome, d')"
  obtains (skipped) "outcome = Skipped" "d' = d2"
  | (failed) code c closed where "outcome = OpeningPaused closed"
      "read_failed_watchdog_candidate (wt_inactivity_timeout settings) w (env_now env) d1 = Some c"
      "commit_watchdog_pause env (fw_pause c) (failed_watchdog_candidate_is_current c w)
         ''runtime_transition_failed'' (Some code) d2 = Inr (Some closed, d')"
  | (exhausted) n closed where "outcome = OpeningPaused closed"
      "plan_watchdog_replacement prep settings observed dispatch w d = Inr (Some (n, None))"
      "commit_watchdog_pause env (snapshot_pause n)
         (\<lambda>d. watchdog_context_is_current n d \<and> watchdog_replacement_count_matches n d)
         ''runtime_recovery_exhausted'' None d2 = Inr (Some closed, d')"
  | (replaced) n p where "outcome = Opened dispatch"
      "plan_watchdog_replacement prep settings observed dispatch w d = Inr (Some (n, Some p))"
      "commit_watchdog_replacement env n p d2 = Inr (True, d')"
proof -
  have paused: thesis if "commit_watchdog_pause env k src reason code d2 = Inr r" "paused_outcome r = (outcome, d')"
      and "\<And>closed. outcome = OpeningPaused closed \<Longrightarrow>
        commit_watchdog_pause env k src reason code d2 = Inr (Some closed, d') \<Longrightarrow> thesis" for k src reason code r
    using that(2)
  proof (cases rule: paused_outcome_obtain)
    case rolled_back
    then show thesis using that(1) by (intro skipped) (auto dest: commit_watchdog_pause_None)
  next
    case (committed closed)
    then show thesis using that(1,3) by blast
  qed
  have failure: thesis if f: "recover_failed_preparation env settings w d1 d2 f = Inr (outcome, d')" for f
  proof -
    obtain code r where r: "pause_failed_watchdog_signal env (wt_inactivity_timeout settings) w code d1 d2 = Inr r"
      "paused_outcome r = (outcome, d')"
      using f unfolding recover_failed_preparation_def by (auto split: option.split_asm elim!: and_then_InrE)
    show thesis
    proof (cases "read_failed_watchdog_candidate (wt_inactivity_timeout settings) w (env_now env) d1")
      case None
      then have "r = (None, d2)" using r(1) by (simp add: pause_failed_watchdog_signal_def)
      then show thesis using r(2) skipped by (simp add: paused_outcome_def)
    next
      case (Some c)
      then have c: "commit_watchdog_pause env (fw_pause c) (failed_watchdog_candidate_is_current c w)
         ''runtime_transition_failed'' (Some code) d2 = Inr r" using r(1) by (simp add: pause_failed_watchdog_signal_def)
      show thesis by (rule paused [OF c r(2)], rule failed [OF _ Some])
    qed
  qed
  show thesis
  proof (cases "plan_watchdog_replacement prep settings observed dispatch w d")
    case (Inl f)
    then show thesis using assms by (intro failure) (simp add: recover_stale_dispatch_def)
  next
    case (Inr x)
    consider "x = None" | n where "x = Some (n, None)" | n p where "x = Some (n, Some p)"
      by (metis option.exhaust surj_pair)
    then show thesis
    proof cases
      case 1
      then show thesis using assms Inr skipped by (simp add: recover_stale_dispatch_def)
    next
      case (2 n)
      show thesis
      proof (cases "pause_watchdog_snapshot env n ''runtime_recovery_exhausted'' None d2")
        case (Inl f)
        then show thesis using assms Inr 2 by (intro failure) (simp add: recover_stale_dispatch_def)
      next
        case c: (Inr r)
        have out: "paused_outcome r = (outcome, d')" using assms Inr 2 c by (simp add: recover_stale_dispatch_def)
        show thesis
          by (rule paused [OF c [unfolded pause_watchdog_snapshot_def] out], rule exhausted [OF _ Inr [unfolded 2]])
      qed
    next
      case (3 n p)
      then obtain b where c: "commit_watchdog_replacement env n p d2 = Inr (b, d')"
        "outcome = (if b then Opened (pr_dispatch_id p) else Skipped)"
        using assms Inr unfolding recover_stale_dispatch_def by (auto elim!: and_then_InrE)
      have "pr_dispatch_id p = dispatch" using plan_replacement_Inr [OF Inr [unfolded 3]] by simp
      then show thesis using c 3 Inr by (cases b) (auto intro: skipped replaced dest: commit_replacement_False)
    qed
  qed
qed

subsection \<open>Properties\<close>

text \<open>
  C36. The watchdog keeps the whole invariant and no spent source is spent again, however much has
  changed between its read and its commit. A Dispatch it opens takes the place of the open
  Dispatch of the signal, whose deadline has come, on a running Attempt that had a replacement
  left, and uses that replacement up; when it pauses, the running Task of that Dispatch keeps no
  live Dispatch, and it says that the recovery is exhausted only if the Attempt has no replacement
  left; otherwise nothing changed.
\<close>

theorem watchdog_recovery_effect:
  assumes ok: "system_ok (env_event_hash env) d2"
    and re: "recover_stale_dispatch env prep settings observed dispatch w d d1 d2 = Inr (outcome, d')"
  shows "system_ok (env_event_hash env) d' \<and> sources_forward d2 d' \<and>
    (case outcome of
       Opened y \<Rightarrow> y = dispatch \<and> dispatch_replaced settings (env_now env) (wq_dispatch_id w) y d2 d'
     | Skipped \<Rightarrow> d' = d2
     | OpeningPaused closed \<Rightarrow> watchdog_paused settings (env_now env) (wq_dispatch_id w) d2 d')"
  using re
proof (cases rule: recover_cases)
  case skipped
  then show ?thesis using ok by simp
next
  case (failed code c closed)
  note e = commit_watchdog_pause_Inr [OF ok failed(3)]
  have "wk_dispatch_id (fw_pause c) = wq_dispatch_id w"
    using failed(2) by (auto simp: read_failed_watchdog_candidate_def select_failed_watchdog_rows_def
        bind_eq_Some_conv Let_def split: if_split_asm dest!: find_Some_D)
  then have "\<exists>t \<in> set (dispatches d2). dt_dispatch_id t = wq_dispatch_id w \<and> dt_status t = Open \<and>
      dt_task_id t = wk_task_id (fw_pause c)"
    using e by (auto simp: failed_watchdog_candidate_is_current_def Let_def list_ex_iff)
  then show ?thesis using e unfolding failed(1) watchdog_paused_def by force
next
  case (exhausted n closed)
  note e = commit_watchdog_pause_Inr [OF ok exhausted(3)]
  note pl = plan_replacement_Inr [OF exhausted(2)]
  have cur: "watchdog_context_is_current n d2" "watchdog_replacement_count_matches n d2" using e by simp_all
  note rows = snapshot_is_current_rows [OF cur runtime_ok_parts(4) [OF system_ok_parts(1) [OF ok]]]
  have "wk_task_id (snapshot_pause n) = cb_task_id (sn_basis (wn_dispatch n))"
    by (simp add: snapshot_pause_def Let_def)
  then show ?thesis using e rows pl unfolding exhausted(1) watchdog_paused_def by force
next
  case (replaced n p)
  note e = commit_replacement_effect [OF ok replaced(3)]
  note pl = plan_replacement_Inr [OF replaced(2)]
  let ?b = "sn_basis (wn_dispatch n)" and ?close = "close_dispatch_row (env_now env) CWatchdogSuperseded"
  obtain t a where t: "t \<in> set (dispatches d2)" "superseded_dispatch n d2 t" and a: "a \<in> set (attempts d2)"
    "attempt_owns_dispatch a t" "at_watchdog_replacement_count a = wn_replacement_count n"
    and ds: "dispatches d' = replace_row t (?close t) (dispatches d2) @
      [build_starting_dispatch_model (successor_basis (wn_dispatch n) None) p]"
    and as: "attempts d' = replace_row a (a\<lparr>at_watchdog_replacement_count := at_watchdog_replacement_count a + 1,
         at_current_dispatch_id := Some (pr_dispatch_id p)\<rparr>) (attempts d2)"
    using e by blast
  have source: "dt_dispatch_id t = wq_dispatch_id w" "dt_status t = Open" "dt_task_id t = cb_task_id ?b"
    "dt_adapter_started_at t = Some (wn_adapter_started_at n)" "dt_attempt_id t = cb_attempt_id ?b"
    "calculate_watchdog_due_at (wn_adapter_started_at n) (dt_last_node_activity_at t)
       (wt_inactivity_timeout settings) \<le> env_now env"
    using t(2) pl e by (simp_all add: superseded_dispatch_def Let_def)
  have task: "\<exists>k \<in> set (tasks d2). tk_task_id k = dt_task_id t \<and> tk_status k = TaskRunning"
    using e source(3) by (auto simp: replaceable_task_def Let_def)
  have attempt: "at_attempt_id a = cb_attempt_id ?b" using a(2) source(5) by (simp add: attempt_owns_dispatch_def)
  have "dispatch_replaced settings (env_now env) (wq_dispatch_id w) dispatch d2 d'"
    unfolding dispatch_replaced_def
    by (intro bexI [OF _ t(1)] bexI [OF _ a(1)] exI [of _ "build_starting_dispatch_model (successor_basis (wn_dispatch n) None) p"]
        exI [of _ "wn_adapter_started_at n"])
      (use source a ds as task attempt pl e in \<open>simp add: build_starting_dispatch_model_def\<close>)
  then show ?thesis using e replaced(1) by simp
qed

end
