(* ===== verification/SteeringProofs.thy ===== *)
theory SteeringProofs
  imports Watchdog TaskResumeProofs
begin

text \<open>
  What steering does: the record of an accepted steer keeps the invariant, its payload reads back,
  and every later prompt that reads the steers of its Assignment holds it. The prompt of a watchdog
  replacement reads none.
\<close>

subsection \<open>Messages\<close>

lemma chars_char_of: "\<forall>c \<in> set cs. c < 256 \<Longrightarrow> chars (map char_of cs) = cs"
  unfolding chars_def by (induction cs) (auto simp: of_char_of take_bit_eq_mod)

lemma unix_lines_small: "\<forall>c \<in> set s. c < 256 \<Longrightarrow> \<forall>c \<in> set (unix_lines s). c < 256"
proof -
  have "set (lines_from b s) \<subseteq> insert 0xA (set s)" for b s
    by (induction b s rule: lines_from.induct) auto
  then show "\<forall>c \<in> set s. c < 256 \<Longrightarrow> \<forall>c \<in> set (unix_lines s). c < 256"
    unfolding unix_lines_def by fastforce
qed

lemma chars_small: "\<forall>c \<in> set (chars s). c < 256"
  by (auto simp: chars_def)

lemma normalize_steer_message_again:
  assumes "normalize_steer_message s = Inr m"
  shows "normalize_steer_message m = Inr m"
proof -
  obtain cs where cs: "normalize_exact_text None True (chars s) = Inr cs" and m: "m = map char_of cs"
    using assms by (auto simp: normalize_steer_message_def and_then_Inr_iff)
  have "cs = unix_lines (chars s)" using cs by (simp add: normalize_exact_text_Inr)
  then have "chars m = cs" unfolding m using unix_lines_small [OF chars_small, of s] by (simp add: chars_char_of)
  then show ?thesis using normalize_exact_text_again [OF cs] by (simp add: normalize_steer_message_def m)
qed

lemma steer_message_field_Inr:
  "steer_message_field s = Inr m \<longleftrightarrow> normalize_steer_message s = Inr m \<and> 1 \<le> length m \<and> length m \<le> 4096"
proof (cases "normalize_steer_message s")
  case (Inr r)
  then show ?thesis by (cases r) (auto simp: steer_message_field_def)
qed (simp add: steer_message_field_def)

lemma steer_message_field_again: "steer_message_field s = Inr m \<Longrightarrow> steer_message_field m = Inr m"
  by (auto simp: steer_message_field_Inr dest: normalize_steer_message_again)

lemma read_dumped_payload:
  assumes "event_identifier lib a = Inr a" "event_identifier lib s = Inr s" "event_identifier lib t = Inr t"
    and "steer_message_field m = Inr m"
  shows "read_steered_payload lib (dump_steered_payload \<lparr>sp_action_id = a, sp_assignment_id = s,
      sp_source_dispatch_id = t, sp_message = m\<rparr>) =
    Inr \<lparr>sp_action_id = a, sp_assignment_id = s, sp_source_dispatch_id = t, sp_message = m\<rparr>"
  using assms by (simp add: read_steered_payload_def dump_steered_payload_def text_field_def validate_steered_payload_def)

subsection \<open>The recorded steer\<close>

lemma map_result_complete:
  "map_result f xs = Inr ys \<Longrightarrow> x \<in> set xs \<Longrightarrow> \<exists>y \<in> set ys. f x = Inr y"
  by (induction xs arbitrary: ys) (auto simp: and_then_Inr_iff)

lemma record_delivered_steer_Inr:
  assumes "record_delivered_steer env lib q rq event actor src d = Inr d'"
  obtains p d1 where "validate_steered_payload lib \<lparr>sp_action_id = sq_action_id rq,
         sp_assignment_id = sx_assignment_id q, sp_source_dispatch_id = sx_dispatch_id q,
         sp_message = sq_message rq\<rparr> = Inr p"
    "append_task_event_as env (Some event) (member_steered_event q p actor src (env_now env)) d = Inr d1"
    "d' = d1\<lparr>tasks := map (\<lambda>t. if tk_task_id t = sx_task_id q then t\<lparr>tk_updated_at := env_now env\<rparr> else t) (tasks d)\<rparr>"
    "\<forall>t \<in> set (tasks d). tk_task_id t = sx_task_id q \<longrightarrow> ck_task (t\<lparr>tk_updated_at := env_now env\<rparr>)"
proof -
  obtain p d1 ts where p: "validate_steered_payload lib \<lparr>sp_action_id = sq_action_id rq,
         sp_assignment_id = sx_assignment_id q, sp_source_dispatch_id = sx_dispatch_id q,
         sp_message = sq_message rq\<rparr> = Inr p"
    and ap: "append_task_event_as env (Some event) (member_steered_event q p actor src (env_now env)) d = Inr d1"
    and ts: "update_all ck_task (\<lambda>t. tk_task_id t = sx_task_id q) (\<lambda>t. t\<lparr>tk_updated_at := env_now env\<rparr>) (tasks d1) = Inr ts"
    and d': "d' = d1\<lparr>tasks := ts\<rparr>"
    using assms unfolding record_delivered_steer_def by (auto simp: and_then_Inr_iff split: if_split_asm)
  have "tasks d1 = tasks d" using append_task_event_as_frame [OF ap] by auto
  then show thesis using ts by (intro that [OF p ap]) (auto simp: d' update_all_Inr_iff)
qed

text \<open>An accepted steer was recorded as an event of its Assignment.\<close>

lemma recorded_steer:
  assumes re: "record_delivered_steer env lib q rq event actor src d = Inr d'"
    and ok: "events_ok (env_event_hash env) d" and act: "is_action_id event"
    and ids: "\<forall>i \<in> {sq_action_id rq, sx_assignment_id q, sx_dispatch_id q}. event_identifier lib i = Inr i"
  obtains e m where "e \<in> set (events d')" "is_steer_of (sx_assignment_id q) (se_event e)"
    "normalize_steer_message (sq_message rq) = Inr m"
    "steer_of_event lib (se_event e) = Inr \<lparr>py_message = m, py_occurred_at = env_now env\<rparr>"
proof -
  obtain p d1 where p: "validate_steered_payload lib \<lparr>sp_action_id = sq_action_id rq,
         sp_assignment_id = sx_assignment_id q, sp_source_dispatch_id = sx_dispatch_id q,
         sp_message = sq_message rq\<rparr> = Inr p"
    and ap: "append_task_event_as env (Some event) (member_steered_event q p actor src (env_now env)) d = Inr d1"
    and ev: "events d' = events d1"
    by (rule record_delivered_steer_Inr [OF re]) simp
  obtain m where m: "steer_message_field (sq_message rq) = Inr m"
    and pm: "p = \<lparr>sp_action_id = sq_action_id rq, sp_assignment_id = sx_assignment_id q,
         sp_source_dispatch_id = sx_dispatch_id q, sp_message = m\<rparr>"
    using p ids by (auto simp: validate_steered_payload_def and_then_Inr_iff)
  let ?draft = "member_steered_event q p actor src (env_now env)"
  let ?e = "appended_event_as env (Some event) ?draft d"
  have "d1 = with_appended_event_as env (Some event) ?draft d"
    using append_task_event_as_events_ok [OF ap ok] act by blast
  then have mem: "?e \<in> set (events d')" by (simp add: ev with_appended_event_as_def)
  have row: "te_event_type (se_event ?e) = MEMBER_STEERED" "te_payload (se_event ?e) = dump_steered_payload p"
    "te_occurred_at (se_event ?e) = env_now env"
    by (simp_all add: appended_event_as_def event_of_draft_def member_steered_event_def Let_def)
  have "read_steered_payload lib (dump_steered_payload p) = Inr p"
    unfolding pm using ids steer_message_field_again [OF m] by (intro read_dumped_payload) simp_all
  moreover have "normalize_steer_message m = Inr m" "normalize_steer_message (sq_message rq) = Inr m"
    using m normalize_steer_message_again by (auto simp: steer_message_field_Inr)
  ultimately show thesis
    by (intro that [OF mem]) (simp_all add: is_steer_of_def steer_of_event_def row, simp_all add: pm dump_steered_payload_def)
qed

text \<open>The identifier of a steer's event, and the event it is found by.\<close>

abbreviation steer_event_id :: "(string \<Rightarrow> string) \<Rightarrow> steer_request \<Rightarrow> ident" where
  "steer_event_id digest rq \<equiv> product_action_id digest [''member-steer-event'', sq_action_id rq]"

lemma product_action_id_is_action [simp]: "is_action_id (product_action_id digest ps)"
  by (simp add: is_action_id_def product_action_id_def)

lemma steer_recorded:
  assumes st: "steer_product_task_member env lib digest adapters task member rq actor src d d' = Inr (SteerDelivered, d1)"
    and new: "\<forall>e \<in> set (events d). te_event_id (se_event e) \<noteq> steer_event_id digest rq"
  obtains q where "read_member_steer_source task member d = Inr (Some q)" "steer_action digest q = sq_action_id rq"
    "record_delivered_steer env lib q rq (steer_event_id digest rq) actor src d' = Inr d1"
proof -
  have "find (\<lambda>e. te_event_id e = steer_event_id digest rq) (map se_event (events d)) = None"
    using new by (auto simp: find_None_iff)
  then show thesis using st that unfolding steer_product_task_member_def Let_def
    by (auto split: option.split_asm if_split_asm steer_outcome.split_asm elim!: and_then_InrE)
qed

subsection \<open>Properties\<close>

text \<open>
  C37. An accepted steer is in the prompt of every later Dispatch of its Assignment that is opened by
  a continuation: whatever the state has become since, a prompt that is read for the Assignment
  holds the normalised message with the time of its acceptance. The prompt of a watchdog
  replacement holds no steer at all.
\<close>

theorem accepted_steer_reaches_prompts:
  assumes "events_ok (env_event_hash env) d'"
    and "steer_product_task_member env lib digest adapters task member rq actor src d d' = Inr (SteerDelivered, d1)"
    and "\<forall>e \<in> set (events d). te_event_id (se_event e) \<noteq> steer_event_id digest rq"
    and "read_member_steer_source task member d = Inr (Some q)"
    and "\<forall>i \<in> {sq_action_id rq, sx_assignment_id q, sx_dispatch_id q}. event_identifier lib i = Inr i"
    and "set (events d1) \<subseteq> set (events x)"
  shows "\<exists>m. normalize_steer_message (sq_message rq) = Inr m \<and>
    (\<forall>b status control dispatch p. read_ordinary_prompt lib b status control dispatch x = Inr (Some p) \<and>
       pm_assignment_id p = sx_assignment_id q \<longrightarrow>
       \<lparr>py_message = m, py_occurred_at = env_now env\<rparr> \<in> set (pm_steering p)) \<and>
    (\<forall>c count dispatch p. watchdog_prompt c count dispatch x = Inr p \<longrightarrow> pm_steering p = [])"
proof -
  have re: "record_delivered_steer env lib q rq (steer_event_id digest rq) actor src d' = Inr d1"
    by (rule steer_recorded [OF assms(2,3)]) (use assms(4) in simp)
  obtain e m where e: "e \<in> set (events d1)" "is_steer_of (sx_assignment_id q) (se_event e)"
    and m: "normalize_steer_message (sq_message rq) = Inr m"
      "steer_of_event lib (se_event e) = Inr \<lparr>py_message = m, py_occurred_at = env_now env\<rparr>"
    by (rule recorded_steer [OF re assms(1) _ assms(5)]) simp
  have "\<lparr>py_message = m, py_occurred_at = env_now env\<rparr> \<in> set (pm_steering p)"
    if p: "read_ordinary_prompt lib b status control dispatch x = Inr (Some p)" "pm_assignment_id p = sx_assignment_id q"
    for b status control dispatch p
  proof -
    obtain c plan steers where st: "read_assignment_prompt_steers lib (as_assignment_id (oc_assignment c)) x = Inr steers"
      and eq: "p = build_ordinary_prompt_snapshot c b dispatch plan
        (read_assignment_file_references (as_assignment_id (oc_assignment c)) x) steers"
      using p(1) unfolding read_ordinary_prompt_def
      by (auto split: option.split_asm simp: Let_def elim!: and_then_InrE)
    have "as_assignment_id (oc_assignment c) = sx_assignment_id q"
      using p(2) by (simp add: eq build_ordinary_prompt_snapshot_def)
    then have "se_event e \<in> set (sort_key te_event_seq
        (filter (is_steer_of (as_assignment_id (oc_assignment c))) (map se_event (events x))))"
      using e assms(6) by auto
    from map_result_complete [OF st [unfolded read_assignment_prompt_steers_def] this] m(2)
    show ?thesis by (auto simp: eq build_ordinary_prompt_snapshot_def)
  qed
  moreover have "pm_steering p = []" if "watchdog_prompt c count dispatch x = Inr p" for c count dispatch p
    using that by (auto simp: watchdog_prompt_def build_ordinary_prompt_snapshot_def Let_def elim!: and_then_InrE)
  ultimately show ?thesis using m(1) by blast
qed

end
