(* ===== verification/Histories.thy ===== *)
theory Histories
  imports ProviderStartProofs SteeringProofs DelegationProofs WorkPlanProofs
begin

text \<open>
  The operations together: what each committed transaction of the controller does to the invariant
  of the whole state and to the sources that were spent, and what follows for every history of
  them.
\<close>

subsection \<open>Rows that keep their successor\<close>

definition rows_kept :: "('r \<Rightarrow> ident) \<Rightarrow> ('r \<Rightarrow> ident option) \<Rightarrow> 'r list \<Rightarrow> 'r list \<Rightarrow> bool" where
  "rows_kept key succ rs rs' \<longleftrightarrow> (\<forall>r \<in> set rs. \<exists>r' \<in> set rs'. key r' = key r \<and> succ r' = succ r)"

lemma rows_kept_refl [simp]: "rows_kept key succ rs rs"
  by (auto simp: rows_kept_def)

lemma rows_kept_trans: "rows_kept key succ rs rs' \<Longrightarrow> rows_kept key succ rs' rs'' \<Longrightarrow> rows_kept key succ rs rs''"
  unfolding rows_kept_def by metis

lemma rows_kept_subset: "set rs \<subseteq> set rs' \<Longrightarrow> rows_kept key succ rs rs'"
  by (auto simp: rows_kept_def)

lemma rows_kept_append [simp]: "rows_kept key succ rs (rs @ rs')"
  by (rule rows_kept_subset) simp

lemma rows_kept_map:
  assumes "\<And>r. p r \<Longrightarrow> key (f r) = key r \<and> succ (f r) = succ r"
  shows "rows_kept key succ rs (map (\<lambda>r. if p r then f r else r) rs)"
  unfolding rows_kept_def
proof
  fix r assume "r \<in> set rs"
  then show "\<exists>r' \<in> set (map (\<lambda>r. if p r then f r else r) rs). key r' = key r \<and> succ r' = succ r"
    using assms by (intro bexI [of _ "if p r then f r else r"]) auto
qed

lemma rows_kept_replace:
  "key r' = key r \<Longrightarrow> succ r' = succ r \<Longrightarrow> rows_kept key succ rs (replace_row r r' rs)"
  unfolding replace_row_def by (rule rows_kept_map) auto

lemma rows_kept_update_where:
  assumes "update_where p f rs = Some rs'" and "\<And>r. p r \<Longrightarrow> key (f r) = key r \<and> succ (f r) = succ r"
  shows "rows_kept key succ rs rs'"
  using assms(1) rows_kept_map [of p key f succ rs, OF assms(2)] by (auto simp: update_where_Some_iff)

lemma sources_forward_rows:
  assumes h: "rows_kept hr_request_id hr_successor_dispatch_id (human_requests d) (human_requests d')"
    and c: "rows_kept cr_run_id cr_successor_dispatch_id (command_runs d) (command_runs d')"
    and w: "rows_kept dw_delegation_wave_id dw_successor_dispatch_id (waves d) (waves d')"
    and r: "rows_kept rt_replan_transition_id rt_successor_dispatch_id (replan_transitions d) (replan_transitions d')"
    and s: "rows_kept ts_task_id ts_successor_dispatch_id (task_starts d) (task_starts d')"
  shows "sources_forward d d'"
proof (rule sources_forwardI)
  fix k y
  show "source_spent (HumanSource k) y d \<Longrightarrow> source_spent (HumanSource k) y d'"
    using h unfolding rows_kept_def source_spent.simps by metis
  show "source_spent (CommandSource k) y d \<Longrightarrow> source_spent (CommandSource k) y d'"
    using c unfolding rows_kept_def source_spent.simps by metis
  show "source_spent (WaveSource k) y d \<Longrightarrow> source_spent (WaveSource k) y d'"
    using w unfolding rows_kept_def source_spent.simps by metis
  show "source_spent (ReplanSource k) y d \<Longrightarrow> source_spent (ReplanSource k) y d'"
    using r unfolding rows_kept_def source_spent.simps by metis
  show "source_spent (StartSource k) y d \<Longrightarrow> source_spent (StartSource k) y d'"
    using s unfolding rows_kept_def source_spent.simps by metis
qed

text \<open>What a transaction does to the whole state.\<close>

definition keeps_system :: "(event_row \<Rightarrow> string) \<Rightarrow> db \<Rightarrow> db \<Rightarrow> bool" where
  "keeps_system H d d' \<longleftrightarrow> system_ok H d' \<and> sources_forward d d'"

text \<open>Every row of a source is still there with its successor.\<close>

definition sources_kept :: "db \<Rightarrow> db \<Rightarrow> bool" where
  "sources_kept d d' \<longleftrightarrow>
     replan_transitions d' = replan_transitions d \<and> task_starts d' = task_starts d \<and>
     rows_kept hr_request_id hr_successor_dispatch_id (human_requests d) (human_requests d') \<and>
     rows_kept cr_run_id cr_successor_dispatch_id (command_runs d) (command_runs d') \<and>
     rows_kept dw_delegation_wave_id dw_successor_dispatch_id (waves d) (waves d')"

lemma sources_kept_refl [simp]: "sources_kept d d"
  by (simp add: sources_kept_def)

lemma sources_kept_trans: "sources_kept d d' \<Longrightarrow> sources_kept d' d'' \<Longrightarrow> sources_kept d d''"
  unfolding sources_kept_def by (metis rows_kept_trans)

lemma sources_kept_append: "append_task_event env e d = Inr d' \<Longrightarrow> sources_kept d d'"
  by (auto simp: sources_kept_def dest!: append_task_event_frame)

lemma keeps_systemI:
  assumes "system_ok H d" and "runtime_ok H d'" and k: "sources_kept d d'"
  shows "keeps_system H d d'"
  unfolding keeps_system_def
  by (intro conjI system_ok_frame [OF assms(1,2)] sources_forward_rows)
    (use k in \<open>simp_all add: sources_kept_def\<close>)

lemma keeps_system_refl: "system_ok H d \<Longrightarrow> keeps_system H d d"
  by (simp add: keeps_system_def)

lemma keeps_system_trans: "keeps_system H d d' \<Longrightarrow> keeps_system H d' d'' \<Longrightarrow> keeps_system H d d''"
  by (auto simp: keeps_system_def intro: sources_forward_trans)

lemma append_keeps:
  assumes "system_ok (env_event_hash env) d" and "append_task_event env e d = Inr d'"
  shows "keeps_system (env_event_hash env) d d'"
  by (rule keeps_systemI [OF assms(1) append_runtime_ok [OF system_ok_parts(1) [OF assms(1)] assms(2)]])
    (rule sources_kept_append [OF assms(2)])

subsection \<open>Operations on the work of a Member\<close>

text \<open>
  Checkpoints, delegations and the join of a Wave do not touch the other sources: they keep the
  waits on them and the Tasks that are cancelled.
\<close>

definition quiet :: "db \<Rightarrow> db \<Rightarrow> bool" where
  "quiet d d' \<longleftrightarrow>
     human_requests d' = human_requests d \<and> command_runs d' = command_runs d \<and>
     replan_transitions d' = replan_transitions d \<and> task_starts d' = task_starts d \<and>
     rows_kept dw_delegation_wave_id dw_successor_dispatch_id (waves d) (waves d') \<and>
     (\<forall>w. aw_human_request_id w \<noteq> None \<or> aw_command_run_id w \<noteq> None \<longrightarrow>
        (w \<in> set (waits d') \<longleftrightarrow> w \<in> set (waits d))) \<and>
     (\<forall>t. task_is_cancelled t d \<longrightarrow> task_is_cancelled t d')"

lemma quiet_same:
  "human_requests d' = human_requests d \<Longrightarrow> command_runs d' = command_runs d \<Longrightarrow>
     replan_transitions d' = replan_transitions d \<Longrightarrow> task_starts d' = task_starts d \<Longrightarrow>
     waves d' = waves d \<Longrightarrow> waits d' = waits d \<Longrightarrow> tasks d' = tasks d \<Longrightarrow> quiet d d'"
  by (simp add: quiet_def task_is_cancelled_def)

lemma quiet_refl [simp]: "quiet d d"
  by (rule quiet_same) simp_all

lemma quiet_trans: "quiet d d' \<Longrightarrow> quiet d' d'' \<Longrightarrow> quiet d d''"
  unfolding quiet_def by (metis rows_kept_trans)

lemma quiet_keeps:
  assumes ok: "system_ok H d" and c: "controller_ok H d'" and q: "quiet d d'"
  shows "keeps_system H d d'"
proof -
  note rt = system_ok_parts(1) [OF ok]
  have "humans_ok d'"
    by (rule humans_ok_frame [OF _ _ runtime_ok_parts(2) [OF rt]]) (use q in \<open>simp_all add: quiet_def\<close>)
  moreover have "commands_ok d'"
    by (rule commands_ok_frame [OF _ _ runtime_ok_parts(3) [OF rt]]) (use q in \<open>simp_all add: quiet_def\<close>)
  ultimately have "runtime_ok H d'" using c by (simp add: runtime_ok_def)
  then show ?thesis by (rule keeps_systemI [OF ok]) (use q in \<open>simp_all add: quiet_def sources_kept_def\<close>)
qed

lemma quiet_append: "append_task_event env e d = Inr d' \<Longrightarrow> quiet d d'"
  by (auto intro: quiet_same dest!: append_task_event_frame)

lemma quiet_stage: "stage_starting_dispatch env b p d = Inr d' \<Longrightarrow> quiet d d'"
  by (rule quiet_same) (simp_all add: stage_starting_dispatch_frame)

lemma quiet_complete_root_task:
  assumes "complete_root_task au outc boundary now d = Inr d'"
  shows "quiet d d'"
proof -
  obtain p f ts where up: "update_where p f (tasks d) = Some ts" and d': "d' = d\<lparr>tasks := ts\<rparr>"
    and p: "\<And>t. p t \<Longrightarrow> tk_status t = TaskRunning"
    using assms unfolding complete_root_task_def by (auto simp: result_simps)
  have ts: "ts = map (\<lambda>t. if p t then f t else t) (tasks d)" using up by (auto simp: update_where_Some_iff)
  have "task_is_cancelled x d'" if x: "task_is_cancelled x d" for x
  proof -
    obtain t where t: "t \<in> set (tasks d)" "tk_task_id t = x" "tk_status t = TaskCancelled"
      using x by (auto simp: task_is_cancelled_def)
    then have "\<not> p t" using p by auto
    then have "t \<in> set ts" using t(1) by (force simp: ts)
    then show ?thesis using t by (auto simp: task_is_cancelled_def d')
  qed
  then show ?thesis by (simp add: quiet_def d')
qed

lemma quiet_advance_terminal:
  assumes "advance_terminal_checkpoint_state au outc boundary now retry d = Inr d'"
  shows "quiet d d'"
proof -
  obtain d1 source where c: "complete_source_attempt au outc now d = Inr d1" and
    alt: "outc = Retry \<and> (\<exists>attempt. retry = Some attempt \<and>
        start_semantic_retry au source attempt now d1 = Inr d') \<or>
     outc \<noteq> Retry \<and> retry = None \<and> (\<exists>d2. complete_source_assignment au outc now d1 = Inr d2 \<and>
        (as_parent_assignment_id source \<noteq> None \<and> d' = d2 \<or>
         as_parent_assignment_id source = None \<and> na_is_task_lead au \<and>
           complete_root_task au outc boundary now d2 = Inr d'))"
    by (rule advance_terminal_cases [OF assms])
  have "quiet d d1" using complete_source_attempt_frame [OF c] by (auto intro: quiet_same)
  moreover have "quiet d1 d'"
    using alt
  proof (elim disjE conjE exE)
    fix attempt assume "start_semantic_retry au source attempt now d1 = Inr d'"
    then show ?thesis unfolding start_semantic_retry_def
      by (auto split: if_split_asm simp: result_simps intro: quiet_same)
  next
    fix d2 assume "complete_source_assignment au outc now d1 = Inr d2" "d' = d2"
    then show ?thesis using complete_source_assignment_frame by (fastforce intro: quiet_same)
  next
    fix d2 assume a: "complete_source_assignment au outc now d1 = Inr d2"
      and r: "complete_root_task au outc boundary now d2 = Inr d'"
    have "quiet d1 d2" using complete_source_assignment_frame [OF a] by (auto intro: quiet_same)
    then show ?thesis using quiet_complete_root_task [OF r] by (rule quiet_trans)
  qed
  ultimately show ?thesis by (rule quiet_trans)
qed

lemma quiet_terminal_boundary:
  assumes "stage_terminal_boundary env au c boundary outc now prepared d = Inr (settled, d')"
  shows "quiet d d'"
proof (rule stage_terminal_boundary_cases [OF assms])
  fix d1 bs d2 d3 d4 t
  assume "close_source_dispatch (authority_identity au) (na_team_revision_id au) now CBoundary d = Inr d1"
  then have q1: "quiet d d1" by (auto intro: quiet_same dest!: close_source_frame)
  have q1': "quiet d1 (d1\<lparr>boundaries := bs\<rparr>)" by (rule quiet_same) simp_all
  assume "advance_terminal_checkpoint_state au outc boundary now
       (map_option (\<lambda>(b, p). sb_attempt_id b) prepared) (d1\<lparr>boundaries := bs\<rparr>) = Inr d2"
  then have q2: "quiet (d1\<lparr>boundaries := bs\<rparr>) d2" by (rule quiet_advance_terminal)
  assume "if outc \<noteq> Retry \<and> as_parent_assignment_id (na_assignment au) \<noteq> None
     then \<exists>w. settled = Some w \<and> settle_wave_member_for_checkpoint au boundary outc now d2 = Inr (w, d3)
     else settled = None \<and> d3 = d2"
  then have q3: "quiet d2 d3"
    by (auto simp: settle_wave_member_for_checkpoint_def result_simps split: if_split_asm intro: quiet_same)
  assume "case prepared of None \<Rightarrow> d4 = d3 | Some (b, p) \<Rightarrow> stage_starting_dispatch env b p d3 = Inr d4"
  then have q4: "quiet d3 d4" by (auto split: option.split_asm intro: quiet_stage)
  assume "append_task_event env (boundary_accepted_event au c outc (tk_status t) now) d4 = Inr d'"
  then have "quiet d4 d'" by (rule quiet_append)
  then show ?thesis using q1 q1' q2 q3 q4 by (meson quiet_trans)
qed

lemma checkpoint_keeps:
  assumes ok: "system_ok (env_event_hash env) d" and c: "commit_checkpoint env probe deps fx au rq d = Inr (r, d')"
  shows "keeps_system (env_event_hash env) d d'"
proof -
  have "controller_ok (env_event_hash env) d'"
    by (rule commit_checkpoint_controller_ok [OF runtime_ok_parts(1) [OF system_ok_parts(1) [OF ok]] c])
  moreover have "quiet d d'"
  proof (rule commit_checkpoint_cases [OF c])
    fix prepared cs d1 d2 d3 settled
    assume f: "stage_file_references (checkpoint_id_of au fx) (cq_files rq) (d\<lparr>checkpoints := cs\<rparr>) = Inr d1"
      and l: "advance_latest_checkpoint au (checkpoint_id_of au fx) (at_latest_checkpoint_id (na_attempt au)) d1 = Inr d2"
      and e: "append_task_event env
        (checkpoint_event au (checkpoint_id_of au fx) rq (cq_files rq) (env_now env)) d2 = Inr d3"
      and b: "case cq_outcome rq of None \<Rightarrow> settled = None \<and> d' = d3
       | Some outc \<Rightarrow> stage_terminal_boundary env au (checkpoint_id_of au fx) (boundary_id_of au) outc
           (env_now env) prepared d3 = Inr (settled, d')"
    have "quiet d d3"
      using stage_file_references_frame [OF f] advance_latest_frame [OF l] append_task_event_frame [OF e]
      by (auto intro: quiet_same)
    moreover have "quiet d3 d'" using b by (auto split: option.split_asm intro: quiet_terminal_boundary)
    ultimately show ?thesis by (rule quiet_trans)
  qed
  ultimately show ?thesis by (rule quiet_keeps [OF ok])
qed

text \<open>The fan-out: a new Wave, its children's Dispatches and the wait of the parent.\<close>

lemma quiet_fold:
  assumes "fold_result f xs d = Inr d'" and "\<And>x s s'. f x s = Inr s' \<Longrightarrow> quiet s s'"
  shows "quiet d d'"
  using assms(1) by (rule fold_result_invariant [where P = "quiet d"])
    (auto intro: quiet_trans assms(2))

lemma quiet_select_parent_wait:
  assumes "select_parent_wait au wave wait now d = Inr d'"
  shows "quiet d d'"
proof -
  obtain ws where ins: "insert_wait (new_wait_row au wave wait now) (waits d) = Inr ws"
    and sus: "suspend_current_attempt_on_wait (authority_identity au) wait
            (na_team_revision_id au) now CDelegation (d\<lparr>waits := ws\<rparr>) = Some d'"
    using assms unfolding select_parent_wait_def by (auto simp: result_simps)
  obtain ds as where "d' = d\<lparr>waits := ws, dispatches := ds, attempts := as\<rparr>"
    by (rule suspend_current_attempt_on_wait_frame [OF sus]) simp
  then show ?thesis using insert_wait_Inr [OF ins]
    by (auto simp: quiet_def new_wait_row_def task_is_cancelled_def)
qed

lemma delegation_keeps:
  assumes ok: "system_ok (env_event_hash env) d"
    and c: "commit_delegation_wave env probe deps fx au rq d = Inr (r, d')"
  shows "keeps_system (env_event_hash env) d d'"
proof (rule quiet_keeps [OF ok])
  show "controller_ok (env_event_hash env) d'"
    by (rule commit_delegation_wave_controller_ok [OF runtime_ok_parts(1) [OF system_ok_parts(1) [OF ok]] c])
  show "quiet d d'"
  proof (rule commit_delegation_wave_cases [OF c])
    fix ms
    assume "stage_delegation_wave env au (delegation_wave_id_of fx) (attempt_wait_id_of fx) ms (dd_now deps) d = Inr d'"
    then show ?thesis
    proof (rule stage_delegation_wave_cases)
      fix fs d2 d3
      let ?d1 = "d\<lparr>waves := waves d @ [new_wave_row au (delegation_wave_id_of fx) (dd_now deps)],
        assignments := assignments d @ map pw_assignment ms, attempts := attempts d @ map pw_attempt ms,
        wave_members := wave_members d @
          map (\<lambda>(i, m). new_wave_member_row au (delegation_wave_id_of fx) i m) (List.enumerate 0 ms),
        assignment_files := fs\<rparr>"
      assume b: "consume_assignment_budget au (length ms) ?d1 = Inr d2"
        and s: "fold_result (stage_child_dispatch env au) ms d2 = Inr d3"
        and w: "select_parent_wait au (delegation_wave_id_of fx) (attempt_wait_id_of fx) (dd_now deps) d3 = Inr d'"
      have "quiet d ?d1" by (simp add: quiet_def task_is_cancelled_def)
      moreover have "quiet ?d1 d2"
        using b by (auto simp: consume_assignment_budget_def result_simps intro: quiet_same)
      moreover have "quiet d2 d3"
        by (rule quiet_fold [OF s]) (simp add: stage_child_dispatch_Inr quiet_stage)
      ultimately show ?thesis using quiet_select_parent_wait [OF w] by (meson quiet_trans)
    qed
  qed
qed

text \<open>The join of a Wave removes the wait on it.\<close>

lemma settle_wave_keeps:
  assumes ok: "system_ok H d" and st: "settle_delegation_wave wave now d = Inr (r, d')"
  shows "keeps_system H d d'"
proof (cases r)
  case False
  then have "d' = d" using st by (auto simp: settle_delegation_wave_def split: option.split_asm)
  then show ?thesis using ok by (simp add: keeps_system_def)
next
  case True
  have won: "settle_delegation_wave wave now d = Inr (True, d')" using st True by simp
  note cok = runtime_ok_parts(1) [OF system_ok_parts(1) [OF ok]]
  note W = controller_ok_parts(2) [OF cok]
  obtain w x d1 where w: "read_open_wave wave d = Some w" and x: "read_parent_wave_wait w d = Some x"
    and cl: "claim_complete_wave w now d = Some d1" and wt: "clear_parent_wave_wait w x d1 = Some d'"
    by (rule settle_delegation_wave_True [OF won])
  obtain y where d1: "d1 = d\<lparr>waves := replace_row y (y\<lparr>dw_status := WaveSettled, dw_settled_at := Some now\<rparr>) (waves d)\<rparr>"
    by (rule claim_complete_wave_Some [OF W cl]) blast
  obtain as wss where fr: "d' = d1\<lparr>attempts := as, waits := wss\<rparr>"
    using clear_parent_wave_wait_frame [OF wt] by blast
  have same: "human_requests d' = human_requests d" "command_runs d' = command_runs d"
    "replan_transitions d' = replan_transitions d" "task_starts d' = task_starts d" "tasks d' = tasks d"
    "assignments d' = assignments d" "events d' = events d" "event_heads d' = event_heads d"
    "rows_kept dw_delegation_wave_id dw_successor_dispatch_id (waves d) (waves d')"
    by (simp_all add: fr d1 rows_kept_replace)
  have ws: "v \<in> set (waits d') \<longleftrightarrow> v \<in> set (waits d)"
    if v: "aw_human_request_id v \<noteq> None \<or> aw_command_run_id v \<noteq> None" for v
  proof -
    obtain d2 ws where c: "clear_current_attempt_wait
         \<lparr>wi_task_id = aw_task_id x, wi_assignment_id = aw_assignment_id x,
          wi_attempt_id = aw_attempt_id x, wi_wait_id = aw_wait_id x\<rparr> d1 = Some d2"
      and del: "delete_where (\<lambda>r. aw_wait_id r = aw_wait_id x \<and> aw_task_id r = aw_task_id x \<and>
            aw_assignment_id r = aw_assignment_id x \<and> aw_attempt_id r = aw_attempt_id x \<and>
            aw_source_dispatch_id r = aw_source_dispatch_id x \<and>
            aw_delegation_wave_id r = Some (dw_delegation_wave_id w)) (waits d2) = Some ws"
      and d': "d' = d2\<lparr>waits := ws\<rparr>"
      by (rule clear_parent_wave_wait_Some [OF wt])
    have "waits d2 = waits d" using c by (auto simp: clear_current_attempt_wait_def map_option_eq_Some d1)
    moreover have "aw_delegation_wave_id v = None" if "v \<in> set (waits d)"
      using that v controller_ok_waits [OF cok] by (auto simp: ck_wait_def)
    ultimately show ?thesis using del d' by (auto simp: delete_where_def split: if_split_asm)
  qed
  have "lanes_ok d'" by (rule settle_delegation_wave_lanes_ok [OF controller_ok_parts(1) [OF cok] W st])
  moreover have "waves_ok d'" by (rule settle_delegation_wave_waves_ok [OF W st])
  ultimately have "controller_ok H d'"
    by (intro controller_ok_waves [OF cok]) (simp_all add: same)
  moreover have "quiet d d'" using ws by (simp add: quiet_def same task_is_cancelled_def)
  ultimately show ?thesis by (rule quiet_keeps [OF ok])
qed

subsection \<open>Human Requests and Command Runs\<close>

lemma open_human_request_keeps:
  assumes ok: "system_ok (env_event_hash env) d" and op: "open_human_request env probe fx au rq d = Inr (r, d')"
  shows "keeps_system (env_event_hash env) d d'"
proof (rule keeps_systemI [OF ok open_human_request_runtime_ok [OF system_ok_parts(1) [OF ok] op]])
  show "sources_kept d d'"
  proof (rule open_human_request_steps [OF op])
    fix hs fs ws d2
    assume hs: "insert_human_request (new_human_request_row au r rq (env_now env)) (human_requests d) = Inr hs"
      and sus: "suspend_current_attempt_on_wait (authority_identity au) (human_wait_id_of fx)
         (na_team_revision_id au) (env_now env) CHumanRequestWait
         (d\<lparr>human_requests := hs, human_request_files := fs, waits := ws\<rparr>) = Some d2"
      and ap: "append_task_event env (human_request_opened_event au r rq (env_now env)) d2 = Inr d'"
    obtain ds as where d2: "d2 = d\<lparr>human_requests := hs, human_request_files := fs, waits := ws,
      dispatches := ds, attempts := as\<rparr>" by (rule suspend_current_attempt_on_wait_frame [OF sus])
    have "sources_kept d d2" using insert_human_request_Inr [OF hs] by (simp add: sources_kept_def d2)
    then show ?thesis using sources_kept_append [OF ap] by (rule sources_kept_trans)
  qed
qed

lemma persist_resolution_keeps:
  assumes ok: "system_ok (env_event_hash env) d" and src: "h \<in> set (human_requests d)"
    and p: "persist_human_request_resolution env h r due d = Inr (won, d')"
  shows "keeps_system (env_event_hash env) d d'"
proof (cases won)
  case False
  then have "d' = d" using p unfolding persist_human_request_resolution_def
    by (auto split: if_split_asm option.split_asm elim!: and_then_InrE)
  then show ?thesis using keeps_system_refl [OF ok] by simp
next
  case True
  note rt = system_ok_parts(1) [OF ok]
  have w: "persist_human_request_resolution env h r due d = Inr (True, d')" using p True by simp
  let ?d1 = "d\<lparr>human_requests := replace_row h (apply_resolution r h) (human_requests d)\<rparr>"
  obtain d1 where c: "consume_exact_human_wait h ?d1 = Some d1"
    and e: "append_task_event env (human_terminal_event h r) d1 = Inr d'"
    by (rule persist_resolution_won [OF source_keys(1) [OF ok] src w])
  have "lanes_ok ?d1" using runtime_ok_parts(1) [OF rt] by (intro controller_ok_parts(1)) simp
  then obtain w as where d1: "d1 = ?d1\<lparr>waits := filter (\<lambda>v. v \<noteq> w) (waits ?d1), attempts := as\<rparr>"
    by (rule consume_exact_human_wait_Some [OF _ c])
  have "sources_kept d d1" by (simp add: sources_kept_def d1 rows_kept_replace)
  then have "sources_kept d d'" using sources_kept_append [OF e] by (rule sources_kept_trans)
  then show ?thesis by (rule keeps_systemI [OF ok persist_resolution_runtime_ok [OF rt src w]])
qed

lemma resolve_human_request_keeps:
  assumes ok: "system_ok (env_event_hash env) d"
    and p: "resolve_human_request env lib task q responses actor surface d = Inr (x, d')"
  shows "keeps_system (env_event_hash env) d d'"
  using p unfolding resolve_human_request_def human_request_for_task_def
  by (auto split: if_split_asm option.split_asm elim!: and_then_InrE simp: result_simps
      intro: persist_resolution_keeps [OF ok] dest!: find_Some_D)

lemma expire_human_request_keeps:
  assumes ok: "system_ok (env_event_hash env) d" and p: "expire_human_request env q signal now d = Inr (x, d')"
  shows "keeps_system (env_event_hash env) d d'"
  using ok p unfolding expire_human_request_def read_human_request_def
  by (auto split: if_split_asm option.split_asm elim!: and_then_InrE simp: result_simps
      intro: persist_resolution_keeps keeps_system_refl dest!: find_Some_D)

text \<open>The operations on Command Runs touch neither the requests nor the Waves.\<close>

lemma command_operation_frame:
  assumes ok: "runtime_ok (env_event_hash env) d" and op: "run_command_operation env p d = Inr d'"
  shows "human_requests d' = human_requests d \<and> waves d' = waves d \<and>
    replan_transitions d' = replan_transitions d \<and> task_starts d' = task_starts d \<and>
    (dispatches d' = dispatches d \<or> (\<exists>i w tr now reason s u. suspend_current_attempt_on_wait i w tr now reason s = Some u \<and>
       dispatches s = dispatches d \<and> dispatches d' = dispatches u))"
proof -
  note C = runtime_ok_parts(3) [OF ok]
  have ap: "human_requests v = human_requests u \<and> waves v = waves u \<and>
      replan_transitions v = replan_transitions u \<and> task_starts v = task_starts u \<and> dispatches v = dispatches u"
    if "append_task_event env e u = Inr v" for e u v
    using append_task_event_frame [OF that] by auto
  show ?thesis
  proof (cases p)
    case (StartRun lexists fx au rq)
    obtain run path where "start_command_run env lexists fx au rq d = Inr ((run, path), d')"
      using op StartRun by (auto simp: and_then_Inr_iff)
    then show ?thesis
    proof (rule start_command_run_steps)
      fix rs ws d1 cwd
      assume sus: "suspend_current_attempt_on_wait (authority_identity au) (''attempt-wait.'' @ cx_wait_hex fx)
         (na_team_revision_id au) (env_now env) CCommandRunWait (d\<lparr>command_runs := rs, waits := ws\<rparr>) = Some d1"
        and e: "append_task_event env (command_run_opened_event au run rq cwd path (env_now env)) d1 = Inr d'"
      have "\<exists>i w tr now reason s u. suspend_current_attempt_on_wait i w tr now reason s = Some u \<and>
          dispatches s = dispatches d \<and> dispatches d' = dispatches u"
        by (intro exI conjI, rule sus) (use ap [OF e] in simp_all)
      moreover obtain ds as where "d1 = d\<lparr>command_runs := rs, waits := ws, dispatches := ds, attempts := as\<rparr>"
        using suspend_current_attempt_on_wait_frame [OF sus] by metis
      ultimately show ?thesis using ap [OF e] by simp
    qed
  next
    case (ClaimLaunch run owner t)
    then obtain x where cl: "claim_command_run_launch run owner t d = Inr (x, d')"
      using op by (auto simp: and_then_Inr_iff)
    show ?thesis
    proof (cases x)
      case None
      then have "d' = d" using none_unchanged(1) cl by blast
      then show ?thesis by simp
    next
      case (Some c)
      show ?thesis by (rule claim_command_run_launch_Some [OF C cl [unfolded Some]]) simp
    qed
  next
    case (MarkRunning c owner pid t due)
    then obtain x where mk: "mark_command_run_running env c owner pid t due d = Inr (x, d')"
      using op by (auto simp: and_then_Inr_iff)
    show ?thesis
    proof (cases x)
      case None
      then have "d' = d" using none_unchanged(2) mk by blast
      then show ?thesis by simp
    next
      case (Some y)
      show ?thesis by (rule mark_command_run_running_Some [OF C mk [unfolded Some]]) (drule ap, simp)
    qed
  next
    case (RequestCancel task run actor src again cancelled)
    then obtain s b where rq: "request_command_run_cancellation env task run actor src again cancelled d = Inr ((s, b), d')"
      using op by (auto simp: and_then_Inr_iff)
    show ?thesis
    proof (cases b)
      case True
      then have "request_command_run_cancellation env task run actor src again cancelled d = Inr ((s, True), d')"
        using rq by simp
      then show ?thesis by (rule request_cancellation_Some [OF C]) (drule ap, simp)
    next
      case False
      then have "d' = d" using none_unchanged(3) rq by auto
      then show ?thesis by simp
    qed
  next
    case (Terminalize task run revision expected q)
    then obtain won where tm: "terminalize_command_run env task run revision expected q d = Inr (won, d')"
      using op by (auto simp: and_then_Inr_iff)
    show ?thesis
    proof (cases won)
      case False
      then have "d' = d" using none_unchanged(4) tm by auto
      then show ?thesis by simp
    next
      case True
      then have "terminalize_command_run env task run revision expected q d = Inr (True, d')" using tm by simp
      then show ?thesis
      proof (rule terminalize_won [OF C])
        fix r facts t d1
        let ?d0 = "d\<lparr>command_runs := replace_row r (apply_terminal q facts r) (command_runs d)\<rparr>"
        assume d1: "clear_matching_attempt_wait r ?d0 = Some d1 \<or>
            d1 = ?d0 \<and> cancelled_owner_accepts_terminal_state r (ct_state q) revision d1"
          and e: "append_task_event env (command_terminal_event r revision t q facts) d1 = Inr d'"
        have l0: "lanes_ok ?d0" using runtime_ok_parts(1) [OF ok] by (intro controller_ok_parts(1)) simp
        have "\<exists>as ws. d1 = ?d0\<lparr>attempts := as, waits := ws\<rparr>"
          using d1
        proof
          assume "clear_matching_attempt_wait r ?d0 = Some d1"
          then show ?thesis by (rule clear_matching_attempt_wait_Some [OF l0]) blast
        next
          assume "d1 = ?d0 \<and> cancelled_owner_accepts_terminal_state r (ct_state q) revision d1"
          then show ?thesis by (intro exI [of _ "attempts d"] exI [of _ "waits d"]) simp
        qed
        then show ?thesis using ap [OF e] by auto
      qed
    qed
  qed
qed

lemma command_operation_sources_kept:
  assumes ok: "runtime_ok (env_event_hash env) d" and op: "run_command_operation env p d = Inr d'"
  shows "sources_kept d d'"
proof -
  have "\<forall>r \<in> set (command_runs d). \<exists>r' \<in> set (command_runs d'). command_row_step r r'"
    using run_command_operation_steps [OF ok op] by blast
  then have "rows_kept cr_run_id cr_successor_dispatch_id (command_runs d) (command_runs d')"
    unfolding rows_kept_def command_row_step_def command_identity_def by fast
  then show ?thesis using command_operation_frame [OF ok op] by (simp add: sources_kept_def)
qed

lemma command_operation_keeps:
  assumes ok: "system_ok (env_event_hash env) d" and op: "run_command_operation env p d = Inr d'"
  shows "keeps_system (env_event_hash env) d d'"
proof (rule keeps_systemI [OF ok])
  show "runtime_ok (env_event_hash env) d'"
    using run_command_operation_steps [OF system_ok_parts(1) [OF ok] op] by blast
  show "sources_kept d d'" by (rule command_operation_sources_kept [OF system_ok_parts(1) [OF ok] op])
qed

subsection \<open>Task control\<close>

lemma rows_kept_update_all:
  assumes "update_all ck p f rs = Inr rs'" and "\<And>r. p r \<Longrightarrow> key (f r) = key r \<and> succ (f r) = succ r"
  shows "rows_kept key succ rs rs'"
  using assms(1) rows_kept_map [of p key f succ rs, OF assms(2)] by (simp add: update_all_Inr_iff)

lemma rows_kept_update_checked:
  assumes "update_checked ck p f rs = Inr (Some rs')" and "\<And>r. p r \<Longrightarrow> key (f r) = key r \<and> succ (f r) = succ r"
  shows "rows_kept key succ rs rs'"
proof -
  have "update_where p f rs = Some rs'" using assms(1) unfolding update_checked_Inr_iff by metis
  then show ?thesis using assms(2) by (rule rows_kept_update_where)
qed

lemma pause_task_sources_kept:
  assumes "pause_task env task revision control actor esrc d = Inr (signals, d')"
  shows "sources_kept d d'"
proof -
  obtain t ts closed d1 where "read_control_task task d = Inr t"
    and "update_task_to_paused t control actor (env_now env) d = Inr (Some ts)"
    and cl: "close_current_task_dispatches (tk_task_id t) CPaused (env_now env) Map.empty (d\<lparr>tasks := ts\<rparr>) = Inr (closed, d1)"
    and e: "append_task_event env (control_event TASK_PAUSED [(''pause_reason'', JStr ''paused_by_operator'')]
        ''Paused by operator.'' (tk_task_id t) revision control actor esrc (env_now env)) d1 = Inr d'"
    using assms unfolding pause_task_def
    by (auto elim!: and_then_InrE split: option.split_asm simp: as_task_control_conflict_Inr)
  obtain ds as where "d1 = d\<lparr>tasks := ts, dispatches := ds, attempts := as\<rparr>"
    using close_current_task_dispatches_frame [OF cl] by auto
  then have "sources_kept d d1" by (simp add: sources_kept_def)
  then show ?thesis using sources_kept_append [OF e] by (rule sources_kept_trans)
qed

lemma pause_task_keeps:
  assumes ok: "system_ok (env_event_hash env) d"
    and pa: "pause_task env task revision control actor esrc d = Inr (signals, d')"
  shows "keeps_system (env_event_hash env) d d'"
proof (rule keeps_systemI [OF ok])
  show "runtime_ok (env_event_hash env) d'" using pause_task_effect [OF system_ok_parts(1) [OF ok] pa] by blast
  show "sources_kept d d'" by (rule pause_task_sources_kept [OF pa])
qed

text \<open>The waits of a cancelled Task, one after the other.\<close>

lemma cancel_human_request_kept:
  assumes "cancel_human_request env t w request actor esrc d = Inr d'"
  shows "sources_kept d d'"
proof -
  obtain h hs where up: "update_checked ck_human_request (waiting_human t w request)
         (cancelled_human actor esrc (env_now env)) (human_requests d) = Inr (Some hs)"
    and e: "append_task_event env (human_cancelled_event t w h actor esrc (env_now env))
           (d\<lparr>human_requests := hs\<rparr>) = Inr d'"
    using assms unfolding cancel_human_request_def by (auto elim!: and_then_InrE split: option.split_asm)
  have "rows_kept hr_request_id hr_successor_dispatch_id (human_requests d) hs"
    by (rule rows_kept_update_checked [OF up]) (simp add: cancelled_human_def)
  then have "sources_kept d (d\<lparr>human_requests := hs\<rparr>)" by (simp add: sources_kept_def)
  then show ?thesis using sources_kept_append [OF e] by (rule sources_kept_trans)
qed

lemma cancel_waiting_wave_kept:
  assumes "cancel_waiting_delegation_wave t w wave now d = Inr d'"
  shows "sources_kept d d'"
proof -
  obtain p vs ms where up: "update_checked ck_wave p (cancelled_wave now) (waves d) = Inr (Some vs)"
    and d': "d' = d\<lparr>waves := vs, wave_members := ms\<rparr>"
    using assms unfolding cancel_waiting_delegation_wave_def by (auto elim!: and_then_InrE split: option.split_asm)
  have "rows_kept dw_delegation_wave_id dw_successor_dispatch_id (waves d) vs"
    by (rule rows_kept_update_checked [OF up]) (simp add: cancelled_wave_def)
  then show ?thesis by (simp add: sources_kept_def d')
qed

lemma cancel_wait_source_kept:
  assumes ok: "runtime_ok (env_event_hash env) d"
    and c: "cancel_attempt_wait_source env t w actor esrc d = Inr (signal, d')"
  shows "sources_kept d d'"
proof -
  consider request where "cancel_human_request env t w request actor esrc d = Inr d'"
    | run s b where "request_command_run_cancellation env (tk_task_id t) run actor esrc True True d = Inr ((s, b), d')"
    | wave where "cancel_waiting_delegation_wave t w wave (env_now env) d = Inr d'"
    using c unfolding cancel_attempt_wait_source_def
    by (auto split: option.split_asm elim!: and_then_InrE)
  then show ?thesis
  proof cases
    case (1 request)
    then show ?thesis by (rule cancel_human_request_kept)
  next
    case (2 run s b)
    then have "run_command_operation env (RequestCancel (tk_task_id t) run actor esrc True True) d = Inr d'" by simp
    then show ?thesis by (rule command_operation_sources_kept [OF ok])
  next
    case (3 wave)
    then show ?thesis by (rule cancel_waiting_wave_kept)
  qed
qed

lemma clear_and_delete_kept: "clear_and_delete_attempt_wait w d = Inr d' \<Longrightarrow> sources_kept d d'"
  unfolding clear_and_delete_attempt_wait_def clear_current_attempt_wait_def
  by (auto simp: result_simps map_option_eq_Some sources_kept_def)

lemma cancel_each_wait_kept:
  assumes "runtime_ok (env_event_hash env) d" "task_is_cancelled (tk_task_id t) d" "no_current_dispatch (tk_task_id t) d"
    and "cancel_each_wait env t actor esrc ws d = Inr (signals, d')"
    and "\<forall>w \<in> set ws. w \<in> W \<and> aw_task_id w = tk_task_id t" "set (waits d) \<subseteq> W" "inj_on aw_wait_id W"
  shows "sources_kept d d'"
  using assms
proof (induction ws arbitrary: d signals)
  case (Cons w ws)
  obtain signal d1 d2 signals' where src: "cancel_attempt_wait_source env t w actor esrc d = Inr (signal, d1)"
    and cd: "clear_and_delete_attempt_wait w d1 = Inr d2"
    and rest: "cancel_each_wait env t actor esrc ws d2 = Inr (signals', d')"
    using Cons.prems(4) by (auto elim!: and_then_InrE)
  have one: "cancel_each_wait env t actor esrc [w] d = Inr ((case signal of None \<Rightarrow> [] | Some s \<Rightarrow> [s]), d2)"
    using src cd by (simp split: option.split)
  have w: "\<forall>v \<in> set [w]. v \<in> W \<and> aw_task_id v = tk_task_id t" using Cons.prems(5) by simp
  note step = cancel_each_wait_ok [OF Cons.prems(1,2,3) one w Cons.prems(6,7)]
  have can: "task_is_cancelled (tk_task_id t) d2" using step Cons.prems(2) by (simp add: task_is_cancelled_def)
  have "\<forall>v \<in> set (waits d). aw_wait_id v = aw_wait_id w \<longrightarrow> v = w"
    using Cons.prems(5,6,7) by (auto dest: inj_onD)
  then have sub: "set (waits d2) \<subseteq> set (waits d)"
    using cancel_wait_step [OF Cons.prems(1,2) _ _ src cd] Cons.prems(5) by simp
  have "sources_kept d2 d'"
    by (rule Cons.IH [OF _ can _ rest]) (use step sub Cons.prems(5,6,7) in auto)
  then show ?case
    using cancel_wait_source_kept [OF Cons.prems(1) src] clear_and_delete_kept [OF cd] sources_kept_trans by blast
qed simp

lemma cancel_task_keeps:
  assumes ok: "system_ok (env_event_hash env) d"
    and ca: "cancel_task env task revision control actor esrc d = Inr (signals, d')"
  shows "keeps_system (env_event_hash env) d d'"
proof -
  let ?H = "env_event_hash env"
  note rt0 = system_ok_parts(1) [OF ok]
  obtain t ts closed d1 sigs d2 d3 d4 where rt: "read_control_task task d = Inr t"
    and up: "update_task_to_cancelled t control (env_now env) d = Inr (Some ts)"
    and cl: "close_current_task_dispatches (tk_task_id t) CCancelled (env_now env) Map.empty (d\<lparr>tasks := ts\<rparr>) = Inr (closed, d1)"
    and cw: "cancel_attempt_waits env t actor esrc d1 = Inr (sigs, d2)"
    and ce: "cancel_execution_rows (tk_task_id t) (env_now env) d2 = Inr d3"
    and cr: "cancel_pending_replan_transition t (env_now env) d3 = Inr d4"
    and e: "append_task_event env (control_event TASK_CANCELLED [] ''Cancelled by operator.'' (tk_task_id t)
        revision control actor esrc (env_now env)) d4 = Inr d'"
    using ca unfolding cancel_task_def
    by (auto elim!: and_then_InrE split: option.split_asm simp: as_task_control_conflict_Inr)
  have t: "t \<in> set (tasks d)" using read_control_task_Inr [OF rt] by blast
  let ?t = "cancelled_task (env_now env) t"
  have T: "tasks_ok d" by (rule controller_ok_parts(4) [OF runtime_ok_parts(1) [OF rt0]])
  have ts: "ts = replace_row t ?t (tasks d)" "ck_task ?t"
    using update_task_Some [OF T t up [unfolded update_task_to_cancelled_def]] by blast+
  have ok0: "runtime_ok ?H (d\<lparr>tasks := ts\<rparr>)"
    unfolding ts(1) by (rule runtime_ok_task [OF rt0 t _ ts(2)]) (simp_all add: cancelled_task_def)
  have ok1: "runtime_ok ?H d1" by (rule close_dispatches_runtime_ok [OF ok0 cl]) simp
  obtain ds as where d1: "d1 = d\<lparr>tasks := ts, dispatches := ds, attempts := as\<rparr>"
    and c: "all_current_task_dispatches_closed (tk_task_id t) d1"
    using close_current_task_dispatches_frame [OF cl] by auto
  have "?t \<in> set ts" using t by (simp add: ts(1) set_replace_row)
  then have can1: "task_is_cancelled (tk_task_id t) d1"
    unfolding task_is_cancelled_def d1 by (intro bexI [of _ ?t]) (simp_all add: cancelled_task_def)
  note nd1 = closed_no_current_dispatch [OF c]
  have s2: "runtime_ok ?H d2" "no_current_dispatch (tk_task_id t) d2"
    "\<forall>w \<in> set (waits d2). aw_task_id w \<noteq> tk_task_id t"
    using cancel_attempt_waits_ok [OF ok1 can1 nd1 cw] by blast+
  have each: "cancel_each_wait env t actor esrc (read_current_attempt_waits (tk_task_id t) d1) d1 = Inr (sigs, d2)"
    using cw unfolding cancel_attempt_waits_def by (auto elim!: and_then_InrE split: if_split_asm)
  have inj: "inj_on aw_wait_id (set (waits d1))"
    by (rule keyed_inj_on [OF lanes_ok_keys(3) [OF runtime_ok_parts(4) [OF ok1]]])
  have "sources_kept d1 d2"
    by (rule cancel_each_wait_kept [OF ok1 can1 nd1 each _ subset_refl inj]) (use read_current_attempt_waits_task in blast)
  moreover have "sources_kept d d1" by (simp add: sources_kept_def d1)
  moreover have "sources_kept d2 d3"
  proof -
    obtain p ws ms as where up: "update_all ck_wave p (cancelled_wave (env_now env)) (waves d2) = Inr ws"
      and d3: "d3 = d2\<lparr>waves := ws, wave_members := ms, attempts := as\<rparr>"
      using ce unfolding cancel_execution_rows_def by (auto elim!: and_then_InrE)
    have "rows_kept dw_delegation_wave_id dw_successor_dispatch_id (waves d2) ws"
      by (rule rows_kept_update_all [OF up]) (simp add: cancelled_wave_def)
    then show ?thesis by (simp add: sources_kept_def d3)
  qed
  ultimately have kept: "sources_kept d d3" by (meson sources_kept_trans)
  have "runtime_ok ?H d3" using cancel_execution_rows_ok [OF s2 ce] by blast
  then have k3: "keeps_system ?H d d3" by (rule keeps_systemI [OF ok _ kept])
  then have ok3: "system_ok ?H d3" by (simp add: keeps_system_def)
  obtain p where up: "\<forall>r \<in> set (replan_transitions d3). p r \<longrightarrow> ck_replan (cancelled_replan (env_now env) r)"
    and d4: "d4 = d3\<lparr>replan_transitions := map (\<lambda>r. if p r then cancelled_replan (env_now env) r else r) (replan_transitions d3)\<rparr>"
    and p: "\<And>r. p r \<Longrightarrow> rt_successor_dispatch_id r = None"
  proof -
    let ?p = "\<lambda>r. rt_task_id r = tk_task_id t \<and>
           Some (rt_successor_team_revision_id r) = tk_current_team_revision_id t \<and>
           rt_successor_state r \<notin> {SuccessorOpened, SuccessorCancelled} \<and>
           rt_successor_dispatch_id r = None"
    show thesis by (rule that [of ?p])
      (use cr in \<open>auto simp: cancel_pending_replan_transition_def and_then_Inr_iff update_all_Inr_iff\<close>)
  qed
  have "keeps_system ?H d3 d4" unfolding d4 keeps_system_def
    by (rule replans_update [OF ok3 up p]) (simp_all add: cancelled_replan_def)
  moreover from this have "system_ok ?H d4" by (simp add: keeps_system_def)
  then have "keeps_system ?H d4 d'" by (rule append_keeps [OF _ e])
  ultimately show ?thesis using k3 by (meson keeps_system_trans)
qed

lemma workspace_pause_keeps:
  assumes ok: "system_ok (env_event_hash env) d"
    and pa: "pause_task_for_unavailable_workspace env task workspace d = Inr (paused, d')"
  shows "keeps_system (env_event_hash env) d d'"
proof (cases "find (\<lambda>t. tk_task_id t = task \<and> tk_status t = TaskRunning) (tasks d)")
  case None
  then show ?thesis using pa keeps_system_refl [OF ok] by (simp add: pause_task_for_unavailable_workspace_def)
next
  case (Some t)
  note rt = system_ok_parts(1) [OF ok]
  have key: "keyed tk_task_id (tasks d)"
    using controller_ok_parts(4) [OF runtime_ok_parts(1) [OF rt]] by (simp add: tasks_ok_def)
  let ?p = "\<lambda>t. tk_task_id t = task \<and> tk_status t = TaskRunning"
  let ?f = "workspace_paused_task workspace (env_now env)"
  have t: "t \<in> set (tasks d)" "?p t" using find_Some_D [OF Some] by blast+
  obtain ts revision closed d1 where up: "update_all ck_task ?p ?f (tasks d) = Inr ts"
    and cl: "close_current_task_dispatches task CPaused (env_now env) Map.empty (d\<lparr>tasks := ts\<rparr>) = Inr (closed, d1)"
    and e: "append_task_event env (workspace_paused_event task revision (tk_control_revision t + 1) (env_now env)) d1 = Inr d'"
    using pa Some unfolding pause_task_for_unavailable_workspace_def
    by (auto elim!: and_then_InrE split: option.split_asm)
  have "map (\<lambda>r. if ?p r then ?f r else r) (tasks d) = replace_row t (?f t) (tasks d)"
    unfolding replace_row_def
  proof (rule map_cong [OF refl])
    fix r assume r: "r \<in> set (tasks d)"
    have "?p r = (r = t)" using keyed_unique [OF key r t(1)] t(2) by auto
    then show "(if ?p r then ?f r else r) = (if r = t then ?f t else r)" by simp
  qed
  then have ts: "ts = replace_row t (?f t) (tasks d)" and ck: "ck_task (?f t)"
    using up t by (simp_all add: update_all_Inr_iff)
  have "runtime_ok (env_event_hash env) (d\<lparr>tasks := ts\<rparr>)"
    unfolding ts by (rule runtime_ok_task [OF rt t(1) _ ck]) (use t in \<open>simp_all add: workspace_paused_task_def\<close>)
  then have ok1: "runtime_ok (env_event_hash env) d1" by (rule close_dispatches_runtime_ok [OF _ cl]) simp
  obtain ds as where "d1 = d\<lparr>tasks := ts, dispatches := ds, attempts := as\<rparr>"
    using close_current_task_dispatches_frame [OF cl] by auto
  then have "sources_kept d d1" by (simp add: sources_kept_def)
  then have "sources_kept d d'" using sources_kept_append [OF e] by (rule sources_kept_trans)
  then show ?thesis by (rule keeps_systemI [OF ok append_runtime_ok [OF ok1 e]])
qed

subsection \<open>Activity, work plans and steers\<close>

lemma refresh_activity_keeps:
  assumes ok: "system_ok H d" and re: "refresh_node_activity au now d = Inr (r, d')"
  shows "keeps_system H d d'"
proof -
  note rt = system_ok_parts(1) [OF ok]
  obtain ts where d': "d' = d\<lparr>dispatches := ts\<rparr>"
    using re unfolding refresh_node_activity_def
    by (auto elim!: and_then_InrE split: option.split_asm)
  have "lanes_ok (d\<lparr>dispatches := ts, attempts := attempts d\<rparr>)"
    using refresh_node_activity_lanes_ok [OF runtime_ok_parts(4) [OF rt] re] by (simp add: d')
  from runtime_ok_lanes [OF rt this] have "runtime_ok H d'" by (simp add: d')
  then show ?thesis by (rule keeps_systemI [OF ok]) (simp add: sources_kept_def d')
qed

lemma work_plan_keeps:
  assumes ok: "system_ok (env_event_hash env) d" and st: "set_assignment_work_plan env au rq d = Inr (r, d')"
  shows "keeps_system (env_event_hash env) d d'"
proof (cases "d' = d")
  case True
  then show ?thesis using keeps_system_refl [OF ok] by simp
next
  case False
  note rt = system_ok_parts(1) [OF ok]
  obtain revision d1 d2 where ad: "advance_work_plan_revision au d = Inr (revision, d1)"
    and re: "replace_work_plan_rows au rq revision (env_now env) d1 = Inr d2"
    and ap: "append_task_event env (work_plan_event au rq revision (env_now env)) d2 = Inr d'"
    using st False unfolding set_assignment_work_plan_def by (auto elim!: and_then_InrE split: if_split_asm)
  have ok1: "runtime_ok (env_event_hash env) d1" and "\<exists>as. d1 = d\<lparr>assignments := as\<rparr>"
    using advance_work_plan_revision_Inr [OF rt ad] by blast+
  moreover obtain ps ss where d2: "d2 = d1\<lparr>work_plan_steps := ss, work_plans := ps\<rparr>"
    using re unfolding replace_work_plan_rows_def Let_def by (auto elim!: and_then_InrE split: if_split_asm)
  ultimately have "sources_kept d d2" by (auto simp: sources_kept_def)
  then have "sources_kept d d'" using sources_kept_append [OF ap] by (rule sources_kept_trans)
  moreover have "runtime_ok (env_event_hash env) d2" using ok1 by (simp add: d2)
  ultimately show ?thesis by (intro keeps_systemI [OF ok append_runtime_ok [OF _ ap]])
qed

text \<open>A steer stamps its Task and appends its event under the identifier of the action.\<close>

lemma runtime_ok_stamp:
  assumes ok: "runtime_ok H d" and ck: "\<forall>t \<in> set (tasks d). p t \<longrightarrow> ck_task (f t)"
    and f: "\<And>t. tk_task_id (f t) = tk_task_id t" "\<And>t. tk_status (f t) = tk_status t"
  shows "runtime_ok H (d\<lparr>tasks := map (\<lambda>t. if p t then f t else t) (tasks d)\<rparr>)" (is "runtime_ok H ?d")
proof -
  have T: "tasks_ok d" by (rule controller_ok_parts(4) [OF runtime_ok_parts(1) [OF ok]])
  then have "tasks_ok ?d"
    using ck keyed_update [of tk_task_id "tasks d" f p] f(1) by (auto simp: tasks_ok_def)
  then have "controller_ok H ?d" using runtime_ok_parts(1) [OF ok] by (rule controller_ok_tasks [rotated])
  moreover have "humans_ok ?d" by (rule humans_ok_frame [OF _ _ runtime_ok_parts(2) [OF ok]]) simp_all
  moreover have "task_is_cancelled x ?d" if "task_is_cancelled x d" for x
  proof -
    obtain t where "t \<in> set (tasks d)" "tk_task_id t = x" "tk_status t = TaskCancelled"
      using \<open>task_is_cancelled x d\<close> by (auto simp: task_is_cancelled_def)
    then show ?thesis unfolding task_is_cancelled_def
      by (intro bexI [of _ "if p t then f t else t"]) (auto simp: f)
  qed
  then have "commands_ok ?d" by (intro commands_ok_frame [OF _ _ runtime_ok_parts(3) [OF ok]]) simp_all
  ultimately show ?thesis by (simp add: runtime_ok_def)
qed

lemma append_as_runtime_ok:
  assumes ok: "runtime_ok (env_event_hash env) d" and ap: "append_task_event_as env (Some i) e d = Inr d'"
    and i: "is_action_id i"
  shows "runtime_ok (env_event_hash env) d'"
proof -
  obtain es hs where d': "d' = d\<lparr>events := es, event_heads := hs\<rparr>"
    using append_task_event_as_frame [OF ap] by blast
  have "events_ok (env_event_hash env) d'"
    using append_task_event_as_events_ok [OF ap controller_ok_parts(5) [OF runtime_ok_parts(1) [OF ok]]] i by blast
  moreover have "lanes_ok d' = lanes_ok d" "waves_ok d' = waves_ok d" "assignments_ok d' = assignments_ok d"
    "tasks_ok d' = tasks_ok d" "humans_ok d' = humans_ok d" "commands_ok d' = commands_ok d"
    unfolding d' by (simp_all add: lanes_ok_def waves_ok_def assignments_ok_def tasks_ok_def humans_ok_def
      commands_ok_def task_is_cancelled_def)
  ultimately show ?thesis using ok by (simp add: runtime_ok_def controller_ok_def)
qed

lemma steer_keeps:
  assumes ok: "system_ok (env_event_hash env) d'"
    and st: "steer_product_task_member env lib digest adapters task member rq actor src d d' = Inr (r, d'')"
  shows "keeps_system (env_event_hash env) d' d''"
proof (cases "d'' = d'")
  case True
  then show ?thesis using keeps_system_refl [OF ok] by simp
next
  case False
  note rt = system_ok_parts(1) [OF ok]
  let ?event = "product_action_id digest [''member-steer-event'', sq_action_id rq]"
  obtain q where re: "record_delivered_steer env lib q rq ?event actor src d' = Inr d''"
    using st False unfolding steer_product_task_member_def Let_def
    by (auto split: option.split_asm if_split_asm steer_outcome.split_asm elim!: and_then_InrE)
  obtain p d1 where
    ap: "append_task_event_as env (Some ?event) (member_steered_event q p actor src (env_now env)) d' = Inr d1"
    and d'': "d'' = d1\<lparr>tasks := map (\<lambda>t. if tk_task_id t = sx_task_id q then t\<lparr>tk_updated_at := env_now env\<rparr> else t) (tasks d')\<rparr>"
    and ck: "\<forall>t \<in> set (tasks d'). tk_task_id t = sx_task_id q \<longrightarrow> ck_task (t\<lparr>tk_updated_at := env_now env\<rparr>)"
    by (rule record_delivered_steer_Inr [OF re])
  have ok1: "runtime_ok (env_event_hash env) d1" by (rule append_as_runtime_ok [OF rt ap]) simp
  obtain es eh where d1: "d1 = d'\<lparr>events := es, event_heads := eh\<rparr>" using append_task_event_as_frame [OF ap] by auto
  have "tasks d1 = tasks d'" by (simp add: d1)
  from runtime_ok_stamp [OF ok1, of "\<lambda>t. tk_task_id t = sx_task_id q" "\<lambda>t. t\<lparr>tk_updated_at := env_now env\<rparr>"] ck
  have "runtime_ok (env_event_hash env) d''" by (simp add: d'' \<open>tasks d1 = tasks d'\<close>)
  then show ?thesis by (rule keeps_systemI [OF ok]) (simp add: sources_kept_def d'' d1)
qed

subsection \<open>Successors\<close>

text \<open>
  One opening of a source: the reader saw \<open>d\<close>, the commit starts from \<open>d'\<close>. The parameters of the
  openings (the texts, the renderings) are free in every step.
\<close>

inductive opening_step :: "(event_row \<Rightarrow> string) \<Rightarrow> source_ref \<Rightarrow> opening_outcome \<Rightarrow> db \<Rightarrow> db \<Rightarrow> db \<Rightarrow> bool"
  for H :: "event_row \<Rightarrow> string" where
  open_human: "env_event_hash env = H \<Longrightarrow> open_human_request_successor env lib render k x d d' = Inr (r, d'') \<Longrightarrow>
     opening_step H (HumanSource k) r d d' d''"
| open_command: "env_event_hash env = H \<Longrightarrow> open_command_run_successor env render k x d d' = Inr (r, d'') \<Longrightarrow>
     opening_step H (CommandSource k) r d d' d''"
| open_wave: "env_event_hash env = H \<Longrightarrow> open_delegation_wave_successor env render k x d d' = Inr (r, d'') \<Longrightarrow>
     opening_step H (WaveSource k) r d d' d''"
| open_replan: "env_event_hash env = H \<Longrightarrow>
     open_ordinary_successor env render (read_replan_continuation_basis f) claim_replan_continuation
       (record_opening_failure env) ''replan_dispatch_preparation_failed'' k x d d' = Inr (r, d'') \<Longrightarrow>
     opening_step H (ReplanSource k) r d d' d''"
| open_start: "env_event_hash env = H \<Longrightarrow> open_root_dispatch env root k x d d' = Inr (r, d'') \<Longrightarrow>
     opening_step H (StartSource k) r d d' d''"

lemmas opening_defs = open_human_request_successor_def open_command_run_successor_def
  open_delegation_wave_successor_def

lemma opening_keeps:
  assumes "opening_step H s r d d' d''" and "system_ok H d'"
  shows "keeps_system H d' d''"
  using assms
proof (induction rule: opening_step.induct)
  case (open_human env lib render k x d d' r d'')
  then show ?case using human_source.open_keeps [of env d'] unfolding keeps_system_def opening_defs by blast
next
  case (open_command env render k x d d' r d'')
  then show ?case using command_source.open_keeps [of env d'] unfolding keeps_system_def opening_defs by blast
next
  case (open_wave env render k x d d' r d'')
  then show ?case using wave_source.open_keeps [of env d'] unfolding keeps_system_def opening_defs by blast
next
  case (open_replan env render f k x d d' r d'')
  then show ?case using replan_source.open_keeps [of env d'] unfolding keeps_system_def by blast
next
  case (open_start env root k x d d' r d'')
  then show ?case using open_root_keeps [of env d'] unfolding keeps_system_def by blast
qed

text \<open>An opening that succeeds found the source unspent and spends it.\<close>

lemma opening_spends:
  assumes "opening_step H s (Opened y) d d' d''" and "system_ok H d'"
  shows "(\<forall>z. \<not> source_spent s z d') \<and> source_spent s y d''"
proof -
  have ordinary: "(\<forall>z. \<not> source_spent (ref k) z d') \<and> source_spent (ref k) y d''"
    if "continuation_source claim reader recorder ref"
      and "open_ordinary_successor env render reader claim (recorder env) code k x d d' = Inr (Opened y, d'')"
      and "env_event_hash env = H"
    for claim reader recorder ref k x code env render
    by (rule continuation_source.opened [OF that(1) _ that(2)]) (use that(3) assms(2) in auto)
  show ?thesis
    using assms(1)
  proof cases
    case (open_human env lib render k x)
    show ?thesis unfolding open_human(1)
      by (rule ordinary [OF human_source.continuation_source_axioms open_human(3) [unfolded opening_defs] open_human(2)])
  next
    case (open_command env render k x)
    show ?thesis unfolding open_command(1)
      by (rule ordinary [OF command_source.continuation_source_axioms open_command(3) [unfolded opening_defs] open_command(2)])
  next
    case (open_wave env render k x)
    show ?thesis unfolding open_wave(1)
      by (rule ordinary [OF wave_source.continuation_source_axioms open_wave(3) [unfolded opening_defs] open_wave(2)])
  next
    case (open_replan env render f k x)
    show ?thesis unfolding open_replan(1)
      by (rule ordinary [OF replan_source.continuation_source_axioms open_replan(3,2)])
  next
    case (open_start env root k x)
    have ok: "system_ok (env_event_hash env) d'" using assms(2) open_start(2) by simp
    obtain n p where pl: "prepare_root_dispatch root k TaskRunning None None x d = Inr (Some (n, p))"
      and st: "stage_root_dispatch_if_current env None n p d' = Inr (True, d'')" and y: "y = pr_dispatch_id p"
      using open_start(3) unfolding open_root_dispatch_def
      by (auto split: sum.split_asm option.split_asm prod.split_asm if_split_asm elim!: and_then_InrE)
    have "rs_task_id n = k" by (rule prepare_root_source(1) [OF pl])
    then show ?thesis using stage_root_opened [OF ok st] unfolding open_start(1) y by blast
  qed
qed

text \<open>The rows of a source agree on its successor.\<close>

lemma source_spent_unique:
  assumes ok: "system_ok H d" and "source_spent s y d" and "source_spent s z d"
  shows "y = z"
  using assms(2,3) source_keys [OF ok]
  by (cases s) (auto dest: keyed_unique)

subsection \<open>Continuation of a paused Task, and the watchdog\<close>

lemma stage_root_keeps_system:
  assumes "system_ok (env_event_hash env) d" and "stage_root_dispatch_if_current env resume n p d = Inr (won, d')"
  shows "keeps_system (env_event_hash env) d d'"
  using stage_root_keeps [OF assms] by (simp add: keeps_system_def)

lemma initial_root_keeps:
  assumes ok: "system_ok (env_event_hash env) d" and st: "stage_initial_root_dispatch env render task x d = Inr (p, d')"
  shows "keeps_system (env_event_hash env) d d'"
proof -
  obtain n q won where "stage_root_dispatch_if_current env None n q d = Inr (won, d')"
    using st unfolding stage_initial_root_dispatch_def
    by (auto split: option.split_asm if_split_asm elim!: and_then_InrE)
  then show ?thesis by (rule stage_root_keeps_system [OF ok])
qed

lemma continue_keeps:
  assumes ok0: "lanes_ok d" and ok: "system_ok (env_event_hash env) d'"
    and c: "continue_planned_task env deps task revision control resume d d' = Inr (opened, d'')"
  shows "keeps_system (env_event_hash env) d' d''"
  using c
proof (cases rule: continue_planned_cases)
  case (root plan x)
  obtain n p won where "stage_root_dispatch_if_current env (Some resume) n p d' = Inr (won, d'')"
    using root(3) unfolding continue_paused_root_dispatch_def
    by (auto split: if_split_asm elim!: and_then_InrE)
  then show ?thesis by (rule stage_root_keeps_system [OF ok])
next
  case (lanes plan cs)
  have "plan_covers plan" using read_plan_Inr [OF lanes(1) ok0] by blast
  then have "system_ok (env_event_hash env) d'' \<and> sources_forward d' d''"
    using commit_paused_effect [OF _ lanes(2) prepare_Inr [OF lanes(3)] ok lanes(4)] by blast
  then show ?thesis by (simp add: keeps_system_def)
qed

lemma manifest_keeps:
  "system_ok H d \<Longrightarrow> ensure_replan_manifest_current env project k d = Inr (b, d') \<Longrightarrow> keeps_system H d d'"
  unfolding keeps_system_def by (rule manifest_effect)

lemma recover_keeps:
  assumes ok: "system_ok (env_event_hash env) d2"
    and re: "recover_stale_dispatch env prep settings observed dispatch w d d1 d2 = Inr (outcome, d')"
  shows "keeps_system (env_event_hash env) d2 d'"
  using re
proof (cases rule: recover_cases)
  case skipped
  then show ?thesis using keeps_system_refl [OF ok] by simp
next
  case (failed code c closed)
  then show ?thesis using commit_watchdog_pause_Inr [OF ok failed(3)] by (simp add: keeps_system_def)
next
  case (exhausted n closed)
  then show ?thesis using commit_watchdog_pause_Inr [OF ok exhausted(3)] by (simp add: keeps_system_def)
next
  case (replaced n p)
  then show ?thesis using commit_replacement_effect [OF ok replaced(3)] by (simp add: keeps_system_def)
qed

subsection \<open>Histories\<close>

text \<open>
  One committed transaction of the controller, whatever its inputs: the clock and the identifiers
  of \<open>env\<close>, the requests and the answers of the parameters. Only the digest of the event log is
  the same in all. The last argument stands for the type of the inputs of a preparation.
\<close>

inductive system_step :: "(event_row \<Rightarrow> string) \<Rightarrow> 'i itself \<Rightarrow> db \<Rightarrow> db \<Rightarrow> bool"
  for H :: "event_row \<Rightarrow> string" and i :: "'i itself" where
  st_checkpoint: "env_event_hash env = H \<Longrightarrow> commit_checkpoint env probe cdeps cfx au crq d = Inr (cr, d') \<Longrightarrow>
     system_step H i d d'"
| st_delegate: "env_event_hash env = H \<Longrightarrow> commit_delegation_wave env dprobe ddeps dfx au drq d = Inr (dr, d') \<Longrightarrow>
     system_step H i d d'"
| st_join: "settle_delegation_wave wave now d = Inr (b, d') \<Longrightarrow> system_step H i d d'"
| st_ask: "env_event_hash env = H \<Longrightarrow> open_human_request env hprobe hfx au hrq d = Inr (q, d') \<Longrightarrow>
     system_step H i d d'"
| st_answer: "env_event_hash env = H \<Longrightarrow>
     resolve_human_request env lib task q responses actor surface d = Inr (hr, d') \<Longrightarrow> system_step H i d d'"
| st_expire: "env_event_hash env = H \<Longrightarrow> expire_human_request env q signal now d = Inr (b, d') \<Longrightarrow>
     system_step H i d d'"
| st_command: "env_event_hash env = H \<Longrightarrow> run_command_operation env cop d = Inr d' \<Longrightarrow> system_step H i d d'"
| st_pause: "env_event_hash env = H \<Longrightarrow> pause_task env task revision control actor esrc d = Inr (signals, d') \<Longrightarrow>
     system_step H i d d'"
| st_cancel: "env_event_hash env = H \<Longrightarrow> cancel_task env task revision control actor esrc d = Inr (signals, d') \<Longrightarrow>
     system_step H i d d'"
| st_workspace: "env_event_hash env = H \<Longrightarrow>
     pause_task_for_unavailable_workspace env task workspace d = Inr (b, d') \<Longrightarrow> system_step H i d d'"
| st_activity: "refresh_node_activity au now d = Inr (x, d') \<Longrightarrow> system_step H i d d'"
| st_plan: "env_event_hash env = H \<Longrightarrow> set_assignment_work_plan env au prq d = Inr (pr, d') \<Longrightarrow>
     system_step H i d d'"
| st_steer: "env_event_hash env = H \<Longrightarrow>
     steer_product_task_member env lib digest adapters task member srq actor esrc d0 d = Inr (so, d') \<Longrightarrow>
     system_step H i d d'"
| st_open: "opening_step H s r d0 d d' \<Longrightarrow> system_step H i d d'"
| st_launch: "env_event_hash env = H \<Longrightarrow> stage_initial_root_dispatch env root task x d = Inr (p, d') \<Longrightarrow>
     system_step H i d d'"
| st_continue: "env_event_hash env = H \<Longrightarrow> lanes_ok d0 \<Longrightarrow>
     continue_planned_task env (deps :: 'i continue_deps) task revision control resume d0 d = Inr (opened, d') \<Longrightarrow>
     system_step H i d d'"
| st_manifest: "ensure_replan_manifest_current env project k d = Inr (b, d') \<Longrightarrow> system_step H i d d'"
| st_watchdog: "env_event_hash env = H \<Longrightarrow>
     recover_stale_dispatch env (prep :: 'i preparation) settings observed x wq d0 d1 d = Inr (r, d') \<Longrightarrow>
     system_step H i d d'"
| st_start_accepted: "env_event_hash env = H \<Longrightarrow>
     accept_provider_start_if_current env task due attempt_count at now d = Inr (acceptance, d') \<Longrightarrow> system_step H i d d'"
| st_start_rotated: "env_event_hash env = H \<Longrightarrow>
     rotate_provider_start_after_failure env due candidate (next_retry_signal ss due attempt_count now) fk code d = Inr (b, d') \<Longrightarrow>
     system_step H i d d'"
| st_start_paused: "env_event_hash env = H \<Longrightarrow>
     pause_invalid_provider_start env due candidate now failure_code d = Inr (siblings, d') \<Longrightarrow> system_step H i d d'"

lemma step_keeps:
  assumes "system_step H i d d'" and "system_ok H d"
  shows "keeps_system H d d'"
  using assms(1)
proof (cases rule: system_step.cases)
  case st_checkpoint
  then show ?thesis using assms(2) by (auto intro: checkpoint_keeps)
next
  case st_delegate
  then show ?thesis using assms(2) by (auto intro: delegation_keeps)
next
  case st_join
  then show ?thesis using assms(2) by (auto intro: settle_wave_keeps)
next
  case st_ask
  then show ?thesis using assms(2) by (auto intro: open_human_request_keeps)
next
  case st_answer
  then show ?thesis using assms(2) by (auto intro: resolve_human_request_keeps)
next
  case st_expire
  then show ?thesis using assms(2) by (auto intro: expire_human_request_keeps)
next
  case st_command
  then show ?thesis using assms(2) by (auto intro: command_operation_keeps)
next
  case st_pause
  then show ?thesis using assms(2) by (auto intro: pause_task_keeps)
next
  case st_cancel
  then show ?thesis using assms(2) by (auto intro: cancel_task_keeps)
next
  case st_workspace
  then show ?thesis using assms(2) by (auto intro: workspace_pause_keeps)
next
  case st_activity
  then show ?thesis using assms(2) by (auto intro: refresh_activity_keeps)
next
  case st_plan
  then show ?thesis using assms(2) by (auto intro: work_plan_keeps)
next
  case st_steer
  then show ?thesis using assms(2) by (auto intro: steer_keeps)
next
  case st_open
  then show ?thesis using assms(2) by (auto intro: opening_keeps)
next
  case st_launch
  then show ?thesis using assms(2) by (auto intro: initial_root_keeps)
next
  case st_continue
  then show ?thesis using assms(2) by (auto intro: continue_keeps)
next
  case st_manifest
  then show ?thesis using assms(2) by (auto intro: manifest_keeps)
next
  case st_watchdog
  then show ?thesis using assms(2) by (auto intro: recover_keeps)
next
  case st_start_accepted
  then show ?thesis using assms(2) by (auto simp: keeps_system_def dest: accept_effect)
next
  case st_start_rotated
  then show ?thesis using assms(2) by (auto simp: keeps_system_def dest: rotate_effect)
next
  case st_start_paused
  then show ?thesis using assms(2) by (auto simp: keeps_system_def dest: pause_invalid_effect)
qed

lemma history_keeps_system:
  assumes "(system_step H i)\<^sup>*\<^sup>* d d'" and "system_ok H d"
  shows "keeps_system H d d'"
  using assms
proof (induction rule: rtranclp_induct)
  case base
  then show ?case by (rule keeps_system_refl)
next
  case (step d1 d2)
  then have "keeps_system H d d1" by blast
  moreover from this have "keeps_system H d1 d2" using step_keeps [OF step(2)] by (simp add: keeps_system_def)
  ultimately show ?case by (rule keeps_system_trans)
qed

subsection \<open>Properties\<close>

text \<open>
  C1. A source has one successor. Once a source (the start of a Task, an answered or expired Human
  Request, an ended Command Run, a joined Wave, a committed replan) has opened a successor, every
  history of the controller's transactions keeps the whole invariant and the record of that
  successor, the source never names another one, and no later attempt to open it, from whatever
  state it was planned in, opens a second Dispatch.
\<close>

theorem source_opens_one_successor:
  assumes "system_ok H d'" and "opening_step H s (Opened y) d d' d1"
    and "(system_step H i)\<^sup>*\<^sup>* d1 d2"
  shows "system_ok H d2 \<and> (\<forall>z. source_spent s z d2 \<longleftrightarrow> z = y) \<and>
    (\<forall>z e d3. \<not> opening_step H s (Opened z) e d2 d3)"
proof -
  have k1: "keeps_system H d' d1" by (rule opening_keeps [OF assms(2,1)])
  have "keeps_system H d1 d2" by (rule history_keeps_system [OF assms(3)]) (use k1 in \<open>simp add: keeps_system_def\<close>)
  then have ok2: "system_ok H d2" and spent: "source_spent s y d2"
    using opening_spends [OF assms(2,1)] by (auto simp: keeps_system_def sources_forward_def)
  then show ?thesis using opening_spends [OF _ ok2] source_spent_unique [OF ok2] by blast
qed

end
