(* ===== verification/RecoveryWitnesses.thy ===== *)
theory RecoveryWitnesses
  imports ResumeWitnesses Histories "HOL-Library.Code_Target_Nat"
begin

text \<open>
  The sample Task: its root Dispatch goes stale and is replaced, and its lead Member is steered
  before a later Dispatch of the same Assignment. Then the sample Human Request: it expires, its
  successor opens, and the Task is paused.
\<close>

lemma sample_system_ok: "system_ok (env_event_hash sample_env) sample_db"
  by (rule system_okI [OF sample_runtime_ok]) (simp_all add: sample_db_def)

definition sample_watchdog_settings :: watchdog_settings where
  "sample_watchdog_settings = \<lparr>wt_inactivity_timeout = 10, wt_replacement_limit = 1\<rparr>"

definition sample_due :: watchdog_due where
  "sample_due = \<lparr>wq_dispatch_id = ''d1'', wq_activity_revision = 0, wq_due_at = 12\<rparr>"

abbreviation sample_recovery :: "(opening_outcome \<times> db) result" where
  "sample_recovery \<equiv> recover_stale_dispatch sample_env (cd_preparation sample_continue_deps)
     sample_watchdog_settings 100 ''d2'' sample_due sample_db sample_db sample_db"

theorem watchdog_recovery_effect_witness:
  "\<exists>d'. sample_recovery = Inr (Opened ''d2'', d') \<and>
     dispatch_replaced sample_watchdog_settings 100 ''d1'' ''d2'' sample_db d'"
proof -
  have "case sample_recovery of Inl f \<Rightarrow> False | Inr (r, d) \<Rightarrow> r = Opened ''d2''" by code_simp
  then obtain d' where r: "sample_recovery = Inr (Opened ''d2'', d')"
    by (auto split: sum.split_asm prod.split_asm)
  have "env_now sample_env = 100" "wq_dispatch_id sample_due = ''d1''"
    by (simp_all add: sample_env_def sample_due_def)
  with watchdog_recovery_effect [OF sample_system_ok r] r show ?thesis by simp
qed

subsection \<open>A steer\<close>

definition sample_digest :: "string \<Rightarrow> string" where
  "sample_digest s = decimal (length s)"

definition sample_adapters :: adapter_registry where
  "sample_adapters p = (if p = ''codex''
     then Some \<lparr>sa_can_steer = (\<lambda>_. True), sa_steer = (\<lambda>_ _. SteerDelivered)\<rparr> else None)"

definition sample_steer_source :: member_steer_source where
  "sample_steer_source = \<lparr>sx_task_id = ''t1'', sx_team_revision_id = ''rev1'', sx_member_id = ''lead'',
     sx_assignment_id = ''as1'', sx_attempt_id = ''at1'', sx_dispatch_id = ''d1'',
     sx_provider = ''codex'', sx_accepted_steer_count = 0\<rparr>"

definition sample_steer :: steer_request where
  "sample_steer = \<lparr>sq_action_id = steer_action sample_digest sample_steer_source, sq_message = ''go''\<rparr>"

abbreviation sample_steered :: "(steer_outcome \<times> db) result" where
  "sample_steered \<equiv> steer_product_task_member sample_env sample_library sample_digest sample_adapters ''t1'' ''lead''
     sample_steer None SrcOperator sample_db sample_db"

text \<open>The Dispatch that was steered has closed.\<close>

definition sample_later :: "db \<Rightarrow> db" where
  "sample_later d = d\<lparr>attempts := [sample_attempt\<lparr>at_current_dispatch_id := None\<rparr>],
     dispatches := [sample_dispatch\<lparr>dt_status := Closed, dt_closed_at := Some 150,
       dt_closed_reason := Some CPaused\<rparr>]\<rparr>"

definition sample_later_basis :: continuation_basis where
  "sample_later_basis = \<lparr>cb_task_id = ''t1'', cb_assignment_id = ''as1'', cb_attempt_id = ''at1'',
     cb_source_dispatch_id = ''d1'', cb_source_dispatch_closed_reason = CPaused,
     cb_opened_reason = OOperatorContinue, cb_trigger = OperatorContinueTrigger ''d1'' 1 ''paused_by_operator'',
     cb_continuation_source_id = None\<rparr>"

abbreviation sample_later_prompt :: "db \<Rightarrow> ordinary_prompt option result" where
  "sample_later_prompt d \<equiv>
     read_ordinary_prompt sample_library sample_later_basis TaskRunning None ''d2'' (sample_later d)"

theorem accepted_steer_reaches_prompts_witness:
  "\<exists>d1 p. sample_steered = Inr (SteerDelivered, d1) \<and> sample_later_prompt d1 = Inr (Some p) \<and>
     \<lparr>py_message = ''go'', py_occurred_at = 100\<rparr> \<in> set (pm_steering p)"
proof -
  have c: "case sample_steered of Inl f \<Rightarrow> False | Inr (r, d) \<Rightarrow> r = SteerDelivered \<and>
      (case sample_later_prompt d of Inl f \<Rightarrow> False
       | Inr q \<Rightarrow> map_option pm_assignment_id q = Some (sx_assignment_id sample_steer_source))" by code_simp
  then obtain d1 where s: "sample_steered = Inr (SteerDelivered, d1)"
    by (cases sample_steered) (auto split: prod.split_asm)
  have "case sample_later_prompt d1 of Inl f \<Rightarrow> False
      | Inr q \<Rightarrow> map_option pm_assignment_id q = Some (sx_assignment_id sample_steer_source)"
    using c unfolding s by simp
  then obtain p where p: "sample_later_prompt d1 = Inr (Some p)" "pm_assignment_id p = sx_assignment_id sample_steer_source"
    by (cases "sample_later_prompt d1") (auto split: option.split_asm)
  have ids: "\<forall>i \<in> {sq_action_id sample_steer, sx_assignment_id sample_steer_source, sx_dispatch_id sample_steer_source}.
      event_identifier sample_library i = Inr i"
  proof -
    have "event_identifier sample_library (sq_action_id sample_steer) = Inr (sq_action_id sample_steer)"
      "event_identifier sample_library (sx_assignment_id sample_steer_source) = Inr (sx_assignment_id sample_steer_source)"
      "event_identifier sample_library (sx_dispatch_id sample_steer_source) = Inr (sx_dispatch_id sample_steer_source)"
      by code_simp+
    then show ?thesis by simp
  qed
  have source: "read_member_steer_source ''t1'' ''lead'' sample_db = Inr (Some sample_steer_source)" by code_simp
  have new: "\<forall>e \<in> set (events sample_db). te_event_id (se_event e) \<noteq> steer_event_id sample_digest sample_steer"
    by (simp add: sample_db_def)
  have ev: "events_ok (env_event_hash sample_env) sample_db"
    using sample_controller_ok by (simp add: controller_ok_def)
  have "set (events d1) \<subseteq> set (events (sample_later d1))" by (simp add: sample_later_def)
  from accepted_steer_reaches_prompts [OF ev s new source ids this] p
  have "\<exists>m. normalize_steer_message ''go'' = Inr m \<and> \<lparr>py_message = m, py_occurred_at = 100\<rparr> \<in> set (pm_steering p)"
    by (auto simp: sample_steer_def sample_env_def)
  moreover have "normalize_steer_message ''go'' = Inr ''go''" by code_simp
  ultimately show ?thesis using s p(1) by auto
qed

subsection \<open>A history of one source\<close>

abbreviation sample_source :: ident where
  "sample_source \<equiv> ''human-request.t1.h1''"

definition sample_expired :: "(bool \<times> db) result" where
  "sample_expired = expire_human_request sample_env sample_source 200 300 sample_human_db"

definition sample_open :: "db \<Rightarrow> (opening_outcome \<times> db) result" where
  "sample_open d = open_human_request_successor sample_env sample_library (\<lambda>_ _. Inr sample_prepared)
     sample_source ''d2'' d d"

definition sample_stop :: "db \<Rightarrow> (runtime_signal list \<times> db) result" where
  "sample_stop d = pause_task sample_env ''t1'' ''rev1'' 0 None SrcOperator d"

definition sample_stopped :: "((opening_outcome \<times> runtime_signal list) \<times> db) result" where
  "sample_stopped = and_then sample_expired (\<lambda>(won, d). and_then (sample_open d) (\<lambda>(r, d1).
     and_then (sample_stop d1) (\<lambda>(signals, d2). Inr ((r, signals), d2))))"

theorem source_opens_one_successor_witness:
  "\<exists>d d1 signals d2. expire_human_request sample_env sample_source 200 300 sample_human_db = Inr (True, d) \<and>
     sample_open d = Inr (Opened ''d2'', d1) \<and> sample_stop d1 = Inr (signals, d2) \<and>
     system_ok (env_event_hash sample_env) d2 \<and>
     (\<forall>z. source_spent (HumanSource sample_source) z d2 \<longleftrightarrow> z = ''d2'')"
proof -
  let ?H = "env_event_hash sample_env"
  have won: "case sample_expired of Inl f \<Rightarrow> False | Inr (won, d) \<Rightarrow> won" by code_simp
  have out: "case sample_stopped of Inl f \<Rightarrow> False | Inr ((r, signals), d) \<Rightarrow> r = Opened ''d2''" by code_simp
  from won obtain d where e: "sample_expired = Inr (True, d)" by (auto split: sum.split_asm prod.split_asm)
  obtain d1 signals d2 where o1: "sample_open d = Inr (Opened ''d2'', d1)" and p: "sample_stop d1 = Inr (signals, d2)"
    using out unfolding sample_stopped_def e by (auto split: sum.split_asm prod.split_asm simp: and_then_Inr_iff)
  have "system_ok ?H sample_human_db"
    by (rule system_okI [OF sample_human_ok]) (simp_all add: sample_human_db_def sample_db_def)
  then have "keeps_system ?H sample_human_db d" using e unfolding sample_expired_def by (rule expire_human_request_keeps)
  then have ok: "system_ok ?H d" by (simp add: keeps_system_def)
  have op: "opening_step ?H (HumanSource sample_source) (Opened ''d2'') d d d1"
    by (rule open_human [OF refl o1 [unfolded sample_open_def]])
  have "system_step ?H TYPE(unit) d1 d2" by (rule st_pause [OF refl p [unfolded sample_stop_def]])
  then have "(system_step ?H TYPE(unit))\<^sup>*\<^sup>* d1 d2" ..
  note r = source_opens_one_successor [OF ok op this]
  show ?thesis
    by (intro exI conjI) (rule e [unfolded sample_expired_def] o1 p conjunct1 [OF r] r [THEN conjunct2, THEN conjunct1])+
qed

end
