(* ===== verification/DispatchHistory.thy ===== *)
theory DispatchHistory
  imports Histories
begin

text \<open>
  The life of a Dispatch over every history: it starts, opens and closes, in this order and once;
  its start generations only move forward; a closed Dispatch never changes again. One lemma per
  operation, and what follows for the exact start generations.
\<close>

subsection \<open>One Dispatch\<close>

definition same_opening :: "dispatch_row \<Rightarrow> dispatch_row \<Rightarrow> bool" where
  "same_opening t t' \<longleftrightarrow>
     dt_dispatch_id t' = dt_dispatch_id t \<and> dt_task_id t' = dt_task_id t \<and>
     dt_assignment_id t' = dt_assignment_id t \<and> dt_attempt_id t' = dt_attempt_id t \<and>
     dt_team_revision_id t' = dt_team_revision_id t \<and> dt_member_id t' = dt_member_id t \<and>
     dt_predecessor_dispatch_id t' = dt_predecessor_dispatch_id t \<and>
     dt_opened_reason t' = dt_opened_reason t \<and> dt_provider t' = dt_provider t \<and>
     dt_created_at t' = dt_created_at t"

definition dispatch_advances :: "dispatch_row \<Rightarrow> dispatch_row \<Rightarrow> bool" where
  "dispatch_advances t t' \<longleftrightarrow>
     same_opening t t' \<and> dt_provider_start_revision t \<le> dt_provider_start_revision t' \<and>
     dt_node_activity_revision t \<le> dt_node_activity_revision t' \<and>
     (dt_status t = Closed \<longrightarrow> t' = t) \<and>
     (dt_status t = Open \<longrightarrow> dt_status t' \<noteq> Starting \<and>
        dt_provider_start_revision t' = dt_provider_start_revision t \<and>
        dt_provider_start_attempt_count t' = dt_provider_start_attempt_count t \<and>
        dt_adapter_started_at t' = dt_adapter_started_at t) \<and>
     (dt_status t = Starting \<and> dt_status t' = Starting \<and>
        dt_provider_start_revision t' = dt_provider_start_revision t \<longrightarrow>
        dt_provider_start_attempt_count t' = dt_provider_start_attempt_count t \<and>
        dt_next_provider_start_at t' = dt_next_provider_start_at t)"

lemma dispatch_advances_refl [simp]: "dispatch_advances t t"
  by (simp add: dispatch_advances_def same_opening_def)

lemma dispatch_advances_trans:
  assumes "dispatch_advances t u" and "dispatch_advances u v"
  shows "dispatch_advances t v"
  using assms by (cases "dt_status t"; cases "dt_status u") (auto simp: dispatch_advances_def same_opening_def)

lemma dispatch_advances_close [simp]:
  "dispatch_is_active t \<Longrightarrow> dispatch_advances t (close_dispatch_row now reason t)"
  by (auto simp: dispatch_advances_def same_opening_def close_dispatch_row_def dispatch_is_active_def)

lemma dispatch_advances_touch [simp]:
  "dispatch_is_active t \<Longrightarrow> dispatch_advances t (touch_activity now t)"
  by (auto simp: dispatch_advances_def same_opening_def touch_activity_def dispatch_is_active_def)

lemma dispatch_advances_accept [simp]:
  "dt_status t = Starting \<Longrightarrow> dispatch_advances t (accepted_dispatch now t)"
  by (auto simp: dispatch_advances_def same_opening_def accepted_dispatch_def)

lemma dispatch_advances_rotate [simp]:
  "dt_status t = Starting \<Longrightarrow> dt_provider_start_revision t < sd_revision retry \<Longrightarrow>
     dispatch_advances t (rotated_dispatch retry kind code t)"
  by (auto simp: dispatch_advances_def same_opening_def rotated_dispatch_def)

lemma dispatch_advances_invalid [simp]:
  "dt_status t = Starting \<Longrightarrow> dispatch_advances t (invalid_start_closed now t)"
  by (auto simp: dispatch_advances_def same_opening_def invalid_start_closed_def close_dispatch_row_def)

subsection \<open>The table\<close>

definition rows_advance :: "dispatch_row list \<Rightarrow> dispatch_row list \<Rightarrow> bool" where
  "rows_advance ts us \<longleftrightarrow> (\<forall>t \<in> set ts. \<exists>u \<in> set us. dispatch_advances t u)"

lemma rows_advance_refl [simp]: "rows_advance ts ts"
  by (auto simp: rows_advance_def intro: dispatch_advances_refl)

lemma rows_advance_trans: "rows_advance ts us \<Longrightarrow> rows_advance us vs \<Longrightarrow> rows_advance ts vs"
  unfolding rows_advance_def by (meson dispatch_advances_trans)

lemma rows_advance_append [simp]: "rows_advance ts (ts @ us)"
  by (auto simp: rows_advance_def intro: dispatch_advances_refl)

lemma rows_advance_map:
  assumes "\<And>t. t \<in> set ts \<Longrightarrow> p t \<Longrightarrow> dispatch_advances t (f t)"
  shows "rows_advance ts (map (\<lambda>t. if p t then f t else t) ts)"
  unfolding rows_advance_def
proof
  fix t assume "t \<in> set ts"
  then show "\<exists>u \<in> set (map (\<lambda>t. if p t then f t else t) ts). dispatch_advances t u"
    using assms by (intro bexI [of _ "if p t then f t else t"]) auto
qed

lemma rows_advance_replace:
  "t \<in> set ts \<Longrightarrow> dispatch_advances t u \<Longrightarrow> rows_advance ts (replace_row t u ts)"
  unfolding replace_row_def by (rule rows_advance_map) auto

lemma rows_advance_update:
  assumes "update_where p f ts = Some us" and "\<And>t. p t \<Longrightarrow> dispatch_advances t (f t)"
  shows "rows_advance ts us"
  using assms(1) rows_advance_map [of ts p f] assms(2) by (auto simp: update_where_Some_iff)

definition dispatches_advance :: "db \<Rightarrow> db \<Rightarrow> bool" where
  "dispatches_advance d d' \<longleftrightarrow> rows_advance (dispatches d) (dispatches d')"

lemma dispatches_advance_same: "dispatches d' = dispatches d \<Longrightarrow> dispatches_advance d d'"
  by (simp add: dispatches_advance_def)

lemma dispatches_advance_refl [simp]: "dispatches_advance d d"
  by (simp add: dispatches_advance_def)

lemma dispatches_advance_trans [trans]:
  "dispatches_advance d d' \<Longrightarrow> dispatches_advance d' d'' \<Longrightarrow> dispatches_advance d d''"
  unfolding dispatches_advance_def by (rule rows_advance_trans)

lemma dispatches_advance_cong:
  "dispatches d1 = dispatches d \<Longrightarrow> dispatches d2 = dispatches d' \<Longrightarrow>
     dispatches_advance d1 d2 = dispatches_advance d d'"
  by (simp add: dispatches_advance_def)

lemma dispatches_advance_fold:
  assumes "fold_result f xs d = Inr d'" and "\<And>x s s'. f x s = Inr s' \<Longrightarrow> dispatches_advance s s'"
  shows "dispatches_advance d d'"
  using assms(1) by (rule fold_result_invariant [where P = "dispatches_advance d"])
    (auto intro: dispatches_advance_trans assms(2))

text \<open>Under the key the row that advanced is the row with the same identity.\<close>

lemma dispatches_advance_row:
  assumes "dispatches_advance d d'" and "keyed dt_dispatch_id (dispatches d')"
    and "t \<in> set (dispatches d)" "u \<in> set (dispatches d')" "dt_dispatch_id u = dt_dispatch_id t"
  shows "dispatch_advances t u"
proof -
  obtain v where v: "v \<in> set (dispatches d')" "dispatch_advances t v"
    using assms(1,3) unfolding dispatches_advance_def rows_advance_def by blast
  then have "dt_dispatch_id v = dt_dispatch_id u" using assms(5) by (simp add: dispatch_advances_def same_opening_def)
  then have "v = u" by (rule keyed_unique [OF assms(2) v(1) assms(4)])
  then show ?thesis using v(2) by simp
qed

subsection \<open>The primitives\<close>

lemma advance_append_event: "append_task_event env e d = Inr d' \<Longrightarrow> dispatches_advance d d'"
  by (auto intro: dispatches_advance_same dest!: append_task_event_frame)

lemma advance_close_current:
  assumes "close_current_attempt_dispatch i tr now reason d = Some d'"
  shows "dispatches_advance d d'"
proof -
  obtain p ts where up: "update_where p (close_dispatch_row now reason) (dispatches d) = Some ts"
    and p: "\<And>t. p t \<Longrightarrow> dispatch_is_active t" and d': "dispatches d' = ts"
    using assms unfolding close_current_attempt_dispatch_def clear_current_attempt_dispatch_def
    by (auto simp: bind_eq_Some_conv map_option_eq_Some dispatch_matches_def split: if_split_asm)
  show ?thesis unfolding dispatches_advance_def d' by (rule rows_advance_update [OF up]) (simp add: p)
qed

lemma advance_close_source: "close_source_dispatch i tr now reason d = Inr d' \<Longrightarrow> dispatches_advance d d'"
  by (auto simp: close_source_dispatch_def require_Inr_iff intro: advance_close_current)

lemma advance_suspend:
  assumes "suspend_current_attempt_on_wait i wait tr now reason d = Some d'"
  shows "dispatches_advance d d'"
proof -
  obtain p ts where up: "update_where p (close_dispatch_row now reason) (dispatches d) = Some ts"
    and p: "\<And>t. p t \<Longrightarrow> dispatch_is_active t" and d': "dispatches d' = ts"
    using assms unfolding suspend_current_attempt_on_wait_def
    by (auto simp: bind_eq_Some_conv map_option_eq_Some dispatch_matches_def split: if_split_asm)
  show ?thesis unfolding dispatches_advance_def d' by (rule rows_advance_update [OF up]) (simp add: p)
qed

lemma advance_close_all:
  assumes "close_current_task_dispatches task reason now ov d = Inr (ids, d')"
  shows "dispatches_advance d d'"
proof -
  let ?f = "\<lambda>lane s. and_then (close_current_task_dispatch task lane
            (case ov (snd (snd lane)) of None \<Rightarrow> reason | Some r \<Rightarrow> r) now s)
            (clear_attempt_current_dispatch task lane)"
  have f: "fold_result ?f (read_current_task_dispatches task d) d = Inr d'"
    using assms unfolding close_current_task_dispatches_def by (auto simp: Let_def result_simps)
  have step: "dispatches_advance s u" if lane: "?f lane s = Inr u" for lane s u
  proof -
    obtain i r where up: "update_where (dispatch_matches i) (close_dispatch_row now r) (dispatches s) = Some (dispatches u)"
      using lane by (cases lane) (auto simp: and_then_Inr_iff require_Inr_iff close_current_task_dispatch_def
        clear_attempt_current_dispatch_def clear_current_attempt_dispatch_def)
    show ?thesis unfolding dispatches_advance_def
      by (rule rows_advance_update [OF up]) (simp add: dispatch_matches_def)
  qed
  show ?thesis by (rule dispatches_advance_fold [OF f step])
qed

lemma advance_stage:
  assumes "stage_starting_dispatch env b p d = Inr d'"
  shows "dispatches_advance d d'"
proof -
  obtain d1 ds d2 d3 where sel: "select_starting_dispatch_for_attempt
         \<lparr>di_task_id = sb_task_id b, di_assignment_id = sb_assignment_id b,
          di_attempt_id = sb_attempt_id b, di_dispatch_id = pr_dispatch_id p\<rparr>
         (sb_predecessor_dispatch_id b) d = Some d1"
    and ins: "insert_dispatch (build_starting_dispatch_model b p) (dispatches d1) = Inr ds"
    and e1: "append_task_event env (dispatch_opened_event b p) (d1\<lparr>dispatches := ds\<rparr>) = Inr d2"
    and e2: "(case sb_resume_event b of None \<Rightarrow> Inr d2
        | Some r \<Rightarrow> append_task_event env (task_resumed_event b p r) d2) = Inr d3"
    and sup: "add_dispatch_support_records p d3 = Inr d'"
    using assms unfolding stage_starting_dispatch_def by (auto elim!: and_then_InrE simp: require_Inr_iff)
  have "dispatches d1 = dispatches d"
    using sel by (auto simp: select_starting_dispatch_for_attempt_def map_option_eq_Some)
  moreover have "ds = dispatches d1 @ [build_starting_dispatch_model b p]"
    using insert_dispatch_Inr [OF ins] by simp
  moreover have "dispatches d2 = ds" using append_task_event_frame [OF e1] by auto
  moreover have "dispatches d3 = dispatches d2" using e2 by (auto split: option.split_asm dest!: append_task_event_frame)
  moreover have "dispatches d' = dispatches d3"
    using sup by (auto simp: add_dispatch_support_records_def elim!: and_then_InrE)
  ultimately show ?thesis by (simp add: dispatches_advance_def)
qed

lemmas advance_rules = advance_append_event advance_close_source advance_suspend advance_close_all advance_stage

subsection \<open>The operations\<close>

text \<open>Work of a Member.\<close>

lemma advance_terminal_state:
  assumes "advance_terminal_checkpoint_state au outc boundary now retry d = Inr d'"
  shows "dispatches d' = dispatches d"
proof -
  obtain d1 source where c: "complete_source_attempt au outc now d = Inr d1" and
    alt: "outc = Retry \<and> (\<exists>attempt. retry = Some attempt \<and>
        start_semantic_retry au source attempt now d1 = Inr d') \<or>
     outc \<noteq> Retry \<and> retry = None \<and> (\<exists>d2. complete_source_assignment au outc now d1 = Inr d2 \<and>
        (as_parent_assignment_id source \<noteq> None \<and> d' = d2 \<or>
         as_parent_assignment_id source = None \<and> na_is_task_lead au \<and>
           complete_root_task au outc boundary now d2 = Inr d'))"
    by (rule advance_terminal_cases [OF assms])
  have "dispatches d1 = dispatches d" using complete_source_attempt_frame [OF c] by auto
  moreover have "dispatches d' = dispatches d1"
    using alt by (auto simp: start_semantic_retry_def complete_root_task_def result_simps
        split: if_split_asm dest!: complete_source_assignment_frame)
  ultimately show ?thesis by simp
qed

lemma advance_terminal_boundary:
  assumes "stage_terminal_boundary env au c boundary outc now prepared d = Inr (settled, d')"
  shows "dispatches_advance d d'"
proof (rule stage_terminal_boundary_cases [OF assms])
  fix d1 bs d2 d3 d4 t
  assume "close_source_dispatch (authority_identity au) (na_team_revision_id au) now CBoundary d = Inr d1"
  then have "dispatches_advance d d1" by (rule advance_close_source)
  also assume "advance_terminal_checkpoint_state au outc boundary now
       (map_option (\<lambda>(b, p). sb_attempt_id b) prepared) (d1\<lparr>boundaries := bs\<rparr>) = Inr d2"
  then have "dispatches d2 = dispatches d1" by (auto dest: advance_terminal_state)
  then have "dispatches_advance d1 d2" by (rule dispatches_advance_same)
  also assume "if outc \<noteq> Retry \<and> as_parent_assignment_id (na_assignment au) \<noteq> None
     then \<exists>w. settled = Some w \<and> settle_wave_member_for_checkpoint au boundary outc now d2 = Inr (w, d3)
     else settled = None \<and> d3 = d2"
  then have "dispatches_advance d2 d3"
    by (auto simp: settle_wave_member_for_checkpoint_def result_simps split: if_split_asm intro: dispatches_advance_same)
  also assume "case prepared of None \<Rightarrow> d4 = d3 | Some (b, p) \<Rightarrow> stage_starting_dispatch env b p d3 = Inr d4"
  then have "dispatches_advance d3 d4" by (auto split: option.split_asm intro: advance_stage)
  also assume "append_task_event env (boundary_accepted_event au c outc (tk_status t) now) d4 = Inr d'"
  then have "dispatches_advance d4 d'" by (rule advance_append_event)
  finally show ?thesis .
qed

lemma checkpoint_advance:
  assumes "commit_checkpoint env probe deps fx au rq d = Inr (r, d')"
  shows "dispatches_advance d d'"
proof (rule commit_checkpoint_cases [OF assms])
  fix prepared cs d1 d2 d3 settled
  assume f: "stage_file_references (checkpoint_id_of au fx) (cq_files rq) (d\<lparr>checkpoints := cs\<rparr>) = Inr d1"
    and l: "advance_latest_checkpoint au (checkpoint_id_of au fx) (at_latest_checkpoint_id (na_attempt au)) d1 = Inr d2"
    and e: "append_task_event env
      (checkpoint_event au (checkpoint_id_of au fx) rq (cq_files rq) (env_now env)) d2 = Inr d3"
    and b: "case cq_outcome rq of None \<Rightarrow> settled = None \<and> d' = d3
     | Some outc \<Rightarrow> stage_terminal_boundary env au (checkpoint_id_of au fx) (boundary_id_of au) outc
         (env_now env) prepared d3 = Inr (settled, d')"
  have "dispatches_advance d d3"
    using stage_file_references_frame [OF f] advance_latest_frame [OF l] append_task_event_frame [OF e]
    by (auto intro: dispatches_advance_same)
  also have "dispatches_advance d3 d'" using b by (auto split: option.split_asm intro: advance_terminal_boundary)
  finally show ?thesis .
qed

lemma delegation_advance:
  assumes "commit_delegation_wave env probe deps fx au rq d = Inr (r, d')"
  shows "dispatches_advance d d'"
proof (rule commit_delegation_wave_cases [OF assms])
  fix ms
  assume "stage_delegation_wave env au (delegation_wave_id_of fx) (attempt_wait_id_of fx) ms (dd_now deps) d = Inr d'"
  then show ?thesis
  proof (rule stage_delegation_wave_cases)
    fix fs d2 d3
    let ?d1 = "d\<lparr>waves := waves d @ [new_wave_row au (delegation_wave_id_of fx) (dd_now deps)],
      assignments := assignments d @ map pw_assignment ms, attempts := attempts d @ map pw_attempt ms,
      wave_members := wave_members d @
        map (\<lambda>(i, m). new_wave_member_row au (delegation_wave_id_of fx) i m) (List.enumerate 0 ms),
      assignment_files := fs\<rparr>"
    assume b: "consume_assignment_budget au (length ms) ?d1 = Inr d2"
      and s: "fold_result (stage_child_dispatch env au) ms d2 = Inr d3"
      and w: "select_parent_wait au (delegation_wave_id_of fx) (attempt_wait_id_of fx) (dd_now deps) d3 = Inr d'"
    have "dispatches_advance d d2"
      using b by (auto simp: consume_assignment_budget_def result_simps intro: dispatches_advance_same)
    also have "dispatches_advance d2 d3"
      by (rule dispatches_advance_fold [OF s]) (simp add: stage_child_dispatch_Inr advance_stage)
    also have "dispatches_advance d3 d'"
    proof -
      obtain ws where sus: "suspend_current_attempt_on_wait (authority_identity au) (attempt_wait_id_of fx)
            (na_team_revision_id au) (dd_now deps) CDelegation (d3\<lparr>waits := ws\<rparr>) = Some d'"
        using w unfolding select_parent_wait_def by (auto simp: result_simps)
      show ?thesis using advance_suspend [OF sus] by (simp add: dispatches_advance_def)
    qed
    finally show ?thesis .
  qed
qed

lemma join_advance:
  assumes "settle_delegation_wave wave now d = Inr (r, d')"
  shows "dispatches_advance d d'"
proof (cases r)
  case False
  then have "d' = d" using assms by (auto simp: settle_delegation_wave_def split: option.split_asm)
  then show ?thesis by simp
next
  case True
  have won: "settle_delegation_wave wave now d = Inr (True, d')" using assms True by simp
  obtain w x d1 where cl: "claim_complete_wave w now d = Some d1" and wt: "clear_parent_wave_wait w x d1 = Some d'"
    by (rule settle_delegation_wave_True [OF won])
  have "dispatches d1 = dispatches d"
    using cl by (auto simp: claim_complete_wave_def map_option_eq_Some bind_eq_Some_conv split: if_split_asm)
  moreover have "dispatches d' = dispatches d1" using clear_parent_wave_wait_frame [OF wt] by auto
  ultimately show ?thesis by (simp add: dispatches_advance_same)
qed

text \<open>Waits and their sources.\<close>

lemma open_human_advance:
  assumes "open_human_request env probe fx au rq d = Inr (r, d')"
  shows "dispatches_advance d d'"
proof (rule open_human_request_steps [OF assms])
  fix hs fs ws d2
  assume sus: "suspend_current_attempt_on_wait (authority_identity au) (human_wait_id_of fx)
         (na_team_revision_id au) (env_now env) CHumanRequestWait
         (d\<lparr>human_requests := hs, human_request_files := fs, waits := ws\<rparr>) = Some d2"
    and ap: "append_task_event env (human_request_opened_event au r rq (env_now env)) d2 = Inr d'"
  have "dispatches_advance d d2" using advance_suspend [OF sus] by (simp add: dispatches_advance_def)
  also note advance_append_event [OF ap]
  finally show ?thesis .
qed

lemma persist_resolution_advance:
  assumes "persist_human_request_resolution env h r due d = Inr (won, d')"
  shows "dispatches_advance d d'"
proof -
  consider "d' = d" | hs d1 where "consume_exact_human_wait h (d\<lparr>human_requests := hs\<rparr>) = Some d1"
    "append_task_event env (human_terminal_event h r) d1 = Inr d'"
    using assms unfolding persist_human_request_resolution_def
    by (auto split: if_split_asm option.split_asm elim!: and_then_InrE simp: require_Inr_iff)
  then show ?thesis
  proof cases
    case (2 hs d1)
    have "dispatches d1 = dispatches d"
      using 2(1) by (auto simp: consume_exact_human_wait_def clear_current_attempt_wait_def bind_eq_Some_conv
          map_option_eq_Some split: option.splits)
    then have "dispatches_advance d d1" by (rule dispatches_advance_same)
    also note advance_append_event [OF 2(2)]
    finally show ?thesis .
  qed simp
qed

lemma resolve_human_advance:
  "resolve_human_request env lib task q responses actor surface d = Inr (x, d') \<Longrightarrow> dispatches_advance d d'"
  unfolding resolve_human_request_def
  by (auto split: if_split_asm option.split_asm elim!: and_then_InrE simp: result_simps
      intro: persist_resolution_advance)

lemma expire_human_advance:
  "expire_human_request env q signal now d = Inr (x, d') \<Longrightarrow> dispatches_advance d d'"
  unfolding expire_human_request_def
  by (auto split: if_split_asm option.split_asm elim!: and_then_InrE simp: result_simps
      intro: persist_resolution_advance)

lemma command_operation_advance:
  assumes "runtime_ok (env_event_hash env) d" and "run_command_operation env p d = Inr d'"
  shows "dispatches_advance d d'"
proof -
  consider "dispatches d' = dispatches d"
    | i w tr now reason s u where "suspend_current_attempt_on_wait i w tr now reason s = Some u"
      "dispatches s = dispatches d" "dispatches d' = dispatches u"
    using command_operation_frame [OF assms] by blast
  then show ?thesis
  proof cases
    case 2
    then show ?thesis using advance_suspend [OF 2(1)] by (simp add: dispatches_advance_def)
  qed (rule dispatches_advance_same)
qed

text \<open>Task control.\<close>

lemma advance_close_after:
  assumes "close_current_task_dispatches task reason now ov s = Inr (ids, d1)" and "dispatches s = dispatches d"
  shows "dispatches_advance d d1"
  using advance_close_all [OF assms(1)] assms(2) by (simp add: dispatches_advance_def)

lemma pause_task_advance:
  assumes "pause_task env task revision control actor esrc d = Inr (signals, d')"
  shows "dispatches_advance d d'"
proof -
  obtain t ts closed d1 where "read_control_task task d = Inr t"
    and "update_task_to_paused t control actor (env_now env) d = Inr (Some ts)"
    and cl: "close_current_task_dispatches (tk_task_id t) CPaused (env_now env) Map.empty (d\<lparr>tasks := ts\<rparr>) = Inr (closed, d1)"
    and e: "append_task_event env (control_event TASK_PAUSED [(''pause_reason'', JStr ''paused_by_operator'')]
        ''Paused by operator.'' (tk_task_id t) revision control actor esrc (env_now env)) d1 = Inr d'"
    using assms unfolding pause_task_def
    by (auto elim!: and_then_InrE split: option.split_asm simp: as_task_control_conflict_Inr)
  have "dispatches_advance d d1" by (rule advance_close_after [OF cl]) simp
  also note advance_append_event [OF e]
  finally show ?thesis .
qed

lemma workspace_pause_advance:
  assumes "pause_task_for_unavailable_workspace env task workspace d = Inr (paused, d')"
  shows "dispatches_advance d d'"
proof -
  consider "d' = d" | t ts revision closed d1 where
    "find (\<lambda>t. tk_task_id t = task \<and> tk_status t = TaskRunning) (tasks d) = Some t"
    "update_all ck_task (\<lambda>t. tk_task_id t = task \<and> tk_status t = TaskRunning)
       (workspace_paused_task workspace (env_now env)) (tasks d) = Inr ts"
    "close_current_task_dispatches task CPaused (env_now env) Map.empty (d\<lparr>tasks := ts\<rparr>) = Inr (closed, d1)"
    "append_task_event env (workspace_paused_event task revision (tk_control_revision t + 1) (env_now env)) d1 = Inr d'"
    using assms unfolding pause_task_for_unavailable_workspace_def
    by (auto elim!: and_then_InrE split: option.split_asm)
  then show ?thesis
  proof cases
    case (2 t ts revision closed d1)
    have "dispatches_advance d d1" by (rule advance_close_after [OF 2(3)]) simp
    also note advance_append_event [OF 2(4)]
    finally show ?thesis .
  qed simp
qed

lemma cancel_human_advance:
  assumes "cancel_human_request env t w request actor esrc d = Inr d'"
  shows "dispatches d' = dispatches d"
  using assms unfolding cancel_human_request_def
  by (auto elim!: and_then_InrE split: option.split_asm dest!: append_task_event_frame)

lemma cancel_source_advance:
  assumes ok: "runtime_ok (env_event_hash env) d"
    and c: "cancel_attempt_wait_source env t w actor esrc d = Inr (signal, d')"
  shows "dispatches_advance d d'"
proof -
  consider request where "cancel_human_request env t w request actor esrc d = Inr d'"
    | run s b where "request_command_run_cancellation env (tk_task_id t) run actor esrc True True d = Inr ((s, b), d')"
    | wave where "cancel_waiting_delegation_wave t w wave (env_now env) d = Inr d'"
    using c unfolding cancel_attempt_wait_source_def
    by (auto split: option.split_asm elim!: and_then_InrE)
  then show ?thesis
  proof cases
    case (1 request)
    then show ?thesis using cancel_human_advance dispatches_advance_same by blast
  next
    case (2 run s b)
    then have "run_command_operation env (RequestCancel (tk_task_id t) run actor esrc True True) d = Inr d'" by simp
    then show ?thesis by (rule command_operation_advance [OF ok])
  next
    case (3 wave)
    then show ?thesis unfolding cancel_waiting_delegation_wave_def
      by (auto elim!: and_then_InrE split: option.split_asm intro!: dispatches_advance_same)
  qed
qed

lemma cancel_each_wait_advance:
  assumes "runtime_ok (env_event_hash env) d" "task_is_cancelled (tk_task_id t) d" "no_current_dispatch (tk_task_id t) d"
    and "cancel_each_wait env t actor esrc ws d = Inr (signals, d')"
    and "\<forall>w \<in> set ws. w \<in> W \<and> aw_task_id w = tk_task_id t" "set (waits d) \<subseteq> W" "inj_on aw_wait_id W"
  shows "dispatches_advance d d'"
  using assms
proof (induction ws arbitrary: d signals)
  case (Cons w ws)
  obtain signal d1 d2 signals' where src: "cancel_attempt_wait_source env t w actor esrc d = Inr (signal, d1)"
    and cd: "clear_and_delete_attempt_wait w d1 = Inr d2"
    and rest: "cancel_each_wait env t actor esrc ws d2 = Inr (signals', d')"
    using Cons.prems(4) by (auto elim!: and_then_InrE)
  have one: "cancel_each_wait env t actor esrc [w] d = Inr ((case signal of None \<Rightarrow> [] | Some s \<Rightarrow> [s]), d2)"
    using src cd by (simp split: option.split)
  have w: "\<forall>v \<in> set [w]. v \<in> W \<and> aw_task_id v = tk_task_id t" using Cons.prems(5) by simp
  note step = cancel_each_wait_ok [OF Cons.prems(1,2,3) one w Cons.prems(6,7)]
  have can: "task_is_cancelled (tk_task_id t) d2" using step Cons.prems(2) by (simp add: task_is_cancelled_def)
  have "\<forall>v \<in> set (waits d). aw_wait_id v = aw_wait_id w \<longrightarrow> v = w"
    using Cons.prems(5,6,7) by (auto dest: inj_onD)
  then have sub: "set (waits d2) \<subseteq> set (waits d)"
    using cancel_wait_step [OF Cons.prems(1,2) _ _ src cd] Cons.prems(5) by simp
  have "dispatches_advance d d1" by (rule cancel_source_advance [OF Cons.prems(1) src])
  also have "dispatches_advance d1 d2"
    using cd unfolding clear_and_delete_attempt_wait_def clear_current_attempt_wait_def
    by (auto simp: result_simps map_option_eq_Some intro: dispatches_advance_same)
  also have "dispatches_advance d2 d'"
    by (rule Cons.IH [OF _ can _ rest]) (use step sub Cons.prems(5,6,7) in auto)
  finally show ?case .
qed simp

lemma cancel_task_advance:
  assumes rt0: "runtime_ok (env_event_hash env) d"
    and ca: "cancel_task env task revision control actor esrc d = Inr (signals, d')"
  shows "dispatches_advance d d'"
proof -
  obtain t ts closed d1 sigs d2 d3 d4 where rt: "read_control_task task d = Inr t"
    and up: "update_task_to_cancelled t control (env_now env) d = Inr (Some ts)"
    and cl: "close_current_task_dispatches (tk_task_id t) CCancelled (env_now env) Map.empty (d\<lparr>tasks := ts\<rparr>) = Inr (closed, d1)"
    and cw: "cancel_attempt_waits env t actor esrc d1 = Inr (sigs, d2)"
    and ce: "cancel_execution_rows (tk_task_id t) (env_now env) d2 = Inr d3"
    and cr: "cancel_pending_replan_transition t (env_now env) d3 = Inr d4"
    and e: "append_task_event env (control_event TASK_CANCELLED [] ''Cancelled by operator.'' (tk_task_id t)
        revision control actor esrc (env_now env)) d4 = Inr d'"
    using ca unfolding cancel_task_def
    by (auto elim!: and_then_InrE split: option.split_asm simp: as_task_control_conflict_Inr)
  have t: "t \<in> set (tasks d)" using read_control_task_Inr [OF rt] by blast
  let ?t = "cancelled_task (env_now env) t"
  have ts: "ts = replace_row t ?t (tasks d)" "ck_task ?t"
    using update_task_Some [OF controller_ok_parts(4) [OF runtime_ok_parts(1) [OF rt0]] t up [unfolded update_task_to_cancelled_def]]
    by blast+
  have "runtime_ok (env_event_hash env) (d\<lparr>tasks := ts\<rparr>)"
    unfolding ts(1) by (rule runtime_ok_task [OF rt0 t _ ts(2)]) (simp_all add: cancelled_task_def)
  then have ok1: "runtime_ok (env_event_hash env) d1" by (rule close_dispatches_runtime_ok [OF _ cl]) simp
  obtain ds as where d1: "d1 = d\<lparr>tasks := ts, dispatches := ds, attempts := as\<rparr>"
    and c: "all_current_task_dispatches_closed (tk_task_id t) d1"
    using close_current_task_dispatches_frame [OF cl] by auto
  have "?t \<in> set ts" using t by (simp add: ts(1) set_replace_row)
  then have can1: "task_is_cancelled (tk_task_id t) d1"
    unfolding task_is_cancelled_def d1 by (intro bexI [of _ ?t]) (simp_all add: cancelled_task_def)
  have each: "cancel_each_wait env t actor esrc (read_current_attempt_waits (tk_task_id t) d1) d1 = Inr (sigs, d2)"
    using cw unfolding cancel_attempt_waits_def by (auto elim!: and_then_InrE split: if_split_asm)
  have inj: "inj_on aw_wait_id (set (waits d1))"
    by (rule keyed_inj_on [OF lanes_ok_keys(3) [OF runtime_ok_parts(4) [OF ok1]]])
  have "dispatches_advance d d1" by (rule advance_close_after [OF cl]) simp
  also have "dispatches_advance d1 d2"
    by (rule cancel_each_wait_advance [OF ok1 can1 closed_no_current_dispatch [OF c] each _ subset_refl inj])
      (use read_current_attempt_waits_task in blast)
  also have "dispatches_advance d2 d3"
    using ce unfolding cancel_execution_rows_def by (auto elim!: and_then_InrE intro: dispatches_advance_same)
  also have "dispatches_advance d3 d4"
    using cr by (auto simp: cancel_pending_replan_transition_def and_then_Inr_iff intro: dispatches_advance_same)
  also note advance_append_event [OF e]
  finally show ?thesis .
qed

text \<open>Activity, work plans and steers.\<close>

lemma refresh_activity_advance:
  assumes "refresh_node_activity au now d = Inr (r, d')"
  shows "dispatches_advance d d'"
proof -
  obtain ts where up: "update_where (\<lambda>t. dispatch_matches (authority_identity au) t \<and>
          exact_node_operation_authority_exists au d) (touch_activity now) (dispatches d) = Some ts"
    and d': "d' = d\<lparr>dispatches := ts\<rparr>"
    using assms unfolding refresh_node_activity_def
    by (auto elim!: and_then_InrE split: option.split_asm simp: require_Inr_iff)
  show ?thesis unfolding dispatches_advance_def d'
    by (simp, rule rows_advance_update [OF up]) (simp add: dispatch_matches_def)
qed

lemma work_plan_advance:
  assumes "set_assignment_work_plan env au rq d = Inr (r, d')"
  shows "dispatches_advance d d'"
proof (cases "d' = d")
  case False
  obtain revision d1 d2 where ad: "advance_work_plan_revision au d = Inr (revision, d1)"
    and re: "replace_work_plan_rows au rq revision (env_now env) d1 = Inr d2"
    and ap: "append_task_event env (work_plan_event au rq revision (env_now env)) d2 = Inr d'"
    using assms False unfolding set_assignment_work_plan_def by (auto elim!: and_then_InrE split: if_split_asm)
  have "dispatches d1 = dispatches d"
    using ad unfolding advance_work_plan_revision_def
    by (auto elim!: and_then_InrE split: option.split_asm if_split_asm simp: Let_def)
  moreover have "dispatches d2 = dispatches d1"
    using re unfolding replace_work_plan_rows_def Let_def by (auto elim!: and_then_InrE split: if_split_asm)
  ultimately have "dispatches_advance d d2" by (simp add: dispatches_advance_same)
  also note advance_append_event [OF ap]
  finally show ?thesis .
qed simp

lemma steer_advance:
  assumes st: "steer_product_task_member env lib digest adapters task member rq actor src d d' = Inr (r, d'')"
  shows "dispatches_advance d' d''"
proof (cases "d'' = d'")
  case False
  let ?event = "product_action_id digest [''member-steer-event'', sq_action_id rq]"
  obtain q where re: "record_delivered_steer env lib q rq ?event actor src d' = Inr d''"
    using st False unfolding steer_product_task_member_def Let_def
    by (auto split: option.split_asm if_split_asm steer_outcome.split_asm elim!: and_then_InrE)
  show ?thesis
    by (rule record_delivered_steer_Inr [OF re]) (auto intro: dispatches_advance_same dest!: append_task_event_as_frame)
qed simp

text \<open>Openings.\<close>

lemma claims_keep_dispatches:
  "claim_human_request_continuation n p d = Inr (Some d') \<Longrightarrow> dispatches d' = dispatches d"
  "claim_command_run_continuation n p d = Inr (Some d') \<Longrightarrow> dispatches d' = dispatches d"
  "claim_delegation_wave_continuation n p d = Inr (Some d') \<Longrightarrow> dispatches d' = dispatches d"
  "claim_replan_continuation n p d = Inr (Some d') \<Longrightarrow> dispatches d' = dispatches d"
  unfolding claim_human_request_continuation_def claim_command_run_continuation_def
    claim_delegation_wave_continuation_def claim_replan_continuation_def
  by (auto split: prompt_trigger.split_asm option.split_asm elim!: and_then_InrE)

lemma runtime_failure_advance:
  assumes "pause_task_for_runtime_transition_failure env src now details code d = Inr (closed, d')"
  shows "dispatches_advance d d'"
proof (cases "find (\<lambda>t. tk_status t = TaskRunning \<and> src t d) (tasks d)")
  case None
  then show ?thesis using assms by (simp add: pause_task_for_runtime_transition_failure_def)
next
  case (Some t)
  obtain ts d1 e where
    cl: "close_current_task_dispatches (tk_task_id t) CPaused now Map.empty (d\<lparr>tasks := ts\<rparr>) = Inr (closed, d1)"
    and ev: "append_task_event env e d1 = Inr d'"
    using assms Some unfolding pause_task_for_runtime_transition_failure_def Let_def
    by (auto elim!: and_then_InrE)
  have "dispatches_advance d d1" by (rule advance_close_after [OF cl]) simp
  also note advance_append_event [OF ev]
  finally show ?thesis .
qed

lemma ordinary_advance:
  assumes claim: "\<And>n p d d'. claim n p d = Inr (Some d') \<Longrightarrow> dispatches d' = dispatches d"
    and recorder: "\<And>k code d closed d'. recorder k code d = Inr (closed, d') \<Longrightarrow> dispatches_advance d d'"
    and op: "open_ordinary_successor env render reader claim recorder default_code k x d d' = Inr (r, d'')"
  shows "dispatches_advance d' d''"
proof -
  have commit: "dispatches_advance d' d''"
    if cm: "commit_ordinary_dispatch_if_current env claim False None n p d' = Inr (won, d'')" for n p won
  proof -
    consider "d'' = d'" | ts d1 where "claim n p (d'\<lparr>tasks := ts\<rparr>) = Inr (Some d1)"
      "stage_starting_dispatch env (successor_basis n None) p d1 = Inr d''"
      using cm unfolding commit_ordinary_dispatch_if_current_def
      by (auto elim!: and_then_InrE split: option.split_asm)
    then show ?thesis
    proof cases
      case (2 ts d1)
      have "dispatches_advance d' d1" using claim [OF 2(1)] by (simp add: dispatches_advance_same)
      also note advance_stage [OF 2(2)]
      finally show ?thesis .
    qed simp
  qed
  show ?thesis
    using op unfolding open_ordinary_successor_def
    by (auto elim!: and_then_InrE split: sum.split_asm option.split_asm prod.split_asm intro: commit recorder)
qed

lemma root_stage_advance:
  assumes st: "stage_root_dispatch_if_current env resume n p d = Inr (won, d')"
  shows "dispatches_advance d d'"
proof (cases won)
  case False
  with st have "d' = d" using stage_root_False by simp
  then show ?thesis by simp
next
  case True
  obtain ts ss where
    up: "update_checked ck_task (root_task_claimable n d) (advanced_root_task n p) (tasks d) = Inr (Some ts)"
    and cl: "claim_root_dispatch_source n (pr_dispatch_id p) d = Some ss"
    and stg: "stage_starting_dispatch env (root_basis n resume) p (d\<lparr>tasks := ts, task_starts := ss\<rparr>) = Inr d'"
    using st True unfolding stage_root_dispatch_if_current_def
    by (auto split: option.split_asm sum.split_asm failure.split_asm elim!: and_then_InrE)
  from advance_stage [OF stg] show ?thesis by (simp add: dispatches_advance_def)
qed

lemma opening_advance:
  assumes "opening_step H s r d d' d''"
  shows "dispatches_advance d' d''"
  using assms
proof cases
  case (open_human env lib render k x)
  show ?thesis
    by (rule ordinary_advance [OF claims_keep_dispatches(1) _ open_human(3) [unfolded opening_defs]])
      (auto simp: pause_failed_human_request_continuation_def intro: runtime_failure_advance)
next
  case (open_command env render k x)
  show ?thesis
    by (rule ordinary_advance [OF claims_keep_dispatches(2) _ open_command(3) [unfolded opening_defs]])
      (auto simp: pause_failed_command_run_continuation_def intro: runtime_failure_advance)
next
  case (open_wave env render k x)
  show ?thesis
    by (rule ordinary_advance [OF claims_keep_dispatches(3) _ open_wave(3) [unfolded opening_defs]])
      (auto simp: pause_failed_delegation_wave_continuation_def intro: runtime_failure_advance)
next
  case (open_replan env render f k x)
  show ?thesis
    by (rule ordinary_advance [OF claims_keep_dispatches(4) _ open_replan(3)])
      (auto simp: record_opening_failure_def elim!: and_then_InrE intro: dispatches_advance_same)
next
  case (open_start env root k x)
  then show ?thesis unfolding open_root_dispatch_def
    by (auto elim!: and_then_InrE split: sum.split_asm option.split_asm prod.split_asm if_split_asm
        simp: pause_failed_task_start_def intro: root_stage_advance dispatches_advance_same)
qed

lemma initial_root_advance:
  assumes "stage_initial_root_dispatch env render task x d = Inr (p, d')"
  shows "dispatches_advance d d'"
proof -
  obtain n q won where "stage_root_dispatch_if_current env None n q d = Inr (won, d')"
    using assms unfolding stage_initial_root_dispatch_def
    by (auto split: option.split_asm if_split_asm elim!: and_then_InrE)
  then show ?thesis by (rule root_stage_advance)
qed

lemma continue_advance:
  assumes ok0: "lanes_ok d" and ok: "system_ok (env_event_hash env) d'"
    and c: "continue_planned_task env deps task revision control resume d d' = Inr (opened, d'')"
  shows "dispatches_advance d' d''"
  using c
proof (cases rule: continue_planned_cases)
  case (root plan x)
  then show ?thesis unfolding continue_paused_root_dispatch_def
    by (auto split: if_split_asm elim!: and_then_InrE intro: root_stage_advance)
next
  case (lanes plan cs)
  have "plan_covers plan" using read_plan_Inr [OF lanes(1) ok0] by blast
  then have "dispatches d'' = dispatches d' @ map opened_row cs"
    using commit_paused_effect [OF _ lanes(2) prepare_Inr [OF lanes(3)] ok lanes(4)] by blast
  then show ?thesis by (simp add: dispatches_advance_def)
qed

lemma manifest_advance:
  "ensure_replan_manifest_current env project k d = Inr (b, d') \<Longrightarrow> dispatches_advance d d'"
  unfolding ensure_replan_manifest_current_def record_manifest_failure_def mark_manifest_current_def
  by (auto split: option.split_asm sum.split_asm bool.split_asm if_split_asm elim!: and_then_InrE
      intro!: dispatches_advance_same)

lemma watchdog_pause_advance:
  assumes "commit_watchdog_pause env k src reason code d = Inr (r, d')"
  shows "dispatches_advance d d'"
proof -
  consider "d' = d" | ts closed ov d1 e where
    "close_current_task_dispatches (wk_task_id k) CPaused (env_now env) ov (d\<lparr>tasks := ts\<rparr>) = Inr (closed, d1)"
    "append_task_event env e d1 = Inr d'"
    using assms unfolding commit_watchdog_pause_def
    by (auto elim!: and_then_InrE split: option.split_asm sum.split_asm failure.split_asm prod.split_asm)
  then show ?thesis
  proof cases
    case (2 ts closed ov d1 e)
    have "dispatches_advance d d1" by (rule advance_close_after [OF 2(1)]) simp
    also note advance_append_event [OF 2(2)]
    finally show ?thesis .
  qed simp
qed

lemma recover_advance:
  assumes ok: "system_ok (env_event_hash env) d2"
    and re: "recover_stale_dispatch env prep settings observed dispatch w d d1 d2 = Inr (outcome, d')"
  shows "dispatches_advance d2 d'"
  using re
proof (cases rule: recover_cases)
  case (replaced n p)
  obtain t us where t: "t \<in> set (dispatches d2)" "superseded_dispatch n d2 t"
    and ds: "dispatches d' = replace_row t (close_dispatch_row (env_now env) CWatchdogSuperseded t) (dispatches d2) @ us"
    using commit_replacement_effect [OF ok replaced(3)] by blast
  have "dispatch_is_active t" using t(2) by (simp add: superseded_dispatch_def Let_def dispatch_is_active_def)
  then have "rows_advance (dispatches d2) (replace_row t (close_dispatch_row (env_now env) CWatchdogSuperseded t) (dispatches d2))"
    using t(1) by (intro rows_advance_replace) simp_all
  then show ?thesis unfolding dispatches_advance_def ds using rows_advance_append by (rule rows_advance_trans)
qed (auto intro: watchdog_pause_advance)

text \<open>The start of a provider session.\<close>

lemma dispatch_keyed: "system_ok H d \<Longrightarrow> keyed dt_dispatch_id (dispatches d)"
  by (rule lanes_ok_keys(2) [OF runtime_ok_parts(4) [OF system_ok_parts(1)]])

lemma generation_rewritten_advance:
  assumes ok: "system_ok (env_event_hash env) d"
    and g: "generation_rewritten env task s n due t t' d d'" and adv: "dispatch_advances t t'"
    and t': "same_dispatch t' t" "dispatch_is_active t' = dispatch_is_active t"
  shows "dispatches_advance d d'"
proof -
  have "t \<in> set (dispatches d)" using g by (simp add: generation_rewritten_def)
  then show ?thesis unfolding dispatches_advance_def
    using generation_rewritten_effect [OF ok g t'] rows_advance_replace [OF _ adv] by simp
qed

lemma generation_starting:
  "generation_rewritten env task s n due t t' d d' \<Longrightarrow> dt_status t = Starting \<and> dispatch_is_active t \<and>
     dt_provider_start_revision t = sd_revision s \<and> dt_dispatch_id t = sd_dispatch_id s \<and> t \<in> set (dispatches d)"
  by (simp add: generation_rewritten_def start_generation_is_current_def dispatch_is_active_def)

lemma accept_advance:
  assumes ok: "system_ok (env_event_hash env) d"
    and ac: "accept_provider_start_if_current env task s n due now d = Inr (r, d')"
  shows "dispatches_advance d d'"
  using dispatch_keyed [OF ok] ac
proof (cases rule: accept_cases)
  case (won t)
  show ?thesis
    by (rule generation_rewritten_advance [OF ok won(2)]) (use generation_starting [OF won(2)] in simp_all)
qed simp

lemma rotate_advance:
  assumes ok: "system_ok (env_event_hash env) d"
    and ro: "rotate_provider_start_after_failure env s c retry kind code d = Inr (r, d')"
    and later: "sd_revision s < sd_revision retry"
  shows "dispatches_advance d d'"
  using dispatch_keyed [OF ok] ro
proof (cases rule: rotate_cases)
  case (won t)
  show ?thesis
    by (rule generation_rewritten_advance [OF ok won(2)]) (use later generation_starting [OF won(2)] in simp_all)
qed simp

lemma start_paused_advance:
  assumes "start_paused env s c now code siblings d d'"
  shows "dispatches_advance d d'"
proof -
  obtain k t a d1 d2 where t: "t \<in> set (dispatches d)" "invalid_start_matches s c t"
    and d1: "d1 = d\<lparr>tasks := replace_row k (start_paused_task s code now k) (tasks d),
          dispatches := replace_row t (invalid_start_closed now t) (dispatches d),
          attempts := replace_row a (a\<lparr>at_current_dispatch_id := None\<rparr>) (attempts d)\<rparr>"
    and cs: "close_current_task_dispatches (sc_task_id c) CPaused now Map.empty d1 = Inr (siblings, d2)"
    and ev: "append_task_event env (invalid_start_event s c now code) d2 = Inr d'"
    using assms unfolding start_paused_def by blast
  have "dispatches_advance d d1"
    unfolding dispatches_advance_def d1
    using t by (simp add: rows_advance_replace invalid_start_matches_def)
  also note advance_close_all [OF cs]
  also note advance_append_event [OF ev]
  finally show ?thesis .
qed

lemma pause_invalid_advance:
  assumes ok: "system_ok H d"
    and pa: "pause_invalid_provider_start env s c now code d = Inr (siblings, d')"
  shows "dispatches_advance d d'"
  using ok pa
proof (cases rule: pause_cases)
  case won
  then show ?thesis by (rule start_paused_advance)
qed simp

subsection \<open>Histories\<close>

lemma step_advance:
  assumes "system_step H i d d'" and "system_ok H d"
  shows "dispatches_advance d d'"
proof -
  have rt: "runtime_ok H d" by (rule system_ok_parts(1) [OF assms(2)])
  show ?thesis
    using assms(1)
  proof (cases rule: system_step.cases)
    case st_checkpoint
    then show ?thesis by (auto intro: checkpoint_advance)
  next
    case st_delegate
    then show ?thesis by (auto intro: delegation_advance)
  next
    case st_join
    then show ?thesis by (auto intro: join_advance)
  next
    case st_ask
    then show ?thesis by (auto intro: open_human_advance)
  next
    case st_answer
    then show ?thesis by (auto intro: resolve_human_advance)
  next
    case st_expire
    then show ?thesis by (auto intro: expire_human_advance)
  next
    case st_command
    then show ?thesis using rt by (auto intro: command_operation_advance)
  next
    case st_pause
    then show ?thesis by (auto intro: pause_task_advance)
  next
    case st_cancel
    then show ?thesis using rt by (auto intro: cancel_task_advance)
  next
    case st_workspace
    then show ?thesis by (auto intro: workspace_pause_advance)
  next
    case st_activity
    then show ?thesis by (auto intro: refresh_activity_advance)
  next
    case st_plan
    then show ?thesis by (auto intro: work_plan_advance)
  next
    case st_steer
    then show ?thesis by (auto intro: steer_advance)
  next
    case st_open
    then show ?thesis by (auto intro: opening_advance)
  next
    case st_launch
    then show ?thesis by (auto intro: initial_root_advance)
  next
    case st_continue
    then show ?thesis using assms(2) by (auto intro: continue_advance)
  next
    case st_manifest
    then show ?thesis by (auto intro: manifest_advance)
  next
    case st_watchdog
    then show ?thesis using assms(2) by (auto intro: recover_advance)
  next
    case st_start_accepted
    then show ?thesis using assms(2) by (auto intro: accept_advance)
  next
    case (st_start_rotated env due candidate ss n now fk code b)
    then show ?thesis using assms(2) by (auto intro: rotate_advance simp: next_retry_signal_def)
  next
    case st_start_paused
    then show ?thesis using assms(2) by (auto intro: pause_invalid_advance)
  qed
qed

lemma history_advance:
  assumes "(system_step H i)\<^sup>*\<^sup>* d d'" and "system_ok H d"
  shows "dispatches_advance d d'"
  using assms
proof (induction rule: rtranclp_induct)
  case (step d1 d2)
  have "system_ok H d1" using history_keeps_system [OF step(1,4)] by (simp add: keeps_system_def)
  then show ?case using step step_advance dispatches_advance_trans by blast
qed simp

text \<open>
  A start generation is spent when its Dispatch is past it: it no longer starts, or its revision is
  later. No transaction takes a spent generation.
\<close>

definition generation_spent :: "start_due \<Rightarrow> db \<Rightarrow> bool" where
  "generation_spent s d \<longleftrightarrow>
     (\<exists>t \<in> set (dispatches d). dt_dispatch_id t = sd_dispatch_id s \<and>
        (dt_status t \<noteq> Starting \<or> sd_revision s < dt_provider_start_revision t))"

lemma generation_spent_forward:
  assumes "dispatches_advance d d'" and "generation_spent s d"
  shows "generation_spent s d'"
proof -
  obtain t u where t: "t \<in> set (dispatches d)" "dt_dispatch_id t = sd_dispatch_id s"
      "dt_status t \<noteq> Starting \<or> sd_revision s < dt_provider_start_revision t"
    and u: "u \<in> set (dispatches d')" "dispatch_advances t u"
    using assms unfolding generation_spent_def dispatches_advance_def rows_advance_def by blast
  have "dt_dispatch_id u = sd_dispatch_id s"
    using u(2) t(2) by (simp add: dispatch_advances_def same_opening_def)
  moreover have "dt_status u \<noteq> Starting \<or> sd_revision s < dt_provider_start_revision u"
    using t(3) u(2) by (cases "dt_status t") (auto simp: dispatch_advances_def)
  ultimately show ?thesis using u(1) by (auto simp: generation_spent_def)
qed

lemma generation_spent_not_starting:
  assumes "keyed dt_dispatch_id (dispatches d)" and "generation_spent s d"
    and "t \<in> set (dispatches d)" "dt_dispatch_id t = sd_dispatch_id s"
  shows "dt_status t \<noteq> Starting \<or> dt_provider_start_revision t \<noteq> sd_revision s"
proof -
  obtain u where u: "u \<in> set (dispatches d)" "dt_dispatch_id u = sd_dispatch_id s"
      "dt_status u \<noteq> Starting \<or> sd_revision s < dt_provider_start_revision u"
    using assms(2) by (auto simp: generation_spent_def)
  have "u = t" by (rule keyed_unique [OF assms(1) u(1) assms(3)]) (simp add: u assms)
  then show ?thesis using u(3) by auto
qed

lemma generation_spent_candidate:
  assumes "keyed dt_dispatch_id (dispatches d)" and "generation_spent s d"
  shows "read_provider_start_candidate s d = None"
proof (rule ccontr)
  assume "read_provider_start_candidate s d \<noteq> None"
  then obtain t where "t \<in> set (dispatches d)" "dt_dispatch_id t = sd_dispatch_id s"
    "dt_status t = Starting" "dt_provider_start_revision t = sd_revision s"
    unfolding read_provider_start_candidate_def
    by (auto simp: bind_eq_Some_conv split: if_split_asm dest!: find_Some_D)
  then show False using generation_spent_not_starting [OF assms] by blast
qed

text \<open>A transaction that takes a generation: the acceptance, the rotation or the pause that wins.\<close>

inductive start_taken :: "(event_row \<Rightarrow> string) \<Rightarrow> start_due \<Rightarrow> db \<Rightarrow> db \<Rightarrow> bool"
  for H :: "event_row \<Rightarrow> string" and s :: start_due where
  taken_accept: "env_event_hash env = H \<Longrightarrow>
     accept_provider_start_if_current env task s attempt_count at now d = Inr (Some acceptance, d') \<Longrightarrow> start_taken H s d d'"
| taken_rotate: "env_event_hash env = H \<Longrightarrow>
     rotate_provider_start_after_failure env s candidate (next_retry_signal ss s attempt_count now) fk code d = Inr (True, d') \<Longrightarrow>
     start_taken H s d d'"
| taken_pause: "env_event_hash env = H \<Longrightarrow>
     pause_invalid_provider_start env s candidate now failure_code d = Inr (siblings, d') \<Longrightarrow> d' \<noteq> d \<Longrightarrow>
     start_taken H s d d'"

text \<open>It finds the generation unspent and spends it; it is a step of the controller.\<close>

lemma start_taken_spends:
  assumes tk: "start_taken H s d d'" and ok: "system_ok H d"
  shows "\<not> generation_spent s d \<and> generation_spent s d' \<and> system_step H i d d'"
proof -
  have rewritten: "\<not> generation_spent s d \<and> generation_spent s d'"
    if g: "generation_rewritten env task s n due t t' d d'" and H: "env_event_hash env = H"
      and t': "same_dispatch t' t" "dispatch_is_active t' = dispatch_is_active t"
      and sp: "dt_status t' \<noteq> Starting \<or> sd_revision s < dt_provider_start_revision t'" for env task n due t t'
  proof
    note t = generation_starting [OF g]
    show "\<not> generation_spent s d" using generation_spent_not_starting [OF dispatch_keyed [OF ok]] t by blast
    have "dispatches d' = replace_row t t' (dispatches d)"
      using generation_rewritten_effect [OF _ g t'] ok H by simp
    then have "t' \<in> set (dispatches d')" using t by (simp add: set_replace_row)
    moreover have "dt_dispatch_id t' = sd_dispatch_id s" using t t'(1) by (simp add: same_dispatch_def)
    ultimately show "generation_spent s d'" using sp by (auto simp: generation_spent_def)
  qed
  show ?thesis
    using tk
  proof cases
    case (taken_accept env task n at now a)
    have "\<not> generation_spent s d \<and> generation_spent s d'"
      using dispatch_keyed [OF ok] taken_accept(2)
    proof (cases rule: accept_cases)
      case (won t)
      show ?thesis
        by (rule rewritten [OF won(2) taken_accept(1)]) (use generation_starting [OF won(2)] in simp_all)
    qed simp
    then show ?thesis using system_step.st_start_accepted [OF taken_accept] by blast
  next
    case (taken_rotate env c ss n now fk code)
    have "\<not> generation_spent s d \<and> generation_spent s d'"
      using dispatch_keyed [OF ok] taken_rotate(2)
    proof (cases rule: rotate_cases)
      case (won t)
      show ?thesis
        by (rule rewritten [OF won(2) taken_rotate(1)])
          (use generation_starting [OF won(2)] in \<open>simp_all add: next_retry_signal_def\<close>)
    qed simp
    then show ?thesis using system_step.st_start_rotated [OF taken_rotate] by blast
  next
    case (taken_pause env c now code siblings)
    have "\<not> generation_spent s d \<and> generation_spent s d'"
      using ok taken_pause(2)
    proof (cases rule: pause_cases)
      case lost
      then show ?thesis using taken_pause(3) by simp
    next
      case won
      obtain k t a d1 d2 where t: "t \<in> set (dispatches d)" "invalid_start_matches s c t"
        and d1: "d1 = d\<lparr>tasks := replace_row k (start_paused_task s code now k) (tasks d),
              dispatches := replace_row t (invalid_start_closed now t) (dispatches d),
              attempts := replace_row a (a\<lparr>at_current_dispatch_id := None\<rparr>) (attempts d)\<rparr>"
        and cs: "close_current_task_dispatches (sc_task_id c) CPaused now Map.empty d1 = Inr (siblings, d2)"
        and ev: "append_task_event env (invalid_start_event s c now code) d2 = Inr d'"
        using won unfolding start_paused_def by blast
      have m: "dt_dispatch_id t = sd_dispatch_id s" "dt_status t = Starting" "dt_provider_start_revision t = sd_revision s"
        using t(2) by (simp_all add: invalid_start_matches_def)
      have "generation_spent s d1" unfolding generation_spent_def d1
        by (rule bexI [of _ "invalid_start_closed now t"]) (use t m in \<open>simp_all add: set_replace_row\<close>)
      moreover have "dispatches_advance d1 d'"
        using advance_close_all [OF cs] advance_append_event [OF ev] by (rule dispatches_advance_trans)
      ultimately have "generation_spent s d'" using generation_spent_forward by blast
      moreover have "\<not> generation_spent s d"
        using generation_spent_not_starting [OF dispatch_keyed [OF ok] _ t(1)] m by blast
      ultimately show ?thesis by blast
    qed
    then show ?thesis using system_step.st_start_paused [OF taken_pause(1,2)] by blast
  qed
qed

subsection \<open>Properties\<close>

text \<open>
  C5. The life of a Dispatch. Over every history of the controller's transactions a Dispatch stays
  in its table with the same identity, opening and provider; it starts, opens and closes in this
  order and never goes back; its start revision and its activity revision never decrease, an opened
  Dispatch keeps its generation and the time its provider accepted, and a closed Dispatch never
  changes again.
\<close>

theorem dispatch_life_moves_forward:
  assumes "system_ok H d" and "(system_step H i)\<^sup>*\<^sup>* d d'" and "t \<in> set (dispatches d)"
  shows "\<exists>!u. u \<in> set (dispatches d') \<and> dt_dispatch_id u = dt_dispatch_id t \<and> dispatch_advances t u"
proof -
  have adv: "dispatches_advance d d'" by (rule history_advance [OF assms(2,1)])
  have "system_ok H d'" using history_keeps_system [OF assms(2,1)] by (simp add: keeps_system_def)
  then have key: "keyed dt_dispatch_id (dispatches d')" by (rule dispatch_keyed)
  obtain u where u: "u \<in> set (dispatches d')" "dispatch_advances t u"
    using adv assms(3) unfolding dispatches_advance_def rows_advance_def by blast
  moreover have "dt_dispatch_id u = dt_dispatch_id t" using u(2) by (simp add: dispatch_advances_def same_opening_def)
  ultimately show ?thesis using keyed_unique [OF key] by metis
qed

text \<open>
  C3. A start generation is taken once. After a provider start was accepted, rotated to its next
  generation or paused for good, no history brings the generation back: its signal finds no
  candidate, and no acceptance, rotation or pause of it ever wins again, whatever candidate it was
  prepared from.
\<close>

theorem start_generation_taken_once:
  assumes "system_ok H d" and "start_taken H s d d1" and "(system_step H i)\<^sup>*\<^sup>* d1 d2"
  shows "read_provider_start_candidate s d2 = None \<and> (\<forall>d3. \<not> start_taken H s d2 d3)"
proof -
  have sp: "generation_spent s d1" and st: "system_step H i d d1"
    using start_taken_spends [OF assms(2,1), of i] by blast+
  have ok1: "system_ok H d1" using step_keeps [OF st assms(1)] by (simp add: keeps_system_def)
  have ok2: "system_ok H d2" using history_keeps_system [OF assms(3) ok1] by (simp add: keeps_system_def)
  have "generation_spent s d2" by (rule generation_spent_forward [OF history_advance [OF assms(3) ok1] sp])
  then show ?thesis
    using generation_spent_candidate [OF dispatch_keyed [OF ok2]] start_taken_spends [OF _ ok2, of s] by blast
qed

end
