(* ===== verification/StarterProofs.thy ===== *)
theory StarterProofs
  imports DispatchHistory
begin

text \<open>
  The handler of a due start as a whole: it is a history of the controller's transactions, its
  backoff is bounded, and it calls the provider at most once, for the exact generation, with a
  session that is recorded or stopped in the end.
\<close>

subsection \<open>The handler is a history\<close>

text \<open>What the other transactions may do between those of the handler.\<close>

definition between_is_history :: "(event_row \<Rightarrow> string) \<Rightarrow> 'i itself \<Rightarrow> start_world \<Rightarrow> bool" where
  "between_is_history H i w \<longleftrightarrow> (\<forall>k d. (system_step H i)\<^sup>*\<^sup>* d (wd_between w k d))"

lemma between_history: "between_is_history H i w \<Longrightarrow> (system_step H i)\<^sup>*\<^sup>* d (wd_between w k d)"
  by (simp add: between_is_history_def)

lemma history_between:
  "between_is_history H i w \<Longrightarrow> (system_step H i)\<^sup>*\<^sup>* d e \<Longrightarrow> (system_step H i)\<^sup>*\<^sup>* d (wd_between w k e)"
  by (meson between_history rtranclp_trans)

lemma history_step: "(system_step H i)\<^sup>*\<^sup>* d e \<Longrightarrow> system_step H i e f \<Longrightarrow> (system_step H i)\<^sup>*\<^sup>* d f"
  by (rule rtranclp.rtrancl_into_rtrancl)

lemma failure_run_history:
  assumes "env_event_hash env = H"
  shows "(system_step H i)\<^sup>*\<^sup>* d (snd (snd (record_provider_failure env w s c kind binding fk code d)))"
proof (cases "rotate_provider_start_after_failure env s c
    (next_retry_signal (wd_settings w) s (sc_attempt_count c) (wd_clock w)) fk code d")
  case (Inl f)
  then show ?thesis by (simp add: record_provider_failure_def Let_def)
next
  case (Inr r)
  obtain b d' where "r = (b, d')" by (cases r)
  with Inr have "system_step H i d d'" using system_step.st_start_rotated [OF assms] by blast
  then show ?thesis using Inr \<open>r = (b, d')\<close> by (simp add: record_provider_failure_def Let_def r_into_rtranclp)
qed

lemma reconcile_run_history:
  assumes H: "env_event_hash env = H" and w: "between_is_history H i w"
  shows "(system_step H i)\<^sup>*\<^sup>* d (snd (snd (reconcile_acceptance env w s c kind binding d)))"
proof -
  have "(system_step H i)\<^sup>*\<^sup>* d (wd_between w 4 d)" by (rule between_history [OF w])
  moreover have "(system_step H i)\<^sup>*\<^sup>* d (wd_between w 5 (wd_between w 4 d))"
    by (rule history_between [OF w calculation])
  ultimately show ?thesis unfolding reconcile_acceptance_def Let_def
    by (auto split: option.split intro: rtranclp_trans [OF _ failure_run_history [OF H]])
qed

lemma acceptance_run_history:
  assumes H: "env_event_hash env = H" and w: "between_is_history H i w"
  shows "(system_step H i)\<^sup>*\<^sup>* d (snd (snd (record_acceptance env w s c kind binding d)))"
proof -
  have acc: "(system_step H i)\<^sup>*\<^sup>* d d1"
    if "accept_provider_start_if_current env (sc_task_id c) s (sc_attempt_count c) (sc_persisted_due_at c)
      (wd_clock w) d = Inr (a, d1)" for a d1
    using system_step.st_start_accepted [OF H that] by blast
  show ?thesis unfolding record_acceptance_def
    by (auto split: sum.split prod.split commit_report.split option.split
        intro: reconcile_run_history [OF H w] acc rtranclp_trans [OF acc reconcile_run_history [OF H w]])
qed

lemma pause_run_history:
  assumes H: "env_event_hash env = H"
  shows "(system_step H i)\<^sup>*\<^sup>* d (snd (snd (pause_invalid_start env w s c code d)))"
  unfolding pause_invalid_start_def
  by (auto split: sum.split intro: r_into_rtranclp system_step.st_start_paused [OF H])

lemma with_effects_state [simp]: "snd (with_effects es r) = snd r" "fst (with_effects es r) = es @ fst r"
  by (simp_all add: with_effects_def)

lemma invoke_run_history:
  assumes H: "env_event_hash env = H" and w: "between_is_history H i w"
  shows "(system_step H i)\<^sup>*\<^sup>* d (snd (snd (invoke_provider_start env w s c kind binding d)))"
proof -
  note b = between_history [OF w, of d 3]
  show ?thesis unfolding invoke_provider_start_def
    by (auto split: start_answer.split intro: rtranclp_trans [OF b failure_run_history [OF H]]
        rtranclp_trans [OF b acceptance_run_history [OF H w]])
qed

lemma candidate_run_history:
  assumes H: "env_event_hash env = H" and w: "between_is_history H i w"
    and r: "read_candidate_and_adapter env w s d = Inl r"
  shows "(system_step H i)\<^sup>*\<^sup>* d (snd (snd r))"
  using r unfolding read_candidate_and_adapter_def
  by (auto split: option.split_asm sum.split_asm
      intro: rtranclp_trans [OF between_history [OF w] pause_run_history [OF H]])

lemma start_run_history:
  assumes H: "env_event_hash env = H" and w: "between_is_history H i w"
  shows "(system_step H i)\<^sup>*\<^sup>* d (snd (snd (start_due_dispatch env w s d)))"
proof (cases "read_candidate_and_adapter env w s d")
  case (Inl r)
  then show ?thesis using candidate_run_history [OF H w Inl] by (simp add: start_due_dispatch_def)
next
  case (Inr x)
  obtain c kind where x: "x = (c, kind)" by (cases x)
  note b0 = between_history [OF w, of d 0]
  note b1 = history_between [OF w b0, of "Suc 0"]
  note b2 = history_between [OF w b1, of 2]
  show ?thesis unfolding start_due_dispatch_def Inr x
    by (auto simp: Let_def split: sum.split option.split
        intro: b0 rtranclp_trans [OF b1 pause_run_history [OF H]] rtranclp_trans [OF b2 invoke_run_history [OF H w]])
qed

lemma recovered_run_history:
  assumes H: "env_event_hash env = H" and w: "between_is_history H i w"
  shows "(system_step H i)\<^sup>*\<^sup>* d (snd (snd (handle_recovered_due env w s d)))"
proof (cases "read_candidate_and_adapter env w s d")
  case (Inl r)
  then show ?thesis using candidate_run_history [OF H w Inl] by (simp add: handle_recovered_due_def)
next
  case (Inr x)
  obtain c kind where x: "x = (c, kind)" by (cases x)
  note b1 = history_between [OF w between_history [OF w, of d 0], of "Suc 0"]
  show ?thesis unfolding handle_recovered_due_def Inr x
    by (auto simp: Let_def intro: rtranclp_trans [OF b1 failure_run_history [OF H]])
qed

lemma handler_history:
  assumes "env_event_hash env = H" and "between_is_history H i w"
    and "schedule_or_start_dispatch env w now s st d = (st', es, err, d')"
  shows "(system_step H i)\<^sup>*\<^sup>* d d'"
  using assms(3) start_run_history [OF assms(1,2), of d s] recovered_run_history [OF assms(1,2), of d s]
  unfolding schedule_or_start_dispatch_def by (auto split: if_split_asm)

subsection \<open>The calls of the provider\<close>

definition is_start_call :: "start_effect \<Rightarrow> bool" where
  "is_start_call e = (case e of CallStart _ _ _ \<Rightarrow> True | _ \<Rightarrow> False)"

lemma is_start_call_simps [simp]:
  "\<not> is_start_call (ScheduleDeadline x)" "\<not> is_start_call (PublishSignal x)" "\<not> is_start_call (IssueBinding b)"
  "\<not> is_start_call (RevokeBinding b)" "\<not> is_start_call (RevokeDispatch y)" "is_start_call (CallStart k y n)"
  "\<not> is_start_call (StopProvider k y)"
  by (simp_all add: is_start_call_def)

definition start_calls :: "start_run \<Rightarrow> start_effect list" where
  "start_calls r = filter is_start_call (fst r)"

lemma start_calls_parts [simp]:
  "start_calls (with_effects es r) = filter is_start_call es @ start_calls r"
  "filter is_start_call (revoke b) = []"
  "start_calls (record_provider_failure env w s c kind b fk code d) = []"
  "start_calls (reconcile_acceptance env w s c kind b d) = []"
  "start_calls (record_acceptance env w s c kind b d) = []"
  "start_calls (pause_invalid_start env w s c fcode d) = []"
  "filter is_start_call (stop_predecessor_if_initial w s c d) = []"
proof -
  show r: "filter is_start_call (revoke b) = []" by (auto simp: revoke_def split: option.split)
  show "start_calls (with_effects es r) = filter is_start_call es @ start_calls r" by (simp add: start_calls_def)
  have f: "start_calls (record_provider_failure env w s c kind b fk code d) = []" for fk code d
    by (auto simp: start_calls_def record_provider_failure_def Let_def r split: sum.split)
  then show "start_calls (record_provider_failure env w s c kind b fk code d) = []" .
  have p: "filter is_start_call (publish_watchdog x s a) = []" for x a by (simp add: publish_watchdog_def)
  have q: "start_calls (reconcile_acceptance env w s c kind b d) = []" for d
    using f by (auto simp: reconcile_acceptance_def Let_def p start_calls_def split: option.split)
  then show "start_calls (reconcile_acceptance env w s c kind b d) = []" .
  show "start_calls (record_acceptance env w s c kind b d) = []"
    using q by (auto simp: record_acceptance_def p r start_calls_def split: sum.split prod.split commit_report.split option.split)
  show "start_calls (pause_invalid_start env w s c fcode d) = []"
    by (auto simp: start_calls_def pause_invalid_start_def filter_empty_conv split: sum.split)
  show "filter is_start_call (stop_predecessor_if_initial w s c d) = []"
    by (auto simp: stop_predecessor_if_initial_def stop_watchdog_predecessor_def split: option.split)
qed

text \<open>A session that may run is stopped, or it is the accepted session of an open Dispatch.\<close>

definition session_recorded :: "start_due \<Rightarrow> start_effect list \<Rightarrow> db \<Rightarrow> bool" where
  "session_recorded s es d \<longleftrightarrow>
     (\<exists>revision due. PublishSignal (WatchdogDeadlineChanged (sd_dispatch_id s) revision due) \<in> set es) \<and>
     (\<exists>t \<in> set (dispatches d). dt_dispatch_id t = sd_dispatch_id s \<and> dt_status t = Open \<and>
        dt_provider_start_revision t = sd_revision s \<and> dt_adapter_started_at t \<noteq> None)"

definition session_settled :: "provider_kind \<Rightarrow> start_due \<Rightarrow> start_effect list \<Rightarrow> db \<Rightarrow> bool" where
  "session_settled kind s es d \<longleftrightarrow>
     StopProvider kind (sd_dispatch_id s) \<in> set es \<or> session_recorded s es d"

lemma uncertain_failure_settled:
  "session_settled kind s (fst (record_provider_failure env w s c kind b UncertainAcceptance code d)) d'"
  by (auto simp: session_settled_def record_provider_failure_def Let_def split: sum.split)

lemma reconciled_settled:
  "session_settled kind s (fst (reconcile_acceptance env w s c kind b d))
     (snd (snd (reconcile_acceptance env w s c kind b d)))"
proof (cases "read_provider_start_acceptance_after_commit s c (wd_between w 4 d)")
  case None
  then show ?thesis using uncertain_failure_settled by (simp add: reconcile_acceptance_def Let_def)
next
  case (Some a)
  then have "\<exists>t \<in> set (dispatches (wd_between w 4 d)). dt_dispatch_id t = sd_dispatch_id s \<and> dt_status t = Open \<and>
      dt_provider_start_revision t = sd_revision s \<and> dt_adapter_started_at t \<noteq> None"
    unfolding read_provider_start_acceptance_after_commit_def
    by (auto simp: bind_eq_Some_conv split: if_split_asm dest!: find_Some_D)
  then show ?thesis
    using Some by (simp add: reconcile_acceptance_def Let_def session_settled_def session_recorded_def publish_watchdog_def)
qed

lemma acceptance_settled:
  assumes ok: "system_ok (env_event_hash env) d"
  shows "session_settled kind s (fst (record_acceptance env w s c kind b d))
     (snd (snd (record_acceptance env w s c kind b d)))"
proof (cases "accept_provider_start_if_current env (sc_task_id c) s (sc_attempt_count c) (sc_persisted_due_at c) (wd_clock w) d")
  case (Inl f)
  then show ?thesis using reconciled_settled by (simp add: record_acceptance_def)
next
  case (Inr x)
  obtain r d1 where x: "x = (r, d1)" by (cases x)
  show ?thesis
  proof (cases "wd_commit w")
    case (CommitRaised kept)
    then show ?thesis using reconciled_settled Inr x by (simp add: record_acceptance_def)
  next
    case CommitReturned
    show ?thesis
    proof (cases r)
      case None
      then show ?thesis using Inr x CommitReturned by (simp add: record_acceptance_def session_settled_def)
    next
      case (Some a)
      have "\<exists>t \<in> set (dispatches d1). dt_dispatch_id t = sd_dispatch_id s \<and> dt_status t = Open \<and>
          dt_provider_start_revision t = sd_revision s \<and> dt_adapter_started_at t \<noteq> None"
        using dispatch_keyed [OF ok] Inr [unfolded x]
      proof (cases rule: accept_cases)
        case (won t)
        note g = generation_starting [OF won(2)]
        have "dispatches d1 = replace_row t (accepted_dispatch (wd_clock w) t) (dispatches d)"
          using generation_rewritten_effect [OF ok won(2)] g by simp
        then show ?thesis using g
          by (intro bexI [of _ "accepted_dispatch (wd_clock w) t"]) (simp_all add: accepted_dispatch_def set_replace_row)
      qed (use Some in simp)
      then show ?thesis using Inr x CommitReturned Some
        by (simp add: record_acceptance_def session_settled_def session_recorded_def publish_watchdog_def)
    qed
  qed
qed

lemma session_settled_more:
  "session_settled kind s es d \<Longrightarrow> set es \<subseteq> set fs \<Longrightarrow> session_settled kind s fs d"
  unfolding session_settled_def session_recorded_def by blast

lemma invoke_calls:
  assumes call: "CallStart k x n \<in> set (fst (invoke_provider_start env w s c kind binding d))"
    and ok: "\<And>d. system_ok (env_event_hash env) d \<Longrightarrow> system_ok (env_event_hash env) (wd_between w 3 d)"
    and sys: "system_ok (env_event_hash env) d"
  shows "k = kind \<and> x = sd_dispatch_id s \<and> n = sd_revision s \<and>
    (session_settled kind s (fst (invoke_provider_start env w s c kind binding d))
       (snd (snd (invoke_provider_start env w s c kind binding d))) \<or>
     (\<exists>code. wd_answer w = StartRefused DefiniteFailure code))"
proof -
  have cur: "provider_start_is_current s c d"
    using call by (auto simp: invoke_provider_start_def split: if_split_asm)
  obtain r where r: "invoke_provider_start env w s c kind binding d =
      with_effects [CallStart kind (sd_dispatch_id s) (sd_revision s)] r" "start_calls r = []"
    "session_settled kind s (fst r) (snd (snd r)) \<or> (\<exists>code. wd_answer w = StartRefused DefiniteFailure code)"
  proof (cases "wd_answer w")
    case StartAccepted
    show thesis by (rule that [of "record_acceptance env w s c kind (Some binding) (wd_between w 3 d)"])
      (use cur StartAccepted acceptance_settled [OF ok [OF sys]] in \<open>simp_all add: invoke_provider_start_def\<close>)
  next
    case (StartRefused fk code)
    show thesis
      by (rule that [of "record_provider_failure env w s c kind (Some binding) fk code (wd_between w 3 d)"])
        (use cur StartRefused uncertain_failure_settled in \<open>cases fk; simp add: invoke_provider_start_def\<close>)+
  next
    case StartRaised
    show thesis
      by (rule that [of "record_provider_failure env w s c kind (Some binding) UncertainAcceptance StartUncertain (wd_between w 3 d)"])
        (use cur StartRaised uncertain_failure_settled in \<open>simp_all add: invoke_provider_start_def\<close>)
  next
    case StartCancelled
    show thesis
      by (rule that [of "([RevokeBinding binding, StopProvider kind (sd_dispatch_id s)], Some (RuntimeError ''CancelledError''), d)"])
        (use cur StartCancelled in \<open>simp_all add: invoke_provider_start_def session_settled_def start_calls_def\<close>)
  qed
  have "CallStart k x n \<notin> set (fst r)"
  proof
    assume "CallStart k x n \<in> set (fst r)"
    then have "CallStart k x n \<in> set (start_calls r)" by (simp add: start_calls_def)
    then show False using r(2) by simp
  qed
  then have "CallStart k x n = CallStart kind (sd_dispatch_id s) (sd_revision s)" using call r(1) by simp
  moreover have "session_settled kind s (fst (invoke_provider_start env w s c kind binding d))
       (snd (snd (invoke_provider_start env w s c kind binding d))) \<or>
     (\<exists>code. wd_answer w = StartRefused DefiniteFailure code)"
    using r(3) session_settled_more [of kind s "fst r" "snd (snd r)" "CallStart kind (sd_dispatch_id s) (sd_revision s) # fst r"]
    unfolding r(1) by auto
  ultimately show ?thesis by simp
qed

lemma start_run_calls:
  "length (start_calls (start_due_dispatch env w s d)) \<le> 1"
  "start_calls (handle_recovered_due env w s d) = []"
proof -
  have c: "start_calls r = []" if "read_candidate_and_adapter env w s d = Inl r" for r
    using that unfolding read_candidate_and_adapter_def
    by (auto split: option.split_asm sum.split_asm) (simp add: start_calls_def)
  have i: "length (start_calls (invoke_provider_start env w s c kind binding d)) \<le> 1" for c kind binding d
    by (auto simp: invoke_provider_start_def start_calls_def [of "(_, _)"] split: start_answer.split)
  show "length (start_calls (start_due_dispatch env w s d)) \<le> 1"
    using c i by (auto simp: start_due_dispatch_def Let_def start_calls_def [of "(_, _)"]
        split: sum.split prod.split option.split)
  show "start_calls (handle_recovered_due env w s d) = []"
    using c by (auto simp: handle_recovered_due_def Let_def split: sum.split prod.split)
qed

lemma start_due_cases:
  assumes call: "CallStart k x n \<in> set (fst (start_due_dispatch env w s d))"
  obtains c kind binding es where "read_provider_start_candidate s d = Some c"
    "sc_provider_kind c = Some kind" "kind \<in> set (wd_adapters w)" "filter is_start_call es = []"
    "start_due_dispatch env w s d = with_effects es
       (invoke_provider_start env w s c kind binding (wd_between w 2 (wd_between w 1 (wd_between w 0 d))))"
proof -
  have none: "CallStart k x n \<notin> set (fst r)" if "start_calls r = []" for r
    using that by (auto simp: start_calls_def filter_empty_conv)
  obtain c kind where c: "read_candidate_and_adapter env w s d = Inr (c, kind)"
  proof (cases "read_candidate_and_adapter env w s d")
    case (Inl r)
    then have "start_calls r = []" unfolding read_candidate_and_adapter_def
      by (auto split: option.split_asm sum.split_asm) (simp add: start_calls_def)
    then show thesis using call none Inl by (simp add: start_due_dispatch_def)
  next
    case (Inr y)
    then show thesis using that by (cases y) simp
  qed
  have rd: "read_provider_start_candidate s d = Some c" "sc_provider_kind c = Some kind" "kind \<in> set (wd_adapters w)"
    using c unfolding read_candidate_and_adapter_def select_adapter_def
    by (auto split: option.split_asm sum.split_asm if_split_asm)
  show thesis
  proof (cases "wd_prepare w s c (wd_between w 0 d)")
    case (Inl f)
    then have "CallStart k x n \<notin> set (fst (start_due_dispatch env w s d))"
      using none by (auto simp: start_due_dispatch_def c Let_def split: option.split)
    then show thesis using call by simp
  next
    case (Inr binding)
    show thesis
      by (rule that [OF rd, of "IssueBinding binding # stop_predecessor_if_initial w s c (wd_between w 1 (wd_between w 0 d))" binding])
        (simp_all add: start_due_dispatch_def c Inr Let_def)
  qed
qed

subsection \<open>Properties\<close>

text \<open>
  C4. A provider session is recorded or stopped. However the provider answers, however the commit of
  its acceptance ends, and whatever other transactions commit in between, the handler of a due start
  keeps the invariant and the lives of the Dispatches. It calls the provider at most once, only for
  a signal that is due, not recovered and not in flight, whose candidate the database has, and for
  that exact Dispatch and generation. Unless the provider definitely refused, the session is stopped
  in the end, or the Dispatch is open at this generation and its watchdog deadline is published.
\<close>

theorem started_session_is_settled:
  assumes "system_ok H d" and "env_event_hash env = H" and "between_is_history H i w"
    and "schedule_or_start_dispatch env w now s st d = (st', es, err, d')"
  shows "system_ok H d' \<and> dispatches_advance d d' \<and> length (filter is_start_call es) \<le> 1 \<and>
    (\<forall>kind x n. CallStart kind x n \<in> set es \<longrightarrow>
       x = sd_dispatch_id s \<and> n = sd_revision s \<and> sd_due_at s \<le> now \<and> s \<notin> ds_recovered st \<and>
       sd_dispatch_id s \<notin> ds_in_flight st \<and> kind \<in> set (wd_adapters w) \<and>
       (\<exists>c. read_provider_start_candidate s d = Some c \<and> sc_provider_kind c = Some kind) \<and>
       (session_settled kind s es d' \<or> (\<exists>code. wd_answer w = StartRefused DefiniteFailure code)))"
proof (intro conjI allI impI)
  have hist: "(system_step H i)\<^sup>*\<^sup>* d d'" by (rule handler_history [OF assms(2,3,4)])
  show "system_ok H d'" using history_keeps_system [OF hist assms(1)] by (simp add: keeps_system_def)
  show "dispatches_advance d d'" by (rule history_advance [OF hist assms(1)])
  show "length (filter is_start_call es) \<le> 1"
    using assms(4) start_run_calls [of env w s d] unfolding schedule_or_start_dispatch_def
    by (auto split: if_split_asm simp: start_calls_def)
next
  fix kind x n assume call: "CallStart kind x n \<in> set es"
  have rec: "CallStart kind x n \<notin> set (fst (handle_recovered_due env w s d))"
    using start_run_calls(2) [of env w s d] by (auto simp: start_calls_def filter_empty_conv)
  have run: "start_due_dispatch env w s d = (es, err, d')" and
    due: "sd_due_at s \<le> now" "s \<notin> ds_recovered st" "sd_dispatch_id s \<notin> ds_in_flight st"
    using assms(4) call rec unfolding schedule_or_start_dispatch_def by (auto split: if_split_asm)
  have "CallStart kind x n \<in> set (fst (start_due_dispatch env w s d))" using run call by simp
  then obtain c k binding fs where c: "read_provider_start_candidate s d = Some c" "sc_provider_kind c = Some k"
      "k \<in> set (wd_adapters w)" "filter is_start_call fs = []"
    and r: "start_due_dispatch env w s d = with_effects fs
       (invoke_provider_start env w s c k binding (wd_between w 2 (wd_between w 1 (wd_between w 0 d))))"
    by (rule start_due_cases)
  let ?d = "wd_between w 2 (wd_between w 1 (wd_between w 0 d))"
  let ?r = "invoke_provider_start env w s c k binding ?d"
  have keep: "system_ok H (wd_between w j e)" if "system_ok H e" for j e
    using history_keeps_system [OF between_history [OF assms(3)] that] by (simp add: keeps_system_def)
  have ok: "system_ok (env_event_hash env) ?d" using keep assms(1,2) by simp
  have "(es, err, d') = (fs @ fst ?r, snd ?r)" using r run by (simp add: with_effects_def)
  then have es: "es = fs @ fst ?r" "d' = snd (snd ?r)" by (metis prod.inject, metis prod.inject snd_conv)
  have "CallStart kind x n \<notin> set fs" using c(4) by (auto simp: filter_empty_conv)
  then have "CallStart kind x n \<in> set (fst ?r)" using call es(1) by simp
  from invoke_calls [OF this _ ok] keep assms(2)
  have i: "kind = k" "x = sd_dispatch_id s" "n = sd_revision s"
    "session_settled k s (fst ?r) d' \<or> (\<exists>code. wd_answer w = StartRefused DefiniteFailure code)"
    using es(2) by simp_all
  show "x = sd_dispatch_id s" "n = sd_revision s" "sd_due_at s \<le> now" "s \<notin> ds_recovered st"
    "sd_dispatch_id s \<notin> ds_in_flight st" "kind \<in> set (wd_adapters w)" using i due c by simp_all
  show "\<exists>c. read_provider_start_candidate s d = Some c \<and> sc_provider_kind c = Some kind" using c i by blast
  show "session_settled kind s es d' \<or> (\<exists>code. wd_answer w = StartRefused DefiniteFailure code)"
    using i session_settled_more [of k s "fst ?r" d' es] es(1) by auto
qed

text \<open>
  The backoff of a failed start. The retry is the next revision of the same Dispatch; its delay
  is never negative, never above the maximum, does not shrink from one attempt to the next, and after
  the first failures it doubles until the maximum is reached.
\<close>

theorem retry_backoff_bounds:
  assumes "0 \<le> ss_initial_backoff settings" and "0 \<le> ss_max_backoff settings" and "0 \<le> n"
  shows "sd_dispatch_id (next_retry_signal settings s n now) = sd_dispatch_id s \<and>
    sd_revision (next_retry_signal settings s n now) = sd_revision s + 1 \<and>
    now \<le> sd_due_at (next_retry_signal settings s n now) \<and>
    sd_due_at (next_retry_signal settings s n now) \<le> now + ss_max_backoff settings \<and>
    sd_due_at (next_retry_signal settings s n now) \<le> sd_due_at (next_retry_signal settings s (n + 1) now) \<and>
    (n < 63 \<longrightarrow> retry_delay settings (n + 1) = min (ss_max_backoff settings) (2 * retry_delay settings n))"
proof -
  have mono: "ss_initial_backoff settings * 2 ^ nat (min n 63) \<le> ss_initial_backoff settings * 2 ^ nat (min (n + 1) 63)"
    using assms(1) by (intro mult_left_mono power_increasing nat_mono) auto
  have double: "(2::int) ^ nat (n + 1) = 2 * 2 ^ nat n" using assms(3) by (simp add: nat_add_distrib)
  have "retry_delay settings (n + 1) = min (ss_max_backoff settings) (2 * retry_delay settings n)" if "n < 63"
    using that assms double by (auto simp: retry_delay_def min_def)
  then show ?thesis using assms mono
    by (auto simp: next_retry_signal_def retry_delay_def min_le_iff_disj)
qed

end
