(* ===== verification/StartWitnesses.thy ===== *)
theory StartWitnesses
  imports StarterProofs RecoveryWitnesses "HOL-Library.Code_Target_Nat"
begin

text \<open>
  The root Dispatch of the sample Task while it starts: its second generation is rotated, the third
  is accepted, and the Task is paused; then the handler of its signal.
\<close>

definition sample_starting_dispatch :: dispatch_row where
  "sample_starting_dispatch = sample_dispatch\<lparr>dt_status := Starting, dt_adapter_started_at := None,
     dt_next_provider_start_at := Some 50, dt_provider_start_retry_kind := Some RDefiniteFailure\<rparr>"

definition sample_starting_db :: db where
  "sample_starting_db = sample_db\<lparr>dispatches := [sample_starting_dispatch]\<rparr>"

lemma sample_starting_ok: "system_ok (env_event_hash sample_env) sample_starting_db"
proof -
  have "lanes_ok sample_starting_db"
    by (simp add: lanes_ok_def lanes_wf_def sample_starting_db_def sample_starting_dispatch_def sample_defs
        keyed_def ck_attempt_def ck_dispatch_def ck_dispatch_source_shape_def dispatch_is_active_def
        attempt_owns_dispatch_def sql_eq_def)
  then have "lanes_ok (sample_db\<lparr>dispatches := [sample_starting_dispatch], attempts := attempts sample_db\<rparr>)"
    by (simp add: sample_starting_db_def)
  from runtime_ok_lanes [OF sample_runtime_ok this] have "runtime_ok (env_event_hash sample_env) sample_starting_db"
    by (simp add: sample_starting_db_def)
  then show ?thesis by (rule system_okI) (simp_all add: sample_starting_db_def sample_db_def)
qed

definition sample_start :: start_due where
  "sample_start = \<lparr>sd_dispatch_id = ''d1'', sd_revision = 1, sd_due_at = 50\<rparr>"

definition sample_start_settings :: start_settings where
  "sample_start_settings = \<lparr>ss_initial_backoff = 1, ss_max_backoff = 30, ss_inactivity_timeout = 10\<rparr>"

definition sample_candidate :: start_candidate where
  "sample_candidate = build_provider_start_candidate sample_starting_dispatch sample_task 50 None"

abbreviation sample_retry :: start_due where
  "sample_retry \<equiv> next_retry_signal sample_start_settings sample_start 1 100"

definition sample_rotated :: "(bool \<times> db) result" where
  "sample_rotated = rotate_provider_start_after_failure sample_env sample_start sample_candidate sample_retry
     UncertainAcceptance StartUncertain sample_starting_db"

definition sample_accept :: "db \<Rightarrow> (start_acceptance option \<times> db) result" where
  "sample_accept d = accept_provider_start_if_current sample_env ''t1'' sample_retry 2 102 103 d"

definition sample_start_history :: "((start_acceptance option \<times> runtime_signal list) \<times> db) result" where
  "sample_start_history = and_then sample_rotated (\<lambda>(won, d). and_then (sample_accept d) (\<lambda>(a, d1).
     and_then (sample_stop d1) (\<lambda>(signals, d2). Inr ((if won then a else None, signals), d2))))"

lemma sample_start_runs:
  obtains d a d1 signals d2 where "sample_rotated = Inr (True, d)" "sample_accept d = Inr (Some a, d1)"
    "sample_stop d1 = Inr (signals, d2)"
proof -
  have out: "case sample_start_history of Inl f \<Rightarrow> False | Inr ((a, signals), d) \<Rightarrow> a \<noteq> None" by code_simp
  obtain won d a d1 signals d2 where "sample_rotated = Inr (won, d)" "sample_accept d = Inr (a, d1)"
    "sample_stop d1 = Inr (signals, d2)" "(if won then a else None) \<noteq> None"
    using out unfolding sample_start_history_def by (auto split: sum.split_asm prod.split_asm simp: and_then_Inr_iff)
  then show thesis using that by (cases won; cases a) auto
qed

theorem start_generation_taken_once_witness:
  "\<exists>d a d1. sample_rotated = Inr (True, d) \<and> sample_accept d = Inr (Some a, d1) \<and>
     read_provider_start_candidate sample_start d1 = None \<and>
     (\<forall>d3. \<not> start_taken (env_event_hash sample_env) sample_start d1 d3)"
proof -
  let ?H = "env_event_hash sample_env"
  obtain d a d1 signals d2 where r: "sample_rotated = Inr (True, d)" "sample_accept d = Inr (Some a, d1)"
    by (rule sample_start_runs)
  have tk: "start_taken ?H sample_start sample_starting_db d"
    by (rule taken_rotate [OF refl r(1) [unfolded sample_rotated_def]])
  have "system_step ?H TYPE(unit) d d1" by (rule st_start_accepted [OF refl r(2) [unfolded sample_accept_def]])
  then have "(system_step ?H TYPE(unit))\<^sup>*\<^sup>* d d1" ..
  from start_generation_taken_once [OF sample_starting_ok tk this] r show ?thesis by blast
qed

theorem dispatch_life_moves_forward_witness:
  "\<exists>d signals d1. sample_rotated = Inr (True, d) \<and> sample_stop d = Inr (signals, d1) \<and>
     (\<exists>!u. u \<in> set (dispatches d1) \<and> dt_dispatch_id u = ''d1'' \<and> dispatch_advances sample_starting_dispatch u)"
proof -
  let ?H = "env_event_hash sample_env"
  have out: "case and_then sample_rotated (\<lambda>(won, d). and_then (sample_stop d) (\<lambda>(signals, d1). Inr (won, d1)))
      of Inl f \<Rightarrow> False | Inr (won, d) \<Rightarrow> won" by code_simp
  obtain d signals d1 where r: "sample_rotated = Inr (True, d)" "sample_stop d = Inr (signals, d1)"
    using out by (auto split: sum.split_asm prod.split_asm simp: and_then_Inr_iff)
  have "system_step ?H TYPE(unit) sample_starting_db d"
    by (rule st_start_rotated [OF refl r(1) [unfolded sample_rotated_def]])
  then have "(system_step ?H TYPE(unit))\<^sup>*\<^sup>* sample_starting_db d" ..
  moreover have "system_step ?H TYPE(unit) d d1" by (rule st_pause [OF refl r(2) [unfolded sample_stop_def]])
  ultimately have h: "(system_step ?H TYPE(unit))\<^sup>*\<^sup>* sample_starting_db d1" by (rule rtranclp.rtrancl_into_rtrancl)
  have t: "sample_starting_dispatch \<in> set (dispatches sample_starting_db)" by (simp add: sample_starting_db_def)
  have k: "dt_dispatch_id sample_starting_dispatch = ''d1''" by (simp add: sample_starting_dispatch_def sample_dispatch_def)
  have "\<exists>!u. u \<in> set (dispatches d1) \<and> dt_dispatch_id u = ''d1'' \<and> dispatch_advances sample_starting_dispatch u"
    using dispatch_life_moves_forward [OF sample_starting_ok h t] unfolding k .
  then show ?thesis using r by blast
qed

subsection \<open>The handler\<close>

definition sample_world :: start_world where
  "sample_world = \<lparr>wd_adapters = [ProvCodex], wd_settings = sample_start_settings,
     wd_prepare = (\<lambda>s c d. Inr ''binding''), wd_answer = StartAccepted, wd_commit = CommitReturned,
     wd_clock = 100, wd_between = (\<lambda>k d. d)\<rparr>"

definition sample_handler :: "dispatch_starter \<times> start_run" where
  "sample_handler = schedule_or_start_dispatch sample_env sample_world 60 sample_start
     \<lparr>ds_in_flight = {}, ds_recovered = {}\<rparr> sample_starting_db"

theorem started_session_is_settled_witness:
  "\<exists>st es err d. sample_handler = (st, es, err, d) \<and> CallStart ProvCodex ''d1'' 1 \<in> set es \<and>
     session_settled ProvCodex sample_start es d"
proof -
  obtain st es err d where r: "sample_handler = (st, es, err, d)" by (cases sample_handler)
  have w: "between_is_history (env_event_hash sample_env) TYPE(unit) sample_world"
    by (simp add: between_is_history_def sample_world_def)
  have "CallStart ProvCodex ''d1'' 1 \<in> set (fst (snd sample_handler))" by code_simp
  then have c: "CallStart ProvCodex ''d1'' 1 \<in> set es" by (simp add: r)
  have "wd_answer sample_world = StartAccepted" by (simp add: sample_world_def)
  with started_session_is_settled [OF sample_starting_ok refl w r [unfolded sample_handler_def]] c r show ?thesis
    by fastforce
qed

theorem retry_backoff_bounds_witness:
  "sd_due_at (next_retry_signal sample_start_settings sample_start 3 100) = 108 \<and>
   sd_due_at (next_retry_signal sample_start_settings sample_start 70 100) = 130 \<and>
   100 \<le> sd_due_at (next_retry_signal sample_start_settings sample_start 70 100) \<and>
   retry_delay sample_start_settings 4 = min 30 (2 * retry_delay sample_start_settings 3)"
proof -
  have s: "0 \<le> ss_initial_backoff sample_start_settings" "0 \<le> ss_max_backoff sample_start_settings"
    "ss_max_backoff sample_start_settings = 30"
    by (simp_all add: sample_start_settings_def)
  have "sd_due_at (next_retry_signal sample_start_settings sample_start 3 100) = 108"
    "sd_due_at (next_retry_signal sample_start_settings sample_start 70 100) = 130" by code_simp+
  then show ?thesis
    using retry_backoff_bounds [OF s(1,2), of 70 sample_start 100] retry_backoff_bounds [OF s(1,2), of 3 sample_start 100] s(3)
    by simp
qed

end
