(* ===== verification/PostCommit.thy ===== *)
theory PostCommit
  imports Signals "HOL-Library.AList"
begin

text \<open>
  The in-memory owners of the signals (\<open>runtime/post_commit/router.py\<close>, \<open>health.py\<close> and
  \<open>deadlines.py\<close>): the router, a bounded queue in front of the registered handlers, with its failure
  record, and the scheduler, a registry of timers. Every method runs to its end on one event loop, so
  a method is a function of the object's state; an awaited put on a full queue has no result yet.
\<close>

subsection \<open>Signal types\<close>

fun signal_type_name :: "runtime_signal \<Rightarrow> string" where
  "signal_type_name (TaskStartCommitted _) = ''TaskStartCommitted''"
| "signal_type_name (WaveMemberSettled _) = ''WaveMemberSettled''"
| "signal_type_name (DelegationWaveSettled _) = ''DelegationWaveSettled''"
| "signal_type_name (ReplanCommitted _) = ''ReplanCommitted''"
| "signal_type_name (HumanRequestOpened _) = ''HumanRequestOpened''"
| "signal_type_name (HumanRequestDue _ _) = ''HumanRequestDue''"
| "signal_type_name (HumanRequestTerminal _) = ''HumanRequestTerminal''"
| "signal_type_name (CommandRunPending _) = ''CommandRunPending''"
| "signal_type_name (CommandRunDue _ _) = ''CommandRunDue''"
| "signal_type_name (CommandRunCancellationRequested _ _) = ''CommandRunCancellationRequested''"
| "signal_type_name (CommandRunTerminal _) = ''CommandRunTerminal''"
| "signal_type_name (CommandProcessExited _ _) = ''CommandProcessExited''"
| "signal_type_name (DispatchCleanupRequested _) = ''DispatchCleanupRequested''"
| "signal_type_name (WatchdogDeadlineChanged _ _ _) = ''WatchdogDeadlineChanged''"
| "signal_type_name (WatchdogDue _ _ _) = ''WatchdogDue''"
| "signal_type_name (DispatchStartDue _ _ _) = ''DispatchStartDue''"

definition all_runtime_effect_signal_types :: "string list" where
  "all_runtime_effect_signal_types =
     [''TaskStartCommitted'', ''WaveMemberSettled'', ''DelegationWaveSettled'', ''ReplanCommitted'',
      ''HumanRequestOpened'', ''HumanRequestDue'', ''HumanRequestTerminal'', ''CommandRunPending'',
      ''CommandRunDue'', ''CommandRunCancellationRequested'', ''CommandRunTerminal'',
      ''CommandProcessExited'', ''DispatchCleanupRequested'', ''WatchdogDeadlineChanged'',
      ''WatchdogDue'', ''DispatchStartDue'']"

subsection \<open>Health\<close>

datatype effect_failure_kind =
    CommandOwnerTaskFailed | DispatcherFailed | HandlerFailed | PublishFailed | QueueFull
  | RouterInactive | UnregisteredSignal | UnsupportedSignal

record effect_failure =
  ef_kind :: effect_failure_kind
  ef_signal_type :: string
  ef_source_context :: "(string \<times> context_value) list"
  ef_exception_type :: "string option"
  ef_occurred_at :: time

record effect_health =
  eh_failure_count :: nat
  eh_last_failure :: "effect_failure option"

text \<open>\<open>str.isalnum\<close> on the characters up to U+00FF.\<close>

definition is_alnum :: "char \<Rightarrow> bool" where
  "is_alnum c \<longleftrightarrow> (of_char c :: nat) \<in> {48..57} \<union> {65..90} \<union> {97..122} \<union>
     {170, 178, 179, 181, 185, 186, 188, 189, 190} \<union> {192..214} \<union> {216..246} \<union> {248..255}"

definition sanitize_type_name :: "string option \<Rightarrow> string option" where
  "sanitize_type_name value =
     (case value of None \<Rightarrow> None
      | Some s \<Rightarrow>
          (let kept = take 128 (filter (\<lambda>c. is_alnum c \<or> c = CHR ''.'' \<or> c = CHR ''_'') s)
           in if kept = '''' then None else Some kept))"

definition failure_signal_context ::
    "(time \<Rightarrow> string) \<Rightarrow> runtime_signal option \<Rightarrow> string \<times> (string \<times> context_value) list" where
  "failure_signal_context fmt signal =
     (case signal of None \<Rightarrow> (''RuntimeEffectRouter'', [])
      | Some s \<Rightarrow>
          ((case sanitize_type_name (Some (signal_type_name s)) of None \<Rightarrow> ''unknown'' | Some n \<Rightarrow> n),
           runtime_effect_source_context fmt s))"

definition mark_failure ::
    "(time \<Rightarrow> string) \<Rightarrow> time \<Rightarrow> effect_failure_kind \<Rightarrow> runtime_signal option \<Rightarrow> string option \<Rightarrow>
       effect_health \<Rightarrow> effect_health" where
  "mark_failure fmt now kind signal exn h =
     \<lparr>eh_failure_count = eh_failure_count h + 1,
      eh_last_failure = Some
        \<lparr>ef_kind = kind, ef_signal_type = fst (failure_signal_context fmt signal),
         ef_source_context = snd (failure_signal_context fmt signal),
         ef_exception_type = sanitize_type_name exn, ef_occurred_at = now\<rparr>\<rparr>"

definition health_is_healthy :: "effect_health \<Rightarrow> bool" where
  "health_is_healthy h \<longleftrightarrow> eh_failure_count h = 0"

subsection \<open>The router\<close>

record effect_router =
  ro_routes :: "string list"
  ro_capacity :: nat
  ro_queue :: "runtime_signal list option"
  ro_is_accepting :: bool
  ro_has_entered :: bool
  ro_health :: effect_health

definition default_queue_capacity :: nat where
  "default_queue_capacity = 256"

definition new_effect_router :: "int \<Rightarrow> effect_health \<Rightarrow> effect_router result" where
  "new_effect_router capacity h =
     (if capacity \<le> 0 then Inl (ValueError ''queue_capacity must be positive'')
      else Inr \<lparr>ro_routes = [], ro_capacity = nat capacity, ro_queue = None,
        ro_is_accepting = False, ro_has_entered = False, ro_health = h\<rparr>)"

definition register_route :: "string \<Rightarrow> effect_router \<Rightarrow> effect_router result" where
  "register_route name r =
     (if ro_has_entered r
      then Inl (RuntimeError ''runtime effect routes are immutable after lifespan entry'')
      else if name \<notin> set all_runtime_effect_signal_types
      then Inl (TypeError (''unsupported runtime effect signal type: '' @ name))
      else if name \<in> set (ro_routes r)
      then Inl (ValueError (''runtime effect signal already registered: '' @ name))
      else Inr (r\<lparr>ro_routes := ro_routes r @ [name]\<rparr>))"

definition enter_router :: "effect_router \<Rightarrow> effect_router result" where
  "enter_router r =
     (if ro_has_entered r
      then Inl (RuntimeError ''runtime effect router lifespan cannot be re-entered'')
      else Inr (r\<lparr>ro_has_entered := True, ro_queue := Some [], ro_is_accepting := True\<rparr>))"

definition exit_router :: "effect_router \<Rightarrow> effect_router" where
  "exit_router r = r\<lparr>ro_is_accepting := False, ro_queue := None\<rparr>"

definition router_failure ::
    "(time \<Rightarrow> string) \<Rightarrow> time \<Rightarrow> effect_failure_kind \<Rightarrow> runtime_signal option \<Rightarrow> effect_router \<Rightarrow> effect_router" where
  "router_failure fmt now kind signal r =
     r\<lparr>ro_health := mark_failure fmt now kind signal None (ro_health r)\<rparr>"

text \<open>The queue a signal may go to; \<open>None\<close> has marked the failure.\<close>

definition publication_queue ::
    "(time \<Rightarrow> string) \<Rightarrow> time \<Rightarrow> runtime_signal \<Rightarrow> effect_router \<Rightarrow> runtime_signal list option \<times> effect_router" where
  "publication_queue fmt now s r =
     (if signal_type_name s \<notin> set all_runtime_effect_signal_types
      then (None, router_failure fmt now UnsupportedSignal (Some s) r)
      else if signal_type_name s \<notin> set (ro_routes r)
      then (None, router_failure fmt now UnregisteredSignal (Some s) r)
      else if \<not> ro_is_accepting r \<or> ro_queue r = None
      then (None, router_failure fmt now RouterInactive (Some s) r)
      else (ro_queue r, r))"

text \<open>A nonblocking put raises nothing but a full queue.\<close>

definition publish_signal ::
    "(time \<Rightarrow> string) \<Rightarrow> time \<Rightarrow> runtime_signal \<Rightarrow> effect_router \<Rightarrow> bool \<times> effect_router" where
  "publish_signal fmt now s r =
     (case publication_queue fmt now s r of
        (None, r') \<Rightarrow> (False, r')
      | (Some q, r') \<Rightarrow>
          if ro_capacity r' \<le> length q then (False, router_failure fmt now QueueFull (Some s) r')
          else (True, r'\<lparr>ro_queue := Some (q @ [s])\<rparr>))"

text \<open>\<open>None\<close>: the put waits until the dispatcher has taken a signal.\<close>

definition publish_startup_signal ::
    "(time \<Rightarrow> string) \<Rightarrow> time \<Rightarrow> runtime_signal \<Rightarrow> effect_router \<Rightarrow> (bool \<times> effect_router) option" where
  "publish_startup_signal fmt now s r =
     (case publication_queue fmt now s r of
        (None, r') \<Rightarrow> Some (False, r')
      | (Some q, r') \<Rightarrow>
          if ro_capacity r' \<le> length q then None
          else Some (True, r'\<lparr>ro_queue := Some (q @ [s])\<rparr>))"

text \<open>
  One turn of \<open>_run_dispatcher\<close>: the handler it starts, if a signal waits. A signal without a route
  is a \<open>KeyError\<close>, after which the router accepts nothing.
\<close>

definition run_dispatcher ::
    "(time \<Rightarrow> string) \<Rightarrow> time \<Rightarrow> effect_router \<Rightarrow> runtime_signal option \<times> effect_router" where
  "run_dispatcher fmt now r =
     (case ro_queue r of
        None \<Rightarrow> (None, r)
      | Some [] \<Rightarrow> (None, r)
      | Some (s # q) \<Rightarrow>
          if signal_type_name s \<in> set (ro_routes r) then (Some s, r\<lparr>ro_queue := Some q\<rparr>)
          else (None, r\<lparr>ro_queue := Some q, ro_is_accepting := False,
            ro_health := mark_failure fmt now DispatcherFailed None (Some ''KeyError'') (ro_health r)\<rparr>))"

text \<open>A handler that raised.\<close>

definition handler_raised ::
    "(time \<Rightarrow> string) \<Rightarrow> time \<Rightarrow> runtime_signal \<Rightarrow> string \<Rightarrow> effect_router \<Rightarrow> effect_router" where
  "handler_raised fmt now s exn r =
     r\<lparr>ro_health := mark_failure fmt now HandlerFailed (Some s) (Some exn) (ro_health r)\<rparr>"

subsection \<open>The deadline scheduler\<close>

text \<open>The signals that fall due.\<close>

datatype deadline_signal =
    HumanDue ident time
  | RunDue ident time
  | WatchdogDueAt ident int time
  | StartDueAt ident int time

fun due_signal :: "deadline_signal \<Rightarrow> runtime_signal" where
  "due_signal (HumanDue r at) = HumanRequestDue r at"
| "due_signal (RunDue r at) = CommandRunDue r at"
| "due_signal (WatchdogDueAt x n at) = WatchdogDue x n at"
| "due_signal (StartDueAt x n at) = DispatchStartDue x n at"

fun deadline_at :: "deadline_signal \<Rightarrow> time" where
  "deadline_at (HumanDue r at) = at"
| "deadline_at (RunDue r at) = at"
| "deadline_at (WatchdogDueAt x n at) = at"
| "deadline_at (StartDueAt x n at) = at"

datatype deadline_family = HumanFamily | RunFamily | WatchdogFamily | StartFamily

type_synonym deadline_slot = "deadline_family \<times> ident"

fun deadline_slot :: "deadline_signal \<Rightarrow> deadline_slot" where
  "deadline_slot (HumanDue r at) = (HumanFamily, r)"
| "deadline_slot (RunDue r at) = (RunFamily, r)"
| "deadline_slot (WatchdogDueAt x n at) = (WatchdogFamily, x)"
| "deadline_slot (StartDueAt x n at) = (StartFamily, x)"

fun is_newer_deadline :: "deadline_signal \<Rightarrow> deadline_signal \<Rightarrow> bool result" where
  "is_newer_deadline (WatchdogDueAt _ n _) (WatchdogDueAt _ m _) = Inr (m < n)"
| "is_newer_deadline (StartDueAt _ n _) (StartDueAt _ m _) = Inr (m < n)"
| "is_newer_deadline (HumanDue _ at) (HumanDue _ at') = Inr (at' < at)"
| "is_newer_deadline (RunDue _ at) (RunDue _ at') = Inr (at' < at)"
| "is_newer_deadline _ _ =
     Inl (TypeError ''deadline generations must belong to the same source family'')"

text \<open>
  \<open>dl_deadlines\<close> is the registry, a slot with its signal and the handle of its timer; \<open>dl_timers\<close>
  are the timers of the event loop that were neither cancelled nor run: the handle, the delay and
  the arguments of the callback. A handle is the number of timers made before it.
\<close>

record deadline_timer =
  ti_delay :: time
  ti_slot :: deadline_slot
  ti_signal :: deadline_signal

record deadline_scheduler =
  dl_deadlines :: "(deadline_slot \<times> deadline_signal \<times> nat) list"
  dl_timers :: "(nat \<times> deadline_timer) list"
  dl_next_timer :: nat
  dl_is_accepting :: bool
  dl_has_entered :: bool

definition new_deadline_scheduler :: deadline_scheduler where
  "new_deadline_scheduler = \<lparr>dl_deadlines = [], dl_timers = [], dl_next_timer = 0,
     dl_is_accepting = False, dl_has_entered = False\<rparr>"

definition enter_scheduler :: "deadline_scheduler \<Rightarrow> deadline_scheduler result" where
  "enter_scheduler d =
     (if dl_has_entered d
      then Inl (RuntimeError ''deadline scheduler lifespan cannot be re-entered'')
      else Inr (d\<lparr>dl_has_entered := True, dl_is_accepting := True\<rparr>))"

definition cancel_timer :: "nat \<Rightarrow> deadline_scheduler \<Rightarrow> deadline_scheduler" where
  "cancel_timer timer d = d\<lparr>dl_timers := AList.delete timer (dl_timers d)\<rparr>"

definition exit_scheduler :: "deadline_scheduler \<Rightarrow> deadline_scheduler" where
  "exit_scheduler d =
     (fold (\<lambda>e. cancel_timer (snd (snd e))) (dl_deadlines d) (d\<lparr>dl_is_accepting := False\<rparr>))
       \<lparr>dl_deadlines := []\<rparr>"

definition schedule_deadline ::
    "time \<Rightarrow> deadline_slot \<Rightarrow> deadline_signal \<Rightarrow> deadline_scheduler \<Rightarrow> deadline_scheduler" where
  "schedule_deadline delay slot s d =
     d\<lparr>dl_timers := (dl_next_timer d, \<lparr>ti_delay = delay, ti_slot = slot, ti_signal = s\<rparr>) # dl_timers d,
       dl_next_timer := dl_next_timer d + 1,
       dl_deadlines := AList.update slot (s, dl_next_timer d) (dl_deadlines d)\<rparr>"

definition register_due ::
    "time \<Rightarrow> deadline_signal \<Rightarrow> deadline_scheduler \<Rightarrow> (bool \<times> deadline_scheduler) result" where
  "register_due now s d =
     (if \<not> dl_is_accepting d
      then Inl (RuntimeError ''deadline scheduler is outside its lifespan'')
      else (let slot = deadline_slot s; delay = max 0 (deadline_at s - now) in
        case map_of (dl_deadlines d) slot of
          None \<Rightarrow> Inr (True, schedule_deadline delay slot s d)
        | Some (current, timer) \<Rightarrow>
            if current = s then Inr (False, d)
            else and_then (is_newer_deadline s current) (\<lambda>newer.
              if \<not> newer then Inr (False, d)
              else Inr (True, schedule_deadline delay slot s (cancel_timer timer d)))))"

definition cancel_source :: "deadline_slot \<Rightarrow> deadline_scheduler \<Rightarrow> bool \<times> deadline_scheduler" where
  "cancel_source slot d =
     (case map_of (dl_deadlines d) slot of
        None \<Rightarrow> (False, d)
      | Some (s, timer) \<Rightarrow>
          (True, cancel_timer timer (d\<lparr>dl_deadlines := AList.delete slot (dl_deadlines d)\<rparr>)))"

text \<open>The callback; what it publishes.\<close>

definition publish_if_current ::
    "time \<Rightarrow> deadline_slot \<Rightarrow> deadline_signal \<Rightarrow> deadline_scheduler \<Rightarrow>
       deadline_signal option \<times> deadline_scheduler" where
  "publish_if_current now slot s d =
     (case map_of (dl_deadlines d) slot of
        None \<Rightarrow> (None, d)
      | Some (current, timer) \<Rightarrow>
          if current \<noteq> s then (None, d)
          else if 0 < deadline_at s - now
          then (None, schedule_deadline (deadline_at s - now) slot s d)
          else (Some s, d\<lparr>dl_deadlines := AList.delete slot (dl_deadlines d)\<rparr>))"

text \<open>The event loop runs a timer: its handle is spent.\<close>

definition run_timer ::
    "time \<Rightarrow> nat \<Rightarrow> deadline_scheduler \<Rightarrow> deadline_signal option \<times> deadline_scheduler" where
  "run_timer now timer d =
     (case map_of (dl_timers d) timer of
        None \<Rightarrow> (None, d)
      | Some t \<Rightarrow> publish_if_current now (ti_slot t) (ti_signal t) (cancel_timer timer d))"

end
