(* ===== verification/StartupAudit.thy ===== *)
theory StartupAudit
  imports Starter RootOpening ReplanContinuation PostCommit "HOL-Library.List_Lexorder"
begin

text \<open>
  What a new process does first (\<open>runtime/startup_audit.py\<close>, \<open>runtime/post_commit/bootstrap.py\<close>,
  \<open>dispatch_startup.py\<close>, \<open>external_wait_startup.py\<close>, \<open>delegation_wave_startup.py\<close>): signals live in
  memory only, so the audit reads every kind of recoverable source in pages and publishes its signal
  again. Every page is read in a transaction of its own; other transactions commit between the
  pages. A text is ordered by its characters. The published signals stay published when the audit
  raises.
\<close>

subsection \<open>Pages\<close>

datatype audit_error =
    PageGuardReached
  | OversizedPage
  | CursorNotAdvancing
  | MissingStartTime ident
  | MissingAcceptanceTime ident
  | NotPublished runtime_signal
  | ProjectionNotPublished ident ident
  | TimeoutNotPositive

definition codes :: "string \<Rightarrow> nat list" where
  "codes s = map of_char s"

definition startup_audit_page_size :: nat where
  "startup_audit_page_size = 200"

definition startup_audit_page_guard :: nat where
  "startup_audit_page_guard = 10000"

record 'a audit_page =
  pg_sources :: "'a list"
  pg_next_cursor :: "ident option"

type_synonym 'a page_fetcher = "nat \<Rightarrow> ident option \<Rightarrow> nat \<Rightarrow> audit_error + 'a audit_page"

text \<open>\<open>WHERE id > cursor ORDER BY id LIMIT size\<close> over rows with their key.\<close>

definition after_audit_cursor :: "ident option \<Rightarrow> ident \<Rightarrow> bool" where
  "after_audit_cursor cursor x = (case cursor of None \<Rightarrow> True | Some c \<Rightarrow> codes c < codes x)"

definition select_page :: "(ident \<times> 'a) list \<Rightarrow> ident option \<Rightarrow> nat \<Rightarrow> (ident \<times> 'a) list" where
  "select_page rows cursor limit =
     take limit (sort_key (codes \<circ> fst) (filter (after_audit_cursor cursor \<circ> fst) rows))"

text \<open>A row that lacks its time makes its page raise.\<close>

definition read_page ::
    "(ident \<times> (audit_error + 'a)) list \<Rightarrow> ident option \<Rightarrow> nat \<Rightarrow> audit_error + 'a audit_page" where
  "read_page rows cursor limit =
     (let page = select_page rows cursor limit in
      and_then (map_result snd page) (\<lambda>sources.
        Inr \<lparr>pg_sources = sources,
          pg_next_cursor = if length page = limit then Some (fst (last page)) else None\<rparr>))"

fun route_sources ::
    "('a \<Rightarrow> 's \<Rightarrow> audit_error option \<times> 's) \<Rightarrow> 'a list \<Rightarrow> 's \<Rightarrow> audit_error option \<times> 's" where
  "route_sources route [] s = (None, s)"
| "route_sources route (x # xs) s =
     (case route x s of (Some e, s') \<Rightarrow> (Some e, s') | (None, s') \<Rightarrow> route_sources route xs s')"

text \<open>The loop after \<open>n\<close> pages.\<close>

function audit_pages ::
    "'a page_fetcher \<Rightarrow> ('a \<Rightarrow> 's \<Rightarrow> audit_error option \<times> 's) \<Rightarrow> nat \<Rightarrow> ident option \<Rightarrow> nat \<Rightarrow> 's \<Rightarrow>
       (audit_error + nat) \<times> 's" where
  "audit_pages fetch route n cursor routed s =
     (case fetch n cursor startup_audit_page_size of
        Inl e \<Rightarrow> (Inl e, s)
      | Inr page \<Rightarrow>
          if startup_audit_page_guard \<le> n + 1 then (Inl PageGuardReached, s)
          else if startup_audit_page_size < length (pg_sources page) then (Inl OversizedPage, s)
          else if cursor \<noteq> None \<and> pg_next_cursor page \<noteq> None \<and>
            \<not> after_audit_cursor cursor (the (pg_next_cursor page))
          then (Inl CursorNotAdvancing, s)
          else
            (case route_sources route (pg_sources page) s of
               (Some e, s') \<Rightarrow> (Inl e, s')
             | (None, s') \<Rightarrow>
                 (case pg_next_cursor page of
                    None \<Rightarrow> (Inr (routed + length (pg_sources page)), s')
                  | Some c \<Rightarrow>
                      audit_pages fetch route (n + 1) (Some c) (routed + length (pg_sources page)) s')))"
  by pat_completeness auto

termination
  by (relation "measure (\<lambda>(fetch, route, n, cursor, routed, s). startup_audit_page_guard - n)") auto

declare audit_pages.simps [simp del]

definition audit_startup_source_family ::
    "'a page_fetcher \<Rightarrow> ('a \<Rightarrow> 's \<Rightarrow> audit_error option \<times> 's) \<Rightarrow> 's \<Rightarrow> (audit_error + nat) \<times> 's" where
  "audit_startup_source_family fetch route s = audit_pages fetch route 0 None 0 s"

subsection \<open>Dispatch sources\<close>

type_synonym source_rows = "db \<Rightarrow> (ident \<times> (audit_error + runtime_signal)) list"

definition task_is :: "ident \<Rightarrow> task_status list \<Rightarrow> db \<Rightarrow> bool" where
  "task_is task statuses d \<longleftrightarrow> list_ex (\<lambda>t. tk_task_id t = task \<and> tk_status t \<in> set statuses) (tasks d)"

definition task_start_sources :: source_rows where
  "task_start_sources d =
     map (\<lambda>s. (ts_task_id s, Inr (TaskStartCommitted (ts_task_id s))))
       (filter (\<lambda>s. ts_successor_dispatch_id s = None \<and> task_is (ts_task_id s) [TaskRunning] d \<and>
          list_ex (\<lambda>a. as_task_id a = ts_task_id s \<and> as_assignment_id a = ts_root_assignment_id s)
            (assignments d) \<and>
          idle_lane (ts_task_id s) (ts_root_assignment_id s) (ts_root_attempt_id s) d) (task_starts d))"

definition replan_sources :: source_rows where
  "replan_sources d =
     map (\<lambda>r. (rt_replan_transition_id r, Inr (ReplanCommitted (rt_replan_transition_id r))))
       (filter (\<lambda>r. rt_successor_state r \<notin> {SuccessorOpened, SuccessorCancelled}) (replan_transitions d))"

text \<open>A running Attempt, without a wait, whose current Dispatch is this one.\<close>

definition running_on :: "dispatch_row \<Rightarrow> db \<Rightarrow> bool" where
  "running_on t d \<longleftrightarrow>
     list_ex (\<lambda>a. attempt_owns_dispatch a t \<and> at_status a = AttRunning \<and> at_current_wait_id a = None)
       (attempts d) \<and>
     task_is (dt_task_id t) [TaskRunning] d \<and> dispatch_team_selection_is_current t d"

definition dispatch_start_sources :: source_rows where
  "dispatch_start_sources d =
     map (\<lambda>t. (dt_dispatch_id t,
            case dt_next_provider_start_at t of
              None \<Rightarrow> Inl (MissingStartTime (dt_dispatch_id t))
            | Some due \<Rightarrow> Inr (DispatchStartDue (dt_dispatch_id t) (dt_provider_start_revision t) due)))
       (filter (\<lambda>t. dt_status t = Starting \<and> running_on t d) (dispatches d))"

definition watchdog_sources :: "int \<Rightarrow> source_rows" where
  "watchdog_sources timeout d =
     map (\<lambda>t. (dt_dispatch_id t,
            case dt_adapter_started_at t of
              None \<Rightarrow> Inl (MissingAcceptanceTime (dt_dispatch_id t))
            | Some started \<Rightarrow> Inr (WatchdogDeadlineChanged (dt_dispatch_id t) (dt_node_activity_revision t)
                (calculate_watchdog_due_at started (dt_last_node_activity_at t) timeout))))
       (filter (\<lambda>t. dt_status t = Open \<and> running_on t d \<and>
          \<not> list_ex (\<lambda>h. hr_source_dispatch_id h = dt_dispatch_id t) (human_requests d) \<and>
          \<not> list_ex (\<lambda>r. cr_source_dispatch_id r = dt_dispatch_id t) (command_runs d)) (dispatches d))"

subsection \<open>Wait sources\<close>

text \<open>A wait that satisfies a condition, and its running Attempt.\<close>

definition parked_on :: "(wait_row \<Rightarrow> bool) \<Rightarrow> db \<Rightarrow> bool" where
  "parked_on p d \<longleftrightarrow>
     list_ex (\<lambda>w. p w \<and>
        list_ex (\<lambda>a. attempt_owns_wait a w \<and> at_status a = AttRunning \<and> at_current_dispatch_id a = None)
          (attempts d)) (waits d)"

definition human_deadline_sources :: source_rows where
  "human_deadline_sources d =
     map (\<lambda>h. (hr_request_id h, Inr (HumanRequestOpened (hr_request_id h))))
       (filter (\<lambda>h. hr_status h = HumanOpen \<and>
          parked_on (\<lambda>w. aw_task_id w = hr_task_id h \<and> aw_assignment_id w = hr_assignment_id h \<and>
             aw_attempt_id w = hr_attempt_id h \<and> aw_source_dispatch_id w = hr_source_dispatch_id h \<and>
             aw_human_request_id w = Some (hr_request_id h)) d) (human_requests d))"

definition human_continuation_sources :: source_rows where
  "human_continuation_sources d =
     map (\<lambda>h. (hr_request_id h, Inr (HumanRequestTerminal (hr_request_id h))))
       (filter (\<lambda>h. hr_status h \<in> {HumanResolved, HumanTimedOut, HumanCancelled} \<and>
          hr_successor_dispatch_id h = None \<and>
          idle_lane (hr_task_id h) (hr_assignment_id h) (hr_attempt_id h) d) (human_requests d))"

definition command_continuation_sources :: source_rows where
  "command_continuation_sources d =
     map (\<lambda>r. (cr_run_id r, Inr (CommandRunTerminal (cr_run_id r))))
       (filter (\<lambda>r. cr_state r \<in> set command_terminal_states \<and> cr_successor_dispatch_id r = None \<and>
          idle_lane (cr_task_id r) (cr_assignment_id r) (cr_attempt_id r) d) (command_runs d))"

definition command_state_sources :: "command_state \<Rightarrow> source_rows" where
  "command_state_sources state d =
     map (\<lambda>r. (cr_run_id r, Inr (CommandRunPending (cr_run_id r))))
       (filter (\<lambda>r. cr_state r = state \<and>
          parked_on (\<lambda>w. aw_task_id w = cr_task_id r \<and> aw_assignment_id w = cr_assignment_id r \<and>
             aw_attempt_id w = cr_attempt_id r \<and> aw_source_dispatch_id w = cr_source_dispatch_id r \<and>
             aw_command_run_id w = Some (cr_run_id r)) d) (command_runs d))"

definition command_cancellation_sources :: source_rows where
  "command_cancellation_sources d =
     map (\<lambda>r. (cr_run_id r, Inr (CommandRunCancellationRequested (cr_run_id r) (cr_ownership_revision r))))
       (filter (\<lambda>r. cr_state r = CancellationRequested) (command_runs d))"

subsection \<open>Waves\<close>

definition wave_settlement_sources :: source_rows where
  "wave_settlement_sources d =
     map (\<lambda>w. (dw_delegation_wave_id w, Inr (WaveMemberSettled (dw_delegation_wave_id w))))
       (filter (\<lambda>w. dw_status w = WaveOpen \<and> dw_successor_dispatch_id w = None \<and>
          task_is (dw_task_id w) [TaskRunning, TaskPaused] d \<and>
          parked_on (\<lambda>x. aw_task_id x = dw_task_id w \<and> aw_assignment_id x = dw_parent_assignment_id w \<and>
             aw_attempt_id x = dw_parent_attempt_id w \<and> aw_source_dispatch_id x = dw_source_dispatch_id w \<and>
             aw_delegation_wave_id x = Some (dw_delegation_wave_id w)) d \<and>
          \<not> incomplete_member (dw_delegation_wave_id w) d) (waves d))"

definition wave_continuation_sources :: source_rows where
  "wave_continuation_sources d =
     map (\<lambda>w. (dw_delegation_wave_id w, Inr (DelegationWaveSettled (dw_delegation_wave_id w))))
       (filter (\<lambda>w. dw_status w = WaveSettled \<and> dw_successor_dispatch_id w = None \<and>
          task_is (dw_task_id w) [TaskRunning] d \<and>
          idle_lane (dw_task_id w) (dw_parent_assignment_id w) (dw_parent_attempt_id w) d) (waves d))"

subsection \<open>The audit\<close>

definition startup_runtime_families :: "int \<Rightarrow> (string \<times> source_rows) list" where
  "startup_runtime_families timeout =
     [(''runnable_task_start'', task_start_sources),
      (''complete_delegation_wave'', wave_settlement_sources),
      (''settled_delegation_wave'', wave_continuation_sources),
      (''committed_replan'', replan_sources),
      (''open_human_request'', human_deadline_sources),
      (''terminal_human_request'', human_continuation_sources),
      (''terminal_command_run'', command_continuation_sources),
      (''pending_command_run'', command_state_sources PendingStart),
      (''running_command_run'', command_state_sources CmdRunning),
      (''cancellation_requested_command_run'', command_cancellation_sources),
      (''current_starting_dispatch'', dispatch_start_sources),
      (''current_open_watchdog'', watchdog_sources timeout)]"

text \<open>
  The state of an audit: the starter, what was published, and the counters of the current family.
  \<open>publish_startup\<close> of \<open>main.py\<close> marks a start as recovered; \<open>accepts\<close> is the answer of the router.
\<close>

record startup_state =
  su_starter :: dispatch_starter
  su_published :: "runtime_signal list"
  su_routed_count :: nat
  su_deferred_count :: nat

definition publish_startup :: "(runtime_signal \<Rightarrow> bool) \<Rightarrow> runtime_signal \<Rightarrow> startup_state \<Rightarrow> bool \<times> startup_state" where
  "publish_startup accepts s u =
     (let u1 = (case s of
          DispatchStartDue x n at \<Rightarrow>
            u\<lparr>su_starter := mark_recovered \<lparr>sd_dispatch_id = x, sd_revision = n, sd_due_at = at\<rparr> (su_starter u)\<rparr>
        | _ \<Rightarrow> u)
      in if accepts s then (True, u1\<lparr>su_published := su_published u1 @ [s]\<rparr>) else (False, u1))"

definition route_runtime_source ::
    "(runtime_signal \<Rightarrow> bool) \<Rightarrow> string list \<Rightarrow> runtime_signal \<Rightarrow> startup_state \<Rightarrow>
       audit_error option \<times> startup_state" where
  "route_runtime_source accepts routable s u =
     (if signal_type_name s \<notin> set routable
      then (None, u\<lparr>su_deferred_count := su_deferred_count u + 1\<rparr>)
      else (case publish_startup accepts s u of
          (False, u') \<Rightarrow> (Some (NotPublished s), u')
        | (True, u') \<Rightarrow> (None, u'\<lparr>su_routed_count := su_routed_count u' + 1\<rparr>)))"

text \<open>The types that have a handler at startup (\<open>main.py\<close>).\<close>

definition startup_routed_signal_types :: "string list" where
  "startup_routed_signal_types =
     [''TaskStartCommitted'', ''WaveMemberSettled'', ''DelegationWaveSettled'', ''ReplanCommitted'',
      ''HumanRequestOpened'', ''HumanRequestTerminal'', ''CommandRunPending'',
      ''CommandRunCancellationRequested'', ''CommandRunTerminal'', ''WatchdogDeadlineChanged'',
      ''DispatchStartDue'']"

record family_result =
  fr_discovered_count :: nat
  fr_routed_count :: nat
  fr_deferred_count :: nat

text \<open>\<open>dbs i n\<close> is the state that page \<open>n\<close> of family \<open>i\<close> reads.\<close>

fun audit_families ::
    "(nat \<Rightarrow> nat \<Rightarrow> db) \<Rightarrow> (runtime_signal \<Rightarrow> bool) \<Rightarrow> string list \<Rightarrow> nat \<Rightarrow> (string \<times> source_rows) list \<Rightarrow>
       startup_state \<Rightarrow> (audit_error + (string \<times> family_result) list) \<times> startup_state" where
  "audit_families dbs accepts routable i [] u = (Inr [], u)"
| "audit_families dbs accepts routable i ((name, rows) # fs) u =
     (case audit_startup_source_family (\<lambda>n. read_page (rows (dbs i n)))
         (route_runtime_source accepts routable) (u\<lparr>su_routed_count := 0, su_deferred_count := 0\<rparr>) of
        (Inl e, u1) \<Rightarrow> (Inl e, u1)
      | (Inr discovered, u1) \<Rightarrow>
          (case audit_families dbs accepts routable (i + 1) fs u1 of
             (Inl e, u2) \<Rightarrow> (Inl e, u2)
           | (Inr results, u2) \<Rightarrow>
               (Inr ((name, \<lparr>fr_discovered_count = discovered, fr_routed_count = su_routed_count u1,
                   fr_deferred_count = su_deferred_count u1\<rparr>) # results), u2)))"

definition audit_startup_runtime_effects ::
    "(nat \<Rightarrow> nat \<Rightarrow> db) \<Rightarrow> (runtime_signal \<Rightarrow> bool) \<Rightarrow> string list \<Rightarrow> int \<Rightarrow> startup_state \<Rightarrow>
       (audit_error + (string \<times> family_result) list) \<times> startup_state" where
  "audit_startup_runtime_effects dbs accepts routable timeout u =
     (if timeout \<le> 0 then (Inl TimeoutNotPositive, u)
      else audit_families dbs accepts routable 0 (startup_runtime_families timeout) u)"

subsection \<open>Support projections\<close>

definition workflow_projection_sources :: "db \<Rightarrow> (ident \<times> (audit_error + ident \<times> ident)) list" where
  "workflow_projection_sources d =
     List.map_filter (\<lambda>t. map_option (\<lambda>r. (tk_task_id t, Inr (tk_task_id t, r))) (tk_current_team_revision_id t))
       (tasks d)"

definition audit_startup_support_projections ::
    "(nat \<Rightarrow> db) \<Rightarrow> (ident \<times> ident \<Rightarrow> bool) \<Rightarrow> (ident \<times> ident) list \<Rightarrow>
       (audit_error + nat) \<times> (ident \<times> ident) list" where
  "audit_startup_support_projections dbs accepts published =
     audit_startup_source_family (\<lambda>n. read_page (workflow_projection_sources (dbs n)))
       (\<lambda>p ps. if accepts p then (None, ps @ [p]) else (Some (ProjectionNotPublished (fst p) (snd p)), ps))
       published"

end
