(* ===== verification/StartupAuditProofs.thy ===== *)
theory StartupAuditProofs
  imports StartupAudit ContinuationProofs
begin

text \<open>
  Why a restart loses nothing: the pages of a family cover its rows, also while other transactions
  commit between them, and every signal whose handler would do something has a row.
\<close>

subsection \<open>Pages\<close>

lemma codes_inject [simp]: "codes x = codes y \<longleftrightarrow> x = y"
  by (simp add: codes_def inj_map_eq_map inj_of_char)

lemma select_page_sorted:
  "select_page rows cursor limit =
     take limit (filter (after_audit_cursor cursor \<circ> fst) (sort_key (codes \<circ> fst) rows))"
  by (simp add: select_page_def filter_sort)

lemma set_select_page:
  "set (select_page rows cursor limit) \<subseteq> {r \<in> set rows. after_audit_cursor cursor (fst r)}"
  by (auto simp: select_page_def dest!: in_set_takeD)

text \<open>A row after the cursor is on the page, or the page is full and ends before it.\<close>

lemma select_page_covers:
  assumes "r \<in> set rows" and "after_audit_cursor cursor (fst r)"
  shows "r \<in> set (select_page rows cursor limit) \<or>
     length (select_page rows cursor limit) = limit \<and>
     (limit \<noteq> 0 \<longrightarrow> codes (fst (last (select_page rows cursor limit))) \<le> codes (fst r))"
proof -
  let ?xs = "sort_key (codes \<circ> fst) (filter (after_audit_cursor cursor \<circ> fst) rows)"
  have "r \<in> set ?xs" using assms by simp
  then obtain i where i: "i < length ?xs" "?xs ! i = r" by (meson in_set_conv_nth)
  show ?thesis
  proof (cases "i < limit")
    case True
    then show ?thesis using i by (auto simp: select_page_def in_set_conv_nth)
  next
    case False
    then have len: "length (take limit ?xs) = limit" using i(1) by simp
    have "codes (fst (last (take limit ?xs))) \<le> codes (fst r)" if "limit \<noteq> 0"
    proof -
      have "take limit ?xs \<noteq> []" using that len by (metis length_0_conv)
      then have "last (take limit ?xs) = ?xs ! (limit - 1)"
        using that len by (simp add: last_conv_nth)
      moreover have "sorted (map (codes \<circ> fst) ?xs)" by simp
      then have "map (codes \<circ> fst) ?xs ! (limit - 1) \<le> map (codes \<circ> fst) ?xs ! i"
        by (rule sorted_nth_mono) (use False i in auto)
      ultimately show ?thesis using i False that by simp
    qed
    then show ?thesis using len by (simp add: select_page_def)
  qed
qed

lemma read_page_Inr:
  assumes "read_page rows cursor limit = Inr page"
  shows "map_result snd (select_page rows cursor limit) = Inr (pg_sources page)"
    and "length (pg_sources page) = length (select_page rows cursor limit)"
    and "pg_next_cursor page =
      (if length (select_page rows cursor limit) = limit then Some (fst (last (select_page rows cursor limit))) else None)"
  using assms by (auto simp: read_page_def Let_def result_simps dest: map_result_Inr_length)

lemma map_result_snd_entry:
  "map_result snd xs = Inr ys \<Longrightarrow> r \<in> set xs \<Longrightarrow> \<exists>y. snd r = Inr y \<and> y \<in> set ys"
  by (induction xs arbitrary: ys) (auto simp: result_simps)

subsection \<open>Routing\<close>

lemma route_sources_append:
  "route_sources route (xs @ ys) s =
     (case route_sources route xs s of (Some e, s') \<Rightarrow> (Some e, s') | (None, s') \<Rightarrow> route_sources route ys s')"
  by (induction xs arbitrary: s) (auto split: prod.split option.split)

lemma route_sources_invariant:
  assumes "route_sources route xs s = (r, s')" and "P s"
    and step: "\<And>x s r s'. x \<in> set xs \<Longrightarrow> P s \<Longrightarrow> route x s = (r, s') \<Longrightarrow> P s'"
  shows "P s'"
  using assms
proof (induction xs arbitrary: s)
  case (Cons x xs)
  obtain r1 s1 where s1: "route x s = (r1, s1)" by fastforce
  have "P s1" by (rule Cons.prems(3) [OF _ Cons.prems(2) s1]) simp
  moreover have "r1 = None \<Longrightarrow> route_sources route xs s1 = (r, s')" "r1 \<noteq> None \<Longrightarrow> s1 = s'"
    using Cons.prems(1) s1 by (auto split: option.split_asm)
  ultimately show ?case using Cons.IH [of s1] Cons.prems(3) by (cases r1) auto
qed simp

lemma route_sources_each:
  assumes "route_sources route xs s = (None, s')" and "x \<in> set xs"
    and each: "\<And>x s s'. route x s = (None, s') \<Longrightarrow> Q x s'"
    and keep: "\<And>x y s r s'. Q x s \<Longrightarrow> route y s = (r, s') \<Longrightarrow> Q x s'"
  shows "Q x s'"
  using assms(1,2)
proof (induction xs arbitrary: s)
  case (Cons y ys)
  obtain s1 where s1: "route y s = (None, s1)" "route_sources route ys s1 = (None, s')"
    using Cons.prems(1) by (auto split: prod.split_asm option.split_asm)
  show ?case
  proof (cases "x \<in> set ys")
    case True
    then show ?thesis using Cons.IH [OF s1(2)] by blast
  next
    case False
    then have "Q x s1" using each [OF s1(1)] Cons.prems(2) by simp
    then show ?thesis by (rule route_sources_invariant [where P = "Q x", OF s1(2)]) (use keep in blast)
  qed
qed simp

subsection \<open>A family while the database changes\<close>

text \<open>One turn of the loop that did not raise.\<close>

lemma audit_pages_Inr:
  assumes "audit_pages fetch route n cursor routed s = (Inr k, s')"
  obtains page s1 where "fetch n cursor startup_audit_page_size = Inr page"
    "route_sources route (pg_sources page) s = (None, s1)"
    "n + 1 < startup_audit_page_guard"
    "pg_next_cursor page = None \<and> k = routed + length (pg_sources page) \<and> s' = s1 \<or>
     (\<exists>c. pg_next_cursor page = Some c \<and>
        audit_pages fetch route (n + 1) (Some c) (routed + length (pg_sources page)) s1 = (Inr k, s'))"
  using assms by (subst (asm) audit_pages.simps) (auto split: sum.split_asm if_split_asm prod.split_asm option.split_asm)

lemma audit_pages_invariant:
  assumes "audit_pages fetch route n cursor routed s = (Inr k, s')" and "P s"
    and pages: "\<And>n cursor page. fetch n cursor startup_audit_page_size = Inr page \<Longrightarrow> set (pg_sources page) \<subseteq> X"
    and step: "\<And>x s r s'. x \<in> X \<Longrightarrow> P s \<Longrightarrow> route x s = (r, s') \<Longrightarrow> P s'"
  shows "P s'"
  using assms(1,2)
proof (induction "startup_audit_page_guard - n" arbitrary: n cursor routed s rule: less_induct)
  case less
  obtain page s1 where page: "fetch n cursor startup_audit_page_size = Inr page"
      and routed: "route_sources route (pg_sources page) s = (None, s1)"
      and n: "n + 1 < startup_audit_page_guard"
      and rest: "pg_next_cursor page = None \<and> k = routed + length (pg_sources page) \<and> s' = s1 \<or>
       (\<exists>c. pg_next_cursor page = Some c \<and>
          audit_pages fetch route (n + 1) (Some c) (routed + length (pg_sources page)) s1 = (Inr k, s'))"
    by (rule audit_pages_Inr [OF less.prems(1)]) blast
  have "P s1"
    by (rule route_sources_invariant [where P = P, OF routed less.prems(2)]) (use step pages [OF page] in blast)
  then show ?case using rest less.hyps [of "n + 1"] n by auto
qed

lemma audit_pages_cover:
  assumes "audit_pages (\<lambda>n. read_page (rows n)) route n cursor routed s = (Inr k, s')"
    and "after_audit_cursor cursor x" and stays: "\<forall>m. x \<in> fst ` set (rows m)"
    and each: "\<And>x s s'. route x s = (None, s') \<Longrightarrow> Q x s'"
    and keep: "\<And>x y s r s'. Q x s \<Longrightarrow> route y s = (r, s') \<Longrightarrow> Q x s'"
  shows "(\<exists>m y. (x, Inr y) \<in> set (rows m) \<and> Q y s')"
  using assms(1,2)
proof (induction "startup_audit_page_guard - n" arbitrary: n cursor routed s rule: less_induct)
  case less
  obtain page s1 where page: "read_page (rows n) cursor startup_audit_page_size = Inr page"
      and routed: "route_sources route (pg_sources page) s = (None, s1)" and n: "n + 1 < startup_audit_page_guard"
      and rest: "pg_next_cursor page = None \<and> k = routed + length (pg_sources page) \<and> s' = s1 \<or>
       (\<exists>c. pg_next_cursor page = Some c \<and> audit_pages (\<lambda>n. read_page (rows n)) route (n + 1) (Some c)
          (routed + length (pg_sources page)) s1 = (Inr k, s'))"
    by (rule audit_pages_Inr [OF less.prems(1)]) blast
  let ?page = "select_page (rows n) cursor startup_audit_page_size"
  have later: "Q y s'" if q: "Q y s1" for y
    using rest
  proof (elim disjE exE conjE)
    fix c
    assume "audit_pages (\<lambda>n. read_page (rows n)) route (n + 1) (Some c) (routed + length (pg_sources page)) s1 = (Inr k, s')"
    then show ?thesis by (rule audit_pages_invariant [where P = "Q y" and X = UNIV, OF _ q]) (auto intro: keep)
  qed (use q in simp)
  show ?case
  proof (cases "x \<in> fst ` set ?page")
    case True
    then obtain r where r: "r \<in> set ?page" "fst r = x" by auto
    obtain y where y: "snd r = Inr y" "y \<in> set (pg_sources page)"
      using map_result_snd_entry [OF read_page_Inr(1) [OF page] r(1)] by blast
    have "Q y s1" by (rule route_sources_each [OF routed y(2)]) (use each keep in blast)+
    moreover have "(x, Inr y) \<in> set (rows n)" using subsetD [OF set_select_page r(1)] r(2) y(1)
      by (metis (no_types, lifting) mem_Collect_eq prod.collapse)
    ultimately show ?thesis using later by blast
  next
    case False
    obtain r where r: "r \<in> set (rows n)" "fst r = x" using stays by (metis (no_types, lifting) imageE)
    have full: "length ?page = startup_audit_page_size" "codes (fst (last ?page)) \<le> codes x"
      using select_page_covers [OF r(1), of cursor startup_audit_page_size] less.prems(2) r(2) False
      by (auto simp: startup_audit_page_size_def)
    have "fst (last ?page) \<in> fst ` set ?page" using full(1) by (intro imageI last_in_set) (auto simp: startup_audit_page_size_def)
    then have "fst (last ?page) \<noteq> x" using False by metis
    then have "codes (fst (last ?page)) < codes x" using full(2) by (simp add: order_less_le)
    moreover have c: "pg_next_cursor page = Some (fst (last ?page))" using read_page_Inr(3) [OF page] full(1) by simp
    ultimately show ?thesis
      using less.hyps [of "n + 1" "Some (fst (last ?page))"] rest n by (auto simp: after_audit_cursor_def)
  qed
qed

lemma read_page_sources:
  "read_page rows cursor limit = Inr page \<Longrightarrow> y \<in> set (pg_sources page) \<Longrightarrow> \<exists>x. (x, Inr y) \<in> set rows"
  using map_result_Inr_set [OF read_page_Inr(1), of rows cursor limit page y]
    set_select_page [of rows cursor limit] by fastforce

subsection \<open>The runtime audit while the database changes\<close>

lemma publish_startup_effect:
  "publish_startup accepts s u = (b, u') \<Longrightarrow>
     su_published u' = su_published u @ (if b then [s] else []) \<and> b = accepts s"
  by (auto simp: publish_startup_def Let_def split: if_split_asm runtime_signal.split_asm)

lemma route_runtime_effect:
  assumes "route_runtime_source accepts routable s u = (r, u')"
  shows "set (su_published u) \<subseteq> set (su_published u') \<and> set (su_published u') \<subseteq> insert s (set (su_published u)) \<and>
    (r = None \<and> signal_type_name s \<in> set routable \<longrightarrow> s \<in> set (su_published u'))"
  using assms publish_startup_effect [of accepts s u]
  by (auto simp: route_runtime_source_def split: if_split_asm prod.split_asm bool.split_asm)

lemma family_covers:
  assumes run: "audit_startup_source_family (\<lambda>n. read_page (rows n)) (route_runtime_source accepts routable) u = (Inr k, u')"
  shows "set (su_published u) \<subseteq> set (su_published u')"
    and "\<And>s. s \<in> set (su_published u') \<Longrightarrow> s \<in> set (su_published u) \<or> (\<exists>n x. (x, Inr s) \<in> set (rows n))"
    and "\<And>x. \<forall>n. x \<in> fst ` set (rows n) \<Longrightarrow>
      \<exists>n y. (x, Inr y) \<in> set (rows n) \<and> (signal_type_name y \<in> set routable \<longrightarrow> y \<in> set (su_published u'))"
proof -
  note run' = run [unfolded audit_startup_source_family_def]
  show "set (su_published u) \<subseteq> set (su_published u')"
    by (rule audit_pages_invariant [where P = "\<lambda>v. set (su_published u) \<subseteq> set (su_published v)" and X = UNIV, OF run'])
      (auto dest: route_runtime_effect)
  show "s \<in> set (su_published u) \<or> (\<exists>n x. (x, Inr s) \<in> set (rows n))" if "s \<in> set (su_published u')" for s
  proof -
    define X where "X = {s. \<exists>n x. (x, Inr s) \<in> set (rows n)}"
    let ?P = "\<lambda>v. set (su_published v) \<subseteq> set (su_published u) \<union> X"
    have step: "?P v'" if "x \<in> X" "?P v" "route_runtime_source accepts routable x v = (r, v')" for x v r v'
    proof -
      have "set (su_published v') \<subseteq> insert x (set (su_published v))" using route_runtime_effect [OF that(3)] by simp
      then show ?thesis using that(1,2) by blast
    qed
    have sub: "set (pg_sources page) \<subseteq> X" if "read_page (rows n) cursor startup_audit_page_size = Inr page" for n cursor page
      using read_page_sources [OF that] unfolding X_def by blast
    have "?P u'"
      by (rule audit_pages_invariant [where X = X and P = ?P, OF run' _ sub step]) auto
    then have "s \<in> set (su_published u) \<or> s \<in> X" using that by blast
    then show ?thesis by (simp add: X_def)
  qed
  show "\<exists>n y. (x, Inr y) \<in> set (rows n) \<and> (signal_type_name y \<in> set routable \<longrightarrow> y \<in> set (su_published u'))"
    if "\<forall>n. x \<in> fst ` set (rows n)" for x
    by (rule audit_pages_cover [where Q = "\<lambda>y v. signal_type_name y \<in> set routable \<longrightarrow> y \<in> set (su_published v)",
        OF run' _ that])
      (auto simp: after_audit_cursor_def dest: route_runtime_effect)
qed

lemma families_cover:
  "audit_families dbs accepts routable i fs u = (Inr results, u') \<Longrightarrow>
     set (su_published u) \<subseteq> set (su_published u') \<and>
     (\<forall>s \<in> set (su_published u'). s \<in> set (su_published u) \<or>
        (\<exists>j < length fs. \<exists>n x. (x, Inr s) \<in> set (snd (fs ! j) (dbs (i + j) n)))) \<and>
     (\<forall>j < length fs. \<forall>x. (\<forall>n. x \<in> fst ` set (snd (fs ! j) (dbs (i + j) n))) \<longrightarrow>
        (\<exists>n y. (x, Inr y) \<in> set (snd (fs ! j) (dbs (i + j) n)) \<and>
           (signal_type_name y \<in> set routable \<longrightarrow> y \<in> set (su_published u'))))"
proof (induction fs arbitrary: i u results)
  case (Cons f fs)
  obtain name rows where f: "f = (name, rows)" by (cases f)
  let ?u = "u\<lparr>su_routed_count := 0, su_deferred_count := 0\<rparr>"
  obtain k u1 rs where run: "audit_startup_source_family (\<lambda>n. read_page (rows (dbs i n)))
        (route_runtime_source accepts routable) ?u = (Inr k, u1)"
      and rest: "audit_families dbs accepts routable (i + 1) fs u1 = (Inr rs, u')"
    using Cons.prems by (auto simp: f split: prod.split_asm sum.split_asm)
  note first = family_covers [OF run]
  have later: "set (su_published u1) \<subseteq> set (su_published u')"
    and only: "\<forall>s \<in> set (su_published u'). s \<in> set (su_published u1) \<or>
        (\<exists>j < length fs. \<exists>n x. (x, Inr s) \<in> set (snd (fs ! j) (dbs (i + 1 + j) n)))"
    and covers: "\<And>j x. j < length fs \<Longrightarrow> \<forall>n. x \<in> fst ` set (snd (fs ! j) (dbs (i + 1 + j) n)) \<Longrightarrow>
        \<exists>n y. (x, Inr y) \<in> set (snd (fs ! j) (dbs (i + 1 + j) n)) \<and>
           (signal_type_name y \<in> set routable \<longrightarrow> y \<in> set (su_published u'))"
    using Cons.IH [OF rest] by blast+
  have nth: "(f # fs) ! j = (if j = 0 then f else fs ! (j - 1))" "i + j = (if j = 0 then i else i + 1 + (j - 1))" for j
    by (auto simp: nth_Cons')
  show ?case
  proof (intro conjI ballI allI impI)
    show "set (su_published u) \<subseteq> set (su_published u')" using first(1) later by auto
  next
    fix s assume s: "s \<in> set (su_published u')"
    show "s \<in> set (su_published u) \<or>
        (\<exists>j < length (f # fs). \<exists>n x. (x, Inr s) \<in> set (snd ((f # fs) ! j) (dbs (i + j) n)))"
    proof (cases "s \<in> set (su_published u1)")
      case True
      then show ?thesis using first(2) [of s] by (force simp: f)
    next
      case False
      then obtain j n x where "j < length fs" "(x, Inr s) \<in> set (snd (fs ! j) (dbs (i + 1 + j) n))"
        using only s by blast
      then show ?thesis by (intro disjI2 exI [of _ "Suc j"]) auto
    qed
  next
    fix j x
    assume j: "j < length (f # fs)" and x: "\<forall>n. x \<in> fst ` set (snd ((f # fs) ! j) (dbs (i + j) n))"
    show "\<exists>n y. (x, Inr y) \<in> set (snd ((f # fs) ! j) (dbs (i + j) n)) \<and>
        (signal_type_name y \<in> set routable \<longrightarrow> y \<in> set (su_published u'))"
    proof (cases j)
      case 0
      then obtain n y where "(x, Inr y) \<in> set (rows (dbs i n))"
          "signal_type_name y \<in> set routable \<longrightarrow> y \<in> set (su_published u1)"
        using first(3) [of x] x by (auto simp: f)
      then show ?thesis using later 0 f by auto
    next
      case (Suc k)
      then show ?thesis using covers [of k x] j x by (simp add: nth)
    qed
  qed
qed simp

text \<open>
  C6. The audit misses nothing that stands. Other transactions may commit between any two pages. When
  the audit returns, every source that has a row of its family in each of these states was published
  with the signal it had in one of them, and nothing was published that no row stood for.
\<close>

theorem startup_audit_misses_nothing:
  assumes "audit_startup_runtime_effects dbs accepts routable timeout u = (Inr results, u')"
    and "i < length (startup_runtime_families timeout)" and "startup_runtime_families timeout ! i = (name, rows)"
  shows "(\<forall>x. (\<forall>n. x \<in> fst ` set (rows (dbs i n))) \<longrightarrow>
      (\<exists>n y. (x, Inr y) \<in> set (rows (dbs i n)) \<and>
         (signal_type_name y \<in> set routable \<longrightarrow> y \<in> set (su_published u')))) \<and>
    (\<forall>s \<in> set (su_published u'). s \<in> set (su_published u) \<or>
      (\<exists>j < length (startup_runtime_families timeout). \<exists>n x.
         (x, Inr s) \<in> set (snd (startup_runtime_families timeout ! j) (dbs j n))))"
proof -
  have "audit_families dbs accepts routable 0 (startup_runtime_families timeout) u = (Inr results, u')"
    using assms(1) by (auto simp: audit_startup_runtime_effects_def split: if_split_asm)
  from families_cover [OF this] show ?thesis using assms(2,3) by (auto 0 4)
qed

subsection \<open>The audit of a database at rest\<close>

lemma map_result_snd_Inr:
  "\<forall>r \<in> set xs. \<exists>y. snd r = Inr y \<Longrightarrow> map_result snd xs = Inr (map (projr \<circ> snd) xs)"
  by (induction xs) auto

lemma sorted_last_greatest:
  fixes f :: "'a \<Rightarrow> 'b::linorder"
  shows "sorted (map f ys) \<Longrightarrow> y \<in> set ys \<Longrightarrow> f y \<le> f (last ys)"
  by (induction ys) auto

text \<open>The rows after a cursor that is a row.\<close>

lemma filter_after_cursor:
  assumes "sorted (map (codes \<circ> fst) (ys @ xs))" and "distinct (map fst (ys @ xs))"
  shows "filter (after_audit_cursor (if ys = [] then None else Some (fst (last ys))) \<circ> fst) (ys @ xs) = xs"
proof (cases "ys = []")
  case False
  have less: "codes (fst (last ys)) < codes (fst x)" if "x \<in> set xs" for x
    using assms that False
    by (auto simp: sorted_append less_le dest!: last_in_set)
  have "sorted (map (codes \<circ> fst) ys)" using assms(1) by (simp add: sorted_append)
  then have le: "\<not> codes (fst (last ys)) < codes (fst y)" if "y \<in> set ys" for y
    using sorted_last_greatest [of "codes \<circ> fst" ys y] that by simp
  show ?thesis using False less le by (simp add: filter_empty_conv filter_id_conv after_audit_cursor_def)
qed (simp add: after_audit_cursor_def)

lemma audit_pages_at_rest:
  assumes R: "sort_key (codes \<circ> fst) rows = ys @ xs" "distinct (map fst rows)"
    and rows: "\<forall>r \<in> set rows. \<exists>y. snd r = Inr y"
    and guard: "n + length xs div startup_audit_page_size + 1 < startup_audit_page_guard"
  shows "audit_pages (\<lambda>_. read_page rows) route n (if ys = [] then None else Some (fst (last ys))) k s =
    (case route_sources route (map (projr \<circ> snd) xs) s of
       (Some e, s') \<Rightarrow> (Inl e, s') | (None, s') \<Rightarrow> (Inr (k + length xs), s'))"
  using R(1) guard
proof (induction xs arbitrary: ys n k s rule: length_induct)
  case (1 xs)
  let ?c = "if ys = [] then None else Some (fst (last ys))"
  let ?p = "take startup_audit_page_size xs"
  let ?page = "\<lparr>pg_sources = map (projr \<circ> snd) ?p,
     pg_next_cursor = if length ?p = startup_audit_page_size then Some (fst (last ?p)) else None\<rparr>"
  have perm: "set (ys @ xs) = set rows" "distinct (map fst (ys @ xs))"
    using R(2) arg_cong [OF "1.prems"(1), of set] arg_cong [OF "1.prems"(1), of "\<lambda>r. distinct (map fst r)"]
    by (auto simp: distinct_map)
  have sorted: "sorted (map (codes \<circ> fst) (ys @ xs))" using "1.prems"(1) by (metis sorted_sort_key)
  have page: "read_page rows ?c startup_audit_page_size = Inr ?page"
  proof -
    have "select_page rows ?c startup_audit_page_size = ?p"
      unfolding select_page_sorted "1.prems"(1) by (simp only: filter_after_cursor [OF sorted perm(2)])
    moreover have "\<forall>r \<in> set ?p. \<exists>y. snd r = Inr y" using rows perm(1) by (auto dest!: in_set_takeD)
    ultimately show ?thesis using map_result_snd_Inr [of ?p] by (simp add: read_page_def Let_def)
  qed
  have split: "map (projr \<circ> snd) xs = map (projr \<circ> snd) ?p @ map (projr \<circ> snd) (drop startup_audit_page_size xs)"
    by (metis append_take_drop_id map_append)
  show ?case
  proof (cases "length xs < startup_audit_page_size")
    case True
    then show ?thesis
      using page "1.prems"(2) by (subst audit_pages.simps) (auto split: prod.split option.split)
  next
    case False
    let ?xs = "drop startup_audit_page_size xs" and ?ys = "ys @ ?p"
    have "?p \<noteq> []" using False by (auto simp: startup_audit_page_size_def)
    then have c: "(if ?ys = [] then None else Some (fst (last ?ys))) = Some (fst (last ?p))" by simp
    have len: "length ?p = startup_audit_page_size" using False by simp
    have adv: "after_audit_cursor ?c (fst (last ?p))"
    proof -
      have "last ?p \<in> set xs" using last_in_set [OF \<open>?p \<noteq> []\<close>] by (rule in_set_takeD)
      then have "last ?p \<in> set (filter (after_audit_cursor ?c \<circ> fst) (ys @ xs))"
        by (simp only: filter_after_cursor [OF sorted perm(2)])
      then show ?thesis by (simp only: set_filter mem_Collect_eq comp_apply)
    qed
    have IH: "audit_pages (\<lambda>_. read_page rows) route (n + 1) (Some (fst (last ?p))) (k + length ?p) s1 =
        (case route_sources route (map (projr \<circ> snd) ?xs) s1 of
           (Some e, s') \<Rightarrow> (Inl e, s') | (None, s') \<Rightarrow> (Inr (k + length ?p + length ?xs), s'))" for s1
      using "1.IH" [rule_format, of ?xs ?ys "n + 1" "k + length ?p" s1] "1.prems" c False
        le_div_geq [of startup_audit_page_size "length xs"]
      by (simp add: startup_audit_page_size_def)
    have "length ?p + length ?xs = length xs" by simp
    then show ?thesis
      using page "1.prems"(2) IH len adv
      by (subst audit_pages.simps) (auto simp: split route_sources_append split: prod.split option.split)
  qed
qed

definition row_signals :: "(ident \<times> (audit_error + 'a)) list \<Rightarrow> 'a list" where
  "row_signals rows = map (projr \<circ> snd) (sort_key (codes \<circ> fst) rows)"

lemma length_row_signals [simp]: "length (row_signals rows) = length rows"
  by (simp add: row_signals_def)

text \<open>Rows the audit can page: one per key, none raising, all of a routed type, not too many.\<close>

definition pageable :: "string list \<Rightarrow> (ident \<times> (audit_error + runtime_signal)) list \<Rightarrow> bool" where
  "pageable routable rows \<longleftrightarrow> distinct (map fst rows) \<and>
     (\<forall>r \<in> set rows. \<exists>s. snd r = Inr s \<and> signal_type_name s \<in> set routable)"

definition audit_capacity :: nat where
  "audit_capacity = (startup_audit_page_guard - 1) * startup_audit_page_size"

lemma route_accepted:
  assumes "signal_type_name s \<in> set routable" and "accepts s"
  shows "\<exists>v. route_runtime_source accepts routable s u = (None, v) \<and>
    su_published v = su_published u @ [s] \<and> su_routed_count v = su_routed_count u + 1 \<and>
    su_deferred_count v = su_deferred_count u"
  using assms by (cases s) (simp_all add: route_runtime_source_def publish_startup_def)

lemma route_all_accepted:
  "\<forall>s \<in> set xs. signal_type_name s \<in> set routable \<and> accepts s \<Longrightarrow>
     \<exists>v. route_sources (route_runtime_source accepts routable) xs u = (None, v) \<and>
       su_published v = su_published u @ xs \<and> su_routed_count v = su_routed_count u + length xs \<and>
       su_deferred_count v = su_deferred_count u"
proof (induction xs arbitrary: u)
  case (Cons s xs)
  then obtain v where "route_runtime_source accepts routable s u = (None, v)"
      "su_published v = su_published u @ [s]" "su_routed_count v = su_routed_count u + 1"
      "su_deferred_count v = su_deferred_count u"
    using route_accepted [of s routable accepts u] by auto
  then show ?case using Cons.IH [of v] Cons.prems by auto
qed simp

lemma family_at_rest:
  assumes page: "pageable routable rows" and "length rows < audit_capacity"
    and acc: "\<forall>s. signal_type_name s \<in> set routable \<longrightarrow> accepts s"
  shows "\<exists>v. audit_startup_source_family (\<lambda>_. read_page rows) (route_runtime_source accepts routable) u =
      (Inr (length rows), v) \<and> su_published v = su_published u @ row_signals rows \<and>
    su_routed_count v = su_routed_count u + length rows \<and> su_deferred_count v = su_deferred_count u"
proof -
  have small: "length rows div startup_audit_page_size + 1 < startup_audit_page_guard"
    using less_mult_imp_div_less [of "length rows" "startup_audit_page_guard - 1" startup_audit_page_size] assms(2)
    by (simp add: audit_capacity_def startup_audit_page_guard_def)
  have "\<forall>s \<in> set (row_signals rows). signal_type_name s \<in> set routable \<and> accepts s"
    using page acc by (force simp: pageable_def row_signals_def)
  moreover have "\<forall>r \<in> set rows. \<exists>y. snd r = Inr y" using page by (auto simp: pageable_def)
  ultimately show ?thesis using route_all_accepted [of "row_signals rows" routable accepts u]
    using audit_pages_at_rest [of rows "[]" "sort_key (codes \<circ> fst) rows" 0 "route_runtime_source accepts routable" 0 u] page small
    by (auto simp: pageable_def audit_startup_source_family_def row_signals_def)
qed

definition result_at_rest :: "db \<Rightarrow> string \<times> source_rows \<Rightarrow> string \<times> family_result" where
  "result_at_rest d f = (fst f, \<lparr>fr_discovered_count = length (snd f d), fr_routed_count = length (snd f d),
     fr_deferred_count = 0\<rparr>)"

lemma families_at_rest:
  assumes "\<forall>f \<in> set fs. pageable routable (snd f d) \<and> length (snd f d) < audit_capacity"
    and acc: "\<forall>s. signal_type_name s \<in> set routable \<longrightarrow> accepts s"
  shows "\<exists>v. audit_families (\<lambda>_ _. d) accepts routable i fs u = (Inr (map (result_at_rest d) fs), v) \<and>
    su_published v = su_published u @ concat (map (\<lambda>f. row_signals (snd f d)) fs)"
  using assms(1)
proof (induction fs arbitrary: i u)
  case (Cons f fs)
  obtain name rows where f: "f = (name, rows)" by (cases f)
  obtain v where v: "audit_startup_source_family (\<lambda>_. read_page (rows d)) (route_runtime_source accepts routable)
        (u\<lparr>su_routed_count := 0, su_deferred_count := 0\<rparr>) = (Inr (length (rows d)), v)"
      "su_published v = su_published u @ row_signals (rows d)" "su_routed_count v = length (rows d)"
      "su_deferred_count v = 0"
    using family_at_rest [of routable "rows d" accepts "u\<lparr>su_routed_count := 0, su_deferred_count := 0\<rparr>"]
      Cons.prems acc f by auto
  then show ?case using Cons.IH [of "i + 1" v] Cons.prems by (auto simp: f result_at_rest_def)
qed simp

lemma distinct_mapped_rows:
  assumes "keyed key rs" and "\<And>r. fst (f r) = key r"
  shows "distinct (map fst (map f (filter p rs)))"
  using keyed_filter [OF assms(1), of p] assms(2) by (simp add: keyed_def comp_def)

lemma families_pageable:
  assumes ok: "system_ok H d"
  shows "\<forall>f \<in> set (startup_runtime_families timeout). pageable startup_routed_signal_types (snd f d)"
proof -
  have rt: "runtime_ok H d" and lanes: "lanes_ok d" using ok runtime_ok_parts by (auto simp: system_ok_def)
  have keys: "keyed dt_dispatch_id (dispatches d)" "\<forall>t \<in> set (dispatches d). ck_dispatch t"
    using lanes by (simp_all add: lanes_ok_def)
  note k = source_keys [OF ok] keys(1)
  have p: "pageable startup_routed_signal_types (map f (filter p rs))"
    if "keyed key rs" "\<And>r. fst (f r) = key r"
      "\<And>r. r \<in> set rs \<Longrightarrow> p r \<Longrightarrow> \<exists>s. snd (f r) = Inr s \<and> signal_type_name s \<in> set startup_routed_signal_types"
    for f key p and rs :: "'r list"
    unfolding pageable_def using distinct_mapped_rows [of key rs f p, OF that(1,2)] that(3) by auto
  have starts: "\<exists>due. dt_next_provider_start_at t = Some due" if "t \<in> set (dispatches d)" "dt_status t = Starting" for t
    using keys(2) that by (auto simp: ck_dispatch_def)
  have opens: "\<exists>at. dt_adapter_started_at t = Some at" if "t \<in> set (dispatches d)" "dt_status t = Open" for t
    using keys(2) that by (auto simp: ck_dispatch_def)
  have f0: "pageable startup_routed_signal_types (task_start_sources d)"
    unfolding task_start_sources_def by (rule p [OF k(5)]) (simp_all add: startup_routed_signal_types_def)
  have f1: "pageable startup_routed_signal_types (wave_settlement_sources d)"
    unfolding wave_settlement_sources_def by (rule p [OF k(3)]) (simp_all add: startup_routed_signal_types_def)
  have f2: "pageable startup_routed_signal_types (wave_continuation_sources d)"
    unfolding wave_continuation_sources_def by (rule p [OF k(3)]) (simp_all add: startup_routed_signal_types_def)
  have f3: "pageable startup_routed_signal_types (replan_sources d)"
    unfolding replan_sources_def by (rule p [OF k(4)]) (simp_all add: startup_routed_signal_types_def)
  have f4: "pageable startup_routed_signal_types (human_deadline_sources d)"
    unfolding human_deadline_sources_def by (rule p [OF k(1)]) (simp_all add: startup_routed_signal_types_def)
  have f5: "pageable startup_routed_signal_types (human_continuation_sources d)"
    unfolding human_continuation_sources_def by (rule p [OF k(1)]) (simp_all add: startup_routed_signal_types_def)
  have f6: "pageable startup_routed_signal_types (command_continuation_sources d)"
    unfolding command_continuation_sources_def by (rule p [OF k(2)]) (simp_all add: startup_routed_signal_types_def)
  have f7: "pageable startup_routed_signal_types (command_state_sources st d)" for st
    unfolding command_state_sources_def by (rule p [OF k(2)]) (simp_all add: startup_routed_signal_types_def)
  have f8: "pageable startup_routed_signal_types (command_cancellation_sources d)"
    unfolding command_cancellation_sources_def by (rule p [OF k(2)]) (simp_all add: startup_routed_signal_types_def)
  have f9: "pageable startup_routed_signal_types (dispatch_start_sources d)"
    unfolding dispatch_start_sources_def
    by (rule p [OF k(6)]) (auto simp: startup_routed_signal_types_def dest: starts)
  have f10: "pageable startup_routed_signal_types (watchdog_sources timeout d)"
    unfolding watchdog_sources_def
    by (rule p [OF k(6)]) (auto simp: startup_routed_signal_types_def dest: opens)
  show ?thesis by (simp add: startup_runtime_families_def f0 f1 f2 f3 f4 f5 f6 f7 f8 f9 f10)
qed

text \<open>
  C7. The audit of a database at rest. When no other transaction commits meanwhile, the invariant
  holds and no family has more rows than the page guard admits, the audit returns: the router gets,
  family after family, exactly the signals of the recoverable sources in the order of their keys,
  every one routed and none deferred.
\<close>

theorem startup_audit_republishes_everything:
  assumes "system_ok H d" and "0 < timeout"
    and "\<forall>s. signal_type_name s \<in> set startup_routed_signal_types \<longrightarrow> accepts s"
    and "\<forall>f \<in> set (startup_runtime_families timeout). length (snd f d) < audit_capacity"
  shows "\<exists>u'. audit_startup_runtime_effects (\<lambda>_ _. d) accepts startup_routed_signal_types timeout u =
      (Inr (map (result_at_rest d) (startup_runtime_families timeout)), u') \<and>
    su_published u' = su_published u @ concat (map (\<lambda>f. row_signals (snd f d)) (startup_runtime_families timeout))"
  using families_at_rest [of "startup_runtime_families timeout" startup_routed_signal_types d accepts 0 u]
    families_pageable [OF assms(1), of timeout] assms(2-4)
  by (simp add: audit_startup_runtime_effects_def)

end
