(* ===== verification/RestartProofs.thy ===== *)
theory RestartProofs
  imports StartupAuditProofs
begin

text \<open>
  The audit and the handlers together: whenever the handler of a signal would do something on the
  database, the audit of that database publishes the signal.
\<close>

text \<open>The handler of the signal finds something to do.\<close>

inductive has_work :: "int \<Rightarrow> db \<Rightarrow> runtime_signal \<Rightarrow> bool" for timeout :: int and d :: db where
  hw_task_start: "read_root_opening_snapshot task TaskRunning None None d = Inr (Some n) \<Longrightarrow>
     has_work timeout d (TaskStartCommitted task)"
| hw_human_terminal: "plan_ordinary_successor render (read_human_request_continuation_basis lib) TaskRunning None
       request dispatch d = Inr (Some np) \<Longrightarrow> has_work timeout d (HumanRequestTerminal request)"
| hw_command_terminal: "plan_ordinary_successor render read_command_run_continuation_basis TaskRunning None
       run dispatch d = Inr (Some np) \<Longrightarrow> has_work timeout d (CommandRunTerminal run)"
| hw_wave_settled: "plan_ordinary_successor render read_delegation_wave_continuation_basis TaskRunning None
       wave dispatch d = Inr (Some np) \<Longrightarrow> has_work timeout d (DelegationWaveSettled wave)"
| hw_replan_manifest: "ensure_replan_manifest_current env project transition d = Inr (b, d') \<Longrightarrow> d' \<noteq> d \<Longrightarrow>
     has_work timeout d (ReplanCommitted transition)"
| hw_replan: "plan_ordinary_successor render (read_replan_continuation_basis read_success) TaskRunning None
       transition dispatch d = Inr (Some np) \<Longrightarrow> has_work timeout d (ReplanCommitted transition)"
| hw_wave_complete: "settle_delegation_wave wave now d = Inr (True, d') \<Longrightarrow>
     has_work timeout d (WaveMemberSettled wave)"
| hw_human_deadline: "human_request_opened_action request d = HumanRequests.RegisterDeadline s \<Longrightarrow>
     has_work timeout d (HumanRequestOpened request)"
| hw_command_pending: "claim_command_run_launch run owner now d = Inr (Some claim, d') \<Longrightarrow>
     has_work timeout d (CommandRunPending run)"
| hw_command_cancelled: "find (\<lambda>r. cr_run_id r = run \<and> cr_state r = CancellationRequested) (command_runs d) = Some r \<Longrightarrow>
     has_work timeout d (CommandRunCancellationRequested run (cr_ownership_revision r))"
| hw_start: "read_provider_start_candidate s d = Some c \<Longrightarrow> has_work timeout d (start_signal s)"
| hw_watchdog: "read_watchdog_recovery_candidate timeout
       \<lparr>wq_dispatch_id = x, wq_activity_revision = n, wq_due_at = due\<rparr> now d = Some (c, started, at) \<Longrightarrow>
     \<not> dispatch_owns_external_source (dt_dispatch_id (oc_source_dispatch c)) d \<Longrightarrow>
     has_work timeout d (WatchdogDeadlineChanged x n due)"

subsection \<open>Rows of the families\<close>

definition stands :: "int \<Rightarrow> db \<Rightarrow> runtime_signal \<Rightarrow> bool" where
  "stands timeout d s \<longleftrightarrow> (\<exists>f \<in> set (startup_runtime_families timeout). \<exists>x. (x, Inr s) \<in> set (snd f d))"

lemma standsI:
  "(x, Inr s) \<in> set (task_start_sources d) \<Longrightarrow> stands timeout d s"
  "(x, Inr s) \<in> set (wave_settlement_sources d) \<Longrightarrow> stands timeout d s"
  "(x, Inr s) \<in> set (wave_continuation_sources d) \<Longrightarrow> stands timeout d s"
  "(x, Inr s) \<in> set (replan_sources d) \<Longrightarrow> stands timeout d s"
  "(x, Inr s) \<in> set (human_deadline_sources d) \<Longrightarrow> stands timeout d s"
  "(x, Inr s) \<in> set (human_continuation_sources d) \<Longrightarrow> stands timeout d s"
  "(x, Inr s) \<in> set (command_continuation_sources d) \<Longrightarrow> stands timeout d s"
  "(x, Inr s) \<in> set (command_state_sources PendingStart d) \<Longrightarrow> stands timeout d s"
  "(x, Inr s) \<in> set (command_cancellation_sources d) \<Longrightarrow> stands timeout d s"
  "(x, Inr s) \<in> set (dispatch_start_sources d) \<Longrightarrow> stands timeout d s"
  "(x, Inr s) \<in> set (watchdog_sources timeout d) \<Longrightarrow> stands timeout d s"
  by (auto simp: stands_def startup_runtime_families_def)

text \<open>The context of an opening is an idle lane of a running Task.\<close>

lemma planned_lane:
  assumes "plan_ordinary_successor render read TaskRunning None source dispatch d = Inr (Some np)"
  obtains b where "read source d = Inr (Some b)" "idle_lane (cb_task_id b) (cb_assignment_id b) (cb_attempt_id b) d"
    "task_is (cb_task_id b) [TaskRunning] d"
proof -
  obtain b n where b: "read source d = Inr (Some b)" "read_ordinary_dispatch_snapshot b TaskRunning None d = Inr (Some n)"
    using assms unfolding plan_ordinary_successor_def
    by (auto elim!: and_then_InrE split: option.split_asm)
  obtain c where "read_ordinary_runtime_context b TaskRunning None d = Some c"
    using b(2) by (auto simp: read_ordinary_dispatch_snapshot_def split: option.split_asm)
  then have "idle_lane (cb_task_id b) (cb_assignment_id b) (cb_attempt_id b) d \<and> task_is (cb_task_id b) [TaskRunning] d"
    by (auto simp: read_ordinary_runtime_context_def idle_lane_def task_is_def list_ex_iff bind_eq_Some_conv
        dest!: find_Some_D)
  then show thesis using that b(1) by blast
qed

lemma human_terminal_stands:
  assumes "plan_ordinary_successor render (read_human_request_continuation_basis lib) TaskRunning None
    request dispatch d = Inr (Some np)"
  shows "stands timeout d (HumanRequestTerminal request)"
proof -
  obtain b where b: "read_human_request_continuation_basis lib request d = Inr (Some b)"
      "idle_lane (cb_task_id b) (cb_assignment_id b) (cb_attempt_id b) d"
    by (rule planned_lane [OF assms])
  obtain h where h: "find (\<lambda>h. hr_request_id h = request \<and> is_terminal_human h \<and> hr_successor_dispatch_id h = None)
        (human_requests d) = Some h"
      "cb_task_id b = hr_task_id h" "cb_assignment_id b = hr_assignment_id h" "cb_attempt_id b = hr_attempt_id h"
    using b(1) by (auto simp: read_human_request_continuation_basis_def human_request_continuation_basis_def
        elim!: and_then_InrE split: option.split_asm)
  show ?thesis
    using find_Some_D [OF h(1)] b(2) h(2-4)
    by (intro standsI(6) [of request]) (auto simp: human_continuation_sources_def is_terminal_human_def)
qed

lemma command_terminal_stands:
  assumes "plan_ordinary_successor render read_command_run_continuation_basis TaskRunning None
    run dispatch d = Inr (Some np)"
  shows "stands timeout d (CommandRunTerminal run)"
proof -
  obtain b where b: "read_command_run_continuation_basis run d = Inr (Some b)"
      "idle_lane (cb_task_id b) (cb_assignment_id b) (cb_attempt_id b) d"
    by (rule planned_lane [OF assms])
  obtain r where r: "find (\<lambda>r. cr_run_id r = run \<and> cr_state r \<in> set command_terminal_states \<and>
        cr_successor_dispatch_id r = None) (command_runs d) = Some r"
      "cb_task_id b = cr_task_id r" "cb_assignment_id b = cr_assignment_id r" "cb_attempt_id b = cr_attempt_id r"
    using b(1) by (auto simp: read_command_run_continuation_basis_def command_run_continuation_basis_def
        elim!: and_then_InrE split: option.split_asm)
  show ?thesis
    using find_Some_D [OF r(1)] b(2) r(2-4)
    by (intro standsI(7) [of run]) (auto simp: command_continuation_sources_def)
qed

lemma wave_settled_stands:
  assumes "plan_ordinary_successor render read_delegation_wave_continuation_basis TaskRunning None
    wave dispatch d = Inr (Some np)"
  shows "stands timeout d (DelegationWaveSettled wave)"
proof -
  obtain b where b: "read_delegation_wave_continuation_basis wave d = Inr (Some b)"
      "idle_lane (cb_task_id b) (cb_assignment_id b) (cb_attempt_id b) d" "task_is (cb_task_id b) [TaskRunning] d"
    by (rule planned_lane [OF assms])
  obtain w where w: "find (\<lambda>w. dw_delegation_wave_id w = wave \<and> dw_status w = WaveSettled \<and>
        dw_successor_dispatch_id w = None) (waves d) = Some w"
      "cb_task_id b = dw_task_id w" "cb_assignment_id b = dw_parent_assignment_id w"
      "cb_attempt_id b = dw_parent_attempt_id w"
    using b(1) by (auto simp: read_delegation_wave_continuation_basis_def Let_def
        elim!: and_then_InrE split: option.split_asm if_split_asm)
  show ?thesis
    using find_Some_D [OF w(1)] b(2,3) w(2-4)
    by (intro standsI(3) [of wave]) (auto simp: wave_continuation_sources_def)
qed

lemma replan_row_stands:
  assumes "r \<in> set (replan_transitions d)" "rt_replan_transition_id r = transition" "replan_unsettled r"
  shows "stands timeout d (ReplanCommitted transition)"
  using assms by (intro standsI(4) [of transition]) (auto simp: replan_sources_def replan_unsettled_def)

lemma replan_stands:
  assumes "plan_ordinary_successor render (read_replan_continuation_basis read_success) TaskRunning None
    transition dispatch d = Inr (Some np)"
  shows "stands timeout d (ReplanCommitted transition)"
proof -
  obtain b where "read_replan_continuation_basis read_success transition d = Inr (Some b)"
    by (rule planned_lane [OF assms])
  then obtain r where "find (\<lambda>r. rt_replan_transition_id r = transition \<and> replan_openable r) (replan_transitions d) = Some r"
    by (auto simp: read_replan_continuation_basis_def split: option.split_asm)
  from find_Some_D [OF this] show ?thesis
    by (intro replan_row_stands [of r]) (auto simp: replan_openable_def replan_unsettled_def)
qed

lemma replan_manifest_stands:
  assumes "ensure_replan_manifest_current env project transition d = Inr (b, d')" and "d' \<noteq> d"
  shows "stands timeout d (ReplanCommitted transition)"
proof -
  obtain r where r: "find (\<lambda>r. rt_replan_transition_id r = transition) (replan_transitions d) = Some r" "replan_unsettled r"
    using assms by (auto simp: ensure_replan_manifest_current_def split: option.split_asm if_split_asm)
  then show ?thesis using find_Some_D [OF r(1)] replan_row_stands [of r d transition] by simp
qed

lemma task_start_stands:
  assumes "read_root_opening_snapshot task TaskRunning None None d = Inr (Some n)"
  shows "stands timeout d (TaskStartCommitted task)"
proof -
  obtain s t c where st: "read_task_start_state task TaskRunning None None d = Some (s, t)"
      and c: "read_root_runtime_context s t d = Inr c"
    using assms by (auto simp: read_root_opening_snapshot_def elim!: and_then_InrE split: option.split_asm)
  have s: "s \<in> set (task_starts d)" "ts_task_id s = task" "t \<in> set (tasks d)" "tk_task_id t = task"
      "ts_successor_dispatch_id s = None" "tk_status t = TaskRunning"
    using st by (auto simp: read_task_start_state_def bind_eq_Some_conv dest!: find_Some_D split: if_split_asm)
  obtain a b where a: "find (\<lambda>a. as_task_id a = tk_task_id t \<and> as_assignment_id a = ts_root_assignment_id s)
        (assignments d) = Some a"
      and b: "find (\<lambda>b. at_task_id b = tk_task_id t \<and> at_assignment_id b = as_assignment_id a \<and>
        at_attempt_id b = ts_root_attempt_id s) (attempts d) = Some b" "at_status b = AttRunning"
        "at_current_dispatch_id b = None" "at_current_wait_id b = None"
    using c unfolding read_root_runtime_context_def
    by (clarsimp simp: bind_eq_Some_conv split: option.split_asm if_split_asm)
  have "list_ex (\<lambda>a. as_task_id a = task \<and> as_assignment_id a = ts_root_assignment_id s) (assignments d)"
      "idle_lane task (ts_root_assignment_id s) (ts_root_attempt_id s) d"
    using find_Some_D [OF a] find_Some_D [OF b(1)] b(2-4) s(4) by (auto simp: idle_lane_def list_ex_iff)
  then show ?thesis
    using s by (intro standsI(1) [of task]) (auto simp: task_start_sources_def task_is_def list_ex_iff)
qed

subsection \<open>Waits\<close>

lemma wait_is_parked:
  assumes lanes: "lanes_ok d" and w: "w \<in> set (waits d)" and "p w"
  shows "parked_on p d"
proof -
  obtain a where a: "a \<in> set (attempts d)" "attempt_owns_wait a w"
    using lanes w by (auto simp: lanes_ok_def lanes_wf_def)
  have "ck_attempt a" using lanes a(1) by (simp add: lanes_ok_def)
  then have "at_status a = AttRunning" "at_current_dispatch_id a = None"
    using a(2) by (auto simp: ck_attempt_def attempt_owns_wait_def)
  then show ?thesis using a w assms(3) by (auto simp: parked_on_def list_ex_iff)
qed

lemma wave_complete_stands:
  assumes lanes: "lanes_ok d" and "settle_delegation_wave wave now d = Inr (True, d')"
  shows "stands timeout d (WaveMemberSettled wave)"
proof -
  obtain w x where w: "read_open_wave wave d = Some w" and x: "read_parent_wave_wait w d = Some x"
      and c: "claim_complete_wave w now d \<noteq> None"
    using assms(2) by (auto simp: settle_delegation_wave_def split: option.split_asm)
  have "task_is (dw_task_id w) [TaskRunning, TaskPaused] d" "\<not> incomplete_member (dw_delegation_wave_id w) d"
    using c by (auto simp: claim_complete_wave_def task_is_def list_ex_iff table_simps split: if_split_asm)
  moreover note find_Some_D [OF w [unfolded read_open_wave_def]] find_Some_D [OF x [unfolded read_parent_wave_wait_def]]
  moreover have "parked_on (\<lambda>x. aw_task_id x = dw_task_id w \<and> aw_assignment_id x = dw_parent_assignment_id w \<and>
      aw_attempt_id x = dw_parent_attempt_id w \<and> aw_source_dispatch_id x = dw_source_dispatch_id w \<and>
      aw_delegation_wave_id x = Some (dw_delegation_wave_id w)) d"
    by (rule wait_is_parked [OF lanes, of x]) (use calculation in simp_all)
  ultimately show ?thesis
    by (intro standsI(2) [of wave]) (auto simp: wave_settlement_sources_def)
qed

lemma human_deadline_stands:
  assumes rt: "runtime_ok H d" and "human_request_opened_action request d = HumanRequests.RegisterDeadline s"
  shows "stands timeout d (HumanRequestOpened request)"
proof -
  obtain h where "read_human_request request d = Some h" "hr_status h = HumanOpen"
    using assms(2) by (auto simp: human_request_opened_action_def split: option.split_asm human_status.split_asm)
  then have h: "h \<in> set (human_requests d)" "hr_request_id h = request" "hr_status h = HumanOpen"
    using find_Some_D [of _ "human_requests d" h] by (auto simp: read_human_request_def)
  then obtain w where "w \<in> set (waits d)" "human_wait_matches h w"
    using runtime_ok_parts(2) [OF rt] by (auto simp: humans_ok_def)
  then have "parked_on (\<lambda>w. aw_task_id w = hr_task_id h \<and> aw_assignment_id w = hr_assignment_id h \<and>
      aw_attempt_id w = hr_attempt_id h \<and> aw_source_dispatch_id w = hr_source_dispatch_id h \<and>
      aw_human_request_id w = Some (hr_request_id h)) d"
    by (intro wait_is_parked [OF runtime_ok_parts(4) [OF rt]]) (auto simp: human_wait_matches_def)
  then show ?thesis using h by (intro standsI(5) [of request]) (auto simp: human_deadline_sources_def)
qed

lemma command_pending_stands:
  assumes rt: "runtime_ok H d" and "claim_command_run_launch run owner now d = Inr (Some claim, d')"
  shows "stands timeout d (CommandRunPending run)"
proof -
  obtain r where "find (\<lambda>r. cr_run_id r = run \<and> claimable r) (command_runs d) = Some r"
    using assms(2) by (auto simp: claim_command_run_launch_def split: option.split_asm)
  from find_Some_D [OF this]
  have r: "r \<in> set (command_runs d)" "cr_run_id r = run" "cr_state r = PendingStart" by (auto simp: claimable_def)
  then obtain w where "w \<in> set (waits d)" "command_wait_matches r w"
    using runtime_ok_parts(3) [OF rt] by (auto simp: commands_ok_def is_terminal_command_def command_terminal_states_def)
  then have "parked_on (\<lambda>w. aw_task_id w = cr_task_id r \<and> aw_assignment_id w = cr_assignment_id r \<and>
      aw_attempt_id w = cr_attempt_id r \<and> aw_source_dispatch_id w = cr_source_dispatch_id r \<and>
      aw_command_run_id w = Some (cr_run_id r)) d"
    by (intro wait_is_parked [OF runtime_ok_parts(4) [OF rt]]) (auto simp: command_wait_matches_def)
  then show ?thesis using r by (intro standsI(8) [of run]) (auto simp: command_state_sources_def)
qed

lemma command_cancelled_stands:
  assumes "find (\<lambda>r. cr_run_id r = run \<and> cr_state r = CancellationRequested) (command_runs d) = Some r"
  shows "stands timeout d (CommandRunCancellationRequested run (cr_ownership_revision r))"
  using find_Some_D [OF assms] by (intro standsI(9) [of run]) (auto simp: command_cancellation_sources_def)

subsection \<open>Dispatches\<close>

lemma active_dispatch_runs:
  assumes lanes: "lanes_ok d" and t: "t \<in> set (dispatches d)" "dispatch_is_active t"
    and a: "a \<in> set (attempts d)" "at_attempt_id a = dt_attempt_id t" "at_status a = AttRunning" "at_current_wait_id a = None"
    and "k \<in> set (tasks d)" "tk_task_id k = dt_task_id t" "tk_status k = TaskRunning"
    and "dispatch_team_selection_is_current t d"
  shows "running_on t d"
proof -
  obtain b where b: "b \<in> set (attempts d)" "attempt_owns_dispatch b t"
    using lanes t by (auto simp: lanes_ok_def lanes_wf_def)
  have "b = a"
    by (rule keyed_unique [of at_attempt_id "attempts d"])
      (use lanes a b in \<open>simp_all add: lanes_ok_def attempt_owns_dispatch_def\<close>)
  then show ?thesis using b a assms(8-) by (auto simp: running_on_def task_is_def list_ex_iff)
qed

lemma start_stands:
  assumes lanes: "lanes_ok d" and "read_provider_start_candidate s d = Some c"
  shows "stands timeout d (start_signal s)"
proof -
  obtain t k a due where t: "find (\<lambda>t. dt_dispatch_id t = sd_dispatch_id s \<and> dispatch_team_selection_is_current t d)
        (dispatches d) = Some t" and k: "find (\<lambda>k. tk_task_id k = dt_task_id t) (tasks d) = Some k"
      and a: "find (\<lambda>a. at_attempt_id a = dt_attempt_id t) (attempts d) = Some a"
      and s: "dt_next_provider_start_at t = Some due" "dt_status t = Starting"
        "dt_provider_start_revision t = sd_revision s" "due = sd_due_at s" "tk_status k = TaskRunning"
        "at_status a = AttRunning" "at_current_wait_id a = None"
    using assms(2) by (auto simp: read_provider_start_candidate_def bind_eq_Some_conv split: if_split_asm)
  note f = find_Some_D [OF t] find_Some_D [OF k] find_Some_D [OF a]
  have "running_on t d"
    by (rule active_dispatch_runs [OF lanes, of t a k]) (use f s in \<open>simp_all add: dispatch_is_active_def\<close>)
  then have "(sd_dispatch_id s, Inr (start_signal s)) \<in> set (dispatch_start_sources d)"
    unfolding dispatch_start_sources_def set_map
    by (intro image_eqI [of _ _ t]) (use f s in \<open>simp_all add: start_signal_def\<close>)
  then show ?thesis by (rule standsI(10))
qed

lemma watchdog_stands:
  assumes lanes: "lanes_ok d" and c: "read_watchdog_recovery_candidate timeout
      \<lparr>wq_dispatch_id = x, wq_activity_revision = n, wq_due_at = due\<rparr> now d = Some (c, started, at)"
    "\<not> dispatch_owns_external_source (dt_dispatch_id (oc_source_dispatch c)) d"
  shows "stands timeout d (WatchdogDeadlineChanged x n due)"
proof -
  let ?w = "\<lparr>wq_dispatch_id = x, wq_activity_revision = n, wq_due_at = due\<rparr>"
  let ?t = "oc_source_dispatch c"
  have p: "watchdog_context_is_plausible c ?w" "read_watchdog_runtime_context x d = Some c"
      "dt_adapter_started_at ?t = Some started" "calculate_watchdog_due_at started (dt_last_node_activity_at ?t) timeout = due"
    using c(1) by (auto simp: read_watchdog_recovery_candidate_def bind_eq_Some_conv Let_def split: if_split_asm)
  have f: "?t \<in> set (dispatches d)" "dt_dispatch_id ?t = x" "oc_task c \<in> set (tasks d)" "tk_task_id (oc_task c) = dt_task_id ?t"
      "oc_attempt c \<in> set (attempts d)" "oc_selection c \<in> set (team_members d)"
      "tm_task_id (oc_selection c) = dt_task_id ?t"
    using p(2) by (auto simp: read_watchdog_runtime_context_def bind_eq_Some_conv dest!: find_Some_D)
  have sel: "dispatch_team_selection_is_current ?t d"
    unfolding dispatch_team_selection_is_current_def current_team_selects_member_def list_ex_iff
    by (intro bexI [of _ "oc_task c"] conjI bexI [of _ "oc_selection c"])
      (use p(1) f in \<open>simp_all add: watchdog_context_is_plausible_def Let_def\<close>)
  have "running_on ?t d"
    by (rule active_dispatch_runs [OF lanes f(1), of "oc_attempt c" "oc_task c"])
      (use p(1) f sel in \<open>simp_all add: dispatch_is_active_def watchdog_context_is_plausible_def Let_def\<close>)
  then have "(x, Inr (WatchdogDeadlineChanged x n due)) \<in> set (watchdog_sources timeout d)"
    unfolding watchdog_sources_def set_map
    by (intro image_eqI [of _ _ ?t])
      (use f(1,2) p(1,3,4) c(2) in \<open>simp_all add: watchdog_context_is_plausible_def Let_def dispatch_owns_external_source_def\<close>)
  then show ?thesis by (rule standsI(11))
qed

lemma work_stands:
  assumes ok: "system_ok H d" and "has_work timeout d s"
  shows "stands timeout d s"
proof -
  note rt = system_ok_parts(1) [OF ok] and lanes = runtime_ok_parts(4) [OF system_ok_parts(1) [OF ok]]
  show ?thesis
    using assms(2)
  proof cases
    case hw_task_start then show ?thesis by (simp add: task_start_stands)
  next
    case hw_human_terminal then show ?thesis by (simp add: human_terminal_stands)
  next
    case hw_command_terminal then show ?thesis by (simp add: command_terminal_stands)
  next
    case hw_wave_settled then show ?thesis by (simp add: wave_settled_stands)
  next
    case hw_replan_manifest then show ?thesis by (simp add: replan_manifest_stands)
  next
    case hw_replan then show ?thesis by (simp add: replan_stands)
  next
    case hw_wave_complete then show ?thesis by (simp add: wave_complete_stands [OF lanes])
  next
    case hw_human_deadline then show ?thesis by (simp add: human_deadline_stands [OF rt])
  next
    case hw_command_pending then show ?thesis by (simp add: command_pending_stands [OF rt])
  next
    case hw_command_cancelled then show ?thesis by (simp add: command_cancelled_stands)
  next
    case hw_start then show ?thesis by (simp add: start_stands [OF lanes])
  next
    case hw_watchdog then show ?thesis by (simp add: watchdog_stands [OF lanes])
  qed
qed

lemma standing_is_published:
  assumes ok: "system_ok H d" and st: "stands timeout d s"
    and run: "audit_startup_runtime_effects (\<lambda>_ _. d) accepts startup_routed_signal_types timeout u = (Inr results, u')"
  shows "s \<in> set (su_published u')"
proof -
  obtain f x where f: "f \<in> set (startup_runtime_families timeout)" "(x, Inr s) \<in> set (snd f d)"
    using st by (auto simp: stands_def)
  then obtain i where i: "i < length (startup_runtime_families timeout)" "startup_runtime_families timeout ! i = f"
    by (meson in_set_conv_nth)
  have fam: "audit_families (\<lambda>_ _. d) accepts startup_routed_signal_types 0 (startup_runtime_families timeout) u = (Inr results, u')"
    using run by (auto simp: audit_startup_runtime_effects_def split: if_split_asm)
  have page: "pageable startup_routed_signal_types (snd f d)" using families_pageable [OF ok] f(1) by blast
  have "x \<in> fst ` set (snd f d)" using f(2) by force
  then have "\<forall>n. x \<in> fst ` set (snd (startup_runtime_families timeout ! i) d)" using i(2) by simp
  from conjunct2 [OF conjunct2 [OF families_cover [OF fam]], rule_format, OF i(1), OF this [rule_format]]
  obtain y where y: "(x, Inr y) \<in> set (snd f d)"
      "signal_type_name y \<in> set startup_routed_signal_types \<longrightarrow> y \<in> set (su_published u')"
    using i(2) by auto
  have "y = s" using page f(2) y(1) by (auto simp: pageable_def dest: eq_key_imp_eq_value)
  then show ?thesis using y(2) page f(2) by (auto simp: pageable_def)
qed

text \<open>
  C2. A restart finds all work. When the invariant holds and the audit of the database returns, every
  signal whose handler would find something to do was published: every source that can open its
  successor, every complete Wave, every manifest to repair, every deadline of an open Human Request,
  every claimable Command Run, every requested cancellation, every start generation that has a
  candidate and every Dispatch the watchdog may replace.
\<close>

theorem restart_finds_all_work:
  assumes "system_ok H d" and "has_work timeout d s"
    and "audit_startup_runtime_effects (\<lambda>_ _. d) accepts startup_routed_signal_types timeout u = (Inr results, u')"
  shows "s \<in> set (su_published u')"
  by (rule standing_is_published [OF assms(1) work_stands [OF assms(1,2)] assms(3)])

end
