(* ===== verification/PostCommitProofs.thy ===== *)
theory PostCommitProofs
  imports PostCommit
begin

text \<open>
  The router starts the accepted signals in their order and counts every one it lost; the scheduler
  implements a table with the newest generation of every source.
\<close>

subsection \<open>The router\<close>

text \<open>A run of the router: what it accepted, what the dispatcher started, what was lost or failed.\<close>

record router_run =
  rr_router :: effect_router
  rr_accepted :: "runtime_signal list"
  rr_started :: "runtime_signal list"
  rr_failures :: nat

inductive router_step :: "(time \<Rightarrow> string) \<Rightarrow> router_run \<Rightarrow> router_run \<Rightarrow> bool" for fmt where
  rs_accepted: "publish_signal fmt now s (rr_router x) = (True, r) \<Longrightarrow>
     router_step fmt x (x\<lparr>rr_router := r, rr_accepted := rr_accepted x @ [s]\<rparr>)"
| rs_rejected: "publish_signal fmt now s (rr_router x) = (False, r) \<Longrightarrow>
     router_step fmt x (x\<lparr>rr_router := r, rr_failures := rr_failures x + 1\<rparr>)"
| rs_startup_accepted: "publish_startup_signal fmt now s (rr_router x) = Some (True, r) \<Longrightarrow>
     router_step fmt x (x\<lparr>rr_router := r, rr_accepted := rr_accepted x @ [s]\<rparr>)"
| rs_startup_rejected: "publish_startup_signal fmt now s (rr_router x) = Some (False, r) \<Longrightarrow>
     router_step fmt x (x\<lparr>rr_router := r, rr_failures := rr_failures x + 1\<rparr>)"
| rs_started: "run_dispatcher fmt now (rr_router x) = (Some s, r) \<Longrightarrow>
     router_step fmt x (x\<lparr>rr_router := r, rr_started := rr_started x @ [s]\<rparr>)"
| rs_idle: "run_dispatcher fmt now (rr_router x) = (None, r) \<Longrightarrow>
     router_step fmt x (x\<lparr>rr_router := r\<rparr>)"
| rs_handler_raised: "router_step fmt x
     (x\<lparr>rr_router := handler_raised fmt now s exn (rr_router x), rr_failures := rr_failures x + 1\<rparr>)"

definition router_ok :: "string list \<Rightarrow> nat \<Rightarrow> router_run \<Rightarrow> bool" where
  "router_ok routes capacity x \<longleftrightarrow>
     ro_routes (rr_router x) = routes \<and> ro_capacity (rr_router x) = capacity \<and>
     ro_is_accepting (rr_router x) \<and>
     (\<exists>q. ro_queue (rr_router x) = Some q \<and> rr_accepted x = rr_started x @ q \<and>
        length q \<le> capacity) \<and>
     (\<forall>s \<in> set (rr_accepted x). signal_type_name s \<in> set routes) \<and>
     eh_failure_count (ro_health (rr_router x)) = rr_failures x"

lemma publication_queue_cases:
  assumes "publication_queue fmt now s r = (q, r')"
  shows "(q = None \<and> (\<exists>k. r' = router_failure fmt now k (Some s) r)) \<or>
     (r' = r \<and> (\<exists>q'. q = Some q' \<and> ro_queue r = Some q') \<and> signal_type_name s \<in> set (ro_routes r) \<and>
        ro_is_accepting r)"
  using assms by (auto simp: publication_queue_def split: if_split_asm)

lemma router_failure_sel [simp]:
  "ro_routes (router_failure fmt now k s r) = ro_routes r"
  "ro_capacity (router_failure fmt now k s r) = ro_capacity r"
  "ro_queue (router_failure fmt now k s r) = ro_queue r"
  "ro_is_accepting (router_failure fmt now k s r) = ro_is_accepting r"
  "eh_failure_count (ro_health (router_failure fmt now k s r)) = eh_failure_count (ro_health r) + 1"
  by (simp_all add: router_failure_def mark_failure_def)

text \<open>A publication appends to the queue or marks a failure.\<close>

definition enqueued :: "runtime_signal \<Rightarrow> effect_router \<Rightarrow> effect_router \<Rightarrow> bool" where
  "enqueued s r r' \<longleftrightarrow> signal_type_name s \<in> set (ro_routes r) \<and>
     (\<exists>q. ro_queue r = Some q \<and> length q < ro_capacity r \<and> r' = r\<lparr>ro_queue := Some (q @ [s])\<rparr>)"

lemma publish_signal_cases:
  assumes "publish_signal fmt now s r = (b, r')"
  shows "if b then enqueued s r r' else (\<exists>k. r' = router_failure fmt now k (Some s) r)"
  using assms publication_queue_cases [of fmt now s r]
  by (auto simp: publish_signal_def enqueued_def split: prod.split_asm option.split_asm if_split_asm)

lemma publish_startup_signal_cases:
  assumes "publish_startup_signal fmt now s r = Some (b, r')"
  shows "if b then enqueued s r r' else (\<exists>k. r' = router_failure fmt now k (Some s) r)"
  using assms publication_queue_cases [of fmt now s r]
  by (auto simp: publish_startup_signal_def enqueued_def split: prod.split_asm option.split_asm if_split_asm)

lemma router_ok_enqueued:
  "router_ok routes n x \<Longrightarrow> enqueued s (rr_router x) r \<Longrightarrow>
     router_ok routes n (x\<lparr>rr_router := r, rr_accepted := rr_accepted x @ [s]\<rparr>)"
  by (auto simp: router_ok_def enqueued_def)

lemma router_ok_failed:
  "router_ok routes n x \<Longrightarrow>
     router_ok routes n (x\<lparr>rr_router := router_failure fmt now k s (rr_router x), rr_failures := rr_failures x + 1\<rparr>)"
  by (auto simp: router_ok_def)

lemma router_step_keeps:
  assumes "router_step fmt x y" and ok: "router_ok routes n x"
  shows "router_ok routes n y"
  using assms(1)
proof cases
  case rs_started
  then show ?thesis using ok
    by (auto simp: router_ok_def run_dispatcher_def split: option.split_asm list.split_asm if_split_asm)
next
  case rs_idle
  then show ?thesis using ok
    by (auto simp: router_ok_def run_dispatcher_def split: option.split_asm list.split_asm if_split_asm)
next
  case rs_handler_raised
  then show ?thesis using ok by (auto simp: router_ok_def handler_raised_def mark_failure_def)
qed (use publish_signal_cases [of fmt] publish_startup_signal_cases [of fmt]
      router_ok_enqueued [OF ok] router_ok_failed [OF ok] in fastforce)+

text \<open>
  C9. The router delivers in order and loses nothing silently. From the entry of its lifespan on, the
  signals the dispatcher has started are exactly the first of the signals the router accepted, in
  their order and each once; the rest waits in a queue that never exceeds its capacity; every
  accepted signal has a route, so the dispatcher never stops; and the failure count is the number of
  rejected publications and failed handlers.
\<close>

theorem router_delivers_in_order:
  assumes "enter_router r = Inr r0" and "ro_capacity r = n" and "eh_failure_count (ro_health r) = 0"
    and "(router_step fmt)\<^sup>*\<^sup>* \<lparr>rr_router = r0, rr_accepted = [], rr_started = [], rr_failures = 0\<rparr> x"
  shows "\<exists>q. ro_queue (rr_router x) = Some q \<and> rr_accepted x = rr_started x @ q \<and> length q \<le> n \<and>
      ro_is_accepting (rr_router x) \<and> eh_failure_count (ro_health (rr_router x)) = rr_failures x \<and>
      (\<forall>now s q'. q = s # q' \<longrightarrow> fst (run_dispatcher fmt now (rr_router x)) = Some s)"
proof -
  have "router_ok (ro_routes r) n x"
    using assms(4)
  proof (induction rule: rtranclp_induct)
    case base
    show ?case using assms(1-3) by (auto simp: router_ok_def enter_router_def split: if_split_asm)
  next
    case (step y z)
    then show ?case using router_step_keeps by blast
  qed
  then show ?thesis by (auto simp: router_ok_def run_dispatcher_def)
qed

subsection \<open>The scheduler\<close>

text \<open>What the scheduler implements: a table with one generation per source.\<close>

type_synonym due_table = "deadline_slot \<rightharpoonup> deadline_signal"

definition newer_generation :: "deadline_signal \<Rightarrow> deadline_signal \<Rightarrow> bool" where
  "newer_generation s c \<longleftrightarrow> is_newer_deadline s c = Inr True"

definition table_register :: "deadline_signal \<Rightarrow> due_table \<Rightarrow> due_table" where
  "table_register s T =
     (case T (deadline_slot s) of
        None \<Rightarrow> T(deadline_slot s \<mapsto> s)
      | Some c \<Rightarrow> if newer_generation s c then T(deadline_slot s \<mapsto> s) else T)"

definition due_table :: "deadline_scheduler \<Rightarrow> due_table" where
  "due_table d = map_option fst \<circ> map_of (dl_deadlines d)"

text \<open>Every entry has its own timer and every timer its entry.\<close>

definition scheduler_ok :: "deadline_scheduler \<Rightarrow> bool" where
  "scheduler_ok d \<longleftrightarrow>
     (\<forall>slot s t. map_of (dl_deadlines d) slot = Some (s, t) \<longrightarrow> deadline_slot s = slot \<and>
        (\<exists>ti. map_of (dl_timers d) t = Some ti \<and> ti_slot ti = slot \<and> ti_signal ti = s)) \<and>
     (\<forall>t ti. map_of (dl_timers d) t = Some ti \<longrightarrow> t < dl_next_timer d \<and>
        map_of (dl_deadlines d) (ti_slot ti) = Some (ti_signal ti, t))"

lemma scheduler_ok_entry:
  assumes "scheduler_ok d" and "map_of (dl_deadlines d) slot = Some (s, t)"
  obtains ti where "deadline_slot s = slot" "map_of (dl_timers d) t = Some ti" "ti_slot ti = slot" "ti_signal ti = s"
  using assms unfolding scheduler_ok_def by blast

lemma scheduler_ok_timer:
  "scheduler_ok d \<Longrightarrow> map_of (dl_timers d) t = Some ti \<Longrightarrow>
     t < dl_next_timer d \<and> map_of (dl_deadlines d) (ti_slot ti) = Some (ti_signal ti, t)"
  unfolding scheduler_ok_def by blast

lemmas scheduler_simps = cancel_timer_def schedule_deadline_def AList.update_conv' AList.delete_conv' due_table_def

lemma due_table_updates [simp]:
  "due_table (schedule_deadline delay slot s d) = (due_table d)(slot \<mapsto> s)"
  "due_table (cancel_timer t d) = due_table d"
  "due_table (d\<lparr>dl_deadlines := AList.delete slot (dl_deadlines d)\<rparr>) = (due_table d)(slot := None)"
  by (auto simp: scheduler_simps fun_eq_iff)

lemma due_table_lookup:
  "due_table d slot = map_option fst (map_of (dl_deadlines d) slot)"
  by (simp add: due_table_def)

text \<open>Taking an entry out with its timer, and scheduling into an empty slot.\<close>

lemma scheduler_ok_cancel:
  assumes ok: "scheduler_ok d" and e: "map_of (dl_deadlines d) slot = Some (s, t)"
  shows "scheduler_ok (cancel_timer t (d\<lparr>dl_deadlines := AList.delete slot (dl_deadlines d)\<rparr>))"
  unfolding scheduler_ok_def
proof (intro conjI allI impI)
  fix slot' s' t'
  assume "map_of (dl_deadlines (cancel_timer t (d\<lparr>dl_deadlines := AList.delete slot (dl_deadlines d)\<rparr>))) slot' = Some (s', t')"
  then have e': "slot' \<noteq> slot" "map_of (dl_deadlines d) slot' = Some (s', t')"
    by (simp_all add: scheduler_simps split: if_split_asm)
  obtain ti where ti: "deadline_slot s' = slot'" "map_of (dl_timers d) t' = Some ti" "ti_slot ti = slot'" "ti_signal ti = s'"
    by (rule scheduler_ok_entry [OF ok e'(2)])
  have "t' \<noteq> t" using scheduler_ok_entry [OF ok e] ti e'(1) by (metis option.inject)
  then show "deadline_slot s' = slot'"
    and "\<exists>ti. map_of (dl_timers (cancel_timer t (d\<lparr>dl_deadlines := AList.delete slot (dl_deadlines d)\<rparr>))) t' = Some ti \<and>
      ti_slot ti = slot' \<and> ti_signal ti = s'"
    using ti by (simp_all add: scheduler_simps)
next
  fix t' ti
  assume "map_of (dl_timers (cancel_timer t (d\<lparr>dl_deadlines := AList.delete slot (dl_deadlines d)\<rparr>))) t' = Some ti"
  then have t': "t' \<noteq> t" "map_of (dl_timers d) t' = Some ti" by (simp_all add: scheduler_simps split: if_split_asm)
  have en: "t' < dl_next_timer d" "map_of (dl_deadlines d) (ti_slot ti) = Some (ti_signal ti, t')"
    using scheduler_ok_timer [OF ok t'(2)] by simp_all
  have "ti_slot ti \<noteq> slot" using en(2) e t'(1) by auto
  then show "t' < dl_next_timer (cancel_timer t (d\<lparr>dl_deadlines := AList.delete slot (dl_deadlines d)\<rparr>))"
    and "map_of (dl_deadlines (cancel_timer t (d\<lparr>dl_deadlines := AList.delete slot (dl_deadlines d)\<rparr>))) (ti_slot ti) =
      Some (ti_signal ti, t')"
    using en by (simp_all add: scheduler_simps)
qed

lemma scheduler_ok_schedule:
  assumes ok: "scheduler_ok d" and free: "map_of (dl_deadlines d) slot = None" and s: "deadline_slot s = slot"
  shows "scheduler_ok (schedule_deadline delay slot s d)" (is "scheduler_ok ?d")
proof -
  have D: "map_of (dl_deadlines ?d) = (map_of (dl_deadlines d))(slot \<mapsto> (s, dl_next_timer d))"
    and T: "map_of (dl_timers ?d) =
      (map_of (dl_timers d))(dl_next_timer d \<mapsto> \<lparr>ti_delay = delay, ti_slot = slot, ti_signal = s\<rparr>)"
    and N: "dl_next_timer ?d = dl_next_timer d + 1"
    by (simp_all add: scheduler_simps)
  show ?thesis
    unfolding scheduler_ok_def D T N
  proof (intro conjI allI impI)
    fix slot' s' t'
    assume e: "((map_of (dl_deadlines d))(slot \<mapsto> (s, dl_next_timer d))) slot' = Some (s', t')"
    show "deadline_slot s' = slot'" using e s scheduler_ok_entry [OF ok, of slot' s' t'] by (auto split: if_split_asm)
    show "\<exists>ti. ((map_of (dl_timers d))(dl_next_timer d \<mapsto> \<lparr>ti_delay = delay, ti_slot = slot, ti_signal = s\<rparr>)) t' = Some ti \<and>
        ti_slot ti = slot' \<and> ti_signal ti = s'"
    proof (cases "slot' = slot")
      case True
      then show ?thesis using e by simp
    next
      case False
      then have e': "map_of (dl_deadlines d) slot' = Some (s', t')" using e by simp
      obtain ti where "map_of (dl_timers d) t' = Some ti" "ti_slot ti = slot'" "ti_signal ti = s'"
        by (rule scheduler_ok_entry [OF ok e'])
      then show ?thesis using scheduler_ok_timer [OF ok, of t' ti] by auto
    qed
  next
    fix t ti
    assume e: "((map_of (dl_timers d))(dl_next_timer d \<mapsto> \<lparr>ti_delay = delay, ti_slot = slot, ti_signal = s\<rparr>)) t = Some ti"
    show "t < dl_next_timer d + 1"
      and "((map_of (dl_deadlines d))(slot \<mapsto> (s, dl_next_timer d))) (ti_slot ti) = Some (ti_signal ti, t)"
      using e free scheduler_ok_timer [OF ok, of t ti] by (auto split: if_split_asm)
  qed
qed

text \<open>Replacing an entry is taking it out first.\<close>

lemma scheduler_ok_same_maps:
  "map_of (dl_deadlines d') = map_of (dl_deadlines d) \<Longrightarrow> dl_timers d' = dl_timers d \<Longrightarrow>
     dl_next_timer d' = dl_next_timer d \<Longrightarrow> scheduler_ok d \<Longrightarrow> scheduler_ok d'"
  by (simp add: scheduler_ok_def)

lemma scheduler_ok_reschedule:
  assumes ok: "scheduler_ok d" and e: "map_of (dl_deadlines d) slot = Some (c, t)" and s: "deadline_slot s = slot"
  shows "scheduler_ok (schedule_deadline delay slot s (cancel_timer t d))"
proof (rule scheduler_ok_same_maps)
  let ?d = "cancel_timer t (d\<lparr>dl_deadlines := AList.delete slot (dl_deadlines d)\<rparr>)"
  show "scheduler_ok (schedule_deadline delay slot s ?d)"
    by (rule scheduler_ok_schedule [OF scheduler_ok_cancel [OF ok e] _ s]) (simp add: scheduler_simps)
  show "map_of (dl_deadlines (schedule_deadline delay slot s (cancel_timer t d))) =
      map_of (dl_deadlines (schedule_deadline delay slot s ?d))"
    by (auto simp: scheduler_simps fun_eq_iff)
qed (simp_all add: scheduler_simps)

lemma newer_generation_total:
  assumes "deadline_slot s = deadline_slot c"
  shows "is_newer_deadline s c = Inr (newer_generation s c)"
  using assms by (cases s; cases c) (auto simp: newer_generation_def)

lemma register_due_effect:
  assumes ok: "scheduler_ok d" and "register_due now s d = Inr (b, d')"
  shows "scheduler_ok d' \<and> due_table d' = table_register s (due_table d)"
proof (cases "map_of (dl_deadlines d) (deadline_slot s)")
  case None
  then show ?thesis using assms scheduler_ok_schedule [OF ok None refl]
    by (auto simp: register_due_def table_register_def due_table_lookup Let_def split: if_split_asm)
next
  case (Some e)
  obtain c t where e: "e = (c, t)" by (cases e)
  have slot: "deadline_slot c = deadline_slot s" using Some e by (metis scheduler_ok_entry [OF ok])
  have same: "\<not> newer_generation s s" by (cases s) (auto simp: newer_generation_def)
  show ?thesis
    using assms(2) Some e newer_generation_total [OF slot [symmetric]] same
      scheduler_ok_reschedule [OF ok Some [unfolded e] refl] ok
    by (auto simp: register_due_def table_register_def Let_def due_table_lookup split: if_split_asm)
qed

lemma cancel_source_effect:
  assumes ok: "scheduler_ok d" and "cancel_source slot d = (b, d')"
  shows "scheduler_ok d' \<and> due_table d' = (due_table d)(slot := None) \<and> (b \<longleftrightarrow> due_table d slot \<noteq> None)"
proof (cases "map_of (dl_deadlines d) slot")
  case None
  then show ?thesis using assms by (auto simp: cancel_source_def due_table_lookup fun_upd_idem_iff)
next
  case (Some e)
  then show ?thesis using assms scheduler_ok_cancel [OF ok, of slot "fst e" "snd e"]
    by (cases e) (auto simp: cancel_source_def due_table_lookup)
qed

lemma run_timer_effect:
  assumes ok: "scheduler_ok d" and ti: "map_of (dl_timers d) timer = Some ti"
    and run: "run_timer now timer d = (out, d')"
  shows "scheduler_ok d' \<and> due_table d (deadline_slot (ti_signal ti)) = Some (ti_signal ti) \<and>
     (if deadline_at (ti_signal ti) \<le> now
      then out = Some (ti_signal ti) \<and> due_table d' = (due_table d)(deadline_slot (ti_signal ti) := None)
      else out = None \<and> due_table d' = due_table d)"
proof -
  have e: "map_of (dl_deadlines d) (ti_slot ti) = Some (ti_signal ti, timer)"
    using scheduler_ok_timer [OF ok ti] by simp
  have slot: "deadline_slot (ti_signal ti) = ti_slot ti" by (rule scheduler_ok_entry [OF ok e]) simp
  have un: "cancel_timer timer (d\<lparr>dl_deadlines := AList.delete (ti_slot ti) (dl_deadlines d)\<rparr>) =
      (cancel_timer timer d)\<lparr>dl_deadlines := AList.delete (ti_slot ti) (dl_deadlines (cancel_timer timer d))\<rparr>"
    by (simp add: cancel_timer_def)
  have e': "map_of (dl_deadlines (cancel_timer timer d)) (ti_slot ti) = Some (ti_signal ti, timer)"
    using e by (simp add: cancel_timer_def)
  show ?thesis
    using run ti e e' slot scheduler_ok_cancel [OF ok e] scheduler_ok_reschedule [OF ok e slot]
    by (auto simp: run_timer_def publish_if_current_def un due_table_lookup map_upd_triv split: if_split_asm)
qed

text \<open>The histories of the scheduler, and of the table it implements.\<close>

datatype deadline_event =
    Registered deadline_signal
  | SourceCancelled deadline_slot
  | DuePublished deadline_signal time
  | TimerRenewed

inductive scheduler_step :: "deadline_scheduler \<Rightarrow> deadline_event \<Rightarrow> deadline_scheduler \<Rightarrow> bool" where
  ss_register: "register_due now s d = Inr (b, d') \<Longrightarrow> scheduler_step d (Registered s) d'"
| ss_cancel: "cancel_source slot d = (b, d') \<Longrightarrow> scheduler_step d (SourceCancelled slot) d'"
| ss_publish: "map_of (dl_timers d) timer \<noteq> None \<Longrightarrow> run_timer now timer d = (Some s, d') \<Longrightarrow>
     scheduler_step d (DuePublished s now) d'"
| ss_renew: "map_of (dl_timers d) timer \<noteq> None \<Longrightarrow> run_timer now timer d = (None, d') \<Longrightarrow>
     scheduler_step d TimerRenewed d'"

inductive table_step :: "due_table \<Rightarrow> deadline_event \<Rightarrow> due_table \<Rightarrow> bool" where
  ts_register: "table_step T (Registered s) (table_register s T)"
| ts_cancel: "table_step T (SourceCancelled slot) (T(slot := None))"
| ts_publish: "T (deadline_slot s) = Some s \<Longrightarrow> deadline_at s \<le> now \<Longrightarrow>
     table_step T (DuePublished s now) (T(deadline_slot s := None))"
| ts_renew: "table_step T TimerRenewed T"

inductive history_of :: "('s \<Rightarrow> 'e \<Rightarrow> 's \<Rightarrow> bool) \<Rightarrow> 's \<Rightarrow> 'e list \<Rightarrow> 's \<Rightarrow> bool" for step where
  ho_nil: "history_of step s [] s"
| ho_snoc: "history_of step s es t \<Longrightarrow> step t e u \<Longrightarrow> history_of step s (es @ [e]) u"

lemma scheduler_step_refines:
  assumes "scheduler_step d e d'" and ok: "scheduler_ok d"
  shows "scheduler_ok d' \<and> table_step (due_table d) e (due_table d')"
  using assms(1)
proof cases
  case (ss_register now s b)
  then show ?thesis using register_due_effect [OF ok] by (auto intro: ts_register)
next
  case (ss_cancel slot b)
  then show ?thesis using cancel_source_effect [OF ok] by (auto intro: ts_cancel)
next
  case (ss_publish timer now s)
  then obtain ti where ti: "map_of (dl_timers d) timer = Some ti" by auto
  have "ti_signal ti = s" "deadline_at s \<le> now"
    using run_timer_effect [OF ok ti ss_publish(3)] by (auto split: if_split_asm)
  then show ?thesis
    using run_timer_effect [OF ok ti ss_publish(3)] ss_publish(1) by (auto intro: ts_publish)
next
  case (ss_renew timer now)
  then obtain ti where ti: "map_of (dl_timers d) timer = Some ti" by auto
  show ?thesis
    using run_timer_effect [OF ok ti ss_renew(3)] ss_renew(1) by (auto intro: ts_renew split: if_split_asm)
qed

lemma scheduler_history_refines:
  "history_of scheduler_step d0 es d \<Longrightarrow> scheduler_ok d0 \<Longrightarrow>
     scheduler_ok d \<and> history_of table_step (due_table d0) es (due_table d)"
proof (induction rule: history_of.induct)
  case (ho_nil s)
  then show ?case by (auto intro: history_of.ho_nil)
next
  case (ho_snoc s es t e u)
  then show ?case
    using scheduler_step_refines [OF ho_snoc.hyps(2)]
      history_of.ho_snoc [of table_step "due_table s" es "due_table t" e "due_table u"]
    by blast
qed

text \<open>A deadline of the table is never forgotten: its timer is pending.\<close>

lemma due_table_has_timer:
  assumes ok: "scheduler_ok d" and "due_table d slot = Some s"
  shows "\<exists>timer. \<forall>now. fst (run_timer now timer d) = (if deadline_at s \<le> now then Some s else None)"
proof -
  obtain t where e: "map_of (dl_deadlines d) slot = Some (s, t)" using assms(2) by (auto simp: due_table_lookup)
  obtain ti where ti: "map_of (dl_timers d) t = Some ti" "ti_signal ti = s" by (rule scheduler_ok_entry [OF ok e])
  have "fst (run_timer now t d) = (if deadline_at s \<le> now then Some s else None)" for now
    using run_timer_effect [OF ok ti(1), of now] ti(2) by (cases "run_timer now t d") (auto split: if_split_asm)
  then show ?thesis by blast
qed

text \<open>
  C8. The scheduler implements its table of deadlines. Every history of the scheduler from the entry
  of its lifespan is a history of a table that holds one generation per source: registering keeps
  the newest generation, cancelling removes it, and a publication is of the generation in the table,
  not before it is due, and removes it. And every deadline of the table is armed: a pending timer
  publishes exactly it as soon as it is due.
\<close>

theorem scheduler_refines_due_table:
  assumes "enter_scheduler new_deadline_scheduler = Inr d0" and "history_of scheduler_step d0 es d"
  shows "history_of table_step Map.empty es (due_table d) \<and>
    (\<forall>slot s. due_table d slot = Some s \<longrightarrow>
       (\<exists>timer. \<forall>now. fst (run_timer now timer d) = (if deadline_at s \<le> now then Some s else None)))"
proof -
  have "scheduler_ok d0" "due_table d0 = Map.empty"
    using assms(1) by (auto simp: enter_scheduler_def new_deadline_scheduler_def scheduler_ok_def due_table_def)
  then have "scheduler_ok d \<and> history_of table_step Map.empty es (due_table d)"
    using scheduler_history_refines [OF assms(2)] by simp
  then show ?thesis using due_table_has_timer [of d] by simp
qed

end
