(* ===== verification/RestartWitnesses.thy ===== *)
theory RestartWitnesses
  imports StartWitnesses RestartProofs PostCommitProofs
begin

text \<open>A router with one route, a scheduler with two generations, and the audit of the sample state.\<close>

subsection \<open>Router and scheduler\<close>

definition sample_router :: effect_router where
  "sample_router = \<lparr>ro_routes = [''TaskStartCommitted''], ro_capacity = 1, ro_queue = None,
     ro_is_accepting = False, ro_has_entered = False,
     ro_health = \<lparr>eh_failure_count = 0, eh_last_failure = None\<rparr>\<rparr>"

definition entered_router :: effect_router where
  "entered_router = sample_router\<lparr>ro_has_entered := True, ro_queue := Some [], ro_is_accepting := True\<rparr>"

definition full_router :: effect_router where
  "full_router = entered_router\<lparr>ro_queue := Some [TaskStartCommitted ''t1'']\<rparr>"

text \<open>The first publication fills the queue, the second is lost and counted.\<close>

theorem router_delivers_in_order_witness:
  "\<exists>r. publish_signal (\<lambda>t. '''') 5 (TaskStartCommitted ''t2'') full_router = (False, r) \<and>
     ro_queue r = Some [TaskStartCommitted ''t1''] \<and> eh_failure_count (ro_health r) = 1 \<and>
     fst (run_dispatcher (\<lambda>t. '''') 6 r) = Some (TaskStartCommitted ''t1'')"
proof -
  let ?fmt = "\<lambda>t. ''''" and ?run = "\<lambda>r as fs. \<lparr>rr_router = r, rr_accepted = as, rr_started = [], rr_failures = fs\<rparr>"
  have enter: "enter_router sample_router = Inr entered_router"
    by (simp add: enter_router_def sample_router_def entered_router_def)
  have first: "publish_signal ?fmt 4 (TaskStartCommitted ''t1'') entered_router = (True, full_router)"
    by (simp add: publish_signal_def publication_queue_def all_runtime_effect_signal_types_def entered_router_def
        full_router_def sample_router_def)
  have lost: "fst (publish_signal ?fmt 5 (TaskStartCommitted ''t2'') full_router) = False"
    by (simp add: publish_signal_def publication_queue_def all_runtime_effect_signal_types_def entered_router_def
        full_router_def sample_router_def)
  obtain b r where r: "publish_signal ?fmt 5 (TaskStartCommitted ''t2'') full_router = (b, r)"
    by (rule prod.exhaust)
  from lost r have second: "publish_signal ?fmt 5 (TaskStartCommitted ''t2'') full_router = (False, r)"
    by simp
  have "router_step ?fmt (?run entered_router [] 0) (?run full_router [TaskStartCommitted ''t1''] 0)"
    using rs_accepted [of ?fmt 4 "TaskStartCommitted ''t1''" "?run entered_router [] 0" full_router] first by simp
  moreover have "router_step ?fmt (?run full_router [TaskStartCommitted ''t1''] 0) (?run r [TaskStartCommitted ''t1''] 1)"
    using rs_rejected [of ?fmt 5 "TaskStartCommitted ''t2''" "?run full_router [TaskStartCommitted ''t1''] 0" r] second
    by simp
  ultimately have "(router_step ?fmt)\<^sup>*\<^sup>* (?run entered_router [] 0) (?run r [TaskStartCommitted ''t1''] 1)"
    by (rule converse_rtranclp_into_rtranclp [OF _ r_into_rtranclp])
  from router_delivers_in_order [OF enter _ _ this, of 1]
  have "ro_queue r = Some [TaskStartCommitted ''t1'']" "eh_failure_count (ro_health r) = 1"
    "fst (run_dispatcher ?fmt 6 r) = Some (TaskStartCommitted ''t1'')"
    by (auto simp: sample_router_def)
  then show ?thesis using second by blast
qed

definition entered_scheduler :: deadline_scheduler where
  "entered_scheduler = new_deadline_scheduler\<lparr>dl_has_entered := True, dl_is_accepting := True\<rparr>"

definition armed_scheduler :: "nat \<Rightarrow> deadline_scheduler" where
  "armed_scheduler n =
     (case register_due 0 (StartDueAt ''d1'' 0 5) entered_scheduler of
        Inl f \<Rightarrow> entered_scheduler
      | Inr (b, d1) \<Rightarrow>
          if n = 0 then d1
          else (case register_due 1 (StartDueAt ''d1'' 1 9) d1 of Inl f \<Rightarrow> d1 | Inr (b, d2) \<Rightarrow> d2))"

theorem scheduler_refines_due_table_witness:
  "due_table (armed_scheduler 1) (StartFamily, ''d1'') = Some (StartDueAt ''d1'' 1 9) \<and>
   (\<exists>timer. \<forall>now. fst (run_timer now timer (armed_scheduler 1)) =
      (if 9 \<le> now then Some (StartDueAt ''d1'' 1 9) else None))"
proof -
  have enter: "enter_scheduler new_deadline_scheduler = Inr entered_scheduler"
    by (simp add: enter_scheduler_def new_deadline_scheduler_def entered_scheduler_def)
  have first: "register_due 0 (StartDueAt ''d1'' 0 5) entered_scheduler = Inr (True, armed_scheduler 0)"
    by (simp add: armed_scheduler_def register_due_def entered_scheduler_def new_deadline_scheduler_def Let_def)
  have second: "register_due 1 (StartDueAt ''d1'' 1 9) (armed_scheduler 0) = Inr (True, armed_scheduler 1)"
    by (simp add: armed_scheduler_def register_due_def entered_scheduler_def new_deadline_scheduler_def Let_def
        schedule_deadline_def)
  have "history_of scheduler_step entered_scheduler ([] @ [Registered (StartDueAt ''d1'' 0 5)]) (armed_scheduler 0)"
    by (rule history_of.ho_snoc [where step = scheduler_step, OF _ ss_register [OF first]]) (rule history_of.ho_nil)
  then have h: "history_of scheduler_step entered_scheduler
      (([] @ [Registered (StartDueAt ''d1'' 0 5)]) @ [Registered (StartDueAt ''d1'' 1 9)]) (armed_scheduler 1)"
    by (rule history_of.ho_snoc [where step = scheduler_step, OF _ ss_register [OF second]])
  have "due_table (armed_scheduler 1) (StartFamily, ''d1'') = Some (StartDueAt ''d1'' 1 9)"
    by (simp add: armed_scheduler_def register_due_def entered_scheduler_def new_deadline_scheduler_def Let_def
        schedule_deadline_def due_table_def cancel_timer_def)
  then show ?thesis using scheduler_refines_due_table [OF enter h] by fastforce
qed

subsection \<open>The audit\<close>

definition sample_startup :: startup_state where
  "sample_startup = \<lparr>su_starter = \<lparr>ds_in_flight = {}, ds_recovered = {}\<rparr>, su_published = [],
     su_routed_count = 0, su_deferred_count = 0\<rparr>"

lemma sample_families_small:
  "\<forall>f \<in> set (startup_runtime_families 10). length (snd f sample_starting_db) < audit_capacity"
proof -
  have "list_all (\<lambda>f. length (snd f sample_starting_db) < audit_capacity) (startup_runtime_families 10)" by code_simp
  then show ?thesis by (simp add: list_all_iff)
qed

lemma sample_audit_runs:
  obtains results u' where "audit_startup_runtime_effects (\<lambda>_ _. sample_starting_db) (\<lambda>s. True)
    startup_routed_signal_types 10 sample_startup = (Inr results, u')"
  using families_at_rest [of "startup_runtime_families 10" startup_routed_signal_types sample_starting_db "\<lambda>s. True" 0
      sample_startup] families_pageable [OF sample_starting_ok, of 10] sample_families_small
  by (auto simp: audit_startup_runtime_effects_def)

theorem startup_audit_republishes_everything_witness:
  "\<exists>results u'. audit_startup_runtime_effects (\<lambda>_ _. sample_starting_db) (\<lambda>s. True)
      startup_routed_signal_types 10 sample_startup = (Inr results, u') \<and>
     su_published u' = [DispatchStartDue ''d1'' 1 50]"
proof -
  have "concat (map (\<lambda>f. row_signals (snd f sample_starting_db)) (startup_runtime_families 10)) =
      [DispatchStartDue ''d1'' 1 50]" by code_simp
  then show ?thesis
    using startup_audit_republishes_everything [OF sample_starting_ok _ _ sample_families_small, of "\<lambda>s. True" sample_startup]
    by (auto simp: sample_startup_def)
qed

theorem startup_audit_misses_nothing_witness:
  "\<exists>results u'. audit_startup_runtime_effects (\<lambda>_ _. sample_starting_db) (\<lambda>s. True)
      startup_routed_signal_types 10 sample_startup = (Inr results, u') \<and>
     DispatchStartDue ''d1'' 1 50 \<in> set (su_published u')"
proof -
  obtain results u' where run: "audit_startup_runtime_effects (\<lambda>_ _. sample_starting_db) (\<lambda>s. True)
      startup_routed_signal_types 10 sample_startup = (Inr results, u')" by (rule sample_audit_runs)
  have i: "10 < length (startup_runtime_families 10)"
    "startup_runtime_families 10 ! 10 = (''current_starting_dispatch'', dispatch_start_sources)"
    by (simp_all add: startup_runtime_families_def)
  have rows: "dispatch_start_sources sample_starting_db = [(''d1'', Inr (DispatchStartDue ''d1'' 1 50))]" by code_simp
  show ?thesis
    using startup_audit_misses_nothing [OF run i] run
    by (auto simp: rows startup_routed_signal_types_def)
qed

theorem restart_finds_all_work_witness:
  "\<exists>results u'. audit_startup_runtime_effects (\<lambda>_ _. sample_starting_db) (\<lambda>s. True)
      startup_routed_signal_types 10 sample_startup = (Inr results, u') \<and>
     start_signal sample_start \<in> set (su_published u')"
proof -
  obtain results u' where run: "audit_startup_runtime_effects (\<lambda>_ _. sample_starting_db) (\<lambda>s. True)
      startup_routed_signal_types 10 sample_startup = (Inr results, u')" by (rule sample_audit_runs)
  have "read_provider_start_candidate sample_start sample_starting_db \<noteq> None" by code_simp
  then obtain c where "read_provider_start_candidate sample_start sample_starting_db = Some c" by blast
  from restart_finds_all_work [OF sample_starting_ok hw_start [OF this] run] show ?thesis using run by blast
qed

end
