(* ===== verification/ProviderResolution.thy ===== *)
theory ProviderResolution
  imports HumanContracts
begin

text \<open>
  How a Member's authored provider selection and capability request become what its Dispatch may
  use: \<open>workflows/contracts.py\<close> (the selections), \<open>runtime/providers/resolution.py\<close>,
  \<open>runtime/capabilities.py\<close> and the validators of \<open>runtime/contracts/provider_resolution.py\<close>.
  Authored text is a list of code points; pydantic's trimming is \<open>lib_trim\<close> of the library.
\<close>

subsection \<open>Enumerations (\<open>providers/contracts.py\<close>)\<close>

datatype sandbox_mode = ReadOnly | WorkspaceWrite | FullAccess

datatype native_access = NativeFull | NativeRestricted | NativeDenied

datatype network_access = NetAllow | NetDeny

datatype extension_mode = Inherit | Isolated

text \<open>
  Where a value came from: one datatype for \<open>CapabilitySource\<close>, \<open>SandboxResolutionSource\<close>,
  \<open>ProviderRouteValueSource\<close> and \<open>ExtensionModeResolutionSource\<close>, whose texts agree.
\<close>

datatype value_source = FromDefault | FromMember | FromProviderConfig | FromController

datatype selection_basis = Explicit | ByDefault

fun provider_kind_value :: "provider_kind \<Rightarrow> string" where
  "provider_kind_value ProvCodex = ''codex''"
| "provider_kind_value ProvClaude = ''claude''"
| "provider_kind_value ProvOpenclaw = ''openclaw''"

fun sandbox_mode_value :: "sandbox_mode \<Rightarrow> string" where
  "sandbox_mode_value ReadOnly = ''read_only''"
| "sandbox_mode_value WorkspaceWrite = ''workspace_write''"
| "sandbox_mode_value FullAccess = ''full_access''"

fun network_value :: "network_access \<Rightarrow> string" where
  "network_value NetAllow = ''allow''"
| "network_value NetDeny = ''deny''"

fun extension_value :: "extension_mode \<Rightarrow> string" where
  "extension_value Inherit = ''inherit''"
| "extension_value Isolated = ''isolated''"

subsection \<open>Authored selections (\<open>workflows/contracts.py\<close>)\<close>

text \<open>\<open>ProviderSandbox.validate_portable_pair\<close>.\<close>

definition sandbox_pair_ok :: "sandbox_mode \<Rightarrow> network_access \<Rightarrow> bool" where
  "sandbox_pair_ok mode network \<longleftrightarrow>
     \<not> (mode = ReadOnly \<and> network \<noteq> NetDeny \<or> mode = FullAccess \<and> network \<noteq> NetAllow)"

record managed_selection =
  ms_model :: "codepoints option"
  ms_effort :: "codepoints option"
  ms_sandbox :: "(sandbox_mode \<times> network_access) option"
  ms_extension_mode :: "extension_mode option"

datatype provider_selection = CodexSelection managed_selection | ClaudeSelection managed_selection

fun selection_kind :: "provider_selection \<Rightarrow> provider_kind" where
  "selection_kind (CodexSelection m) = ProvCodex"
| "selection_kind (ClaudeSelection m) = ProvClaude"

fun selection_fields :: "provider_selection \<Rightarrow> managed_selection" where
  "selection_fields (CodexSelection m) = m"
| "selection_fields (ClaudeSelection m) = m"

definition codex_efforts :: "codepoints list" where
  "codex_efforts = map chars
     [''none'', ''minimal'', ''low'', ''medium'', ''high'', ''xhigh'', ''max'']"

definition claude_efforts :: "codepoints list" where
  "claude_efforts = map chars [''low'', ''medium'', ''high'', ''xhigh'', ''max'']"

fun kind_efforts :: "provider_kind \<Rightarrow> codepoints list" where
  "kind_efforts ProvCodex = codex_efforts"
| "kind_efforts ProvClaude = claude_efforts"
| "kind_efforts ProvOpenclaw = []"

text \<open>
  \<open>BoundedProviderValue\<close> (not empty, and a match of \<open>\S\<close>, which pydantic gives to the Rust regex
  engine, whose white space lacks the separators 1C to 1F) with the hidden limit on its length, and
  the literal efforts of a kind.
\<close>

definition max_managed_provider_value_length :: nat where
  "max_managed_provider_value_length = 255"

definition is_regex_space :: "nat \<Rightarrow> bool" where
  "is_regex_space c \<longleftrightarrow> is_space c \<and> \<not> (0x1C \<le> c \<and> c \<le> 0x1F)"

definition bounded_provider_value :: "codepoints \<Rightarrow> bool" where
  "bounded_provider_value s \<longleftrightarrow> s \<noteq> [] \<and> list_ex (\<lambda>c. \<not> is_regex_space c) s \<and>
     length s \<le> max_managed_provider_value_length"

definition selection_ok :: "provider_selection \<Rightarrow> bool" where
  "selection_ok s \<longleftrightarrow>
     (let m = selection_fields s in
      (case ms_model m of None \<Rightarrow> True | Some v \<Rightarrow> bounded_provider_value v) \<and>
      (case ms_effort m of None \<Rightarrow> True | Some v \<Rightarrow> v \<in> set (kind_efforts (selection_kind s))) \<and>
      (case ms_sandbox m of None \<Rightarrow> True | Some (mode, network) \<Rightarrow> sandbox_pair_ok mode network))"

subsection \<open>Their stored JSON\<close>

text \<open>\<open>model_dump(mode="json", exclude_none=True)\<close>.\<close>

definition given :: "string \<Rightarrow> document option \<Rightarrow> (codepoints \<times> document) list" where
  "given k v = (case v of None \<Rightarrow> [] | Some d \<Rightarrow> [(chars k, d)])"

definition text_value :: "string \<Rightarrow> document" where
  "text_value s = JStr (chars s)"

definition dump_sandbox :: "sandbox_mode \<times> network_access \<Rightarrow> document" where
  "dump_sandbox p = JObj [(chars ''mode'', text_value (sandbox_mode_value (fst p))),
     (chars ''network'', text_value (network_value (snd p)))]"

definition dump_selection :: "provider_selection \<Rightarrow> (codepoints \<times> document) list" where
  "dump_selection s = (let m = selection_fields s in
     [(chars ''kind'', text_value (provider_kind_value (selection_kind s)))] @
     given ''model'' (map_option JStr (ms_model m)) @
     given ''effort'' (map_option JStr (ms_effort m)) @
     given ''sandbox'' (map_option dump_sandbox (ms_sandbox m)) @
     given ''extension_mode'' (map_option (\<lambda>x. text_value (extension_value x)) (ms_extension_mode m)))"

text \<open>
  Reading it back. An absent field is the default; an explicit null is rejected
  (\<open>reject_explicit_nulls\<close>).
\<close>

definition read_given ::
    "(document \<Rightarrow> 'a result) \<Rightarrow> document option \<Rightarrow> 'a option result" where
  "read_given f v =
     (case v of None \<Rightarrow> Inr None
      | Some JNull \<Rightarrow> Inl (ValueError ''cannot be null'')
      | Some d \<Rightarrow> and_then (f d) (\<lambda>x. Inr (Some x)))"

definition read_literal :: "('a \<Rightarrow> string) \<Rightarrow> 'a list \<Rightarrow> document \<Rightarrow> 'a result" where
  "read_literal name xs d =
     (case d of JStr s \<Rightarrow> require invalid_field (find (\<lambda>x. chars (name x) = s) xs)
      | _ \<Rightarrow> Inl invalid_field)"

definition read_mode :: "document \<Rightarrow> sandbox_mode result" where
  "read_mode = read_literal sandbox_mode_value [ReadOnly, WorkspaceWrite, FullAccess]"

definition read_network :: "document \<Rightarrow> network_access result" where
  "read_network = read_literal network_value [NetAllow, NetDeny]"

definition read_extension_mode :: "document \<Rightarrow> extension_mode result" where
  "read_extension_mode = read_literal extension_value [Inherit, Isolated]"

definition read_model_value :: "document \<Rightarrow> codepoints result" where
  "read_model_value d =
     (case d of JStr s \<Rightarrow> if bounded_provider_value s then Inr s else Inl invalid_field
      | _ \<Rightarrow> Inl invalid_field)"

definition read_effort :: "provider_kind \<Rightarrow> document \<Rightarrow> codepoints result" where
  "read_effort kind d =
     (case d of JStr s \<Rightarrow> if s \<in> set (kind_efforts kind) then Inr s else Inl invalid_field
      | _ \<Rightarrow> Inl invalid_field)"

definition read_sandbox :: "document \<Rightarrow> (sandbox_mode \<times> network_access) result" where
  "read_sandbox d =
     (case d of
        JObj kvs \<Rightarrow>
          and_then (only_fields [''mode'', ''network''] kvs) (\<lambda>_.
          and_then (and_then (require invalid_field (field ''mode'' kvs)) read_mode) (\<lambda>m.
          and_then (and_then (require invalid_field (field ''network'' kvs)) read_network) (\<lambda>n.
            if sandbox_pair_ok m n then Inr (m, n)
            else Inl (ValueError ''sandbox mode and network combination is not supported''))))
      | _ \<Rightarrow> Inl invalid_field)"

definition read_managed_selection ::
    "provider_kind \<Rightarrow> (codepoints \<times> document) list \<Rightarrow> managed_selection result" where
  "read_managed_selection kind kvs =
     and_then (only_fields [''kind'', ''model'', ''effort'', ''sandbox'', ''extension_mode''] kvs) (\<lambda>_.
     and_then (read_given read_model_value (field ''model'' kvs)) (\<lambda>m.
     and_then (read_given (read_effort kind) (field ''effort'' kvs)) (\<lambda>e.
     and_then (read_given read_sandbox (field ''sandbox'' kvs)) (\<lambda>s.
     and_then (read_given read_extension_mode (field ''extension_mode'' kvs)) (\<lambda>x.
       Inr \<lparr>ms_model = m, ms_effort = e, ms_sandbox = s, ms_extension_mode = x\<rparr>)))))"

definition provider_retired :: failure where
  "provider_retired = ProviderResolutionError ''provider_retired''"

definition provider_selection_from_mapping ::
    "(codepoints \<times> document) list option \<Rightarrow> provider_selection option result" where
  "provider_selection_from_mapping v =
     (case v of
        None \<Rightarrow> Inr None
      | Some kvs \<Rightarrow>
          if field ''kind'' kvs = Some (text_value ''openclaw'') then Inl provider_retired
          else if field ''kind'' kvs = Some (text_value ''codex'')
          then and_then (read_managed_selection ProvCodex kvs) (\<lambda>m. Inr (Some (CodexSelection m)))
          else if field ''kind'' kvs = Some (text_value ''claude'')
          then and_then (read_managed_selection ProvClaude kvs) (\<lambda>m. Inr (Some (ClaudeSelection m)))
          else Inl invalid_field)"

text \<open>A persisted kind on its own; a text that is no kind is a \<open>ValueError\<close>.\<close>

definition provider_selection_from_kind :: "string option \<Rightarrow> provider_selection option result" where
  "provider_selection_from_kind v =
     (let bare = \<lparr>ms_model = None, ms_effort = None, ms_sandbox = None, ms_extension_mode = None\<rparr> in
      case v of
        None \<Rightarrow> Inr None
      | Some s \<Rightarrow> (case provider_kind_of s of
            Some ProvCodex \<Rightarrow> Inr (Some (CodexSelection bare))
          | Some ProvClaude \<Rightarrow> Inr (Some (ClaudeSelection bare))
          | Some ProvOpenclaw \<Rightarrow> Inl provider_retired
          | None \<Rightarrow> Inl (ValueError ''is not a valid ProviderKind'')))"

subsection \<open>Settings (\<open>config.py\<close>)\<close>

record provider_settings =
  ps_enabled :: bool
  ps_model :: "codepoints option"
  ps_effort :: "codepoints option"
  ps_extension_mode :: extension_mode

record settings =
  st_codex :: provider_settings
  st_claude :: provider_settings
  st_default_provider :: "provider_kind option"
  st_sandbox_mode :: sandbox_mode
  st_network_access :: network_access

text \<open>\<open>RuntimeSettings.validate_managed_provider_sandbox_pair\<close>.\<close>

definition settings_ok :: "settings \<Rightarrow> bool" where
  "settings_ok st \<longleftrightarrow>
     \<not> (st_sandbox_mode st = ReadOnly \<and> st_network_access st \<noteq> NetDeny \<or>
        st_sandbox_mode st = FullAccess \<and> st_network_access st \<noteq> NetAllow)"

subsection \<open>The route\<close>

record provider_route =
  ro_kind :: provider_kind
  ro_model_override :: "codepoints option"
  ro_effort_override :: "codepoints option"

definition invalid_configuration :: failure where
  "invalid_configuration = ProviderResolutionError ''provider_invalid_configuration''"

definition select_provider ::
    "provider_selection option \<Rightarrow> settings \<Rightarrow> (provider_kind \<times> selection_basis) result" where
  "select_provider sel st =
     (case sel of
        Some s \<Rightarrow> Inr (selection_kind s, Explicit)
      | None \<Rightarrow> (case st_default_provider st of
            None \<Rightarrow> Inl (ProviderResolutionError ''provider_default_not_configured'')
          | Some ProvOpenclaw \<Rightarrow> Inl provider_retired
          | Some k \<Rightarrow> Inr (k, ByDefault)))"

fun provider_is_enabled :: "provider_kind \<Rightarrow> settings \<Rightarrow> bool" where
  "provider_is_enabled ProvCodex st = ps_enabled (st_codex st)"
| "provider_is_enabled ProvClaude st = ps_enabled (st_claude st)"
| "provider_is_enabled ProvOpenclaw st = False"

definition validate_required_value :: "codepoints \<Rightarrow> codepoints result" where
  "validate_required_value v = (if v = [] then Inl invalid_configuration else Inr v)"

definition validate_optional_override :: "codepoints option \<Rightarrow> codepoints option result" where
  "validate_optional_override v =
     (case v of None \<Rightarrow> Inr None
      | Some s \<Rightarrow> and_then (validate_required_value s) (\<lambda>t. Inr (Some t)))"

definition validate_optional_effort ::
    "codepoints list \<Rightarrow> codepoints option \<Rightarrow> codepoints option result" where
  "validate_optional_effort supported v =
     and_then (validate_optional_override v) (\<lambda>n.
       case n of None \<Rightarrow> Inr None
       | Some s \<Rightarrow> if s \<notin> set supported then Inl invalid_configuration else Inr (Some s))"

definition route_value_source :: "bool \<Rightarrow> value_source" where
  "route_value_source authored = (if authored then FromMember else FromProviderConfig)"

text \<open>\<open>RuntimeSchemaText\<close> of the route's fields: trimmed, then not empty.\<close>

definition schema_text :: "library \<Rightarrow> codepoints option \<Rightarrow> codepoints option result" where
  "schema_text lib v =
     (case v of None \<Rightarrow> Inr None
      | Some s \<Rightarrow> if lib_trim lib s = [] then Inl invalid_field else Inr (Some (lib_trim lib s)))"

fun settings_of :: "provider_kind \<Rightarrow> settings \<Rightarrow> provider_settings" where
  "settings_of ProvCodex st = st_codex st"
| "settings_of ProvClaude st = st_claude st"
| "settings_of ProvOpenclaw st = st_claude st"

text \<open>The two active cases of the match differ in their kind only.\<close>

definition build_provider_route ::
    "library \<Rightarrow> provider_selection option \<Rightarrow> provider_kind \<Rightarrow> settings \<Rightarrow>
       (provider_route \<times> value_source \<times> value_source) result" where
  "build_provider_route lib sel kind st =
     (if kind = ProvOpenclaw then Inl provider_retired
      else let own = (case sel of
                 Some s \<Rightarrow> if selection_kind s = kind then Some (selection_fields s) else None
               | None \<Rightarrow> None);
               model = Option.bind own ms_model;
               effort = Option.bind own ms_effort in
        and_then (validate_optional_override
            (if model \<noteq> None then model else ps_model (settings_of kind st))) (\<lambda>m.
        and_then (validate_optional_effort (kind_efforts kind)
            (if effort \<noteq> None then effort else ps_effort (settings_of kind st))) (\<lambda>e.
        and_then (schema_text lib m) (\<lambda>m'.
        and_then (schema_text lib e) (\<lambda>e'.
          Inr (\<lparr>ro_kind = kind, ro_model_override = m', ro_effort_override = e'\<rparr>,
            route_value_source (model \<noteq> None), route_value_source (effort \<noteq> None)))))))"

subsection \<open>Sandbox and extensions\<close>

record sandbox_resolution =
  sr_requested_mode :: sandbox_mode
  sr_requested_network :: network_access
  sr_requested_source :: value_source
  sr_effective_mode :: sandbox_mode
  sr_effective_network :: network_access
  sr_effective_mode_source :: value_source
  sr_effective_network_source :: value_source

fun mode_order :: "sandbox_mode \<Rightarrow> nat" where
  "mode_order ReadOnly = 0"
| "mode_order WorkspaceWrite = 1"
| "mode_order FullAccess = 2"

definition resolve_managed_sandbox :: "provider_selection option \<Rightarrow> settings \<Rightarrow> sandbox_resolution" where
  "resolve_managed_sandbox sel st =
     (let (rmode, rnet, rsrc) =
        (case Option.bind sel (\<lambda>s. ms_sandbox (selection_fields s)) of
           None \<Rightarrow> (FullAccess, NetAllow, FromDefault)
         | Some (m, n) \<Rightarrow> (m, n, FromMember));
       (mode, msrc) =
        (if mode_order (st_sandbox_mode st) < mode_order rmode
         then (st_sandbox_mode st, FromController) else (rmode, rsrc));
       (net, nsrc) =
        (if rnet = NetDeny then (NetDeny, rsrc)
         else if st_network_access st = NetDeny then (NetDeny, FromController)
         else (NetAllow, rsrc));
       (mode, msrc) =
        (if mode = FullAccess \<and> net = NetDeny then (WorkspaceWrite, FromController)
         else (mode, msrc));
       (net, nsrc) =
        (if mode = ReadOnly
         then (NetDeny, if rnet \<noteq> NetDeny then FromController else nsrc) else (net, nsrc))
      in \<lparr>sr_requested_mode = rmode, sr_requested_network = rnet, sr_requested_source = rsrc,
          sr_effective_mode = mode, sr_effective_network = net, sr_effective_mode_source = msrc,
          sr_effective_network_source = nsrc\<rparr>)"

record extension_resolution =
  er_requested_mode :: extension_mode
  er_requested_source :: value_source
  er_effective_mode :: extension_mode
  er_effective_source :: value_source

definition resolve_managed_extensions ::
    "provider_selection option \<Rightarrow> provider_kind \<Rightarrow> settings \<Rightarrow> sandbox_resolution \<Rightarrow>
       extension_resolution" where
  "resolve_managed_extensions sel kind st sandbox =
     (let authored = Option.bind sel (\<lambda>s. ms_extension_mode (selection_fields s));
          mode = (case authored of Some m \<Rightarrow> m | None \<Rightarrow> ps_extension_mode (settings_of kind st));
          src = (if authored \<noteq> None then FromMember else FromProviderConfig)
      in if mode = Inherit \<and>
           (sr_effective_mode sandbox \<noteq> FullAccess \<or> sr_effective_network sandbox \<noteq> NetAllow)
         then \<lparr>er_requested_mode = mode, er_requested_source = src,
               er_effective_mode = Isolated, er_effective_source = FromController\<rparr>
         else \<lparr>er_requested_mode = mode, er_requested_source = src,
               er_effective_mode = mode, er_effective_source = src\<rparr>)"

text \<open>\<open>ManagedExtensionResolution.validate_narrowing\<close>.\<close>

definition extension_resolution_ok :: "extension_resolution \<Rightarrow> bool" where
  "extension_resolution_ok x \<longleftrightarrow>
     (if er_effective_source x = FromController
      then er_requested_mode x = Inherit \<and> er_effective_mode x = Isolated
      else er_effective_mode x = er_requested_mode x \<and>
        er_effective_source x = er_requested_source x)"

subsection \<open>The resolution\<close>

record provider_resolution =
  pn_requested_provider :: provider_kind
  pn_resolved_provider :: provider_kind
  pn_selection_basis :: selection_basis
  pn_route :: provider_route
  pn_sandbox :: sandbox_resolution
  pn_extensions :: extension_resolution
  pn_model_source :: value_source
  pn_effort_source :: value_source

text \<open>
  \<open>ProviderResolution.validate_exact_route\<close>; a managed resolution always has its sandbox, its
  extensions and its two sources, so their absence is no case here.
\<close>

definition exact_route_ok :: "provider_resolution \<Rightarrow> bool" where
  "exact_route_ok r \<longleftrightarrow>
     pn_requested_provider r = pn_resolved_provider r \<and>
     ro_kind (pn_route r) = pn_resolved_provider r \<and>
     \<not> (pn_model_source r = FromMember \<and> ro_model_override (pn_route r) = None) \<and>
     \<not> (pn_effort_source r = FromMember \<and> ro_effort_override (pn_route r) = None) \<and>
     \<not> (pn_selection_basis r = ByDefault \<and>
        (pn_model_source r = FromMember \<or> pn_effort_source r = FromMember \<or>
         er_requested_source (pn_extensions r) = FromMember))"

definition resolve_provider_route ::
    "library \<Rightarrow> settings \<Rightarrow> provider_kind list \<Rightarrow> provider_selection option \<Rightarrow>
       provider_resolution result" where
  "resolve_provider_route lib st adapters sel =
     and_then (select_provider sel st) (\<lambda>(kind, basis).
       if \<not> provider_is_enabled kind st then Inl (ProviderResolutionError ''provider_disabled'')
       else and_then (build_provider_route lib sel kind st) (\<lambda>(route, msrc, esrc).
         if kind \<notin> set adapters
         then Inl (ProviderResolutionError ''provider_adapter_unavailable'')
         else let sandbox = resolve_managed_sandbox sel st;
                  extensions = resolve_managed_extensions sel kind st sandbox;
                  r = \<lparr>pn_requested_provider = kind, pn_resolved_provider = kind,
                    pn_selection_basis = basis, pn_route = route, pn_sandbox = sandbox,
                    pn_extensions = extensions, pn_model_source = msrc, pn_effort_source = esrc\<rparr>
              in and_then (require_that (ValueError ''extension resolution'')
                    (extension_resolution_ok extensions)) (\<lambda>_.
                 and_then (require_that (ValueError ''provider resolution'') (exact_route_ok r)) (\<lambda>_.
                   Inr r))))"

end
