(* ===== verification/Capabilities.thy ===== *)
theory Capabilities
  imports ProviderResolution
begin

text \<open>
  A Member's capabilities: \<open>runtime/capabilities.py\<close> and \<open>runtime/contracts/capabilities.py\<close>, the
  narrowing to the provider's sandbox (\<open>runtime/providers/resolution.py\<close>) and the resolution of a
  whole Member (\<open>runtime/replan/persistence.py\<close>). Every capability is denied unless the Member's
  configuration asks for it, and a controller ceiling can only take away.
\<close>

subsection \<open>The authored request (\<open>MemberCapabilities\<close>)\<close>

text \<open>\<open>command_run\<close> is absent or the literal \<open>allow\<close>.\<close>

record member_capabilities =
  mc_human_request :: "human_kind list option"
  mc_command_run :: bool

definition member_capabilities_ok :: "member_capabilities \<Rightarrow> bool" where
  "member_capabilities_ok c \<longleftrightarrow>
     (case mc_human_request c of None \<Rightarrow> True | Some ks \<Rightarrow> 1 \<le> length ks \<and> length ks \<le> 4) \<and>
     (mc_human_request c \<noteq> None \<or> mc_command_run c)"

definition dump_capabilities :: "member_capabilities \<Rightarrow> (codepoints \<times> document) list" where
  "dump_capabilities c =
     given ''human_request''
       (map_option (\<lambda>ks. JArr (map (\<lambda>k. text_value (human_kind_value k)) ks)) (mc_human_request c)) @
     given ''command_run'' (if mc_command_run c then Some (text_value ''allow'') else None)"

definition read_kinds :: "document \<Rightarrow> human_kind list result" where
  "read_kinds d =
     (case d of
        JArr xs \<Rightarrow> and_then (map_result
            (read_literal human_kind_value [KInput, KDirection, KApproval, KReview]) xs) (\<lambda>ks.
          if 1 \<le> length ks \<and> length ks \<le> 4 then Inr ks else Inl invalid_field)
      | _ \<Rightarrow> Inl invalid_field)"

definition read_allow :: "document \<Rightarrow> unit result" where
  "read_allow d = require_that invalid_field (d = text_value ''allow'')"

definition member_capabilities_from_mapping ::
    "(codepoints \<times> document) list option \<Rightarrow> member_capabilities option result" where
  "member_capabilities_from_mapping v =
     (case v of
        None \<Rightarrow> Inr None
      | Some kvs \<Rightarrow>
          and_then (only_fields [''human_request'', ''command_run''] kvs) (\<lambda>_.
          and_then (read_given read_kinds (field ''human_request'' kvs)) (\<lambda>h.
          and_then (read_given read_allow (field ''command_run'' kvs)) (\<lambda>c.
            if h = None \<and> c = None
            then Inl (ValueError ''capabilities must grant at least one operation'')
            else Inr (Some \<lparr>mc_human_request = h, mc_command_run = (c \<noteq> None)\<rparr>)))))"

subsection \<open>The effective set\<close>

record human_capabilities =
  hc_direction :: capability_decision
  hc_approval :: capability_decision
  hc_input :: capability_decision
  hc_review :: capability_decision

record capability_ceiling =
  cc_provider_native_access :: "native_access option"
  cc_network_access :: "network_access option"
  cc_allowed_human_request_kinds :: "human_kind list option"
  cc_command_run :: "capability_decision option"

record effective_capabilities =
  ec_provider_native_access :: "native_access \<times> value_source"
  ec_network_access :: "network_access \<times> value_source"
  ec_requested_human_request :: human_capabilities
  ec_requested_human_request_source :: value_source
  ec_human_request :: human_capabilities
  ec_human_request_sources :: "human_kind \<Rightarrow> value_source"
  ec_requested_command_run :: capability_decision
  ec_requested_command_run_source :: value_source
  ec_command_run :: capability_decision
  ec_command_run_source :: value_source

definition decision :: "bool \<Rightarrow> capability_decision" where
  "decision b = (if b then CapAllow else CapDeny)"

definition human_request_capability_set :: "human_kind list \<Rightarrow> human_capabilities" where
  "human_request_capability_set ks =
     \<lparr>hc_direction = decision (KDirection \<in> set ks), hc_approval = decision (KApproval \<in> set ks),
      hc_input = decision (KInput \<in> set ks), hc_review = decision (KReview \<in> set ks)\<rparr>"

fun human_decision :: "human_kind \<Rightarrow> human_capabilities \<Rightarrow> capability_decision" where
  "human_decision KDirection h = hc_direction h"
| "human_decision KApproval h = hc_approval h"
| "human_decision KInput h = hc_input h"
| "human_decision KReview h = hc_review h"

definition resolve_human_request_capabilities ::
    "member_capabilities option \<Rightarrow> capability_ceiling option \<Rightarrow>
       human_capabilities \<times> value_source \<times> human_capabilities \<times> (human_kind \<Rightarrow> value_source)" where
  "resolve_human_request_capabilities authored controller =
     (let asked = Option.bind authored mc_human_request;
          requested = (case asked of None \<Rightarrow> [] | Some ks \<Rightarrow> ks);
          source = (if asked \<noteq> None then FromMember else FromDefault)
      in case Option.bind controller cc_allowed_human_request_kinds of
           None \<Rightarrow> (human_request_capability_set requested, source,
             human_request_capability_set requested, \<lambda>_. source)
         | Some allowed \<Rightarrow>
             (human_request_capability_set requested, source,
              human_request_capability_set (filter (\<lambda>k. k \<in> set allowed) requested),
              \<lambda>k. if k \<in> set requested \<and> k \<notin> set allowed then FromController else source))"

definition resolve_command_run_capability ::
    "member_capabilities option \<Rightarrow> capability_ceiling option \<Rightarrow>
       capability_decision \<times> value_source \<times> capability_decision \<times> value_source" where
  "resolve_command_run_capability authored controller =
     (let asked = (case authored of None \<Rightarrow> False | Some c \<Rightarrow> mc_command_run c);
          requested = decision asked;
          source = (if asked then FromMember else FromDefault)
      in if Option.bind controller cc_command_run = Some CapDeny
         then (requested, source, CapDeny, if CapDeny \<noteq> requested then FromController else source)
         else (requested, source, requested, source))"

definition resolve_provider_access_capabilities ::
    "capability_ceiling option \<Rightarrow> (native_access \<times> value_source) \<times> (network_access \<times> value_source)" where
  "resolve_provider_access_capabilities controller =
     ((case Option.bind controller cc_provider_native_access of
         Some a \<Rightarrow> (a, FromController) | None \<Rightarrow> (NativeFull, FromDefault)),
      (case Option.bind controller cc_network_access of
         Some n \<Rightarrow> (n, FromController) | None \<Rightarrow> (NetAllow, FromDefault)))"

definition resolve_effective_capabilities ::
    "member_capabilities option \<Rightarrow> capability_ceiling option \<Rightarrow> effective_capabilities" where
  "resolve_effective_capabilities authored controller =
     (let (rh, rhs, eh, hs) = resolve_human_request_capabilities authored controller;
          (rc, rcs, ec, ecs) = resolve_command_run_capability authored controller;
          (native, network) = resolve_provider_access_capabilities controller
      in \<lparr>ec_provider_native_access = native, ec_network_access = network,
          ec_requested_human_request = rh, ec_requested_human_request_source = rhs,
          ec_human_request = eh, ec_human_request_sources = hs,
          ec_requested_command_run = rc, ec_requested_command_run_source = rcs,
          ec_command_run = ec, ec_command_run_source = ecs\<rparr>)"

definition resolve_effective_capabilities_from_member_request ::
    "(codepoints \<times> document) list option \<Rightarrow> capability_ceiling option \<Rightarrow>
       effective_capabilities result" where
  "resolve_effective_capabilities_from_member_request requested controller =
     and_then (member_capabilities_from_mapping requested) (\<lambda>authored.
       Inr (resolve_effective_capabilities authored controller))"

definition default_effective_capabilities :: effective_capabilities where
  "default_effective_capabilities =
     (let none = \<lparr>hc_direction = CapDeny, hc_approval = CapDeny, hc_input = CapDeny,
        hc_review = CapDeny\<rparr> in
      \<lparr>ec_provider_native_access = (NativeFull, FromDefault),
       ec_network_access = (NetAllow, FromDefault),
       ec_requested_human_request = none, ec_requested_human_request_source = FromDefault,
       ec_human_request = none, ec_human_request_sources = \<lambda>_. FromDefault,
       ec_requested_command_run = CapDeny, ec_requested_command_run_source = FromDefault,
       ec_command_run = CapDeny, ec_command_run_source = FromDefault\<rparr>)"

subsection \<open>Rejections\<close>

record capability_rejection =
  rj_capability :: string
  rj_next_legal_action :: "string option"

definition capability_rejection_for_human_request ::
    "effective_capabilities \<Rightarrow> human_kind \<Rightarrow> capability_rejection option" where
  "capability_rejection_for_human_request c k =
     (if human_decision k (ec_human_request c) = CapAllow then None
      else Some \<lparr>rj_capability = ''human_request.'' @ human_kind_value k, rj_next_legal_action = None\<rparr>)"

definition command_run_denied_next_legal_action :: string where
  "command_run_denied_next_legal_action = ''avoid long command; for example, run focused tests one by one rather than the whole test suite''"

definition capability_rejection_for_command_run ::
    "effective_capabilities \<Rightarrow> capability_rejection option" where
  "capability_rejection_for_command_run c =
     (if ec_command_run c = CapAllow then None
      else Some \<lparr>rj_capability = ''command_run'',
        rj_next_legal_action = Some command_run_denied_next_legal_action\<rparr>)"

subsection \<open>The provider's ceiling\<close>

fun native_access_for_sandbox :: "sandbox_mode \<Rightarrow> native_access" where
  "native_access_for_sandbox ReadOnly = NativeDenied"
| "native_access_for_sandbox WorkspaceWrite = NativeRestricted"
| "native_access_for_sandbox FullAccess = NativeFull"

definition narrow_provider_capabilities ::
    "sandbox_resolution option \<Rightarrow> effective_capabilities \<Rightarrow> effective_capabilities" where
  "narrow_provider_capabilities sandbox c =
     (case sandbox of
        None \<Rightarrow> c
      | Some s \<Rightarrow> c\<lparr>
          ec_provider_native_access :=
            (native_access_for_sandbox (sr_effective_mode s), sr_effective_mode_source s),
          ec_network_access := (sr_effective_network s, sr_effective_network_source s)\<rparr>)"

definition validate_provider_execution_configuration ::
    "native_access \<Rightarrow> network_access \<Rightarrow> sandbox_mode option \<Rightarrow> unit result" where
  "validate_provider_execution_configuration native network mode =
     (case mode of
        None \<Rightarrow> Inr ()
      | Some m \<Rightarrow>
          if native \<noteq> native_access_for_sandbox m then Inl invalid_configuration
          else let legal = (if m = ReadOnly then NetDeny
                            else if m = FullAccess then NetAllow else network)
               in if network \<noteq> legal then Inl invalid_configuration else Inr ())"

subsection \<open>A whole Member\<close>

text \<open>
  \<open>_resolve_member_execution\<close>: a failed resolution is the caller's ILLEGAL\_STATE; a stored
  document that fails its own validation passes through.
\<close>

fun replan_member_failure :: "ident \<Rightarrow> failure \<Rightarrow> failure" where
  "replan_member_failure m (ProviderResolutionError c) =
     illegal_state_error (''Replan Member '' @ m @ '' cannot execute: '' @ c)"
| "replan_member_failure m f = f"

definition resolve_execution ::
    "library \<Rightarrow> settings \<Rightarrow> provider_kind list \<Rightarrow> (codepoints \<times> document) list option \<Rightarrow>
       (codepoints \<times> document) list option \<Rightarrow> (provider_resolution \<times> effective_capabilities) result" where
  "resolve_execution lib st adapters provider_json capabilities_json =
     and_then (provider_selection_from_mapping provider_json) (\<lambda>sel.
     and_then (resolve_provider_route lib st adapters sel) (\<lambda>p.
     and_then (resolve_effective_capabilities_from_member_request capabilities_json None) (\<lambda>c0.
       let c = narrow_provider_capabilities (Some (pn_sandbox p)) c0 in
       and_then (validate_provider_execution_configuration
           (fst (ec_provider_native_access c)) (fst (ec_network_access c))
           (Some (sr_effective_mode (pn_sandbox p)))) (\<lambda>_.
         Inr (p, c)))))"

definition resolve_member_execution ::
    "library \<Rightarrow> settings \<Rightarrow> provider_kind list \<Rightarrow> ident \<Rightarrow> (codepoints \<times> document) list option \<Rightarrow>
       (codepoints \<times> document) list option \<Rightarrow> (provider_resolution \<times> effective_capabilities) result" where
  "resolve_member_execution lib st adapters m provider_json capabilities_json =
     (case resolve_execution lib st adapters provider_json capabilities_json of
        Inl f \<Rightarrow> Inl (replan_member_failure m f)
      | Inr x \<Rightarrow> Inr x)"

text \<open>The decisions a Dispatch freezes (\<open>DispatchCapabilitySetModel\<close>).\<close>

definition frozen_capabilities :: "effective_capabilities \<Rightarrow> capability_set" where
  "frozen_capabilities c =
     \<lparr>cs_human_direction = hc_direction (ec_human_request c),
      cs_human_approval = hc_approval (ec_human_request c),
      cs_human_input = hc_input (ec_human_request c),
      cs_human_review = hc_review (ec_human_request c),
      cs_command_run = ec_command_run c\<rparr>"

end
