(* ===== verification/ProviderResolutionProofs.thy ===== *)
theory ProviderResolutionProofs
  imports Capabilities
begin

text \<open>
  What a Member may use: the effective sandbox is the greatest legal pair below both the Member's
  request and the controller's setting, the resolution always passes its own validators, a resolved
  Member can execute under its narrowed capabilities, no capability is granted that was not asked
  for, and stored selections and requests read back as themselves.
\<close>

subsection \<open>The sandbox\<close>

text \<open>
  Sandboxes ordered by what they permit. The four legal pairs form a chain under this order.
\<close>

definition sandbox_le :: "sandbox_mode \<times> network_access \<Rightarrow> sandbox_mode \<times> network_access \<Rightarrow> bool" where
  "sandbox_le p q \<longleftrightarrow> mode_order (fst p) \<le> mode_order (fst q) \<and> (snd p = NetDeny \<or> snd q = NetAllow)"

definition requested_pair :: "sandbox_resolution \<Rightarrow> sandbox_mode \<times> network_access" where
  "requested_pair r = (sr_requested_mode r, sr_requested_network r)"

definition effective_pair :: "sandbox_resolution \<Rightarrow> sandbox_mode \<times> network_access" where
  "effective_pair r = (sr_effective_mode r, sr_effective_network r)"

definition controller_pair :: "settings \<Rightarrow> sandbox_mode \<times> network_access" where
  "controller_pair st = (st_sandbox_mode st, st_network_access st)"

lemmas pair_defs = requested_pair_def effective_pair_def controller_pair_def sandbox_le_def
  sandbox_pair_ok_def

definition authored_sandbox ::
    "provider_selection option \<Rightarrow> (sandbox_mode \<times> network_access) option" where
  "authored_sandbox sel = Option.bind sel (\<lambda>s. ms_sandbox (selection_fields s))"

text \<open>The resolution depends on the authored pair and the controller's pair only.\<close>

lemma resolve_managed_sandbox_None:
  "authored_sandbox sel = None \<Longrightarrow> resolve_managed_sandbox sel st =
     resolve_managed_sandbox None st"
  by (simp add: resolve_managed_sandbox_def authored_sandbox_def)

lemma resolve_managed_sandbox_facts:
  fixes sel st
  defines "r \<equiv> resolve_managed_sandbox sel st"
  shows "sandbox_pair_ok (sr_effective_mode r) (sr_effective_network r) \<and>
    sandbox_le (effective_pair r) (requested_pair r) \<and>
    sandbox_le (effective_pair r) (controller_pair st) \<and>
    (sr_effective_mode_source r = FromController \<longleftrightarrow> sr_effective_mode r \<noteq> sr_requested_mode r) \<and>
    (sr_effective_network_source r = FromController \<longleftrightarrow>
       sr_effective_network r \<noteq> sr_requested_network r)"
proof (cases "authored_sandbox sel")
  case None
  then show ?thesis
    unfolding r_def resolve_managed_sandbox_None [OF None]
    by (cases "st_sandbox_mode st"; cases "st_network_access st")
      (simp_all add: resolve_managed_sandbox_def pair_defs)
next
  case (Some p)
  obtain m n where "p = (m, n)" by (cases p)
  with Some have "Option.bind sel (\<lambda>s. ms_sandbox (selection_fields s)) = Some (m, n)"
    by (simp add: authored_sandbox_def)
  then show ?thesis
    unfolding r_def
    by (cases m; cases n; cases "st_sandbox_mode st"; cases "st_network_access st")
      (simp_all add: resolve_managed_sandbox_def pair_defs)
qed

lemmas effective_pair_legal = conjunct1 [OF resolve_managed_sandbox_facts]

lemma legal_pairs:
  "sandbox_pair_ok m n \<longleftrightarrow> (m, n) \<in> {(ReadOnly, NetDeny), (WorkspaceWrite, NetAllow),
     (WorkspaceWrite, NetDeny), (FullAccess, NetAllow)}"
  by (cases m; cases n) (simp_all add: sandbox_pair_ok_def)

lemma effective_pair_greatest:
  assumes "settings_ok st" and "\<And>m n. authored_sandbox sel = Some (m, n) \<Longrightarrow> sandbox_pair_ok m n"
    and "sandbox_pair_ok m n"
    and "sandbox_le (m, n) (requested_pair (resolve_managed_sandbox sel st))"
    and "sandbox_le (m, n) (controller_pair st)"
  shows "sandbox_le (m, n) (effective_pair (resolve_managed_sandbox sel st))"
proof -
  have c: "sandbox_pair_ok (st_sandbox_mode st) (st_network_access st)"
    using assms(1) by (simp add: settings_ok_def sandbox_pair_ok_def)
  show ?thesis
  proof (cases "authored_sandbox sel")
    case None
    show ?thesis using assms(3-5) c
      unfolding resolve_managed_sandbox_None [OF None]
      by (cases m; cases n; cases "st_sandbox_mode st"; cases "st_network_access st")
        (simp_all add: resolve_managed_sandbox_def pair_defs)
  next
    case (Some p)
    obtain a b where p: "p = (a, b)" by (cases p)
    with Some assms(2) have ok: "sandbox_pair_ok a b" by simp
    have bind: "Option.bind sel (\<lambda>s. ms_sandbox (selection_fields s)) = Some (a, b)"
      using Some p by (simp add: authored_sandbox_def)
    show ?thesis using assms(3-5) c ok bind
      by (cases m; cases n; cases a; cases b; cases "st_sandbox_mode st"; cases "st_network_access st")
        (simp_all add: resolve_managed_sandbox_def pair_defs)
  qed
qed

subsection \<open>The resolution passes its own validators\<close>

lemma extension_resolution_always_ok:
  "extension_resolution_ok (resolve_managed_extensions sel kind st sandbox)"
  by (auto simp: resolve_managed_extensions_def extension_resolution_ok_def Let_def
      split: option.splits if_splits)

lemma validate_optional_override_Inr [result_simps]:
  "validate_optional_override v = Inr w \<longleftrightarrow> w = v \<and> v \<noteq> Some []"
  by (auto simp: validate_optional_override_def validate_required_value_def result_simps
      split: option.splits)

lemma validate_optional_effort_Inr [result_simps]:
  "validate_optional_effort ok v = Inr w \<longleftrightarrow>
     w = v \<and> v \<noteq> Some [] \<and> (\<forall>s. v = Some s \<longrightarrow> s \<in> set ok)"
  by (auto simp: validate_optional_effort_def result_simps split: option.splits)

lemma schema_text_Inr_None: "schema_text lib v = Inr w \<Longrightarrow> w = None \<longleftrightarrow> v = None"
  by (auto simp: schema_text_def split: option.splits if_splits)

lemma build_provider_route_Inr:
  assumes "build_provider_route lib sel kind st = Inr (route, msrc, esrc)"
  shows "kind \<noteq> ProvOpenclaw" "ro_kind route = kind"
    "msrc = FromMember \<longrightarrow> sel \<noteq> None \<and> ro_model_override route \<noteq> None"
    "esrc = FromMember \<longrightarrow> sel \<noteq> None \<and> ro_effort_override route \<noteq> None"
  using assms
  by (auto simp: build_provider_route_def result_simps Let_def route_value_source_def
      dest!: schema_text_Inr_None split: if_splits option.splits)

lemma select_provider_Inr:
  assumes "select_provider sel st = Inr (kind, basis)"
  shows "basis = ByDefault \<longleftrightarrow> sel = None" "kind \<noteq> ProvOpenclaw"
    "\<And>s. sel = Some s \<Longrightarrow> kind = selection_kind s"
    "sel = None \<Longrightarrow> st_default_provider st = Some kind"
proof -
  have "selection_kind s \<noteq> ProvOpenclaw" for s by (cases s) auto
  then show "basis = ByDefault \<longleftrightarrow> sel = None" "kind \<noteq> ProvOpenclaw"
    "\<And>s. sel = Some s \<Longrightarrow> kind = selection_kind s"
    "sel = None \<Longrightarrow> st_default_provider st = Some kind"
    using assms by (auto simp: select_provider_def split: option.splits provider_kind.splits)
qed

text \<open>The success of a resolution, without the two validators.\<close>

lemma resolve_provider_route_Inr:
  "resolve_provider_route lib st adapters sel = Inr r \<longleftrightarrow>
     (\<exists>kind basis route msrc esrc. select_provider sel st = Inr (kind, basis) \<and>
        provider_is_enabled kind st \<and> kind \<in> set adapters \<and>
        build_provider_route lib sel kind st = Inr (route, msrc, esrc) \<and>
        r = (let sandbox = resolve_managed_sandbox sel st in
          \<lparr>pn_requested_provider = kind, pn_resolved_provider = kind, pn_selection_basis = basis,
           pn_route = route, pn_sandbox = sandbox,
           pn_extensions = resolve_managed_extensions sel kind st sandbox,
           pn_model_source = msrc, pn_effort_source = esrc\<rparr>))" (is "_ \<longleftrightarrow> ?R")
proof
  assume "resolve_provider_route lib st adapters sel = Inr r"
  then show ?R
    by (fastforce simp: resolve_provider_route_def result_simps Let_def split: if_splits)
next
  assume ?R
  then obtain kind basis route msrc esrc where s: "select_provider sel st = Inr (kind, basis)"
      "provider_is_enabled kind st" "kind \<in> set adapters"
    and b: "build_provider_route lib sel kind st = Inr (route, msrc, esrc)"
    and r: "r = (let sandbox = resolve_managed_sandbox sel st in
          \<lparr>pn_requested_provider = kind, pn_resolved_provider = kind, pn_selection_basis = basis,
           pn_route = route, pn_sandbox = sandbox,
           pn_extensions = resolve_managed_extensions sel kind st sandbox,
           pn_model_source = msrc, pn_effort_source = esrc\<rparr>)" by blast
  have "basis = ByDefault \<Longrightarrow> er_requested_source (pn_extensions r) \<noteq> FromMember"
    using select_provider_Inr(1) [OF s(1)] by (auto simp: r Let_def resolve_managed_extensions_def)
  then have "exact_route_ok r"
    using build_provider_route_Inr [OF b] select_provider_Inr(1) [OF s(1)]
    by (auto simp: exact_route_ok_def r Let_def)
  then show "resolve_provider_route lib st adapters sel = Inr r"
    using s b extension_resolution_always_ok by (simp add: resolve_provider_route_def r Let_def)
qed

subsection \<open>Executing\<close>

lemma narrowed_configuration_valid:
  "validate_provider_execution_configuration
     (native_access_for_sandbox (sr_effective_mode (resolve_managed_sandbox sel st)))
     (sr_effective_network (resolve_managed_sandbox sel st))
     (Some (sr_effective_mode (resolve_managed_sandbox sel st))) = Inr ()"
  using effective_pair_legal [of sel st]
  by (auto simp: validate_provider_execution_configuration_def sandbox_pair_ok_def Let_def)

text \<open>A narrowed Member always passes the execution check.\<close>

lemma resolve_execution_Inr:
  "resolve_execution lib st adapters pj cj = Inr (p, c) \<longleftrightarrow>
     (\<exists>sel c0. provider_selection_from_mapping pj = Inr sel \<and>
        resolve_provider_route lib st adapters sel = Inr p \<and>
        resolve_effective_capabilities_from_member_request cj None = Inr c0 \<and>
        c = narrow_provider_capabilities (Some (pn_sandbox p)) c0)"
proof -
  have "pn_sandbox p = resolve_managed_sandbox sel st"
    if "resolve_provider_route lib st adapters sel = Inr p" for sel p
    using that by (auto simp: resolve_provider_route_Inr Let_def)
  then show ?thesis
    using narrowed_configuration_valid
    by (fastforce simp: resolve_execution_def result_simps Let_def narrow_provider_capabilities_def)
qed

subsection \<open>Capabilities\<close>

lemma human_request_default_deny:
  "human_decision k (ec_human_request (resolve_effective_capabilities authored controller)) = CapAllow \<longleftrightarrow>
     (\<exists>c ks. authored = Some c \<and> mc_human_request c = Some ks \<and> k \<in> set ks) \<and>
     (\<forall>cc allowed. controller = Some cc \<longrightarrow> cc_allowed_human_request_kinds cc = Some allowed \<longrightarrow>
        k \<in> set allowed)"
  by (cases k; cases authored; cases controller)
    (auto simp: resolve_effective_capabilities_def resolve_human_request_capabilities_def Let_def
      human_request_capability_set_def decision_def split: prod.splits option.splits)

lemma command_run_default_deny:
  "ec_command_run (resolve_effective_capabilities authored controller) = CapAllow \<longleftrightarrow>
     (\<exists>c. authored = Some c \<and> mc_command_run c) \<and>
     (\<forall>cc. controller = Some cc \<longrightarrow> cc_command_run cc \<noteq> Some CapDeny)"
  by (cases authored; cases controller)
    (auto simp: resolve_effective_capabilities_def resolve_command_run_capability_def Let_def
      decision_def split: prod.splits)

lemma default_capabilities: "resolve_effective_capabilities None None = default_effective_capabilities"
  by (simp add: resolve_effective_capabilities_def resolve_human_request_capabilities_def
      resolve_command_run_capability_def resolve_provider_access_capabilities_def
      default_effective_capabilities_def human_request_capability_set_def decision_def Let_def)

lemma narrow_keeps_requests [simp]:
  "ec_human_request (narrow_provider_capabilities s c) = ec_human_request c"
  "ec_command_run (narrow_provider_capabilities s c) = ec_command_run c"
  by (simp_all add: narrow_provider_capabilities_def split: option.splits)

subsection \<open>Reading back\<close>

lemma field_append: "field k (xs @ ys) = (case field k xs of None \<Rightarrow> field k ys | Some d \<Rightarrow> Some d)"
  by (simp add: field_def map_add_def split: option.splits)

lemma field_given [simp]:
  "field k (given j v) = (if k = j then v else None)"
  by (cases v) (auto simp: field_def given_def)

lemma field_single [simp]: "field k [(chars j, d)] = (if k = j then Some d else None)"
  by (auto simp: field_def)

lemma only_fields_append [simp]:
  "only_fields ks (xs @ ys) = Inr () \<longleftrightarrow> only_fields ks xs = Inr () \<and> only_fields ks ys = Inr ()"
  by (auto simp: only_fields_def result_simps)

lemma only_fields_given: "j \<in> set ks \<Longrightarrow> only_fields ks (given j v) = Inr ()"
  by (cases v) (auto simp: only_fields_def given_def result_simps)

lemma read_literal_text [simp]:
  "inj name \<Longrightarrow> x \<in> set xs \<Longrightarrow> read_literal name xs (text_value (name x)) = Inr x"
proof -
  assume inj: "inj name" and x: "x \<in> set xs"
  have "find (\<lambda>y. chars (name y) = chars (name x)) xs = Some x"
    using x by (induction xs) (auto simp: inj_eq [OF inj])
  then show ?thesis by (simp add: read_literal_def text_value_def)
qed

lemma value_injective:
  "inj sandbox_mode_value" "inj network_value" "inj extension_value" "inj human_kind_value"
proof -
  show "inj sandbox_mode_value"
  proof (rule injI)
    fix x y assume "sandbox_mode_value x = sandbox_mode_value y" then show "x = y" by (cases x; cases y) simp_all
  qed
  show "inj network_value"
  proof (rule injI)
    fix x y assume "network_value x = network_value y" then show "x = y" by (cases x; cases y) simp_all
  qed
  show "inj extension_value"
  proof (rule injI)
    fix x y assume "extension_value x = extension_value y" then show "x = y" by (cases x; cases y) simp_all
  qed
  show "inj human_kind_value"
  proof (rule injI)
    fix x y assume "human_kind_value x = human_kind_value y" then show "x = y" by (cases x; cases y) simp_all
  qed
qed

lemma read_enumerations [simp]:
  "read_mode (text_value (sandbox_mode_value m)) = Inr m"
  "read_network (text_value (network_value n)) = Inr n"
  "read_extension_mode (text_value (extension_value x)) = Inr x"
proof -
  show "read_mode (text_value (sandbox_mode_value m)) = Inr m"
    unfolding read_mode_def by (rule read_literal_text [OF value_injective(1)]) (cases m; simp)
  show "read_network (text_value (network_value n)) = Inr n"
    unfolding read_network_def by (rule read_literal_text [OF value_injective(2)]) (cases n; simp)
  show "read_extension_mode (text_value (extension_value x)) = Inr x"
    unfolding read_extension_mode_def by (rule read_literal_text [OF value_injective(3)]) (cases x; simp)
qed

lemma read_given_Some: "d \<noteq> JNull \<Longrightarrow> f d = Inr x \<Longrightarrow> read_given f (Some d) = Inr (Some x)"
  by (cases d) (simp_all add: read_given_def)

lemma read_given_None [simp]: "read_given f None = Inr None"
  by (simp add: read_given_def)

lemma read_sandbox_dump: "sandbox_pair_ok m n \<Longrightarrow> read_sandbox (dump_sandbox (m, n)) = Inr (m, n)"
  by (simp add: read_sandbox_def dump_sandbox_def field_def only_fields_def)

lemma read_managed_selection_dump:
  assumes "selection_ok s"
  shows "read_managed_selection (selection_kind s) (dump_selection s) = Inr (selection_fields s)"
proof -
  let ?m = "selection_fields s"
  have f: "field ''model'' (dump_selection s) = map_option JStr (ms_model ?m)"
    "field ''effort'' (dump_selection s) = map_option JStr (ms_effort ?m)"
    "field ''sandbox'' (dump_selection s) = map_option dump_sandbox (ms_sandbox ?m)"
    "field ''extension_mode'' (dump_selection s) =
       map_option (\<lambda>x. text_value (extension_value x)) (ms_extension_mode ?m)"
    by (simp_all add: dump_selection_def Let_def field_append del: append.simps split: option.splits)
  have o: "only_fields [''kind'', ''model'', ''effort'', ''sandbox'', ''extension_mode'']
      (dump_selection s) = Inr ()"
    by (simp add: dump_selection_def Let_def only_fields_given del: append.simps)
      (simp add: only_fields_def)
  have r1: "read_given read_model_value (map_option JStr (ms_model ?m)) = Inr (ms_model ?m)"
    using assms by (cases "ms_model ?m")
      (simp_all add: selection_ok_def Let_def read_model_value_def read_given_def)
  have r2: "read_given (read_effort (selection_kind s)) (map_option JStr (ms_effort ?m)) = Inr (ms_effort ?m)"
    using assms by (cases "ms_effort ?m")
      (simp_all add: selection_ok_def Let_def read_effort_def read_given_def)
  have r3: "read_given read_sandbox (map_option dump_sandbox (ms_sandbox ?m)) = Inr (ms_sandbox ?m)"
  proof (cases "ms_sandbox ?m")
    case (Some p)
    then have "read_sandbox (dump_sandbox p) = Inr p"
      using assms by (cases p) (simp add: selection_ok_def Let_def read_sandbox_dump)
    then show ?thesis using Some by (simp add: read_given_def dump_sandbox_def)
  qed simp
  have r4: "read_given read_extension_mode
      (map_option (\<lambda>x. text_value (extension_value x)) (ms_extension_mode ?m)) = Inr (ms_extension_mode ?m)"
  proof (cases "ms_extension_mode ?m")
    case (Some x)
    have "read_given read_extension_mode (Some (text_value (extension_value x))) = Inr (Some x)"
      by (rule read_given_Some) (simp add: text_value_def, rule read_enumerations)
    then show ?thesis using Some by simp
  qed simp
  note r = r1 r2 r3 r4
  show ?thesis by (simp add: read_managed_selection_def o f r)
qed

lemma selection_reads_back:
  assumes "selection_ok s"
  shows "provider_selection_from_mapping (Some (dump_selection s)) = Inr (Some s)"
proof -
  have "field ''kind'' (dump_selection s) = Some (text_value (provider_kind_value (selection_kind s)))"
    by (simp add: dump_selection_def Let_def field_append del: append.simps)
  then show ?thesis
    using read_managed_selection_dump [OF assms]
    by (cases s) (simp_all add: provider_selection_from_mapping_def text_value_def)
qed

lemma read_kinds_dump:
  assumes "1 \<le> length ks" "length ks \<le> 4"
  shows "read_kinds (JArr (map (\<lambda>k. text_value (human_kind_value k)) ks)) = Inr ks"
proof -
  have one: "read_literal human_kind_value [KInput, KDirection, KApproval, KReview]
      (text_value (human_kind_value k)) = Inr k" for k
    by (rule read_literal_text [OF value_injective(4)]) (cases k; simp)
  have "map_result (read_literal human_kind_value [KInput, KDirection, KApproval, KReview])
      (map (\<lambda>k. text_value (human_kind_value k)) js) = Inr js" for js
    by (induction js) (simp_all add: one)
  then show ?thesis using assms by (simp add: read_kinds_def)
qed

lemma capabilities_read_back:
  assumes "member_capabilities_ok c"
  shows "member_capabilities_from_mapping (Some (dump_capabilities c)) = Inr (Some c)"
proof -
  have f: "field ''human_request'' (dump_capabilities c) =
      map_option (\<lambda>ks. JArr (map (\<lambda>k. text_value (human_kind_value k)) ks)) (mc_human_request c)"
    "field ''command_run'' (dump_capabilities c) =
      (if mc_command_run c then Some (text_value ''allow'') else None)"
    by (simp_all add: dump_capabilities_def field_append split: option.splits)
  have o: "only_fields [''human_request'', ''command_run''] (dump_capabilities c) = Inr ()"
    by (simp add: dump_capabilities_def only_fields_given)
  have h: "read_given read_kinds
      (map_option (\<lambda>ks. JArr (map (\<lambda>k. text_value (human_kind_value k)) ks)) (mc_human_request c)) =
      Inr (mc_human_request c)"
    using assms read_kinds_dump
    by (auto simp: member_capabilities_ok_def intro!: read_given_Some split: option.splits)
  have a: "read_given read_allow (Some (text_value ''allow'')) = Inr (Some ())"
    by (rule read_given_Some) (simp_all add: read_allow_def text_value_def)
  show ?thesis
    using assms
    by (cases "mc_command_run c")
      (auto simp: member_capabilities_from_mapping_def o f h a member_capabilities_ok_def)
qed

subsection \<open>Properties\<close>

text \<open> C38. The effective sandbox of a Member is a legal pair of mode and network, permits no more than the
  Member's request and no more than the controller's setting, and permits as much as any legal pair
  within both; a value is marked as the controller's exactly when it differs from the request.\<close>

theorem sandbox_is_greatest_permitted:
  fixes sel st
  defines "r \<equiv> resolve_managed_sandbox sel st"
  assumes "settings_ok st" and "\<forall>s. sel = Some s \<longrightarrow> selection_ok s"
  shows "sandbox_pair_ok (sr_effective_mode r) (sr_effective_network r) \<and>
    sandbox_le (effective_pair r) (requested_pair r) \<and>
    sandbox_le (effective_pair r) (controller_pair st) \<and>
    (\<forall>m n. sandbox_pair_ok m n \<longrightarrow> sandbox_le (m, n) (requested_pair r) \<longrightarrow>
       sandbox_le (m, n) (controller_pair st) \<longrightarrow> sandbox_le (m, n) (effective_pair r)) \<and>
    (sr_effective_mode_source r = FromController \<longleftrightarrow> sr_effective_mode r \<noteq> sr_requested_mode r) \<and>
    (sr_effective_network_source r = FromController \<longleftrightarrow>
       sr_effective_network r \<noteq> sr_requested_network r)"
proof -
  have "sandbox_pair_ok m n" if "authored_sandbox sel = Some (m, n)" for m n
    using that assms(3)
    by (cases sel) (auto simp: authored_sandbox_def selection_ok_def Let_def split: option.splits)
  then have "\<forall>m n. sandbox_pair_ok m n \<longrightarrow> sandbox_le (m, n) (requested_pair r) \<longrightarrow>
       sandbox_le (m, n) (controller_pair st) \<longrightarrow> sandbox_le (m, n) (effective_pair r)"
    unfolding r_def using effective_pair_greatest [OF assms(2)] by blast
  then show ?thesis using resolve_managed_sandbox_facts [of sel st] by (simp add: r_def)
qed

text \<open> C39. A Member whose execution resolves uses an enabled, available and not retired provider, executes
  within the controller's sandbox with exactly the native and network access of its effective
  sandbox, and is granted no Human Request kind and no Command Run that its stored configuration
  does not ask for.\<close>

theorem resolved_member_executes:
  assumes "resolve_execution lib st adapters provider_json capabilities_json = Inr (p, c)"
  shows "pn_resolved_provider p \<in> set adapters \<and> provider_is_enabled (pn_resolved_provider p) st \<and>
    ro_kind (pn_route p) = pn_resolved_provider p \<and>
    sandbox_pair_ok (sr_effective_mode (pn_sandbox p)) (sr_effective_network (pn_sandbox p)) \<and>
    sandbox_le (effective_pair (pn_sandbox p)) (controller_pair st) \<and>
    fst (ec_provider_native_access c) = native_access_for_sandbox (sr_effective_mode (pn_sandbox p)) \<and>
    fst (ec_network_access c) = sr_effective_network (pn_sandbox p) \<and>
    (\<exists>authored. member_capabilities_from_mapping capabilities_json = Inr authored \<and>
       (\<forall>k. human_decision k (ec_human_request c) = CapAllow \<longleftrightarrow>
          (\<exists>a ks. authored = Some a \<and> mc_human_request a = Some ks \<and> k \<in> set ks)) \<and>
       (ec_command_run c = CapAllow \<longleftrightarrow> (\<exists>a. authored = Some a \<and> mc_command_run a)))"
proof -
  obtain sel c0 where p: "resolve_provider_route lib st adapters sel = Inr p"
    and c0: "resolve_effective_capabilities_from_member_request capabilities_json None = Inr c0"
    and c: "c = narrow_provider_capabilities (Some (pn_sandbox p)) c0"
    using assms by (auto simp: resolve_execution_Inr)
  obtain authored where a: "member_capabilities_from_mapping capabilities_json = Inr authored"
    "c0 = resolve_effective_capabilities authored None"
    using c0 by (auto simp: resolve_effective_capabilities_from_member_request_def result_simps)
  have sb: "pn_sandbox p = resolve_managed_sandbox sel st" and
    "pn_resolved_provider p \<in> set adapters" "provider_is_enabled (pn_resolved_provider p) st"
    "ro_kind (pn_route p) = pn_resolved_provider p"
    using p by (auto simp: resolve_provider_route_Inr Let_def dest: build_provider_route_Inr)
  moreover have "\<forall>k. human_decision k (ec_human_request c) = CapAllow \<longleftrightarrow>
      (\<exists>a ks. authored = Some a \<and> mc_human_request a = Some ks \<and> k \<in> set ks)"
    "ec_command_run c = CapAllow \<longleftrightarrow> (\<exists>a. authored = Some a \<and> mc_command_run a)"
    by (simp_all add: c a human_request_default_deny command_run_default_deny)
  moreover have "fst (ec_provider_native_access c) =
      native_access_for_sandbox (sr_effective_mode (pn_sandbox p))"
    "fst (ec_network_access c) = sr_effective_network (pn_sandbox p)"
    by (simp_all add: c narrow_provider_capabilities_def)
  moreover have "sandbox_pair_ok (sr_effective_mode (pn_sandbox p)) (sr_effective_network (pn_sandbox p))"
    "sandbox_le (effective_pair (pn_sandbox p)) (controller_pair st)"
    using resolve_managed_sandbox_facts [of sel st] by (simp_all add: sb)
  ultimately show ?thesis using a(1) by - (intro conjI exI [of _ authored]; assumption)
qed

text \<open> C40. The stored JSON of a valid provider selection and of a valid capability request reads back as
  the selection and the request.\<close>

theorem stored_selection_roundtrip:
  assumes "selection_ok s" and "member_capabilities_ok c"
  shows "provider_selection_from_mapping (Some (dump_selection s)) = Inr (Some s) \<and>
    member_capabilities_from_mapping (Some (dump_capabilities c)) = Inr (Some c)"
  using selection_reads_back [OF assms(1)] capabilities_read_back [OF assms(2)] by simp

subsection \<open>Witnesses\<close>

definition sample_settings :: settings where
  "sample_settings =
     \<lparr>st_codex = \<lparr>ps_enabled = True, ps_model = None, ps_effort = Some (chars ''high''),
        ps_extension_mode = Inherit\<rparr>,
      st_claude = \<lparr>ps_enabled = False, ps_model = None, ps_effort = None,
        ps_extension_mode = Inherit\<rparr>,
      st_default_provider = Some ProvCodex, st_sandbox_mode = WorkspaceWrite,
      st_network_access = NetDeny\<rparr>"

definition sample_selection :: provider_selection where
  "sample_selection = CodexSelection \<lparr>ms_model = Some (chars ''m1''), ms_effort = Some (chars ''low''),
     ms_sandbox = Some (FullAccess, NetAllow), ms_extension_mode = None\<rparr>"

definition sample_request :: member_capabilities where
  "sample_request = \<lparr>mc_human_request = Some [KInput], mc_command_run = True\<rparr>"

definition plain_library :: library where
  "plain_library = \<lparr>lib_trim = strip,
     lib_bool = (\<lambda>v. case v of JBool b \<Rightarrow> Some b | _ \<Rightarrow> None),
     lib_check_schema = (\<lambda>_. True), lib_schema_accepts = (\<lambda>_ _. True)\<rparr>"

lemma sample_selection_ok: "selection_ok sample_selection" "member_capabilities_ok sample_request"
  by (simp_all add: selection_ok_def sample_selection_def member_capabilities_ok_def sample_request_def
      bounded_provider_value_def is_regex_space_def chars_def is_space_def max_managed_provider_value_length_def
      codex_efforts_def sandbox_pair_ok_def)

theorem sandbox_is_greatest_permitted_witness:
  "settings_ok sample_settings \<and>
   effective_pair (resolve_managed_sandbox (Some sample_selection) sample_settings) =
     (WorkspaceWrite, NetDeny) \<and>
   sandbox_le (effective_pair (resolve_managed_sandbox (Some sample_selection) sample_settings))
     (controller_pair sample_settings)"
proof -
  have ok: "settings_ok sample_settings" by (simp add: settings_ok_def sample_settings_def)
  have "\<forall>s. Some sample_selection = Some s \<longrightarrow> selection_ok s" by (simp add: sample_selection_ok)
  from sandbox_is_greatest_permitted [OF ok this]
  have "sandbox_le (effective_pair (resolve_managed_sandbox (Some sample_selection) sample_settings))
     (controller_pair sample_settings)" by blast
  moreover have "effective_pair (resolve_managed_sandbox (Some sample_selection) sample_settings) =
     (WorkspaceWrite, NetDeny)"
    by (simp add: resolve_managed_sandbox_def sample_selection_def sample_settings_def effective_pair_def)
  ultimately show ?thesis using ok by blast
qed

theorem resolved_member_executes_witness:
  "\<exists>p c. resolve_execution plain_library sample_settings [ProvCodex]
       (Some (dump_selection sample_selection)) (Some (dump_capabilities sample_request)) = Inr (p, c) \<and>
     provider_is_enabled (pn_resolved_provider p) sample_settings \<and>
     human_decision KInput (ec_human_request c) = CapAllow"
proof -
  have st: "schema_text plain_library (Some (chars ''m1'')) = Inr (Some (chars ''m1''))"
    "schema_text plain_library (Some (chars ''low'')) = Inr (Some (chars ''low''))"
    by (simp_all add: schema_text_def plain_library_def strip_def chars_def is_space_def)
  have m: "validate_optional_override (Some (chars ''m1'')) = Inr (Some (chars ''m1''))"
    by (simp add: validate_optional_override_Inr chars_def)
  have e: "validate_optional_effort (kind_efforts ProvCodex) (Some (chars ''low'')) = Inr (Some (chars ''low''))"
    by (simp add: validate_optional_effort_Inr codex_efforts_def) (simp add: chars_def)
  have "\<exists>x. build_provider_route plain_library (Some sample_selection) ProvCodex sample_settings = Inr x"
    by (simp add: build_provider_route_def sample_selection_def m st e [simplified])
  then obtain route msrc esrc where b: "build_provider_route plain_library (Some sample_selection) ProvCodex
      sample_settings = Inr (route, msrc, esrc)" by auto
  then have "\<exists>p. resolve_provider_route plain_library sample_settings [ProvCodex]
      (Some sample_selection) = Inr p"
    unfolding resolve_provider_route_Inr
    by (simp add: select_provider_def sample_selection_def) (simp add: sample_settings_def)
  then obtain p where p: "resolve_provider_route plain_library sample_settings [ProvCodex]
      (Some sample_selection) = Inr p" ..
  let ?c = "narrow_provider_capabilities (Some (pn_sandbox p))
    (resolve_effective_capabilities (Some sample_request) None)"
  have r: "resolve_execution plain_library sample_settings [ProvCodex]
       (Some (dump_selection sample_selection)) (Some (dump_capabilities sample_request)) = Inr (p, ?c)"
    unfolding resolve_execution_Inr
    using p selection_reads_back [OF sample_selection_ok(1)] capabilities_read_back [OF sample_selection_ok(2)]
    by (auto simp: resolve_effective_capabilities_from_member_request_def)
  have "human_decision KInput (ec_human_request ?c) = CapAllow"
    by (simp add: human_request_default_deny sample_request_def del: human_decision.simps)
  with r conjunct1 [OF conjunct2 [OF resolved_member_executes [OF r]]] show ?thesis
    by (intro exI conjI)
qed

theorem stored_selection_roundtrip_witness:
  "provider_selection_from_mapping (Some (dump_selection sample_selection)) = Inr (Some sample_selection) \<and>
   member_capabilities_from_mapping (Some (dump_capabilities sample_request)) = Inr (Some sample_request)"
  by (rule stored_selection_roundtrip [OF sample_selection_ok])

end
