(* ===== verification/Spec2Isabelle.thy ===== *)
theory Spec2Isabelle
  imports Witnesses DelegationWitnesses CommandWitnesses ControlWitnesses ResumeWitnesses RecoveryWitnesses
    StartWitnesses RestartWitnesses ProviderResolutionProofs
begin

text \<open>
  Verification of the controller of oh-my-subagents (the Python package
  \<open>src/src/oh_my_subagents\<close>; paths below are relative to it). The controller runs a Task as a
  tree of Members. A Member works on an Assignment through Attempts; an Attempt is either
  running on one Dispatch (a provider session), parked on one wait, or idle between two
  Dispatches. Nodes call operations (checkpoint, delegate, open a Human Request, start a Command
  Run); each is one database transaction that ends with an event of the Task's event log and
  publishes hints after its commit.

  State. A \<open>db\<close> is a record of tables, one list of rows per table of
  \<open>persistence/models/runtime\<close>; a row is a record with the columns as its fields. A transaction is
  a function \<open>db \<Rightarrow> (result \<times> db) result\<close>: \<open>Inl\<close> is a raised exception (the transaction rolls
  back), \<open>Inr\<close> the returned value with the committed state. A conditional UPDATE is
  \<open>update_where\<close>, \<open>None\<close> when no row matches; an INSERT checks the table's CHECK, UNIQUE and primary
  key constraints. \<open>env\<close> holds the clock of the transaction and the hash of an event.

  Theories, in the order of their imports:
  \<^item> \<open>Prelude\<close>: results, SQL truth values, conditional updates, inserts, keyed tables, with the
    collections \<open>result_simps\<close> and \<open>table_simps\<close>; \<open>Schema\<close>: the rows, enumerations and CHECKs;
    \<open>Tables\<close>: the inserts.
  \<^item> \<open>TaskEvents\<close> (\<open>runtime/task_events.py\<close>): appending through the stream head, the hash chain
    invariant \<open>events_ok\<close>, paged reads; an event is numbered by its Task or carries the identifier
    of a product action. Reading pages is bounded by fuel; one more page than the
    log has events is enough, which \<open>pages_cover_log\<close> proves for any page size; the code's query
    allows 1 to 500. The model takes the record of an event to be valid: the code also
    validates it (\<open>runtime/contracts/task_event_payloads.py\<close>), and an append raises a ValidationError
    when, for instance, a text of its payload is too long.
  \<^item> \<open>Lanes\<close>, \<open>LaneInvariant\<close>, \<open>LaneSteps\<close> (\<open>runtime/dispatch/currentness.py\<close>, \<open>opening.py\<close>): the
    statements that move an Attempt between its Dispatch, its wait and idleness, and the invariant
    \<open>lanes_ok\<close> they keep.
  \<^item> \<open>Authority\<close> (\<open>runtime/dispatch/authority.py\<close>, \<open>runtime/team\<close>): who may act, as a read and as
    the predicate of the claims.
  \<^item> \<open>Settlement\<close> (\<open>runtime/delegation/settlement.py\<close>), \<open>Signals\<close> (\<open>runtime/post_commit/signals.py\<close>),
    \<open>Workspace\<close> (\<open>runtime/file_references.py\<close>).
  \<^item> \<open>Invariant\<close>: \<open>controller_ok\<close>, the invariant of lanes, Waves, Assignments, Tasks and events, with
    the locale \<open>committed_operation\<close> of operations that keep an invariant through any history.
  \<^item> \<open>Checkpoints\<close>, \<open>CheckpointProofs\<close> (\<open>runtime/checkpoint\<close>): the whole Checkpoint commit.
  \<^item> \<open>Delegation\<close>, \<open>DelegationProofs\<close> (\<open>runtime/delegation\<close>): the fan-out of one Wave.
  \<^item> \<open>Texts\<close>, \<open>Identifiers\<close>, \<open>HumanContracts\<close>, \<open>HumanContractProofs\<close> (\<open>runtime/contracts\<close>,
    \<open>runtime/workspace/admission.py\<close>): text and path normalisation on code points, identifiers and
    their allocation (at most 128 draws, as in the code), the items and answers of Human Requests
    and their JSON forms.
  \<^item> \<open>HumanRequests\<close>, \<open>HumanRequestProofs\<close> (\<open>runtime/human_request\<close>,
    \<open>runtime/node_operations/external_wait_handlers.py\<close>): opening, reading, resolving, expiring.
  \<^item> \<open>CommandRuns\<close>, \<open>CommandRunProofs\<close> (\<open>runtime/command_run\<close>): starting, claiming, launching,
    cancelling, ending and reading runs, with the state machine \<open>command_step\<close> the rows refine.
  \<^item> \<open>SourceInvariant\<close>: \<open>runtime_ok\<close>, that is \<open>controller_ok\<close> with the correspondence of waits and
    their open sources, and the locale \<open>forward_operation\<close> of operations that only move forward.
  \<^item> \<open>TaskControl\<close>, \<open>TaskControlProofs\<close> (\<open>runtime/task_control\<close>): pausing and cancelling a Task.
  \<^item> \<open>WorkPlan\<close>, \<open>WorkPlanProofs\<close> (\<open>runtime/work_plan\<close>): replacing and reading a work plan.
  \<^item> \<open>Continuation\<close>, \<open>ReplanContinuation\<close>, \<open>ContinuationProofs\<close>
    (\<open>runtime/dispatch/ordinary_continuation.py\<close>, \<open>ordinary_context.py\<close> and the \<open>continuation.py\<close> of
    \<open>human_request\<close>, \<open>command_run\<close>, \<open>delegation\<close> and \<open>replan\<close>): opening the successor of a settled
    source. An opening reads in one transaction and claims in a second one, so it is a function of
    two states. \<open>system_ok\<close> is \<open>runtime_ok\<close> with the constraints of the source tables, a source is
    spent when its row names a successor, \<open>sources_forward\<close> says that no spent source is lost, and
    the locales \<open>successor_claim\<close>, \<open>spending_claim\<close> and \<open>continuation_source\<close> are the contract of a
    source, interpreted for the four kinds.
  \<^item> \<open>RootOpening\<close>, \<open>RootOpeningProofs\<close> (\<open>runtime/launch/root_source.py\<close>, \<open>continuation.py\<close>): the first
    Dispatch of a Task.
  \<^item> \<open>TaskResume\<close>, \<open>TaskResumeProofs\<close> (\<open>runtime/task_control/continuation.py\<close>, \<open>paused_continuation\<close>):
    continuing a paused Task, with lanes or before its first Dispatch; \<open>WorkspaceAvailability\<close> (\<open>runtime/workspace/availability.py\<close>): its pause
    when the workspace is gone. What other transactions do between those of an operation is a
    function argument (\<open>between\<close>, \<open>after_repair\<close>, \<open>after_plan\<close>).
  \<^item> \<open>Steering\<close>, \<open>SteeringProofs\<close> (\<open>runtime/product/member_steering.py\<close>, \<open>runtime/steering.py\<close>): steering
    an active Member, and the prompts that hold the accepted steers.
  \<^item> \<open>Watchdog\<close>, \<open>WatchdogProofs\<close> (\<open>runtime/watchdog\<close>): deadlines, the replacement of a stale Dispatch
    within its limit, and the pauses of a recovery. A recovery reads in two transactions before the
    one that ends it, so it is a function of three states.
  \<^item> \<open>ProviderStart\<close>, \<open>ProviderStartProofs\<close> (\<open>runtime/dispatch/provider_start.py\<close>,
    \<open>runtime/providers/transition_failure.py\<close>): accepting, rotating and pausing one start generation.
    \<open>Starter\<close>, \<open>StarterProofs\<close> (\<open>runtime/providers/starter.py\<close>): the handler of a due start, several
    transactions with a provider call between them; its result is the list of its effects, the
    exception that leaves it and the state. A rollback or reconciliation read that raises, and a
    cancellation while an acceptance commits, are left out.
  \<^item> \<open>Histories\<close>: the operations together. \<open>system_step\<close> is one committed transaction of any of the
    operations above, \<open>opening_step\<close> one opening of a source; every step keeps \<open>system_ok\<close> and the
    successors of the spent sources. \<open>DispatchHistory\<close>: what a history does to one Dispatch.
  \<^item> \<open>PostCommit\<close>, \<open>PostCommitProofs\<close> (\<open>router.py\<close>, \<open>health.py\<close> and \<open>deadlines.py\<close> of
    \<open>runtime/post_commit\<close>): the queue of signals and the registry of deadlines, as functions of their
    state; a run of the event loop is a sequence of their methods.
  \<^item> \<open>StartupAudit\<close>, \<open>StartupAuditProofs\<close>, \<open>RestartProofs\<close> (\<open>runtime/startup_audit.py\<close>, the
    \<open>bootstrap.py\<close> and \<open>*_startup.py\<close> of \<open>runtime/post_commit\<close>): what a new process publishes again.
    The page guard of the code (10000 pages of 200 rows) bounds the loop; \<open>has_work\<close> says that the
    handler of a signal would do something.
  \<^item> \<open>ProviderResolution\<close>, \<open>Capabilities\<close>, \<open>ProviderResolutionProofs\<close>
    (\<open>runtime/providers/resolution.py\<close>, \<open>runtime/capabilities.py\<close>, the selections of
    \<open>workflows/contracts.py\<close>): what a Member's authored provider and capabilities become under the
    controller's settings. The proofs relate the sandbox to an order of what a sandbox permits.
  \<^item> \<open>Samples\<close> and the \<open>Witnesses\<close> theories: concrete states on which every property is applied.

  Parameters stand for what the repository does not define or what is text only: the hash of an
  event, the file system (\<open>file_probe\<close>, \<open>lexists\<close>), random bytes and identifiers, the prepared
  Dispatch of a new Attempt or of a successor (provider pins, capabilities, rendered prompt:
  \<open>render\<close>, \<open>preparation\<close>), the writing of a Team manifest, the probe of a workspace, the trimming and
  boolean coercion of pydantic and the JSON Schema library (record \<open>library\<close>, with \<open>library_ok\<close>
  for what the round trips need of them).

  Reading the model. Times are integers; strings are lists of characters up to U+00FF except where
  a contract counts code points (\<open>codepoints\<close>); JSON numbers are integers. Failures keep their
  code, summary and retryability, not the suggested next step; a summary leaves out a quoted number
  of a formatted message. Authored text other than items and answers enters normalised. A column
  whose default is the database clock takes the clock of the transaction. Rows are compared by
  value, and a read inside a transaction sees the writes before it.

  Not modelled: processes and guardians, provider adapters and the
  request they are given, prompt rendering, HTTP, MCP and command-line adapters, the operator,
  Workflow authoring, the replan transaction and the admission of a Task. The columns of a Dispatch
  that only a provider reads (gateway, sandbox, network, native access, extension inventory) are
  left out of the rows.
  The joins of the openings also require the member configuration and the pinned Workflow
  revision of a Task; foreign keys guarantee those rows and the model leaves them out.
\<close>

end
